(* ===== verification/Prelude.thy ===== *)
theory Prelude
  imports Main "HOL-Library.AList"
begin

section \<open>Prelude: error results, state with errors, ordered dictionaries\<close>

text \<open>
  What every component of the development shares.

  \<^item> A Python call that may raise is a value of a sum type, \<open>Inl\<close> the exception.
    \<open>bindE\<close> sequences two such calls, \<open>mapE\<close> and \<open>foldE\<close> are the \<open>for\<close> loops whose
    body may raise: the first exception ends the loop.
  \<^item> A Python call that may raise \<^emph>\<open>after\<close> it changed an object in place is a function
    of type \<open>('s, 'e, 'a) sem\<close>: it returns the state reached even when it raises.
    \<open>bindS\<close> sequences two of them.
  \<^item> A Python \<open>dict\<close> is an association list with distinct keys, in insertion order:
    reading is \<open>map_of\<close>, \<open>d[k] = v\<close> is \<open>AList.update\<close> (an existing key keeps its
    place, a new one goes to the end), \<open>del d[k]\<close> is \<open>AList.delete\<close>.

  The collections \<open>err_simps\<close> and \<open>sem_simps\<close> hold the computation rules of the two
  kinds of result, \<open>dict_simps\<close> those of dictionaries.
\<close>

named_theorems err_simps "computation rules of results that may be an exception"
named_theorems sem_simps "computation rules of stateful calls that may raise"
named_theorems dict_simps "reading a dictionary after an update"

subsection \<open>Results that may be an exception\<close>

definition bindE :: "'e + 'a \<Rightarrow> ('a \<Rightarrow> 'e + 'b) \<Rightarrow> 'e + 'b" where
  "bindE m f = (case m of Inl e \<Rightarrow> Inl e | Inr x \<Rightarrow> f x)"

lemma bindE_Inl [simp, err_simps]: "bindE (Inl e) f = Inl e"
  by (simp add: bindE_def)

lemma bindE_Inr [simp, err_simps]: "bindE (Inr x) f = f x"
  by (simp add: bindE_def)

lemma bindE_eq_Inr [err_simps]: "bindE m f = Inr y \<longleftrightarrow> (\<exists>x. m = Inr x \<and> f x = Inr y)"
  by (cases m) simp_all

lemma bindE_eq_Inl [err_simps]:
  "bindE m f = Inl e \<longleftrightarrow> m = Inl e \<or> (\<exists>x. m = Inr x \<and> f x = Inl e)"
  by (cases m) simp_all

lemma bindE_assoc: "bindE (bindE m f) g = bindE m (\<lambda>x. bindE (f x) g)"
  by (cases m) simp_all

lemma bindE_cong [fundef_cong]:
  "m = m' \<Longrightarrow> (\<And>x. m' = Inr x \<Longrightarrow> f x = g x) \<Longrightarrow> bindE m f = bindE m' g"
  by (cases m') simp_all

fun mapE :: "('a \<Rightarrow> 'e + 'b) \<Rightarrow> 'a list \<Rightarrow> 'e + 'b list" where
  "mapE f [] = Inr []"
| "mapE f (x # xs) = bindE (f x) (\<lambda>y. bindE (mapE f xs) (\<lambda>ys. Inr (y # ys)))"

fun filterE :: "('a \<Rightarrow> 'e + bool) \<Rightarrow> 'a list \<Rightarrow> 'e + 'a list" where
  "filterE f [] = Inr []"
| "filterE f (x # xs) =
     bindE (f x) (\<lambda>b. bindE (filterE f xs) (\<lambda>ys. Inr (if b then x # ys else ys)))"

fun concatE :: "('a \<Rightarrow> 'e + 'b list) \<Rightarrow> 'a list \<Rightarrow> 'e + 'b list" where
  "concatE f [] = Inr []"
| "concatE f (x # xs) = bindE (f x) (\<lambda>ys. bindE (concatE f xs) (\<lambda>zs. Inr (ys @ zs)))"

fun foldE :: "('a \<Rightarrow> 's \<Rightarrow> 'e + 's) \<Rightarrow> 'a list \<Rightarrow> 's \<Rightarrow> 'e + 's" where
  "foldE f [] s = Inr s"
| "foldE f (x # xs) s = bindE (f x s) (foldE f xs)"

lemma mapE_eq_Inr:
  "mapE f xs = Inr ys \<longleftrightarrow> length ys = length xs \<and> (\<forall>i < length xs. f (xs ! i) = Inr (ys ! i))"
proof (induction xs arbitrary: ys)
  case Nil
  then show ?case by auto
next
  case (Cons x xs)
  show ?case
    by (cases ys) (auto simp: bindE_eq_Inr Cons.IH nth_Cons split: nat.splits)
qed

lemma mapE_Inr_comp: "mapE (\<lambda>x. Inr (f x)) xs = Inr (map f xs)"
  by (induction xs) simp_all

lemma mapE_cong_Inr: "(\<And>x. x \<in> set xs \<Longrightarrow> f x = Inr (g x)) \<Longrightarrow> mapE f xs = Inr (map g xs)"
  by (induction xs) simp_all

lemma mapE_Inl_iff: "(\<exists>e. mapE f xs = Inl e) \<longleftrightarrow> (\<exists>x \<in> set xs. \<exists>e. f x = Inl e)"
proof (induction xs)
  case Nil
  then show ?case by simp
next
  case (Cons x xs)
  show ?case
  proof (cases "f x")
    case (Inl e)
    then show ?thesis by auto
  next
    case (Inr y)
    with Cons.IH show ?thesis by (auto simp: bindE_eq_Inl)
  qed
qed

lemma filterE_pure: "(\<And>x. x \<in> set xs \<Longrightarrow> f x = Inr (P x)) \<Longrightarrow> filterE f xs = Inr (filter P xs)"
  by (induction xs) simp_all

lemma concatE_pure: "(\<And>x. x \<in> set xs \<Longrightarrow> f x = Inr (g x)) \<Longrightarrow> concatE f xs = Inr (concat (map g xs))"
  by (induction xs) simp_all

lemma foldE_invariant:
  assumes "foldE f xs s = Inr s'"
    and "I s"
    and "\<And>x t t'. x \<in> set xs \<Longrightarrow> I t \<Longrightarrow> f x t = Inr t' \<Longrightarrow> I t'"
  shows "I s'"
  using assms
proof (induction xs arbitrary: s)
  case Nil
  then show ?case by simp
next
  case (Cons x xs)
  from Cons.prems(1) obtain t where t: "f x s = Inr t" "foldE f xs t = Inr s'"
    by (auto simp: bindE_eq_Inr)
  have "x \<in> set (x # xs)" by simp
  then have "I t" using Cons.prems(2) t(1) by (rule Cons.prems(3))
  with t(2) show ?case
  proof (rule Cons.IH)
    fix y u u'
    assume "y \<in> set xs" "I u" "f y u = Inr u'"
    then show "I u'" using Cons.prems(3) [of y u u'] by simp
  qed
qed

subsection \<open>Stateful calls that may raise\<close>

type_synonym ('s, 'e, 'a) sem = "'s \<Rightarrow> ('e + 'a) \<times> 's"

definition retS :: "'a \<Rightarrow> ('s, 'e, 'a) sem" where
  "retS x s = (Inr x, s)"

definition raiseS :: "'e \<Rightarrow> ('s, 'e, 'a) sem" where
  "raiseS e s = (Inl e, s)"

definition bindS :: "('s, 'e, 'a) sem \<Rightarrow> ('a \<Rightarrow> ('s, 'e, 'b) sem) \<Rightarrow> ('s, 'e, 'b) sem" where
  "bindS m f s = (case m s of (Inl e, t) \<Rightarrow> (Inl e, t) | (Inr x, t) \<Rightarrow> f x t)"

definition tryS :: "('s, 'e, 'a) sem \<Rightarrow> ('e \<Rightarrow> ('s, 'e, 'a) sem) \<Rightarrow> ('s, 'e, 'a) sem" where
  "tryS m h s = (case m s of (Inl e, t) \<Rightarrow> h e t | (Inr x, t) \<Rightarrow> (Inr x, t))"

definition liftS :: "'e + 'a \<Rightarrow> ('s, 'e, 'a) sem" where
  "liftS m s = (m, s)"

definition getS :: "('s \<Rightarrow> 'a) \<Rightarrow> ('s, 'e, 'a) sem" where
  "getS f s = (Inr (f s), s)"

definition modS :: "('s \<Rightarrow> 's) \<Rightarrow> ('s, 'e, unit) sem" where
  "modS f s = (Inr (), f s)"

definition whenS :: "bool \<Rightarrow> ('s, 'e, unit) sem \<Rightarrow> ('s, 'e, unit) sem" where
  "whenS b m = (if b then m else retS ())"

fun forS :: "('a \<Rightarrow> ('s, 'e, unit) sem) \<Rightarrow> 'a list \<Rightarrow> ('s, 'e, unit) sem" where
  "forS f [] = retS ()"
| "forS f (x # xs) = bindS (f x) (\<lambda>_. forS f xs)"

lemma retS_run [simp, sem_simps]: "retS x s = (Inr x, s)"
  by (simp add: retS_def)

lemma raiseS_run [simp, sem_simps]: "raiseS e s = (Inl e, s)"
  by (simp add: raiseS_def)

lemma liftS_run [simp, sem_simps]: "liftS m s = (m, s)"
  by (simp add: liftS_def)

lemma getS_run [simp, sem_simps]: "getS f s = (Inr (f s), s)"
  by (simp add: getS_def)

lemma modS_run [simp, sem_simps]: "modS f s = (Inr (), f s)"
  by (simp add: modS_def)

lemma whenS_run [simp, sem_simps]: "whenS b m s = (if b then m s else (Inr (), s))"
  by (simp add: whenS_def)

lemma bindS_run [sem_simps]:
  "bindS m f s = (case m s of (Inl e, t) \<Rightarrow> (Inl e, t) | (Inr x, t) \<Rightarrow> f x t)"
  by (simp add: bindS_def)

lemma bindS_Inr: "m s = (Inr x, t) \<Longrightarrow> bindS m f s = f x t"
  by (simp add: bindS_def)

lemma bindS_Inl: "m s = (Inl e, t) \<Longrightarrow> bindS m f s = (Inl e, t)"
  by (simp add: bindS_def)

lemma bindS_eq_Inr:
  "bindS m f s = (Inr y, s') \<longleftrightarrow> (\<exists>x t. m s = (Inr x, t) \<and> f x t = (Inr y, s'))"
  by (auto simp: bindS_def split: prod.splits sum.splits)

lemma bindS_eq_Inl:
  "bindS m f s = (Inl e, s') \<longleftrightarrow> m s = (Inl e, s') \<or> (\<exists>x t. m s = (Inr x, t) \<and> f x t = (Inl e, s'))"
  by (auto simp: bindS_def split: prod.splits sum.splits)

text \<open>A property of the state that each part of a sequence keeps is kept by the sequence.\<close>

lemma bindS_assoc: "bindS (bindS m f) g = bindS m (\<lambda>x. bindS (f x) g)"
  by (rule ext) (simp add: bindS_def split: sum.splits prod.splits)

definition keepsS :: "('s \<Rightarrow> 's \<Rightarrow> bool) \<Rightarrow> ('s, 'e, 'a) sem \<Rightarrow> bool" where
  "keepsS R m \<longleftrightarrow> (\<forall>s. R s (snd (m s)))"

lemma keepsSD: "keepsS R m \<Longrightarrow> m s = (r, t) \<Longrightarrow> R s t"
  unfolding keepsS_def by (metis snd_conv)

lemma keepsS_bindS:
  assumes "transp R" and "keepsS R m" and "\<And>x. keepsS R (f x)"
  shows "keepsS R (bindS m f)"
  unfolding keepsS_def
proof
  fix s
  obtain r t where m: "m s = (r, t)" by (cases "m s")
  have st: "R s t" using assms(2) m by (rule keepsSD)
  show "R s (snd (bindS m f s))"
  proof (cases r)
    case (Inl e)
    with m st show ?thesis by (simp add: bindS_def)
  next
    case (Inr x)
    have "R t (snd (f x t))" using assms(3) by (simp add: keepsS_def)
    with assms(1) st have "R s (snd (f x t))" by (rule transpD)
    with m Inr show ?thesis by (simp add: bindS_def)
  qed
qed

lemma keepsS_forS:
  assumes "reflp R" and "transp R" and "\<And>x. x \<in> set xs \<Longrightarrow> keepsS R (f x)"
  shows "keepsS R (forS f xs)"
  using assms(3)
proof (induction xs)
  case Nil
  then show ?case using assms(1) by (simp add: keepsS_def reflpD)
next
  case (Cons x xs)
  then show ?case by (auto intro!: keepsS_bindS assms(2))
qed

subsection \<open>Dictionaries\<close>

type_synonym ('k, 'v) dict = "('k \<times> 'v) list"

abbreviation dict_set :: "'k \<Rightarrow> 'v \<Rightarrow> ('k, 'v) dict \<Rightarrow> ('k, 'v) dict" where
  "dict_set \<equiv> AList.update"

abbreviation dict_del :: "'k \<Rightarrow> ('k, 'v) dict \<Rightarrow> ('k, 'v) dict" where
  "dict_del \<equiv> AList.delete"

abbreviation dict_wf :: "('k, 'v) dict \<Rightarrow> bool" where
  "dict_wf d \<equiv> distinct (map fst d)"

definition dict_has :: "('k, 'v) dict \<Rightarrow> 'k \<Rightarrow> bool" where
  "dict_has d k \<longleftrightarrow> map_of d k \<noteq> None"

lemma dict_has_iff [simp, dict_simps]: "dict_has d k \<longleftrightarrow> k \<in> fst ` set d"
  by (simp add: dict_has_def map_of_eq_None_iff)

lemma map_of_dict_set [simp, dict_simps]: "map_of (dict_set k v d) = (map_of d)(k \<mapsto> v)"
  by (rule update_conv')

lemma map_of_dict_del [simp, dict_simps]: "map_of (dict_del k d) = (map_of d)(k := None)"
  by (rule delete_conv')

lemma dict_wf_set [simp, dict_simps]: "dict_wf d \<Longrightarrow> dict_wf (dict_set k v d)"
  by (rule distinct_update)

lemma dict_wf_del [simp, dict_simps]: "dict_wf d \<Longrightarrow> dict_wf (dict_del k d)"
  by (rule distinct_delete)

lemma dict_set_same: "map_of d k = Some v \<Longrightarrow> dict_set k v d = d"
proof (induction d)
  case Nil
  then show ?case by simp
next
  case (Cons p d)
  then show ?case by (cases p) (auto split: if_splits)
qed

lemma dict_del_absent: "map_of d k = None \<Longrightarrow> dict_del k d = d"
  by (simp add: map_of_eq_None_iff delete_id)

lemma set_dict_set: "set (dict_set k v d) \<subseteq> insert (k, v) (set d)"
  by (induction d) auto

lemma set_dict_del: "set (dict_del k d) \<subseteq> set d"
  by (auto simp: AList.delete_eq)

lemma dict_set_set: "dict_set k v (dict_set k w d) = dict_set k v d"
  by (induction d) auto

subsection \<open>Lists\<close>

text \<open>The first element that satisfies a test, Python's \<open>for ...: if ...: return\<close>.\<close>

lemma find_Some_iff2: "List.find P xs = Some x \<Longrightarrow> x \<in> set xs \<and> P x"
  by (induction xs) (auto split: if_splits)

lemma find_None_iff2: "List.find P xs = None \<longleftrightarrow> (\<forall>x \<in> set xs. \<not> P x)"
  by (induction xs) auto

lemma find_append_None: "List.find P xs = None \<Longrightarrow> List.find P (xs @ ys) = List.find P ys"
  by (induction xs) (auto split: if_splits)

lemma filter_eq_self: "(\<And>x. x \<in> set xs \<Longrightarrow> P x) \<Longrightarrow> filter P xs = xs"
  by (induction xs) auto

lemma distinct_map_filter2: "distinct (map f xs) \<Longrightarrow> distinct (map f (filter P xs))"
  by (induction xs) auto

end
