(* ===== verification/Sol_Exceptions.thy ===== *)
theory Sol_Exceptions
  imports Prelude
begin

section \<open>Exceptions of the SOL APIs (sol\_refactored/common/exceptions.py)\<close>

text \<open>
  The exceptions the modelled code raises: one constructor per class of
  \<^verbatim>\<open>exceptions.py\<close>, with the keyword arguments its message uses. \<open>status\<close>, \<open>title\<close> and
  \<open>detail\<close> are the attributes \<^verbatim>\<open>SolException.__init__\<close> sets and
  \<open>make_problem_details\<close> is the body of the HTTP error response and of
  \<^verbatim>\<open>VnfLcmOpOcc.error\<close>. An exception that is not a \<^verbatim>\<open>SolException\<close> is \<open>PyExc\<close> with its
  class and \<open>str(ex)\<close>; the two \<^verbatim>\<open>DbSync...\<close> and the two \<^verbatim>\<open>PrometheusPlugin...\<close> classes
  derive from \<^verbatim>\<open>Exception\<close> directly.
\<close>

datatype (plugins only: code) sol_exception =
    SolException string
  | SolHttpResponse int string
  | SolHttpError422 string
  | MethodNotAllowed string
  | SolValidationError string
  | VnfdIdNotEnabled string
  | VnfInstanceNotFound string
  | NotSupportUpgradeType string
  | VnfInstanceIsInstantiated string
  | VnfInstanceIsNotInstantiated string
  | LccnSubscriptionNotFound string
  | VnfLcmOpOccNotFound string
  | VnfdIdNotFound string
  | FlavourIdNotFound string
  | NoVimConnectionInfo
  | MgmtDriverExecutionFailed string
  | TestNotificationFailed
  | VimNotFound string
  | OtherOperationInProgress string
  | InvalidAttributeFilter string
  | InvalidAttributeSelector
  | LocalNfvoGrantFailed string
  | LcmOpOccNotFailedTemp string
  | GrantRequestOrGrantNotFound string
  | RollbackNotSupported string
  | InvalidScaleAspectId string
  | InvalidScaleNumberOfSteps int
  | DeltaMissingInVnfd string
  | ConductorProcessingError
  | InvalidPagingMarker string
  | PMJobNotExist
  | PMThresholdNotExist string
  | ResourcesOtherOperationInProgress string
  | InvalidAPIVersionString string
  | APIVersionMissing
  | APIVersionNotSupported string
  | InvalidVnfdFormat
  | StackOperationFailed string string
  | BaseHOTNotDefined
  | UserdataMissing
  | UserdataExecutionFailed string
  | UserDataClassNotImplemented
  | InvalidSubscription string
  | ResponseTooBig int
  | UnexpectedParentResourceDefinition
  | SshIpNotFoundException
  | CoordinateVNFExecutionFailed string
  | AlarmNotFound string
  | AckStateInvalid
  | FmSubscriptionNotFound string
  | PMReportNotExist
  | PMJobInvalidRequest
  | PMThresholdInvalidRequest
  | PrometheusPluginNotEnabled string
  | PrometheusSettingFailed
  | CnfDefinitionNotFound string
  | NamespaceNotUniform
  | K8sOperationFailed string string
  | K8sOperaitionTimeout
  | K8sResourceNotFound string
  | K8sInvalidManifestFound
  | HelmOperationFailed string
  | HelmParameterNotFound string
  | ServerNotificationNotEnabled
  | NotAllowedContentType string
  | NotSupportedContentType string
  | MalformedRequestBody
  | OIDCAuthFailed string
  | TerraformOperationFailed string
  | MonitoringPluginClassError string

datatype py_class = KeyError | TypeError | AttributeError | IndexError | ValueError
  | NotImplementedError | UnboundLocalError | DBDuplicateEntry | OSError | SSHException | ClientException
  | K8sApiException | ZeroDivisionError | TackerException

datatype exn = Sol sol_exception | DbSyncNoDiff string | DbSyncFailed string
  | PrometheusPluginError string | PrometheusPluginSkipped
  | PyExc py_class string

type_synonym 'a pyres = "exn + 'a"

text \<open>Decimal printing, Python's \<open>%d\<close>.\<close>

definition digit_char :: "nat \<Rightarrow> char" where
  "digit_char d = char_of (48 + d)"

fun show_nat :: "nat \<Rightarrow> string" where
  "show_nat n = (if n < 10 then [digit_char n] else show_nat (n div 10) @ [digit_char (n mod 10)])"

declare show_nat.simps [simp del]

definition show_int :: "int \<Rightarrow> string" where
  "show_int i = (if i < 0 then ''-'' @ show_nat (nat (- i)) else show_nat (nat i))"

primrec status :: "sol_exception \<Rightarrow> int" where
  "status (SolException d) = 500"
| "status (SolHttpResponse st d) = st"
| "status (SolHttpError422 d) = 422"
| "status (MethodNotAllowed m) = 405"
| "status (SolValidationError d) = 400"
| "status (VnfdIdNotEnabled v) = 422"
| "status (VnfInstanceNotFound i) = 404"
| "status (NotSupportUpgradeType u) = 400"
| "status (VnfInstanceIsInstantiated i) = 409"
| "status (VnfInstanceIsNotInstantiated i) = 409"
| "status (LccnSubscriptionNotFound s) = 404"
| "status (VnfLcmOpOccNotFound l) = 404"
| "status (VnfdIdNotFound v) = 422"
| "status (FlavourIdNotFound f) = 400"
| "status NoVimConnectionInfo = 422"
| "status (MgmtDriverExecutionFailed d) = 422"
| "status TestNotificationFailed = 422"
| "status (VimNotFound v) = 404"
| "status (OtherOperationInProgress i) = 409"
| "status (InvalidAttributeFilter d) = 400"
| "status InvalidAttributeSelector = 400"
| "status (LocalNfvoGrantFailed d) = 403"
| "status (LcmOpOccNotFailedTemp l) = 409"
| "status (GrantRequestOrGrantNotFound l) = 404"
| "status (RollbackNotSupported x) = 422"
| "status (InvalidScaleAspectId a) = 400"
| "status (InvalidScaleNumberOfSteps n) = 400"
| "status (DeltaMissingInVnfd d) = 400"
| "status ConductorProcessingError = 500"
| "status (InvalidPagingMarker m) = 400"
| "status PMJobNotExist = 404"
| "status (PMThresholdNotExist t) = 404"
| "status (ResourcesOtherOperationInProgress i) = 409"
| "status (InvalidAPIVersionString x1) = 400"
| "status APIVersionMissing = 400"
| "status (APIVersionNotSupported x1) = 406"
| "status InvalidVnfdFormat = 400"
| "status (StackOperationFailed t d) = 422"
| "status BaseHOTNotDefined = 400"
| "status UserdataMissing = 400"
| "status (UserdataExecutionFailed d) = 422"
| "status UserDataClassNotImplemented = 400"
| "status (InvalidSubscription d) = 400"
| "status (ResponseTooBig x1) = 400"
| "status UnexpectedParentResourceDefinition = 422"
| "status SshIpNotFoundException = 404"
| "status (CoordinateVNFExecutionFailed d) = 422"
| "status (AlarmNotFound x1) = 404"
| "status AckStateInvalid = 409"
| "status (FmSubscriptionNotFound x1) = 404"
| "status PMReportNotExist = 404"
| "status PMJobInvalidRequest = 400"
| "status PMThresholdInvalidRequest = 400"
| "status (PrometheusPluginNotEnabled x1) = 404"
| "status PrometheusSettingFailed = 503"
| "status (CnfDefinitionNotFound d) = 400"
| "status NamespaceNotUniform = 400"
| "status (K8sOperationFailed t d) = 422"
| "status K8sOperaitionTimeout = 422"
| "status (K8sResourceNotFound n) = 404"
| "status K8sInvalidManifestFound = 400"
| "status (HelmOperationFailed d) = 422"
| "status (HelmParameterNotFound v) = 400"
| "status ServerNotificationNotEnabled = 404"
| "status (NotAllowedContentType h) = 406"
| "status (NotSupportedContentType h) = 415"
| "status MalformedRequestBody = 400"
| "status (OIDCAuthFailed d) = 400"
| "status (TerraformOperationFailed d) = 422"
| "status (MonitoringPluginClassError c) = 503"

text \<open>The titles of the \<^verbatim>\<open>SolHttpError...\<close> base classes, by status.\<close>

definition http_title :: "int \<Rightarrow> string option" where
  "http_title s =
     (if s = 400 then Some ''Bad Request''
      else if s = 403 then Some ''Forbidden''
      else if s = 404 then Some ''Not Found''
      else if s = 405 then Some ''Method Not Allowed''
      else if s = 406 then Some ''Not Acceptable''
      else if s = 409 then Some ''Conflict''
      else if s = 415 then Some ''Unsupported Media Type''
      else if s = 422 then Some ''Unprocessable Entity''
      else if s = 503 then Some ''Service Unavailable''
      else None)"

definition title :: "sol_exception \<Rightarrow> string option" where
  "title ex = (case ex of
       MgmtDriverExecutionFailed d \<Rightarrow> Some ''Mgmt driver execution failed''
     | LocalNfvoGrantFailed d \<Rightarrow> Some ''Grant failed''
     | ConductorProcessingError \<Rightarrow> Some ''Internal Server Error''
     | StackOperationFailed t d \<Rightarrow> Some t
     | UserdataExecutionFailed d \<Rightarrow> Some ''Userdata execution failed''
     | CoordinateVNFExecutionFailed d \<Rightarrow> Some ''Coordinate VNF execution failed''
     | ResponseTooBig x1 \<Rightarrow> Some ''Response too big''
     | K8sOperationFailed t d \<Rightarrow> Some t
     | HelmOperationFailed d \<Rightarrow> Some ''Helm operation failed''
     | TerraformOperationFailed d \<Rightarrow> Some ''Terraform operation failed''
     | SolHttpResponse st d \<Rightarrow> None
     | _ \<Rightarrow> http_title (status ex))"

primrec detail :: "sol_exception \<Rightarrow> string" where
  "detail (SolException d) = d"
| "detail (SolHttpResponse st d) = d"
| "detail (SolHttpError422 d) = d"
| "detail (MethodNotAllowed m) = ''Method '' @ m @ '' is not supported.''"
| "detail (SolValidationError d) = d"
| "detail (VnfdIdNotEnabled v) = ''VnfId '' @ v @ '' not ENABLED.''"
| "detail (VnfInstanceNotFound i) = ''VnfInstance '' @ i @ '' not found.''"
| "detail (NotSupportUpgradeType u) = ''not support upgrade_type '' @ u"
| "detail (VnfInstanceIsInstantiated i) = ''VnfInstance '' @ i @ '' is instantiated.''"
| "detail (VnfInstanceIsNotInstantiated i) = ''VnfInstance '' @ i @ '' isn'' @ [CHR 0x27] @ ''t instantiated.''"
| "detail (LccnSubscriptionNotFound s) = ''LccnSubscription '' @ s @ '' not found.''"
| "detail (VnfLcmOpOccNotFound l) = ''VnfLcmOpOcc '' @ l @ '' not found.''"
| "detail (VnfdIdNotFound v) = ''VnfPackage of vnfdId '' @ v @ '' is not found or not operational.''"
| "detail (FlavourIdNotFound f) = ''FlavourId '' @ f @ '' not found in the vnfd.''"
| "detail NoVimConnectionInfo = ''No VimConnectionInfo set to the VnfInstance.''"
| "detail (MgmtDriverExecutionFailed d) = d"
| "detail TestNotificationFailed = ''Can'' @ [CHR 0x27] @ ''t get from notification callback Uri.''"
| "detail (VimNotFound v) = ''VIM '' @ v @ '' not found.''"
| "detail (OtherOperationInProgress i) = ''Other LCM operation of vnfInstance '' @ i @ '' is in progress.''"
| "detail (InvalidAttributeFilter d) = d"
| "detail InvalidAttributeSelector = ''Attribute selector expression is invalid.''"
| "detail (LocalNfvoGrantFailed d) = d"
| "detail (LcmOpOccNotFailedTemp l) = ''LCM operation '' @ l @ '' not FAILED_TEMP.''"
| "detail (GrantRequestOrGrantNotFound l) = ''GrantRequest or Grant for LCM operation '' @ l @ '' not found.''"
| "detail (RollbackNotSupported x) = ''Rollback of '' @ x @ '' is not supported.''"
| "detail (InvalidScaleAspectId a) = ''Invalid aspectId '' @ [CHR 0x27] @ a @ [CHR 0x27] @ ''.''"
| "detail (InvalidScaleNumberOfSteps n) = ''Invalid numberOfSteps '' @ [CHR 0x27] @ show_int n @ [CHR 0x27] @ ''.''"
| "detail (DeltaMissingInVnfd d) = ''Delta '' @ [CHR 0x27] @ d @ [CHR 0x27] @ '' is not defined in VduScalingAspectDeltas.''"
| "detail ConductorProcessingError = ''Failure due to conductor processing error.''"
| "detail (InvalidPagingMarker m) = ''Paging marker value '' @ m @ '' is invalid.''"
| "detail PMJobNotExist = ''The specified PM job does not exist.''"
| "detail (PMThresholdNotExist t) = ''The specified PM Threshold '' @ t @ '' does not exist.''"
| "detail (ResourcesOtherOperationInProgress i) = ''Other LCM operation of resources '' @ i @ '' is in progress.''"
| "detail (InvalidAPIVersionString x1) = ''Version String '' @ x1 @ '' is of invalid format. Must be of format Major.Minor.Patch.''"
| "detail APIVersionMissing = [CHR 0x27] @ ''Version'' @ [CHR 0x27] @ '' HTTP header missing.''"
| "detail (APIVersionNotSupported x1) = ''Version '' @ x1 @ '' not supported.''"
| "detail InvalidVnfdFormat = ''Vnfd is unexpected format.''"
| "detail (StackOperationFailed t d) = d"
| "detail BaseHOTNotDefined = ''BaseHOT is not defined.''"
| "detail UserdataMissing = [CHR 0x27] @ ''lcm-operation-user-data'' @ [CHR 0x27] @ '' or '' @ [CHR 0x27] @ ''lcm-operation-user-data-class'' @ [CHR 0x27] @ '' missing.''"
| "detail (UserdataExecutionFailed d) = d"
| "detail UserDataClassNotImplemented = ''Userdata class not implemented.''"
| "detail (InvalidSubscription d) = d"
| "detail (ResponseTooBig x1) = ''Content length of the response is larger than '' @ show_int x1 @ '' bytes.''"
| "detail UnexpectedParentResourceDefinition = ''Parent resource is necessary for VDU definition.''"
| "detail SshIpNotFoundException = ''Ssh ip not found.''"
| "detail (CoordinateVNFExecutionFailed d) = d"
| "detail (AlarmNotFound x1) = ''Alarm '' @ x1 @ '' not found.''"
| "detail AckStateInvalid = ''The ackState of alarm cannot specify the same value.''"
| "detail (FmSubscriptionNotFound x1) = ''FmSubscription '' @ x1 @ '' not found.''"
| "detail PMReportNotExist = ''The specified Performance Report does not exist.''"
| "detail PMJobInvalidRequest = ''Invalid request''"
| "detail PMThresholdInvalidRequest = ''Invalid request''"
| "detail (PrometheusPluginNotEnabled x1) = x1 @ '' API is not enabled.''"
| "detail PrometheusSettingFailed = ''Setting PM job on External Monitoring Tool failed.''"
| "detail (CnfDefinitionNotFound d) = [CHR 0x27] @ d @ [CHR 0x27] @ '' do not exist in vnf artifact files''"
| "detail NamespaceNotUniform = ''There are multiple namespaces in the manifest file. Only onenamespace can be used in one VNF.''"
| "detail (K8sOperationFailed t d) = d"
| "detail K8sOperaitionTimeout = ''Kubernetes operation did not complete within the timeout period.''"
| "detail (K8sResourceNotFound n) = ''Kubernetes resource '' @ n @ '' is not found.''"
| "detail K8sInvalidManifestFound = ''Invalid manifest found.''"
| "detail (HelmOperationFailed d) = d"
| "detail (HelmParameterNotFound v) = ''Helm parameter for scale vdu '' @ v @ '' is not found.''"
| "detail ServerNotificationNotEnabled = ''ServerNotification API is not enabled.''"
| "detail (NotAllowedContentType h) = ''Content type '' @ [CHR 0x27] @ h @ [CHR 0x27] @ '' specified in '' @ [CHR 0x27] @ ''Accept'' @ [CHR 0x27] @
     '' header is not allowed.''"
| "detail (NotSupportedContentType h) = ''Content type '' @ [CHR 0x27] @ h @ [CHR 0x27] @ '' specified in '' @ [CHR 0x27] @ ''Content-Type'' @ [CHR 0x27] @
     '' header is not allowed.''"
| "detail MalformedRequestBody = ''Malformed request body.''"
| "detail (OIDCAuthFailed d) = ''OIDC authentication and authorization failed. Detail: '' @ d"
| "detail (TerraformOperationFailed d) = d"
| "detail (MonitoringPluginClassError c) = c @ '' is not a subclass of MonitoringPlugin.''"

record problem_details =
  pd_status :: int
  pd_detail :: string
  pd_title :: "string option"

text \<open>\<open>type\<close> and \<open>instance\<close> are set by no caller in the modelled code, so they stay absent.\<close>

definition make_problem_details :: "sol_exception \<Rightarrow> problem_details" where
  "make_problem_details ex = \<lparr>pd_status = status ex, pd_detail = detail ex, pd_title = title ex\<rparr>"

lemma status_known:
  "status ex \<in> {400, 403, 404, 405, 406, 409, 415, 422, 500, 503} \<or> (\<exists>s d. ex = SolHttpResponse s d)"
  by (cases ex) simp_all

text \<open>Untitled are the internal errors (status 500), \<^verbatim>\<open>ConductorProcessingError\<close> apart, and the errors that pass on the
  answer of another service.\<close>

lemma title_None_iff: "title ex = None \<longleftrightarrow> (\<exists>d. ex = SolException d) \<or> (\<exists>s d. ex = SolHttpResponse s d)"
  by (cases ex) (simp_all add: title_def http_title_def)

end
