(* ===== verification/Json.thy ===== *)
theory Json
  imports Sol_Exceptions
begin

section \<open>JSON values and the merge patch of RFC 7396\<close>

text \<open>
  The data of request bodies, of \<^verbatim>\<open>KeyValuePairs\<close> attributes and of the parsed VNFD files.
  An object is an ordered dictionary, as Python's \<open>dict\<close> is. The readers below raise what
  Python raises: \<open>jget\<close> is \<open>x.get(k, default)\<close> (\<open>AttributeError\<close> unless \<open>x\<close> is a dict),
  \<open>jitem\<close> is \<open>x[k]\<close> (\<open>KeyError\<close> on a missing key, \<open>TypeError\<close> unless \<open>x\<close> is a dict),
  \<open>jlist\<close> iterates over a list.

  \<open>json_merge_patch\<close> is \<^verbatim>\<open>vnf_instance_utils.json_merge_patch\<close>. Its theorems: which
  value every key has after a patch, that a patch applied twice is the patch applied once,
  and that well-formedness and the absence of nulls are kept.
\<close>

datatype json = JNull | JBool bool | JNum int | JStr string | JArr "json list"
  | JObj "(string \<times> json) list"

type_synonym jdict = "(string \<times> json) list"

fun py_type_name :: "json \<Rightarrow> string" where
  "py_type_name JNull = ''NoneType''"
| "py_type_name (JBool b) = ''bool''"
| "py_type_name (JNum n) = ''int''"
| "py_type_name (JStr s) = ''str''"
| "py_type_name (JArr xs) = ''list''"
| "py_type_name (JObj d) = ''dict''"

fun py_truthy :: "json \<Rightarrow> bool" where
  "py_truthy JNull = False"
| "py_truthy (JBool b) = b"
| "py_truthy (JNum n) = (n \<noteq> 0)"
| "py_truthy (JStr s) = (s \<noteq> [])"
| "py_truthy (JArr xs) = (xs \<noteq> [])"
| "py_truthy (JObj d) = (d \<noteq> [])"

definition quoted :: "string \<Rightarrow> string" where
  "quoted s = [CHR 0x27] @ s @ [CHR 0x27]"

definition key_error :: "string \<Rightarrow> exn" where
  "key_error k = PyExc KeyError (quoted k)"

definition attr_error :: "json \<Rightarrow> string \<Rightarrow> exn" where
  "attr_error j a = PyExc AttributeError
     (quoted (py_type_name j) @ '' object has no attribute '' @ quoted a)"

definition type_error :: "json \<Rightarrow> exn" where
  "type_error j = PyExc TypeError (quoted (py_type_name j))"

fun jget :: "json \<Rightarrow> string \<Rightarrow> json \<Rightarrow> json pyres" where
  "jget (JObj d) k dflt = Inr (case map_of d k of None \<Rightarrow> dflt | Some v \<Rightarrow> v)"
| "jget j k dflt = Inl (attr_error j ''get'')"

fun jitem :: "json \<Rightarrow> string \<Rightarrow> json pyres" where
  "jitem (JObj d) k = (case map_of d k of None \<Rightarrow> Inl (key_error k) | Some v \<Rightarrow> Inr v)"
| "jitem j k = Inl (type_error j)"

definition dict_item :: "(string, 'a) dict \<Rightarrow> string \<Rightarrow> 'a pyres" where
  "dict_item d k = (case map_of d k of None \<Rightarrow> Inl (key_error k) | Some v \<Rightarrow> Inr v)"

fun jlist :: "json \<Rightarrow> json list pyres" where
  "jlist (JArr xs) = Inr xs"
| "jlist (JObj d) = Inr (map (JStr \<circ> fst) d)"
| "jlist (JStr s) = Inr (map (\<lambda>c. JStr [c]) s)"
| "jlist j = Inl (type_error j)"

fun jitems :: "json \<Rightarrow> (string \<times> json) list pyres" where
  "jitems (JObj d) = Inr d"
| "jitems j = Inl (attr_error j ''items'')"

text \<open>\<open>k in x\<close>: a key of a dict, an element of a list, a substring of a string.\<close>

fun substring_of :: "string \<Rightarrow> string \<Rightarrow> bool" where
  "substring_of p [] = (p = [])"
| "substring_of p (c # s) = (take (length p) (c # s) = p \<or> substring_of p s)"

fun jcontains :: "json \<Rightarrow> string \<Rightarrow> bool pyres" where
  "jcontains (JObj d) k = Inr (dict_has d k)"
| "jcontains (JArr xs) k = Inr (JStr k \<in> set xs)"
| "jcontains (JStr s) k = Inr (substring_of k s)"
| "jcontains j k = Inl (type_error j)"

text \<open>A chain of \<open>.get(k, {})\<close> calls.\<close>

fun jpath :: "json \<Rightarrow> string list \<Rightarrow> json pyres" where
  "jpath j [] = Inr j"
| "jpath j (k # ks) = bindE (jget j k (JObj [])) (\<lambda>v. jpath v ks)"

subsection \<open>The merge patch\<close>

definition obj_items :: "json \<Rightarrow> jdict" where
  "obj_items t = (case t of JObj d \<Rightarrow> d | _ \<Rightarrow> [])"

definition or_null :: "json option \<Rightarrow> json" where
  "or_null x = (case x of None \<Rightarrow> JNull | Some v \<Rightarrow> v)"

fun json_merge_patch :: "json \<Rightarrow> json \<Rightarrow> json"
  and merge_items :: "jdict \<Rightarrow> jdict \<Rightarrow> jdict" where
  "json_merge_patch target patch =
     (case patch of JObj ps \<Rightarrow> JObj (merge_items (obj_items target) ps) | _ \<Rightarrow> patch)"
| "merge_items target [] = target"
| "merge_items target ((key, value) # ps) =
     merge_items
       (if value = JNull then dict_del key target
        else dict_set key (json_merge_patch (or_null (map_of target key)) value) target) ps"

declare json_merge_patch.simps [simp del]

lemma json_merge_patch_obj [simp]:
  "json_merge_patch target (JObj ps) = JObj (merge_items (obj_items target) ps)"
  by (simp add: json_merge_patch.simps)

lemma json_merge_patch_atom: "\<forall>ps. p \<noteq> JObj ps \<Longrightarrow> json_merge_patch t p = p"
  by (cases p) (simp_all add: json_merge_patch.simps)

text \<open>Distinct keys, in every object inside the value.\<close>

fun json_wf :: "json \<Rightarrow> bool" where
  "json_wf (JArr xs) = (\<forall>x \<in> set xs. json_wf x)"
| "json_wf (JObj d) = (dict_wf d \<and> (\<forall>p \<in> set d. json_wf (snd p)))"
| "json_wf _ = True"

text \<open>No object member is null, at any depth of objects (RFC 7396 leaves arrays alone).\<close>

fun null_free :: "json \<Rightarrow> bool" where
  "null_free (JObj d) = (\<forall>p \<in> set d. snd p \<noteq> JNull \<and> null_free (snd p))"
| "null_free _ = True"

definition dict_null_free :: "jdict \<Rightarrow> bool" where
  "dict_null_free d = null_free (JObj d)"

lemma obj_items_JObj [simp]: "obj_items (JObj d) = d"
  by (simp add: obj_items_def)

lemma or_null_simps [simp]: "or_null None = JNull" "or_null (Some v) = v"
  by (simp_all add: or_null_def)

text \<open>What one entry of the patch does to the value of a key.\<close>

definition patch_entry :: "json option \<Rightarrow> json option \<Rightarrow> json option" where
  "patch_entry old p = (case p of
       None \<Rightarrow> old
     | Some v \<Rightarrow> if v = JNull then None else Some (json_merge_patch (or_null old) v))"

lemma merge_items_absent: "k \<notin> fst ` set ps \<Longrightarrow> map_of (merge_items d ps) k = map_of d k"
proof (induction ps arbitrary: d)
  case Nil
  then show ?case by simp
next
  case (Cons p ps)
  then show ?case by (cases p) simp
qed

lemma merge_items_lookup:
  "dict_wf ps \<Longrightarrow> map_of (merge_items d ps) k = patch_entry (map_of d k) (map_of ps k)"
proof (induction ps arbitrary: d)
  case Nil
  then show ?case by (simp add: patch_entry_def)
next
  case (Cons p ps)
  obtain key v where p: "p = (key, v)" by (cases p)
  show ?case
  proof (cases "k = key")
    case True
    with Cons.prems p have "k \<notin> fst ` set ps" by auto
    with True p show ?thesis
      by (simp add: merge_items_absent patch_entry_def)
  next
    case False
    with Cons p show ?thesis by simp
  qed
qed

lemma merge_items_wf: "dict_wf d \<Longrightarrow> dict_wf (merge_items d ps)"
proof (induction ps arbitrary: d)
  case Nil
  then show ?case by simp
next
  case (Cons p ps)
  then show ?case by (cases p) simp
qed

text \<open>A dictionary that already is what the patch asks for is left as it is, order included.\<close>

lemma merge_items_fixpoint:
  assumes "\<And>k v. (k, v) \<in> set ps \<Longrightarrow>
      (if v = JNull then map_of d k = None
       else \<exists>x. map_of d k = Some x \<and> json_merge_patch x v = x)"
  shows "merge_items d ps = d"
  using assms
proof (induction ps)
  case Nil
  then show ?case by simp
next
  case (Cons p ps)
  obtain k v where p: "p = (k, v)" by (cases p)
  have "(k, v) \<in> set (p # ps)" using p by simp
  then have kv: "if v = JNull then map_of d k = None
      else \<exists>x. map_of d k = Some x \<and> json_merge_patch x v = x"
    by (rule Cons.prems)
  have step: "merge_items d ((k, v) # ps) = merge_items d ps"
    using kv by (auto simp: dict_del_absent dict_set_same split: if_splits)
  have "merge_items d ps = d"
    by (rule Cons.IH) (rule Cons.prems, simp)
  with step p show ?case by simp
qed

lemma merge_patch_idem:
  "json_wf p \<Longrightarrow> json_merge_patch (json_merge_patch t p) p = json_merge_patch t p"
proof (induction p arbitrary: t rule: json.induct)
  case (JObj ps)
  define d where "d = obj_items t"
  have wf: "dict_wf ps" using JObj.prems by simp
  have "merge_items (merge_items d ps) ps = merge_items d ps"
  proof (rule merge_items_fixpoint)
    fix k v
    assume kv: "(k, v) \<in> set ps"
    have look: "map_of (merge_items d ps) k = patch_entry (map_of d k) (Some v)"
      using wf kv by (simp add: merge_items_lookup)
    have "json_wf v" using JObj.prems kv by auto
    then have "json_merge_patch (json_merge_patch x v) v = json_merge_patch x v" for x
      using JObj.IH [OF kv, of v] by (simp add: snds.simps)
    with look show "if v = JNull then map_of (merge_items d ps) k = None
        else \<exists>x. map_of (merge_items d ps) k = Some x \<and> json_merge_patch x v = x"
      by (simp add: patch_entry_def)
  qed
  then show ?case by (simp add: d_def)
qed (simp_all add: json_merge_patch_atom)

lemma merge_patch_not_null: "p \<noteq> JNull \<Longrightarrow> json_merge_patch t p \<noteq> JNull"
  by (cases p) (simp_all add: json_merge_patch.simps)

lemma null_free_dict_set:
  "null_free (JObj d) \<Longrightarrow> null_free v \<Longrightarrow> v \<noteq> JNull \<Longrightarrow> null_free (JObj (dict_set k v d))"
  using set_dict_set [of k v d] by auto

lemma null_free_dict_del: "null_free (JObj d) \<Longrightarrow> null_free (JObj (dict_del k d))"
  using set_dict_del [of k d] by auto

lemma null_free_or_null: "null_free (JObj d) \<Longrightarrow> null_free (or_null (map_of d k))"
  by (cases "map_of d k") (auto dest!: map_of_SomeD bspec)

lemma null_free_merge_items:
  assumes "\<And>k v t. (k, v) \<in> set ps \<Longrightarrow> null_free t \<Longrightarrow> null_free (json_merge_patch t v)"
    and "null_free (JObj d)"
  shows "null_free (JObj (merge_items d ps))"
  using assms
proof (induction ps arbitrary: d)
  case Nil
  then show ?case by simp
next
  case (Cons p ps)
  obtain k v where p: "p = (k, v)" by (cases p)
  let ?d = "if v = JNull then dict_del k d
    else dict_set k (json_merge_patch (or_null (map_of d k)) v) d"
  have "(k, v) \<in> set (p # ps)" using p by simp
  then have v: "null_free (json_merge_patch (or_null (map_of d k)) v)"
    using null_free_or_null [OF Cons.prems(2)] by (rule Cons.prems(1))
  have "null_free (JObj ?d)"
    using null_free_dict_set [OF Cons.prems(2) v merge_patch_not_null] null_free_dict_del [OF Cons.prems(2)]
    by (simp del: null_free.simps)
  then have "null_free (JObj (merge_items ?d ps))"
    by (rule Cons.IH [rotated]) (meson Cons.prems(1) list.set_intros(2))
  with p show ?case by simp
qed

lemma merge_patch_null_free: "null_free t \<Longrightarrow> null_free (json_merge_patch t p)"
proof (induction p arbitrary: t rule: json.induct)
  case (JObj ps)
  have "null_free (JObj (merge_items (obj_items t) ps))"
  proof (rule null_free_merge_items)
    show "null_free (JObj (obj_items t))" using JObj.prems by (cases t) (simp_all add: obj_items_def)
    show "null_free (json_merge_patch u v)" if "(k, v) \<in> set ps" "null_free u" for k v u
      using JObj.IH [OF that(1), of v u] that(2) by (simp add: snds.simps)
  qed
  then show ?case by simp
qed (simp_all add: json_merge_patch_atom)

text \<open>
  Applying a patch object with distinct keys gives every member what RFC 7396 says (a null
  removes it, another value is merged into it, an absent one keeps it); applying the patch again
  changes nothing, and no null member is introduced.
\<close>

lemma merge_patch_members:
  assumes "json_wf (JObj ps)"
  shows "(\<forall>k. map_of (obj_items (json_merge_patch t (JObj ps))) k = patch_entry (map_of (obj_items t) k) (map_of ps k)) \<and>
    json_merge_patch (json_merge_patch t (JObj ps)) (JObj ps) = json_merge_patch t (JObj ps) \<and>
    (null_free t \<longrightarrow> null_free (json_merge_patch t (JObj ps)))"
proof -
  have "dict_wf ps" using assms by simp
  then have "\<forall>k. map_of (obj_items (json_merge_patch t (JObj ps))) k = patch_entry (map_of (obj_items t) k) (map_of ps k)"
    by (simp add: merge_items_lookup)
  with merge_patch_idem [OF assms] merge_patch_null_free show ?thesis by blast
qed

subsection \<open>Equality of values\<close>

text \<open>Python's \<open>==\<close>: the order of a dict's items does not matter, and a boolean equals the
  number it stands for.\<close>

definition bool_num :: "bool \<Rightarrow> int" where
  "bool_num b = (if b then 1 else 0)"

fun json_eq :: "json \<Rightarrow> json \<Rightarrow> bool"
  and json_list_eq :: "json list \<Rightarrow> json list \<Rightarrow> bool"
  and json_items_in :: "jdict \<Rightarrow> jdict \<Rightarrow> bool" where
  "json_eq JNull y = (y = JNull)"
| "json_eq (JBool b) y = (case y of JBool c \<Rightarrow> b = c | JNum n \<Rightarrow> bool_num b = n | _ \<Rightarrow> False)"
| "json_eq (JNum n) y = (case y of JBool c \<Rightarrow> n = bool_num c | JNum m \<Rightarrow> n = m | _ \<Rightarrow> False)"
| "json_eq (JStr s) y = (y = JStr s)"
| "json_eq (JArr xs) y = (case y of JArr ys \<Rightarrow> json_list_eq xs ys | _ \<Rightarrow> False)"
| "json_eq (JObj d) y = (case y of JObj e \<Rightarrow> length d = length e \<and> json_items_in d e | _ \<Rightarrow> False)"
| "json_list_eq [] ys = (ys = [])"
| "json_list_eq (x # xs) ys = (case ys of [] \<Rightarrow> False | z # zs \<Rightarrow> json_eq x z \<and> json_list_eq xs zs)"
| "json_items_in [] e = True"
| "json_items_in ((k, v) # d) e =
     ((case map_of e k of None \<Rightarrow> False | Some w \<Rightarrow> json_eq v w) \<and> json_items_in d e)"

lemma json_list_eq_refl: "(\<And>x. x \<in> set xs \<Longrightarrow> json_eq x x) \<Longrightarrow> json_list_eq xs xs"
  by (induction xs) simp_all

lemma json_items_in_self:
  "(\<And>k v. (k, v) \<in> set d \<Longrightarrow> map_of e k = Some v \<and> json_eq v v) \<Longrightarrow> json_items_in d e"
proof (induction d)
  case Nil
  then show ?case by simp
next
  case (Cons p d)
  obtain k v where p: "p = (k, v)" by (cases p)
  with Cons.prems [of k v] have "map_of e k = Some v \<and> json_eq v v" by simp
  moreover have "json_items_in d e" by (rule Cons.IH) (rule Cons.prems, simp)
  ultimately show ?case using p by simp
qed

lemma json_eq_refl: "json_wf j \<Longrightarrow> json_eq j j"
proof (induction j rule: json.induct)
  case (JObj d)
  have "json_items_in d d"
  proof (rule json_items_in_self)
    fix k v
    assume kv: "(k, v) \<in> set d"
    with JObj show "map_of d k = Some v \<and> json_eq v v" by (auto simp: snds.simps)
  qed
  then show ?case by simp
qed (auto intro: json_list_eq_refl)

subsection \<open>Texts\<close>

definition digit :: "char \<Rightarrow> bool" where
  "digit c = (48 \<le> (of_char c :: nat) \<and> (of_char c :: nat) \<le> 57)"

text \<open>\<open>s.split(d)\<close> and \<open>d.join(ws)\<close>.\<close>

fun split_char :: "char \<Rightarrow> string \<Rightarrow> string list" where
  "split_char d [] = [[]]"
| "split_char d (c # cs) = (if c = d then [] # split_char d cs else case split_char d cs of [] \<Rightarrow> [[c]] | w # ws \<Rightarrow> (c # w) # ws)"

fun join_with :: "char \<Rightarrow> string list \<Rightarrow> string" where
  "join_with d [] = []"
| "join_with d [w] = w"
| "join_with d (w # ws) = w @ d # join_with d ws"

lemma split_char_not_nil [simp]: "split_char d s \<noteq> []"
  by (induction s) (auto split: list.splits)

lemma split_char_append: "split_char d (xs @ d # ys) = split_char d xs @ split_char d ys"
proof (induction xs)
  case Nil
  then show ?case by simp
next
  case (Cons x xs)
  show ?case
  proof (cases "split_char d xs")
    case Nil
    then show ?thesis by simp
  next
    case (Cons w ws)
    with Cons.IH show ?thesis by simp
  qed
qed

lemma split_char_single: "d \<notin> set s \<Longrightarrow> split_char d s = [s]"
  by (induction s) auto

lemma join_with_Cons: "ws \<noteq> [] \<Longrightarrow> join_with d (w # ws) = w @ d # join_with d ws"
  by (cases ws) simp_all

lemma join_split: "join_with d (split_char d s) = s"
proof (induction s)
  case Nil
  then show ?case by simp
next
  case (Cons c s)
  show ?case
  proof (cases "c = d")
    case True
    with Cons.IH show ?thesis by (simp add: join_with_Cons)
  next
    case False
    obtain w ws where "split_char d s = w # ws" by (cases "split_char d s") auto
    with Cons.IH False show ?thesis by (cases ws) auto
  qed
qed

end
