(* ===== verification/Sol_Objects.thy ===== *)
theory Sol_Objects
  imports Json
begin

section \<open>The SOL data types (sol\_refactored/objects)\<close>

text \<open>
  The versioned objects the modelled code reads and writes, one record per class. A
  nullable attribute is an \<open>option\<close>: \<open>None\<close> is an attribute that is not set
  (\<open>obj_attr_is_set\<close> is false), and reading such an attribute raises, as
  \<open>obj_load_attr\<close> of oslo.versionedobjects does (\<open>attr\<close> below). Attributes that no
  modelled operation touches are left out. \<^verbatim>\<open>VnfVirtualLinkResourceInfoV2\<close> and
  \<^verbatim>\<open>ExtManagedVirtualLinkInfoV2\<close> have the same attributes here and share \<open>vl_info\<close>, and
  \<^verbatim>\<open>VnfLinkPortInfoV2\<close> and \<^verbatim>\<open>ExtLinkPortInfoV2\<close> share \<open>link_port\<close> (the latter has no
  \<^verbatim>\<open>cpInstanceType\<close>). The request objects
  that \<^verbatim>\<open>operationParams\<close> can hold are one record, \<open>op_params\<close>, with the union of their
  attributes: the operation decides which of them can be set.
\<close>

definition attr :: "string \<Rightarrow> 'a option \<Rightarrow> 'a pyres" where
  "attr name x = (case x of
      None \<Rightarrow> Inl (PyExc NotImplementedError (''Cannot load '' @ quoted name @ '' in the base class''))
    | Some v \<Rightarrow> Inr v)"

lemma attr_Some [simp, err_simps]: "attr n (Some v) = Inr v"
  by (simp add: attr_def)

lemma attr_eq_Inr [err_simps]: "attr n x = Inr v \<longleftrightarrow> x = Some v"
  by (cases x) (simp_all add: attr_def)

subsection \<open>Enumerations (objects/v2/fields.py)\<close>

datatype op_state = STARTING | PROCESSING | COMPLETED | FAILED_TEMP | FAILED
  | ROLLING_BACK | ROLLED_BACK

datatype op_type = INSTANTIATE | SCALE | SCALE_TO_LEVEL | CHANGE_FLAVOUR | TERMINATE
  | HEAL | OPERATE | CHANGE_EXT_CONN | MODIFY_INFO | CREATE_SNAPSHOT
  | REVERT_TO_SNAPSHOT | CHANGE_VNFPKG

datatype verbosity = FULL | SHORT

datatype instantiation_state = NOT_INSTANTIATED | INSTANTIATED

datatype vnf_state = STARTED | STOPPED

subsection \<open>VnfInstance and its parts\<close>

record resource_handle =
  rh_vimConnectionId :: "string option"
  rh_resourceProviderId :: "string option"
  rh_resourceId :: string
  rh_vimLevelResourceType :: "string option"

record vim_info =
  vi_vimId :: "string option"
  vi_vimType :: string
  vi_interfaceInfo :: "jdict option"
  vi_accessInfo :: "jdict option"
  vi_extra :: "jdict option"

type_synonym vim_infos = "(string, vim_info) dict"

record scale_info =
  si_aspectId :: string
  si_scaleLevel :: int

record vnfc_cp_info =
  cpi_id :: string
  cpi_cpdId :: string
  cpi_vnfExtCpId :: "string option"
  cpi_vnfLinkPortId :: "string option"

record vnfc_resource =
  vr_id :: string
  vr_vduId :: string
  vr_computeResource :: resource_handle
  vr_zoneId :: "string option"
  vr_storageResourceIds :: "string list option"
  vr_vnfcCpInfo :: "vnfc_cp_info list option"
  vr_metadata :: "jdict option"

record link_port =
  lp_id :: string
  lp_resourceHandle :: resource_handle
  lp_cpInstanceId :: "string option"
  lp_cpInstanceType :: "string option"

record vl_info =
  vl_id :: string
  vl_vnfVirtualLinkDescId :: string
  vl_networkResource :: resource_handle
  vl_vnfLinkPorts :: "link_port list option"

record cp_config =
  cc_parentCpConfigId :: "string option"
  cc_linkPortId :: "string option"
  cc_cpProtocolData :: "json option"

record ext_cp_data =
  xcd_cpdId :: string
  xcd_cpConfig :: "(string, cp_config) dict"

record ext_vl_info =
  xvl_id :: string
  xvl_resourceHandle :: resource_handle
  xvl_extLinkPorts :: "link_port list option"
  xvl_currentVnfExtCpData :: "ext_cp_data list option"

record ext_cp_info =
  xci_id :: string
  xci_cpdId :: "string option"
  xci_cpConfigId :: "string option"
  xci_cpProtocolInfo :: "json list option"
  xci_extLinkPortId :: "string option"
  xci_associatedVnfcCpId :: "string option"

record storage_resource =
  vs_id :: string
  vs_virtualStorageDescId :: string
  vs_storageResource :: resource_handle
  vs_metadata :: "jdict option"

record vnfc_info =
  ci_id :: string
  ci_vduId :: string
  ci_vnfcResourceInfoId :: "string option"
  ci_vnfcState :: vnf_state
  ci_vnfcConfigurableProperties :: "jdict option"

record inst_vnf_info =
  iv_flavourId :: string
  iv_vnfState :: vnf_state
  iv_scaleStatus :: "scale_info list option"
  iv_maxScaleLevels :: "scale_info list option"
  iv_extCpInfo :: "ext_cp_info list option"
  iv_extVirtualLinkInfo :: "ext_vl_info list option"
  iv_extManagedVirtualLinkInfo :: "vl_info list option"
  iv_localizationLanguage :: "string option"
  iv_vnfcResourceInfo :: "vnfc_resource list option"
  iv_vnfVirtualLinkResourceInfo :: "vl_info list option"
  iv_virtualStorageResourceInfo :: "storage_resource list option"
  iv_vnfcInfo :: "vnfc_info list option"
  iv_metadata :: "jdict option"

record vnf_instance =
  in_id :: string
  in_vnfInstanceName :: "string option"
  in_vnfInstanceDescription :: "string option"
  in_vnfdId :: string
  in_vnfProvider :: string
  in_vnfProductName :: string
  in_vnfSoftwareVersion :: string
  in_vnfdVersion :: string
  in_vnfConfigurableProperties :: "jdict option"
  in_vimConnectionInfo :: "vim_infos option"
  in_instantiationState :: instantiation_state
  in_instantiatedVnfInfo :: "inst_vnf_info option"
  in_metadata :: "jdict option"
  in_extensions :: "jdict option"

text \<open>\<^verbatim>\<open>VnfInstanceV2_InstantiatedVnfInfo\<close> with nothing set but the two required attributes.\<close>

definition new_inst_vnf_info :: "string \<Rightarrow> vnf_state \<Rightarrow> inst_vnf_info" where
  "new_inst_vnf_info flavour st = \<lparr>iv_flavourId = flavour, iv_vnfState = st,
     iv_scaleStatus = None, iv_maxScaleLevels = None, iv_extCpInfo = None, iv_extVirtualLinkInfo = None,
     iv_extManagedVirtualLinkInfo = None, iv_localizationLanguage = None,
     iv_vnfcResourceInfo = None, iv_vnfVirtualLinkResourceInfo = None,
     iv_virtualStorageResourceInfo = None, iv_vnfcInfo = None, iv_metadata = None\<rparr>"

subsection \<open>Requests\<close>

record ext_link_port_data =
  xlp_id :: string
  xlp_resourceHandle :: resource_handle

record ext_vl_data =
  xvd_id :: string
  xvd_vimConnectionId :: "string option"
  xvd_resourceProviderId :: "string option"
  xvd_resourceId :: string
  xvd_extCps :: "ext_cp_data list"
  xvd_extLinkPorts :: "ext_link_port_data list option"

record ext_mgd_vl_data =
  xmd_id :: string
  xmd_vnfVirtualLinkDescId :: string
  xmd_vimConnectionId :: "string option"
  xmd_resourceProviderId :: "string option"
  xmd_resourceId :: string
  xmd_vnfLinkPort :: "string list option"

record op_params =
  rq_flavourId :: "string option"
  rq_instantiationLevelId :: "string option"
  rq_extVirtualLinks :: "ext_vl_data list option"
  rq_extManagedVirtualLinks :: "ext_mgd_vl_data list option"
  rq_vimConnectionInfo :: "vim_infos option"
  rq_localizationLanguage :: "string option"
  rq_additionalParams :: "jdict option"
  rq_extensions :: "jdict option"
  rq_vnfConfigurableProperties :: "jdict option"
  rq_metadata :: "jdict option"
  rq_type :: "string option"
  rq_aspectId :: "string option"
  rq_numberOfSteps :: "int option"
  rq_vnfcInstanceId :: "string list option"
  rq_vnfInstanceName :: "string option"
  rq_vnfInstanceDescription :: "string option"
  rq_vnfdId :: "string option"
  rq_vnfcInfoModifications :: "(string \<times> jdict) list option"
  rq_terminationType :: "string option"
  rq_gracefulTerminationTimeout :: "int option"

definition empty_params :: op_params where
  "empty_params = \<lparr>rq_flavourId = None, rq_instantiationLevelId = None,
     rq_extVirtualLinks = None, rq_extManagedVirtualLinks = None, rq_vimConnectionInfo = None,
     rq_localizationLanguage = None, rq_additionalParams = None, rq_extensions = None,
     rq_vnfConfigurableProperties = None, rq_metadata = None, rq_type = None,
     rq_aspectId = None, rq_numberOfSteps = None, rq_vnfcInstanceId = None,
     rq_vnfInstanceName = None, rq_vnfInstanceDescription = None, rq_vnfdId = None,
     rq_vnfcInfoModifications = None, rq_terminationType = None, rq_gracefulTerminationTimeout = None\<rparr>"

subsection \<open>GrantRequest and Grant\<close>

datatype res_type = COMPUTE | VL | STORAGE | LINKPORT

record res_def =
  rd_id :: string
  rd_type :: res_type
  rd_resourceTemplateId :: string
  rd_resource :: "resource_handle option"

datatype ref_type = RES_MGMT | GRANT

record constraint_ref =
  cr_idType :: ref_type
  cr_resourceId :: string
  cr_vimConnectionId :: "string option"

datatype affinity = AFFINITY | ANTI_AFFINITY

record placement_constraint =
  pc_affinityOrAntiAffinity :: affinity
  pc_scope :: string
  pc_resource :: "constraint_ref list"
  pc_fallbackBestEffort :: bool

record grant_request =
  gq_vnfInstanceId :: string
  gq_vnfLcmOpOccId :: string
  gq_vnfdId :: string
  gq_dstVnfdId :: "string option"
  gq_flavourId :: "string option"
  gq_operation :: op_type
  gq_isAutomaticInvocation :: bool
  gq_instantiationLevelId :: "string option"
  gq_addResources :: "res_def list option"
  gq_removeResources :: "res_def list option"
  gq_updateResources :: "res_def list option"
  gq_placementConstraints :: "placement_constraint list option"
  gq_additionalParams :: "jdict option"
  gq_links_vnfLcmOpOcc :: string
  gq_links_vnfInstance :: string

record grant_info =
  gi_resourceDefinitionId :: string
  gi_zoneId :: "string option"

record zone_info =
  zi_id :: string
  zi_zoneId :: string

record grant =
  gr_id :: string
  gr_vnfInstanceId :: string
  gr_vnfLcmOpOccId :: string
  gr_vimConnectionInfo :: "vim_infos option"
  gr_zones :: "zone_info list option"
  gr_addResources :: "grant_info list option"
  gr_computeResourceFlavours :: "(string \<times> string) list option"
  gr_softwareImages :: "(string \<times> string) list option"
  gr_extVirtualLinks :: "ext_vl_data list option"
  gr_extManagedVirtualLinks :: "ext_mgd_vl_data list option"
  gr_additionalParams :: "jdict option"

subsection \<open>VnfLcmOpOcc and its parts\<close>

datatype change_type = ADDED | REMOVED | MODIFIED | LINK_PORT_ADDED | LINK_PORT_REMOVED

record affected_vnfc =
  av_id :: string
  av_vduId :: string
  av_changeType :: change_type
  av_computeResource :: resource_handle
  av_zoneId :: "string option"
  av_metadata :: "jdict option"
  av_affectedVnfcCpIds :: "string list option"
  av_addedStorageResourceIds :: "string list option"
  av_removedStorageResourceIds :: "string list option"

record affected_vl =
  al_id :: string
  al_vnfVirtualLinkDescId :: string
  al_changeType :: change_type
  al_networkResource :: resource_handle
  al_vnfLinkPortIds :: "string list option"

record affected_port =
  ap_id :: string
  ap_changeType :: change_type
  ap_extCpInstanceId :: string
  ap_resourceHandle :: resource_handle

record affected_strg =
  as_id :: string
  as_virtualStorageDescId :: string
  as_changeType :: change_type
  as_storageResource :: resource_handle

record resource_changes =
  rc_affectedVnfcs :: "affected_vnfc list option"
  rc_affectedVirtualLinks :: "affected_vl list option"
  rc_affectedVirtualStorages :: "affected_strg list option"
  rc_affectedExtLinkPorts :: "affected_port list option"

record pkg_modifications =
  pm_vnfdId :: "string option"
  pm_vnfProvider :: "string option"
  pm_vnfProductName :: "string option"
  pm_vnfSoftwareVersion :: "string option"
  pm_vnfdVersion :: "string option"
  pm_vnfConfigurableProperties :: "jdict option"
  pm_metadata :: "jdict option"
  pm_extensions :: "jdict option"

text \<open>\<^verbatim>\<open>VnfInfoModificationsV2\<close> has the attributes of
  \<^verbatim>\<open>ModificationsTriggeredByVnfPkgChangeV2\<close> and four more.\<close>

record vnf_info_modifications = pkg_modifications +
  vm_vnfInstanceName :: "string option"
  vm_vnfInstanceDescription :: "string option"
  vm_vimConnectionInfo :: "vim_infos option"
  vm_vnfcInfoModifications :: "(string \<times> jdict) list option"

record occ_error = problem_details +
  oe_userScriptErrHandlingData :: "jdict option"

record lcm_op_occ =
  oc_id :: string
  oc_operationState :: op_state
  oc_stateEnteredTime :: int
  oc_startTime :: int
  oc_vnfInstanceId :: string
  oc_grantId :: "string option"
  oc_operation :: op_type
  oc_isAutomaticInvocation :: bool
  oc_operationParams :: op_params
  oc_isCancelPending :: bool
  oc_error :: "occ_error option"
  oc_resourceChanges :: "resource_changes option"
  oc_changedInfo :: "vnf_info_modifications option"
  oc_changedExtConnectivity :: "ext_vl_info list option"
  oc_modificationsTriggeredByVnfPkgChange :: "pkg_modifications option"

subsection \<open>Subscriptions and packages\<close>

record version_filter =
  vf_vnfSoftwareVersion :: string
  vf_vnfdVersions :: "string list option"

record product_filter =
  pf_vnfProductName :: string
  pf_versions :: "version_filter list option"

record provider_filter =
  vp_vnfProvider :: string
  vp_vnfProducts :: "product_filter list option"

record inst_filter =
  nf_vnfdIds :: "string list option"
  nf_vnfProductsFromProviders :: "provider_filter list option"
  nf_vnfInstanceIds :: "string list option"
  nf_vnfInstanceNames :: "string list option"

datatype notif_type = VnfLcmOperationOccurrenceNotification
  | VnfIdentifierCreationNotification | VnfIdentifierDeletionNotification

record lccn_filter =
  lf_vnfInstanceSubscriptionFilter :: "inst_filter option"
  lf_notificationTypes :: "notif_type list option"
  lf_operationTypes :: "op_type list option"
  lf_operationStates :: "op_state list option"

record lccn_subscription =
  sb_id :: string
  sb_filter :: "lccn_filter option"
  sb_callbackUri :: string
  sb_authentication :: "json option"
  sb_verbosity :: verbosity

datatype operational_state = ENABLED | DISABLED

record pkg_info =
  pk_id :: string
  pk_vnfdId :: string
  pk_vnfProvider :: string
  pk_vnfProductName :: string
  pk_vnfSoftwareVersion :: string
  pk_vnfdVersion :: string
  pk_operationalState :: operational_state

end
