(* ===== verification/Vnfd.thy ===== *)
theory Vnfd
  imports Sol_Objects
begin

section \<open>The VNF descriptor (sol\_refactored/common/vnfd\_utils.py)\<close>

text \<open>
  A \<open>vnfd\<close> holds the parsed YAML files of the package's \<^verbatim>\<open>Definitions\<close> directory by file
  name, and the cache \<^verbatim>\<open>vnfd_flavours\<close>. Every getter of class \<^verbatim>\<open>Vnfd\<close> that works on the
  parsed data is a definition here; the ones that only read files or directories
  (\<^verbatim>\<open>init_from_...\<close>, \<^verbatim>\<open>get_base_hot\<close>, \<^verbatim>\<open>make_tmp_csar_dir\<close>, \<^verbatim>\<open>get_vnf_artifact_files\<close>) are
  not modelled. YAML values are JSON values; a value of an unexpected type raises what
  Python raises. A flavour id is a JSON value because the driver asks for flavour
  \<open>None\<close> when an instance was never instantiated.

  \<open>get_vnfd_flavour\<close> is the cached lookup of the code and \<open>find_flavour\<close> the search it
  caches. The getters below use the search: \<open>get_vnfd_flavour_cached\<close> shows that the
  cache never changes an answer.
\<close>

record vnfd =
  vd_id :: string
  vd_definitions :: "(string, json) dict"
  vd_flavours :: "(json, json) dict"

subsection \<open>Readers\<close>

fun as_str :: "json \<Rightarrow> string pyres" where
  "as_str (JStr s) = Inr s"
| "as_str (JNum n) = Inr (show_int n)"
| "as_str j = Inl (PyExc ValueError (quoted (py_type_name j)))"

fun as_int :: "json \<Rightarrow> int pyres" where
  "as_int (JNum n) = Inr n"
| "as_int (JBool b) = Inr (if b then 1 else 0)"
| "as_int j = Inl (type_error j)"

fun jvalues :: "json \<Rightarrow> json list pyres" where
  "jvalues (JObj d) = Inr (map snd d)"
| "jvalues j = Inl (attr_error j ''values'')"

text \<open>\<open>x[0]\<close>.\<close>

fun jfirst :: "json \<Rightarrow> json pyres" where
  "jfirst (JArr (x # xs)) = Inr x"
| "jfirst (JArr []) = Inl (PyExc IndexError ''list index out of range'')"
| "jfirst (JStr (c # s)) = Inr (JStr [c])"
| "jfirst (JStr []) = Inl (PyExc IndexError ''string index out of range'')"
| "jfirst (JObj d) = Inl (key_error ''0'')"
| "jfirst j = Inl (type_error j)"

text \<open>\<open>x.get(k, default)\<close> with a key that came from YAML.\<close>

fun jget_key :: "json \<Rightarrow> json \<Rightarrow> json \<Rightarrow> json pyres" where
  "jget_key (JObj d) (JStr k) dflt = jget (JObj d) k dflt"
| "jget_key (JObj d) (JArr xs) dflt = Inl (type_error (JArr xs))"
| "jget_key (JObj d) (JObj x) dflt = Inl (type_error (JObj x))"
| "jget_key (JObj d) k dflt = Inr dflt"
| "jget_key j k dflt = Inl (attr_error j ''get'')"

subsection \<open>Flavours\<close>

definition flavour_of :: "json \<Rightarrow> json pyres" where
  "flavour_of data = bindE (jpath data [''topology_template'', ''substitution_mappings'', ''properties''])
     (\<lambda>p. jget p ''flavour_id'' JNull)"

fun find_flavour :: "(string, json) dict \<Rightarrow> json \<Rightarrow> json option pyres" where
  "find_flavour [] flavour_id = Inr None"
| "find_flavour ((name, data) # ds) flavour_id =
     bindE (flavour_of data)
       (\<lambda>fid. if fid = flavour_id then Inr (Some data) else find_flavour ds flavour_id)"

definition get_vnfd_flavour :: "vnfd \<Rightarrow> json \<Rightarrow> (json option \<times> vnfd) pyres" where
  "get_vnfd_flavour v flavour_id =
     (case map_of (vd_flavours v) flavour_id of
        Some data \<Rightarrow> Inr (Some data, v)
      | None \<Rightarrow> bindE (find_flavour (vd_definitions v) flavour_id)
          (\<lambda>r. case r of
                 Some data \<Rightarrow> Inr (Some data, v\<lparr>vd_flavours := dict_set flavour_id data (vd_flavours v)\<rparr>)
               | None \<Rightarrow> Inr (None, v)))"

text \<open>Using \<open>None\<close> where a dict is needed raises \<open>AttributeError\<close>.\<close>

definition flavour_data :: "vnfd \<Rightarrow> json \<Rightarrow> json pyres" where
  "flavour_data v flavour_id =
     bindE (find_flavour (vd_definitions v) flavour_id) (\<lambda>r. Inr (or_null r))"

definition node_templates :: "vnfd \<Rightarrow> json \<Rightarrow> (string, json) dict pyres" where
  "node_templates v flavour_id = bindE (flavour_data v flavour_id)
     (\<lambda>d. bindE (jpath d [''topology_template'', ''node_templates'']) jitems)"

subsection \<open>Software images\<close>

definition sw_image_types :: "json list" where
  "sw_image_types = [JStr ''tosca.nodes.nfv.Vdu.Compute'',
                     JStr ''tosca.nodes.nfv.Vdu.VirtualBlockStorage'']"

definition has_sw_image :: "json \<Rightarrow> bool pyres" where
  "has_sw_image data = bindE (jitem data ''type'') (\<lambda>ty.
     if ty \<in> set sw_image_types
     then bindE (jpath data [''properties'']) (\<lambda>p.
            bindE (jget p ''sw_image_data'' JNull) (\<lambda>i. Inr (py_truthy i)))
     else Inr False)"

definition get_sw_image :: "vnfd \<Rightarrow> json \<Rightarrow> (string, json) dict pyres" where
  "get_sw_image v flavour_id = bindE (node_templates v flavour_id) (\<lambda>nodes.
     bindE (filterE (\<lambda>(name, data). has_sw_image data) nodes) (\<lambda>ns.
       mapE (\<lambda>(name, data).
         bindE (jitem data ''properties'') (\<lambda>p. bindE (jitem p ''sw_image_data'') (\<lambda>i.
           bindE (jitem i ''name'') (\<lambda>image. Inr (name, image))))) ns))"

text \<open>The code stores the file name in the node's own \<^verbatim>\<open>sw_image_data\<close>; a second call finds
  it there and stores the same value again.\<close>

definition sw_image_entry :: "json \<Rightarrow> json pyres" where
  "sw_image_entry data = bindE (jitem data ''properties'') (\<lambda>p.
     bindE (jitem p ''sw_image_data'') (\<lambda>i.
     bindE (jpath data [''artifacts'', ''sw_image'']) (\<lambda>a.
     bindE (jget a ''file'' JNull) (\<lambda>f.
       if py_truthy f
       then (case i of JObj d \<Rightarrow> Inr (JObj (dict_set ''file'' f d)) | _ \<Rightarrow> Inl (type_error i))
       else Inr i))))"

definition get_sw_image_data :: "vnfd \<Rightarrow> json \<Rightarrow> (string, json) dict pyres" where
  "get_sw_image_data v flavour_id = bindE (node_templates v flavour_id) (\<lambda>nodes.
     bindE (filterE (\<lambda>(name, data). has_sw_image data) nodes) (\<lambda>ns.
       mapE (\<lambda>(name, data). bindE (sw_image_entry data) (\<lambda>i. Inr (name, i))) ns))"

definition get_vnfd_properties :: "vnfd \<Rightarrow> (string, jdict) dict" where
  "get_vnfd_properties v =
     [(''vnfConfigurableProperties'', []), (''extensions'', []), (''metadata'', [])]"

subsection \<open>Nodes\<close>

definition get_nodes :: "vnfd \<Rightarrow> json \<Rightarrow> string \<Rightarrow> (string, json) dict pyres" where
  "get_nodes v flavour_id node_type = bindE (node_templates v flavour_id)
     (filterE (\<lambda>(name, data). bindE (jitem data ''type'') (\<lambda>ty. Inr (ty = JStr node_type))))"

definition get_vdu_nodes :: "vnfd \<Rightarrow> json \<Rightarrow> (string, json) dict pyres" where
  "get_vdu_nodes v flavour_id = get_nodes v flavour_id ''tosca.nodes.nfv.Vdu.Compute''"

definition get_storage_nodes :: "vnfd \<Rightarrow> json \<Rightarrow> (string, json) dict pyres" where
  "get_storage_nodes v flavour_id =
     get_nodes v flavour_id ''tosca.nodes.nfv.Vdu.VirtualBlockStorage''"

definition get_virtual_link_nodes :: "vnfd \<Rightarrow> json \<Rightarrow> (string, json) dict pyres" where
  "get_virtual_link_nodes v flavour_id = get_nodes v flavour_id ''tosca.nodes.nfv.VnfVirtualLink''"

definition get_vducp_nodes :: "vnfd \<Rightarrow> json \<Rightarrow> (string, json) dict pyres" where
  "get_vducp_nodes v flavour_id = get_nodes v flavour_id ''tosca.nodes.nfv.VduCp''"

fun binds_vdu :: "string \<Rightarrow> json list \<Rightarrow> bool pyres" where
  "binds_vdu vdu_name [] = Inr False"
| "binds_vdu vdu_name (req # reqs) = bindE (jget req ''virtual_binding'' JNull)
     (\<lambda>b. if b = JStr vdu_name then Inr True else binds_vdu vdu_name reqs)"

definition get_vdu_cps :: "vnfd \<Rightarrow> json \<Rightarrow> string \<Rightarrow> string list pyres" where
  "get_vdu_cps v flavour_id vdu_name = bindE (get_vducp_nodes v flavour_id) (\<lambda>cp_nodes.
     bindE (filterE (\<lambda>(cp_name, cp_data).
         bindE (jget cp_data ''requirements'' (JArr [])) (\<lambda>r. bindE (jlist r) (binds_vdu vdu_name)))
       cp_nodes)
     (\<lambda>cps. Inr (map fst cps)))"

definition get_vdu_storages :: "json \<Rightarrow> json list pyres" where
  "get_vdu_storages vdu_node = bindE (jget vdu_node ''requirements'' (JArr [])) (\<lambda>r.
     bindE (jlist r) (\<lambda>reqs.
       bindE (filterE (\<lambda>req. jcontains req ''virtual_storage'') reqs)
         (mapE (\<lambda>req. jitem req ''virtual_storage''))))"

fun first_virtual_link :: "json list \<Rightarrow> json pyres" where
  "first_virtual_link [] = Inr JNull"
| "first_virtual_link (req # reqs) = bindE (jcontains req ''virtual_link'')
     (\<lambda>b. if b then jitem req ''virtual_link'' else first_virtual_link reqs)"

definition get_vl_name_from_cp :: "json \<Rightarrow> json pyres" where
  "get_vl_name_from_cp cp_data =
     bindE (jget cp_data ''requirements'' (JArr [])) (\<lambda>r. bindE (jlist r) first_virtual_link)"

definition get_compute_flavor :: "vnfd \<Rightarrow> json \<Rightarrow> string \<Rightarrow> json pyres" where
  "get_compute_flavor v flavour_id vdu_name = bindE (flavour_data v flavour_id) (\<lambda>d.
     bindE (jpath d [''topology_template'', ''node_templates'', vdu_name, ''capabilities'',
        ''virtual_compute'', ''properties'', ''requested_additional_capabilities'', ''properties'']) (\<lambda>p.
     bindE (jget p ''requested_additional_capability_name'' JNull) (\<lambda>flavor.
       Inr (if py_truthy flavor then flavor else JNull))))"

subsection \<open>Policies\<close>

definition policy_list :: "json \<Rightarrow> json list pyres" where
  "policy_list j = (case j of JObj d \<Rightarrow> Inr [j] | _ \<Rightarrow> jlist j)"

definition get_policy_values_by_type :: "vnfd \<Rightarrow> json \<Rightarrow> string \<Rightarrow> json list pyres" where
  "get_policy_values_by_type v flavour_id policy_type = bindE (flavour_data v flavour_id) (\<lambda>d.
     bindE (jpath d [''topology_template'']) (\<lambda>t.
     bindE (jget t ''policies'' (JArr [])) (\<lambda>p.
     bindE (policy_list p) (concatE (\<lambda>policy. bindE (jvalues policy)
       (filterE (\<lambda>value. bindE (jitem value ''type'') (\<lambda>ty. Inr (ty = JStr policy_type)))))))))"

definition get_default_instantiation_level :: "vnfd \<Rightarrow> json \<Rightarrow> json pyres" where
  "get_default_instantiation_level v flavour_id =
     bindE (get_policy_values_by_type v flavour_id ''tosca.policies.nfv.InstantiationLevels'') (\<lambda>ps.
       case ps of [] \<Rightarrow> Inr JNull
       | p # _ \<Rightarrow> bindE (jpath p [''properties'']) (\<lambda>q. jget q ''default_level'' JNull))"

fun vdu_num_in :: "string \<Rightarrow> json \<Rightarrow> json list \<Rightarrow> json pyres" where
  "vdu_num_in vdu_name level [] = Inr (JNum 0)"
| "vdu_num_in vdu_name level (policy # ps) =
     bindE (jget policy ''targets'' (JArr [])) (\<lambda>ts. bindE (jcontains ts vdu_name) (\<lambda>b.
       if b then bindE (jpath policy [''properties'', ''levels'']) (\<lambda>ls.
              bindE (jget_key ls level (JObj [])) (\<lambda>l. jget l ''number_of_instances'' JNull))
       else vdu_num_in vdu_name level ps))"

definition get_vdu_num :: "vnfd \<Rightarrow> json \<Rightarrow> string \<Rightarrow> json \<Rightarrow> json pyres" where
  "get_vdu_num v flavour_id vdu_name instantiation_level =
     bindE (get_policy_values_by_type v flavour_id ''tosca.policies.nfv.VduInstantiationLevels'')
       (vdu_num_in vdu_name instantiation_level)"

definition get_placement_groups :: "vnfd \<Rightarrow> json \<Rightarrow> (string, json) dict pyres" where
  "get_placement_groups v flavour_id = bindE (flavour_data v flavour_id) (\<lambda>d.
     bindE (jpath d [''topology_template'']) (\<lambda>t.
     bindE (jget t ''groups'' (JArr [])) (\<lambda>g.
     bindE (policy_list g) (\<lambda>groups.
     bindE (concatE (\<lambda>group. bindE (jitems group) (filterE (\<lambda>(key, value).
         bindE (jitem value ''type'') (\<lambda>ty. Inr (ty = JStr ''tosca.groups.nfv.PlacementGroup'')))))
       groups) (\<lambda>kvs.
       foldE (\<lambda>(key, value) ret. bindE (jitem value ''members'') (\<lambda>m. Inr (dict_set key m ret))) kvs [])))))"

text \<open>The members of one policy's targets: a placement group stands for its members.\<close>

fun expand_targets :: "(string, json) dict \<Rightarrow> json list \<Rightarrow> json list pyres" where
  "expand_targets groups [] = Inr []"
| "expand_targets groups (target # ts) =
     bindE (case target of
              JStr k \<Rightarrow> (case map_of groups k of None \<Rightarrow> Inr [target] | Some ms \<Rightarrow> jlist ms)
            | _ \<Rightarrow> Inr [target])
       (\<lambda>xs. bindE (expand_targets groups ts) (\<lambda>ys. Inr (xs @ ys)))"

definition get_targets :: "vnfd \<Rightarrow> json \<Rightarrow> string \<Rightarrow> (json list \<times> string) list pyres" where
  "get_targets v flavour_id affinity_type =
     bindE (get_policy_values_by_type v flavour_id affinity_type) (\<lambda>policies.
     bindE (get_placement_groups v flavour_id) (\<lambda>groups.
       concatE (\<lambda>policy. bindE (jitem policy ''properties'') (\<lambda>p. bindE (jitem p ''scope'') (\<lambda>scope.
         if scope = JStr ''zone'' \<or> scope = JStr ''nfvi_node''
         then bindE (jitem policy ''targets'') (\<lambda>t. bindE (jlist t) (\<lambda>ts.
                bindE (expand_targets groups ts) (\<lambda>targets.
                bindE (as_str scope) (\<lambda>s. Inr [(targets, s)]))))
         else Inr []))) policies))"

definition get_affinity_targets :: "vnfd \<Rightarrow> json \<Rightarrow> (json list \<times> string) list pyres" where
  "get_affinity_targets v flavour_id = get_targets v flavour_id ''tosca.policies.nfv.AffinityRule''"

definition get_anti_affinity_targets :: "vnfd \<Rightarrow> json \<Rightarrow> (json list \<times> string) list pyres" where
  "get_anti_affinity_targets v flavour_id =
     get_targets v flavour_id ''tosca.policies.nfv.AntiAffinityRule''"

subsection \<open>Management scripts\<close>

text \<open>The script one node's interface names for the operation, \<open>None\<close> if there is none.\<close>

definition node_script :: "json \<Rightarrow> string \<Rightarrow> string option pyres" where
  "node_script node operation = bindE (jitem node ''interfaces'') (\<lambda>ifs.
     bindE (jpath ifs [''Vnflcm'']) (\<lambda>l. bindE (jget l operation JNull) (\<lambda>op_value.
     case op_value of
       JObj d \<Rightarrow> bindE (jget op_value ''implementation'' JNull) (\<lambda>artifact.
         if artifact = JNull then Inr None
         else bindE (jpath node [''artifacts'']) (\<lambda>as. bindE (jget_key as artifact (JObj [])) (\<lambda>a.
              bindE (jget a ''file'' JNull) (\<lambda>script.
              if script = JNull then Inr None
              else bindE (jget a ''type'' JNull) (\<lambda>script_type.
                if script_type = JStr ''tosca.artifacts.Implementation.Python''
                then bindE (as_str script) (\<lambda>s. Inr (Some s))
                else Inl (Sol (SolHttpError422 (''Unsupported script type '' @
                       (case script_type of JStr s \<Rightarrow> s | j \<Rightarrow> py_type_name j)))))))))
     | _ \<Rightarrow> Inr None)))"

fun first_interface :: "json list \<Rightarrow> string \<Rightarrow> string option pyres" where
  "first_interface [] operation = Inr None"
| "first_interface (node # nodes) operation = bindE (jcontains node ''interfaces'')
     (\<lambda>b. if b then node_script node operation else first_interface nodes operation)"

definition get_interface_script :: "vnfd \<Rightarrow> json \<Rightarrow> string \<Rightarrow> string option pyres" where
  "get_interface_script v flavour_id operation = bindE (flavour_data v flavour_id) (\<lambda>d.
     if \<not> py_truthy d then Inr None
     else bindE (jpath d [''topology_template'', ''node_templates'']) (\<lambda>n.
            bindE (jvalues n) (\<lambda>nodes. first_interface nodes operation)))"

subsection \<open>Scaling\<close>

text \<open>The first scaling aspect policy that defines the aspect.\<close>

fun find_aspect :: "string \<Rightarrow> json list \<Rightarrow> json pyres" where
  "find_aspect aspect_id [] = Inr JNull"
| "find_aspect aspect_id (aspect # as) = bindE (jitem aspect ''properties'') (\<lambda>p.
     bindE (jitem p ''aspects'') (\<lambda>a. bindE (jget a aspect_id JNull) (\<lambda>value.
       if value \<noteq> JNull then Inr value else find_aspect aspect_id as)))"

definition add_aspect_delta :: "string \<Rightarrow> json \<Rightarrow> json \<Rightarrow> (string, json) dict \<Rightarrow> (string, json) dict pyres" where
  "add_aspect_delta aspect_id delta aspect_delta vdu_num_inst =
     bindE (jpath aspect_delta [''properties'']) (\<lambda>p. bindE (jget p ''aspect'' JNull) (\<lambda>a.
       if a = JStr aspect_id
       then bindE (jitem aspect_delta ''properties'') (\<lambda>q. bindE (jitem q ''deltas'') (\<lambda>ds.
            bindE (jget_key ds delta (JObj [])) (\<lambda>e. bindE (jget e ''number_of_instances'' JNull) (\<lambda>num_inst.
              if num_inst = JNull
              then Inl (Sol (DeltaMissingInVnfd (case delta of JStr s \<Rightarrow> s | j \<Rightarrow> py_type_name j)))
              else bindE (jitem aspect_delta ''targets'') (\<lambda>t. bindE (jlist t) (\<lambda>ts.
                   bindE (mapE as_str ts) (\<lambda>names.
                     Inr (fold (\<lambda>vdu_name d. dict_set vdu_name num_inst d) names vdu_num_inst))))))))
       else Inr vdu_num_inst))"

definition get_scale_vdu_and_num :: "vnfd \<Rightarrow> json \<Rightarrow> string \<Rightarrow> (string, json) dict pyres" where
  "get_scale_vdu_and_num v flavour_id aspect_id =
     bindE (get_policy_values_by_type v flavour_id ''tosca.policies.nfv.ScalingAspects'') (\<lambda>aspects.
     bindE (find_aspect aspect_id aspects) (\<lambda>value.
     bindE (if value = JNull then Inr JNull
            else bindE (jitem value ''step_deltas'') jfirst) (\<lambda>delta.
       if delta = JNull then Inr []
       else bindE (get_policy_values_by_type v flavour_id ''tosca.policies.nfv.VduScalingAspectDeltas'')
              (\<lambda>aspect_deltas. foldE (add_aspect_delta aspect_id delta) aspect_deltas []))))"

definition get_scale_info_from_inst_level :: "vnfd \<Rightarrow> json \<Rightarrow> json \<Rightarrow> (string, json) dict pyres" where
  "get_scale_info_from_inst_level v flavour_id inst_level =
     bindE (get_policy_values_by_type v flavour_id ''tosca.policies.nfv.InstantiationLevels'') (\<lambda>ps.
       case ps of [] \<Rightarrow> Inr []
       | p # _ \<Rightarrow> bindE (jitem p ''properties'') (\<lambda>q. bindE (jitem q ''levels'') (\<lambda>ls.
           bindE (jget_key ls inst_level (JObj [])) (\<lambda>l. bindE (jget l ''scale_info'' (JObj [])) jitems))))"

definition get_max_scale_level :: "vnfd \<Rightarrow> json \<Rightarrow> string \<Rightarrow> json pyres" where
  "get_max_scale_level v flavour_id aspect_id =
     bindE (get_policy_values_by_type v flavour_id ''tosca.policies.nfv.ScalingAspects'') (\<lambda>aspects.
     bindE (find_aspect aspect_id aspects) (\<lambda>value.
       if value = JNull then Inr (JNum 0) else jitem value ''max_scale_level''))"

fun initial_delta_in :: "string \<Rightarrow> json list \<Rightarrow> json pyres" where
  "initial_delta_in vdu_id [] = Inl (PyExc UnboundLocalError ''initial_delta'')"
| "initial_delta_in vdu_id (aspect # as) =
     bindE (jget aspect ''targets'' (JArr [])) (\<lambda>ts. bindE (jcontains ts vdu_id) (\<lambda>b.
       if b then bindE (jpath aspect [''properties'', ''initial_delta''])
              (\<lambda>i. jget i ''number_of_instances'' JNull)
       else initial_delta_in vdu_id as))"

definition get_initial_delta :: "vnfd \<Rightarrow> json \<Rightarrow> string \<Rightarrow> json pyres" where
  "get_initial_delta v flavour_id vdu_id =
     bindE (get_policy_values_by_type v flavour_id ''tosca.policies.nfv.VduInitialDelta'')
       (initial_delta_in vdu_id)"

subsection \<open>The flavour cache\<close>

definition cache_ok :: "vnfd \<Rightarrow> bool" where
  "cache_ok v \<longleftrightarrow> (\<forall>fid data. map_of (vd_flavours v) fid = Some data \<longrightarrow>
     find_flavour (vd_definitions v) fid = Inr (Some data))"

lemma get_vnfd_flavour_result:
  assumes "cache_ok v"
  shows "bindE (get_vnfd_flavour v fid) (\<lambda>(r, w). Inr r) = find_flavour (vd_definitions v) fid"
proof (cases "map_of (vd_flavours v) fid")
  case None
  then show ?thesis
    by (cases "find_flavour (vd_definitions v) fid")
       (simp_all add: get_vnfd_flavour_def split: option.splits)
next
  case (Some data)
  with assms show ?thesis by (simp add: get_vnfd_flavour_def cache_ok_def)
qed

lemma get_vnfd_flavour_keeps:
  assumes "cache_ok v" and "get_vnfd_flavour v fid = Inr (r, w)"
  shows "cache_ok w \<and> vd_definitions w = vd_definitions v \<and> vd_id w = vd_id v"
  using assms
  by (auto simp: get_vnfd_flavour_def cache_ok_def bindE_eq_Inr split: option.splits if_splits)

lemma find_flavour_Some:
  assumes "find_flavour ds fid = Inr (Some data)"
  shows "data \<in> snd ` set ds \<and> flavour_of data = Inr fid"
  using assms
proof (induction ds)
  case Nil
  then show ?case by simp
next
  case (Cons d ds)
  obtain n x where d: "d = (n, x)" by (cases d)
  from Cons.prems d obtain f where f: "flavour_of x = Inr f"
    "(if f = fid then Inr (Some x) else find_flavour ds fid) = Inr (Some data)"
    by (auto simp: bindE_eq_Inr)
  show ?case
  proof (cases "f = fid")
    case True
    with f d show ?thesis by auto
  next
    case False
    with f(2) Cons.IH d show ?thesis by auto
  qed
qed

text \<open>
  The flavour cache is transparent: whatever flavours were looked up before, a look-up
  answers what a search of the definitions answers, and a flavour that is found carries the
  identifier that was asked for.
\<close>

lemma flavour_cache_transparent:
  assumes "cache_ok v" and "get_vnfd_flavour v fid = Inr (r, w)"
  shows "find_flavour (vd_definitions v) fid = Inr r \<and>
    (\<forall>fid'. bindE (get_vnfd_flavour w fid') (\<lambda>(r, _). Inr r) = find_flavour (vd_definitions v) fid') \<and>
    (\<forall>data. r = Some data \<longrightarrow> flavour_of data = Inr fid)"
proof -
  have "find_flavour (vd_definitions v) fid = Inr r"
    using get_vnfd_flavour_result [OF assms(1), of fid] assms(2) by simp
  moreover note get_vnfd_flavour_keeps [OF assms]
  ultimately show ?thesis
    using get_vnfd_flavour_result [of w] find_flavour_Some by auto
qed

end
