(* ===== verification/Inst_Utils.thy ===== *)
theory Inst_Utils
  imports Vnfd
begin

section \<open>VNF instance helpers (sol\_refactored/common/vnf\_instance\_utils.py)\<close>

text \<open>
  Links, the selection of the VIM connection, the check of the metadata format and the
  checks that the controller runs before a scale or heal is accepted. The message of a
  schema validation error comes from the jsonschema package: it is the parameter
  \<open>schema_msg\<close>.
\<close>

definition inst_href :: "string \<Rightarrow> string \<Rightarrow> string" where
  "inst_href inst_id endpoint = endpoint @ ''/vnflcm/v2/vnf_instances/'' @ inst_id"

definition make_inst_links :: "vnf_instance \<Rightarrow> string \<Rightarrow> (string, string) dict" where
  "make_inst_links inst endpoint =
     (let self_href = inst_href (in_id inst) endpoint in
      (''self'', self_href) #
      (if in_instantiationState inst = NOT_INSTANTIATED
       then [(''instantiate'', self_href @ ''/instantiate'')]
       else [(''terminate'', self_href @ ''/terminate''),
             (''scale'', self_href @ ''/scale''),
             (''heal'', self_href @ ''/heal''),
             (''changeExtConn'', self_href @ ''/change_ext_conn'')]))"

text \<open>The first item is selected; a \<^verbatim>\<open>kubernetes\<close> VIM type is rewritten in place, so the new
  dictionary is a result too. Nothing is selected from an empty dictionary.\<close>

definition normal_vim_type :: "vim_info \<Rightarrow> vim_info" where
  "normal_vim_type vi =
     (if vi_vimType vi = ''kubernetes'' then vi\<lparr>vi_vimType := ''ETSINFV.KUBERNETES.V_1''\<rparr> else vi)"

fun select_vim_info :: "vim_infos \<Rightarrow> (string \<times> vim_info) option \<times> vim_infos" where
  "select_vim_info [] = (None, [])"
| "select_vim_info ((key, value) # rest) =
     (Some (key, normal_vim_type value), (key, normal_vim_type value) # rest)"

subsection \<open>What is known of an instance\<close>

definition old_info_of :: "vnf_instance \<Rightarrow> inst_vnf_info pyres" where
  "old_info_of inst = attr ''instantiatedVnfInfo'' (in_instantiatedVnfInfo inst)"

text \<open>How long a driver waits before it deletes what a terminated instance uses; the first argument is the default of the
  configuration.\<close>

definition graceful_timeout :: "int \<Rightarrow> op_params \<Rightarrow> int option" where
  "graceful_timeout dflt req = (if rq_terminationType req = Some ''GRACEFUL''
     then Some (case rq_gracefulTerminationTimeout req of None \<Rightarrow> dflt | Some t \<Rightarrow> t) else None)"

subsection \<open>The metadata check\<close>

fun valid_vnfc_id :: "json \<Rightarrow> bool" where
  "valid_vnfc_id (JStr s) = (1 \<le> length s \<and> length s \<le> 255)"
| "valid_vnfc_id _ = False"

fun valid_vnfc_ids :: "json \<Rightarrow> bool" where
  "valid_vnfc_ids (JArr xs) = list_all valid_vnfc_id xs"
| "valid_vnfc_ids _ = False"

fun valid_vdu_vnfc_mapping :: "json \<Rightarrow> bool" where
  "valid_vdu_vnfc_mapping (JObj d) = list_all (\<lambda>p. valid_vnfc_ids (snd p)) d"
| "valid_vdu_vnfc_mapping _ = False"

definition duplicated_vnfc_msg :: string where
  "duplicated_vnfc_msg = ''Duplicated vnfcInfo ids found in metadata['' @ [CHR 0x27] @
     ''VDU_VNFc_mapping'' @ [CHR 0x27] @ ''].''"

definition check_metadata_format :: "(json \<Rightarrow> string) \<Rightarrow> jdict \<Rightarrow> unit pyres" where
  "check_metadata_format schema_msg metadata =
     (case map_of metadata ''VDU_VNFc_mapping'' of
        None \<Rightarrow> Inr ()
      | Some mapping \<Rightarrow>
          if \<not> valid_vdu_vnfc_mapping mapping
          then Inl (Sol (SolValidationError (schema_msg mapping)))
          else bindE (jvalues mapping) (\<lambda>vs. bindE (concatE jlist vs) (\<lambda>all_vnfc_info_ids.
                 if length (remdups all_vnfc_info_ids) < length all_vnfc_info_ids
                 then Inl (Sol (SolValidationError duplicated_vnfc_msg))
                 else Inr ())))"

definition id_length_ok :: "string \<Rightarrow> bool" where
  "id_length_ok n \<longleftrightarrow> 1 \<le> length n \<and> length n \<le> 255"

text \<open>What an accepted mapping is: every VDU lists identifiers, and none occurs twice, neither
  in one list nor in two.\<close>

definition vnfc_mapping_ok :: "jdict \<Rightarrow> bool" where
  "vnfc_mapping_ok mapping \<longleftrightarrow>
     (\<exists>names. map (\<lambda>p. snd p) mapping = map (\<lambda>ns. JArr (map JStr ns)) names \<and>
        (\<forall>ns \<in> set names. \<forall>n \<in> set ns. id_length_ok n) \<and>
        distinct (concat names))"

lemma list_all_image_iff:
  "list_all (\<lambda>x. \<exists>y. x = g y \<and> P y) xs \<longleftrightarrow> (\<exists>ys. xs = map g ys \<and> (\<forall>y \<in> set ys. P y))"
proof (induction xs)
  case Nil
  then show ?case by simp
next
  case (Cons x xs)
  show ?case
  proof
    assume "list_all (\<lambda>x. \<exists>y. x = g y \<and> P y) (x # xs)"
    then obtain y ys where "x = g y" "P y" "xs = map g ys" "\<forall>y \<in> set ys. P y"
      using Cons.IH by auto
    then show "\<exists>ys. x # xs = map g ys \<and> (\<forall>y \<in> set ys. P y)"
      by (intro exI [of _ "y # ys"]) simp
  next
    assume "\<exists>ys. x # xs = map g ys \<and> (\<forall>y \<in> set ys. P y)"
    then show "list_all (\<lambda>x. \<exists>y. x = g y \<and> P y) (x # xs)"
      by (fastforce simp: list_all_iff Cons_eq_map_conv)
  qed
qed

lemma valid_vnfc_id_iff: "valid_vnfc_id j \<longleftrightarrow> (\<exists>n. j = JStr n \<and> id_length_ok n)"
  by (cases j) (simp_all add: id_length_ok_def)

lemma valid_vnfc_ids_iff:
  "valid_vnfc_ids j \<longleftrightarrow> (\<exists>ns. j = JArr (map JStr ns) \<and> (\<forall>n \<in> set ns. id_length_ok n))"
proof (cases j)
  case (JArr xs)
  have "list_all valid_vnfc_id xs \<longleftrightarrow> list_all (\<lambda>j. \<exists>n. j = JStr n \<and> id_length_ok n) xs"
    by (simp add: list_all_iff valid_vnfc_id_iff)
  then have "list_all valid_vnfc_id xs \<longleftrightarrow>
      (\<exists>ns. xs = map JStr ns \<and> (\<forall>n \<in> set ns. id_length_ok n))"
    by (simp only: list_all_image_iff)
  with JArr show ?thesis by simp
qed simp_all

lemma valid_mapping_values:
  "list_all (\<lambda>p. valid_vnfc_ids (snd p)) d \<longleftrightarrow>
     (\<exists>names. map snd d = map (\<lambda>ns. JArr (map JStr ns)) names \<and>
        (\<forall>ns \<in> set names. \<forall>n \<in> set ns. id_length_ok n))"
proof -
  have "list_all (\<lambda>p. valid_vnfc_ids (snd p)) d \<longleftrightarrow>
      list_all (\<lambda>j. \<exists>ns. j = JArr (map JStr ns) \<and> (\<forall>n \<in> set ns. id_length_ok n)) (map snd d)"
    by (simp add: list.pred_map comp_def valid_vnfc_ids_iff)
  then show ?thesis by (simp only: list_all_image_iff)
qed

lemma remdups_shorter_iff: "length (remdups xs) < length xs \<longleftrightarrow> \<not> distinct xs"
  by (metis length_remdups_eq length_remdups_leq nless_le remdups_id_iff_distinct)

lemma concatE_names:
  "concatE jlist (map (\<lambda>ns. JArr (map JStr ns)) names) = Inr (map JStr (concat names))"
  by (induction names) simp_all

lemma distinct_map_JStr: "distinct (map JStr xs) = distinct xs"
  by (simp add: distinct_map inj_on_def)

lemma inj_JArr_names: "inj (\<lambda>ns. JArr (map JStr ns))"
proof (rule injI)
  fix xs ys :: "string list"
  assume "JArr (map JStr xs) = JArr (map JStr ys)"
  then have "map JStr xs = map JStr ys" by simp
  then show "xs = ys" by (rule map_injective) (simp add: inj_def)
qed

lemma check_metadata_format_mapping:
  assumes "map_of metadata ''VDU_VNFc_mapping'' = Some (JObj mapping)"
  shows "check_metadata_format schema_msg metadata = Inr () \<longleftrightarrow> vnfc_mapping_ok mapping"
proof (cases "list_all (\<lambda>p. valid_vnfc_ids (snd p)) mapping")
  case False
  with assms show ?thesis
    by (auto simp: check_metadata_format_def vnfc_mapping_ok_def valid_mapping_values)
next
  case True
  then obtain names where names: "map snd mapping = map (\<lambda>ns. JArr (map JStr ns)) names"
    "\<forall>ns \<in> set names. \<forall>n \<in> set ns. id_length_ok n"
    by (auto simp: valid_mapping_values)
  have uniq: "names' = names"
    if "map snd mapping = map (\<lambda>ns. JArr (map JStr ns)) names'" for names'
    using that names(1) inj_map_eq_map [OF inj_JArr_names] by simp
  have "check_metadata_format schema_msg metadata = Inr () \<longleftrightarrow> distinct (concat names)"
    unfolding check_metadata_format_def assms option.case valid_vdu_vnfc_mapping.simps
      jvalues.simps bindE_Inr names(1) concatE_names remdups_shorter_iff distinct_map_JStr
    using True by auto
  also have "\<dots> \<longleftrightarrow> vnfc_mapping_ok mapping"
  proof
    assume "distinct (concat names)"
    with names show "vnfc_mapping_ok mapping" unfolding vnfc_mapping_ok_def by blast
  next
    assume "vnfc_mapping_ok mapping"
    then obtain names' where "map snd mapping = map (\<lambda>ns. JArr (map JStr ns)) names'"
      "distinct (concat names')"
      unfolding vnfc_mapping_ok_def by blast
    with uniq show "distinct (concat names)" by blast
  qed
  finally show ?thesis .
qed

text \<open>
  Metadata with a \<^verbatim>\<open>VDU_VNFc_mapping\<close> object is accepted exactly when every VDU has a list of
  identifiers of 1 to 255 characters and no identifier occurs twice in the whole mapping; metadata
  without one is always accepted.
\<close>

lemma metadata_mapping_accepted:
  "(map_of metadata ''VDU_VNFc_mapping'' = Some (JObj mapping) \<longrightarrow>
     (check_metadata_format schema_msg metadata = Inr () \<longleftrightarrow> vnfc_mapping_ok mapping)) \<and>
   (map_of metadata ''VDU_VNFc_mapping'' = None \<longrightarrow> check_metadata_format schema_msg metadata = Inr ())"
  using check_metadata_format_mapping by (auto simp: check_metadata_format_def)

subsection \<open>Scale and heal requests\<close>

definition find_scale_level :: "string \<Rightarrow> scale_info list option \<Rightarrow> int option" where
  "find_scale_level aspect_id infos = (case infos of None \<Rightarrow> None
     | Some xs \<Rightarrow> map_option si_scaleLevel (List.find (\<lambda>si. si_aspectId si = aspect_id) xs))"

definition get_current_scale_level :: "vnf_instance \<Rightarrow> string \<Rightarrow> int option" where
  "get_current_scale_level inst aspect_id = (case in_instantiatedVnfInfo inst of None \<Rightarrow> None
     | Some info \<Rightarrow> find_scale_level aspect_id (iv_scaleStatus info))"

definition inst_max_scale_level :: "vnf_instance \<Rightarrow> string \<Rightarrow> int option" where
  "inst_max_scale_level inst aspect_id = (case in_instantiatedVnfInfo inst of None \<Rightarrow> None
     | Some info \<Rightarrow> find_scale_level aspect_id (iv_maxScaleLevels info))"

definition check_scale_level :: "vnf_instance \<Rightarrow> string \<Rightarrow> string \<Rightarrow> int \<Rightarrow> unit pyres" where
  "check_scale_level inst aspect_id scale_type num_steps =
     (case (get_current_scale_level inst aspect_id, inst_max_scale_level inst aspect_id) of
        (Some scale_level, Some max_scale_level) \<Rightarrow>
          (let new_level = scale_level + (if scale_type = ''SCALE_IN'' then num_steps * -1 else num_steps)
           in if new_level < 0 \<or> new_level > max_scale_level
              then Inl (Sol (InvalidScaleNumberOfSteps num_steps)) else Inr ())
      | _ \<Rightarrow> Inl (Sol (InvalidScaleAspectId aspect_id)))"

definition inst_vnfc_ids :: "vnf_instance \<Rightarrow> string list" where
  "inst_vnfc_ids inst = (case in_instantiatedVnfInfo inst of None \<Rightarrow> []
     | Some info \<Rightarrow> (case iv_vnfcInfo info of None \<Rightarrow> [] | Some xs \<Rightarrow> map ci_id xs))"

definition check_vnfc_ids :: "vnf_instance \<Rightarrow> string list \<Rightarrow> unit pyres" where
  "check_vnfc_ids inst vnfc_ids =
     (case List.find (\<lambda>i. i \<notin> set (inst_vnfc_ids inst)) vnfc_ids of
        None \<Rightarrow> Inr ()
      | Some i \<Rightarrow> Inl (Sol (SolValidationError (''vnfcInstanceId('' @ i @ '') does not exist.''))))"

lemma check_scale_level_ok:
  "check_scale_level inst aspect_id scale_type n = Inr () \<longleftrightarrow>
     (\<exists>cur mx. get_current_scale_level inst aspect_id = Some cur \<and>
        inst_max_scale_level inst aspect_id = Some mx \<and>
        (let l = cur + (if scale_type = ''SCALE_IN'' then - n else n) in 0 \<le> l \<and> l \<le> mx))"
  by (auto simp: check_scale_level_def Let_def split: option.splits)

lemma check_vnfc_ids_ok: "check_vnfc_ids inst ids = Inr () \<longleftrightarrow> set ids \<subseteq> set (inst_vnfc_ids inst)"
  by (auto simp: check_vnfc_ids_def find_None_iff2 split: option.splits dest: find_Some_iff2)

end
