(* ===== verification/World.thy ===== *)
theory World
  imports Inst_Utils
begin

section \<open>The state of the VNFM and its environment\<close>

text \<open>
  The persistent objects of \<^verbatim>\<open>sol_refactored/objects/base.py\<close> are rows of a table. A table is
  the list of its rows in insertion order; \<open>row_add\<close>, \<open>row_upd\<close>, \<open>row_del\<close>,
  \<open>row_find\<close> and \<open>row_filter\<close> are \<open>create\<close>, \<open>update\<close> (a merge: a row that is not there is
  inserted), \<open>delete\<close>, \<open>get_by_id\<close> and \<open>get_by_filter\<close>. No modelled code unsets a
  top-level attribute, so an update replaces the row. The locale \<open>row_store\<close> states what
  the clients of a table rely on; it is interpreted on the tables of the model.

  \<open>world\<close> holds the tables, the messages the server has cast to the conductor, the
  notifications handed to \<open>send_notification\<close>, the package table of the local NFVO and the
  two dictionaries it keeps. UUIDs and time stamps are read from streams: \<open>w_uuids\<close> and
  \<open>w_ticks\<close> count how many were drawn.

  \<open>env\<close> holds what the modelled code calls and this development does not define: the infra
  drivers, the management scripts of a VNF package, the external NFVO, the VIM database,
  Glance, the schema validator's messages, policies and configuration options. Every
  theorem holds for every \<open>env\<close>, unless a hypothesis on it is written out.
\<close>

subsection \<open>Tables\<close>

definition row_find :: "('r \<Rightarrow> string) \<Rightarrow> 'r list \<Rightarrow> string \<Rightarrow> 'r option" where
  "row_find key rows k = List.find (\<lambda>r. key r = k) rows"

definition row_add :: "'r \<Rightarrow> 'r list \<Rightarrow> 'r list" where
  "row_add r rows = rows @ [r]"

definition row_upd :: "('r \<Rightarrow> string) \<Rightarrow> 'r \<Rightarrow> 'r list \<Rightarrow> 'r list" where
  "row_upd key r rows =
     (if key r \<in> key ` set rows then map (\<lambda>x. if key x = key r then r else x) rows
      else rows @ [r])"

definition row_del :: "('r \<Rightarrow> string) \<Rightarrow> string \<Rightarrow> 'r list \<Rightarrow> 'r list" where
  "row_del key k rows = filter (\<lambda>r. key r \<noteq> k) rows"

definition row_filter :: "('r \<Rightarrow> bool) \<Rightarrow> 'r list \<Rightarrow> 'r list" where
  "row_filter P rows = filter P rows"

definition rows_wf :: "('r \<Rightarrow> string) \<Rightarrow> 'r list \<Rightarrow> bool" where
  "rows_wf key rows \<longleftrightarrow> distinct (map key rows)"

locale row_store =
  fixes key :: "'r \<Rightarrow> string"
    and lookup :: "'t \<Rightarrow> string \<Rightarrow> 'r option"
    and add :: "'r \<Rightarrow> 't \<Rightarrow> 't"
    and upd :: "'r \<Rightarrow> 't \<Rightarrow> 't"
    and del :: "string \<Rightarrow> 't \<Rightarrow> 't"
    and wf :: "'t \<Rightarrow> bool"
  assumes lookup_key: "lookup t k = Some r \<Longrightarrow> key r = k"
    and lookup_add: "lookup t (key r) = None \<Longrightarrow>
      lookup (add r t) k = (if k = key r then Some r else lookup t k)"
    and lookup_upd: "lookup (upd r t) k = (if k = key r then Some r else lookup t k)"
    and lookup_del: "lookup (del i t) k = (if k = i then None else lookup t k)"
    and wf_add: "wf t \<Longrightarrow> lookup t (key r) = None \<Longrightarrow> wf (add r t)"
    and wf_upd: "wf t \<Longrightarrow> wf (upd r t)"
    and wf_del: "wf t \<Longrightarrow> wf (del i t)"
begin

lemma upd_upd: "key r = key s \<Longrightarrow> lookup (upd r (upd s t)) = lookup (upd r t)"
  by (rule ext) (simp add: lookup_upd)

lemma upd_commute:
  "key r \<noteq> key s \<Longrightarrow> lookup (upd r (upd s t)) = lookup (upd s (upd r t))"
  by (rule ext) (simp add: lookup_upd)

lemma del_add: "lookup t (key r) = None \<Longrightarrow> lookup (del (key r) (add r t)) = lookup t"
  by (rule ext) (simp add: lookup_del lookup_add)

lemma add_upd: "lookup t (key r) = None \<Longrightarrow> key s = key r \<Longrightarrow>
    lookup (upd s (add r t)) = lookup (add s t)"
  by (rule ext) (simp add: lookup_upd lookup_add)

lemma upd_same: "lookup t (key r) = Some r \<Longrightarrow> lookup (upd r t) = lookup t"
  by (rule ext) (simp add: lookup_upd)

end

lemma find_map_replace:
  "List.find (\<lambda>r. key r = k) (map (\<lambda>x. if key x = key r then r else x) rows) =
     (if k = key r then (if key r \<in> key ` set rows then Some r else None)
      else List.find (\<lambda>r. key r = k) rows)"
  by (induction rows) auto

lemma row_find_None: "row_find key rows k = None \<longleftrightarrow> k \<notin> key ` set rows"
  by (auto simp: row_find_def find_None_iff2)

lemma row_find_add:
  "row_find key (row_add r rows) k =
     (case row_find key rows k of None \<Rightarrow> (if k = key r then Some r else None) | Some x \<Rightarrow> Some x)"
  unfolding row_find_def row_add_def by (induction rows) (auto split: option.splits)

lemma row_find_upd:
  "row_find key (row_upd key r rows) k = (if k = key r then Some r else row_find key rows k)"
proof (cases "key r \<in> key ` set rows")
  case True
  then show ?thesis by (simp add: row_upd_def row_find_def find_map_replace)
next
  case False
  then have "row_find key rows (key r) = None" by (simp add: row_find_None)
  moreover have "row_upd key r rows = row_add r rows"
    using False by (simp add: row_upd_def row_add_def)
  ultimately show ?thesis by (auto simp: row_find_add split: option.splits)
qed

lemma row_find_del:
  "row_find key (row_del key i rows) k = (if k = i then None else row_find key rows k)"
  unfolding row_find_def row_del_def by (induction rows) auto

lemma rows_wf_upd: "rows_wf key rows \<Longrightarrow> rows_wf key (row_upd key r rows)"
proof -
  assume wf: "rows_wf key rows"
  have "map key (map (\<lambda>x. if key x = key r then r else x) rows) = map key rows"
    by (induction rows) auto
  with wf show ?thesis by (auto simp: rows_wf_def row_upd_def simp del: map_map)
qed

lemma row_find_wf: "rows_wf key rows \<Longrightarrow> row_find key rows k = Some r \<longleftrightarrow> r \<in> set rows \<and> key r = k"
  unfolding rows_wf_def row_find_def by (induction rows) auto

lemma row_store_rows:
  "row_store key (row_find key) row_add (row_upd key) (row_del key) (rows_wf key)"
proof
  fix rows k r
  show "row_find key rows k = Some r \<Longrightarrow> key r = k"
    unfolding row_find_def by (drule find_Some_iff2) simp
  show "row_find key rows (key r) = None \<Longrightarrow>
      row_find key (row_add r rows) k = (if k = key r then Some r else row_find key rows k)"
    by (auto simp: row_find_add split: option.splits)
  show "rows_wf key rows \<Longrightarrow> row_find key rows (key r) = None \<Longrightarrow> rows_wf key (row_add r rows)"
    by (simp add: rows_wf_def row_add_def row_find_None)
  show "rows_wf key rows \<Longrightarrow> rows_wf key (row_del key k rows)"
    by (simp add: rows_wf_def row_del_def distinct_map_filter2)
qed (simp_all add: row_find_upd row_find_del rows_wf_upd)

interpretation insts: row_store in_id "row_find in_id" row_add "row_upd in_id" "row_del in_id"
  "rows_wf in_id"
  by (rule row_store_rows)

interpretation occs: row_store oc_id "row_find oc_id" row_add "row_upd oc_id" "row_del oc_id"
  "rows_wf oc_id"
  by (rule row_store_rows)

interpretation grant_reqs: row_store gq_vnfLcmOpOccId "row_find gq_vnfLcmOpOccId" row_add
  "row_upd gq_vnfLcmOpOccId" "row_del gq_vnfLcmOpOccId" "rows_wf gq_vnfLcmOpOccId"
  by (rule row_store_rows)

interpretation grants: row_store gr_id "row_find gr_id" row_add "row_upd gr_id" "row_del gr_id"
  "rows_wf gr_id"
  by (rule row_store_rows)

interpretation subscs: row_store sb_id "row_find sb_id" row_add "row_upd sb_id" "row_del sb_id"
  "rows_wf sb_id"
  by (rule row_store_rows)

subsection \<open>Notifications and messages\<close>

datatype notif_status = START | RESULT

record lcmocc_notif =
  nt_notificationStatus :: notif_status
  nt_operationState :: op_state
  nt_operation :: op_type
  nt_isAutomaticInvocation :: bool
  nt_verbosity :: verbosity
  nt_vnfLcmOpOccId :: string
  nt_resourceChanges :: resource_changes
  nt_changedInfo :: "vnf_info_modifications option"
  nt_changedExtConnectivity :: "ext_vl_info list option"
  nt_modificationsTriggeredByVnfPkgChange :: "pkg_modifications option"
  nt_error :: "occ_error option"
  nt_link_vnfLcmOpOcc :: string

datatype notif_content = InstCreated | InstDeleted | LcmOcc lcmocc_notif

record notification =
  nf_id :: string
  nf_subscriptionId :: string
  nf_timeStamp :: int
  nf_vnfInstanceId :: string
  nf_link_vnfInstance :: string
  nf_link_subscription :: string
  nf_content :: notif_content

datatype rpc = StartLcmOp string | RetryLcmOp string | RollbackLcmOp string | ModifyVnfInfo string

subsection \<open>The world\<close>

datatype usage_state = IN_USE | NOT_IN_USE

record pkg_row =
  pr_info :: pkg_info
  pr_onboarded :: bool
  pr_usageState :: usage_state

record world =
  w_insts :: "vnf_instance list"
  w_occs :: "lcm_op_occ list"
  w_grant_reqs :: "grant_request list"
  w_grants :: "grant list"
  w_subscs :: "lccn_subscription list"
  w_pkgs :: "pkg_row list"
  w_uuids :: nat
  w_ticks :: nat
  w_notifs :: "(string \<times> notification) list"
  w_rpcs :: "rpc list"
  w_inst_vim_info :: "(string, vim_info) dict"
  w_inst_vnfd_id :: "(string, string) dict"
  w_image_deletes :: "(vim_info \<times> string) list"

datatype infra = Openstack | Kubernetes | Helm | Terraform

datatype infra_call = DrvInstantiate | DrvInstantiateRollback | DrvTerminate | DrvScale
  | DrvScaleRollback | DrvHeal | DrvChangeExtConn | DrvChangeExtConnRollback
  | DrvChangeVnfpkg | DrvChangeVnfpkgRollback

text \<open>The input of a management script, and what its process leaves: the return code, the
  standard error and, when the output can be unpickled, the two entries that are read.\<close>

record script_input =
  sc_operation :: string
  sc_request :: op_params
  sc_vnf_instance :: vnf_instance
  sc_grant_request :: "grant_request option"
  sc_grant_response :: "grant option"
  sc_user_data :: jdict
  sc_new_vnfd :: "vnfd option"

record script_output =
  so_returncode :: int
  so_stderr :: string
  so_vnf_instance :: "vnf_instance option"
  so_user_data :: "jdict option"

record env =
  ev_endpoint :: string
  ev_is_local :: bool
  ev_uuid :: "nat \<Rightarrow> string"
  ev_clock :: "nat \<Rightarrow> int"
  ev_lock :: "string \<Rightarrow> bool"
  ev_get_vnfd :: "string \<Rightarrow> vnfd pyres"
  ev_pkg_info :: "string \<Rightarrow> pkg_info pyres"
  ev_nfvo_grant :: "grant_request \<Rightarrow> grant pyres"
  ev_vim_db :: "string option \<Rightarrow> json pyres"
  ev_infra :: "infra \<Rightarrow> infra_call \<Rightarrow> op_params \<Rightarrow> grant_request option \<Rightarrow> grant option \<Rightarrow>
     vnfd \<Rightarrow> vnf_instance \<Rightarrow> unit pyres \<times> vnf_instance"
  ev_diff_check :: "infra \<Rightarrow> vnf_instance \<Rightarrow> vim_info \<Rightarrow> unit pyres"
  ev_sync_db :: "infra \<Rightarrow> vnf_instance \<Rightarrow> vim_info \<Rightarrow> unit pyres \<times> vnf_instance"
  ev_script :: "string \<Rightarrow> script_input \<Rightarrow> script_output"
  ev_schema_msg :: "json \<Rightarrow> string"
  ev_glance_create :: "vim_info \<Rightarrow> vnfd \<Rightarrow> json \<Rightarrow> string \<Rightarrow> string pyres"
  ev_glance_list :: "vim_info \<Rightarrow> string \<Rightarrow> (string \<times> string) list pyres"
  ev_zone_list :: "string list"
  ev_fallback_best_effort :: bool
  ev_enhanced_policy :: bool
  ev_can :: "string \<Rightarrow> (string, json) dict \<Rightarrow> unit pyres"
  ev_test_callback :: "(lccn_subscription \<Rightarrow> unit pyres) option"
  ev_enable_occ_delete :: bool

type_synonym 'a vnfm = "(world, exn, 'a) sem"

definition generate_uuid :: "env \<Rightarrow> string vnfm" where
  "generate_uuid env w = (Inr (ev_uuid env (w_uuids w)), w\<lparr>w_uuids := Suc (w_uuids w)\<rparr>)"

definition utcnow :: "env \<Rightarrow> int vnfm" where
  "utcnow env w = (Inr (ev_clock env (w_ticks w)), w\<lparr>w_ticks := Suc (w_ticks w)\<rparr>)"

definition cast_rpc :: "rpc \<Rightarrow> unit vnfm" where
  "cast_rpc r = modS (\<lambda>w. w\<lparr>w_rpcs := w_rpcs w @ [r]\<rparr>)"

subsection \<open>Objects by identifier\<close>

definition get_inst :: "string \<Rightarrow> vnf_instance vnfm" where
  "get_inst inst_id w = (case row_find in_id (w_insts w) inst_id of
      None \<Rightarrow> (Inl (Sol (VnfInstanceNotFound inst_id)), w)
    | Some inst \<Rightarrow> (Inr inst, w))"

definition get_lcmocc :: "string \<Rightarrow> lcm_op_occ vnfm" where
  "get_lcmocc lcmocc_id w = (case row_find oc_id (w_occs w) lcmocc_id of
      None \<Rightarrow> (Inl (Sol (VnfLcmOpOccNotFound lcmocc_id)), w)
    | Some lcmocc \<Rightarrow> (Inr lcmocc, w))"

definition get_subsc :: "string \<Rightarrow> lccn_subscription vnfm" where
  "get_subsc subsc_id w = (case row_find sb_id (w_subscs w) subsc_id of
      None \<Rightarrow> (Inl (Sol (LccnSubscriptionNotFound subsc_id)), w)
    | Some subsc \<Rightarrow> (Inr subsc, w))"

definition inst_update :: "vnf_instance \<Rightarrow> world \<Rightarrow> world" where
  "inst_update inst w = w\<lparr>w_insts := row_upd in_id inst (w_insts w)\<rparr>"

definition lcmocc_update :: "lcm_op_occ \<Rightarrow> world \<Rightarrow> world" where
  "lcmocc_update lcmocc w = w\<lparr>w_occs := row_upd oc_id lcmocc (w_occs w)\<rparr>"

text \<open>\<open>create\<close> inserts a row; the identifier is the primary key of the table, so a second row
  with the same one is refused by the database.\<close>

definition db_create :: "('r \<Rightarrow> string) \<Rightarrow> (world \<Rightarrow> 'r list) \<Rightarrow> ('r list \<Rightarrow> world \<Rightarrow> world) \<Rightarrow> 'r \<Rightarrow> unit vnfm" where
  "db_create key get put r w =
     (if row_find key (get w) (key r) = None then (Inr (), put (row_add r (get w)) w)
      else (Inl (PyExc DBDuplicateEntry (key r)), w))"

definition inst_create :: "vnf_instance \<Rightarrow> unit vnfm" where
  "inst_create = db_create in_id w_insts (\<lambda>rows w. w\<lparr>w_insts := rows\<rparr>)"

definition lcmocc_create :: "lcm_op_occ \<Rightarrow> unit vnfm" where
  "lcmocc_create = db_create oc_id w_occs (\<lambda>rows w. w\<lparr>w_occs := rows\<rparr>)"

definition subsc_create :: "lccn_subscription \<Rightarrow> unit vnfm" where
  "subsc_create = db_create sb_id w_subscs (\<lambda>rows w. w\<lparr>w_subscs := rows\<rparr>)"

definition grants_create :: "grant_request \<Rightarrow> grant \<Rightarrow> unit vnfm" where
  "grants_create grant_req grant w =
     (case bindS (db_create gq_vnfLcmOpOccId w_grant_reqs (\<lambda>rows w. w\<lparr>w_grant_reqs := rows\<rparr>) grant_req)
         (\<lambda>_. db_create gr_id w_grants (\<lambda>rows w. w\<lparr>w_grants := rows\<rparr>) grant) w of
        (Inl e, _) \<Rightarrow> (Inl e, w) | (Inr x, w') \<Rightarrow> (Inr x, w'))"

definition grants_delete :: "grant_request \<Rightarrow> grant \<Rightarrow> world \<Rightarrow> world" where
  "grants_delete grant_req grant w =
     w\<lparr>w_grant_reqs := row_del gq_vnfLcmOpOccId (gq_vnfLcmOpOccId grant_req) (w_grant_reqs w),
       w_grants := row_del gr_id (gr_id grant) (w_grants w)\<rparr>"

lemmas world_ops = inst_update_def lcmocc_update_def grants_delete_def

lemma grants_create_run:
  "grants_create q g w =
     (if row_find gq_vnfLcmOpOccId (w_grant_reqs w) (gq_vnfLcmOpOccId q) \<noteq> None
      then (Inl (PyExc DBDuplicateEntry (gq_vnfLcmOpOccId q)), w)
      else if row_find gr_id (w_grants w) (gr_id g) \<noteq> None then (Inl (PyExc DBDuplicateEntry (gr_id g)), w)
      else (Inr (), w\<lparr>w_grant_reqs := row_add q (w_grant_reqs w), w_grants := row_add g (w_grants w)\<rparr>))"
  by (auto simp: grants_create_def db_create_def bindS_def)

lemma get_inst_Inr:
  "get_inst i w = (Inr x, w') \<longleftrightarrow> w' = w \<and> row_find in_id (w_insts w) i = Some x"
  by (auto simp: get_inst_def split: option.splits)

lemma get_lcmocc_Inr:
  "get_lcmocc i w = (Inr x, w') \<longleftrightarrow> w' = w \<and> row_find oc_id (w_occs w) i = Some x"
  by (auto simp: get_lcmocc_def split: option.splits)

lemma get_world [simp]: "snd (get_inst i w) = w" "snd (get_lcmocc i w) = w" "snd (get_subsc i w) = w"
  by (simp_all add: get_inst_def get_lcmocc_def get_subsc_def split: option.splits)

end
