(* ===== verification/Example_Data.thy ===== *)
theory Example_Data
  imports World
begin

section \<open>A small VNF\<close>

text \<open>
  A package with one flavour, one VDU and one scaling aspect, an instance of it and an
  environment in which every external call succeeds. The witnesses of the properties are
  evaluated on them.
\<close>

definition ex_policies :: json where
  "ex_policies = JArr [
     JObj [(''aspects'', JObj [(''type'', JStr ''tosca.policies.nfv.ScalingAspects''),
       (''properties'', JObj [(''aspects'', JObj [(''asp'', JObj [
          (''max_scale_level'', JNum 3), (''step_deltas'', JArr [JStr ''d''])])])])])],
     JObj [(''deltas'', JObj [(''type'', JStr ''tosca.policies.nfv.VduScalingAspectDeltas''),
       (''targets'', JArr [JStr ''V'']),
       (''properties'', JObj [(''aspect'', JStr ''asp''),
          (''deltas'', JObj [(''d'', JObj [(''number_of_instances'', JNum 1)])])])])]]"

definition ex_vnfd :: vnfd where
  "ex_vnfd = \<lparr>vd_id = ''vnfd'',
     vd_definitions = [(''f.yaml'', JObj [(''topology_template'', JObj [
        (''substitution_mappings'', JObj [(''properties'', JObj [(''flavour_id'', JStr ''fl'')])]),
        (''node_templates'', JObj [(''V'', JObj [(''type'', JStr ''tosca.nodes.nfv.Vdu.Compute'')])]),
        (''policies'', ex_policies)])])],
     vd_flavours = []\<rparr>"

definition ex_vnfc :: "string \<Rightarrow> vnfc_resource" where
  "ex_vnfc i = \<lparr>vr_id = i, vr_vduId = ''V'',
     vr_computeResource = \<lparr>rh_vimConnectionId = None, rh_resourceProviderId = None, rh_resourceId = i,
        rh_vimLevelResourceType = None\<rparr>,
     vr_zoneId = None, vr_storageResourceIds = None, vr_vnfcCpInfo = None, vr_metadata = None\<rparr>"

definition ex_info :: inst_vnf_info where
  "ex_info = (new_inst_vnf_info ''fl'' STARTED)\<lparr>
     iv_scaleStatus := Some [\<lparr>si_aspectId = ''asp'', si_scaleLevel = 1\<rparr>],
     iv_maxScaleLevels := Some [\<lparr>si_aspectId = ''asp'', si_scaleLevel = 3\<rparr>],
     iv_vnfcResourceInfo := Some [ex_vnfc ''b'', ex_vnfc ''a'']\<rparr>"

definition ex_vim :: vim_info where
  "ex_vim = \<lparr>vi_vimId = Some ''vim'', vi_vimType = ''ETSINFV.OPENSTACK_KEYSTONE.V_3'',
     vi_interfaceInfo = Some [], vi_accessInfo = Some [], vi_extra = None\<rparr>"

definition ex_inst :: vnf_instance where
  "ex_inst = \<lparr>in_id = ''inst'', in_vnfInstanceName = Some ''name'', in_vnfInstanceDescription = None,
     in_vnfdId = ''vnfd'', in_vnfProvider = ''p'', in_vnfProductName = ''n'', in_vnfSoftwareVersion = ''1'',
     in_vnfdVersion = ''1'', in_vnfConfigurableProperties = None, in_vimConnectionInfo = Some [(''vim'', ex_vim)],
     in_instantiationState = INSTANTIATED, in_instantiatedVnfInfo = Some ex_info, in_metadata = None,
     in_extensions = None\<rparr>"

definition ex_pkg :: pkg_info where
  "ex_pkg = \<lparr>pk_id = ''pkg'', pk_vnfdId = ''vnfd'', pk_vnfProvider = ''p'', pk_vnfProductName = ''n'',
     pk_vnfSoftwareVersion = ''1'', pk_vnfdVersion = ''1'', pk_operationalState = ENABLED\<rparr>"

definition ex_env :: env where
  "ex_env = \<lparr>ev_endpoint = ''e'', ev_is_local = False, ev_uuid = (\<lambda>n. replicate n CHR ''u''),
     ev_clock = int, ev_lock = (\<lambda>_. True), ev_get_vnfd = (\<lambda>_. Inr ex_vnfd), ev_pkg_info = (\<lambda>_. Inr ex_pkg),
     ev_nfvo_grant = (\<lambda>q. Inr \<lparr>gr_id = gq_vnfLcmOpOccId q @ ''g'', gr_vnfInstanceId = gq_vnfInstanceId q,
        gr_vnfLcmOpOccId = gq_vnfLcmOpOccId q, gr_vimConnectionInfo = None, gr_zones = None,
        gr_addResources = None, gr_computeResourceFlavours = None, gr_softwareImages = None,
        gr_extVirtualLinks = None, gr_extManagedVirtualLinks = None, gr_additionalParams = None\<rparr>),
     ev_vim_db = (\<lambda>_. Inr JNull), ev_infra = (\<lambda>_ _ _ _ _ _ inst. (Inr (), inst)),
     ev_diff_check = (\<lambda>_ _ _. Inr ()), ev_sync_db = (\<lambda>_ inst _. (Inr (), inst)),
     ev_script = (\<lambda>_ _. \<lparr>so_returncode = 0, so_stderr = [], so_vnf_instance = None, so_user_data = None\<rparr>),
     ev_schema_msg = (\<lambda>_. []), ev_glance_create = (\<lambda>_ _ _ _. Inr []), ev_glance_list = (\<lambda>_ _. Inr []),
     ev_zone_list = [], ev_fallback_best_effort = False, ev_enhanced_policy = False,
     ev_can = (\<lambda>_ _. Inr ()), ev_test_callback = None, ev_enable_occ_delete = False\<rparr>"

definition ex_occ :: "op_type \<Rightarrow> op_params \<Rightarrow> op_state \<Rightarrow> lcm_op_occ" where
  "ex_occ operation req st = \<lparr>oc_id = ''occ'', oc_operationState = st, oc_stateEnteredTime = 0, oc_startTime = 0,
     oc_vnfInstanceId = ''inst'', oc_grantId = None, oc_operation = operation, oc_isAutomaticInvocation = False,
     oc_operationParams = req, oc_isCancelPending = False, oc_error = None, oc_resourceChanges = None,
     oc_changedInfo = None, oc_changedExtConnectivity = None, oc_modificationsTriggeredByVnfPkgChange = None\<rparr>"

definition ex_scale :: "string \<Rightarrow> op_params" where
  "ex_scale ty = empty_params\<lparr>rq_type := Some ty, rq_aspectId := Some ''asp'', rq_numberOfSteps := Some 1\<rparr>"

lemmas ex_defs = ex_policies_def ex_vnfd_def ex_vnfc_def ex_info_def ex_vim_def ex_inst_def ex_pkg_def
  ex_env_def ex_occ_def ex_scale_def empty_params_def new_inst_vnf_info_def

definition ex_world :: "vnf_instance list \<Rightarrow> lcm_op_occ list \<Rightarrow> world" where
  "ex_world insts occs = \<lparr>w_insts = insts, w_occs = occs, w_grant_reqs = [], w_grants = [], w_subscs = [],
     w_pkgs = [], w_uuids = 0, w_ticks = 0, w_notifs = [], w_rpcs = [], w_inst_vim_info = [],
     w_inst_vnfd_id = [], w_image_deletes = []\<rparr>"

text \<open>A call that returns.\<close>

lemma returns: "\<not> isl (fst x) \<Longrightarrow> \<exists>v s. x = (Inr v, s)"
  by (cases x; cases "fst x") auto

end
