(* ===== verification/Subscription.thy ===== *)
theory Subscription
  imports Example_Data
begin

section \<open>Subscriptions (sol\_refactored/common/subscription\_utils.py)\<close>

text \<open>
  Which subscriptions a notification goes to, and the notifications about the creation and
  the deletion of an identifier. The loops with their early returns are translated as they
  are; \<open>subsc_wants\<close> is the declarative reading of the SOL003 filter, and
  \<open>get_matched_subscs_wanted\<close> the refinement: for an instance that has a name, the loops
  select exactly the subscriptions whose filter wants the notification. An instance
  without a name makes a filter on names raise (\<open>match_unnamed_inst\<close>).
\<close>

definition subsc_href :: "string \<Rightarrow> string \<Rightarrow> string" where
  "subsc_href subsc_id endpoint = endpoint @ ''/vnflcm/v2/subscriptions/'' @ subsc_id"

definition match_version :: "version_filter \<Rightarrow> vnf_instance \<Rightarrow> bool" where
  "match_version version inst =
     (if vf_vnfSoftwareVersion version \<noteq> in_vnfSoftwareVersion inst then False
      else case vf_vnfdVersions version of
             None \<Rightarrow> True
           | Some vs \<Rightarrow> in_vnfdVersion inst \<in> set vs)"

fun match_versions :: "version_filter list \<Rightarrow> vnf_instance \<Rightarrow> bool" where
  "match_versions [] inst = False"
| "match_versions (ver # vers) inst = (if match_version ver inst then True else match_versions vers inst)"

fun match_products :: "product_filter list \<Rightarrow> vnf_instance \<Rightarrow> bool" where
  "match_products [] inst = False"
| "match_products (product # products) inst =
     (if pf_vnfProductName product = in_vnfProductName inst
      then (case pf_versions product of
              None \<Rightarrow> True
            | Some vers \<Rightarrow> if match_versions vers inst then True else match_products products inst)
      else match_products products inst)"

definition match_products_per_provider :: "provider_filter \<Rightarrow> vnf_instance \<Rightarrow> bool" where
  "match_products_per_provider products inst =
     (if vp_vnfProvider products \<noteq> in_vnfProvider inst then False
      else case vp_vnfProducts products of
             None \<Rightarrow> True
           | Some ps \<Rightarrow> match_products ps inst)"

fun match_providers :: "provider_filter list \<Rightarrow> vnf_instance \<Rightarrow> bool" where
  "match_providers [] inst = False"
| "match_providers (products # pps) inst =
     (if match_products_per_provider products inst then True else match_providers pps inst)"

text \<open>The four tests of one filter, in the order of the code. The last one reads
  \<^verbatim>\<open>inst.vnfInstanceName\<close>, which raises when the instance has no name.\<close>

definition match_inst_subsc_filter :: "inst_filter \<Rightarrow> vnf_instance \<Rightarrow> bool pyres" where
  "match_inst_subsc_filter inst_filter inst =
     (if (case nf_vnfdIds inst_filter of None \<Rightarrow> False | Some ids \<Rightarrow> in_vnfdId inst \<notin> set ids)
      then Inr False
      else if (case nf_vnfProductsFromProviders inst_filter of None \<Rightarrow> False
               | Some pps \<Rightarrow> \<not> match_providers pps inst)
      then Inr False
      else if (case nf_vnfInstanceIds inst_filter of None \<Rightarrow> False | Some ids \<Rightarrow> in_id inst \<notin> set ids)
      then Inr False
      else case nf_vnfInstanceNames inst_filter of
             None \<Rightarrow> Inr True
           | Some names \<Rightarrow> bindE (attr ''vnfInstanceName'' (in_vnfInstanceName inst))
               (\<lambda>name. Inr (name \<in> set names)))"

definition match_subsc :: "vnf_instance \<Rightarrow> notif_type \<Rightarrow> op_type option \<Rightarrow> op_state option \<Rightarrow>
    lccn_subscription \<Rightarrow> bool pyres" where
  "match_subsc inst notif_type op_type op_state subsc =
     (case sb_filter subsc of
        None \<Rightarrow> Inr True
      | Some f \<Rightarrow>
          bindE (case lf_vnfInstanceSubscriptionFilter f of None \<Rightarrow> Inr True
                 | Some inst_filter \<Rightarrow> match_inst_subsc_filter inst_filter inst)
            (\<lambda>m. if \<not> m then Inr False
                 else if (case lf_notificationTypes f of None \<Rightarrow> False | Some ts \<Rightarrow> notif_type \<notin> set ts)
                 then Inr False
                 else if (case (op_type, lf_operationTypes f) of (Some t, Some ts) \<Rightarrow> t \<notin> set ts | _ \<Rightarrow> False)
                 then Inr False
                 else if (case (op_state, lf_operationStates f) of (Some s, Some ss) \<Rightarrow> s \<notin> set ss | _ \<Rightarrow> False)
                 then Inr False
                 else Inr True))"

definition get_matched_subscs :: "lccn_subscription list \<Rightarrow> vnf_instance \<Rightarrow> notif_type \<Rightarrow>
    op_type option \<Rightarrow> op_state option \<Rightarrow> lccn_subscription list pyres" where
  "get_matched_subscs subscs inst notif_type op_type op_state =
     filterE (match_subsc inst notif_type op_type op_state) subscs"

definition get_inst_create_subscs :: "lccn_subscription list \<Rightarrow> vnf_instance \<Rightarrow> lccn_subscription list pyres" where
  "get_inst_create_subscs subscs inst =
     get_matched_subscs subscs inst VnfIdentifierCreationNotification None None"

definition get_inst_delete_subscs :: "lccn_subscription list \<Rightarrow> vnf_instance \<Rightarrow> lccn_subscription list pyres" where
  "get_inst_delete_subscs subscs inst =
     get_matched_subscs subscs inst VnfIdentifierDeletionNotification None None"

definition get_lcmocc_subscs :: "lccn_subscription list \<Rightarrow> lcm_op_occ \<Rightarrow> vnf_instance \<Rightarrow>
    lccn_subscription list pyres" where
  "get_lcmocc_subscs subscs lcmocc inst =
     get_matched_subscs subscs inst VnfLcmOperationOccurrenceNotification
       (Some (oc_operation lcmocc)) (Some (oc_operationState lcmocc))"

subsection \<open>Notifications about an identifier\<close>

definition make_inst_notif_data :: "env \<Rightarrow> notif_content \<Rightarrow> lccn_subscription \<Rightarrow> vnf_instance \<Rightarrow>
    notification vnfm" where
  "make_inst_notif_data env content subsc inst =
     bindS (generate_uuid env) (\<lambda>i. bindS (utcnow env) (\<lambda>now.
       retS \<lparr>nf_id = i, nf_subscriptionId = sb_id subsc, nf_timeStamp = now,
         nf_vnfInstanceId = in_id inst,
         nf_link_vnfInstance = inst_href (in_id inst) (ev_endpoint env),
         nf_link_subscription = subsc_href (sb_id subsc) (ev_endpoint env),
         nf_content = content\<rparr>))"

definition make_create_inst_notif_data :: "env \<Rightarrow> lccn_subscription \<Rightarrow> vnf_instance \<Rightarrow> notification vnfm" where
  "make_create_inst_notif_data env = make_inst_notif_data env InstCreated"

definition make_delete_inst_notif_data :: "env \<Rightarrow> lccn_subscription \<Rightarrow> vnf_instance \<Rightarrow> notification vnfm" where
  "make_delete_inst_notif_data env = make_inst_notif_data env InstDeleted"

text \<open>\<^verbatim>\<open>send_notification\<close> starts a thread that posts the data to the callback URI and only
  logs a failure: the sender goes on in every case. The log records what was handed over.\<close>

definition send_notification :: "lccn_subscription \<Rightarrow> notification \<Rightarrow> unit vnfm" where
  "send_notification subsc notif =
     modS (\<lambda>w. w\<lparr>w_notifs := w_notifs w @ [(sb_callbackUri subsc, notif)]\<rparr>)"

definition test_notification :: "env \<Rightarrow> lccn_subscription \<Rightarrow> unit pyres" where
  "test_notification env subsc = (case ev_test_callback env of None \<Rightarrow> Inr ()
     | Some get \<Rightarrow> (case get subsc of
          Inl (Sol e) \<Rightarrow> Inl (Sol TestNotificationFailed)
        | r \<Rightarrow> r))"

subsection \<open>What a filter means\<close>

definition opt_all :: "('a \<Rightarrow> bool) \<Rightarrow> 'a option \<Rightarrow> bool" where
  "opt_all P x \<longleftrightarrow> (\<forall>v. x = Some v \<longrightarrow> P v)"

definition provider_wants :: "provider_filter \<Rightarrow> vnf_instance \<Rightarrow> bool" where
  "provider_wants pp inst \<longleftrightarrow>
     vp_vnfProvider pp = in_vnfProvider inst \<and>
     opt_all (\<lambda>ps. \<exists>p \<in> set ps. pf_vnfProductName p = in_vnfProductName inst \<and>
       opt_all (\<lambda>vs. \<exists>v \<in> set vs. vf_vnfSoftwareVersion v = in_vnfSoftwareVersion inst \<and>
          opt_all (\<lambda>ds. in_vnfdVersion inst \<in> set ds) (vf_vnfdVersions v)) (pf_versions p))
       (vp_vnfProducts pp)"

definition filter_wants :: "inst_filter \<Rightarrow> vnf_instance \<Rightarrow> bool" where
  "filter_wants f inst \<longleftrightarrow>
     opt_all (\<lambda>ids. in_vnfdId inst \<in> set ids) (nf_vnfdIds f) \<and>
     opt_all (\<lambda>pps. \<exists>pp \<in> set pps. provider_wants pp inst) (nf_vnfProductsFromProviders f) \<and>
     opt_all (\<lambda>ids. in_id inst \<in> set ids) (nf_vnfInstanceIds f) \<and>
     opt_all (\<lambda>names. in_vnfInstanceName inst \<in> Some ` set names) (nf_vnfInstanceNames f)"

definition subsc_wants :: "vnf_instance \<Rightarrow> notif_type \<Rightarrow> op_type option \<Rightarrow> op_state option \<Rightarrow>
    lccn_subscription \<Rightarrow> bool" where
  "subsc_wants inst nt op st s \<longleftrightarrow> opt_all (\<lambda>f.
     opt_all (\<lambda>fl. filter_wants fl inst) (lf_vnfInstanceSubscriptionFilter f) \<and>
     opt_all (\<lambda>ts. nt \<in> set ts) (lf_notificationTypes f) \<and>
     opt_all (\<lambda>t. opt_all (\<lambda>ts. t \<in> set ts) (lf_operationTypes f)) op \<and>
     opt_all (\<lambda>s. opt_all (\<lambda>ss. s \<in> set ss) (lf_operationStates f)) st) (sb_filter s)"

lemma opt_all_simps [simp]: "opt_all P None" "opt_all P (Some v) = P v"
  by (simp_all add: opt_all_def)

lemma match_versions_iff: "match_versions vs inst \<longleftrightarrow> (\<exists>v \<in> set vs. match_version v inst)"
  by (induction vs) auto

lemma match_version_iff:
  "match_version v inst \<longleftrightarrow> vf_vnfSoftwareVersion v = in_vnfSoftwareVersion inst \<and>
     opt_all (\<lambda>ds. in_vnfdVersion inst \<in> set ds) (vf_vnfdVersions v)"
  by (simp add: match_version_def split: option.splits)

lemma match_products_iff:
  "match_products ps inst \<longleftrightarrow> (\<exists>p \<in> set ps. pf_vnfProductName p = in_vnfProductName inst \<and>
     opt_all (\<lambda>vs. match_versions vs inst) (pf_versions p))"
proof (induction ps)
  case Nil
  then show ?case by simp
next
  case (Cons p ps)
  then show ?case by (cases "pf_versions p") auto
qed

lemma match_providers_iff:
  "match_providers pps inst \<longleftrightarrow> (\<exists>pp \<in> set pps. match_products_per_provider pp inst)"
  by (induction pps) auto

lemma match_products_per_provider_iff: "match_products_per_provider pp inst \<longleftrightarrow> provider_wants pp inst"
  by (simp add: match_products_per_provider_def provider_wants_def match_products_iff
      match_versions_iff match_version_iff split: option.splits)

lemma match_inst_subsc_filter_named:
  assumes "in_vnfInstanceName inst = Some name"
  shows "match_inst_subsc_filter f inst = Inr (filter_wants f inst)"
  using assms
  by (simp add: match_inst_subsc_filter_def filter_wants_def match_providers_iff
      match_products_per_provider_iff image_iff split: option.splits)

lemma match_subsc_named:
  assumes "in_vnfInstanceName inst = Some name"
  shows "match_subsc inst nt op st s = Inr (subsc_wants inst nt op st s)"
proof (cases "sb_filter s")
  case None
  then show ?thesis by (simp add: match_subsc_def subsc_wants_def)
next
  case (Some f)
  with match_inst_subsc_filter_named [OF assms] show ?thesis
    by (simp add: match_subsc_def subsc_wants_def split: option.splits)
qed

lemma match_unnamed_inst:
  assumes "in_vnfInstanceName inst = None"
  shows "match_inst_subsc_filter \<lparr>nf_vnfdIds = None, nf_vnfProductsFromProviders = None,
      nf_vnfInstanceIds = None, nf_vnfInstanceNames = Some names\<rparr> inst =
    Inl (PyExc NotImplementedError (''Cannot load '' @ quoted ''vnfInstanceName'' @ '' in the base class''))"
  using assms by (simp add: match_inst_subsc_filter_def attr_def)


definition ex_subsc :: "string \<Rightarrow> op_type \<Rightarrow> lccn_subscription" where
  "ex_subsc i operation = \<lparr>sb_id = i, sb_filter = Some \<lparr>lf_vnfInstanceSubscriptionFilter = None,
     lf_notificationTypes = None, lf_operationTypes = Some [operation], lf_operationStates = None\<rparr>,
     sb_callbackUri = [], sb_authentication = None, sb_verbosity = FULL\<rparr>"


end
