(* ===== verification/Lcm_Op_Occ.thy ===== *)
theory Lcm_Op_Occ
  imports Subscription "HOL-Library.List_Lexorder" "HOL-Library.Char_ord"
begin

section \<open>LCM operation occurrences (sol\_refactored/common/lcm\_op\_occ\_utils.py)\<close>

text \<open>
  The links of an operation occurrence, the notification about it, the calculation of what
  an operation changed (\<open>update_lcmocc\<close>), and the checks and updates the controller and the
  conductor share. Where the code iterates over a Python set, whose order is unspecified, the
  model takes the order of first occurrence, and the theorems speak of sets only.

  \<open>update_lcmocc\<close> changes the occurrence in place and may raise halfway: it is a stateful
  call on the occurrence.
\<close>

definition lcmocc_href :: "string \<Rightarrow> string \<Rightarrow> string" where
  "lcmocc_href lcmocc_id endpoint = endpoint @ ''/vnflcm/v2/vnf_lcm_op_occs/'' @ lcmocc_id"

definition lcmocc_task_href :: "string \<Rightarrow> string \<Rightarrow> string \<Rightarrow> string" where
  "lcmocc_task_href lcmocc_id task endpoint =
     endpoint @ ''/vnflcm/v2/vnf_lcm_op_occs/'' @ lcmocc_id @ ''/'' @ task"

definition make_lcmocc_links :: "lcm_op_occ \<Rightarrow> string \<Rightarrow> (string, string) dict" where
  "make_lcmocc_links lcmocc endpoint =
     [(''self'', lcmocc_href (oc_id lcmocc) endpoint),
      (''vnfInstance'', inst_href (oc_vnfInstanceId lcmocc) endpoint),
      (''retry'', lcmocc_task_href (oc_id lcmocc) ''retry'' endpoint),
      (''rollback'', lcmocc_task_href (oc_id lcmocc) ''rollback'' endpoint),
      (''fail'', lcmocc_task_href (oc_id lcmocc) ''fail'' endpoint)]"

subsection \<open>The notification\<close>

definition notif_status_of :: "lcm_op_occ \<Rightarrow> notif_status" where
  "notif_status_of lcmocc =
     (if (oc_operation lcmocc = MODIFY_INFO \<and> oc_operationState lcmocc = PROCESSING) \<or>
         oc_operationState lcmocc = STARTING
      then START else RESULT)"

definition no_changes :: resource_changes where
  "no_changes = \<lparr>rc_affectedVnfcs = None, rc_affectedVirtualLinks = None,
     rc_affectedVirtualStorages = None, rc_affectedExtLinkPorts = None\<rparr>"

definition lcmocc_notif_content :: "env \<Rightarrow> lccn_subscription \<Rightarrow> lcm_op_occ \<Rightarrow> lcmocc_notif pyres" where
  "lcmocc_notif_content env subsc lcmocc =
     bindE (if oc_operationState lcmocc \<in> {FAILED_TEMP, FAILED, ROLLED_BACK}
            then bindE (attr ''error'' (oc_error lcmocc)) (\<lambda>e. Inr (Some e)) else Inr None)
       (\<lambda>err. let full = (sb_verbosity subsc = FULL) in
          Inr \<lparr>nt_notificationStatus = notif_status_of lcmocc,
            nt_operationState = oc_operationState lcmocc,
            nt_operation = oc_operation lcmocc,
            nt_isAutomaticInvocation = oc_isAutomaticInvocation lcmocc,
            nt_verbosity = sb_verbosity subsc,
            nt_vnfLcmOpOccId = oc_id lcmocc,
            nt_resourceChanges = (if full then (case oc_resourceChanges lcmocc of None \<Rightarrow> no_changes | Some c \<Rightarrow> c)
                                  else no_changes),
            nt_changedInfo = (if full then oc_changedInfo lcmocc else None),
            nt_changedExtConnectivity = (if full then oc_changedExtConnectivity lcmocc else None),
            nt_modificationsTriggeredByVnfPkgChange =
              (if full then oc_modificationsTriggeredByVnfPkgChange lcmocc else None),
            nt_error = err,
            nt_link_vnfLcmOpOcc = lcmocc_href (oc_id lcmocc) (ev_endpoint env)\<rparr>)"

definition make_lcmocc_notif_data :: "env \<Rightarrow> lccn_subscription \<Rightarrow> lcm_op_occ \<Rightarrow> notification vnfm" where
  "make_lcmocc_notif_data env subsc lcmocc =
     bindS (generate_uuid env) (\<lambda>i. bindS (utcnow env) (\<lambda>now.
     bindS (liftS (lcmocc_notif_content env subsc lcmocc)) (\<lambda>content.
       retS \<lparr>nf_id = i, nf_subscriptionId = sb_id subsc, nf_timeStamp = now,
         nf_vnfInstanceId = oc_vnfInstanceId lcmocc,
         nf_link_vnfInstance = inst_href (oc_vnfInstanceId lcmocc) (ev_endpoint env),
         nf_link_subscription = subsc_href (sb_id subsc) (ev_endpoint env),
         nf_content = LcmOcc content\<rparr>)))"

subsection \<open>Affected resources\<close>

definition opt_list :: "'a list option \<Rightarrow> 'a list" where
  "opt_list x = (case x of None \<Rightarrow> [] | Some xs \<Rightarrow> xs)"

definition non_empty :: "'a list \<Rightarrow> 'a list option" where
  "non_empty xs = (if xs = [] then None else Some xs)"

definition make_affected_vnfc :: "vnfc_resource \<Rightarrow> change_type \<Rightarrow> string set \<Rightarrow> affected_vnfc" where
  "make_affected_vnfc vnfc change_type strgs =
     (let str_ids = non_empty (filter (\<lambda>i. i \<in> strgs) (opt_list (vr_storageResourceIds vnfc))) in
      \<lparr>av_id = vr_id vnfc, av_vduId = vr_vduId vnfc, av_changeType = change_type,
       av_computeResource = vr_computeResource vnfc, av_zoneId = vr_zoneId vnfc,
       av_metadata = vr_metadata vnfc,
       av_affectedVnfcCpIds = map_option (map cpi_id) (vr_vnfcCpInfo vnfc),
       av_addedStorageResourceIds = (if change_type = ADDED then str_ids else None),
       av_removedStorageResourceIds = (if change_type = ADDED then None else str_ids)\<rparr>)"

definition make_affected_vnfc_modified :: "vnfc_resource \<Rightarrow> vnfc_resource \<Rightarrow> affected_vnfc pyres" where
  "make_affected_vnfc_modified vnfc vnfc_saved =
     bindE (attr ''metadata'' (vr_metadata vnfc)) (\<lambda>metadata.
     bindE (case vr_storageResourceIds vnfc of
              None \<Rightarrow> Inr (None, None)
            | Some ids \<Rightarrow> bindE (attr ''storageResourceIds'' (vr_storageResourceIds vnfc_saved)) (\<lambda>saved.
                Inr (non_empty (remdups (filter (\<lambda>i. i \<notin> set saved) ids)),
                     non_empty (remdups (filter (\<lambda>i. i \<notin> set ids) saved)))))
       (\<lambda>(added, removed). Inr
         \<lparr>av_id = vr_id vnfc, av_vduId = vr_vduId vnfc, av_changeType = MODIFIED,
          av_computeResource = vr_computeResource vnfc, av_zoneId = None,
          av_metadata = Some metadata,
          av_affectedVnfcCpIds = map_option (map cpi_id) (vr_vnfcCpInfo vnfc),
          av_addedStorageResourceIds = added, av_removedStorageResourceIds = removed\<rparr>))"

definition make_affected_vl :: "vl_info \<Rightarrow> change_type \<Rightarrow> affected_vl" where
  "make_affected_vl vl change_type =
     \<lparr>al_id = vl_id vl, al_vnfVirtualLinkDescId = vl_vnfVirtualLinkDescId vl,
      al_changeType = change_type, al_networkResource = vl_networkResource vl,
      al_vnfLinkPortIds = map_option (map lp_id) (vl_vnfLinkPorts vl)\<rparr>"

text \<open>The loops over the links keep the last link with the id, and the ports of the last one
  that has ports.\<close>

definition ports_of :: "vl_info list \<Rightarrow> string \<Rightarrow> string list" where
  "ports_of vls i = (let pss = [ps. vl \<leftarrow> vls, vl_id vl = i, Some ps \<leftarrow> [vl_vnfLinkPorts vl]]
     in if pss = [] then [] else map lp_id (last pss))"

definition vl_of :: "vl_info list \<Rightarrow> string \<Rightarrow> vl_info" where
  "vl_of vls i = last (filter (\<lambda>vl. vl_id vl = i) vls)"

definition link_port_change :: "vl_info \<Rightarrow> change_type \<Rightarrow> string list \<Rightarrow> affected_vl list" where
  "link_port_change vl change_type ports = (if ports = [] then [] else
     [\<lparr>al_id = vl_id vl, al_vnfVirtualLinkDescId = vl_vnfVirtualLinkDescId vl,
       al_changeType = change_type, al_networkResource = vl_networkResource vl,
       al_vnfLinkPortIds = Some ports\<rparr>])"

definition make_affected_vls_link_port_change :: "vl_info list \<Rightarrow> vl_info list \<Rightarrow> string list \<Rightarrow>
    affected_vl list" where
  "make_affected_vls_link_port_change vls_saved vls common_vls = concat (map (\<lambda>i.
     let old_ports = ports_of vls_saved i; new_ports = ports_of vls i in
     link_port_change (vl_of vls i) LINK_PORT_ADDED
       (remdups (filter (\<lambda>p. p \<notin> set old_ports) new_ports)) @
     link_port_change (vl_of vls_saved i) LINK_PORT_REMOVED
       (remdups (filter (\<lambda>p. p \<notin> set new_ports) old_ports))) common_vls)"

definition make_affected_strg :: "storage_resource \<Rightarrow> change_type \<Rightarrow> affected_strg" where
  "make_affected_strg strg change_type =
     \<lparr>as_id = vs_id strg, as_virtualStorageDescId = vs_virtualStorageDescId strg,
      as_changeType = change_type, as_storageResource = vs_storageResource strg\<rparr>"

definition ext_ports :: "inst_vnf_info \<Rightarrow> link_port list" where
  "ext_ports info = concat (map (\<lambda>vl. opt_list (xvl_extLinkPorts vl)) (opt_list (iv_extVirtualLinkInfo info)))"

definition make_affected_port :: "change_type \<Rightarrow> link_port \<Rightarrow> affected_port pyres" where
  "make_affected_port change_type port = bindE (attr ''cpInstanceId'' (lp_cpInstanceId port)) (\<lambda>cp.
     Inr \<lparr>ap_id = lp_id port, ap_changeType = change_type, ap_extCpInstanceId = cp,
          ap_resourceHandle = lp_resourceHandle port\<rparr>)"

definition make_affected_ext_link_ports :: "inst_vnf_info \<Rightarrow> inst_vnf_info \<Rightarrow> affected_port list pyres" where
  "make_affected_ext_link_ports inst_info_saved inst_info =
     (let saved = ext_ports inst_info_saved; now = ext_ports inst_info in
      bindE (mapE (make_affected_port ADDED) (filter (\<lambda>p. lp_id p \<notin> lp_id ` set saved) now)) (\<lambda>added.
      bindE (mapE (make_affected_port REMOVED) (filter (\<lambda>p. lp_id p \<notin> lp_id ` set now) saved)) (\<lambda>removed.
        Inr (added @ removed))))"

subsection \<open>Modified attributes\<close>

definition check_modification :: "('a \<Rightarrow> 'a \<Rightarrow> bool) \<Rightarrow> 'a option \<Rightarrow> 'a option \<Rightarrow> 'a option" where
  "check_modification eq saved new = (case new of None \<Rightarrow> None
     | Some v \<Rightarrow> (case saved of None \<Rightarrow> Some v | Some u \<Rightarrow> if eq u v then None else Some v))"

definition dict_eq :: "jdict \<Rightarrow> jdict \<Rightarrow> bool" where
  "dict_eq d e = json_eq (JObj d) (JObj e)"

definition changed :: "'a \<Rightarrow> 'a \<Rightarrow> 'a option" where
  "changed old new = (if old \<noteq> new then Some new else None)"

definition no_pkg_modifications :: pkg_modifications where
  "no_pkg_modifications = \<lparr>pm_vnfdId = None, pm_vnfProvider = None, pm_vnfProductName = None,
     pm_vnfSoftwareVersion = None, pm_vnfdVersion = None, pm_vnfConfigurableProperties = None,
     pm_metadata = None, pm_extensions = None\<rparr>"

definition check_modification_inst :: "'a pkg_modifications_scheme \<Rightarrow> vnf_instance \<Rightarrow> vnf_instance \<Rightarrow>
    'a pkg_modifications_scheme" where
  "check_modification_inst obj inst_saved inst = obj\<lparr>
     pm_vnfdId := Some (in_vnfdId inst),
     pm_vnfProvider := changed (in_vnfProvider inst_saved) (in_vnfProvider inst),
     pm_vnfProductName := changed (in_vnfProductName inst_saved) (in_vnfProductName inst),
     pm_vnfSoftwareVersion := changed (in_vnfSoftwareVersion inst_saved) (in_vnfSoftwareVersion inst),
     pm_vnfdVersion := changed (in_vnfdVersion inst_saved) (in_vnfdVersion inst)\<rparr>"

definition set_modified_dicts :: "'a pkg_modifications_scheme \<Rightarrow> vnf_instance \<Rightarrow> vnf_instance \<Rightarrow>
    'a pkg_modifications_scheme" where
  "set_modified_dicts obj inst_saved inst = obj\<lparr>
     pm_vnfConfigurableProperties := check_modification dict_eq
        (in_vnfConfigurableProperties inst_saved) (in_vnfConfigurableProperties inst),
     pm_metadata := check_modification dict_eq (in_metadata inst_saved) (in_metadata inst),
     pm_extensions := check_modification dict_eq (in_extensions inst_saved) (in_extensions inst)\<rparr>"

definition opt_entry :: "string \<Rightarrow> ('a \<Rightarrow> json) \<Rightarrow> 'a option \<Rightarrow> jdict" where
  "opt_entry name f x = (case x of None \<Rightarrow> [] | Some v \<Rightarrow> [(name, f v)])"

definition vim_info_to_dict :: "vim_info \<Rightarrow> json" where
  "vim_info_to_dict vi = JObj (opt_entry ''vimId'' JStr (vi_vimId vi) @ [(''vimType'', JStr (vi_vimType vi))] @
     opt_entry ''interfaceInfo'' JObj (vi_interfaceInfo vi) @
     opt_entry ''accessInfo'' JObj (vi_accessInfo vi) @ opt_entry ''extra'' JObj (vi_extra vi))"

definition vim_infos_to_dict :: "vim_infos \<Rightarrow> json" where
  "vim_infos_to_dict vis = JObj (map (\<lambda>(k, v). (k, vim_info_to_dict v)) vis)"

definition vnfc_infos :: "vnf_instance \<Rightarrow> vnfc_info list" where
  "vnfc_infos inst = (case in_instantiatedVnfInfo inst of None \<Rightarrow> [] | Some info \<Rightarrow> opt_list (iv_vnfcInfo info))"

definition vnfc_properties :: "vnfc_info \<Rightarrow> jdict" where
  "vnfc_properties vnfc = (case ci_vnfcConfigurableProperties vnfc of None \<Rightarrow> [] | Some p \<Rightarrow> p)"

definition vnfc_modification :: "vnfc_info list \<Rightarrow> vnfc_info \<Rightarrow> (string \<times> jdict) list" where
  "vnfc_modification vnfc_info_saved vnfc =
     (let prop_saved = (case List.find (\<lambda>v. ci_id v = ci_id vnfc) vnfc_info_saved of
                          None \<Rightarrow> [] | Some v \<Rightarrow> vnfc_properties v);
          prop = vnfc_properties vnfc
      in if dict_eq prop prop_saved then [] else [(ci_id vnfc, prop)])"

definition no_info_modifications :: vnf_info_modifications where
  "no_info_modifications = pkg_modifications.extend no_pkg_modifications
     \<lparr>vm_vnfInstanceName = None, vm_vnfInstanceDescription = None,
      vm_vimConnectionInfo = None, vm_vnfcInfoModifications = None\<rparr>"

definition change_vnf_info :: "lcm_op_occ \<Rightarrow> vnf_instance \<Rightarrow> vnf_instance \<Rightarrow> lcm_op_occ" where
  "change_vnf_info lcmocc inst_saved inst =
     (let base = (if in_vnfdId inst_saved \<noteq> in_vnfdId inst
                  then check_modification_inst no_info_modifications inst_saved inst
                  else no_info_modifications);
          dicts = set_modified_dicts base inst_saved inst;
          full = dicts\<lparr>
            vm_vnfInstanceName := check_modification (=) (in_vnfInstanceName inst_saved) (in_vnfInstanceName inst),
            vm_vnfInstanceDescription := check_modification (=)
              (in_vnfInstanceDescription inst_saved) (in_vnfInstanceDescription inst),
            vm_vimConnectionInfo := check_modification
              (\<lambda>u v. json_eq (vim_infos_to_dict v) (vim_infos_to_dict u))
              (in_vimConnectionInfo inst_saved) (in_vimConnectionInfo inst),
            vm_vnfcInfoModifications := non_empty
              (concat (map (vnfc_modification (vnfc_infos inst_saved)) (vnfc_infos inst)))\<rparr>
      in lcmocc\<lparr>oc_changedInfo := Some full\<rparr>)"

definition create_modifications_triggered_by_vnfpkg_change :: "lcm_op_occ \<Rightarrow> vnf_instance \<Rightarrow>
    vnf_instance \<Rightarrow> lcm_op_occ" where
  "create_modifications_triggered_by_vnfpkg_change lcmocc inst_saved inst =
     lcmocc\<lparr>oc_modificationsTriggeredByVnfPkgChange := Some (set_modified_dicts
       (check_modification_inst no_pkg_modifications inst_saved inst) inst_saved inst)\<rparr>"

subsection \<open>What an operation changed\<close>

definition calc_diff :: "('a \<Rightarrow> string) \<Rightarrow> 'a list option \<Rightarrow> 'a list option \<Rightarrow>
    string list \<times> string list \<times> string list" where
  "calc_diff key saved new =
     (let olds = remdups (map key (opt_list saved)); news = remdups (map key (opt_list new)) in
      (filter (\<lambda>i. i \<notin> set news) olds, filter (\<lambda>i. i \<notin> set olds) news, filter (\<lambda>i. i \<in> set news) olds))"

definition removed_ids :: "('a \<Rightarrow> string) \<Rightarrow> 'a list option \<Rightarrow> 'a list option \<Rightarrow> string list" where
  "removed_ids key saved new = fst (calc_diff key saved new)"

definition added_ids :: "('a \<Rightarrow> string) \<Rightarrow> 'a list option \<Rightarrow> 'a list option \<Rightarrow> string list" where
  "added_ids key saved new = fst (snd (calc_diff key saved new))"

definition common_ids :: "('a \<Rightarrow> string) \<Rightarrow> 'a list option \<Rightarrow> 'a list option \<Rightarrow> string list" where
  "common_ids key saved new = snd (snd (calc_diff key saved new))"

definition select_ids :: "('a \<Rightarrow> string) \<Rightarrow> string list \<Rightarrow> 'a list option \<Rightarrow> 'a list" where
  "select_ids key ids xs = filter (\<lambda>x. key x \<in> set ids) (opt_list xs)"

definition affected_strgs :: "inst_vnf_info \<Rightarrow> inst_vnf_info \<Rightarrow> affected_strg list" where
  "affected_strgs saved new =
     (let olds = iv_virtualStorageResourceInfo saved; news = iv_virtualStorageResourceInfo new in
      map (\<lambda>s. make_affected_strg s REMOVED) (select_ids vs_id (removed_ids vs_id olds news) olds) @
      map (\<lambda>s. make_affected_strg s ADDED) (select_ids vs_id (added_ids vs_id olds news) news))"

definition affected_vnfcs :: "inst_vnf_info \<Rightarrow> inst_vnf_info \<Rightarrow> affected_vnfc list" where
  "affected_vnfcs saved new =
     (let olds = iv_vnfcResourceInfo saved; news = iv_vnfcResourceInfo new;
          removed_strgs = removed_ids vs_id (iv_virtualStorageResourceInfo saved) (iv_virtualStorageResourceInfo new);
          added_strgs = added_ids vs_id (iv_virtualStorageResourceInfo saved) (iv_virtualStorageResourceInfo new)
      in map (\<lambda>v. make_affected_vnfc v REMOVED (set removed_strgs)) (select_ids vr_id (removed_ids vr_id olds news) olds) @
         map (\<lambda>v. make_affected_vnfc v ADDED (set added_strgs)) (select_ids vr_id (added_ids vr_id olds news) news))"

definition vnfc_by_id :: "string \<Rightarrow> vnfc_resource list \<Rightarrow> vnfc_resource" where
  "vnfc_by_id i vnfcs = hd (filter (\<lambda>v. vr_id v = i) vnfcs)"

definition modified_vnfc :: "vnfc_resource list \<Rightarrow> vnfc_resource list \<Rightarrow> string \<Rightarrow> affected_vnfc list pyres" where
  "modified_vnfc olds news i =
     (let vnfc = vnfc_by_id i news; vnfc_saved = vnfc_by_id i olds in
      bindE (attr ''metadata'' (vr_metadata vnfc)) (\<lambda>m.
      bindE (attr ''metadata'' (vr_metadata vnfc_saved)) (\<lambda>m_saved.
        if dict_eq m m_saved then Inr []
        else bindE (make_affected_vnfc_modified vnfc vnfc_saved) (\<lambda>a. Inr [a]))))"

definition affected_vnfcs_modified :: "inst_vnf_info \<Rightarrow> inst_vnf_info \<Rightarrow> affected_vnfc list pyres" where
  "affected_vnfcs_modified saved new =
     (let olds = iv_vnfcResourceInfo saved; news = iv_vnfcResourceInfo new in
      concatE (modified_vnfc (opt_list olds) (opt_list news)) (common_ids vr_id olds news))"

definition vl_changes :: "change_type \<Rightarrow> change_type \<Rightarrow> vl_info list option \<Rightarrow> vl_info list option \<Rightarrow>
    affected_vl list" where
  "vl_changes removed added olds news =
     map (\<lambda>vl. make_affected_vl vl removed) (select_ids vl_id (removed_ids vl_id olds news) olds) @
     map (\<lambda>vl. make_affected_vl vl added) (select_ids vl_id (added_ids vl_id olds news) news) @
     make_affected_vls_link_port_change (opt_list olds) (opt_list news) (common_ids vl_id olds news)"

definition affected_vls :: "inst_vnf_info \<Rightarrow> inst_vnf_info \<Rightarrow> affected_vl list" where
  "affected_vls saved new =
     vl_changes REMOVED ADDED (iv_vnfVirtualLinkResourceInfo saved) (iv_vnfVirtualLinkResourceInfo new) @
     vl_changes LINK_PORT_REMOVED LINK_PORT_ADDED
       (iv_extManagedVirtualLinkInfo saved) (iv_extManagedVirtualLinkInfo new)"

definition set_resource_changes :: "affected_vnfc list \<Rightarrow> affected_vl list \<Rightarrow> affected_strg list \<Rightarrow>
    affected_port list \<Rightarrow> lcm_op_occ \<Rightarrow> lcm_op_occ" where
  "set_resource_changes vnfcs vls strgs ports lcmocc =
     (if vnfcs = [] \<and> vls = [] \<and> strgs = [] \<and> ports = [] then lcmocc
      else lcmocc\<lparr>oc_resourceChanges := Some
        \<lparr>rc_affectedVnfcs = non_empty vnfcs, rc_affectedVirtualLinks = non_empty vls,
         rc_affectedVirtualStorages = non_empty strgs, rc_affectedExtLinkPorts = non_empty ports\<rparr>\<rparr>)"

definition cp_config_to_dict :: "cp_config \<Rightarrow> json" where
  "cp_config_to_dict c = JObj (opt_entry ''parentCpConfigId'' JStr (cc_parentCpConfigId c) @
     opt_entry ''linkPortId'' JStr (cc_linkPortId c) @ opt_entry ''cpProtocolData'' id (cc_cpProtocolData c))"

definition ext_cp_to_dict :: "ext_cp_data \<Rightarrow> json" where
  "ext_cp_to_dict cp = JObj [(''cpdId'', JStr (xcd_cpdId cp)),
     (''cpConfig'', JObj (map (\<lambda>(k, c). (k, cp_config_to_dict c)) (xcd_cpConfig cp)))]"

definition sorted_cp_data :: "ext_vl_info \<Rightarrow> json" where
  "sorted_cp_data vl = JArr (map ext_cp_to_dict (sort_key xcd_cpdId (opt_list (xvl_currentVnfExtCpData vl))))"

definition port_keys :: "ext_vl_info \<Rightarrow> (string \<times> string) set" where
  "port_keys vl = (\<lambda>p. (lp_id p, rh_resourceId (lp_resourceHandle p))) ` set (opt_list (xvl_extLinkPorts vl))"

definition ext_vl_by_id :: "string \<Rightarrow> ext_vl_info list \<Rightarrow> ext_vl_info" where
  "ext_vl_by_id i vls = hd (filter (\<lambda>vl. xvl_id vl = i) vls)"

definition ext_vl_changed :: "ext_vl_info \<Rightarrow> ext_vl_info \<Rightarrow> bool" where
  "ext_vl_changed vl vl_saved \<longleftrightarrow>
     \<not> json_eq (sorted_cp_data vl) (sorted_cp_data vl_saved) \<or> port_keys vl \<noteq> port_keys vl_saved"

definition changed_ext_conn :: "inst_vnf_info \<Rightarrow> inst_vnf_info \<Rightarrow> ext_vl_info list" where
  "changed_ext_conn saved new =
     (let olds = iv_extVirtualLinkInfo saved; news = iv_extVirtualLinkInfo new in
      map (\<lambda>i. ext_vl_by_id i (opt_list news)) (added_ids xvl_id olds news) @
      concat (map (\<lambda>i. let vl = ext_vl_by_id i (opt_list news) in
        if ext_vl_changed vl (ext_vl_by_id i (opt_list olds)) then [vl] else [])
        (common_ids xvl_id olds news)))"

text \<open>Nothing is set in the dummy of an instance that was never instantiated; its two required
  attributes are not read.\<close>

definition dummy_info :: inst_vnf_info where
  "dummy_info = new_inst_vnf_info [] STOPPED"

definition inst_info_of :: "vnf_instance \<Rightarrow> inst_vnf_info" where
  "inst_info_of inst = (case in_instantiatedVnfInfo inst of None \<Rightarrow> dummy_info | Some i \<Rightarrow> i)"

definition update_lcmocc :: "vnf_instance \<Rightarrow> vnf_instance \<Rightarrow> (lcm_op_occ, exn, unit) sem" where
  "update_lcmocc inst_saved inst lcmocc =
     (if oc_operation lcmocc = MODIFY_INFO then (Inr (), change_vnf_info lcmocc inst_saved inst)
      else let saved = inst_info_of inst_saved in
       (bindS (liftS (attr ''instantiatedVnfInfo'' (in_instantiatedVnfInfo inst))) (\<lambda>info.
        bindS (if oc_operation lcmocc = CHANGE_VNFPKG
               then bindS (liftS (affected_vnfcs_modified saved info)) (\<lambda>ms.
                      bindS (modS (\<lambda>l. create_modifications_triggered_by_vnfpkg_change l inst_saved inst))
                        (\<lambda>_. retS ms))
               else retS []) (\<lambda>modified.
        bindS (liftS (make_affected_ext_link_ports saved info)) (\<lambda>ports.
        bindS (modS (set_resource_changes (affected_vnfcs saved info @ modified)
                 (affected_vls saved info) (affected_strgs saved info) ports)) (\<lambda>_.
          whenS (oc_operation lcmocc = CHANGE_EXT_CONN \<and> changed_ext_conn saved info \<noteq> [])
            (modS (\<lambda>l. l\<lparr>oc_changedExtConnectivity := Some (changed_ext_conn saved info)\<rparr>))))))) lcmocc)"

subsection \<open>Queries, status and creation\<close>

definition latest_first :: "lcm_op_occ list \<Rightarrow> lcm_op_occ list" where
  "latest_first occs = filter (\<lambda>o1. \<forall>o2 \<in> set occs. oc_startTime o2 \<le> oc_startTime o1) occs"

definition first_of :: "'a list \<Rightarrow> 'a pyres" where
  "first_of xs = (case xs of [] \<Rightarrow> Inl (PyExc IndexError ''list index out of range'') | x # _ \<Rightarrow> Inr x)"

definition get_inst_lcmocc :: "world \<Rightarrow> vnf_instance \<Rightarrow> lcm_op_occ pyres" where
  "get_inst_lcmocc w inst = first_of (latest_first (row_filter (\<lambda>l. oc_vnfInstanceId l = in_id inst \<and>
     oc_operationState l = COMPLETED \<and> oc_operation l = INSTANTIATE) (w_occs w)))"

definition get_grant_req_and_grant :: "lcm_op_occ \<Rightarrow> (grant_request \<times> grant) option vnfm" where
  "get_grant_req_and_grant lcmocc w =
     (if oc_operation lcmocc = MODIFY_INFO then (Inr None, w)
      else (bindE (attr ''grantId'' (oc_grantId lcmocc)) (\<lambda>grant_id.
        case (row_filter (\<lambda>q. gq_vnfLcmOpOccId q = oc_id lcmocc) (w_grant_reqs w),
              row_find gr_id (w_grants w) grant_id) of
          (q # _, Some g) \<Rightarrow> Inr (Some (q, g))
        | _ \<Rightarrow> Inl (Sol (GrantRequestOrGrantNotFound (oc_id lcmocc)))), w))"

definition is_lcmocc_failure_status :: "world \<Rightarrow> string \<Rightarrow> bool pyres" where
  "is_lcmocc_failure_status w inst_id =
     (let occs = row_filter (\<lambda>l. oc_vnfInstanceId l = inst_id) (w_occs w) in
      if filter (\<lambda>l. oc_operationState l = FAILED_TEMP) occs \<noteq> [] then Inr True
      else bindE (first_of (latest_first occs)) (\<lambda>l. Inr (oc_operationState l = FAILED)))"

definition check_lcmocc_in_progress :: "string \<Rightarrow> unit vnfm" where
  "check_lcmocc_in_progress inst_id w =
     (if row_filter (\<lambda>l. oc_vnfInstanceId l = inst_id \<and> oc_operationState l = FAILED_TEMP) (w_occs w) \<noteq> []
      then (Inl (Sol (OtherOperationInProgress inst_id)), w) else (Inr (), w))"

definition update_lcmocc_status :: "env \<Rightarrow> op_state \<Rightarrow> lcm_op_occ \<Rightarrow> lcm_op_occ vnfm" where
  "update_lcmocc_status env op_state lcmocc =
     bindS (utcnow env) (\<lambda>now. retS (lcmocc\<lparr>oc_operationState := op_state, oc_stateEnteredTime := now\<rparr>))"

definition new_lcmocc :: "env \<Rightarrow> string \<Rightarrow> op_type \<Rightarrow> op_params \<Rightarrow> op_state \<Rightarrow> bool \<Rightarrow> lcm_op_occ vnfm" where
  "new_lcmocc env inst_id operation req op_state auto_invocation =
     bindS (utcnow env) (\<lambda>now. bindS (generate_uuid env) (\<lambda>i. retS
       \<lparr>oc_id = i, oc_operationState = op_state, oc_stateEnteredTime = now, oc_startTime = now,
        oc_vnfInstanceId = inst_id, oc_grantId = None, oc_operation = operation,
        oc_isAutomaticInvocation = auto_invocation, oc_operationParams = req,
        oc_isCancelPending = False, oc_error = None, oc_resourceChanges = None,
        oc_changedInfo = None, oc_changedExtConnectivity = None,
        oc_modificationsTriggeredByVnfPkgChange = None\<rparr>))"

subsection \<open>The differences are the symmetric difference of the resources\<close>

definition res_ids :: "('a \<Rightarrow> string) \<Rightarrow> 'a list option \<Rightarrow> string set" where
  "res_ids key xs = key ` set (opt_list xs)"

definition affected_ids :: "('a \<Rightarrow> string) \<Rightarrow> ('a \<Rightarrow> change_type) \<Rightarrow> change_type \<Rightarrow> 'a list option \<Rightarrow>
    string set" where
  "affected_ids key ty c xs = key ` {x \<in> set (opt_list xs). ty x = c}"

lemma opt_list_simps [simp]: "opt_list None = []" "opt_list (Some xs) = xs"
  by (simp_all add: opt_list_def)

lemma opt_list_non_empty [simp]: "opt_list (non_empty xs) = xs"
  by (simp add: non_empty_def)

lemma set_removed_ids: "set (removed_ids key olds news) = res_ids key olds - res_ids key news"
  by (auto simp: removed_ids_def calc_diff_def res_ids_def Let_def)

lemma set_added_ids: "set (added_ids key olds news) = res_ids key news - res_ids key olds"
  by (auto simp: added_ids_def calc_diff_def res_ids_def Let_def)

lemma set_common_ids: "set (common_ids key olds news) = res_ids key olds \<inter> res_ids key news"
  by (auto simp: common_ids_def calc_diff_def res_ids_def Let_def)

lemma image_select_ids: "key ` set (select_ids key ids xs) = set ids \<inter> res_ids key xs"
  by (auto simp: select_ids_def res_ids_def)

lemma removed_added_types:
  assumes "\<And>x. ty (rm x) = REMOVED" and "\<And>x. ty (ad x) = ADDED"
    and "\<And>x. key (rm x) = k x" and "\<And>x. key (ad x) = k x"
    and "\<And>x. x \<in> set rest \<Longrightarrow> ty x \<notin> {REMOVED, ADDED}"
  shows "key ` {x \<in> set (map rm olds @ map ad news @ rest). ty x = REMOVED} = k ` set olds"
    and "key ` {x \<in> set (map rm olds @ map ad news @ rest). ty x = ADDED} = k ` set news"
proof -
  have "{x \<in> set (map rm olds @ map ad news @ rest). ty x = REMOVED} = rm ` set olds"
    using assms(1,2,5) by fastforce
  then show "key ` {x \<in> set (map rm olds @ map ad news @ rest). ty x = REMOVED} = k ` set olds"
    by (simp add: image_image assms(3))
  have "{x \<in> set (map rm olds @ map ad news @ rest). ty x = ADDED} = ad ` set news"
    using assms(1,2,5) by fastforce
  then show "key ` {x \<in> set (map rm olds @ map ad news @ rest). ty x = ADDED} = k ` set news"
    by (simp add: image_image assms(4))
qed

lemma modified_type:
  "affected_vnfcs_modified saved info = Inr ms \<Longrightarrow> x \<in> set ms \<Longrightarrow> av_changeType x = MODIFIED"
proof -
  assume ms: "affected_vnfcs_modified saved info = Inr ms" and x: "x \<in> set ms"
  have one: "av_changeType a = MODIFIED" if "modified_vnfc olds news i = Inr as" "a \<in> set as" for olds news i as a
    using that
    by (auto simp: modified_vnfc_def Let_def bindE_eq_Inr make_affected_vnfc_modified_def
        split: if_splits)
  have "\<forall>a \<in> set as. av_changeType a = MODIFIED" if "concatE (modified_vnfc olds news) is = Inr as" for olds news "is" as
    using that
  proof (induction "is" arbitrary: as)
    case Nil
    then show ?case by simp
  next
    case (Cons i js)
    then obtain ys zs where "modified_vnfc olds news i = Inr ys" "concatE (modified_vnfc olds news) js = Inr zs"
      "as = ys @ zs"
      by (auto simp: bindE_eq_Inr)
    with Cons.IH one show ?case by auto
  qed
  with ms x show ?thesis by (auto simp: affected_vnfcs_modified_def Let_def)
qed

lemma link_port_change_type:
  "x \<in> set (make_affected_vls_link_port_change a b c) \<Longrightarrow> al_changeType x \<notin> {REMOVED, ADDED}"
  by (auto simp: make_affected_vls_link_port_change_def Let_def link_port_change_def split: if_splits)

lemma managed_vl_type:
  "x \<in> set (vl_changes LINK_PORT_REMOVED LINK_PORT_ADDED a b) \<Longrightarrow> al_changeType x \<notin> {REMOVED, ADDED}"
  using link_port_change_type by (fastforce simp: vl_changes_def make_affected_vl_def)

lemma affected_vnfcs_ids:
  assumes "affected_vnfcs_modified saved info = Inr ms \<or> ms = []"
  shows "affected_ids av_id av_changeType REMOVED (Some (affected_vnfcs saved info @ ms)) =
      res_ids vr_id (iv_vnfcResourceInfo saved) - res_ids vr_id (iv_vnfcResourceInfo info)"
    and "affected_ids av_id av_changeType ADDED (Some (affected_vnfcs saved info @ ms)) =
      res_ids vr_id (iv_vnfcResourceInfo info) - res_ids vr_id (iv_vnfcResourceInfo saved)"
proof -
  have mods: "av_changeType x \<notin> {REMOVED, ADDED}" if "x \<in> set ms" for x
    using assms that modified_type by fastforce
  note types = removed_added_types [where ty = av_changeType and key = av_id and k = vr_id and rest = ms,
      OF _ _ _ _ mods]
  show "affected_ids av_id av_changeType REMOVED (Some (affected_vnfcs saved info @ ms)) =
      res_ids vr_id (iv_vnfcResourceInfo saved) - res_ids vr_id (iv_vnfcResourceInfo info)"
    unfolding affected_ids_def affected_vnfcs_def Let_def opt_list_simps append_assoc
    by (subst types(1)) (auto simp: make_affected_vnfc_def Let_def image_select_ids set_removed_ids)
  show "affected_ids av_id av_changeType ADDED (Some (affected_vnfcs saved info @ ms)) =
      res_ids vr_id (iv_vnfcResourceInfo info) - res_ids vr_id (iv_vnfcResourceInfo saved)"
    unfolding affected_ids_def affected_vnfcs_def Let_def opt_list_simps append_assoc
    by (subst types(2)) (auto simp: make_affected_vnfc_def Let_def image_select_ids set_added_ids)
qed

lemma affected_strgs_ids:
  shows "affected_ids as_id as_changeType REMOVED (Some (affected_strgs saved info)) =
      res_ids vs_id (iv_virtualStorageResourceInfo saved) - res_ids vs_id (iv_virtualStorageResourceInfo info)"
    and "affected_ids as_id as_changeType ADDED (Some (affected_strgs saved info)) =
      res_ids vs_id (iv_virtualStorageResourceInfo info) - res_ids vs_id (iv_virtualStorageResourceInfo saved)"
proof -
  note types = removed_added_types [where ty = as_changeType and key = as_id and k = vs_id and rest = "[]",
      unfolded append_Nil2]
  show "affected_ids as_id as_changeType REMOVED (Some (affected_strgs saved info)) =
      res_ids vs_id (iv_virtualStorageResourceInfo saved) - res_ids vs_id (iv_virtualStorageResourceInfo info)"
    unfolding affected_ids_def affected_strgs_def Let_def opt_list_simps
    by (subst types(1)) (auto simp: make_affected_strg_def image_select_ids set_removed_ids)
  show "affected_ids as_id as_changeType ADDED (Some (affected_strgs saved info)) =
      res_ids vs_id (iv_virtualStorageResourceInfo info) - res_ids vs_id (iv_virtualStorageResourceInfo saved)"
    unfolding affected_ids_def affected_strgs_def Let_def opt_list_simps
    by (subst types(2)) (auto simp: make_affected_strg_def image_select_ids set_added_ids)
qed

lemma affected_vls_ids:
  shows "affected_ids al_id al_changeType REMOVED (Some (affected_vls saved info)) =
      res_ids vl_id (iv_vnfVirtualLinkResourceInfo saved) - res_ids vl_id (iv_vnfVirtualLinkResourceInfo info)"
    and "affected_ids al_id al_changeType ADDED (Some (affected_vls saved info)) =
      res_ids vl_id (iv_vnfVirtualLinkResourceInfo info) - res_ids vl_id (iv_vnfVirtualLinkResourceInfo saved)"
proof -
  let ?rest = "make_affected_vls_link_port_change (opt_list (iv_vnfVirtualLinkResourceInfo saved))
      (opt_list (iv_vnfVirtualLinkResourceInfo info))
      (common_ids vl_id (iv_vnfVirtualLinkResourceInfo saved) (iv_vnfVirtualLinkResourceInfo info)) @
    vl_changes LINK_PORT_REMOVED LINK_PORT_ADDED
      (iv_extManagedVirtualLinkInfo saved) (iv_extManagedVirtualLinkInfo info)"
  have rest: "al_changeType x \<notin> {REMOVED, ADDED}" if "x \<in> set ?rest" for x
    using that link_port_change_type managed_vl_type by auto
  note types = removed_added_types [where ty = al_changeType and key = al_id and k = vl_id and rest = ?rest,
      OF _ _ _ _ rest]
  show "affected_ids al_id al_changeType REMOVED (Some (affected_vls saved info)) =
      res_ids vl_id (iv_vnfVirtualLinkResourceInfo saved) - res_ids vl_id (iv_vnfVirtualLinkResourceInfo info)"
    unfolding affected_ids_def affected_vls_def opt_list_simps
    unfolding vl_changes_def [of REMOVED ADDED] append_assoc
    by (subst types(1)) (auto simp: make_affected_vl_def image_select_ids set_removed_ids)
  show "affected_ids al_id al_changeType ADDED (Some (affected_vls saved info)) =
      res_ids vl_id (iv_vnfVirtualLinkResourceInfo info) - res_ids vl_id (iv_vnfVirtualLinkResourceInfo saved)"
    unfolding affected_ids_def affected_vls_def opt_list_simps
    unfolding vl_changes_def [of REMOVED ADDED] append_assoc
    by (subst types(2)) (auto simp: make_affected_vl_def image_select_ids set_added_ids)
qed

lemma mapE_ports:
  assumes "mapE (make_affected_port c) ps = Inr qs"
  shows "ap_id ` set qs = lp_id ` set ps \<and> (\<forall>q \<in> set qs. ap_changeType q = c)"
  using assms
proof (induction ps arbitrary: qs)
  case Nil
  then show ?case by simp
next
  case (Cons p ps)
  then obtain q rs where q: "make_affected_port c p = Inr q" "mapE (make_affected_port c) ps = Inr rs" "qs = q # rs"
    by (auto simp: bindE_eq_Inr)
  then have "ap_id q = lp_id p \<and> ap_changeType q = c"
    by (auto simp: make_affected_port_def bindE_eq_Inr)
  with Cons.IH [OF q(2)] q(3) show ?case by simp
qed

lemma affected_ports_ids:
  assumes "make_affected_ext_link_ports saved info = Inr ports"
  shows "affected_ids ap_id ap_changeType REMOVED (Some ports) =
      lp_id ` set (ext_ports saved) - lp_id ` set (ext_ports info)"
    and "affected_ids ap_id ap_changeType ADDED (Some ports) =
      lp_id ` set (ext_ports info) - lp_id ` set (ext_ports saved)"
proof -
  from assms obtain add rem where
    add: "mapE (make_affected_port ADDED)
        (filter (\<lambda>p. lp_id p \<notin> lp_id ` set (ext_ports saved)) (ext_ports info)) = Inr add" and
    rem: "mapE (make_affected_port REMOVED)
        (filter (\<lambda>p. lp_id p \<notin> lp_id ` set (ext_ports info)) (ext_ports saved)) = Inr rem" and
    ports: "ports = add @ rem"
    by (auto simp: make_affected_ext_link_ports_def Let_def bindE_eq_Inr)
  have split: "{x \<in> set ports. ap_changeType x = ADDED} = set add"
    "{x \<in> set ports. ap_changeType x = REMOVED} = set rem"
    using mapE_ports [OF add] mapE_ports [OF rem] by (auto simp: ports)
  show "affected_ids ap_id ap_changeType REMOVED (Some ports) =
      lp_id ` set (ext_ports saved) - lp_id ` set (ext_ports info)"
    using mapE_ports [OF rem] by (auto simp: affected_ids_def split)
  show "affected_ids ap_id ap_changeType ADDED (Some ports) =
      lp_id ` set (ext_ports info) - lp_id ` set (ext_ports saved)"
    using mapE_ports [OF add] by (auto simp: affected_ids_def split)
qed

definition changes_of :: "lcm_op_occ \<Rightarrow> resource_changes" where
  "changes_of lcmocc = (case oc_resourceChanges lcmocc of None \<Rightarrow> no_changes | Some c \<Rightarrow> c)"

lemma changes_of_set:
  assumes "oc_resourceChanges lcmocc = None"
  shows "changes_of (set_resource_changes vnfcs vls strgs ports lcmocc) =
    \<lparr>rc_affectedVnfcs = non_empty vnfcs, rc_affectedVirtualLinks = non_empty vls,
     rc_affectedVirtualStorages = non_empty strgs, rc_affectedExtLinkPorts = non_empty ports\<rparr>"
  using assms by (simp add: changes_of_def set_resource_changes_def no_changes_def non_empty_def)

lemma affected_ids_non_empty [simp]: "affected_ids k ty c (non_empty xs) = affected_ids k ty c (Some xs)"
  by (simp add: affected_ids_def)

lemma update_lcmocc_changes:
  assumes "update_lcmocc inst_saved inst lcmocc = (Inr (), lcmocc')"
    and "oc_operation lcmocc \<noteq> MODIFY_INFO" and "oc_resourceChanges lcmocc = None"
  shows "\<exists>info ms ports. in_instantiatedVnfInfo inst = Some info \<and>
    (affected_vnfcs_modified (inst_info_of inst_saved) info = Inr ms \<or> ms = []) \<and>
    make_affected_ext_link_ports (inst_info_of inst_saved) info = Inr ports \<and>
    changes_of lcmocc' =
      \<lparr>rc_affectedVnfcs = non_empty (affected_vnfcs (inst_info_of inst_saved) info @ ms),
       rc_affectedVirtualLinks = non_empty (affected_vls (inst_info_of inst_saved) info),
       rc_affectedVirtualStorages = non_empty (affected_strgs (inst_info_of inst_saved) info),
       rc_affectedExtLinkPorts = non_empty ports\<rparr>"
proof -
  have upd: "changes_of (l\<lparr>oc_changedExtConnectivity := x\<rparr>) = changes_of l" for l x
    by (simp add: changes_of_def)
  from assms show ?thesis
    by (auto simp: update_lcmocc_def bindS_def Let_def attr_def upd changes_of_set
        create_modifications_triggered_by_vnfpkg_change_def
        split: if_splits option.splits sum.splits prod.splits)
qed

text \<open>
  C21: After a successful operation other than MODIFY_INFO the occurrence's resource changes
  are exactly the symmetric difference of the resources before and after: the ids reported
  as REMOVED (ADDED) are the ids that were there before and are not there any more (that are
  new), for VNFCs, virtual links, virtual storages and external link ports alike.
\<close>

theorem update_lcmocc_symmetric_difference:
  assumes "update_lcmocc inst_saved inst lcmocc = (Inr (), lcmocc')"
    and "oc_operation lcmocc \<noteq> MODIFY_INFO" and "oc_resourceChanges lcmocc = None"
  shows "let old = inst_info_of inst_saved; new = inst_info_of inst; c = changes_of lcmocc' in
    affected_ids av_id av_changeType REMOVED (rc_affectedVnfcs c) =
      res_ids vr_id (iv_vnfcResourceInfo old) - res_ids vr_id (iv_vnfcResourceInfo new) \<and>
    affected_ids av_id av_changeType ADDED (rc_affectedVnfcs c) =
      res_ids vr_id (iv_vnfcResourceInfo new) - res_ids vr_id (iv_vnfcResourceInfo old) \<and>
    affected_ids al_id al_changeType REMOVED (rc_affectedVirtualLinks c) =
      res_ids vl_id (iv_vnfVirtualLinkResourceInfo old) - res_ids vl_id (iv_vnfVirtualLinkResourceInfo new) \<and>
    affected_ids al_id al_changeType ADDED (rc_affectedVirtualLinks c) =
      res_ids vl_id (iv_vnfVirtualLinkResourceInfo new) - res_ids vl_id (iv_vnfVirtualLinkResourceInfo old) \<and>
    affected_ids as_id as_changeType REMOVED (rc_affectedVirtualStorages c) =
      res_ids vs_id (iv_virtualStorageResourceInfo old) - res_ids vs_id (iv_virtualStorageResourceInfo new) \<and>
    affected_ids as_id as_changeType ADDED (rc_affectedVirtualStorages c) =
      res_ids vs_id (iv_virtualStorageResourceInfo new) - res_ids vs_id (iv_virtualStorageResourceInfo old) \<and>
    affected_ids ap_id ap_changeType REMOVED (rc_affectedExtLinkPorts c) =
      lp_id ` set (ext_ports old) - lp_id ` set (ext_ports new) \<and>
    affected_ids ap_id ap_changeType ADDED (rc_affectedExtLinkPorts c) =
      lp_id ` set (ext_ports new) - lp_id ` set (ext_ports old)"
proof -
  obtain info ms ports where info: "in_instantiatedVnfInfo inst = Some info"
    and ms: "affected_vnfcs_modified (inst_info_of inst_saved) info = Inr ms \<or> ms = []"
    and ports: "make_affected_ext_link_ports (inst_info_of inst_saved) info = Inr ports"
    and c: "changes_of lcmocc' =
      \<lparr>rc_affectedVnfcs = non_empty (affected_vnfcs (inst_info_of inst_saved) info @ ms),
       rc_affectedVirtualLinks = non_empty (affected_vls (inst_info_of inst_saved) info),
       rc_affectedVirtualStorages = non_empty (affected_strgs (inst_info_of inst_saved) info),
       rc_affectedExtLinkPorts = non_empty ports\<rparr>"
    using update_lcmocc_changes [OF assms] by blast
  have new: "inst_info_of inst = info" using info by (simp add: inst_info_of_def)
  show ?thesis
    by (simp add: Let_def c new affected_vnfcs_ids [OF ms] affected_vls_ids affected_strgs_ids
        affected_ports_ids [OF ports])
qed

theorem update_lcmocc_symmetric_difference_witness:
  "\<exists>l. update_lcmocc (ex_inst\<lparr>in_instantiatedVnfInfo := Some (ex_info\<lparr>iv_vnfcResourceInfo := Some [ex_vnfc ''a'', ex_vnfc ''c'']\<rparr>)\<rparr>)
      ex_inst (ex_occ SCALE (ex_scale ''SCALE_OUT'') PROCESSING) = (Inr (), l) \<and>
    affected_ids av_id av_changeType ADDED (rc_affectedVnfcs (changes_of l)) = {''b''} \<and>
    affected_ids av_id av_changeType REMOVED (rc_affectedVnfcs (changes_of l)) = {''c''}"
proof -
  let ?old = "ex_inst\<lparr>in_instantiatedVnfInfo := Some (ex_info\<lparr>iv_vnfcResourceInfo := Some [ex_vnfc ''a'', ex_vnfc ''c'']\<rparr>)\<rparr>"
  let ?l = "ex_occ SCALE (ex_scale ''SCALE_OUT'') PROCESSING"
  have "\<exists>u l. update_lcmocc ?old ex_inst ?l = (Inr u, l)" by (rule returns) code_simp
  then obtain l where l: "update_lcmocc ?old ex_inst ?l = (Inr (), l)" by auto
  have "oc_operation ?l \<noteq> MODIFY_INFO" "oc_resourceChanges ?l = None" by (simp_all add: ex_occ_def)
  note diff = update_lcmocc_symmetric_difference [OF l this]
  have "res_ids vr_id (iv_vnfcResourceInfo (inst_info_of ?old)) = {''a'', ''c''}"
    "res_ids vr_id (iv_vnfcResourceInfo (inst_info_of ex_inst)) = {''a'', ''b''}"
    by (auto simp: inst_info_of_def res_ids_def ex_inst_def ex_info_def ex_vnfc_def)
  with l diff show ?thesis unfolding Let_def by auto
qed

end
