(* ===== verification/Grant_Request.thy ===== *)
theory Grant_Request
  imports Lcm_Op_Occ
begin

section \<open>Building the grant request (conductor/vnflcm\_driver\_v2.py)\<close>

text \<open>
  The \<^verbatim>\<open>..._grant\<close> methods of \<^verbatim>\<open>VnfLcmDriverV2\<close>: which resources an operation asks the NFVO to
  add, remove and update. They draw UUIDs and raise, and have no other effect: each is a
  stateful call on the number of UUIDs drawn so far, and \<open>gen\<close> is the stream of UUIDs.

  The code keeps references into the list of resources to remove (\<^verbatim>\<open>vnfc_cps\<close>,
  \<^verbatim>\<open>rm_vnfc_cps\<close>) and fills the handles of the ports through them. The model keeps the
  position in the list; a later port with the same key takes the reference over, as the
  dictionary of the code does.
\<close>

type_synonym 'a drawing = "(nat, exn, 'a) sem"

definition new_id :: "(nat \<Rightarrow> string) \<Rightarrow> string drawing" where
  "new_id gen n = (Inr (gen n), Suc n)"

definition get_obj_by_id :: "('a \<Rightarrow> string) \<Rightarrow> string \<Rightarrow> 'a list \<Rightarrow> 'a option" where
  "get_obj_by_id key obj_id objs = List.find (\<lambda>x. key x = obj_id) objs"

definition make_combination_id :: "string \<Rightarrow> string \<Rightarrow> string" where
  "make_combination_id a b = a @ ''-'' @ b"

definition res_def_new :: "string \<Rightarrow> res_type \<Rightarrow> string \<Rightarrow> resource_handle option \<Rightarrow> res_def" where
  "res_def_new i ty name h =
     \<lparr>rd_id = i, rd_type = ty, rd_resourceTemplateId = name, rd_resource = h\<rparr>"

text \<open>An attribute of \<open>None\<close> is read when an object is not found.\<close>

definition found :: "string \<Rightarrow> 'a option \<Rightarrow> 'a pyres" where
  "found name x = (case x of None \<Rightarrow> Inl (attr_error JNull name) | Some v \<Rightarrow> Inr v)"

definition storage_by_id :: "inst_vnf_info \<Rightarrow> string \<Rightarrow> storage_resource pyres" where
  "storage_by_id info i =
     bindE (attr ''virtualStorageResourceInfo'' (iv_virtualStorageResourceInfo info))
       (\<lambda>strs. found ''virtualStorageDescId'' (get_obj_by_id vs_id i strs))"

subsection \<open>New VDUs\<close>

definition new_vdu_reses :: "string \<Rightarrow> string \<Rightarrow> string list \<Rightarrow> string list \<Rightarrow> res_def list" where
  "new_vdu_reses i vdu_name cp_names storage_names =
     res_def_new i COMPUTE vdu_name None #
     map (\<lambda>cp. res_def_new (make_combination_id cp i) LINKPORT cp None) cp_names @
     map (\<lambda>st. res_def_new (make_combination_id st i) STORAGE st None) storage_names"

fun make_res_def_for_new_vdu :: "(nat \<Rightarrow> string) \<Rightarrow> string \<Rightarrow> nat \<Rightarrow> string list \<Rightarrow> string list \<Rightarrow>
    res_def list drawing" where
  "make_res_def_for_new_vdu gen vdu_name 0 cp_names storage_names = retS []"
| "make_res_def_for_new_vdu gen vdu_name (Suc k) cp_names storage_names =
     bindS (new_id gen) (\<lambda>i.
     bindS (make_res_def_for_new_vdu gen vdu_name k cp_names storage_names) (\<lambda>rest.
       retS (new_vdu_reses i vdu_name cp_names storage_names @ rest)))"

definition get_link_ports :: "op_params \<Rightarrow> string list" where
  "get_link_ports inst_req =
     [xcd_cpdId ext_cp. ext_vl \<leftarrow> opt_list (rq_extVirtualLinks inst_req), ext_cp \<leftarrow> xvd_extCps ext_vl,
        c \<leftarrow> map snd (xcd_cpConfig ext_cp), cc_linkPortId c \<noteq> None] @
     [xmd_vnfVirtualLinkDescId vl. vl \<leftarrow> opt_list (rq_extManagedVirtualLinks inst_req),
        xmd_vnfLinkPort vl \<noteq> None]"

subsection \<open>Placement constraints\<close>

definition char_upper :: "char \<Rightarrow> char" where
  "char_upper c = (if 97 \<le> (of_char c :: nat) \<and> (of_char c :: nat) \<le> 122
     then char_of ((of_char c :: nat) - 32) else c)"

definition grant_refs :: "json list \<Rightarrow> res_def list \<Rightarrow> constraint_ref list" where
  "grant_refs targets add_reses =
     map (\<lambda>r. \<lparr>cr_idType = GRANT, cr_resourceId = rd_id r, cr_vimConnectionId = None\<rparr>)
       (filter (\<lambda>r. JStr (rd_resourceTemplateId r) \<in> set targets) add_reses)"

definition inst_vnfcs :: "vnf_instance \<Rightarrow> vnfc_resource list" where
  "inst_vnfcs inst = (case in_instantiatedVnfInfo inst of None \<Rightarrow> []
     | Some info \<Rightarrow> opt_list (iv_vnfcResourceInfo info))"

definition mgmt_refs :: "json list \<Rightarrow> vnf_instance \<Rightarrow> constraint_ref list pyres" where
  "mgmt_refs targets inst =
     mapE (\<lambda>v. bindE (attr ''vimConnectionId'' (rh_vimConnectionId (vr_computeResource v))) (\<lambda>c.
         Inr \<lparr>cr_idType = RES_MGMT, cr_resourceId = rh_resourceId (vr_computeResource v),
              cr_vimConnectionId = Some c\<rparr>))
       (filter (\<lambda>v. JStr (vr_vduId v) \<in> set targets) (inst_vnfcs inst))"

text \<open>The two tests of the loop end the loop (\<open>break\<close>).\<close>

fun placement_loop :: "env \<Rightarrow> affinity \<Rightarrow> res_def list \<Rightarrow> vnf_instance \<Rightarrow> (json list \<times> string) list \<Rightarrow>
    placement_constraint list pyres" where
  "placement_loop env key add_reses inst [] = Inr []"
| "placement_loop env key add_reses inst ((targets, scope) # policies) =
     (let res_refs = grant_refs targets add_reses in
      if res_refs = [] then Inr []
      else bindE (mgmt_refs targets inst) (\<lambda>refs.
        if length (res_refs @ refs) < 2 then Inr []
        else bindE (placement_loop env key add_reses inst policies) (\<lambda>rest.
          Inr (\<lparr>pc_affinityOrAntiAffinity = key, pc_scope = map char_upper scope,
                pc_resource = res_refs @ refs,
                pc_fallbackBestEffort = ev_fallback_best_effort env\<rparr> # rest))))"

definition opt_str :: "string option \<Rightarrow> json" where
  "opt_str x = (case x of None \<Rightarrow> JNull | Some s \<Rightarrow> JStr s)"

definition make_placementconstraints :: "env \<Rightarrow> vnfd \<Rightarrow> res_def list \<Rightarrow> vnf_instance \<Rightarrow> grant_request \<Rightarrow>
    grant_request pyres" where
  "make_placementconstraints env vnfd add_reses inst grant_req =
     bindE (get_affinity_targets vnfd (opt_str (gq_flavourId grant_req))) (\<lambda>aff.
     bindE (get_anti_affinity_targets vnfd (opt_str (gq_flavourId grant_req))) (\<lambda>anti.
     bindE (placement_loop env AFFINITY add_reses inst aff) (\<lambda>c1.
     bindE (placement_loop env ANTI_AFFINITY add_reses inst anti) (\<lambda>c2.
       Inr (if c1 @ c2 = [] then grant_req
            else grant_req\<lparr>gq_placementConstraints := Some (c1 @ c2)\<rparr>)))))"

subsection \<open>Instantiate\<close>

fun instantiate_vdus :: "env \<Rightarrow> vnfd \<Rightarrow> json \<Rightarrow> json \<Rightarrow> string list \<Rightarrow> (string, json) dict \<Rightarrow> res_def list drawing" where
  "instantiate_vdus env vnfd flavour inst_level link_port_names [] = retS []"
| "instantiate_vdus env vnfd flavour inst_level link_port_names ((name, node) # nodes) =
     bindS (liftS (bindE (get_vdu_num vnfd flavour name inst_level) (\<lambda>num_j.
        bindE (get_vdu_cps vnfd flavour name) (\<lambda>cps.
        bindE (get_vdu_storages node) (\<lambda>strs.
        bindE (as_int num_j) (\<lambda>num.
        bindE (mapE as_str strs) (\<lambda>str_names. Inr (num, cps, str_names)))))))) (\<lambda>(num, cps, str_names).
     bindS (make_res_def_for_new_vdu (ev_uuid env) name (nat num)
        (filter (\<lambda>c. c \<notin> set link_port_names) (remdups cps)) str_names) (\<lambda>reses.
     bindS (instantiate_vdus env vnfd flavour inst_level link_port_names nodes) (\<lambda>rest.
       retS (reses @ rest))))"

fun instantiate_vls :: "(nat \<Rightarrow> string) \<Rightarrow> string list \<Rightarrow> string list \<Rightarrow> res_def list drawing" where
  "instantiate_vls gen ext_mgd_vls [] = retS []"
| "instantiate_vls gen ext_mgd_vls (name # names) =
     (if name \<in> set ext_mgd_vls then instantiate_vls gen ext_mgd_vls names
      else bindS (new_id gen) (\<lambda>i. bindS (instantiate_vls gen ext_mgd_vls names) (\<lambda>rest.
             retS (res_def_new i VL name None # rest))))"

definition set_add :: "res_def list \<Rightarrow> grant_request \<Rightarrow> grant_request" where
  "set_add reses q = (if reses = [] then q else q\<lparr>gq_addResources := Some reses\<rparr>)"

definition set_remove :: "res_def list \<Rightarrow> grant_request \<Rightarrow> grant_request" where
  "set_remove reses q = (if reses = [] then q else q\<lparr>gq_removeResources := Some reses\<rparr>)"

definition set_update :: "res_def list \<Rightarrow> grant_request \<Rightarrow> grant_request" where
  "set_update reses q = (if reses = [] then q else q\<lparr>gq_updateResources := Some reses\<rparr>)"

definition set_params :: "op_params \<Rightarrow> grant_request \<Rightarrow> grant_request" where
  "set_params req q = (case rq_additionalParams req of None \<Rightarrow> q
     | Some p \<Rightarrow> q\<lparr>gq_additionalParams := Some p\<rparr>)"

definition instantiate_grant :: "env \<Rightarrow> op_params \<Rightarrow> vnf_instance \<Rightarrow> vnfd \<Rightarrow> grant_request \<Rightarrow>
    grant_request drawing" where
  "instantiate_grant env req inst vnfd grant_req =
     bindS (liftS (attr ''flavourId'' (rq_flavourId req))) (\<lambda>flavour_id.
     bindS (liftS (find_flavour (vd_definitions vnfd) (JStr flavour_id))) (\<lambda>fl.
     if fl = None then raiseS (Sol (FlavourIdNotFound flavour_id))
     else
     bindS (liftS (case rq_instantiationLevelId req of
              Some l \<Rightarrow> Inr (JStr l, Some l)
            | None \<Rightarrow> bindE (get_default_instantiation_level vnfd (JStr flavour_id)) (\<lambda>l. Inr (l, None))))
       (\<lambda>(inst_level, level_id).
     bindS (liftS (get_vdu_nodes vnfd (JStr flavour_id))) (\<lambda>nodes.
     bindS (instantiate_vdus env vnfd (JStr flavour_id) inst_level (get_link_ports req) nodes) (\<lambda>vdu_reses.
     bindS (liftS (get_virtual_link_nodes vnfd (JStr flavour_id))) (\<lambda>vl_nodes.
     bindS (instantiate_vls (ev_uuid env)
        (map xmd_vnfVirtualLinkDescId (opt_list (rq_extManagedVirtualLinks req))) (map fst vl_nodes)) (\<lambda>vl_reses.
     bindS (liftS (make_placementconstraints env vnfd (vdu_reses @ vl_reses) inst
        (set_add (vdu_reses @ vl_reses)
          (grant_req\<lparr>gq_flavourId := Some flavour_id, gq_instantiationLevelId := level_id\<rparr>)))) (\<lambda>q.
       retS (set_params req q)))))))))"

subsection \<open>Removing VNFCs: terminate, scale in and heal\<close>

record rm_acc =
  ra_rm :: "res_def list"
  ra_add :: "res_def list"
  ra_cps :: "(string, nat) dict"

definition empty_acc :: rm_acc where
  "empty_acc = \<lparr>ra_rm = [], ra_add = [], ra_cps = []\<rparr>"

definition acc_push :: "res_def \<Rightarrow> res_def option \<Rightarrow> rm_acc \<Rightarrow> rm_acc" where
  "acc_push rm add a = a\<lparr>ra_rm := ra_rm a @ [rm],
     ra_add := ra_add a @ (case add of None \<Rightarrow> [] | Some x \<Rightarrow> [x])\<rparr>"

text \<open>The key under which a port is filled in later. A connection point with neither is an
  external port that was given in the request: it is not a resource to delete.\<close>

definition cp_key :: "vnfc_cp_info \<Rightarrow> string option" where
  "cp_key cp = (case cpi_vnfExtCpId cp of Some k \<Rightarrow> Some k | None \<Rightarrow> cpi_vnfLinkPortId cp)"

definition rm_cp :: "string \<Rightarrow> string option \<Rightarrow> vnfc_cp_info \<Rightarrow> rm_acc \<Rightarrow> rm_acc" where
  "rm_cp rm_id add_id cp a = (case cp_key cp of
      None \<Rightarrow> a
    | Some k \<Rightarrow> (acc_push
        (res_def_new (make_combination_id (cpi_cpdId cp) rm_id) LINKPORT (cpi_cpdId cp) None)
        (map_option (\<lambda>i. res_def_new (make_combination_id (cpi_cpdId cp) i) LINKPORT (cpi_cpdId cp) None) add_id)
        a)\<lparr>ra_cps := dict_set k (length (ra_rm a)) (ra_cps a)\<rparr>)"

definition rm_storage :: "inst_vnf_info \<Rightarrow> string \<Rightarrow> string option \<Rightarrow> string \<Rightarrow> rm_acc \<Rightarrow> rm_acc pyres" where
  "rm_storage info rm_id add_id storage_id a = bindE (storage_by_id info storage_id) (\<lambda>st.
     let name = vs_virtualStorageDescId st in
     Inr (acc_push (res_def_new (make_combination_id name rm_id) STORAGE name (Some (vs_storageResource st)))
       (map_option (\<lambda>i. res_def_new (make_combination_id name i) STORAGE name None) add_id) a))"

definition rm_vnfc :: "(nat \<Rightarrow> string) \<Rightarrow> inst_vnf_info \<Rightarrow> bool \<Rightarrow> vnfc_resource \<Rightarrow> rm_acc \<Rightarrow> rm_acc drawing" where
  "rm_vnfc gen info re_create v a =
     bindS (new_id gen) (\<lambda>rm_id.
     bindS (if re_create then bindS (new_id gen) (\<lambda>i. retS (Some i)) else retS None) (\<lambda>add_id.
     liftS (foldE (rm_storage info rm_id add_id) (opt_list (vr_storageResourceIds v))
       (fold (rm_cp rm_id add_id) (opt_list (vr_vnfcCpInfo v))
         (acc_push (res_def_new rm_id COMPUTE (vr_vduId v) (Some (vr_computeResource v)))
            (map_option (\<lambda>i. res_def_new i COMPUTE (vr_vduId v) None) add_id) a)))))"

fun rm_vnfcs :: "(nat \<Rightarrow> string) \<Rightarrow> inst_vnf_info \<Rightarrow> bool \<Rightarrow> vnfc_resource list \<Rightarrow> rm_acc \<Rightarrow> rm_acc drawing" where
  "rm_vnfcs gen info re_create [] a = retS a"
| "rm_vnfcs gen info re_create (v # vs) a =
     bindS (rm_vnfc gen info re_create v a) (rm_vnfcs gen info re_create vs)"

definition port_handles :: "inst_vnf_info \<Rightarrow> (string \<times> resource_handle) list" where
  "port_handles info =
     [(lp_id p, lp_resourceHandle p). vl \<leftarrow> opt_list (iv_vnfVirtualLinkResourceInfo info),
        p \<leftarrow> opt_list (vl_vnfLinkPorts vl)] @
     [(c, lp_resourceHandle p). vl \<leftarrow> opt_list (iv_extVirtualLinkInfo info),
        p \<leftarrow> opt_list (xvl_extLinkPorts vl), Some c \<leftarrow> [lp_cpInstanceId p]] @
     [(lp_id p, lp_resourceHandle p). vl \<leftarrow> opt_list (iv_extManagedVirtualLinkInfo info),
        p \<leftarrow> opt_list (vl_vnfLinkPorts vl), lp_cpInstanceId p \<noteq> None]"

definition fill_port :: "(string, nat) dict \<Rightarrow> string \<times> resource_handle \<Rightarrow> res_def list \<Rightarrow> res_def list" where
  "fill_port cps kh reses = (case map_of cps (fst kh) of None \<Rightarrow> reses
     | Some i \<Rightarrow> reses[i := (reses ! i)\<lparr>rd_resource := Some (snd kh)\<rparr>])"

definition make_res_def_for_remove_vnfcs :: "(nat \<Rightarrow> string) \<Rightarrow> inst_vnf_info \<Rightarrow> vnfc_resource list \<Rightarrow> bool \<Rightarrow>
    (res_def list \<times> res_def list) drawing" where
  "make_res_def_for_remove_vnfcs gen info vnfcs re_create =
     bindS (rm_vnfcs gen info re_create vnfcs empty_acc) (\<lambda>a.
       retS (fold (fill_port (ra_cps a)) (port_handles info) (ra_rm a), ra_add a))"

fun remove_vls :: "(nat \<Rightarrow> string) \<Rightarrow> vl_info list \<Rightarrow> res_def list drawing" where
  "remove_vls gen [] = retS []"
| "remove_vls gen (vl # vls) = bindS (new_id gen) (\<lambda>i. bindS (remove_vls gen vls) (\<lambda>rest.
     retS (res_def_new i VL (vl_vnfVirtualLinkDescId vl) (Some (vl_networkResource vl)) # rest)))"

definition terminate_grant :: "env \<Rightarrow> vnf_instance \<Rightarrow> grant_request \<Rightarrow> grant_request drawing" where
  "terminate_grant env inst grant_req =
     bindS (liftS (attr ''instantiatedVnfInfo'' (in_instantiatedVnfInfo inst))) (\<lambda>info.
     bindS (make_res_def_for_remove_vnfcs (ev_uuid env) info (opt_list (iv_vnfcResourceInfo info)) False)
       (\<lambda>(rm_reses, _).
     bindS (remove_vls (ev_uuid env) (opt_list (iv_vnfVirtualLinkResourceInfo info))) (\<lambda>vls.
       retS (set_remove (rm_reses @ vls) grant_req))))"

subsection \<open>Scale\<close>

fun vdu_samples :: "vnfc_resource list \<Rightarrow> string list \<Rightarrow> (string \<times> vnfc_resource) list" where
  "vdu_samples vnfcs [] = []"
| "vdu_samples vnfcs (vdu # vdus) = (case List.find (\<lambda>v. vr_vduId v = vdu) vnfcs of
      None \<Rightarrow> vdu_samples vnfcs vdus
    | Some v \<Rightarrow> (vdu, v) # vdu_samples vnfcs vdus)"

definition scaled :: "(string, json) dict \<Rightarrow> int \<Rightarrow> string \<Rightarrow> int pyres" where
  "scaled vdu_num_inst num_steps vdu =
     bindE (as_int (or_null (map_of vdu_num_inst vdu))) (\<lambda>n. Inr (n * num_steps))"

fun scale_out_vdus :: "env \<Rightarrow> inst_vnf_info \<Rightarrow> (string, json) dict \<Rightarrow> int \<Rightarrow> (string \<times> vnfc_resource) list \<Rightarrow>
    res_def list drawing" where
  "scale_out_vdus env info vdu_num_inst num_steps [] = retS []"
| "scale_out_vdus env info vdu_num_inst num_steps ((vdu, v) # samples) =
     bindS (liftS (bindE (scaled vdu_num_inst num_steps vdu) (\<lambda>num.
        bindE (mapE (storage_by_id info) (opt_list (vr_storageResourceIds v))) (\<lambda>strs. Inr (num, strs)))))
       (\<lambda>(num, strs).
     bindS (make_res_def_for_new_vdu (ev_uuid env) vdu (nat num) (map cpi_cpdId (opt_list (vr_vnfcCpInfo v)))
        (map vs_virtualStorageDescId strs)) (\<lambda>reses.
     bindS (scale_out_vdus env info vdu_num_inst num_steps samples) (\<lambda>rest. retS (reses @ rest))))"

definition make_scale_out_grant_request :: "env \<Rightarrow> vnf_instance \<Rightarrow> inst_vnf_info \<Rightarrow> int \<Rightarrow> (string, json) dict \<Rightarrow>
    vnfd \<Rightarrow> grant_request \<Rightarrow> grant_request drawing" where
  "make_scale_out_grant_request env inst info num_steps vdu_num_inst vnfd grant_req =
     bindS (liftS (attr ''vnfcResourceInfo'' (iv_vnfcResourceInfo info))) (\<lambda>vnfcs.
     bindS (scale_out_vdus env info vdu_num_inst num_steps (vdu_samples vnfcs (map fst vdu_num_inst))) (\<lambda>add_reses.
       liftS (make_placementconstraints env vnfd add_reses inst (set_add add_reses grant_req))))"

text \<open>The VNFCs of one VDU that a scale in removes: the loop of the code, which stops when the
  count reaches the number, tested after each VNFC taken.\<close>

fun take_vnfcs :: "string \<Rightarrow> int \<Rightarrow> int \<Rightarrow> vnfc_resource list \<Rightarrow> vnfc_resource list" where
  "take_vnfcs vdu num_inst count [] = []"
| "take_vnfcs vdu num_inst count (v # vs) =
     (if vr_vduId v = vdu
      then v # (if count + 1 = num_inst then [] else take_vnfcs vdu num_inst (count + 1) vs)
      else take_vnfcs vdu num_inst count vs)"

definition scale_in_vnfcs :: "int \<Rightarrow> vnfc_resource list \<Rightarrow> (string, json) dict \<Rightarrow> vnfc_resource list pyres" where
  "scale_in_vnfcs num_steps vnfcs vdu_num_inst =
     concatE (\<lambda>(vdu, num_j). bindE (as_int num_j) (\<lambda>num.
       Inr (take_vnfcs vdu (num * num_steps) 0 vnfcs))) vdu_num_inst"

definition make_scale_in_grant_request :: "env \<Rightarrow> inst_vnf_info \<Rightarrow> int \<Rightarrow> (string, json) dict \<Rightarrow>
    grant_request \<Rightarrow> grant_request drawing" where
  "make_scale_in_grant_request env info num_steps vdu_num_inst grant_req =
     bindS (liftS (attr ''vnfcResourceInfo'' (iv_vnfcResourceInfo info))) (\<lambda>vnfcs.
     bindS (liftS (scale_in_vnfcs num_steps vnfcs vdu_num_inst)) (\<lambda>rm.
     bindS (make_res_def_for_remove_vnfcs (ev_uuid env) info rm False) (\<lambda>(rm_reses, _).
       retS (set_remove rm_reses grant_req))))"

definition scale_grant :: "env \<Rightarrow> op_params \<Rightarrow> vnf_instance \<Rightarrow> vnfd \<Rightarrow> grant_request \<Rightarrow> grant_request drawing" where
  "scale_grant env req inst vnfd grant_req =
     bindS (liftS (attr ''instantiatedVnfInfo'' (in_instantiatedVnfInfo inst))) (\<lambda>info.
     bindS (liftS (attr ''type'' (rq_type req))) (\<lambda>scale_type.
     bindS (liftS (attr ''aspectId'' (rq_aspectId req))) (\<lambda>aspect_id.
     bindS (liftS (attr ''numberOfSteps'' (rq_numberOfSteps req))) (\<lambda>num_steps.
     bindS (liftS (get_scale_vdu_and_num vnfd (JStr (iv_flavourId info)) aspect_id)) (\<lambda>vdu_num_inst.
     if vdu_num_inst = [] then raiseS (Sol (InvalidScaleAspectId aspect_id))
     else
     bindS (let q = grant_req\<lparr>gq_flavourId := Some (iv_flavourId info)\<rparr> in
            if scale_type = ''SCALE_OUT''
            then make_scale_out_grant_request env inst info num_steps vdu_num_inst vnfd q
            else make_scale_in_grant_request env info num_steps vdu_num_inst q) (\<lambda>q.
       retS (set_params req q)))))))"

subsection \<open>Heal\<close>

definition set_rm_add_reses :: "res_type \<Rightarrow> string \<Rightarrow> resource_handle \<Rightarrow> string \<Rightarrow> string \<Rightarrow> rm_acc \<Rightarrow> rm_acc" where
  "set_rm_add_reses ty name h rm_id add_id =
     acc_push (res_def_new rm_id ty name (Some h)) (Some (res_def_new add_id ty name None))"

definition rm_add_storage :: "inst_vnf_info \<Rightarrow> string \<Rightarrow> string \<Rightarrow> string \<Rightarrow> rm_acc \<Rightarrow> rm_acc pyres" where
  "rm_add_storage info rm_id add_id storage_id a = bindE (storage_by_id info storage_id) (\<lambda>st.
     let name = vs_virtualStorageDescId st in
     Inr (set_rm_add_reses STORAGE name (vs_storageResource st)
       (make_combination_id name rm_id) (make_combination_id name add_id) a))"

definition rm_add_vnfc :: "(nat \<Rightarrow> string) \<Rightarrow> inst_vnf_info \<Rightarrow> bool \<Rightarrow> vnfc_resource \<Rightarrow> rm_acc \<Rightarrow> rm_acc drawing" where
  "rm_add_vnfc gen info with_storage v a =
     bindS (new_id gen) (\<lambda>rm_id. bindS (new_id gen) (\<lambda>add_id.
     liftS (foldE (rm_add_storage info rm_id add_id)
       (if with_storage then opt_list (vr_storageResourceIds v) else [])
       (set_rm_add_reses COMPUTE (vr_vduId v) (vr_computeResource v) rm_id add_id a))))"

fun rm_add_vnfcs :: "(nat \<Rightarrow> string) \<Rightarrow> inst_vnf_info \<Rightarrow> bool \<Rightarrow> vnfc_resource list \<Rightarrow> rm_acc \<Rightarrow> rm_acc drawing" where
  "rm_add_vnfcs gen info with_storage [] a = retS a"
| "rm_add_vnfcs gen info with_storage (v # vs) a =
     bindS (rm_add_vnfc gen info with_storage v a) (rm_add_vnfcs gen info with_storage vs)"

fun rm_add_vls :: "(nat \<Rightarrow> string) \<Rightarrow> vl_info list \<Rightarrow> rm_acc \<Rightarrow> rm_acc drawing" where
  "rm_add_vls gen [] a = retS a"
| "rm_add_vls gen (vl # vls) a = bindS (new_id gen) (\<lambda>rm_id. bindS (new_id gen) (\<lambda>add_id.
     rm_add_vls gen vls (set_rm_add_reses VL (vl_vnfVirtualLinkDescId vl) (vl_networkResource vl) rm_id add_id a)))"

definition set_rm_add :: "rm_acc \<Rightarrow> grant_request \<Rightarrow> grant_request" where
  "set_rm_add a q = (if ra_rm a = [] then q
     else q\<lparr>gq_removeResources := Some (ra_rm a), gq_addResources := Some (ra_add a)\<rparr>)"

definition healed_vnfc :: "inst_vnf_info \<Rightarrow> vnfc_info \<Rightarrow> vnfc_resource pyres" where
  "healed_vnfc info vnfc =
     bindE (attr ''vnfcResourceInfoId'' (ci_vnfcResourceInfoId vnfc)) (\<lambda>i.
     bindE (attr ''vnfcResourceInfo'' (iv_vnfcResourceInfo info)) (\<lambda>vs.
       found ''vduId'' (get_obj_by_id vr_id i vs)))"

fun sol002_vnfcs :: "(nat \<Rightarrow> string) \<Rightarrow> inst_vnf_info \<Rightarrow> bool \<Rightarrow> vnfc_info list \<Rightarrow> rm_acc \<Rightarrow> rm_acc drawing" where
  "sol002_vnfcs gen info is_all [] a = retS a"
| "sol002_vnfcs gen info is_all (vnfc # vnfcs) a =
     bindS (liftS (healed_vnfc info vnfc)) (\<lambda>v.
     bindS (rm_add_vnfc gen info is_all v a) (sol002_vnfcs gen info is_all vnfcs))"

definition make_SOL002_heal_grant_request :: "env \<Rightarrow> string list \<Rightarrow> inst_vnf_info \<Rightarrow> bool \<Rightarrow> grant_request \<Rightarrow>
    grant_request drawing" where
  "make_SOL002_heal_grant_request env ids info is_all grant_req =
     bindS (liftS (attr ''vnfcInfo'' (iv_vnfcInfo info))) (\<lambda>vnfcs.
     bindS (sol002_vnfcs (ev_uuid env) info is_all (filter (\<lambda>v. ci_id v \<in> set ids) vnfcs) empty_acc) (\<lambda>a.
       retS (set_rm_add a grant_req)))"

definition make_SOL003_heal_grant_request :: "env \<Rightarrow> inst_vnf_info \<Rightarrow> bool \<Rightarrow> grant_request \<Rightarrow>
    grant_request drawing" where
  "make_SOL003_heal_grant_request env info is_all grant_req =
     bindS (if is_all
            then bindS (make_res_def_for_remove_vnfcs (ev_uuid env) info (opt_list (iv_vnfcResourceInfo info)) True)
              (\<lambda>(rm_reses, add_reses).
                rm_add_vls (ev_uuid env) (opt_list (iv_vnfVirtualLinkResourceInfo info))
                  \<lparr>ra_rm = rm_reses, ra_add = add_reses, ra_cps = []\<rparr>)
            else rm_add_vnfcs (ev_uuid env) info False (opt_list (iv_vnfcResourceInfo info)) empty_acc) (\<lambda>a.
       retS (set_rm_add a grant_req))"

definition heal_is_all :: "op_params \<Rightarrow> bool" where
  "heal_is_all req = (case rq_additionalParams req of None \<Rightarrow> False
     | Some p \<Rightarrow> (case map_of p ''all'' of None \<Rightarrow> False | Some j \<Rightarrow> py_truthy j))"

definition heal_grant :: "env \<Rightarrow> op_params \<Rightarrow> vnf_instance \<Rightarrow> grant_request \<Rightarrow> grant_request drawing" where
  "heal_grant env req inst grant_req =
     bindS (liftS (attr ''instantiatedVnfInfo'' (in_instantiatedVnfInfo inst))) (\<lambda>info.
     let q = set_params req (grant_req\<lparr>gq_flavourId := Some (iv_flavourId info)\<rparr>) in
     case rq_vnfcInstanceId req of
       Some ids \<Rightarrow> make_SOL002_heal_grant_request env ids info (heal_is_all req) q
     | None \<Rightarrow> make_SOL003_heal_grant_request env info (heal_is_all req) q)"

subsection \<open>Change of external connectivity and of the package\<close>

definition conn_cps :: "op_params \<Rightarrow> ext_cp_data list" where
  "conn_cps req = concat (map xvd_extCps (opt_list (rq_extVirtualLinks req)))"

definition conn_cp :: "string set \<Rightarrow> string set \<Rightarrow> string \<Rightarrow> string \<Rightarrow> vnfc_cp_info \<Rightarrow> rm_acc \<Rightarrow> rm_acc" where
  "conn_cp cp_names link_ports old_id new_id' cp a =
     (if cpi_cpdId cp \<notin> cp_names then a
      else let a1 = (case cpi_vnfExtCpId cp of None \<Rightarrow> a
             | Some k \<Rightarrow> a\<lparr>ra_cps := dict_set k (length (ra_rm a)) (ra_cps a),
                 ra_rm := ra_rm a @ [res_def_new (make_combination_id (cpi_cpdId cp) old_id) LINKPORT (cpi_cpdId cp) None]\<rparr>)
        in if cpi_cpdId cp \<in> link_ports then a1
           else a1\<lparr>ra_add := ra_add a1 @
             [res_def_new (make_combination_id (cpi_cpdId cp) new_id') LINKPORT (cpi_cpdId cp) None]\<rparr>)"

fun conn_vnfcs :: "(nat \<Rightarrow> string) \<Rightarrow> string set \<Rightarrow> string set \<Rightarrow> vnfc_resource list \<Rightarrow>
    rm_acc \<times> res_def list \<Rightarrow> (rm_acc \<times> res_def list) drawing" where
  "conn_vnfcs gen cp_names link_ports [] au = retS au"
| "conn_vnfcs gen cp_names link_ports (v # vs) au =
     (case vr_vnfcCpInfo v of
        None \<Rightarrow> conn_vnfcs gen cp_names link_ports vs au
      | Some cps \<Rightarrow>
          if cpi_cpdId ` set cps \<inter> cp_names = {} then conn_vnfcs gen cp_names link_ports vs au
          else bindS (new_id gen) (\<lambda>old_id. bindS (new_id gen) (\<lambda>new_id'.
            conn_vnfcs gen cp_names link_ports vs
              (fold (conn_cp cp_names link_ports old_id new_id') cps (fst au),
               snd au @ [res_def_new new_id' COMPUTE (vr_vduId v) (Some (vr_computeResource v))]))))"

definition ext_port_handles :: "inst_vnf_info \<Rightarrow> (string \<times> resource_handle) list" where
  "ext_port_handles info =
     [(c, lp_resourceHandle p). vl \<leftarrow> opt_list (iv_extVirtualLinkInfo info),
        p \<leftarrow> opt_list (xvl_extLinkPorts vl), Some c \<leftarrow> [lp_cpInstanceId p]]"

definition change_ext_conn_grant :: "env \<Rightarrow> op_params \<Rightarrow> vnf_instance \<Rightarrow> grant_request \<Rightarrow> grant_request drawing" where
  "change_ext_conn_grant env req inst grant_req =
     bindS (liftS (attr ''instantiatedVnfInfo'' (in_instantiatedVnfInfo inst))) (\<lambda>info.
     bindS (liftS (attr ''extVirtualLinks'' (rq_extVirtualLinks req))) (\<lambda>_.
     bindS (liftS (attr ''vnfcResourceInfo'' (iv_vnfcResourceInfo info))) (\<lambda>vnfcs.
     let cp_names = xcd_cpdId ` set (conn_cps req);
         link_ports = xcd_cpdId ` {cp \<in> set (conn_cps req). \<exists>c \<in> set (xcd_cpConfig cp). cc_linkPortId (snd c) \<noteq> None}
     in bindS (conn_vnfcs (ev_uuid env) cp_names link_ports vnfcs (empty_acc, [])) (\<lambda>(a, update_reses).
       retS (set_params req (set_update update_reses
         (set_remove (fold (fill_port (ra_cps a)) (ext_port_handles info) (ra_rm a))
           (set_add (ra_add a) grant_req))))))))"

definition change_vnfpkg_vdus :: "jdict \<Rightarrow> json list pyres" where
  "change_vnfpkg_vdus params = bindE (jitem (JObj params) ''vdu_params'') (\<lambda>ps.
     bindE (jlist ps) (mapE (\<lambda>p. jitem p ''vdu_id'')))"

definition change_vnfpkg_grant_rolling_update :: "env \<Rightarrow> jdict \<Rightarrow> inst_vnf_info \<Rightarrow> grant_request \<Rightarrow>
    grant_request drawing" where
  "change_vnfpkg_grant_rolling_update env params info grant_req =
     (case iv_vnfcResourceInfo info of
        None \<Rightarrow> retS grant_req
      | Some vnfcs \<Rightarrow> bindS (liftS (change_vnfpkg_vdus params)) (\<lambda>vdu_ids.
          bindS (rm_add_vnfcs (ev_uuid env) info True
            (filter (\<lambda>v. JStr (vr_vduId v) \<in> set vdu_ids) vnfcs) empty_acc) (\<lambda>a.
            retS (set_remove (ra_rm a) (set_add (ra_add a) grant_req)))))"

definition change_vnfpkg_grant :: "env \<Rightarrow> op_params \<Rightarrow> vnf_instance \<Rightarrow> grant_request \<Rightarrow> grant_request drawing" where
  "change_vnfpkg_grant env req inst grant_req =
     bindS (liftS (attr ''vnfdId'' (rq_vnfdId req))) (\<lambda>dst.
     bindS (liftS (attr ''instantiatedVnfInfo'' (in_instantiatedVnfInfo inst))) (\<lambda>info.
     bindS (liftS (attr ''additionalParams'' (rq_additionalParams req))) (\<lambda>params.
     bindS (liftS (jitem (JObj params) ''upgrade_type'')) (\<lambda>ty.
     let q = grant_req\<lparr>gq_dstVnfdId := Some dst, gq_flavourId := Some (iv_flavourId info)\<rparr> in
     if ty = JStr ''RollingUpdate'' then change_vnfpkg_grant_rolling_update env params info q
     else retS q))))"

subsection \<open>The request of an operation\<close>

definition grant_request_common :: "env \<Rightarrow> lcm_op_occ \<Rightarrow> vnf_instance \<Rightarrow> grant_request" where
  "grant_request_common env lcmocc inst =
     \<lparr>gq_vnfInstanceId = in_id inst, gq_vnfLcmOpOccId = oc_id lcmocc, gq_vnfdId = in_vnfdId inst,
      gq_dstVnfdId = None, gq_flavourId = None, gq_operation = oc_operation lcmocc,
      gq_isAutomaticInvocation = oc_isAutomaticInvocation lcmocc, gq_instantiationLevelId = None,
      gq_addResources = None, gq_removeResources = None, gq_updateResources = None,
      gq_placementConstraints = None, gq_additionalParams = None,
      gq_links_vnfLcmOpOcc = lcmocc_href (oc_id lcmocc) (ev_endpoint env),
      gq_links_vnfInstance = inst_href (in_id inst) (ev_endpoint env)\<rparr>"

text \<open>\<^verbatim>\<open>getattr(self, "<op>_grant")\<close>: an operation with no such method raises \<open>AttributeError\<close>.\<close>

definition make_grant_request :: "env \<Rightarrow> lcm_op_occ \<Rightarrow> vnf_instance \<Rightarrow> vnfd \<Rightarrow> grant_request drawing" where
  "make_grant_request env lcmocc inst vnfd =
     (let q = grant_request_common env lcmocc inst; req = oc_operationParams lcmocc in
      case oc_operation lcmocc of
        INSTANTIATE \<Rightarrow> instantiate_grant env req inst vnfd q
      | TERMINATE \<Rightarrow> terminate_grant env inst q
      | SCALE \<Rightarrow> scale_grant env req inst vnfd q
      | HEAL \<Rightarrow> heal_grant env req inst q
      | CHANGE_EXT_CONN \<Rightarrow> change_ext_conn_grant env req inst q
      | CHANGE_VNFPKG \<Rightarrow> change_vnfpkg_grant env req inst q
      | _ \<Rightarrow> raiseS (PyExc AttributeError ''grant''))"

end
