(* ===== verification/View_Filter.thy ===== *)
theory View_Filter
  imports Json "HOL-Library.List_Lexorder" "HOL-Library.Char_ord"
begin

section \<open>Attribute-based filters (sol\_refactored/controller/vnflcm\_view.py)\<close>

text \<open>
  The filter language of SOL013 5.2: \<^verbatim>\<open>BaseViewBuilder.parse_filter\<close>, \<^verbatim>\<open>parse_values\<close>,
  \<^verbatim>\<open>parse_attr\<close> and \<^verbatim>\<open>FilterExpr.match\<close>. The regular expressions of the parser have one way to
  match at most (the character after each part decides where it ends), so they are scanners here:
  a scanner returns what it consumed and the rest of the input, or \<open>None\<close>.

  Filters are matched against dictionaries of JSON values; a value of type \<open>datetime\<close> or
  \<open>float\<close> is not modelled. A filter converts its values to the type of the attribute when it first
  sees one and keeps the converted values: \<open>fe_match\<close> returns the filter for the next match.

  \<open>print_filter\<close> writes a filter down as SOL013 prescribes (escapes in attribute names,
  quotes around values); the round trip through the parser is proved for every filter.
\<close>

datatype fattr = KeyAttribute | FName string

record filter_expr =
  fe_op :: string
  fe_attr :: "fattr list"
  fe_values :: "json list"

subsection \<open>Attribute names\<close>

fun split_on :: "char \<Rightarrow> string \<Rightarrow> string list" where
  "split_on c [] = [[]]"
| "split_on c (x # xs) = (if x = c then [] # split_on c xs
     else (case split_on c xs of [] \<Rightarrow> [[x]] | p # ps \<Rightarrow> (x # p) # ps))"

definition tilde_char :: "char \<Rightarrow> char option" where
  "tilde_char c = (if c = CHR ''1'' then Some CHR ''/'' else if c = CHR ''a'' then Some CHR '',''
     else if c = CHR ''b'' then Some CHR ''@'' else None)"

text \<open>\<^verbatim>\<open>re.sub\<close> replaces from left to right and goes on after the replaced part.\<close>

fun tilde_sub :: "string \<Rightarrow> string" where
  "tilde_sub (c # d # s) = (case (if c = CHR ''~'' then tilde_char d else None) of
       Some r \<Rightarrow> r # tilde_sub s | None \<Rightarrow> c # tilde_sub (d # s))"
| "tilde_sub s = s"

fun tilde_zero_sub :: "string \<Rightarrow> string" where
  "tilde_zero_sub (c # d # s) = (if c = CHR ''~'' \<and> d = CHR ''0'' then CHR ''~'' # tilde_zero_sub s
     else c # tilde_zero_sub (d # s))"
| "tilde_zero_sub s = s"

definition tilde_unescape :: "string \<Rightarrow> fattr" where
  "tilde_unescape s = (if s = ''@key'' then KeyAttribute else FName (tilde_zero_sub (tilde_sub s)))"

definition parse_attr :: "string \<Rightarrow> fattr list" where
  "parse_attr attr = map tilde_unescape (split_on CHR ''/'' attr)"

subsection \<open>Values\<close>

abbreviation quote_char :: char where
  "quote_char \<equiv> CHR 0x27"

text \<open>\<open>q_in\<close> is inside a quoted part, \<open>q_out\<close> has just left one: another quoted part may follow
  at once, and if it is not closed the match ends before it.\<close>

fun q_in :: "string \<Rightarrow> (string \<times> string) option"
  and q_out :: "string \<Rightarrow> string \<times> string" where
  "q_in [] = None"
| "q_in (c # s) = (if c = quote_char then Some (apfst (Cons c) (q_out s)) else map_option (apfst (Cons c)) (q_in s))"
| "q_out [] = ([], [])"
| "q_out (c # s) = (if c = quote_char then (case q_in s of None \<Rightarrow> ([], c # s) | Some mr \<Rightarrow> apfst (Cons c) mr)
     else ([], c # s))"

definition plain_char :: "char \<Rightarrow> bool" where
  "plain_char c \<longleftrightarrow> c \<noteq> quote_char \<and> c \<noteq> CHR '','' \<and> c \<noteq> CHR '')''"

definition scan_value :: "string \<Rightarrow> (string \<times> string) option" where
  "scan_value s = (case s of [] \<Rightarrow> None
     | c # t \<Rightarrow> if c = quote_char then map_option (apfst (Cons c)) (q_in t)
         else if plain_char c then Some (takeWhile plain_char s, dropWhile plain_char s) else None)"

fun undouble :: "string \<Rightarrow> string" where
  "undouble (a # b # s) = (if a = quote_char \<and> b = quote_char then quote_char # undouble s else a # undouble (b # s))"
| "undouble s = s"

definition value_of :: "string \<Rightarrow> string" where
  "value_of m = (if take 1 m = [quote_char] then undouble (butlast (tl m)) else m)"

definition filter_error :: "string \<Rightarrow> exn" where
  "filter_error d = Sol (InvalidAttributeFilter d)"

lemma q_shorter: "q_in s = Some (m, r) \<Longrightarrow> length r < length s" "length (snd (q_out s)) \<le> length s"
  by (induction s and s arbitrary: m r and rule: q_in_q_out.induct)
    (fastforce simp: apfst_def map_prod_def split: if_splits option.splits prod.splits)+

lemma scan_value_shorter: "scan_value s = Some (m, r) \<Longrightarrow> length r < length s"
  using length_dropWhile_le [of plain_char "tl s"]
  by (fastforce simp: scan_value_def apfst_def map_prod_def split: list.splits if_splits dest: q_shorter(1))

function parse_values_from :: "string \<Rightarrow> string \<Rightarrow> string list pyres" where
  "parse_values_from all [] = Inr []"
| "parse_values_from all (c # s) =
     (if c \<noteq> CHR '','' then Inl (filter_error (''value parse error. comma expected, '' @ all))
      else case scan_value s of
             None \<Rightarrow> Inl (filter_error ''value parse error'')
           | Some (m, r) \<Rightarrow> bindE (parse_values_from all r) (\<lambda>vs. Inr (value_of m # vs)))"
  by pat_completeness auto
termination by (relation "measure (\<lambda>(_, s). length s)") (auto dest: scan_value_shorter)

definition parse_values :: "string \<Rightarrow> string list pyres" where
  "parse_values values = parse_values_from values values"

subsection \<open>Filter expressions\<close>

definition opOne :: "string list" where
  "opOne = [''eq'', ''neq'', ''gt'', ''gte'', ''lt'', ''lte'']"

definition opMulti :: "string list" where
  "opMulti = [''in'', ''nin'', ''cont'', ''ncont'']"

definition lower_char :: "char \<Rightarrow> bool" where
  "lower_char c \<longleftrightarrow> CHR ''a'' \<le> c \<and> c \<le> CHR ''z''"

text \<open>The text of one or more \<open>,value\<close> and the rest, which does not begin with a comma.\<close>

function scan_values :: "string \<Rightarrow> (string \<times> string) option" where
  "scan_values s = (case s of [] \<Rightarrow> None
     | c # t \<Rightarrow> if c \<noteq> CHR '','' then None
         else (case scan_value t of None \<Rightarrow> None
           | Some (m, r) \<Rightarrow> if take 1 r = '','' then map_option (apfst (\<lambda>vs. c # m @ vs)) (scan_values r)
               else Some (c # m, r)))"
  by pat_completeness auto
termination by (relation "measure length") (auto dest: scan_value_shorter)

declare scan_values.simps [simp del]

text \<open>\<^verbatim>\<open>\(([a-z]+),([^,]+)(,value)+\)\<close>: the operator, the attribute, the text of the values and the rest.\<close>

definition scan_expr :: "string \<Rightarrow> (string \<times> string \<times> string \<times> string) option" where
  "scan_expr s =
     (if take 1 s \<noteq> ''('' then None
      else let op = takeWhile lower_char (tl s); s1 = dropWhile lower_char (tl s) in
        if op = [] \<or> take 1 s1 \<noteq> '','' then None
        else let attr = takeWhile (\<lambda>c. c \<noteq> CHR '','') (tl s1); s2 = dropWhile (\<lambda>c. c \<noteq> CHR '','') (tl s1) in
          if attr = [] then None
          else (case scan_values s2 of None \<Rightarrow> None
            | Some (vs, s3) \<Rightarrow> if take 1 s3 \<noteq> '')'' then None else Some (op, attr, vs, tl s3)))"

definition make_expr :: "string \<Rightarrow> string \<Rightarrow> string \<Rightarrow> filter_expr pyres" where
  "make_expr op attr values =
     (if op \<notin> set opOne \<and> op \<notin> set opMulti then Inl (filter_error (''Invalid op '' @ op))
      else bindE (parse_values values) (\<lambda>vs.
        if length vs > 1 \<and> op \<notin> set opMulti
        then Inl (filter_error (''Only one value is allowed for op '' @ op))
        else Inr \<lparr>fe_op = op, fe_attr = parse_attr attr, fe_values = map JStr vs\<rparr>))"

lemma dropWhile_shorter: "length (dropWhile P s) \<le> length s"
  by (induction s) auto

lemma scan_values_shorter: "scan_values s = Some (m, r) \<Longrightarrow> length r < length s"
proof (induction s arbitrary: m r rule: scan_values.induct)
  case (1 s)
  obtain c t m1 r1 where s: "s = c # t" "c = CHR '',''" "scan_value t = Some (m1, r1)"
    using "1.prems" by (subst (asm) scan_values.simps) (auto split: list.splits if_splits option.splits)
  note r1 = scan_value_shorter [OF s(3)]
  show ?case
  proof (cases "take 1 r1 = '',''")
    case True
    then obtain m2 where "scan_values r1 = Some (m2, r)"
      using "1.prems" s by (subst (asm) scan_values.simps) (auto simp: apfst_def map_prod_def)
    then have "length r < length r1" using "1.IH" [of c t "(m1, r1)" m1 r1 m2 r] s True by simp
    with s r1 show ?thesis by simp
  next
    case False
    with "1.prems" s r1 show ?thesis by (subst (asm) scan_values.simps) auto
  qed
qed

lemma scan_expr_shorter: "scan_expr s = Some (a, b, c, r) \<Longrightarrow> length r < length s"
  using dropWhile_shorter [of lower_char "tl s"]
    dropWhile_shorter [of "\<lambda>c. c \<noteq> CHR '',''" "tl (dropWhile lower_char (tl s))"]
  by (auto simp: scan_expr_def Let_def split: if_splits option.splits dest!: scan_values_shorter)

function parse_filter_from :: "string \<Rightarrow> filter_expr list pyres" where
  "parse_filter_from s = (case scan_expr s of
      None \<Rightarrow> Inl (filter_error ''filter parse error'')
    | Some (op, attr, values, r) \<Rightarrow> bindE (make_expr op attr values) (\<lambda>f.
        case r of [] \<Rightarrow> Inr [f]
        | c # t \<Rightarrow> if c \<noteq> CHR '';'' then Inl (filter_error ''filter parse error. semicolon expected.'')
                  else bindE (parse_filter_from t) (\<lambda>fs. Inr (f # fs))))"
  by pat_completeness auto
termination by (relation "measure length") (auto dest!: scan_expr_shorter)

declare parse_filter_from.simps [simp del]

definition parse_filter :: "string option \<Rightarrow> filter_expr list pyres" where
  "parse_filter flt = (case flt of None \<Rightarrow> Inr [] | Some s \<Rightarrow> parse_filter_from s)"


subsection \<open>Matching\<close>

datatype walk = Found json | Missing | Bad

fun walk_attr :: "fattr list \<Rightarrow> json \<Rightarrow> walk" where
  "walk_attr [] j = Found j"
| "walk_attr (KeyAttribute # as) j = (case j of JObj d \<Rightarrow> walk_attr as (JArr (map (JStr \<circ> fst) d)) | _ \<Rightarrow> Bad)"
| "walk_attr (FName a # as) j = (case j of
      JObj d \<Rightarrow> (case map_of d a of None \<Rightarrow> Missing | Some v \<Rightarrow> walk_attr as v) | _ \<Rightarrow> Bad)"

fun attr_str :: "fattr \<Rightarrow> string" where
  "attr_str KeyAttribute = ''@key''"
| "attr_str (FName a) = a"

fun join :: "char \<Rightarrow> string list \<Rightarrow> string" where
  "join c [] = []"
| "join c [p] = p"
| "join c (p # ps) = p @ c # join c ps"

text \<open>Python's \<open>int(s)\<close>: surrounding white space, a sign, digits with single underscores between them.\<close>

definition space_char :: "char \<Rightarrow> bool" where
  "space_char c \<longleftrightarrow> (of_char c :: nat) \<in> {9, 10, 11, 12, 13, 28, 29, 30, 31, 32}"

definition strip :: "string \<Rightarrow> string" where
  "strip s = rev (dropWhile space_char (rev (dropWhile space_char s)))"

fun digits :: "bool \<Rightarrow> int \<Rightarrow> string \<Rightarrow> int option" where
  "digits after n [] = (if after then Some n else None)"
| "digits after n (c # s) =
     (if CHR ''0'' \<le> c \<and> c \<le> CHR ''9'' then digits True (10 * n + (of_char c - 48)) s
      else if c = CHR ''_'' \<and> after then digits False n s else None)"

definition py_int :: "string \<Rightarrow> int pyres" where
  "py_int s = (let t = strip s in
     case (if take 1 t = ''-'' then map_option uminus (digits False 0 (tl t))
           else digits False 0 (if take 1 t = ''+'' then tl t else t)) of
       Some n \<Rightarrow> Inr n | None \<Rightarrow> Inl (PyExc ValueError (''invalid literal for int() with base 10: '' @ quoted s)))"

fun py_less :: "json \<Rightarrow> json \<Rightarrow> bool pyres" where
  "py_less (JStr a) y = (case y of JStr b \<Rightarrow> Inr (a < b) | _ \<Rightarrow> Inl (type_error (JStr a)))"
| "py_less (JNum a) y = (case y of JNum b \<Rightarrow> Inr (a < b) | JBool b \<Rightarrow> Inr (a < bool_num b) | _ \<Rightarrow> Inl (type_error (JNum a)))"
| "py_less (JBool a) y = (case y of JNum b \<Rightarrow> Inr (bool_num a < b) | JBool b \<Rightarrow> Inr (bool_num a < bool_num b)
     | _ \<Rightarrow> Inl (type_error (JBool a)))"
| "py_less j y = Inl (type_error j)"

definition py_leq :: "json \<Rightarrow> json \<Rightarrow> bool pyres" where
  "py_leq a b = bindE (py_less a b) (\<lambda>l. Inr (l \<or> json_eq a b))"

text \<open>\<open>v in val\<close> for a value that is not a list of the outermost level.\<close>

fun py_in :: "json \<Rightarrow> json \<Rightarrow> bool pyres" where
  "py_in v (JStr s) = (case v of JStr p \<Rightarrow> Inr (substring_of p s) | _ \<Rightarrow> Inl (type_error v))"
| "py_in v (JObj d) = (case v of JStr k \<Rightarrow> Inr (dict_has d k) | _ \<Rightarrow> Inr False)"
| "py_in v (JArr xs) = Inr (\<exists>x \<in> set xs. json_eq v x)"
| "py_in v j = Inl (type_error j)"

fun anyE :: "('a \<Rightarrow> bool pyres) \<Rightarrow> 'a list \<Rightarrow> bool pyres" where
  "anyE f [] = Inr False"
| "anyE f (x # xs) = bindE (f x) (\<lambda>b. if b then Inr True else anyE f xs)"

definition first_value :: "json list \<Rightarrow> json pyres" where
  "first_value vs = (case vs of [] \<Rightarrow> Inl (PyExc IndexError ''list index out of range'') | v # _ \<Rightarrow> Inr v)"

definition match_op :: "string \<Rightarrow> json list \<Rightarrow> json \<Rightarrow> bool pyres" where
  "match_op op vs val =
     (if op = ''in'' then Inr (\<exists>v \<in> set vs. json_eq val v)
      else if op = ''nin'' then Inr (\<not> (\<exists>v \<in> set vs. json_eq val v))
      else if op = ''cont'' then anyE (\<lambda>v. py_in v val) vs
      else if op = ''ncont'' then bindE (anyE (\<lambda>v. py_in v val) vs) (\<lambda>b. Inr (\<not> b))
      else bindE (first_value vs) (\<lambda>v.
        if op = ''eq'' then Inr (json_eq val v) else if op = ''neq'' then Inr (\<not> json_eq val v)
        else if op = ''gt'' then py_less v val else if op = ''gte'' then py_leq v val
        else if op = ''lt'' then py_less val v else if op = ''lte'' then py_leq val v
        else Inl (PyExc AttributeError (''match_'' @ op))))"

definition convert_values :: "json \<Rightarrow> json list \<Rightarrow> json list pyres" where
  "convert_values val vs = (case vs of
      JStr s # rest \<Rightarrow> (case val of
         JBool _ \<Rightarrow> if s = ''true'' then Inr (JBool True # rest) else if s = ''false'' then Inr (JBool False # rest)
                    else Inl (filter_error ''invalid value for boolean'')
       | JNum _ \<Rightarrow> mapE (\<lambda>v. case v of JStr t \<Rightarrow> bindE (py_int t) (\<lambda>n. Inr (JNum n)) | _ \<Rightarrow> Inr v) vs
       | _ \<Rightarrow> Inr vs)
    | _ \<Rightarrow> Inr vs)"

definition fe_match :: "filter_expr \<Rightarrow> json \<Rightarrow> (bool \<times> filter_expr) pyres" where
  "fe_match f val0 = (case walk_attr (fe_attr f) val0 of
      Missing \<Rightarrow> Inr (False, f)
    | Bad \<Rightarrow> Inl (filter_error (''AttrName '' @ join CHR ''/'' (map attr_str (fe_attr f)) @ '' is invalid''))
    | Found val \<Rightarrow> bindE (convert_values val (fe_values f)) (\<lambda>vs.
        bindE (case val of JArr xs \<Rightarrow> anyE (match_op (fe_op f) vs) xs | _ \<Rightarrow> match_op (fe_op f) vs val) (\<lambda>b.
          Inr (b, f\<lparr>fe_values := vs\<rparr>))))"

fun match_filters :: "json \<Rightarrow> filter_expr list \<Rightarrow> (bool \<times> filter_expr list) pyres" where
  "match_filters val [] = Inr (True, [])"
| "match_filters val (f # fs) = bindE (fe_match f val) (\<lambda>(b, f').
     if \<not> b then Inr (False, f' # fs)
     else bindE (match_filters val fs) (\<lambda>(c, fs'). Inr (c, f' # fs')))"


subsection \<open>Writing filters down\<close>

fun tilde_escape :: "string \<Rightarrow> string" where
  "tilde_escape [] = []"
| "tilde_escape (c # s) =
     (if c = CHR ''~'' then ''~0'' else if c = CHR ''/'' then ''~1'' else if c = CHR '','' then ''~a''
      else if c = CHR ''@'' then ''~b'' else [c]) @ tilde_escape s"

fun print_name :: "fattr \<Rightarrow> string" where
  "print_name KeyAttribute = ''@key''"
| "print_name (FName a) = tilde_escape a"

definition print_attr :: "fattr list \<Rightarrow> string" where
  "print_attr as = join CHR ''/'' (map print_name as)"

fun double :: "string \<Rightarrow> string" where
  "double [] = []"
| "double (c # s) = (if c = quote_char then [c, c] else [c]) @ double s"

definition print_value :: "string \<Rightarrow> string" where
  "print_value v = (if v \<noteq> [] \<and> list_all plain_char v then v else quote_char # double v @ [quote_char])"

definition print_values :: "string list \<Rightarrow> string" where
  "print_values vs = concat (map (\<lambda>v. CHR '','' # print_value v) vs)"

text \<open>A filter as a client states it: an operator, an attribute path and string values.\<close>

definition print_expr :: "string \<times> fattr list \<times> string list \<Rightarrow> string" where
  "print_expr e = (case e of (op, as, vs) \<Rightarrow> ''('' @ op @ '','' @ print_attr as @ print_values vs @ '')'')"

definition print_filter :: "(string \<times> fattr list \<times> string list) list \<Rightarrow> string" where
  "print_filter es = join CHR '';'' (map print_expr es)"

definition expr_ok :: "string \<times> fattr list \<times> string list \<Rightarrow> bool" where
  "expr_ok e \<longleftrightarrow> (case e of (op, as, vs) \<Rightarrow> print_attr as \<noteq> [] \<and> vs \<noteq> [] \<and>
     (op \<in> set opOne \<and> length vs = 1 \<or> op \<in> set opMulti))"

definition expr_of :: "string \<times> fattr list \<times> string list \<Rightarrow> filter_expr" where
  "expr_of e = (case e of (op, as, vs) \<Rightarrow> \<lparr>fe_op = op, fe_attr = as, fe_values = map JStr vs\<rparr>)"

lemma split_join: "ps \<noteq> [] \<Longrightarrow> (\<And>p. p \<in> set ps \<Longrightarrow> c \<notin> set p) \<Longrightarrow> split_on c (join c ps) = ps"
proof (induction c ps rule: join.induct)
  case (2 c p)
  then have "c \<notin> set p" by simp
  then show ?case by (induction p) auto
next
  case (3 c p q ps)
  have "split_on c (p @ c # s) = p # split_on c s" if "c \<notin> set p" for s
    using that by (induction p) auto
  with 3 show ?case by simp
qed simp

lemma tilde_sub_Cons: "c \<noteq> CHR ''~'' \<Longrightarrow> tilde_sub (c # s) = c # tilde_sub s"
  by (cases s) simp_all

lemma tilde_zero_sub_Cons: "c \<noteq> CHR ''~'' \<Longrightarrow> tilde_zero_sub (c # s) = c # tilde_zero_sub s"
  by (cases s) simp_all

lemma tilde_sub_escape:
  "tilde_sub (tilde_escape s) = concat (map (\<lambda>c. if c = CHR ''~'' then ''~0'' else [c]) s)"
  by (induction s) (simp_all add: tilde_sub_Cons tilde_char_def)

lemma tilde_zero_sub_escape: "tilde_zero_sub (concat (map (\<lambda>c. if c = CHR ''~'' then ''~0'' else [c]) s)) = s"
  by (induction s) (simp_all add: tilde_zero_sub_Cons)

lemma escape_chars: "CHR ''/'' \<notin> set (tilde_escape s)" "CHR '','' \<notin> set (tilde_escape s)" "CHR ''@'' \<notin> set (tilde_escape s)"
  by (induction s) auto

lemma unescape_name: "tilde_unescape (print_name a) = a"
proof (cases a)
  case KeyAttribute
  then show ?thesis by (simp add: tilde_unescape_def)
next
  case (FName s)
  have "tilde_escape s \<noteq> ''@key''" using escape_chars(3) [of s] by (metis list.set_intros(1))
  with FName show ?thesis by (simp add: tilde_unescape_def tilde_sub_escape tilde_zero_sub_escape)
qed

lemma print_name_chars: "CHR ''/'' \<notin> set (print_name a)" "CHR '','' \<notin> set (print_name a)"
  by (cases a; simp add: escape_chars)+

lemma parse_print_attr: "as \<noteq> [] \<Longrightarrow> parse_attr (print_attr as) = as"
  unfolding parse_attr_def print_attr_def
  by (subst split_join) (auto simp: print_name_chars comp_def unescape_name)

lemma undouble_double: "undouble (double v) = v"
proof (induction v)
  case (Cons c v)
  have "undouble (c # s) = c # undouble s" if "c \<noteq> quote_char" for s
    using that by (cases s) simp_all
  with Cons show ?case by simp
qed simp

lemma q_in_double: "take 1 r \<noteq> [quote_char] \<Longrightarrow> q_in (double v @ quote_char # r) = Some (double v @ [quote_char], r)"
proof (induction v)
  case Nil
  then show ?case by (cases r) auto
qed auto

lemma scan_print_value:
  assumes "r = [] \<or> hd r = CHR '','' \<or> hd r = CHR '')''"
  shows "scan_value (print_value v @ r) = Some (print_value v, r)" "value_of (print_value v) = v"
proof -
  show "scan_value (print_value v @ r) = Some (print_value v, r)"
  proof (cases "v \<noteq> [] \<and> list_all plain_char v")
    case True
    then obtain c t where v: "v = c # t" "plain_char c" by (cases v) auto
    have pv: "\<forall>c \<in> set v. plain_char c" using True by (simp add: list_all_iff)
    have "takeWhile plain_char r = []" "dropWhile plain_char r = r"
      using assms by (cases r; auto simp: plain_char_def)+
    then have "takeWhile plain_char (v @ r) = v" "dropWhile plain_char (v @ r) = r"
      using pv by (simp_all add: takeWhile_append dropWhile_append)
    with True v show ?thesis by (simp add: scan_value_def print_value_def plain_char_def)
  next
    case False
    moreover have "take 1 r \<noteq> [quote_char]" using assms by (cases r) auto
    ultimately show ?thesis by (auto simp: scan_value_def print_value_def q_in_double)
  qed
  show "value_of (print_value v) = v"
  proof (cases "v \<noteq> [] \<and> list_all plain_char v")
    case True
    then have "take 1 v \<noteq> [quote_char]" by (cases v) (auto simp: plain_char_def)
    with True show ?thesis by (simp add: value_of_def print_value_def)
  next
    case False
    then show ?thesis by (auto simp: value_of_def print_value_def undouble_double butlast_append)
  qed
qed

lemma print_values_hd: "r = [] \<or> hd r = CHR '')'' \<Longrightarrow> print_values vs @ r = [] \<or> hd (print_values vs @ r) = CHR '','' \<or> hd (print_values vs @ r) = CHR '')''"
  by (cases vs) (auto simp: print_values_def)

lemma parse_print_values: "parse_values_from all (print_values vs) = Inr vs"
proof (induction vs)
  case (Cons v vs)
  have "print_values (v # vs) = CHR '','' # print_value v @ print_values vs" by (simp add: print_values_def)
  with Cons scan_print_value [of "print_values vs" v] print_values_hd [of "[]" vs] show ?case by simp
qed (simp add: print_values_def)

lemma scan_print_values:
  assumes "vs \<noteq> []"
  shows "scan_values (print_values vs @ CHR '')'' # s) = Some (print_values vs, CHR '')'' # s)"
  using assms
proof (induction vs rule: list_nonempty_induct)
  case (single v)
  have "print_values [v] @ CHR '')'' # s = CHR '','' # print_value v @ CHR '')'' # s" by (simp add: print_values_def)
  with scan_print_value(1) [of "CHR '')'' # s" v] show ?case
    by (simp add: scan_values.simps print_values_def)
next
  case (cons v vs)
  have eq: "print_values (v # vs) @ CHR '')'' # s = CHR '','' # print_value v @ print_values vs @ CHR '')'' # s"
    by (simp add: print_values_def)
  have "take 1 (print_values vs @ CHR '')'' # s) = '',''" using cons.hyps by (cases vs) (auto simp: print_values_def)
  with cons.IH scan_print_value(1) [of "print_values vs @ CHR '')'' # s" v] print_values_hd [of "CHR '')'' # s" vs]
  show ?case
    unfolding eq by (subst scan_values.simps) (simp add: print_values_def)
qed

lemma op_chars: "op \<in> set opOne \<or> op \<in> set opMulti \<Longrightarrow> op \<noteq> [] \<and> list_all lower_char op"
  by (auto simp: opOne_def opMulti_def lower_char_def less_eq_char_def)

lemma scan_print_expr:
  assumes "expr_ok (op, as, vs)"
  shows "scan_expr (print_expr (op, as, vs) @ s) = Some (op, print_attr as, print_values vs, s)"
proof -
  let ?tail = "print_values vs @ CHR '')'' # s"
  have op: "op \<noteq> []" "list_all lower_char op" using op_chars assms by (auto simp: expr_ok_def)
  have vs: "vs \<noteq> []" "print_attr as \<noteq> []" using assms by (auto simp: expr_ok_def)
  have ac: "\<forall>c \<in> set (print_attr as). c \<noteq> CHR '',''"
  proof -
    have "CHR '','' \<notin> set (join CHR ''/'' ps)" if "\<And>p. p \<in> set ps \<Longrightarrow> CHR '','' \<notin> set p" for ps
      using that by (induction "CHR ''/''" ps rule: join.induct) auto
    from this [of "map print_name as"] have "CHR '','' \<notin> set (print_attr as)"
      using print_name_chars(2) by (auto simp: print_attr_def)
    then show ?thesis by auto
  qed
  have eq: "print_expr (op, as, vs) @ s = CHR ''('' # op @ CHR '','' # print_attr as @ ?tail"
    by (simp add: print_expr_def)
  have "takeWhile lower_char (op @ CHR '','' # print_attr as @ ?tail) = op"
    "dropWhile lower_char (op @ CHR '','' # print_attr as @ ?tail) = CHR '','' # print_attr as @ ?tail"
    using op(2) by (auto simp: takeWhile_append dropWhile_append list_all_iff lower_char_def less_eq_char_def)
  moreover have "takeWhile (\<lambda>c. c \<noteq> CHR '','') (print_attr as @ ?tail) = print_attr as"
    "dropWhile (\<lambda>c. c \<noteq> CHR '','') (print_attr as @ ?tail) = ?tail"
    using ac vs(1) by (cases vs; auto simp: takeWhile_append dropWhile_append print_values_def)+
  ultimately show ?thesis
    using op vs scan_print_values [OF vs(1), of s] by (simp add: eq scan_expr_def Let_def)
qed

lemma make_print_expr:
  assumes "expr_ok (op, as, vs)"
  shows "make_expr op (print_attr as) (print_values vs) = Inr (expr_of (op, as, vs))"
proof -
  have "as \<noteq> []" using assms by (auto simp: expr_ok_def print_attr_def)
  with assms show ?thesis
    by (auto simp: make_expr_def parse_values_def parse_print_values parse_print_attr expr_ok_def expr_of_def)
qed

text \<open>
  C28: Every filter that is written down with the escapes and quotes of SOL013 is parsed back to
  exactly its expressions: operators, attribute paths (\<open>@key\<close> included) and values, whatever
  characters the names and values contain.
\<close>

theorem parse_filter_round_trip:
  assumes "es \<noteq> []" and "list_all expr_ok es"
  shows "parse_filter (Some (print_filter es)) = Inr (map expr_of es)"
proof -
  have "parse_filter_from (print_filter es) = Inr (map expr_of es)"
    using assms
  proof (induction es rule: list_nonempty_induct)
    case (single e)
    obtain op as vs where e: "e = (op, as, vs)" by (cases e)
    with single.prems scan_print_expr [of op as vs "[]"] make_print_expr [of op as vs] show ?case
      by (simp add: parse_filter_from.simps print_filter_def)
  next
    case (cons e es)
    obtain op as vs where e: "e = (op, as, vs)" by (cases e)
    have eq: "print_filter (e # es) = print_expr e @ CHR '';'' # print_filter es"
      using cons.hyps by (cases es) (simp_all add: print_filter_def)
    have "expr_ok (op, as, vs)" "list_all expr_ok es" using cons.prems e by simp_all
    with cons.IH scan_print_expr [of op as vs "CHR '';'' # print_filter es"] make_print_expr [of op as vs] show ?case
      unfolding eq by (subst parse_filter_from.simps) (simp add: e)
  qed
  then show ?thesis by (simp add: parse_filter_def)
qed

theorem parse_filter_round_trip_witness:
  "parse_filter (Some (print_filter [(''eq'', [FName ''a/b'', KeyAttribute], [''it, '' @ [quote_char] @ ''s''])])) =
     Inr [expr_of (''eq'', [FName ''a/b'', KeyAttribute], [''it, '' @ [quote_char] @ ''s''])]"
  using parse_filter_round_trip [of "[(''eq'', [FName ''a/b'', KeyAttribute], [''it, '' @ [quote_char] @ ''s''])]"]
  by (simp add: expr_ok_def print_attr_def opOne_def)

end
