(* ===== verification/Heat_Info.thy ===== *)
theory Heat_Info
  imports Grant_Request View_Filter "HOL-Library.Product_Lexorder"
begin

section \<open>The OpenStack driver: what an operation records about its stack\<close>

text \<open>
  \<^verbatim>\<open>_make_instantiated_vnf_info\<close> of \<^verbatim>\<open>infra_drivers/openstack/openstack.py\<close> with its helpers, and the functions of
  \<^verbatim>\<open>heat_utils.py\<close> that read resources. After every operation the driver reads the resources and parameters
  of the stack and makes \<^verbatim>\<open>instantiatedVnfInfo\<close> anew. What it reads is a \<open>heat_view\<close>, with the readers of
  JSON texts and of times.

  The code fills objects that are already in the lists (ports, CPs); here a list is replaced by the
  list with the filled object, and ports are put into virtual links after they are filled. Objects of
  the old information that the code changes in place are not changed here: the old information is
  replaced, and when an exception is raised the instance is dropped by the caller.
\<close>

subsection \<open>Texts and numbers\<close>

definition LINK_PORT_PREFIX :: string where
  "LINK_PORT_PREFIX = ''req-''"

definition is_link_port :: "string \<Rightarrow> bool" where
  "is_link_port i = (take (length LINK_PORT_PREFIX) i = LINK_PORT_PREFIX)"

definition make_cp_info_id :: "string \<Rightarrow> string" where
  "make_cp_info_id link_port_id = ''cp-'' @ link_port_id"

definition rpartition_dash :: "string \<Rightarrow> (string \<times> string) option" where
  "rpartition_dash s = (if CHR ''-'' \<notin> set s then None
     else let t = rev (takeWhile (\<lambda>c. c \<noteq> CHR ''-'') (rev s)) in Some (take (length s - length t - 1) s, t))"

text \<open>\<open>int(s)\<close>: blanks around, a sign, digits that single underscores may separate.\<close>

definition py_blank :: "char \<Rightarrow> bool" where
  "py_blank c = (c \<in> {CHR '' '', CHR 0x09, CHR 0x0A, CHR 0x0B, CHR 0x0C, CHR 0x0D, CHR 0x1C, CHR 0x1D, CHR 0x1E, CHR 0x1F})"

definition py_strip :: "string \<Rightarrow> string" where
  "py_strip s = rev (dropWhile py_blank (rev (dropWhile py_blank s)))"

definition digit_of :: "char \<Rightarrow> int option" where
  "digit_of c = (let n = (of_char c :: nat) in if 48 \<le> n \<and> n \<le> 57 then Some (int n - 48) else None)"

fun digits_from :: "int \<Rightarrow> string \<Rightarrow> int option" where
  "digits_from acc [] = Some acc"
| "digits_from acc (c # s) = (case digit_of c of
      Some d \<Rightarrow> digits_from (10 * acc + d) s
    | None \<Rightarrow> if c \<noteq> CHR ''_'' then None
        else (case s of [] \<Rightarrow> None
          | d # t \<Rightarrow> (case digit_of d of None \<Rightarrow> None | Some x \<Rightarrow> digits_from (10 * acc + x) t)))"

definition digits_of :: "string \<Rightarrow> int option" where
  "digits_of s = (case s of [] \<Rightarrow> None | c # t \<Rightarrow> (case digit_of c of None \<Rightarrow> None | Some d \<Rightarrow> digits_from d t))"

definition py_int :: "string \<Rightarrow> int pyres" where
  "py_int s = (let t = py_strip s in
     case (case t of
         [] \<Rightarrow> None
       | c # u \<Rightarrow> if c = CHR ''-'' then map_option uminus (digits_of u) else if c = CHR ''+'' then digits_of u else digits_of t) of
       None \<Rightarrow> Inl (PyExc ValueError (''invalid literal for int() with base 10: '' @ quoted s)) | Some n \<Rightarrow> Inr n)"

definition get_vdu_idx :: "string \<Rightarrow> json pyres" where
  "get_vdu_idx vdu_with_idx = (case rpartition_dash vdu_with_idx of
      None \<Rightarrow> Inr JNull | Some (_, t) \<Rightarrow> bindE (py_int t) (\<lambda>n. Inr (JNum n)))"

text \<open>An index in a format string: \<^verbatim>\<open>metadata['vdu_idx']\<close> is a number or None.\<close>

definition rsc_with_idx :: "string \<Rightarrow> json \<Rightarrow> string pyres" where
  "rsc_with_idx rsc rsc_idx = (case rsc_idx of JNull \<Rightarrow> Inr rsc | JNum n \<Rightarrow> Inr (rsc @ ''-'' @ show_int n) | j \<Rightarrow> Inl (type_error j))"

subsection \<open>Resources of a stack (heat\_utils.py)\<close>

record heat_res =
  hr_resource_name :: string
  hr_physical_resource_id :: string
  hr_resource_type :: string
  hr_creation_time :: string
  hr_parent_resource :: "string option"
  hr_required_by :: "string list option"
  hr_links :: "(string \<times> string) list option"

record heat_view =
  hv_resources :: "string \<Rightarrow> heat_res list pyres"
  hv_parameters :: "string \<Rightarrow> (string, string) dict pyres"
  hv_template :: "string \<Rightarrow> json pyres"
  hv_loads :: "string \<Rightarrow> json pyres"
  hv_isoparse :: "string \<Rightarrow> int pyres"

type_synonym heat_reses = "(string, heat_res) dict"

definition get_reses_by_types :: "heat_res list \<Rightarrow> string list \<Rightarrow> heat_res list" where
  "get_reses_by_types heat_reses types = filter (\<lambda>res. hr_resource_type res \<in> set types) heat_reses"

definition get_server_reses :: "heat_res list \<Rightarrow> heat_res list" where
  "get_server_reses heat_reses = get_reses_by_types heat_reses [''OS::Nova::Server'']"

definition get_network_reses :: "heat_res list \<Rightarrow> heat_res list" where
  "get_network_reses heat_reses = get_reses_by_types heat_reses [''OS::Neutron::Net'']"

definition get_storage_reses :: "heat_res list \<Rightarrow> heat_res list" where
  "get_storage_reses heat_reses = get_reses_by_types heat_reses [''OS::Cinder::Volume'']"

definition get_port_reses :: "heat_res list \<Rightarrow> heat_res list" where
  "get_port_reses heat_reses = get_reses_by_types heat_reses [''OS::Neutron::Port'']"

definition stored_stack_id :: "vnf_instance \<Rightarrow> json option" where
  "stored_stack_id inst = (case in_instantiatedVnfInfo inst of None \<Rightarrow> None
     | Some info \<Rightarrow> (case iv_metadata info of None \<Rightarrow> None | Some md \<Rightarrow> map_of md ''stack_id''))"

definition get_stack_name :: "vnf_instance \<Rightarrow> string option \<Rightarrow> string" where
  "get_stack_name inst stack_id =
     (let stack_name = ''vnf-'' @ in_id inst in
      case stack_id of
        Some (c # s) \<Rightarrow> stack_name @ ''/'' @ c # s
      | _ \<Rightarrow> (case stored_stack_id inst of
          Some (JStr (c # s)) \<Rightarrow> stack_name @ ''/'' @ c # s
        | _ \<Rightarrow> stack_name))"

definition get_resource_stack_id :: "heat_res \<Rightarrow> json pyres" where
  "get_resource_stack_id heat_res = (case find (\<lambda>(rel, href). rel = ''stack'') (opt_list (hr_links heat_res)) of
      None \<Rightarrow> Inr JNull
    | Some (rel, href) \<Rightarrow> (case rev (split_on CHR ''/'' href) of
        b # a # _ \<Rightarrow> Inr (JStr (a @ ''/'' @ b))
      | _ \<Rightarrow> Inl (PyExc IndexError ''list index out of range'')))"

definition get_parent_resource :: "heat_res \<Rightarrow> heat_res list \<Rightarrow> heat_res option" where
  "get_parent_resource heat_res heat_reses = (case hr_parent_resource heat_res of
      None \<Rightarrow> None
    | Some parent \<Rightarrow> if parent = [] then None else find (\<lambda>res. hr_resource_name res = parent) heat_reses)"

definition get_checked_reses :: "(string, json) dict \<Rightarrow> heat_res list \<Rightarrow> heat_reses" where
  "get_checked_reses nodes reses = fold (\<lambda>res d. dict_set (hr_physical_resource_id res) res d)
     (filter (\<lambda>res. hr_resource_name res \<in> fst ` set nodes) reses) []"

definition res_to_handle :: "string \<Rightarrow> heat_res \<Rightarrow> resource_handle" where
  "res_to_handle vim_key res = \<lparr>rh_vimConnectionId = Some vim_key, rh_resourceProviderId = None,
     rh_resourceId = hr_physical_resource_id res, rh_vimLevelResourceType = Some (hr_resource_type res)\<rparr>"

subsection \<open>VNFCs\<close>

definition is_scaling_group :: "heat_res option \<Rightarrow> bool" where
  "is_scaling_group res = (case res of None \<Rightarrow> False | Some r \<Rightarrow> hr_resource_type r = ''OS::Heat::AutoScalingGroup'')"

definition make_vnfc_metadata :: "heat_res \<Rightarrow> heat_res list \<Rightarrow> jdict pyres" where
  "make_vnfc_metadata server_res heat_reses =
     bindE (get_resource_stack_id server_res) (\<lambda>stack_id.
     let metadata = [(''creation_time'', JStr (hr_creation_time server_res)), (''stack_id'', stack_id)] in
     case get_parent_resource server_res heat_reses of
       None \<Rightarrow> Inr metadata
     | Some parent_res \<Rightarrow>
         if is_scaling_group (get_parent_resource parent_res heat_reses)
         then bindE (get_resource_stack_id parent_res) (\<lambda>i.
           Inr (metadata @ [(''parent_stack_id'', i), (''parent_resource_name'', JStr (hr_resource_name parent_res))]))
         else bindE (get_vdu_idx (hr_resource_name parent_res)) (\<lambda>idx. Inr (metadata @ [(''vdu_idx'', idx)])))"

text \<open>Entries of the VDU dictionary in the parameters of the stack.\<close>

definition vdu_entry :: "json \<Rightarrow> string \<Rightarrow> string \<Rightarrow> json pyres" where
  "vdu_entry vdu_dict vdu_name k = bindE (jget vdu_dict vdu_name (JObj [])) (\<lambda>d. jget d k JNull)"

definition vnfc_idx :: "vnfc_resource \<Rightarrow> json pyres" where
  "vnfc_idx vnfc = bindE (attr ''metadata'' (vr_metadata vnfc)) (\<lambda>md. Inr (or_null (map_of md ''vdu_idx'')))"

definition vnfc_name :: "vnfc_resource \<Rightarrow> string pyres" where
  "vnfc_name vnfc = bindE (vnfc_idx vnfc) (rsc_with_idx (vr_vduId vnfc))"

definition get_flavor_from_vdu_dict :: "vnfc_resource \<Rightarrow> json \<Rightarrow> json pyres" where
  "get_flavor_from_vdu_dict vnfc vdu_dict = bindE (vnfc_name vnfc) (\<lambda>n. vdu_entry vdu_dict n ''computeFlavourId'')"

definition get_zone_from_vdu_dict :: "vnfc_resource \<Rightarrow> json \<Rightarrow> json pyres" where
  "get_zone_from_vdu_dict vnfc vdu_dict = bindE (vnfc_name vnfc) (\<lambda>n. vdu_entry vdu_dict n ''locationConstraints'')"

definition get_images_from_vdu_dict :: "vnfc_resource \<Rightarrow> storage_resource list \<Rightarrow> json \<Rightarrow> jdict pyres" where
  "get_images_from_vdu_dict vnfc storage_infos vdu_dict =
     bindE (vnfc_idx vnfc) (\<lambda>vdu_idx.
     bindE (rsc_with_idx (vr_vduId vnfc) vdu_idx) (\<lambda>vdu_name.
     bindE (case vr_storageResourceIds vnfc of
         None \<Rightarrow> Inr []
       | Some ids \<Rightarrow> mapE (\<lambda>st. rsc_with_idx (vs_virtualStorageDescId st) vdu_idx) (filter (\<lambda>st. vs_id st \<in> set ids) storage_infos))
       (\<lambda>storage_names.
       foldE (\<lambda>n images. bindE (vdu_entry vdu_dict n ''vcImageId'') (\<lambda>image.
          Inr (if py_truthy image then dict_set n image images else images))) (vdu_name # storage_names) [])))"

definition extra_keys :: "string list" where
  "extra_keys = [''server_notification'']"

definition add_extra_metadata_from_inst :: "jdict \<Rightarrow> string \<Rightarrow> vnf_instance \<Rightarrow> jdict" where
  "add_extra_metadata_from_inst metadata vnfc_res_id inst = (case in_instantiatedVnfInfo inst of None \<Rightarrow> metadata
     | Some info \<Rightarrow> (case find (\<lambda>v. vr_id v = vnfc_res_id \<and> opt_list (vr_metadata v) \<noteq> []) (opt_list (iv_vnfcResourceInfo info)) of
         None \<Rightarrow> metadata
       | Some v \<Rightarrow> fold (\<lambda>k md. case map_of (opt_list (vr_metadata v)) k of None \<Rightarrow> md | Some x \<Rightarrow> dict_set k x md)
           extra_keys metadata))"

text \<open>The properties that a template of a scaling group gives to its member.\<close>

definition group_metadata :: "heat_view \<Rightarrow> json \<Rightarrow> jdict \<Rightarrow> jdict pyres" where
  "group_metadata hv parent_stack_id metadata =
     bindE (as_str parent_stack_id) (\<lambda>i.
     bindE (hv_template hv i) (\<lambda>template.
     bindE (dict_item metadata ''parent_resource_name'') (\<lambda>name.
     bindE (as_str name) (\<lambda>n.
     bindE (jitem template ''resources'') (\<lambda>rs.
     bindE (jitem rs n) (\<lambda>r.
     bindE (jitem r ''properties'') (\<lambda>properties.
     bindE (jitem properties ''flavor'') (\<lambda>flavor.
     bindE (jitems properties) (\<lambda>ps.
       Inr (fold (\<lambda>(k, v) md. if take 6 k = ''image-'' then dict_set k v md else md) ps (dict_set ''flavor'' flavor metadata)))))))))))"

definition update_vnfc_metadata :: "heat_view \<Rightarrow> storage_resource list \<Rightarrow> json \<Rightarrow> vnf_instance \<Rightarrow> vnfc_resource \<Rightarrow> vnfc_resource pyres" where
  "update_vnfc_metadata hv storage_infos nfv_dict inst vnfc =
     bindE (attr ''metadata'' (vr_metadata vnfc)) (\<lambda>metadata.
     bindE (case map_of metadata ''parent_stack_id'' of
         Some i \<Rightarrow> bindE (group_metadata hv i metadata) (\<lambda>md. Inr (vnfc\<lparr>vr_metadata := Some md\<rparr>))
       | None \<Rightarrow>
          bindE (jitem nfv_dict ''VDU'') (\<lambda>vdus.
          bindE (get_flavor_from_vdu_dict vnfc vdus) (\<lambda>flavor.
          bindE (get_images_from_vdu_dict vnfc storage_infos vdus) (\<lambda>images.
          bindE (get_zone_from_vdu_dict vnfc vdus) (\<lambda>zone.
          let md = fold (\<lambda>(n, image). dict_set (''image-'' @ n) image) images (dict_set ''flavor'' flavor metadata) in
          if zone = JNull then Inr (vnfc\<lparr>vr_metadata := Some md\<rparr>)
          else bindE (as_str zone) (\<lambda>z.
            Inr (vnfc\<lparr>vr_metadata := Some (dict_set ''zone'' zone md), vr_zoneId := Some z\<rparr>)))))))
       (\<lambda>v. Inr (v\<lparr>vr_metadata := Some (add_extra_metadata_from_inst (opt_list (vr_metadata v)) (vr_id v) inst)\<rparr>)))"

definition make_vnfc_res_info :: "string \<Rightarrow> heat_res list \<Rightarrow> string \<times> heat_res \<Rightarrow> vnfc_resource pyres" where
  "make_vnfc_res_info vim_key heat_reses = (\<lambda>(res_id, res).
     bindE (make_vnfc_metadata res heat_reses) (\<lambda>md.
       Inr \<lparr>vr_id = res_id, vr_vduId = hr_resource_name res, vr_computeResource = res_to_handle vim_key res, vr_zoneId = None,
         vr_storageResourceIds = None, vr_vnfcCpInfo = None, vr_metadata = Some md\<rparr>))"

definition attach_parts :: "vnfd \<Rightarrow> json \<Rightarrow> heat_reses \<Rightarrow> heat_reses \<Rightarrow> vnfc_resource \<Rightarrow> vnfc_resource pyres" where
  "attach_parts vnfd flavour_id server_reses storage_reses vnfc =
     bindE (dict_item server_reses (vr_id vnfc)) (\<lambda>server_res.
     let storage_ids = map fst (filter (\<lambda>(i, r). hr_parent_resource server_res = hr_parent_resource r) storage_reses) in
     bindE (get_vdu_cps vnfd flavour_id (vr_vduId vnfc)) (\<lambda>vdu_cps.
     let cp_infos = map (\<lambda>cp. \<lparr>cpi_id = make_combination_id cp (vr_id vnfc), cpi_cpdId = cp, cpi_vnfExtCpId = None,
           cpi_vnfLinkPortId = None\<rparr>) vdu_cps in
     Inr (vnfc\<lparr>vr_storageResourceIds := non_empty storage_ids, vr_vnfcCpInfo := non_empty cp_infos\<rparr>)))"

subsection \<open>External virtual links\<close>

definition link_cp_of :: "ext_cp_data list \<Rightarrow> string \<Rightarrow> (string \<times> string) option" where
  "link_cp_of ext_cps port_id =
     (case [(xcd_cpdId ext_cp, key). ext_cp \<leftarrow> ext_cps, (key, cp_conf) \<leftarrow> xcd_cpConfig ext_cp, cc_linkPortId cp_conf = Some port_id] of
        [] \<Rightarrow> None | x # _ \<Rightarrow> Some x)"

definition make_link_port :: "ext_vl_data \<Rightarrow> ext_link_port_data \<Rightarrow> link_port \<times> ext_cp_info" where
  "make_link_port req_ext_vl req_link_port =
     (let i = xlp_id req_link_port; cp_id = make_cp_info_id i; cp = link_cp_of (xvd_extCps req_ext_vl) i in
      (\<lparr>lp_id = i, lp_resourceHandle = xlp_resourceHandle req_link_port, lp_cpInstanceId = Some cp_id, lp_cpInstanceType = None\<rparr>,
       \<lparr>xci_id = cp_id, xci_cpdId = map_option fst cp, xci_cpConfigId = map_option snd cp, xci_cpProtocolInfo = None,
        xci_extLinkPortId = Some i, xci_associatedVnfcCpId = None\<rparr>))"

definition make_link_ports :: "ext_vl_data \<Rightarrow> (link_port \<times> ext_cp_info) list" where
  "make_link_ports req_ext_vl = map (make_link_port req_ext_vl) (opt_list (xvd_extLinkPorts req_ext_vl))"

definition make_ext_vl_from_req :: "ext_vl_data \<Rightarrow> ext_vl_info \<times> ext_cp_info list" where
  "make_ext_vl_from_req req_ext_vl =
     (let ports = make_link_ports req_ext_vl in
      (\<lparr>xvl_id = xvd_id req_ext_vl,
        xvl_resourceHandle = \<lparr>rh_vimConnectionId = xvd_vimConnectionId req_ext_vl,
          rh_resourceProviderId = xvd_resourceProviderId req_ext_vl, rh_resourceId = xvd_resourceId req_ext_vl,
          rh_vimLevelResourceType = None\<rparr>,
        xvl_extLinkPorts = Some (map fst ports), xvl_currentVnfExtCpData = Some (xvd_extCps req_ext_vl)\<rparr>,
       map snd ports))"

definition given_ext_vls :: "op_params \<Rightarrow> grant \<Rightarrow> ext_vl_data list option" where
  "given_ext_vls req grant = (case gr_extVirtualLinks grant of Some vls \<Rightarrow> Some vls | None \<Rightarrow> rq_extVirtualLinks req)"

definition make_ext_vl_info_from_req :: "op_params \<Rightarrow> grant \<Rightarrow> ext_vl_info list \<times> ext_cp_info list" where
  "make_ext_vl_info_from_req req grant =
     (let vls = map make_ext_vl_from_req (opt_list (given_ext_vls req grant)) in (map fst vls, concat (map snd vls)))"

text \<open>For a port without its CP information the code records None and fails later; the model
  fails at once.\<close>

definition find_ext_cp_info :: "ext_cp_info list \<Rightarrow> link_port \<Rightarrow> ext_cp_info pyres" where
  "find_ext_cp_info ext_cp_infos port =
     bindE (attr ''cpInstanceId'' (lp_cpInstanceId port)) (\<lambda>i. found ''cpdId'' (find (\<lambda>c. xci_id c = i) ext_cp_infos))"

definition is_ext_vl_link_port :: "string \<Rightarrow> ext_cp_data list \<Rightarrow> bool" where
  "is_ext_vl_link_port port_id ext_cp_data = (Some port_id \<in>
     set [cc_linkPortId cp_conf. ext_cp \<leftarrow> ext_cp_data, cp_conf \<leftarrow> map snd (xcd_cpConfig ext_cp)])"

text \<open>The ports that came with a request are kept, with their CPs; those of the stack are made anew.\<close>

definition kept_ports :: "string list \<Rightarrow> ext_cp_info list \<Rightarrow> link_port list \<Rightarrow> ext_cp_data list \<Rightarrow> (link_port \<times> ext_cp_info) list pyres" where
  "kept_ports req_all_cp_names old_cp_infos ports data = concatE (\<lambda>port.
     bindE (find_ext_cp_info old_cp_infos port) (\<lambda>cp.
     bindE (attr ''cpdId'' (xci_cpdId cp)) (\<lambda>n.
       Inr (if n \<notin> set req_all_cp_names \<and> is_ext_vl_link_port (lp_id port) data then [(port, cp)] else [])))) ports"

definition stack_ports_dropped :: "ext_cp_info list \<Rightarrow> ext_vl_info \<Rightarrow> (link_port \<times> ext_cp_info) list pyres" where
  "stack_ports_dropped old_cp_infos ext_vl = concatE (\<lambda>port.
     bindE (attr ''currentVnfExtCpData'' (xvl_currentVnfExtCpData ext_vl)) (\<lambda>data.
       if is_ext_vl_link_port (lp_id port) data
       then bindE (find_ext_cp_info old_cp_infos port) (\<lambda>cp. Inr [(port, cp)]) else Inr []))
     (opt_list (xvl_extLinkPorts ext_vl))"

definition make_ext_vl_info_from_inst :: "inst_vnf_info \<Rightarrow> (ext_vl_info list \<times> ext_cp_info list) pyres" where
  "make_ext_vl_info_from_inst old_info =
     bindE (mapE (\<lambda>ext_vl. bindE (stack_ports_dropped (opt_list (iv_extCpInfo old_info)) ext_vl) (\<lambda>ports.
         Inr (if xvl_extLinkPorts ext_vl = None then ext_vl else ext_vl\<lparr>xvl_extLinkPorts := Some (map fst ports)\<rparr>, map snd ports)))
       (opt_list (iv_extVirtualLinkInfo old_info))) (\<lambda>vls. Inr (map fst vls, concat (map snd vls)))"

definition merge_ext_vl :: "ext_vl_data list \<Rightarrow> ext_cp_info list \<Rightarrow> ext_vl_info \<Rightarrow> (ext_vl_info list \<times> ext_cp_info list) pyres" where
  "merge_ext_vl req_ext_vls old_cp_infos ext_vl =
     (let req_all_cp_names = [xcd_cpdId ext_cp. vl \<leftarrow> req_ext_vls, ext_cp \<leftarrow> xvd_extCps vl] in
      bindE (attr ''currentVnfExtCpData'' (xvl_currentVnfExtCpData ext_vl)) (\<lambda>old_data.
      bindE (kept_ports req_all_cp_names old_cp_infos (opt_list (xvl_extLinkPorts ext_vl)) old_data) (\<lambda>kept.
      let req_ext_vl = find (\<lambda>vl. xvd_id vl = xvl_id ext_vl) req_ext_vls;
          new_data = filter (\<lambda>d. xcd_cpdId d \<notin> set req_all_cp_names) old_data @
            (case req_ext_vl of None \<Rightarrow> [] | Some vl \<Rightarrow> xvd_extCps vl);
          ports = kept @ (case req_ext_vl of None \<Rightarrow> [] | Some vl \<Rightarrow> make_link_ports vl) in
      Inr (if new_data = [] then [] else [ext_vl\<lparr>xvl_currentVnfExtCpData := Some new_data, xvl_extLinkPorts := Some (map fst ports)\<rparr>],
        map snd ports))))"

definition make_ext_vl_info_from_req_and_inst ::
    "op_params \<Rightarrow> grant \<Rightarrow> inst_vnf_info \<Rightarrow> (ext_vl_info list \<times> ext_cp_info list) pyres" where
  "make_ext_vl_info_from_req_and_inst req grant old_info = (case given_ext_vls req grant of
      None \<Rightarrow> make_ext_vl_info_from_inst old_info
    | Some req_ext_vls \<Rightarrow>
        let old_vls = opt_list (iv_extVirtualLinkInfo old_info);
            added = map make_ext_vl_from_req (filter (\<lambda>vl. xvd_id vl \<notin> xvl_id ` set old_vls) req_ext_vls) in
        bindE (mapE (merge_ext_vl req_ext_vls (opt_list (iv_extCpInfo old_info))) old_vls) (\<lambda>merged.
          Inr (map fst added @ concat (map fst merged), concat (map snd added) @ concat (map snd merged))))"

subsection \<open>Externally managed virtual links\<close>

text \<open>The ports of a request are assigned to \<^verbatim>\<open>vnfLinkPort\<close>, which is no attribute of the class (it is
  \<^verbatim>\<open>vnfLinkPorts\<close>), so the information has no ports.\<close>

definition make_ext_mgd_vl_info_from_req :: "vnfd \<Rightarrow> json \<Rightarrow> op_params \<Rightarrow> grant \<Rightarrow> vl_info list pyres" where
  "make_ext_mgd_vl_info_from_req vnfd flavour_id req grant =
     (let req_mgd_vls = (case gr_extManagedVirtualLinks grant of Some vls \<Rightarrow> vls | None \<Rightarrow> opt_list (rq_extManagedVirtualLinks req)) in
      bindE (get_virtual_link_nodes vnfd flavour_id) (\<lambda>vls.
      Inr (map (\<lambda>vl. \<lparr>vl_id = xmd_id vl, vl_vnfVirtualLinkDescId = xmd_vnfVirtualLinkDescId vl,
           vl_networkResource = \<lparr>rh_vimConnectionId = xmd_vimConnectionId vl, rh_resourceProviderId = xmd_resourceProviderId vl,
             rh_resourceId = xmd_resourceId vl, rh_vimLevelResourceType = None\<rparr>, vl_vnfLinkPorts = None\<rparr>)
         (filter (\<lambda>vl. xmd_vnfVirtualLinkDescId vl \<in> fst ` set vls) req_mgd_vls))))"

definition make_ext_mgd_vl_info_from_inst :: "inst_vnf_info \<Rightarrow> vl_info list" where
  "make_ext_mgd_vl_info_from_inst old_info = map (\<lambda>vl. vl\<lparr>vl_vnfLinkPorts := map_option (filter (\<lambda>p. is_link_port (lp_id p)))
     (vl_vnfLinkPorts vl)\<rparr>) (opt_list (iv_extManagedVirtualLinkInfo old_info))"

subsection \<open>Protocol data of a CP\<close>

definition set_member :: "jdict \<Rightarrow> string \<Rightarrow> json pyres" where
  "set_member d k = attr k (map_of d k)"

definition copied :: "jdict \<Rightarrow> string \<Rightarrow> string \<Rightarrow> jdict" where
  "copied d k k' = (case map_of d k of None \<Rightarrow> [] | Some v \<Rightarrow> [(k', v)])"

definition address_range_data_to_info :: "json \<Rightarrow> json pyres" where
  "address_range_data_to_info range_data = bindE (jitems range_data) (\<lambda>d.
     bindE (set_member d ''minAddress'') (\<lambda>a. bindE (set_member d ''maxAddress'') (\<lambda>b.
       Inr (JObj [(''minAddress'', a), (''maxAddress'', b)]))))"

definition addr_data_to_info :: "json \<Rightarrow> json pyres" where
  "addr_data_to_info addr_data = bindE (jitems addr_data) (\<lambda>d.
     bindE (set_member d ''type'') (\<lambda>ty.
     bindE (case map_of d ''addressRange'' of None \<Rightarrow> Inr []
       | Some r \<Rightarrow> bindE (address_range_data_to_info r) (\<lambda>i. Inr [(''addressRange'', i)])) (\<lambda>range_info.
       Inr (JObj ((''type'', ty) # copied d ''fixedAddresses'' ''addresses'' @
         (if map_of d ''numDynamicAddresses'' = None then [] else [(''isDynamic'', JBool True)]) @
         range_info @ copied d ''subnetId'' ''subnetId'')))))"

definition proto_data_to_info :: "json \<Rightarrow> json pyres" where
  "proto_data_to_info proto_data = bindE (jitems proto_data) (\<lambda>d.
     bindE (set_member d ''layerProtocol'') (\<lambda>l.
     bindE (set_member d ''ipOverEthernet'') (\<lambda>ip_data.
     bindE (jitems ip_data) (\<lambda>e.
     bindE (case map_of e ''ipAddresses'' of None \<Rightarrow> Inr []
       | Some xs \<Rightarrow> bindE (jlist xs) (\<lambda>as. bindE (mapE addr_data_to_info as) (\<lambda>is. Inr [(''ipAddresses'', JArr is)]))) (\<lambda>addr_infos.
       Inr (JObj [(''layerProtocol'', l), (''ipOverEthernet'', JObj (copied e ''macAddress'' ''macAddress'' @
         copied e ''segmentationId'' ''segmentationId'' @ addr_infos))]))))))"

subsection \<open>Ports of the stack\<close>

fun upd_first :: "('a \<Rightarrow> bool) \<Rightarrow> ('a \<Rightarrow> 'a) \<Rightarrow> 'a list \<Rightarrow> 'a list" where
  "upd_first P f [] = []"
| "upd_first P f (x # xs) = (if P x then f x # xs else x # upd_first P f xs)"

definition add_port :: "link_port \<Rightarrow> link_port list option \<Rightarrow> link_port list option" where
  "add_port p ports = Some (opt_list ports @ [p])"

definition cp_data_of :: "string \<Rightarrow> ext_vl_info \<Rightarrow> ext_cp_data option pyres" where
  "cp_data_of cp_name vl = bindE (attr ''currentVnfExtCpData'' (xvl_currentVnfExtCpData vl)) (\<lambda>data.
     Inr (find (\<lambda>d. xcd_cpdId d = cp_name) data))"

fun find_ext_vl_by_cp_name :: "string \<Rightarrow> ext_vl_info list \<Rightarrow> (nat \<times> ext_cp_data) option pyres" where
  "find_ext_vl_by_cp_name cp_name [] = Inr None"
| "find_ext_vl_by_cp_name cp_name (vl # vls) = bindE (cp_data_of cp_name vl) (\<lambda>d. case d of
      Some data \<Rightarrow> Inr (Some (0, data))
    | None \<Rightarrow> bindE (find_ext_vl_by_cp_name cp_name vls) (\<lambda>r. Inr (map_option (\<lambda>(n, data). (Suc n, data)) r)))"

definition cp_protocols :: "ext_cp_data \<Rightarrow> (string \<times> json list) option pyres" where
  "cp_protocols data = (case find (\<lambda>(key, cp_conf). cc_cpProtocolData cp_conf \<noteq> None) (xcd_cpConfig data) of
      None \<Rightarrow> Inr None
    | Some (key, cp_conf) \<Rightarrow> bindE (jlist (or_null (cc_cpProtocolData cp_conf))) (\<lambda>ps.
        bindE (mapE proto_data_to_info ps) (\<lambda>infos. Inr (Some (key, infos)))))"

definition link_ext_port_info :: "heat_reses \<Rightarrow> link_port \<Rightarrow> (link_port list \<times> ext_vl_info list \<times> ext_cp_info list) \<Rightarrow>
    (link_port list \<times> ext_vl_info list \<times> ext_cp_info list) pyres" where
  "link_ext_port_info port_reses port = (\<lambda>(ports, vls, cps).
     bindE (dict_item port_reses (lp_id port)) (\<lambda>res.
     let cp_name = hr_resource_name res; cp_id = make_cp_info_id (lp_id port);
         port' = port\<lparr>lp_cpInstanceId := Some cp_id\<rparr>;
         cp = \<lparr>xci_id = cp_id, xci_cpdId = Some cp_name, xci_cpConfigId = None, xci_cpProtocolInfo = None,
           xci_extLinkPortId = Some (lp_id port), xci_associatedVnfcCpId = None\<rparr> in
     bindE (find_ext_vl_by_cp_name cp_name vls) (\<lambda>r. case r of
       None \<Rightarrow> Inr (ports @ [port'], vls, cps @ [cp])
     | Some (n, data) \<Rightarrow> bindE (cp_protocols data) (\<lambda>protos.
         Inr (ports @ [port'], vls[n := (vls ! n)\<lparr>xvl_extLinkPorts := add_port port' (xvl_extLinkPorts (vls ! n))\<rparr>],
           cps @ [case protos of None \<Rightarrow> cp
             | Some (key, infos) \<Rightarrow> cp\<lparr>xci_cpProtocolInfo := Some infos, xci_cpConfigId := Some key\<rparr>])))))"

text \<open>The CP of a VNFC that a port belongs to, as the VNFC and the name of the CP.\<close>

fun find_vnfc_cp_info :: "heat_res \<Rightarrow> heat_reses \<Rightarrow> vnfc_resource list \<Rightarrow> (string \<times> vnfc_cp_info) option pyres" where
  "find_vnfc_cp_info port_res server_reses [] = Inr None"
| "find_vnfc_cp_info port_res server_reses (v # vs) = (case vr_vnfcCpInfo v of
      None \<Rightarrow> find_vnfc_cp_info port_res server_reses vs
    | Some cps \<Rightarrow> bindE (dict_item server_reses (vr_id v)) (\<lambda>vnfc_res.
        case (if vr_vduId v \<in> set (opt_list (hr_required_by port_res)) \<and> hr_parent_resource port_res = hr_parent_resource vnfc_res
              then find (\<lambda>cp. cpi_cpdId cp = hr_resource_name port_res) cps else None) of
          Some cp \<Rightarrow> Inr (Some (vr_id v, cp))
        | None \<Rightarrow> find_vnfc_cp_info port_res server_reses vs))"

definition set_vnfc_cp :: "string \<Rightarrow> string \<Rightarrow> (vnfc_cp_info \<Rightarrow> vnfc_cp_info) \<Rightarrow> vnfc_resource list \<Rightarrow> vnfc_resource list" where
  "set_vnfc_cp vnfc_id cpd f = upd_first (\<lambda>v. vr_id v = vnfc_id)
     (\<lambda>v. v\<lparr>vr_vnfcCpInfo := map_option (upd_first (\<lambda>cp. cpi_cpdId cp = cpd) f) (vr_vnfcCpInfo v)\<rparr>)"

definition link_vnfc_ext_cp :: "heat_reses \<Rightarrow> heat_reses \<Rightarrow> link_port \<Rightarrow> vnfc_resource list \<times> ext_cp_info list \<Rightarrow>
    (vnfc_resource list \<times> ext_cp_info list) pyres" where
  "link_vnfc_ext_cp server_reses port_reses port = (\<lambda>(vnfcs, cps).
     bindE (dict_item port_reses (lp_id port)) (\<lambda>port_res.
     bindE (find_vnfc_cp_info port_res server_reses vnfcs) (\<lambda>r. case r of
       None \<Rightarrow> Inr (vnfcs, cps)
     | Some (i, cp) \<Rightarrow> Inr (set_vnfc_cp i (cpi_cpdId cp) (\<lambda>c. c\<lparr>cpi_vnfExtCpId := lp_cpInstanceId port\<rparr>) vnfcs,
         upd_first (\<lambda>c. xci_extLinkPortId c = Some (lp_id port)) (\<lambda>c. c\<lparr>xci_associatedVnfcCpId := Some (cpi_id cp)\<rparr>) cps))))"

definition link_vnfc_port :: "heat_reses \<Rightarrow> heat_reses \<Rightarrow> link_port \<Rightarrow> vnfc_resource list \<times> link_port list \<Rightarrow>
    (vnfc_resource list \<times> link_port list) pyres" where
  "link_vnfc_port server_reses port_reses port = (\<lambda>(vnfcs, ports).
     bindE (dict_item port_reses (lp_id port)) (\<lambda>port_res.
     bindE (find_vnfc_cp_info port_res server_reses vnfcs) (\<lambda>r. case r of
       None \<Rightarrow> Inr (vnfcs, ports @ [port])
     | Some (i, cp) \<Rightarrow> Inr (set_vnfc_cp i (cpi_cpdId cp) (\<lambda>c. c\<lparr>cpi_vnfLinkPortId := Some (lp_id port)\<rparr>) vnfcs,
         ports @ [port\<lparr>lp_cpInstanceType := Some ''VNFC_CP'', lp_cpInstanceId := Some (cpi_id cp)\<rparr>]))))"

definition find_vl_name :: "(string, json) dict \<Rightarrow> heat_res \<Rightarrow> json pyres" where
  "find_vl_name vducp_nodes port_res = bindE (dict_item vducp_nodes (hr_resource_name port_res)) get_vl_name_from_cp"

text \<open>A port goes to the last virtual link with its name, those of the stack first and the managed ones
  after them.\<close>

definition place_port :: "(string, json) dict \<Rightarrow> heat_reses \<Rightarrow> link_port \<Rightarrow> vl_info list \<Rightarrow> vl_info list pyres" where
  "place_port vducp_nodes port_reses port vls =
     bindE (dict_item port_reses (lp_id port)) (\<lambda>res.
     bindE (find_vl_name vducp_nodes res) (\<lambda>name.
       Inr (rev (upd_first (\<lambda>vl. JStr (vl_vnfVirtualLinkDescId vl) = name)
         (\<lambda>vl. vl\<lparr>vl_vnfLinkPorts := add_port port (vl_vnfLinkPorts vl)\<rparr>) (rev vls)))))"

subsection \<open>The information of the instance\<close>

definition vnfc_key :: "heat_view \<Rightarrow> vnfc_resource \<Rightarrow> (json \<times> int) pyres" where
  "vnfc_key hv vnfc =
     bindE (attr ''metadata'' (vr_metadata vnfc)) (\<lambda>md.
     bindE (dict_item md ''creation_time'') (\<lambda>t.
     bindE (as_str t) (\<lambda>x.
     bindE (hv_isoparse hv x) (\<lambda>time. Inr (case map_of md ''vdu_idx'' of None \<Rightarrow> JNum 0 | Some idx \<Rightarrow> idx, time)))))"

definition idx_num :: "json \<Rightarrow> int" where
  "idx_num j = (case j of JNum n \<Rightarrow> n | _ \<Rightarrow> 0)"

text \<open>\<open>sorted(..., reverse=True)\<close> keeps the order of equal keys; None and a number cannot be compared.\<close>

definition sort_vnfcs :: "heat_view \<Rightarrow> vnfc_resource list \<Rightarrow> vnfc_resource list pyres" where
  "sort_vnfcs hv vnfcs =
     bindE (mapE (vnfc_key hv) vnfcs) (\<lambda>keys.
     if JNull \<in> fst ` set keys \<and> \<not> fst ` set keys \<subseteq> {JNull} then Inl (type_error JNull)
     else Inr (map snd (rev (sort_key fst (rev (zip (map (\<lambda>(idx, t). (idx_num idx, t)) keys) vnfcs))))))"

text \<open>The index follows the last dash of a name, so it has no minus sign.\<close>

definition make_vnfc_info_id :: "vnf_instance \<Rightarrow> vnfc_resource \<Rightarrow> string pyres" where
  "make_vnfc_info_id inst vnfc =
     (let default_id = make_combination_id (vr_vduId vnfc) (vr_id vnfc) in
      bindE (vnfc_idx vnfc) (\<lambda>idx. case (idx, map_of (opt_list (in_metadata inst)) ''VDU_VNFc_mapping'') of
        (JNum n, Some mapping) \<Rightarrow> bindE (jget mapping (vr_vduId vnfc) JNull) (\<lambda>ids.
          if ids = JNull then Inr default_id
          else bindE (jlist ids) (\<lambda>xs. if n < int (length xs) then as_str (xs ! nat n) else Inr default_id))
      | _ \<Rightarrow> Inr default_id))"

fun old_vnfc_info :: "string \<Rightarrow> vnfc_info list \<Rightarrow> vnfc_info option pyres" where
  "old_vnfc_info i [] = Inr None"
| "old_vnfc_info i (c # cs) = bindE (attr ''vnfcResourceInfoId'' (ci_vnfcResourceInfoId c)) (\<lambda>r.
     if r = i then Inr (Some c) else old_vnfc_info i cs)"

definition make_vnfc_info :: "vnf_instance \<Rightarrow> vnfc_info list \<Rightarrow> vnfc_resource \<Rightarrow> vnfc_info pyres" where
  "make_vnfc_info inst old_vnfc_infos vnfc =
     bindE (old_vnfc_info (vr_id vnfc) old_vnfc_infos) (\<lambda>old.
     bindE (make_vnfc_info_id inst vnfc) (\<lambda>i.
       Inr (case old of Some c \<Rightarrow> c\<lparr>ci_id := i\<rparr>
         | None \<Rightarrow> \<lparr>ci_id = i, ci_vduId = vr_vduId vnfc, ci_vnfcResourceInfoId = Some (vr_id vnfc), ci_vnfcState = STARTED,
             ci_vnfcConfigurableProperties = None\<rparr>)))"

definition new_storage_info :: "string \<Rightarrow> string \<times> heat_res \<Rightarrow> storage_resource pyres" where
  "new_storage_info vim_key = (\<lambda>(i, res). bindE (get_resource_stack_id res) (\<lambda>stack_id.
     Inr \<lparr>vs_id = i, vs_virtualStorageDescId = hr_resource_name res, vs_storageResource = res_to_handle vim_key res,
       vs_metadata = Some [(''stack_id'', stack_id)]\<rparr>))"

definition new_vl_info :: "string \<Rightarrow> string \<times> heat_res \<Rightarrow> vl_info" where
  "new_vl_info vim_key = (\<lambda>(i, res). \<lparr>vl_id = i, vl_vnfVirtualLinkDescId = hr_resource_name res,
     vl_networkResource = res_to_handle vim_key res, vl_vnfLinkPorts = None\<rparr>)"

definition new_port :: "string \<Rightarrow> string option \<Rightarrow> string \<times> heat_res \<Rightarrow> link_port" where
  "new_port vim_key ty = (\<lambda>(i, res). \<lparr>lp_id = i, lp_resourceHandle = res_to_handle vim_key res, lp_cpInstanceId = None,
     lp_cpInstanceType = ty\<rparr>)"

definition op_flavour_id :: "op_params \<Rightarrow> vnf_instance \<Rightarrow> op_type \<Rightarrow> string pyres" where
  "op_flavour_id req inst op = (if op = INSTANTIATE then attr ''flavourId'' (rq_flavourId req)
     else bindE (old_info_of inst) (\<lambda>info. Inr (iv_flavourId info)))"

text \<open>The VNFCs with their storages, CPs and metadata.\<close>

definition make_vnfcs :: "heat_view \<Rightarrow> vnfd \<Rightarrow> json \<Rightarrow> string \<Rightarrow> vnf_instance \<Rightarrow> json \<Rightarrow> heat_res list \<Rightarrow> heat_reses \<Rightarrow> heat_reses \<Rightarrow>
    storage_resource list \<Rightarrow> vnfc_resource list pyres" where
  "make_vnfcs hv vnfd fl vim_key inst nfv_dict heat_reses server_reses storage_reses storage_infos =
     bindE (mapE (make_vnfc_res_info vim_key heat_reses) server_reses) (\<lambda>vs0.
     bindE (mapE (attach_parts vnfd fl server_reses storage_reses) vs0) (\<lambda>vs1.
       mapE (update_vnfc_metadata hv storage_infos nfv_dict inst) vs1))"

definition make_ext_infos :: "vnfd \<Rightarrow> json \<Rightarrow> op_params \<Rightarrow> vnf_instance \<Rightarrow> grant \<Rightarrow> op_type \<Rightarrow> bool \<Rightarrow>
    (ext_vl_info list \<times> ext_cp_info list \<times> vl_info list) pyres" where
  "make_ext_infos vnfd fl req inst grant op is_rollback =
     (if op = INSTANTIATE
      then bindE (make_ext_mgd_vl_info_from_req vnfd fl req grant) (\<lambda>mgd.
        let (vls, cps) = make_ext_vl_info_from_req req grant in Inr (vls, cps, mgd))
      else bindE (old_info_of inst) (\<lambda>old.
        bindE (if (op = CHANGE_EXT_CONN \<or> op = CHANGE_VNFPKG) \<and> \<not> is_rollback
               then make_ext_vl_info_from_req_and_inst req grant old else make_ext_vl_info_from_inst old)
          (\<lambda>(vls, cps). Inr (vls, cps, make_ext_mgd_vl_info_from_inst old))))"

text \<open>What the code reads before it builds anything.\<close>

record stack_facts =
  sf_stack_id :: string
  sf_heat_reses :: "heat_res list"
  sf_nfv :: json
  sf_flavour_id :: string
  sf_vim_key :: string
  sf_vim_info :: vim_info
  sf_vducp_nodes :: "(string, json) dict"
  sf_storages :: heat_reses
  sf_servers :: heat_reses
  sf_networks :: heat_reses
  sf_ports :: heat_reses

definition op_stack_id :: "vnf_instance \<Rightarrow> string option \<Rightarrow> string pyres" where
  "op_stack_id inst given_id = (case given_id of Some (c # s) \<Rightarrow> Inr (c # s)
     | _ \<Rightarrow> bindE (old_info_of inst) (\<lambda>info. bindE (attr ''metadata'' (iv_metadata info)) (\<lambda>md.
         bindE (dict_item md ''stack_id'') as_str)))"

definition selected_vim :: "vnf_instance \<Rightarrow> (string \<times> vim_info) pyres" where
  "selected_vim inst = bindE (attr ''vimConnectionInfo'' (in_vimConnectionInfo inst)) (\<lambda>vims.
     case fst (select_vim_info vims) of None \<Rightarrow> Inl (type_error JNull) | Some x \<Rightarrow> Inr x)"

definition read_stack :: "heat_view \<Rightarrow> op_params \<Rightarrow> vnf_instance \<Rightarrow> op_type \<Rightarrow> vnfd \<Rightarrow> string option \<Rightarrow> stack_facts pyres" where
  "read_stack hv req inst op vnfd given_id =
     bindE (op_stack_id inst given_id) (\<lambda>stack_id.
     bindE (hv_resources hv (get_stack_name inst (Some stack_id))) (\<lambda>heat_reses.
     bindE (hv_parameters hv (get_stack_name inst (Some stack_id))) (\<lambda>params.
     bindE (dict_item params ''nfv'') (\<lambda>text.
     bindE (hv_loads hv text) (\<lambda>nfv_dict.
     bindE (op_flavour_id req inst op) (\<lambda>flavour_id.
     bindE (selected_vim inst) (\<lambda>(vim_key, vim_info).
     bindE (get_vducp_nodes vnfd (JStr flavour_id)) (\<lambda>vducp_nodes.
     bindE (get_storage_nodes vnfd (JStr flavour_id)) (\<lambda>storage_nodes.
     bindE (get_vdu_nodes vnfd (JStr flavour_id)) (\<lambda>vdu_nodes.
     bindE (get_virtual_link_nodes vnfd (JStr flavour_id)) (\<lambda>vl_nodes.
       Inr \<lparr>sf_stack_id = stack_id, sf_heat_reses = heat_reses, sf_nfv = nfv_dict, sf_flavour_id = flavour_id,
         sf_vim_key = vim_key, sf_vim_info = vim_info, sf_vducp_nodes = vducp_nodes,
         sf_storages = get_checked_reses storage_nodes (get_storage_reses heat_reses),
         sf_servers = get_checked_reses vdu_nodes (get_server_reses heat_reses),
         sf_networks = get_checked_reses vl_nodes (get_network_reses heat_reses),
         sf_ports = get_checked_reses vducp_nodes (get_port_reses heat_reses)\<rparr>)))))))))))"

text \<open>The ports of the stack, those outside of the virtual links of the VNF and those inside.\<close>

definition ports_where :: "(json \<Rightarrow> bool) \<Rightarrow> stack_facts \<Rightarrow> heat_reses pyres" where
  "ports_where P f = filterE (\<lambda>(i, res). bindE (find_vl_name (sf_vducp_nodes f) res) (\<lambda>n. Inr (P n))) (sf_ports f)"

record linked_parts =
  lk_vnfcs :: "vnfc_resource list"
  lk_ext_vls :: "ext_vl_info list"
  lk_ext_cps :: "ext_cp_info list"
  lk_vls :: "vl_info list"

definition link_ports :: "stack_facts \<Rightarrow> vnfc_resource list \<Rightarrow> ext_vl_info list \<Rightarrow> ext_cp_info list \<Rightarrow> vl_info list \<Rightarrow> linked_parts pyres" where
  "link_ports f vnfcs0 ext_vls0 ext_cps0 vls0 =
     bindE (ports_where (\<lambda>n. n = JNull) f) (\<lambda>ext_reses.
     bindE (foldE (link_ext_port_info (sf_ports f)) (map (new_port (sf_vim_key f) None) ext_reses) ([], ext_vls0, ext_cps0))
       (\<lambda>(ext_ports, ext_vls, ext_cps1).
     bindE (ports_where (\<lambda>n. n \<noteq> JNull) f) (\<lambda>vnf_reses.
     bindE (foldE (link_vnfc_ext_cp (sf_servers f) (sf_ports f)) ext_ports (vnfcs0, ext_cps1)) (\<lambda>(vnfcs1, ext_cps).
     bindE (foldE (link_vnfc_port (sf_servers f) (sf_ports f)) (map (new_port (sf_vim_key f) (Some ''EXT_CP'')) vnf_reses) (vnfcs1, []))
       (\<lambda>(vnfcs, vnf_ports).
     bindE (foldE (place_port (sf_vducp_nodes f) (sf_ports f)) vnf_ports vls0) (\<lambda>vls.
       Inr \<lparr>lk_vnfcs = vnfcs, lk_ext_vls = ext_vls, lk_ext_cps = ext_cps, lk_vls = vls\<rparr>))))))"

definition kept_metadata :: "vnf_instance \<Rightarrow> stack_facts \<Rightarrow> jdict \<Rightarrow> jdict" where
  "kept_metadata inst f access =
     dict_set ''tenant'' (or_null (map_of access ''project'')) (dict_set ''nfv'' (sf_nfv f) (dict_set ''stack_id'' (JStr (sf_stack_id f))
       (opt_list (case in_instantiatedVnfInfo inst of None \<Rightarrow> None | Some i \<Rightarrow> iv_metadata i))))"

definition make_instantiated_vnf_info :: "heat_view \<Rightarrow> op_params \<Rightarrow> vnf_instance \<Rightarrow> grant_request \<Rightarrow> grant \<Rightarrow> vnfd \<Rightarrow> bool \<Rightarrow> string option \<Rightarrow>
    vnf_instance pyres" where
  "make_instantiated_vnf_info hv req inst grant_req grant vnfd is_rollback given_id =
     bindE (read_stack hv req inst (gq_operation grant_req) vnfd given_id) (\<lambda>f.
     bindE (mapE (new_storage_info (sf_vim_key f)) (sf_storages f)) (\<lambda>storage_infos.
     bindE (make_vnfcs hv vnfd (JStr (sf_flavour_id f)) (sf_vim_key f) inst (sf_nfv f) (sf_heat_reses f) (sf_servers f)
       (sf_storages f) storage_infos) (\<lambda>vnfcs.
     bindE (make_ext_infos vnfd (JStr (sf_flavour_id f)) req inst grant (gq_operation grant_req) is_rollback)
       (\<lambda>(ext_vls, ext_cps, mgd_vls).
     let vl_infos = map (new_vl_info (sf_vim_key f)) (sf_networks f) in
     bindE (link_ports f vnfcs ext_vls ext_cps (vl_infos @ mgd_vls)) (\<lambda>l.
     bindE (sort_vnfcs hv (lk_vnfcs l)) (\<lambda>sorted_vnfcs.
     bindE (mapE (make_vnfc_info inst (opt_list (case in_instantiatedVnfInfo inst of None \<Rightarrow> None | Some i \<Rightarrow> iv_vnfcInfo i)))
       sorted_vnfcs) (\<lambda>vnfc_infos.
     bindE (attr ''accessInfo'' (vi_accessInfo (sf_vim_info f))) (\<lambda>access.
       Inr (inst\<lparr>in_instantiatedVnfInfo := Some ((new_inst_vnf_info (sf_flavour_id f) STARTED)\<lparr>
         iv_virtualStorageResourceInfo := non_empty storage_infos, iv_vnfcResourceInfo := non_empty sorted_vnfcs,
         iv_vnfVirtualLinkResourceInfo := non_empty (take (length vl_infos) (lk_vls l)),
         iv_extVirtualLinkInfo := non_empty (lk_ext_vls l),
         iv_extManagedVirtualLinkInfo := non_empty (drop (length vl_infos) (lk_vls l)),
         iv_extCpInfo := non_empty (lk_ext_cps l), iv_vnfcInfo := non_empty vnfc_infos,
         iv_metadata := Some (kept_metadata inst f access)\<rparr>)\<rparr>)))))))))"

end
