(* ===== verification/Hot_Params.thy ===== *)
theory Hot_Params
  imports Heat_Info
begin

section \<open>Parameters of a Heat template\<close>

text \<open>
  The functions of \<^verbatim>\<open>common/common_script_utils.py\<close> that make the parameters of a HOT: the dictionary of the
  parameters a template asks for, and where their values come from (grant, request, instance, VNFD).

  A parameter path may have a number as an element (\<^verbatim>\<open>get_param: [nfv, CP, CP1, fixed_ips, 0, subnet]\<close>), so the
  dictionary is a tree \<open>nfv\<close> with JSON scalars as keys. It becomes JSON when it is put into the fields of a
  request, where numbers as keys turn into texts.
\<close>

subsection \<open>The tree of parameters\<close>

datatype nfv = NVal json | NDict "(json \<times> nfv) list"

fun get_get_param :: "json \<Rightarrow> json list" where
  "get_get_param (JObj d) = concat (map (\<lambda>(key, v). if key = ''get_param'' then [v] else get_get_param v) d)"
| "get_get_param (JArr xs) = concat (map get_get_param xs)"
| "get_get_param j = []"

definition unhashable :: "json \<Rightarrow> bool" where
  "unhashable k = (case k of JArr xs \<Rightarrow> True | JObj d \<Rightarrow> True | _ \<Rightarrow> False)"

fun put_param :: "json list \<Rightarrow> nfv \<Rightarrow> nfv pyres" where
  "put_param ks (NVal v) = Inl (attr_error v ''setdefault'')"
| "put_param [] (NDict d) = Inr (NDict d)"
| "put_param [k] (NDict d) = (if unhashable k then Inl (type_error k) else Inr (NDict (dict_set k (NVal JNull) d)))"
| "put_param (k # l # ks) (NDict d) = (if unhashable k then Inl (type_error k)
     else bindE (put_param (l # ks) (case map_of d k of None \<Rightarrow> NDict [] | Some t \<Rightarrow> t)) (\<lambda>t. Inr (NDict (dict_set k t d))))"

definition param_path :: "json \<Rightarrow> json list option" where
  "param_path param = (case param of
      JArr (p # ps) \<Rightarrow> if length (p # ps) < 4 \<or> p \<noteq> JStr ''nfv'' then None else Some ps | _ \<Rightarrow> None)"

definition put_get_param :: "json \<Rightarrow> nfv \<Rightarrow> nfv pyres" where
  "put_get_param param t = (case param_path param of None \<Rightarrow> Inr t | Some path \<Rightarrow> put_param path t)"

definition init_nfv_dict :: "json \<Rightarrow> nfv pyres" where
  "init_nfv_dict hot_template =
     bindE (jget hot_template ''resources'' (JObj [])) (\<lambda>rs.
     bindE (jvalues rs) (\<lambda>reses.
     bindE (mapE (\<lambda>res. jget res ''properties'' (JObj [])) reses) (\<lambda>props.
       foldE put_get_param (concat (map get_get_param props)) (NDict []))))"

definition key_text :: "json \<Rightarrow> string" where
  "key_text k = (case k of JStr s \<Rightarrow> s | JNum n \<Rightarrow> show_int n | JBool b \<Rightarrow> if b then ''true'' else ''false'' | _ \<Rightarrow> ''null'')"

fun nfv_json :: "nfv \<Rightarrow> json" where
  "nfv_json (NVal v) = v"
| "nfv_json (NDict d) = JObj (map (\<lambda>(k, t). (key_text k, nfv_json t)) d)"

text \<open>The entries of a section of the tree, \<open>VDU\<close> or \<open>CP\<close>, with the dictionary of each.\<close>

definition nfv_items :: "nfv \<Rightarrow> (json \<times> nfv) list pyres" where
  "nfv_items t = (case t of NDict d \<Rightarrow> Inr d | NVal v \<Rightarrow> Inl (attr_error v ''items''))"

definition nfv_section :: "string \<Rightarrow> nfv \<Rightarrow> (string \<times> (json \<times> nfv) list) list pyres" where
  "nfv_section k t = bindE (nfv_items t) (\<lambda>d.
     bindE (nfv_items (case map_of d (JStr k) of None \<Rightarrow> NDict [] | Some s \<Rightarrow> s))
       (mapE (\<lambda>(name, v). bindE (as_str name) (\<lambda>n. bindE (nfv_items v) (\<lambda>m. Inr (n, m))))))"

definition put_section :: "string \<Rightarrow> (string \<times> (json \<times> nfv) list) list \<Rightarrow> nfv \<Rightarrow> nfv" where
  "put_section k s t = (case t of
      NDict d \<Rightarrow> if map_of d (JStr k) = None then NDict d
        else NDict (dict_set (JStr k) (NDict (map (\<lambda>(n, m). (JStr n, NDict m)) s)) d)
    | NVal v \<Rightarrow> NVal v)"

definition has_param :: "string \<Rightarrow> (json \<times> nfv) list \<Rightarrow> bool" where
  "has_param k m = (map_of m (JStr k) \<noteq> None)"

definition fill_param :: "string \<Rightarrow> json pyres \<Rightarrow> (json \<times> nfv) list \<Rightarrow> (json \<times> nfv) list pyres" where
  "fill_param k v m = (if has_param k m then bindE v (\<lambda>x. Inr (dict_set (JStr k) (NVal x) m)) else Inr m)"

subsection \<open>Values of VDU parameters\<close>

definition get_param_flavor :: "string \<Rightarrow> string \<Rightarrow> vnfd \<Rightarrow> grant \<Rightarrow> json pyres" where
  "get_param_flavor vdu_name flavour_id vnfd grant =
     (case map_of (opt_list (gr_computeResourceFlavours grant)) vdu_name of
        Some i \<Rightarrow> Inr (JStr i) | None \<Rightarrow> get_compute_flavor vnfd (JStr flavour_id) vdu_name)"

definition get_param_image :: "string \<Rightarrow> string \<Rightarrow> vnfd \<Rightarrow> grant \<Rightarrow> bool \<Rightarrow> json pyres" where
  "get_param_image vdu_name flavour_id vnfd grant fallback_vnfd =
     (case map_of (opt_list (gr_softwareImages grant)) vdu_name of
        Some i \<Rightarrow> Inr (JStr i)
      | None \<Rightarrow> if fallback_vnfd then bindE (get_sw_image vnfd (JStr flavour_id)) (\<lambda>images. Inr (or_null (map_of images vdu_name)))
          else Inr JNull)"

definition get_param_zone :: "string \<Rightarrow> grant_request \<Rightarrow> grant \<Rightarrow> json pyres" where
  "get_param_zone vdu_name grant_req grant = (case (gr_zones grant, gr_addResources grant) of
      (Some zones, Some reses) \<Rightarrow>
        let zoned = filter (\<lambda>r. gi_zoneId r \<noteq> None) reses in
        if zoned = [] then Inr JNull
        else bindE (attr ''addResources'' (gq_addResources grant_req)) (\<lambda>req_reses.
          Inr (case [zi_zoneId zone. res \<leftarrow> zoned, req_res \<leftarrow> req_reses, rd_id req_res = gi_resourceDefinitionId res,
                 rd_resourceTemplateId req_res = vdu_name, zone \<leftarrow> zones, Some (zi_id zone) = gi_zoneId res] of
              [] \<Rightarrow> JNull | z # _ \<Rightarrow> JStr z))
    | _ \<Rightarrow> Inr JNull)"

definition get_param_zone_by_vnfc :: "string \<Rightarrow> grant \<Rightarrow> json" where
  "get_param_zone_by_vnfc res_id grant = (case (gr_zones grant, gr_addResources grant) of
      (Some zones, Some reses) \<Rightarrow> (case find (\<lambda>r. gi_resourceDefinitionId r = res_id) reses of
          None \<Rightarrow> JNull
        | Some res \<Rightarrow> (case find (\<lambda>zone. Some (zi_id zone) = gi_zoneId res) zones of
            None \<Rightarrow> JNull | Some zone \<Rightarrow> JStr (zi_zoneId zone)))
    | _ \<Rightarrow> JNull)"

definition get_current_capacity :: "string \<Rightarrow> vnf_instance \<Rightarrow> nat" where
  "get_current_capacity vdu_name inst = length (filter (\<lambda>v. vr_vduId v = vdu_name)
     (opt_list (case in_instantiatedVnfInfo inst of None \<Rightarrow> None | Some info \<Rightarrow> iv_vnfcResourceInfo info)))"

definition vdu_count :: "string \<Rightarrow> res_def list option \<Rightarrow> nat" where
  "vdu_count vdu_name reses = length (filter (\<lambda>r. rd_type r = COMPUTE \<and> rd_resourceTemplateId r = vdu_name) (opt_list reses))"

definition get_param_capacity :: "string \<Rightarrow> vnf_instance \<Rightarrow> grant_request \<Rightarrow> int" where
  "get_param_capacity vdu_name inst grant_req = int (get_current_capacity vdu_name inst) +
     int (vdu_count vdu_name (gq_addResources grant_req)) - int (vdu_count vdu_name (gq_removeResources grant_req))"

definition removed_resource_ids :: "res_type \<Rightarrow> grant_request \<Rightarrow> string list pyres" where
  "removed_resource_ids ty grant_req = bindE (attr ''removeResources'' (gq_removeResources grant_req)) (\<lambda>reses.
     mapE (\<lambda>r. bindE (attr ''resource'' (rd_resource r)) (\<lambda>h. Inr (rh_resourceId h))) (filter (\<lambda>r. rd_type r = ty) reses))"

subsection \<open>Values of CP parameters\<close>

definition ip_data :: "json \<Rightarrow> jdict list pyres" where
  "ip_data ip = bindE (jitems ip) (\<lambda>d.
     bindE (case map_of d ''fixedAddresses'' of None \<Rightarrow> Inr []
       | Some as \<Rightarrow> bindE (jlist as) (\<lambda>xs. case xs of
           [] \<Rightarrow> Inl (PyExc IndexError ''list index out of range'')
         | a # _ \<Rightarrow> bindE (as_str a) (\<lambda>s. Inr [(''ip_address'', JStr s)]))) (\<lambda>address.
     let data = address @ (case map_of d ''subnetId'' of None \<Rightarrow> [] | Some s \<Rightarrow> [(''subnet'', s)]) in
     Inr (if data = [] then [] else [data])))"

definition prot_fixed_ips :: "json \<Rightarrow> jdict list pyres" where
  "prot_fixed_ips prot_data = bindE (jitems prot_data) (\<lambda>d. case map_of d ''ipOverEthernet'' of
      None \<Rightarrow> Inr []
    | Some e \<Rightarrow> bindE (jitems e) (\<lambda>eth. case map_of eth ''ipAddresses'' of
        None \<Rightarrow> Inr [] | Some ips \<Rightarrow> bindE (jlist ips) (concatE ip_data)))"

definition get_fixed_ips_from_extcp :: "ext_cp_data \<Rightarrow> jdict list pyres" where
  "get_fixed_ips_from_extcp extcp = concatE (\<lambda>(key, cp_conf). case cc_cpProtocolData cp_conf of
      None \<Rightarrow> Inr [] | Some ps \<Rightarrow> bindE (jlist ps) (concatE prot_fixed_ips)) (xcd_cpConfig extcp)"

text \<open>The virtual links of the grant come before those of the request.\<close>

definition named_cps :: "string \<Rightarrow> grant \<Rightarrow> op_params \<Rightarrow> (ext_vl_data \<times> ext_cp_data) list" where
  "named_cps cp_name grant req = [(vl, extcp). vl \<leftarrow> opt_list (gr_extVirtualLinks grant) @ opt_list (rq_extVirtualLinks req),
     extcp \<leftarrow> xvd_extCps vl, xcd_cpdId extcp = cp_name]"

definition get_param_network :: "string \<Rightarrow> grant \<Rightarrow> op_params \<Rightarrow> json" where
  "get_param_network cp_name grant req = (case named_cps cp_name grant req of [] \<Rightarrow> JNull | (vl, _) # _ \<Rightarrow> JStr (xvd_resourceId vl))"

definition get_param_fixed_ips :: "string \<Rightarrow> grant \<Rightarrow> op_params \<Rightarrow> jdict list option pyres" where
  "get_param_fixed_ips cp_name grant req = (case named_cps cp_name grant req of
      [] \<Rightarrow> Inr None | (_, extcp) # _ \<Rightarrow> bindE (get_fixed_ips_from_extcp extcp) (\<lambda>ips. Inr (Some ips)))"

definition inst_cps :: "string \<Rightarrow> vnf_instance \<Rightarrow> (ext_vl_info \<times> ext_cp_data) list pyres" where
  "inst_cps cp_name inst = bindE (old_info_of inst) (\<lambda>info.
     Inr [(vl, extcp). vl \<leftarrow> opt_list (iv_extVirtualLinkInfo info), extcp \<leftarrow> opt_list (xvl_currentVnfExtCpData vl), xcd_cpdId extcp = cp_name])"

definition get_param_network_from_inst :: "string \<Rightarrow> vnf_instance \<Rightarrow> json pyres" where
  "get_param_network_from_inst cp_name inst = bindE (inst_cps cp_name inst) (\<lambda>cps.
     Inr (case cps of [] \<Rightarrow> JNull | (vl, _) # _ \<Rightarrow> JStr (rh_resourceId (xvl_resourceHandle vl))))"

definition get_param_fixed_ips_from_inst :: "string \<Rightarrow> vnf_instance \<Rightarrow> jdict list option pyres" where
  "get_param_fixed_ips_from_inst cp_name inst = bindE (inst_cps cp_name inst) (\<lambda>cps. case cps of
      [] \<Rightarrow> Inr None | (_, extcp) # _ \<Rightarrow> bindE (get_fixed_ips_from_extcp extcp) (\<lambda>ips. Inr (Some ips)))"

subsection \<open>Externally managed virtual links\<close>

text \<open>The network and its subnets are deleted from the template and references to it replaced; lists are
  not searched.\<close>

fun change_ref :: "json \<Rightarrow> string \<Rightarrow> json \<Rightarrow> json" where
  "change_ref get_res network_id (JObj d) =
     JObj (map (\<lambda>(k, v). (k, if v = get_res then JStr network_id else change_ref get_res network_id v)) d)"
| "change_ref get_res network_id j = j"

definition dels_of :: "string \<Rightarrow> string \<Rightarrow> json \<Rightarrow> string list pyres" where
  "dels_of vl_name res_name res_data =
     bindE (jitem res_data ''type'') (\<lambda>ty.
     bindE (if ty \<noteq> JStr ''OS::Neutron::Subnet'' then Inr []
       else bindE (jpath res_data [''properties'', ''network'']) (\<lambda>n. bindE (jget n ''get_resource'' JNull) (\<lambda>net.
         Inr (if net = JStr vl_name then [res_name] else [])))) (\<lambda>subnet.
       Inr ((if res_name = vl_name then [res_name] else []) @ subnet)))"

definition pop_key :: "string \<Rightarrow> (string, 'a) dict \<Rightarrow> (string, 'a) dict pyres" where
  "pop_key k d = (if map_of d k = None then Inl (key_error k) else Inr (dict_del k d))"

definition apply_ext_managed_vl :: "string \<times> string \<Rightarrow> jdict \<Rightarrow> jdict pyres" where
  "apply_ext_managed_vl = (\<lambda>(vl_name, network_id) reses.
     bindE (concatE (\<lambda>(res_name, res_data). dels_of vl_name res_name res_data) reses) (\<lambda>del_reses.
     foldE pop_key del_reses
       (map (\<lambda>(n, res_data). (n, change_ref (JObj [(''get_resource'', JStr vl_name)]) network_id res_data)) reses)))"

definition apply_mgd_vls :: "jdict \<Rightarrow> (string \<times> string) list \<Rightarrow> jdict pyres" where
  "apply_mgd_vls hot mgd_vls = (case map_of hot ''resources'' of
      None \<Rightarrow> Inr hot
    | Some rs \<Rightarrow> if mgd_vls = [] then Inr hot
        else bindE (jitems rs) (\<lambda>reses. bindE (foldE apply_ext_managed_vl mgd_vls reses) (\<lambda>reses'.
          Inr (dict_set ''resources'' (JObj reses') hot))))"

definition apply_ext_managed_vls :: "jdict \<Rightarrow> op_params \<Rightarrow> grant \<Rightarrow> jdict pyres" where
  "apply_ext_managed_vls hot req grant = apply_mgd_vls hot (map (\<lambda>vl. (xmd_vnfVirtualLinkDescId vl, xmd_resourceId vl))
     (opt_list (gr_extManagedVirtualLinks grant) @ opt_list (rq_extManagedVirtualLinks req)))"

definition apply_ext_managed_vls_from_inst :: "jdict \<Rightarrow> vnf_instance \<Rightarrow> jdict pyres" where
  "apply_ext_managed_vls_from_inst hot inst = bindE (old_info_of inst) (\<lambda>info.
     apply_mgd_vls hot (map (\<lambda>vl. (vl_vnfVirtualLinkDescId vl, rh_resourceId (vl_networkResource vl)))
       (opt_list (iv_extManagedVirtualLinkInfo info))))"

end
