(* ===== verification/Userdata.thy ===== *)
theory Userdata
  imports Hot_Params
begin

section \<open>User data classes\<close>

text \<open>
  \<^verbatim>\<open>DefaultUserData\<close> and \<^verbatim>\<open>StandardUserData\<close> (\<^verbatim>\<open>infra_drivers/openstack/userdata_*.py\<close>): they make the fields of a
  request to Heat from the HOT of the package. The first one leaves the template alone and sets
  parameters (the number of servers of a group); the second one makes a resource for every server, with
  an index in its name. The HOT of a flavour (\<^verbatim>\<open>Vnfd.get_base_hot\<close>) and \<^verbatim>\<open>yaml.safe_dump\<close> are parameters. The VNFD
  that a class reads again from the package directory is the one the driver has.
\<close>

record ud_env =
  ud_base_hot :: "vnfd \<Rightarrow> string \<Rightarrow> jdict"
  ud_dump :: "json \<Rightarrow> string"

text \<open>\<open>key.replace('image-', '')\<close>.\<close>

function drop_image :: "string \<Rightarrow> string" where
  "drop_image s = (if take 6 s = ''image-'' then drop_image (drop 6 s) else case s of [] \<Rightarrow> [] | c # t \<Rightarrow> c # drop_image t)"
  by pat_completeness auto

termination
proof (relation "measure length")
  fix s :: string
  assume "take 6 s = ''image-''"
  then have "s \<noteq> []" by auto
  then show "(drop 6 s, s) \<in> measure length" by simp
qed auto

declare drop_image.simps [simp del]

subsection \<open>Shared steps\<close>

definition top_hot :: "jdict \<Rightarrow> jdict pyres" where
  "top_hot hot_dict = bindE (dict_item hot_dict ''template'') jitems"

definition hot_files :: "ud_env \<Rightarrow> jdict \<Rightarrow> json pyres" where
  "hot_files ud hot_dict = (case map_of hot_dict ''files'' of None \<Rightarrow> Inr (JObj [])
     | Some fs \<Rightarrow> bindE (jitems fs) (\<lambda>d. Inr (JObj (map (\<lambda>(k, v). (k, JStr (ud_dump ud v))) d))))"

definition nfv_fields :: "json \<Rightarrow> jdict" where
  "nfv_fields nfv = [(''parameters'', JObj [(''nfv'', nfv)])]"

definition merge_additional_params :: "json \<Rightarrow> op_params \<Rightarrow> grant \<Rightarrow> json" where
  "merge_additional_params nfv req grant =
     (let patch = (\<lambda>params t. case map_of (opt_list params) ''nfv'' of None \<Rightarrow> t | Some p \<Rightarrow> json_merge_patch t p) in
      patch (gr_additionalParams grant) (patch (rq_additionalParams req) nfv))"

definition inst_flavour :: "vnf_instance \<Rightarrow> string pyres" where
  "inst_flavour inst = bindE (old_info_of inst) (\<lambda>info. Inr (iv_flavourId info))"

definition stored_nfv :: "vnf_instance \<Rightarrow> json pyres" where
  "stored_nfv inst = bindE (old_info_of inst) (\<lambda>info. bindE (attr ''metadata'' (iv_metadata info)) (\<lambda>md. dict_item md ''nfv''))"

text \<open>The fixed IPs of a CP: as many as the template asks for and the request gives.\<close>

definition fill_ip :: "jdict \<Rightarrow> nfv \<Rightarrow> json pyres" where
  "fill_ip ip t = (case t of
      NVal v \<Rightarrow> Inl (type_error v)
    | NDict m \<Rightarrow> bindE (fill_param ''subnet'' (Inr (or_null (map_of ip ''subnet''))) m) (\<lambda>m1.
        bindE (fill_param ''ip_address'' (Inr (or_null (map_of ip ''ip_address''))) m1) (\<lambda>m2. Inr (nfv_json (NDict m2)))))"

fun fill_ips :: "nat \<Rightarrow> jdict list \<Rightarrow> nfv \<Rightarrow> json list pyres" where
  "fill_ips i [] t = Inr []"
| "fill_ips i (ip # ips) (NVal v) = Inl (type_error v)"
| "fill_ips i (ip # ips) (NDict d) = (case map_of d (JNum (int i)) of
      None \<Rightarrow> Inr []
    | Some ips_i \<Rightarrow> bindE (fill_ip ip ips_i) (\<lambda>j. bindE (fill_ips (Suc i) ips (NDict d)) (\<lambda>js. Inr (j # js))))"

definition fixed_ips_value :: "jdict list option pyres \<Rightarrow> (json \<times> nfv) list \<Rightarrow> json pyres" where
  "fixed_ips_value ext_fixed_ips m = bindE ext_fixed_ips (\<lambda>ips. case ips of
      None \<Rightarrow> Inl (type_error JNull)
    | Some xs \<Rightarrow> bindE (fill_ips 0 xs (case map_of m (JStr ''fixed_ips'') of None \<Rightarrow> NVal JNull | Some t \<Rightarrow> t)) (\<lambda>js. Inr (JArr js)))"

definition fill_cp :: "json pyres \<Rightarrow> jdict list option pyres \<Rightarrow> (json \<times> nfv) list \<Rightarrow> (json \<times> nfv) list pyres" where
  "fill_cp network fixed_ips m = bindE (fill_param ''network'' network m) (\<lambda>m1.
     fill_param ''fixed_ips'' (fixed_ips_value fixed_ips m1) m1)"

text \<open>The parameters of a CP that a change of connectivity sets; none when it has no network.\<close>

definition new_cp :: "json pyres \<Rightarrow> jdict list option pyres \<Rightarrow> string \<times> (json \<times> nfv) list \<Rightarrow> jdict pyres" where
  "new_cp network fixed_ips = (\<lambda>(cp_name, m).
     bindE (if has_param ''network'' m then bindE network (\<lambda>n. Inr [n]) else Inr []) (\<lambda>net.
     if net = [JNull] then Inr []
     else bindE (if has_param ''fixed_ips'' m then bindE (fixed_ips_value fixed_ips m) (\<lambda>v. Inr [(''fixed_ips'', v)]) else Inr []) (\<lambda>ips.
       let entries = map (\<lambda>n. (''network'', n)) net @ ips in
       Inr (if entries = [] then [] else [(cp_name, JObj entries)]))))"

definition new_cps_from_req :: "(string \<Rightarrow> string) \<Rightarrow> (string \<times> (json \<times> nfv) list) list \<Rightarrow> op_params \<Rightarrow> grant \<Rightarrow> jdict pyres" where
  "new_cps_from_req cp_of cps req grant = concatE (\<lambda>cp. new_cp (Inr (get_param_network (cp_of (fst cp)) grant req))
     (get_param_fixed_ips (cp_of (fst cp)) grant req) cp) cps"

definition new_cps_from_inst :: "(string \<times> (json \<times> nfv) list) list \<Rightarrow> vnf_instance \<Rightarrow> jdict pyres" where
  "new_cps_from_inst cps inst = concatE (\<lambda>cp. new_cp (get_param_network_from_inst (fst cp) inst)
     (get_param_fixed_ips_from_inst (fst cp) inst) cp) cps"

subsection \<open>The default class\<close>

definition default_nfv :: "ud_env \<Rightarrow> vnfd \<Rightarrow> string \<Rightarrow> nfv pyres" where
  "default_nfv ud vnfd flavour_id = bindE (top_hot (ud_base_hot ud vnfd flavour_id)) (\<lambda>hot0. init_nfv_dict (JObj hot0))"

definition default_vdu :: "op_params \<Rightarrow> vnf_instance \<Rightarrow> grant_request \<Rightarrow> grant \<Rightarrow> vnfd \<Rightarrow> string \<Rightarrow> string \<times> (json \<times> nfv) list \<Rightarrow>
    (string \<times> (json \<times> nfv) list) pyres" where
  "default_vdu req inst grant_req grant vnfd flavour_id = (\<lambda>(vdu_name, m).
     bindE (fill_param ''computeFlavourId'' (get_param_flavor vdu_name flavour_id vnfd grant) m) (\<lambda>m1.
     bindE (fill_param ''vcImageId'' (get_param_image vdu_name flavour_id vnfd grant True) m1) (\<lambda>m2.
     bindE (fill_param ''locationConstraints'' (get_param_zone vdu_name grant_req grant) m2) (\<lambda>m3.
     bindE (fill_param ''desired_capacity'' (Inr (JNum (get_param_capacity vdu_name inst grant_req))) m3) (\<lambda>m4. Inr (vdu_name, m4))))))"

definition req_cp :: "(string \<Rightarrow> string) \<Rightarrow> op_params \<Rightarrow> grant \<Rightarrow> string \<times> (json \<times> nfv) list \<Rightarrow> (string \<times> (json \<times> nfv) list) pyres" where
  "req_cp cp_of req grant = (\<lambda>(cp_name, m). bindE (fill_cp (Inr (get_param_network (cp_of cp_name) grant req))
     (get_param_fixed_ips (cp_of cp_name) grant req) m) (\<lambda>m'. Inr (cp_name, m')))"

definition instantiate_fields :: "ud_env \<Rightarrow> jdict \<Rightarrow> jdict \<Rightarrow> nfv \<Rightarrow> op_params \<Rightarrow> grant \<Rightarrow> jdict pyres" where
  "instantiate_fields ud hot_dict hot0 nfv req grant =
     bindE (apply_ext_managed_vls hot0 req grant) (\<lambda>hot.
     bindE (hot_files ud hot_dict) (\<lambda>files.
       Inr ((''template'', JStr (ud_dump ud (JObj hot))) # nfv_fields (merge_additional_params (nfv_json nfv) req grant) @ [(''files'', files)])))"

definition default_instantiate :: "ud_env \<Rightarrow> op_params \<Rightarrow> vnf_instance \<Rightarrow> grant_request \<Rightarrow> grant \<Rightarrow> vnfd \<Rightarrow> jdict pyres" where
  "default_instantiate ud req inst grant_req grant vnfd =
     bindE (attr ''flavourId'' (rq_flavourId req)) (\<lambda>flavour_id.
     bindE (top_hot (ud_base_hot ud vnfd flavour_id)) (\<lambda>hot0.
     bindE (init_nfv_dict (JObj hot0)) (\<lambda>nfv.
     bindE (nfv_section ''VDU'' nfv) (\<lambda>vdus.
     bindE (mapE (default_vdu req inst grant_req grant vnfd flavour_id) vdus) (\<lambda>vdus'.
     bindE (nfv_section ''CP'' nfv) (\<lambda>cps.
     bindE (mapE (req_cp id req grant) cps) (\<lambda>cps'.
       instantiate_fields ud (ud_base_hot ud vnfd flavour_id) hot0 (put_section ''CP'' cps' (put_section ''VDU'' vdus' nfv)) req grant)))))))"

definition capacity_fields :: "ud_env \<Rightarrow> vnf_instance \<Rightarrow> vnfd \<Rightarrow> (string \<Rightarrow> int) \<Rightarrow> jdict pyres" where
  "capacity_fields ud inst vnfd capacity =
     bindE (inst_flavour inst) (\<lambda>flavour_id.
     bindE (default_nfv ud vnfd flavour_id) (\<lambda>nfv.
     bindE (nfv_section ''VDU'' nfv) (\<lambda>vdus.
       Inr (nfv_fields (JObj [(''VDU'', JObj (map (\<lambda>(n, m). (n, JObj [(''desired_capacity'', JNum (capacity n))]))
         (filter (\<lambda>(n, m). has_param ''desired_capacity'' m) vdus)))])))))"

definition default_scale :: "ud_env \<Rightarrow> vnf_instance \<Rightarrow> grant_request \<Rightarrow> vnfd \<Rightarrow> jdict pyres" where
  "default_scale ud inst grant_req vnfd = capacity_fields ud inst vnfd (\<lambda>n. get_param_capacity n inst grant_req)"

definition default_scale_rollback :: "ud_env \<Rightarrow> vnf_instance \<Rightarrow> vnfd \<Rightarrow> jdict pyres" where
  "default_scale_rollback ud inst vnfd = capacity_fields ud inst vnfd (\<lambda>n. int (get_current_capacity n inst))"

definition default_change_ext_conn :: "ud_env \<Rightarrow> op_params \<Rightarrow> vnf_instance \<Rightarrow> grant \<Rightarrow> vnfd \<Rightarrow> jdict pyres" where
  "default_change_ext_conn ud req inst grant vnfd =
     bindE (inst_flavour inst) (\<lambda>flavour_id.
     bindE (default_nfv ud vnfd flavour_id) (\<lambda>nfv.
     bindE (nfv_section ''CP'' nfv) (\<lambda>cps.
     bindE (new_cps_from_req id cps req grant) (\<lambda>new_cps. Inr (nfv_fields (JObj [(''CP'', JObj new_cps)]))))))"

definition default_change_ext_conn_rollback :: "ud_env \<Rightarrow> vnf_instance \<Rightarrow> vnfd \<Rightarrow> jdict pyres" where
  "default_change_ext_conn_rollback ud inst vnfd =
     bindE (inst_flavour inst) (\<lambda>flavour_id.
     bindE (default_nfv ud vnfd flavour_id) (\<lambda>nfv.
     bindE (nfv_section ''CP'' nfv) (\<lambda>cps.
     bindE (new_cps_from_inst cps inst) (\<lambda>new_cps. Inr (nfv_fields (JObj [(''CP'', JObj new_cps)]))))))"

definition default_heal :: "jdict" where
  "default_heal = nfv_fields (JObj [])"

text \<open>The flavor and image parameters of a VDU, with their values.\<close>

definition new_vdu_params :: "(string \<Rightarrow> json pyres) \<Rightarrow> (string \<Rightarrow> json pyres) \<Rightarrow> string \<times> (json \<times> nfv) list \<Rightarrow> jdict pyres" where
  "new_vdu_params flavor_of image_of = (\<lambda>(n, m).
     bindE (if has_param ''computeFlavourId'' m then bindE (flavor_of n) (\<lambda>v. Inr [(''computeFlavourId'', v)]) else Inr []) (\<lambda>f.
     bindE (if has_param ''vcImageId'' m then bindE (image_of n) (\<lambda>v. Inr [(''vcImageId'', v)]) else Inr []) (\<lambda>i.
       Inr (if f @ i = [] then [] else [(n, JObj (f @ i))]))))"

definition default_change_vnfpkg :: "ud_env \<Rightarrow> op_params \<Rightarrow> vnf_instance \<Rightarrow> grant \<Rightarrow> vnfd \<Rightarrow> jdict pyres" where
  "default_change_vnfpkg ud req inst grant vnfd =
     bindE (inst_flavour inst) (\<lambda>flavour_id.
     bindE (default_nfv ud vnfd flavour_id) (\<lambda>nfv.
     bindE (nfv_section ''VDU'' nfv) (\<lambda>vdus.
     bindE (concatE (new_vdu_params (\<lambda>n. get_param_flavor n flavour_id vnfd grant) (\<lambda>n. get_param_image n flavour_id vnfd grant True)) vdus)
       (\<lambda>new_vdus.
     bindE (nfv_section ''CP'' nfv) (\<lambda>cps.
     bindE (new_cps_from_req id cps req grant) (\<lambda>new_cps.
       Inr (nfv_fields (JObj [(''VDU'', JObj new_vdus), (''CP'', JObj new_cps)]))))))))"

text \<open>The flavors and images that the VNFCs have, of the first VNFC of each VDU with a flavor.\<close>

definition vnfc_assets :: "vnfc_resource \<Rightarrow> jdict \<times> jdict \<Rightarrow> (jdict \<times> jdict) pyres" where
  "vnfc_assets vnfc = (\<lambda>(images, flavors).
     if map_of flavors (vr_vduId vnfc) \<noteq> None then Inr (images, flavors)
     else bindE (attr ''metadata'' (vr_metadata vnfc)) (\<lambda>md.
       Inr (fold (\<lambda>(k, v) (images, flavors).
         if k = ''flavor'' then (images, dict_set (vr_vduId vnfc) v flavors)
         else if take 6 k = ''image-'' then (dict_set (drop_image k) v images, flavors) else (images, flavors)) md (images, flavors))))"

definition default_change_vnfpkg_rollback :: "ud_env \<Rightarrow> vnf_instance \<Rightarrow> vnfd \<Rightarrow> jdict pyres" where
  "default_change_vnfpkg_rollback ud inst vnfd =
     bindE (foldE vnfc_assets (opt_list (case in_instantiatedVnfInfo inst of None \<Rightarrow> None | Some info \<Rightarrow> iv_vnfcResourceInfo info)) ([], []))
       (\<lambda>(images, flavors).
     bindE (inst_flavour inst) (\<lambda>flavour_id.
     bindE (default_nfv ud vnfd flavour_id) (\<lambda>nfv.
     bindE (nfv_section ''VDU'' nfv) (\<lambda>vdus.
     bindE (concatE (new_vdu_params (\<lambda>n. Inr (or_null (map_of flavors n))) (\<lambda>n. Inr (or_null (map_of images n)))) vdus) (\<lambda>new_vdus.
     bindE (nfv_section ''CP'' nfv) (\<lambda>cps.
     bindE (new_cps_from_inst cps inst) (\<lambda>new_cps.
       Inr (nfv_fields (JObj [(''VDU'', JObj new_vdus), (''CP'', JObj new_cps)])))))))))"

text \<open>\<open>getattr(DefaultUserData, operation)\<close>.\<close>

definition default_userdata :: "ud_env \<Rightarrow> op_type \<Rightarrow> bool \<Rightarrow> op_params \<Rightarrow> vnf_instance \<Rightarrow> grant_request \<Rightarrow> grant \<Rightarrow> vnfd \<Rightarrow> jdict pyres" where
  "default_userdata ud op is_rollback req inst grant_req grant vnfd =
     (if op = INSTANTIATE \<and> \<not> is_rollback then default_instantiate ud req inst grant_req grant vnfd
      else if op = SCALE then (if is_rollback then default_scale_rollback ud inst vnfd else default_scale ud inst grant_req vnfd)
      else if op = CHANGE_EXT_CONN then (if is_rollback then default_change_ext_conn_rollback ud inst vnfd
        else default_change_ext_conn ud req inst grant vnfd)
      else if op = HEAL \<and> \<not> is_rollback then Inr default_heal
      else if op = CHANGE_VNFPKG then (if is_rollback then default_change_vnfpkg_rollback ud inst vnfd
        else default_change_vnfpkg ud req inst grant vnfd)
      else Inl (PyExc AttributeError ''DefaultUserData''))"

end
