(* ===== verification/Nfvo.thy ===== *)
theory Nfvo
  imports Grant_Request
begin

section \<open>The NFVO client and the local NFVO (sol\_refactored/nfvo, common/vim\_utils.py)\<close>

text \<open>
  \<^verbatim>\<open>NfvoClient\<close> either talks to an external NFVO, which is part of the environment, or uses
  \<^verbatim>\<open>LocalNfvo\<close>, which is modelled: the grant (zones, resources copied from the request,
  software images), the usage state of packages and what it remembers between two
  notifications. Files of a package and Glance are the environment's.

  \<^verbatim>\<open>select_vim_info\<close> rewrites the type of a Kubernetes VIM in the instance it is given; where
  that instance is only held in memory, the rewriting is left out, since every later reader
  of the VIM selects it again.
\<close>

subsection \<open>VIM connections (vim\_utils.py)\<close>

fun as_obj :: "json \<Rightarrow> jdict pyres" where
  "as_obj (JObj d) = Inr d"
| "as_obj j = Inl (PyExc ValueError (quoted (py_type_name j)))"

fun pick_items :: "json \<Rightarrow> (string \<times> string) list \<Rightarrow> jdict pyres" where
  "pick_items src [] = Inr []"
| "pick_items src ((name, from_key) # ps) = bindE (jitem src from_key) (\<lambda>v.
     bindE (pick_items src ps) (\<lambda>rest. Inr ((name, v) # rest)))"

definition vim_region :: "json \<Rightarrow> json pyres" where
  "vim_region vim = bindE (jget vim ''placement_attr'' (JObj [])) (\<lambda>p.
     bindE (jget p ''regions'' JNull) (\<lambda>r. if py_truthy r then jfirst r else Inr JNull))"

definition openstack_conn_info :: "json \<Rightarrow> json \<Rightarrow> json \<Rightarrow> jdict \<Rightarrow> vim_info pyres" where
  "openstack_conn_info vim vim_auth region extra =
     bindE (pick_items vim_auth [(''username'', ''username''), (''password'', ''password'')]) (\<lambda>a1.
     bindE (pick_items vim_auth [(''project'', ''project_name''), (''projectDomain'', ''project_domain_name''),
        (''userDomain'', ''user_domain_name'')]) (\<lambda>a2.
     bindE (jitem vim_auth ''auth_url'') (\<lambda>url.
     bindE (jitem vim ''vim_id'') (\<lambda>vid. bindE (as_str vid) (\<lambda>vim_id.
       Inr \<lparr>vi_vimId = Some vim_id, vi_vimType = ''ETSINFV.OPENSTACK_KEYSTONE.V_3'',
         vi_interfaceInfo = Some [(''endpoint'', url), (''skipCertificateHostnameCheck'', JBool True),
            (''skipCertificateVerification'', JBool True)],
         vi_accessInfo = Some (a1 @ [(''region'', region)] @ a2), vi_extra = Some extra\<rparr>)))))"

definition kubernetes_access_info :: "json \<Rightarrow> jdict pyres" where
  "kubernetes_access_info vim_auth =
     bindE (jcontains vim_auth ''oidc_token_url'') (\<lambda>oidc.
     if oidc
     then mapE (\<lambda>k. bindE (jget vim_auth k JNull) (\<lambda>v. Inr (k, v)))
            [''oidc_token_url'', ''username'', ''password'', ''client_id'', ''client_secret'']
     else bindE (jget vim_auth ''username'' JNull) (\<lambda>u. bindE (jget vim_auth ''password'' JNull) (\<lambda>p.
       if py_truthy u \<and> py_truthy p then Inr [(''username'', u), (''password'', p)]
       else bindE (jitem vim_auth ''bearer_token'') (\<lambda>t.
         if py_truthy t then Inr [(''bearer_token'', t)]
         else Inl (PyExc UnboundLocalError ''access_info'')))))"

definition kubernetes_conn_info :: "json \<Rightarrow> json \<Rightarrow> jdict \<Rightarrow> vim_info pyres" where
  "kubernetes_conn_info vim vim_auth extra =
     bindE (kubernetes_access_info vim_auth) (\<lambda>access.
     bindE (jitem vim_auth ''auth_url'') (\<lambda>url.
     bindE (jcontains vim_auth ''ssl_ca_cert'') (\<lambda>has_ca.
     bindE (if has_ca then bindE (jitem vim_auth ''ssl_ca_cert'') (\<lambda>c. Inr [(''ssl_ca_cert'', c)]) else Inr []) (\<lambda>ca.
     bindE (jget (JObj extra) ''use_helm'' (JBool False)) (\<lambda>use_helm.
     bindE (jitem vim ''vim_id'') (\<lambda>vid. bindE (as_str vid) (\<lambda>vim_id.
       Inr \<lparr>vi_vimId = Some vim_id,
         vi_vimType = (if py_truthy use_helm then ''ETSINFV.HELM.V_3'' else ''ETSINFV.KUBERNETES.V_1''),
         vi_interfaceInfo = Some ((''endpoint'', url) # ca), vi_accessInfo = Some access,
         vi_extra = Some extra\<rparr>)))))))"

definition vim_to_conn_info :: "json \<Rightarrow> vim_info pyres" where
  "vim_to_conn_info vim =
     bindE (vim_region vim) (\<lambda>region.
     bindE (jitem vim ''vim_auth'') (\<lambda>vim_auth.
     bindE (jget vim ''extra'' (JObj [])) (\<lambda>extra_j. bindE (as_obj extra_j) (\<lambda>extra.
     bindE (jitem vim ''vim_type'') (\<lambda>ty.
       if ty = JStr ''openstack'' then openstack_conn_info vim vim_auth region extra
       else if ty = JStr ''kubernetes'' then kubernetes_conn_info vim vim_auth extra
       else Inl (Sol (SolException ''not support vim type'')))))))"

definition get_default_vim :: "env \<Rightarrow> vim_info option" where
  "get_default_vim env = (case bindE (ev_vim_db env None) vim_to_conn_info of
      Inr v \<Rightarrow> Some v | Inl _ \<Rightarrow> None)"

definition get_vim :: "env \<Rightarrow> string \<Rightarrow> vim_info pyres" where
  "get_vim env vim_id = (case bindE (ev_vim_db env (Some vim_id)) vim_to_conn_info of
      Inr v \<Rightarrow> Inr v | Inl _ \<Rightarrow> Inl (Sol (VimNotFound vim_id)))"

subsection \<open>The local NFVO's grant\<close>

definition local_vim_info :: "env \<Rightarrow> world \<Rightarrow> grant_request \<Rightarrow> vim_info option pyres" where
  "local_vim_info env w grant_req =
     bindE (fst (get_lcmocc (gq_vnfLcmOpOccId grant_req) w)) (\<lambda>lcmocc.
     if gq_operation grant_req = INSTANTIATE
     then (case rq_vimConnectionInfo (oc_operationParams lcmocc) of
             Some vis \<Rightarrow> Inr (map_option snd (fst (select_vim_info vis)))
           | None \<Rightarrow> Inr (get_default_vim env))
     else bindE (fst (get_inst (gq_vnfInstanceId grant_req) w)) (\<lambda>inst.
          bindE (attr ''vimConnectionInfo'' (in_vimConnectionInfo inst)) (\<lambda>vis.
            Inr (map_option snd (fst (select_vim_info vis))))))"

definition sw_image_of :: "env \<Rightarrow> vim_info \<Rightarrow> vnfd \<Rightarrow> string \<Rightarrow> (string \<times> string) list \<Rightarrow> json \<Rightarrow> string pyres" where
  "sw_image_of env vim vnfd inst_id images sw_data =
     bindE (jcontains sw_data ''file'') (\<lambda>has_file.
     if \<not> has_file then bindE (jitem sw_data ''name'') as_str
     else bindE (jitem sw_data ''name'') (\<lambda>n. bindE (as_str n) (\<lambda>name.
       case map_of (rev images) name of
         Some i \<Rightarrow> Inr i
       | None \<Rightarrow> (case ev_glance_create env vim vnfd sw_data inst_id of
             Inr i \<Rightarrow> Inr i
           | Inl _ \<Rightarrow> Inl (Sol (LocalNfvoGrantFailed ''glance image create failed''))))))"

definition handle_vim_assets :: "env \<Rightarrow> world \<Rightarrow> vnfd \<Rightarrow> grant_request \<Rightarrow> grant \<Rightarrow> grant pyres" where
  "handle_vim_assets env w vnfd grant_req grant_res =
     bindE (local_vim_info env w grant_req) (\<lambda>vim_opt.
     case vim_opt of
       None \<Rightarrow> Inl (Sol (LocalNfvoGrantFailed ''No vimConnectionInfo to handle glance image''))
     | Some vim \<Rightarrow>
         if vi_vimType vim \<noteq> ''ETSINFV.OPENSTACK_KEYSTONE.V_3'' then Inr grant_res
         else bindE (attr ''addResources'' (gq_addResources grant_req)) (\<lambda>reses.
              bindE (get_sw_image_data vnfd (opt_str (gq_flavourId grant_req))) (\<lambda>all_data.
              bindE (if gq_operation grant_req = INSTANTIATE then Inr []
                     else ev_glance_list env vim (gq_vnfInstanceId grant_req)) (\<lambda>images.
              bindE (mapE (\<lambda>(res_id, sw_data).
                  bindE (sw_image_of env vim vnfd (gq_vnfInstanceId grant_req) images sw_data) (\<lambda>i. Inr (res_id, i)))
                (filter (\<lambda>p. fst p \<in> rd_resourceTemplateId ` set reses) all_data)) (\<lambda>sw.
                Inr (if sw = [] then grant_res else grant_res\<lparr>gr_softwareImages := Some sw\<rparr>))))))"

fun zone_infos :: "(nat \<Rightarrow> string) \<Rightarrow> string list \<Rightarrow> zone_info list drawing" where
  "zone_infos gen [] = retS []"
| "zone_infos gen (z # zs) = bindS (new_id gen) (\<lambda>i. bindS (zone_infos gen zs) (\<lambda>rest.
     retS (\<lparr>zi_id = i, zi_zoneId = z\<rparr> # rest)))"

definition handle_zoneinfo :: "env \<Rightarrow> grant \<Rightarrow> (string option \<times> grant) drawing" where
  "handle_zoneinfo env grant_res =
     (if ev_zone_list env = [] then retS (None, grant_res)
      else bindS (zone_infos (ev_uuid env) (ev_zone_list env)) (\<lambda>zs.
        retS (Some (zi_id (hd zs)), grant_res\<lparr>gr_zones := Some zs\<rparr>)))"

definition handle_addresources :: "grant_request \<Rightarrow> string option \<Rightarrow> grant \<Rightarrow> grant" where
  "handle_addresources grant_req zone_id grant_res = (case gq_addResources grant_req of
      None \<Rightarrow> grant_res
    | Some reses \<Rightarrow> grant_res\<lparr>gr_addResources := Some (map (\<lambda>r.
        \<lparr>gi_resourceDefinitionId = rd_id r,
         gi_zoneId = (if rd_type r = COMPUTE then zone_id else None)\<rparr>) reses)\<rparr>)"

definition local_instantiate_grant :: "env \<Rightarrow> world \<Rightarrow> grant_request \<Rightarrow> grant \<Rightarrow> grant drawing" where
  "local_instantiate_grant env w grant_req grant_res =
     bindS (handle_zoneinfo env grant_res) (\<lambda>(zone_id, g).
     bindS (liftS (ev_get_vnfd env (gq_vnfdId grant_req))) (\<lambda>vnfd.
       liftS (handle_vim_assets env w vnfd grant_req (handle_addresources grant_req zone_id g))))"

definition local_change_vnfpkg_grant :: "env \<Rightarrow> world \<Rightarrow> grant_request \<Rightarrow> grant \<Rightarrow> grant drawing" where
  "local_change_vnfpkg_grant env w grant_req grant_res =
     (if gq_addResources grant_req = None then retS grant_res
      else bindS (liftS (attr ''dstVnfdId'' (gq_dstVnfdId grant_req))) (\<lambda>dst.
           bindS (liftS (ev_get_vnfd env dst)) (\<lambda>vnfd. liftS (handle_vim_assets env w vnfd grant_req grant_res))))"

definition local_scale_grant :: "env \<Rightarrow> world \<Rightarrow> grant_request \<Rightarrow> grant \<Rightarrow> grant drawing" where
  "local_scale_grant env w grant_req grant_res =
     (if gq_addResources grant_req = None then retS grant_res
      else local_instantiate_grant env w grant_req grant_res)"

definition local_heal_grant :: "env \<Rightarrow> world \<Rightarrow> grant_request \<Rightarrow> grant \<Rightarrow> grant drawing" where
  "local_heal_grant env w grant_req grant_res =
     (if gq_addResources grant_req = None then retS grant_res
      else bindS (liftS (ev_get_vnfd env (gq_vnfdId grant_req))) (\<lambda>vnfd.
             liftS (handle_vim_assets env w vnfd grant_req grant_res)))"

definition local_grant :: "env \<Rightarrow> world \<Rightarrow> grant_request \<Rightarrow> grant drawing" where
  "local_grant env w grant_req =
     bindS (new_id (ev_uuid env)) (\<lambda>i.
     let grant_res = \<lparr>gr_id = i, gr_vnfInstanceId = gq_vnfInstanceId grant_req,
           gr_vnfLcmOpOccId = gq_vnfLcmOpOccId grant_req, gr_vimConnectionInfo = None,
           gr_zones = None, gr_addResources = None, gr_computeResourceFlavours = None, gr_softwareImages = None,
        gr_extVirtualLinks = None, gr_extManagedVirtualLinks = None, gr_additionalParams = None\<rparr>
     in case gq_operation grant_req of
          INSTANTIATE \<Rightarrow> local_instantiate_grant env w grant_req grant_res
        | CHANGE_VNFPKG \<Rightarrow> local_change_vnfpkg_grant env w grant_req grant_res
        | SCALE \<Rightarrow> local_scale_grant env w grant_req grant_res
        | HEAL \<Rightarrow> local_heal_grant env w grant_req grant_res
        | _ \<Rightarrow> retS grant_res)"

definition nfvo_grant :: "env \<Rightarrow> world \<Rightarrow> grant_request \<Rightarrow> grant drawing" where
  "nfvo_grant env w grant_req =
     (if ev_is_local env then local_grant env w grant_req else liftS (ev_nfvo_grant env grant_req))"

subsection \<open>Packages\<close>

definition pkg_vnfd_id :: "pkg_row \<Rightarrow> string" where
  "pkg_vnfd_id p = pk_vnfdId (pr_info p)"

definition onboarded_show :: "world \<Rightarrow> string \<Rightarrow> pkg_info pyres" where
  "onboarded_show w vnfd_id = (case row_find pkg_vnfd_id (w_pkgs w) vnfd_id of
      None \<Rightarrow> Inl (Sol (VnfdIdNotFound vnfd_id))
    | Some p \<Rightarrow> if pr_onboarded p then Inr (pr_info p) else Inl (Sol (VnfdIdNotFound vnfd_id)))"

definition get_vnf_package_info_vnfd :: "env \<Rightarrow> world \<Rightarrow> string \<Rightarrow> pkg_info pyres" where
  "get_vnf_package_info_vnfd env w vnfd_id =
     (if ev_is_local env then onboarded_show w vnfd_id else ev_pkg_info env vnfd_id)"

definition update_vnf_pkg_usage_state :: "string \<Rightarrow> usage_state \<Rightarrow> world \<Rightarrow> world" where
  "update_vnf_pkg_usage_state vnfd_id state w = (case row_find pkg_vnfd_id (w_pkgs w) vnfd_id of
      None \<Rightarrow> w
    | Some p \<Rightarrow>
        if state = NOT_IN_USE \<and> row_filter (\<lambda>i. in_vnfdId i = vnfd_id) (w_insts w) \<noteq> [] then w
        else w\<lparr>w_pkgs := row_upd pkg_vnfd_id (p\<lparr>pr_usageState := state\<rparr>) (w_pkgs w)\<rparr>)"

definition recv_inst_create_notification :: "vnf_instance \<Rightarrow> world \<Rightarrow> world" where
  "recv_inst_create_notification inst = update_vnf_pkg_usage_state (in_vnfdId inst) IN_USE"

definition recv_inst_delete_notification :: "vnf_instance \<Rightarrow> world \<Rightarrow> world" where
  "recv_inst_delete_notification inst = update_vnf_pkg_usage_state (in_vnfdId inst) NOT_IN_USE"

text \<open>Deleting images never raises and works on Glance: the deletion is recorded.\<close>

definition glance_delete_images :: "vim_info \<Rightarrow> string \<Rightarrow> world \<Rightarrow> world" where
  "glance_delete_images vim inst_id w =
     (if vi_vimType vim = ''ETSINFV.OPENSTACK_KEYSTONE.V_3''
      then w\<lparr>w_image_deletes := w_image_deletes w @ [(vim, inst_id)]\<rparr> else w)"

text \<open>Storing \<open>None\<close> under a key and removing the key are the same to the later \<open>pop(key, None)\<close>.\<close>

definition remember_vim :: "string \<Rightarrow> vim_info option \<Rightarrow> world \<Rightarrow> world" where
  "remember_vim i vim w = w\<lparr>w_inst_vim_info := (case vim of
     None \<Rightarrow> dict_del i (w_inst_vim_info w) | Some v \<Rightarrow> dict_set i v (w_inst_vim_info w))\<rparr>"

definition selected_vim :: "vnf_instance \<Rightarrow> vim_info option pyres" where
  "selected_vim inst = bindE (attr ''vimConnectionInfo'' (in_vimConnectionInfo inst))
     (\<lambda>vis. Inr (map_option snd (fst (select_vim_info vis))))"

definition recv_terminate :: "op_state \<Rightarrow> vnf_instance \<Rightarrow> unit vnfm" where
  "recv_terminate st inst = (case st of
      PROCESSING \<Rightarrow> bindS (liftS (selected_vim inst)) (\<lambda>vim. modS (remember_vim (in_id inst) vim))
    | FAILED_TEMP \<Rightarrow> modS (remember_vim (in_id inst) None)
    | COMPLETED \<Rightarrow> bindS (getS (\<lambda>w. map_of (w_inst_vim_info w) (in_id inst))) (\<lambda>vim.
        bindS (modS (remember_vim (in_id inst) None)) (\<lambda>_.
          case vim of None \<Rightarrow> retS () | Some v \<Rightarrow> modS (glance_delete_images v (in_id inst))))
    | _ \<Rightarrow> retS ())"

definition recv_vnfd_change :: "op_state \<Rightarrow> vnf_instance \<Rightarrow> unit vnfm" where
  "recv_vnfd_change st inst = (case st of
      PROCESSING \<Rightarrow> modS (\<lambda>w. w\<lparr>w_inst_vnfd_id := dict_set (in_id inst) (in_vnfdId inst) (w_inst_vnfd_id w)\<rparr>)
    | FAILED_TEMP \<Rightarrow> modS (\<lambda>w. w\<lparr>w_inst_vnfd_id := dict_del (in_id inst) (w_inst_vnfd_id w)\<rparr>)
    | COMPLETED \<Rightarrow> bindS (getS (\<lambda>w. map_of (w_inst_vnfd_id w) (in_id inst))) (\<lambda>vnfd_id.
        bindS (modS (\<lambda>w. w\<lparr>w_inst_vnfd_id := dict_del (in_id inst) (w_inst_vnfd_id w)\<rparr>)) (\<lambda>_.
          case vnfd_id of
            None \<Rightarrow> retS ()
          | Some old \<Rightarrow> whenS (old \<noteq> in_vnfdId inst)
              (modS (\<lambda>w. update_vnf_pkg_usage_state (in_vnfdId inst) IN_USE
                 (update_vnf_pkg_usage_state old NOT_IN_USE w)))))
    | _ \<Rightarrow> retS ())"

definition recv_instantiate :: "op_state \<Rightarrow> vnf_instance \<Rightarrow> unit vnfm" where
  "recv_instantiate st inst = (case st of
      ROLLED_BACK \<Rightarrow> bindS (liftS (selected_vim inst)) (\<lambda>vim.
        case vim of None \<Rightarrow> retS () | Some v \<Rightarrow> modS (glance_delete_images v (in_id inst)))
    | _ \<Rightarrow> retS ())"

definition recv_lcmocc_notification :: "lcm_op_occ \<Rightarrow> vnf_instance \<Rightarrow> unit vnfm" where
  "recv_lcmocc_notification lcmocc inst = (case oc_operation lcmocc of
      TERMINATE \<Rightarrow> recv_terminate (oc_operationState lcmocc) inst
    | MODIFY_INFO \<Rightarrow> recv_vnfd_change (oc_operationState lcmocc) inst
    | CHANGE_VNFPKG \<Rightarrow> recv_vnfd_change (oc_operationState lcmocc) inst
    | INSTANTIATE \<Rightarrow> recv_instantiate (oc_operationState lcmocc) inst
    | _ \<Rightarrow> retS ())"

subsection \<open>Sending notifications\<close>

definition send_to_subscs :: "(lccn_subscription \<Rightarrow> notification vnfm) \<Rightarrow> lccn_subscription list \<Rightarrow> unit vnfm" where
  "send_to_subscs mk = forS (\<lambda>subsc. bindS (mk subsc) (\<lambda>notif. send_notification subsc notif))"

definition send_inst_create_notification :: "env \<Rightarrow> vnf_instance \<Rightarrow> unit vnfm" where
  "send_inst_create_notification env inst =
     bindS (getS w_subscs) (\<lambda>all. bindS (liftS (get_inst_create_subscs all inst)) (\<lambda>subscs.
     bindS (send_to_subscs (\<lambda>s. make_create_inst_notif_data env s inst) subscs) (\<lambda>_.
       whenS (ev_is_local env) (modS (recv_inst_create_notification inst)))))"

definition send_inst_delete_notification :: "env \<Rightarrow> vnf_instance \<Rightarrow> unit vnfm" where
  "send_inst_delete_notification env inst =
     bindS (getS w_subscs) (\<lambda>all. bindS (liftS (get_inst_delete_subscs all inst)) (\<lambda>subscs.
     bindS (send_to_subscs (\<lambda>s. make_delete_inst_notif_data env s inst) subscs) (\<lambda>_.
       whenS (ev_is_local env) (modS (recv_inst_delete_notification inst)))))"

definition send_lcmocc_notification :: "env \<Rightarrow> lcm_op_occ \<Rightarrow> vnf_instance \<Rightarrow> unit vnfm" where
  "send_lcmocc_notification env lcmocc inst =
     bindS (getS w_subscs) (\<lambda>all. bindS (liftS (get_lcmocc_subscs all lcmocc inst)) (\<lambda>subscs.
     bindS (send_to_subscs (\<lambda>s. make_lcmocc_notif_data env s lcmocc) subscs) (\<lambda>_.
       whenS (ev_is_local env) (recv_lcmocc_notification lcmocc inst))))"

subsection \<open>What a notification leaves alone\<close>

text \<open>Sending changes no instance, occurrence, grant or subscription, and casts no message.\<close>

definition same_tables :: "world \<Rightarrow> world \<Rightarrow> bool" where
  "same_tables w w' \<longleftrightarrow> w_insts w' = w_insts w \<and> w_occs w' = w_occs w \<and>
     w_grant_reqs w' = w_grant_reqs w \<and> w_grants w' = w_grants w \<and> w_subscs w' = w_subscs w \<and>
     w_rpcs w' = w_rpcs w"

lemma same_tables_refl [simp]: "same_tables w w"
  by (simp add: same_tables_def)

lemma same_tables_reflp: "reflp same_tables" and same_tables_transp: "transp same_tables"
  by (auto simp: reflp_def transp_def same_tables_def)

lemma same_tables_trans: "same_tables a b \<Longrightarrow> same_tables b c \<Longrightarrow> same_tables a c"
  by (simp add: same_tables_def)

lemma keeps_usage: "same_tables w (update_vnf_pkg_usage_state v s w)"
  by (simp add: same_tables_def update_vnf_pkg_usage_state_def split: option.splits)

lemma keeps_basic [intro, simp]:
  "keepsS same_tables (retS x)" "keepsS same_tables (liftS m)" "keepsS same_tables (getS f)"
  "keepsS same_tables (raiseS e)"
  by (simp_all add: keepsS_def)

lemma keeps_modS [intro]: "(\<And>w. same_tables w (f w)) \<Longrightarrow> keepsS same_tables (modS f)"
  by (simp add: keepsS_def)

lemma keeps_bindS [intro]:
  "keepsS same_tables m \<Longrightarrow> (\<And>x. keepsS same_tables (f x)) \<Longrightarrow> keepsS same_tables (bindS m f)"
  by (rule keepsS_bindS [OF same_tables_transp])

lemma keeps_whenS [intro]: "keepsS same_tables m \<Longrightarrow> keepsS same_tables (whenS b m)"
  by (simp add: keepsS_def)

lemma keeps_clock [intro, simp]: "keepsS same_tables (generate_uuid env)" "keepsS same_tables (utcnow env)"
  by (simp_all add: keepsS_def same_tables_def generate_uuid_def utcnow_def)

lemma keeps_send [intro, simp]: "keepsS same_tables (send_notification s n)"
  by (simp add: keepsS_def same_tables_def send_notification_def)

lemma keeps_send_to_subscs:
  "(\<And>s. keepsS same_tables (mk s)) \<Longrightarrow> keepsS same_tables (send_to_subscs mk subscs)"
  unfolding send_to_subscs_def
  by (rule keepsS_forS [OF same_tables_reflp same_tables_transp]) auto

lemma keeps_remember: "same_tables w (remember_vim i v w)" "same_tables w (glance_delete_images v' i w)"
  by (simp_all add: same_tables_def remember_vim_def glance_delete_images_def)

lemma keeps_recv: "keepsS same_tables (recv_lcmocc_notification lcmocc inst)"
  unfolding recv_lcmocc_notification_def recv_terminate_def recv_vnfd_change_def recv_instantiate_def
  by (auto split: op_type.splits op_state.splits option.splits
      intro!: keeps_bindS keeps_modS keeps_whenS keeps_remember
      intro: same_tables_trans [OF keeps_usage keeps_usage])
     (simp_all add: same_tables_def)

lemma send_lcmocc_keeps: "keepsS same_tables (send_lcmocc_notification env lcmocc inst)"
  unfolding send_lcmocc_notification_def
  by (intro keeps_bindS keeps_basic keeps_send_to_subscs keeps_whenS keeps_recv)
     (auto simp: make_lcmocc_notif_data_def)

lemma send_inst_create_keeps: "keepsS same_tables (send_inst_create_notification env inst)"
  unfolding send_inst_create_notification_def
  by (intro keeps_bindS keeps_basic keeps_send_to_subscs keeps_whenS keeps_modS)
     (auto simp: make_create_inst_notif_data_def make_inst_notif_data_def recv_inst_create_notification_def keeps_usage)

lemma send_inst_delete_keeps: "keepsS same_tables (send_inst_delete_notification env inst)"
  unfolding send_inst_delete_notification_def
  by (intro keeps_bindS keeps_basic keeps_send_to_subscs keeps_whenS keeps_modS)
     (auto simp: make_delete_inst_notif_data_def make_inst_notif_data_def recv_inst_delete_notification_def keeps_usage)

subsection \<open>The answer of the local NFVO\<close>

definition first_zone :: "grant \<Rightarrow> string option" where
  "first_zone g = (case gr_zones g of Some (z # _) \<Rightarrow> Some (zi_id z) | _ \<Rightarrow> None)"

lemma zone_infos_names: "zone_infos gen names n = (Inr zs, n') \<Longrightarrow> map zi_zoneId zs = names"
  by (induction names arbitrary: n zs) (auto simp: bindS_eq_Inr)

lemma handle_zoneinfo_result:
  assumes "handle_zoneinfo env g n = (Inr (z, g'), n')" and "gr_zones g = None"
  shows "\<exists>zs. g' = g\<lparr>gr_zones := zs\<rparr> \<and> z = first_zone g' \<and> map zi_zoneId (opt_list zs) = ev_zone_list env"
proof (cases "ev_zone_list env = []")
  case True
  with assms show ?thesis
    by (intro exI [of _ None]) (simp add: handle_zoneinfo_def first_zone_def opt_list_def)
next
  case False
  then obtain zs where zs: "zone_infos (ev_uuid env) (ev_zone_list env) n = (Inr zs, n')"
    "z = Some (zi_id (hd zs))" "g' = g\<lparr>gr_zones := Some zs\<rparr>"
    using assms(1) by (auto simp: handle_zoneinfo_def bindS_eq_Inr)
  with zone_infos_names [OF zs(1)] False show ?thesis
    by (intro exI [of _ "Some zs"]) (cases zs; simp add: first_zone_def opt_list_def)
qed

lemma handle_vim_assets_result:
  assumes "handle_vim_assets env w vnfd q g = Inr g'"
  shows "\<exists>s. g' = g\<lparr>gr_softwareImages := s\<rparr>"
proof -
  have "g' = g \<or> (\<exists>s. g' = g\<lparr>gr_softwareImages := s\<rparr>)"
    using assms by (auto simp: handle_vim_assets_def bindE_eq_Inr split: option.splits if_splits)
  then show ?thesis by (elim disjE) (auto intro: exI [of _ "gr_softwareImages g"])
qed

lemma local_instantiate_grant_result:
  assumes "local_instantiate_grant env w q g n = (Inr g', n')" and "gr_zones g = None"
  shows "\<exists>zs s. g' = (handle_addresources q (first_zone g') (g\<lparr>gr_zones := zs\<rparr>))\<lparr>gr_softwareImages := s\<rparr> \<and>
    gr_zones g' = zs \<and> map zi_zoneId (opt_list zs) = ev_zone_list env"
proof -
  obtain z g1 n1 vnfd where g1: "handle_zoneinfo env g n = (Inr (z, g1), n1)"
    "handle_vim_assets env w vnfd q (handle_addresources q z g1) = Inr g'"
    using assms(1) by (auto simp: local_instantiate_grant_def bindS_eq_Inr)
  obtain zs where zs: "g1 = g\<lparr>gr_zones := zs\<rparr>" "z = first_zone g1" "map zi_zoneId (opt_list zs) = ev_zone_list env"
    using handle_zoneinfo_result [OF g1(1) assms(2)] by blast
  obtain s where s: "g' = (handle_addresources q z g1)\<lparr>gr_softwareImages := s\<rparr>"
    using handle_vim_assets_result [OF g1(2)] by blast
  have "gr_zones g' = zs" by (simp add: s zs(1) handle_addresources_def split: option.splits)
  moreover from this have "first_zone g' = z" by (simp add: zs(1,2) first_zone_def)
  ultimately show ?thesis using s zs by auto
qed

text \<open>
  The grant of the local NFVO for an instantiation, or for a scaling that adds resources,
  belongs to the occurrence of the request and answers every resource to add, in order; a COMPUTE
  resource is put into the first of the configured zones when there is one, other resources have
  no zone.
\<close>

lemma local_grant_answers_request:
  assumes "local_grant env w q n = (Inr g, n')" and "gq_operation q \<in> {INSTANTIATE, SCALE}"
    and "gq_addResources q = Some reses"
  shows "gr_vnfLcmOpOccId g = gq_vnfLcmOpOccId q \<and> gr_id g = ev_uuid env n \<and>
    gr_addResources g = Some (map (\<lambda>r. \<lparr>gi_resourceDefinitionId = rd_id r,
        gi_zoneId = (if rd_type r = COMPUTE then first_zone g else None)\<rparr>) reses) \<and>
    map zi_zoneId (opt_list (gr_zones g)) = ev_zone_list env"
proof -
  let ?g0 = "\<lparr>gr_id = ev_uuid env n, gr_vnfInstanceId = gq_vnfInstanceId q, gr_vnfLcmOpOccId = gq_vnfLcmOpOccId q,
    gr_vimConnectionInfo = None, gr_zones = None, gr_addResources = None, gr_computeResourceFlavours = None, gr_softwareImages = None,
        gr_extVirtualLinks = None, gr_extManagedVirtualLinks = None, gr_additionalParams = None\<rparr>"
  have "local_instantiate_grant env w q ?g0 (Suc n) = (Inr g, n')"
    using assms by (auto simp: local_grant_def local_scale_grant_def bindS_def new_id_def)
  from local_instantiate_grant_result [OF this] obtain zs s where
    g: "g = (handle_addresources q (first_zone g) (?g0\<lparr>gr_zones := zs\<rparr>))\<lparr>gr_softwareImages := s\<rparr>"
      "gr_zones g = zs" "map zi_zoneId (opt_list zs) = ev_zone_list env"
    by auto
  have "gr_addResources g = gr_addResources (handle_addresources q (first_zone g) (?g0\<lparr>gr_zones := zs\<rparr>))"
    "gr_vnfLcmOpOccId g = gr_vnfLcmOpOccId (handle_addresources q (first_zone g) (?g0\<lparr>gr_zones := zs\<rparr>))"
    "gr_id g = gr_id (handle_addresources q (first_zone g) (?g0\<lparr>gr_zones := zs\<rparr>))"
    by (subst g(1), simp)+
  with g(2,3) assms(3) show ?thesis by (simp add: handle_addresources_def)
qed

definition ex_local_env :: env where
  "ex_local_env = ex_env\<lparr>ev_is_local := True, ev_zone_list := [''z1'', ''z2'']\<rparr>"

definition ex_local_req :: grant_request where
  "ex_local_req = (grant_request_common ex_env (ex_occ SCALE (ex_scale ''SCALE_OUT'') STARTING) ex_inst)\<lparr>
     gq_flavourId := Some ''fl'', gq_addResources := Some [res_def_new ''r'' COMPUTE ''V'' None]\<rparr>"

end
