(* ===== verification/Lcm_Driver.thy ===== *)
theory Lcm_Driver
  imports Nfvo
begin

section \<open>The LCM driver (conductor/vnflcm\_driver\_v2.py)\<close>

text \<open>
  What the conductor runs after the grant: \<open>post_grant\<close>, \<open>process\<close> and \<open>rollback\<close>. They
  work on objects in memory only: the occurrence, the instance, the grant and the dictionary
  the management scripts pass to each other. \<open>op_mem\<close> holds them; a call that raises leaves
  what it changed until then, and nothing reaches the database. The package table is read
  (argument \<open>w\<close>), never written.

  An infra driver is a function of the environment that returns the instance it was given,
  changed in place, and raises or not. The request and the grant are not changed by it.
\<close>

record op_mem =
  om_occ :: lcm_op_occ
  om_inst :: vnf_instance
  om_grant_req :: "grant_request option"
  om_grant :: "grant option"
  om_data :: jdict

type_synonym 'a driver = "(op_mem, exn, 'a) sem"

definition set_inst :: "vnf_instance \<Rightarrow> op_mem \<Rightarrow> op_mem" where
  "set_inst inst m = m\<lparr>om_inst := inst\<rparr>"

definition mod_inst :: "(vnf_instance \<Rightarrow> vnf_instance) \<Rightarrow> unit driver" where
  "mod_inst f = modS (\<lambda>m. m\<lparr>om_inst := f (om_inst m)\<rparr>)"

definition params_of :: "op_mem \<Rightarrow> op_params" where
  "params_of m = oc_operationParams (om_occ m)"

subsection \<open>After the grant\<close>

definition complete_vim_info :: "env \<Rightarrow> string \<times> vim_info \<Rightarrow> (string \<times> vim_info) pyres" where
  "complete_vim_info env kv = (case kv of (key, vi) \<Rightarrow>
     if vi_accessInfo vi \<noteq> None \<and> vi_interfaceInfo vi \<noteq> None then Inr kv
     else bindE (attr ''vimId'' (vi_vimId vi)) (\<lambda>vim_id.
          bindE (get_vim env vim_id) (\<lambda>v. Inr (key, v))))"

definition merge_vim_objects :: "vim_infos \<Rightarrow> vim_infos \<Rightarrow> vim_infos" where
  "merge_vim_objects target patch = fold (\<lambda>(k, v) d. dict_set k v d) patch target"

text \<open>The dictionary of the request is changed in place when it is there.\<close>

definition set_req_vims :: "vim_infos \<Rightarrow> lcm_op_occ \<Rightarrow> lcm_op_occ" where
  "set_req_vims vis occ = (case rq_vimConnectionInfo (oc_operationParams occ) of
      None \<Rightarrow> occ
    | Some _ \<Rightarrow> occ\<lparr>oc_operationParams := (oc_operationParams occ)\<lparr>rq_vimConnectionInfo := Some vis\<rparr>\<rparr>)"

definition norm_key :: "string \<Rightarrow> vim_infos \<Rightarrow> vim_infos" where
  "norm_key k d = map (\<lambda>(k', v). (k', if k' = k then normal_vim_type v else v)) d"

definition set_inst_vims :: "vim_infos \<Rightarrow> vnf_instance \<Rightarrow> vnf_instance" where
  "set_inst_vims vis inst = inst\<lparr>in_vimConnectionInfo := Some vis\<rparr>"

definition param_truthy :: "op_params \<Rightarrow> string \<Rightarrow> bool" where
  "param_truthy req key = (case rq_additionalParams req of None \<Rightarrow> False
     | Some p \<Rightarrow> (case map_of p key of None \<Rightarrow> False | Some j \<Rightarrow> py_truthy j))"

definition missing_attribute :: exn where
  "missing_attribute = Sol (SolValidationError ''Required attribute missing in vimConnectionInfo'')"

definition must_be_specified :: "string \<Rightarrow> exn" where
  "must_be_specified key = Sol (SolValidationError (quoted key @ '' must be specified''))"

definition check_vim_params :: "op_params \<Rightarrow> vim_info \<Rightarrow> unit pyres" where
  "check_vim_params req vi =
     (if vi_vimType vi = ''ETSINFV.KUBERNETES.V_1''
      then bindE (attr ''interfaceInfo'' (vi_interfaceInfo vi)) (\<lambda>ii.
        if \<not> dict_has ii ''endpoint'' then Inl missing_attribute
        else if \<not> param_truthy req ''lcm-kubernetes-def-files''
        then Inl (must_be_specified ''lcm-kubernetes-def-files'') else Inr ())
      else if vi_vimType vi = ''ETSINFV.HELM.V_3''
      then bindE (attr ''interfaceInfo'' (vi_interfaceInfo vi)) (\<lambda>ii.
        if \<not> dict_has ii ''endpoint'' \<or> \<not> dict_has ii ''ssl_ca_cert'' then Inl missing_attribute
        else bindE (attr ''accessInfo'' (vi_accessInfo vi)) (\<lambda>ai.
          if \<not> dict_has ai ''bearer_token'' then Inl missing_attribute
          else if \<not> param_truthy req ''helm_chart_path'' then Inl (must_be_specified ''helm_chart_path'')
          else if \<not> param_truthy req ''helm_value_names'' then Inl (must_be_specified ''helm_value_names'')
          else Inr ()))
      else Inr ())"

definition grant_vims :: "env \<Rightarrow> op_mem \<Rightarrow> (vim_infos \<times> grant option) pyres" where
  "grant_vims env m =
     (let base = (case rq_vimConnectionInfo (params_of m) of None \<Rightarrow> [] | Some vis \<Rightarrow> vis) in
      case om_grant m of
        None \<Rightarrow> Inl (attr_error JNull ''obj_attr_is_set'')
      | Some g \<Rightarrow> (case gr_vimConnectionInfo g of
            None \<Rightarrow> Inr (base, Some g)
          | Some res \<Rightarrow> bindE (mapE (complete_vim_info env) res) (\<lambda>res'.
              Inr (merge_vim_objects base res', Some (g\<lparr>gr_vimConnectionInfo := Some res'\<rparr>)))))"

definition normalise_first :: "vim_infos \<Rightarrow> op_mem \<Rightarrow> op_mem" where
  "normalise_first vis m = (case vis of [] \<Rightarrow> m
    | (k, v) # _ \<Rightarrow> m\<lparr>om_inst := set_inst_vims (norm_key k vis) (om_inst m),
        om_occ := set_req_vims (norm_key k vis) (om_occ m),
        om_grant := map_option (\<lambda>g. g\<lparr>gr_vimConnectionInfo := map_option (norm_key k) (gr_vimConnectionInfo g)\<rparr>) (om_grant m)\<rparr>)"

definition instantiate_post_grant :: "env \<Rightarrow> unit driver" where
  "instantiate_post_grant env m =
     (case grant_vims env m of
        Inl e \<Rightarrow> (Inl e, m)
      | Inr (merged, g) \<Rightarrow>
          (case (if merged \<noteq> [] then Some merged
                 else map_option (\<lambda>v. [(''default'', v)]) (get_default_vim env)) of
             None \<Rightarrow> (Inl (Sol NoVimConnectionInfo), m\<lparr>om_grant := g\<rparr>)
           | Some vis \<Rightarrow>
               let m1 = m\<lparr>om_grant := g, om_occ := set_req_vims vis (om_occ m),
                          om_inst := set_inst_vims vis (om_inst m)\<rparr>
               in if oc_operationState (om_occ m) = STARTING
                  then (check_vim_params (params_of m) (normal_vim_type (snd (hd vis))), normalise_first vis m1)
                  else (Inr (), m1)))"

definition post_grant :: "env \<Rightarrow> unit driver" where
  "post_grant env m =
     (if oc_operation (om_occ m) = INSTANTIATE then instantiate_post_grant env m else (Inr (), m))"

subsection \<open>Management scripts\<close>

text \<open>\<open>inst.__dict__.update(_inst.__dict__)\<close>: the attributes that are set in the new object
  replace those of the old one, the others stay.\<close>

definition or_else :: "'a option \<Rightarrow> 'a option \<Rightarrow> 'a option" where
  "or_else new old = (case new of None \<Rightarrow> old | Some v \<Rightarrow> Some v)"

definition inst_dict_update :: "vnf_instance \<Rightarrow> vnf_instance \<Rightarrow> vnf_instance" where
  "inst_dict_update new old = new\<lparr>
     in_vnfInstanceName := or_else (in_vnfInstanceName new) (in_vnfInstanceName old),
     in_vnfInstanceDescription := or_else (in_vnfInstanceDescription new) (in_vnfInstanceDescription old),
     in_vnfConfigurableProperties := or_else (in_vnfConfigurableProperties new) (in_vnfConfigurableProperties old),
     in_vimConnectionInfo := or_else (in_vimConnectionInfo new) (in_vimConnectionInfo old),
     in_instantiatedVnfInfo := or_else (in_instantiatedVnfInfo new) (in_instantiatedVnfInfo old),
     in_metadata := or_else (in_metadata new) (in_metadata old),
     in_extensions := or_else (in_extensions new) (in_extensions old)\<rparr>"

definition dict_update :: "jdict \<Rightarrow> jdict \<Rightarrow> jdict" where
  "dict_update d new = fold (\<lambda>(k, v) e. dict_set k v e) new d"

definition script_result :: "string \<Rightarrow> script_output \<Rightarrow> unit driver" where
  "script_result operation out m =
     (let m1 = m\<lparr>om_inst := (case so_vnf_instance out of None \<Rightarrow> om_inst m
                  | Some i \<Rightarrow> inst_dict_update i (om_inst m)),
                om_data := (case so_user_data out of None \<Rightarrow> om_data m | Some d \<Rightarrow> dict_update (om_data m) d)\<rparr>
      in if so_returncode out \<noteq> 0
         then (Inl (Sol (MgmtDriverExecutionFailed (operation @ '' failed: '' @ so_stderr out))), m1)
         else (Inr (), m1))"

definition exec_mgmt_driver_script :: "env \<Rightarrow> string \<Rightarrow> json \<Rightarrow> vnfd \<Rightarrow> vnfd option \<Rightarrow> unit driver" where
  "exec_mgmt_driver_script env operation flavour_id vnfd new_vnfd =
     bindS (liftS (get_interface_script vnfd flavour_id operation)) (\<lambda>script.
       case script of
         None \<Rightarrow> retS ()
       | Some s \<Rightarrow> bindS (getS (\<lambda>m. ev_script env s
           \<lparr>sc_operation = operation, sc_request = params_of m, sc_vnf_instance = om_inst m,
            sc_grant_request = om_grant_req m, sc_grant_response = om_grant m,
            sc_user_data = om_data m, sc_new_vnfd = new_vnfd\<rparr>))
           (script_result operation))"

fun op_lower :: "op_type \<Rightarrow> string" where
  "op_lower INSTANTIATE = ''instantiate''"
| "op_lower SCALE = ''scale''"
| "op_lower SCALE_TO_LEVEL = ''scale_to_level''"
| "op_lower CHANGE_FLAVOUR = ''change_flavour''"
| "op_lower TERMINATE = ''terminate''"
| "op_lower HEAL = ''heal''"
| "op_lower OPERATE = ''operate''"
| "op_lower CHANGE_EXT_CONN = ''change_ext_conn''"
| "op_lower MODIFY_INFO = ''modify_info''"
| "op_lower CREATE_SNAPSHOT = ''create_snapshot''"
| "op_lower REVERT_TO_SNAPSHOT = ''revert_to_snapshot''"
| "op_lower CHANGE_VNFPKG = ''change_vnfpkg''"

definition script_method_name :: "op_type \<Rightarrow> string" where
  "script_method_name operation = (case operation of
      MODIFY_INFO \<Rightarrow> ''modify_information''
    | CHANGE_EXT_CONN \<Rightarrow> ''change_external_connectivity''
    | CHANGE_VNFPKG \<Rightarrow> ''change_current_package''
    | _ \<Rightarrow> op_lower operation)"

subsection \<open>The VIM independent part of instantiatedVnfInfo\<close>

definition scale_infos :: "(string, json) dict \<Rightarrow> scale_info list pyres" where
  "scale_infos infos = mapE (\<lambda>(aspect_id, value). bindE (jitem value ''scale_level'') (\<lambda>l.
     bindE (as_int l) (\<lambda>n. Inr \<lparr>si_aspectId = aspect_id, si_scaleLevel = n\<rparr>))) infos"

definition max_infos :: "vnfd \<Rightarrow> json \<Rightarrow> scale_info list \<Rightarrow> scale_info list pyres" where
  "max_infos vnfd flavour_id infos = mapE (\<lambda>si. bindE (get_max_scale_level vnfd flavour_id (si_aspectId si)) (\<lambda>l.
     bindE (as_int l) (\<lambda>n. Inr \<lparr>si_aspectId = si_aspectId si, si_scaleLevel = n\<rparr>))) infos"

definition instantiate_scale :: "op_params \<Rightarrow> vnfd \<Rightarrow> inst_vnf_info \<Rightarrow> inst_vnf_info pyres" where
  "instantiate_scale req vnfd info =
     bindE (attr ''flavourId'' (rq_flavourId req)) (\<lambda>flavour_id.
     bindE (case rq_instantiationLevelId req of Some l \<Rightarrow> Inr (JStr l)
            | None \<Rightarrow> get_default_instantiation_level vnfd (JStr flavour_id)) (\<lambda>inst_level.
     bindE (get_scale_info_from_inst_level vnfd (JStr flavour_id) inst_level) (\<lambda>infos.
     bindE (scale_infos infos) (\<lambda>status.
     bindE (max_infos vnfd (JStr flavour_id) status) (\<lambda>maxs.
       let info1 = (if status = [] then info
                    else info\<lparr>iv_scaleStatus := Some status, iv_maxScaleLevels := Some maxs\<rparr>)
       in Inr (case rq_localizationLanguage req of None \<Rightarrow> info1
               | Some l \<Rightarrow> info1\<lparr>iv_localizationLanguage := Some l\<rparr>))))))"

definition carry_scale :: "inst_vnf_info \<Rightarrow> inst_vnf_info \<Rightarrow> inst_vnf_info pyres" where
  "carry_scale saved info =
     bindE (case iv_scaleStatus saved of None \<Rightarrow> Inr info
            | Some st \<Rightarrow> bindE (attr ''maxScaleLevels'' (iv_maxScaleLevels saved)) (\<lambda>mx.
                Inr (info\<lparr>iv_scaleStatus := Some st, iv_maxScaleLevels := Some mx\<rparr>))) (\<lambda>info1.
       Inr (case iv_localizationLanguage saved of None \<Rightarrow> info1
            | Some l \<Rightarrow> info1\<lparr>iv_localizationLanguage := Some l\<rparr>))"

fun adjust_scale :: "string \<Rightarrow> int \<Rightarrow> scale_info list \<Rightarrow> scale_info list" where
  "adjust_scale aspect_id num_steps [] = []"
| "adjust_scale aspect_id num_steps (si # sis) =
     (if si_aspectId si = aspect_id then si\<lparr>si_scaleLevel := si_scaleLevel si + num_steps\<rparr> # sis
      else si # adjust_scale aspect_id num_steps sis)"

definition scale_adjusted :: "op_params \<Rightarrow> inst_vnf_info \<Rightarrow> inst_vnf_info pyres" where
  "scale_adjusted req info =
     bindE (attr ''numberOfSteps'' (rq_numberOfSteps req)) (\<lambda>n.
     bindE (attr ''type'' (rq_type req)) (\<lambda>ty.
     bindE (attr ''scaleStatus'' (iv_scaleStatus info)) (\<lambda>st.
     bindE (attr ''aspectId'' (rq_aspectId req)) (\<lambda>aspect_id.
       Inr (info\<lparr>iv_scaleStatus := Some (adjust_scale aspect_id
          (if ty = ''SCALE_IN'' then n * -1 else n) st)\<rparr>)))))"

definition inst_info_common :: "lcm_op_occ \<Rightarrow> vnf_instance \<Rightarrow> vnfd \<Rightarrow> inst_vnf_info \<Rightarrow> inst_vnf_info pyres" where
  "inst_info_common lcmocc inst_saved vnfd info =
     bindE (if oc_operation lcmocc = INSTANTIATE then instantiate_scale (oc_operationParams lcmocc) vnfd info
            else if oc_operation lcmocc \<noteq> TERMINATE
            then bindE (attr ''instantiatedVnfInfo'' (in_instantiatedVnfInfo inst_saved)) (\<lambda>saved. carry_scale saved info)
            else Inr info) (\<lambda>info1.
       if oc_operation lcmocc = SCALE then scale_adjusted (oc_operationParams lcmocc) info1 else Inr info1)"

definition make_inst_info_common :: "vnf_instance \<Rightarrow> vnfd \<Rightarrow> unit driver" where
  "make_inst_info_common inst_saved vnfd m =
     (case in_instantiatedVnfInfo (om_inst m) of
        None \<Rightarrow> (Inr (), m)
      | Some info \<Rightarrow> (case inst_info_common (om_occ m) inst_saved vnfd info of
            Inl e \<Rightarrow> (Inl e, m)
          | Inr info' \<Rightarrow> (Inr (), set_inst ((om_inst m)\<lparr>in_instantiatedVnfInfo := Some info'\<rparr>) m)))"

subsection \<open>Infra drivers\<close>

definition infra_of :: "string \<Rightarrow> infra option" where
  "infra_of vim_type =
     (if vim_type = ''ETSINFV.OPENSTACK_KEYSTONE.V_3'' then Some Openstack
      else if vim_type = ''ETSINFV.KUBERNETES.V_1'' then Some Kubernetes
      else if vim_type = ''ETSINFV.HELM.V_3'' then Some Helm
      else if vim_type = ''TERRAFORM.V1'' then Some Terraform
      else None)"

definition unsupported_vim :: exn where
  "unsupported_vim = Sol (SolException ''not support vim type'')"

definition call_infra :: "env \<Rightarrow> infra list \<Rightarrow> infra_call \<Rightarrow> vnfd \<Rightarrow> unit driver" where
  "call_infra env supported call vnfd m =
     (case in_vimConnectionInfo (om_inst m) of
        None \<Rightarrow> (bindE (attr ''vimConnectionInfo'' (None :: vim_infos option)) (\<lambda>_. Inr ()), m)
      | Some vis \<Rightarrow> (case select_vim_info vis of
            (None, _) \<Rightarrow> (Inl (attr_error JNull ''vimType''), m)
          | (Some (key, vi), vis') \<Rightarrow>
              let inst1 = set_inst_vims vis' (om_inst m) in
              (case infra_of (vi_vimType vi) of
                 None \<Rightarrow> (Inl unsupported_vim, set_inst inst1 m)
               | Some d \<Rightarrow>
                   if d \<notin> set supported then (Inl unsupported_vim, set_inst inst1 m)
                   else (case ev_infra env d call (params_of m) (om_grant_req m) (om_grant m) vnfd inst1 of
                           (r, inst2) \<Rightarrow> (r, set_inst inst2 m)))))"

definition all_infras :: "infra list" where
  "all_infras = [Openstack, Kubernetes, Helm, Terraform]"

definition no_terraform :: "infra list" where
  "no_terraform = [Openstack, Kubernetes, Helm]"

subsection \<open>Attributes from the request and the new VNFD\<close>

definition modify_dict :: "jdict option \<Rightarrow> jdict option \<Rightarrow> jdict option" where
  "modify_dict base patch = (case patch of None \<Rightarrow> base
     | Some p \<Rightarrow> Some (merge_items (case base of None \<Rightarrow> [] | Some b \<Rightarrow> b) p))"

definition modify_props_from_req :: "op_params \<Rightarrow> vnf_instance \<Rightarrow> vnf_instance" where
  "modify_props_from_req req inst = inst\<lparr>
     in_vnfConfigurableProperties := modify_dict (in_vnfConfigurableProperties inst) (rq_vnfConfigurableProperties req),
     in_extensions := modify_dict (in_extensions inst) (rq_extensions req)\<rparr>"

definition modify_metadata_from_req :: "op_params \<Rightarrow> vnf_instance \<Rightarrow> vnf_instance" where
  "modify_metadata_from_req req inst =
     inst\<lparr>in_metadata := modify_dict (in_metadata inst) (rq_metadata req)\<rparr>"

definition vnfd_prop :: "vnfd \<Rightarrow> string \<Rightarrow> jdict option" where
  "vnfd_prop vnfd name = (case map_of (get_vnfd_properties vnfd) name of
      Some (x # xs) \<Rightarrow> Some (x # xs) | _ \<Rightarrow> None)"

definition modify_from_vnfd_prop :: "vnfd \<Rightarrow> vnf_instance \<Rightarrow> vnf_instance" where
  "modify_from_vnfd_prop vnfd inst = inst\<lparr>
     in_vnfConfigurableProperties := modify_dict (in_vnfConfigurableProperties inst) (vnfd_prop vnfd ''vnfConfigurableProperties''),
     in_metadata := modify_dict (in_metadata inst) (vnfd_prop vnfd ''metadata''),
     in_extensions := modify_dict (in_extensions inst) (vnfd_prop vnfd ''extensions'')\<rparr>"

definition modify_inst_vnfd_id :: "env \<Rightarrow> world \<Rightarrow> vnfd \<Rightarrow> unit driver" where
  "modify_inst_vnfd_id env w vnfd =
     bindS (getS (in_vnfdId \<circ> om_inst)) (\<lambda>vnfd_id.
     bindS (liftS (get_vnf_package_info_vnfd env w vnfd_id)) (\<lambda>pkg.
       mod_inst (\<lambda>inst. modify_from_vnfd_prop vnfd (inst\<lparr>in_vnfProvider := pk_vnfProvider pkg,
         in_vnfProductName := pk_vnfProductName pkg, in_vnfSoftwareVersion := pk_vnfSoftwareVersion pkg,
         in_vnfdVersion := pk_vnfdVersion pkg\<rparr>))))"

text \<open>The merge works on the \<open>to_dict\<close> forms; an attribute that is set to a dictionary is
  merged, the VIM type is always in the patch.\<close>

definition merge_vim_info :: "vim_info option \<Rightarrow> vim_info \<Rightarrow> vim_info" where
  "merge_vim_info old new =
     \<lparr>vi_vimId = or_else (vi_vimId new) (case old of None \<Rightarrow> None | Some o1 \<Rightarrow> vi_vimId o1),
      vi_vimType = vi_vimType new,
      vi_interfaceInfo = modify_dict (case old of None \<Rightarrow> None | Some o1 \<Rightarrow> vi_interfaceInfo o1) (vi_interfaceInfo new),
      vi_accessInfo = modify_dict (case old of None \<Rightarrow> None | Some o1 \<Rightarrow> vi_accessInfo o1) (vi_accessInfo new),
      vi_extra = modify_dict (case old of None \<Rightarrow> None | Some o1 \<Rightarrow> vi_extra o1) (vi_extra new)\<rparr>"

definition merge_vim_connection_info :: "vim_infos \<Rightarrow> unit driver" where
  "merge_vim_connection_info patch m =
     (case in_vimConnectionInfo (om_inst m) of
        None \<Rightarrow> (Inl (key_error ''vimConnectionInfo''), m)
      | Some vis \<Rightarrow> (Inr (), set_inst (set_inst_vims
          (fold (\<lambda>(k, v) d. dict_set k (merge_vim_info (map_of d k) v) d) patch vis) (om_inst m)) m))"

fun modify_vnfc :: "string \<Rightarrow> jdict \<Rightarrow> vnfc_info list \<Rightarrow> vnfc_info list" where
  "modify_vnfc i props [] = []"
| "modify_vnfc i props (v # vs) =
     (if ci_id v = i
      then v\<lparr>ci_vnfcConfigurableProperties := modify_dict (ci_vnfcConfigurableProperties v) (Some props)\<rparr> # vs
      else v # modify_vnfc i props vs)"

definition modify_vnfc_infos :: "(string \<times> jdict) list \<Rightarrow> unit driver" where
  "modify_vnfc_infos mods m =
     (if mods = [] then (Inr (), m)
      else case bindE (attr ''instantiatedVnfInfo'' (in_instantiatedVnfInfo (om_inst m))) (\<lambda>info.
           bindE (attr ''vnfcInfo'' (iv_vnfcInfo info)) (\<lambda>vs.
             Inr (info\<lparr>iv_vnfcInfo := Some (fold (\<lambda>(i, p). modify_vnfc i p) mods vs)\<rparr>))) of
        Inl e \<Rightarrow> (Inl e, m)
      | Inr info \<Rightarrow> (Inr (), set_inst ((om_inst m)\<lparr>in_instantiatedVnfInfo := Some info\<rparr>) m))"

subsection \<open>The main process of each operation\<close>

definition instantiate_process :: "env \<Rightarrow> vnfd \<Rightarrow> unit driver" where
  "instantiate_process env vnfd =
     bindS (getS params_of) (\<lambda>req. bindS (mod_inst (modify_props_from_req req)) (\<lambda>_.
     bindS (call_infra env all_infras DrvInstantiate vnfd) (\<lambda>_.
       mod_inst (\<lambda>inst. inst\<lparr>in_instantiationState := INSTANTIATED\<rparr>))))"

definition terminate_process :: "env \<Rightarrow> vnfd \<Rightarrow> unit driver" where
  "terminate_process env vnfd =
     bindS (call_infra env all_infras DrvTerminate vnfd) (\<lambda>_.
     bindS (mod_inst (\<lambda>inst. inst\<lparr>in_instantiationState := NOT_INSTANTIATED\<rparr>)) (\<lambda>_.
     bindS (getS om_inst) (\<lambda>inst.
     bindS (liftS (attr ''instantiatedVnfInfo'' (in_instantiatedVnfInfo inst))) (\<lambda>info.
       mod_inst (\<lambda>inst. set_inst_vims []
         (inst\<lparr>in_instantiatedVnfInfo := Some (new_inst_vnf_info (iv_flavourId info) STOPPED)\<rparr>))))))"

definition scale_process :: "env \<Rightarrow> vnfd \<Rightarrow> unit driver" where
  "scale_process env vnfd = call_infra env no_terraform DrvScale vnfd"

definition heal_process :: "env \<Rightarrow> vnfd \<Rightarrow> unit driver" where
  "heal_process env vnfd = call_infra env no_terraform DrvHeal vnfd"

definition modify_info_process :: "env \<Rightarrow> world \<Rightarrow> vnfd \<Rightarrow> unit driver" where
  "modify_info_process env w vnfd =
     bindS (getS params_of) (\<lambda>req.
     bindS (mod_inst (\<lambda>inst. inst\<lparr>
        in_vnfInstanceName := or_else (rq_vnfInstanceName req) (in_vnfInstanceName inst),
        in_vnfInstanceDescription := or_else (rq_vnfInstanceDescription req) (in_vnfInstanceDescription inst)\<rparr>)) (\<lambda>_.
     bindS (getS (in_vnfdId \<circ> om_inst)) (\<lambda>old_id.
     bindS (case rq_vnfdId req of
              None \<Rightarrow> retS ()
            | Some vnfd_id \<Rightarrow> whenS (vnfd_id \<noteq> old_id)
                (bindS (mod_inst (\<lambda>inst. inst\<lparr>in_vnfdId := vnfd_id\<rparr>)) (\<lambda>_.
                 bindS (liftS (ev_get_vnfd env vnfd_id)) (\<lambda>new_vnfd. modify_inst_vnfd_id env w new_vnfd)))) (\<lambda>_.
     bindS (mod_inst (\<lambda>inst. modify_metadata_from_req req (modify_props_from_req req inst))) (\<lambda>_.
     bindS (getS om_inst) (\<lambda>inst.
     bindS (liftS (case in_metadata inst of None \<Rightarrow> Inr ()
                   | Some md \<Rightarrow> check_metadata_format (ev_schema_msg env) md)) (\<lambda>_.
     bindS (case rq_vimConnectionInfo req of None \<Rightarrow> retS () | Some vis \<Rightarrow> merge_vim_connection_info vis) (\<lambda>_.
       case rq_vnfcInfoModifications req of None \<Rightarrow> retS () | Some mods \<Rightarrow> modify_vnfc_infos mods))))))))"

definition change_ext_conn_process :: "env \<Rightarrow> vnfd \<Rightarrow> unit driver" where
  "change_ext_conn_process env vnfd =
     bindS (getS params_of) (\<lambda>req.
     bindS (case rq_vimConnectionInfo req of None \<Rightarrow> retS () | Some vis \<Rightarrow> merge_vim_connection_info vis) (\<lambda>_.
       call_infra env [Openstack] DrvChangeExtConn vnfd))"

definition change_vnfpkg_process :: "env \<Rightarrow> world \<Rightarrow> vnfd \<Rightarrow> unit driver" where
  "change_vnfpkg_process env w vnfd =
     bindS (getS params_of) (\<lambda>req.
     bindS (case rq_vimConnectionInfo req of None \<Rightarrow> retS () | Some vis \<Rightarrow> merge_vim_connection_info vis) (\<lambda>_.
     bindS (call_infra env all_infras DrvChangeVnfpkg vnfd) (\<lambda>_.
     bindS (getS om_grant_req) (\<lambda>gq.
     bindS (liftS (bindE (found ''dstVnfdId'' gq) (\<lambda>q. attr ''dstVnfdId'' (gq_dstVnfdId q)))) (\<lambda>dst.
     bindS (mod_inst (\<lambda>inst. inst\<lparr>in_vnfdId := dst\<rparr>)) (\<lambda>_.
     bindS (modify_inst_vnfd_id env w vnfd) (\<lambda>_.
       mod_inst (modify_props_from_req req))))))))"

definition main_process :: "env \<Rightarrow> world \<Rightarrow> vnfd \<Rightarrow> op_type \<Rightarrow> unit driver" where
  "main_process env w vnfd operation = (case operation of
      INSTANTIATE \<Rightarrow> instantiate_process env vnfd
    | TERMINATE \<Rightarrow> terminate_process env vnfd
    | SCALE \<Rightarrow> scale_process env vnfd
    | HEAL \<Rightarrow> heal_process env vnfd
    | MODIFY_INFO \<Rightarrow> modify_info_process env w vnfd
    | CHANGE_EXT_CONN \<Rightarrow> change_ext_conn_process env vnfd
    | CHANGE_VNFPKG \<Rightarrow> change_vnfpkg_process env w vnfd
    | _ \<Rightarrow> raiseS (PyExc AttributeError ''process''))"

text \<open>The flavour whose scripts are run.\<close>

definition script_flavour :: "op_mem \<Rightarrow> json pyres" where
  "script_flavour m =
     (if oc_operation (om_occ m) = INSTANTIATE
      then bindE (attr ''flavourId'' (rq_flavourId (params_of m))) (\<lambda>f. Inr (JStr f))
      else case in_instantiatedVnfInfo (om_inst m) of
             None \<Rightarrow> Inr JNull
           | Some info \<Rightarrow> Inr (JStr (iv_flavourId info)))"

definition lift_occ :: "(lcm_op_occ, exn, 'a) sem \<Rightarrow> 'a driver" where
  "lift_occ f m = (case f (om_occ m) of (r, occ) \<Rightarrow> (r, m\<lparr>om_occ := occ\<rparr>))"

definition process :: "env \<Rightarrow> world \<Rightarrow> vnfd \<Rightarrow> unit driver" where
  "process env w vnfd =
     bindS (getS om_inst) (\<lambda>inst_saved.
     bindS (getS om_occ) (\<lambda>lcmocc.
     let name = script_method_name (oc_operation lcmocc); req = oc_operationParams lcmocc in
     bindS (getS script_flavour) (\<lambda>fl. bindS (liftS fl) (\<lambda>flavour_id.
     bindS (exec_mgmt_driver_script env (name @ ''_start'') flavour_id vnfd None) (\<lambda>_.
     bindS (main_process env w vnfd (oc_operation lcmocc)) (\<lambda>_.
     bindS (case rq_vnfdId req of
              Some i \<Rightarrow> if oc_operation lcmocc = MODIFY_INFO
                then bindS (liftS (ev_get_vnfd env i)) (\<lambda>v. retS (Some v)) else retS None
            | None \<Rightarrow> retS None) (\<lambda>new_vnfd.
     bindS (exec_mgmt_driver_script env (name @ ''_end'') flavour_id vnfd new_vnfd) (\<lambda>_.
     bindS (make_inst_info_common inst_saved vnfd) (\<lambda>_.
     bindS (getS om_inst) (\<lambda>inst.
       lift_occ (update_lcmocc inst_saved inst)))))))))))"

subsection \<open>Rollback\<close>

definition scale_rollback :: "env \<Rightarrow> vnfd \<Rightarrow> unit driver" where
  "scale_rollback env vnfd =
     bindS (getS params_of) (\<lambda>req. bindS (liftS (attr ''type'' (rq_type req))) (\<lambda>ty.
       if ty = ''SCALE_IN'' then raiseS (Sol (RollbackNotSupported ''SCALE IN''))
       else call_infra env no_terraform DrvScaleRollback vnfd))"

text \<open>The rollback method of an operation, \<open>None\<close> where there is none.\<close>

definition rollback_method :: "env \<Rightarrow> vnfd \<Rightarrow> op_type \<Rightarrow> unit driver option" where
  "rollback_method env vnfd operation = (case operation of
      INSTANTIATE \<Rightarrow> Some (call_infra env all_infras DrvInstantiateRollback vnfd)
    | SCALE \<Rightarrow> Some (scale_rollback env vnfd)
    | MODIFY_INFO \<Rightarrow> Some (retS ())
    | CHANGE_EXT_CONN \<Rightarrow> Some (call_infra env [Openstack] DrvChangeExtConnRollback vnfd)
    | CHANGE_VNFPKG \<Rightarrow> Some (call_infra env all_infras DrvChangeVnfpkgRollback vnfd)
    | _ \<Rightarrow> None)"

fun op_name :: "op_type \<Rightarrow> string" where
  "op_name operation = map char_upper (op_lower operation)"

definition rollback :: "env \<Rightarrow> vnfd \<Rightarrow> unit driver" where
  "rollback env vnfd =
     bindS (getS (oc_operation \<circ> om_occ)) (\<lambda>operation.
     case rollback_method env vnfd operation of
       None \<Rightarrow> raiseS (Sol (RollbackNotSupported (op_name operation)))
     | Some meth \<Rightarrow>
         bindS (getS script_flavour) (\<lambda>fl. bindS (liftS fl) (\<lambda>flavour_id.
         bindS (exec_mgmt_driver_script env (script_method_name operation @ ''_rollback_start'') flavour_id vnfd None) (\<lambda>_.
         bindS meth (\<lambda>_.
           exec_mgmt_driver_script env (script_method_name operation @ ''_rollback_end'') flavour_id vnfd None)))))"

subsection \<open>Database synchronisation\<close>

definition no_diff :: exn where
  "no_diff = DbSyncNoDiff ''There are no differences in Vnfc resources.''"

definition sync_infra :: "vim_info \<Rightarrow> infra option" where
  "sync_infra vi =
     (if vi_vimType vi = ''ETSINFV.KUBERNETES.V_1'' then Some Kubernetes
      else if vi_vimType vi = ''ETSINFV.HELM.V_3'' then Some Helm else None)"

definition sync_db :: "env \<Rightarrow> vim_info \<Rightarrow> vnf_instance \<Rightarrow> unit pyres \<times> vnf_instance" where
  "sync_db env vi inst = (case sync_infra vi of None \<Rightarrow> (Inl no_diff, inst)
     | Some d \<Rightarrow> ev_sync_db env d inst vi)"

definition diff_check_inst :: "env \<Rightarrow> vim_info \<Rightarrow> vnf_instance \<Rightarrow> unit pyres" where
  "diff_check_inst env vi inst = (case sync_infra vi of None \<Rightarrow> Inl no_diff
     | Some d \<Rightarrow> ev_diff_check env d inst vi)"

end
