(* ===== verification/Conductor.thy ===== *)
theory Conductor
  imports Lcm_Driver
begin

section \<open>The conductor (sol\_refactored/conductor/conductor\_v2.py)\<close>

text \<open>
  The operations of \<^verbatim>\<open>ConductorV2\<close> on the database: the flow of an LCM operation (start, retry,
  rollback, modify), the repair of interrupted operations at start-up and the periodic
  synchronisation. Each is a stateful call on the \<open>world\<close>. The \<open>try\<close> blocks catch every
  exception; what they catch and what escapes them is as in the code.

  Each operation runs under the lock of its VNF instance: \<open>ev_lock\<close> says whether the lock
  could be taken. A nested session is one update of the tables.
\<close>

definition lock_vnf_instance :: "env \<Rightarrow> string \<Rightarrow> 'a vnfm \<Rightarrow> 'a vnfm" where
  "lock_vnf_instance env inst_id body =
     (if ev_lock env inst_id then body else raiseS (Sol (OtherOperationInProgress inst_id)))"

fun exn_str :: "exn \<Rightarrow> string" where
  "exn_str (Sol e) = detail e"
| "exn_str (DbSyncNoDiff m) = m"
| "exn_str (DbSyncFailed m) = m"
| "exn_str (PyExc c m) = m"

definition set_lcmocc_error :: "exn \<Rightarrow> jdict \<Rightarrow> lcm_op_occ \<Rightarrow> lcm_op_occ" where
  "set_lcmocc_error ex data lcmocc = lcmocc\<lparr>oc_error := Some
     (case ex of
        Sol e \<Rightarrow> \<lparr>pd_status = status e, pd_detail = detail e, pd_title = title e,
                   oe_userScriptErrHandlingData = (if data = [] then None else Some data)\<rparr>
      | _ \<Rightarrow> \<lparr>pd_status = 500, pd_detail = exn_str ex, pd_title = None,
               oe_userScriptErrHandlingData = (if data = [] then None else Some data)\<rparr>)\<rparr>"

definition occ_vnfd_id :: "lcm_op_occ \<Rightarrow> vnf_instance \<Rightarrow> string pyres" where
  "occ_vnfd_id lcmocc inst = (if oc_operation lcmocc = CHANGE_VNFPKG
     then attr ''vnfdId'' (rq_vnfdId (oc_operationParams lcmocc)) else Inr (in_vnfdId inst))"

definition run_drawing :: "'a drawing \<Rightarrow> 'a vnfm" where
  "run_drawing d w = (case d (w_uuids w) of (r, n) \<Rightarrow> (r, w\<lparr>w_uuids := n\<rparr>))"

definition grant_exchange :: "env \<Rightarrow> lcm_op_occ \<Rightarrow> vnf_instance \<Rightarrow> vnfd \<Rightarrow> (grant_request \<times> grant) vnfm" where
  "grant_exchange env lcmocc inst vnfd =
     bindS (run_drawing (make_grant_request env lcmocc inst vnfd)) (\<lambda>q.
     bindS (\<lambda>w. run_drawing (nfvo_grant env w q) w) (\<lambda>g. retS (q, g)))"

definition new_mem :: "lcm_op_occ \<Rightarrow> vnf_instance \<Rightarrow> (grant_request \<times> grant) option \<Rightarrow> jdict \<Rightarrow> op_mem" where
  "new_mem lcmocc inst gg data = \<lparr>om_occ = lcmocc, om_inst = inst,
     om_grant_req = map_option fst gg, om_grant = map_option snd gg, om_data = data\<rparr>"

text \<open>A driver call inside a \<open>try\<close>: the exception and the memory it leaves.\<close>

definition run_driver :: "unit driver \<Rightarrow> op_mem \<Rightarrow> (unit pyres \<times> op_mem) vnfm" where
  "run_driver d m w = (Inr (d m), w)"

subsection \<open>Ends of the phases\<close>

definition occ_enter :: "env \<Rightarrow> op_state \<Rightarrow> lcm_op_occ \<Rightarrow> lcm_op_occ vnfm" where
  "occ_enter env st lcmocc = update_lcmocc_status env st lcmocc"

definition fail_with :: "env \<Rightarrow> op_state \<Rightarrow> exn \<Rightarrow> jdict \<Rightarrow> lcm_op_occ \<Rightarrow> lcm_op_occ vnfm" where
  "fail_with env st ex data lcmocc =
     bindS (occ_enter env st lcmocc) (\<lambda>l.
     bindS (modS (lcmocc_update (set_lcmocc_error ex data l))) (\<lambda>_. retS (set_lcmocc_error ex data l)))"

definition delete_grants :: "op_mem \<Rightarrow> world \<Rightarrow> world" where
  "delete_grants m w = (case (om_grant_req m, om_grant m) of
      (Some q, Some g) \<Rightarrow> grants_delete q g w | _ \<Rightarrow> w)"

definition complete_with :: "env \<Rightarrow> (lcm_op_occ \<Rightarrow> lcm_op_occ) \<Rightarrow> op_mem \<Rightarrow> lcm_op_occ vnfm" where
  "complete_with env f m =
     bindS (occ_enter env COMPLETED (om_occ m)) (\<lambda>l.
     bindS (modS (\<lambda>w. delete_grants m (lcmocc_update (f l) (inst_update (om_inst m) w)))) (\<lambda>_. retS (f l)))"

subsection \<open>Start\<close>

text \<open>The \<open>try\<close> block of the STARTING phase: the grant exchange and \<open>post_grant\<close>, then the state is
  set to PROCESSING and the grant is stored with the occurrence. An exception anywhere is returned
  with the memory it leaves.\<close>

definition granting :: "env \<Rightarrow> lcm_op_occ \<Rightarrow> vnf_instance \<Rightarrow> ((exn + vnfd) \<times> op_mem) vnfm" where
  "granting env lcmocc inst w =
     (let m0 = new_mem lcmocc inst None [] in
      case bindE (occ_vnfd_id lcmocc inst) (ev_get_vnfd env) of
        Inl e \<Rightarrow> (Inr (Inl e, m0), w)
      | Inr vnfd \<Rightarrow> (case grant_exchange env lcmocc inst vnfd w of
            (Inl e, w1) \<Rightarrow> (Inr (Inl e, m0), w1)
          | (Inr gg, w1) \<Rightarrow> (case post_grant env (new_mem lcmocc inst (Some gg) []) of
                (Inl e, m1) \<Rightarrow> (Inr (Inl e, m1), w1)
              | (Inr _, m1) \<Rightarrow> (Inr (Inr vnfd, m1), w1))))"

definition store_grants :: "env \<Rightarrow> vnfd \<Rightarrow> op_mem \<Rightarrow> ((exn + vnfd) \<times> op_mem) vnfm" where
  "store_grants env vnfd m =
     bindS (occ_enter env PROCESSING (om_occ m)) (\<lambda>l w.
     case (om_grant_req m, om_grant m) of
       (Some q, Some g) \<Rightarrow>
         let m1 = m\<lparr>om_occ := l\<lparr>oc_grantId := Some (gr_id g)\<rparr>\<rparr> in
         (case grants_create q g w of
            (Inl e, w1) \<Rightarrow> (Inr (Inl e, m1), w1)
          | (Inr _, w1) \<Rightarrow> (Inr (Inr vnfd, m1), lcmocc_update (om_occ m1) w1))
     | _ \<Rightarrow> (Inr (Inl (attr_error JNull ''id''), m\<lparr>om_occ := l\<rparr>), w))"

definition starting :: "env \<Rightarrow> lcm_op_occ \<Rightarrow> vnf_instance \<Rightarrow> ((exn + vnfd) \<times> op_mem) vnfm" where
  "starting env lcmocc inst =
     bindS (granting env lcmocc inst) (\<lambda>(r, m).
     case r of Inl e \<Rightarrow> retS (Inl e, m) | Inr vnfd \<Rightarrow> store_grants env vnfd m)"

definition processing :: "env \<Rightarrow> (lcm_op_occ \<Rightarrow> lcm_op_occ) \<Rightarrow> vnfd \<Rightarrow> op_mem \<Rightarrow> (lcm_op_occ \<times> vnf_instance) vnfm" where
  "processing env f vnfd m w =
     (case process env w vnfd m of
        (Inl e, m1) \<Rightarrow> bindS (fail_with env FAILED_TEMP e (om_data m1) (om_occ m1))
                        (\<lambda>l. retS (l, om_inst m1)) w
      | (Inr _, m1) \<Rightarrow> bindS (complete_with env f m1) (\<lambda>l. retS (l, om_inst m1)) w)"

definition start_lcm_op_internal :: "env \<Rightarrow> lcm_op_occ \<Rightarrow> unit vnfm" where
  "start_lcm_op_internal env lcmocc = lock_vnf_instance env (oc_vnfInstanceId lcmocc)
     (if oc_operationState lcmocc \<noteq> STARTING then retS ()
      else bindS (get_inst (oc_vnfInstanceId lcmocc)) (\<lambda>inst.
      bindS (send_lcmocc_notification env lcmocc inst) (\<lambda>_.
      bindS (starting env lcmocc inst) (\<lambda>(r, m).
      case r of
        Inl e \<Rightarrow> bindS (fail_with env ROLLED_BACK e [] (om_occ m)) (\<lambda>l.
          send_lcmocc_notification env l (om_inst m))
      | Inr vnfd \<Rightarrow> bindS (send_lcmocc_notification env (om_occ m) (om_inst m)) (\<lambda>_.
          bindS (processing env id vnfd m) (\<lambda>(l, i).
            send_lcmocc_notification env l i))))))"

definition start_lcm_op :: "env \<Rightarrow> string \<Rightarrow> unit vnfm" where
  "start_lcm_op env lcmocc_id = bindS (get_lcmocc lcmocc_id) (start_lcm_op_internal env)"

subsection \<open>Retry\<close>

definition saved_user_data :: "lcm_op_occ \<Rightarrow> jdict" where
  "saved_user_data lcmocc = (case oc_error lcmocc of None \<Rightarrow> []
     | Some e \<Rightarrow> (case oe_userScriptErrHandlingData e of None \<Rightarrow> [] | Some d \<Rightarrow> d))"

text \<open>The part of a retry or rollback before the main process: the VNFD, the saved grant and
  \<open>post_grant\<close>.\<close>

definition regrant :: "env \<Rightarrow> string pyres \<Rightarrow> lcm_op_occ \<Rightarrow> vnf_instance \<Rightarrow> ((exn + vnfd) \<times> op_mem) vnfm" where
  "regrant env vnfd_id lcmocc inst w =
     (let data = saved_user_data lcmocc; m0 = new_mem lcmocc inst None data in
      case bindE vnfd_id (ev_get_vnfd env) of
        Inl e \<Rightarrow> (Inr (Inl e, m0), w)
      | Inr vnfd \<Rightarrow> (case fst (get_grant_req_and_grant lcmocc w) of
            Inl e \<Rightarrow> (Inr (Inl e, m0), w)
          | Inr gg \<Rightarrow> (case post_grant env (new_mem lcmocc inst gg data) of
                (Inl e, m1) \<Rightarrow> (Inr (Inl e, m1), w)
              | (Inr _, m1) \<Rightarrow> (Inr (Inr vnfd, m1), w))))"

definition clear_error :: "lcm_op_occ \<Rightarrow> lcm_op_occ" where
  "clear_error lcmocc = lcmocc\<lparr>oc_error := None\<rparr>"

definition retry_lcm_op_internal :: "env \<Rightarrow> lcm_op_occ \<Rightarrow> unit vnfm" where
  "retry_lcm_op_internal env lcmocc = lock_vnf_instance env (oc_vnfInstanceId lcmocc)
     (if oc_operationState lcmocc \<noteq> FAILED_TEMP then retS ()
      else bindS (get_inst (oc_vnfInstanceId lcmocc)) (\<lambda>inst.
      bindS (occ_enter env PROCESSING lcmocc) (\<lambda>l.
      bindS (modS (lcmocc_update l)) (\<lambda>_.
      bindS (send_lcmocc_notification env l inst) (\<lambda>_.
      bindS (regrant env (occ_vnfd_id l inst) l inst) (\<lambda>(r, m).
      bindS (case r of
               Inl e \<Rightarrow> bindS (fail_with env FAILED_TEMP e (om_data m) (om_occ m)) (\<lambda>l'. retS (l', om_inst m))
             | Inr vnfd \<Rightarrow> processing env clear_error vnfd m) (\<lambda>(l', i).
        send_lcmocc_notification env l' i)))))))"

definition retry_lcm_op :: "env \<Rightarrow> string \<Rightarrow> unit vnfm" where
  "retry_lcm_op env lcmocc_id = bindS (get_lcmocc lcmocc_id) (retry_lcm_op_internal env)"

subsection \<open>Rollback\<close>

definition clear_user_data :: "lcm_op_occ \<Rightarrow> lcm_op_occ" where
  "clear_user_data lcmocc = lcmocc\<lparr>oc_error := map_option (\<lambda>e. e\<lparr>oe_userScriptErrHandlingData := None\<rparr>) (oc_error lcmocc)\<rparr>"

definition rollback_updates_inst :: "op_type \<Rightarrow> bool" where
  "rollback_updates_inst operation \<longleftrightarrow> operation = CHANGE_EXT_CONN \<or> operation = CHANGE_VNFPKG"

definition rolled_back :: "env \<Rightarrow> op_mem \<Rightarrow> lcm_op_occ vnfm" where
  "rolled_back env m =
     bindS (occ_enter env ROLLED_BACK (om_occ m)) (\<lambda>l.
     bindS (modS (\<lambda>w. delete_grants m ((if rollback_updates_inst (oc_operation l) then inst_update (om_inst m) else id)
        (lcmocc_update (clear_user_data l) w)))) (\<lambda>_. retS (clear_user_data l)))"

definition rolling_back :: "env \<Rightarrow> vnfd \<Rightarrow> op_mem \<Rightarrow> (lcm_op_occ \<times> vnf_instance) vnfm" where
  "rolling_back env vnfd m w =
     (case rollback env vnfd m of
        (Inl e, m1) \<Rightarrow> bindS (fail_with env FAILED_TEMP e (om_data m1) (om_occ m1)) (\<lambda>l. retS (l, om_inst m1)) w
      | (Inr _, m1) \<Rightarrow> bindS (rolled_back env m1) (\<lambda>l. retS (l, om_inst m1)) w)"

definition rollback_lcm_op_internal :: "env \<Rightarrow> lcm_op_occ \<Rightarrow> unit vnfm" where
  "rollback_lcm_op_internal env lcmocc = lock_vnf_instance env (oc_vnfInstanceId lcmocc)
     (if oc_operationState lcmocc \<noteq> FAILED_TEMP then retS ()
      else bindS (get_inst (oc_vnfInstanceId lcmocc)) (\<lambda>inst.
      bindS (occ_enter env ROLLING_BACK lcmocc) (\<lambda>l.
      bindS (modS (lcmocc_update l)) (\<lambda>_.
      bindS (send_lcmocc_notification env l inst) (\<lambda>_.
      bindS (regrant env (Inr (in_vnfdId inst)) l inst) (\<lambda>(r, m).
      bindS (case r of
               Inl e \<Rightarrow> bindS (fail_with env FAILED_TEMP e (om_data m) (om_occ m)) (\<lambda>l'. retS (l', om_inst m))
             | Inr vnfd \<Rightarrow> rolling_back env vnfd m) (\<lambda>(l', i).
        send_lcmocc_notification env l' i)))))))"

definition rollback_lcm_op :: "env \<Rightarrow> string \<Rightarrow> unit vnfm" where
  "rollback_lcm_op env lcmocc_id = bindS (get_lcmocc lcmocc_id) (rollback_lcm_op_internal env)"

subsection \<open>Modify\<close>

definition modify_vnfinfo_internal :: "env \<Rightarrow> lcm_op_occ \<Rightarrow> unit vnfm" where
  "modify_vnfinfo_internal env lcmocc = lock_vnf_instance env (oc_vnfInstanceId lcmocc)
     (if oc_operationState lcmocc \<noteq> PROCESSING then retS ()
      else bindS (get_inst (oc_vnfInstanceId lcmocc)) (\<lambda>inst.
      bindS (send_lcmocc_notification env lcmocc inst) (\<lambda>_.
      bindS (case ev_get_vnfd env (in_vnfdId inst) of
               Inl e \<Rightarrow> bindS (fail_with env FAILED_TEMP e [] lcmocc) (\<lambda>l. retS (l, inst))
             | Inr vnfd \<Rightarrow> processing env id vnfd (new_mem lcmocc inst None [])) (\<lambda>(l, i).
        send_lcmocc_notification env l i))))"

definition modify_vnfinfo :: "env \<Rightarrow> string \<Rightarrow> unit vnfm" where
  "modify_vnfinfo env lcmocc_id = bindS (get_lcmocc lcmocc_id) (modify_vnfinfo_internal env)"

subsection \<open>Start-up and periodic synchronisation\<close>

definition repair_occ :: "env \<Rightarrow> op_state \<Rightarrow> lcm_op_occ \<Rightarrow> unit vnfm" where
  "repair_occ env after_state lcmocc =
     bindS (update_lcmocc_status env after_state lcmocc) (\<lambda>l.
     let l' = set_lcmocc_error (Sol ConductorProcessingError) [] l in
     bindS (get_inst (oc_vnfInstanceId lcmocc)) (\<lambda>inst.
     bindS (modS (lcmocc_update l')) (\<lambda>_.
       send_lcmocc_notification env l' inst)))"

definition interrupted_states :: "(op_state \<times> op_state) list" where
  "interrupted_states = [(STARTING, ROLLED_BACK), (PROCESSING, FAILED_TEMP), (ROLLING_BACK, FAILED_TEMP)]"

definition change_lcm_op_state :: "env \<Rightarrow> unit vnfm" where
  "change_lcm_op_state env = forS (\<lambda>(before_state, after_state).
     bindS (getS (\<lambda>w. row_filter (\<lambda>l. oc_operationState l = before_state) (w_occs w)))
       (forS (repair_occ env after_state))) interrupted_states"

definition sync_inst :: "env \<Rightarrow> vim_info \<Rightarrow> string \<Rightarrow> unit vnfm" where
  "sync_inst env vi inst_id = lock_vnf_instance env inst_id (\<lambda>w.
     (case is_lcmocc_failure_status w inst_id of
        Inl e \<Rightarrow> (Inl e, w)
      | Inr True \<Rightarrow> (Inl (DbSyncFailed (''The LCM operation status of the vnf: '' @ inst_id @
            '' is abnormal, so skip this DB synchronization.'')), w)
      | Inr False \<Rightarrow> bindS (get_inst inst_id) (\<lambda>inst w1.
          case sync_db env vi inst of
            (Inl e, _) \<Rightarrow> (Inl e, w1)
          | (Inr _, inst') \<Rightarrow> (Inr (), inst_update inst' w1)) w))"

definition sync_one :: "env \<Rightarrow> vnf_instance \<Rightarrow> unit vnfm" where
  "sync_one env inst = tryS
     (bindS (liftS (selected_vim inst)) (\<lambda>vim_opt.
      bindS (liftS (found ''vimType'' vim_opt)) (\<lambda>vi.
      bindS (liftS (diff_check_inst env vi inst)) (\<lambda>_. sync_inst env vi (in_id inst)))))
     (\<lambda>_. retS ())"

definition sync_db_all :: "env \<Rightarrow> unit vnfm" where
  "sync_db_all env = bindS (getS (\<lambda>w. row_filter (\<lambda>i. in_instantiationState i = INSTANTIATED) (w_insts w)))
     (forS (sync_one env))"

end
