(* ===== verification/Heat_Driver.thy ===== *)
theory Heat_Driver
  imports Userdata Conductor
begin

section \<open>The OpenStack driver: operations on the stack\<close>

text \<open>
  The operations of the class \<^verbatim>\<open>Openstack\<close> (\<^verbatim>\<open>infra_drivers/openstack/openstack.py\<close>). Heat and Nova are a state \<open>'h\<close>
  with the calls of \<^verbatim>\<open>HeatClient\<close> and \<^verbatim>\<open>NovaClient\<close> as stateful functions on it (\<open>heat_ops\<close>); a call that makes or changes
  a stack returns or raises when Heat has finished. Also fields of \<open>heat_ops\<close>: YAML, the HOT
  and the scripts of a package (among them UserData classes), and the configuration. \<open>list(s)[0]\<close> of a set is some element
  (\<open>ho_pick\<close>).

  The code changes the dictionary of the fields in place, through the retries; here it is passed on.
\<close>

type_synonym heat_fields = jdict

record 'h heat_ops =
  ho_view :: "'h \<Rightarrow> heat_view"
  ho_get_stack_id :: "string \<Rightarrow> ('h, exn, string option) sem"
  ho_get_status :: "string \<Rightarrow> ('h, exn, string option) sem"
  ho_create_stack :: "heat_fields \<Rightarrow> ('h, exn, string) sem"
  ho_update_stack :: "string \<Rightarrow> bool \<Rightarrow> heat_fields \<Rightarrow> ('h, exn, unit) sem"
  ho_delete_stack :: "string \<Rightarrow> ('h, exn, unit) sem"
  ho_mark_unhealthy :: "json \<Rightarrow> string \<Rightarrow> ('h, exn, unit) sem"
  ho_get_files :: "string \<Rightarrow> ('h, exn, jdict) sem"
  ho_get_resource_info :: "json \<Rightarrow> json \<Rightarrow> ('h, exn, json) sem"
  ho_get_zone :: "('h, exn, json list) sem"
  ho_safe_dump :: "json \<Rightarrow> string"
  ho_safe_load :: "json \<Rightarrow> json pyres"
  ho_base_hot :: "vnfd \<Rightarrow> string \<Rightarrow> jdict"
  ho_script_userdata :: "json \<Rightarrow> json \<Rightarrow> bool \<Rightarrow> op_params \<Rightarrow> vnf_instance \<Rightarrow> grant_request \<Rightarrow> grant \<Rightarrow> vnfd \<Rightarrow> string + heat_fields"
  ho_coordinate :: "json \<Rightarrow> json \<Rightarrow> json \<Rightarrow> bool \<Rightarrow> vnf_instance \<Rightarrow> grant_request \<Rightarrow> string option \<Rightarrow> string option"
  ho_pick :: "json list \<Rightarrow> json"
  ho_timeout :: int
  ho_grace :: int
  ho_sleep :: "int \<Rightarrow> 'h \<Rightarrow> 'h"
  ho_enable_rollback :: bool
  ho_best_effort :: bool
  ho_az_retry :: nat
  ho_az_error :: "string \<Rightarrow> bool"

subsection \<open>Fields of a request to Heat\<close>

definition patches :: "heat_fields \<Rightarrow> bool" where
  "patches flds = (case map_of flds ''existing'' of None \<Rightarrow> True | Some j \<Rightarrow> py_truthy j)"

definition is_full_fields :: "heat_fields \<Rightarrow> bool" where
  "is_full_fields flds = (\<not> patches flds)"

definition with_rollback :: "'h heat_ops \<Rightarrow> heat_fields \<Rightarrow> heat_fields" where
  "with_rollback ho flds = (if ho_enable_rollback ho then dict_set ''disable_rollback'' (JBool False) flds else flds)"

definition sent_fields :: "'h heat_ops \<Rightarrow> heat_fields \<Rightarrow> heat_fields" where
  "sent_fields ho flds = dict_del ''existing'' (with_rollback ho flds)"

definition create_stack :: "'h heat_ops \<Rightarrow> heat_fields \<Rightarrow> ('h, exn, string) sem" where
  "create_stack ho flds = ho_create_stack ho (with_rollback ho flds)"

definition update_stack :: "'h heat_ops \<Rightarrow> string \<Rightarrow> heat_fields \<Rightarrow> ('h, exn, unit) sem" where
  "update_stack ho stack_name flds = ho_update_stack ho stack_name (patches flds) (sent_fields ho flds)"

definition viewS :: "'h heat_ops \<Rightarrow> (heat_view \<Rightarrow> 'a pyres) \<Rightarrow> ('h, exn, 'a) sem" where
  "viewS ho g s = (g (ho_view ho s), s)"

definition nfv_of :: "heat_fields \<Rightarrow> json pyres" where
  "nfv_of flds = bindE (dict_item flds ''parameters'') (\<lambda>ps. jitem ps ''nfv'')"

definition set_nfv :: "json \<Rightarrow> heat_fields \<Rightarrow> heat_fields" where
  "set_nfv nfv flds = dict_set ''parameters'' (JObj (dict_set ''nfv'' nfv (obj_items (or_null (map_of flds ''parameters''))))) flds"

definition current_nfv :: "string \<Rightarrow> heat_view \<Rightarrow> json pyres" where
  "current_nfv stack_name hv = bindE (hv_parameters hv stack_name) (\<lambda>ps.
     hv_loads hv (case map_of ps ''nfv'' of None \<Rightarrow> ''{}'' | Some x \<Rightarrow> x))"

definition update_fields :: "'h heat_ops \<Rightarrow> string \<Rightarrow> heat_fields \<Rightarrow> ('h, exn, heat_fields) sem" where
  "update_fields ho stack_name flds =
     (if is_full_fields flds then retS flds
      else
      bindS (liftS (jcontains (case map_of flds ''parameters'' of None \<Rightarrow> JObj [] | Some ps \<Rightarrow> ps) ''nfv'')) (\<lambda>has_nfv.
      bindS (if \<not> has_nfv then retS flds
             else bindS (viewS ho (current_nfv stack_name)) (\<lambda>orig.
               bindS (liftS (nfv_of flds)) (\<lambda>nfv. retS (set_nfv (json_merge_patch orig nfv) flds)))) (\<lambda>fields1.
      case map_of fields1 ''template'' of
        None \<Rightarrow> retS fields1
      | Some t \<Rightarrow> bindS (viewS ho (\<lambda>hv. hv_template hv stack_name)) (\<lambda>orig.
          bindS (liftS (ho_safe_load ho t)) (\<lambda>new.
            retS (dict_set ''template'' (JStr (ho_safe_dump ho (json_merge_patch orig new))) fields1))))))"

definition make_hot :: "'h heat_ops \<Rightarrow> op_params \<Rightarrow> vnf_instance \<Rightarrow> grant_request \<Rightarrow> grant \<Rightarrow> vnfd \<Rightarrow> bool \<Rightarrow> heat_fields pyres" where
  "make_hot ho req inst grant_req grant vnfd is_rollback =
     bindE (op_flavour_id req inst (gq_operation grant_req)) (\<lambda>flavour_id.
     if ho_base_hot ho vnfd flavour_id = [] then Inl (Sol BaseHOTNotDefined)
     else
     let userdata = or_null (map_of (opt_list (rq_additionalParams req)) ''lcm-operation-user-data'');
         userdata_class = or_null (map_of (opt_list (rq_additionalParams req)) ''lcm-operation-user-data-class'') in
     bindE (if userdata = JNull \<and> userdata_class = JNull
            then default_userdata \<lparr>ud_base_hot = ho_base_hot ho, ud_dump = ho_safe_dump ho\<rparr> (gq_operation grant_req) is_rollback req inst
              grant_req grant vnfd
            else if userdata = JNull \<or> userdata_class = JNull then Inl (Sol UserdataMissing)
            else (case ho_script_userdata ho userdata userdata_class is_rollback req inst grant_req grant vnfd of
                Inl err \<Rightarrow> Inl (Sol (UserdataExecutionFailed err)) | Inr flds \<Rightarrow> Inr flds)) (\<lambda>flds.
       Inr (dict_set ''timeout_mins'' (JNum (ho_timeout ho)) flds)))"

subsection \<open>VDUs of a request\<close>

definition computes_of :: "res_def list \<Rightarrow> res_def list" where
  "computes_of reses = filter (\<lambda>r. rd_type r = COMPUTE) reses"

definition add_vdus :: "res_def list \<Rightarrow> (string, nat) dict" where
  "add_vdus reses = fold (\<lambda>r d. dict_set (rd_resourceTemplateId r)
     (Suc (case map_of d (rd_resourceTemplateId r) of None \<Rightarrow> 0 | Some n \<Rightarrow> n)) d) (computes_of reses) []"

definition vdu_with_idx :: "string \<Rightarrow> nat \<Rightarrow> string" where
  "vdu_with_idx vdu_name idx = vdu_name @ ''-'' @ show_nat idx"

definition get_additional_vdu_id :: "grant_request \<Rightarrow> vnf_instance \<Rightarrow> string list pyres" where
  "get_additional_vdu_id grant_req inst = bindE (attr ''addResources'' (gq_addResources grant_req)) (\<lambda>reses.
     Inr [vdu_with_idx vdu_name idx. (vdu_name, num) \<leftarrow> add_vdus reses,
       idx \<leftarrow> [get_current_capacity vdu_name inst ..< get_current_capacity vdu_name inst + num]])"

definition stored_vnfcs :: "vnf_instance \<Rightarrow> vnfc_resource list pyres" where
  "stored_vnfcs inst = bindE (old_info_of inst) (\<lambda>info. attr ''vnfcResourceInfo'' (iv_vnfcResourceInfo info))"

definition removed_vnfcs :: "grant_request \<Rightarrow> vnf_instance \<Rightarrow> vnfc_resource list pyres" where
  "removed_vnfcs grant_req inst = bindE (removed_resource_ids COMPUTE grant_req) (\<lambda>ids. bindE (stored_vnfcs inst) (\<lambda>vnfcs.
     Inr (filter (\<lambda>v. rh_resourceId (vr_computeResource v) \<in> set ids) vnfcs)))"

definition get_vdu_id_from_grant_req :: "grant_request \<Rightarrow> vnf_instance \<Rightarrow> string list pyres" where
  "get_vdu_id_from_grant_req grant_req inst = bindE (removed_vnfcs grant_req inst) (mapE vnfc_name)"

subsection \<open>Another zone for a VDU\<close>

definition is_digit :: "char \<Rightarrow> bool" where
  "is_digit c = (digit_of c \<noteq> None)"

text \<open>\<open>(.*)-([0-9]+)\<close> at the start of a line, and the search for \<open>resources\.\<close> before it.\<close>

fun last_dash_digits :: "string \<Rightarrow> (string \<times> string) option" where
  "last_dash_digits [] = None"
| "last_dash_digits (c # s) = (case last_dash_digits s of
      Some (a, b) \<Rightarrow> Some (c # a, b)
    | None \<Rightarrow> if c = CHR ''-'' \<and> takeWhile is_digit s \<noteq> [] then Some ([], takeWhile is_digit s) else None)"

definition vdu_after :: "string \<Rightarrow> string option" where
  "vdu_after s = (if take 10 s = ''resources.''
     then map_option (\<lambda>(a, b). a @ ''-'' @ b) (last_dash_digits (takeWhile (\<lambda>c. c \<noteq> CHR 0x0A) (drop 10 s))) else None)"

fun search_vdu :: "string \<Rightarrow> string option" where
  "search_vdu [] = None"
| "search_vdu (c # s) = (case vdu_after (c # s) of Some x \<Rightarrow> Some x | None \<Rightarrow> search_vdu s)"

definition check_and_get_failed_zone :: "'h heat_ops \<Rightarrow> string \<Rightarrow> json \<Rightarrow> (string \<times> json) option pyres" where
  "check_and_get_failed_zone ho ex_detail vdu_dict =
     (if \<not> ho_az_error ho ex_detail then Inr None
      else case search_vdu ex_detail of
        None \<Rightarrow> Inr None
      | Some vdu_id \<Rightarrow> bindE (vdu_entry vdu_dict vdu_id ''locationConstraints'') (\<lambda>zone.
          Inr (if zone = JNull then None else Some (vdu_id, zone))))"

definition get_vdu_from_vdu_with_idx :: "string \<Rightarrow> json" where
  "get_vdu_from_vdu_with_idx vdu = (case rpartition_dash vdu of None \<Rightarrow> JNull | Some (a, b) \<Rightarrow> JStr a)"

definition get_anti_vdus :: "(json list \<times> string) list \<Rightarrow> json \<Rightarrow> json list" where
  "get_anti_vdus anti_rules target_vdu = concat (map (\<lambda>(targets, scope).
     if scope = ''zone'' \<and> target_vdu \<in> set targets
     then (if length targets = 1 then [target_vdu] else filter (\<lambda>vdu. vdu \<noteq> target_vdu) targets) else []) anti_rules)"

definition get_exclude_zone :: "vnf_instance \<Rightarrow> (json list \<times> string) list \<Rightarrow> string \<Rightarrow> string list \<Rightarrow> json \<Rightarrow> json list pyres" where
  "get_exclude_zone inst anti_rules failed_vdu_id vdu_ids vdu_dict =
     (let anti_vdus = get_anti_vdus anti_rules (get_vdu_from_vdu_with_idx failed_vdu_id) in
      bindE (mapE (\<lambda>vdu_id. vdu_entry vdu_dict vdu_id ''locationConstraints'')
        (filter (\<lambda>vdu_id. get_vdu_from_vdu_with_idx vdu_id \<in> set anti_vdus) vdu_ids)) (\<lambda>new_zones.
      bindE (mapE (\<lambda>v. bindE (attr ''metadata'' (vr_metadata v)) (\<lambda>md. Inr (or_null (map_of md ''zone''))))
        (filter (\<lambda>v. JStr (vr_vduId v) \<in> set anti_vdus)
          (opt_list (case in_instantiatedVnfInfo inst of None \<Rightarrow> None | Some info \<Rightarrow> iv_vnfcResourceInfo info)))) (\<lambda>old_zones.
        Inr (filter (\<lambda>z. z \<noteq> JNull) (new_zones @ old_zones)))))"

text \<open>The zone to try next: one that no anti-affine VDU uses, or else one that did not fail.\<close>

definition next_zone :: "'h heat_ops \<Rightarrow> json list \<Rightarrow> json list \<Rightarrow> json list \<Rightarrow> json option" where
  "next_zone ho zones exclude_zones failed_zones =
     (let good = filter (\<lambda>z. z \<notin> set exclude_zones \<and> z \<notin> set failed_zones) zones;
          rest = filter (\<lambda>z. z \<notin> set failed_zones) exclude_zones in
      if good \<noteq> [] then Some (ho_pick ho good) else if rest \<noteq> [] then Some (ho_pick ho rest) else None)"

definition move_vdus :: "string list \<Rightarrow> json \<Rightarrow> json \<Rightarrow> json \<Rightarrow> json pyres" where
  "move_vdus vdu_ids failed_zone new_zone vdu_dict = bindE (jitems vdu_dict) (\<lambda>vdus.
     bindE (mapE (\<lambda>(vdu_id, parameters).
         if vdu_id \<notin> set vdu_ids then Inr (vdu_id, parameters)
         else bindE (jget parameters ''locationConstraints'' JNull) (\<lambda>z.
           Inr (vdu_id, if z = failed_zone then JObj (dict_set ''locationConstraints'' new_zone (obj_items parameters)) else parameters)))
       vdus) (\<lambda>vdus'. Inr (JObj vdus')))"

definition set_vdus :: "json \<Rightarrow> heat_fields \<Rightarrow> heat_fields" where
  "set_vdus vdus flds = set_nfv (JObj (dict_set ''VDU'' vdus (obj_items (case nfv_of flds of Inl e \<Rightarrow> JNull | Inr nfv \<Rightarrow> nfv)))) flds"

fun retry_zones :: "'h heat_ops \<Rightarrow> nat \<Rightarrow> string \<Rightarrow> vnf_instance \<Rightarrow> string list \<Rightarrow> (json list \<times> string) list \<Rightarrow> json list \<Rightarrow> exn \<Rightarrow> string \<Rightarrow> json \<Rightarrow>
    json list \<Rightarrow> json \<Rightarrow> heat_fields \<Rightarrow> ('h, exn, unit) sem" where
  "retry_zones ho 0 stack_name inst vdu_ids anti_rules zones error_ex failed_vdu_id failed_zone failed_zones vdu_dict flds =
     raiseS error_ex"
| "retry_zones ho (Suc k) stack_name inst vdu_ids anti_rules zones error_ex failed_vdu_id failed_zone failed_zones vdu_dict flds =
     bindS (liftS (get_exclude_zone inst anti_rules failed_vdu_id vdu_ids vdu_dict)) (\<lambda>exclude_zones.
     case next_zone ho zones exclude_zones failed_zones of
       None \<Rightarrow> raiseS error_ex
     | Some new_zone \<Rightarrow>
        bindS (liftS (move_vdus vdu_ids failed_zone new_zone vdu_dict)) (\<lambda>vdu_dict'.
        tryS (update_stack ho stack_name (set_vdus vdu_dict' flds)) (\<lambda>ex. case ex of
            Sol (StackOperationFailed t d) \<Rightarrow>
              bindS (liftS (check_and_get_failed_zone ho d vdu_dict')) (\<lambda>failed. case failed of
                None \<Rightarrow> raiseS ex
              | Some (vdu_id, zone) \<Rightarrow> retry_zones ho k stack_name inst vdu_ids anti_rules zones ex vdu_id zone
                  (zone # failed_zones) vdu_dict' (sent_fields ho (set_vdus vdu_dict' flds)))
          | _ \<Rightarrow> raiseS ex)))"

definition update_stack_retry :: "'h heat_ops \<Rightarrow> heat_fields \<Rightarrow> vnf_instance \<Rightarrow> string option \<Rightarrow> exn \<Rightarrow> string \<Rightarrow> string list \<Rightarrow> (json list \<times> string) list \<Rightarrow>
    ('h, exn, unit) sem" where
  "update_stack_retry ho flds inst stack_id error_ex ex_detail vdu_ids anti_rules =
     (if \<not> ho_best_effort ho then raiseS error_ex
      else
      bindS (liftS (bindE (nfv_of flds) (\<lambda>nfv. jitem nfv ''VDU''))) (\<lambda>vdu_dict.
      bindS (liftS (check_and_get_failed_zone ho ex_detail vdu_dict)) (\<lambda>failed. case failed of
        None \<Rightarrow> raiseS error_ex
      | Some (vdu_id, zone) \<Rightarrow>
         bindS (ho_get_zone ho) (\<lambda>zones.
           retry_zones ho (if ho_az_retry ho \<noteq> 0 then ho_az_retry ho else length zones) (get_stack_name inst stack_id) inst vdu_ids
             anti_rules zones error_ex vdu_id zone [zone] vdu_dict flds))))"

subsection \<open>Operations\<close>

text \<open>A request to Heat that is tried again in other zones when it fails.\<close>

definition or_retry :: "'h heat_ops \<Rightarrow> ('h, exn, 'a) sem \<Rightarrow> heat_fields \<Rightarrow> vnf_instance \<Rightarrow> string option \<Rightarrow> string list pyres \<Rightarrow> (json list \<times> string) list pyres \<Rightarrow>
    ('h, exn, 'a) sem \<Rightarrow> ('h, exn, 'a) sem" where
  "or_retry ho request flds inst stack_id vdus rules after = tryS request (\<lambda>ex. case ex of
      Sol (StackOperationFailed t d) \<Rightarrow>
        bindS (liftS vdus) (\<lambda>vdu_ids. bindS (liftS rules) (\<lambda>anti_rules.
        bindS (update_stack_retry ho flds inst stack_id ex d vdu_ids anti_rules) (\<lambda>_. after)))
    | _ \<Rightarrow> raiseS ex)"

definition record_stack :: "'h heat_ops \<Rightarrow> op_params \<Rightarrow> vnf_instance \<Rightarrow> grant_request \<Rightarrow> grant \<Rightarrow> vnfd \<Rightarrow> bool \<Rightarrow> string option \<Rightarrow> ('h, exn, vnf_instance) sem" where
  "record_stack ho req inst grant_req grant vnfd is_rollback stack_id =
     viewS ho (\<lambda>hv. make_instantiated_vnf_info hv req inst grant_req grant vnfd is_rollback stack_id)"

definition flavour_rules :: "vnfd \<Rightarrow> vnf_instance \<Rightarrow> (json list \<times> string) list pyres" where
  "flavour_rules vnfd inst = bindE (old_info_of inst) (\<lambda>info. get_anti_affinity_targets vnfd (JStr (iv_flavourId info)))"

definition heat_instantiate :: "'h heat_ops \<Rightarrow> op_params \<Rightarrow> vnf_instance \<Rightarrow> grant_request \<Rightarrow> grant \<Rightarrow> vnfd \<Rightarrow> ('h, exn, vnf_instance) sem" where
  "heat_instantiate ho req inst grant_req grant vnfd =
     bindS (liftS (make_hot ho req inst grant_req grant vnfd False)) (\<lambda>flds.
     bindS (liftS (get_additional_vdu_id grant_req inst)) (\<lambda>vdu_ids.
     bindS (liftS (selected_vim inst)) (\<lambda>_.
     let stack_name = get_stack_name inst None;
         rules = bindE (attr ''flavourId'' (rq_flavourId req)) (\<lambda>fl. get_anti_affinity_targets vnfd (JStr fl)) in
     bindS (ho_get_stack_id ho stack_name) (\<lambda>found_id.
     bindS (case found_id of
         None \<Rightarrow> let flds1 = dict_set ''stack_name'' (JStr stack_name) flds in
           or_retry ho (bindS (create_stack ho flds1) (\<lambda>i. retS (Some i))) (with_rollback ho flds1) inst None (Inr vdu_ids) rules
             (ho_get_stack_id ho stack_name)
       | Some i \<Rightarrow> or_retry ho (bindS (update_stack ho (stack_name @ ''/'' @ i) flds) (\<lambda>_. retS (Some i))) (sent_fields ho flds) inst
             (Some i) (Inr vdu_ids) rules (retS (Some i))) (\<lambda>stack_id.
       record_stack ho req inst grant_req grant vnfd False stack_id)))))"

definition heat_instantiate_rollback :: "'h heat_ops \<Rightarrow> vnf_instance \<Rightarrow> ('h, exn, unit) sem" where
  "heat_instantiate_rollback ho inst =
     bindS (liftS (selected_vim inst)) (\<lambda>_.
     let stack_name = get_stack_name inst None in
     bindS (ho_get_stack_id ho stack_name) (\<lambda>found_id. case found_id of
       None \<Rightarrow> retS () | Some i \<Rightarrow> ho_delete_stack ho (stack_name @ ''/'' @ i)))"

definition bare_name :: "string \<Rightarrow> string" where
  "bare_name stack_name = takeWhile (\<lambda>c. c \<noteq> CHR ''/'') stack_name"

text \<open>A stack that was made again by a heal has another identifier than the stored one.\<close>

definition live_name :: "'h heat_ops \<Rightarrow> string \<Rightarrow> ('h, exn, string) sem" where
  "live_name ho stack_name = bindS (ho_get_status ho stack_name) (\<lambda>st.
     retS (if st = Some ''DELETE_COMPLETE'' then bare_name stack_name else stack_name))"

text \<open>A graceful termination waits before it deletes the stack.\<close>

definition heat_terminate :: "'h heat_ops \<Rightarrow> op_params \<Rightarrow> vnf_instance \<Rightarrow> ('h, exn, unit) sem" where
  "heat_terminate ho req inst =
     bindS (case graceful_timeout (ho_grace ho) req of None \<Rightarrow> retS () | Some t \<Rightarrow> modS (ho_sleep ho t)) (\<lambda>_.
     bindS (liftS (selected_vim inst)) (\<lambda>_.
     bindS (live_name ho (get_stack_name inst None)) (ho_delete_stack ho)))"

definition mark_server :: "'h heat_ops \<Rightarrow> jdict \<Rightarrow> ('h, exn, unit) sem" where
  "mark_server ho metadata = (case map_of metadata ''parent_stack_id'' of
      Some i \<Rightarrow> bindS (liftS (bindE (dict_item metadata ''parent_resource_name'') as_str)) (\<lambda>n. ho_mark_unhealthy ho i n)
    | None \<Rightarrow> if map_of metadata ''vdu_idx'' = None then raiseS (Sol UnexpectedParentResourceDefinition) else retS ())"

definition heat_scale :: "'h heat_ops \<Rightarrow> op_params \<Rightarrow> vnf_instance \<Rightarrow> grant_request \<Rightarrow> grant \<Rightarrow> vnfd \<Rightarrow> ('h, exn, vnf_instance) sem" where
  "heat_scale ho req inst grant_req grant vnfd =
     bindS (liftS (make_hot ho req inst grant_req grant vnfd False)) (\<lambda>flds0.
     bindS (liftS (attr ''type'' (rq_type req))) (\<lambda>ty.
     bindS (liftS (if ty = ''SCALE_OUT'' then get_additional_vdu_id grant_req inst else Inr [])) (\<lambda>vdu_ids.
     bindS (liftS (selected_vim inst)) (\<lambda>_.
     bindS (if ty \<noteq> ''SCALE_IN'' then retS ()
            else bindS (liftS (removed_vnfcs grant_req inst)) (forS (\<lambda>v.
              bindS (liftS (attr ''metadata'' (vr_metadata v))) (mark_server ho)))) (\<lambda>_.
     let stack_name = get_stack_name inst None in
     bindS (update_fields ho stack_name flds0) (\<lambda>flds.
     bindS (if ty = ''SCALE_OUT''
            then or_retry ho (update_stack ho stack_name flds) (sent_fields ho flds) inst None (Inr vdu_ids) (flavour_rules vnfd inst) (retS ())
            else update_stack ho stack_name flds) (\<lambda>_.
       record_stack ho req inst grant_req grant vnfd False None)))))))"

definition heat_scale_rollback :: "'h heat_ops \<Rightarrow> op_params \<Rightarrow> vnf_instance \<Rightarrow> grant_request \<Rightarrow> grant \<Rightarrow> vnfd \<Rightarrow> ('h, exn, unit) sem" where
  "heat_scale_rollback ho req inst grant_req grant vnfd =
     bindS (liftS (make_hot ho req inst grant_req grant vnfd True)) (\<lambda>flds0.
     bindS (liftS (selected_vim inst)) (\<lambda>_.
     let stack_name = get_stack_name inst None in
     bindS (viewS ho (\<lambda>hv. hv_resources hv stack_name)) (\<lambda>heat_reses.
     bindS (liftS (stored_vnfcs inst)) (\<lambda>vnfcs.
     bindS (forS (\<lambda>res. bindS (liftS (make_vnfc_metadata res heat_reses)) (mark_server ho))
       (filter (\<lambda>res. hr_physical_resource_id res \<notin> vr_id ` set vnfcs) (get_server_reses heat_reses))) (\<lambda>_.
     bindS (update_fields ho stack_name flds0) (update_stack ho stack_name))))))"

definition heat_change_ext_conn :: "'h heat_ops \<Rightarrow> op_params \<Rightarrow> vnf_instance \<Rightarrow> grant_request \<Rightarrow> grant \<Rightarrow> vnfd \<Rightarrow> bool \<Rightarrow> ('h, exn, vnf_instance) sem" where
  "heat_change_ext_conn ho req inst grant_req grant vnfd is_rollback =
     bindS (liftS (make_hot ho req inst grant_req grant vnfd is_rollback)) (\<lambda>flds0.
     bindS (liftS (selected_vim inst)) (\<lambda>_.
     let stack_name = get_stack_name inst None in
     bindS (update_fields ho stack_name flds0) (\<lambda>flds.
     bindS (update_stack ho stack_name flds) (\<lambda>_.
       record_stack ho req inst grant_req grant vnfd is_rollback None))))"

definition heals_all :: "op_params \<Rightarrow> bool" where
  "heals_all req = (py_truthy (or_null (map_of (opt_list (rq_additionalParams req)) ''all'')) \<and> rq_vnfcInstanceId req = None)"

definition mark_storages :: "'h heat_ops \<Rightarrow> inst_vnf_info \<Rightarrow> string list \<Rightarrow> ('h, exn, unit) sem" where
  "mark_storages ho info storage_ids = (if storage_ids = [] then retS ()
     else bindS (liftS (attr ''virtualStorageResourceInfo'' (iv_virtualStorageResourceInfo info))) (\<lambda>sts.
       forS (\<lambda>st. bindS (liftS (bindE (attr ''metadata'' (vs_metadata st)) (\<lambda>md. dict_item md ''stack_id''))) (\<lambda>i.
           ho_mark_unhealthy ho i (vs_virtualStorageDescId st)))
         (filter (\<lambda>st. rh_resourceId (vs_storageResource st) \<in> set storage_ids) sts)))"

definition fill_from_stack :: "'h heat_ops \<Rightarrow> string \<Rightarrow> heat_fields \<Rightarrow> ('h, exn, heat_fields) sem" where
  "fill_from_stack ho stack_name flds =
     bindS (if map_of flds ''template'' \<noteq> None then retS flds
            else bindS (viewS ho (\<lambda>hv. hv_template hv stack_name)) (\<lambda>t. retS (dict_set ''template'' t flds))) (\<lambda>flds1.
     bindS (if map_of flds1 ''files'' \<noteq> None then retS flds1
            else bindS (ho_get_files ho stack_name) (\<lambda>fs. retS (dict_set ''files'' (JObj fs) flds1))) (\<lambda>flds2.
       retS (dict_set ''stack_name'' (JStr (bare_name stack_name)) flds2)))"

definition heat_heal :: "'h heat_ops \<Rightarrow> op_params \<Rightarrow> vnf_instance \<Rightarrow> grant_request \<Rightarrow> grant \<Rightarrow> vnfd \<Rightarrow> ('h, exn, vnf_instance) sem" where
  "heat_heal ho req inst grant_req grant vnfd =
     bindS (liftS (make_hot ho req inst grant_req grant vnfd False)) (\<lambda>flds0.
     bindS (liftS (selected_vim inst)) (\<lambda>_.
     bindS (if heals_all req then live_name ho (get_stack_name inst None) else retS (get_stack_name inst None)) (\<lambda>stack_name.
     bindS (update_fields ho stack_name flds0) (\<lambda>flds.
     bindS (if heals_all req
       then bindS (fill_from_stack ho stack_name flds) (\<lambda>flds1.
         bindS (ho_delete_stack ho stack_name) (\<lambda>_.
         or_retry ho (bindS (create_stack ho flds1) (\<lambda>i. retS (Some i))) (with_rollback ho flds1) inst None
           (get_vdu_id_from_grant_req grant_req inst) (flavour_rules vnfd inst) (ho_get_stack_id ho stack_name)))
       else bindS (liftS (old_info_of inst)) (\<lambda>info.
         bindS (liftS (removed_vnfcs grant_req inst)) (\<lambda>vnfcs.
         bindS (forS (\<lambda>v. bindS (liftS (bindE (attr ''metadata'' (vr_metadata v)) (\<lambda>md. dict_item md ''stack_id''))) (\<lambda>i.
             ho_mark_unhealthy ho i (vr_vduId v))) vnfcs) (\<lambda>_.
         bindS (liftS (removed_resource_ids STORAGE grant_req)) (\<lambda>storage_ids.
         bindS (mark_storages ho info storage_ids) (\<lambda>_.
         bindS (or_retry ho (update_stack ho stack_name flds) (sent_fields ho flds) inst None
           (get_vdu_id_from_grant_req grant_req inst) (flavour_rules vnfd inst) (retS ())) (\<lambda>_.
         bindS (liftS (bindE (attr ''metadata'' (iv_metadata info)) (\<lambda>md. bindE (dict_item md ''stack_id'') as_str))) (\<lambda>i.
           retS (Some i))))))))) (\<lambda>stack_id.
       record_stack ho req inst grant_req grant vnfd False stack_id)))))"

subsection \<open>Rolling update\<close>

definition get_ssh_ip :: "'h heat_ops \<Rightarrow> json \<Rightarrow> json \<Rightarrow> ('h, exn, json) sem" where
  "get_ssh_ip ho stack_id cp_name = bindS (ho_get_resource_info ho stack_id cp_name) (\<lambda>cp_info.
     liftS (bindE (jget cp_info ''attributes'' (JObj [])) (\<lambda>attrs.
       bindE (jget attrs ''floating_ip_address'' JNull) (\<lambda>ip.
       if py_truthy ip then Inr ip
       else bindE (jget attrs ''fixed_ips'' JNull) (\<lambda>ips.
         if \<not> py_truthy ips then Inr JNull
         else bindE (jlist ips) (\<lambda>xs. case xs of [] \<Rightarrow> Inr JNull | x # _ \<Rightarrow> jget x ''ip_address'' JNull))))))"

text \<open>When no entry names the VDU, the loop variable keeps the last one.\<close>

fun vdu_param_of :: "string \<Rightarrow> json list \<Rightarrow> json pyres" where
  "vdu_param_of vdu [] = Inl (PyExc UnboundLocalError ''vdu_param'')"
| "vdu_param_of vdu [p] = bindE (jitem p ''vdu_id'') (\<lambda>_. Inr p)"
| "vdu_param_of vdu (p # q # ps) = bindE (jitem p ''vdu_id'') (\<lambda>i. if i = JStr vdu then Inr p else vdu_param_of vdu (q # ps))"

definition execute_coordinate_vnf_script :: "'h heat_ops \<Rightarrow> op_params \<Rightarrow> vnfc_resource \<Rightarrow> vnf_instance \<Rightarrow> grant_request \<Rightarrow> bool \<Rightarrow> ('h, exn, unit) sem" where
  "execute_coordinate_vnf_script ho req vnfc inst grant_req is_rollback =
     bindS (liftS (attr ''additionalParams'' (rq_additionalParams req))) (\<lambda>params.
     let script = or_null (map_of params (if is_rollback then ''lcm-operation-coordinate-old-vnf'' else ''lcm-operation-coordinate-new-vnf'')) in
     if \<not> py_truthy script then retS ()
     else
     bindS (liftS (bindE (dict_item params ''vdu_params'') (\<lambda>ps. bindE (jlist ps) (\<lambda>xs. bindE (vdu_param_of (vr_vduId vnfc) xs) (\<lambda>p.
       jitem p (if is_rollback then ''old_vnfc_param'' else ''new_vnfc_param'')))))) (\<lambda>vnfc_param.
     bindS (liftS (bindE (attr ''metadata'' (vr_metadata vnfc)) (\<lambda>md. dict_item md ''stack_id''))) (\<lambda>stack_id.
     bindS (liftS (jitem vnfc_param ''cp_name'')) (\<lambda>cp_name.
     bindS (get_ssh_ip ho stack_id cp_name) (\<lambda>ssh_ip.
     if \<not> py_truthy ssh_ip then raiseS (Sol SshIpNotFoundException)
     else
     bindS (liftS (bindE (old_info_of inst) (\<lambda>info. bindE (attr ''vnfcInfo'' (iv_vnfcInfo info)) (old_vnfc_info (vr_id vnfc))))) (\<lambda>c.
     case ho_coordinate ho script vnfc_param ssh_ip is_rollback inst grant_req (map_option ci_id c) of
       None \<Rightarrow> retS () | Some err \<Rightarrow> raiseS (Sol (CoordinateVNFExecutionFailed err))))))))"

definition entry_of :: "json \<Rightarrow> string \<Rightarrow> string \<Rightarrow> json pyres" where
  "entry_of vdu_dict vdu k = bindE (jitem vdu_dict vdu) (\<lambda>d. jitem d k)"

definition group_template :: "json \<Rightarrow> vnfc_resource \<Rightarrow> string \<Rightarrow> json \<Rightarrow> json pyres" where
  "group_template vdu_dict vnfc parent_name template =
     bindE (jitem template ''resources'') (\<lambda>rs.
     bindE (jitem rs parent_name) (\<lambda>r.
     bindE (jitem r ''properties'') (\<lambda>props.
     bindE (jitems props) (\<lambda>ps0.
     bindE (entry_of vdu_dict (vr_vduId vnfc) ''computeFlavourId'') (\<lambda>flavor.
     bindE (foldE (\<lambda>k ps. if take 6 k = ''image-''
          then bindE (entry_of vdu_dict (drop_image k) ''vcImageId'') (\<lambda>image. Inr (dict_set k image ps)) else Inr ps)
        (map fst (dict_set ''flavor'' flavor ps0)) (dict_set ''flavor'' flavor ps0)) (\<lambda>ps.
       Inr (JObj (dict_set ''resources'' (JObj (dict_set parent_name (JObj (dict_set ''properties'' (JObj ps) (obj_items r)))
         (obj_items rs))) (obj_items template)))))))))"

text \<open>A VM of a scaling group; the templates that were read are kept in a dictionary.\<close>

definition roll_group :: "'h heat_ops \<Rightarrow> json \<Rightarrow> vnfc_resource \<Rightarrow> jdict \<Rightarrow> json \<Rightarrow> (json \<times> json) list \<Rightarrow> ('h, exn, (json \<times> json) list) sem" where
  "roll_group ho vdu_dict vnfc metadata parent_stack_id templates =
     bindS (liftS (as_str parent_stack_id)) (\<lambda>stack.
     bindS (case map_of templates parent_stack_id of Some t \<Rightarrow> retS t | None \<Rightarrow> viewS ho (\<lambda>hv. hv_template hv stack)) (\<lambda>template.
     bindS (liftS (bindE (dict_item metadata ''parent_resource_name'') as_str)) (\<lambda>parent_name.
     bindS (liftS (group_template vdu_dict vnfc parent_name template)) (\<lambda>template'.
     bindS (update_stack ho stack [(''stack_id'', parent_stack_id), (''template'', template')]) (\<lambda>_.
       retS (AList.update parent_stack_id template' templates))))))"

definition roll_vm_nfv :: "vnfd \<Rightarrow> vnf_instance \<Rightarrow> json \<Rightarrow> json \<Rightarrow> vnfc_resource \<Rightarrow> json pyres" where
  "roll_vm_nfv vnfd inst vdu_dict cp_dict vnfc =
     bindE (get_flavor_from_vdu_dict vnfc vdu_dict) (\<lambda>flavor.
     bindE (old_info_of inst) (\<lambda>info.
     bindE (if vr_storageResourceIds vnfc = None then Inr []
            else attr ''virtualStorageResourceInfo'' (iv_virtualStorageResourceInfo info)) (\<lambda>storage_infos.
     bindE (get_images_from_vdu_dict vnfc storage_infos vdu_dict) (\<lambda>images.
     bindE (get_vdu_cps vnfd (JStr (iv_flavourId info)) (vr_vduId vnfc)) (\<lambda>cp_names.
     bindE (concatE (\<lambda>cp. bindE (jcontains cp_dict cp) (\<lambda>b. if b then bindE (jitem cp_dict cp) (\<lambda>v. Inr [(cp, v)]) else Inr [])) cp_names)
       (\<lambda>new_cps.
     let vdus0 = (if py_truthy flavor then [(vr_vduId vnfc, JObj [(''computeFlavourId'', flavor)])] else []);
         vdus = fold (\<lambda>(n, image) d. dict_set n (JObj (dict_set ''vcImageId'' image (obj_items (or_null (map_of d n))))) d) images vdus0 in
       Inr (JObj [(''VDU'', JObj vdus), (''CP'', JObj new_cps)])))))))"

fun roll_default :: "'h heat_ops \<Rightarrow> op_params \<Rightarrow> vnf_instance \<Rightarrow> grant_request \<Rightarrow> vnfd \<Rightarrow> bool \<Rightarrow> json \<Rightarrow> json \<Rightarrow> (json \<times> json) list \<Rightarrow> vnfc_resource list \<Rightarrow>
    ('h, exn, unit) sem" where
  "roll_default ho req inst grant_req vnfd is_rollback vdu_dict cp_dict templates [] = retS ()"
| "roll_default ho req inst grant_req vnfd is_rollback vdu_dict cp_dict templates (vnfc # vnfcs) =
     bindS (liftS (attr ''metadata'' (vr_metadata vnfc))) (\<lambda>metadata.
     bindS (case map_of metadata ''parent_stack_id'' of
         Some i \<Rightarrow> roll_group ho vdu_dict vnfc metadata i templates
       | None \<Rightarrow> bindS (liftS (roll_vm_nfv vnfd inst vdu_dict cp_dict vnfc)) (\<lambda>nfv.
           bindS (update_fields ho (get_stack_name inst None) [(''parameters'', JObj [(''nfv'', nfv)])]) (\<lambda>flds.
           bindS (update_stack ho (get_stack_name inst None) flds) (\<lambda>_. retS templates)))) (\<lambda>templates'.
     bindS (execute_coordinate_vnf_script ho req vnfc inst grant_req is_rollback) (\<lambda>_.
       roll_default ho req inst grant_req vnfd is_rollback vdu_dict cp_dict templates' vnfcs)))"

text \<open>The scheduler hints are taken out of nested templates; an error leaves a file as it is.\<close>

definition hinted :: "json \<Rightarrow> bool pyres" where
  "hinted res_value = bindE (jget res_value ''type'' JNull) (\<lambda>ty.
     if ty \<noteq> JStr ''OS::Nova::Server'' then Inr False
     else bindE (jcontains res_value ''properties'') (\<lambda>b. if \<not> b then Inr False
       else bindE (jitem res_value ''properties'') (\<lambda>ps. bindE (jcontains ps ''scheduler_hints'') (\<lambda>h.
         if h then bindE (jitems ps) (\<lambda>_. Inr True) else Inr False))))"

definition drop_hints :: "json \<Rightarrow> json" where
  "drop_hints res_value = JObj (dict_set ''properties''
     (JObj (dict_del ''scheduler_hints'' (obj_items (or_null (map_of (obj_items res_value) ''properties''))))) (obj_items res_value))"

definition strip_hints :: "'h heat_ops \<Rightarrow> json \<Rightarrow> json pyres" where
  "strip_hints ho content =
     bindE (ho_safe_load ho content) (\<lambda>nested.
     bindE (jcontains nested ''resources'') (\<lambda>b. if \<not> b then Inr content
     else bindE (jitem nested ''resources'') (\<lambda>rs. bindE (jitems rs) (\<lambda>items.
       bindE (mapE (\<lambda>(n, v). bindE (hinted v) (\<lambda>h. Inr (n, h, v))) items) (\<lambda>marked.
       Inr (if \<not> list_ex (\<lambda>(n, h, v). h) marked then content
            else JStr (ho_safe_dump ho (JObj (dict_set ''resources'' (JObj (map (\<lambda>(n, h, v). (n, if h then drop_hints v else v)) marked))
              (obj_items nested))))))))))"

definition is_yaml :: "string \<Rightarrow> bool" where
  "is_yaml n = (take 5 (rev n) = rev ''.yaml'' \<or> take 4 (rev n) = rev ''.yml'')"

definition strip_file :: "'h heat_ops \<Rightarrow> string \<times> json \<Rightarrow> string \<times> json" where
  "strip_file ho = (\<lambda>(n, content). (n, if is_yaml n then (case strip_hints ho content of Inl e \<Rightarrow> content | Inr c \<Rightarrow> c) else content))"

definition third_key :: "json \<Rightarrow> json list" where
  "third_key prop_value = (case prop_value of
      JObj d \<Rightarrow> concat (map (\<lambda>(k, v). case v of
          JArr xs \<Rightarrow> if k = ''get_param'' \<and> length xs \<ge> 4 \<and> xs ! 0 = JStr ''nfv'' then [xs ! 2] else []
        | _ \<Rightarrow> []) d)
    | _ \<Rightarrow> [])"

definition get_param_third_keys :: "json \<Rightarrow> json list pyres" where
  "get_param_third_keys res = bindE (jget res ''properties'' (JObj [])) (\<lambda>ps. bindE (jvalues ps) (\<lambda>vs. Inr (concat (map third_key vs))))"

definition take_params :: "json \<Rightarrow> json list \<Rightarrow> string \<Rightarrow> json \<Rightarrow> json pyres" where
  "take_params new_nfv third_keys item base_nfv =
     bindE (jget new_nfv item (JObj [])) (\<lambda>new. bindE (jitems new) (\<lambda>items.
     let chosen = filter (\<lambda>(k, v). JStr k \<in> set third_keys) items in
     if chosen = [] then Inr base_nfv
     else bindE (jitem base_nfv item) (\<lambda>base. bindE (jitems base) (\<lambda>old.
       Inr (JObj (dict_set item (JObj (fold (\<lambda>(k, v). dict_set k v) chosen old)) (obj_items base_nfv)))))))"

fun roll_standard :: "'h heat_ops \<Rightarrow> op_params \<Rightarrow> vnf_instance \<Rightarrow> grant_request \<Rightarrow> bool \<Rightarrow> jdict \<Rightarrow> jdict \<Rightarrow> json \<Rightarrow> json \<Rightarrow> json \<Rightarrow> vnfc_resource list \<Rightarrow>
    ('h, exn, unit) sem" where
  "roll_standard ho req inst grant_req is_rollback new_reses base_files new_nfv base_template base_nfv [] = retS ()"
| "roll_standard ho req inst grant_req is_rollback new_reses base_files new_nfv base_template base_nfv (vnfc # vnfcs) =
     bindS (liftS (vnfc_name vnfc)) (\<lambda>vdu_name.
     bindS (liftS (dict_item new_reses vdu_name)) (\<lambda>target_res.
     let reses = obj_items (or_null (map_of (obj_items base_template) ''resources''));
         template = JObj (dict_set ''resources'' (JObj (dict_set vdu_name target_res reses)) (obj_items base_template)) in
     bindS (liftS (get_param_third_keys target_res)) (\<lambda>keys.
     bindS (liftS (foldE (take_params new_nfv keys) [''VDU'', ''CP''] base_nfv)) (\<lambda>nfv.
     bindS (update_stack ho (get_stack_name inst None)
       [(''template'', template), (''files'', JObj base_files), (''parameters'', JObj [(''nfv'', nfv)])]) (\<lambda>_.
     bindS (execute_coordinate_vnf_script ho req vnfc inst grant_req is_rollback) (\<lambda>_.
       roll_standard ho req inst grant_req is_rollback new_reses base_files new_nfv template nfv vnfcs))))))"

definition start_standard :: "'h heat_ops \<Rightarrow> op_params \<Rightarrow> vnf_instance \<Rightarrow> grant_request \<Rightarrow> bool \<Rightarrow> heat_fields \<Rightarrow> vnfc_resource list \<Rightarrow> ('h, exn, unit) sem" where
  "start_standard ho req inst grant_req is_rollback flds vnfcs =
     (let stack_name = get_stack_name inst None in
     bindS (viewS ho (\<lambda>hv. hv_template hv stack_name)) (\<lambda>base.
     bindS (liftS (bindE (dict_item flds ''template'') (ho_safe_load ho))) (\<lambda>new_template.
     bindS (liftS (bindE (jitem new_template ''resources'') jitems)) (\<lambda>new_reses.
     bindS (liftS (bindE (jitem base ''resources'') jitems)) (\<lambda>base_reses.
     let reses = base_reses @ filter (\<lambda>(n, v). n \<notin> fst ` set base_reses) new_reses in
     bindS (ho_get_files ho stack_name) (\<lambda>files0.
     bindS (liftS (bindE (dict_item flds ''files'') jitems)) (\<lambda>new_files.
     bindS (viewS ho (current_nfv stack_name)) (\<lambda>base_nfv.
     bindS (liftS (nfv_of flds)) (\<lambda>new_nfv.
       roll_standard ho req inst grant_req is_rollback new_reses (map (strip_file ho) (fold (\<lambda>(n, v). dict_set n v) new_files files0)) new_nfv
         (JObj (dict_set ''resources'' (JObj reses) (obj_items base))) base_nfv vnfcs)))))))))"

definition change_vnfpkg_rolling_update :: "'h heat_ops \<Rightarrow> op_params \<Rightarrow> vnf_instance \<Rightarrow> grant_request \<Rightarrow> vnfd \<Rightarrow> heat_fields \<Rightarrow> bool \<Rightarrow> ('h, exn, unit) sem" where
  "change_vnfpkg_rolling_update ho req inst grant_req vnfd flds is_rollback =
     (if gq_removeResources grant_req = None then retS ()
      else bindS (liftS (removed_vnfcs grant_req inst)) (\<lambda>vnfcs.
        if is_full_fields flds then start_standard ho req inst grant_req is_rollback flds vnfcs
        else bindS (liftS (nfv_of flds)) (\<lambda>nfv.
          bindS (liftS (jitem nfv ''VDU'')) (\<lambda>vdu_dict.
          bindS (liftS (jitem nfv ''CP'')) (\<lambda>cp_dict.
            roll_default ho req inst grant_req vnfd is_rollback vdu_dict cp_dict [] vnfcs)))))"

definition heat_change_vnfpkg :: "'h heat_ops \<Rightarrow> op_params \<Rightarrow> vnf_instance \<Rightarrow> grant_request \<Rightarrow> grant \<Rightarrow> vnfd \<Rightarrow> bool \<Rightarrow> ('h, exn, vnf_instance) sem" where
  "heat_change_vnfpkg ho req inst grant_req grant vnfd is_rollback =
     bindS (liftS (make_hot ho req inst grant_req grant vnfd is_rollback)) (\<lambda>flds0.
     bindS (liftS (selected_vim inst)) (\<lambda>_.
     bindS (liftS (bindE (attr ''additionalParams'' (rq_additionalParams req)) (\<lambda>ps. dict_item ps ''upgrade_type''))) (\<lambda>ty.
     bindS (whenS (ty = JStr ''RollingUpdate'') (change_vnfpkg_rolling_update ho req inst grant_req vnfd flds0 is_rollback)) (\<lambda>_.
     let stack_name = get_stack_name inst None in
     bindS (update_fields ho stack_name flds0) (\<lambda>flds.
     bindS (update_stack ho stack_name flds) (\<lambda>_.
       record_stack ho req inst grant_req grant vnfd is_rollback None))))))"

end
