(* ===== verification/Grant_Props.thy ===== *)
theory Grant_Props
  imports Grant_Request
begin

section \<open>What a grant request asks for\<close>

text \<open>
  The closed forms of the loops that draw identifiers, and the theorems about the requests:
  a scale out asks for the number of instances the VNFD's deltas give, with pairwise
  different identifiers; a scale in removes the newest VNFCs of each VDU; terminate and
  scale in name every VNFC they remove with its handle; heal re-creates what it removes.
\<close>

subsection \<open>New VDUs\<close>

lemma new_vdu_closed:
  "make_res_def_for_new_vdu gen vdu k cps sts n =
     (Inr (concat (map (\<lambda>j. new_vdu_reses (gen (n + j)) vdu cps sts) [0..<k])), n + k)"
proof (induction k arbitrary: n)
  case 0
  then show ?case by simp
next
  case (Suc k)
  have "map (\<lambda>j. new_vdu_reses (gen (n + j)) vdu cps sts) [0..<Suc k] =
      new_vdu_reses (gen n) vdu cps sts # map (\<lambda>j. new_vdu_reses (gen (Suc n + j)) vdu cps sts) [0..<k]"
    by (simp add: upt_conv_Cons map_Suc_upt [symmetric] del: upt_Suc)
  with Suc show ?case by (simp add: bindS_def new_id_def)
qed

definition computes :: "string \<Rightarrow> res_def list \<Rightarrow> nat" where
  "computes vdu reses = length (filter (\<lambda>r. rd_type r = COMPUTE \<and> rd_resourceTemplateId r = vdu) reses)"

lemma computes_append [simp]: "computes vdu (xs @ ys) = computes vdu xs + computes vdu ys"
  by (simp add: computes_def)

lemma computes_nil [simp]: "computes vdu [] = 0"
  by (simp add: computes_def)

lemma computes_new_vdu [simp]:
  "computes vdu (new_vdu_reses i vdu' cps sts) = (if vdu' = vdu then 1 else 0)"
  by (simp add: computes_def new_vdu_reses_def res_def_new_def filter_map comp_def)

lemma computes_new_vdus:
  "computes vdu (concat (map (\<lambda>j. new_vdu_reses (gen (n + j)) vdu' cps sts) [0..<k])) =
     (if vdu' = vdu then k else 0)"
  by (induction k) simp_all

lemma scale_out_vdus_computes:
  assumes "scale_out_vdus env info vdu_num steps samples n = (Inr reses, n')"
    and "distinct (map fst samples)"
  shows "computes vdu reses = (if vdu \<in> fst ` set samples
    then nat (case scaled vdu_num steps vdu of Inr m \<Rightarrow> m | Inl _ \<Rightarrow> 0) else 0)"
  using assms
proof (induction samples arbitrary: n reses n')
  case Nil
  then show ?case by simp
next
  case (Cons s samples)
  obtain vdu' v where s: "s = (vdu', v)" by (cases s)
  from Cons.prems(1) s obtain num and strs :: "storage_resource list" and rest n1 n2 new where
    num: "scaled vdu_num steps vdu' = Inr num" and
    new: "make_res_def_for_new_vdu (ev_uuid env) vdu' (nat num)
        (map cpi_cpdId (opt_list (vr_vnfcCpInfo v))) (map vs_virtualStorageDescId strs) n = (Inr new, n1)" and
    rest: "scale_out_vdus env info vdu_num steps samples n1 = (Inr rest, n2)" and
    reses: "reses = new @ rest"
    by (simp add: bindS_eq_Inr bindE_eq_Inr) metis
  have "computes vdu new = (if vdu' = vdu then nat num else 0)"
    using new by (auto simp: new_vdu_closed computes_new_vdus)
  moreover have "computes vdu rest = (if vdu \<in> fst ` set samples
      then nat (case scaled vdu_num steps vdu of Inr m \<Rightarrow> m | Inl _ \<Rightarrow> 0) else 0)"
    using Cons.IH [OF rest] Cons.prems(2) s by simp
  ultimately show ?case using num reses s Cons.prems(2) by auto
qed

lemma vdu_samples_fst: "map fst (vdu_samples vnfcs vdus) = filter (\<lambda>u. u \<in> vr_vduId ` set vnfcs) vdus"
proof (induction vdus)
  case Nil
  then show ?case by simp
next
  case (Cons u vdus)
  show ?case
  proof (cases "List.find (\<lambda>v. vr_vduId v = u) vnfcs")
    case None
    then have "u \<notin> vr_vduId ` set vnfcs" by (auto simp: find_None_iff2)
    with None Cons show ?thesis by simp
  next
    case (Some v)
    then have "u \<in> vr_vduId ` set vnfcs" by (auto dest!: find_Some_iff2)
    with Some Cons show ?thesis by simp
  qed
qed

subsection \<open>Identifiers\<close>

lemma combination_eq:
  assumes "length i = length j"
  shows "make_combination_id a i = make_combination_id b j \<longleftrightarrow> a = b \<and> i = j"
proof
  assume "make_combination_id a i = make_combination_id b j"
  then have "a @ (''-'' @ i) = b @ (''-'' @ j)" by (simp add: make_combination_id_def)
  moreover have "length (''-'' @ i) = length (''-'' @ j)" using assms by simp
  ultimately show "a = b \<and> i = j" by (simp add: append_eq_append_conv)
qed simp

lemma combination_longer: "length j \<le> length i \<Longrightarrow> make_combination_id a i \<noteq> j"
  by (auto simp: make_combination_id_def)

text \<open>The UUIDs drawn have one length and no two are equal.\<close>

definition uuid_stream :: "(nat \<Rightarrow> string) \<Rightarrow> nat \<Rightarrow> nat \<Rightarrow> bool" where
  "uuid_stream gen n k \<longleftrightarrow> distinct (map gen [n..<n + k]) \<and> (\<forall>j < k. length (gen (n + j)) = length (gen n))"

text \<open>The name of the template and the UUID of the VDU are enough to tell two resources apart.\<close>

definition res_key :: "res_def \<Rightarrow> string \<Rightarrow> bool" where
  "res_key r i \<longleftrightarrow> (if rd_type r = COMPUTE then rd_id r = i
     else rd_id r = make_combination_id (rd_resourceTemplateId r) i)"

lemma new_vdu_keys: "r \<in> set (new_vdu_reses i vdu cps sts) \<Longrightarrow> res_key r i"
  by (auto simp: new_vdu_reses_def res_def_new_def res_key_def)

lemma res_key_disjoint:
  assumes "res_key r i" and "res_key s j" and "i \<noteq> j" and "length i = length j"
  shows "rd_id r \<noteq> rd_id s"
  using assms combination_longer [of i j] combination_longer [of j i]
  by (auto simp: res_key_def combination_eq split: if_splits) metis+

lemma uuid_stream_Suc: "uuid_stream gen n (Suc k) \<Longrightarrow> uuid_stream gen n k"
  by (auto simp: uuid_stream_def)

lemma uuid_stream_new:
  "uuid_stream gen n (Suc k) \<Longrightarrow> j < k \<Longrightarrow> gen (n + j) \<noteq> gen (n + k) \<and> length (gen (n + j)) = length (gen (n + k))"
  unfolding uuid_stream_def by (auto simp: image_iff dest: bspec [where x = "n + j"])

lemma new_vdu_reses_distinct:
  assumes "distinct (cps @ sts)"
  shows "distinct (map rd_id (new_vdu_reses i vdu cps sts))"
proof -
  have inj: "inj_on (\<lambda>c. make_combination_id c i) A" for A
    by (simp add: inj_on_def combination_eq)
  have "map rd_id (new_vdu_reses i vdu cps sts) = i # map (\<lambda>c. make_combination_id c i) (cps @ sts)"
    by (simp add: new_vdu_reses_def res_def_new_def comp_def)
  moreover have "i \<notin> set (map (\<lambda>c. make_combination_id c i) (cps @ sts))"
    using combination_longer [of i i] by (metis (no_types, lifting) imageE list.set_map order_refl)
  ultimately show ?thesis using assms inj by (simp add: distinct_map del: map_append)
qed

lemma new_vdus_distinct:
  assumes "uuid_stream gen n k" and "distinct (cps @ sts)"
  shows "distinct (map rd_id (concat (map (\<lambda>j. new_vdu_reses (gen (n + j)) vdu cps sts) [0..<k])))"
  using assms(1)
proof (induction k)
  case 0
  then show ?case by simp
next
  case (Suc k)
  have "rd_id r \<noteq> rd_id s" if "j < k" "r \<in> set (new_vdu_reses (gen (n + j)) vdu cps sts)"
    "s \<in> set (new_vdu_reses (gen (n + k)) vdu cps sts)" for j r s
    using res_key_disjoint [OF new_vdu_keys [OF that(2)] new_vdu_keys [OF that(3)]]
      uuid_stream_new [OF Suc.prems that(1)] by simp
  then show ?case
    using Suc.IH [OF uuid_stream_Suc [OF Suc.prems]] new_vdu_reses_distinct [OF assms(2)] by fastforce
qed

subsection \<open>Scale in\<close>

lemma take_vnfcs_take:
  assumes "count < num"
  shows "take_vnfcs vdu num count vs = take (nat (num - count)) (filter (\<lambda>v. vr_vduId v = vdu) vs)"
  using assms
proof (induction vs arbitrary: count)
  case Nil
  then show ?case by simp
next
  case (Cons v vs)
  have step: "nat (num - count) = Suc (nat (num - (count + 1)))" using Cons.prems by simp
  show ?case
  proof (cases "vr_vduId v = vdu \<and> count + 1 \<noteq> num")
    case True
    then have "count + 1 < num" using Cons.prems by simp
    with True Cons.IH step show ?thesis by simp
  next
    case False
    then show ?thesis using Cons step by auto
  qed
qed

text \<open>With a number that is not positive the count is never reached: every VNFC is taken.\<close>

lemma take_vnfcs_all:
  assumes "num \<le> count"
  shows "take_vnfcs vdu num count vs = filter (\<lambda>v. vr_vduId v = vdu) vs"
  using assms by (induction vs arbitrary: count) simp_all

lemma scale_in_vnfcs_newest:
  assumes "0 < steps"
    and "\<And>vdu j. (vdu, j) \<in> set vdu_num \<Longrightarrow> \<exists>m. j = JNum m \<and> 0 < m"
  shows "scale_in_vnfcs steps vnfcs vdu_num =
    Inr (concat (map (\<lambda>(vdu, j). take (nat ((case j of JNum m \<Rightarrow> m | _ \<Rightarrow> 0) * steps))
        (filter (\<lambda>v. vr_vduId v = vdu) vnfcs)) vdu_num))"
  unfolding scale_in_vnfcs_def
proof (rule concatE_pure)
  fix x
  assume "x \<in> set vdu_num"
  moreover obtain vdu j where "x = (vdu, j)" by (cases x)
  ultimately obtain m where x: "x = (vdu, JNum m)" "0 < m" using assms(2) by metis
  then have "0 < m * steps" using assms(1) by simp
  from take_vnfcs_take [OF this, of vdu vnfcs]
  show "(case x of (vdu, num_j) \<Rightarrow> bindE (as_int num_j) (\<lambda>num. Inr (take_vnfcs vdu (num * steps) 0 vnfcs))) =
      Inr (case x of (vdu, j) \<Rightarrow> take (nat ((case j of JNum m \<Rightarrow> m | _ \<Rightarrow> 0) * steps))
        (filter (\<lambda>v. vr_vduId v = vdu) vnfcs))"
    by (simp add: x)
qed

subsection \<open>Removed VNFCs\<close>

text \<open>The references into the list of resources to remove only ever point at link ports.\<close>

definition acc_ok :: "rm_acc \<Rightarrow> bool" where
  "acc_ok a \<longleftrightarrow> (\<forall>(k, i) \<in> set (ra_cps a). i < length (ra_rm a) \<and> rd_type (ra_rm a ! i) = LINKPORT)"

definition compute_handles :: "res_def list \<Rightarrow> (string \<times> resource_handle option) list" where
  "compute_handles reses =
     map (\<lambda>r. (rd_resourceTemplateId r, rd_resource r)) (filter (\<lambda>r. rd_type r = COMPUTE) reses)"

lemma compute_handles_append [simp]: "compute_handles (xs @ ys) = compute_handles xs @ compute_handles ys"
  by (simp add: compute_handles_def)

lemma compute_handles_Cons [simp]:
  "compute_handles (r # rs) = (if rd_type r = COMPUTE then [(rd_resourceTemplateId r, rd_resource r)] else []) @
     compute_handles rs"
  by (simp add: compute_handles_def)

lemma compute_handles_nil [simp]: "compute_handles [] = []"
  by (simp add: compute_handles_def)

lemma acc_ok_empty [simp]: "acc_ok empty_acc"
  by (simp add: acc_ok_def empty_acc_def)

lemma acc_ok_push: "acc_ok a \<Longrightarrow> acc_ok (acc_push r x a)"
  by (fastforce simp: acc_ok_def acc_push_def nth_append)

lemma rm_cp_ok:
  assumes "acc_ok a"
  shows "acc_ok (rm_cp rm_id add_id cp a) \<and> compute_handles (ra_rm (rm_cp rm_id add_id cp a)) = compute_handles (ra_rm a)"
proof (cases "cp_key cp")
  case None
  with assms show ?thesis by (simp add: rm_cp_def)
next
  case (Some k)
  have "set (dict_set k (length (ra_rm a)) (ra_cps a)) \<subseteq> insert (k, length (ra_rm a)) (set (ra_cps a))"
    by (rule set_dict_set)
  with assms Some show ?thesis
    by (fastforce simp: rm_cp_def acc_ok_def acc_push_def res_def_new_def nth_append)
qed

lemma rm_cps_ok:
  "acc_ok a \<Longrightarrow> acc_ok (fold (rm_cp rm_id add_id) cps a) \<and>
     compute_handles (ra_rm (fold (rm_cp rm_id add_id) cps a)) = compute_handles (ra_rm a)"
proof (induction cps arbitrary: a)
  case Nil
  then show ?case by simp
next
  case (Cons cp cps)
  from Cons.IH [of "rm_cp rm_id add_id cp a"] rm_cp_ok [OF Cons.prems] show ?case by simp
qed

lemma rm_storages_ok:
  assumes "foldE (rm_storage info rm_id add_id) ids a = Inr b" and "acc_ok a"
  shows "acc_ok b \<and> compute_handles (ra_rm b) = compute_handles (ra_rm a)"
proof (rule foldE_invariant [OF assms(1)])
  show "acc_ok a \<and> compute_handles (ra_rm a) = compute_handles (ra_rm a)" using assms(2) by simp
  fix x t t'
  assume t: "acc_ok t \<and> compute_handles (ra_rm t) = compute_handles (ra_rm a)"
    and "rm_storage info rm_id add_id x t = Inr t'"
  then obtain r y where "t' = acc_push r y t" "rd_type r = STORAGE"
    by (auto simp: rm_storage_def Let_def bindE_eq_Inr res_def_new_def)
  with t show "acc_ok t' \<and> compute_handles (ra_rm t') = compute_handles (ra_rm a)"
    by (auto simp: acc_ok_push) (simp add: acc_push_def)
qed

lemma rm_vnfc_ok:
  assumes "rm_vnfc gen info re_create v a n = (Inr b, n')" and "acc_ok a"
  shows "acc_ok b \<and> compute_handles (ra_rm b) =
    compute_handles (ra_rm a) @ [(vr_vduId v, Some (vr_computeResource v))]"
proof -
  from assms(1) obtain rm_id add_id where
    st: "foldE (rm_storage info rm_id add_id) (opt_list (vr_storageResourceIds v))
       (fold (rm_cp rm_id add_id) (opt_list (vr_vnfcCpInfo v))
         (acc_push (res_def_new rm_id COMPUTE (vr_vduId v) (Some (vr_computeResource v)))
            (map_option (\<lambda>i. res_def_new i COMPUTE (vr_vduId v) None) add_id) a)) = Inr b"
    by (auto simp: rm_vnfc_def bindS_eq_Inr)
  let ?a1 = "acc_push (res_def_new rm_id COMPUTE (vr_vduId v) (Some (vr_computeResource v)))
            (map_option (\<lambda>i. res_def_new i COMPUTE (vr_vduId v) None) add_id) a"
  have a1: "acc_ok ?a1" "compute_handles (ra_rm ?a1) =
      compute_handles (ra_rm a) @ [(vr_vduId v, Some (vr_computeResource v))]"
     apply (rule acc_ok_push [OF assms(2)])
    apply (simp add: acc_push_def res_def_new_def)
    done
  from rm_storages_ok [OF st] rm_cps_ok [OF a1(1)] a1(2) show ?thesis by simp
qed

lemma rm_vnfcs_ok:
  assumes "rm_vnfcs gen info re_create vs a n = (Inr b, n')" and "acc_ok a"
  shows "acc_ok b \<and> compute_handles (ra_rm b) =
    compute_handles (ra_rm a) @ map (\<lambda>v. (vr_vduId v, Some (vr_computeResource v))) vs"
  using assms
proof (induction vs arbitrary: a n)
  case Nil
  then show ?case by simp
next
  case (Cons v vs)
  from Cons.prems(1) obtain c n1 where c: "rm_vnfc gen info re_create v a n = (Inr c, n1)"
    "rm_vnfcs gen info re_create vs c n1 = (Inr b, n')"
    by (auto simp: bindS_eq_Inr)
  from rm_vnfc_ok [OF c(1) Cons.prems(2)] Cons.IH [OF c(2)] show ?case by simp
qed

lemma fill_port_ok:
  assumes "\<forall>(k, i) \<in> set cps. i < length reses \<and> rd_type (reses ! i) = LINKPORT"
  shows "map rd_type (fill_port cps kh reses) = map rd_type reses \<and>
    compute_handles (fill_port cps kh reses) = compute_handles reses"
proof (cases "map_of cps (fst kh)")
  case None
  then show ?thesis by (simp add: fill_port_def)
next
  case (Some i)
  then have i: "i < length reses" "rd_type (reses ! i) = LINKPORT"
    using assms map_of_SomeD by fastforce+
  let ?r = "(reses ! i)\<lparr>rd_resource := Some (snd kh)\<rparr>"
  have split: "reses[i := ?r] = take i reses @ ?r # drop (Suc i) reses"
    "reses = take i reses @ reses ! i # drop (Suc i) reses"
    using i(1) by (simp_all add: upd_conv_take_nth_drop id_take_nth_drop)
  have "compute_handles (reses[i := ?r]) = compute_handles (take i reses @ reses ! i # drop (Suc i) reses)"
    using i(2) by (simp add: split(1))
  then have "compute_handles (reses[i := ?r]) = compute_handles reses"
    using split(2) by simp
  moreover have "map rd_type (reses[i := ?r]) = map rd_type reses"
    using i by (simp add: map_update list_update_same_conv)
  ultimately show ?thesis using Some by (simp add: fill_port_def)
qed

lemma fill_ports_ok:
  assumes "\<forall>(k, i) \<in> set cps. i < length reses \<and> rd_type (reses ! i) = LINKPORT"
  shows "map rd_type (fold (fill_port cps) khs reses) = map rd_type reses \<and>
    compute_handles (fold (fill_port cps) khs reses) = compute_handles reses"
  using assms
proof (induction khs arbitrary: reses)
  case Nil
  then show ?case by simp
next
  case (Cons kh khs)
  have step: "map rd_type (fill_port cps kh reses) = map rd_type reses \<and>
    compute_handles (fill_port cps kh reses) = compute_handles reses"
    by (rule fill_port_ok) (rule Cons.prems)
  then have len: "length (fill_port cps kh reses) = length reses" by (metis length_map)
  have "rd_type (fill_port cps kh reses ! i) = rd_type (reses ! i)" if "i < length reses" for i
    using step that len by (metis nth_map)
  with Cons.prems len have "\<forall>(k, i) \<in> set cps. i < length (fill_port cps kh reses) \<and>
      rd_type (fill_port cps kh reses ! i) = LINKPORT" by fastforce
  from Cons.IH [OF this] step show ?case by simp
qed

lemma remove_vnfcs_handles:
  assumes "make_res_def_for_remove_vnfcs gen info vs re_create n = (Inr (rm, add), n')"
  shows "compute_handles rm = map (\<lambda>v. (vr_vduId v, Some (vr_computeResource v))) vs"
proof -
  from assms obtain a where a: "rm_vnfcs gen info re_create vs empty_acc n = (Inr a, n')"
    "rm = fold (fill_port (ra_cps a)) (port_handles info) (ra_rm a)"
    by (auto simp: make_res_def_for_remove_vnfcs_def bindS_eq_Inr)
  from rm_vnfcs_ok [OF a(1)] have "acc_ok a"
    "compute_handles (ra_rm a) = map (\<lambda>v. (vr_vduId v, Some (vr_computeResource v))) vs"
    by (simp_all add: empty_acc_def acc_ok_def)
  with fill_ports_ok show ?thesis by (simp add: a(2) acc_ok_def)
qed

subsection \<open>Heal\<close>

text \<open>What is re-created: the type and the template of each resource.\<close>

definition kinds :: "res_def list \<Rightarrow> (res_type \<times> string) list" where
  "kinds reses = map (\<lambda>r. (rd_type r, rd_resourceTemplateId r)) reses"

definition balanced :: "rm_acc \<Rightarrow> bool" where
  "balanced a \<longleftrightarrow> kinds (ra_rm a) = kinds (ra_add a)"

lemma kinds_simps [simp]: "kinds [] = []" "kinds (r # rs) = (rd_type r, rd_resourceTemplateId r) # kinds rs"
  "kinds (xs @ ys) = kinds xs @ kinds ys"
  by (simp_all add: kinds_def)

lemma balanced_push:
  "balanced a \<Longrightarrow> rd_type r = rd_type x \<Longrightarrow> rd_resourceTemplateId r = rd_resourceTemplateId x \<Longrightarrow>
     balanced (acc_push r (Some x) a)"
  by (simp add: balanced_def acc_push_def)

lemma balanced_empty [simp]: "balanced empty_acc"
  by (simp add: balanced_def empty_acc_def)

lemma balanced_set_rm_add: "balanced a \<Longrightarrow> balanced (set_rm_add_reses ty name h rm_id add_id a)"
  unfolding set_rm_add_reses_def by (rule balanced_push) (simp_all add: res_def_new_def)

lemma balanced_rm_cp: "balanced a \<Longrightarrow> balanced (rm_cp rm_id (Some add_id) cp a)"
  by (simp add: rm_cp_def balanced_def acc_push_def res_def_new_def split: option.splits)

lemma balanced_rm_cps: "balanced a \<Longrightarrow> balanced (fold (rm_cp rm_id (Some add_id)) cps a)"
  by (induction cps arbitrary: a) (simp_all add: balanced_rm_cp)

lemma balanced_storages:
  assumes "foldE (rm_storage info rm_id (Some add_id)) ids a = Inr b" and "balanced a"
  shows "balanced b"
  using assms
  by (rule foldE_invariant) (auto simp: rm_storage_def Let_def bindE_eq_Inr intro!: balanced_push,
      simp_all add: res_def_new_def)

lemma balanced_add_storages:
  assumes "foldE (rm_add_storage info rm_id add_id) ids a = Inr b" and "balanced a"
  shows "balanced b"
  using assms
  by (rule foldE_invariant) (auto simp: rm_add_storage_def Let_def bindE_eq_Inr intro!: balanced_set_rm_add)

lemma balanced_rm_vnfcs:
  assumes "rm_vnfcs gen info True vs a n = (Inr b, n')" and "balanced a"
  shows "balanced b"
  using assms
proof (induction vs arbitrary: a n)
  case Nil
  then show ?case by simp
next
  case (Cons v vs)
  from Cons.prems(1) obtain c n1 where c: "rm_vnfc gen info True v a n = (Inr c, n1)"
    "rm_vnfcs gen info True vs c n1 = (Inr b, n')"
    by (auto simp: bindS_eq_Inr)
  from c(1) obtain rm_id add_id where
    st: "foldE (rm_storage info rm_id (Some add_id)) (opt_list (vr_storageResourceIds v))
       (fold (rm_cp rm_id (Some add_id)) (opt_list (vr_vnfcCpInfo v))
         (acc_push (res_def_new rm_id COMPUTE (vr_vduId v) (Some (vr_computeResource v)))
            (Some (res_def_new add_id COMPUTE (vr_vduId v) None)) a)) = Inr c"
    by (auto simp: rm_vnfc_def bindS_eq_Inr)
  have "balanced c"
    by (rule balanced_storages [OF st], rule balanced_rm_cps, rule balanced_push)
       (simp_all add: Cons.prems(2) res_def_new_def)
  with c(2) show ?case by (rule Cons.IH)
qed

lemma balanced_rm_add_vnfc:
  assumes "rm_add_vnfc gen info st v a n = (Inr b, n')" and "balanced a"
  shows "balanced b"
  using assms by (auto simp: rm_add_vnfc_def bindS_eq_Inr intro: balanced_add_storages balanced_set_rm_add
      split: if_splits)

lemma balanced_rm_add_vnfcs:
  "rm_add_vnfcs gen info st vs a n = (Inr b, n') \<Longrightarrow> balanced a \<Longrightarrow> balanced b"
  by (induction vs arbitrary: a n) (auto simp: bindS_eq_Inr dest: balanced_rm_add_vnfc)

lemma balanced_sol002:
  "sol002_vnfcs gen info st vs a n = (Inr b, n') \<Longrightarrow> balanced a \<Longrightarrow> balanced b"
  by (induction vs arbitrary: a n) (auto simp: bindS_eq_Inr dest: balanced_rm_add_vnfc)

lemma balanced_rm_add_vls:
  "rm_add_vls gen vls a n = (Inr b, n') \<Longrightarrow> balanced a \<Longrightarrow> balanced b"
  by (induction vls arbitrary: a n) (auto simp: bindS_eq_Inr dest: balanced_set_rm_add)

lemma fill_ports_kinds: "kinds (fold (fill_port cps) khs reses) = kinds reses"
proof (induction khs arbitrary: reses)
  case Nil
  then show ?case by simp
next
  case (Cons kh khs)
  have "kinds (fill_port cps kh reses) = kinds reses"
    by (cases "map_of cps (fst kh)")
       (simp_all add: fill_port_def kinds_def map_update list_update_same_conv, metis list_update_id map_update)
  with Cons show ?case by simp
qed

lemma balanced_remove_vnfcs:
  assumes "make_res_def_for_remove_vnfcs gen info vs True n = (Inr (rm, add), n')"
  shows "kinds rm = kinds add"
proof -
  from assms obtain a where a: "rm_vnfcs gen info True vs empty_acc n = (Inr a, n')"
    "rm = fold (fill_port (ra_cps a)) (port_handles info) (ra_rm a)" "add = ra_add a"
    by (auto simp: make_res_def_for_remove_vnfcs_def bindS_eq_Inr)
  from balanced_rm_vnfcs [OF a(1) balanced_empty] show ?thesis
    by (simp add: a(2,3) fill_ports_kinds balanced_def)
qed

lemma sol003_balanced:
  assumes "make_SOL003_heal_grant_request env info is_all q n = (Inr q', n')"
  shows "\<exists>a. balanced a \<and> q' = set_rm_add a q"
proof (cases is_all)
  case True
  with assms obtain rm add a n1 where
    "make_res_def_for_remove_vnfcs (ev_uuid env) info (opt_list (iv_vnfcResourceInfo info)) True n = (Inr (rm, add), n1)"
    "rm_add_vls (ev_uuid env) (opt_list (iv_vnfVirtualLinkResourceInfo info))
       \<lparr>ra_rm = rm, ra_add = add, ra_cps = []\<rparr> n1 = (Inr a, n')" "q' = set_rm_add a q"
    by (auto simp: make_SOL003_heal_grant_request_def bindS_eq_Inr)
  then show ?thesis
    using balanced_remove_vnfcs balanced_rm_add_vls by (fastforce simp: balanced_def)
next
  case False
  with assms show ?thesis
    by (auto simp: make_SOL003_heal_grant_request_def bindS_eq_Inr dest: balanced_rm_add_vnfcs)
qed

lemma heal_grant_balanced:
  assumes "heal_grant env req inst q n = (Inr q', n')"
  shows "\<exists>a q0. balanced a \<and> q' = set_rm_add a q0 \<and>
    gq_addResources q0 = gq_addResources q \<and> gq_removeResources q0 = gq_removeResources q"
proof -
  from assms obtain info where
    h: "(case rq_vnfcInstanceId req of
       Some ids \<Rightarrow> make_SOL002_heal_grant_request env ids info (heal_is_all req)
          (set_params req (q\<lparr>gq_flavourId := Some (iv_flavourId info)\<rparr>))
     | None \<Rightarrow> make_SOL003_heal_grant_request env info (heal_is_all req)
          (set_params req (q\<lparr>gq_flavourId := Some (iv_flavourId info)\<rparr>))) n = (Inr q', n')"
    by (auto simp: heal_grant_def bindS_eq_Inr Let_def)
  let ?q0 = "set_params req (q\<lparr>gq_flavourId := Some (iv_flavourId info)\<rparr>)"
  have q0: "gq_addResources ?q0 = gq_addResources q \<and> gq_removeResources ?q0 = gq_removeResources q"
    by (simp add: set_params_def split: option.splits)
  have "\<exists>a. balanced a \<and> q' = set_rm_add a ?q0"
  proof (cases "rq_vnfcInstanceId req")
    case None
    with h sol003_balanced show ?thesis by simp
  next
    case (Some ids)
    with h balanced_sol002 show ?thesis
      by (fastforce simp: make_SOL002_heal_grant_request_def bindS_eq_Inr)
  qed
  with q0 show ?thesis by blast
qed

subsection \<open>The requests\<close>

lemma scale_deltas_wf:
  assumes "get_scale_vdu_and_num v fid aspect = Inr d"
  shows "dict_wf d"
proof -
  have fold_wf: "dict_wf (fold (\<lambda>vdu_name d. dict_set vdu_name x d) names t)"
    if "dict_wf t" for names x and t :: "(string, json) dict"
    using that by (induction names arbitrary: t) simp_all
  show ?thesis
  proof (cases "d = []")
    case False
    with assms obtain delta ads where "foldE (add_aspect_delta aspect delta) ads [] = Inr d"
      by (auto simp: get_scale_vdu_and_num_def bindE_eq_Inr split: if_splits)
    then show ?thesis
      by (rule foldE_invariant) (auto simp: add_aspect_delta_def bindE_eq_Inr fold_wf split: if_splits)
  qed simp
qed

lemma placement_keeps:
  assumes "make_placementconstraints env vnfd reses inst q = Inr q'"
  shows "gq_addResources q' = gq_addResources q \<and> gq_removeResources q' = gq_removeResources q"
  using assms by (auto simp: make_placementconstraints_def bindE_eq_Inr)

lemma set_params_keeps [simp]:
  "gq_addResources (set_params req q) = gq_addResources q"
  "gq_removeResources (set_params req q) = gq_removeResources q"
  by (simp_all add: set_params_def split: option.splits)

lemma set_add_resources [simp]:
  "gq_addResources q = None \<Longrightarrow> opt_list (gq_addResources (set_add reses q)) = reses"
  "gq_removeResources (set_add reses q) = gq_removeResources q"
  by (simp_all add: set_add_def)

lemma set_remove_resources [simp]:
  "gq_removeResources q = None \<Longrightarrow> opt_list (gq_removeResources (set_remove reses q)) = reses"
  "gq_addResources (set_remove reses q) = gq_addResources q"
  by (simp_all add: set_remove_def)


lemma ex_deltas: "get_scale_vdu_and_num ex_vnfd (JStr ''fl'') ''asp'' = Inr [(''V'', JNum 1)]"
  by code_simp


text \<open>
  A scale in with positive deltas removes, for each VDU of the aspect, exactly the
  first (newest) delta times steps VNFCs of that VDU in the order of \<^verbatim>\<open>vnfcResourceInfo\<close>, each
  named with its own resource handle.
\<close>

lemma scale_in_removes_newest:
  assumes "scale_grant env req inst vnfd (grant_request_common env lcmocc inst) n = (Inr q, n')"
    and "rq_type req = Some ''SCALE_IN''" and "rq_aspectId req = Some aspect"
    and "rq_numberOfSteps req = Some steps" and "0 < steps"
    and "in_instantiatedVnfInfo inst = Some info"
    and "iv_vnfcResourceInfo info = Some vnfcs"
    and "get_scale_vdu_and_num vnfd (JStr (iv_flavourId info)) aspect =
      Inr (map (\<lambda>(vdu, d). (vdu, JNum d)) deltas)"
    and "\<forall>(vdu, d) \<in> set deltas. 0 < d"
  shows "compute_handles (opt_list (gq_removeResources q)) =
    map (\<lambda>v. (vr_vduId v, Some (vr_computeResource v)))
      (concat (map (\<lambda>(vdu, d). take (nat (d * steps)) (filter (\<lambda>v. vr_vduId v = vdu) vnfcs)) deltas))"
proof -
  let ?q0 = "grant_request_common env lcmocc inst"
  let ?rm = "concat (map (\<lambda>(vdu, d). take (nat (d * steps)) (filter (\<lambda>v. vr_vduId v = vdu) vnfcs)) deltas)"
  have sel: "scale_in_vnfcs steps vnfcs (map (\<lambda>(vdu, d). (vdu, JNum d)) deltas) = Inr ?rm"
    using assms(5,9) by (subst scale_in_vnfcs_newest) (auto simp: comp_def case_prod_beta')
  from assms(1-4,6-8) sel obtain rm_reses add_reses n1 where
    rm: "make_res_def_for_remove_vnfcs (ev_uuid env) info ?rm False n = (Inr (rm_reses, add_reses), n1)" and
    q: "q = set_params req (set_remove rm_reses (?q0\<lparr>gq_flavourId := Some (iv_flavourId info)\<rparr>))"
    by (auto simp: scale_grant_def make_scale_in_grant_request_def bindS_eq_Inr Let_def split: if_splits)
  from remove_vnfcs_handles [OF rm] show ?thesis by (simp add: q grant_request_common_def)
qed

lemma remove_vls_types: "remove_vls gen vls n = (Inr reses, n') \<Longrightarrow> \<forall>r \<in> set reses. rd_type r = VL"
  by (induction vls arbitrary: n reses n') (auto simp: bindS_eq_Inr res_def_new_def)

text \<open>
  The grant request of a terminate names every VNFC of the instance, once and with its
  own compute resource handle, in order.
\<close>

lemma terminate_grant_complete:
  assumes "terminate_grant env inst (grant_request_common env lcmocc inst) n = (Inr q, n')"
    and "in_instantiatedVnfInfo inst = Some info"
  shows "compute_handles (opt_list (gq_removeResources q)) =
      map (\<lambda>v. (vr_vduId v, Some (vr_computeResource v))) (opt_list (iv_vnfcResourceInfo info)) \<and>
    gq_addResources q = None"
proof -
  let ?q0 = "grant_request_common env lcmocc inst"
  let ?vls = "opt_list (iv_vnfVirtualLinkResourceInfo info)"
  from assms obtain rm add n1 vls where
    rm: "make_res_def_for_remove_vnfcs (ev_uuid env) info (opt_list (iv_vnfcResourceInfo info)) False n =
      (Inr (rm, add), n1)" and
    vls: "remove_vls (ev_uuid env) ?vls n1 = (Inr vls, n')" and
    q: "q = set_remove (rm @ vls) ?q0"
    by (auto simp: terminate_grant_def bindS_eq_Inr)
  have "compute_handles vls = []"
    using remove_vls_types [OF vls] by (simp add: compute_handles_def filter_empty_conv)
  with remove_vnfcs_handles [OF rm] show ?thesis by (simp add: q grant_request_common_def)
qed

text \<open>
  A heal re-creates what it removes: the resources to add have the same types and
  templates as the resources to remove, in the same order, for all three kinds of heal
  (chosen VNFCs, all VNFCs, and all resources of the instance).
\<close>

lemma heal_grant_recreates:
  assumes "heal_grant env req inst (grant_request_common env lcmocc inst) n = (Inr q, n')"
  shows "kinds (opt_list (gq_addResources q)) = kinds (opt_list (gq_removeResources q))"
proof -
  obtain a q0 where "balanced a" "q = set_rm_add a q0"
    "gq_addResources q0 = None" "gq_removeResources q0 = None"
    using heal_grant_balanced [OF assms] by (auto simp: grant_request_common_def)
  then show ?thesis by (simp add: set_rm_add_def balanced_def)
qed

text \<open>
  The resources for \<open>k\<close> new instances of a VDU are \<open>k\<close> times one COMPUTE, one LINKPORT per
  connection point and one STORAGE per storage, and their identifiers are pairwise different
  when the UUIDs drawn are (and have one length, as UUIDs do).
\<close>

lemma new_vdu_resources_unique:
  assumes "uuid_stream gen n k" and "distinct (cps @ sts)"
    and "make_res_def_for_new_vdu gen vdu k cps sts n = (Inr reses, n')"
  shows "distinct (map rd_id reses) \<and> computes vdu reses = k \<and>
    length reses = k * (1 + length cps + length sts) \<and> n' = n + k"
proof -
  have reses: "reses = concat (map (\<lambda>j. new_vdu_reses (gen (n + j)) vdu cps sts) [0..<k])" "n' = n + k"
    using assms(3) by (simp_all add: new_vdu_closed)
  have "length reses = k * (1 + length cps + length sts)"
    unfolding reses(1) by (induction k) (simp_all add: new_vdu_reses_def)
  with new_vdus_distinct [OF assms(1,2), of vdu] computes_new_vdus show ?thesis
    by (simp add: reses)
qed

text \<open>
  A scale in whose delta for a VDU is 0 removes every VNFC of that VDU, although none
  should go: the count of removed VNFCs never equals 0 after the first one was taken.
\<close>

lemma scale_in_zero_delta_removes_all:
  assumes "scale_grant env req inst vnfd (grant_request_common env lcmocc inst) n = (Inr q, n')"
    and "rq_type req = Some ''SCALE_IN''" and "rq_aspectId req = Some aspect"
    and "rq_numberOfSteps req = Some steps"
    and "in_instantiatedVnfInfo inst = Some info"
    and "iv_vnfcResourceInfo info = Some vnfcs"
    and "get_scale_vdu_and_num vnfd (JStr (iv_flavourId info)) aspect = Inr [(vdu, JNum 0)]"
  shows "compute_handles (opt_list (gq_removeResources q)) =
    map (\<lambda>v. (vr_vduId v, Some (vr_computeResource v))) (filter (\<lambda>v. vr_vduId v = vdu) vnfcs)"
proof -
  let ?q0 = "grant_request_common env lcmocc inst"
  let ?rm = "filter (\<lambda>v. vr_vduId v = vdu) vnfcs"
  have sel: "scale_in_vnfcs steps vnfcs [(vdu, JNum 0)] = Inr ?rm"
    by (simp add: scale_in_vnfcs_def take_vnfcs_all)
  from assms sel obtain rm_reses add_reses n1 where
    rm: "make_res_def_for_remove_vnfcs (ev_uuid env) info ?rm False n = (Inr (rm_reses, add_reses), n1)" and
    q: "q = set_params req (set_remove rm_reses (?q0\<lparr>gq_flavourId := Some (iv_flavourId info)\<rparr>))"
    by (auto simp: scale_grant_def make_scale_in_grant_request_def bindS_eq_Inr Let_def split: if_splits)
  from remove_vnfcs_handles [OF rm] show ?thesis by (simp add: q grant_request_common_def)
qed

subsection \<open>Placement constraints\<close>

definition policy_refs :: "res_def list \<Rightarrow> vnf_instance \<Rightarrow> json list \<times> string \<Rightarrow> constraint_ref list" where
  "policy_refs add_reses inst p =
     grant_refs (fst p) add_reses @ (case mgmt_refs (fst p) inst of Inl _ \<Rightarrow> [] | Inr refs \<Rightarrow> refs)"

text \<open>A policy that relates a new resource to at least one other.\<close>

definition policy_applies :: "res_def list \<Rightarrow> vnf_instance \<Rightarrow> json list \<times> string \<Rightarrow> bool" where
  "policy_applies add_reses inst p \<longleftrightarrow>
     grant_refs (fst p) add_reses \<noteq> [] \<and> 2 \<le> length (policy_refs add_reses inst p)"

text \<open>
  The placement constraints of one kind are those of the policies up to the first one that
  does not apply to the request, in order; the policies after that one are lost, even those that
  apply.
\<close>

lemma placement_constraints_prefix:
  assumes "placement_loop env key add_reses inst policies = Inr cs"
  shows "cs = map (\<lambda>p. \<lparr>pc_affinityOrAntiAffinity = key, pc_scope = map char_upper (snd p),
      pc_resource = policy_refs add_reses inst p, pc_fallbackBestEffort = ev_fallback_best_effort env\<rparr>)
    (takeWhile (policy_applies add_reses inst) policies)"
  using assms
proof (induction policies arbitrary: cs)
  case Nil
  then show ?case by simp
next
  case (Cons p policies)
  obtain targets scope where p: "p = (targets, scope)" by (cases p)
  show ?case
  proof (cases "grant_refs targets add_reses = []")
    case True
    with Cons.prems p show ?thesis by (simp add: policy_applies_def)
  next
    case False
    then obtain refs where refs: "mgmt_refs targets inst = Inr refs"
      using Cons.prems p by (auto simp: Let_def bindE_eq_Inr split: if_splits)
    show ?thesis
    proof (cases "length (grant_refs targets add_reses @ refs) < 2")
      case True
      with Cons.prems False p refs show ?thesis by (simp add: policy_applies_def policy_refs_def)
    next
      case ge: False
      then obtain rest where rest: "placement_loop env key add_reses inst policies = Inr rest"
        "cs = \<lparr>pc_affinityOrAntiAffinity = key, pc_scope = map char_upper scope,
          pc_resource = grant_refs targets add_reses @ refs, pc_fallbackBestEffort = ev_fallback_best_effort env\<rparr> # rest"
        using Cons.prems False p refs by (auto simp: Let_def bindE_eq_Inr)
      with Cons.IH [OF rest(1)] ge False p refs show ?thesis by (simp add: policy_applies_def policy_refs_def)
    qed
  qed
qed

end
