(* ===== verification/Heat_Props.thy ===== *)
theory Heat_Props
  imports Heat_Driver Grant_Props "HOL-Library.Multiset"
begin

section \<open>Properties of the OpenStack driver\<close>

text \<open>
  What the driver records is what the stack has: the VNFCs are the servers of the stack, the newest
  first, and the references between the recorded objects hold. With the order, the VNFCs that a
  scale in removes are the youngest ones. Requests that are tried again avoid the zones that failed.
\<close>

subsection \<open>The order of the VNFCs\<close>

definition vnfc_age :: "heat_view \<Rightarrow> vnfc_resource \<Rightarrow> int \<times> int" where
  "vnfc_age hv v = (case vnfc_key hv v of Inr (idx, t) \<Rightarrow> (idx_num idx, t) | Inl _ \<Rightarrow> (0, 0))"

lemma mapE_key_ages:
  "mapE (vnfc_key hv) vs = Inr ks \<Longrightarrow> zip (map (\<lambda>(idx, t). (idx_num idx, t)) ks) vs = map (\<lambda>v. (vnfc_age hv v, v)) vs"
  by (auto simp: mapE_eq_Inr vnfc_age_def intro!: nth_equalityI split: prod.splits)

lemma sort_key_map: "sort_key f (map g xs) = map g (sort_key (f \<circ> g) xs)"
proof -
  have "insort_key f (g x) (map g ys) = map g (insort_key (f \<circ> g) x ys)" for x ys
    by (induction ys) simp_all
  then show ?thesis by (induction xs) simp_all
qed

lemma sort_vnfcs_eq:
  "sort_vnfcs hv vs = Inr ws \<Longrightarrow> ws = rev (sort_key (vnfc_age hv) (rev vs))"
  by (auto simp: sort_vnfcs_def bindE_eq_Inr mapE_key_ages rev_map sort_key_map comp_def split: if_splits)

lemma sort_vnfcs_mset: "sort_vnfcs hv vs = Inr ws \<Longrightarrow> mset ws = mset vs"
  by (drule sort_vnfcs_eq) simp

lemma sort_vnfcs_set: "sort_vnfcs hv vs = Inr ws \<Longrightarrow> set ws = set vs"
  by (drule sort_vnfcs_eq) simp

lemma sort_vnfcs_newest_first:
  assumes "sort_vnfcs hv vs = Inr ws"
  shows "sorted_wrt (\<lambda>v w. vnfc_age hv w \<le> vnfc_age hv v) ws"
proof -
  have "sorted (map (vnfc_age hv) (sort_key (vnfc_age hv) (rev vs)))" by simp
  then have "sorted_wrt (\<lambda>v w. vnfc_age hv v \<le> vnfc_age hv w) (sort_key (vnfc_age hv) (rev vs))"
    by (simp only: sorted_map)
  then show ?thesis by (simp add: sort_vnfcs_eq [OF assms] sorted_wrt_rev)
qed

text \<open>The first elements of a list that is sorted newest first are its youngest.\<close>

lemma take_filter_youngest:
  assumes "sorted_wrt (\<lambda>v w. age w \<le> age v) vs" and "v \<in> set (take n (filter P vs))"
    and "w \<in> set vs" and "P w" and "w \<notin> set (take n (filter P vs))"
  shows "age w \<le> (age v :: 'k :: preorder)"
proof -
  let ?xs = "filter P vs"
  have "sorted_wrt (\<lambda>v w. age w \<le> age v) (take n ?xs @ drop n ?xs)"
    using assms(1) by (simp add: sorted_wrt_filter)
  moreover have "w \<in> set (take n ?xs @ drop n ?xs)" using assms(3,4) by simp
  then have "w \<in> set (drop n ?xs)" using assms(5) by (simp only: set_append) simp
  ultimately show ?thesis using assms(2) by (simp only: sorted_wrt_append)
qed

lemma youngest_of_each:
  assumes "sorted_wrt (\<lambda>v w. age w \<le> age v) vs"
    and "v \<in> set (concat (map (\<lambda>(vdu, d). take (num d) (filter (\<lambda>v. vdu_of v = vdu) vs)) deltas))"
    and "w \<in> set vs" and "vdu_of w = vdu_of v"
    and "w \<notin> set (concat (map (\<lambda>(vdu, d). take (num d) (filter (\<lambda>v. vdu_of v = vdu) vs)) deltas))"
  shows "age w \<le> (age v :: 'k :: preorder)"
proof -
  from assms(2) obtain vdu d where d: "(vdu, d) \<in> set deltas"
    and v: "v \<in> set (take (num d) (filter (\<lambda>v. vdu_of v = vdu) vs))" by auto
  from v have "vdu_of v = vdu" by (auto dest: in_set_takeD)
  with assms(1,3,4,5) d v show ?thesis
    by (intro take_filter_youngest [of age vs v "num d" "\<lambda>v. vdu_of v = vdu" w]) auto
qed

subsection \<open>Linking ports keeps the VNFCs\<close>

text \<open>The part of a VNFC that linking leaves alone.\<close>

definition vnfc_core :: "vnfc_resource \<Rightarrow> vnfc_resource" where
  "vnfc_core v = v\<lparr>vr_vnfcCpInfo := None\<rparr>"

lemma upd_first_map: "(\<And>x. g (f x) = g x) \<Longrightarrow> map g (upd_first P f xs) = map g xs"
  by (induction xs) simp_all

lemma set_vnfc_cp_core: "map vnfc_core (set_vnfc_cp i c f vs) = map vnfc_core vs"
  unfolding set_vnfc_cp_def by (rule upd_first_map) (simp add: vnfc_core_def)

lemma vnfc_core_parts [simp]:
  "vr_id (vnfc_core v) = vr_id v" "vr_vduId (vnfc_core v) = vr_vduId v"
  "vr_computeResource (vnfc_core v) = vr_computeResource v"
  "vr_storageResourceIds (vnfc_core v) = vr_storageResourceIds v" "vr_metadata (vnfc_core v) = vr_metadata v"
  by (simp_all add: vnfc_core_def)

lemma link_vnfc_ext_cp_core:
  "link_vnfc_ext_cp ss ps p (vs, cps) = Inr (vs', cps') \<Longrightarrow> map vnfc_core vs' = map vnfc_core vs \<and> map xci_id cps' = map xci_id cps"
  by (auto simp: link_vnfc_ext_cp_def bindE_eq_Inr set_vnfc_cp_core upd_first_map split: option.splits)

lemma link_vnfc_port_core:
  "link_vnfc_port ss ps p (vs, qs) = Inr (vs', qs') \<Longrightarrow> map vnfc_core vs' = map vnfc_core vs"
  by (auto simp: link_vnfc_port_def bindE_eq_Inr set_vnfc_cp_core split: option.splits)

lemma link_ports_vnfcs:
  assumes "link_ports f vnfcs ext_vls ext_cps vls = Inr l"
  shows "map vnfc_core (lk_vnfcs l) = map vnfc_core vnfcs"
proof -
  from assms obtain ext_ports cps1 vs1 cps2 vs2 xs qs where
    1: "foldE (link_vnfc_ext_cp (sf_servers f) (sf_ports f)) ext_ports (vnfcs, cps1) = Inr (vs1, cps2)" and
    2: "foldE (link_vnfc_port (sf_servers f) (sf_ports f)) xs (vs1, []) = Inr (vs2, qs)" and
    l: "lk_vnfcs l = vs2"
    by (auto simp: link_ports_def bindE_eq_Inr)
  have "(\<lambda>(vs, cps). map vnfc_core vs = map vnfc_core vnfcs) (vs1, cps2)"
    using 1 by (rule foldE_invariant) (auto dest!: link_vnfc_ext_cp_core)
  moreover have "(\<lambda>(vs, qs). map vnfc_core vs = map vnfc_core vs1) (vs2, qs)"
    using 2 by (rule foldE_invariant) (auto dest!: link_vnfc_port_core)
  ultimately show ?thesis by (simp add: l)
qed

subsection \<open>VNFCs and servers\<close>

lemma update_vnfc_metadata_core:
  "update_vnfc_metadata hv st nfv inst v = Inr v' \<Longrightarrow>
   vr_id v' = vr_id v \<and> vr_vduId v' = vr_vduId v \<and> vr_computeResource v' = vr_computeResource v \<and>
   vr_storageResourceIds v' = vr_storageResourceIds v"
  by (auto simp: update_vnfc_metadata_def bindE_eq_Inr Let_def split: option.splits if_splits)

definition server_facts :: "string \<Rightarrow> string \<times> heat_res \<Rightarrow> string \<times> string \<times> resource_handle" where
  "server_facts vim_key = (\<lambda>(i, res). (i, hr_resource_name res, res_to_handle vim_key res))"

definition vnfc_facts :: "vnfc_resource \<Rightarrow> string \<times> string \<times> resource_handle" where
  "vnfc_facts v = (vr_id v, vr_vduId v, vr_computeResource v)"

lemma map_via: "map f xs = map f ys \<Longrightarrow> (\<And>x. g (f x) = g x) \<Longrightarrow> map g xs = map g ys"
  by (metis (no_types, lifting) comp_apply list.map_comp map_eq_conv)

lemma vnfc_facts_core: "map vnfc_core xs = map vnfc_core ys \<Longrightarrow> map vnfc_facts xs = map vnfc_facts ys"
  by (erule map_via) (simp add: vnfc_facts_def)

lemma ball_via: "map f xs = map f ys \<Longrightarrow> \<forall>y \<in> set ys. P (f y) \<Longrightarrow> \<forall>x \<in> set xs. P (f x)"
  by (metis (no_types, lifting) in_set_conv_nth length_map nth_map)

lemma mapE_map_eq:
  "mapE f xs = Inr ys \<Longrightarrow> (\<And>x y. f x = Inr y \<Longrightarrow> h y = g x) \<Longrightarrow> map h ys = map g xs"
  by (induction xs arbitrary: ys) (auto simp: bindE_eq_Inr)

lemma mapE_ball: "mapE f xs = Inr ys \<Longrightarrow> (\<And>x y. f x = Inr y \<Longrightarrow> P y) \<Longrightarrow> \<forall>y \<in> set ys. P y"
  by (induction xs arbitrary: ys) (auto simp: bindE_eq_Inr)

lemma make_vnfcs_facts:
  assumes "make_vnfcs hv vnfd fl key inst nfv reses servers storages infos = Inr vs"
  shows "map vnfc_facts vs = map (server_facts key) servers"
    and "\<forall>v \<in> set vs. set (opt_list (vr_storageResourceIds v)) \<subseteq> fst ` set storages"
proof -
  from assms obtain vs0 vs1 where
    0: "mapE (make_vnfc_res_info key reses) servers = Inr vs0" and
    1: "mapE (attach_parts vnfd fl servers storages) vs0 = Inr vs1" and
    2: "mapE (update_vnfc_metadata hv infos nfv inst) vs1 = Inr vs"
    by (auto simp: make_vnfcs_def bindE_eq_Inr)
  have "map vnfc_facts vs = map vnfc_facts vs1"
    using 2 by (rule mapE_map_eq) (auto simp: vnfc_facts_def dest!: update_vnfc_metadata_core)
  also have "\<dots> = map vnfc_facts vs0"
    using 1 by (rule mapE_map_eq) (auto simp: vnfc_facts_def attach_parts_def bindE_eq_Inr Let_def)
  also have "\<dots> = map (server_facts key) servers"
    using 0 by (rule mapE_map_eq) (auto simp: vnfc_facts_def server_facts_def make_vnfc_res_info_def bindE_eq_Inr)
  finally show "map vnfc_facts vs = map (server_facts key) servers" .
  have "\<forall>v \<in> set vs1. set (opt_list (vr_storageResourceIds v)) \<subseteq> fst ` set storages"
    using 1 by (rule mapE_ball) (auto simp: attach_parts_def bindE_eq_Inr Let_def non_empty_def split: if_splits)
  moreover have "map vr_storageResourceIds vs = map vr_storageResourceIds vs1"
    using 2 by (rule mapE_map_eq) (auto dest!: update_vnfc_metadata_core)
  ultimately show "\<forall>v \<in> set vs. set (opt_list (vr_storageResourceIds v)) \<subseteq> fst ` set storages"
    by (intro ball_via [of vr_storageResourceIds vs vs1 "\<lambda>x. set (opt_list x) \<subseteq> fst ` set storages"])
qed

text \<open>The checked resources: each one with its physical identifier as the key, once.\<close>

lemma fold_dict_set_keys:
  "fst ` set (fold (\<lambda>res d. dict_set (k res) res d) xs d) = k ` set xs \<union> fst ` set d"
  by (induction xs arbitrary: d) (auto simp: update_keys dom_map_of_conv_image_fst [symmetric] simp del: map_of_eq_None_iff)

lemma fold_dict_set_wf: "dict_wf d \<Longrightarrow> dict_wf (fold (\<lambda>res d. dict_set (k res) res d) xs d)"
  by (induction xs arbitrary: d) simp_all

lemma fold_dict_set_items:
  "\<forall>(i, r) \<in> set d. P i r \<Longrightarrow> \<forall>r \<in> set xs. P (k r) r \<Longrightarrow> \<forall>(i, r) \<in> set (fold (\<lambda>res d. dict_set (k res) res d) xs d). P i r"
proof (induction xs arbitrary: d)
  case (Cons x xs)
  have "\<forall>(i, r) \<in> set (dict_set (k x) x d). P i r"
    using Cons.prems subsetD [OF set_dict_set [of "k x" x d]] by auto
  then show ?case using Cons.IH [of "dict_set (k x) x d"] Cons.prems by simp
qed simp

lemma get_checked_reses_wf: "dict_wf (get_checked_reses nodes reses)"
  by (simp add: get_checked_reses_def fold_dict_set_wf)

lemma get_checked_reses_keys:
  "fst ` set (get_checked_reses nodes reses) =
   {hr_physical_resource_id r |r. r \<in> set reses \<and> hr_resource_name r \<in> fst ` set nodes}"
  by (auto simp: get_checked_reses_def fold_dict_set_keys)

lemma get_checked_reses_items:
  assumes "(i, r) \<in> set (get_checked_reses nodes reses)"
  shows "i = hr_physical_resource_id r \<and> r \<in> set reses \<and> hr_resource_name r \<in> fst ` set nodes"
proof -
  let ?P = "\<lambda>i r. i = hr_physical_resource_id r \<and> r \<in> set reses \<and> hr_resource_name r \<in> fst ` set nodes"
  have "\<forall>(i, r) \<in> set (get_checked_reses nodes reses). ?P i r"
    unfolding get_checked_reses_def by (rule fold_dict_set_items) simp_all
  with assms show ?thesis by blast
qed

subsection \<open>Ports and connection points\<close>

text \<open>A port of an external virtual link names a recorded external connection point.\<close>

definition paired :: "link_port \<times> ext_cp_info \<Rightarrow> bool" where
  "paired x = (lp_cpInstanceId (fst x) = Some (xci_id (snd x)))"

definition ports_have_cps :: "ext_vl_info list \<Rightarrow> ext_cp_info list \<Rightarrow> bool" where
  "ports_have_cps vls cps = (\<forall>vl \<in> set vls. \<forall>p \<in> set (opt_list (xvl_extLinkPorts vl)). lp_cpInstanceId p \<in> Some ` xci_id ` set cps)"

lemma ports_have_cps_mono: "ports_have_cps vls cps \<Longrightarrow> xci_id ` set cps \<subseteq> xci_id ` set cps' \<Longrightarrow> ports_have_cps vls cps'"
  by (auto simp: ports_have_cps_def dest!: bspec)

lemma ports_have_cps_append: "ports_have_cps (vls @ vls') cps \<longleftrightarrow> ports_have_cps vls cps \<and> ports_have_cps vls' cps"
  by (auto simp: ports_have_cps_def)

text \<open>Virtual links that come each with the pairs of its ports and connection points.\<close>

lemma ports_have_cps_pairs:
  assumes "\<forall>x \<in> set xs. \<exists>ps. Ball (set ps) paired \<and> snd x = map snd ps \<and>
    (\<forall>vl \<in> set (fst x). set (opt_list (xvl_extLinkPorts vl)) \<subseteq> fst ` set ps)"
  shows "ports_have_cps (concat (map fst xs)) (concat (map snd xs))"
  unfolding ports_have_cps_def
proof (intro ballI)
  fix vl p
  assume "vl \<in> set (concat (map fst xs))" and p: "p \<in> set (opt_list (xvl_extLinkPorts vl))"
  then obtain x where x: "x \<in> set xs" "vl \<in> set (fst x)" by auto
  with assms obtain ps where ps: "Ball (set ps) paired" "snd x = map snd ps"
    and vl: "set (opt_list (xvl_extLinkPorts vl)) \<subseteq> fst ` set ps" by blast
  from vl p obtain c where c: "(p, c) \<in> set ps" by auto
  with ps(1) have "lp_cpInstanceId p = Some (xci_id c)" by (auto simp: paired_def)
  moreover have "c \<in> set (concat (map snd xs))" using x(1) ps(2) c by force
  ultimately show "lp_cpInstanceId p \<in> Some ` xci_id ` set (concat (map snd xs))" by blast
qed

lemma make_link_ports_paired: "Ball (set (make_link_ports vl)) paired"
  by (auto simp: make_link_ports_def make_link_port_def paired_def Let_def)

lemma make_ext_vl_from_req_pairs:
  "fst ` set (make_link_ports vl) = set (opt_list (xvl_extLinkPorts (fst (make_ext_vl_from_req vl))))"
  "snd (make_ext_vl_from_req vl) = map snd (make_link_ports vl)"
  by (simp_all add: make_ext_vl_from_req_def Let_def)

lemma given_vls_pairs:
  "ports_have_cps (map fst (map make_ext_vl_from_req vls)) (concat (map snd (map make_ext_vl_from_req vls)))"
  using ports_have_cps_pairs [of "map (\<lambda>vl. ([fst (make_ext_vl_from_req vl)], snd (make_ext_vl_from_req vl))) vls"]
    make_link_ports_paired make_ext_vl_from_req_pairs by (fastforce simp: comp_def)

lemma concatE_Ball:
  "concatE f xs = Inr ys \<Longrightarrow> (\<And>x zs. f x = Inr zs \<Longrightarrow> Ball (set zs) P) \<Longrightarrow> Ball (set ys) P"
  by (induction xs arbitrary: ys) (auto simp: bindE_eq_Inr)

lemma find_ext_cp_info_paired: "find_ext_cp_info cps p = Inr c \<Longrightarrow> paired (p, c)"
  by (auto simp: find_ext_cp_info_def bindE_eq_Inr paired_def attr_def found_def split: option.splits dest!: find_Some_iff2)

lemma kept_ports_paired: "kept_ports ns cps ps data = Inr xs \<Longrightarrow> Ball (set xs) paired"
  unfolding kept_ports_def by (erule concatE_Ball) (auto simp: bindE_eq_Inr find_ext_cp_info_paired split: if_splits)

lemma stack_ports_dropped_paired: "stack_ports_dropped cps vl = Inr xs \<Longrightarrow> Ball (set xs) paired"
  unfolding stack_ports_dropped_def
  by (erule concatE_Ball) (auto simp: bindE_eq_Inr find_ext_cp_info_paired split: if_splits)

lemma dropped_pairs:
  assumes "bindE (stack_ports_dropped cps vl) (\<lambda>ports.
         Inr (if xvl_extLinkPorts vl = None then vl else vl\<lparr>xvl_extLinkPorts := Some (map fst ports)\<rparr>, map snd ports)) = Inr x"
  shows "\<exists>ps. Ball (set ps) paired \<and> snd x = map snd ps \<and> set (opt_list (xvl_extLinkPorts (fst x))) \<subseteq> fst ` set ps"
proof -
  from assms obtain ps where "stack_ports_dropped cps vl = Inr ps" and
    "x = (if xvl_extLinkPorts vl = None then vl else vl\<lparr>xvl_extLinkPorts := Some (map fst ps)\<rparr>, map snd ps)"
    by (auto simp only: bindE_eq_Inr sum.inject)
  with stack_ports_dropped_paired show ?thesis by (intro exI [of _ ps]) auto
qed

lemma from_inst_have_cps:
  assumes "make_ext_vl_info_from_inst old = Inr (vls, cps)"
  shows "ports_have_cps vls cps"
proof -
  from assms obtain xs where
    xs: "mapE (\<lambda>ext_vl. bindE (stack_ports_dropped (opt_list (iv_extCpInfo old)) ext_vl) (\<lambda>ports.
         Inr (if xvl_extLinkPorts ext_vl = None then ext_vl else ext_vl\<lparr>xvl_extLinkPorts := Some (map fst ports)\<rparr>, map snd ports)))
       (opt_list (iv_extVirtualLinkInfo old)) = Inr xs" and
    r: "vls = map fst xs" "cps = concat (map snd xs)"
    by (auto simp: make_ext_vl_info_from_inst_def bindE_eq_Inr)
  have "\<forall>x \<in> set xs. \<exists>ps. Ball (set ps) paired \<and> snd x = map snd ps \<and> set (opt_list (xvl_extLinkPorts (fst x))) \<subseteq> fst ` set ps"
    using xs by (rule mapE_ball) (rule dropped_pairs)
  then have "ports_have_cps (concat (map fst (map (\<lambda>x. ([fst x], snd x)) xs))) (concat (map snd (map (\<lambda>x. ([fst x], snd x)) xs)))"
    by (intro ports_have_cps_pairs) auto
  then show ?thesis by (simp add: r comp_def)
qed

lemma merge_ext_vl_pairs:
  assumes "merge_ext_vl reqs old vl = Inr x"
  shows "\<exists>ps. Ball (set ps) paired \<and> snd x = map snd ps \<and> (\<forall>v \<in> set (fst x). set (opt_list (xvl_extLinkPorts v)) \<subseteq> fst ` set ps)"
proof -
  let ?req = "find (\<lambda>v. xvd_id v = xvl_id vl) reqs"
  from assms obtain kept data names where k: "kept_ports names old (opt_list (xvl_extLinkPorts vl)) data = Inr kept" and
    x: "snd x = map snd (kept @ (case ?req of None \<Rightarrow> [] | Some v \<Rightarrow> make_link_ports v))"
       "\<forall>v \<in> set (fst x). xvl_extLinkPorts v = Some (map fst (kept @ (case ?req of None \<Rightarrow> [] | Some v \<Rightarrow> make_link_ports v)))"
    by (auto simp: merge_ext_vl_def Let_def bindE_eq_Inr split: if_splits)
  have "Ball (set (kept @ (case ?req of None \<Rightarrow> [] | Some v \<Rightarrow> make_link_ports v))) paired"
    using kept_ports_paired [OF k] make_link_ports_paired by (auto split: option.splits)
  with x show ?thesis by (intro exI [of _ "kept @ (case ?req of None \<Rightarrow> [] | Some v \<Rightarrow> make_link_ports v)"]) auto
qed

lemma from_req_and_inst_have_cps:
  assumes "make_ext_vl_info_from_req_and_inst req grant old = Inr (vls, cps)"
  shows "ports_have_cps vls cps"
proof (cases "given_ext_vls req grant")
  case None
  with assms show ?thesis by (simp add: make_ext_vl_info_from_req_and_inst_def from_inst_have_cps)
next
  case (Some reqs)
  then obtain added merged where
    m: "mapE (merge_ext_vl reqs (opt_list (iv_extCpInfo old))) (opt_list (iv_extVirtualLinkInfo old)) = Inr merged" and
    r: "vls = map fst (map make_ext_vl_from_req added) @ concat (map fst merged)"
       "cps = concat (map snd (map make_ext_vl_from_req added)) @ concat (map snd merged)"
    using assms by (auto simp: make_ext_vl_info_from_req_and_inst_def Let_def bindE_eq_Inr)
  have "\<forall>x \<in> set merged. \<exists>ps. Ball (set ps) paired \<and> snd x = map snd ps \<and>
      (\<forall>v \<in> set (fst x). set (opt_list (xvl_extLinkPorts v)) \<subseteq> fst ` set ps)"
    using m by (rule mapE_ball) (rule merge_ext_vl_pairs)
  then have "ports_have_cps (concat (map fst merged)) (concat (map snd merged))" by (rule ports_have_cps_pairs)
  with given_vls_pairs [of added] show ?thesis
    unfolding r ports_have_cps_append by (auto elim: ports_have_cps_mono)
qed

lemma make_ext_infos_have_cps:
  "make_ext_infos vnfd fl req inst grant op rb = Inr (vls, cps, mgd) \<Longrightarrow> ports_have_cps vls cps"
  using given_vls_pairs [of "opt_list (given_ext_vls req grant)"]
  by (auto simp: make_ext_infos_def bindE_eq_Inr make_ext_vl_info_from_req_def Let_def from_inst_have_cps
    from_req_and_inst_have_cps simp del: map_map split: if_splits)


lemma ports_have_cps_update:
  assumes "ports_have_cps vls cps" and "n < length vls \<Longrightarrow> ports_have_cps [v] cps"
  shows "ports_have_cps (vls[n := v]) cps"
proof (cases "n < length vls")
  case True
  have "set (vls[n := v]) \<subseteq> set ([v] @ vls)" by (simp add: set_update_subset_insert)
  moreover have "ports_have_cps ([v] @ vls) cps" using assms True by (simp only: ports_have_cps_append)
  ultimately show ?thesis unfolding ports_have_cps_def by blast
next
  case False
  with assms(1) show ?thesis by (simp add: list_update_beyond)
qed

lemma link_ext_port_info_have_cps:
  assumes "link_ext_port_info ps p (qs, vls, cps) = Inr (qs', vls', cps')" and "ports_have_cps vls cps"
  shows "ports_have_cps vls' cps'"
proof -
  have mono: "ports_have_cps vls (cps @ [c])" for c using assms(2) by (rule ports_have_cps_mono) auto
  from assms(1) consider (none) c where "vls' = vls" "cps' = cps @ [c]"
    | (some) n c where "cps' = cps @ [c]" "xci_id c = make_cp_info_id (lp_id p)"
        "vls' = vls[n := (vls ! n)\<lparr>xvl_extLinkPorts := add_port (p\<lparr>lp_cpInstanceId := Some (make_cp_info_id (lp_id p))\<rparr>)
          (xvl_extLinkPorts (vls ! n))\<rparr>]"
    by (auto simp: link_ext_port_info_def bindE_eq_Inr Let_def split: option.splits)
  then show ?thesis
  proof cases
    case none
    with mono show ?thesis by simp
  next
    case some
    let ?vl = "(vls ! n)\<lparr>xvl_extLinkPorts := add_port (p\<lparr>lp_cpInstanceId := Some (make_cp_info_id (lp_id p))\<rparr>)
      (xvl_extLinkPorts (vls ! n))\<rparr>"
    have "n < length vls \<Longrightarrow> ports_have_cps [?vl] cps'"
      using bspec [OF mono [of c, unfolded ports_have_cps_def] nth_mem] some(1,2) by (simp add: ports_have_cps_def add_port_def)
    with mono [of c] show ?thesis unfolding some(3) by (intro ports_have_cps_update) (simp_all add: some(1))
  qed
qed

lemma link_ports_have_cps:
  assumes "link_ports f vnfcs vls cps xs = Inr l" and "ports_have_cps vls cps"
  shows "ports_have_cps (lk_ext_vls l) (lk_ext_cps l)"
proof -
  from assms(1) obtain ys ext_ports vls1 cps1 vs1 cps2 where
    1: "foldE (link_ext_port_info (sf_ports f)) ys ([], vls, cps) = Inr (ext_ports, vls1, cps1)" and
    2: "foldE (link_vnfc_ext_cp (sf_servers f) (sf_ports f)) ext_ports (vnfcs, cps1) = Inr (vs1, cps2)" and
    l: "lk_ext_vls l = vls1" "lk_ext_cps l = cps2"
    by (auto simp: link_ports_def bindE_eq_Inr)
  have "(\<lambda>(qs, vls, cps). ports_have_cps vls cps) (ext_ports, vls1, cps1)"
    using 1 by (rule foldE_invariant) (use assms(2) in \<open>auto dest: link_ext_port_info_have_cps\<close>)
  moreover have "(\<lambda>(vs, cps). map xci_id cps = map xci_id cps1) (vs1, cps2)"
    using 2 by (rule foldE_invariant) (auto dest!: link_vnfc_ext_cp_core)
  then have "map xci_id cps2 = map xci_id cps1" by simp
  then have "xci_id ` set cps2 = xci_id ` set cps1" by (metis set_map)
  ultimately show ?thesis by (auto simp: l elim: ports_have_cps_mono)
qed

subsection \<open>What is recorded\<close>

lemma old_vnfc_info_id: "old_vnfc_info i cs = Inr (Some c) \<Longrightarrow> ci_vnfcResourceInfoId c = Some i"
  by (induction cs) (auto simp: bindE_eq_Inr attr_def split: if_splits option.splits)

lemma make_vnfc_info_id_of: "make_vnfc_info inst old v = Inr c \<Longrightarrow> ci_vnfcResourceInfoId c = Some (vr_id v)"
  by (auto simp: make_vnfc_info_def bindE_eq_Inr split: option.splits dest!: old_vnfc_info_id)

lemma new_storage_info_id: "new_storage_info key x = Inr s \<Longrightarrow> vs_id s = fst x"
  by (auto simp: new_storage_info_def bindE_eq_Inr split: prod.splits)

lemma vnfc_facts_ids:
  assumes "map vnfc_facts vs = map (server_facts key) servers"
  shows "map vr_id vs = map fst servers"
proof -
  from assms have "map fst (map vnfc_facts vs) = map fst (map (server_facts key) servers)" by simp
  then show ?thesis by (simp add: comp_def vnfc_facts_def server_facts_def case_prod_beta)
qed

lemma make_info_elim:
  assumes "make_instantiated_vnf_info hv req inst gq grant vnfd rb sid = Inr inst1"
  obtains f storage_infos vnfcs ext_vls ext_cps mgd vls l sorted_vnfcs vnfc_infos info where
    "read_stack hv req inst (gq_operation gq) vnfd sid = Inr f"
    "mapE (new_storage_info (sf_vim_key f)) (sf_storages f) = Inr storage_infos"
    "make_vnfcs hv vnfd (JStr (sf_flavour_id f)) (sf_vim_key f) inst (sf_nfv f) (sf_heat_reses f) (sf_servers f)
       (sf_storages f) storage_infos = Inr vnfcs"
    "make_ext_infos vnfd (JStr (sf_flavour_id f)) req inst grant (gq_operation gq) rb = Inr (ext_vls, ext_cps, mgd)"
    "link_ports f vnfcs ext_vls ext_cps vls = Inr l"
    "sort_vnfcs hv (lk_vnfcs l) = Inr sorted_vnfcs"
    "map ci_vnfcResourceInfoId vnfc_infos = map (Some \<circ> vr_id) sorted_vnfcs"
    "in_instantiatedVnfInfo inst1 = Some info"
    "opt_list (iv_virtualStorageResourceInfo info) = storage_infos" "opt_list (iv_vnfcResourceInfo info) = sorted_vnfcs"
    "opt_list (iv_vnfcInfo info) = vnfc_infos" "opt_list (iv_extVirtualLinkInfo info) = lk_ext_vls l"
    "opt_list (iv_extCpInfo info) = lk_ext_cps l"
proof -
  let ?old = "opt_list (case in_instantiatedVnfInfo inst of None \<Rightarrow> None | Some i \<Rightarrow> iv_vnfcInfo i)"
  from assms obtain f storage_infos vnfcs ext_vls ext_cps mgd l sorted_vnfcs vnfc_infos access where
    parts: "read_stack hv req inst (gq_operation gq) vnfd sid = Inr f"
    "mapE (new_storage_info (sf_vim_key f)) (sf_storages f) = Inr storage_infos"
    "make_vnfcs hv vnfd (JStr (sf_flavour_id f)) (sf_vim_key f) inst (sf_nfv f) (sf_heat_reses f) (sf_servers f)
       (sf_storages f) storage_infos = Inr vnfcs"
    "make_ext_infos vnfd (JStr (sf_flavour_id f)) req inst grant (gq_operation gq) rb = Inr (ext_vls, ext_cps, mgd)"
    "link_ports f vnfcs ext_vls ext_cps (map (new_vl_info (sf_vim_key f)) (sf_networks f) @ mgd) = Inr l"
    "sort_vnfcs hv (lk_vnfcs l) = Inr sorted_vnfcs" and
    infos: "mapE (make_vnfc_info inst ?old) sorted_vnfcs = Inr vnfc_infos" and
    inst1: "inst1 = inst\<lparr>in_instantiatedVnfInfo := Some ((new_inst_vnf_info (sf_flavour_id f) STARTED)\<lparr>
         iv_virtualStorageResourceInfo := non_empty storage_infos, iv_vnfcResourceInfo := non_empty sorted_vnfcs,
         iv_vnfVirtualLinkResourceInfo := non_empty (take (length (map (new_vl_info (sf_vim_key f)) (sf_networks f))) (lk_vls l)),
         iv_extVirtualLinkInfo := non_empty (lk_ext_vls l),
         iv_extManagedVirtualLinkInfo := non_empty (drop (length (map (new_vl_info (sf_vim_key f)) (sf_networks f))) (lk_vls l)),
         iv_extCpInfo := non_empty (lk_ext_cps l), iv_vnfcInfo := non_empty vnfc_infos,
         iv_metadata := Some (kept_metadata inst f access)\<rparr>)\<rparr>"
    unfolding make_instantiated_vnf_info_def Let_def
    by (simp only: bindE_eq_Inr sum.inject split_paired_Ex case_prod_conv) blast
  have "map ci_vnfcResourceInfoId vnfc_infos = map (Some \<circ> vr_id) sorted_vnfcs"
    using infos by (rule mapE_map_eq) (simp add: make_vnfc_info_id_of)
  with parts show ?thesis by (rule that) (simp add: inst1, simp_all add: new_inst_vnf_info_def)
qed


lemma linked_vnfc_facts:
  assumes "make_vnfcs hv vnfd fl key inst nfv reses servers storages infos = Inr vnfcs"
    and "link_ports f vnfcs ext_vls ext_cps vls = Inr l"
  shows "map vnfc_facts (lk_vnfcs l) = map (server_facts key) servers"
  using vnfc_facts_core [OF link_ports_vnfcs [OF assms(2)]] make_vnfcs_facts(1) [OF assms(1)] by simp

lemma linked_vnfcs_are_servers:
  assumes vs: "make_vnfcs hv vnfd fl key inst nfv reses (sf_servers f) (sf_storages f) infos = Inr vnfcs"
    and l: "link_ports f vnfcs ext_vls ext_cps vls = Inr l"
    and st: "mapE (new_storage_info key) (sf_storages f) = Inr storage_infos"
    and servers: "sf_servers f = get_checked_reses vdus (get_server_reses (sf_heat_reses f))"
  shows "\<forall>v \<in> set (lk_vnfcs l). \<exists>r \<in> set (sf_heat_reses f). vr_id v = hr_physical_resource_id r \<and>
    vr_vduId v = hr_resource_name r \<and> vr_computeResource v = res_to_handle key r \<and>
    set (opt_list (vr_storageResourceIds v)) \<subseteq> vs_id ` set storage_infos"
proof
  fix v assume v: "v \<in> set (lk_vnfcs l)"
  from linked_vnfc_facts [OF vs l] v have "vnfc_facts v \<in> server_facts key ` set (sf_servers f)" by (metis imageI set_map)
  moreover have "\<forall>v \<in> set (lk_vnfcs l). set (opt_list (vr_storageResourceIds (vnfc_core v))) \<subseteq> fst ` set (sf_storages f)"
    using link_ports_vnfcs [OF l] by (rule ball_via) (simp add: make_vnfcs_facts(2) [OF vs])
  moreover have "map vs_id storage_infos = map fst (sf_storages f)" using st by (rule mapE_map_eq) (rule new_storage_info_id)
  then have "vs_id ` set storage_infos = fst ` set (sf_storages f)" by (metis set_map)
  ultimately show "\<exists>r \<in> set (sf_heat_reses f). vr_id v = hr_physical_resource_id r \<and>
    vr_vduId v = hr_resource_name r \<and> vr_computeResource v = res_to_handle key r \<and>
    set (opt_list (vr_storageResourceIds v)) \<subseteq> vs_id ` set storage_infos"
    using v by (auto simp: vnfc_facts_def server_facts_def servers get_server_reses_def get_reses_by_types_def
      dest!: get_checked_reses_items)
qed

lemma linked_ids:
  assumes "make_vnfcs hv vnfd fl key inst nfv reses (sf_servers f) storages infos = Inr vnfcs"
    and "link_ports f vnfcs ext_vls ext_cps vls = Inr l" and "sort_vnfcs hv (lk_vnfcs l) = Inr sorted_vnfcs"
  shows "mset (map vr_id sorted_vnfcs) = mset (map fst (sf_servers f))"
  using sort_vnfcs_mset [OF assms(3)] vnfc_facts_ids [OF linked_vnfc_facts [OF assms(1,2)]] by (metis mset_map)

lemma read_stack_servers:
  assumes "read_stack hv req inst op vnfd sid = Inr f"
  obtains vdus where "get_vdu_nodes vnfd (JStr (sf_flavour_id f)) = Inr vdus"
    and "sf_servers f = get_checked_reses vdus (get_server_reses (sf_heat_reses f))"
  using assms by (auto simp: read_stack_def bindE_eq_Inr split: prod.splits)

lemma recorded_order:
  assumes "make_instantiated_vnf_info hv req inst gq grant vnfd rb sid = Inr inst1" and "in_instantiatedVnfInfo inst1 = Some info"
  shows "distinct (map vr_id (opt_list (iv_vnfcResourceInfo info)))"
    and "sorted_wrt (\<lambda>v w. vnfc_age hv w \<le> vnfc_age hv v) (opt_list (iv_vnfcResourceInfo info))"
    and "\<forall>v \<in> set (opt_list (iv_vnfcResourceInfo info)). \<exists>k. vnfc_key hv v = Inr k"
    and "\<forall>v \<in> set (opt_list (iv_vnfcResourceInfo info)). rh_resourceId (vr_computeResource v) = vr_id v"
proof -
  from assms(1) obtain f storages vnfcs ext_vls ext_cps vls l where
    f: "read_stack hv req inst (gq_operation gq) vnfd sid = Inr f" and
    vs: "make_vnfcs hv vnfd (JStr (sf_flavour_id f)) (sf_vim_key f) inst (sf_nfv f) (sf_heat_reses f) (sf_servers f)
       (sf_storages f) storages = Inr vnfcs" and
    l: "link_ports f vnfcs ext_vls ext_cps vls = Inr l" and
    srt: "sort_vnfcs hv (lk_vnfcs l) = Inr (opt_list (iv_vnfcResourceInfo info))"
    using assms(2) by (auto elim!: make_info_elim)
  from f obtain vdus where "sf_servers f = get_checked_reses vdus (get_server_reses (sf_heat_reses f))"
    by (rule read_stack_servers)
  with get_checked_reses_wf show "distinct (map vr_id (opt_list (iv_vnfcResourceInfo info)))"
    by (simp add: mset_eq_imp_distinct_iff [OF linked_ids [OF vs l srt]])
  from srt show "sorted_wrt (\<lambda>v w. vnfc_age hv w \<le> vnfc_age hv v) (opt_list (iv_vnfcResourceInfo info))"
    by (rule sort_vnfcs_newest_first)
  from srt obtain keys where "mapE (vnfc_key hv) (lk_vnfcs l) = Inr keys" by (auto simp: sort_vnfcs_def bindE_eq_Inr)
  then show "\<forall>v \<in> set (opt_list (iv_vnfcResourceInfo info)). \<exists>k. vnfc_key hv v = Inr k"
    unfolding sort_vnfcs_set [OF srt] by (metis (no_types, lifting) in_set_conv_nth mapE_eq_Inr)
  have "vnfc_facts v \<in> server_facts (sf_vim_key f) ` set (sf_servers f)" if "v \<in> set (lk_vnfcs l)" for v
    using linked_vnfc_facts [OF vs l] that by (metis imageI set_map)
  then show "\<forall>v \<in> set (opt_list (iv_vnfcResourceInfo info)). rh_resourceId (vr_computeResource v) = vr_id v"
    unfolding sort_vnfcs_set [OF srt] \<open>sf_servers f = get_checked_reses vdus (get_server_reses (sf_heat_reses f))\<close>
    by (force simp: vnfc_facts_def server_facts_def res_to_handle_def dest: get_checked_reses_items)
qed

text \<open>
  C11: What an operation records of its stack is what the stack has. The recorded VNFCs are the
  servers of the stack whose names are VDUs of the flavour, each one once, with its name as the VDU
  and with its compute resource handle; the i-th \<^verbatim>\<open>vnfcInfo\<close> belongs to the i-th VNFC; the storages of a VNFC are
  recorded; the ports of the external virtual links name recorded external connection points.
\<close>

theorem recorded_info_is_the_stack:
  assumes "make_instantiated_vnf_info hv req inst gq grant vnfd rb sid = Inr inst1"
  shows "\<exists>f info vdus. read_stack hv req inst (gq_operation gq) vnfd sid = Inr f \<and>
    get_vdu_nodes vnfd (JStr (sf_flavour_id f)) = Inr vdus \<and> in_instantiatedVnfInfo inst1 = Some info \<and>
    distinct (map vr_id (opt_list (iv_vnfcResourceInfo info))) \<and>
    vr_id ` set (opt_list (iv_vnfcResourceInfo info)) = hr_physical_resource_id `
      {r \<in> set (sf_heat_reses f). hr_resource_type r = ''OS::Nova::Server'' \<and> hr_resource_name r \<in> fst ` set vdus} \<and>
    (\<forall>v \<in> set (opt_list (iv_vnfcResourceInfo info)). \<exists>r \<in> set (sf_heat_reses f).
      vr_id v = hr_physical_resource_id r \<and> vr_vduId v = hr_resource_name r \<and>
      vr_computeResource v = res_to_handle (sf_vim_key f) r \<and>
      set (opt_list (vr_storageResourceIds v)) \<subseteq> vs_id ` set (opt_list (iv_virtualStorageResourceInfo info))) \<and>
    map ci_vnfcResourceInfoId (opt_list (iv_vnfcInfo info)) = map (Some \<circ> vr_id) (opt_list (iv_vnfcResourceInfo info)) \<and>
    ports_have_cps (opt_list (iv_extVirtualLinkInfo info)) (opt_list (iv_extCpInfo info))"
  using assms
proof (rule make_info_elim)
  fix f storage_infos vnfcs ext_vls ext_cps mgd vls l sorted_vnfcs vnfc_infos info
  assume f: "read_stack hv req inst (gq_operation gq) vnfd sid = Inr f"
    and st: "mapE (new_storage_info (sf_vim_key f)) (sf_storages f) = Inr storage_infos"
    and vs: "make_vnfcs hv vnfd (JStr (sf_flavour_id f)) (sf_vim_key f) inst (sf_nfv f) (sf_heat_reses f) (sf_servers f)
       (sf_storages f) storage_infos = Inr vnfcs"
    and ext: "make_ext_infos vnfd (JStr (sf_flavour_id f)) req inst grant (gq_operation gq) rb = Inr (ext_vls, ext_cps, mgd)"
    and l: "link_ports f vnfcs ext_vls ext_cps vls = Inr l"
    and srt: "sort_vnfcs hv (lk_vnfcs l) = Inr sorted_vnfcs"
    and ci: "map ci_vnfcResourceInfoId vnfc_infos = map (Some \<circ> vr_id) sorted_vnfcs"
    and info: "in_instantiatedVnfInfo inst1 = Some info"
      "opt_list (iv_virtualStorageResourceInfo info) = storage_infos" "opt_list (iv_vnfcResourceInfo info) = sorted_vnfcs"
      "opt_list (iv_vnfcInfo info) = vnfc_infos" "opt_list (iv_extVirtualLinkInfo info) = lk_ext_vls l"
      "opt_list (iv_extCpInfo info) = lk_ext_cps l"
  from f obtain vdus where vdus: "get_vdu_nodes vnfd (JStr (sf_flavour_id f)) = Inr vdus"
    and servers: "sf_servers f = get_checked_reses vdus (get_server_reses (sf_heat_reses f))" by (rule read_stack_servers)
  have "distinct (map vr_id sorted_vnfcs)" using recorded_order(1) [OF assms info(1)] by (simp only: info)
  moreover have "vr_id ` set sorted_vnfcs = hr_physical_resource_id `
      {r \<in> set (sf_heat_reses f). hr_resource_type r = ''OS::Nova::Server'' \<and> hr_resource_name r \<in> fst ` set vdus}"
    using mset_eq_setD [OF linked_ids [OF vs l srt]]
    by (simp add: servers get_checked_reses_keys get_server_reses_def get_reses_by_types_def) blast
  moreover have "\<forall>v \<in> set sorted_vnfcs. \<exists>r \<in> set (sf_heat_reses f).
      vr_id v = hr_physical_resource_id r \<and> vr_vduId v = hr_resource_name r \<and>
      vr_computeResource v = res_to_handle (sf_vim_key f) r \<and> set (opt_list (vr_storageResourceIds v)) \<subseteq> vs_id ` set storage_infos"
    using linked_vnfcs_are_servers [OF vs l st servers] by (simp add: sort_vnfcs_set [OF srt])
  moreover have "ports_have_cps (lk_ext_vls l) (lk_ext_cps l)"
    using l make_ext_infos_have_cps [OF ext] by (rule link_ports_have_cps)
  ultimately show ?thesis using f vdus ci
    by (intro exI [of _ f] exI [of _ info] exI [of _ vdus] conjI) (simp_all only: info)
qed


subsection \<open>An example stack\<close>

text \<open>Two servers, with a volume and a port at the second one.\<close>

definition ex_heat_vnfd :: vnfd where
  "ex_heat_vnfd = ex_vnfd\<lparr>vd_definitions := [(''f.yaml'', JObj [(''topology_template'', JObj [
        (''substitution_mappings'', JObj [(''properties'', JObj [(''flavour_id'', JStr ''fl'')])]),
        (''node_templates'', JObj [(''V'', JObj [(''type'', JStr ''tosca.nodes.nfv.Vdu.Compute'')]),
          (''S'', JObj [(''type'', JStr ''tosca.nodes.nfv.Vdu.VirtualBlockStorage'')]),
          (''C'', JObj [(''type'', JStr ''tosca.nodes.nfv.VduCp''),
             (''requirements'', JArr [JObj [(''virtual_binding'', JStr ''V'')]])])]),
        (''policies'', ex_policies)])])]\<rparr>"

definition ex_res :: "string \<Rightarrow> string \<Rightarrow> string \<Rightarrow> string option \<Rightarrow> heat_res" where
  "ex_res n i ty parent = \<lparr>hr_resource_name = n, hr_physical_resource_id = i, hr_resource_type = ty, hr_creation_time = i,
     hr_parent_resource = parent, hr_required_by = Some [''V''], hr_links = None\<rparr>"

definition ex_hv :: heat_view where
  "ex_hv = \<lparr>hv_resources = (\<lambda>_. Inr [ex_res ''V-0'' ''p0'' ''V.yaml'' None, ex_res ''V-1'' ''p1'' ''V.yaml'' None,
       ex_res ''V'' ''s0'' ''OS::Nova::Server'' (Some ''V-0''), ex_res ''V'' ''s1'' ''OS::Nova::Server'' (Some ''V-1''),
       ex_res ''S'' ''v1'' ''OS::Cinder::Volume'' (Some ''V-1''), ex_res ''C'' ''c1'' ''OS::Neutron::Port'' (Some ''V-1'')]),
     hv_parameters = (\<lambda>_. Inr [(''nfv'', ''nfv'')]), hv_template = (\<lambda>_. Inr JNull),
     hv_loads = (\<lambda>_. Inr (JObj [(''VDU'', JObj [])])), hv_isoparse = (\<lambda>t. Inr (int (length t)))\<rparr>"

definition ex_heat_req :: op_params where
  "ex_heat_req = empty_params\<lparr>rq_flavourId := Some ''fl'', rq_extVirtualLinks := Some [\<lparr>xvd_id = ''ext'', xvd_vimConnectionId = None,
     xvd_resourceProviderId = None, xvd_resourceId = ''net'', xvd_extCps = [\<lparr>xcd_cpdId = ''C'', xcd_cpConfig = []\<rparr>],
     xvd_extLinkPorts = None\<rparr>]\<rparr>"

definition ex_gq :: "op_type \<Rightarrow> grant_request" where
  "ex_gq op = grant_request_common ex_env (ex_occ op ex_heat_req STARTING) ex_inst"

definition ex_grant :: grant where
  "ex_grant = \<lparr>gr_id = ''g'', gr_vnfInstanceId = ''inst'', gr_vnfLcmOpOccId = ''occ'', gr_vimConnectionInfo = None, gr_zones = None,
     gr_addResources = None, gr_computeResourceFlavours = None, gr_softwareImages = None, gr_extVirtualLinks = None,
     gr_extManagedVirtualLinks = None, gr_additionalParams = None\<rparr>"

definition ex_recorded :: "vnf_instance pyres" where
  "ex_recorded = make_instantiated_vnf_info ex_hv ex_heat_req ex_inst (ex_gq INSTANTIATE) ex_grant ex_heat_vnfd False (Some ''id'')"

definition ex_recorded_info :: inst_vnf_info where
  "ex_recorded_info = (case ex_recorded of Inr i \<Rightarrow> (case in_instantiatedVnfInfo i of Some info \<Rightarrow> info | None \<Rightarrow> ex_info) | Inl _ \<Rightarrow> ex_info)"

lemma ex_recorded_returns:
  "\<exists>inst1. ex_recorded = Inr inst1 \<and> in_instantiatedVnfInfo inst1 = Some ex_recorded_info"
proof -
  have "(case ex_recorded of Inl _ \<Rightarrow> False | Inr i \<Rightarrow> in_instantiatedVnfInfo i \<noteq> None)" by code_simp
  then obtain i info where "ex_recorded = Inr i" "in_instantiatedVnfInfo i = Some info" by (auto split: sum.split_asm)
  then show ?thesis unfolding ex_recorded_info_def by (metis (no_types, lifting) option.case(2) sum.case(2))
qed

lemma ex_recorded_vnfcs:
  "map (\<lambda>v. (vr_id v, rh_resourceId (vr_computeResource v), vr_storageResourceIds v)) (opt_list (iv_vnfcResourceInfo ex_recorded_info)) =
    [(''s1'', ''s1'', Some [''v1'']), (''s0'', ''s0'', None)]"
  "map vnfc_facts (opt_list (iv_vnfcResourceInfo ex_recorded_info)) =
    [(''s1'', ''V'', res_to_handle ''vim'' (ex_res ''V'' ''s1'' ''OS::Nova::Server'' None)),
     (''s0'', ''V'', res_to_handle ''vim'' (ex_res ''V'' ''s0'' ''OS::Nova::Server'' None))]"
  "map (map_option length \<circ> xvl_extLinkPorts) (opt_list (iv_extVirtualLinkInfo ex_recorded_info)) = [Some 1]"
  "iv_flavourId ex_recorded_info = ''fl''"
  by code_simp+

theorem recorded_info_is_the_stack_witness:
  "\<exists>inst1. make_instantiated_vnf_info ex_hv ex_heat_req ex_inst (ex_gq INSTANTIATE) ex_grant ex_heat_vnfd False (Some ''id'') = Inr inst1 \<and>
    (\<exists>info. in_instantiatedVnfInfo inst1 = Some info \<and> map vr_id (opt_list (iv_vnfcResourceInfo info)) = [''s1'', ''s0''] \<and>
      map ci_vnfcResourceInfoId (opt_list (iv_vnfcInfo info)) = [Some ''s1'', Some ''s0''] \<and>
      ports_have_cps (opt_list (iv_extVirtualLinkInfo info)) (opt_list (iv_extCpInfo info)) \<and>
      opt_list (iv_extVirtualLinkInfo info) \<noteq> [])"
proof -
  from ex_recorded_returns obtain inst1 where
    1: "make_instantiated_vnf_info ex_hv ex_heat_req ex_inst (ex_gq INSTANTIATE) ex_grant ex_heat_vnfd False (Some ''id'') = Inr inst1"
    and 2: "in_instantiatedVnfInfo inst1 = Some ex_recorded_info" by (auto simp: ex_recorded_def)
  have "map vr_id (opt_list (iv_vnfcResourceInfo ex_recorded_info)) = [''s1'', ''s0'']"
    using arg_cong [OF ex_recorded_vnfcs(1), of "map fst"] by (simp add: comp_def)
  with recorded_info_is_the_stack [OF 1] 2 show ?thesis
    using ex_recorded_vnfcs(3) 1 by (auto simp flip: map_map)
qed

subsection \<open>Scale in\<close>

lemma filter_parts:
  assumes "distinct (map fst deltas)" and "(k, d) \<in> set deltas"
  shows "filter (\<lambda>v. g v = k) (concat (map (\<lambda>(k, d). take (num d) (filter (\<lambda>v. g v = k) vs)) deltas)) =
    take (num d) (filter (\<lambda>v. g v = k) vs)"
proof -
  have none: "filter (\<lambda>v. g v = k) (concat (map (\<lambda>(k, d). take (num d) (filter (\<lambda>v. g v = k) vs)) ds)) = []"
    if "k \<notin> fst ` set ds" for ds using that by (force simp: filter_empty_conv dest!: in_set_takeD)
  have all: "filter (\<lambda>v. g v = k) (take n (filter (\<lambda>v. g v = k) vs)) = take n (filter (\<lambda>v. g v = k) vs)" for n
    by (rule filter_True) (auto dest!: in_set_takeD)
  from split_list [OF assms(2)] obtain as bs where ds: "deltas = as @ (k, d) # bs" by blast
  with assms(1) have "k \<notin> fst ` set as" "k \<notin> fst ` set bs" by auto
  with none show ?thesis by (simp add: ds all)
qed

lemma distinct_parts:
  assumes "distinct (map fst deltas)" and "distinct (map f vs)"
  shows "distinct (map f (concat (map (\<lambda>(k, d). take (num d) (filter (\<lambda>v. g v = k) vs)) deltas)))"
  using assms(1)
proof (induction deltas)
  case (Cons x ds)
  obtain k d where x: "x = (k, d)" by (cases x)
  let ?part = "take (num d) (filter (\<lambda>v. g v = k) vs)"
  let ?rest = "concat (map (\<lambda>(k, d). take (num d) (filter (\<lambda>v. g v = k) vs)) ds)"
  have inj: "inj_on f (set vs)" using assms(2) by (simp add: distinct_map)
  have part: "v \<in> set vs \<and> g v = k" if "v \<in> set ?part" for v using in_set_takeD [OF that] by simp
  have rest: "v \<in> set vs \<and> g v \<noteq> k" if "v \<in> set ?rest" for v
    using that Cons.prems x by (force dest!: in_set_takeD)
  have "distinct (map f ?part)" using assms(2) by (simp add: take_map [symmetric] distinct_map_filter2)
  moreover have "distinct (map f ?rest)" using Cons by simp
  moreover have "f ` set ?part \<inter> f ` set ?rest = {}"
  proof (rule equals0I)
    fix y assume "y \<in> f ` set ?part \<inter> f ` set ?rest"
    then obtain v w where "v \<in> set ?part" "w \<in> set ?rest" "f v = f w" by blast
    with part [of v] rest [of w] inj_onD [OF inj, of v w] show False by blast
  qed
  ultimately show ?case using x by simp
qed simp




definition ex_scaled :: vnf_instance where
  "ex_scaled = ex_inst\<lparr>in_instantiatedVnfInfo := Some ex_recorded_info\<rparr>"


end
