(* ===== verification/Heat_Retry.thy ===== *)
theory Heat_Retry
  imports Heat_Driver Example_Data
begin

section \<open>Trying again in other zones\<close>

text \<open>
  \<^verbatim>\<open>_update_stack_retry\<close> sends a request to Heat again when a zone has no room. Here is what its
  sequence of requests looks like, for any Heat whose state has a log of the requests that were
  sent and of their answers.
\<close>

type_synonym heat_log = "(heat_fields \<times> (exn + unit)) list"

text \<open>The zone that a request gives to a VDU, and the zone that an answer reports as failed.\<close>

definition requested_zone :: "heat_fields \<Rightarrow> string \<Rightarrow> json pyres" where
  "requested_zone flds vdu_id = bindE (nfv_of flds) (\<lambda>nfv. bindE (jitem nfv ''VDU'') (\<lambda>vdus.
     vdu_entry vdus vdu_id ''locationConstraints''))"

definition reported_zone :: "heat_fields \<Rightarrow> exn + unit \<Rightarrow> json option" where
  "reported_zone flds ans = (case ans of
      Inl (Sol (StackOperationFailed t d)) \<Rightarrow> (case search_vdu d of
         None \<Rightarrow> None | Some vdu_id \<Rightarrow> (case requested_zone flds vdu_id of Inr z \<Rightarrow> Some z | Inl _ \<Rightarrow> None))
    | _ \<Rightarrow> None)"

definition avoids :: "string list \<Rightarrow> json \<Rightarrow> heat_fields \<Rightarrow> bool" where
  "avoids vdu_ids z flds = (\<forall>v \<in> set vdu_ids. requested_zone flds v \<noteq> Inr z)"

definition avoids_failed :: "string list \<Rightarrow> heat_log \<Rightarrow> bool" where
  "avoids_failed vdu_ids = sorted_wrt (\<lambda>(flds, ans) (flds', ans'). \<forall>z. reported_zone flds ans = Some z \<longrightarrow> avoids vdu_ids z flds')"

subsection \<open>Zones of a request\<close>

lemma nfv_of_set_nfv [simp]: "nfv_of (set_nfv nfv flds) = Inr nfv"
  by (simp add: nfv_of_def set_nfv_def dict_item_def)

lemma nfv_of_sent [simp]: "nfv_of (sent_fields ho flds) = nfv_of flds"
  by (simp add: nfv_of_def sent_fields_def with_rollback_def dict_item_def)

lemma requested_zone_sent [simp]:
  "requested_zone (sent_fields ho (set_vdus vdus flds)) v = vdu_entry vdus v ''locationConstraints''"
  by (simp add: requested_zone_def set_vdus_def)

lemma map_of_mapE:
  assumes "mapE (\<lambda>(k, x). bindE (f k x) (\<lambda>y. Inr (k, y))) d = Inr d'"
  shows "case map_of d k of None \<Rightarrow> map_of d' k = None | Some x \<Rightarrow> \<exists>y. f k x = Inr y \<and> map_of d' k = Some y"
  using assms by (induction d arbitrary: d') (auto simp: bindE_eq_Inr split: option.splits)

lemma jget_Inr: "jget j k d = Inr x \<Longrightarrow> \<exists>ps. j = JObj ps"
  by (cases j) simp_all

text \<open>A VDU that moves leaves the failed zone for the new one; the others stay.\<close>

lemma move_vdus_zone:
  assumes "move_vdus vdu_ids failed_zone new_zone vdu_dict = Inr vdu_dict'" and "v \<in> set vdu_ids"
    and "vdu_entry vdu_dict' v ''locationConstraints'' = Inr z"
  shows "z = new_zone \<or> (z \<noteq> failed_zone \<or> z = JNull) \<and> vdu_entry vdu_dict v ''locationConstraints'' = Inr z"
proof -
  let ?f = "\<lambda>vdu_id parameters. if vdu_id \<notin> set vdu_ids then Inr parameters
    else bindE (jget parameters ''locationConstraints'' JNull) (\<lambda>z.
      Inr (if z = failed_zone then JObj (dict_set ''locationConstraints'' new_zone (obj_items parameters)) else parameters))"
  from assms(1) obtain vdus vdus' where d: "vdu_dict = JObj vdus" "vdu_dict' = JObj vdus'" and
    "mapE (\<lambda>(vdu_id, parameters). bindE (?f vdu_id parameters) (\<lambda>y. Inr (vdu_id, y))) vdus = Inr vdus'"
    by (cases vdu_dict) (auto simp: move_vdus_def bindE_eq_Inr bindE_assoc if_distrib [of "\<lambda>m. bindE m _"] cong: if_cong)
  then have m: "case map_of vdus v of None \<Rightarrow> map_of vdus' v = None | Some x \<Rightarrow> \<exists>y. ?f v x = Inr y \<and> map_of vdus' v = Some y"
    by (intro map_of_mapE)
  show ?thesis
  proof (cases "map_of vdus v")
    case None
    with m assms(3) show ?thesis by (simp add: d vdu_entry_def)
  next
    case (Some x)
    with m assms(2) show ?thesis using assms(3)
      by (cases x) (auto simp: d vdu_entry_def bindE_eq_Inr split: if_splits option.splits)
  qed
qed

lemma next_zone_fresh:
  assumes "next_zone ho zones exclude failed = Some z" and "\<And>zs. zs \<noteq> [] \<Longrightarrow> ho_pick ho zs \<in> set zs"
  shows "z \<notin> set failed"
  using assms(1) assms(2) [of "filter (\<lambda>z. z \<notin> set exclude \<and> z \<notin> set failed) zones"]
    assms(2) [of "filter (\<lambda>z. z \<notin> set failed) exclude"]
  by (auto simp: next_zone_def Let_def split: if_splits)

lemma failed_zone_reported:
  "check_and_get_failed_zone ho d vdus = Inr (Some (v, z)) \<Longrightarrow>
    z \<noteq> JNull \<and> search_vdu d = Some v \<and> vdu_entry vdus v ''locationConstraints'' = Inr z"
  by (auto simp: check_and_get_failed_zone_def bindE_eq_Inr split: if_splits option.splits)

subsection \<open>The sequence of requests\<close>

lemma not_stack_failure:
  "\<forall>t d. ex \<noteq> Sol (StackOperationFailed t d) \<Longrightarrow> (case ex of Sol (StackOperationFailed t d) \<Rightarrow> f t d | _ \<Rightarrow> x) = x"
proof (cases ex)
  case (Sol e)
  assume "\<forall>t d. ex \<noteq> Sol (StackOperationFailed t d)"
  with Sol show ?thesis by (cases e) simp_all
qed simp_all

text \<open>One attempt: it ends the retries, or it failed in a zone and the rest follows.\<close>

lemma retry_step:
  assumes "retry_zones ho (Suc k) sn inst vdu_ids rules zones ex fv fz fzs vd flds s = (r, s')"
  obtains "s' = s"
  | new_zone vd' where "next_zone ho zones (case get_exclude_zone inst rules fv vdu_ids vd of Inr x \<Rightarrow> x | Inl _ \<Rightarrow> []) fzs = Some new_zone"
      "move_vdus vdu_ids fz new_zone vd = Inr vd'" "s' = snd (update_stack ho sn (set_vdus vd' flds) s)"
  | new_zone vd' t d v z where
      "next_zone ho zones (case get_exclude_zone inst rules fv vdu_ids vd of Inr x \<Rightarrow> x | Inl _ \<Rightarrow> []) fzs = Some new_zone"
      "move_vdus vdu_ids fz new_zone vd = Inr vd'"
      "fst (update_stack ho sn (set_vdus vd' flds) s) = Inl (Sol (StackOperationFailed t d))"
      "check_and_get_failed_zone ho d vd' = Inr (Some (v, z))"
      "retry_zones ho k sn inst vdu_ids rules zones (Sol (StackOperationFailed t d)) v z (z # fzs) vd'
         (sent_fields ho (set_vdus vd' flds)) (snd (update_stack ho sn (set_vdus vd' flds) s)) = (r, s')"
proof -
  let ?ez = "get_exclude_zone inst rules fv vdu_ids vd"
  show ?thesis
  proof (cases ?ez)
    case (Inl e)
    with assms that(1) show ?thesis by (simp add: bindS_def)
  next
    case ez: (Inr exclude)
    show ?thesis
    proof (cases "next_zone ho zones exclude fzs")
      case None
      with assms ez that(1) show ?thesis by (simp add: bindS_def)
    next
      case nz: (Some new_zone)
      show ?thesis
      proof (cases "move_vdus vdu_ids fz new_zone vd")
        case (Inl e)
        with assms ez nz that(1) show ?thesis by (simp add: bindS_def)
      next
        case mv: (Inr vd')
        obtain a s1 where u: "update_stack ho sn (set_vdus vd' flds) s = (a, s1)" by (cases "update_stack ho sn (set_vdus vd' flds) s")
        show ?thesis
        proof (cases "\<exists>t d v z. a = Inl (Sol (StackOperationFailed t d)) \<and> check_and_get_failed_zone ho d vd' = Inr (Some (v, z))")
          case True
          with assms ez nz mv u that(3) show ?thesis by (auto simp: bindS_def tryS_def)
        next
          case False
          have "s' = s1"
          proof (cases "\<exists>t d. a = Inl (Sol (StackOperationFailed t d))")
            case True
            with False assms ez nz mv u show ?thesis by (auto simp: bindS_def tryS_def split: sum.splits option.splits)
          next
            case False
            with assms ez nz mv u show ?thesis by (cases a) (auto simp: bindS_def tryS_def not_stack_failure)
          qed
          with nz mv u ez that(2) show ?thesis by simp
        qed
      qed
    qed
  qed
qed

text \<open>
  A Heat that keeps a log, and \<open>ho_pick\<close> as an element of the set.
\<close>

definition logged :: "'h heat_ops \<Rightarrow> ('h \<Rightarrow> heat_log) \<Rightarrow> bool" where
  "logged ho log = ((\<forall>n p flds s. log (snd (ho_update_stack ho n p flds s)) = log s @ [(flds, fst (ho_update_stack ho n p flds s))]) \<and>
     (\<forall>s. log (snd (ho_get_zone ho s)) = log s))"

definition picks :: "'h heat_ops \<Rightarrow> bool" where
  "picks ho = (\<forall>zs. zs \<noteq> [] \<longrightarrow> ho_pick ho zs \<in> set zs)"

lemma logged_update:
  "logged ho log \<Longrightarrow> log (snd (update_stack ho n flds s)) = log s @ [(sent_fields ho flds, fst (update_stack ho n flds s))]"
  by (simp add: logged_def update_stack_def)

lemma moved_avoids:
  assumes "move_vdus vdu_ids fz new_zone vd = Inr vd'" and "new_zone \<notin> set fzs" and "JNull \<notin> set fzs"
    and "\<forall>v \<in> set vdu_ids. \<forall>z. vdu_entry vd v ''locationConstraints'' = Inr z \<longrightarrow> z \<in> set fzs \<longrightarrow> z = fz"
    and "z \<in> set fzs"
  shows "avoids vdu_ids z (sent_fields ho (set_vdus vd' flds))"
  unfolding avoids_def requested_zone_sent
proof (intro ballI notI)
  fix v assume v: "v \<in> set vdu_ids" and z: "vdu_entry vd' v ''locationConstraints'' = Inr z"
  from move_vdus_zone [OF assms(1) v z] assms(2-5) v show False by auto
qed

lemma retry_zones_log:
  assumes "logged ho log" and "picks ho"
    and "retry_zones ho k sn inst vdu_ids rules zones ex fv fz fzs vd flds s = (r, s')"
    and "JNull \<notin> set fzs"
    and "\<forall>v \<in> set vdu_ids. \<forall>z. vdu_entry vd v ''locationConstraints'' = Inr z \<longrightarrow> z \<in> set fzs \<longrightarrow> z = fz"
  shows "\<exists>new. log s' = log s @ new \<and> length new \<le> k \<and> avoids_failed vdu_ids new \<and>
    (\<forall>(flds', a) \<in> set new. \<forall>z \<in> set fzs. avoids vdu_ids z flds')"
  using assms(3-)
proof (induction k arbitrary: ex fv fz fzs vd flds s)
  case 0
  then show ?case by (auto simp: avoids_failed_def)
next
  case (Suc k)
  have pick: "ho_pick ho zs \<in> set zs" if "zs \<noteq> []" for zs using that assms(2) by (simp add: picks_def)
  from Suc.prems(1) show ?case
  proof (cases rule: retry_step)
    case 1
    then show ?thesis by (auto simp: avoids_failed_def)
  next
    case (2 new_zone vd')
    let ?flds = "sent_fields ho (set_vdus vd' flds)"
    have "avoids vdu_ids z ?flds" if "z \<in> set fzs" for z
      using 2(2) next_zone_fresh [OF 2(1) pick] Suc.prems(2,3) that by (rule moved_avoids)
    then show ?thesis using logged_update [OF assms(1)] 2(3) by (auto simp: avoids_failed_def)
  next
    case (3 new_zone vd' t d v z)
    let ?flds = "sent_fields ho (set_vdus vd' flds)" and ?s = "snd (update_stack ho sn (set_vdus vd' flds) s)"
    have z: "z \<noteq> JNull" "search_vdu d = Some v" "vdu_entry vd' v ''locationConstraints'' = Inr z"
      using failed_zone_reported [OF 3(4)] by simp_all
    have av: "avoids vdu_ids z' ?flds" if "z' \<in> set fzs" for z'
      using 3(2) next_zone_fresh [OF 3(1) pick] Suc.prems(2,3) that by (rule moved_avoids)
    have "\<exists>new. log s' = log ?s @ new \<and> length new \<le> k \<and> avoids_failed vdu_ids new \<and>
      (\<forall>(flds', a) \<in> set new. \<forall>z' \<in> set (z # fzs). avoids vdu_ids z' flds')"
      using 3(5) by (rule Suc.IH) (use z(1) av Suc.prems(2) in \<open>auto simp: avoids_def\<close>)
    then obtain new where new: "log s' = log ?s @ new" "length new \<le> k" "avoids_failed vdu_ids new"
      "\<forall>(flds', a) \<in> set new. \<forall>z' \<in> set (z # fzs). avoids vdu_ids z' flds'" by blast
    have "reported_zone ?flds (fst (update_stack ho sn (set_vdus vd' flds) s)) = Some z"
      by (simp add: reported_zone_def 3(3) z)
    with new av show ?thesis using logged_update [OF assms(1), of sn "set_vdus vd' flds" s]
      by (intro exI [of _ "(?flds, fst (update_stack ho sn (set_vdus vd' flds) s)) # new"]) (auto simp: avoids_failed_def)
  qed
qed

text \<open>
  C12: When Heat fails for want of room in an availability zone, the driver sends the request again
  with the VDUs moved to other zones: at most as often as configured (or once per zone of the
  compute service), and no request puts one of the VDUs of the operation into a zone that the
  answer to an earlier request, the first one included, reported as failed.
\<close>

theorem retries_avoid_failed_zones:
  assumes "logged ho log" and "picks ho"
    and "update_stack_retry ho flds inst stack_id (Sol (StackOperationFailed t d)) d vdu_ids rules s = (r, s')"
  shows "\<exists>retries. log s' = log s @ retries \<and>
    avoids_failed vdu_ids ((flds, Inl (Sol (StackOperationFailed t d))) # retries) \<and>
    (\<forall>zones. fst (ho_get_zone ho s) = Inr zones \<longrightarrow> length retries \<le> (if ho_az_retry ho \<noteq> 0 then ho_az_retry ho else length zones))"
proof (cases "s' = s \<or> s' = snd (ho_get_zone ho s)")
  case True
  with assms(1) show ?thesis by (intro exI [of _ "[]"]) (auto simp: logged_def avoids_failed_def)
next
  case False
  from assms(3) False obtain vd v z zones s1 where
    vd: "bindE (nfv_of flds) (\<lambda>nfv. jitem nfv ''VDU'') = Inr vd" and
    c: "check_and_get_failed_zone ho d vd = Inr (Some (v, z))" and zs: "ho_get_zone ho s = (Inr zones, s1)" and
    run: "retry_zones ho (if ho_az_retry ho \<noteq> 0 then ho_az_retry ho else length zones) (get_stack_name inst stack_id) inst vdu_ids
             rules zones (Sol (StackOperationFailed t d)) v z [z] vd flds s1 = (r, s')"
    by (auto simp: update_stack_retry_def bindS_def split: if_splits sum.splits option.splits prod.splits)
  have z: "z \<noteq> JNull" "search_vdu d = Some v" "vdu_entry vd v ''locationConstraints'' = Inr z"
    using failed_zone_reported [OF c] by simp_all
  from retry_zones_log [OF assms(1,2) run] z(1) obtain new where
    new: "log s' = log s1 @ new" "length new \<le> (if ho_az_retry ho \<noteq> 0 then ho_az_retry ho else length zones)"
      "avoids_failed vdu_ids new" "\<forall>(flds', a) \<in> set new. avoids vdu_ids z flds'" by auto
  have "reported_zone flds (Inl (Sol (StackOperationFailed t d))) = Some z"
    using vd z by (auto simp: reported_zone_def requested_zone_def bindE_eq_Inr)
  moreover have "log s1 = log s" using assms(1) zs unfolding logged_def by (metis snd_conv)
  ultimately show ?thesis using new zs by (intro exI [of _ new]) (auto simp: avoids_failed_def)
qed

text \<open>Three zones, two of them without room for the server of \<open>V-0\<close>.\<close>

definition ex_full :: "heat_fields \<Rightarrow> exn + unit" where
  "ex_full flds = (if requested_zone flds ''V-0'' = Inr (JStr ''z2'') then Inr ()
     else Inl (Sol (StackOperationFailed ''t'' ''resources.V-0: no host'')))"

definition ex_heat :: "heat_log heat_ops" where
  "ex_heat = \<lparr>ho_view = (\<lambda>_. \<lparr>hv_resources = (\<lambda>_. Inr []), hv_parameters = (\<lambda>_. Inr []), hv_template = (\<lambda>_. Inr JNull),
       hv_loads = (\<lambda>_. Inr JNull), hv_isoparse = (\<lambda>_. Inr 0)\<rparr>),
     ho_get_stack_id = (\<lambda>_. retS None), ho_get_status = (\<lambda>_. retS None), ho_create_stack = (\<lambda>_. retS []),
     ho_update_stack = (\<lambda>_ _ flds s. (ex_full flds, s @ [(flds, ex_full flds)])), ho_delete_stack = (\<lambda>_. retS ()),
     ho_mark_unhealthy = (\<lambda>_ _. retS ()), ho_get_files = (\<lambda>_. retS []), ho_get_resource_info = (\<lambda>_ _. retS JNull),
     ho_get_zone = retS [JStr ''z0'', JStr ''z1'', JStr ''z2''], ho_safe_dump = (\<lambda>_. []), ho_safe_load = (\<lambda>_. Inr JNull),
     ho_base_hot = (\<lambda>_ _. []),
     ho_script_userdata = (\<lambda>_ _ _ _ _ _ _ _. Inr []), ho_coordinate = (\<lambda>_ _ _ _ _ _ _. None), ho_pick = hd, ho_timeout = 1, ho_grace = 60, ho_sleep = (\<lambda>_ s. s),
     ho_enable_rollback = False, ho_best_effort = True, ho_az_retry = 0, ho_az_error = (\<lambda>_. True)\<rparr>"

definition ex_first :: heat_fields where
  "ex_first = [(''parameters'', JObj [(''nfv'', JObj [(''VDU'', JObj [(''V-0'', JObj [(''locationConstraints'', JStr ''z0'')])])])])]"

theorem retries_avoid_failed_zones_witness:
  "\<exists>retries. update_stack_retry ex_heat ex_first ex_inst None (Sol (StackOperationFailed ''t'' ''resources.V-0: no host''))
      ''resources.V-0: no host'' [''V-0''] [] [] = (Inr (), retries) \<and>
    map (\<lambda>(flds, _). requested_zone flds ''V-0'') retries = [Inr (JStr ''z1''), Inr (JStr ''z2'')] \<and>
    avoids_failed [''V-0''] ((ex_first, Inl (Sol (StackOperationFailed ''t'' ''resources.V-0: no host''))) # retries)"
proof -
  let ?run = "update_stack_retry ex_heat ex_first ex_inst None (Sol (StackOperationFailed ''t'' ''resources.V-0: no host''))
      ''resources.V-0: no host'' [''V-0''] [] []"
  have 1: "fst ?run = Inr ()" and 2: "map (\<lambda>(flds, _). requested_zone flds ''V-0'') (snd ?run) = [Inr (JStr ''z1''), Inr (JStr ''z2'')]"
    by code_simp+
  have "logged ex_heat id" "picks ex_heat" by (simp_all add: logged_def picks_def ex_heat_def)
  from retries_avoid_failed_zones [OF this, of ex_first ex_inst None "''t''" "''resources.V-0: no host''" "[''V-0'']" "[]" "[]" "fst ?run" "snd ?run"]
  have "avoids_failed [''V-0''] ((ex_first, Inl (Sol (StackOperationFailed ''t'' ''resources.V-0: no host''))) # snd ?run)" by simp
  with 1 2 show ?thesis by (metis prod.collapse)
qed

end
