(* ===== verification/Heat_Client.thy ===== *)
theory Heat_Client
  imports Json
begin

section \<open>The client of Heat\<close>

text \<open>
  The HTTP client (\<^verbatim>\<open>common/http_client.py\<close>) as far as the clients of OpenStack use it, \<^verbatim>\<open>HeatClient\<close>
  (\<^verbatim>\<open>infra_drivers/openstack/heat_utils.py\<close>) and \<^verbatim>\<open>NovaClient\<close> (\<^verbatim>\<open>infra_drivers/openstack/nova_utils.py\<close>).

  The session of keystoneauth with the service behind it is the parameter \<open>hh_request\<close>, with a state of its
  own; the time between two looks at a stack is its step \<open>hh_sleep\<close>. Waiting for a stack is a loop that may
  run for ever, so an operation that waits has the value \<open>None\<close> if it does not end.
\<close>

subsection \<open>Requests\<close>

record http_resp =
  rs_status :: int
  rs_content_type :: "string option"
  rs_text :: string

record 'h heat_http =
  hh_request :: "string \<Rightarrow> string \<Rightarrow> jdict option \<Rightarrow> ('h, exn, http_resp) sem"
  hh_loads :: "string \<Rightarrow> json pyres"
  hh_sleep :: "'h \<Rightarrow> 'h"
  hh_enable_rollback :: bool

text \<open>The content of a zip file is taken for a text.\<close>

definition decode_body :: "'h heat_http \<Rightarrow> http_resp \<Rightarrow> json pyres" where
  "decode_body hh resp =
     (if rs_status resp = 204 then Inr JNull
      else if rs_content_type resp = Some ''application/zip'' then Inr (JStr (rs_text resp))
      else if rs_content_type resp = Some ''text/plain'' then Inr (JStr (rs_text resp))
      else if rs_text resp \<noteq> [] then hh_loads hh (rs_text resp)
      else Inr JNull)"

text \<open>A value as the detail of an error; anything but a text is shown as \<open>None\<close>.\<close>

definition detail_text :: "json \<Rightarrow> string" where
  "detail_text j = (case j of JStr s \<Rightarrow> s | _ \<Rightarrow> ''None'')"

definition raise_sol_exception :: "http_resp \<Rightarrow> json \<Rightarrow> exn" where
  "raise_sol_exception resp resp_body = (case rs_content_type resp of
       None \<Rightarrow> key_error ''content-type''
     | Some ct \<Rightarrow>
         if ct = ''application/problem+json''
         then (case jitem resp_body ''detail'' of Inl e \<Rightarrow> e | Inr d \<Rightarrow> Sol (SolHttpResponse (rs_status resp) (detail_text d)))
         else Sol (SolHttpResponse (rs_status resp) (rs_text resp)))"

definition do_request :: "'h heat_http \<Rightarrow> string \<Rightarrow> string \<Rightarrow> int list \<Rightarrow> jdict option \<Rightarrow> ('h, exn, int \<times> json) sem" where
  "do_request hh url method expected_status body =
     bindS (hh_request hh url method body) (\<lambda>resp.
     bindS (liftS (decode_body hh resp)) (\<lambda>resp_body.
     if expected_status \<noteq> [] \<and> rs_status resp \<notin> set expected_status then raiseS (raise_sol_exception resp resp_body)
     else retS (rs_status resp, resp_body)))"

subsection \<open>Reading a stack\<close>

definition stack_path :: "string \<Rightarrow> string" where
  "stack_path stack_name = ''stacks/'' @ stack_name"

definition stack_item :: "json \<Rightarrow> string \<Rightarrow> json pyres" where
  "stack_item body k = bindE (jitem body ''stack'') (\<lambda>st. jitem st k)"

definition hc_get_status :: "'h heat_http \<Rightarrow> string \<Rightarrow> ('h, exn, json \<times> json) sem" where
  "hc_get_status hh stack_name =
     bindS (do_request hh (stack_path stack_name) ''GET'' [200, 404] None) (\<lambda>(code, body).
     if code = 404 then retS (JNull, JNull)
     else liftS (bindE (stack_item body ''stack_status'') (\<lambda>st.
       bindE (stack_item body ''stack_status_reason'') (\<lambda>r. Inr (st, r)))))"

definition hc_get_stack_id :: "'h heat_http \<Rightarrow> string \<Rightarrow> ('h, exn, json) sem" where
  "hc_get_stack_id hh stack_name =
     bindS (do_request hh (stack_path stack_name) ''GET'' [200, 404] None) (\<lambda>(code, body).
     if code = 404 then retS JNull else liftS (stack_item body ''id''))"

definition hc_get_resources :: "'h heat_http \<Rightarrow> string \<Rightarrow> ('h, exn, json) sem" where
  "hc_get_resources hh stack_name =
     bindS (do_request hh (stack_path stack_name @ ''/resources?nested_depth=2'') ''GET'' [200] None) (\<lambda>(code, body).
       liftS (jitem body ''resources''))"

definition hc_get_resource_info :: "'h heat_http \<Rightarrow> string \<Rightarrow> string \<Rightarrow> ('h, exn, json) sem" where
  "hc_get_resource_info hh stack_id resource_name =
     bindS (do_request hh (stack_path stack_id @ ''/resources/'' @ resource_name) ''GET'' [200, 404] None) (\<lambda>(code, body).
     if code = 404 then retS JNull else liftS (jitem body ''resource''))"

definition hc_get_parameters :: "'h heat_http \<Rightarrow> string \<Rightarrow> ('h, exn, json) sem" where
  "hc_get_parameters hh stack_name =
     bindS (do_request hh (stack_path stack_name) ''GET'' [200] None) (\<lambda>(code, body). liftS (stack_item body ''parameters''))"

definition hc_mark_unhealthy :: "'h heat_http \<Rightarrow> string \<Rightarrow> string \<Rightarrow> ('h, exn, unit) sem" where
  "hc_mark_unhealthy hh stack_id resource_name =
     bindS (do_request hh (stack_path stack_id @ ''/resources/'' @ resource_name) ''PATCH'' [200]
       (Some [(''mark_unhealthy'', JBool True), (''resource_status_reason'', JStr ''marked by tacker'')])) (\<lambda>_. retS ())"

definition hc_get_template :: "'h heat_http \<Rightarrow> string \<Rightarrow> ('h, exn, json) sem" where
  "hc_get_template hh stack_name =
     bindS (do_request hh (stack_path stack_name @ ''/template'') ''GET'' [200] None) (\<lambda>(code, body). retS body)"

definition hc_get_files :: "'h heat_http \<Rightarrow> string \<Rightarrow> ('h, exn, json) sem" where
  "hc_get_files hh stack_name =
     bindS (do_request hh (stack_path stack_name @ ''/files'') ''GET'' [200] None) (\<lambda>(code, body). retS body)"

text \<open>The part of a name before the first slash.\<close>

definition name_part :: "string \<Rightarrow> string" where
  "name_part stack_name = takeWhile (\<lambda>c. c \<noteq> CHR ''/'') stack_name"

definition get_original_failed_reason :: "'h heat_http \<Rightarrow> string \<Rightarrow> ('h, exn, json) sem" where
  "get_original_failed_reason hh stack_name =
     bindS (do_request hh (stack_path stack_name @ ''/resources/'' @ name_part stack_name @
        ''/events?resource_action=CREATE&resource_action=UPDATE&resource_status=FAILED&sort_dir=desc&limit=1'') ''GET'' [200, 404] None)
       (\<lambda>(code, body). if code = 404 then retS JNull
         else liftS (bindE (jitem body ''events'') (\<lambda>evs. bindE (jlist evs) (\<lambda>xs. case xs of
             [] \<Rightarrow> Inl (PyExc IndexError ''list index out of range'') | ev # _ \<Rightarrow> jitem ev ''resource_status_reason''))))"

subsection \<open>Waiting\<close>

text \<open>One look at the stack: done, not yet, or an error.\<close>

definition check_status :: "'h heat_http \<Rightarrow> string \<Rightarrow> string \<Rightarrow> json list \<Rightarrow> json list \<Rightarrow> json list \<Rightarrow> ('h, exn, bool) sem" where
  "check_status hh stack_name operation complete_status progress_status failed_status =
     bindS (hc_get_status hh stack_name) (\<lambda>(st, status_reason).
     if st \<in> set complete_status then retS True
     else if st \<in> set failed_status
     then bindS (if st = JStr ''ROLLBACK_COMPLETE'' \<or> st = JStr ''ROLLBACK_FAILED''
            then get_original_failed_reason hh stack_name else retS status_reason) (\<lambda>reason.
          raiseS (Sol (StackOperationFailed (operation @ '' failed'') (detail_text reason))))
     else if st \<notin> set progress_status then raiseS (Sol (StackOperationFailed (operation @ '' failed'') ''Unknown error''))
     else retS False)"

text \<open>\<open>FixedIntervalLoopingCall\<close>.\<close>

partial_function (option) looping_call :: "('h, exn, bool) sem \<Rightarrow> ('h \<Rightarrow> 'h) \<Rightarrow> 'h \<Rightarrow> ((exn + unit) \<times> 'h) option" where
  "looping_call check sleep s = (case check s of (r, s1) \<Rightarrow> (case r of
       Inl e \<Rightarrow> Some (Inl e, s1)
     | Inr done \<Rightarrow> if done then Some (Inr (), s1) else looping_call check sleep (sleep s1)))"

definition wait_completion :: "'h heat_http \<Rightarrow> string \<Rightarrow> string \<Rightarrow> json list \<Rightarrow> json list \<Rightarrow> json list \<Rightarrow> 'h \<Rightarrow> ((exn + unit) \<times> 'h) option" where
  "wait_completion hh stack_name operation complete_status progress_status failed_status =
     looping_call (check_status hh stack_name operation complete_status progress_status failed_status) (hh_sleep hh)"

definition wait_stack_create :: "'h heat_http \<Rightarrow> string \<Rightarrow> 'h \<Rightarrow> ((exn + unit) \<times> 'h) option" where
  "wait_stack_create hh stack_name =
     (if hh_enable_rollback hh
      then wait_completion hh stack_name ''Stack create'' [JStr ''CREATE_COMPLETE'']
        [JStr ''CREATE_IN_PROGRESS'', JStr ''CREATE_FAILED'', JStr ''ROLLBACK_IN_PROGRESS''] [JStr ''ROLLBACK_COMPLETE'', JStr ''ROLLBACK_FAILED'']
      else wait_completion hh stack_name ''Stack create'' [JStr ''CREATE_COMPLETE''] [JStr ''CREATE_IN_PROGRESS''] [JStr ''CREATE_FAILED''])"

definition wait_stack_update :: "'h heat_http \<Rightarrow> string \<Rightarrow> 'h \<Rightarrow> ((exn + unit) \<times> 'h) option" where
  "wait_stack_update hh stack_name =
     (if hh_enable_rollback hh
      then wait_completion hh stack_name ''Stack update'' [JStr ''UPDATE_COMPLETE'']
        [JStr ''UPDATE_IN_PROGRESS'', JStr ''UPDATE_FAILED'', JStr ''ROLLBACK_IN_PROGRESS''] [JStr ''ROLLBACK_COMPLETE'', JStr ''ROLLBACK_FAILED'']
      else wait_completion hh stack_name ''Stack update'' [JStr ''UPDATE_COMPLETE''] [JStr ''UPDATE_IN_PROGRESS''] [JStr ''UPDATE_FAILED''])"

definition wait_stack_delete :: "'h heat_http \<Rightarrow> string \<Rightarrow> 'h \<Rightarrow> ((exn + unit) \<times> 'h) option" where
  "wait_stack_delete hh stack_name = wait_completion hh (name_part stack_name) ''Stack delete'' [JNull]
     [JStr ''DELETE_IN_PROGRESS'', JStr ''DELETE_COMPLETE''] [JStr ''DELETE_FAILED'']"

subsection \<open>Operations on stacks\<close>

text \<open>A step that does not wait, then one that may not end.\<close>

definition bindW :: "('h, exn, 'a) sem \<Rightarrow> ('a \<Rightarrow> 'h \<Rightarrow> ((exn + 'b) \<times> 'h) option) \<Rightarrow> 'h \<Rightarrow> ((exn + 'b) \<times> 'h) option" where
  "bindW m f s = (case m s of (Inl e, s1) \<Rightarrow> Some (Inl e, s1) | (Inr x, s1) \<Rightarrow> f x s1)"

definition doneW :: "'a \<Rightarrow> 'h \<Rightarrow> ((exn + 'a) \<times> 'h) option" where
  "doneW x s = Some (Inr x, s)"

definition rollback_fields :: "'h heat_http \<Rightarrow> jdict \<Rightarrow> jdict" where
  "rollback_fields hh flds = (if hh_enable_rollback hh then dict_set ''disable_rollback'' (JBool False) flds else flds)"

definition hc_create_stack :: "'h heat_http \<Rightarrow> jdict \<Rightarrow> bool \<Rightarrow> 'h \<Rightarrow> ((exn + json) \<times> 'h) option" where
  "hc_create_stack hh flds wait =
     bindW (bindS (do_request hh ''stacks'' ''POST'' [201] (Some (rollback_fields hh flds))) (\<lambda>(code, body).
         liftS (if \<not> wait then bindE (stack_item body ''id'') (\<lambda>i. Inr (i, []))
           else bindE (jitem (JObj flds) ''stack_name'') (\<lambda>n. bindE (stack_item body ''id'') (\<lambda>i.
             Inr (i, detail_text n @ ''/'' @ detail_text i))))))
       (\<lambda>(i, path) s. if \<not> wait then doneW i s
         else case wait_stack_create hh path s of
             None \<Rightarrow> None
           | Some (Inl e, s1) \<Rightarrow> Some (Inl e, s1)
           | Some (Inr _, s1) \<Rightarrow> doneW i s1)"

definition hc_update_stack :: "'h heat_http \<Rightarrow> string \<Rightarrow> jdict \<Rightarrow> bool \<Rightarrow> 'h \<Rightarrow> ((exn + unit) \<times> 'h) option" where
  "hc_update_stack hh stack_name flds wait =
     (let method = (if (case map_of flds ''existing'' of None \<Rightarrow> True | Some j \<Rightarrow> py_truthy j) then ''PATCH'' else ''PUT'') in
     bindW (do_request hh (stack_path stack_name) method [202] (Some (dict_del ''existing'' (rollback_fields hh flds))))
       (\<lambda>_. if wait then wait_stack_update hh stack_name else doneW ()))"

definition hc_delete_stack :: "'h heat_http \<Rightarrow> string \<Rightarrow> bool \<Rightarrow> 'h \<Rightarrow> ((exn + unit) \<times> 'h) option" where
  "hc_delete_stack hh stack_name wait =
     bindW (do_request hh (stack_path stack_name) ''DELETE'' [204, 404] None)
       (\<lambda>_. if wait then wait_stack_delete hh stack_name else doneW ())"

subsection \<open>Availability zones\<close>

definition use_zone_for_retry :: "json \<Rightarrow> json pyres" where
  "use_zone_for_retry zone = bindE (jitem zone ''hosts'') (\<lambda>hosts. bindE (jitems hosts) (\<lambda>infos.
     bindE (mapE (\<lambda>(host, info). bindE (jitems info) (\<lambda>services. Inr (dict_has services ''nova-compute''))) infos) (\<lambda>found.
       if True \<in> set found then bindE (jitem zone ''zoneState'') (\<lambda>st. jitem st ''available'') else Inr (JBool False))))"

definition nova_get_zone :: "'h heat_http \<Rightarrow> ('h, exn, json list) sem" where
  "nova_get_zone hh =
     bindS (do_request hh ''os-availability-zone/detail'' ''GET'' [200] None) (\<lambda>(code, body).
     liftS (bindE (jitem body ''availabilityZoneInfo'') (\<lambda>zs. bindE (jlist zs) (\<lambda>zones.
       bindE (concatE (\<lambda>zone. bindE (use_zone_for_retry zone) (\<lambda>u.
          if py_truthy u then bindE (jitem zone ''zoneName'') (\<lambda>n. Inr [n]) else Inr [])) zones) (\<lambda>names. Inr (remdups names))))))"

subsection \<open>What waiting means\<close>

fun poll_at :: "('h, exn, bool) sem \<Rightarrow> ('h \<Rightarrow> 'h) \<Rightarrow> nat \<Rightarrow> 'h \<Rightarrow> 'h" where
  "poll_at check sleep 0 s = s"
| "poll_at check sleep (Suc n) s = poll_at check sleep n (sleep (snd (check s)))"

definition outcome :: "(exn + bool) \<times> 'h \<Rightarrow> (exn + unit) \<times> 'h" where
  "outcome = (\<lambda>(r, s). (case r of Inl e \<Rightarrow> Inl e | Inr b \<Rightarrow> Inr (), s))"

lemma looping_call_ends:
  "(\<forall>i < n. fst (check (poll_at check sleep i s)) = Inr False) \<Longrightarrow> fst (check (poll_at check sleep n s)) \<noteq> Inr False \<Longrightarrow>
   looping_call check sleep s = Some (outcome (check (poll_at check sleep n s)))"
proof (induction n arbitrary: s)
  case 0
  then show ?case by (subst looping_call.simps) (auto simp: outcome_def split: prod.splits sum.splits)
next
  case (Suc n)
  have "\<forall>i < n. fst (check (poll_at check sleep i (sleep (snd (check s))))) = Inr False" using Suc.prems(1) by auto
  moreover have "fst (check s) = Inr False" using Suc.prems(1) by (auto dest: spec [of _ 0])
  ultimately show ?case using Suc.IH [of "sleep (snd (check s))"] Suc.prems(2)
    by (subst looping_call.simps) (auto split: prod.splits)
qed

lemma looping_call_ended:
  assumes "looping_call check sleep s = Some x"
  shows "\<exists>n. (\<forall>i < n. fst (check (poll_at check sleep i s)) = Inr False) \<and> fst (check (poll_at check sleep n s)) \<noteq> Inr False \<and>
    x = outcome (check (poll_at check sleep n s))"
  using assms
proof (induction rule: looping_call.raw_induct [rotated -1, consumes 1, case_names step])
  case (step loop check sleep s x)
  obtain r s1 where c: "check s = (r, s1)" by (cases "check s")
  show ?case
  proof (cases "r = Inr False")
    case True
    with step(2) c have "loop check sleep (sleep s1) = Some x" by simp
    from step(1) [OF this] obtain n where n: "\<forall>i < n. fst (check (poll_at check sleep i (sleep s1))) = Inr False"
      "fst (check (poll_at check sleep n (sleep s1))) \<noteq> Inr False" "x = outcome (check (poll_at check sleep n (sleep s1)))" by blast
    have "\<forall>i < Suc n. fst (check (poll_at check sleep i s)) = Inr False"
      using n(1) c True by (auto simp: less_Suc_eq_0_disj)
    with n(2,3) c show ?thesis by (intro exI [of _ "Suc n"]) simp
  next
    case False
    with step(2) c show ?thesis by (intro exI [of _ 0]) (auto simp: outcome_def split: sum.splits if_splits)
  qed
qed

lemma looping_call_iff:
  "looping_call check sleep s = Some x \<longleftrightarrow> (\<exists>n. (\<forall>i < n. fst (check (poll_at check sleep i s)) = Inr False) \<and>
     fst (check (poll_at check sleep n s)) \<noteq> Inr False \<and> x = outcome (check (poll_at check sleep n s)))"
  using looping_call_ends looping_call_ended by metis

text \<open>A status in the middle of an operation.\<close>

definition in_progress :: "'h heat_http \<Rightarrow> string \<Rightarrow> json list \<Rightarrow> json list \<Rightarrow> json list \<Rightarrow> 'h \<Rightarrow> bool" where
  "in_progress hh stack_name cs ps fs s = (case fst (hc_get_status hh stack_name s) of
      Inl e \<Rightarrow> False | Inr (st, reason) \<Rightarrow> st \<in> set ps - set cs - set fs)"

lemma check_status_progress: "fst (check_status hh stack_name op cs ps fs s) = Inr False \<longleftrightarrow> in_progress hh stack_name cs ps fs s"
  by (auto simp: check_status_def in_progress_def bindS_def split: prod.splits sum.splits if_splits)

lemma check_status_done: "check_status hh stack_name op cs ps fs s = (Inr True, s') \<Longrightarrow>
    \<exists>st reason. hc_get_status hh stack_name s = (Inr (st, reason), s') \<and> st \<in> set cs"
  by (auto simp: check_status_def bindS_def split: prod.splits sum.splits if_splits)

text \<open>
  Waiting for a stack ends exactly when Heat answers something else than a status of the
  operation in progress, and the first such answer decides the result; if every answer is
  such a status, the wait does not end.
\<close>

lemma waiting_decided_by_first_answer:
  "wait_completion hh stack_name op cs ps fs s = Some x \<longleftrightarrow>
   (\<exists>n. let look = check_status hh stack_name op cs ps fs; at = (\<lambda>i. poll_at look (hh_sleep hh) i s) in
      (\<forall>i < n. in_progress hh stack_name cs ps fs (at i)) \<and> \<not> in_progress hh stack_name cs ps fs (at n) \<and> x = outcome (look (at n)))"
  unfolding wait_completion_def looping_call_iff check_status_progress Let_def ..

lemma wait_completion_Inr:
  assumes "wait_completion hh stack_name op cs ps fs s = Some (Inr (), s')"
  shows "\<exists>u st reason. hc_get_status hh stack_name u = (Inr (st, reason), s') \<and> st \<in> set cs"
proof -
  from assms obtain u where "fst (check_status hh stack_name op cs ps fs u) \<noteq> Inr False"
    "(Inr (), s') = outcome (check_status hh stack_name op cs ps fs u)"
    unfolding wait_completion_def looping_call_iff by blast
  then have "check_status hh stack_name op cs ps fs u = (Inr True, s')"
    by (cases "check_status hh stack_name op cs ps fs u") (auto simp: outcome_def split: sum.splits)
  then show ?thesis by (blast dest: check_status_done)
qed


text \<open>A service that needs two rounds for an update. The texts it answers stand for their values.\<close>

definition ex_http :: "nat heat_http" where
  "ex_http = \<lparr>hh_request = (\<lambda>url method body s. (Inr (if method = ''PATCH'' then \<lparr>rs_status = 202, rs_content_type = None, rs_text = []\<rparr>
       else \<lparr>rs_status = 200, rs_content_type = None, rs_text = if s < 2 then ''progress'' else ''complete''\<rparr>), s)),
     hh_loads = (\<lambda>t. Inr (JObj [(''stack'', JObj [(''stack_status'', JStr (if t = ''progress'' then ''UPDATE_IN_PROGRESS'' else ''UPDATE_COMPLETE'')),
       (''stack_status_reason'', JStr [])])])),
     hh_sleep = Suc, hh_enable_rollback = False\<rparr>"

lemmas ex_http_defs = ex_http_def check_status_def hc_get_status_def do_request_def decode_body_def stack_item_def bindS_def

lemma ex_look:
  "check_status ex_http ''s'' ''Stack update'' [JStr ''UPDATE_COMPLETE''] [JStr ''UPDATE_IN_PROGRESS''] [JStr ''UPDATE_FAILED''] t =
     (Inr (2 \<le> t), t)"
  "hh_sleep ex_http = Suc"
  by (simp_all add: ex_http_defs)

lemma ex_update: "hc_update_stack ex_http ''s'' [] True 0 = Some (Inr (), 2)"
proof -
  have "looping_call (\<lambda>t. (Inr (2 \<le> t), t)) Suc 0 = Some (Inr (), 2 :: nat)"
    by (simp add: looping_call.simps numeral_2_eq_2)
  moreover have "check_status ex_http ''s'' ''Stack update'' [JStr ''UPDATE_COMPLETE''] [JStr ''UPDATE_IN_PROGRESS''] [JStr ''UPDATE_FAILED''] =
      (\<lambda>t. (Inr (2 \<le> t), t))" by (rule ext) (rule ex_look)
  ultimately have "wait_stack_update ex_http ''s'' 0 = Some (Inr (), 2)"
    unfolding wait_stack_update_def wait_completion_def by (simp add: ex_look(2)) (simp add: ex_http_def)
  moreover have "do_request ex_http (stack_path ''s'') ''PATCH'' [202] body 0 = (Inr (202, JNull), 0)" for body
    by (simp add: ex_http_defs)
  ultimately show ?thesis by (simp add: hc_update_stack_def bindW_def)
qed


end
