(* ===== verification/Userdata_Standard.thy ===== *)
theory Userdata_Standard
  imports Userdata
begin

section \<open>The standard user data class\<close>

text \<open>
  \<^verbatim>\<open>StandardUserData\<close> (\<^verbatim>\<open>infra_drivers/openstack/userdata_standard.py\<close>). Every server is a resource of its own,
  \<^verbatim>\<open>VDU1-0\<close>, \<^verbatim>\<open>VDU1-1\<close> and so on, made from the resource \<^verbatim>\<open>VDU1\<close> of the HOT; the parameters of a server carry
  its index too. A scale out adds resources after the last index, a scale in deletes resources with a
  merge patch.
\<close>

subsection \<open>Names with an index\<close>

text \<open>The text that an f-string makes of a value; names and indices are texts and numbers, a list or an object as a name is
  taken for an error.\<close>

definition idx_text :: "json \<Rightarrow> string pyres" where
  "idx_text j = (case j of JNum n \<Rightarrow> Inr (show_int n) | JStr s \<Rightarrow> Inr s | JNull \<Rightarrow> Inr ''None''
    | JBool b \<Rightarrow> Inr (if b then ''True'' else ''False'') | _ \<Rightarrow> Inl (type_error j))"

definition add_idx :: "string \<Rightarrow> string \<Rightarrow> string" where
  "add_idx name i = name @ ''-'' @ i"

definition rm_idx :: "string \<Rightarrow> string" where
  "rm_idx name_idx = (case rpartition_dash name_idx of None \<Rightarrow> [] | Some (a, b) \<Rightarrow> a)"

definition idx_get_param :: "string \<Rightarrow> json \<Rightarrow> json pyres" where
  "idx_get_param i prop_value = bindE (jitems prop_value) (\<lambda>d. case map_of d ''get_param'' of
      Some (JArr (p0 # p1 # p2 # p3 # ps)) \<Rightarrow> bindE (idx_text p2) (\<lambda>n.
        Inr (JObj (dict_set ''get_param'' (JArr (p0 # p1 # JStr (add_idx n i) # p3 # ps)) d)))
    | _ \<Rightarrow> Inr prop_value)"

definition add_idx_to_vdu_template :: "json \<Rightarrow> string \<Rightarrow> json pyres" where
  "add_idx_to_vdu_template vdu_template i = bindE (jitems vdu_template) (\<lambda>d. case map_of d ''properties'' of
      None \<Rightarrow> Inr vdu_template
    | Some ps \<Rightarrow> bindE (jitems ps) (\<lambda>props.
        bindE (mapE (\<lambda>(k, v). bindE (idx_get_param i v) (\<lambda>v'. Inr (k, v'))) props) (\<lambda>props'.
          Inr (JObj (dict_set ''properties'' (JObj props') d)))))"

subsection \<open>Taking the VDUs out of the template\<close>

fun pop_vdus :: "string list \<Rightarrow> jdict \<Rightarrow> (jdict \<times> jdict) pyres" where
  "pop_vdus [] reses = Inr ([], reses)"
| "pop_vdus (vdu_name # vdus) reses = bindE (dict_item reses vdu_name) (\<lambda>v.
     bindE (pop_vdus vdus (dict_del vdu_name reses)) (\<lambda>(popped, rest). Inr ((vdu_name, v) # popped, rest)))"

text \<open>The template, its VDU resources and its other resources.\<close>

definition open_hot :: "ud_env \<Rightarrow> vnfd \<Rightarrow> string \<Rightarrow> (jdict \<times> jdict \<times> jdict) pyres" where
  "open_hot ud vnfd flavour_id =
     bindE (top_hot (ud_base_hot ud vnfd flavour_id)) (\<lambda>hot0.
     bindE (case map_of hot0 ''resources'' of None \<Rightarrow> Inr [] | Some rs \<Rightarrow> jitems rs) (\<lambda>reses.
     bindE (get_vdu_nodes vnfd (JStr flavour_id)) (\<lambda>nodes.
     bindE (pop_vdus (map fst nodes) reses) (\<lambda>(popped, rest). Inr (hot0, popped, rest)))))"

definition with_resources :: "jdict \<Rightarrow> jdict \<Rightarrow> jdict" where
  "with_resources reses hot0 = dict_set ''resources'' (JObj reses) hot0"

text \<open>A resource for every VNFC to add: the next index of each VDU, the zones of the grant and the resources
  so far.\<close>

type_synonym added = "(string, nat) dict \<times> jdict \<times> jdict"

definition add_vdu_res :: "jdict \<Rightarrow> grant \<Rightarrow> res_def \<Rightarrow> added \<Rightarrow> added pyres" where
  "add_vdu_res popped grant res = (\<lambda>(vdu_idxes, zones, reses).
     if rd_type res \<noteq> COMPUTE then Inr (vdu_idxes, zones, reses)
     else case map_of popped (rd_resourceTemplateId res) of
        None \<Rightarrow> Inr (vdu_idxes, zones, reses)
      | Some template \<Rightarrow>
          let vdu_name = rd_resourceTemplateId res;
              vdu_idx = (case map_of vdu_idxes vdu_name of None \<Rightarrow> 0 | Some i \<Rightarrow> i);
              name = add_idx vdu_name (show_nat vdu_idx) in
          bindE (add_idx_to_vdu_template template (show_nat vdu_idx)) (\<lambda>r.
            Inr (dict_set vdu_name (Suc vdu_idx) vdu_idxes, dict_set name (get_param_zone_by_vnfc (rd_id res) grant) zones,
              dict_set name r reses)))"

definition add_vdu_reses :: "(string \<Rightarrow> nat) \<Rightarrow> jdict \<Rightarrow> grant_request \<Rightarrow> grant \<Rightarrow> jdict \<Rightarrow> (jdict \<times> jdict) pyres" where
  "add_vdu_reses first popped grant_req grant rest =
     bindE (attr ''addResources'' (gq_addResources grant_req)) (\<lambda>reses.
     bindE (foldE (add_vdu_res popped grant) reses (map (\<lambda>(n, _). (n, first n)) popped, [], rest)) (\<lambda>(idxes, zones, rs).
       Inr (zones, rs)))"

definition standard_vdu :: "grant \<Rightarrow> vnfd \<Rightarrow> string \<Rightarrow> jdict \<Rightarrow> string \<times> (json \<times> nfv) list \<Rightarrow> (string \<times> (json \<times> nfv) list) pyres" where
  "standard_vdu grant vnfd flavour_id zones = (\<lambda>(vdu_name_idx, m).
     bindE (fill_param ''computeFlavourId'' (get_param_flavor (rm_idx vdu_name_idx) flavour_id vnfd grant) m) (\<lambda>m1.
     bindE (fill_param ''vcImageId'' (get_param_image (rm_idx vdu_name_idx) flavour_id vnfd grant True) m1) (\<lambda>m2.
     bindE (fill_param ''locationConstraints'' (dict_item zones vdu_name_idx) m2) (\<lambda>m3. Inr (vdu_name_idx, m3)))))"

subsection \<open>Operations\<close>

definition standard_instantiate :: "ud_env \<Rightarrow> op_params \<Rightarrow> grant_request \<Rightarrow> grant \<Rightarrow> vnfd \<Rightarrow> jdict pyres" where
  "standard_instantiate ud req grant_req grant vnfd =
     bindE (attr ''flavourId'' (rq_flavourId req)) (\<lambda>flavour_id.
     bindE (open_hot ud vnfd flavour_id) (\<lambda>(hot0, popped, rest).
     bindE (add_vdu_reses (\<lambda>_. 0) popped grant_req grant rest) (\<lambda>(zones, reses).
     let hot = with_resources reses hot0 in
     bindE (init_nfv_dict (JObj hot)) (\<lambda>nfv.
     bindE (nfv_section ''VDU'' nfv) (\<lambda>vdus.
     bindE (mapE (standard_vdu grant vnfd flavour_id zones) vdus) (\<lambda>vdus'.
     bindE (nfv_section ''CP'' nfv) (\<lambda>cps.
     bindE (mapE (req_cp rm_idx req grant) cps) (\<lambda>cps'.
       instantiate_fields ud (ud_base_hot ud vnfd flavour_id) hot (put_section ''CP'' cps' (put_section ''VDU'' vdus' nfv)) req grant))))))))"

text \<open>A scale out leaves parameters without a value as they are in the stack.\<close>

definition drop_nulls :: "string \<times> (json \<times> nfv) list \<Rightarrow> string \<times> (json \<times> nfv) list" where
  "drop_nulls = (\<lambda>(n, m). (n, filter (\<lambda>(k, t). t \<noteq> NVal JNull) m))"

definition inst_cp :: "vnf_instance \<Rightarrow> string \<times> (json \<times> nfv) list \<Rightarrow> (string \<times> (json \<times> nfv) list) pyres" where
  "inst_cp inst = (\<lambda>(cp_name, m). bindE (fill_cp (get_param_network_from_inst (rm_idx cp_name) inst)
     (get_param_fixed_ips_from_inst (rm_idx cp_name) inst) m) (\<lambda>m'. Inr (cp_name, m')))"

definition scale_out_hot :: "ud_env \<Rightarrow> vnf_instance \<Rightarrow> grant_request \<Rightarrow> grant \<Rightarrow> vnfd \<Rightarrow> string \<Rightarrow> (jdict \<times> jdict) pyres" where
  "scale_out_hot ud inst grant_req grant vnfd flavour_id =
     bindE (open_hot ud vnfd flavour_id) (\<lambda>(hot0, popped, rest).
     bindE (add_vdu_reses (\<lambda>n. get_current_capacity n inst) popped grant_req grant rest) (\<lambda>(zones, reses).
       Inr (zones, with_resources reses hot0)))"

definition standard_scale_out :: "ud_env \<Rightarrow> op_params \<Rightarrow> vnf_instance \<Rightarrow> grant_request \<Rightarrow> grant \<Rightarrow> vnfd \<Rightarrow> jdict pyres" where
  "standard_scale_out ud req inst grant_req grant vnfd =
     bindE (inst_flavour inst) (\<lambda>flavour_id.
     bindE (scale_out_hot ud inst grant_req grant vnfd flavour_id) (\<lambda>(zones, hot).
     bindE (init_nfv_dict (JObj hot)) (\<lambda>nfv.
     bindE (nfv_section ''VDU'' nfv) (\<lambda>vdus.
     bindE (mapE (standard_vdu grant vnfd flavour_id zones) vdus) (\<lambda>vdus'.
     bindE (nfv_section ''CP'' nfv) (\<lambda>cps.
     bindE (mapE (inst_cp inst) cps) (\<lambda>cps'.
     bindE (apply_ext_managed_vls_from_inst hot inst) (\<lambda>hot'.
     let nfv' = put_section ''CP'' (map drop_nulls cps') (put_section ''VDU'' (map drop_nulls vdus') nfv) in
       Inr ((''template'', JStr (ud_dump ud (JObj hot'))) # nfv_fields (merge_additional_params (nfv_json nfv') req grant))))))))))"

text \<open>The index of a VNFC to remove; when no VNFC has the resource, the index of the last one found.\<close>

definition removed_idx :: "vnfc_resource list \<Rightarrow> res_def \<Rightarrow> json option \<Rightarrow> json option pyres" where
  "removed_idx vnfcs res last_idx = bindE (attr ''resource'' (rd_resource res)) (\<lambda>h.
     case find (\<lambda>v. rh_resourceId (vr_computeResource v) = rh_resourceId h) vnfcs of
       None \<Rightarrow> Inr last_idx
     | Some v \<Rightarrow> bindE (attr ''metadata'' (vr_metadata v)) (\<lambda>md. bindE (dict_item md ''vdu_idx'') (\<lambda>i. Inr (Some i))))"

definition del_vdu_res :: "vnfc_resource list \<Rightarrow> res_def \<Rightarrow> json option \<times> jdict \<Rightarrow> (json option \<times> jdict) pyres" where
  "del_vdu_res vnfcs res = (\<lambda>(last_idx, reses).
     if rd_type res \<noteq> COMPUTE then Inr (last_idx, reses)
     else bindE (removed_idx vnfcs res last_idx) (\<lambda>idx. case idx of
         None \<Rightarrow> Inl (PyExc UnboundLocalError ''vdu_idx'')
       | Some i \<Rightarrow> bindE (idx_text i) (\<lambda>t. Inr (idx, dict_set (add_idx (rd_resourceTemplateId res) t) JNull reses))))"

definition template_fields :: "ud_env \<Rightarrow> jdict \<Rightarrow> jdict" where
  "template_fields ud reses = [(''template'', JStr (ud_dump ud (JObj [(''resources'', JObj reses)])))]"

definition scale_in_reses :: "vnf_instance \<Rightarrow> grant_request \<Rightarrow> jdict pyres" where
  "scale_in_reses inst grant_req =
     bindE (attr ''removeResources'' (gq_removeResources grant_req)) (\<lambda>removed.
     bindE (if filter (\<lambda>r. rd_type r = COMPUTE) removed = [] then Inr []
       else bindE (old_info_of inst) (\<lambda>info. attr ''vnfcResourceInfo'' (iv_vnfcResourceInfo info))) (\<lambda>vnfcs.
     bindE (foldE (del_vdu_res vnfcs) removed (None, [])) (\<lambda>(last_idx, reses). Inr reses)))"

definition standard_scale_in :: "ud_env \<Rightarrow> vnf_instance \<Rightarrow> grant_request \<Rightarrow> jdict pyres" where
  "standard_scale_in ud inst grant_req = bindE (scale_in_reses inst grant_req) (\<lambda>reses. Inr (template_fields ud reses))"

definition standard_scale :: "ud_env \<Rightarrow> op_params \<Rightarrow> vnf_instance \<Rightarrow> grant_request \<Rightarrow> grant \<Rightarrow> vnfd \<Rightarrow> jdict pyres" where
  "standard_scale ud req inst grant_req grant vnfd = bindE (attr ''type'' (rq_type req)) (\<lambda>ty.
     if ty = ''SCALE_OUT'' then standard_scale_out ud req inst grant_req grant vnfd else standard_scale_in ud inst grant_req)"

definition undo_vdu_res :: "res_def \<Rightarrow> (string, nat) dict \<times> jdict \<Rightarrow> ((string, nat) dict \<times> jdict) pyres" where
  "undo_vdu_res res = (\<lambda>(vdu_idxes, reses).
     if rd_type res \<noteq> COMPUTE then Inr (vdu_idxes, reses)
     else bindE (dict_item vdu_idxes (rd_resourceTemplateId res)) (\<lambda>i.
       Inr (dict_set (rd_resourceTemplateId res) (Suc i) vdu_idxes,
         dict_set (add_idx (rd_resourceTemplateId res) (show_nat i)) JNull reses)))"

definition scale_rollback_reses :: "vnf_instance \<Rightarrow> grant_request \<Rightarrow> vnfd \<Rightarrow> jdict pyres" where
  "scale_rollback_reses inst grant_req vnfd =
     bindE (inst_flavour inst) (\<lambda>flavour_id.
     bindE (get_vdu_nodes vnfd (JStr flavour_id)) (\<lambda>nodes.
     bindE (attr ''addResources'' (gq_addResources grant_req)) (\<lambda>added.
     bindE (foldE undo_vdu_res added (map (\<lambda>(n, _). (n, get_current_capacity n inst)) nodes, [])) (\<lambda>(idxes, reses). Inr reses))))"

definition standard_scale_rollback :: "ud_env \<Rightarrow> vnf_instance \<Rightarrow> grant_request \<Rightarrow> vnfd \<Rightarrow> jdict pyres" where
  "standard_scale_rollback ud inst grant_req vnfd =
     bindE (scale_rollback_reses inst grant_req vnfd) (\<lambda>reses. Inr (template_fields ud reses))"

text \<open>The resource of every VNFC with an index, as the template makes it.\<close>

definition indexed_res :: "jdict \<Rightarrow> vnfc_resource \<Rightarrow> (vnfc_resource \<times> string \<times> json) list pyres" where
  "indexed_res popped v = bindE (vnfc_idx v) (\<lambda>idx. if idx = JNull then Inr []
     else bindE (dict_item popped (vr_vduId v)) (\<lambda>template. bindE (idx_text idx) (\<lambda>i.
       bindE (add_idx_to_vdu_template template i) (\<lambda>r. Inr [(v, add_idx (vr_vduId v) i, r)]))))"

definition standard_change_ext_conn :: "ud_env \<Rightarrow> op_params \<Rightarrow> vnf_instance \<Rightarrow> grant \<Rightarrow> vnfd \<Rightarrow> jdict pyres" where
  "standard_change_ext_conn ud req inst grant vnfd =
     bindE (inst_flavour inst) (\<lambda>flavour_id.
     bindE (open_hot ud vnfd flavour_id) (\<lambda>(hot0, popped, rest).
     bindE (old_info_of inst) (\<lambda>info.
     bindE (concatE (indexed_res popped) (opt_list (iv_vnfcResourceInfo info))) (\<lambda>indexed.
     bindE (init_nfv_dict (JObj (with_resources (fold (\<lambda>(v, n, r). dict_set n r) indexed rest) hot0))) (\<lambda>nfv.
     bindE (nfv_section ''CP'' nfv) (\<lambda>cps.
     bindE (new_cps_from_req rm_idx cps req grant) (\<lambda>new_cps.
       Inr (nfv_fields (merge_additional_params (JObj [(''CP'', JObj new_cps)]) req grant)))))))))"

definition stored_nfv_fields :: "vnf_instance \<Rightarrow> jdict pyres" where
  "stored_nfv_fields inst = bindE (stored_nfv inst) (\<lambda>nfv. Inr (nfv_fields nfv))"

text \<open>Setting \<open>d[n][k]\<close>, where \<open>d[n]\<close> has to be there.\<close>

definition set_in :: "string \<Rightarrow> string \<Rightarrow> json \<Rightarrow> jdict \<Rightarrow> jdict pyres" where
  "set_in n k v d = bindE (dict_item d n) (\<lambda>e. bindE (jitems e) (\<lambda>m. Inr (dict_set n (JObj (dict_set k v m)) d)))"

definition heal_vdu :: "grant \<Rightarrow> vnfd \<Rightarrow> string \<Rightarrow> vnfc_resource list \<Rightarrow> res_def \<Rightarrow> jdict \<Rightarrow> jdict pyres" where
  "heal_vdu grant vnfd flavour_id vnfcs res vdus =
     (if rd_type res \<noteq> COMPUTE then Inr vdus
      else bindE (attr ''resource'' (rd_resource res)) (\<lambda>h.
        case find (\<lambda>v. rh_resourceId (vr_computeResource v) = rh_resourceId h) vnfcs of
          None \<Rightarrow> Inr vdus
        | Some v \<Rightarrow> bindE (attr ''metadata'' (vr_metadata v)) (\<lambda>md. bindE (dict_item md ''vdu_idx'') (\<lambda>idx.
            bindE (get_param_image (vr_vduId v) flavour_id vnfd grant False) (\<lambda>image.
            if image = JNull then Inr vdus
            else bindE (idx_text idx) (\<lambda>i. set_in (add_idx (vr_vduId v) i) ''vcImageId'' image vdus))))))"

definition stored_section :: "string \<Rightarrow> vnf_instance \<Rightarrow> jdict pyres" where
  "stored_section k inst = bindE (stored_nfv inst) (\<lambda>nfv. bindE (jget nfv k (JObj [])) jitems)"

definition standard_heal :: "op_params \<Rightarrow> vnf_instance \<Rightarrow> grant_request \<Rightarrow> grant \<Rightarrow> vnfd \<Rightarrow> jdict pyres" where
  "standard_heal req inst grant_req grant vnfd =
     bindE (inst_flavour inst) (\<lambda>flavour_id.
     bindE (stored_section ''VDU'' inst) (\<lambda>vdus.
     bindE (attr ''removeResources'' (gq_removeResources grant_req)) (\<lambda>removed.
     bindE (if filter (\<lambda>r. rd_type r = COMPUTE) removed = [] then Inr []
       else bindE (old_info_of inst) (\<lambda>info. attr ''vnfcResourceInfo'' (iv_vnfcResourceInfo info))) (\<lambda>vnfcs.
     bindE (foldE (heal_vdu grant vnfd flavour_id vnfcs) removed vdus) (\<lambda>vdus'.
       Inr (nfv_fields (merge_additional_params (JObj [(''VDU'', JObj vdus')]) req grant)))))))"

text \<open>Flavors and images of the servers to change, in the stored parameters.\<close>

definition change_vdu :: "grant \<Rightarrow> vnfd \<Rightarrow> string \<Rightarrow> string \<times> (json \<times> nfv) list \<Rightarrow> jdict \<Rightarrow> jdict pyres" where
  "change_vdu grant vnfd flavour_id = (\<lambda>(n, m) vdus.
     bindE (if has_param ''computeFlavourId'' m
       then bindE (get_param_flavor (rm_idx n) flavour_id vnfd grant) (\<lambda>v. set_in n ''computeFlavourId'' v vdus) else Inr vdus) (\<lambda>vdus1.
     if has_param ''vcImageId'' m
     then bindE (get_param_image (rm_idx n) flavour_id vnfd grant True) (\<lambda>v. set_in n ''vcImageId'' v vdus1) else Inr vdus1))"

definition template_of_inst :: "ud_env \<Rightarrow> vnf_instance \<Rightarrow> vnfd \<Rightarrow> string \<Rightarrow> (jdict \<times> (vnfc_resource \<times> string \<times> json) list) pyres" where
  "template_of_inst ud inst vnfd flavour_id =
     bindE (open_hot ud vnfd flavour_id) (\<lambda>(hot0, popped, rest).
     bindE (old_info_of inst) (\<lambda>info.
     bindE (attr ''vnfcResourceInfo'' (iv_vnfcResourceInfo info)) (\<lambda>vnfcs.
     bindE (concatE (indexed_res popped) vnfcs) (\<lambda>indexed.
       Inr (with_resources (fold (\<lambda>(v, n, r). dict_set n r) indexed rest) hot0, indexed)))))"

text \<open>The fields for a whole new template.\<close>

definition full_fields :: "ud_env \<Rightarrow> jdict \<Rightarrow> jdict \<Rightarrow> json \<Rightarrow> jdict pyres" where
  "full_fields ud hot_dict hot nfv = bindE (hot_files ud hot_dict) (\<lambda>files.
     Inr ((''template'', JStr (ud_dump ud (JObj hot))) # nfv_fields nfv @ [(''files'', files), (''existing'', JBool False)]))"

definition nfv_of_reses :: "(vnfc_resource \<times> string \<times> json) list \<Rightarrow> nfv pyres" where
  "nfv_of_reses indexed = init_nfv_dict (JObj [(''resources'', JObj (fold (\<lambda>(v, n, r). dict_set n r) indexed []))])"

text \<open>A CP keeps its stored parameters unless the request has new ones.\<close>

definition chosen_cp :: "jdict \<Rightarrow> jdict \<Rightarrow> string \<Rightarrow> (string \<times> json) pyres" where
  "chosen_cp req_cps cur_cps cp_name = (case map_of req_cps cp_name of
      Some v \<Rightarrow> Inr (cp_name, v) | None \<Rightarrow> bindE (dict_item cur_cps cp_name) (\<lambda>v. Inr (cp_name, v)))"

definition standard_change_vnfpkg :: "ud_env \<Rightarrow> op_params \<Rightarrow> vnf_instance \<Rightarrow> grant_request \<Rightarrow> grant \<Rightarrow> vnfd \<Rightarrow> jdict pyres" where
  "standard_change_vnfpkg ud req inst grant_req grant vnfd =
     bindE (inst_flavour inst) (\<lambda>flavour_id.
     bindE (removed_resource_ids COMPUTE grant_req) (\<lambda>target_ids.
     bindE (template_of_inst ud inst vnfd flavour_id) (\<lambda>(hot, indexed).
     let is_target = (\<lambda>(v, n, r). rh_resourceId (vr_computeResource v) \<in> set target_ids) in
     bindE (nfv_of_reses (filter (\<lambda>x. \<not> is_target x) indexed)) (\<lambda>cur_nfv.
     bindE (nfv_of_reses (filter is_target indexed)) (\<lambda>new_nfv.
     bindE (nfv_section ''VDU'' new_nfv) (\<lambda>new_vdus.
     bindE (stored_section ''VDU'' inst) (\<lambda>vdus.
     bindE (foldE (change_vdu grant vnfd flavour_id) new_vdus vdus) (\<lambda>vdus'.
     bindE (nfv_section ''CP'' cur_nfv) (\<lambda>cps0.
     bindE (nfv_section ''CP'' new_nfv) (\<lambda>cps1.
     let cps = fold (\<lambda>(n, m). dict_set n m) cps1 cps0 in
     bindE (stored_section ''CP'' inst) (\<lambda>cur_cps.
     bindE (new_cps_from_req rm_idx cps req grant) (\<lambda>req_cps.
     bindE (mapE (\<lambda>(n, m). chosen_cp req_cps cur_cps n) cps) (\<lambda>cps'.
     bindE (apply_ext_managed_vls hot req grant) (\<lambda>hot'.
       full_fields ud (ud_base_hot ud vnfd flavour_id) hot'
         (merge_additional_params (JObj [(''VDU'', JObj vdus'), (''CP'', JObj cps')]) req grant)))))))))))))))"

definition standard_change_vnfpkg_rollback :: "ud_env \<Rightarrow> op_params \<Rightarrow> vnf_instance \<Rightarrow> grant \<Rightarrow> vnfd \<Rightarrow> jdict pyres" where
  "standard_change_vnfpkg_rollback ud req inst grant vnfd =
     bindE (inst_flavour inst) (\<lambda>flavour_id.
     bindE (template_of_inst ud inst vnfd flavour_id) (\<lambda>(hot, indexed).
     bindE (apply_ext_managed_vls hot req grant) (\<lambda>hot'.
     bindE (stored_nfv inst) (\<lambda>nfv.
       full_fields ud (ud_base_hot ud vnfd flavour_id) hot' nfv))))"

definition standard_userdata :: "ud_env \<Rightarrow> op_type \<Rightarrow> bool \<Rightarrow> op_params \<Rightarrow> vnf_instance \<Rightarrow> grant_request \<Rightarrow> grant \<Rightarrow> vnfd \<Rightarrow> jdict pyres" where
  "standard_userdata ud op is_rollback req inst grant_req grant vnfd =
     (if op = INSTANTIATE \<and> \<not> is_rollback then standard_instantiate ud req grant_req grant vnfd
      else if op = SCALE then (if is_rollback then standard_scale_rollback ud inst grant_req vnfd
        else standard_scale ud req inst grant_req grant vnfd)
      else if op = CHANGE_EXT_CONN then (if is_rollback then stored_nfv_fields inst else standard_change_ext_conn ud req inst grant vnfd)
      else if op = HEAL \<and> \<not> is_rollback then standard_heal req inst grant_req grant vnfd
      else if op = CHANGE_VNFPKG then (if is_rollback then standard_change_vnfpkg_rollback ud req inst grant vnfd
        else standard_change_vnfpkg ud req inst grant_req grant vnfd)
      else Inl (PyExc AttributeError ''StandardUserData''))"

end
