(* ===== verification/Userdata_Props.thy ===== *)
theory Userdata_Props
  imports Heat_Props Userdata_Standard
begin

section \<open>Scaling with the standard user data\<close>

text \<open>
  A scale goes through four components: the grant request chooses the VNFCs, the user data class makes
  or deletes a resource for each, Heat changes the stack, and the driver records it. The names of the
  resources carry indices, and the class takes the number of VNFCs as the next free index. That is right
  as long as the indices of a VDU are the numbers below the number of its VNFCs; here it is shown that
  scaling keeps them so.
\<close>

subsection \<open>Indices\<close>

definition idx_of :: "vnfc_resource \<Rightarrow> int" where
  "idx_of v = (case vnfc_idx v of Inr (JNum i) \<Rightarrow> i | _ \<Rightarrow> - 1)"

definition vdu_indices :: "string \<Rightarrow> vnfc_resource list \<Rightarrow> int list" where
  "vdu_indices vdu vnfcs = map idx_of (filter (\<lambda>v. vr_vduId v = vdu) vnfcs)"

definition numbered :: "string \<Rightarrow> vnfc_resource list \<Rightarrow> bool" where
  "numbered vdu vnfcs = (set (vdu_indices vdu vnfcs) = {0 ..< int (length (vdu_indices vdu vnfcs))})"

definition vnfc_res_name :: "vnfc_resource \<Rightarrow> string" where
  "vnfc_res_name v = add_idx (vr_vduId v) (show_int (idx_of v))"

lemma descending_numbers:
  assumes "sorted_wrt (\<ge>) xs" and "set xs = {0 ..< int (length xs)}"
  shows "xs = rev (map int [0..<length xs])"
proof -
  have "card (set xs) = length xs" using assms(2) by simp
  then have "distinct (rev xs)" by (simp add: card_distinct)
  moreover have "sorted (rev xs)" using assms(1) by (simp add: sorted_wrt_rev)
  moreover have "set (rev xs) = set (map int [0..<length xs])"
    using assms(2) by (auto simp: image_int_atLeastLessThan)
  moreover have "sorted (map int [0..<length xs])" "distinct (map int [0..<length xs])"
    by (simp_all add: sorted_map distinct_map sorted_wrt_mono_rel [OF _ sorted_upt])
  ultimately have "rev xs = map int [0..<length xs]" by (intro sorted_distinct_set_unique)
  then show ?thesis by (metis rev_rev_ident)
qed

lemma idx_of_nonneg: "0 \<le> idx_of v \<Longrightarrow> vnfc_idx v = Inr (JNum (idx_of v))"
  by (auto simp: idx_of_def split: sum.splits json.splits)

lemma age_idx: "vnfc_key hv v = Inr k \<Longrightarrow> 0 \<le> idx_of v \<Longrightarrow> fst (vnfc_age hv v) = idx_of v"
  by (drule idx_of_nonneg) (auto simp: vnfc_age_def vnfc_key_def vnfc_idx_def bindE_eq_Inr idx_num_def or_null_def split: option.splits)

lemma numbered_nonneg: "numbered vdu vnfcs \<Longrightarrow> v \<in> set vnfcs \<Longrightarrow> vr_vduId v = vdu \<Longrightarrow> 0 \<le> idx_of v"
  by (force simp: numbered_def vdu_indices_def)

text \<open>VNFCs that are recorded newest first have their indices in descending order.\<close>

lemma indices_descend:
  assumes "sorted_wrt (\<lambda>v w. vnfc_age hv w \<le> vnfc_age hv v) vnfcs" and "\<forall>v \<in> set vnfcs. \<exists>k. vnfc_key hv v = Inr k"
    and "numbered vdu vnfcs"
  shows "vdu_indices vdu vnfcs = rev (map int [0..<length (vdu_indices vdu vnfcs)])"
proof -
  let ?fs = "filter (\<lambda>v. vr_vduId v = vdu) vnfcs"
  have "sorted_wrt (\<lambda>v w. vnfc_age hv w \<le> vnfc_age hv v) ?fs" using assms(1) by (rule sorted_wrt_filter)
  then have "sorted_wrt (\<lambda>v w. idx_of w \<le> idx_of v) ?fs"
  proof (rule sorted_wrt_mono_rel [rotated])
    fix v w
    assume "v \<in> set ?fs" "w \<in> set ?fs" and le: "vnfc_age hv w \<le> vnfc_age hv v"
    then have "fst (vnfc_age hv v) = idx_of v" "fst (vnfc_age hv w) = idx_of w"
      using assms(2) numbered_nonneg [OF assms(3)] by (auto intro: age_idx)
    with le show "idx_of w \<le> idx_of v" by (cases "vnfc_age hv v"; cases "vnfc_age hv w") auto
  qed
  then have "sorted_wrt (\<ge>) (vdu_indices vdu vnfcs)" by (simp add: vdu_indices_def sorted_wrt_map)
  then show ?thesis using assms(3) unfolding numbered_def by (rule descending_numbers)
qed

subsection \<open>Names of resources\<close>

lemma show_nat_inj: "show_nat m = show_nat n \<longleftrightarrow> m = n"
proof -
  have "of_char (digit_char a) = 48 + a" if "a < 10" for a using that by (simp add: digit_char_def)
  then have digit: "digit_char a = digit_char b \<longleftrightarrow> a = b" if "a < 10" "b < 10" for a b
    using that by (metis add_left_cancel)
  have ne: "show_nat n \<noteq> []" for n by (subst show_nat.simps) simp
  have "show_nat m = show_nat n \<Longrightarrow> m = n"
  proof (induction m arbitrary: n rule: less_induct)
    case (less m)
    note eqs = show_nat.simps [of m] show_nat.simps [of n]
    consider "m < 10" "n < 10" | "m < 10" "\<not> n < 10" | "\<not> m < 10" "n < 10" | "\<not> m < 10" "\<not> n < 10" by blast
    then show ?case
    proof cases
      case 4
      with less.prems eqs have "show_nat (m div 10) = show_nat (n div 10)" "m mod 10 = n mod 10" by (simp_all add: digit)
      with less.IH [of "m div 10" "n div 10"] 4 have "m div 10 = n div 10" by simp
      with \<open>m mod 10 = n mod 10\<close> show ?thesis by (metis mult_div_mod_eq)
    qed (use less.prems eqs ne in \<open>simp_all add: digit append_eq_Cons_conv Cons_eq_append_conv\<close>)
  qed
  then show ?thesis by blast
qed

lemma show_nat_no_dash: "CHR ''-'' \<notin> set (show_nat n)"
proof (induction n rule: show_nat.induct)
  case (1 n)
  have "digit_char d \<noteq> CHR ''-''" if "d < 10" for d
  proof
    assume "digit_char d = CHR ''-''"
    then have "of_char (char_of (48 + d)) = (of_char (CHR ''-'') :: nat)" by (simp add: digit_char_def)
    then show False using that by simp
  qed
  from this [of n] this [of "n mod 10"] 1 show ?case by (subst show_nat.simps) (auto simp del: not_less)
qed

lemma add_idx_inj: "add_idx a (show_nat i) = add_idx b (show_nat j) \<longleftrightarrow> a = b \<and> i = j"
proof
  assume "add_idx a (show_nat i) = add_idx b (show_nat j)"
  then have "rev (show_nat i) @ CHR ''-'' # rev a = rev (show_nat j) @ CHR ''-'' # rev b"
    by (simp add: add_idx_def flip: rev_append) (metis append.assoc append_Cons append_Nil rev.simps(2) rev_append)
  then have eq: "rev (show_nat i) @ CHR ''-'' # rev a = rev (show_nat j) @ CHR ''-'' # rev b" .
  have "takeWhile (\<lambda>c. c \<noteq> CHR ''-'') (rev (show_nat n) @ CHR ''-'' # xs) = rev (show_nat n)" for n xs
    using show_nat_no_dash [of n] by (subst takeWhile_append2) auto
  with arg_cong [OF eq, of "takeWhile (\<lambda>c. c \<noteq> CHR ''-'')"] have "rev (show_nat i) = rev (show_nat j)" by simp
  then have "i = j" by (simp add: show_nat_inj)
  with eq show "a = b \<and> i = j" by simp
qed simp

lemma show_int_nat [simp]: "show_int (int n) = show_nat n"
  by (simp add: show_int_def)

subsection \<open>Scale in\<close>

lemma find_by_key: "distinct (map f xs) \<Longrightarrow> v \<in> set xs \<Longrightarrow> find (\<lambda>w. f w = f v) xs = Some v"
  by (induction xs) auto

lemma removed_idx_eq:
  assumes "distinct (map vr_id vnfcs)" and "\<forall>v \<in> set vnfcs. rh_resourceId (vr_computeResource v) = vr_id v"
    and "v \<in> set vnfcs" and "0 \<le> idx_of v" and "rd_resource res = Some (vr_computeResource v)"
  shows "removed_idx vnfcs res l = Inr (Some (JNum (idx_of v)))"
proof -
  have "find (\<lambda>w. rh_resourceId (vr_computeResource w) = rh_resourceId (vr_computeResource v)) vnfcs = find (\<lambda>w. vr_id w = vr_id v) vnfcs"
    using assms(2,3) by (intro find_cong) auto
  also have "\<dots> = Some v" using assms(1,3) by (rule find_by_key)
  finally have v: "find (\<lambda>w. rh_resourceId (vr_computeResource w) = rh_resourceId (vr_computeResource v)) vnfcs = Some v" .
  from assms(4) have "vnfc_idx v = Inr (JNum (idx_of v))" by (rule idx_of_nonneg)
  then obtain md where "vr_metadata v = Some md" "map_of md ''vdu_idx'' = Some (JNum (idx_of v))"
    by (auto simp: vnfc_idx_def bindE_eq_Inr or_null_def attr_def split: option.splits)
  with v show ?thesis by (simp add: removed_idx_def assms(5) dict_item_def)
qed

lemma del_vdu_reses:
  assumes "distinct (map vr_id vnfcs)" and "\<forall>v \<in> set vnfcs. rh_resourceId (vr_computeResource v) = vr_id v"
    and "compute_handles rs = map (\<lambda>v. (vr_vduId v, Some (vr_computeResource v))) rm"
    and "set rm \<subseteq> set vnfcs" and "\<forall>v \<in> set rm. 0 \<le> idx_of v"
  shows "\<exists>l'. foldE (del_vdu_res vnfcs) rs (l, reses) = Inr (l', fold (\<lambda>n. dict_set n JNull) (map vnfc_res_name rm) reses)"
  using assms(3-5)
proof (induction rs arbitrary: rm l reses)
  case (Cons r rs)
  show ?case
  proof (cases "rd_type r = COMPUTE")
    case True
    with Cons.prems(1) obtain v rm' where rm: "rm = v # rm'" and r: "rd_resourceTemplateId r = vr_vduId v"
      "rd_resource r = Some (vr_computeResource v)"
      and rest: "compute_handles rs = map (\<lambda>v. (vr_vduId v, Some (vr_computeResource v))) rm'" by (cases rm) auto
    have "removed_idx vnfcs r l = Inr (Some (JNum (idx_of v)))"
      using assms(1,2) _ _ r(2) by (rule removed_idx_eq) (use rm Cons.prems in auto)
    then have "del_vdu_res vnfcs r (l, reses) = Inr (Some (JNum (idx_of v)), dict_set (vnfc_res_name v) JNull reses)"
      using True r by (simp add: del_vdu_res_def idx_text_def vnfc_res_name_def)
    with Cons.IH [OF rest] rm Cons.prems(2,3) show ?thesis by simp
  next
    case False
    then have "del_vdu_res vnfcs r (l, reses) = Inr (l, reses)" by (simp add: del_vdu_res_def)
    with Cons.IH [of rm] Cons.prems False show ?thesis by simp
  qed
qed simp

lemma nulls: "map_of (fold (\<lambda>n. dict_set n JNull) ns d) = (\<lambda>n. if n \<in> set ns then Some JNull else map_of d n)"
  by (induction ns arbitrary: d) (auto simp: fun_eq_iff)

lemma nulls_wf: "dict_wf d \<Longrightarrow> dict_wf (fold (\<lambda>n. dict_set n JNull) ns d)"
  by (induction ns arbitrary: d) simp_all

lemma taken_numbers: "take k (rev (map int [0..<n])) = rev (map int [n - k..<n])"
  by (simp add: take_rev drop_map)

lemma left_numbers: "drop k (rev (map int [0..<n])) = rev (map int [0..<n - k])"
  by (simp add: drop_rev take_map)

text \<open>The VNFCs of a VDU in the order in which they are recorded.\<close>

definition vnfcs_of :: "string \<Rightarrow> vnfc_resource list \<Rightarrow> vnfc_resource list" where
  "vnfcs_of vdu vnfcs = filter (\<lambda>v. vr_vduId v = vdu) vnfcs"

lemma taken_names:
  assumes "map idx_of (vnfcs_of vdu vnfcs) = rev (map int [0..<n])"
  shows "vnfc_res_name ` set (take k (vnfcs_of vdu vnfcs)) = (\<lambda>i. add_idx vdu (show_nat i)) ` {n - k..<n}"
proof -
  have "vnfc_res_name ` set (take k (vnfcs_of vdu vnfcs)) = (\<lambda>i. add_idx vdu (show_int i)) ` set (map idx_of (take k (vnfcs_of vdu vnfcs)))"
    unfolding set_map image_image by (rule image_cong) (auto simp: vnfc_res_name_def vnfcs_of_def dest!: in_set_takeD)
  also have "map idx_of (take k (vnfcs_of vdu vnfcs)) = rev (map int [n - k..<n])"
    unfolding take_map [symmetric] assms by (rule taken_numbers)
  finally show ?thesis by (simp only: set_rev set_map set_upt image_image show_int_nat)
qed

lemma not_taken: "distinct xs \<Longrightarrow> filter (\<lambda>x. x \<notin> set (take k xs)) xs = drop k xs"
proof -
  assume d: "distinct xs"
  have "filter (\<lambda>x. x \<notin> set (take k xs)) (take k xs @ drop k xs) = drop k xs"
    unfolding filter_append using d
    by (auto simp: filter_empty_conv filter_id_conv dest: set_take_disj_set_drop_if_distinct [of xs k k])
  then show ?thesis by (simp only: append_take_drop_id)
qed

text \<open>The VNFCs whose servers are not among the resources to remove.\<close>

definition kept_vnfcs :: "grant_request \<Rightarrow> vnfc_resource list \<Rightarrow> vnfc_resource list" where
  "kept_vnfcs q vnfcs = filter (\<lambda>v. Some (vr_computeResource v) \<notin> snd ` set (compute_handles (opt_list (gq_removeResources q)))) vnfcs"

lemma kept_of:
  assumes "compute_handles (opt_list (gq_removeResources q)) = map (\<lambda>v. (vr_vduId v, Some (vr_computeResource v))) rm"
    and "set rm \<subseteq> set vnfcs" and "distinct (map vr_id vnfcs)"
    and "\<forall>v \<in> set vnfcs. rh_resourceId (vr_computeResource v) = vr_id v"
    and "vnfcs_of vdu rm = take k (vnfcs_of vdu vnfcs)"
  shows "vnfcs_of vdu (kept_vnfcs q vnfcs) = drop k (vnfcs_of vdu vnfcs)"
proof -
  let ?fs = "vnfcs_of vdu vnfcs"
  have inj: "v = w" if "v \<in> set vnfcs" "w \<in> set vnfcs" "vr_computeResource v = vr_computeResource w" for v w
    using that assms(3,4) by (metis distinct_map inj_onD)
  have removed: "Some (vr_computeResource v) \<in> snd ` set (compute_handles (opt_list (gq_removeResources q))) \<longleftrightarrow> v \<in> set rm" if "v \<in> set vnfcs" for v
    using that inj assms(2) by (auto simp: assms(1) image_iff subset_iff)
  have taken: "set (take k ?fs) = {v \<in> set rm. vr_vduId v = vdu}" unfolding assms(5) [symmetric] by (auto simp: vnfcs_of_def)
  have kept: "vnfcs_of vdu (kept_vnfcs q vnfcs) = filter (\<lambda>v. v \<notin> set rm) ?fs"
    unfolding vnfcs_of_def kept_vnfcs_def filter_filter by (rule filter_cong) (use removed in blast)+
  have rest: "filter (\<lambda>v. v \<notin> set rm) ?fs = filter (\<lambda>v. v \<notin> set (take k ?fs)) ?fs"
    unfolding taken by (intro filter_cong) (auto simp: vnfcs_of_def)
  have "distinct ?fs" using assms(3) by (simp add: vnfcs_of_def distinct_map)
  then show ?thesis unfolding kept rest by (rule not_taken)
qed

lemma vnfcs_of_numbered:
  assumes "map idx_of (vnfcs_of vdu vnfcs) = rev (map int [0..<n])"
  shows "numbered vdu vnfcs"
proof -
  have "vdu_indices vdu vnfcs = rev (map int [0..<n])" using assms by (simp add: vdu_indices_def vnfcs_of_def)
  then show ?thesis by (simp add: numbered_def image_int_atLeastLessThan)
qed

text \<open>
  C13: A scale in with the standard user data deletes the resources with the last indices. When the
  VNFCs of an instance are the ones that the driver recorded from a stack and the indices of each VDU
  of the aspect are the numbers below the number of its VNFCs, the user data class finds the
  index of every VNFC that the grant request removes, its template patch deletes exactly the resources
  of the last delta times steps indices of each VDU from the template of the stack, and the indices of
  the VNFCs that stay are again the numbers below their number.
\<close>

theorem scale_in_deletes_last_indices:
  assumes "make_instantiated_vnf_info hv req0 inst0 gq0 grant0 vnfd0 rb sid = Inr inst1"
    and "in_instantiatedVnfInfo inst1 = Some info1" and "iv_vnfcResourceInfo info = iv_vnfcResourceInfo info1"
    and "iv_vnfcResourceInfo info = Some vnfcs" and "in_instantiatedVnfInfo inst = Some info"
    and "scale_grant env req inst vnfd (grant_request_common env lcmocc inst) n = (Inr q, n')"
    and "rq_type req = Some ''SCALE_IN''" and "rq_aspectId req = Some aspect"
    and "rq_numberOfSteps req = Some steps" and "0 < steps"
    and "get_scale_vdu_and_num vnfd (JStr (iv_flavourId info)) aspect = Inr (map (\<lambda>(vdu, d). (vdu, JNum d)) deltas)"
    and "\<forall>(vdu, d) \<in> set deltas. 0 < d \<and> numbered vdu vnfcs" and "distinct (map fst deltas)"
    and "vr_vduId v \<in> fst ` set deltas" and "v \<in> set vnfcs"
  shows "\<exists>reses. scale_in_reses inst q = Inr reses \<and>
    (\<forall>tmpl name. map_of (obj_items (json_merge_patch (JObj tmpl) (JObj reses))) name =
      (if \<exists>(vdu, d) \<in> set deltas. \<exists>i \<in> {get_current_capacity vdu inst - nat (d * steps)..<get_current_capacity vdu inst}.
            name = add_idx vdu (show_nat i) then None else map_of tmpl name)) \<and>
    (\<forall>(vdu, d) \<in> set deltas. numbered vdu (kept_vnfcs q vnfcs))"
proof -
  let ?n = "\<lambda>vdu. length (vnfcs_of vdu vnfcs)"
  let ?rm = "concat (map (\<lambda>(vdu, d). take (nat (d * steps)) (vnfcs_of vdu vnfcs)) deltas)"
  have "opt_list (iv_vnfcResourceInfo info1) = vnfcs" unfolding assms(3) [symmetric] assms(4) by simp
  note order = recorded_order [OF assms(1,2), unfolded this]
  have pos: "\<forall>(vdu, d) \<in> set deltas. 0 < d" using assms(12) by blast
  have rm: "compute_handles (opt_list (gq_removeResources q)) = map (\<lambda>v. (vr_vduId v, Some (vr_computeResource v))) ?rm"
    using scale_in_removes_newest [OF assms(6-10,5,4,11) pos] unfolding vnfcs_of_def .
  have sub: "set ?rm \<subseteq> set vnfcs" by (auto simp: vnfcs_of_def dest: in_set_takeD)
  have idx: "map idx_of (vnfcs_of vdu vnfcs) = rev (map int [0..<?n vdu])" if "(vdu, d) \<in> set deltas" for vdu d
    using indices_descend [OF order(2,3), of vdu] assms(12) that unfolding vdu_indices_def vnfcs_of_def by auto
  have names: "set (map vnfc_res_name ?rm) = (\<Union>(vdu, d) \<in> set deltas. (\<lambda>i. add_idx vdu (show_nat i)) ` {?n vdu - nat (d * steps)..<?n vdu})"
    unfolding set_map set_concat image_UN image_image by (rule SUP_cong [OF refl]) (use taken_names [OF idx] in fastforce)
  have "?rm \<noteq> []"
  proof -
    from assms(14,15) obtain d where d: "(vr_vduId v, d) \<in> set deltas" and "v \<in> set (vnfcs_of (vr_vduId v) vnfcs)" by (auto simp: vnfcs_of_def)
    moreover have "0 < d * steps" using d pos assms(10) by auto
    ultimately have "take (nat (d * steps)) (vnfcs_of (vr_vduId v) vnfcs) \<noteq> []" by auto
    with d show ?thesis by force
  qed
  then have "compute_handles (opt_list (gq_removeResources q)) \<noteq> []" unfolding rm by (simp only: map_is_Nil_conv not_False_eq_True)
  then obtain removed where removed: "gq_removeResources q = Some removed" and computes: "filter (\<lambda>r. rd_type r = COMPUTE) removed \<noteq> []"
    by (cases "gq_removeResources q") (auto simp: compute_handles_def)
  have nonneg: "\<forall>v \<in> set ?rm. 0 \<le> idx_of v"
    using assms(12) numbered_nonneg by (force simp: vnfcs_of_def dest!: in_set_takeD)
  from del_vdu_reses [OF order(1,4) rm sub nonneg, of None "[]"]
  have "scale_in_reses inst q = Inr (fold (\<lambda>n. dict_set n JNull) (map vnfc_res_name ?rm) [])"
    using computes by (auto simp: scale_in_reses_def removed old_info_of_def assms(4,5))
  moreover have "map_of (obj_items (json_merge_patch (JObj tmpl) (JObj (fold (\<lambda>n. dict_set n JNull) (map vnfc_res_name ?rm) [])))) name =
      (if \<exists>(vdu, d) \<in> set deltas. \<exists>i \<in> {get_current_capacity vdu inst - nat (d * steps)..<get_current_capacity vdu inst}.
            name = add_idx vdu (show_nat i) then None else map_of tmpl name)" for tmpl name
  proof -
    have "name \<in> set (map vnfc_res_name ?rm) \<longleftrightarrow> (\<exists>(vdu, d) \<in> set deltas. \<exists>i \<in> {?n vdu - nat (d * steps)..<?n vdu}. name = add_idx vdu (show_nat i))"
      unfolding names by fastforce
    moreover have "get_current_capacity vdu inst = ?n vdu" for vdu by (simp add: get_current_capacity_def vnfcs_of_def assms(4,5))
    ultimately show ?thesis
      by (simp only: json_merge_patch_obj obj_items_JObj merge_items_lookup [OF nulls_wf [of "[]"], simplified] nulls) (simp add: patch_entry_def)
  qed
  moreover have "numbered vdu (kept_vnfcs q vnfcs)" if "(vdu, d) \<in> set deltas" for vdu d
  proof (rule vnfcs_of_numbered)
    have "vnfcs_of vdu ?rm = take (nat (d * steps)) (vnfcs_of vdu vnfcs)"
      unfolding vnfcs_of_def using assms(13) that by (rule filter_parts [where num = "\<lambda>d. nat (d * steps)"])
    from kept_of [OF rm sub order(1,4) this]
    show "map idx_of (vnfcs_of vdu (kept_vnfcs q vnfcs)) = rev (map int [0..<?n vdu - nat (d * steps)])"
      by (simp add: drop_map [symmetric] idx [OF that] left_numbers)
  qed
  ultimately show ?thesis by blast
qed

subsection \<open>Scale out and its rollback\<close>

text \<open>The names for the VNFCs to add of the VDUs in \<open>P\<close>, where \<open>f\<close> has the next index of each VDU.\<close>

fun new_names :: "(string \<Rightarrow> bool) \<Rightarrow> (string \<Rightarrow> nat) \<Rightarrow> res_def list \<Rightarrow> string list" where
  "new_names P f [] = []"
| "new_names P f (r # rs) = (let vdu = rd_resourceTemplateId r in
     if rd_type r = COMPUTE \<and> P vdu then add_idx vdu (show_nat (f vdu)) # new_names P (f(vdu := Suc (f vdu))) rs
     else new_names P f rs)"

lemma vdu_count_Cons:
  "vdu_count vdu (Some (r # rs)) = (if rd_type r = COMPUTE \<and> rd_resourceTemplateId r = vdu then 1 else 0) + vdu_count vdu (Some rs)"
  by (simp add: vdu_count_def)

lemma new_names_set:
  "x \<in> set (new_names P f rs) \<longleftrightarrow> (\<exists>vdu i. x = add_idx vdu (show_nat i) \<and> P vdu \<and> f vdu \<le> i \<and> i < f vdu + vdu_count vdu (Some rs))"
proof (induction rs arbitrary: f)
  case Nil
  then show ?case by (auto simp: vdu_count_def)
next
  case (Cons r rs)
  let ?t = "rd_resourceTemplateId r"
  show ?case
  proof (cases "rd_type r = COMPUTE \<and> P ?t")
    case True
    let ?new = "\<lambda>f rs vdu i. P vdu \<and> f vdu \<le> i \<and> i < f vdu + vdu_count vdu (Some rs)"
    have step: "?new f (r # rs) vdu i \<longleftrightarrow> vdu = ?t \<and> i = f ?t \<or> ?new (f(?t := Suc (f ?t))) rs vdu i" for vdu i
      using True by (auto simp: vdu_count_Cons)
    have "x \<in> set (new_names P f (r # rs)) \<longleftrightarrow> x = add_idx ?t (show_nat (f ?t)) \<or> x \<in> set (new_names P (f(?t := Suc (f ?t))) rs)"
      using True by (simp add: Let_def)
    then show ?thesis unfolding Cons.IH step by blast
  next
    case False
    then have "P vdu \<Longrightarrow> vdu_count vdu (Some (r # rs)) = vdu_count vdu (Some rs)" for vdu by (auto simp: vdu_count_Cons)
    then show ?thesis using False Cons.IH [of f] by (simp add: Let_def cong: conj_cong)
  qed
qed

definition next_idx :: "(string, nat) dict \<Rightarrow> string \<Rightarrow> nat" where
  "next_idx idxes n = (case map_of idxes n of None \<Rightarrow> 0 | Some i \<Rightarrow> i)"

lemma next_idx_set: "next_idx (dict_set n i idxes) = (next_idx idxes)(n := i)"
  by (auto simp: next_idx_def fun_eq_iff)

lemma new_names_cong: "(\<And>r. r \<in> set rs \<Longrightarrow> rd_type r = COMPUTE \<Longrightarrow> P (rd_resourceTemplateId r) = Q (rd_resourceTemplateId r)) \<Longrightarrow> new_names P f rs = new_names Q f rs"
  by (induction rs arbitrary: f) (auto simp: Let_def)

lemma add_vdu_res_all:
  assumes "foldE (add_vdu_res popped grant) rs (idxes, zones, reses) = Inr (idxes', zones', reses')"
  shows "\<exists>new. reses' = fold (\<lambda>(n, r). dict_set n r) new reses \<and> map fst new = new_names (\<lambda>n. map_of popped n \<noteq> None) (next_idx idxes) rs \<and>
    fst ` set zones' = fst ` set zones \<union> fst ` set new"
  using assms
proof (induction rs arbitrary: idxes zones reses)
  case (Cons r rs)
  let ?t = "rd_resourceTemplateId r"
  show ?case
  proof (cases "rd_type r = COMPUTE \<and> map_of popped ?t \<noteq> None")
    case True
    then obtain template where t: "map_of popped ?t = Some template" by blast
    let ?i = "next_idx idxes ?t"
    from Cons.prems obtain s1 where 1: "add_vdu_res popped grant r (idxes, zones, reses) = Inr s1"
      and 2: "foldE (add_vdu_res popped grant) rs s1 = Inr (idxes', zones', reses')" by (auto simp: bindE_eq_Inr)
    from 1 True t obtain x z where s1: "s1 = (dict_set ?t (Suc ?i) idxes, dict_set (add_idx ?t (show_nat ?i)) z zones, dict_set (add_idx ?t (show_nat ?i)) x reses)"
      by (auto simp: add_vdu_res_def Let_def bindE_eq_Inr next_idx_def)
    from Cons.IH [OF 2 [unfolded s1]] obtain new where
      "reses' = fold (\<lambda>(n, r). dict_set n r) ((add_idx ?t (show_nat ?i), x) # new) reses"
      "map fst new = new_names (\<lambda>n. map_of popped n \<noteq> None) (next_idx (dict_set ?t (Suc ?i) idxes)) rs"
      "fst ` set zones' = fst ` set (dict_set (add_idx ?t (show_nat ?i)) z zones) \<union> fst ` set new" by auto
    then show ?thesis using True
      by (intro exI [of _ "(add_idx ?t (show_nat ?i), x) # new"])
        (auto simp: Let_def next_idx_set dom_map_of_conv_image_fst [symmetric] simp del: map_of_eq_None_iff)
  next
    case False
    then have skip: "add_vdu_res popped grant r (idxes, zones, reses) = Inr (idxes, zones, reses)"
      by (auto simp: add_vdu_res_def split: option.splits)
    with Cons.prems have "foldE (add_vdu_res popped grant) rs (idxes, zones, reses) = Inr (idxes', zones', reses')" by simp
    from Cons.IH [OF this] False show ?thesis by (auto simp: Let_def)
  qed
qed simp

lemma undo_vdu_res_eq:
  "undo_vdu_res r (idxes, reses) = Inr (idxes1, reses1) \<Longrightarrow>
   (if rd_type r = COMPUTE then map_of idxes (rd_resourceTemplateId r) \<noteq> None \<and>
      idxes1 = dict_set (rd_resourceTemplateId r) (Suc (next_idx idxes (rd_resourceTemplateId r))) idxes \<and>
      reses1 = dict_set (add_idx (rd_resourceTemplateId r) (show_nat (next_idx idxes (rd_resourceTemplateId r)))) JNull reses
    else idxes1 = idxes \<and> reses1 = reses)"
  by (auto simp: undo_vdu_res_def bindE_eq_Inr dict_item_def next_idx_def split: if_splits option.splits)

lemma undo_vdu_res_all:
  assumes "foldE undo_vdu_res rs (idxes, reses) = Inr (idxes', reses')"
  shows "reses' = fold (\<lambda>n. dict_set n JNull) (new_names (\<lambda>_. True) (next_idx idxes) rs) reses \<and>
    (\<forall>r \<in> set rs. rd_type r = COMPUTE \<longrightarrow> map_of idxes (rd_resourceTemplateId r) \<noteq> None)"
  using assms
proof (induction rs arbitrary: idxes reses)
  case (Cons r rs)
  from Cons.prems obtain idxes1 reses1 where 1: "undo_vdu_res r (idxes, reses) = Inr (idxes1, reses1)"
    and 2: "foldE undo_vdu_res rs (idxes1, reses1) = Inr (idxes', reses')" by (auto simp: bindE_eq_Inr)
  show ?case
  proof (cases "rd_type r = COMPUTE")
    case True
    with undo_vdu_res_eq [OF 1] Cons.IH [OF 2] show ?thesis
      by (auto simp: Let_def next_idx_set fun_upd_def split: if_splits)
  next
    case False
    with undo_vdu_res_eq [OF 1] Cons.IH [OF 2] show ?thesis by (auto simp: Let_def)
  qed
qed simp

lemma next_idx_map: "next_idx (map (\<lambda>(n, _). (n, f n)) xs) = (\<lambda>n. if n \<in> fst ` set xs then f n else 0)"
proof -
  have "map_of (map (\<lambda>(n, _). (n, f n)) xs) n = (if n \<in> fst ` set xs then Some (f n) else None)" for n
    by (induction xs) auto
  then show ?thesis by (simp add: next_idx_def fun_eq_iff)
qed

lemma fold_new_keys: "fst ` set (fold (\<lambda>(n, r). dict_set n r) new d) = fst ` set d \<union> fst ` set new"
proof (induction new arbitrary: d)
  case (Cons x new)
  then show ?case by (cases x) (auto simp: dom_map_of_conv_image_fst [symmetric] simp del: map_of_eq_None_iff)
qed simp

lemma fold_new_other: "n \<notin> fst ` set new \<Longrightarrow> map_of (fold (\<lambda>(n, r). dict_set n r) new d) n = map_of d n"
  by (induction new arbitrary: d) auto

lemma fold_new_wf: "dict_wf d \<Longrightarrow> dict_wf (fold (\<lambda>(n, r). dict_set n r) new d)"
  by (induction new arbitrary: d) auto

lemma new_names_next: "(\<And>n. P n \<Longrightarrow> f n = g n) \<Longrightarrow> new_names P f rs = new_names P g rs"
proof (induction rs arbitrary: f g)
  case (Cons r rs)
  let ?t = "rd_resourceTemplateId r"
  show ?case
  proof (cases "rd_type r = COMPUTE \<and> P ?t")
    case True
    have "new_names P (f(?t := Suc (f ?t))) rs = new_names P (g(?t := Suc (g ?t))) rs"
      by (rule Cons.IH) (use Cons.prems True in simp)
    with True Cons.prems [of ?t] show ?thesis by (simp add: Let_def)
  next
    case False
    have "new_names P f rs = new_names P g rs" by (rule Cons.IH) (rule Cons.prems)
    with False show ?thesis by (auto simp: Let_def)
  qed
qed simp

lemma names_from: "new_names P (\<lambda>n. if P n then f n else 0) rs = new_names P f rs"
  by (rule new_names_next) simp

lemma scale_out_names:
  assumes "open_hot ud vnfd fl = Inr (hot0, popped, rest)" and "scale_out_hot ud inst q grant vnfd fl = Inr (zones, hot)"
  obtains adds new where "gq_addResources q = Some adds"
    and "map_of hot ''resources'' = Some (JObj (fold (\<lambda>(n, r). dict_set n r) new rest))"
    and "map fst new = new_names (\<lambda>n. n \<in> fst ` set popped) (\<lambda>n. get_current_capacity n inst) adds" and "fst ` set zones = fst ` set new"
proof -
  from assms obtain adds idxes reses where adds: "gq_addResources q = Some adds"
    and "foldE (add_vdu_res popped grant) adds (map (\<lambda>(n, _). (n, get_current_capacity n inst)) popped, [], rest) = Inr (idxes, zones, reses)"
    and hot: "hot = with_resources reses hot0"
    by (auto simp: scale_out_hot_def add_vdu_reses_def bindE_eq_Inr attr_def split: option.splits)
  from add_vdu_res_all [OF this(2)] obtain new where "reses = fold (\<lambda>(n, r). dict_set n r) new rest"
    "map fst new = new_names (\<lambda>n. map_of popped n \<noteq> None) (next_idx (map (\<lambda>(n, _). (n, get_current_capacity n inst)) popped)) adds"
    "fst ` set zones = fst ` set new" by auto
  moreover have "(\<lambda>n. map_of popped n \<noteq> None) = (\<lambda>n. n \<in> fst ` set popped)" by (simp add: map_of_eq_None_iff)
  ultimately show thesis using adds hot
    by (intro that [of adds new]) (simp_all add: with_resources_def next_idx_map names_from)
qed

lemma numbered_idx:
  assumes "numbered vdu vnfcs" and "v \<in> set vnfcs" and "vr_vduId v = vdu"
  obtains i where "idx_of v = int i" and "i < length (vnfcs_of vdu vnfcs)"
proof -
  from assms(2,3) have "idx_of v \<in> set (vdu_indices vdu vnfcs)" by (auto simp: vdu_indices_def)
  then have "0 \<le> idx_of v" "idx_of v < int (length (vnfcs_of vdu vnfcs))"
    using assms(1) by (auto simp: numbered_def vdu_indices_def vnfcs_of_def)
  then show thesis by (intro that [of "nat (idx_of v)"]) auto
qed

lemma open_hot_popped:
  assumes "open_hot ud vnfd fl = Inr (hot0, popped, rest)" and "get_vdu_nodes vnfd (JStr fl) = Inr nodes"
  shows "map fst popped = map fst nodes"
proof -
  have "pop_vdus vdus reses = Inr (popped, rest) \<Longrightarrow> map fst popped = vdus" for vdus reses popped rest
    by (induction vdus arbitrary: reses popped rest) (auto simp: bindE_eq_Inr)
  with assms show ?thesis by (auto simp: open_hot_def bindE_eq_Inr split: option.splits)
qed

text \<open>
  C14: A scale out with the standard user data makes a resource for each VNFC to add and no other new
  resource: the template has the resources of the HOT that are not of a VDU and, for each VDU, as many
  resources as the grant request adds VNFCs, with the indices from the number of the present VNFCs
  on, and a zone is chosen for each of them. If the indices of a VDU are the numbers below the number of
  its VNFCs, no new resource has the name of the resource of a present VNFC.
\<close>

theorem scale_out_adds_next_indices:
  assumes "open_hot ud vnfd fl = Inr (hot0, popped, rest)" and "scale_out_hot ud inst q grant vnfd fl = Inr (zones, hot)"
    and "in_instantiatedVnfInfo inst = Some info" and "iv_vnfcResourceInfo info = Some vnfcs"
  shows "\<exists>reses. map_of hot ''resources'' = Some (JObj reses) \<and>
    fst ` set reses = fst ` set rest \<union> fst ` set zones \<and>
    (\<forall>name. name \<in> fst ` set zones \<longleftrightarrow> (\<exists>vdu \<in> fst ` set popped. \<exists>i \<in> {get_current_capacity vdu inst..<
        get_current_capacity vdu inst + vdu_count vdu (gq_addResources q)}. name = add_idx vdu (show_nat i))) \<and>
    (\<forall>v \<in> set vnfcs. numbered (vr_vduId v) vnfcs \<longrightarrow> vnfc_res_name v \<notin> fst ` set zones)"
proof -
  let ?cap = "\<lambda>n. get_current_capacity n inst"
  from scale_out_names [OF assms(1,2)] obtain adds new where adds: "gq_addResources q = Some adds"
    and reses: "map_of hot ''resources'' = Some (JObj (fold (\<lambda>(n, r). dict_set n r) new rest))"
    and names: "map fst new = new_names (\<lambda>n. n \<in> fst ` set popped) ?cap adds" and zones: "fst ` set zones = fst ` set new" .
  have new: "name \<in> fst ` set zones \<longleftrightarrow> (\<exists>vdu i. name = add_idx vdu (show_nat i) \<and> vdu \<in> fst ` set popped \<and>
      ?cap vdu \<le> i \<and> i < ?cap vdu + vdu_count vdu (gq_addResources q))" for name
    unfolding adds new_names_set [symmetric] names [symmetric] zones by simp
  have "vnfc_res_name v \<notin> fst ` set zones" if v: "v \<in> set vnfcs" "numbered (vr_vduId v) vnfcs" for v
  proof -
    from v obtain i where i: "idx_of v = int i" "i < length (vnfcs_of (vr_vduId v) vnfcs)" by (elim numbered_idx) auto
    then have "i < ?cap (vr_vduId v)" by (simp add: get_current_capacity_def assms(3,4) vnfcs_of_def)
    then show ?thesis unfolding new by (auto simp: vnfc_res_name_def i add_idx_inj)
  qed
  moreover have "fst ` set (fold (\<lambda>(n, r). dict_set n r) new rest) = fst ` set rest \<union> fst ` set zones"
    unfolding zones by (rule fold_new_keys)
  moreover have "name \<in> fst ` set zones \<longleftrightarrow> (\<exists>vdu \<in> fst ` set popped. \<exists>i \<in> {?cap vdu..<?cap vdu + vdu_count vdu (gq_addResources q)}.
      name = add_idx vdu (show_nat i))" for name unfolding new by fastforce
  ultimately show ?thesis using reses by blast
qed

text \<open>
  C15: The rollback of a scale out restores the template of the stack. If the stack has the resources of
  the HOT that are not of a VDU and no resource with a new name, merging the template of a
  scale out and then the template of its rollback leaves every resource of the stack as it was.
\<close>

theorem scale_out_rollback_restores:
  assumes "open_hot ud vnfd fl = Inr (hot0, popped, rest)" and "scale_out_hot ud inst q grant vnfd fl = Inr (zones, hot)"
    and "map_of hot ''resources'' = Some (JObj reses)" and "dict_wf rest"
    and "in_instantiatedVnfInfo inst = Some info" and "iv_flavourId info = fl"
    and "scale_rollback_reses inst q vnfd = Inr undo"
    and "\<forall>n \<in> fst ` set zones. map_of tmpl n = None \<and> map_of rest n = None"
    and "\<forall>n \<in> fst ` set rest. patch_entry (map_of tmpl n) (map_of rest n) = map_of tmpl n"
  shows "map_of (obj_items (json_merge_patch (json_merge_patch (JObj tmpl) (JObj reses)) (JObj undo))) = map_of tmpl"
proof -
  let ?cap = "\<lambda>n. get_current_capacity n inst"
  from scale_out_names [OF assms(1,2)] obtain adds new where adds: "gq_addResources q = Some adds"
    and reses: "reses = fold (\<lambda>(n, r). dict_set n r) new rest"
    and names: "map fst new = new_names (\<lambda>n. n \<in> fst ` set popped) ?cap adds" and zones: "fst ` set zones = fst ` set new"
    using assms(3) by auto
  from assms(5-7) adds obtain nodes idxes where nodes: "get_vdu_nodes vnfd (JStr fl) = Inr nodes"
    and "foldE undo_vdu_res adds (map (\<lambda>(n, _). (n, ?cap n)) nodes, []) = Inr (idxes, undo)"
    by (auto simp: scale_rollback_reses_def inst_flavour_def old_info_of_def bindE_eq_Inr)
  from undo_vdu_res_all [OF this(2)] have
    undo: "undo = fold (\<lambda>n. dict_set n JNull) (new_names (\<lambda>_. True) (next_idx (map (\<lambda>(n, _). (n, ?cap n)) nodes)) adds) []" and
    known: "\<forall>r \<in> set adds. rd_type r = COMPUTE \<longrightarrow> map_of (map (\<lambda>(n, _). (n, ?cap n)) nodes) (rd_resourceTemplateId r) \<noteq> None" by auto
  have pop: "fst ` set popped = fst ` set nodes" using open_hot_popped [OF assms(1) nodes] by (metis set_map)
  have "fst ` set (map (\<lambda>(n, _). (n, ?cap n)) nodes) = fst ` set nodes" by force
  with known have "\<forall>r \<in> set adds. rd_type r = COMPUTE \<longrightarrow> rd_resourceTemplateId r \<in> fst ` set popped" by (simp add: map_of_eq_None_iff pop)
  then have "new_names (\<lambda>_. True) f adds = new_names (\<lambda>n. n \<in> fst ` set popped) f adds" for f by (intro new_names_cong) simp
  then have undo: "undo = fold (\<lambda>n. dict_set n JNull) (map fst new) []"
    unfolding undo names by (simp add: next_idx_map names_from pop)
  have wf: "dict_wf reses" unfolding reses using assms(4) by (rule fold_new_wf)
  have wf': "dict_wf undo" unfolding undo by (rule nulls_wf) simp
  show ?thesis
  proof
    fix n
    have "patch_entry (patch_entry (map_of tmpl n) (map_of reses n)) (map_of undo n) = map_of tmpl n"
    proof (cases "n \<in> fst ` set new")
      case True
      then show ?thesis using assms(8) by (auto simp: undo nulls patch_entry_def zones)
    next
      case False
      then have "map_of undo n = None" "map_of reses n = map_of rest n" by (auto simp: undo nulls reses fold_new_other)
      moreover have "patch_entry (map_of tmpl n) (map_of rest n) = map_of tmpl n"
        using assms(9) by (cases "n \<in> fst ` set rest") (auto simp: patch_entry_def dest: iffD2 [OF map_of_eq_None_iff])
      ultimately show ?thesis by (simp add: patch_entry_def)
    qed
    then show "map_of (obj_items (json_merge_patch (json_merge_patch (JObj tmpl) (JObj reses)) (JObj undo))) n = map_of tmpl n"
      by (simp add: merge_items_lookup wf wf')
  qed
qed

subsection \<open>Examples\<close>

lemma ex_indices: "vdu_indices ''V'' (opt_list (iv_vnfcResourceInfo ex_recorded_info)) = [1, 0]"
  by code_simp

lemma ex_numbered: "numbered ''V'' (opt_list (iv_vnfcResourceInfo ex_recorded_info))"
  unfolding numbered_def ex_indices by auto

definition ex_ud :: ud_env where
  "ex_ud = \<lparr>ud_base_hot = (\<lambda>_ _. [(''template'', JObj [(''resources'', JObj [(''V'', JObj [(''type'', JStr ''V.yaml'')]), (''net'', JObj [])])])]),
     ud_dump = (\<lambda>_. [])\<rparr>"

definition ex_add :: grant_request where
  "ex_add = (ex_gq SCALE)\<lparr>gq_addResources := Some [\<lparr>rd_id = ''new'', rd_type = COMPUTE, rd_resourceTemplateId = ''V'', rd_resource = None\<rparr>]\<rparr>"

lemma ex_out:
  "open_hot ex_ud ex_heat_vnfd ''fl'' = Inr ([(''resources'', JObj [(''V'', JObj [(''type'', JStr ''V.yaml'')]), (''net'', JObj [])])],
     [(''V'', JObj [(''type'', JStr ''V.yaml'')])], [(''net'', JObj [])])"
  "scale_out_hot ex_ud ex_scaled ex_add ex_grant ex_heat_vnfd ''fl'' = Inr ([(''V-2'', JNull)],
     [(''resources'', JObj [(''net'', JObj []), (''V-2'', JObj [(''type'', JStr ''V.yaml'')])])])"
  "scale_rollback_reses ex_scaled ex_add ex_heat_vnfd = Inr [(''V-2'', JNull)]"
  by code_simp+

theorem scale_in_deletes_last_indices_witness:
  "\<exists>q n reses. scale_grant ex_env (ex_scale ''SCALE_IN'') ex_scaled ex_vnfd
      (grant_request_common ex_env (ex_occ SCALE (ex_scale ''SCALE_IN'') STARTING) ex_scaled) 0 = (Inr q, n) \<and>
    scale_in_reses ex_scaled q = Inr reses \<and>
    map_of (obj_items (json_merge_patch (JObj [(''V-0'', JBool True), (''V-1'', JBool True)]) (JObj reses))) ''V-0'' = Some (JBool True) \<and>
    map_of (obj_items (json_merge_patch (JObj [(''V-0'', JBool True), (''V-1'', JBool True)]) (JObj reses))) ''V-1'' = None \<and>
    numbered ''V'' (kept_vnfcs q (opt_list (iv_vnfcResourceInfo ex_recorded_info)))"
proof -
  let ?vs = "opt_list (iv_vnfcResourceInfo ex_recorded_info)"
  from ex_recorded_returns obtain inst1 where
    1: "make_instantiated_vnf_info ex_hv ex_heat_req ex_inst (ex_gq INSTANTIATE) ex_grant ex_heat_vnfd False (Some ''id'') = Inr inst1"
    and 2: "in_instantiatedVnfInfo inst1 = Some ex_recorded_info" by (auto simp: ex_recorded_def)
  have vs: "iv_vnfcResourceInfo ex_recorded_info = Some ?vs" and vdu: "map vr_vduId ?vs = [''V'', ''V'']" by code_simp+
  have "\<exists>q n. scale_grant ex_env (ex_scale ''SCALE_IN'') ex_scaled ex_vnfd
      (grant_request_common ex_env (ex_occ SCALE (ex_scale ''SCALE_IN'') STARTING) ex_scaled) 0 = (Inr q, n)"
    by (rule returns) code_simp
  then obtain q n where q: "scale_grant ex_env (ex_scale ''SCALE_IN'') ex_scaled ex_vnfd
      (grant_request_common ex_env (ex_occ SCALE (ex_scale ''SCALE_IN'') STARTING) ex_scaled) 0 = (Inr q, n)" by blast
  from vdu obtain v where v: "v \<in> set ?vs" "vr_vduId v = ''V''" by (cases ?vs) auto
  have n: "get_current_capacity ''V'' ex_scaled = 2" by code_simp
  have names: "add_idx ''V'' (show_nat (Suc 0)) = ''V-1''" by code_simp
  have "\<exists>reses. scale_in_reses ex_scaled q = Inr reses \<and>
    (\<forall>tmpl name. map_of (obj_items (json_merge_patch (JObj tmpl) (JObj reses))) name =
      (if \<exists>(vdu, d) \<in> set [(''V'', 1 :: int)]. \<exists>i \<in> {get_current_capacity vdu ex_scaled - nat (d * 1)..<get_current_capacity vdu ex_scaled}.
            name = add_idx vdu (show_nat i) then None else map_of tmpl name)) \<and>
    (\<forall>(vdu, d) \<in> set [(''V'', 1 :: int)]. numbered vdu (kept_vnfcs q ?vs))"
    by (rule scale_in_deletes_last_indices [OF 1 2 refl vs _ q, where aspect = "''asp''" and v = v])
      (simp_all add: ex_scaled_def ex_scale_def ex_deltas ex_recorded_vnfcs(4) ex_numbered v)
  then obtain reses where "scale_in_reses ex_scaled q = Inr reses" and
    r: "\<forall>tmpl name. map_of (obj_items (json_merge_patch (JObj tmpl) (JObj reses))) name = (if name = ''V-1'' then None else map_of tmpl name)"
    and "numbered ''V'' (kept_vnfcs q ?vs)"
    by (auto simp: n names numeral_2_eq_2 atLeastLessThanSuc)
  with q show ?thesis by (intro exI [of _ q] exI [of _ n] exI [of _ reses]) (simp only: r, simp)
qed

theorem scale_out_adds_next_indices_witness:
  "\<exists>zones hot reses. scale_out_hot ex_ud ex_scaled ex_add ex_grant ex_heat_vnfd ''fl'' = Inr (zones, hot) \<and>
    map_of hot ''resources'' = Some (JObj reses) \<and> fst ` set reses = {''net''} \<union> fst ` set zones \<and> ''V-2'' \<in> fst ` set zones \<and>
    (\<forall>v \<in> set (opt_list (iv_vnfcResourceInfo ex_recorded_info)). vr_vduId v = ''V'' \<longrightarrow> vnfc_res_name v \<notin> fst ` set zones)"
proof -
  have vs: "iv_vnfcResourceInfo ex_recorded_info = Some (opt_list (iv_vnfcResourceInfo ex_recorded_info))" by code_simp
  from scale_out_adds_next_indices [OF ex_out(1,2) _ vs] show ?thesis
    unfolding ex_out(2) using ex_numbered by (fastforce simp: ex_scaled_def)
qed

theorem scale_out_rollback_restores_witness:
  "map_of (obj_items (json_merge_patch (json_merge_patch (JObj [(''net'', JObj []), (''V-1'', JObj [])])
     (JObj [(''net'', JObj []), (''V-2'', JObj [(''type'', JStr ''V.yaml'')])])) (JObj [(''V-2'', JNull)]))) =
   map_of [(''net'', JObj []), (''V-1'', JObj [])]"
  by (rule scale_out_rollback_restores [OF ex_out(1,2) _ _ _ _ ex_out(3), where info = ex_recorded_info])
    (simp_all add: ex_scaled_def ex_recorded_vnfcs(4) patch_entry_def)

end
