(* ===== verification/K8s_Resource.thy ===== *)
theory K8s_Resource
  imports Json
begin

section \<open>Resources of Kubernetes\<close>

text \<open>
  The resource classes of \<^verbatim>\<open>infra_drivers/kubernetes/kubernetes_resource.py\<close>. The client of Kubernetes is the
  parameter \<open>ka_call\<close>: the name of a method of its API classes, a namespace, a name and a body give an object or an
  error, and change the state of the cluster. An object is JSON with the names of its attributes; an
  attribute that is not set is None. A resource is its manifest with what the constructor takes from it.
\<close>

datatype k8s_error = ApiException int string | OtherError string

record 'k k8s_api =
  ka_call :: "string \<Rightarrow> json \<Rightarrow> json \<Rightarrow> json \<Rightarrow> 'k \<Rightarrow> (k8s_error + json) \<times> 'k"
  ka_sleep :: "'k \<Rightarrow> 'k"
  ka_timeout :: nat
  ka_looks :: nat

record kres =
  kr_kind :: string
  kr_namespace :: json
  kr_name :: json
  kr_metadata :: json
  kr_body :: jdict
  kr_inst_id :: json

subsection \<open>Classes\<close>

datatype kclass = CommonClass | NamespacedClass | ClusterClass | AuthClass

definition kinds :: "(string \<times> kclass) list" where
  "kinds = map (\<lambda>k. (k, CommonClass)) [''ComponentStatus'', ''Container'', ''Volume''] @
     map (\<lambda>k. (k, NamespacedClass)) [''ConfigMap'', ''LimitRange'', ''PersistentVolumeClaim'', ''Pod'', ''PodTemplate'', ''ResourceQuota'',
       ''Secret'', ''Service'', ''ServiceAccount'', ''ControllerRevision'', ''DaemonSet'', ''Deployment'', ''ReplicaSet'', ''StatefulSet'',
       ''HorizontalPodAutoscaler'', ''Job'', ''Lease'', ''NetworkPolicy'', ''Role'', ''RoleBinding''] @
     map (\<lambda>k. (k, ClusterClass)) [''Namespace'', ''Node'', ''PersistentVolume'', ''APIService'', ''ClusterRole'', ''ClusterRoleBinding'',
       ''PriorityClass'', ''StorageClass'', ''VolumeAttachment''] @
     map (\<lambda>k. (k, AuthClass)) [''TokenReview'', ''LocalSubjectAccessReview'', ''SelfSubjectAccessReview'', ''SelfSubjectRulesReview'',
       ''SubjectAccessReview'']"

definition class_of :: "string \<Rightarrow> kclass option" where
  "class_of kind = map_of kinds kind"

definition convert_char :: "char \<Rightarrow> string" where
  "convert_char c = (if 65 \<le> (of_char c :: nat) \<and> (of_char c :: nat) \<le> 90 then [CHR ''_'', char_of ((of_char c :: nat) + 32)] else [c])"

definition convert :: "string \<Rightarrow> string" where
  "convert name = concat (map convert_char name)"

definition instance_label :: string where
  "instance_label = ''tacker_vnf_instance_id''"

text \<open>\<open>getattr(kubernetes_resource, kind)\<close> and the constructor.\<close>

definition kind_of :: "json \<Rightarrow> string pyres" where
  "kind_of body = bindE (jitem body ''kind'') (\<lambda>k. case k of JStr s \<Rightarrow> Inr s | j \<Rightarrow> Inl (type_error j))"

definition new_kres :: "json \<Rightarrow> kres pyres" where
  "new_kres body = bindE (kind_of body) (\<lambda>kind.
     if class_of kind = None then Inl (PyExc AttributeError kind)
     else bindE (jget body ''metadata'' (JObj [])) (\<lambda>md.
       bindE (jget md ''namespace'' JNull) (\<lambda>ns.
       bindE (jget md ''name'' JNull) (\<lambda>n.
       bindE (jget md ''labels'' (JObj [])) (\<lambda>labels.
       bindE (jget labels instance_label JNull) (\<lambda>i.
         Inr \<lparr>kr_kind = kind, kr_namespace = ns, kr_name = n, kr_metadata = md, kr_body = obj_items body, kr_inst_id = i\<rparr>))))))"

definition kclass_of :: "kres \<Rightarrow> kclass" where
  "kclass_of r = (case class_of (kr_kind r) of None \<Rightarrow> CommonClass | Some c \<Rightarrow> c)"

subsection \<open>Calls of the API\<close>

definition err_text :: "k8s_error \<Rightarrow> string" where
  "err_text err = (case err of ApiException st t \<Rightarrow> t | OtherError t \<Rightarrow> t)"

definition op_failed :: "string \<Rightarrow> string \<Rightarrow> exn" where
  "op_failed operation t = Sol (K8sOperationFailed (operation @ '' failed'') t)"

text \<open>A call whose errors become \<open>K8sOperationFailed\<close>, and one whose errors are passed on.\<close>

definition api_call :: "'k k8s_api \<Rightarrow> string \<Rightarrow> string \<Rightarrow> json \<Rightarrow> json \<Rightarrow> json \<Rightarrow> ('k, exn, json) sem" where
  "api_call ka operation method ns name body s = (case ka_call ka method ns name body s of
      (Inl err, t) \<Rightarrow> (Inl (op_failed operation (err_text err)), t) | (Inr x, t) \<Rightarrow> (Inr x, t))"

definition raw_call :: "'k k8s_api \<Rightarrow> string \<Rightarrow> json \<Rightarrow> json \<Rightarrow> json \<Rightarrow> ('k, exn, json) sem" where
  "raw_call ka method ns name body s = (case ka_call ka method ns name body s of
      (Inl err, t) \<Rightarrow> (Inl (PyExc K8sApiException (err_text err)), t) | (Inr x, t) \<Rightarrow> (Inr x, t))"

fun aget :: "json \<Rightarrow> string \<Rightarrow> json pyres" where
  "aget (JObj d) k = Inr (or_null (map_of d k))"
| "aget j k = Inl (attr_error j k)"

fun apath :: "json \<Rightarrow> string list \<Rightarrow> json pyres" where
  "apath j [] = Inr j"
| "apath j (k # ks) = bindE (aget j k) (\<lambda>v. apath v ks)"

definition json_text :: "json \<Rightarrow> string" where
  "json_text j = (case j of JStr s \<Rightarrow> s | JNum n \<Rightarrow> show_int n | _ \<Rightarrow> ''None'')"

definition method_of :: "string \<Rightarrow> kres \<Rightarrow> string" where
  "method_of verb r = verb @ (if kclass_of r = NamespacedClass then ''_namespaced'' else []) @ convert (kr_kind r)"

definition kres_read :: "'k k8s_api \<Rightarrow> kres \<Rightarrow> ('k, exn, json) sem" where
  "kres_read ka r s =
     (if kclass_of r = CommonClass \<or> kclass_of r = AuthClass then (Inr JNull, s)
      else case ka_call ka (method_of ''read'' r) (if kclass_of r = NamespacedClass then kr_namespace r else JNull) (kr_name r) JNull s of
          (Inr x, t) \<Rightarrow> (Inr x, t)
        | (Inl (ApiException st m), t) \<Rightarrow> (Inl (if st = 404 then Sol (K8sResourceNotFound (json_text (kr_name r))) else op_failed ''read'' m), t)
        | (Inl (OtherError m), t) \<Rightarrow> (Inl (op_failed ''read'' m), t))"

definition kres_create :: "'k k8s_api \<Rightarrow> kres \<Rightarrow> ('k, exn, unit) sem" where
  "kres_create ka r =
     (if kclass_of r = CommonClass then retS ()
      else bindS (if kr_kind r = ''LocalSubjectAccessReview''
          then api_call ka ''create'' ''create_namespaced_local_subject_access_review'' (kr_namespace r) JNull (JObj (kr_body r))
          else api_call ka ''create'' (method_of ''create'' r) (if kclass_of r = NamespacedClass then kr_namespace r else JNull) JNull
            (JObj (kr_body r))) (\<lambda>_. retS ()))"

text \<open>The claims of a StatefulSet, as far as they can be found; errors are ignored.\<close>

fun until_error :: "('a \<Rightarrow> exn + 'b list) \<Rightarrow> 'a list \<Rightarrow> 'b list" where
  "until_error f [] = []"
| "until_error f (x # xs) = (case f x of Inl e \<Rightarrow> [] | Inr ys \<Rightarrow> ys @ until_error f xs)"

text \<open>\<open>re.match(name + ..., text)\<close>: the rest of the text after the name, where a dot in the name stands for any character.
  Other characters that are special in regular expressions do not occur in the names of Kubernetes.\<close>

fun drop_name :: "string \<Rightarrow> string \<Rightarrow> string option" where
  "drop_name [] t = Some t"
| "drop_name (p # ps) [] = None"
| "drop_name (p # ps) (c # cs) = (if p = c \<or> p = CHR ''.'' \<and> c \<noteq> CHR 0x0A then drop_name ps cs else None)"

definition numbered_name :: "string \<Rightarrow> string \<Rightarrow> bool" where
  "numbered_name name t = (case drop_name (name @ ''-'') t of None \<Rightarrow> False | Some ds \<Rightarrow> ds \<noteq> [] \<and> list_all digit ds)"

definition claim_names :: "json \<Rightarrow> json \<Rightarrow> json \<Rightarrow> string list pyres" where
  "claim_names sfs_name templates pvcs = bindE (jlist templates) (\<lambda>ts. bindE (jlist pvcs) (\<lambda>ps.
     Inr (until_error (\<lambda>(t, p). bindE (apath t [''metadata'', ''name'']) (\<lambda>tn. bindE (apath p [''metadata'', ''name'']) (\<lambda>pn.
       case (tn, sfs_name, pn) of
         (JStr a, JStr b, JStr n) \<Rightarrow> Inr (if numbered_name (a @ ''-'' @ b) n then [n] else [])
       | _ \<Rightarrow> Inl (type_error tn)))) (List.product ts ps))))"

definition pvcs_for_delete :: "'k k8s_api \<Rightarrow> kres \<Rightarrow> ('k, exn, string list) sem" where
  "pvcs_for_delete ka r s = (case bindS (kres_read ka r) (\<lambda>sfs. bindS (liftS (apath sfs [''spec'', ''volume_claim_templates''])) (\<lambda>templates.
       bindS (raw_call ka ''list_namespaced_persistent_volume_claim'' (kr_namespace r) JNull JNull) (\<lambda>resps.
       bindS (liftS (aget resps ''items'')) (\<lambda>pvcs. liftS (claim_names (kr_name r) templates pvcs))))) s of
      (Inl e, t) \<Rightarrow> (Inr [], t) | (Inr ns, t) \<Rightarrow> (Inr ns, t))"

definition kres_delete :: "'k k8s_api \<Rightarrow> kres \<Rightarrow> json \<Rightarrow> ('k, exn, unit) sem" where
  "kres_delete ka r body =
     (if kclass_of r = CommonClass \<or> kclass_of r = AuthClass then retS ()
      else if kr_kind r = ''ControllerRevision''
      then bindS (api_call ka ''delete'' ''delete_namespaced_controller_revision'' (kr_namespace r) (kr_name r)
        (JObj [(''propagation_policy'', JStr ''Background'')])) (\<lambda>_. retS ())
      else if kr_kind r = ''StatefulSet''
      then bindS (pvcs_for_delete ka r) (\<lambda>pvcs.
        bindS (api_call ka ''delete'' ''delete_namespaced_stateful_set'' (kr_namespace r) (kr_name r) body) (\<lambda>_.
          forS (\<lambda>n. bindS (api_call ka ''delete'' ''delete_namespaced_persistent_volume_claim'' (kr_namespace r) (JStr n) body) (\<lambda>_. retS ())) pvcs))
      else bindS (api_call ka ''delete'' (method_of ''delete'' r) (if kclass_of r = NamespacedClass then kr_namespace r else JNull)
        (kr_name r) body) (\<lambda>_. retS ()))"

definition kres_patch :: "'k k8s_api \<Rightarrow> kres \<Rightarrow> ('k, exn, unit) sem" where
  "kres_patch ka r = (if kclass_of r = CommonClass \<or> kclass_of r = AuthClass then raiseS (PyExc AttributeError ''patch'')
     else bindS (api_call ka ''patch'' (method_of ''patch'' r) (kr_namespace r) (kr_name r) (JObj (kr_body r))) (\<lambda>_. retS ()))"

definition set_replicas :: "int \<Rightarrow> jdict \<Rightarrow> jdict pyres" where
  "set_replicas n body = bindE (jitem (JObj body) ''spec'') (\<lambda>spec. case spec of
      JObj d \<Rightarrow> Inr (dict_set ''spec'' (JObj (dict_set ''replicas'' (JNum n) d)) body) | j \<Rightarrow> Inl (type_error j))"

text \<open>Scaling changes the manifest too.\<close>

definition kres_scale :: "'k k8s_api \<Rightarrow> kres \<Rightarrow> int \<Rightarrow> ('k, exn, jdict) sem" where
  "kres_scale ka r n =
     bindS (api_call ka ''scale'' (method_of ''patch'' r @ ''_scale'') (kr_namespace r) (kr_name r)
       (JObj [(''spec'', JObj [(''replicas'', JNum n)])])) (\<lambda>_.
     liftS (case set_replicas n (kr_body r) of Inl e \<Rightarrow> Inl (op_failed ''scale'' ''spec'') | Inr b \<Rightarrow> Inr b))"

definition is_exists :: "'k k8s_api \<Rightarrow> kres \<Rightarrow> ('k, exn, bool) sem" where
  "is_exists ka r s = (case kres_read ka r s of
      (Inl (Sol (K8sResourceNotFound n)), t) \<Rightarrow> (Inr False, t)
    | (Inl e, t) \<Rightarrow> (Inl e, t)
    | (Inr info, t) \<Rightarrow> (if info = JNull then Inr False
        else if kr_inst_id r = JNull then Inr True
        else bindE (apath info [''metadata'', ''labels'']) (\<lambda>labels.
          if labels = JNull then Inr False
          else bindE (jget labels instance_label JNull) (\<lambda>i. Inr (i = kr_inst_id r))), t))"

subsection \<open>Deleting a Pod\<close>

definition foreground :: json where
  "foreground = JObj [(''propagation_policy'', JStr ''Foreground'')]"

fun wait_gone :: "nat \<Rightarrow> 'k k8s_api \<Rightarrow> kres \<Rightarrow> ('k, exn, unit) sem" where
  "wait_gone 0 ka r = raiseS (Sol K8sOperaitionTimeout)"
| "wait_gone (Suc n) ka r = bindS (is_exists ka r) (\<lambda>b. if \<not> b then retS () else bindS (modS (ka_sleep ka)) (\<lambda>_. wait_gone n ka r))"

definition pod_looks :: "'k k8s_api \<Rightarrow> nat" where
  "pod_looks ka = (ka_timeout ka + 9) div 10"

definition delete_pod :: "'k k8s_api \<Rightarrow> kres \<Rightarrow> string \<Rightarrow> ('k, exn, unit) sem" where
  "delete_pod ka r pod_name =
     (if kr_kind r = ''Pod''
      then bindS (kres_read ka r) (\<lambda>pod_info.
        bindS (kres_delete ka r foreground) (\<lambda>_.
        bindS (wait_gone (pod_looks ka) ka r) (\<lambda>_.
        bindS (liftS (aget pod_info ''spec'')) (\<lambda>spec.
        bindS (raw_call ka ''create_namespaced_pod'' (kr_namespace r) JNull (JObj [(''metadata'', kr_metadata r), (''spec'', spec)])) (\<lambda>_. retS ())))))
      else if kclass_of r = NamespacedClass
      then bindS (api_call ka ''delete_pod'' ''delete_namespaced_pod'' (kr_namespace r) (JStr pod_name) foreground) (\<lambda>_. retS ())
      else raiseS (PyExc AttributeError ''delete_pod''))"

subsection \<open>Addresses\<close>

text \<open>\<open>ipaddress.ip_address\<close> of the standard library, as a test.\<close>

definition octet :: "string \<Rightarrow> bool" where
  "octet s = (s \<noteq> [] \<and> length s \<le> 3 \<and> list_all digit s \<and> (length s = 1 \<or> hd s \<noteq> CHR ''0'') \<and>
     foldl (\<lambda>n c. 10 * n + ((of_char c :: nat) - 48)) 0 s \<le> 255)"

definition is_ipv4 :: "string \<Rightarrow> bool" where
  "is_ipv4 s = (let octets = split_char CHR ''.'' s in length octets = 4 \<and> list_all octet octets)"

definition hex_digit :: "char \<Rightarrow> bool" where
  "hex_digit c = (digit c \<or> c \<in> set ''abcdefABCDEF'')"

definition hextet :: "string \<Rightarrow> bool" where
  "hextet s = (s \<noteq> [] \<and> length s \<le> 4 \<and> list_all hex_digit s)"

definition v6_parts :: "string list \<Rightarrow> bool" where
  "v6_parts parts = (let n = length parts; skips = filter (\<lambda>i. parts ! i = []) [1..<n - 1] in
     n \<le> 9 \<and> (case skips of
         [] \<Rightarrow> n = 8 \<and> list_all hextet parts
       | [i] \<Rightarrow>
          let hi = take i parts; lo = drop (Suc i) parts;
              hi' = (if hd parts = [] then tl hi else hi); lo' = (if last parts = [] then butlast lo else lo) in
          (hd parts = [] \<longrightarrow> hi' = []) \<and> (last parts = [] \<longrightarrow> lo' = []) \<and> length hi' + length lo' < 8 \<and> list_all hextet hi' \<and> list_all hextet lo'
       | _ \<Rightarrow> False))"

definition is_ipv6 :: "string \<Rightarrow> bool" where
  "is_ipv6 s = (case split_char CHR ''%'' s of
      addr # scopes \<Rightarrow>
        let parts = split_char CHR '':'' addr in
        (scopes = [] \<or> (\<exists>z \<in> set scopes. scopes = [z] \<and> z \<noteq> [])) \<and> 3 \<le> length parts \<and>
        (if CHR ''.'' \<in> set (last parts) then is_ipv4 (last parts) \<and> v6_parts (butlast parts @ [''0'', ''0'']) else v6_parts parts)
    | [] \<Rightarrow> False)"

definition is_ip :: "json \<Rightarrow> bool" where
  "is_ip j = (case j of JStr s \<Rightarrow> is_ipv4 s \<or> is_ipv6 s | _ \<Rightarrow> False)"

subsection \<open>Readiness\<close>

text \<open>\<open>x and x == y\<close>.\<close>

definition set_and_equal :: "json \<Rightarrow> json \<Rightarrow> bool" where
  "set_and_equal x y = (py_truthy x \<and> x = y)"

definition phase_in :: "string list \<Rightarrow> json \<Rightarrow> bool pyres" where
  "phase_in phases info = bindE (apath info [''status'', ''phase'']) (\<lambda>ph. Inr (ph \<in> JStr ` set phases))"

definition equal_fields :: "string list \<Rightarrow> string list \<Rightarrow> json \<Rightarrow> bool pyres" where
  "equal_fields p q info = bindE (apath info p) (\<lambda>x. if \<not> py_truthy x then Inr False else bindE (apath info q) (\<lambda>y. Inr (set_and_equal x y)))"

definition has_condition :: "string \<Rightarrow> json \<Rightarrow> bool pyres" where
  "has_condition ty c = bindE (aget c ''type'') (\<lambda>t. if t \<noteq> JStr ty then Inr False else bindE (aget c ''status'') (\<lambda>st. Inr (st = JStr ''True'')))"

definition lacks_condition :: "string \<Rightarrow> json \<Rightarrow> bool pyres" where
  "lacks_condition ty c = bindE (aget c ''type'') (\<lambda>t. if t \<noteq> JStr ty then Inr False else bindE (aget c ''status'') (\<lambda>st. Inr (st \<noteq> JStr ''True'')))"

fun some_of :: "(json \<Rightarrow> bool pyres) \<Rightarrow> json list \<Rightarrow> bool pyres" where
  "some_of f [] = Inr False"
| "some_of f (x # xs) = bindE (f x) (\<lambda>b. if b then Inr True else some_of f xs)"

definition conditions_of :: "json \<Rightarrow> json list pyres" where
  "conditions_of info = bindE (apath info [''status'', ''conditions'']) jlist"

fun claims_bound :: "'k k8s_api \<Rightarrow> kres \<Rightarrow> (nat \<times> json) list \<Rightarrow> ('k, exn, bool) sem" where
  "claims_bound ka r [] = retS True"
| "claims_bound ka r ((i, t) # ts) =
     bindS (liftS (apath t [''metadata'', ''name''])) (\<lambda>tn.
     bindS (raw_call ka ''read_namespaced_persistent_volume_claim'' (kr_namespace r)
       (JStr (json_text tn @ ''-'' @ json_text (kr_name r) @ ''-'' @ show_nat i)) JNull) (\<lambda>pvc.
     bindS (liftS (phase_in [''Bound''] pvc)) (\<lambda>b. if \<not> b then retS False else claims_bound ka r ts)))"

definition stateful_set_ready :: "'k k8s_api \<Rightarrow> kres \<Rightarrow> json \<Rightarrow> ('k, exn, bool) sem" where
  "stateful_set_ready ka r info =
     bindS (liftS (apath info [''status'', ''replicas''])) (\<lambda>replicas.
     bindS (liftS (apath info [''status'', ''ready_replicas''])) (\<lambda>ready.
     if replicas \<noteq> ready then retS False
     else bindS (liftS (apath info [''spec'', ''volume_claim_templates''])) (\<lambda>templates.
       if templates = JNull then retS True
       else bindS (liftS (apath info [''spec'', ''replicas''])) (\<lambda>n. case n of
           JNum k \<Rightarrow> bindS (liftS (if k \<le> 0 then Inr [] else jlist templates)) (\<lambda>ts. claims_bound ka r [(i, t). i \<leftarrow> [0..<nat k], t \<leftarrow> ts])
         | j \<Rightarrow> raiseS (type_error j)))))"

definition service_ready :: "'k k8s_api \<Rightarrow> kres \<Rightarrow> json \<Rightarrow> ('k, exn, bool) sem" where
  "service_ready ka r info = bindS (liftS (apath info [''spec'', ''cluster_ip''])) (\<lambda>ip.
     if ip = JStr ''None'' \<or> is_ip ip
     then (\<lambda>s. case ka_call ka ''read_namespaced_endpoints'' (kr_namespace r) (kr_name r) JNull s of
           (Inr x, t) \<Rightarrow> (Inr (py_truthy x), t)
         | (Inl (ApiException st m), t) \<Rightarrow> (if st = 404 then Inr False else Inl (op_failed ''Read Endpoint'' m), t)
         | (Inl (OtherError m), t) \<Rightarrow> (Inl (op_failed ''Read Endpoint'' m), t))
     else retS False)"

definition ready_kinds :: "string list" where
  "ready_kinds = [''Namespace'', ''Node'', ''PersistentVolume'', ''PersistentVolumeClaim'', ''Pod'', ''Service'', ''DaemonSet'', ''Deployment'',
     ''ReplicaSet'', ''StatefulSet'', ''Job'', ''APIService'', ''VolumeAttachment'']"

definition info_ready :: "string \<Rightarrow> json \<Rightarrow> bool pyres" where
  "info_ready kind info =
     (if kind = ''Namespace'' then phase_in [''Active''] info
      else if kind = ''Node'' then bindE (conditions_of info) (some_of (has_condition ''Ready''))
      else if kind = ''PersistentVolume'' then phase_in [''Available'', ''Bound''] info
      else if kind = ''PersistentVolumeClaim'' then phase_in [''Bound''] info
      else if kind = ''Pod'' then phase_in [''Running''] info
      else if kind = ''DaemonSet'' then equal_fields [''status'', ''desired_number_scheduled''] [''status'', ''number_ready''] info
      else if kind = ''Job'' then equal_fields [''spec'', ''completions''] [''status'', ''succeeded''] info
      else if kind = ''APIService'' then bindE (conditions_of info) (\<lambda>cs. bindE (some_of (lacks_condition ''Available'') cs) (\<lambda>b. Inr (\<not> b)))
      else if kind = ''VolumeAttachment'' then bindE (apath info [''status'', ''attached'']) (\<lambda>a. Inr (py_truthy a))
      else equal_fields [''status'', ''replicas''] [''status'', ''ready_replicas''] info)"

definition is_ready :: "'k k8s_api \<Rightarrow> kres \<Rightarrow> ('k, exn, bool) sem" where
  "is_ready ka r =
     (if kr_kind r \<notin> set ready_kinds then retS True
      else bindS (kres_read ka r) (\<lambda>info.
        if kr_kind r = ''StatefulSet'' then stateful_set_ready ka r info
        else if kr_kind r = ''Service'' then service_ready ka r info
        else liftS (info_ready (kr_kind r) info)))"

text \<open>Whether the Pods of a resource are those that are wanted: the number is right and no old one is left.\<close>

definition pod_name :: "json \<Rightarrow> string pyres" where
  "pod_name pod = bindE (apath pod [''metadata'', ''name'']) (\<lambda>n. case n of JStr s \<Rightarrow> Inr s | j \<Rightarrow> Inl (type_error j))"

definition still_there :: "string \<Rightarrow> string list \<Rightarrow> json \<Rightarrow> bool pyres" where
  "still_there kind old_pods_names pod =
     (if kind = ''StatefulSet'' then bindE (apath pod [''metadata'', ''deletion_timestamp'']) (\<lambda>d. Inr (d \<noteq> JNull))
      else bindE (pod_name pod) (\<lambda>n. Inr (n \<in> set old_pods_names)))"

definition is_update :: "'k k8s_api \<Rightarrow> kres \<Rightarrow> json list \<Rightarrow> string list \<Rightarrow> ('k, exn, bool) sem" where
  "is_update ka r pods_info old_pods_names =
     (if kr_kind r = ''Pod'' then is_ready ka r
      else if kr_kind r \<notin> {''DaemonSet'', ''Deployment'', ''ReplicaSet'', ''StatefulSet''} then raiseS (PyExc AttributeError ''is_update'')
      else bindS (kres_read ka r) (\<lambda>info.
        liftS (bindE (apath info (if kr_kind r = ''DaemonSet'' then [''status'', ''desired_number_scheduled''] else [''spec'', ''replicas''])) (\<lambda>replicas.
          bindE (some_of (still_there (kr_kind r) old_pods_names) pods_info) (\<lambda>b.
            Inr (\<not> b \<and> replicas = JNum (int (length pods_info))))))))"

end
