(* ===== verification/K8s_Manifest.thy ===== *)
theory K8s_Manifest
  imports Inst_Utils K8s_Resource
begin

section \<open>Manifests of Kubernetes\<close>

text \<open>
  \<^verbatim>\<open>infra_drivers/kubernetes/kubernetes_utils.py\<close>: the manifests of a package become resources, in the namespace and with the
  label of the VNF instance. The documents of a file or URL (\<open>ke_documents\<close>), the list of artifacts of a package and the
  configuration are fields of \<open>k8s_env\<close>. The authentication of the client is not modelled.
\<close>

record 'k k8s_env =
  ke_api :: "'k k8s_api"
  ke_documents :: "vnfd \<Rightarrow> json \<Rightarrow> json list pyres"
  ke_artifacts :: "vnfd \<Rightarrow> json list"
  ke_grace :: int

text \<open>In the source a comma is missing between \<^verbatim>\<open>"Role"\<close> and \<^verbatim>\<open>"RoleBinding"\<close>: Python joins the two strings.\<close>

definition supported_namespace_kind :: "string list" where
  "supported_namespace_kind = [''Binding'', ''ConfigMap'', ''ControllerRevision'', ''DaemonSet'', ''Deployment'', ''HorizontalPodAutoscaler'',
     ''Job'', ''Lease'', ''LimitRange'', ''LocalSubjectAccessReview'', ''NetworkPolicy'', ''PersistentVolumeClaim'', ''Pod'', ''PodTemplate'',
     ''ReplicaSet'', ''ResourceQuota'', ''RoleRoleBinding'', ''Secret'', ''Service'', ''ServiceAccount'', ''StatefulSet'']"

definition scalable_kind :: "string list" where
  "scalable_kind = [''Deployment'', ''ReplicaSet'', ''StatefulSet'']"

definition target_kind :: "string list" where
  "target_kind = [''Pod'', ''Deployment'', ''DaemonSet'', ''StatefulSet'', ''ReplicaSet'']"

definition unlabeled_kind :: "string list" where
  "unlabeled_kind = [''SubjectAccessReview'', ''LocalSubjectAccessReview'', ''SelfSubjectAccessReview'', ''SelfSubjectRulesReview'',
     ''TokenReview'']"

subsection \<open>Changes of a manifest\<close>

text \<open>\<open>j.setdefault(k, v)\<close>, \<open>j[k] = v\<close>, and a change of the object at \<open>j[k]\<close>.\<close>

definition with_default :: "string \<Rightarrow> json \<Rightarrow> json \<Rightarrow> json pyres" where
  "with_default k v j = (case j of JObj d \<Rightarrow> Inr (JObj (if dict_has d k then d else dict_set k v d)) | _ \<Rightarrow> Inl (attr_error j ''setdefault''))"

definition put_item :: "string \<Rightarrow> json \<Rightarrow> json \<Rightarrow> json pyres" where
  "put_item k v j = (case j of JObj d \<Rightarrow> Inr (JObj (dict_set k v d)) | _ \<Rightarrow> Inl (type_error j))"

definition at_item :: "string \<Rightarrow> (json \<Rightarrow> json pyres) \<Rightarrow> json \<Rightarrow> json pyres" where
  "at_item k f j = bindE (jitem j k) (\<lambda>v. bindE (f v) (\<lambda>w. put_item k w j))"

text \<open>A key of a dict or an element of a set.\<close>

definition hashed :: "json \<Rightarrow> json pyres" where
  "hashed j = (case j of JArr xs \<Rightarrow> Inl (type_error j) | JObj d \<Rightarrow> Inl (type_error j) | _ \<Rightarrow> Inr j)"

definition kind_in :: "string list \<Rightarrow> json \<Rightarrow> bool pyres" where
  "kind_in ks manifest = bindE (jitem manifest ''kind'') (\<lambda>k. bindE (hashed k) (\<lambda>h. Inr (h \<in> JStr ` set ks)))"

definition set_namespace :: "json \<Rightarrow> json \<Rightarrow> json pyres" where
  "set_namespace namespace manifest = bindE (with_default ''metadata'' (JObj []) manifest)
     (at_item ''metadata'' (if namespace = JNull then with_default ''namespace'' (JStr ''default'') else put_item ''namespace'' namespace))"

definition set_label :: "string \<Rightarrow> json \<Rightarrow> json pyres" where
  "set_label inst_id manifest = bindE (with_default ''metadata'' (JObj []) manifest)
     (at_item ''metadata'' (\<lambda>md. bindE (with_default ''labels'' (JObj []) md) (at_item ''labels'' (put_item instance_label (JStr inst_id)))))"

definition prepare_manifest :: "json \<Rightarrow> string \<Rightarrow> json \<Rightarrow> json pyres" where
  "prepare_manifest namespace inst_id manifest =
     bindE (jget manifest ''kind'' JNull) (\<lambda>k. if \<not> py_truthy k then Inl (Sol K8sInvalidManifestFound)
     else bindE (kind_in supported_namespace_kind manifest) (\<lambda>b.
       bindE (if b then set_namespace namespace manifest else Inr manifest) (\<lambda>manifest1.
       bindE (kind_in unlabeled_kind manifest1) (\<lambda>c.
         if c then Inr manifest1 else set_label inst_id manifest1))))"

definition manifest_namespace :: "json \<Rightarrow> json pyres" where
  "manifest_namespace manifest = bindE (jitem manifest ''metadata'') (\<lambda>md. bindE (jitem md ''namespace'') hashed)"

definition common_namespace :: "json \<Rightarrow> json list \<Rightarrow> json pyres" where
  "common_namespace namespace manifests =
     (if namespace \<noteq> JNull then Inr namespace
      else bindE (filterE (kind_in supported_namespace_kind) manifests) (\<lambda>ms. bindE (mapE manifest_namespace ms) (\<lambda>nss.
        case remdups nss of [] \<Rightarrow> Inr (JStr ''default'') | [ns] \<Rightarrow> Inr ns | _ \<Rightarrow> Inl (Sol NamespaceNotUniform))))"

text \<open>A manifest of a kind that is not known is left out.\<close>

fun make_reses :: "json list \<Rightarrow> kres list pyres" where
  "make_reses [] = Inr []"
| "make_reses (m # ms) = (case new_kres m of
      Inl (PyExc AttributeError t) \<Rightarrow> make_reses ms
    | Inl e \<Rightarrow> Inl e
    | Inr r \<Rightarrow> bindE (make_reses ms) (\<lambda>rs. Inr (r # rs)))"

definition get_k8s_reses_from_json_files :: "'k k8s_env \<Rightarrow> vnfd \<Rightarrow> json list \<Rightarrow> json \<Rightarrow> string \<Rightarrow> (kres list \<times> json) pyres" where
  "get_k8s_reses_from_json_files ke vnfd files namespace inst_id =
     bindE (concatE (ke_documents ke vnfd) files) (\<lambda>documents.
     bindE (mapE (prepare_manifest namespace inst_id) documents) (\<lambda>manifests.
     bindE (common_namespace namespace manifests) (\<lambda>ns.
     bindE (make_reses manifests) (\<lambda>reses. Inr (reses, ns)))))"

subsection \<open>Pods\<close>

definition list_namespaced_pods :: "'k k8s_api \<Rightarrow> json \<Rightarrow> bool \<Rightarrow> ('k, exn, json list) sem" where
  "list_namespaced_pods ka namespace isall =
     bindS (raw_call ka ''list_namespaced_pod'' namespace JNull JNull) (\<lambda>answer.
     bindS (liftS (bindE (aget answer ''items'') jlist)) (\<lambda>all_pods.
       if isall then retS all_pods else liftS (filterE (phase_in [''Running'']) all_pods)))"

text \<open>The names that Kubernetes gives to the Pods of a resource: \<^verbatim>\<open>name\<close>, \<^verbatim>\<open>name-012789abef-019az\<close>, \<^verbatim>\<open>name-019az\<close>,
  \<^verbatim>\<open>name-0\<close>.\<close>

definition lower_hex :: "char \<Rightarrow> bool" where
  "lower_hex c = (digit c \<or> c \<in> set ''abcdef'')"

definition lower_alnum :: "char \<Rightarrow> bool" where
  "lower_alnum c = (digit c \<or> 97 \<le> (of_char c :: nat) \<and> (of_char c :: nat) \<le> 122)"

definition fives :: "string \<Rightarrow> bool" where
  "fives s = (s \<noteq> [] \<and> length s mod 5 = 0 \<and> list_all lower_alnum s)"

definition hash_and_fives :: "string \<Rightarrow> bool" where
  "hash_and_fives s = (let h = takeWhile (\<lambda>c. c \<noteq> CHR ''-'') s in
     1 \<le> length h \<and> length h \<le> 10 \<and> list_all lower_hex h \<and> h \<noteq> s \<and> fives (drop (Suc (length h)) s))"

definition rest_matches :: "(string \<Rightarrow> bool) \<Rightarrow> string \<Rightarrow> string \<Rightarrow> bool" where
  "rest_matches P rsc_name pod = (case drop_name (rsc_name @ ''-'') pod of None \<Rightarrow> False | Some rest \<Rightarrow> P rest)"

definition digits :: "string \<Rightarrow> bool" where
  "digits s = (s \<noteq> [] \<and> list_all digit s)"

definition is_match_pod_naming :: "string \<Rightarrow> json \<Rightarrow> string \<Rightarrow> bool pyres" where
  "is_match_pod_naming rsc_kind rsc_name pod =
     (if rsc_kind = ''Pod'' then Inr (rsc_name = JStr pod)
      else if rsc_kind \<in> {''Deployment'', ''ReplicaSet'', ''DaemonSet'', ''StatefulSet''}
      then (case rsc_name of
          JStr n \<Rightarrow> Inr (rest_matches (if rsc_kind = ''Deployment'' then hash_and_fives else if rsc_kind = ''StatefulSet'' then digits else fives)
            n pod)
        | j \<Rightarrow> Inl (type_error j))
      else Inr False)"

definition get_resource_name :: "string \<Rightarrow> string \<Rightarrow> string" where
  "get_resource_name resource_id resource_type =
     (if resource_type = ''Pod'' then resource_id
      else let name_list = split_char CHR ''-'' resource_id in
        join_with CHR ''-''
          (if resource_type = ''Deployment'' then take (length name_list - 2) name_list
           else if resource_type \<in> {''ReplicaSet'', ''DaemonSet'', ''StatefulSet''} then butlast name_list
           else name_list))"

end
