(* ===== verification/K8s_Driver.thy ===== *)
theory K8s_Driver
  imports Lcm_Driver K8s_Manifest
begin

section \<open>The drivers for Kubernetes\<close>

text \<open>
  \<^verbatim>\<open>infra_drivers/kubernetes/kubernetes_common.py\<close> and \<^verbatim>\<open>kubernetes.py\<close>. A driver call runs on the instance, which it
  changes in place, and on the cluster. The metadata of an instance keeps the manifests of its VDUs
  (\<^verbatim>\<open>vdu_reses\<close>); a resource made from one shares it, so a change of its replicas is written there too. A set is
  walked in the order of its list. A loop that waits looks at most \<open>ka_looks\<close> times before it times out.

  What Helm does in another way is a parameter of the common part: the rule that says which Pods belong to a resource
  (\<open>rule\<close>).
\<close>

record 'k k8s_state =
  ks_inst :: vnf_instance
  ks_cluster :: 'k

type_synonym naming_rule = "string \<Rightarrow> json \<Rightarrow> string \<Rightarrow> bool pyres"

definition clusterS :: "('k, exn, 'a) sem \<Rightarrow> ('k k8s_state, exn, 'a) sem" where
  "clusterS m s = (case m (ks_cluster s) of (r, c) \<Rightarrow> (r, s\<lparr>ks_cluster := c\<rparr>))"

definition instS :: "(vnf_instance \<Rightarrow> 'a pyres) \<Rightarrow> ('k k8s_state, exn, 'a) sem" where
  "instS f s = (f (ks_inst s), s)"

definition set_instS :: "(vnf_instance \<Rightarrow> vnf_instance) \<Rightarrow> ('k k8s_state, exn, unit) sem" where
  "set_instS f = modS (\<lambda>s. s\<lparr>ks_inst := f (ks_inst s)\<rparr>)"

fun filterS :: "('a \<Rightarrow> ('s, 'e, bool) sem) \<Rightarrow> 'a list \<Rightarrow> ('s, 'e, 'a list) sem" where
  "filterS f [] = retS []"
| "filterS f (x # xs) = bindS (f x) (\<lambda>b. bindS (filterS f xs) (\<lambda>ys. retS (if b then x # ys else ys)))"

fun mapS :: "('a \<Rightarrow> ('s, 'e, 'b) sem) \<Rightarrow> 'a list \<Rightarrow> ('s, 'e, 'b list) sem" where
  "mapS f [] = retS []"
| "mapS f (x # xs) = bindS (f x) (\<lambda>y. bindS (mapS f xs) (\<lambda>ys. retS (y # ys)))"

definition notS :: "('s, 'e, bool) sem \<Rightarrow> ('s, 'e, bool) sem" where
  "notS m = bindS m (\<lambda>b. retS (\<not> b))"

subsection \<open>What is recorded\<close>

definition inst_metadata :: "vnf_instance \<Rightarrow> jdict pyres" where
  "inst_metadata inst = bindE (old_info_of inst) (\<lambda>info. attr ''metadata'' (iv_metadata info))"

definition metadata_item :: "string \<Rightarrow> vnf_instance \<Rightarrow> json pyres" where
  "metadata_item k inst = bindE (inst_metadata inst) (\<lambda>md. dict_item md k)"

definition set_info :: "(inst_vnf_info \<Rightarrow> inst_vnf_info) \<Rightarrow> vnf_instance \<Rightarrow> vnf_instance" where
  "set_info f inst = inst\<lparr>in_instantiatedVnfInfo := map_option f (in_instantiatedVnfInfo inst)\<rparr>"

definition set_metadata :: "string \<Rightarrow> json \<Rightarrow> vnf_instance \<Rightarrow> vnf_instance" where
  "set_metadata k v = set_info (\<lambda>info. info\<lparr>iv_metadata := map_option (dict_set k v) (iv_metadata info)\<rparr>)"

definition inst_vnfcs :: "vnf_instance \<Rightarrow> vnfc_resource list pyres" where
  "inst_vnfcs inst = bindE (old_info_of inst) (\<lambda>info. attr ''vnfcResourceInfo'' (iv_vnfcResourceInfo info))"

definition recorded_vdus :: "vnf_instance \<Rightarrow> jdict" where
  "recorded_vdus inst = (case metadata_item ''vdu_reses'' inst of Inr (JObj d) \<Rightarrow> d | _ \<Rightarrow> [])"

definition store_body :: "string \<Rightarrow> jdict \<Rightarrow> vnf_instance \<Rightarrow> vnf_instance" where
  "store_body vdu body inst = set_metadata ''vdu_reses'' (JObj (dict_set vdu (JObj body) (recorded_vdus inst))) inst"

definition pod_ids :: "vnfc_resource list \<Rightarrow> string list" where
  "pod_ids vnfcs = map (\<lambda>v. rh_resourceId (vr_computeResource v)) vnfcs"

definition init_instantiated_vnf_info :: "string \<Rightarrow> (string \<times> json) list \<Rightarrow> json \<Rightarrow> jdict \<Rightarrow> vnf_instance \<Rightarrow> vnf_instance" where
  "init_instantiated_vnf_info flavour_id bodies namespace extra inst = inst\<lparr>in_instantiatedVnfInfo :=
     Some ((new_inst_vnf_info flavour_id STARTED)\<lparr>iv_metadata := Some (fold (\<lambda>(k, v). dict_set k v) extra
       [(''namespace'', namespace), (''tenant'', namespace), (''vdu_reses'', JObj bodies)])\<rparr>)\<rparr>"

definition get_vdu_res :: "string \<Rightarrow> vnf_instance \<Rightarrow> kres pyres" where
  "get_vdu_res vdu inst = bindE (metadata_item ''vdu_reses'' inst) (\<lambda>reses. bindE (jitem reses vdu) new_kres)"

definition pod_handle :: "string \<Rightarrow> json \<Rightarrow> resource_handle" where
  "pod_handle name kind = \<lparr>rh_vimConnectionId = None, rh_resourceProviderId = None, rh_resourceId = name,
     rh_vimLevelResourceType = (case kind of JStr k \<Rightarrow> Some k | _ \<Rightarrow> None)\<rparr>"

definition pod_vnfc :: "string \<Rightarrow> string \<Rightarrow> json \<Rightarrow> vnfc_resource" where
  "pod_vnfc name vdu kind = \<lparr>vr_id = name, vr_vduId = vdu, vr_computeResource = pod_handle name kind, vr_zoneId = None,
     vr_storageResourceIds = None, vr_vnfcCpInfo = None, vr_metadata = Some []\<rparr>"

definition pod_vnfc_info :: "vnfc_resource \<Rightarrow> vnfc_info" where
  "pod_vnfc_info v = \<lparr>ci_id = vr_vduId v @ ''-'' @ vr_id v, ci_vduId = vr_vduId v, ci_vnfcResourceInfoId = Some (vr_id v),
     ci_vnfcState = STARTED, ci_vnfcConfigurableProperties = None\<rparr>"

text \<open>Every Pod is recorded for every VDU whose rule it fits.\<close>

definition kind_text :: "json \<Rightarrow> string" where
  "kind_text k = (case k of JStr s \<Rightarrow> s | _ \<Rightarrow> [])"

definition vnfcs_of_pod :: "naming_rule \<Rightarrow> jdict \<Rightarrow> json \<Rightarrow> vnfc_resource list pyres" where
  "vnfcs_of_pod rule reses pod = bindE (pod_name pod) (\<lambda>name. concatE (\<lambda>(vdu, res).
     bindE (jitem res ''kind'') (\<lambda>kind. bindE (bindE (jitem res ''metadata'') (\<lambda>md. jitem md ''name'')) (\<lambda>res_name.
     bindE (rule (kind_text kind) res_name name) (\<lambda>b. Inr (if b then [pod_vnfc name vdu kind] else []))))) reses)"

definition vnfcs_of_pods :: "naming_rule \<Rightarrow> json \<Rightarrow> json list \<Rightarrow> vnfc_resource list pyres" where
  "vnfcs_of_pods rule reses pods = (if pods = [] then Inr [] else bindE (jitems reses) (\<lambda>d. concatE (vnfcs_of_pod rule d) pods))"

definition record_vnfcs :: "vnfc_resource list \<Rightarrow> vnf_instance \<Rightarrow> vnf_instance" where
  "record_vnfcs vnfcs = set_info (\<lambda>info. info\<lparr>iv_vnfcResourceInfo := Some vnfcs, iv_vnfcInfo := Some (map pod_vnfc_info vnfcs)\<rparr>)"

definition update_vnfc_info :: "'k k8s_api \<Rightarrow> naming_rule \<Rightarrow> ('k k8s_state, exn, unit) sem" where
  "update_vnfc_info ka rule =
     bindS (instS (metadata_item ''namespace'')) (\<lambda>namespace.
     bindS (clusterS (list_namespaced_pods ka namespace False)) (\<lambda>all_pods.
     bindS (if all_pods = [] then retS JNull else instS (metadata_item ''vdu_reses'')) (\<lambda>reses.
     bindS (liftS (vnfcs_of_pods rule reses all_pods)) (\<lambda>vnfcs. set_instS (record_vnfcs vnfcs)))))"

subsection \<open>Numbers of Pods\<close>

definition vdus_num_of :: "res_def list \<Rightarrow> (string, int) dict" where
  "vdus_num_of defs = fold (\<lambda>r d. if rd_type r = COMPUTE
     then dict_set (rd_resourceTemplateId r) ((case map_of d (rd_resourceTemplateId r) of None \<Rightarrow> 0 | Some n \<Rightarrow> n) + 1) d else d) defs []"

definition get_current_vdu_num :: "string \<Rightarrow> vnf_instance \<Rightarrow> int pyres" where
  "get_current_vdu_num vdu inst = bindE (inst_vnfcs inst) (\<lambda>vnfcs. Inr (int (length (filter (\<lambda>v. vr_vduId v = vdu) vnfcs))))"

definition changed_nums :: "(int \<Rightarrow> int \<Rightarrow> int) \<Rightarrow> (string, int) dict \<Rightarrow> vnf_instance \<Rightarrow> (string, int) dict pyres" where
  "changed_nums f nums inst = mapE (\<lambda>(vdu, n). bindE (get_current_vdu_num vdu inst) (\<lambda>cur. Inr (vdu, f cur n))) nums"

definition scale_nums :: "op_params \<Rightarrow> grant_request \<Rightarrow> vnf_instance \<Rightarrow> (string, int) dict pyres" where
  "scale_nums req grant_req inst =
     bindE (attr ''type'' (rq_type req)) (\<lambda>ty.
       if ty = ''SCALE_OUT'' then bindE (attr ''addResources'' (gq_addResources grant_req)) (\<lambda>rs. changed_nums (+) (vdus_num_of rs) inst)
       else if ty = ''SCALE_IN'' then bindE (attr ''removeResources'' (gq_removeResources grant_req)) (\<lambda>rs. changed_nums (-) (vdus_num_of rs) inst)
       else Inl (PyExc UnboundLocalError ''vdus_num''))"

subsection \<open>Waiting\<close>

fun wait_empty :: "nat \<Rightarrow> 'k k8s_api \<Rightarrow> ('a list \<Rightarrow> ('k, exn, 'a list) sem) \<Rightarrow> 'a list \<Rightarrow> ('k, exn, unit) sem" where
  "wait_empty 0 ka look xs = raiseS (Sol K8sOperaitionTimeout)"
| "wait_empty (Suc n) ka look xs = bindS (look xs) (\<lambda>ys. if ys = [] then retS () else bindS (modS (ka_sleep ka)) (\<lambda>_. wait_empty n ka look ys))"

definition wait_k8s_reses_ready :: "'k k8s_api \<Rightarrow> kres list \<Rightarrow> ('k, exn, unit) sem" where
  "wait_k8s_reses_ready ka = wait_empty (ka_looks ka) ka (filterS (\<lambda>r. notS (is_ready ka r)))"

definition wait_k8s_reses_deleted :: "'k k8s_api \<Rightarrow> kres list \<Rightarrow> ('k, exn, unit) sem" where
  "wait_k8s_reses_deleted ka = wait_empty (ka_looks ka) ka (filterS (is_exists ka))"

definition pods_of_res :: "naming_rule \<Rightarrow> json list \<Rightarrow> kres \<Rightarrow> json list pyres" where
  "pods_of_res rule pods r = filterE (\<lambda>pod. bindE (pod_name pod) (rule (kr_kind r) (kr_name r))) pods"

definition look_updated :: "'k k8s_api \<Rightarrow> naming_rule \<Rightarrow> json \<Rightarrow> string list \<Rightarrow> kres list \<Rightarrow> ('k, exn, kres list) sem" where
  "look_updated ka rule namespace old_pods_names reses =
     bindS (list_namespaced_pods ka namespace False) (\<lambda>all_pods.
       filterS (\<lambda>r. bindS (liftS (pods_of_res rule all_pods r)) (\<lambda>pods. notS (is_update ka r pods old_pods_names))) reses)"

definition wait_k8s_reses_updated :: "'k k8s_api \<Rightarrow> naming_rule \<Rightarrow> json \<Rightarrow> string list \<Rightarrow> kres list \<Rightarrow> ('k, exn, unit) sem" where
  "wait_k8s_reses_updated ka rule namespace old_pods_names = wait_empty (ka_looks ka) ka (look_updated ka rule namespace old_pods_names)"

subsection \<open>Healing\<close>

definition heal_targets :: "grant_request \<Rightarrow> vnf_instance \<Rightarrow> vnfc_resource list pyres" where
  "heal_targets grant_req inst =
     bindE (attr ''removeResources'' (gq_removeResources grant_req)) (\<lambda>defs.
     bindE (mapE (\<lambda>r. bindE (attr ''resource'' (rd_resource r)) (\<lambda>h. Inr (rh_resourceId h))) (filter (\<lambda>r. rd_type r = COMPUTE) defs)) (\<lambda>ids.
     bindE (inst_vnfcs inst) (\<lambda>vnfcs. Inr (filter (\<lambda>v. rh_resourceId (vr_computeResource v) \<in> set ids) vnfcs))))"

text \<open>The resources of the VDUs and the names of the Pods that were deleted. A Pod that is not in the cluster is left out.\<close>

fun delete_pods :: "'k k8s_api \<Rightarrow> vnf_instance \<Rightarrow> string list \<Rightarrow> (string, kres) dict \<Rightarrow> string list \<Rightarrow> vnfc_resource list \<Rightarrow>
    ('k, exn, (string, kres) dict \<times> string list) sem" where
  "delete_pods ka inst current reses old [] = retS (reses, old)"
| "delete_pods ka inst current reses old (v # vs) =
     (if vr_id v \<notin> set current then delete_pods ka inst current reses old vs
      else bindS (liftS (case map_of reses (vr_vduId v) of Some r \<Rightarrow> Inr r | None \<Rightarrow> get_vdu_res (vr_vduId v) inst)) (\<lambda>r.
        bindS (delete_pod ka r (vr_id v)) (\<lambda>_. delete_pods ka inst current (dict_set (vr_vduId v) r reses) (List.insert (vr_id v) old) vs)))"

definition k8s_heal :: "'k k8s_api \<Rightarrow> naming_rule \<Rightarrow> grant_request \<Rightarrow> ('k k8s_state, exn, unit) sem" where
  "k8s_heal ka rule grant_req =
     bindS (instS (metadata_item ''namespace'')) (\<lambda>namespace.
     bindS (instS (heal_targets grant_req)) (\<lambda>targets.
     bindS (clusterS (list_namespaced_pods ka namespace True)) (\<lambda>all_pods.
     bindS (liftS (mapE pod_name all_pods)) (\<lambda>current.
     bindS (instS Inr) (\<lambda>inst.
     bindS (clusterS (delete_pods ka inst current [] [] targets)) (\<lambda>(reses, old).
     bindS (whenS (old \<noteq> []) (clusterS (wait_k8s_reses_updated ka rule namespace old (map snd reses)))) (\<lambda>_.
       update_vnfc_info ka rule)))))))"

subsection \<open>Comparing with the database\<close>

definition recorded_pods :: "vnf_instance \<Rightarrow> string list pyres" where
  "recorded_pods inst = bindE (inst_vnfcs inst) (\<lambda>vnfcs. Inr (pod_ids vnfcs))"

definition diff_check_and_update_vnfc :: "'k k8s_api \<Rightarrow> naming_rule \<Rightarrow> ('k k8s_state, exn, unit) sem" where
  "diff_check_and_update_vnfc ka rule =
     bindS (instS recorded_pods) (\<lambda>old.
     bindS (update_vnfc_info ka rule) (\<lambda>_.
     bindS (instS recorded_pods) (\<lambda>new. if set old = set new then raiseS no_diff else retS ())))"

text \<open>\<open>diff_check_inst\<close> works on a copy of the instance.\<close>

definition k8s_diff_check_inst :: "'k k8s_api \<Rightarrow> naming_rule \<Rightarrow> ('k k8s_state, exn, unit) sem" where
  "k8s_diff_check_inst ka rule s = (case diff_check_and_update_vnfc ka rule s of (r, t) \<Rightarrow> (r, t\<lparr>ks_inst := ks_inst s\<rparr>))"

fun aspect_of_vdu :: "string \<Rightarrow> json list \<Rightarrow> json pyres" where
  "aspect_of_vdu vdu_id [] = Inr (JStr [])"
| "aspect_of_vdu vdu_id (d # ds) = bindE (jget d ''targets'' (JArr [])) (\<lambda>ts. bindE (jcontains ts vdu_id) (\<lambda>b.
     if b then bindE (jpath d [''properties'']) (\<lambda>p. jget p ''aspect'' JNull) else aspect_of_vdu vdu_id ds))"

definition level_failed :: "vnf_instance \<Rightarrow> string \<Rightarrow> int \<Rightarrow> int \<Rightarrow> exn" where
  "level_failed inst vdu_id n delta = DbSyncFailed (''Error computing '' @ quoted ''scale_level'' @ ''. current Pod num: '' @ show_int n @
     '' delta: '' @ show_int delta @ ''. vnf: '' @ in_id inst @ '' vdu: '' @ vdu_id)"

definition range_failed :: "vnf_instance \<Rightarrow> string \<Rightarrow> int \<Rightarrow> exn" where
  "range_failed inst vdu_id n = DbSyncFailed (''Failed to update database vnf '' @ in_id inst @ '' vdu: '' @ vdu_id @
     ''. Pod num is out of range. pod_num: '' @ show_int n)"

definition vdu_profile :: "vnfd \<Rightarrow> json \<Rightarrow> string \<Rightarrow> json pyres" where
  "vdu_profile vnfd flavour_id vdu_id = bindE (get_vdu_nodes vnfd flavour_id) (\<lambda>nodes.
     jpath (case map_of nodes vdu_id of None \<Rightarrow> JObj [] | Some n \<Rightarrow> n) [''properties'', ''vdu_profile''])"

definition check_pod_range :: "vnf_instance \<Rightarrow> vnfd \<Rightarrow> string \<Rightarrow> json \<Rightarrow> int \<Rightarrow> unit pyres" where
  "check_pod_range inst vnfd vdu_id flavour_id n =
     bindE (vdu_profile vnfd flavour_id vdu_id) (\<lambda>p.
     bindE (jget p ''max_number_of_instances'' JNull) (\<lambda>mx. bindE (jget p ''min_number_of_instances'' JNull) (\<lambda>mn.
     bindE (as_int mx) (\<lambda>hi. if n > hi then Inl (range_failed inst vdu_id n)
       else bindE (as_int mn) (\<lambda>lo. if n < lo then Inl (range_failed inst vdu_id n) else Inr ())))))"

fun set_scale_level :: "string \<Rightarrow> int \<Rightarrow> scale_info list \<Rightarrow> scale_info list" where
  "set_scale_level aspect_id level [] = []"
| "set_scale_level aspect_id level (x # xs) =
     (if si_aspectId x = aspect_id then x\<lparr>si_scaleLevel := level\<rparr> # xs else x # set_scale_level aspect_id level xs)"

text \<open>The level that fits the number of Pods.\<close>

definition scale_level_of :: "vnf_instance \<Rightarrow> vnfd \<Rightarrow> json \<Rightarrow> string \<Rightarrow> string \<Rightarrow> int \<Rightarrow> int pyres" where
  "scale_level_of inst vnfd flavour_id aspect_id vdu_id n =
     bindE (get_scale_vdu_and_num vnfd flavour_id aspect_id) (\<lambda>deltas.
     bindE (get_initial_delta vnfd flavour_id vdu_id) (\<lambda>i. bindE (as_int i) (\<lambda>initial_delta.
     bindE (as_int (or_null (map_of deltas vdu_id))) (\<lambda>delta.
       if delta = 0 then Inl (PyExc ZeroDivisionError ''integer modulo by zero'')
       else if (n - initial_delta) mod delta \<noteq> 0 then Inl (level_failed inst vdu_id n delta)
       else Inr ((n - initial_delta) div delta)))))"

definition flavour_of :: "vnf_instance \<Rightarrow> json pyres" where
  "flavour_of inst = bindE (old_info_of inst) (\<lambda>info. Inr (JStr (iv_flavourId info)))"

definition calc_scale_level :: "vnfd pyres \<Rightarrow> string \<Rightarrow> int \<Rightarrow> ('k k8s_state, exn, unit) sem" where
  "calc_scale_level get_vnfd vdu_id n =
     bindS (instS flavour_of) (\<lambda>flavour_id.
     bindS (liftS get_vnfd) (\<lambda>vnfd.
     bindS (liftS (bindE (get_policy_values_by_type vnfd flavour_id ''tosca.policies.nfv.VduScalingAspectDeltas'') (aspect_of_vdu vdu_id))) (\<lambda>aspect.
     if \<not> py_truthy aspect then retS ()
     else bindS (liftS (as_str aspect)) (\<lambda>aspect_id.
       bindS (instS (\<lambda>inst. scale_level_of inst vnfd flavour_id aspect_id vdu_id n)) (\<lambda>level.
       bindS (instS (\<lambda>inst. bindE (old_info_of inst) (\<lambda>info. attr ''scaleStatus'' (iv_scaleStatus info)))) (\<lambda>st.
       bindS (set_instS (set_info (\<lambda>info. info\<lparr>iv_scaleStatus := Some (set_scale_level aspect_id level st)\<rparr>))) (\<lambda>_.
         instS (\<lambda>inst. check_pod_range inst vnfd vdu_id flavour_id n))))))))"

text \<open>The names of the Pods of a resource, each once.\<close>

definition get_pod_information :: "'k k8s_api \<Rightarrow> string \<Rightarrow> string \<Rightarrow> ('k k8s_state, exn, string list) sem" where
  "get_pod_information ka resource_name resource_type =
     bindS (instS inst_metadata) (\<lambda>md.
     let ns = or_null (map_of md ''namespace'') in
     bindS (clusterS (list_namespaced_pods ka (if py_truthy ns then ns else JStr ''default'') False)) (\<lambda>all_pods.
     liftS (bindE (filterE (\<lambda>pod. bindE (pod_name pod) (is_match_pod_naming resource_type (JStr resource_name))) all_pods) (\<lambda>pods.
       bindE (mapE pod_name pods) (\<lambda>names. Inr (remdups names))))))"

text \<open>The name and type of the resource that the first VNFC of a VDU belongs to.\<close>

definition resource_of_vdu :: "string \<Rightarrow> vnf_instance \<Rightarrow> (string \<times> string) pyres" where
  "resource_of_vdu vdu_id inst = bindE (inst_vnfcs inst) (\<lambda>vnfcs. case List.find (\<lambda>v. vr_vduId v = vdu_id) vnfcs of
      None \<Rightarrow> Inr ([], [])
    | Some v \<Rightarrow> bindE (attr ''vimLevelResourceType'' (rh_vimLevelResourceType (vr_computeResource v))) (\<lambda>ty.
        Inr (get_resource_name (rh_resourceId (vr_computeResource v)) ty, ty)))"

text \<open>The number of replicas in the manifest of a VDU becomes the number of its VNFCs, if the manifest has one.\<close>

definition sync_replicas :: "string \<Rightarrow> vnf_instance \<Rightarrow> vnf_instance pyres" where
  "sync_replicas vdu_id inst =
     bindE (get_current_vdu_num vdu_id inst) (\<lambda>n.
     bindE (metadata_item ''vdu_reses'' inst) (\<lambda>reses. bindE (jitem reses vdu_id) (\<lambda>res.
     bindE (jitem res ''spec'') (\<lambda>spec. bindE (jget spec ''replicas'' JNull) (\<lambda>replicas.
       if replicas = JNull then Inr inst
       else bindE (set_replicas n (obj_items res)) (\<lambda>body. Inr (store_body vdu_id body inst)))))))"

definition sync_vdu :: "'k k8s_api \<Rightarrow> vnfd pyres \<Rightarrow> string \<Rightarrow> ('k k8s_state, exn, unit) sem" where
  "sync_vdu ka get_vnfd vdu_id =
     bindS (instS (resource_of_vdu vdu_id)) (\<lambda>(resource_name, resource_type).
     bindS (get_pod_information ka resource_name resource_type) (\<lambda>pods.
     bindS (instS (sync_replicas vdu_id)) (\<lambda>inst.
     bindS (set_instS (\<lambda>_. inst)) (\<lambda>_. calc_scale_level get_vnfd vdu_id (int (length pods))))))"

definition get_vdu_list :: "vnf_instance \<Rightarrow> string list pyres" where
  "get_vdu_list inst = bindE (inst_vnfcs inst) (\<lambda>vnfcs. Inr (remdups (map vr_vduId vnfcs)))"

definition k8s_sync_db :: "'k k8s_api \<Rightarrow> naming_rule \<Rightarrow> vnfd pyres \<Rightarrow> ('k k8s_state, exn, unit) sem" where
  "k8s_sync_db ka rule get_vnfd =
     bindS (diff_check_and_update_vnfc ka rule) (\<lambda>_. bindS (instS get_vdu_list) (forS (sync_vdu ka get_vnfd)))"

subsection \<open>The class Kubernetes\<close>

definition k8s_rule :: naming_rule where
  "k8s_rule = is_match_pod_naming"

definition param_item :: "string \<Rightarrow> op_params \<Rightarrow> json pyres" where
  "param_item k req = bindE (attr ''additionalParams'' (rq_additionalParams req)) (\<lambda>ps. dict_item ps k)"

definition param_or :: "string \<Rightarrow> json \<Rightarrow> op_params \<Rightarrow> json pyres" where
  "param_or k dflt req = bindE (attr ''additionalParams'' (rq_additionalParams req)) (\<lambda>ps. Inr (case map_of ps k of None \<Rightarrow> dflt | Some v \<Rightarrow> v))"

text \<open>The names of the VDUs in manifests, and the place of the resource of each VDU in the list of resources.\<close>

definition vdu_ids_of :: "vnfd \<Rightarrow> json \<Rightarrow> (json, string) dict pyres" where
  "vdu_ids_of vnfd flavour_id = bindE (get_vdu_nodes vnfd flavour_id) (\<lambda>nodes.
     foldE (\<lambda>(key, value) d. bindE (jget value ''properties'' JNull) (\<lambda>p. bindE (jget p ''name'' JNull) (\<lambda>n. bindE (hashed n) (\<lambda>h.
       Inr (dict_set h key d))))) nodes [])"

definition add_vdu_kres :: "(json, string) dict \<Rightarrow> (kres \<Rightarrow> json pyres) \<Rightarrow> nat \<times> kres \<Rightarrow> (string, nat) dict \<Rightarrow> (string, nat) dict pyres" where
  "add_vdu_kres vdu_ids name_of = (\<lambda>(i, r) d. if kr_kind r \<notin> set target_kind then Inr d
     else bindE (name_of r) (\<lambda>n. bindE (hashed n) (\<lambda>h. Inr (case map_of vdu_ids h of None \<Rightarrow> d | Some vdu \<Rightarrow> dict_set vdu i d))))"

definition select_vdu_reses :: "(kres \<Rightarrow> json pyres) \<Rightarrow> vnfd \<Rightarrow> json \<Rightarrow> kres list \<Rightarrow> (string, nat) dict pyres" where
  "select_vdu_reses name_of vnfd flavour_id reses = bindE (vdu_ids_of vnfd flavour_id) (\<lambda>vdu_ids.
     foldE (add_vdu_kres vdu_ids name_of) (zip [0..<length reses] reses) [])"

definition bodies_of :: "(string, nat) dict \<Rightarrow> kres list \<Rightarrow> (string \<times> json) list" where
  "bodies_of vdu_reses reses = map (\<lambda>(vdu, i). (vdu, JObj (kr_body (reses ! i)))) vdu_reses"

definition k8s_name :: "kres \<Rightarrow> json pyres" where
  "k8s_name r = Inr (kr_name r)"

definition set_counts :: "(string, int) dict \<Rightarrow> (string, nat) dict \<Rightarrow> kres list \<Rightarrow> kres list pyres" where
  "set_counts nums vdu_reses reses = foldE (\<lambda>(vdu, i) rs. case map_of nums vdu of
       None \<Rightarrow> Inr rs
     | Some n \<Rightarrow> if kr_kind (rs ! i) \<notin> set scalable_kind then Inr rs
         else bindE (set_replicas n (kr_body (rs ! i))) (\<lambda>b. Inr (rs[i := (rs ! i)\<lparr>kr_body := b\<rparr>]))) vdu_reses reses"

text \<open>The files must be artifacts of the package.\<close>

definition setup_k8s_reses :: "'k k8s_env \<Rightarrow> vnfd \<Rightarrow> json \<Rightarrow> json \<Rightarrow> string \<Rightarrow> (kres list \<times> json) pyres" where
  "setup_k8s_reses ke vnfd target_files namespace inst_id =
     bindE (bindE (jlist target_files) (mapE hashed)) (\<lambda>files.
     let diff_files = filter (\<lambda>f. f \<notin> set (ke_artifacts ke vnfd)) (remdups files) in
     if diff_files \<noteq> [] then bindE (mapE as_str diff_files) (\<lambda>ns. Inl (Sol (CnfDefinitionNotFound (join_with CHR '','' ns))))
     else get_k8s_reses_from_json_files ke vnfd files namespace inst_id)"

definition files_item :: "json \<Rightarrow> jdict" where
  "files_item target_files = [(''lcm-kubernetes-def-files'', target_files)]"

definition create_missing :: "'k k8s_api \<Rightarrow> kres \<Rightarrow> ('k, exn, unit) sem" where
  "create_missing ka r = bindS (is_exists ka r) (\<lambda>b. whenS (\<not> b) (kres_create ka r))"

definition delete_existing :: "'k k8s_api \<Rightarrow> json \<Rightarrow> kres \<Rightarrow> ('k, exn, unit) sem" where
  "delete_existing ka body r = bindS (is_exists ka r) (\<lambda>b. whenS b (kres_delete ka r body))"

definition k8s_instantiate :: "'k k8s_env \<Rightarrow> op_params \<Rightarrow> grant_request \<Rightarrow> vnfd \<Rightarrow> ('k k8s_state, exn, unit) sem" where
  "k8s_instantiate ke req grant_req vnfd =
     bindS (liftS (param_item ''lcm-kubernetes-def-files'' req)) (\<lambda>target_files.
     bindS (liftS (param_or ''namespace'' JNull req)) (\<lambda>ns.
     bindS (instS (\<lambda>inst. setup_k8s_reses ke vnfd target_files ns (in_id inst))) (\<lambda>(reses0, namespace).
     bindS (liftS (attr ''addResources'' (gq_addResources grant_req))) (\<lambda>defs.
     bindS (liftS (attr ''flavourId'' (rq_flavourId req))) (\<lambda>flavour_id.
     bindS (liftS (select_vdu_reses k8s_name vnfd (JStr flavour_id) reses0)) (\<lambda>vdu_reses.
     bindS (liftS (set_counts (vdus_num_of defs) vdu_reses reses0)) (\<lambda>reses.
     bindS (clusterS (forS (create_missing (ke_api ke)) reses)) (\<lambda>_.
     bindS (clusterS (wait_k8s_reses_ready (ke_api ke) reses)) (\<lambda>_.
     bindS (set_instS (init_instantiated_vnf_info flavour_id (bodies_of vdu_reses reses) namespace (files_item target_files))) (\<lambda>_.
       update_vnfc_info (ke_api ke) k8s_rule))))))))))"

definition delete_and_wait :: "'k k8s_api \<Rightarrow> json \<Rightarrow> kres list \<Rightarrow> ('k, exn, unit) sem" where
  "delete_and_wait ka body reses = bindS (forS (delete_existing ka body) reses) (\<lambda>_. wait_k8s_reses_deleted ka reses)"

definition k8s_instantiate_rollback :: "'k k8s_env \<Rightarrow> op_params \<Rightarrow> vnfd \<Rightarrow> ('k k8s_state, exn, unit) sem" where
  "k8s_instantiate_rollback ke req vnfd =
     bindS (liftS (param_item ''lcm-kubernetes-def-files'' req)) (\<lambda>target_files s.
     case bindE (param_or ''namespace'' JNull req) (\<lambda>ns. setup_k8s_reses ke vnfd target_files ns (in_id (ks_inst s))) of
       Inl (Sol e) \<Rightarrow> (Inr (), s)
     | Inl e \<Rightarrow> (Inl e, s)
     | Inr (reses, _) \<Rightarrow> clusterS (delete_and_wait (ke_api ke) foreground (rev reses)) s)"

definition k8s_terminate :: "'k k8s_env \<Rightarrow> op_params \<Rightarrow> vnfd \<Rightarrow> ('k k8s_state, exn, unit) sem" where
  "k8s_terminate ke req vnfd =
     bindS (instS (metadata_item ''lcm-kubernetes-def-files'')) (\<lambda>target_files.
     bindS (instS (metadata_item ''namespace'')) (\<lambda>namespace.
     bindS (instS (\<lambda>inst. bindE (jlist target_files) (\<lambda>files. get_k8s_reses_from_json_files ke vnfd files namespace (in_id inst)))) (\<lambda>(reses, _).
     let timeout = (case graceful_timeout (ke_grace ke) req of None \<Rightarrow> 0 | Some t \<Rightarrow> t) in
     clusterS (delete_and_wait (ke_api ke) (JObj (obj_items foreground @ [(''grace_period_seconds'', JNum timeout)])) (rev reses)))))"

text \<open>The number of a VDU is written to its manifest.\<close>

definition with_replicas :: "int \<Rightarrow> string \<Rightarrow> ('k k8s_state, exn, kres) sem" where
  "with_replicas n vdu = bindS (instS (get_vdu_res vdu)) (\<lambda>r. bindS (liftS (set_replicas n (kr_body r))) (\<lambda>body.
     bindS (set_instS (store_body vdu body)) (\<lambda>_. retS (r\<lparr>kr_body := body\<rparr>))))"

definition k8s_rolling_update :: "'k k8s_api \<Rightarrow> grant_request \<Rightarrow> json \<Rightarrow> string list \<Rightarrow> ('k k8s_state, exn, unit) sem" where
  "k8s_rolling_update ka grant_req namespace old_pods_names =
     bindS (liftS (attr ''addResources'' (gq_addResources grant_req))) (\<lambda>defs.
     bindS (mapS (\<lambda>(vdu, n). with_replicas n vdu) (vdus_num_of defs)) (\<lambda>reses.
     bindS (clusterS (forS (kres_patch ka) reses)) (\<lambda>_.
     bindS (clusterS (wait_k8s_reses_updated ka k8s_rule namespace old_pods_names reses)) (\<lambda>_.
       update_vnfc_info ka k8s_rule))))"

definition pods_of_vdus :: "string list \<Rightarrow> vnf_instance \<Rightarrow> string list pyres" where
  "pods_of_vdus vdus inst = bindE (inst_vnfcs inst) (\<lambda>vnfcs. Inr (pod_ids (filter (\<lambda>v. vr_vduId v \<in> set vdus) vnfcs)))"

definition k8s_change_vnfpkg :: "'k k8s_env \<Rightarrow> op_params \<Rightarrow> grant_request \<Rightarrow> vnfd \<Rightarrow> ('k k8s_state, exn, unit) sem" where
  "k8s_change_vnfpkg ke req grant_req vnfd =
     bindS (liftS (param_item ''upgrade_type'' req)) (\<lambda>ty.
     bindS (if ty \<noteq> JStr ''RollingUpdate'' then retS ()
       else bindS (liftS (param_item ''lcm-kubernetes-def-files'' req)) (\<lambda>target_files.
         bindS (instS (metadata_item ''namespace'')) (\<lambda>namespace.
         bindS (liftS (attr ''addResources'' (gq_addResources grant_req))) (\<lambda>defs.
         bindS (instS (pods_of_vdus (map fst (vdus_num_of defs)))) (\<lambda>old_pods_names.
         bindS (instS (\<lambda>inst. setup_k8s_reses ke vnfd target_files namespace (in_id inst))) (\<lambda>(reses, _).
         bindS (instS flavour_of) (\<lambda>fl. bindS (liftS (select_vdu_reses k8s_name vnfd fl reses)) (\<lambda>vdu_reses.
         bindS (set_instS (init_instantiated_vnf_info (kind_text fl) (bodies_of vdu_reses reses) namespace (files_item target_files))) (\<lambda>_.
           k8s_rolling_update (ke_api ke) grant_req namespace old_pods_names))))))))) (\<lambda>_.
     bindS (liftS (attr ''vnfdId'' (rq_vnfdId req))) (\<lambda>i. set_instS (\<lambda>inst. inst\<lparr>in_vnfdId := i\<rparr>))))"

definition k8s_change_vnfpkg_rollback :: "'k k8s_env \<Rightarrow> op_params \<Rightarrow> grant_request \<Rightarrow> ('k k8s_state, exn, unit) sem" where
  "k8s_change_vnfpkg_rollback ke req grant_req =
     bindS (liftS (param_item ''upgrade_type'' req)) (\<lambda>ty.
       if ty \<noteq> JStr ''RollingUpdate'' then retS ()
       else bindS (instS (metadata_item ''namespace'')) (\<lambda>namespace.
         bindS (instS recorded_pods) (\<lambda>original_pods.
         bindS (clusterS (list_namespaced_pods (ke_api ke) namespace False)) (\<lambda>all_pods.
         bindS (liftS (mapE pod_name all_pods)) (\<lambda>current_pods.
           k8s_rolling_update (ke_api ke) grant_req namespace (filter (\<lambda>p. p \<notin> set original_pods) (remdups current_pods)))))))"

text \<open>A VDU that cannot be scaled is left out.\<close>

definition scale_vdu :: "'k k8s_api \<Rightarrow> string \<times> int \<Rightarrow> ('k k8s_state, exn, kres list) sem" where
  "scale_vdu ka = (\<lambda>(vdu, n). bindS (instS (get_vdu_res vdu)) (\<lambda>r.
     if kr_kind r \<notin> set scalable_kind then retS []
     else bindS (clusterS (kres_scale ka r n)) (\<lambda>body. bindS (set_instS (store_body vdu body)) (\<lambda>_. retS [r\<lparr>kr_body := body\<rparr>]))))"

definition scale_k8s_resource :: "'k k8s_api \<Rightarrow> (string, int) dict \<Rightarrow> ('k k8s_state, exn, unit) sem" where
  "scale_k8s_resource ka nums =
     bindS (instS (metadata_item ''namespace'')) (\<lambda>namespace.
     bindS (mapS (scale_vdu ka) nums) (\<lambda>reses.
     bindS (clusterS (wait_k8s_reses_updated ka k8s_rule namespace [] (concat reses))) (\<lambda>_.
       update_vnfc_info ka k8s_rule)))"

definition k8s_scale :: "'k k8s_api \<Rightarrow> op_params \<Rightarrow> grant_request \<Rightarrow> ('k k8s_state, exn, unit) sem" where
  "k8s_scale ka req grant_req = bindS (instS (scale_nums req grant_req)) (scale_k8s_resource ka)"

definition k8s_scale_rollback :: "'k k8s_api \<Rightarrow> grant_request \<Rightarrow> ('k k8s_state, exn, unit) sem" where
  "k8s_scale_rollback ka grant_req =
     bindS (liftS (attr ''addResources'' (gq_addResources grant_req))) (\<lambda>defs.
     bindS (instS (changed_nums (\<lambda>cur n. cur) (vdus_num_of defs))) (scale_k8s_resource ka))"

end
