(* ===== verification/Helm_Driver.thy ===== *)
theory Helm_Driver
  imports K8s_Driver
begin

section \<open>The driver for Helm\<close>

text \<open>
  \<^verbatim>\<open>infra_drivers/kubernetes/helm_utils.py\<close> and \<^verbatim>\<open>helm.py\<close>. A command line of \<^verbatim>\<open>helm\<close> runs on the cluster and gives its
  return code, its output and its error output (\<open>he_run\<close>); the parser of YAML, the text of a result in a message, the
  arguments with the credentials and the directory of a package are fields of \<open>helm_env\<close>. The numbers of replicas are also
  written to the parameters of the request in the code; here the request is not changed.
\<close>

record cmd_result =
  cm_code :: int
  cm_out :: string
  cm_err :: string

record 'k helm_env =
  he_api :: "'k k8s_api"
  he_run :: "string list \<Rightarrow> 'k \<Rightarrow> cmd_result \<times> 'k"
  he_load :: "string \<Rightarrow> json list pyres"
  he_show :: "cmd_result \<Rightarrow> string"
  he_auth :: "string list"
  he_csar_dir :: "vnfd \<Rightarrow> string"

subsection \<open>The client\<close>

definition helm_failed :: "'k helm_env \<Rightarrow> cmd_result \<Rightarrow> exn" where
  "helm_failed he result = Sol (HelmOperationFailed (he_show he result))"

definition execute_command :: "'k helm_env \<Rightarrow> string list \<Rightarrow> bool \<Rightarrow> ('k, exn, cmd_result) sem" where
  "execute_command he helm_command raise_ex s = (case he_run he (helm_command @ he_auth he) s of
     (result, t) \<Rightarrow> (if raise_ex \<and> cm_code result \<noteq> 0 then Inl (helm_failed he result) else Inr result, t))"

definition is_space :: "char \<Rightarrow> bool" where
  "is_space c = (c \<in> {CHR '' '', CHR 0x09, CHR 0x0A, CHR 0x0B, CHR 0x0C, CHR 0x0D})"

definition last_word :: "string \<Rightarrow> string" where
  "last_word s = rev (takeWhile (\<lambda>c. \<not> is_space c) (dropWhile is_space (rev s)))"

definition get_revision :: "cmd_result \<Rightarrow> json" where
  "get_revision result = (case List.find (substring_of ''REVISION'') (split_char CHR 0x0A (cm_out result)) of
      None \<Rightarrow> JNull | Some line \<Rightarrow> JStr (last_word line))"

definition release_not_found_msg :: string where
  "release_not_found_msg = ''Error: release: not found''"

definition is_release_exist :: "'k helm_env \<Rightarrow> string \<Rightarrow> string \<Rightarrow> ('k, exn, bool) sem" where
  "is_release_exist he release_name namespace =
     bindS (execute_command he [''helm'', ''status'', release_name, ''--namespace'', namespace] False) (\<lambda>result.
       if cm_code result = 0 then retS True
       else if substring_of release_not_found_msg (cm_err result) then retS False
       else raiseS (helm_failed he result))"

text \<open>Python's \<open>str\<close> of a value; strings inside lists and dicts have no quotes or backslashes.\<close>

definition with_commas :: "string list \<Rightarrow> string" where
  "with_commas ts = concat (map (\<lambda>(i, t). if i = (0::nat) then t else '', '' @ t) (zip [0..<length ts] ts))"

fun py_repr :: "json \<Rightarrow> string" and py_reprs :: "json list \<Rightarrow> string list" and py_items :: "jdict \<Rightarrow> string list" where
  "py_repr JNull = ''None''"
| "py_repr (JBool b) = (if b then ''True'' else ''False'')"
| "py_repr (JNum n) = show_int n"
| "py_repr (JStr s) = quoted s"
| "py_repr (JArr xs) = ''['' @ with_commas (py_reprs xs) @ '']''"
| "py_repr (JObj d) = ''{'' @ with_commas (py_items d) @ ''}''"
| "py_reprs [] = []"
| "py_reprs (x # xs) = py_repr x # py_reprs xs"
| "py_items [] = []"
| "py_items ((k, v) # d) = (quoted k @ '': '' @ py_repr v) # py_items d"

definition py_str :: "json \<Rightarrow> string" where
  "py_str j = (case j of JStr s \<Rightarrow> s | _ \<Rightarrow> py_repr j)"

definition helm_set_params :: "jdict \<Rightarrow> string list" where
  "helm_set_params parameters = (if parameters = [] then []
     else [''--set'', join_with CHR '','' (map (\<lambda>(k, v). k @ ''='' @ py_str v) parameters)])"

definition install_timeout :: string where
  "install_timeout = ''120s''"

definition helm_install :: "'k helm_env \<Rightarrow> string \<Rightarrow> string \<Rightarrow> string \<Rightarrow> jdict \<Rightarrow> ('k, exn, json) sem" where
  "helm_install he release_name chart_name namespace parameters =
     bindS (execute_command he ([''helm'', ''install'', release_name, chart_name, ''--namespace'', namespace, ''--create-namespace''] @
       helm_set_params parameters @ [''--timeout'', install_timeout]) True) (\<lambda>result. retS (get_revision result))"

definition helm_upgrade :: "'k helm_env \<Rightarrow> string \<Rightarrow> string \<Rightarrow> string \<Rightarrow> jdict \<Rightarrow> ('k, exn, json) sem" where
  "helm_upgrade he release_name chart_name namespace parameters =
     bindS (execute_command he ([''helm'', ''upgrade'', release_name, chart_name, ''--namespace'', namespace, ''--reuse-values''] @
       helm_set_params parameters @ [''--timeout'', install_timeout]) True) (\<lambda>result. retS (get_revision result))"

definition helm_uninstall :: "'k helm_env \<Rightarrow> string \<Rightarrow> string \<Rightarrow> ('k, exn, unit) sem" where
  "helm_uninstall he release_name namespace =
     bindS (execute_command he [''helm'', ''uninstall'', release_name, ''--namespace'', namespace, ''--timeout'', install_timeout] True) (\<lambda>_. retS ())"

definition get_manifest :: "'k helm_env \<Rightarrow> string \<Rightarrow> string \<Rightarrow> ('k, exn, json list) sem" where
  "get_manifest he release_name namespace =
     bindS (execute_command he [''helm'', ''get'', ''manifest'', release_name, ''--namespace'', namespace] True) (\<lambda>result.
       liftS (he_load he (cm_out result)))"

definition helm_rollback :: "'k helm_env \<Rightarrow> string \<Rightarrow> string \<Rightarrow> string \<Rightarrow> ('k, exn, unit) sem" where
  "helm_rollback he release_name revision_no namespace =
     bindS (execute_command he [''helm'', ''rollback'', release_name, revision_no, ''--namespace'', namespace] True) (\<lambda>_. retS ())"

subsection \<open>Releases and resources\<close>

text \<open>An argument of a command line must be a string.\<close>

definition arg_text :: "json \<Rightarrow> string pyres" where
  "arg_text j = (case j of JStr s \<Rightarrow> Inr s | _ \<Rightarrow> Inl (type_error j))"

definition path_join :: "string \<Rightarrow> string \<Rightarrow> string" where
  "path_join a b = (if take 1 b = ''/'' then b else if a = [] \<or> last a = CHR ''/'' then a @ b else a @ ''/'' @ b)"

definition chart_name :: "'k helm_env \<Rightarrow> vnfd \<Rightarrow> json \<Rightarrow> string pyres" where
  "chart_name he vnfd helm_chart_path = bindE (arg_text helm_chart_path) (\<lambda>p. Inr (path_join (he_csar_dir he vnfd) p))"

definition get_release_name :: "vnf_instance \<Rightarrow> string" where
  "get_release_name inst = ''vnf'' @ filter (\<lambda>c. c \<noteq> CHR ''-'') (in_id inst)"

definition helm_rule :: naming_rule where
  "helm_rule kind rsc_name pod = bindE (arg_text rsc_name) (\<lambda>n. Inr (substring_of n pod))"

definition default_namespace :: "json \<Rightarrow> json \<Rightarrow> json pyres" where
  "default_namespace namespace manifest = bindE (kind_in supported_namespace_kind manifest) (\<lambda>b.
     if b then bindE (with_default ''metadata'' (JObj []) manifest) (at_item ''metadata'' (with_default ''namespace'' namespace)) else Inr manifest)"

definition create_reses_from_manifest :: "json \<Rightarrow> json list \<Rightarrow> kres list pyres" where
  "create_reses_from_manifest namespace manifests = bindE (mapE (default_namespace namespace) manifests) make_reses"

text \<open>The name of a resource up to its last dash; without a dash Python cuts the last character.\<close>

definition helm_name :: "kres \<Rightarrow> json pyres" where
  "helm_name r = (case kr_name r of
      JStr n \<Rightarrow> Inr (JStr (if CHR ''-'' \<in> set n then rev (tl (dropWhile (\<lambda>c. c \<noteq> CHR ''-'') (rev n))) else butlast n))
    | j \<Rightarrow> Inl (attr_error j ''rfind''))"

definition release_items :: "json \<Rightarrow> json \<Rightarrow> string \<Rightarrow> json \<Rightarrow> jdict" where
  "release_items helm_chart_path helm_value_names release_name revision =
     [(''helm_chart_path'', helm_chart_path), (''helm_value_names'', helm_value_names), (''release_name'', JStr release_name), (''revision'', revision)]"

definition replica_param :: "json \<Rightarrow> string \<Rightarrow> json pyres" where
  "replica_param helm_value_names vdu = bindE (jget helm_value_names vdu (JObj [])) (\<lambda>v. jget v ''replica'' JNull)"

text \<open>The parameters of an installation: a VDU without a parameter is left out.\<close>

fun install_params :: "json \<Rightarrow> (string, int) dict \<Rightarrow> jdict \<Rightarrow> jdict pyres" where
  "install_params value_names [] ps = Inr ps"
| "install_params value_names ((vdu, n) # nums) ps = bindE (replica_param value_names vdu) (\<lambda>p.
     if py_truthy p then bindE (arg_text p) (\<lambda>k. install_params value_names nums (dict_set k (JNum n) ps)) else install_params value_names nums ps)"

text \<open>The parameters of a scale: every VDU must have one.\<close>

fun scale_params :: "json \<Rightarrow> (string, int) dict \<Rightarrow> jdict \<Rightarrow> jdict pyres" where
  "scale_params value_names [] ps = Inr ps"
| "scale_params value_names ((vdu, n) # nums) ps = bindE (replica_param value_names vdu) (\<lambda>p.
     if \<not> py_truthy p then Inl (Sol (HelmParameterNotFound vdu))
     else bindE (arg_text p) (\<lambda>k. scale_params value_names nums (dict_set k (JNum n) ps)))"

subsection \<open>The class Helm\<close>

definition release_reses :: "'k helm_env \<Rightarrow> string \<Rightarrow> json \<Rightarrow> ('k, exn, kres list) sem" where
  "release_reses he release_name namespace = bindS (liftS (arg_text namespace)) (\<lambda>ns.
     bindS (get_manifest he release_name ns) (\<lambda>ms. liftS (create_reses_from_manifest namespace ms)))"

definition helm_instantiate :: "'k helm_env \<Rightarrow> op_params \<Rightarrow> grant_request \<Rightarrow> vnfd \<Rightarrow> ('k k8s_state, exn, unit) sem" where
  "helm_instantiate he req grant_req vnfd =
     bindS (liftS (param_or ''namespace'' (JStr ''default'') req)) (\<lambda>namespace.
     bindS (liftS (param_item ''helm_chart_path'' req)) (\<lambda>helm_chart_path.
     bindS (liftS (chart_name he vnfd helm_chart_path)) (\<lambda>chart.
     bindS (instS (Inr \<circ> get_release_name)) (\<lambda>release_name.
     bindS (liftS (param_item ''helm_value_names'' req)) (\<lambda>value_names.
     bindS (liftS (attr ''addResources'' (gq_addResources grant_req))) (\<lambda>defs.
     bindS (liftS (param_or ''helm_parameters'' (JObj []) req)) (\<lambda>params0.
     bindS (liftS (install_params value_names (vdus_num_of defs) (obj_items params0))) (\<lambda>params.
     bindS (liftS (arg_text namespace)) (\<lambda>ns.
     bindS (clusterS (is_release_exist he release_name ns)) (\<lambda>exists.
     bindS (clusterS ((if exists then helm_upgrade else helm_install) he release_name chart ns params)) (\<lambda>revision.
     bindS (clusterS (release_reses he release_name namespace)) (\<lambda>reses.
     bindS (liftS (attr ''flavourId'' (rq_flavourId req))) (\<lambda>flavour_id.
     bindS (liftS (select_vdu_reses helm_name vnfd (JStr flavour_id) reses)) (\<lambda>vdu_reses.
     bindS (clusterS (wait_k8s_reses_ready (he_api he) reses)) (\<lambda>_.
     bindS (set_instS (init_instantiated_vnf_info flavour_id (bodies_of vdu_reses reses) namespace
       (release_items helm_chart_path value_names release_name revision))) (\<lambda>_.
       update_vnfc_info (he_api he) helm_rule))))))))))))))))"

definition delete_release :: "'k helm_env \<Rightarrow> string \<Rightarrow> json \<Rightarrow> ('k, exn, unit) sem" where
  "delete_release he release_name namespace =
     bindS (liftS (arg_text namespace)) (\<lambda>ns.
     bindS (is_release_exist he release_name ns) (\<lambda>exists.
       if \<not> exists then retS ()
       else bindS (release_reses he release_name namespace) (\<lambda>reses.
         bindS (helm_uninstall he release_name ns) (\<lambda>_. wait_k8s_reses_deleted (he_api he) reses))))"

definition helm_instantiate_rollback :: "'k helm_env \<Rightarrow> op_params \<Rightarrow> ('k k8s_state, exn, unit) sem" where
  "helm_instantiate_rollback he req =
     bindS (liftS (param_or ''namespace'' (JStr ''default'') req)) (\<lambda>namespace.
     bindS (instS (Inr \<circ> get_release_name)) (\<lambda>release_name. clusterS (delete_release he release_name namespace)))"

definition helm_terminate :: "'k helm_env \<Rightarrow> ('k k8s_state, exn, unit) sem" where
  "helm_terminate he =
     bindS (instS (metadata_item ''namespace'')) (\<lambda>namespace.
     bindS (instS (\<lambda>inst. bindE (metadata_item ''release_name'' inst) arg_text)) (\<lambda>release_name.
       clusterS (delete_release he release_name namespace)))"

definition helm_scale :: "'k helm_env \<Rightarrow> op_params \<Rightarrow> grant_request \<Rightarrow> vnfd \<Rightarrow> ('k k8s_state, exn, unit) sem" where
  "helm_scale he req grant_req vnfd =
     bindS (instS (scale_nums req grant_req)) (\<lambda>nums.
     bindS (instS (metadata_item ''namespace'')) (\<lambda>namespace.
     bindS (instS (\<lambda>inst. bindE (metadata_item ''release_name'' inst) arg_text)) (\<lambda>release_name.
     bindS (instS (\<lambda>inst. bindE (metadata_item ''helm_chart_path'' inst) (chart_name he vnfd))) (\<lambda>chart.
     bindS (instS (metadata_item ''helm_value_names'')) (\<lambda>value_names.
     bindS (liftS (scale_params value_names nums [])) (\<lambda>params.
     bindS (liftS (arg_text namespace)) (\<lambda>ns.
     bindS (clusterS (helm_upgrade he release_name chart ns params)) (\<lambda>revision.
     bindS (mapS (\<lambda>(vdu, n). with_replicas n vdu) nums) (\<lambda>reses.
     bindS (clusterS (wait_k8s_reses_updated (he_api he) helm_rule namespace [] reses)) (\<lambda>_.
     bindS (update_vnfc_info (he_api he) helm_rule) (\<lambda>_.
       set_instS (set_metadata ''revision'' revision))))))))))))"

definition roll_back_release :: "'k helm_env \<Rightarrow> json \<Rightarrow> ('k k8s_state, exn, unit) sem" where
  "roll_back_release he namespace =
     bindS (instS (\<lambda>inst. bindE (metadata_item ''release_name'' inst) arg_text)) (\<lambda>release_name.
     bindS (instS (\<lambda>inst. bindE (metadata_item ''revision'' inst) arg_text)) (\<lambda>revision.
     bindS (liftS (arg_text namespace)) (\<lambda>ns. clusterS (helm_rollback he release_name revision ns))))"

definition helm_scale_rollback :: "'k helm_env \<Rightarrow> grant_request \<Rightarrow> ('k k8s_state, exn, unit) sem" where
  "helm_scale_rollback he grant_req =
     bindS (liftS (attr ''addResources'' (gq_addResources grant_req))) (\<lambda>defs.
     bindS (instS (metadata_item ''namespace'')) (\<lambda>namespace.
     bindS (roll_back_release he namespace) (\<lambda>_.
     bindS (instS (\<lambda>inst. mapE (\<lambda>(vdu, n). get_vdu_res vdu inst) (vdus_num_of defs))) (\<lambda>reses.
       clusterS (wait_k8s_reses_updated (he_api he) helm_rule namespace [] reses)))))"

definition update_vdu_reses :: "(string \<times> json) list \<Rightarrow> vnf_instance \<Rightarrow> vnf_instance" where
  "update_vdu_reses bodies inst = set_metadata ''vdu_reses'' (JObj (fold (\<lambda>(vdu, b). dict_set vdu b) bodies (recorded_vdus inst))) inst"

definition helm_rolling_update :: "'k helm_env \<Rightarrow> op_params \<Rightarrow> grant_request \<Rightarrow> vnfd \<Rightarrow> ('k k8s_state, exn, unit) sem" where
  "helm_rolling_update he req grant_req vnfd =
     bindS (instS (metadata_item ''namespace'')) (\<lambda>namespace.
     bindS (instS (\<lambda>inst. bindE (metadata_item ''release_name'' inst) arg_text)) (\<lambda>release_name.
     bindS (instS (metadata_item ''helm_chart_path'')) (\<lambda>old_path.
     bindS (liftS (param_or ''helm_chart_path'' old_path req)) (\<lambda>helm_chart_path.
     bindS (liftS (chart_name he vnfd helm_chart_path)) (\<lambda>chart.
     bindS (liftS (attr ''addResources'' (gq_addResources grant_req))) (\<lambda>defs.
     bindS (liftS (arg_text namespace)) (\<lambda>ns.
     bindS (clusterS (helm_upgrade he release_name chart ns [])) (\<lambda>revision.
     bindS (clusterS (release_reses he release_name namespace)) (\<lambda>reses.
     bindS (instS flavour_of) (\<lambda>fl. bindS (liftS (select_vdu_reses helm_name vnfd fl reses)) (\<lambda>vdu_reses.
     let vdus = map fst (vdus_num_of defs); target_reses = filter (\<lambda>(vdu, i). vdu \<in> set vdus) vdu_reses in
     bindS (instS (pods_of_vdus vdus)) (\<lambda>old_pods_names.
     bindS (clusterS (wait_k8s_reses_updated (he_api he) helm_rule namespace old_pods_names (map (\<lambda>(vdu, i). reses ! i) target_reses))) (\<lambda>_.
     bindS (update_vnfc_info (he_api he) helm_rule) (\<lambda>_.
     bindS (set_instS (update_vdu_reses (bodies_of target_reses reses))) (\<lambda>_.
     bindS (set_instS (set_metadata ''revision'' revision \<circ> set_metadata ''helm_chart_path'' helm_chart_path)) (\<lambda>_.
     bindS (liftS (attr ''vnfdId'' (rq_vnfdId req))) (\<lambda>i. set_instS (\<lambda>inst. inst\<lparr>in_vnfdId := i\<rparr>))))))))))))))))))"

definition helm_change_vnfpkg :: "'k helm_env \<Rightarrow> op_params \<Rightarrow> grant_request \<Rightarrow> vnfd \<Rightarrow> ('k k8s_state, exn, unit) sem" where
  "helm_change_vnfpkg he req grant_req vnfd = bindS (liftS (param_item ''upgrade_type'' req)) (\<lambda>ty.
     if ty = JStr ''RollingUpdate'' then helm_rolling_update he req grant_req vnfd else retS ())"

definition helm_rolling_update_rollback :: "'k helm_env \<Rightarrow> grant_request \<Rightarrow> ('k k8s_state, exn, unit) sem" where
  "helm_rolling_update_rollback he grant_req =
     bindS (instS (metadata_item ''namespace'')) (\<lambda>namespace.
     bindS (instS recorded_pods) (\<lambda>original_pods.
     bindS (clusterS (list_namespaced_pods (he_api he) namespace False)) (\<lambda>all_pods.
     bindS (liftS (mapE pod_name all_pods)) (\<lambda>current_pods.
     bindS (roll_back_release he namespace) (\<lambda>_.
     bindS (liftS (attr ''addResources'' (gq_addResources grant_req))) (\<lambda>defs.
     bindS (instS (\<lambda>inst. mapE (\<lambda>(vdu, n). get_vdu_res vdu inst) (vdus_num_of defs))) (\<lambda>reses.
     bindS (clusterS (wait_k8s_reses_updated (he_api he) helm_rule namespace
       (filter (\<lambda>p. p \<notin> set original_pods) (remdups current_pods)) reses)) (\<lambda>_.
       update_vnfc_info (he_api he) helm_rule))))))))"

definition helm_change_vnfpkg_rollback :: "'k helm_env \<Rightarrow> op_params \<Rightarrow> grant_request \<Rightarrow> ('k k8s_state, exn, unit) sem" where
  "helm_change_vnfpkg_rollback he req grant_req = bindS (liftS (param_item ''upgrade_type'' req)) (\<lambda>ty.
     if ty = JStr ''RollingUpdate'' then helm_rolling_update_rollback he grant_req else retS ())"

end
