(* ===== verification/K8s_Props.thy ===== *)
theory K8s_Props
  imports Helm_Driver Example_Data
begin

section \<open>Properties of the drivers for Kubernetes\<close>

text \<open>
  The resources of an instance are in one namespace and carry its label; the name of a Pod gives back the name of its
  resource; what is recorded are the running Pods; scaling asks for the number that was granted; and the scale level that
  the synchronisation computes fits the number of Pods. A small cluster with one Deployment, whose state is the list of its Pods, is the example of the
  witnesses.
\<close>

subsection \<open>A small cluster\<close>

definition ex_pod :: "string \<Rightarrow> json" where
  "ex_pod name = JObj [(''metadata'', JObj [(''name'', JStr name)]), (''status'', JObj [(''phase'', JStr ''Running'')])]"

definition ex_call :: "string \<Rightarrow> json \<Rightarrow> json \<Rightarrow> json \<Rightarrow> string list \<Rightarrow> (k8s_error + json) \<times> string list" where
  "ex_call method ns name body pods =
     (if method = ''list_namespaced_pod'' then (Inr (JObj [(''items'', JArr (map ex_pod pods))]), pods)
      else if method = ''patch_namespaced_deployment_scale''
      then (Inr JNull, case bindE (jitem body ''spec'') (\<lambda>spec. jitem spec ''replicas'') of
          Inr (JNum n) \<Rightarrow> take (nat n) [''d-1a-aaaaa'', ''d-1a-bbbbb'', ''d-1a-ccccc''] | _ \<Rightarrow> pods)
      else (Inr (JObj [(''spec'', JObj [(''replicas'', JNum (int (length pods)))])]), pods))"

definition ex_api :: "string list k8s_api" where
  "ex_api = \<lparr>ka_call = ex_call, ka_sleep = id, ka_timeout = 300, ka_looks = 30\<rparr>"

definition ex_manifest :: json where
  "ex_manifest = JObj [(''kind'', JStr ''Deployment''), (''metadata'', JObj [(''name'', JStr ''d'')]), (''spec'', JObj [(''replicas'', JNum 1)])]"

definition ex_k8s_inst :: vnf_instance where
  "ex_k8s_inst = ex_inst\<lparr>in_instantiatedVnfInfo := Some (ex_info\<lparr>
     iv_vnfcResourceInfo := Some [pod_vnfc ''d-1a-aaaaa'' ''V'' (JStr ''Deployment'')],
     iv_metadata := Some [(''namespace'', JStr ''default''), (''vdu_reses'', JObj [(''V'', ex_manifest)]),
       (''release_name'', JStr ''r''), (''helm_chart_path'', JStr ''c''), (''helm_value_names'', JObj [])]\<rparr>)\<rparr>"

definition ex_k8s_state :: "string list \<Rightarrow> string list k8s_state" where
  "ex_k8s_state pods = \<lparr>ks_inst = ex_k8s_inst, ks_cluster = pods\<rparr>"

definition ex_add :: res_def where
  "ex_add = \<lparr>rd_id = ''r'', rd_type = COMPUTE, rd_resourceTemplateId = ''V'', rd_resource = None\<rparr>"

definition ex_k8s_grant_req :: grant_request where
  "ex_k8s_grant_req = \<lparr>gq_vnfInstanceId = ''inst'', gq_vnfLcmOpOccId = ''occ'', gq_vnfdId = ''vnfd'', gq_dstVnfdId = None,
     gq_flavourId = None, gq_operation = SCALE, gq_isAutomaticInvocation = False, gq_instantiationLevelId = None,
     gq_addResources = Some [ex_add], gq_removeResources = None, gq_updateResources = None, gq_placementConstraints = None,
     gq_additionalParams = None, gq_links_vnfLcmOpOcc = [], gq_links_vnfInstance = []\<rparr>"

definition ex_k8s_env :: "string list k8s_env" where
  "ex_k8s_env = \<lparr>ke_api = ex_api, ke_documents = (\<lambda>_ _. Inr [ex_manifest]), ke_artifacts = (\<lambda>_. [JStr ''f'']), ke_grace = 60\<rparr>"

definition ex_helm :: "string list helm_env" where
  "ex_helm = \<lparr>he_api = ex_api, he_run = (\<lambda>_ s. (\<lparr>cm_code = 0, cm_out = ''REVISION: 1'', cm_err = []\<rparr>, s)), he_load = (\<lambda>_. Inr [ex_manifest]),
     he_show = (\<lambda>_. []), he_auth = [], he_csar_dir = (\<lambda>_. ''/csar'')\<rparr>"

definition ex_k8s_vnfd :: vnfd where
  "ex_k8s_vnfd = \<lparr>vd_id = ''vnfd'',
     vd_definitions = [(''f.yaml'', JObj [(''topology_template'', JObj [
        (''substitution_mappings'', JObj [(''properties'', JObj [(''flavour_id'', JStr ''fl'')])]),
        (''node_templates'', JObj [(''V'', JObj [(''type'', JStr ''tosca.nodes.nfv.Vdu.Compute''), (''properties'', JObj [(''name'', JStr ''d''),
          (''vdu_profile'', JObj [(''min_number_of_instances'', JNum 1), (''max_number_of_instances'', JNum 3)])])])]),
        (''policies'', JArr ((case ex_policies of JArr ps \<Rightarrow> ps | _ \<Rightarrow> []) @
          [JObj [(''initial'', JObj [(''type'', JStr ''tosca.policies.nfv.VduInitialDelta''), (''targets'', JArr [JStr ''V'']),
            (''properties'', JObj [(''initial_delta'', JObj [(''number_of_instances'', JNum 1)])])])]]))])])],
     vd_flavours = []\<rparr>"

subsection \<open>Namespace and label\<close>

lemma at_default_lookup:
  assumes "bindE (with_default k (JObj []) m) (at_item k f) = Inr m'"
  shows "\<exists>d d' v. m = JObj d \<and> m' = JObj d' \<and> f (case map_of d k of None \<Rightarrow> JObj [] | Some x \<Rightarrow> x) = Inr v \<and> map_of d' = (map_of d)(k \<mapsto> v)"
proof (cases m)
  case (JObj d)
  show ?thesis
  proof (cases "map_of d k")
    case None
    then have "k \<notin> fst ` set d" by (simp add: map_of_eq_None_iff)
    with assms JObj None show ?thesis
      by (auto simp: with_default_def at_item_def put_item_def bindE_eq_Inr)
  next
    case (Some x)
    then have "k \<in> fst ` set d" by (force dest: map_of_SomeD)
    with assms JObj Some show ?thesis
      by (auto simp: with_default_def at_item_def put_item_def bindE_eq_Inr)
  qed
qed (use assms in \<open>simp_all add: with_default_def\<close>)

lemma with_default_Inr:
  assumes "with_default k v j = Inr j'"
  shows "\<exists>d e. j = JObj d \<and> j' = JObj e \<and> map_of e = (map_of d)(k \<mapsto> (case map_of d k of None \<Rightarrow> v | Some x \<Rightarrow> x))"
proof (cases j)
  case (JObj d)
  show ?thesis
  proof (cases "map_of d k")
    case None
    with assms JObj show ?thesis by (auto simp: with_default_def dict_has_def simp del: dict_has_iff)
  next
    case (Some x)
    with assms JObj show ?thesis by (auto simp: with_default_def dict_has_def fun_upd_idem simp del: dict_has_iff)
  qed
qed (use assms in \<open>simp_all add: with_default_def\<close>)

lemma put_item_Inr: "put_item k v j = Inr j' \<Longrightarrow> \<exists>d. j = JObj d \<and> j' = JObj (dict_set k v d)"
  by (cases j) (simp_all add: put_item_def)

lemma set_namespace_lookup:
  assumes "set_namespace ns m = Inr m'"
  shows "\<exists>d d' md. m = JObj d \<and> m' = JObj d' \<and> map_of d' = (map_of d)(''metadata'' \<mapsto> JObj md) \<and>
    map_of md ''namespace'' \<noteq> None \<and> (ns \<noteq> JNull \<longrightarrow> map_of md ''namespace'' = Some ns)"
proof -
  let ?f = "if ns = JNull then with_default ''namespace'' (JStr ''default'') else put_item ''namespace'' ns"
  obtain d d' v where d: "m = JObj d" "m' = JObj d'" "map_of d' = (map_of d)(''metadata'' \<mapsto> v)"
    and f: "?f (case map_of d ''metadata'' of None \<Rightarrow> JObj [] | Some x \<Rightarrow> x) = Inr v"
    using at_default_lookup [OF assms [unfolded set_namespace_def]] by blast
  obtain md where "v = JObj md" "map_of md ''namespace'' \<noteq> None" "ns \<noteq> JNull \<longrightarrow> map_of md ''namespace'' = Some ns"
  proof (cases "ns = JNull")
    case True
    then show ?thesis using f that with_default_Inr [of "''namespace''" "JStr ''default''" _ v] by fastforce
  next
    case False
    then show ?thesis using f that put_item_Inr [of "''namespace''" ns _ v] by fastforce
  qed
  with d show ?thesis by blast
qed

lemma set_label_lookup:
  assumes "set_label i m = Inr m'"
  shows "\<exists>d d' md md' labels. m = JObj d \<and> m' = JObj d' \<and> map_of d' = (map_of d)(''metadata'' \<mapsto> JObj md') \<and>
    (case map_of d ''metadata'' of None \<Rightarrow> JObj [] | Some x \<Rightarrow> x) = JObj md \<and>
    map_of md' = (map_of md)(''labels'' \<mapsto> JObj labels) \<and> map_of labels instance_label = Some (JStr i)"
proof -
  let ?g = "\<lambda>md. bindE (with_default ''labels'' (JObj []) md) (at_item ''labels'' (put_item instance_label (JStr i)))"
  obtain d d' v where d: "m = JObj d" "m' = JObj d'" "map_of d' = (map_of d)(''metadata'' \<mapsto> v)"
    and g: "?g (case map_of d ''metadata'' of None \<Rightarrow> JObj [] | Some x \<Rightarrow> x) = Inr v"
    using at_default_lookup [OF assms [unfolded set_label_def]] by blast
  obtain md md' w where md: "(case map_of d ''metadata'' of None \<Rightarrow> JObj [] | Some x \<Rightarrow> x) = JObj md" "v = JObj md'"
      "map_of md' = (map_of md)(''labels'' \<mapsto> w)"
    and w: "put_item instance_label (JStr i) (case map_of md ''labels'' of None \<Rightarrow> JObj [] | Some x \<Rightarrow> x) = Inr w"
    using at_default_lookup [OF g] by blast
  obtain labels where "w = JObj labels" "map_of labels instance_label = Some (JStr i)"
    using w by (auto simp: put_item_def split: json.splits)
  with d md show ?thesis by blast
qed

text \<open>What the preparation leaves in a manifest.\<close>

definition in_namespace :: "json \<Rightarrow> json \<Rightarrow> bool" where
  "in_namespace ns m = (\<exists>d md x. m = JObj d \<and> map_of d ''metadata'' = Some (JObj md) \<and> map_of md ''namespace'' = Some x \<and> (ns \<noteq> JNull \<longrightarrow> x = ns))"

definition has_label :: "string \<Rightarrow> json \<Rightarrow> bool" where
  "has_label i m = (\<exists>d md labels. m = JObj d \<and> map_of d ''metadata'' = Some (JObj md) \<and> map_of md ''labels'' = Some (JObj labels) \<and>
     map_of labels instance_label = Some (JStr i))"

lemma kind_in_same: "map_of d ''kind'' = map_of d' ''kind'' \<Longrightarrow> kind_in ks (JObj d) = kind_in ks (JObj d')"
  by (simp add: kind_in_def)

lemma set_namespace_keeps:
  assumes "set_namespace ns m = Inr m'"
  shows "in_namespace ns m' \<and> kind_in ks m' = kind_in ks m"
proof -
  obtain d d' md where *: "m = JObj d" "m' = JObj d'" "map_of d' = (map_of d)(''metadata'' \<mapsto> JObj md)"
    "map_of md ''namespace'' \<noteq> None" "ns \<noteq> JNull \<longrightarrow> map_of md ''namespace'' = Some ns"
    using set_namespace_lookup [OF assms] by blast
  then show ?thesis by (auto simp: in_namespace_def intro: kind_in_same)
qed

lemma set_label_keeps:
  assumes "set_label i m = Inr m'"
  shows "has_label i m' \<and> kind_in ks m' = kind_in ks m \<and> (in_namespace ns m \<longrightarrow> in_namespace ns m')"
proof -
  obtain d d' md md' labels where *: "m = JObj d" "m' = JObj d'" "map_of d' = (map_of d)(''metadata'' \<mapsto> JObj md')"
    "(case map_of d ''metadata'' of None \<Rightarrow> JObj [] | Some x \<Rightarrow> x) = JObj md"
    "map_of md' = (map_of md)(''labels'' \<mapsto> JObj labels)" "map_of labels instance_label = Some (JStr i)"
    using set_label_lookup [OF assms] by blast
  have "has_label i m'" using * by (simp add: has_label_def)
  moreover have "kind_in ks m' = kind_in ks m" using * by (auto intro: kind_in_same)
  moreover have "in_namespace ns m \<longrightarrow> in_namespace ns m'" using * by (auto simp: in_namespace_def)
  ultimately show ?thesis by blast
qed

lemma prepared:
  assumes "prepare_manifest ns i m = Inr m'"
  shows "(kind_in supported_namespace_kind m' = Inr True \<longrightarrow> in_namespace ns m') \<and>
    (kind_in unlabeled_kind m' = Inr False \<longrightarrow> has_label i m')"
proof -
  obtain b m1 c where b: "kind_in supported_namespace_kind m = Inr b"
    and m1: "(if b then set_namespace ns m else Inr m) = Inr m1"
    and c: "kind_in unlabeled_kind m1 = Inr c" and m': "(if c then Inr m1 else set_label i m1) = Inr m'"
    using assms by (auto simp: prepare_manifest_def bindE_eq_Inr split: if_splits)
  have kinds: "kind_in supported_namespace_kind m1 = Inr b"
    using m1 b set_namespace_keeps [of ns m m1] by (cases b) auto
  have ns: "b \<longrightarrow> in_namespace ns m1" using m1 set_namespace_keeps [of ns m m1] by auto
  show ?thesis
  proof (cases c)
    case True
    with m' kinds ns c show ?thesis by auto
  next
    case False
    with m' have "set_label i m1 = Inr m'" by simp
    from set_label_keeps [OF this, of supported_namespace_kind ns] kinds ns show ?thesis by auto
  qed
qed

lemma make_reses_from:
  "make_reses ms = Inr rs \<Longrightarrow> r \<in> set rs \<Longrightarrow> \<exists>m \<in> set ms. new_kres m = Inr r"
proof (induction ms arbitrary: rs)
  case Nil
  then show ?case by simp
next
  case (Cons m ms)
  show ?case
  proof (cases "new_kres m")
    case (Inr q)
    with Cons show ?thesis by (auto simp: bindE_eq_Inr)
  next
    case (Inl e)
    with Cons.prems have "make_reses ms = Inr rs" by (auto split: exn.splits py_class.splits)
    with Cons.IH Cons.prems(2) show ?thesis by auto
  qed
qed

lemma new_kres_kind:
  assumes "new_kres m = Inr r"
  shows "kind_in ks m = Inr (kr_kind r \<in> set ks)"
  using assms by (auto simp: new_kres_def kind_of_def kind_in_def hashed_def bindE_eq_Inr split: json.splits if_splits)

lemma new_kres_namespace:
  assumes "new_kres m = Inr r" "m = JObj d" "map_of d ''metadata'' = Some (JObj md)"
  shows "kr_namespace r = or_null (map_of md ''namespace'')"
  using assms by (auto simp: new_kres_def bindE_eq_Inr or_null_def split: if_splits option.splits)

lemma new_kres_label:
  assumes "new_kres m = Inr r" "has_label i m"
  shows "kr_inst_id r = JStr i"
  using assms by (auto simp: new_kres_def has_label_def bindE_eq_Inr split: if_splits)

lemma filterE_set:
  "filterE f xs = Inr ys \<Longrightarrow> x \<in> set xs \<Longrightarrow> f x = Inr True \<Longrightarrow> x \<in> set ys"
  by (induction xs arbitrary: ys) (auto simp: bindE_eq_Inr)

lemma mapE_set:
  "mapE f xs = Inr ys \<Longrightarrow> x \<in> set xs \<Longrightarrow> \<exists>y \<in> set ys. f x = Inr y"
  by (induction xs arbitrary: ys) (auto simp: bindE_eq_Inr)

lemma mapE_from:
  "mapE f xs = Inr ys \<Longrightarrow> y \<in> set ys \<Longrightarrow> \<exists>x \<in> set xs. f x = Inr y"
  by (induction xs arbitrary: ys) (auto simp: bindE_eq_Inr)

lemma common_namespace_of:
  assumes "common_namespace ns ms = Inr ns'" and "m \<in> set ms" "kind_in supported_namespace_kind m = Inr True"
    and "in_namespace ns m" and "m = JObj d" "map_of d ''metadata'' = Some (JObj md)"
  shows "map_of md ''namespace'' = Some ns'"
proof (cases "ns = JNull")
  case False
  with assms show ?thesis by (auto simp: common_namespace_def in_namespace_def)
next
  case True
  with assms(1) obtain xs nss where xs: "filterE (kind_in supported_namespace_kind) ms = Inr xs" "mapE manifest_namespace xs = Inr nss"
    and nss: "(case remdups nss of [] \<Rightarrow> Inr (JStr ''default'') | [ns] \<Rightarrow> Inr ns | _ \<Rightarrow> Inl (Sol NamespaceNotUniform)) = Inr ns'"
    by (auto simp: common_namespace_def bindE_eq_Inr)
  from filterE_set [OF xs(1) assms(2,3)] mapE_set [OF xs(2)] obtain y where y: "y \<in> set nss" "manifest_namespace m = Inr y" by blast
  have "set (remdups nss) = {ns'}" using nss y(1)
    by (cases "remdups nss") (auto split: list.splits)
  with y(1) have "y = ns'" by auto
  moreover have "map_of md ''namespace'' = Some y"
    using y(2) assms(5,6) by (auto simp: manifest_namespace_def bindE_eq_Inr hashed_def split: option.splits json.splits)
  ultimately show ?thesis by simp
qed



subsection \<open>Names of Pods\<close>

lemma drop_name_exact: "CHR ''.'' \<notin> set p \<Longrightarrow> drop_name p t = Some r \<longleftrightarrow> t = p @ r"
proof (induction p arbitrary: t)
  case Nil
  then show ?case by auto
next
  case (Cons c p)
  then show ?case by (cases t) auto
qed

lemma alnum_no_dash: "list_all lower_alnum s \<Longrightarrow> CHR ''-'' \<notin> set s"
  by (auto simp: list_all_iff lower_alnum_def digit_def)

lemma digits_no_dash: "list_all digit s \<Longrightarrow> CHR ''-'' \<notin> set s"
  by (auto simp: list_all_iff digit_def)

lemma hash_parts:
  assumes "hash_and_fives s"
  shows "\<exists>h f. s = h @ CHR ''-'' # f \<and> CHR ''-'' \<notin> set h \<and> CHR ''-'' \<notin> set f"
proof -
  let ?h = "takeWhile (\<lambda>c. c \<noteq> CHR ''-'') s"
  have "?h \<noteq> s" and f: "fives (drop (Suc (length ?h)) s)" using assms by (simp_all add: hash_and_fives_def Let_def)
  then have d: "dropWhile (\<lambda>c. c \<noteq> CHR ''-'') s \<noteq> []" by (auto simp: takeWhile_eq_all_conv dropWhile_eq_Nil_conv)
  then obtain x f' where x: "dropWhile (\<lambda>c. c \<noteq> CHR ''-'') s = x # f'" by (cases "dropWhile (\<lambda>c. c \<noteq> CHR ''-'') s") auto
  then have "x = CHR ''-''" using hd_dropWhile [OF d] by simp
  with x have s: "s = ?h @ CHR ''-'' # f'" using takeWhile_dropWhile_id [of "\<lambda>c. c \<noteq> CHR ''-''" s] by simp
  have "drop (length ?h) s = x # f'" using x by (simp add: dropWhile_eq_drop)
  then have "tl (drop (length ?h) s) = f'" by simp
  then have "drop (Suc (length ?h)) s = f'" by (simp only: tl_drop drop_Suc)
  with f have "CHR ''-'' \<notin> set f'" by (auto simp: fives_def dest: alnum_no_dash)
  moreover have "CHR ''-'' \<notin> set ?h" by (auto dest: set_takeWhileD)
  ultimately show ?thesis using s by blast
qed

lemma last_part_dropped:
  assumes "CHR ''-'' \<notin> set f"
  shows "join_with CHR ''-'' (butlast (split_char CHR ''-'' (n @ CHR ''-'' # f))) = n"
  by (simp add: split_char_append split_char_single assms join_split)

lemma two_parts_dropped:
  assumes "CHR ''-'' \<notin> set h" "CHR ''-'' \<notin> set f"
  shows "join_with CHR ''-'' (let ws = split_char CHR ''-'' (n @ CHR ''-'' # h @ CHR ''-'' # f) in take (length ws - 2) ws) = n"
  by (simp add: split_char_append split_char_single assms join_split Let_def)

text \<open>
  The name of a Pod that fits the rule of a resource gives back the name of the resource, for every kind whose Pods are
  VNFCs. (A dot in the name of a resource stands for any character in the rule, so such names are left out.)
\<close>

lemma pod_name_gives_resource_name:
  assumes "is_match_pod_naming kind (JStr name) pod = Inr True" and "CHR ''.'' \<notin> set name"
  shows "kind \<in> set target_kind \<and> get_resource_name pod kind = name"
proof -
  have dot: "CHR ''.'' \<notin> set (name @ ''-'')" using assms(2) by simp
  have rest: "\<exists>r. P r \<and> pod = name @ CHR ''-'' # r" if "rest_matches P name pod" for P
    using that drop_name_exact [OF dot] by (auto simp: rest_matches_def split: option.splits)
  consider "kind = ''Pod''" | "kind = ''Deployment''" | "kind \<in> {''ReplicaSet'', ''DaemonSet''}" | "kind = ''StatefulSet''"
    using assms(1) by (auto simp: is_match_pod_naming_def split: if_splits)
  then show ?thesis
  proof cases
    case 1
    with assms(1) show ?thesis by (simp add: is_match_pod_naming_def get_resource_name_def target_kind_def)
  next
    case 2
    with assms(1) have "rest_matches hash_and_fives name pod" by (simp add: is_match_pod_naming_def)
    with rest obtain r where r: "hash_and_fives r" "pod = name @ CHR ''-'' # r" by blast
    with hash_parts obtain h f where "r = h @ CHR ''-'' # f" "CHR ''-'' \<notin> set h" "CHR ''-'' \<notin> set f" by blast
    with r 2 two_parts_dropped [of h f name] show ?thesis by (simp add: get_resource_name_def target_kind_def Let_def)
  next
    case 3
    with assms(1) have "rest_matches fives name pod" by (auto simp: is_match_pod_naming_def)
    with rest obtain r where r: "fives r" "pod = name @ CHR ''-'' # r" by blast
    then have "CHR ''-'' \<notin> set r" by (auto simp: fives_def dest: alnum_no_dash)
    with r 3 last_part_dropped [of r name] show ?thesis by (auto simp: get_resource_name_def target_kind_def Let_def)
  next
    case 4
    with assms(1) have "rest_matches digits name pod" by (simp add: is_match_pod_naming_def)
    with rest obtain r where r: "digits r" "pod = name @ CHR ''-'' # r" by blast
    then have "CHR ''-'' \<notin> set r" by (auto simp: digits_def dest: digits_no_dash)
    with r 4 last_part_dropped [of r name] show ?thesis by (simp add: get_resource_name_def target_kind_def Let_def)
  qed
qed

subsection \<open>What is recorded\<close>

lemma clusterS_inst: "clusterS m s = (r, t) \<Longrightarrow> ks_inst t = ks_inst s"
  by (auto simp: clusterS_def split: prod.splits)

lemma clusterS_run: "clusterS m s = (r, t) \<Longrightarrow> m (ks_cluster s) = (r, ks_cluster t) \<and> ks_inst t = ks_inst s"
  by (auto simp: clusterS_def split: prod.splits)

lemma instS_run: "instS f s = (r, t) \<Longrightarrow> r = f (ks_inst s) \<and> t = s"
  by (auto simp: instS_def)

lemma set_instS_run: "set_instS f s = (r, t) \<Longrightarrow> t = s\<lparr>ks_inst := f (ks_inst s)\<rparr>"
  by (simp add: set_instS_def)

lemma concatE_set:
  "concatE f xs = Inr zs \<Longrightarrow> z \<in> set zs \<longleftrightarrow> (\<exists>x \<in> set xs. \<exists>ys. f x = Inr ys \<and> z \<in> set ys)"
proof (induction xs arbitrary: zs)
  case Nil
  then show ?case by simp
next
  case (Cons x xs)
  then show ?case by (auto simp: bindE_eq_Inr)
qed

text \<open>The Pod and the VDU belong together.\<close>

definition pod_fits :: "naming_rule \<Rightarrow> string \<times> json \<Rightarrow> string \<Rightarrow> bool" where
  "pod_fits rule = (\<lambda>(vdu, res) name. bindE (jitem res ''kind'') (\<lambda>kind.
     bindE (bindE (jitem res ''metadata'') (\<lambda>md. jitem md ''name'')) (\<lambda>n. rule (kind_text kind) n name)) = Inr True)"

lemma vnfcs_of_pod_ids:
  assumes "vnfcs_of_pod rule reses pod = Inr vs"
  shows "\<exists>name. pod_name pod = Inr name \<and> (\<lambda>v. (vr_id v, vr_vduId v)) ` set vs = {(name, vdu) | vdu res. (vdu, res) \<in> set reses \<and> pod_fits rule (vdu, res) name}"
proof -
  obtain name where name: "pod_name pod = Inr name" using assms by (auto simp: vnfcs_of_pod_def bindE_eq_Inr)
  define f where "f = (\<lambda>(vdu, res). bindE (jitem res ''kind'') (\<lambda>kind. bindE (bindE (jitem res ''metadata'') (\<lambda>md. jitem md ''name'')) (\<lambda>res_name.
     bindE (rule (kind_text kind) res_name name) (\<lambda>b. Inr (if b then [pod_vnfc name vdu kind] else [])))))"
  have all: "concatE f reses = Inr vs" using assms name by (simp add: vnfcs_of_pod_def f_def)
  have one: "(\<exists>ys. f (vdu, res) = Inr ys \<and> v \<in> set ys) \<longleftrightarrow> (pod_fits rule (vdu, res) name \<and> (\<exists>kind. jitem res ''kind'' = Inr kind \<and> v = pod_vnfc name vdu kind))"
    for vdu res v
  proof
    assume "\<exists>ys. f (vdu, res) = Inr ys \<and> v \<in> set ys"
    then show "pod_fits rule (vdu, res) name \<and> (\<exists>kind. jitem res ''kind'' = Inr kind \<and> v = pod_vnfc name vdu kind)"
      by (auto simp: f_def pod_fits_def bindE_eq_Inr split: if_splits)
  next
    assume "pod_fits rule (vdu, res) name \<and> (\<exists>kind. jitem res ''kind'' = Inr kind \<and> v = pod_vnfc name vdu kind)"
    then have "f (vdu, res) = Inr [v]" by (auto simp: f_def pod_fits_def bindE_eq_Inr)
    then show "\<exists>ys. f (vdu, res) = Inr ys \<and> v \<in> set ys" by simp
  qed
  have mem: "v \<in> set vs \<longleftrightarrow> (\<exists>vdu res kind. (vdu, res) \<in> set reses \<and> pod_fits rule (vdu, res) name \<and> jitem res ''kind'' = Inr kind \<and> v = pod_vnfc name vdu kind)" for v
    unfolding concatE_set [OF all] by (simp add: Bex_def one split_paired_Ex)
  have kinds: "pod_fits rule (vdu, res) name \<Longrightarrow> \<exists>kind. jitem res ''kind'' = Inr kind" for vdu res
    by (auto simp: pod_fits_def bindE_eq_Inr)
  have "(\<lambda>v. (vr_id v, vr_vduId v)) ` set vs = {(name, vdu) | vdu res. (vdu, res) \<in> set reses \<and> pod_fits rule (vdu, res) name}"
    (is "?A = ?B")
  proof
    show "?A \<subseteq> ?B"
    proof
      fix p assume "p \<in> ?A"
      then obtain v where v: "v \<in> set vs" "p = (vr_id v, vr_vduId v)" by blast
      then obtain vdu res kind where "(vdu, res) \<in> set reses" "pod_fits rule (vdu, res) name" "v = pod_vnfc name vdu kind"
        unfolding mem by blast
      moreover from this v have "p = (name, vdu)" by (simp add: pod_vnfc_def)
      ultimately show "p \<in> ?B" by blast
    qed
    show "?B \<subseteq> ?A"
    proof
      fix p assume "p \<in> ?B"
      then obtain vdu res where p: "p = (name, vdu)" "(vdu, res) \<in> set reses" "pod_fits rule (vdu, res) name" by blast
      with kinds obtain kind where "jitem res ''kind'' = Inr kind" by blast
      with p have "pod_vnfc name vdu kind \<in> set vs" by (auto simp: mem)
      then show "p \<in> ?A" using p(1) by (force simp: pod_vnfc_def)
    qed
  qed
  with name show ?thesis by blast
qed

lemma vnfcs_of_pods_ids:
  assumes "vnfcs_of_pods rule (JObj reses) pods = Inr vs"
  shows "(\<lambda>v. (vr_id v, vr_vduId v)) ` set vs = {(name, vdu) | name vdu. \<exists>pod \<in> set pods. \<exists>res. pod_name pod = Inr name \<and> (vdu, res) \<in> set reses \<and> pod_fits rule (vdu, res) name}"
proof -
  have all: "concatE (vnfcs_of_pod rule reses) pods = Inr vs"
    using assms by (auto simp: vnfcs_of_pods_def split: if_splits)
  have sub: "\<exists>ys. vnfcs_of_pod rule reses pod = Inr ys" if p: "pod \<in> set pods" for pod
    using all p by (induction pods arbitrary: vs) (auto simp: bindE_eq_Inr)
  have "(name, vdu) \<in> (\<lambda>v. (vr_id v, vr_vduId v)) ` set vs \<longleftrightarrow>
      (\<exists>pod \<in> set pods. \<exists>ys. vnfcs_of_pod rule reses pod = Inr ys \<and> (name, vdu) \<in> (\<lambda>v. (vr_id v, vr_vduId v)) ` set ys)" for name vdu
    unfolding image_iff concatE_set [OF all] Bex_def by blast
  also have "\<dots> name vdu \<longleftrightarrow> (\<exists>pod \<in> set pods. \<exists>res. pod_name pod = Inr name \<and> (vdu, res) \<in> set reses \<and> pod_fits rule (vdu, res) name)" for name vdu
  proof -
    have "(\<exists>ys. vnfcs_of_pod rule reses pod = Inr ys \<and> (name, vdu) \<in> (\<lambda>v. (vr_id v, vr_vduId v)) ` set ys) \<longleftrightarrow>
        (\<exists>res. pod_name pod = Inr name \<and> (vdu, res) \<in> set reses \<and> pod_fits rule (vdu, res) name)" if p: "pod \<in> set pods" for pod
    proof -
      obtain ys where ys: "vnfcs_of_pod rule reses pod = Inr ys" using sub [OF p] by blast
      obtain nm where nm: "pod_name pod = Inr nm"
        "(\<lambda>v. (vr_id v, vr_vduId v)) ` set ys = {(nm, vdu) | vdu res. (vdu, res) \<in> set reses \<and> pod_fits rule (vdu, res) nm}"
        using vnfcs_of_pod_ids [OF ys] by blast
      show ?thesis using ys by (simp add: nm) blast
    qed
    then show ?thesis by blast
  qed
  finally have iff: "(name, vdu) \<in> (\<lambda>v. (vr_id v, vr_vduId v)) ` set vs \<longleftrightarrow>
      (\<exists>pod \<in> set pods. \<exists>res. pod_name pod = Inr name \<and> (vdu, res) \<in> set reses \<and> pod_fits rule (vdu, res) name)" for name vdu .
  show ?thesis
  proof (rule set_eqI)
    fix p :: "string \<times> string"
    obtain name vdu where p: "p = (name, vdu)" by (cases p)
    show "p \<in> (\<lambda>v. (vr_id v, vr_vduId v)) ` set vs \<longleftrightarrow> p \<in> {(name, vdu) | name vdu. \<exists>pod \<in> set pods. \<exists>res. pod_name pod = Inr name \<and> (vdu, res) \<in> set reses \<and> pod_fits rule (vdu, res) name}"
      unfolding p iff by blast
  qed
qed

lemma metadata_item_Inr:
  "metadata_item k inst = Inr v \<longleftrightarrow> (\<exists>info md. in_instantiatedVnfInfo inst = Some info \<and> iv_metadata info = Some md \<and> map_of md k = Some v)"
  by (auto simp: metadata_item_def inst_metadata_def old_info_of_def dict_item_def attr_eq_Inr bindE_eq_Inr split: option.splits)



subsection \<open>Scaling\<close>

definition vdu_entry :: "string \<Rightarrow> vnf_instance \<Rightarrow> json pyres" where
  "vdu_entry vdu inst = bindE (metadata_item ''vdu_reses'' inst) (\<lambda>reses. jitem reses vdu)"

text \<open>The number of replicas in the manifest of a VDU.\<close>

definition wanted_replicas :: "string \<Rightarrow> vnf_instance \<Rightarrow> json pyres" where
  "wanted_replicas vdu inst = bindE (vdu_entry vdu inst) (\<lambda>res. bindE (jitem res ''spec'') (\<lambda>spec. jitem spec ''replicas''))"

lemma get_vdu_res_entry: "get_vdu_res vdu inst = bindE (vdu_entry vdu inst) new_kres"
  by (simp add: get_vdu_res_def vdu_entry_def bindE_assoc)

lemma set_replicas_wanted:
  assumes "set_replicas n body = Inr b"
  shows "bindE (jitem (JObj b) ''spec'') (\<lambda>spec. jitem spec ''replicas'') = Inr (JNum n)"
proof -
  obtain spec where spec: "(case spec of JObj d \<Rightarrow> Inr (dict_set ''spec'' (JObj (dict_set ''replicas'' (JNum n) d)) body) | j \<Rightarrow> Inl (type_error j)) = Inr b"
    using assms by (auto simp: set_replicas_def bindE_eq_Inr)
  then obtain d where "b = dict_set ''spec'' (JObj (dict_set ''replicas'' (JNum n) d)) body"
    by (cases spec) auto
  then show ?thesis by simp
qed

lemma vdu_entry_stored:
  assumes "vdu_entry vdu inst = Inr res"
  shows "vdu_entry v (store_body vdu body inst) = (if v = vdu then Inr (JObj body) else vdu_entry v inst)"
proof -
  obtain reses where r: "metadata_item ''vdu_reses'' inst = Inr reses" "jitem reses vdu = Inr res"
    using assms by (auto simp: vdu_entry_def bindE_eq_Inr)
  then obtain d where d: "reses = JObj d" by (cases reses) auto
  have rec: "recorded_vdus inst = d" using r d by (simp add: recorded_vdus_def)
  obtain info md where "in_instantiatedVnfInfo inst = Some info" "iv_metadata info = Some md" "map_of md ''vdu_reses'' = Some (JObj d)"
    using r(1) d by (auto simp: metadata_item_Inr)
  then have "metadata_item ''vdu_reses'' (store_body vdu body inst) = Inr (JObj (dict_set vdu (JObj body) d))"
    by (simp add: metadata_item_Inr store_body_def rec set_metadata_def set_info_def)
  then show ?thesis using r d by (simp add: vdu_entry_def)
qed

lemma kres_scale_body: "kres_scale ka r n s = (Inr b, t) \<Longrightarrow> set_replicas n (kr_body r) = Inr b"
  by (auto simp: kres_scale_def bindS_eq_Inr split: sum.splits)

lemma scale_vdu_step:
  assumes "scale_vdu ka (vdu, n) s = (Inr rs, t)"
  shows "(\<forall>v. v \<noteq> vdu \<longrightarrow> vdu_entry v (ks_inst t) = vdu_entry v (ks_inst s)) \<and>
    (\<forall>r. get_vdu_res vdu (ks_inst s) = Inr r \<longrightarrow> kr_kind r \<in> set scalable_kind \<longrightarrow> wanted_replicas vdu (ks_inst t) = Inr (JNum n))"
proof -
  obtain r where r: "get_vdu_res vdu (ks_inst s) = Inr r" using assms by (auto simp: scale_vdu_def bindS_eq_Inr instS_def)
  then obtain res where res: "vdu_entry vdu (ks_inst s) = Inr res" by (auto simp: get_vdu_res_entry bindE_eq_Inr)
  show ?thesis
  proof (cases "kr_kind r \<in> set scalable_kind")
    case False
    with assms r have "t = s" by (auto simp: scale_vdu_def bindS_eq_Inr instS_def)
    with False r show ?thesis by simp
  next
    case True
    with assms r obtain s1 b where b: "clusterS (kres_scale ka r n) s = (Inr b, s1)" and t: "t = s1\<lparr>ks_inst := store_body vdu b (ks_inst s1)\<rparr>"
      by (auto simp: scale_vdu_def bindS_eq_Inr instS_def set_instS_def)
    note c = clusterS_run [OF b]
    have inst: "ks_inst t = store_body vdu b (ks_inst s)" using t c by simp
    have "set_replicas n (kr_body r) = Inr b" using kres_scale_body [OF c [THEN conjunct1]] .
    then have "wanted_replicas vdu (ks_inst t) = Inr (JNum n)"
      using vdu_entry_stored [OF res, of vdu b] set_replicas_wanted by (simp add: wanted_replicas_def inst)
    with vdu_entry_stored [OF res, of _ b] show ?thesis by (simp add: inst)
  qed
qed

lemma scale_vdus_keep:
  "mapS (scale_vdu ka) nums s = (Inr rs, t) \<Longrightarrow> vdu \<notin> fst ` set nums \<Longrightarrow> vdu_entry vdu (ks_inst t) = vdu_entry vdu (ks_inst s)"
proof (induction nums arbitrary: s rs)
  case Nil
  then show ?case by simp
next
  case (Cons p nums)
  obtain v n where p: "p = (v, n)" by (cases p)
  from Cons.prems(1) obtain ys s1 zs where 1: "scale_vdu ka (v, n) s = (Inr ys, s1)" and 2: "mapS (scale_vdu ka) nums s1 = (Inr zs, t)"
    by (auto simp: bindS_eq_Inr p)
  from Cons.IH [OF 2] Cons.prems(2) scale_vdu_step [OF 1] p show ?case by auto
qed

lemma scale_vdus_set:
  "mapS (scale_vdu ka) nums s = (Inr rs, t) \<Longrightarrow> distinct (map fst nums) \<Longrightarrow> map_of nums vdu = Some n \<Longrightarrow>
     get_vdu_res vdu (ks_inst s) = Inr r \<Longrightarrow> kr_kind r \<in> set scalable_kind \<Longrightarrow> wanted_replicas vdu (ks_inst t) = Inr (JNum n)"
proof (induction nums arbitrary: s rs)
  case Nil
  then show ?case by simp
next
  case (Cons p nums)
  obtain v m where p: "p = (v, m)" by (cases p)
  from Cons.prems(1) obtain ys s1 zs where 1: "scale_vdu ka (v, m) s = (Inr ys, s1)" and 2: "mapS (scale_vdu ka) nums s1 = (Inr zs, t)"
    by (auto simp: bindS_eq_Inr p)
  show ?case
  proof (cases "v = vdu")
    case True
    then have "m = n" using Cons.prems(3) p by simp
    with True scale_vdu_step [OF 1] Cons.prems(4,5) have "wanted_replicas vdu (ks_inst s1) = Inr (JNum n)" by blast
    moreover have "vdu_entry vdu (ks_inst t) = vdu_entry vdu (ks_inst s1)"
      using scale_vdus_keep [OF 2] Cons.prems(2) p True by auto
    ultimately show ?thesis by (simp add: wanted_replicas_def)
  next
    case False
    then have "vdu_entry vdu (ks_inst s1) = vdu_entry vdu (ks_inst s)" using scale_vdu_step [OF 1] by auto
    then have "get_vdu_res vdu (ks_inst s1) = Inr r" using Cons.prems(4) by (simp add: get_vdu_res_entry)
    with Cons.IH [OF 2] Cons.prems False p show ?thesis by simp
  qed
qed

lemma update_vnfc_info_entry:
  assumes "update_vnfc_info ka rule s = (Inr (), t)"
  shows "vdu_entry vdu (ks_inst t) = vdu_entry vdu (ks_inst s)"
proof -
  obtain ns pods s1 vs where pods: "clusterS (list_namespaced_pods ka ns False) s = (Inr pods, s1)"
    and t: "t = s1\<lparr>ks_inst := record_vnfcs vs (ks_inst s1)\<rparr>"
    using assms by (auto simp: update_vnfc_info_def bindS_eq_Inr instS_def set_instS_def split: if_splits)
  have "ks_inst t = record_vnfcs vs (ks_inst s)" using t clusterS_run [OF pods] by simp
  then show ?thesis
    by (cases "in_instantiatedVnfInfo (ks_inst s)")
       (simp_all add: vdu_entry_def metadata_item_def inst_metadata_def old_info_of_def record_vnfcs_def set_info_def attr_def)
qed

lemma scale_k8s_resource_sets:
  assumes "scale_k8s_resource ka nums s = (Inr (), t)" "distinct (map fst nums)" "map_of nums vdu = Some n"
    and "get_vdu_res vdu (ks_inst s) = Inr r" "kr_kind r \<in> set scalable_kind"
  shows "wanted_replicas vdu (ks_inst t) = Inr (JNum n)"
proof -
  obtain ns rs s1 s2 where 1: "mapS (scale_vdu ka) nums s = (Inr rs, s1)"
    and 2: "clusterS (wait_k8s_reses_updated ka k8s_rule ns [] (concat rs)) s1 = (Inr (), s2)"
    and 3: "update_vnfc_info ka k8s_rule s2 = (Inr (), t)"
    using assms(1) by (auto simp: scale_k8s_resource_def bindS_eq_Inr instS_def)
  have "wanted_replicas vdu (ks_inst s1) = Inr (JNum n)" using scale_vdus_set [OF 1 assms(2-5)] .
  then show ?thesis
    using update_vnfc_info_entry [OF 3] clusterS_inst [OF 2] by (simp add: wanted_replicas_def)
qed

text \<open>The number of Pods of a VDU that a grant request names.\<close>

definition vdu_count :: "string \<Rightarrow> res_def list \<Rightarrow> nat" where
  "vdu_count vdu defs = length (filter (\<lambda>r. rd_type r = COMPUTE \<and> rd_resourceTemplateId r = vdu) defs)"

lemma vdus_num_of_snoc: "vdus_num_of (defs @ [r]) = (let d = vdus_num_of defs in if rd_type r = COMPUTE
     then dict_set (rd_resourceTemplateId r) ((case map_of d (rd_resourceTemplateId r) of None \<Rightarrow> 0 | Some n \<Rightarrow> n) + 1) d else d)"
  by (simp add: vdus_num_of_def Let_def)

lemma vdus_num_of_distinct: "distinct (map fst (vdus_num_of defs))"
  by (induction defs rule: rev_induct) (simp_all add: vdus_num_of_snoc Let_def distinct_update, simp add: vdus_num_of_def)

lemma vdus_num_of_lookup:
  "\<forall>vdu. map_of (vdus_num_of defs) vdu = (if vdu_count vdu defs = 0 then None else Some (int (vdu_count vdu defs)))"
proof (induction defs rule: rev_induct)
  case Nil
  then show ?case by (simp add: vdus_num_of_def vdu_count_def)
next
  case (snoc r defs)
  have "map_of (vdus_num_of (defs @ [r])) vdu = (if vdu_count vdu (defs @ [r]) = 0 then None else Some (int (vdu_count vdu (defs @ [r]))))" for vdu
    using snoc.IH [rule_format, of vdu] snoc.IH [rule_format, of "rd_resourceTemplateId r"]
    by (simp add: vdus_num_of_snoc Let_def vdu_count_def)
  then show ?case by blast
qed

lemma changed_nums_lookup:
  assumes "changed_nums f nums inst = Inr nums'"
  shows "map fst nums' = map fst nums \<and>
    (map_of nums vdu = Some n \<longrightarrow> get_current_vdu_num vdu inst = Inr cur \<longrightarrow> map_of nums' vdu = Some (f cur n))"
  using assms unfolding changed_nums_def
  by (induction nums arbitrary: nums') (auto simp: bindE_eq_Inr)



text \<open>
  The rollback of a scale-out that succeeds asks the cluster for the recorded number again: the manifest of a scalable VDU
  wants as many replicas as there are recorded VNFCs of the VDU.
\<close>

lemma scale_rollback_asks_for_recorded_number:
  assumes "k8s_scale_rollback ka grant_req s = (Inr (), t)"
    and "gq_addResources grant_req = Some defs" and "0 < vdu_count vdu defs" and "get_current_vdu_num vdu (ks_inst s) = Inr cur"
    and "get_vdu_res vdu (ks_inst s) = Inr r" and "kr_kind r \<in> set scalable_kind"
  shows "wanted_replicas vdu (ks_inst t) = Inr (JNum cur)"
proof -
  obtain nums where nums: "changed_nums (\<lambda>cur n. cur) (vdus_num_of defs) (ks_inst s) = Inr nums"
    and run: "scale_k8s_resource ka nums s = (Inr (), t)"
    using assms(1,2) by (auto simp: k8s_scale_rollback_def bindS_eq_Inr instS_def attr_def)
  have d: "distinct (map fst (vdus_num_of defs))" "map_of (vdus_num_of defs) vdu = Some (int (vdu_count vdu defs))"
    using vdus_num_of_distinct vdus_num_of_lookup [of defs] assms(3) by auto
  have "distinct (map fst nums)" "map_of nums vdu = Some cur"
    using changed_nums_lookup [OF nums, of vdu] d assms(4) by auto
  with run show ?thesis using assms(5,6) by (rule scale_k8s_resource_sets)
qed

subsection \<open>Synchronisation\<close>

lemma set_scale_level_find:
  "List.find (\<lambda>x. si_aspectId x = a) (set_scale_level a level xs) = map_option (\<lambda>x. x\<lparr>si_scaleLevel := level\<rparr>) (List.find (\<lambda>x. si_aspectId x = a) xs)"
  by (induction xs) auto

lemma scale_level_of_fits:
  assumes "scale_level_of inst vnfd fl aspect vdu n = Inr level"
  shows "\<exists>deltas i initial delta. get_scale_vdu_and_num vnfd fl aspect = Inr deltas \<and> get_initial_delta vnfd fl vdu = Inr i \<and>
    as_int i = Inr initial \<and> as_int (or_null (map_of deltas vdu)) = Inr delta \<and> n = initial + level * delta"
proof -
  obtain deltas i initial delta where *: "get_scale_vdu_and_num vnfd fl aspect = Inr deltas" "get_initial_delta vnfd fl vdu = Inr i"
    "as_int i = Inr initial" "as_int (or_null (map_of deltas vdu)) = Inr delta" "(n - initial) mod delta = 0" "level = (n - initial) div delta"
    using assms by (auto simp: scale_level_of_def bindE_eq_Inr split: if_splits)
  then have "n - initial = level * delta" by (metis mod_0_imp_dvd dvd_div_mult_self)
  then have "n = initial + level * delta" by simp
  with * show ?thesis by blast
qed

lemma check_pod_range_ok:
  assumes "check_pod_range inst vnfd vdu fl n = Inr ()"
  shows "\<exists>p mn mx lo hi. vdu_profile vnfd fl vdu = Inr p \<and> jget p ''min_number_of_instances'' JNull = Inr mn \<and>
    jget p ''max_number_of_instances'' JNull = Inr mx \<and> as_int mn = Inr lo \<and> as_int mx = Inr hi \<and> lo \<le> n \<and> n \<le> hi"
  using assms by (force simp: check_pod_range_def bindE_eq_Inr split: if_splits)

text \<open>
  C20: When the synchronisation accepts the number of Pods of a VDU that belongs to a scaling aspect, the number is the initial
  number of the VDU plus the scale level it records for the aspect times the delta of the VDU, and it is within the limits of
  the VDU profile.
\<close>

theorem synced_level_fits_pods:
  assumes "calc_scale_level get_vnfd vdu n s = (Inr (), t)"
    and "get_vnfd = Inr vnfd" and "flavour_of (ks_inst s) = Inr fl"
    and "bindE (get_policy_values_by_type vnfd fl ''tosca.policies.nfv.VduScalingAspectDeltas'') (aspect_of_vdu vdu) = Inr (JStr aspect)"
    and "aspect \<noteq> []"
  shows "\<exists>level deltas i initial delta p mn mx lo hi.
    (\<forall>info st. in_instantiatedVnfInfo (ks_inst t) = Some info \<longrightarrow> iv_scaleStatus info = Some st \<longrightarrow>
      (\<forall>x. List.find (\<lambda>x. si_aspectId x = aspect) st = Some x \<longrightarrow> si_scaleLevel x = level)) \<and>
    get_scale_vdu_and_num vnfd fl aspect = Inr deltas \<and> get_initial_delta vnfd fl vdu = Inr i \<and> as_int i = Inr initial \<and>
    as_int (or_null (map_of deltas vdu)) = Inr delta \<and> n = initial + level * delta \<and>
    vdu_profile vnfd fl vdu = Inr p \<and> jget p ''min_number_of_instances'' JNull = Inr mn \<and>
    jget p ''max_number_of_instances'' JNull = Inr mx \<and> as_int mn = Inr lo \<and> as_int mx = Inr hi \<and> lo \<le> n \<and> n \<le> hi"
proof -
  obtain level st where level: "scale_level_of (ks_inst s) vnfd fl aspect vdu n = Inr level"
    and t: "t = s\<lparr>ks_inst := set_info (\<lambda>info. info\<lparr>iv_scaleStatus := Some (set_scale_level aspect level st)\<rparr>) (ks_inst s)\<rparr>"
    and range: "check_pod_range (ks_inst t) vnfd vdu fl n = Inr ()"
    using assms by (auto simp: calc_scale_level_def bindS_eq_Inr instS_def set_instS_def)
  have "\<forall>info st. in_instantiatedVnfInfo (ks_inst t) = Some info \<longrightarrow> iv_scaleStatus info = Some st \<longrightarrow>
      (\<forall>x. List.find (\<lambda>x. si_aspectId x = aspect) st = Some x \<longrightarrow> si_scaleLevel x = level)"
    unfolding t by (auto simp: set_info_def set_scale_level_find)
  with scale_level_of_fits [OF level] check_pod_range_ok [OF range] show ?thesis by blast
qed

theorem synced_level_fits_pods_witness:
  "\<exists>level deltas i initial delta. get_scale_vdu_and_num ex_k8s_vnfd (JStr ''fl'') ''asp'' = Inr deltas \<and>
    get_initial_delta ex_k8s_vnfd (JStr ''fl'') ''V'' = Inr i \<and> as_int i = Inr initial \<and>
    as_int (or_null (map_of deltas ''V'')) = Inr delta \<and> 2 = initial + level * delta"
proof -
  let ?run = "calc_scale_level (Inr ex_k8s_vnfd) ''V'' 2 (ex_k8s_state [])"
  have "fst ?run = Inr ()" by code_simp
  then have run: "?run = (Inr (), snd ?run)" by (metis prod.collapse)
  have fl: "flavour_of (ks_inst (ex_k8s_state [])) = Inr (JStr ''fl'')" by code_simp
  have asp: "bindE (get_policy_values_by_type ex_k8s_vnfd (JStr ''fl'') ''tosca.policies.nfv.VduScalingAspectDeltas'') (aspect_of_vdu ''V'') =
      Inr (JStr ''asp'')" by code_simp
  from synced_level_fits_pods [OF run refl fl asp] show ?thesis by blast
qed

subsection \<open>Helm\<close>

lemma scale_params_missing:
  "vdu \<in> fst ` set nums \<Longrightarrow> replica_param value_names vdu = Inr JNull \<Longrightarrow> \<exists>e. scale_params value_names nums ps = Inl e"
proof (induction nums arbitrary: ps)
  case Nil
  then show ?case by simp
next
  case (Cons p nums)
  obtain v n where p: "p = (v, n)" by (cases p)
  show ?case
  proof (cases "replica_param value_names v")
    case (Inl e)
    then show ?thesis by (simp add: p)
  next
    case (Inr x)
    show ?thesis
    proof (cases "py_truthy x")
      case False
      with Inr p show ?thesis by simp
    next
      case True
      then have "v \<noteq> vdu" using Inr Cons.prems(2) by auto
      then have "vdu \<in> fst ` set nums" using Cons.prems(1) p by auto
      then have IH: "\<exists>e. scale_params value_names nums qs = Inl e" for qs using Cons.IH Cons.prems(2) by blast
      show ?thesis
      proof (cases "arg_text x")
        case (Inl e)
        with Inr True p show ?thesis by simp
      next
        case (Inr k)
        with \<open>replica_param value_names v = Inr x\<close> True p IH show ?thesis by simp
      qed
    qed
  qed
qed

text \<open>
  When the values of the chart name no parameter for the replicas of one of the VDUs to scale, a scale with Helm fails before
  it runs any command: neither the instance nor the cluster has changed.
\<close>

lemma helm_scale_without_parameter_changes_nothing:
  assumes "scale_nums req grant_req (ks_inst s) = Inr nums" and "metadata_item ''helm_value_names'' (ks_inst s) = Inr value_names"
    and "vdu \<in> fst ` set nums" and "replica_param value_names vdu = Inr JNull"
  shows "\<exists>e. helm_scale he req grant_req vnfd s = (Inl e, s)"
proof -
  obtain e where "scale_params value_names nums [] = Inl e" using scale_params_missing [OF assms(3,4)] by blast
  then show ?thesis
    using assms(1,2) by (auto simp: helm_scale_def bindS_def instS_def split: sum.splits)
qed

subsection \<open>Unexpected behaviour\<close>

text \<open>A Role and a RoleBinding get no namespace, although both kinds have one: the comma between them is missing.\<close>

lemma role_gets_no_namespace:
  "\<forall>kind \<in> {''Role'', ''RoleBinding''}. map_sum id kr_namespace (bindE (prepare_manifest (JStr ''ns'') ''inst''
     (JObj [(''kind'', JStr kind), (''metadata'', JObj [(''name'', JStr ''r'')])])) new_kres) = Inr JNull"
  by code_simp

text \<open>With Helm a Pod is recorded for every VDU the name of whose resource occurs in its name.\<close>

lemma helm_pod_of_two_vdus:
  "map_sum id (map (\<lambda>v. (vr_id v, vr_vduId v))) (vnfcs_of_pods helm_rule (JObj
     [(''V1'', JObj [(''kind'', JStr ''Deployment''), (''metadata'', JObj [(''name'', JStr ''vdu1-a'')])]),
      (''V2'', JObj [(''kind'', JStr ''Deployment''), (''metadata'', JObj [(''name'', JStr ''myvdu1-a'')])])])
     [ex_pod ''myvdu1-a-1f-abcde'']) = Inr [(''myvdu1-a-1f-abcde'', ''V1''), (''myvdu1-a-1f-abcde'', ''V2'')]"
  by code_simp

text \<open>The scale level of a VDU that has no running Pod is not synchronised, and the lower limit of its Pods is not checked.\<close>

lemma sync_ignores_vdu_without_pods:
  "(let r = k8s_sync_db ex_api k8s_rule (Inr ex_k8s_vnfd) (ex_k8s_state []) in
     (fst r, map_option (\<lambda>info. (iv_vnfcResourceInfo info, iv_scaleStatus info)) (in_instantiatedVnfInfo (ks_inst (snd r))))) =
   (Inr (), Some (Some [], Some [\<lparr>si_aspectId = ''asp'', si_scaleLevel = 1\<rparr>]))"
  by code_simp

end
