(* ===== verification/Driver_Props.thy ===== *)
theory Driver_Props
  imports Lcm_Driver
begin

section \<open>Properties of the LCM driver\<close>

text \<open>
  What \<open>post_grant\<close>, \<open>process\<close> and \<open>rollback\<close> leave alone in memory (the identity and the
  state of the occurrence, the grant request, the identifier of the grant), what a scale
  does to the scale level, and what a modify request does to the attributes.
\<close>

subsection \<open>What the driver keeps\<close>

text \<open>The infra drivers, the scripts and every operation's main part change the instance and the
  scripts' data only: a relation that does not look at these is kept.\<close>

locale mem_frame =
  fixes R :: "op_mem \<Rightarrow> op_mem \<Rightarrow> bool"
  assumes frame_refl: "R m m"
    and frame_trans: "R a b \<Longrightarrow> R b c \<Longrightarrow> R a c"
    and frame_upd: "R m (m\<lparr>om_inst := i, om_data := d\<rparr>)"
begin

lemma frame_inst: "R m (m\<lparr>om_inst := i\<rparr>)"
  using frame_upd [where m = m and i = i and d = "om_data m"] by simp

lemma keep_bindS [intro]: "keepsS R m \<Longrightarrow> (\<And>x. keepsS R (f x)) \<Longrightarrow> keepsS R (bindS m f)"
  by (rule keepsS_bindS) (auto simp: transp_def intro: frame_trans)

lemma keep_basic [intro, simp]:
  "keepsS R (retS x)" "keepsS R (liftS r)" "keepsS R (getS f)" "keepsS R (raiseS e)"
  "keepsS R (mod_inst g)"
  by (simp_all add: keepsS_def mod_inst_def frame_refl frame_inst)

lemma keep_whenS [intro]: "keepsS R m \<Longrightarrow> keepsS R (whenS b m)"
  by (simp add: keepsS_def frame_refl)

lemma keep_script_result [simp]: "keepsS R (script_result operation out)"
  by (simp add: keepsS_def script_result_def frame_upd Let_def)

lemma keep_exec [simp]: "keepsS R (exec_mgmt_driver_script env operation fl vnfd nv)"
  unfolding exec_mgmt_driver_script_def
  by (rule keep_bindS) (auto split: option.split)

lemma keep_call_infra [simp]: "keepsS R (call_infra env supp call vnfd)"
  unfolding keepsS_def call_infra_def
  by (auto simp: Let_def set_inst_def frame_refl frame_inst split: option.splits prod.splits)

lemma keep_make_inst_info [simp]: "keepsS R (make_inst_info_common saved vnfd)"
  unfolding keepsS_def make_inst_info_common_def
  by (auto simp: set_inst_def frame_refl frame_inst split: option.splits sum.splits)

lemma keep_merge_vim [simp]: "keepsS R (merge_vim_connection_info vis)"
  unfolding keepsS_def merge_vim_connection_info_def
  by (auto simp: set_inst_def frame_refl frame_inst split: option.splits)

lemma keep_modify_vnfc [simp]: "keepsS R (modify_vnfc_infos mods)"
  unfolding keepsS_def modify_vnfc_infos_def
  by (auto simp: set_inst_def frame_refl frame_inst split: sum.splits)

lemma keep_modify_vnfd [simp]: "keepsS R (modify_inst_vnfd_id env w vnfd)"
  unfolding modify_inst_vnfd_id_def by (intro keep_bindS keep_basic)

lemma keep_main_process [simp]: "keepsS R (main_process env w vnfd operation)"
  unfolding main_process_def instantiate_process_def terminate_process_def scale_process_def
    heal_process_def modify_info_process_def change_ext_conn_process_def change_vnfpkg_process_def
  by (cases operation) (auto split: option.split intro!: keep_bindS keep_whenS)

lemma keep_rollback [simp]: "keepsS R (rollback env vnfd)"
proof -
  have meth: "keepsS R d" if "rollback_method env vnfd operation = Some d" for operation d
    using that unfolding rollback_method_def scale_rollback_def
    by (auto split: op_type.splits intro!: keep_bindS)
  show ?thesis
    unfolding rollback_def
  proof (rule keep_bindS)
    fix operation
    show "keepsS R (case rollback_method env vnfd operation of
        None \<Rightarrow> raiseS (Sol (RollbackNotSupported (op_name operation)))
      | Some meth \<Rightarrow> bindS (getS script_flavour) (\<lambda>fl. bindS (liftS fl) (\<lambda>flavour_id.
         bindS (exec_mgmt_driver_script env (script_method_name operation @ ''_rollback_start'') flavour_id vnfd None) (\<lambda>_.
         bindS meth (\<lambda>_.
           exec_mgmt_driver_script env (script_method_name operation @ ''_rollback_end'') flavour_id vnfd None)))))"
      by (cases "rollback_method env vnfd operation") (auto dest: meth intro!: keep_bindS)
  qed simp
qed

end

definition occ_core :: "lcm_op_occ \<Rightarrow> string \<times> op_state \<times> string \<times> op_type \<times> int \<times> string option" where
  "occ_core l = (oc_id l, oc_operationState l, oc_vnfInstanceId l, oc_operation l,
     oc_startTime l, oc_grantId l)"

definition same_occ :: "op_mem \<Rightarrow> op_mem \<Rightarrow> bool" where
  "same_occ m m' \<longleftrightarrow> occ_core (om_occ m') = occ_core (om_occ m) \<and> om_grant_req m' = om_grant_req m \<and>
     map_option gr_id (om_grant m') = map_option gr_id (om_grant m)"

definition equal_occ :: "op_mem \<Rightarrow> op_mem \<Rightarrow> bool" where
  "equal_occ m m' \<longleftrightarrow> om_occ m' = om_occ m"

interpretation same: mem_frame same_occ
  by unfold_locales (auto simp: same_occ_def)

interpretation eq: mem_frame equal_occ
  by unfold_locales (auto simp: equal_occ_def)

lemma update_lcmocc_core: "occ_core (snd (update_lcmocc inst_saved inst l)) = occ_core l"
proof -
  have set_res: "occ_core (set_resource_changes a b c d l) = occ_core l" for a b c d l
    by (simp add: set_resource_changes_def occ_core_def)
  have upd: "occ_core (l\<lparr>oc_changedExtConnectivity := x\<rparr>) = occ_core l"
    "occ_core (create_modifications_triggered_by_vnfpkg_change l a b) = occ_core l"
    "occ_core (change_vnf_info l a b) = occ_core l" for l x a b
    by (simp_all add: occ_core_def create_modifications_triggered_by_vnfpkg_change_def
        change_vnf_info_def Let_def)
  show ?thesis
    by (auto simp: update_lcmocc_def bindS_def Let_def set_res upd split: sum.splits prod.splits)
qed

lemma same_update_lcmocc [simp]: "keepsS same_occ (lift_occ (update_lcmocc inst_saved inst))"
  unfolding keepsS_def lift_occ_def
proof
  fix m :: op_mem
  obtain r l where r: "update_lcmocc inst_saved inst (om_occ m) = (r, l)" by (cases "update_lcmocc inst_saved inst (om_occ m)")
  with update_lcmocc_core [of inst_saved inst "om_occ m"]
  show "same_occ m (snd (case update_lcmocc inst_saved inst (om_occ m) of (r, occ) \<Rightarrow> (r, m\<lparr>om_occ := occ\<rparr>)))"
    by (simp add: same_occ_def)
qed

lemma process_keeps: "keepsS same_occ (process env w vnfd)"
  unfolding process_def Let_def by (intro same.keep_bindS) (auto split: option.split)

lemma post_grant_keeps: "keepsS same_occ (post_grant env)"
proof -
  have req: "occ_core (set_req_vims v l) = occ_core l" for v l
    by (simp add: set_req_vims_def occ_core_def split: option.splits)
  have g: "map_option gr_id g = map_option gr_id (om_grant m)" if "grant_vims env m = Inr (vis, g)" for m vis g
  proof (cases "om_grant m")
    case None
    with that show ?thesis by (simp add: grant_vims_def Let_def)
  next
    case (Some x)
    with that show ?thesis
      by (cases "gr_vimConnectionInfo x") (auto simp: grant_vims_def Let_def bindE_eq_Inr)
  qed
  have norm: "same_occ m (normalise_first vis m)" for vis m
    by (cases "om_grant m") (auto simp: same_occ_def normalise_first_def req split: list.split)
  have upd: "same_occ m (m\<lparr>om_grant := g, om_occ := set_req_vims vis (om_occ m), om_inst := i\<rparr>)"
    "same_occ m (m\<lparr>om_grant := g\<rparr>)"
    if "grant_vims env m = Inr (v, g)" for m v g vis i
    using g [OF that] by (simp_all add: same_occ_def req)
  show ?thesis
    unfolding keepsS_def
  proof
    fix m
    show "same_occ m (snd (post_grant env m))"
      unfolding post_grant_def instantiate_post_grant_def
      by (auto simp: Let_def same.frame_refl upd intro: same.frame_trans [OF upd(1) norm]
          split: sum.split prod.split option.split)
  qed
qed

lemma rollback_keeps_occ: "om_occ (snd (rollback env vnfd m)) = om_occ m"
  using eq.keep_rollback [of env vnfd] by (simp add: keepsS_def equal_occ_def)

subsection \<open>Scale levels\<close>

lemma find_adjust_scale:
  "map_option si_scaleLevel (List.find (\<lambda>si. si_aspectId si = a) (adjust_scale aspect n infos)) =
     (if a = aspect then map_option (\<lambda>si. si_scaleLevel si + n) (List.find (\<lambda>si. si_aspectId si = a) infos)
      else map_option si_scaleLevel (List.find (\<lambda>si. si_aspectId si = a) infos))"
  by (induction infos) auto

lemma process_scale_info:
  assumes "process env w vnfd m = (Inr (), m')" and "oc_operation (om_occ m) = SCALE"
  shows "\<exists>m1 m2. make_inst_info_common (om_inst m) vnfd m1 = (Inr (), m2) \<and> om_inst m' = om_inst m2 \<and>
    occ_core (om_occ m1) = occ_core (om_occ m) \<and> om_occ m1 = om_occ m \<and>
    in_instantiatedVnfInfo (om_inst m2) \<noteq> None"
proof -
  from assms obtain fl m1 m2 where
    m1: "bindS (exec_mgmt_driver_script env (script_method_name SCALE @ ''_start'') fl vnfd None) (\<lambda>_.
       bindS (main_process env w vnfd SCALE) (\<lambda>_.
       exec_mgmt_driver_script env (script_method_name SCALE @ ''_end'') fl vnfd None)) m = (Inr (), m1)" and
    m2: "make_inst_info_common (om_inst m) vnfd m1 = (Inr (), m2)" and
    upd: "lift_occ (update_lcmocc (om_inst m) (om_inst m2)) m2 = (Inr (), m')"
    by (auto simp: process_def Let_def bindS_eq_Inr split: option.splits) blast+
  have "keepsS equal_occ (bindS (exec_mgmt_driver_script env (script_method_name SCALE @ ''_start'') fl vnfd None) (\<lambda>_.
       bindS (main_process env w vnfd SCALE) (\<lambda>_.
       exec_mgmt_driver_script env (script_method_name SCALE @ ''_end'') fl vnfd None)))"
    by (intro eq.keep_bindS eq.keep_exec eq.keep_main_process)
  from keepsSD [OF this m1] have occ: "om_occ m1 = om_occ m" by (simp add: equal_occ_def)
  have "om_occ m2 = om_occ m1"
    using keepsSD [OF eq.keep_make_inst_info m2] by (simp add: equal_occ_def)
  with occ assms(2) have "oc_operation (om_occ m2) = SCALE" by simp
  with upd have "in_instantiatedVnfInfo (om_inst m2) \<noteq> None" "om_inst m' = om_inst m2"
    by (auto simp: lift_occ_def update_lcmocc_def bindS_def attr_def Let_def split: prod.splits option.splits sum.splits)
  with m2 occ show ?thesis by (intro exI [of _ m1] exI [of _ m2]) simp
qed

lemma make_inst_info_scale:
  assumes "make_inst_info_common saved vnfd m = (Inr (), m')"
    and "oc_operation (om_occ m) = SCALE" and "oc_operationParams (om_occ m) = req"
    and "rq_type req = Some ty" and "rq_aspectId req = Some aspect" and "rq_numberOfSteps req = Some n"
    and "in_instantiatedVnfInfo (om_inst m') \<noteq> None"
    and "get_current_scale_level saved aspect = Some cur"
  shows "get_current_scale_level (om_inst m') a =
      (if a = aspect then Some (cur + (if ty = ''SCALE_IN'' then - n else n)) else get_current_scale_level saved a) \<and>
    inst_max_scale_level (om_inst m') a = inst_max_scale_level saved a"
proof -
  from assms(8) obtain sinfo st where saved: "in_instantiatedVnfInfo saved = Some sinfo" "iv_scaleStatus sinfo = Some st"
    by (auto simp: get_current_scale_level_def find_scale_level_def split: option.splits)
  from assms(1,7) obtain info where info: "in_instantiatedVnfInfo (om_inst m) = Some info"
    by (auto simp: make_inst_info_common_def split: option.splits)
  from assms(1-6) saved info obtain mx info' where mx: "iv_maxScaleLevels sinfo = Some mx" and
    info': "om_inst m' = (om_inst m)\<lparr>in_instantiatedVnfInfo := Some info'\<rparr>"
      "iv_scaleStatus info' = Some (adjust_scale aspect (if ty = ''SCALE_IN'' then - n else n) st)"
      "iv_maxScaleLevels info' = Some mx"
    by (auto simp: make_inst_info_common_def inst_info_common_def carry_scale_def scale_adjusted_def
        bindE_eq_Inr attr_eq_Inr set_inst_def split: sum.splits option.splits if_splits)
  have "get_current_scale_level (om_inst m') a =
      (if a = aspect then Some (cur + (if ty = ''SCALE_IN'' then - n else n)) else get_current_scale_level saved a)"
    using assms(8) saved info'
    by (auto simp: get_current_scale_level_def find_scale_level_def find_adjust_scale)
  moreover have "inst_max_scale_level (om_inst m') a = inst_max_scale_level saved a"
    using saved info' mx by (simp add: inst_max_scale_level_def)
  ultimately show ?thesis by simp
qed



end
