(* ===== verification/Lcm_Spec.thy ===== *)
theory Lcm_Spec
  imports Driver_Props
begin

section \<open>The specification of an LCM operation\<close>

text \<open>
  The life of an operation occurrence as SOL003 (5.6.2.2) draws it, and what each of its
  transitions may do to the tables. \<open>lcm_step\<close> is the abstract transition of one occurrence;
  the theories Conductor\_Refine and Vnfm\_System show that the code only makes such
  transitions. Proved here for every sequence of transitions: the state follows the edges
  of the state machine and a final state is final; grants are kept exactly while they may be
  needed; the row of the instance only changes when the operation completes (or when a
  rollback that may change resources ends).
\<close>

type_synonym tabs = "vnf_instance list \<times> lcm_op_occ list \<times> grant_request list \<times> grant list"

definition tabs :: "world \<Rightarrow> tabs" where
  "tabs w = (w_insts w, w_occs w, w_grant_reqs w, w_grants w)"

definition occ_edges :: "(op_state \<times> op_state) list" where
  "occ_edges = [(STARTING, PROCESSING), (STARTING, ROLLED_BACK), (PROCESSING, COMPLETED),
     (PROCESSING, FAILED_TEMP), (FAILED_TEMP, PROCESSING), (FAILED_TEMP, ROLLING_BACK),
     (FAILED_TEMP, FAILED), (ROLLING_BACK, ROLLED_BACK), (ROLLING_BACK, FAILED_TEMP)]"

definition occ_edge :: "op_state \<Rightarrow> op_state \<Rightarrow> bool" where
  "occ_edge a b \<longleftrightarrow> (a, b) \<in> set occ_edges"

definition final_state :: "op_state \<Rightarrow> bool" where
  "final_state s \<longleftrightarrow> s = COMPLETED \<or> s = FAILED \<or> s = ROLLED_BACK"

definition moved :: "lcm_op_occ \<Rightarrow> op_state \<Rightarrow> lcm_op_occ \<Rightarrow> bool" where
  "moved l st l' \<longleftrightarrow> occ_core l' = occ_core (l\<lparr>oc_operationState := st\<rparr>)"

text \<open>The grants of an occurrence are deleted together; a modify request has none.\<close>

definition drop_grants :: "lcm_op_occ \<Rightarrow> grant_request list \<times> grant list \<Rightarrow> grant_request list \<times> grant list \<Rightarrow> bool" where
  "drop_grants l qg qg' \<longleftrightarrow>
     (if oc_operation l = MODIFY_INFO then qg' = qg
      else \<exists>gid. oc_grantId l = Some gid \<and>
        qg' = (row_del gq_vnfLcmOpOccId (oc_id l) (fst qg), row_del gr_id gid (snd qg)))"

inductive lcm_step :: "lcm_op_occ \<times> tabs \<Rightarrow> lcm_op_occ \<times> tabs \<Rightarrow> bool" where
  reject: "oc_operationState l = STARTING \<Longrightarrow> moved (l\<lparr>oc_grantId := gid\<rparr>) ROLLED_BACK l' \<Longrightarrow> oc_error l' \<noteq> None \<Longrightarrow>
     lcm_step (l, I, P, Q, G) (l', I, row_upd oc_id l' P, Q, G)"
| granted: "oc_operationState l = STARTING \<Longrightarrow> moved (l\<lparr>oc_grantId := Some (gr_id g)\<rparr>) PROCESSING l' \<Longrightarrow>
     gq_vnfLcmOpOccId q = oc_id l \<Longrightarrow> oc_operation l \<noteq> MODIFY_INFO \<Longrightarrow>
     row_find gq_vnfLcmOpOccId Q (oc_id l) = None \<Longrightarrow> row_find gr_id G (gr_id g) = None \<Longrightarrow>
     lcm_step (l, I, P, Q, G) (l', I, row_upd oc_id l' P, row_add q Q, row_add g G)"
| complete: "oc_operationState l = PROCESSING \<Longrightarrow> moved l COMPLETED l' \<Longrightarrow> drop_grants l (Q, G) (Q', G') \<Longrightarrow>
     lcm_step (l, I, P, Q, G) (l', row_upd in_id i I, row_upd oc_id l' P, Q', G')"
| fail_temp: "oc_operationState l \<in> {PROCESSING, ROLLING_BACK} \<Longrightarrow> moved l FAILED_TEMP l' \<Longrightarrow> oc_error l' \<noteq> None \<Longrightarrow>
     lcm_step (l, I, P, Q, G) (l', I, row_upd oc_id l' P, Q, G)"
| retry: "oc_operationState l = FAILED_TEMP \<Longrightarrow> moved l PROCESSING l' \<Longrightarrow>
     lcm_step (l, I, P, Q, G) (l', I, row_upd oc_id l' P, Q, G)"
| roll_back: "oc_operationState l = FAILED_TEMP \<Longrightarrow> moved l ROLLING_BACK l' \<Longrightarrow>
     lcm_step (l, I, P, Q, G) (l', I, row_upd oc_id l' P, Q, G)"
| rolled_back: "oc_operationState l = ROLLING_BACK \<Longrightarrow> moved l ROLLED_BACK l' \<Longrightarrow> drop_grants l (Q, G) (Q', G') \<Longrightarrow>
     I' = (if oc_operation l = CHANGE_EXT_CONN \<or> oc_operation l = CHANGE_VNFPKG then row_upd in_id i I else I) \<Longrightarrow>
     lcm_step (l, I, P, Q, G) (l', I', row_upd oc_id l' P, Q', G')"
| failed: "oc_operationState l = FAILED_TEMP \<Longrightarrow> moved l FAILED l' \<Longrightarrow> drop_grants l (Q, G) (Q', G') \<Longrightarrow>
     lcm_step (l, I, P, Q, G) (l', I, row_upd oc_id l' P, Q', G')"

inductive_cases lcm_stepE: "lcm_step (l, I, P, Q, G) (l', I', P', Q', G')"

abbreviation lcm_steps :: "lcm_op_occ \<times> tabs \<Rightarrow> lcm_op_occ \<times> tabs \<Rightarrow> bool" where
  "lcm_steps \<equiv> lcm_step\<^sup>*\<^sup>*"

lemma moved_simps:
  assumes "moved l st l'"
  shows "oc_operationState l' = st" "oc_id l' = oc_id l" "oc_operation l' = oc_operation l"
    "oc_vnfInstanceId l' = oc_vnfInstanceId l" "oc_startTime l' = oc_startTime l" "oc_grantId l' = oc_grantId l"
  using assms by (simp_all add: moved_def occ_core_def)

lemma lcm_step_facts:
  assumes "lcm_step (l, I, P, Q, G) (l', I', P', Q', G')"
  shows "occ_edge (oc_operationState l) (oc_operationState l')" "oc_id l' = oc_id l"
    "oc_operation l' = oc_operation l" "oc_vnfInstanceId l' = oc_vnfInstanceId l"
    "oc_startTime l' = oc_startTime l" "P' = row_upd oc_id l' P"
  using assms
  by (cases rule: lcm_stepE; simp add: moved_def occ_core_def occ_edge_def occ_edges_def; blast)+

subsection \<open>The tables under any number of operations\<close>

text \<open>A transition of a stored occurrence, a new occurrence, or a change of the instances
  by the API or the synchronisation.\<close>

inductive sys_step :: "tabs \<Rightarrow> tabs \<Rightarrow> bool" where
  sys_op: "row_find oc_id P (oc_id l) = Some l \<Longrightarrow> lcm_step (l, I, P, Q, G) (l', T') \<Longrightarrow>
     sys_step (I, P, Q, G) T'"
| sys_new_occ: "row_find oc_id P (oc_id l) = None \<Longrightarrow> oc_operationState l = (if oc_operation l = MODIFY_INFO then PROCESSING else STARTING) \<Longrightarrow>
     sys_step (I, P, Q, G) (I, row_add l P, Q, G)"
| sys_insts: "sys_step (I, P, Q, G) (I', P, Q, G)"

inductive_cases sys_stepE: "sys_step (I, P, Q, G) (I', P', Q', G')"

abbreviation sys_steps :: "tabs \<Rightarrow> tabs \<Rightarrow> bool" where
  "sys_steps \<equiv> sys_step\<^sup>*\<^sup>*"

lemma lcm_steps_sys:
  assumes "lcm_steps (l, I, P, Q, G) (l', I', P', Q', G')" and "row_find oc_id P (oc_id l) = Some l"
  shows "sys_steps (I, P, Q, G) (I', P', Q', G') \<and> row_find oc_id P' (oc_id l') = Some l' \<and>
    oc_id l' = oc_id l \<and> oc_operation l' = oc_operation l"
  using assms(1)
proof (induction "(l', I', P', Q', G')" arbitrary: l' I' P' Q' G' rule: rtranclp_induct)
  case base
  then show ?case using assms(2) by simp
next
  case (step y)
  obtain l1 I1 P1 Q1 G1 where y: "y = (l1, I1, P1, Q1, G1)" by (cases y)
  note ih = step.hyps(3) [OF y]
  note st = step.hyps(2) [unfolded y]
  have "sys_step (I1, P1, Q1, G1) (I', P', Q', G')"
    by (rule sys_op [of P1 l1]) (use ih st in auto)
  moreover have "row_find oc_id P' (oc_id l') = Some l'"
    using lcm_step_facts(6) [OF st] by (simp add: row_find_upd)
  ultimately show ?case using ih lcm_step_facts [OF st] by auto
qed

subsection \<open>The state machine\<close>

text \<open>How a stored occurrence may have evolved.\<close>

definition evolves :: "lcm_op_occ list \<Rightarrow> lcm_op_occ list \<Rightarrow> bool" where
  "evolves P P' \<longleftrightarrow> (\<forall>i l. row_find oc_id P i = Some l \<longrightarrow>
     (\<exists>l'. row_find oc_id P' i = Some l' \<and> oc_operation l' = oc_operation l \<and>
        oc_vnfInstanceId l' = oc_vnfInstanceId l \<and> oc_startTime l' = oc_startTime l \<and>
        occ_edge\<^sup>*\<^sup>* (oc_operationState l) (oc_operationState l')))"

lemma evolves_refl: "evolves P P"
  by (simp add: evolves_def)

lemma evolves_trans:
  assumes "evolves P P'" and "evolves P' P''"
  shows "evolves P P''"
  unfolding evolves_def
proof (intro allI impI)
  fix i l
  assume "row_find oc_id P i = Some l"
  with assms(1) obtain l' where l': "row_find oc_id P' i = Some l'" "oc_operation l' = oc_operation l"
    "oc_vnfInstanceId l' = oc_vnfInstanceId l" "oc_startTime l' = oc_startTime l"
    "occ_edge\<^sup>*\<^sup>* (oc_operationState l) (oc_operationState l')"
    unfolding evolves_def by blast
  with assms(2) obtain l'' where "row_find oc_id P'' i = Some l''" "oc_operation l'' = oc_operation l'"
    "oc_vnfInstanceId l'' = oc_vnfInstanceId l'" "oc_startTime l'' = oc_startTime l'"
    "occ_edge\<^sup>*\<^sup>* (oc_operationState l') (oc_operationState l'')"
    unfolding evolves_def by blast
  with l' show "\<exists>l'. row_find oc_id P'' i = Some l' \<and> oc_operation l' = oc_operation l \<and>
        oc_vnfInstanceId l' = oc_vnfInstanceId l \<and> oc_startTime l' = oc_startTime l \<and>
        occ_edge\<^sup>*\<^sup>* (oc_operationState l) (oc_operationState l')"
    by (auto intro: rtranclp_trans)
qed

lemma sys_step_evolves: "sys_step (I, P, Q, G) (I', P', Q', G') \<Longrightarrow> evolves P P'"
proof (erule sys_stepE)
  fix l l'
  assume stored: "row_find oc_id P (oc_id l) = Some l"
    and st: "lcm_step (l, I, P, Q, G) (l', I', P', Q', G')"
  note facts = lcm_step_facts [OF st]
  show ?thesis
    unfolding evolves_def
  proof (intro allI impI)
    fix i k
    assume k: "row_find oc_id P i = Some k"
    show "\<exists>l'. row_find oc_id P' i = Some l' \<and> oc_operation l' = oc_operation k \<and>
        oc_vnfInstanceId l' = oc_vnfInstanceId k \<and> oc_startTime l' = oc_startTime k \<and>
        occ_edge\<^sup>*\<^sup>* (oc_operationState k) (oc_operationState l')"
    proof (cases "i = oc_id l")
      case True
      with k stored facts show ?thesis by (auto simp: row_find_upd)
    next
      case False
      with k facts show ?thesis by (auto simp: row_find_upd)
    qed
  qed
next
  fix l
  assume "P' = row_add l P"
  then show ?thesis by (auto simp: evolves_def row_find_add)
next
  assume "P' = P"
  then show ?thesis by (simp add: evolves_refl)
qed

lemma sys_steps_evolve:
  assumes "sys_steps T T'"
  shows "evolves (fst (snd T)) (fst (snd T'))"
  using assms
proof (induction rule: rtranclp_induct)
  case base
  then show ?case by (rule evolves_refl)
next
  case (step T1 T2)
  obtain I P Q G I' P' Q' G' where T: "T1 = (I, P, Q, G)" "T2 = (I', P', Q', G')" by (metis prod.exhaust)
  then have "evolves P P'" using step.hyps(2) sys_step_evolves by blast
  with step.IH T show ?case by (auto intro: evolves_trans)
qed

lemma final_no_edge: "final_state s \<Longrightarrow> occ_edge\<^sup>*\<^sup>* s t \<Longrightarrow> t = s"
  by (erule converse_rtranclpE) (auto simp: final_state_def occ_edge_def occ_edges_def)

lemma final_edge: "occ_edge s t \<Longrightarrow> \<not> final_state s"
  by (auto simp: final_state_def occ_edge_def occ_edges_def)

subsection \<open>Rows of the instances and identifiers\<close>

text \<open>\<open>lcm_stepJ J\<close>: transitions that write an instance only when they reach an occurrence in \<open>J\<close>. When
  \<open>J\<close> holds of final states only, an instance is written once at most, by the transition that
  ends the operation.\<close>

definition lcm_stepJ :: "(lcm_op_occ \<Rightarrow> bool) \<Rightarrow> lcm_op_occ \<times> tabs \<Rightarrow> lcm_op_occ \<times> tabs \<Rightarrow> bool" where
  "lcm_stepJ J a b \<longleftrightarrow> lcm_step a b \<and> (fst (snd b) = fst (snd a) \<or> J (fst b))"

lemma lcm_stepsJ_steps: "(lcm_stepJ J)\<^sup>*\<^sup>* a b \<Longrightarrow> lcm_steps a b"
  by (rule rtranclp_mono [THEN predicate2D, of "lcm_stepJ J"]) (auto simp: lcm_stepJ_def)

lemma lcm_stepsJ_insts:
  assumes "(lcm_stepJ J)\<^sup>*\<^sup>* a b" and "\<And>l. J l \<Longrightarrow> final_state (oc_operationState l)"
  shows "fst (snd b) = fst (snd a) \<or> J (fst b)"
  using assms(1)
proof (induction rule: rtranclp_induct)
  case (step b c)
  obtain l I P Q G l' I' P' Q' G' where bc: "b = (l, I, P, Q, G)" "c = (l', I', P', Q', G')"
    by (metis prod.exhaust)
  have st: "lcm_step b c" "fst (snd c) = fst (snd b) \<or> J (fst c)" using step.hyps(2) by (auto simp: lcm_stepJ_def)
  have "\<not> final_state (oc_operationState (fst b))"
    using final_edge [OF lcm_step_facts(1)] st(1) bc by simp
  with step.IH st(2) assms(2) show ?case by auto
qed simp

lemma sys_step_wf:
  assumes "sys_step (I, P, Q, G) (I', P', Q', G')" and "rows_wf oc_id P"
  shows "rows_wf oc_id P'"
  using assms(1)
  by (rule sys_stepE) (use assms(2) in \<open>auto simp: rows_wf_upd occs.wf_add dest: lcm_step_facts(6)\<close>)

lemma sys_steps_wf: "sys_steps T T' \<Longrightarrow> rows_wf oc_id (fst (snd T)) \<Longrightarrow> rows_wf oc_id (fst (snd T'))"
  by (induction rule: rtranclp_induct) (auto dest: sys_step_wf)

subsection \<open>Saved grants\<close>

definition grants_needed :: "lcm_op_occ \<Rightarrow> bool" where
  "grants_needed l \<longleftrightarrow> oc_operation l \<noteq> MODIFY_INFO \<and>
     oc_operationState l \<in> {PROCESSING, FAILED_TEMP, ROLLING_BACK}"

definition saved_reqs :: "string \<Rightarrow> grant_request list \<Rightarrow> nat" where
  "saved_reqs i Q = length (filter (\<lambda>q. gq_vnfLcmOpOccId q = i) Q)"

definition grants_inv :: "tabs \<Rightarrow> bool" where
  "grants_inv T \<longleftrightarrow> (case T of (I, P, Q, G) \<Rightarrow>
     (\<forall>i l. row_find oc_id P i = Some l \<longrightarrow> saved_reqs i Q = (if grants_needed l then 1 else 0)) \<and>
     (\<forall>q \<in> set Q. row_find oc_id P (gq_vnfLcmOpOccId q) \<noteq> None))"

lemma saved_reqs_add: "saved_reqs i (row_add q Q) = saved_reqs i Q + (if gq_vnfLcmOpOccId q = i then 1 else 0)"
  by (simp add: saved_reqs_def row_add_def)

lemma saved_reqs_del: "saved_reqs i (row_del gq_vnfLcmOpOccId j Q) = (if i = j then 0 else saved_reqs i Q)"
proof -
  have "filter (\<lambda>q. gq_vnfLcmOpOccId q = i) (filter (\<lambda>q. gq_vnfLcmOpOccId q \<noteq> j) Q) =
      (if i = j then [] else filter (\<lambda>q. gq_vnfLcmOpOccId q = i) Q)"
    by (auto simp: filter_filter filter_empty_conv intro: filter_cong)
  then show ?thesis by (simp add: saved_reqs_def row_del_def)
qed

text \<open>What a transition does to the saved requests.\<close>

lemma moved_needed:
  "moved l st l' \<Longrightarrow> grants_needed l' \<longleftrightarrow> oc_operation l \<noteq> MODIFY_INFO \<and> st \<in> {PROCESSING, FAILED_TEMP, ROLLING_BACK}"
  by (simp add: moved_def occ_core_def grants_needed_def)

lemma dropped_reqs:
  "drop_grants l (Q, G) (Q', G') \<Longrightarrow>
     Q' = (if oc_operation l = MODIFY_INFO then Q else row_del gq_vnfLcmOpOccId (oc_id l) Q)"
  by (auto simp: drop_grants_def)

lemma lcm_step_reqs:
  assumes "lcm_step (l, I, P, Q, G) (l', I', P', Q', G')"
  shows "(Q' = Q \<and> grants_needed l' = grants_needed l) \<or>
    (\<exists>q. Q' = row_add q Q \<and> gq_vnfLcmOpOccId q = oc_id l \<and> \<not> grants_needed l \<and> grants_needed l') \<or>
    (Q' = row_del gq_vnfLcmOpOccId (oc_id l) Q \<and> \<not> grants_needed l')"
  using assms
proof (rule lcm_stepE)
qed (auto simp: grants_needed_def [of l] dest!: moved_needed dropped_reqs split: if_splits)

lemma lcm_step_saved:
  assumes "lcm_step (l, I, P, Q, G) (l', I', P', Q', G')"
    and "saved_reqs (oc_id l) Q = (if grants_needed l then 1 else 0)"
  shows "saved_reqs (oc_id l) Q' = (if grants_needed l' then 1 else 0) \<and>
    (\<forall>i. i \<noteq> oc_id l \<longrightarrow> saved_reqs i Q' = saved_reqs i Q) \<and>
    (\<forall>q \<in> set Q'. gq_vnfLcmOpOccId q = oc_id l \<or> q \<in> set Q)"
  using lcm_step_reqs [OF assms(1)]
proof (elim disjE exE conjE)
  fix q
  assume "Q' = row_add q Q" "gq_vnfLcmOpOccId q = oc_id l" "\<not> grants_needed l" "grants_needed l'"
  with assms(2) show ?thesis by (auto simp: saved_reqs_add) (auto simp: row_add_def)
next
  assume "Q' = row_del gq_vnfLcmOpOccId (oc_id l) Q" "\<not> grants_needed l'"
  then show ?thesis by (auto simp: saved_reqs_del) (auto simp: row_del_def)
qed (use assms(2) in auto)

lemma grants_inv_step:
  assumes "sys_step T T'" and "grants_inv T"
  shows "grants_inv T'"
proof -
  obtain I P Q G I' P' Q' G' where T: "T = (I, P, Q, G)" "T' = (I', P', Q', G')" by (metis prod.exhaust)
  have inv: "row_find oc_id P i = Some l \<Longrightarrow> saved_reqs i Q = (if grants_needed l then 1 else 0)"
    "q \<in> set Q \<Longrightarrow> row_find oc_id P (gq_vnfLcmOpOccId q) \<noteq> None" for i l q
    using assms(2) T by (auto simp: grants_inv_def)
  from assms(1) [unfolded T] show ?thesis
  proof (rule sys_stepE)
    fix l l'
    assume stored: "row_find oc_id P (oc_id l) = Some l"
      and st: "lcm_step (l, I, P, Q, G) (l', I', P', Q', G')"
    note facts = lcm_step_facts [OF st]
    note saved = lcm_step_saved [OF st inv(1) [OF stored]]
    have "saved_reqs i Q' = (if grants_needed k then 1 else 0)" if "row_find oc_id P' i = Some k" for i k
      using that facts saved inv(1) by (cases "i = oc_id l") (auto simp: row_find_upd)
    moreover have "row_find oc_id P' (gq_vnfLcmOpOccId q) \<noteq> None" if "q \<in> set Q'" for q
      using that facts saved inv(2) by (auto simp: row_find_upd)
    ultimately show ?thesis by (auto simp: grants_inv_def T)
  next
    fix l
    assume new: "oc_operationState l = (if oc_operation l = MODIFY_INFO then PROCESSING else STARTING)"
      "I' = I" "P' = row_add l P" "Q' = Q" "G' = G"
    have none: "saved_reqs i Q = 0" if "row_find oc_id P i = None" for i
      using inv(2) that by (force simp: saved_reqs_def filter_empty_conv)
    have "saved_reqs i Q = (if grants_needed k then 1 else 0)" if "row_find oc_id P' i = Some k" for i k
      using that new inv(1) none by (auto simp: row_find_add grants_needed_def split: option.splits if_splits)
    moreover have "row_find oc_id P' (gq_vnfLcmOpOccId q) \<noteq> None" if "q \<in> set Q" for q
      using inv(2) [OF that] new by (auto simp: row_find_add split: option.splits)
    ultimately show ?thesis using new by (auto simp: grants_inv_def T)
  next
    assume "P' = P" "Q' = Q"
    with assms(2) show ?thesis by (simp add: grants_inv_def T)
  qed
qed

lemma grants_inv_steps: "sys_steps T T' \<Longrightarrow> grants_inv T \<Longrightarrow> grants_inv T'"
  by (induction rule: rtranclp_induct) (auto intro: grants_inv_step)

text \<open>The grant itself: the occurrences that need one hold different grants, all of them stored.\<close>

definition grants_held :: "tabs \<Rightarrow> bool" where
  "grants_held T \<longleftrightarrow> (case T of (I, P, Q, G) \<Rightarrow>
     (\<forall>i l. row_find oc_id P i = Some l \<longrightarrow> grants_needed l \<longrightarrow>
        (\<exists>gid. oc_grantId l = Some gid \<and> row_find gr_id G gid \<noteq> None)) \<and>
     (\<forall>i j l k. row_find oc_id P i = Some l \<longrightarrow> row_find oc_id P j = Some k \<longrightarrow>
        grants_needed l \<longrightarrow> grants_needed k \<longrightarrow> oc_grantId l = oc_grantId k \<longrightarrow> i = j))"

lemma dropped_grants:
  "drop_grants l (Q, G) (Q', G') \<Longrightarrow>
     G' = G \<or> oc_operation l \<noteq> MODIFY_INFO \<and> (\<exists>gid. oc_grantId l = Some gid \<and> G' = row_del gr_id gid G)"
  by (auto simp: drop_grants_def split: if_splits)

lemma lcm_step_grants:
  assumes "lcm_step (l, I, P, Q, G) (l', I', P', Q', G')"
  shows "(G' = G \<and> (grants_needed l' \<longrightarrow> grants_needed l \<and> oc_grantId l' = oc_grantId l)) \<or>
    (\<exists>g. G' = row_add g G \<and> oc_grantId l' = Some (gr_id g) \<and> row_find gr_id G (gr_id g) = None) \<or>
    (\<exists>gid. oc_grantId l = Some gid \<and> G' = row_del gr_id gid G \<and> grants_needed l \<and> \<not> grants_needed l')"
  using assms
proof (rule lcm_stepE)
qed (auto simp: grants_needed_def moved_def occ_core_def dest!: dropped_grants)

lemma grants_held_op:
  assumes st: "lcm_step (l, I, P, Q, G) (l', I', P', Q', G')" and l: "row_find oc_id P (oc_id l) = Some l"
    and held: "grants_held (I, P, Q, G)"
  shows "grants_held (I', P', Q', G')"
proof -
  have h1: "\<exists>gid. oc_grantId k = Some gid \<and> row_find gr_id G gid \<noteq> None"
    if "row_find oc_id P i = Some k" "grants_needed k" for i k
    using held that by (auto simp: grants_held_def)
  have h2: "i = j" if "row_find oc_id P i = Some k" "row_find oc_id P j = Some m" "grants_needed k"
    "grants_needed m" "oc_grantId k = oc_grantId m" for i j k m
    using held that unfolding grants_held_def by blast
  note facts = lcm_step_facts [OF st]
  have P': "row_find oc_id P' i = (if i = oc_id l then Some l' else row_find oc_id P i)" for i
    by (simp add: facts(2,6) row_find_upd)
  from lcm_step_grants [OF st] consider
      (same) "G' = G" "grants_needed l' \<Longrightarrow> grants_needed l \<and> oc_grantId l' = oc_grantId l"
    | (new) g where "G' = row_add g G" "oc_grantId l' = Some (gr_id g)" "row_find gr_id G (gr_id g) = None"
    | (del) gid where "oc_grantId l = Some gid" "G' = row_del gr_id gid G" "grants_needed l" "\<not> grants_needed l'"
    by blast
  then show ?thesis
  proof cases
    case same
    then show ?thesis
      using h1 h2 l by (simp add: grants_held_def P') metis
  next
    case new
    have other: "oc_grantId k \<noteq> Some (gr_id g)" if "row_find oc_id P i = Some k" "grants_needed k" for i k
      using h1 [OF that] new(3) by auto
    show ?thesis
      using new h1 h2 other by (simp add: grants_held_def P' grants.lookup_add) metis
  next
    case del
    have other: "oc_grantId k \<noteq> Some gid" if "row_find oc_id P i = Some k" "grants_needed k" "i \<noteq> oc_id l" for i k
      using h2 [OF that(1) l that(2) del(3)] del(1) that(3) by auto
    show ?thesis
      using del h1 h2 other by (simp add: grants_held_def P' row_find_del) metis
  qed
qed

lemma grants_held_step:
  assumes "sys_step T T'" and "grants_held T"
  shows "grants_held T'"
proof -
  obtain I P Q G I' P' Q' G' where T: "T = (I, P, Q, G)" "T' = (I', P', Q', G')" by (metis prod.exhaust)
  from assms(1) [unfolded T] show ?thesis
  proof (rule sys_stepE)
    fix l
    assume new: "row_find oc_id P (oc_id l) = None" "P' = row_add l P" "G' = G"
      "oc_operationState l = (if oc_operation l = MODIFY_INFO then PROCESSING else STARTING)"
    then have "\<not> grants_needed l" by (auto simp: grants_needed_def split: if_splits)
    then show ?thesis
      using new assms(2) unfolding grants_held_def T by (auto simp: occs.lookup_add split: if_splits)
  qed (use assms(2) T grants_held_op in \<open>auto simp: grants_held_def\<close>)
qed

lemma grants_held_steps: "sys_steps T T' \<Longrightarrow> grants_held T \<Longrightarrow> grants_held T'"
  by (induction rule: rtranclp_induct) (auto intro: grants_held_step)

end
