(* ===== verification/Conductor_Refine.thy ===== *)
theory Conductor_Refine
  imports Conductor Lcm_Spec
begin

section \<open>The conductor implements the specification\<close>

text \<open>
  Each operation of the conductor is a sequence of transitions of \<open>lcm_step\<close>, whatever the
  environment does and wherever an exception ends it (\<open>start_refines\<close>, \<open>retry_refines\<close>,
  \<open>rollback_refines\<close>, \<open>modify_refines\<close>), and an operation that returns has reached a
  state where the conductor has nothing left to do.
\<close>

subsection \<open>The grant request belongs to the occurrence\<close>

definition req_ids :: "grant_request \<Rightarrow> string \<times> string" where
  "req_ids q = (gq_vnfLcmOpOccId q, gq_vnfInstanceId q)"

lemma req_ids_set [simp]:
  "req_ids (set_add a q) = req_ids q" "req_ids (set_remove a q) = req_ids q"
  "req_ids (set_update a q) = req_ids q" "req_ids (set_params req q) = req_ids q"
  "req_ids (set_rm_add acc q) = req_ids q" "req_ids (q\<lparr>gq_flavourId := f\<rparr>) = req_ids q"
  "req_ids (q\<lparr>gq_instantiationLevelId := f\<rparr>) = req_ids q" "req_ids (q\<lparr>gq_dstVnfdId := f\<rparr>) = req_ids q"
  by (simp_all add: req_ids_def set_add_def set_remove_def set_update_def set_params_def set_rm_add_def
      split: option.splits)

lemma req_ids_placement: "make_placementconstraints env vnfd a inst q = Inr q' \<Longrightarrow> req_ids q' = req_ids q"
  by (auto simp: make_placementconstraints_def bindE_eq_Inr req_ids_def)

lemma req_ids_instantiate: "instantiate_grant env req inst vnfd q n = (Inr q', n') \<Longrightarrow> req_ids q' = req_ids q"
  by (auto simp: instantiate_grant_def bindS_eq_Inr split: if_splits dest!: req_ids_placement)

lemma req_ids_terminate: "terminate_grant env inst q n = (Inr q', n') \<Longrightarrow> req_ids q' = req_ids q"
  by (auto simp: terminate_grant_def bindS_eq_Inr)

lemma req_ids_scale: "scale_grant env req inst vnfd q n = (Inr q', n') \<Longrightarrow> req_ids q' = req_ids q"
  by (auto simp: scale_grant_def make_scale_out_grant_request_def make_scale_in_grant_request_def Let_def
      bindS_eq_Inr split: if_splits dest!: req_ids_placement)

lemma req_ids_heal: "heal_grant env req inst q n = (Inr q', n') \<Longrightarrow> req_ids q' = req_ids q"
  by (auto simp: heal_grant_def make_SOL002_heal_grant_request_def make_SOL003_heal_grant_request_def
      Let_def bindS_eq_Inr split: option.splits)

lemma req_ids_conn: "change_ext_conn_grant env req inst q n = (Inr q', n') \<Longrightarrow> req_ids q' = req_ids q"
  by (auto simp: change_ext_conn_grant_def Let_def bindS_eq_Inr)

lemma req_ids_vnfpkg: "change_vnfpkg_grant env req inst q n = (Inr q', n') \<Longrightarrow> req_ids q' = req_ids q"
  by (auto simp: change_vnfpkg_grant_def change_vnfpkg_grant_rolling_update_def Let_def bindS_eq_Inr
      split: if_splits option.splits)

lemma make_grant_request_ids:
  assumes "make_grant_request env l inst vnfd n = (Inr q, n')"
  shows "gq_vnfLcmOpOccId q = oc_id l" "gq_vnfInstanceId q = in_id inst" "oc_operation l \<noteq> MODIFY_INFO"
proof -
  have "req_ids q = req_ids (grant_request_common env l inst)"
    using assms by (auto simp: make_grant_request_def Let_def split: op_type.splits
        dest: req_ids_instantiate req_ids_terminate req_ids_scale req_ids_heal req_ids_conn req_ids_vnfpkg)
  then show "gq_vnfLcmOpOccId q = oc_id l" "gq_vnfInstanceId q = in_id inst"
    by (simp_all add: req_ids_def grant_request_common_def)
  show "oc_operation l \<noteq> MODIFY_INFO"
    using assms by (auto simp: make_grant_request_def Let_def)
qed

subsection \<open>The phases\<close>

lemma send_tabs: "send_lcmocc_notification env l i w = (r, w') \<Longrightarrow> tabs w' = tabs w"
  using keepsSD [OF send_lcmocc_keeps] by (fastforce simp: same_tables_def tabs_def)

lemma run_drawing_tabs: "run_drawing d w = (r, w') \<Longrightarrow> tabs w' = tabs w"
  by (auto simp: run_drawing_def tabs_def split: prod.splits)

lemma occ_enter_run:
  "occ_enter env st l w = (Inr (l\<lparr>oc_operationState := st, oc_stateEnteredTime := ev_clock env (w_ticks w)\<rparr>),
     w\<lparr>w_ticks := Suc (w_ticks w)\<rparr>)"
  by (simp add: occ_enter_def update_lcmocc_status_def utcnow_def bindS_def)

lemma moved_enter: "moved l st (l\<lparr>oc_operationState := st, oc_stateEnteredTime := t\<rparr>)"
  by (simp add: moved_def occ_core_def)

lemma fail_with_run:
  assumes "fail_with env st ex data l w = (r, w')"
  obtains l' where "r = Inr l'" "moved l st l'" "oc_error l' \<noteq> None"
    "tabs w' = (w_insts w, row_upd oc_id l' (w_occs w), w_grant_reqs w, w_grants w)"
  using assms
  by (auto simp: fail_with_def occ_enter_run bindS_def tabs_def lcmocc_update_def set_lcmocc_error_def
      moved_def occ_core_def)

lemma exchange_result:
  assumes "grant_exchange env l inst vnfd w = (r, w')"
  shows "tabs w' = tabs w \<and> (\<forall>q g. r = Inr (q, g) \<longrightarrow> gq_vnfLcmOpOccId q = oc_id l \<and> oc_operation l \<noteq> MODIFY_INFO)"
proof -
  obtain r1 w1 where q: "run_drawing (make_grant_request env l inst vnfd) w = (r1, w1)" by force
  have w1: "tabs w1 = tabs w" using q by (rule run_drawing_tabs)
  show ?thesis
  proof (cases r1)
    case (Inl e)
    with q assms w1 show ?thesis by (auto simp: grant_exchange_def bindS_def)
  next
    case (Inr q0)
    obtain r2 w2 where g: "run_drawing (nfvo_grant env w1 q0) w1 = (r2, w2)" by force
    have w2: "tabs w2 = tabs w1" using g by (rule run_drawing_tabs)
    obtain n' where "make_grant_request env l inst vnfd (w_uuids w) = (Inr q0, n')"
      using q Inr by (auto simp: run_drawing_def split: prod.splits)
    note ids = make_grant_request_ids [OF this]
    from q g Inr assms w1 w2 ids show ?thesis
      by (cases r2) (auto simp: grant_exchange_def bindS_def)
  qed
qed

lemma new_mem_simps [simp]: "om_occ (new_mem l i gg d) = l" "om_inst (new_mem l i gg d) = i"
  "om_grant_req (new_mem l i gg d) = map_option fst gg" "om_grant (new_mem l i gg d) = map_option snd gg"
  by (simp_all add: new_mem_def)

lemma post_grant_same:
  assumes "post_grant env m = (r, m')"
  shows "occ_core (om_occ m') = occ_core (om_occ m)" "om_grant_req m' = om_grant_req m"
    "map_option gr_id (om_grant m') = map_option gr_id (om_grant m)"
  using keepsSD [OF post_grant_keeps assms] by (simp_all add: same_occ_def)

subsection \<open>Programs as sequences of transitions\<close>

text \<open>\<open>refines J l c Q\<close>: run on tables that hold the occurrence \<open>l\<close>, the program \<open>c\<close> makes
  transitions of \<open>lcm_step\<close> only, also when it ends with an exception; when it returns \<open>x\<close> the
  occurrence it has reached and \<open>x\<close> satisfy \<open>Q\<close>. A row of an instance is written only by a
  transition to an occurrence in \<open>J\<close>.\<close>

definition refines :: "(lcm_op_occ \<Rightarrow> bool) \<Rightarrow> lcm_op_occ \<Rightarrow> 'a vnfm \<Rightarrow> ('a \<Rightarrow> lcm_op_occ \<Rightarrow> bool) \<Rightarrow> bool" where
  "refines J l c Q \<longleftrightarrow> (\<forall>w r w'. c w = (r, w') \<longrightarrow>
     (\<exists>l'. (lcm_stepJ J)\<^sup>*\<^sup>* (l, tabs w) (l', tabs w') \<and> (\<forall>x. r = Inr x \<longrightarrow> Q x l')))"

lemma refinesD:
  "refines J l c Q \<Longrightarrow> c w = (r, w') \<Longrightarrow>
     \<exists>l'. (lcm_stepJ J)\<^sup>*\<^sup>* (l, tabs w) (l', tabs w') \<and> (\<forall>x. r = Inr x \<longrightarrow> Q x l')"
  by (simp add: refines_def)

lemma bindS_retS: "bindS (retS x) f = f x"
  by (rule ext) (simp add: bindS_def)

lemma refines_bind:
  assumes "refines J l c Q" and "\<And>x l'. Q x l' \<Longrightarrow> refines J l' (f x) R"
  shows "refines J l (bindS c f) R"
  unfolding refines_def
proof (intro allI impI)
  fix w r w'
  assume run: "bindS c f w = (r, w')"
  obtain r1 w1 where c: "c w = (r1, w1)" by force
  obtain l1 where l1: "(lcm_stepJ J)\<^sup>*\<^sup>* (l, tabs w) (l1, tabs w1)" "\<forall>x. r1 = Inr x \<longrightarrow> Q x l1"
    using refinesD [OF assms(1) c] by blast
  show "\<exists>l'. (lcm_stepJ J)\<^sup>*\<^sup>* (l, tabs w) (l', tabs w') \<and> (\<forall>x. r = Inr x \<longrightarrow> R x l')"
  proof (cases r1)
    case (Inl e)
    with run c l1 show ?thesis by (auto simp: bindS_def)
  next
    case (Inr x)
    with run c have "f x w1 = (r, w')" by (simp add: bindS_def)
    from refinesD [OF assms(2) this] l1(2) Inr
    obtain l2 where "(lcm_stepJ J)\<^sup>*\<^sup>* (l1, tabs w1) (l2, tabs w')" "\<forall>y. r = Inr y \<longrightarrow> R y l2" by auto
    with l1(1) show ?thesis by (blast intro: rtranclp_trans)
  qed
qed

lemma refines_keep:
  assumes "\<And>w r w'. c w = (r, w') \<Longrightarrow> tabs w' = tabs w \<and> (\<forall>x. r = Inr x \<longrightarrow> Q x l)"
  shows "refines J l c Q"
  unfolding refines_def using assms by (metis rtranclp.rtrancl_refl)

lemma refines_one:
  assumes "\<And>w r w'. c w = (r, w') \<Longrightarrow> \<exists>x l'. r = Inr x \<and> lcm_step (l, tabs w) (l', tabs w') \<and>
    (w_insts w' = w_insts w \<or> J l') \<and> Q x l'"
  shows "refines J l c Q"
  unfolding refines_def
proof (intro allI impI)
  fix w r w'
  assume "c w = (r, w')"
  then obtain x l' where x: "r = Inr x" "lcm_step (l, tabs w) (l', tabs w')" "w_insts w' = w_insts w \<or> J l'" "Q x l'"
    using assms by blast
  then have "lcm_stepJ J (l, tabs w) (l', tabs w')" by (auto simp: lcm_stepJ_def tabs_def)
  with x show "\<exists>l'. (lcm_stepJ J)\<^sup>*\<^sup>* (l, tabs w) (l', tabs w') \<and> (\<forall>x. r = Inr x \<longrightarrow> Q x l')" by auto
qed

lemma refines_weaken: "refines J l c Q \<Longrightarrow> (\<And>x l'. Q x l' \<Longrightarrow> R x l') \<Longrightarrow> refines J l c R"
  unfolding refines_def by meson

lemma refines_ret: "Q x l \<Longrightarrow> refines J l (retS x) Q"
  by (rule refines_keep) (auto simp: retS_def)

lemma refines_raise: "refines J l (raiseS e) Q"
  by (rule refines_keep) auto

lemma refines_send: "Q () l \<Longrightarrow> refines J l (send_lcmocc_notification env k i) Q"
  by (rule refines_keep) (auto dest: send_tabs)

lemma refines_send_bind: "refines J l (f ()) R \<Longrightarrow> refines J l (bindS (send_lcmocc_notification env k i) f) R"
  by (rule refines_bind [OF refines_send [of "\<lambda>_ l'. l' = l"]]) auto

lemma refines_get_inst_bind:
  assumes "\<And>i. refines J l (f i) R"
  shows "refines J l (bindS (get_inst x) f) R"
proof (rule refines_bind)
  show "refines J l (get_inst x) (\<lambda>_ l'. l' = l)"
    by (rule refines_keep) (auto simp: get_inst_def split: option.splits)
qed (simp add: assms)

lemma refines_if: "(b \<Longrightarrow> refines J l c Q) \<Longrightarrow> (\<not> b \<Longrightarrow> refines J l d Q) \<Longrightarrow> refines J l (if b then c else d) Q"
  by simp

lemma refines_lock: "refines J l c Q \<Longrightarrow> refines J l (lock_vnf_instance env i c) Q"
  by (cases "ev_lock env i") (auto simp: lock_vnf_instance_def intro: refines_keep)

lemmas refines_flow = refines_lock refines_if refines_get_inst_bind refines_send_bind

text \<open>A program that only reads the world to decide how to go on.\<close>

lemma refines_read: "(\<And>w. \<exists>c'. c w = c' w \<and> refines J l c' Q) \<Longrightarrow> refines J l c Q"
  unfolding refines_def by metis

subsection \<open>The phases of an operation\<close>

definition grant_ok :: "lcm_op_occ \<Rightarrow> (exn + vnfd) \<times> op_mem \<Rightarrow> bool" where
  "grant_ok l = (\<lambda>(r, m). occ_core (om_occ m) = occ_core l \<and>
     (\<forall>vnfd. r = Inr vnfd \<longrightarrow> (\<exists>q g. om_grant_req m = Some q \<and> om_grant m = Some g \<and>
        gq_vnfLcmOpOccId q = oc_id l \<and> oc_operation l \<noteq> MODIFY_INFO)))"

lemma granting_result:
  assumes st: "granting env l inst w = (x, w')"
  shows "tabs w' = tabs w \<and> (\<forall>y. x = Inr y \<longrightarrow> grant_ok l y)"
proof (cases "bindE (occ_vnfd_id l inst) (ev_get_vnfd env)")
  case (Inl e)
  with st show ?thesis by (auto simp: granting_def Let_def grant_ok_def)
next
  case v: (Inr vnfd)
  obtain y w1 where ex: "grant_exchange env l inst vnfd w = (y, w1)" by force
  note exr = exchange_result [OF ex]
  show ?thesis
  proof (cases y)
    case (Inl e)
    with v ex st exr show ?thesis by (auto simp: granting_def Let_def grant_ok_def)
  next
    case (Inr gg)
    obtain z m1 where pg: "post_grant env (new_mem l inst (Some gg) []) = (z, m1)" by force
    obtain q g where gg: "gg = (q, g)" by (cases gg)
    have run: "x = Inr (case z of Inl e \<Rightarrow> Inl e | Inr _ \<Rightarrow> Inr vnfd, m1)" "w' = w1"
      using st Inr ex pg v by (auto simp: granting_def Let_def split: sum.splits)
    with post_grant_same [OF pg] exr gg Inr show ?thesis by (auto simp: grant_ok_def)
  qed
qed

lemma granting_refines: "refines J l (granting env l inst) (\<lambda>y k. k = l \<and> grant_ok l y)"
  by (rule refines_keep) (use granting_result in auto)

lemma complete_with_run:
  assumes "complete_with env f m w = (r, w')" and "\<And>l. occ_core (f l) = occ_core l"
  obtains l' where "r = Inr l'" "moved (om_occ m) COMPLETED l'"
    "tabs w' = (row_upd in_id (om_inst m) (w_insts w), row_upd oc_id l' (w_occs w),
       w_grant_reqs (delete_grants m w), w_grants (delete_grants m w))" "\<exists>k. l' = f k"
proof -
  let ?l = "(om_occ m)\<lparr>oc_operationState := COMPLETED, oc_stateEnteredTime := ev_clock env (w_ticks w)\<rparr>"
  have "r = Inr (f ?l)" "tabs w' = (row_upd in_id (om_inst m) (w_insts w), row_upd oc_id (f ?l) (w_occs w),
       w_grant_reqs (delete_grants m w), w_grants (delete_grants m w))"
    using assms(1)
    by (auto simp: complete_with_def occ_enter_run bindS_def tabs_def delete_grants_def world_ops split: option.splits)
  moreover have "moved (om_occ m) COMPLETED (f ?l)"
    using moved_enter [of "om_occ m" COMPLETED] assms(2) [of ?l] by (simp add: moved_def)
  ultimately show ?thesis using that by blast
qed

text \<open>The grants that are in memory are those the specification drops.\<close>

definition mem_grants :: "op_mem \<Rightarrow> bool" where
  "mem_grants m \<longleftrightarrow>
     (if oc_operation (om_occ m) = MODIFY_INFO then om_grant_req m = None
      else \<exists>q g. om_grant_req m = Some q \<and> om_grant m = Some g \<and>
        gq_vnfLcmOpOccId q = oc_id (om_occ m) \<and> oc_grantId (om_occ m) = Some (gr_id g))"

lemma mem_grants_same: "same_occ m m' \<Longrightarrow> mem_grants m \<Longrightarrow> mem_grants m'"
  by (auto simp: mem_grants_def same_occ_def occ_core_def)

lemma mem_grants_drop:
  assumes "mem_grants m"
  shows "drop_grants (om_occ m) (w_grant_reqs w, w_grants w)
    (w_grant_reqs (delete_grants m w), w_grants (delete_grants m w))"
  using assms
  by (auto simp: mem_grants_def drop_grants_def delete_grants_def grants_delete_def split: option.splits if_splits)

lemma moved_core: "moved l st l' \<Longrightarrow> occ_core l = occ_core k \<Longrightarrow> moved k st l'"
  by (simp add: moved_def occ_core_def)

lemma drop_grants_core: "drop_grants l x y \<Longrightarrow> occ_core l = occ_core k \<Longrightarrow> drop_grants k x y"
  by (auto simp: drop_grants_def occ_core_def split: if_splits)

lemma fail_with_refines:
  assumes "oc_operationState l \<in> {PROCESSING, ROLLING_BACK}" and "occ_core k = occ_core l"
  shows "refines J l (fail_with env FAILED_TEMP e data k)
    (\<lambda>l' x. l' = x \<and> oc_operationState x = FAILED_TEMP \<and> oc_error x \<noteq> None)"
proof (rule refines_one)
  fix w r w'
  assume "fail_with env FAILED_TEMP e data k w = (r, w')"
  then obtain l' where l': "r = Inr l'" "moved k FAILED_TEMP l'" "oc_error l' \<noteq> None"
    "tabs w' = (w_insts w, row_upd oc_id l' (w_occs w), w_grant_reqs w, w_grants w)"
    by (rule fail_with_run)
  have "lcm_step (l, tabs w) (l', tabs w')"
    unfolding l'(4) tabs_def [of w]
    by (rule lcm_step.fail_temp [OF assms(1) moved_core [OF l'(2) assms(2)] l'(3)])
  with l' moved_simps(1) [OF l'(2)]
  show "\<exists>x l'. r = Inr x \<and> lcm_step (l, tabs w) (l', tabs w') \<and> (w_insts w' = w_insts w \<or> J l') \<and>
      x = l' \<and> oc_operationState l' = FAILED_TEMP \<and> oc_error l' \<noteq> None"
    by (auto simp: tabs_def)
qed

text \<open>The memory of a start that is given up may already hold the state and the grant of the
  next phase.\<close>

definition rejectable :: "lcm_op_occ \<Rightarrow> lcm_op_occ \<Rightarrow> bool" where
  "rejectable l k \<longleftrightarrow> occ_core (k\<lparr>oc_operationState := STARTING\<rparr>) = occ_core (l\<lparr>oc_grantId := oc_grantId k\<rparr>)"

lemma reject_refines:
  assumes "oc_operationState l = STARTING" and "rejectable l k"
  shows "refines J l (fail_with env ROLLED_BACK e data k)
    (\<lambda>l' x. l' = x \<and> oc_operationState x = ROLLED_BACK \<and> oc_error x \<noteq> None)"
proof (rule refines_one)
  fix w r w'
  assume "fail_with env ROLLED_BACK e data k w = (r, w')"
  then obtain l' where l': "r = Inr l'" "moved k ROLLED_BACK l'" "oc_error l' \<noteq> None"
    "tabs w' = (w_insts w, row_upd oc_id l' (w_occs w), w_grant_reqs w, w_grants w)"
    by (rule fail_with_run)
  have "moved (l\<lparr>oc_grantId := oc_grantId k\<rparr>) ROLLED_BACK l'"
    using l'(2) assms(2) by (simp add: moved_def rejectable_def occ_core_def)
  then have "lcm_step (l, tabs w) (l', tabs w')"
    unfolding l'(4) tabs_def [of w] by (rule lcm_step.reject [OF assms(1) _ l'(3)])
  with l' moved_simps(1) [OF l'(2)]
  show "\<exists>x l'. r = Inr x \<and> lcm_step (l, tabs w) (l', tabs w') \<and> (w_insts w' = w_insts w \<or> J l') \<and>
      x = l' \<and> oc_operationState l' = ROLLED_BACK \<and> oc_error l' \<noteq> None"
    by (auto simp: tabs_def)
qed

lemma complete_with_refines:
  assumes "oc_operationState l = PROCESSING" and "\<And>l. occ_core (f l) = occ_core l"
    and "mem_grants m" and "occ_core (om_occ m) = occ_core l"
    and "\<And>x. oc_operationState x = COMPLETED \<Longrightarrow> J x"
  shows "refines J l (complete_with env f m) (\<lambda>l' x. l' = x \<and> oc_operationState x = COMPLETED \<and> (\<exists>k. x = f k))"
proof (rule refines_one)
  fix w r w'
  assume "complete_with env f m w = (r, w')"
  then obtain l' where l': "r = Inr l'" "moved (om_occ m) COMPLETED l'"
    "tabs w' = (row_upd in_id (om_inst m) (w_insts w), row_upd oc_id l' (w_occs w),
       w_grant_reqs (delete_grants m w), w_grants (delete_grants m w))" "\<exists>k. l' = f k"
    using assms(2) by (rule complete_with_run)
  have "lcm_step (l, tabs w) (l', tabs w')"
    unfolding l'(3) tabs_def [of w]
    by (rule complete [OF assms(1) moved_core [OF l'(2) assms(4)]
          drop_grants_core [OF mem_grants_drop [OF assms(3)] assms(4)]])
  with l' moved_simps(1) [OF l'(2)]
  show "\<exists>x l'. r = Inr x \<and> lcm_step (l, tabs w) (l', tabs w') \<and> (w_insts w' = w_insts w \<or> J l') \<and>
      x = l' \<and> oc_operationState l' = COMPLETED \<and> (\<exists>k. l' = f k)"
    using assms(5) by auto
qed

text \<open>How the main process leaves an occurrence: completed, or failed with the error recorded.\<close>

definition processed :: "(lcm_op_occ \<Rightarrow> lcm_op_occ) \<Rightarrow> lcm_op_occ \<Rightarrow> bool" where
  "processed f l \<longleftrightarrow> oc_operationState l = COMPLETED \<and> (\<exists>k. l = f k) \<or>
     oc_operationState l = FAILED_TEMP \<and> oc_error l \<noteq> None"

lemma processing_refines:
  assumes "oc_operationState l = PROCESSING" and "\<And>l. occ_core (f l) = occ_core l"
    and "mem_grants m" and "occ_core (om_occ m) = occ_core l"
    and "\<And>x. oc_operationState x = COMPLETED \<Longrightarrow> J x"
  shows "refines J l (processing env f vnfd m) (\<lambda>(l', i) x. l' = x \<and> processed f x)"
proof (rule refines_read)
  fix w
  obtain r m1 where p: "process env w vnfd m = (r, m1)" by force
  have same: "same_occ m m1" using process_keeps p by (rule keepsSD)
  then have core: "occ_core (om_occ m1) = occ_core l" using assms(4) by (simp add: same_occ_def)
  let ?Q = "\<lambda>(l', i :: vnf_instance) x. l' = x \<and> processed f x"
  show "\<exists>c'. processing env f vnfd m w = c' w \<and> refines J l c' ?Q"
  proof (cases r)
    case (Inl e)
    have "refines J l (bindS (fail_with env FAILED_TEMP e (om_data m1) (om_occ m1)) (\<lambda>l. retS (l, om_inst m1))) ?Q"
      by (auto intro!: refines_bind [OF fail_with_refines [OF _ core]] refines_ret simp: assms(1) processed_def)
    with p Inl show ?thesis by (auto simp: processing_def)
  next
    case (Inr u)
    have "refines J l (bindS (complete_with env f m1) (\<lambda>l. retS (l, om_inst m1))) ?Q"
      by (auto intro!: refines_bind [OF complete_with_refines [OF assms(1,2) _ core assms(5)]] refines_ret
          mem_grants_same [OF same assms(3)] simp: processed_def)
    with p Inr show ?thesis by (auto simp: processing_def)
  qed
qed

subsection \<open>Start\<close>

text \<open>The STARTING phase ends with a grant that is stored, or with a memory that can be rejected.\<close>

definition started :: "lcm_op_occ \<Rightarrow> (exn + vnfd) \<times> op_mem \<Rightarrow> lcm_op_occ \<Rightarrow> bool" where
  "started l = (\<lambda>(r, m) x. case r of
      Inl e \<Rightarrow> x = l \<and> rejectable l (om_occ m)
    | Inr vnfd \<Rightarrow> om_occ m = x \<and> oc_operationState x = PROCESSING \<and> mem_grants m)"

lemma store_grants_refines:
  assumes "oc_operationState l = STARTING" and "om_grant_req m = Some q" and "om_grant m = Some g"
    and "gq_vnfLcmOpOccId q = oc_id l" and "oc_operation l \<noteq> MODIFY_INFO" and "occ_core (om_occ m) = occ_core l"
  shows "refines J l (store_grants env vnfd m) (started l)"
  unfolding refines_def
proof (intro allI impI)
  fix w r w'
  assume run: "store_grants env vnfd m w = (r, w')"
  let ?l = "(om_occ m)\<lparr>oc_operationState := PROCESSING, oc_stateEnteredTime := ev_clock env (w_ticks w),
    oc_grantId := Some (gr_id g)\<rparr>"
  consider (dup) e where "r = Inr (Inl e, m\<lparr>om_occ := ?l\<rparr>)" "tabs w' = tabs w"
    | (ok) "row_find gq_vnfLcmOpOccId (w_grant_reqs w) (oc_id l) = None" "row_find gr_id (w_grants w) (gr_id g) = None"
        "r = Inr (Inr vnfd, m\<lparr>om_occ := ?l\<rparr>)" "tabs w' = (w_insts w, row_upd oc_id ?l (w_occs w),
          row_add q (w_grant_reqs w), row_add g (w_grants w))"
    using run assms(2-4)
    by (fastforce simp: store_grants_def occ_enter_run bindS_def Let_def tabs_def world_ops grants_create_run
        split: if_splits)
  then show "\<exists>l'. (lcm_stepJ J)\<^sup>*\<^sup>* (l, tabs w) (l', tabs w') \<and> (\<forall>x. r = Inr x \<longrightarrow> started l x l')"
  proof cases
    case dup
    moreover have "rejectable l ?l" using assms(1,6) by (simp add: rejectable_def occ_core_def)
    ultimately show ?thesis by (intro exI [of _ l]) (simp add: started_def)
  next
    case ok
    have "lcm_step (l, tabs w) (?l, tabs w')"
      unfolding ok(4) tabs_def [of w]
      by (rule granted) (use assms ok(1,2) in \<open>auto simp: moved_def occ_core_def\<close>)
    then have "lcm_stepJ J (l, tabs w) (?l, tabs w')" using ok(4) by (simp add: lcm_stepJ_def tabs_def)
    moreover have "mem_grants (m\<lparr>om_occ := ?l\<rparr>)" using assms by (auto simp: mem_grants_def occ_core_def)
    ultimately show ?thesis
      using ok(3) by (intro exI [of _ ?l]) (simp add: started_def r_into_rtranclp)
  qed
qed

lemma starting_refines:
  assumes "oc_operationState l = STARTING"
  shows "refines J l (starting env l inst) (started l)"
  unfolding starting_def
proof (rule refines_bind [OF granting_refines])
  fix y k
  assume "k = l \<and> grant_ok l y"
  then obtain r m where y: "y = (r, m)" "k = l" "grant_ok l (r, m)" by (cases y) auto
  then have core: "occ_core (om_occ m) = occ_core l" by (simp add: grant_ok_def)
  show "refines J k (case y of (r, m) \<Rightarrow> (case r of Inl e \<Rightarrow> retS (Inl e, m) | Inr vnfd \<Rightarrow> store_grants env vnfd m))
     (started l)"
  proof (cases r)
    case (Inl e)
    moreover have "rejectable l (om_occ m)" using assms core by (simp add: rejectable_def occ_core_def)
    ultimately show ?thesis using y by (simp add: started_def refines_ret)
  next
    case (Inr vnfd)
    with y obtain q g where "om_grant_req m = Some q" "om_grant m = Some g" "gq_vnfLcmOpOccId q = oc_id l"
      "oc_operation l \<noteq> MODIFY_INFO" by (auto simp: grant_ok_def)
    from store_grants_refines [OF assms this core] y Inr show ?thesis by simp
  qed
qed

definition start_end :: "lcm_op_occ \<Rightarrow> bool" where
  "start_end l \<longleftrightarrow> oc_operationState l = ROLLED_BACK \<and> oc_error l \<noteq> None \<or> processed id l"

definition completed :: "lcm_op_occ \<Rightarrow> bool" where
  "completed l \<longleftrightarrow> oc_operationState l = COMPLETED"

lemma start_refines:
  "refines completed l (start_lcm_op_internal env l) (\<lambda>_ l'. oc_operationState l = STARTING \<longrightarrow> start_end l')"
  unfolding start_lcm_op_internal_def
proof (intro refines_flow)
  assume "oc_operationState l \<noteq> STARTING"
  then show "refines completed l (retS ()) (\<lambda>_ l'. oc_operationState l = STARTING \<longrightarrow> start_end l')"
    by (simp add: refines_ret)
next
  fix inst
  assume st: "\<not> oc_operationState l \<noteq> STARTING"
  show "refines completed l (bindS (starting env l inst) (\<lambda>(r, m). case r of
        Inl e \<Rightarrow> bindS (fail_with env ROLLED_BACK e [] (om_occ m)) (\<lambda>l. send_lcmocc_notification env l (om_inst m))
      | Inr vnfd \<Rightarrow> bindS (send_lcmocc_notification env (om_occ m) (om_inst m)) (\<lambda>_.
          bindS (processing env id vnfd m) (\<lambda>(l, i). send_lcmocc_notification env l i))))
     (\<lambda>_ l'. oc_operationState l = STARTING \<longrightarrow> start_end l')"
  proof (rule refines_bind [OF starting_refines])
    fix y k
    assume "started l y k"
    then show "refines completed k (case y of (r, m) \<Rightarrow> (case r of
        Inl e \<Rightarrow> bindS (fail_with env ROLLED_BACK e [] (om_occ m)) (\<lambda>l. send_lcmocc_notification env l (om_inst m))
      | Inr vnfd \<Rightarrow> bindS (send_lcmocc_notification env (om_occ m) (om_inst m)) (\<lambda>_.
          bindS (processing env id vnfd m) (\<lambda>(l, i). send_lcmocc_notification env l i))))
      (\<lambda>_ l'. oc_operationState l = STARTING \<longrightarrow> start_end l')"
      using st
      by (auto simp: started_def start_end_def completed_def split: sum.splits
          intro!: refines_bind [OF reject_refines] refines_send_bind refines_send refines_bind [OF processing_refines])
  qed (use st in simp)
qed

subsection \<open>Retry and rollback\<close>

lemma reenter_refines:
  assumes "oc_operationState l = FAILED_TEMP" and "st \<in> {PROCESSING, ROLLING_BACK}"
  shows "refines J l (bindS (occ_enter env st l) (\<lambda>l. bindS (modS (lcmocc_update l)) (\<lambda>_. retS l)))
    (\<lambda>k x. k = x \<and> moved l st x)"
proof (rule refines_one)
  fix w r w'
  assume run: "bindS (occ_enter env st l) (\<lambda>l. bindS (modS (lcmocc_update l)) (\<lambda>_. retS l)) w = (r, w')"
  let ?l = "l\<lparr>oc_operationState := st, oc_stateEnteredTime := ev_clock env (w_ticks w)\<rparr>"
  have t: "r = Inr ?l" "tabs w' = (w_insts w, row_upd oc_id ?l (w_occs w), w_grant_reqs w, w_grants w)"
    using run by (auto simp: occ_enter_run bindS_def tabs_def world_ops)
  have "lcm_step (l, tabs w) (?l, tabs w')"
    unfolding t(2) tabs_def [of w]
    using assms lcm_step.retry lcm_step.roll_back moved_enter by blast
  with t show "\<exists>x l'. r = Inr x \<and> lcm_step (l, tabs w) (l', tabs w') \<and> (w_insts w' = w_insts w \<or> J l') \<and>
      x = l' \<and> moved l st l'"
    using moved_enter by (auto simp: tabs_def)
qed

definition regranted :: "lcm_op_occ \<Rightarrow> (exn + vnfd) \<times> op_mem \<Rightarrow> bool" where
  "regranted l = (\<lambda>(r, m). occ_core (om_occ m) = occ_core l \<and> (\<forall>vnfd. r = Inr vnfd \<longrightarrow> mem_grants m))"

lemma saved_grant_result:
  assumes "get_grant_req_and_grant l w = (Inr gg, w')"
  shows "mem_grants (new_mem l inst gg data)"
proof (cases "oc_operation l = MODIFY_INFO")
  case True
  with assms show ?thesis by (auto simp: get_grant_req_and_grant_def mem_grants_def)
next
  case False
  with assms obtain gid q rest g where "oc_grantId l = Some gid" "row_find gr_id (w_grants w) gid = Some g"
    "row_filter (\<lambda>q. gq_vnfLcmOpOccId q = oc_id l) (w_grant_reqs w) = q # rest" "gg = Some (q, g)"
    by (cases "row_filter (\<lambda>q. gq_vnfLcmOpOccId q = oc_id l) (w_grant_reqs w)"; cases "oc_grantId l")
      (auto simp: get_grant_req_and_grant_def bindE_eq_Inr attr_def split: option.splits)
  moreover from this have "gq_vnfLcmOpOccId q = oc_id l"
    by (auto simp: row_filter_def filter_eq_Cons_iff)
  ultimately show ?thesis using False by (auto simp: mem_grants_def dest: grants.lookup_key)
qed

lemma regrant_refines: "refines J l (regrant env v l inst) (\<lambda>y k. k = l \<and> regranted l y)"
proof (rule refines_keep)
  fix w x w'
  assume run: "regrant env v l inst w = (x, w')"
  let ?data = "saved_user_data l"
  obtain r w1 where gg: "get_grant_req_and_grant l w = (r, w1)" by force
  show "tabs w' = tabs w \<and> (\<forall>y. x = Inr y \<longrightarrow> l = l \<and> regranted l y)"
  proof (cases r)
    case (Inl e)
    with run gg show ?thesis by (auto simp: regrant_def regranted_def Let_def split: sum.splits)
  next
    case (Inr g)
    obtain z m1 where pg: "post_grant env (new_mem l inst g ?data) = (z, m1)" by force
    have "same_occ (new_mem l inst g ?data) m1" using post_grant_keeps pg by (rule keepsSD)
    moreover from this have "mem_grants m1"
      using saved_grant_result gg Inr by (auto intro: mem_grants_same)
    ultimately show ?thesis
      using run gg Inr pg by (auto simp: regrant_def regranted_def same_occ_def Let_def split: sum.splits)
  qed
qed

definition rolled_back_inst :: "lcm_op_occ \<Rightarrow> bool" where
  "rolled_back_inst l \<longleftrightarrow> oc_operationState l = ROLLED_BACK \<and> rollback_updates_inst (oc_operation l)"

lemma rolled_back_refines:
  assumes "oc_operationState l = ROLLING_BACK" and "mem_grants m" and "occ_core (om_occ m) = occ_core l"
  shows "refines rolled_back_inst l (rolled_back env m) (\<lambda>l' x. l' = x \<and> oc_operationState x = ROLLED_BACK)"
proof (rule refines_one)
  fix w r w'
  assume run: "rolled_back env m w = (r, w')"
  let ?l = "clear_user_data ((om_occ m)\<lparr>oc_operationState := ROLLED_BACK, oc_stateEnteredTime := ev_clock env (w_ticks w)\<rparr>)"
  let ?I = "if rollback_updates_inst (oc_operation l) then row_upd in_id (om_inst m) (w_insts w) else w_insts w"
  have t: "r = Inr ?l" "tabs w' = (?I, row_upd oc_id ?l (w_occs w),
      w_grant_reqs (delete_grants m w), w_grants (delete_grants m w))"
    using run assms(3)
    by (auto simp: rolled_back_def occ_enter_run bindS_def tabs_def delete_grants_def world_ops occ_core_def
        split: option.splits)
  have "moved l ROLLED_BACK ?l"
    using assms(3) by (simp add: moved_def occ_core_def clear_user_data_def)
  then have "lcm_step (l, tabs w) (?l, tabs w')"
    unfolding t(2) tabs_def [of w]
    by (intro lcm_step.rolled_back [OF assms(1) _ drop_grants_core [OF mem_grants_drop [OF assms(2)] assms(3)]])
      (auto simp: rollback_updates_inst_def)
  moreover have "w_insts w' = w_insts w \<or> rolled_back_inst ?l"
    using t(2) assms(3) by (auto simp: tabs_def rolled_back_inst_def clear_user_data_def occ_core_def)
  ultimately show "\<exists>x l'. r = Inr x \<and> lcm_step (l, tabs w) (l', tabs w') \<and>
      (w_insts w' = w_insts w \<or> rolled_back_inst l') \<and> x = l' \<and> oc_operationState l' = ROLLED_BACK"
    using t(1) by (auto simp: clear_user_data_def)
qed

definition rollback_end :: "lcm_op_occ \<Rightarrow> bool" where
  "rollback_end l \<longleftrightarrow> oc_operationState l = ROLLED_BACK \<or> oc_operationState l = FAILED_TEMP \<and> oc_error l \<noteq> None"

lemma rolling_back_refines:
  assumes "oc_operationState l = ROLLING_BACK" and "mem_grants m" and "occ_core (om_occ m) = occ_core l"
  shows "refines rolled_back_inst l (rolling_back env vnfd m) (\<lambda>(l', i) x. l' = x \<and> rollback_end x)"
proof (rule refines_read)
  fix w
  obtain r m1 where p: "rollback env vnfd m = (r, m1)" by force
  have same: "same_occ m m1" using same.keep_rollback p by (rule keepsSD)
  then have core: "occ_core (om_occ m1) = occ_core l" using assms(3) by (simp add: same_occ_def)
  let ?Q = "\<lambda>(l', i :: vnf_instance) x. l' = x \<and> rollback_end x"
  show "\<exists>c'. rolling_back env vnfd m w = c' w \<and> refines rolled_back_inst l c' ?Q"
  proof (cases r)
    case (Inl e)
    have "refines rolled_back_inst l (bindS (fail_with env FAILED_TEMP e (om_data m1) (om_occ m1)) (\<lambda>l. retS (l, om_inst m1))) ?Q"
      by (auto intro!: refines_bind [OF fail_with_refines [OF _ core]] refines_ret simp: assms(1) rollback_end_def)
    with p Inl show ?thesis by (auto simp: rolling_back_def)
  next
    case (Inr u)
    have "refines rolled_back_inst l (bindS (rolled_back env m1) (\<lambda>l. retS (l, om_inst m1))) ?Q"
      by (auto intro!: refines_bind [OF rolled_back_refines [OF assms(1) _ core]] refines_ret
          mem_grants_same [OF same assms(2)] simp: rollback_end_def)
    with p Inr show ?thesis by (auto simp: rolling_back_def)
  qed
qed

text \<open>What retry and rollback share: the state is entered and stored, the subscribers are told,
  the saved grant is read again, and the rest runs on it.\<close>

lemma resumed_refines:
  assumes "oc_operationState l = FAILED_TEMP" and "st \<in> {PROCESSING, ROLLING_BACK}"
    and "\<And>k vnfd m. oc_operationState k = st \<Longrightarrow> mem_grants m \<Longrightarrow> occ_core (om_occ m) = occ_core k \<Longrightarrow>
      refines J k (c vnfd m) (\<lambda>(l', i) x. l' = x \<and> S x)"
    and "\<And>x. oc_operationState x = FAILED_TEMP \<Longrightarrow> oc_error x \<noteq> None \<Longrightarrow> S x"
  shows "refines J l
    (bindS (occ_enter env st l) (\<lambda>l.
     bindS (modS (lcmocc_update l)) (\<lambda>_.
     bindS (send_lcmocc_notification env l inst) (\<lambda>_.
     bindS (regrant env (v l) l inst) (\<lambda>(r, m).
     bindS (case r of
              Inl e \<Rightarrow> bindS (fail_with env FAILED_TEMP e (om_data m) (om_occ m)) (\<lambda>l'. retS (l', om_inst m))
            | Inr vnfd \<Rightarrow> c vnfd m) (\<lambda>(l', i). send_lcmocc_notification env l' i))))))
    (\<lambda>_ l'. S l')" (is "refines J l ?prog ?Q")
proof -
  let ?rest = "\<lambda>l. bindS (send_lcmocc_notification env l inst) (\<lambda>_.
     bindS (regrant env (v l) l inst) (\<lambda>(r, m).
     bindS (case r of
              Inl e \<Rightarrow> bindS (fail_with env FAILED_TEMP e (om_data m) (om_occ m)) (\<lambda>l'. retS (l', om_inst m))
            | Inr vnfd \<Rightarrow> c vnfd m) (\<lambda>(l', i). send_lcmocc_notification env l' i)))"
  have "?prog = bindS (bindS (occ_enter env st l) (\<lambda>l. bindS (modS (lcmocc_update l)) (\<lambda>_. retS l))) ?rest"
    by (rule ext) (simp add: bindS_def occ_enter_run)
  moreover have "refines J k (?rest k) ?Q" if "moved l st k" for k
  proof (intro refines_send_bind refines_bind [OF regrant_refines])
    fix y x
    assume "x = k \<and> regranted k y"
    then obtain r m where y: "y = (r, m)" "x = k" "occ_core (om_occ m) = occ_core k"
      "\<And>vnfd. r = Inr vnfd \<Longrightarrow> mem_grants m" by (cases y) (auto simp: regranted_def)
    note k = moved_simps(1) [OF that]
    show "refines J x (case y of (r, m) \<Rightarrow> bindS (case r of
              Inl e \<Rightarrow> bindS (fail_with env FAILED_TEMP e (om_data m) (om_occ m)) (\<lambda>l'. retS (l', om_inst m))
            | Inr vnfd \<Rightarrow> c vnfd m) (\<lambda>(l', i). send_lcmocc_notification env l' i)) ?Q"
    proof (cases r)
      case (Inl e)
      with y assms(2,4) k show ?thesis
        by (auto intro!: refines_bind [OF refines_bind [OF fail_with_refines [OF _ y(3)]]] refines_send
            refines_ret [where Q = "\<lambda>(l', i) x. oc_operationState x = FAILED_TEMP \<and> oc_error x \<noteq> None"])
    next
      case (Inr vnfd)
      with y show ?thesis
        by (auto intro!: refines_bind [OF assms(3) [OF k]] refines_send)
    qed
  qed
  ultimately show ?thesis
    by (auto intro!: refines_bind [OF reenter_refines [OF assms(1,2)]])
qed

lemma retry_refines:
  "refines completed l (retry_lcm_op_internal env l) (\<lambda>_ l'.
     oc_operationState l = FAILED_TEMP \<longrightarrow> processed clear_error l')"
  unfolding retry_lcm_op_internal_def
proof (intro refines_lock refines_if refines_get_inst_bind)
  fix inst
  assume "\<not> oc_operationState l \<noteq> FAILED_TEMP"
  then show "refines completed l
    (bindS (occ_enter env PROCESSING l) (\<lambda>l. bindS (modS (lcmocc_update l)) (\<lambda>_.
     bindS (send_lcmocc_notification env l inst) (\<lambda>_. bindS (regrant env (occ_vnfd_id l inst) l inst) (\<lambda>(r, m).
     bindS (case r of
              Inl e \<Rightarrow> bindS (fail_with env FAILED_TEMP e (om_data m) (om_occ m)) (\<lambda>l'. retS (l', om_inst m))
            | Inr vnfd \<Rightarrow> processing env clear_error vnfd m) (\<lambda>(l', i). send_lcmocc_notification env l' i))))))
    (\<lambda>_ l'. oc_operationState l = FAILED_TEMP \<longrightarrow> processed clear_error l')"
    by (intro refines_weaken [OF resumed_refines [where S = "processed clear_error"]] processing_refines)
      (auto simp: clear_error_def occ_core_def processed_def completed_def)
qed (simp add: refines_ret)

lemma rollback_refines:
  "refines rolled_back_inst l (rollback_lcm_op_internal env l) (\<lambda>_ l'.
     oc_operationState l = FAILED_TEMP \<longrightarrow> rollback_end l')"
  unfolding rollback_lcm_op_internal_def
proof (intro refines_lock refines_if refines_get_inst_bind)
  fix inst
  assume "\<not> oc_operationState l \<noteq> FAILED_TEMP"
  then show "refines rolled_back_inst l
    (bindS (occ_enter env ROLLING_BACK l) (\<lambda>l. bindS (modS (lcmocc_update l)) (\<lambda>_.
     bindS (send_lcmocc_notification env l inst) (\<lambda>_. bindS (regrant env (Inr (in_vnfdId inst)) l inst) (\<lambda>(r, m).
     bindS (case r of
              Inl e \<Rightarrow> bindS (fail_with env FAILED_TEMP e (om_data m) (om_occ m)) (\<lambda>l'. retS (l', om_inst m))
            | Inr vnfd \<Rightarrow> rolling_back env vnfd m) (\<lambda>(l', i). send_lcmocc_notification env l' i))))))
    (\<lambda>_ l'. oc_operationState l = FAILED_TEMP \<longrightarrow> rollback_end l')"
    by (intro refines_weaken [OF resumed_refines [where S = rollback_end and
          v = "\<lambda>_. Inr (in_vnfdId inst)"]] rolling_back_refines)
      (auto simp: rollback_end_def)
qed (simp add: refines_ret)

subsection \<open>Modify\<close>

lemma modify_refines:
  assumes "oc_operation l = MODIFY_INFO"
  shows "refines completed l (modify_vnfinfo_internal env l) (\<lambda>_ l'.
     oc_operationState l = PROCESSING \<longrightarrow> processed id l')"
  unfolding modify_vnfinfo_internal_def
proof (intro refines_flow)
  fix inst
  assume "\<not> oc_operationState l \<noteq> PROCESSING"
  moreover have "mem_grants (new_mem l inst None [])" using assms by (simp add: mem_grants_def)
  ultimately show "refines completed l (bindS (case ev_get_vnfd env (in_vnfdId inst) of
        Inl e \<Rightarrow> bindS (fail_with env FAILED_TEMP e [] l) (\<lambda>l. retS (l, inst))
      | Inr vnfd \<Rightarrow> processing env id vnfd (new_mem l inst None [])) (\<lambda>(l, i). send_lcmocc_notification env l i))
     (\<lambda>_ l'. oc_operationState l = PROCESSING \<longrightarrow> processed id l')"
    by (cases "ev_get_vnfd env (in_vnfdId inst)")
      (auto intro!: refines_bind [OF refines_bind [OF fail_with_refines]] refines_send
        refines_bind [OF processing_refines] refines_ret [where Q = "\<lambda>(l', i) x. oc_operationState x = FAILED_TEMP \<and> oc_error x \<noteq> None"]
        simp: processed_def completed_def)
qed (simp add: refines_ret)

end
