(* ===== verification/Controller.thy ===== *)
theory Controller
  imports Conductor
begin

section \<open>The LCM API (sol\_refactored/controller/vnflcm\_v2.py)\<close>

text \<open>
  The handlers of \<^verbatim>\<open>VnfLcmControllerV2\<close> that change state. A handler gets the request body after
  schema validation, as the object that \<^verbatim>\<open>from_dict\<close> makes of it (\<open>op_params\<close>): an attribute is
  \<open>Some\<close> exactly when the body has it. It returns the status code and the location of
  the response, or raises; an operation ends with a message to the conductor. The body of the
  response is the business of the views (theory View).
\<close>

record response =
  rs_status :: int
  rs_location :: "string option"

definition accepted :: "env \<Rightarrow> lcm_op_occ \<Rightarrow> response" where
  "accepted env lcmocc = \<lparr>rs_status = 202, rs_location = Some (lcmocc_href (oc_id lcmocc) (ev_endpoint env))\<rparr>"

subsection \<open>Policies\<close>

definition vim_area :: "vim_info \<Rightarrow> json" where
  "vim_area vi = (case vi_extra vi of None \<Rightarrow> JNull | Some e \<Rightarrow> or_null (map_of e ''area''))"

fun policy_area :: "json \<Rightarrow> (string \<times> vim_info) list \<Rightarrow> json" where
  "policy_area area [] = area"
| "policy_area area ((k, vi) # vis) =
     (if py_truthy (vim_area vi) \<and> vi_vimType vi \<noteq> [] then vim_area vi else policy_area (vim_area vi) vis)"

definition get_policy_target :: "vnf_instance \<Rightarrow> (string, json) dict" where
  "get_policy_target inst =
     filter (\<lambda>p. snd p \<noteq> JNull)
       (if in_instantiationState inst = NOT_INSTANTIATED
        then [(''vendor'', JStr (in_vnfProvider inst)), (''area'', JStr ''*''), (''tenant'', JStr ''*'')]
        else [(''vendor'', JStr (in_vnfProvider inst)),
              (''area'', policy_area JNull (case in_vimConnectionInfo inst of None \<Rightarrow> [] | Some vis \<Rightarrow> vis)),
              (''tenant'', case in_instantiatedVnfInfo inst of None \<Rightarrow> JNull
                 | Some info \<Rightarrow> (case iv_metadata info of None \<Rightarrow> JNull | Some md \<Rightarrow> or_null (map_of md ''tenant'')))])"

definition check_policy :: "env \<Rightarrow> vnf_instance \<Rightarrow> string \<Rightarrow> unit vnfm" where
  "check_policy env inst action =
     (if ev_enhanced_policy env then liftS (ev_can env action (get_policy_target inst)) else retS ())"

subsection \<open>Create and delete\<close>

record create_request =
  cq_vnfdId :: string
  cq_vnfInstanceName :: "string option"
  cq_vnfInstanceDescription :: "string option"
  cq_metadata :: "jdict option"

definition truthy_str :: "string option \<Rightarrow> string option" where
  "truthy_str s = (case s of Some (c # cs) \<Rightarrow> Some (c # cs) | _ \<Rightarrow> None)"

definition truthy_dict :: "jdict \<Rightarrow> jdict option" where
  "truthy_dict d = (if d = [] then None else Some d)"

definition prop_of :: "vnfd \<Rightarrow> string \<Rightarrow> jdict" where
  "prop_of vnfd name = (case map_of (get_vnfd_properties vnfd) name of None \<Rightarrow> [] | Some d \<Rightarrow> d)"

definition new_inst :: "string \<Rightarrow> create_request \<Rightarrow> pkg_info \<Rightarrow> vnfd \<Rightarrow> jdict \<Rightarrow> vnf_instance" where
  "new_inst i body pkg vnfd metadata =
     \<lparr>in_id = i, in_vnfInstanceName = truthy_str (cq_vnfInstanceName body),
      in_vnfInstanceDescription = truthy_str (cq_vnfInstanceDescription body),
      in_vnfdId = cq_vnfdId body, in_vnfProvider = pk_vnfProvider pkg,
      in_vnfProductName = pk_vnfProductName pkg, in_vnfSoftwareVersion = pk_vnfSoftwareVersion pkg,
      in_vnfdVersion = pk_vnfdVersion pkg,
      in_vnfConfigurableProperties = truthy_dict (prop_of vnfd ''vnfConfigurableProperties''),
      in_vimConnectionInfo = None, in_instantiationState = NOT_INSTANTIATED,
      in_instantiatedVnfInfo = None, in_metadata = truthy_dict metadata,
      in_extensions = truthy_dict (prop_of vnfd ''extensions'')\<rparr>"

definition create :: "env \<Rightarrow> create_request \<Rightarrow> response vnfm" where
  "create env body =
     bindS (\<lambda>w. (get_vnf_package_info_vnfd env w (cq_vnfdId body), w)) (\<lambda>pkg.
     bindS (liftS (if ev_enhanced_policy env
        then ev_can env ''create'' [(''vendor'', JStr (pk_vnfProvider pkg))] else Inr ())) (\<lambda>_.
     if pk_operationalState pkg \<noteq> ENABLED then raiseS (Sol (VnfdIdNotEnabled (cq_vnfdId body)))
     else
     bindS (liftS (ev_get_vnfd env (cq_vnfdId body))) (\<lambda>vnfd.
     bindS (liftS (case cq_metadata body of
              None \<Rightarrow> Inr (prop_of vnfd ''metadata'')
            | Some md \<Rightarrow> let merged = merge_items (prop_of vnfd ''metadata'') md in
                bindE (check_metadata_format (ev_schema_msg env) merged) (\<lambda>_. Inr merged))) (\<lambda>metadata.
     bindS (generate_uuid env) (\<lambda>i.
     let inst = new_inst i body pkg vnfd metadata in
     bindS (inst_create inst) (\<lambda>_.
     bindS (send_inst_create_notification env inst) (\<lambda>_.
       retS \<lparr>rs_status = 201, rs_location = Some (inst_href i (ev_endpoint env))\<rparr>)))))))"

definition inst_delete :: "vnf_instance \<Rightarrow> world \<Rightarrow> world" where
  "inst_delete inst w = w\<lparr>w_insts := row_del in_id (in_id inst) (w_insts w)\<rparr>"

definition delete :: "env \<Rightarrow> string \<Rightarrow> response vnfm" where
  "delete env inst_id = lock_vnf_instance env inst_id
     (bindS (get_inst inst_id) (\<lambda>inst.
      bindS (check_policy env inst ''delete'') (\<lambda>_.
      if in_instantiationState inst \<noteq> NOT_INSTANTIATED then raiseS (Sol (VnfInstanceIsInstantiated inst_id))
      else
      bindS (check_lcmocc_in_progress inst_id) (\<lambda>_.
      bindS (modS (inst_delete inst)) (\<lambda>_.
      bindS (send_inst_delete_notification env inst) (\<lambda>_.
        retS \<lparr>rs_status = 204, rs_location = None\<rparr>))))))"

subsection \<open>Operations\<close>

definition submit :: "env \<Rightarrow> lcm_op_occ \<Rightarrow> (string \<Rightarrow> rpc) \<Rightarrow> response vnfm" where
  "submit env lcmocc msg =
     bindS (lcmocc_create lcmocc) (\<lambda>_. bindS (cast_rpc (msg (oc_id lcmocc))) (\<lambda>_. retS (accepted env lcmocc)))"

definition update_vnfc_ids :: "vnf_instance \<Rightarrow> op_params \<Rightarrow> unit pyres" where
  "update_vnfc_ids inst body = (case rq_vnfcInfoModifications body of None \<Rightarrow> Inr ()
     | Some mods \<Rightarrow> check_vnfc_ids inst (map fst mods))"

definition check_pkg_enabled :: "env \<Rightarrow> string \<Rightarrow> unit vnfm" where
  "check_pkg_enabled env vnfd_id =
     bindS (\<lambda>w. (get_vnf_package_info_vnfd env w vnfd_id, w)) (\<lambda>pkg.
       if pk_operationalState pkg \<noteq> ENABLED then raiseS (Sol (VnfdIdNotEnabled vnfd_id)) else retS ())"

definition update :: "env \<Rightarrow> string \<Rightarrow> op_params \<Rightarrow> response vnfm" where
  "update env inst_id body = lock_vnf_instance env inst_id
     (bindS (get_inst inst_id) (\<lambda>inst.
      bindS (check_policy env inst ''update'') (\<lambda>_.
      bindS (check_lcmocc_in_progress inst_id) (\<lambda>_.
      if in_instantiationState inst = NOT_INSTANTIATED \<and> rq_vimConnectionInfo body \<noteq> None
      then raiseS (Sol (SolValidationError ''vimConnectionInfo cannot be modified in NOT_INSTANTIATED.''))
      else
      bindS (case rq_vnfdId body of None \<Rightarrow> retS ()
             | Some v \<Rightarrow> whenS (v \<noteq> in_vnfdId inst) (check_pkg_enabled env v)) (\<lambda>_.
      bindS (liftS (update_vnfc_ids inst body)) (\<lambda>_.
      bindS (new_lcmocc env inst_id MODIFY_INFO body PROCESSING False) (\<lambda>lcmocc.
        submit env lcmocc ModifyVnfInfo)))))))"

text \<open>The VIM connections of an instantiate request are completed from the VIM database, in
  the order of the dictionary; the entries are the occurrence's own.\<close>

definition complete_req_vims :: "env \<Rightarrow> lcm_op_occ \<Rightarrow> lcm_op_occ pyres" where
  "complete_req_vims env lcmocc = (case rq_vimConnectionInfo (oc_operationParams lcmocc) of
      None \<Rightarrow> Inr lcmocc
    | Some vis \<Rightarrow> bindE (mapE (complete_vim_info env) vis) (\<lambda>vis'. Inr (set_req_vims vis' lcmocc)))"

definition instantiate :: "env \<Rightarrow> string \<Rightarrow> op_params \<Rightarrow> response vnfm" where
  "instantiate env inst_id body = lock_vnf_instance env inst_id
     (bindS (get_inst inst_id) (\<lambda>inst.
      bindS (check_policy env inst ''instantiate'') (\<lambda>_.
      if in_instantiationState inst \<noteq> NOT_INSTANTIATED then raiseS (Sol (VnfInstanceIsInstantiated inst_id))
      else
      bindS (check_lcmocc_in_progress inst_id) (\<lambda>_.
      bindS (new_lcmocc env inst_id INSTANTIATE body STARTING False) (\<lambda>lcmocc0.
      bindS (liftS (complete_req_vims env lcmocc0)) (\<lambda>lcmocc.
        submit env lcmocc StartLcmOp))))))"

text \<open>The checks that every operation on an instantiated VNF starts with.\<close>

definition on_instantiated :: "env \<Rightarrow> string \<Rightarrow> string \<Rightarrow> (vnf_instance \<Rightarrow> response vnfm) \<Rightarrow> response vnfm" where
  "on_instantiated env action inst_id body =
     bindS (get_inst inst_id) (\<lambda>inst.
     bindS (check_policy env inst action) (\<lambda>_.
     if in_instantiationState inst \<noteq> INSTANTIATED then raiseS (Sol (VnfInstanceIsNotInstantiated inst_id))
     else bindS (check_lcmocc_in_progress inst_id) (\<lambda>_. body inst)))"

definition start_operation :: "env \<Rightarrow> string \<Rightarrow> op_type \<Rightarrow> op_params \<Rightarrow> response vnfm" where
  "start_operation env inst_id operation body =
     bindS (new_lcmocc env inst_id operation body STARTING False) (\<lambda>lcmocc. submit env lcmocc StartLcmOp)"

definition vnf_terminate :: "env \<Rightarrow> string \<Rightarrow> op_params \<Rightarrow> response vnfm" where
  "vnf_terminate env inst_id body = lock_vnf_instance env inst_id
     (on_instantiated env ''terminate'' inst_id (\<lambda>inst. start_operation env inst_id TERMINATE body))"

text \<open>\<^verbatim>\<open>scale\<close> and \<^verbatim>\<open>heal\<close> do not take the lock.\<close>

definition default_steps :: "op_params \<Rightarrow> op_params" where
  "default_steps body = (case rq_numberOfSteps body of None \<Rightarrow> body\<lparr>rq_numberOfSteps := Some 1\<rparr> | Some _ \<Rightarrow> body)"

definition scale :: "env \<Rightarrow> string \<Rightarrow> op_params \<Rightarrow> response vnfm" where
  "scale env inst_id body0 =
     on_instantiated env ''scale'' inst_id (\<lambda>inst.
     let body = default_steps body0 in
     bindS (liftS (bindE (attr ''aspectId'' (rq_aspectId body)) (\<lambda>aspect_id.
        bindE (attr ''type'' (rq_type body)) (\<lambda>ty.
        bindE (attr ''numberOfSteps'' (rq_numberOfSteps body)) (\<lambda>n.
          check_scale_level inst aspect_id ty n))))) (\<lambda>_.
       start_operation env inst_id SCALE body))"

definition heal_all_valid :: "op_params \<Rightarrow> bool" where
  "heal_all_valid body = (case rq_additionalParams body of None \<Rightarrow> True
     | Some p \<Rightarrow> (case map_of p ''all'' of None \<Rightarrow> True | Some (JBool b) \<Rightarrow> True | Some _ \<Rightarrow> False))"

definition heal :: "env \<Rightarrow> string \<Rightarrow> op_params \<Rightarrow> response vnfm" where
  "heal env inst_id body =
     on_instantiated env ''heal'' inst_id (\<lambda>inst.
     if \<not> heal_all_valid body
     then raiseS (Sol (SolValidationError (''additionalParams['' @ quoted ''all'' @ ''] must be bool.'')))
     else
     bindS (liftS (case rq_vnfcInstanceId body of None \<Rightarrow> Inr () | Some ids \<Rightarrow> check_vnfc_ids inst ids)) (\<lambda>_.
       start_operation env inst_id HEAL body))"

definition change_ext_conn :: "env \<Rightarrow> string \<Rightarrow> op_params \<Rightarrow> response vnfm" where
  "change_ext_conn env inst_id body = lock_vnf_instance env inst_id
     (on_instantiated env ''change_ext_conn'' inst_id (\<lambda>inst. start_operation env inst_id CHANGE_EXT_CONN body))"

subsection \<open>Change of the package\<close>

definition invalid :: "string \<Rightarrow> exn" where
  "invalid d = Sol (SolValidationError d)"

definition check_vnfc_param :: "string \<Rightarrow> json \<Rightarrow> unit pyres" where
  "check_vnfc_param name vdu_param =
     bindE (jitem vdu_param name) (\<lambda>p.
     foldE (\<lambda>key _. bindE (jcontains p key) (\<lambda>b. if b then Inr ()
         else Inl (invalid (''If you set '' @ name @ '' in vdu_param, you must set '' @ quoted ''cp_name'' @ '', '' @
              quoted ''username'' @ '' and '' @ quoted ''password''))))
       [''cp_name'', ''username'', ''password''] ())"

definition check_script_param :: "string \<Rightarrow> string \<Rightarrow> json \<Rightarrow> json \<Rightarrow> unit pyres" where
  "check_script_param vim_type name script vdu_param =
     (if vim_type = ''ETSINFV.OPENSTACK_KEYSTONE.V_3'' \<and> py_truthy script
      then bindE (jcontains vdu_param name) (\<lambda>b.
        if b then check_vnfc_param name vdu_param
        else Inl (invalid (quoted name @ '' must exist in vdu_param'')))
      else Inr ())"

definition check_vdu_param :: "string list \<Rightarrow> string \<Rightarrow> json \<Rightarrow> json \<Rightarrow> json \<Rightarrow> unit pyres" where
  "check_vdu_param inst_vdu_ids vim_type new_script old_script vdu_param =
     bindE (jcontains vdu_param ''vdu_id'') (\<lambda>has_id.
     if \<not> has_id then Inl (invalid
       ''If you set vdu_params in additionalParams, youmust set vdu_id for each element.'')
     else bindE (jitem vdu_param ''vdu_id'') (\<lambda>vdu_id.
       if vdu_id \<notin> JStr ` set inst_vdu_ids
       then Inl (invalid (''vdu_id '' @ quoted (case vdu_id of JStr s \<Rightarrow> s | j \<Rightarrow> py_type_name j) @ '' does not exist.''))
       else bindE (check_script_param vim_type ''new_vnfc_param'' new_script vdu_param) (\<lambda>_.
            check_script_param vim_type ''old_vnfc_param'' old_script vdu_param)))"

definition check_vdu_params :: "vnf_instance \<Rightarrow> json \<Rightarrow> string \<Rightarrow> json \<Rightarrow> json \<Rightarrow> unit pyres" where
  "check_vdu_params inst params vim_type new_script old_script =
     bindE (attr ''instantiatedVnfInfo'' (in_instantiatedVnfInfo inst)) (\<lambda>info.
     bindE (jlist params) (\<lambda>vdu_params.
       foldE (\<lambda>p _. check_vdu_param (map vr_vduId (opt_list (iv_vnfcResourceInfo info)))
         vim_type new_script old_script p) vdu_params ()))"

definition check_vnfpkg_params :: "vnf_instance \<Rightarrow> jdict \<Rightarrow> unit pyres" where
  "check_vnfpkg_params inst params =
     bindE (jget (JObj params) ''upgrade_type'' (JStr [])) (\<lambda>ty.
     if ty \<noteq> JStr ''RollingUpdate''
     then Inl (Sol (NotSupportUpgradeType (case ty of JStr s \<Rightarrow> s | j \<Rightarrow> py_type_name j)))
     else
     bindE (selected_vim inst) (\<lambda>vim.
     bindE (jget (JObj params) ''vdu_params'' JNull) (\<lambda>ps.
     if ps = JNull then Inl (invalid (quoted ''vdu_params'' @ '' must exist in additionalParams''))
     else
     bindE (found ''vimType'' vim) (\<lambda>vi.
     bindE (check_vdu_params inst ps (vi_vimType vi)
        (or_null (map_of params ''lcm-operation-coordinate-new-vnf''))
        (or_null (map_of params ''lcm-operation-coordinate-old-vnf''))) (\<lambda>_.
     if vi_vimType vi = ''ETSINFV.KUBERNETES.V_1'' \<and> \<not> py_truthy (or_null (map_of params ''lcm-kubernetes-def-files''))
     then Inl (must_be_specified ''lcm-kubernetes-def-files'') else Inr ())))))"

definition change_vnfpkg :: "env \<Rightarrow> string \<Rightarrow> op_params \<Rightarrow> response vnfm" where
  "change_vnfpkg env inst_id body = lock_vnf_instance env inst_id
     (on_instantiated env ''change_vnfpkg'' inst_id (\<lambda>inst.
      bindS (liftS (attr ''vnfdId'' (rq_vnfdId body))) (\<lambda>vnfd_id.
      bindS (check_pkg_enabled env vnfd_id) (\<lambda>_.
      bindS (liftS (case rq_additionalParams body of
               None \<Rightarrow> Inl (invalid (''Change Current VNF Package operation must have '' @ quoted ''additionalParams''))
             | Some params \<Rightarrow> check_vnfpkg_params inst params)) (\<lambda>_.
        start_operation env inst_id CHANGE_VNFPKG body)))))"

subsection \<open>Subscriptions\<close>

record subsc_request =
  sq_filter :: "lccn_filter option"
  sq_callbackUri :: string
  sq_authentication :: "json option"
  sq_verbosity :: "verbosity option"

definition subscription_create :: "env \<Rightarrow> subsc_request \<Rightarrow> response vnfm" where
  "subscription_create env body =
     bindS (generate_uuid env) (\<lambda>i.
     let subsc = \<lparr>sb_id = i, sb_filter = sq_filter body, sb_callbackUri = sq_callbackUri body,
           sb_authentication = sq_authentication body,
           sb_verbosity = (case sq_verbosity body of None \<Rightarrow> FULL | Some v \<Rightarrow> v)\<rparr> in
     bindS (liftS (test_notification env subsc)) (\<lambda>_.
     bindS (subsc_create subsc) (\<lambda>_.
       retS \<lparr>rs_status = 201, rs_location = Some (subsc_href i (ev_endpoint env))\<rparr>)))"

definition subscription_delete :: "string \<Rightarrow> response vnfm" where
  "subscription_delete subsc_id =
     bindS (get_subsc subsc_id) (\<lambda>subsc.
     bindS (modS (\<lambda>w. w\<lparr>w_subscs := row_del sb_id subsc_id (w_subscs w)\<rparr>)) (\<lambda>_.
       retS \<lparr>rs_status = 204, rs_location = None\<rparr>))"

subsection \<open>Operation occurrences\<close>

text \<open>Retry and rollback select the VIM connection before they send the message; the selected
  value is not used, but the selection may raise.\<close>

definition occ_vim_selectable :: "env \<Rightarrow> lcm_op_occ \<Rightarrow> unit vnfm" where
  "occ_vim_selectable env lcmocc =
     (if oc_operation lcmocc = INSTANTIATE
      then (case rq_vimConnectionInfo (oc_operationParams lcmocc) of
              Some _ \<Rightarrow> retS ()
            | None \<Rightarrow> liftS (bindE (found ''vimType'' (get_default_vim env)) (\<lambda>_. Inr ())))
      else bindS (get_inst (oc_vnfInstanceId lcmocc)) (\<lambda>inst.
             liftS (bindE (attr ''vimConnectionInfo'' (in_vimConnectionInfo inst)) (\<lambda>_. Inr ()))))"

definition on_failed_temp :: "env \<Rightarrow> string \<Rightarrow> (lcm_op_occ \<Rightarrow> response vnfm) \<Rightarrow> response vnfm" where
  "on_failed_temp env lcmocc_id body =
     bindS (get_lcmocc lcmocc_id) (\<lambda>lcmocc. lock_vnf_instance env (oc_vnfInstanceId lcmocc)
       (if oc_operationState lcmocc \<noteq> FAILED_TEMP then raiseS (Sol (LcmOpOccNotFailedTemp (oc_id lcmocc)))
        else body lcmocc))"

definition lcm_op_occ_retry :: "env \<Rightarrow> string \<Rightarrow> response vnfm" where
  "lcm_op_occ_retry env lcmocc_id = on_failed_temp env lcmocc_id (\<lambda>lcmocc.
     bindS (occ_vim_selectable env lcmocc) (\<lambda>_.
     bindS (cast_rpc (RetryLcmOp (oc_id lcmocc))) (\<lambda>_. retS \<lparr>rs_status = 202, rs_location = None\<rparr>)))"

definition lcm_op_occ_rollback :: "env \<Rightarrow> string \<Rightarrow> response vnfm" where
  "lcm_op_occ_rollback env lcmocc_id = on_failed_temp env lcmocc_id (\<lambda>lcmocc.
     bindS (occ_vim_selectable env lcmocc) (\<lambda>_.
     bindS (cast_rpc (RollbackLcmOp (oc_id lcmocc))) (\<lambda>_. retS \<lparr>rs_status = 202, rs_location = None\<rparr>)))"

definition delete_saved_grants :: "(grant_request \<times> grant) option \<Rightarrow> world \<Rightarrow> world" where
  "delete_saved_grants gg w = (case gg of None \<Rightarrow> w | Some (q, g) \<Rightarrow> grants_delete q g w)"

definition lcm_op_occ_fail :: "env \<Rightarrow> string \<Rightarrow> response vnfm" where
  "lcm_op_occ_fail env lcmocc_id = on_failed_temp env lcmocc_id (\<lambda>lcmocc.
     bindS (get_inst (oc_vnfInstanceId lcmocc)) (\<lambda>inst.
     bindS (get_grant_req_and_grant lcmocc) (\<lambda>gg.
     bindS (update_lcmocc_status env FAILED lcmocc) (\<lambda>l.
     bindS (modS (\<lambda>w. delete_saved_grants gg (lcmocc_update l w))) (\<lambda>_.
     bindS (send_lcmocc_notification env l inst) (\<lambda>_.
       retS \<lparr>rs_status = 200, rs_location = None\<rparr>))))))"

definition lcm_op_occ_delete :: "env \<Rightarrow> string \<Rightarrow> response vnfm" where
  "lcm_op_occ_delete env lcmocc_id =
     (if \<not> ev_enable_occ_delete env then raiseS (Sol (MethodNotAllowed ''DELETE''))
      else bindS (get_lcmocc lcmocc_id) (\<lambda>lcmocc.
        bindS (modS (\<lambda>w. w\<lparr>w_occs := row_del oc_id lcmocc_id (w_occs w)\<rparr>)) (\<lambda>_.
          retS \<lparr>rs_status = 204, rs_location = None\<rparr>)))"

end
