(* ===== verification/Lcm_Auto.thy ===== *)
theory Lcm_Auto
  imports Controller
begin

section \<open>Automatic operations (sol\_refactored/conductor/vnflcm\_auto.py)\<close>

text \<open>
  Healing and scaling that the conductor starts itself: the checks of the API handlers, under the
  lock of the instance, the new occurrence with \<open>isAutomaticInvocation\<close> set, and then, with the lock
  released, the operation itself. No message is cast. The request is the dictionary that the
  drivers of the conductor build; as in Controller, an attribute is \<open>Some\<close> when it has the key.
\<close>

definition item :: "string \<Rightarrow> 'a option \<Rightarrow> 'a pyres" where
  "item k x = (case x of None \<Rightarrow> Inl (key_error k) | Some v \<Rightarrow> Inr v)"

definition auto_checked :: "string \<Rightarrow> (vnf_instance \<Rightarrow> 'a vnfm) \<Rightarrow> 'a vnfm" where
  "auto_checked vnf_instance_id body =
     bindS (get_inst vnf_instance_id) (\<lambda>inst.
     if in_instantiationState inst \<noteq> INSTANTIATED then raiseS (Sol (VnfInstanceIsNotInstantiated vnf_instance_id))
     else bindS (check_lcmocc_in_progress vnf_instance_id) (\<lambda>_. body inst))"

definition auto_occ :: "env \<Rightarrow> string \<Rightarrow> op_type \<Rightarrow> op_params \<Rightarrow> lcm_op_occ vnfm" where
  "auto_occ env vnf_instance_id operation req =
     bindS (new_lcmocc env vnf_instance_id operation req STARTING True) (\<lambda>lcmocc.
     bindS (lcmocc_create lcmocc) (\<lambda>_. retS lcmocc))"

definition auto_heal_pre :: "env \<Rightarrow> string \<Rightarrow> op_params \<Rightarrow> lcm_op_occ vnfm" where
  "auto_heal_pre env vnf_instance_id heal_req = lock_vnf_instance env vnf_instance_id
     (auto_checked vnf_instance_id (\<lambda>inst.
      bindS (liftS (case rq_vnfcInstanceId heal_req of None \<Rightarrow> Inr () | Some ids \<Rightarrow> check_vnfc_ids inst ids)) (\<lambda>_.
        auto_occ env vnf_instance_id HEAL heal_req)))"

definition auto_heal :: "env \<Rightarrow> string \<Rightarrow> op_params \<Rightarrow> unit vnfm" where
  "auto_heal env vnf_instance_id heal_req =
     bindS (auto_heal_pre env vnf_instance_id heal_req) (start_lcm_op_internal env)"

definition auto_scale_pre :: "env \<Rightarrow> string \<Rightarrow> op_params \<Rightarrow> lcm_op_occ vnfm" where
  "auto_scale_pre env vnf_instance_id scale_req0 = lock_vnf_instance env vnf_instance_id
     (auto_checked vnf_instance_id (\<lambda>inst.
      let scale_req = default_steps scale_req0 in
      bindS (liftS (bindE (item ''aspectId'' (rq_aspectId scale_req)) (\<lambda>aspect_id.
         bindE (item ''type'' (rq_type scale_req)) (\<lambda>ty.
         bindE (item ''numberOfSteps'' (rq_numberOfSteps scale_req)) (\<lambda>n.
           check_scale_level inst aspect_id ty n))))) (\<lambda>_.
        auto_occ env vnf_instance_id SCALE scale_req)))"

definition auto_scale :: "env \<Rightarrow> string \<Rightarrow> op_params \<Rightarrow> unit vnfm" where
  "auto_scale env vnf_instance_id scale_req =
     bindS (auto_scale_pre env vnf_instance_id scale_req) (start_lcm_op_internal env)"

end
