(* ===== verification/Vnfm_System.thy ===== *)
theory Vnfm_System
  imports Conductor_Refine Lcm_Auto
begin

section \<open>The VNFM as a whole\<close>

text \<open>
  The server and the conductor together: a step of \<open>vnfm_step\<close> is a request to the API, the
  handling of a message by the conductor, the loss of a message, a restart of the conductor
  (the dictionaries of the local NFVO are lost and interrupted operations are repaired), a
  run of the periodic synchronisation or an operation that the conductor starts itself. The
  environment may answer differently at every step.

  Every step is a sequence of \<open>sys_step\<close> on the tables and keeps \<open>vnfm_inv\<close>
  (\<open>vnfm_step_safe\<close>), so what Lcm\_Spec proves of the specification holds of every world
  the VNFM can reach.
\<close>

subsection \<open>Messages\<close>

definition same_rpcs :: "world \<Rightarrow> world \<Rightarrow> bool" where
  "same_rpcs w w' \<longleftrightarrow> w_rpcs w' = w_rpcs w"

lemma rpcs_transp: "transp same_rpcs" and rpcs_reflp: "reflp same_rpcs"
  by (auto simp: transp_def reflp_def same_rpcs_def)

lemma rpcs_basic:
  "keepsS same_rpcs (retS x)" "keepsS same_rpcs (liftS m)" "keepsS same_rpcs (getS f)" "keepsS same_rpcs (raiseS e)"
  "keepsS same_rpcs (get_inst i)" "keepsS same_rpcs (get_lcmocc i)"
  "keepsS same_rpcs (occ_enter env st l)" "keepsS same_rpcs (update_lcmocc_status env st l)"
  "keepsS same_rpcs (get_grant_req_and_grant l)" "keepsS same_rpcs (modS (lcmocc_update l))"
  "keepsS same_rpcs (granting env l inst)" "keepsS same_rpcs (regrant env v l inst)" "keepsS same_rpcs (grants_create q g)"
  by (auto simp: keepsS_def same_rpcs_def get_inst_def get_lcmocc_def occ_enter_run get_grant_req_and_grant_def
      update_lcmocc_status_def utcnow_def bindS_def world_ops granting_def regrant_def Let_def grants_create_run
      grant_exchange_def run_drawing_def split: option.splits sum.splits prod.splits)

lemma rpcs_delete_grants [simp]: "w_rpcs (delete_grants m w) = w_rpcs w" "w_rpcs (delete_saved_grants gg w) = w_rpcs w"
  by (auto simp: delete_grants_def delete_saved_grants_def grants_delete_def split: option.splits)

lemma rpcs_send: "keepsS same_rpcs (send_lcmocc_notification env l i)"
  using send_lcmocc_keeps by (simp add: keepsS_def same_tables_def same_rpcs_def)

lemma rpcs_bind: "keepsS same_rpcs c \<Longrightarrow> (\<And>x. keepsS same_rpcs (f x)) \<Longrightarrow> keepsS same_rpcs (bindS c f)"
  by (rule keepsS_bindS [OF rpcs_transp])

lemma rpcs_modS: "(\<And>w. w_rpcs (f w) = w_rpcs w) \<Longrightarrow> keepsS same_rpcs (modS f)"
  by (simp add: keepsS_def same_rpcs_def)

lemma rpcs_lock: "keepsS same_rpcs c \<Longrightarrow> keepsS same_rpcs (lock_vnf_instance env i c)"
  by (simp add: lock_vnf_instance_def rpcs_basic)

lemmas rpcs_rules = rpcs_basic rpcs_send rpcs_bind rpcs_lock

lemma rpcs_ends:
  "keepsS same_rpcs (fail_with env st e data l)" "keepsS same_rpcs (complete_with env f m)"
  "keepsS same_rpcs (rolled_back env m)"
  unfolding fail_with_def complete_with_def rolled_back_def
  by (auto intro!: rpcs_rules rpcs_modS simp: world_ops)

lemma rpcs_read: "(\<And>w. \<exists>c'. c w = c' w \<and> keepsS same_rpcs c') \<Longrightarrow> keepsS same_rpcs c"
  unfolding keepsS_def by metis

lemma rpcs_phases: "keepsS same_rpcs (processing env f vnfd m)" "keepsS same_rpcs (rolling_back env vnfd m)"
proof -
  show "keepsS same_rpcs (processing env f vnfd m)"
  proof (rule rpcs_read)
    fix w
    show "\<exists>c'. processing env f vnfd m w = c' w \<and> keepsS same_rpcs c'"
      by (cases "process env w vnfd m"; cases "fst (process env w vnfd m)")
        (auto simp: processing_def intro!: exI rpcs_rules rpcs_ends)
  qed
  show "keepsS same_rpcs (rolling_back env vnfd m)"
  proof (rule rpcs_read)
    fix w
    show "\<exists>c'. rolling_back env vnfd m w = c' w \<and> keepsS same_rpcs c'"
      by (cases "rollback env vnfd m"; cases "fst (rollback env vnfd m)")
        (auto simp: rolling_back_def intro!: exI rpcs_rules rpcs_ends)
  qed
qed

lemma rpcs_store: "keepsS same_rpcs (store_grants env vnfd m)"
  by (auto simp: keepsS_def same_rpcs_def store_grants_def occ_enter_run bindS_def grants_create_run world_ops Let_def
      split: option.splits)

lemma rpcs_conductor:
  "keepsS same_rpcs (start_lcm_op_internal env l)" "keepsS same_rpcs (retry_lcm_op_internal env l)"
  "keepsS same_rpcs (rollback_lcm_op_internal env l)" "keepsS same_rpcs (modify_vnfinfo_internal env l)"
  unfolding start_lcm_op_internal_def retry_lcm_op_internal_def rollback_lcm_op_internal_def
    modify_vnfinfo_internal_def starting_def
  by (auto intro!: rpcs_rules rpcs_ends rpcs_phases rpcs_store split: sum.splits option.splits simp: Let_def)

subsection \<open>Steps of the VNFM\<close>

datatype api_call =
    ApiCreate create_request | ApiDelete string | ApiUpdate string op_params
  | ApiInstantiate string op_params | ApiTerminate string op_params | ApiScale string op_params
  | ApiHeal string op_params | ApiChangeExtConn string op_params | ApiChangeVnfpkg string op_params
  | ApiRetry string | ApiRollback string | ApiFail string | ApiOccDelete string
  | ApiSubscribe subsc_request | ApiUnsubscribe string

fun run_api :: "env \<Rightarrow> api_call \<Rightarrow> response vnfm" where
  "run_api env (ApiCreate body) = create env body"
| "run_api env (ApiDelete i) = delete env i"
| "run_api env (ApiUpdate i body) = update env i body"
| "run_api env (ApiInstantiate i body) = instantiate env i body"
| "run_api env (ApiTerminate i body) = vnf_terminate env i body"
| "run_api env (ApiScale i body) = scale env i body"
| "run_api env (ApiHeal i body) = heal env i body"
| "run_api env (ApiChangeExtConn i body) = change_ext_conn env i body"
| "run_api env (ApiChangeVnfpkg i body) = change_vnfpkg env i body"
| "run_api env (ApiRetry i) = lcm_op_occ_retry env i"
| "run_api env (ApiRollback i) = lcm_op_occ_rollback env i"
| "run_api env (ApiFail i) = lcm_op_occ_fail env i"
| "run_api env (ApiOccDelete i) = lcm_op_occ_delete env i"
| "run_api env (ApiSubscribe body) = subscription_create env body"
| "run_api env (ApiUnsubscribe i) = subscription_delete i"

fun run_rpc :: "env \<Rightarrow> rpc \<Rightarrow> unit vnfm" where
  "run_rpc env (StartLcmOp i) = start_lcm_op env i"
| "run_rpc env (RetryLcmOp i) = retry_lcm_op env i"
| "run_rpc env (RollbackLcmOp i) = rollback_lcm_op env i"
| "run_rpc env (ModifyVnfInfo i) = modify_vnfinfo env i"

definition take_rpc :: "rpc \<Rightarrow> world \<Rightarrow> world" where
  "take_rpc m w = w\<lparr>w_rpcs := remove1 m (w_rpcs w)\<rparr>"

definition forget :: "world \<Rightarrow> world" where
  "forget w = w\<lparr>w_inst_vim_info := [], w_inst_vnfd_id := []\<rparr>"

text \<open>The API that deletes an occurrence is for tests and has to be enabled in the
  configuration; the steps are those of a VNFM where it is not.\<close>

inductive vnfm_step :: "world \<Rightarrow> world \<Rightarrow> bool" where
  api: "\<not> ev_enable_occ_delete env \<Longrightarrow> run_api env a w = (r, w') \<Longrightarrow> vnfm_step w w'"
| rpc: "m \<in> set (w_rpcs w) \<Longrightarrow> run_rpc env m (take_rpc m w) = (r, w') \<Longrightarrow> vnfm_step w w'"
| lost: "m \<in> set (w_rpcs w) \<Longrightarrow> vnfm_step w (take_rpc m w)"
| restart: "change_lcm_op_state env (forget w) = (r, w') \<Longrightarrow> vnfm_step w w'"
| sync: "sync_db_all env w = (r, w') \<Longrightarrow> vnfm_step w w'"
| heal_auto: "auto_heal env i req w = (r, w') \<Longrightarrow> vnfm_step w w'"
| scale_auto: "auto_scale env i req w = (r, w') \<Longrightarrow> vnfm_step w w'"

abbreviation vnfm_steps :: "world \<Rightarrow> world \<Rightarrow> bool" where
  "vnfm_steps \<equiv> vnfm_step\<^sup>*\<^sup>*"

definition initial_world :: "lccn_subscription list \<Rightarrow> pkg_row list \<Rightarrow> world" where
  "initial_world subscs pkgs =
     \<lparr>w_insts = [], w_occs = [], w_grant_reqs = [], w_grants = [], w_subscs = subscs, w_pkgs = pkgs,
      w_uuids = 0, w_ticks = 0, w_notifs = [], w_rpcs = [], w_inst_vim_info = [], w_inst_vnfd_id = [],
      w_image_deletes = []\<rparr>"

subsection \<open>The invariant\<close>

definition rpcs_ok :: "lcm_op_occ list \<Rightarrow> rpc list \<Rightarrow> bool" where
  "rpcs_ok P ms \<longleftrightarrow> (\<forall>i. ModifyVnfInfo i \<in> set ms \<longrightarrow>
     (\<exists>l. row_find oc_id P i = Some l \<and> oc_operation l = MODIFY_INFO))"

definition vnfm_inv :: "world \<Rightarrow> bool" where
  "vnfm_inv w \<longleftrightarrow> rows_wf oc_id (w_occs w) \<and> grants_inv (tabs w) \<and> grants_held (tabs w) \<and>
     rpcs_ok (w_occs w) (w_rpcs w)"

lemma rpcs_ok_evolves: "evolves P P' \<Longrightarrow> rpcs_ok P ms \<Longrightarrow> rpcs_ok P' ms"
  unfolding evolves_def rpcs_ok_def by metis

lemma tabs_occs: "fst (snd (tabs w)) = w_occs w"
  by (simp add: tabs_def)

lemma sys_steps_inv:
  assumes "sys_steps (tabs w) (tabs w')" and "vnfm_inv w" and "w_rpcs w' = w_rpcs w"
  shows "vnfm_inv w'"
proof -
  have "rows_wf oc_id (w_occs w')"
    using sys_steps_wf [OF assms(1)] assms(2) by (simp add: vnfm_inv_def tabs_occs)
  moreover have "evolves (w_occs w) (w_occs w')"
    using sys_steps_evolve [OF assms(1)] by (simp add: tabs_occs)
  ultimately show ?thesis
    using assms grants_inv_steps [OF assms(1)] grants_held_steps [OF assms(1)] rpcs_ok_evolves by (auto simp: vnfm_inv_def)
qed

text \<open>\<open>safe c Q\<close>: from a world that satisfies the invariant, \<open>c\<close> makes only steps of the
  specification and keeps the invariant; a value it returns satisfies \<open>Q\<close>.\<close>

definition safe :: "'a vnfm \<Rightarrow> ('a \<Rightarrow> bool) \<Rightarrow> bool" where
  "safe c Q \<longleftrightarrow> (\<forall>w r w'. vnfm_inv w \<longrightarrow> c w = (r, w') \<longrightarrow>
     sys_steps (tabs w) (tabs w') \<and> vnfm_inv w' \<and> (\<forall>x. r = Inr x \<longrightarrow> Q x))"

lemma safeD:
  assumes "safe c Q" and "vnfm_inv w" and "c w = (r, w')"
  shows "sys_steps (tabs w) (tabs w')" "vnfm_inv w'" "r = Inr x \<Longrightarrow> Q x"
  using assms unfolding safe_def by blast+

lemma safe_bind:
  assumes "safe c Q" and "\<And>x. Q x \<Longrightarrow> safe (f x) R"
  shows "safe (bindS c f) R"
  unfolding safe_def
proof (intro allI impI)
  fix w r w'
  assume inv: "vnfm_inv w" and run: "bindS c f w = (r, w')"
  obtain r1 w1 where c: "c w = (r1, w1)" by force
  note c1 = safeD [OF assms(1) inv c]
  show "sys_steps (tabs w) (tabs w') \<and> vnfm_inv w' \<and> (\<forall>x. r = Inr x \<longrightarrow> R x)"
  proof (cases r1)
    case (Inl e)
    with run c c1 show ?thesis by (auto simp: bindS_def)
  next
    case (Inr x)
    with run c have "f x w1 = (r, w')" by (simp add: bindS_def)
    from safeD [OF assms(2) [OF c1(3) [OF Inr]] c1(2) this] c1(1)
    show ?thesis by (auto intro: rtranclp_trans)
  qed
qed

lemma safe_mono: "safe c Q \<Longrightarrow> (\<And>x. Q x \<Longrightarrow> R x) \<Longrightarrow> safe c R"
  unfolding safe_def by fastforce

lemma safe_same:
  assumes "keepsS same_tables c"
  shows "safe c (\<lambda>_. True)"
  unfolding safe_def
proof (intro allI impI)
  fix w r w'
  assume "vnfm_inv w" "c w = (r, w')"
  moreover from this(2) have "same_tables w w'" using assms by (blast dest: keepsSD)
  then have "tabs w' = tabs w" "w_rpcs w' = w_rpcs w" by (simp_all add: same_tables_def tabs_def)
  ultimately show "sys_steps (tabs w) (tabs w') \<and> vnfm_inv w' \<and> (\<forall>x. r = Inr x \<longrightarrow> True)"
    using sys_steps_inv [of w w'] by simp
qed

lemma safe_insts:
  assumes "\<And>w. \<exists>I. snd (c w) = w\<lparr>w_insts := I\<rparr>"
  shows "safe c (\<lambda>_. True)"
  unfolding safe_def
proof (intro allI impI)
  fix w r w'
  assume inv: "vnfm_inv w" and "c w = (r, w')"
  then obtain I where w': "w' = w\<lparr>w_insts := I\<rparr>" using assms [of w] by auto
  have "sys_step (tabs w) (tabs w')" by (simp add: tabs_def w' sys_insts)
  then show "sys_steps (tabs w) (tabs w') \<and> vnfm_inv w' \<and> (\<forall>x. r = Inr x \<longrightarrow> True)"
    using sys_steps_inv [of w w'] inv w' by (simp add: r_into_rtranclp)
qed

text \<open>A program on a stored occurrence that refines the specification.\<close>

lemma occ_program:
  assumes "row_find oc_id (w_occs w) i = Some l" and "refines J l c Q" and "c w = (r, w')"
  obtains l' where "(lcm_stepJ J)\<^sup>*\<^sup>* (l, tabs w) (l', tabs w')" "sys_steps (tabs w) (tabs w')"
    "row_find oc_id (w_occs w') i = Some l'" "\<forall>x. r = Inr x \<longrightarrow> Q x l'"
proof -
  have i: "oc_id l = i" using assms(1) by (rule occs.lookup_key)
  obtain l' where l': "(lcm_stepJ J)\<^sup>*\<^sup>* (l, tabs w) (l', tabs w')" "\<forall>x. r = Inr x \<longrightarrow> Q x l'"
    using refinesD [OF assms(2,3)] by blast
  have "sys_steps (tabs w) (tabs w') \<and> row_find oc_id (w_occs w') (oc_id l') = Some l' \<and> oc_id l' = oc_id l"
    using lcm_steps_sys [OF lcm_stepsJ_steps [OF l'(1), unfolded tabs_def]] assms(1) i by (auto simp: tabs_def)
  with l'(2) i show ?thesis by (intro that [OF l'(1)]) auto
qed

lemma safe_occ:
  assumes "\<And>l. refines J l (c l) (Q l)" and "\<And>l. keepsS same_rpcs (c l)"
  shows "safe (bindS (get_lcmocc i) c) (\<lambda>_. True)"
  unfolding safe_def
proof (intro allI impI)
  fix w r w'
  assume inv: "vnfm_inv w" and run: "bindS (get_lcmocc i) c w = (r, w')"
  show "sys_steps (tabs w) (tabs w') \<and> vnfm_inv w' \<and> (\<forall>x. r = Inr x \<longrightarrow> True)"
  proof (cases "row_find oc_id (w_occs w) i")
    case None
    with run inv show ?thesis by (auto simp: bindS_def get_lcmocc_def)
  next
    case (Some l)
    then have c: "c l w = (r, w')" using run by (simp add: bindS_def get_lcmocc_def)
    obtain l' where "sys_steps (tabs w) (tabs w')" using occ_program [OF Some assms(1) c] by blast
    moreover have "w_rpcs w' = w_rpcs w" using keepsSD [OF assms(2) c] by (simp add: same_rpcs_def)
    ultimately show ?thesis using sys_steps_inv inv by blast
  qed
qed

lemma safe_raise: "safe (raiseS e) Q"
  by (simp add: safe_def)

lemma safe_ret: "Q x \<Longrightarrow> safe (retS x) Q"
  by (simp add: safe_def)

lemma safe_if: "(b \<Longrightarrow> safe c Q) \<Longrightarrow> (\<not> b \<Longrightarrow> safe d Q) \<Longrightarrow> safe (if b then c else d) Q"
  by simp

lemma safe_lock: "safe c Q \<Longrightarrow> safe (lock_vnf_instance env i c) Q"
  by (simp add: lock_vnf_instance_def safe_raise)

lemma safe_lift: "(\<And>x. m = Inr x \<Longrightarrow> safe (f x) Q) \<Longrightarrow> safe (bindS (liftS m) f) Q"
  by (cases m) (simp_all add: safe_def bindS_def)

text \<open>Sequencing after a program that leaves the tables alone.\<close>

lemma safe_then: "keepsS same_tables c \<Longrightarrow> (\<And>x. safe (f x) Q) \<Longrightarrow> safe (bindS c f) Q"
  by (rule safe_bind [OF safe_same]) auto

lemma same_reads:
  "keepsS same_tables (get_inst i)" "keepsS same_tables (get_lcmocc i)" "keepsS same_tables (get_subsc i)"
  "keepsS same_tables (check_lcmocc_in_progress i)" "keepsS same_tables (check_policy env inst a)"
  "keepsS same_tables (check_pkg_enabled env v)" "keepsS same_tables (occ_vim_selectable env l)"
  "keepsS same_tables (\<lambda>w. (f w, w))"
  by (auto simp: keepsS_def get_inst_def get_lcmocc_def get_subsc_def check_lcmocc_in_progress_def
      check_policy_def check_pkg_enabled_def occ_vim_selectable_def bindS_def split: option.splits sum.splits prod.splits if_splits)

subsection \<open>The API\<close>

lemma submit_safe:
  assumes "oc_operationState l = (if oc_operation l = MODIFY_INFO then PROCESSING else STARTING)"
    and "msg = StartLcmOp \<or> msg = ModifyVnfInfo \<and> oc_operation l = MODIFY_INFO"
  shows "safe (submit env l msg) (\<lambda>_. True)"
  unfolding safe_def
proof (intro allI impI)
  fix w r w'
  assume inv: "vnfm_inv w" and run: "submit env l msg w = (r, w')"
  show "sys_steps (tabs w) (tabs w') \<and> vnfm_inv w' \<and> (\<forall>x. r = Inr x \<longrightarrow> True)"
  proof (cases "row_find oc_id (w_occs w) (oc_id l)")
    case (Some k)
    with run inv show ?thesis by (simp add: submit_def lcmocc_create_def db_create_def bindS_def)
  next
    case None
    let ?w = "w\<lparr>w_occs := row_add l (w_occs w)\<rparr>"
    have w': "w' = ?w\<lparr>w_rpcs := w_rpcs w @ [msg (oc_id l)]\<rparr>"
      using run None by (simp add: submit_def lcmocc_create_def db_create_def bindS_def cast_rpc_def)
    have "sys_step (tabs w) (tabs ?w)" using None assms(1) by (simp add: tabs_def sys_new_occ)
    then have st: "sys_steps (tabs w) (tabs ?w)" by (rule r_into_rtranclp)
    then have "vnfm_inv ?w" using inv by (rule sys_steps_inv) simp
    then have "vnfm_inv w'"
      using assms(2) None by (auto simp: vnfm_inv_def w' rpcs_ok_def tabs_def row_find_add)
    with st show ?thesis by (simp add: w' tabs_def)
  qed
qed

lemma new_lcmocc_safe:
  "safe (new_lcmocc env i operation body st b) (\<lambda>l. oc_operationState l = st \<and> oc_operation l = operation)"
proof -
  have "safe (new_lcmocc env i operation body st b) (\<lambda>_. True)"
    unfolding new_lcmocc_def by (intro safe_same keeps_bindS keeps_basic keeps_clock)
  then show ?thesis
    unfolding safe_def by (auto simp: new_lcmocc_def bindS_def utcnow_def generate_uuid_def)
qed

lemma start_operation_safe: "operation \<noteq> MODIFY_INFO \<Longrightarrow> safe (start_operation env i operation body) (\<lambda>_. True)"
  unfolding start_operation_def by (auto intro!: safe_bind [OF new_lcmocc_safe] submit_safe)

lemma on_instantiated_safe:
  "(\<And>inst. safe (body inst) (\<lambda>_. True)) \<Longrightarrow> safe (on_instantiated env action i body) (\<lambda>_. True)"
  unfolding on_instantiated_def by (intro safe_then same_reads safe_if safe_raise)

lemmas safe_rules = safe_lock safe_then safe_if safe_raise safe_ret on_instantiated_safe start_operation_safe
  same_reads keeps_basic keeps_clock

lemma create_safe: "safe (create env body) (\<lambda>_. True)"
proof -
  have "\<exists>I. snd (inst_create inst w) = w\<lparr>w_insts := I\<rparr>" for inst w
    by (auto simp: inst_create_def db_create_def intro: exI [of _ "w_insts w"])
  then show ?thesis
    unfolding create_def Let_def
    by (intro safe_rules safe_bind [OF safe_insts] send_inst_create_keeps) auto
qed

lemma delete_safe: "safe (delete env i) (\<lambda>_. True)"
proof -
  have "\<exists>I. snd (modS (inst_delete inst) w :: (exn + unit) \<times> world) = w\<lparr>w_insts := I\<rparr>" for inst w
    by (auto simp: inst_delete_def)
  then show ?thesis
    unfolding delete_def
    by (intro safe_rules safe_bind [OF safe_insts] send_inst_delete_keeps) auto
qed

lemma update_safe: "safe (update env i body) (\<lambda>_. True)"
proof -
  have "keepsS same_tables (case rq_vnfdId body of None \<Rightarrow> retS ()
      | Some v \<Rightarrow> whenS (v \<noteq> in_vnfdId inst) (check_pkg_enabled env v))" for inst
    by (auto intro: same_reads split: option.splits)
  then show ?thesis
    unfolding update_def
    by (intro safe_rules safe_bind [OF new_lcmocc_safe]) (auto intro: submit_safe)
qed

lemma instantiate_safe: "safe (instantiate env i body) (\<lambda>_. True)"
proof -
  have "oc_operation l' = oc_operation l \<and> oc_operationState l' = oc_operationState l"
    if "complete_req_vims env l = Inr l'" for l l'
    using that by (auto simp: complete_req_vims_def set_req_vims_def bindE_eq_Inr split: option.splits)
  then have "safe (bindS (liftS (complete_req_vims env l)) (\<lambda>l. submit env l StartLcmOp)) (\<lambda>_. True)"
    if "oc_operationState l = STARTING \<and> oc_operation l = INSTANTIATE" for l
    using that by (intro safe_lift submit_safe) auto
  then have tail: "safe (bindS (new_lcmocc env i INSTANTIATE body STARTING False) (\<lambda>l.
      bindS (liftS (complete_req_vims env l)) (\<lambda>l. submit env l StartLcmOp))) (\<lambda>_. True)"
    by (rule safe_bind [OF new_lcmocc_safe])
  show ?thesis unfolding instantiate_def by (intro tail safe_rules)
qed

lemma operations_safe:
  "safe (vnf_terminate env i body) (\<lambda>_. True)" "safe (scale env i body) (\<lambda>_. True)" "safe (heal env i body) (\<lambda>_. True)"
  "safe (change_ext_conn env i body) (\<lambda>_. True)" "safe (change_vnfpkg env i body) (\<lambda>_. True)"
  unfolding vnf_terminate_def scale_def heal_def change_ext_conn_def change_vnfpkg_def Let_def
  by (intro safe_rules op_type.distinct)+

lemma subscriptions_safe:
  "safe (subscription_create env b) (\<lambda>_. True)" "safe (subscription_delete j) (\<lambda>_. True)"
proof -
  have s: "safe c (\<lambda>_. True)" if upd: "\<And>w. \<exists>S. snd (c w) = w\<lparr>w_subscs := S\<rparr>" for c :: "unit vnfm"
    unfolding safe_def
  proof (intro allI impI)
    fix w r w'
    assume "vnfm_inv w" "c w = (r, w')"
    moreover from this obtain S where "w' = w\<lparr>w_subscs := S\<rparr>" using upd [of w] by auto
    ultimately show "sys_steps (tabs w) (tabs w') \<and> vnfm_inv w' \<and> (\<forall>x. r = Inr x \<longrightarrow> True)"
      by (simp add: vnfm_inv_def tabs_def)
  qed
  have "\<exists>S. snd (subsc_create x w) = w\<lparr>w_subscs := S\<rparr>" for x w
    by (auto simp: subsc_create_def db_create_def intro: exI [of _ "w_subscs w"])
  then show "safe (subscription_create env b) (\<lambda>_. True)"
    unfolding subscription_create_def Let_def by (intro safe_rules safe_bind [OF s]) auto
  show "safe (subscription_delete j) (\<lambda>_. True)"
    unfolding subscription_delete_def by (intro safe_rules safe_bind [OF s]) auto
qed

lemma cast_safe: "(\<forall>i. m \<noteq> ModifyVnfInfo i) \<Longrightarrow> safe (cast_rpc m) (\<lambda>_. True)"
  by (auto simp: safe_def cast_rpc_def vnfm_inv_def tabs_def rpcs_ok_def)

lemma occ_calls_safe: "safe (lcm_op_occ_retry env i) (\<lambda>_. True)" "safe (lcm_op_occ_rollback env i) (\<lambda>_. True)"
  unfolding lcm_op_occ_retry_def lcm_op_occ_rollback_def on_failed_temp_def
  by (intro safe_rules safe_bind [OF cast_safe]; simp)+

lemma fail_body_refines:
  assumes "oc_operationState l = FAILED_TEMP"
  shows "refines J l (bindS (get_inst (oc_vnfInstanceId l)) (\<lambda>inst.
     bindS (get_grant_req_and_grant l) (\<lambda>gg.
     bindS (update_lcmocc_status env FAILED l) (\<lambda>l.
     bindS (modS (\<lambda>w. delete_saved_grants gg (lcmocc_update l w))) (\<lambda>_.
     bindS (send_lcmocc_notification env l inst) (\<lambda>_. retS \<lparr>rs_status = 200, rs_location = None\<rparr>))))))
     (\<lambda>_ l'. oc_operationState l' = FAILED)"
proof (rule refines_get_inst_bind, rule refines_bind)
  fix inst
  show "refines J l (get_grant_req_and_grant l) (\<lambda>gg k. k = l \<and> (\<exists>w. get_grant_req_and_grant l w = (Inr gg, w)))"
    by (rule refines_keep) (auto simp: get_grant_req_and_grant_def split: if_splits)
next
  fix inst gg k
  assume gg: "k = l \<and> (\<exists>w. get_grant_req_and_grant l w = (Inr gg, w))"
  let ?c = "bindS (update_lcmocc_status env FAILED l) (\<lambda>l.
     bindS (modS (\<lambda>w. delete_saved_grants gg (lcmocc_update l w))) (\<lambda>_. retS l))"
  have drop: "drop_grants l (w_grant_reqs w, w_grants w)
      (w_grant_reqs (delete_saved_grants gg w), w_grants (delete_saved_grants gg w))" for w
    using gg mem_grants_drop [OF saved_grant_result, of l _ gg] 
    by (auto simp: delete_grants_def delete_saved_grants_def split: option.splits)
  have "refines J l ?c (\<lambda>l' x. oc_operationState x = FAILED)"
  proof (rule refines_one)
    fix w w' :: world and r
    let ?l = "l\<lparr>oc_operationState := FAILED, oc_stateEnteredTime := ev_clock env (w_ticks w)\<rparr>"
    assume "?c w = (r, w')"
    then have t: "r = Inr ?l" "tabs w' = (w_insts w, row_upd oc_id ?l (w_occs w),
        w_grant_reqs (delete_saved_grants gg w), w_grants (delete_saved_grants gg w))"
      by (auto simp: bindS_def update_lcmocc_status_def utcnow_def tabs_def delete_saved_grants_def world_ops
          split: option.splits)
    have "lcm_step (l, tabs w) (?l, tabs w')"
      unfolding t(2) tabs_def [of w] by (rule failed [OF assms moved_enter drop])
    with t show "\<exists>x l'. r = Inr x \<and> lcm_step (l, tabs w) (l', tabs w') \<and> (w_insts w' = w_insts w \<or> J l') \<and>
        oc_operationState l' = FAILED"
      by (auto simp: tabs_def)
  qed
  then have "refines J l (bindS ?c (\<lambda>l. bindS (send_lcmocc_notification env l inst)
      (\<lambda>_. retS \<lparr>rs_status = 200, rs_location = None\<rparr>))) (\<lambda>_ l'. oc_operationState l' = FAILED)"
    by (rule refines_bind) (intro refines_send_bind refines_ret)
  then show "refines J k (bindS (update_lcmocc_status env FAILED l) (\<lambda>l.
     bindS (modS (\<lambda>w. delete_saved_grants gg (lcmocc_update l w))) (\<lambda>_.
     bindS (send_lcmocc_notification env l inst) (\<lambda>_. retS \<lparr>rs_status = 200, rs_location = None\<rparr>))))
     (\<lambda>_ l'. oc_operationState l' = FAILED)"
    using gg by (simp add: bindS_assoc bindS_retS)
qed

lemma fail_safe: "safe (lcm_op_occ_fail env i) (\<lambda>_. True)"
  unfolding lcm_op_occ_fail_def on_failed_temp_def
proof (rule safe_occ)
  fix l
  show "refines J l (lock_vnf_instance env (oc_vnfInstanceId l)
     (if oc_operationState l \<noteq> FAILED_TEMP then raiseS (Sol (LcmOpOccNotFailedTemp (oc_id l)))
      else bindS (get_inst (oc_vnfInstanceId l)) (\<lambda>inst.
     bindS (get_grant_req_and_grant l) (\<lambda>gg.
     bindS (update_lcmocc_status env FAILED l) (\<lambda>l.
     bindS (modS (\<lambda>w. delete_saved_grants gg (lcmocc_update l w))) (\<lambda>_.
     bindS (send_lcmocc_notification env l inst) (\<lambda>_. retS \<lparr>rs_status = 200, rs_location = None\<rparr>)))))))
     (\<lambda>_ l'. oc_operationState l' = FAILED)"
    by (intro refines_lock refines_if fail_body_refines refines_raise) simp
qed (auto intro!: rpcs_rules rpcs_modS simp: world_ops)

subsection \<open>The conductor\<close>

lemma rpc_safe: "safe (start_lcm_op env i) (\<lambda>_. True)" "safe (retry_lcm_op env i) (\<lambda>_. True)"
  "safe (rollback_lcm_op env i) (\<lambda>_. True)"
  unfolding start_lcm_op_def retry_lcm_op_def rollback_lcm_op_def
  by (rule safe_occ start_refines retry_refines rollback_refines rpcs_conductor)+

lemma modify_safe:
  assumes "vnfm_inv w" and "\<exists>l. row_find oc_id (w_occs w) i = Some l \<and> oc_operation l = MODIFY_INFO"
    and run: "modify_vnfinfo env i w = (r, w')"
  shows "sys_steps (tabs w) (tabs w') \<and> vnfm_inv w'"
proof -
  obtain l where l: "row_find oc_id (w_occs w) i = Some l" "oc_operation l = MODIFY_INFO" using assms(2) by blast
  have c: "modify_vnfinfo_internal env l w = (r, w')"
    using run l(1) by (simp add: modify_vnfinfo_def bindS_def get_lcmocc_def)
  have "sys_steps (tabs w) (tabs w')" using occ_program [OF l(1) modify_refines [OF l(2)] c] by blast
  moreover have "w_rpcs w' = w_rpcs w" using keepsSD [OF rpcs_conductor(4) c] by (simp add: same_rpcs_def)
  ultimately show ?thesis using sys_steps_inv assms(1) by blast
qed

definition insts_only :: "world \<Rightarrow> world \<Rightarrow> bool" where
  "insts_only w w' \<longleftrightarrow> w' = w\<lparr>w_insts := w_insts w'\<rparr>"

lemma insts_only_transp: "transp insts_only" and insts_only_reflp: "reflp insts_only"
  by (auto simp: transp_def reflp_def insts_only_def) (metis world.update_convs(1) world.surjective)

lemma sync_one_insts: "keepsS insts_only (sync_one env inst)"
  unfolding keepsS_def sync_one_def tryS_def sync_inst_def lock_vnf_instance_def
  by (auto simp: insts_only_def bindS_def inst_update_def get_inst_def split: sum.splits prod.splits option.splits bool.splits if_splits)

lemma sync_safe: "safe (sync_db_all env) (\<lambda>_. True)"
proof (rule safe_insts)
  fix w
  have "keepsS insts_only (sync_db_all env)"
    unfolding sync_db_all_def
    by (intro keepsS_bindS [OF insts_only_transp] keepsS_forS [OF insts_only_reflp insts_only_transp] sync_one_insts)
      (simp add: keepsS_def insts_only_def)
  then show "\<exists>I. snd (sync_db_all env w) = w\<lparr>w_insts := I\<rparr>"
    unfolding keepsS_def insts_only_def by blast
qed

subsection \<open>Automatic operations\<close>

lemma auto_occ_safe:
  assumes "auto_occ env i operation req w = (r, w')" and "vnfm_inv w" and "operation \<noteq> MODIFY_INFO"
  shows "sys_steps (tabs w) (tabs w') \<and> vnfm_inv w' \<and> (\<forall>l. r = Inr l \<longrightarrow> row_find oc_id (w_occs w') (oc_id l) = Some l)"
proof -
  obtain l w1 where new: "new_lcmocc env i operation req STARTING True w = (Inr l, w1)"
    by (auto simp: new_lcmocc_def bindS_def utcnow_def generate_uuid_def)
  note l = safeD [OF new_lcmocc_safe assms(2) new]
  show ?thesis
  proof (cases "row_find oc_id (w_occs w1) (oc_id l)")
    case (Some k)
    with assms(1) new l show ?thesis by (auto simp: auto_occ_def bindS_def lcmocc_create_def db_create_def)
  next
    case None
    then have r: "r = Inr l" "w' = w1\<lparr>w_occs := row_add l (w_occs w1)\<rparr>"
      using assms(1) new by (simp_all add: auto_occ_def bindS_def lcmocc_create_def db_create_def)
    have "sys_step (tabs w1) (tabs w')" using None l(3) [OF refl] assms(3) by (simp add: r tabs_def sys_new_occ)
    then have st: "sys_steps (tabs w1) (tabs w')" by (rule r_into_rtranclp)
    then have "vnfm_inv w'" by (rule sys_steps_inv) (simp_all add: l(2) r)
    with st l(1) r None show ?thesis by (auto simp: row_find_add intro: rtranclp_trans)
  qed
qed

lemma start_stored:
  assumes "start_lcm_op_internal env l w = (r, w')" and "vnfm_inv w" and "row_find oc_id (w_occs w) (oc_id l) = Some l"
  shows "sys_steps (tabs w) (tabs w') \<and> vnfm_inv w'"
proof -
  have "sys_steps (tabs w) (tabs w')" using occ_program [OF assms(3) start_refines assms(1)] by blast
  moreover have "w_rpcs w' = w_rpcs w" using keepsSD [OF rpcs_conductor(1) assms(1)] by (simp add: same_rpcs_def)
  ultimately show ?thesis using sys_steps_inv assms(2) by blast
qed

text \<open>\<open>stores c\<close>: \<open>c\<close> is safe and an occurrence it returns is stored as it is returned.\<close>

definition stores :: "lcm_op_occ vnfm \<Rightarrow> bool" where
  "stores c \<longleftrightarrow> (\<forall>w r w'. vnfm_inv w \<longrightarrow> c w = (r, w') \<longrightarrow>
     sys_steps (tabs w) (tabs w') \<and> vnfm_inv w' \<and> (\<forall>l. r = Inr l \<longrightarrow> row_find oc_id (w_occs w') (oc_id l) = Some l))"

lemma stores_raise: "stores (raiseS e)"
  by (simp add: stores_def)

lemma stores_then:
  assumes "keepsS same_tables c" and "\<And>x. stores (f x)"
  shows "stores (bindS c f)"
  unfolding stores_def
proof (intro allI impI)
  fix w r w'
  assume inv: "vnfm_inv w" and run: "bindS c f w = (r, w')"
  obtain r1 w1 where c: "c w = (r1, w1)" by force
  note c1 = safeD [OF safe_same [OF assms(1)] inv c]
  show "sys_steps (tabs w) (tabs w') \<and> vnfm_inv w' \<and> (\<forall>l. r = Inr l \<longrightarrow> row_find oc_id (w_occs w') (oc_id l) = Some l)"
  proof (cases r1)
    case (Inl e)
    with run c c1 show ?thesis by (auto simp: bindS_def)
  next
    case (Inr x)
    with run c have "f x w1 = (r, w')" by (simp add: bindS_def)
    from assms(2) [unfolded stores_def, rule_format, OF c1(2) this] c1(1) show ?thesis
      by (auto intro: rtranclp_trans)
  qed
qed

lemma stores_pre:
  "stores (auto_heal_pre env i req)" "stores (auto_scale_pre env i req)"
proof -
  have occ: "stores (auto_occ env i operation body)" if "operation \<noteq> MODIFY_INFO" for operation body
    using auto_occ_safe that unfolding stores_def by blast
  have lock: "stores (lock_vnf_instance env i c)" if "stores c" for c
    using that by (simp add: lock_vnf_instance_def stores_raise)
  have chk: "stores (auto_checked i body)" if "\<And>inst. stores (body inst)" for body
    unfolding auto_checked_def using that by (auto intro!: stores_then same_reads stores_raise)
  show "stores (auto_heal_pre env i req)" "stores (auto_scale_pre env i req)"
    unfolding auto_heal_pre_def auto_scale_pre_def Let_def
    by (intro lock chk stores_then keeps_basic occ; simp)+
qed

lemma auto_safe:
  assumes "stores c"
  shows "safe (bindS c (start_lcm_op_internal env)) (\<lambda>_. True)"
  unfolding safe_def
proof (intro allI impI)
  fix w r w'
  assume inv: "vnfm_inv w" and run: "bindS c (start_lcm_op_internal env) w = (r, w')"
  obtain r1 w1 where c: "c w = (r1, w1)" by force
  note c1 = assms [unfolded stores_def, rule_format, OF inv c]
  show "sys_steps (tabs w) (tabs w') \<and> vnfm_inv w' \<and> (\<forall>x. r = Inr x \<longrightarrow> True)"
  proof (cases r1)
    case (Inl e)
    with run c c1 show ?thesis by (auto simp: bindS_def)
  next
    case (Inr l)
    with run c have "start_lcm_op_internal env l w1 = (r, w')" by (simp add: bindS_def)
    from start_stored [OF this] c1 Inr show ?thesis by (auto intro: rtranclp_trans)
  qed
qed

lemma auto_operations_safe: "safe (auto_heal env i req) (\<lambda>_. True)" "safe (auto_scale env i req) (\<lambda>_. True)"
  unfolding auto_heal_def auto_scale_def by (intro auto_safe stores_pre)+

subsection \<open>Restart\<close>

lemma repair_run:
  assumes "repair_occ env a l w = (r, w')"
  shows "(\<exists>e. r = Inl e) \<and> tabs w' = tabs w \<and> w_rpcs w' = w_rpcs w \<or>
    (\<exists>l'. moved l a l' \<and> oc_error l' \<noteq> None \<and> w_rpcs w' = w_rpcs w \<and>
       tabs w' = (w_insts w, row_upd oc_id l' (w_occs w), w_grant_reqs w, w_grants w))"
proof -
  let ?l = "l\<lparr>oc_operationState := a, oc_stateEnteredTime := ev_clock env (w_ticks w)\<rparr>"
  let ?l' = "set_lcmocc_error (Sol ConductorProcessingError) [] ?l"
  let ?w = "w\<lparr>w_ticks := Suc (w_ticks w)\<rparr>"
  show ?thesis
  proof (cases "row_find in_id (w_insts w) (oc_vnfInstanceId l)")
    case None
    with assms show ?thesis
      by (auto simp: repair_occ_def update_lcmocc_status_def bindS_def utcnow_def get_inst_def Let_def tabs_def)
  next
    case (Some inst)
    then have "send_lcmocc_notification env ?l' inst (lcmocc_update ?l' ?w) = (r, w')"
      using assms by (simp add: repair_occ_def update_lcmocc_status_def bindS_def utcnow_def get_inst_def Let_def)
    from keepsSD [OF send_lcmocc_keeps this]
    have "tabs w' = (w_insts w, row_upd oc_id ?l' (w_occs w), w_grant_reqs w, w_grants w)" "w_rpcs w' = w_rpcs w"
      by (simp_all add: same_tables_def tabs_def lcmocc_update_def)
    moreover have "moved l a ?l'" "oc_error ?l' \<noteq> None"
      by (simp_all add: moved_def occ_core_def set_lcmocc_error_def)
    ultimately show ?thesis by blast
  qed
qed

lemma repair_step:
  assumes "oc_operationState l = b" and "(b, a) \<in> set interrupted_states"
    and "moved l a l'" and "oc_error l' \<noteq> None"
  shows "lcm_step (l, I, P, Q, G) (l', I, row_upd oc_id l' P, Q, G)"
proof (cases "b = STARTING")
  case True
  with assms have "moved (l\<lparr>oc_grantId := oc_grantId l\<rparr>) ROLLED_BACK l'" by (auto simp: interrupted_states_def)
  with True assms show ?thesis by (blast intro: reject)
next
  case False
  with assms show ?thesis by (auto simp: interrupted_states_def intro: fail_temp)
qed

text \<open>The repair of the occurrences that were found in a state: each is stored as it was found
  until its turn comes.\<close>

lemma repair_all:
  assumes "forS (repair_occ env a) xs w = (r, w')" and "vnfm_inv w" and "(b, a) \<in> set interrupted_states"
    and "distinct (map oc_id xs)"
    and "\<And>l. l \<in> set xs \<Longrightarrow> row_find oc_id (w_occs w) (oc_id l) = Some l \<and> oc_operationState l = b"
  shows "sys_steps (tabs w) (tabs w') \<and> vnfm_inv w' \<and>
    (r = Inr () \<longrightarrow> (\<forall>i l. row_find oc_id (w_occs w') i = Some l \<longrightarrow>
        (if i \<in> oc_id ` set xs then oc_operationState l = a else row_find oc_id (w_occs w) i = Some l)))"
  using assms
proof (induction xs arbitrary: w)
  case Nil
  then show ?case by simp
next
  case (Cons l xs)
  obtain r1 w1 where c: "repair_occ env a l w = (r1, w1)" by force
  have l: "row_find oc_id (w_occs w) (oc_id l) = Some l" "oc_operationState l = b" using Cons.prems(5) by simp_all
  from repair_run [OF c] show ?case
  proof
    assume "(\<exists>e. r1 = Inl e) \<and> tabs w1 = tabs w \<and> w_rpcs w1 = w_rpcs w"
    with Cons.prems(1,2) c sys_steps_inv [of w w1] show ?thesis by (auto simp: bindS_def)
  next
    assume "\<exists>l'. moved l a l' \<and> oc_error l' \<noteq> None \<and> w_rpcs w1 = w_rpcs w \<and>
       tabs w1 = (w_insts w, row_upd oc_id l' (w_occs w), w_grant_reqs w, w_grants w)"
    then obtain l' where l': "moved l a l'" "oc_error l' \<noteq> None" "w_rpcs w1 = w_rpcs w"
      "tabs w1 = (w_insts w, row_upd oc_id l' (w_occs w), w_grant_reqs w, w_grants w)" by blast
    have "sys_step (tabs w) (tabs w1)"
      unfolding l'(4) tabs_def [of w] by (rule sys_op [OF l(1) repair_step [OF l(2) Cons.prems(3) l'(1,2)]])
    then have st: "sys_steps (tabs w) (tabs w1)" by (rule r_into_rtranclp)
    then have inv: "vnfm_inv w1" using Cons.prems(2) l'(3) by (rule sys_steps_inv)
    note id = moved_simps(1,2) [OF l'(1)]
    have occs: "row_find oc_id (w_occs w1) i = (if i = oc_id l then Some l' else row_find oc_id (w_occs w) i)" for i
      using l'(4) id by (simp add: tabs_def row_find_upd)
    show ?thesis
    proof (cases r1)
      case (Inl e)
      with Cons.prems(1) c st inv show ?thesis by (auto simp: bindS_def)
    next
      case (Inr u)
      then have run: "forS (repair_occ env a) xs w1 = (r, w')" using Cons.prems(1) c by (simp add: bindS_def)
      have "sys_steps (tabs w1) (tabs w') \<and> vnfm_inv w' \<and>
        (r = Inr () \<longrightarrow> (\<forall>i l. row_find oc_id (w_occs w') i = Some l \<longrightarrow>
          (if i \<in> oc_id ` set xs then oc_operationState l = a else row_find oc_id (w_occs w1) i = Some l)))"
        by (rule Cons.IH [OF run inv Cons.prems(3)])
          (use Cons.prems(4,5) in \<open>auto simp: occs intro: imageI dest: sym\<close>)
      with st show ?thesis using occs id(1) by (auto intro: rtranclp_trans split: if_splits)
    qed
  qed
qed

definition occ_states :: "world \<Rightarrow> op_state set" where
  "occ_states w = oc_operationState ` set (w_occs w)"

lemma repair_phase:
  assumes "bindS (getS (\<lambda>w. row_filter (\<lambda>l. oc_operationState l = b) (w_occs w))) (forS (repair_occ env a)) w = (r, w')"
    and inv: "vnfm_inv w" and "(b, a) \<in> set interrupted_states"
  shows "sys_steps (tabs w) (tabs w') \<and> vnfm_inv w' \<and> (r = Inr () \<longrightarrow> occ_states w' \<subseteq> insert a (occ_states w - {b}))"
proof -
  let ?xs = "filter (\<lambda>l. oc_operationState l = b) (w_occs w)"
  have wf: "rows_wf oc_id (w_occs w)" using inv by (simp add: vnfm_inv_def)
  have run: "forS (repair_occ env a) ?xs w = (r, w')" using assms(1) by (simp add: bindS_def row_filter_def)
  have dist: "distinct (map oc_id ?xs)" using wf by (simp add: rows_wf_def distinct_map_filter)
  have stored: "row_find oc_id (w_occs w) (oc_id l) = Some l \<and> oc_operationState l = b" if "l \<in> set ?xs" for l
    using that by (simp add: row_find_wf [OF wf])
  note all = repair_all [OF run inv assms(3) dist stored]
  have wf': "rows_wf oc_id (w_occs w')" using all by (simp add: vnfm_inv_def)
  have "oc_operationState l \<in> insert a (occ_states w - {b})" if "r = Inr ()" "l \<in> set (w_occs w')" for l
  proof -
    have "row_find oc_id (w_occs w') (oc_id l) = Some l" using that(2) by (simp add: row_find_wf [OF wf'])
    then have res: "if oc_id l \<in> oc_id ` set ?xs then oc_operationState l = a
        else row_find oc_id (w_occs w) (oc_id l) = Some l"
      using all that(1) by blast
    show ?thesis
    proof (cases "oc_id l \<in> oc_id ` set ?xs")
      case True
      with res show ?thesis by simp
    next
      case False
      with res have "l \<in> set (w_occs w)" by (simp add: row_find_wf [OF wf])
      moreover from this False have "oc_operationState l \<noteq> b" by auto
      ultimately show ?thesis by (simp add: occ_states_def)
    qed
  qed
  with all show ?thesis by (auto simp: occ_states_def)
qed

lemma phases_mono:
  "S \<subseteq> S' \<Longrightarrow> fold (\<lambda>(b, a) S. insert a (S - {b})) ps S \<subseteq> fold (\<lambda>(b, a) S. insert a (S - {b})) ps S'"
proof (induction ps arbitrary: S S')
  case (Cons p ps)
  obtain b a where "p = (b, a)" by (cases p)
  moreover have "insert a (S - {b}) \<subseteq> insert a (S' - {b})" using Cons.prems by auto
  ultimately show ?case using Cons.IH by simp
qed simp

lemma forS_ConsE:
  assumes "forS f (x # xs) s = (r, t)"
  obtains (stop) e where "f x s = (Inl e, t)" "r = Inl e"
    | (go) u s1 where "f x s = (Inr u, s1)" "forS f xs s1 = (r, t)"
  using assms by (auto simp: bindS_def split: prod.splits sum.splits)

lemma repair_phases:
  assumes "forS (\<lambda>(before_state, after_state).
      bindS (getS (\<lambda>w. row_filter (\<lambda>l. oc_operationState l = before_state) (w_occs w)))
        (forS (repair_occ env after_state))) ps w = (r, w')"
    and "vnfm_inv w" and "set ps \<subseteq> set interrupted_states"
  shows "sys_steps (tabs w) (tabs w') \<and> vnfm_inv w' \<and>
    (r = Inr () \<longrightarrow> occ_states w' \<subseteq> fold (\<lambda>(b, a) S. insert a (S - {b})) ps (occ_states w))"
  using assms
proof (induction ps arbitrary: w)
  case (Cons p ps)
  let ?phase = "\<lambda>(before_state, after_state).
      bindS (getS (\<lambda>w. row_filter (\<lambda>l. oc_operationState l = before_state) (w_occs w)))
        (forS (repair_occ env after_state))"
  obtain b a where p: "p = (b, a)" by (cases p)
  have ph: "sys_steps (tabs w) (tabs w1) \<and> vnfm_inv w1 \<and> (r1 = Inr () \<longrightarrow> occ_states w1 \<subseteq> insert a (occ_states w - {b}))"
    if "?phase p w = (r1, w1)" for r1 w1
    using that p Cons.prems(2,3) by (intro repair_phase [of b env a]) auto
  from Cons.prems(1) show ?case
  proof (cases rule: forS_ConsE)
    case (stop e)
    with ph show ?thesis by blast
  next
    case (go u w1)
    then have "sys_steps (tabs w1) (tabs w') \<and> vnfm_inv w' \<and>
      (r = Inr () \<longrightarrow> occ_states w' \<subseteq> fold (\<lambda>(b, a) S. insert a (S - {b})) ps (occ_states w1))"
      using Cons.IH ph [OF go(1)] Cons.prems(3) by simp
    moreover have "fold (\<lambda>(b, a) S. insert a (S - {b})) ps (occ_states w1) \<subseteq>
        fold (\<lambda>(b, a) S. insert a (S - {b})) (p # ps) (occ_states w)"
      using phases_mono [of "occ_states w1" "insert a (occ_states w - {b})" ps] ph [OF go(1)] p by simp
    ultimately show ?thesis using ph [OF go(1)] by (blast intro: rtranclp_trans)
  qed
qed simp

lemma forget_simps [simp]: "tabs (forget w) = tabs w" "w_rpcs (forget w) = w_rpcs w" "vnfm_inv (forget w) = vnfm_inv w"
  by (simp_all add: forget_def tabs_def vnfm_inv_def)

lemma restart_safe:
  assumes "change_lcm_op_state env (forget w) = (r, w')" and "vnfm_inv w"
  shows "sys_steps (tabs w) (tabs w') \<and> vnfm_inv w' \<and>
    (r = Inr () \<longrightarrow> occ_states w' \<inter> {STARTING, PROCESSING, ROLLING_BACK} = {})"
  using repair_phases [OF assms(1) [unfolded change_lcm_op_state_def]] assms(2)
  by (auto simp: interrupted_states_def)

subsection \<open>Every step is safe\<close>

lemma take_rpc_simps [simp]: "tabs (take_rpc m w) = tabs w" "w_occs (take_rpc m w) = w_occs w"
  by (simp_all add: take_rpc_def tabs_def)

lemma take_rpc_inv: "vnfm_inv w \<Longrightarrow> vnfm_inv (take_rpc m w)"
  using set_remove1_subset by (fastforce simp: take_rpc_def vnfm_inv_def tabs_def rpcs_ok_def)

lemma run_api_safe:
  assumes "\<not> ev_enable_occ_delete env"
  shows "safe (run_api env a) (\<lambda>_. True)"
proof (cases a)
  case (ApiOccDelete i)
  then show ?thesis using assms by (simp add: lcm_op_occ_delete_def safe_raise)
qed (simp_all add: create_safe delete_safe update_safe instantiate_safe operations_safe occ_calls_safe fail_safe
      subscriptions_safe)

lemma run_rpc_safe:
  assumes "vnfm_inv w" and "m \<in> set (w_rpcs w)" and "run_rpc env m (take_rpc m w) = (r, w')"
  shows "sys_steps (tabs w) (tabs w') \<and> vnfm_inv w'"
proof (cases m)
  case (ModifyVnfInfo i)
  moreover have "\<exists>l. row_find oc_id (w_occs w) i = Some l \<and> oc_operation l = MODIFY_INFO"
    using assms(1,2) ModifyVnfInfo by (simp add: vnfm_inv_def rpcs_ok_def)
  ultimately show ?thesis using modify_safe [OF take_rpc_inv [OF assms(1)]] assms(3) by simp
qed (use safeD [OF rpc_safe(1) take_rpc_inv [OF assms(1)]] safeD [OF rpc_safe(2) take_rpc_inv [OF assms(1)]]
       safeD [OF rpc_safe(3) take_rpc_inv [OF assms(1)]] assms(3) in auto)

lemma vnfm_step_safe: "vnfm_step w w' \<Longrightarrow> vnfm_inv w \<Longrightarrow> sys_steps (tabs w) (tabs w') \<and> vnfm_inv w'"
proof (induction rule: vnfm_step.induct)
  case (api env a w r w')
  then show ?case using safeD [OF run_api_safe] by blast
next
  case (rpc m w env r w')
  then show ?case using run_rpc_safe by blast
next
  case (lost m w)
  then show ?case by (simp add: take_rpc_inv)
next
  case (restart env w r w')
  then show ?case using restart_safe by blast
next
  case (sync env w r w')
  then show ?case using safeD [OF sync_safe] by blast
next
  case (heal_auto env i req w r w')
  then show ?case using safeD [OF auto_operations_safe(1)] by blast
next
  case (scale_auto env i req w r w')
  then show ?case using safeD [OF auto_operations_safe(2)] by blast
qed

lemma vnfm_steps_safe: "vnfm_steps w w' \<Longrightarrow> vnfm_inv w \<Longrightarrow> sys_steps (tabs w) (tabs w') \<and> vnfm_inv w'"
  by (induction rule: rtranclp_induct) (auto dest: vnfm_step_safe)

lemma initial_inv: "vnfm_inv (initial_world subscs pkgs)"
  by (simp add: vnfm_inv_def initial_world_def tabs_def grants_inv_def grants_held_def rpcs_ok_def rows_wf_def row_find_def)

end
