(* ===== verification/Example_Run.thy ===== *)
theory Example_Run
  imports Vnfm_System
begin

section \<open>A history of the VNFM\<close>

text \<open>
  An instance is created and instantiated; the infra driver fails at first, so the operation
  is FAILED_TEMP, and it can be retried, rolled back or failed. The witnesses of the properties
  of the whole VNFM are evaluated on this history.
\<close>

definition ex_bad_env :: env where
  "ex_bad_env = ex_env\<lparr>ev_infra := (\<lambda>_ _ _ _ _ _ inst. (Inl (PyExc ValueError ''vim''), inst))\<rparr>"

definition ex_create :: create_request where
  "ex_create = \<lparr>cq_vnfdId = ''vnfd'', cq_vnfInstanceName = Some ''name'', cq_vnfInstanceDescription = None,
     cq_metadata = None\<rparr>"

definition ex_instantiate :: op_params where
  "ex_instantiate = empty_params\<lparr>rq_flavourId := Some ''fl'', rq_vimConnectionInfo := Some [(''vim'', ex_vim)]\<rparr>"

definition ex_w1 :: world where
  "ex_w1 = snd (run_api ex_env (ApiCreate ex_create) (initial_world [] []))"

definition ex_w2 :: world where
  "ex_w2 = snd (run_api ex_env (ApiInstantiate [] ex_instantiate) ex_w1)"

definition ex_w3 :: world where
  "ex_w3 = snd (run_rpc ex_bad_env (StartLcmOp ''u'') (take_rpc (StartLcmOp ''u'') ex_w2))"

lemma ex_step1: "vnfm_step (initial_world [] []) ex_w1"
  unfolding ex_w1_def by (rule vnfm_step.api [OF _ surjective_pairing]) (simp add: ex_env_def)

lemma ex_step2: "vnfm_step ex_w1 ex_w2"
  unfolding ex_w2_def by (rule vnfm_step.api [OF _ surjective_pairing]) (simp add: ex_env_def)

lemma ex_rpcs: "w_rpcs ex_w2 = [StartLcmOp ''u'']"
  by code_simp

lemma ex_step3: "vnfm_step ex_w2 ex_w3"
  unfolding ex_w3_def by (rule vnfm_step.rpc [OF _ surjective_pairing]) (simp add: ex_rpcs)

lemma ex_reach2: "vnfm_steps (initial_world [] []) ex_w2"
  using ex_step1 ex_step2 by (meson rtranclp.rtrancl_refl rtranclp.rtrancl_into_rtrancl)

lemma ex_reach3: "vnfm_steps (initial_world [] []) ex_w3" "vnfm_steps ex_w2 ex_w3"
  using ex_reach2 ex_step3 by auto

lemma find_stateI:
  "map_option oc_operationState (row_find oc_id P i) = Some st \<Longrightarrow>
     \<exists>l. row_find oc_id P i = Some l \<and> oc_operationState l = st"
  by (cases "row_find oc_id P i") auto

lemma ex_starting: "\<exists>l. row_find oc_id (w_occs ex_w2) ''u'' = Some l \<and> oc_operationState l = STARTING \<and>
    oc_grantId l = None"
proof -
  have "map_option (\<lambda>l. (oc_operationState l, oc_grantId l)) (row_find oc_id (w_occs ex_w2) ''u'') = Some (STARTING, None)"
    by code_simp
  then show ?thesis by (cases "row_find oc_id (w_occs ex_w2) ''u''") auto
qed

lemma ex_failed: "\<exists>l. row_find oc_id (w_occs ex_w3) ''u'' = Some l \<and> oc_operationState l = FAILED_TEMP"
  by (rule find_stateI) code_simp

definition ex_modify :: op_params where
  "ex_modify = empty_params\<lparr>rq_vnfInstanceName := Some ''new''\<rparr>"

definition ex_m2 :: world where
  "ex_m2 = snd (run_api ex_env (ApiUpdate [] ex_modify) ex_w1)"

lemma ex_modifying: "\<exists>l. row_find oc_id (w_occs ex_m2) ''u'' = Some l \<and> oc_operationState l = PROCESSING \<and>
    oc_operation l = MODIFY_INFO"
proof -
  have "map_option (\<lambda>l. (oc_operationState l, oc_operation l)) (row_find oc_id (w_occs ex_m2) ''u'') =
      Some (PROCESSING, MODIFY_INFO)"
    by code_simp
  then show ?thesis by (cases "row_find oc_id (w_occs ex_m2) ''u''") auto
qed

lemma returns_unit: "fst x = Inr () \<Longrightarrow> \<exists>s. x = (Inr (), s)"
  by (cases x) auto

end
