(* ===== verification/Api_Props.thy ===== *)
theory Api_Props
  imports Example_Run
begin

section \<open>What the API accepts and refuses\<close>

text \<open>
  A request for an LCM operation is either accepted, and then its whole effect is one new
  occurrence and one message to the conductor, or refused, and then nothing but the counters of
  identifiers and times has moved. \<open>opens\<close> states this of a handler at a world; its rules follow
  the structure of the handlers (a read that may refuse, a test, the creation of the occurrence).
\<close>

fun request_of :: "api_call \<Rightarrow> (string \<times> op_type) option" where
  "request_of (ApiUpdate i body) = Some (i, MODIFY_INFO)"
| "request_of (ApiInstantiate i body) = Some (i, INSTANTIATE)"
| "request_of (ApiTerminate i body) = Some (i, TERMINATE)"
| "request_of (ApiScale i body) = Some (i, SCALE)"
| "request_of (ApiHeal i body) = Some (i, HEAL)"
| "request_of (ApiChangeExtConn i body) = Some (i, CHANGE_EXT_CONN)"
| "request_of (ApiChangeVnfpkg i body) = Some (i, CHANGE_VNFPKG)"
| "request_of _ = None"

definition startable :: "op_type \<Rightarrow> instantiation_state \<Rightarrow> bool" where
  "startable operation st \<longleftrightarrow> operation = MODIFY_INFO \<or>
     st = (if operation = INSTANTIATE then NOT_INSTANTIATED else INSTANTIATED)"

definition blocked :: "string \<Rightarrow> world \<Rightarrow> bool" where
  "blocked i w \<longleftrightarrow> (\<exists>k \<in> set (w_occs w). oc_vnfInstanceId k = i \<and> oc_operationState k = FAILED_TEMP)"

definition first_state :: "op_type \<Rightarrow> op_state" where
  "first_state operation = (if operation = MODIFY_INFO then PROCESSING else STARTING)"

definition message :: "op_type \<Rightarrow> string \<Rightarrow> rpc" where
  "message operation = (if operation = MODIFY_INFO then ModifyVnfInfo else StartLcmOp)"

definition fresh_occ :: "string \<Rightarrow> op_type \<Rightarrow> lcm_op_occ \<Rightarrow> bool" where
  "fresh_occ i operation l \<longleftrightarrow> oc_vnfInstanceId l = i \<and> oc_operation l = operation \<and>
     oc_operationState l = first_state operation \<and> oc_error l = None \<and> oc_grantId l = None"

definition opened :: "string \<Rightarrow> op_type \<Rightarrow> world \<Rightarrow> lcm_op_occ \<Rightarrow> world \<Rightarrow> bool" where
  "opened i operation w l w' \<longleftrightarrow> fresh_occ i operation l \<and>
     row_find oc_id (w_occs w) (oc_id l) = None \<and> \<not> blocked i w \<and>
     (\<exists>inst. row_find in_id (w_insts w) i = Some inst \<and> startable operation (in_instantiationState inst)) \<and>
     w' = w\<lparr>w_occs := w_occs w @ [l], w_rpcs := w_rpcs w @ [message operation (oc_id l)],
            w_uuids := Suc (w_uuids w), w_ticks := Suc (w_ticks w)\<rparr>"

definition counted :: "world \<Rightarrow> world \<Rightarrow> bool" where
  "counted w w' \<longleftrightarrow> (\<exists>n m. w' = w\<lparr>w_uuids := n, w_ticks := m\<rparr>)"

definition opens :: "env \<Rightarrow> string \<Rightarrow> op_type \<Rightarrow> world \<Rightarrow> response vnfm \<Rightarrow> bool" where
  "opens env i operation w c \<longleftrightarrow> (\<forall>r w'. c w = (r, w') \<longrightarrow>
     (case r of Inl e \<Rightarrow> counted w w'
      | Inr resp \<Rightarrow> \<exists>l. resp = accepted env l \<and> opened i operation w l w'))"

lemma counted_refl [simp]: "counted w w"
  unfolding counted_def by (intro exI [of _ "w_uuids w"] exI [of _ "w_ticks w"]) simp

lemma opens_raise: "opens env i operation w (raiseS e)"
  by (simp add: opens_def)

lemma opens_read:
  assumes "\<And>r w'. c w = (r, w') \<Longrightarrow> w' = w" and "\<And>x. c w = (Inr x, w) \<Longrightarrow> opens env i operation w (f x)"
  shows "opens env i operation w (bindS c f)"
proof -
  obtain r w' where c: "c w = (r, w')" by force
  with assms(1) have "w' = w" by blast
  with c assms(2) show ?thesis by (cases r) (auto simp: opens_def bindS_def)
qed

lemma opens_lock: "opens env i operation w c \<Longrightarrow> opens env i operation w (lock_vnf_instance env j c)"
  by (simp add: lock_vnf_instance_def opens_raise)

lemma opens_if:
  "(b \<Longrightarrow> opens env i operation w c) \<Longrightarrow> (\<not> b \<Longrightarrow> opens env i operation w d) \<Longrightarrow>
     opens env i operation w (if b then c else d)"
  by simp

lemma opens_get_inst:
  "(\<And>inst. row_find in_id (w_insts w) j = Some inst \<Longrightarrow> opens env i operation w (f inst)) \<Longrightarrow>
     opens env i operation w (bindS (get_inst j) f)"
  by (rule opens_read) (auto simp: get_inst_def split: option.splits)

lemma blocked_run:
  "check_lcmocc_in_progress i w = (if blocked i w then Inl (Sol (OtherOperationInProgress i)) else Inr (), w)"
  by (auto simp: check_lcmocc_in_progress_def blocked_def row_filter_def filter_empty_conv)

lemma opens_in_progress:
  "(\<not> blocked j w \<Longrightarrow> opens env i operation w (f ())) \<Longrightarrow>
     opens env i operation w (bindS (check_lcmocc_in_progress j) f)"
  by (rule opens_read) (auto simp: blocked_run split: if_splits)

lemma opens_lift: "(\<And>x. opens env i operation w (f x)) \<Longrightarrow> opens env i operation w (bindS (liftS m) f)"
  by (rule opens_read) auto

lemma opens_policy: "(\<And>x. opens env i operation w (f x)) \<Longrightarrow> opens env i operation w (bindS (check_policy env' inst a) f)"
  by (rule opens_read) (auto simp: check_policy_def split: if_splits)

lemma opens_pkg: "(\<And>x. opens env i operation w (f x)) \<Longrightarrow> opens env i operation w (bindS (check_pkg_enabled env' v) f)"
  by (rule opens_read) (auto simp: check_pkg_enabled_def bindS_def split: sum.splits if_splits)

lemmas opens_rules = opens_lock opens_if opens_raise opens_policy opens_lift opens_pkg

lemma bindS_lift_Inr: "bindS (liftS (Inr x)) f = f x"
  by (rule ext) (simp add: bindS_def)

text \<open>The end of every handler: an occurrence is made, perhaps completed, and submitted.\<close>

lemma opens_submit:
  assumes "\<not> blocked i w" and "row_find in_id (w_insts w) i = Some inst"
    and "startable operation (in_instantiationState inst)"
    and "\<And>l l'. fin l = Inr l' \<Longrightarrow> oc_id l' = oc_id l \<and> (fresh_occ i operation l \<longrightarrow> fresh_occ i operation l')"
  shows "opens env i operation w
    (bindS (new_lcmocc env i operation body (first_state operation) False) (\<lambda>l.
       bindS (liftS (fin l)) (\<lambda>l'. submit env l' (message operation))))"
proof -
  let ?now = "ev_clock env (w_ticks w)"
  let ?l = "\<lparr>oc_id = ev_uuid env (w_uuids w), oc_operationState = first_state operation, oc_stateEnteredTime = ?now,
    oc_startTime = ?now, oc_vnfInstanceId = i, oc_grantId = None, oc_operation = operation,
    oc_isAutomaticInvocation = False, oc_operationParams = body, oc_isCancelPending = False, oc_error = None,
    oc_resourceChanges = None, oc_changedInfo = None, oc_changedExtConnectivity = None,
    oc_modificationsTriggeredByVnfPkgChange = None\<rparr>"
  let ?w = "w\<lparr>w_ticks := Suc (w_ticks w), w_uuids := Suc (w_uuids w)\<rparr>"
  have new: "new_lcmocc env i operation body (first_state operation) False w = (Inr ?l, ?w)"
    by (simp add: new_lcmocc_def bindS_def utcnow_def generate_uuid_def)
  have counted: "counted w ?w" unfolding counted_def
    by (intro exI [of _ "Suc (w_uuids w)"] exI [of _ "Suc (w_ticks w)"]) simp
  show ?thesis
  proof (cases "fin ?l")
    case (Inl e)
    with new counted show ?thesis by (simp add: opens_def bindS_def)
  next
    case (Inr l')
    have "fresh_occ i operation ?l" by (simp add: fresh_occ_def)
    with assms(4) [OF Inr] have l': "fresh_occ i operation l'" by simp
    have sub: "submit env l' (message operation) ?w =
        (if row_find oc_id (w_occs w) (oc_id l') = None
         then (Inr (accepted env l'), ?w\<lparr>w_occs := w_occs w @ [l'], w_rpcs := w_rpcs w @ [message operation (oc_id l')]\<rparr>)
         else (Inl (PyExc DBDuplicateEntry (oc_id l')), ?w))"
      by (simp add: submit_def bindS_def lcmocc_create_def db_create_def cast_rpc_def row_add_def)
    show ?thesis
      using new Inr sub l' assms(1-3) counted by (auto simp: opens_def bindS_def opened_def split: if_splits)
  qed
qed

lemma opens_start:
  assumes "\<not> blocked i w" and "row_find in_id (w_insts w) i = Some inst"
    and "startable operation (in_instantiationState inst)" and "operation \<noteq> MODIFY_INFO"
  shows "opens env i operation w (start_operation env i operation body)"
  using opens_submit [OF assms(1-3), of Inr] assms(4)
  by (simp add: start_operation_def first_state_def message_def bindS_lift_Inr)

lemma opens_on_instantiated:
  assumes "\<And>inst. \<not> blocked i w \<Longrightarrow> row_find in_id (w_insts w) i = Some inst \<Longrightarrow>
    in_instantiationState inst = INSTANTIATED \<Longrightarrow> opens env i operation w (body inst)"
  shows "opens env i operation w (on_instantiated env a i body)"
  unfolding on_instantiated_def
  by (intro opens_get_inst opens_rules opens_in_progress assms) auto

lemma update_opens: "opens env i MODIFY_INFO w (update env i body)"
proof -
  have tail: "opens env i MODIFY_INFO w (bindS (new_lcmocc env i MODIFY_INFO body PROCESSING False)
      (\<lambda>lcmocc. submit env lcmocc ModifyVnfInfo))"
    if "\<not> blocked i w" "row_find in_id (w_insts w) i = Some inst" for inst
    using opens_submit [OF that, of MODIFY_INFO Inr]
    by (simp add: first_state_def message_def startable_def bindS_lift_Inr)
  have pkg: "opens env i MODIFY_INFO w (bindS (case v of None \<Rightarrow> retS ()
      | Some v \<Rightarrow> whenS (v \<noteq> d) (check_pkg_enabled env v)) f)" if "\<And>x. opens env i MODIFY_INFO w (f x)" for v d f
    using that by (cases v) (auto intro!: opens_read simp: check_pkg_enabled_def bindS_def split: sum.splits if_splits)
  show ?thesis
    unfolding update_def by (intro opens_lock opens_get_inst opens_policy opens_in_progress opens_if opens_raise pkg opens_lift tail)
qed

lemma instantiate_opens: "opens env i INSTANTIATE w (instantiate env i body)"
proof -
  have "oc_id l' = oc_id l \<and> (fresh_occ i INSTANTIATE l \<longrightarrow> fresh_occ i INSTANTIATE l')"
    if "complete_req_vims env l = Inr l'" for l l'
    using that
    by (auto simp: complete_req_vims_def set_req_vims_def bindE_eq_Inr fresh_occ_def split: option.splits)
  note tail = opens_submit [of i w _ INSTANTIATE, OF _ _ _ this, unfolded first_state_def message_def startable_def, simplified]
  show ?thesis
    unfolding instantiate_def by (intro opens_lock opens_get_inst opens_policy opens_in_progress opens_if opens_raise tail) auto
qed

lemma operations_open:
  "opens env i TERMINATE w (vnf_terminate env i body)" "opens env i SCALE w (scale env i body)"
  "opens env i HEAL w (heal env i body)" "opens env i CHANGE_EXT_CONN w (change_ext_conn env i body)"
  "opens env i CHANGE_VNFPKG w (change_vnfpkg env i body)"
  unfolding vnf_terminate_def scale_def heal_def change_ext_conn_def change_vnfpkg_def Let_def
  by (auto intro!: opens_on_instantiated opens_start opens_rules simp: startable_def)

lemma run_api_opens:
  assumes "request_of a = Some (i, operation)"
  shows "opens env i operation w (run_api env a)"
  using assms by (cases a) (auto intro: update_opens instantiate_opens operations_open)

text \<open>
  C23: An accepted request for an LCM operation answers 202 with the location of a new
  occurrence, in its first state and with an identifier that was free; the instance exists, is
  in the state the operation needs and has no FAILED_TEMP occurrence. The whole effect is that
  occurrence and one message to the conductor.
\<close>

theorem accepted_operation_effect:
  assumes "request_of a = Some (i, operation)" and "run_api env a w = (Inr resp, w')"
  shows "\<exists>l. resp = accepted env l \<and> opened i operation w l w'"
  using run_api_opens [OF assms(1), of env w] assms(2) by (auto simp: opens_def)

theorem accepted_operation_effect_witness:
  "\<exists>w' l. run_api ex_env (ApiInstantiate [] ex_instantiate) ex_w1 = (Inr (accepted ex_env l), w') \<and>
    opened [] INSTANTIATE ex_w1 l w'"
proof -
  have "\<exists>resp w'. run_api ex_env (ApiInstantiate [] ex_instantiate) ex_w1 = (Inr resp, w')"
    by (rule returns) code_simp
  then obtain resp w' where run: "run_api ex_env (ApiInstantiate [] ex_instantiate) ex_w1 = (Inr resp, w')" by blast
  moreover have "request_of (ApiInstantiate [] ex_instantiate) = Some ([], INSTANTIATE)" by simp
  ultimately show ?thesis using accepted_operation_effect [OF _ run] by auto
qed

text \<open>
  C24: A refused request for an LCM operation changes no table, sends no message and no
  notification: nothing but the counters of identifiers and times may have moved.
\<close>

theorem refused_operation_no_effect:
  assumes "request_of a = Some (i, operation)" and "run_api env a w = (Inl e, w')"
  shows "counted w w'"
  using run_api_opens [OF assms(1), of env w] assms(2) by (auto simp: opens_def)

theorem refused_operation_no_effect_witness:
  "\<exists>e w'. run_api ex_env (ApiTerminate [] ex_modify) ex_w1 = (Inl e, w') \<and> counted ex_w1 w'"
proof -
  have "isl (fst (run_api ex_env (ApiTerminate [] ex_modify) ex_w1))" by code_simp
  then obtain e w' where run: "run_api ex_env (ApiTerminate [] ex_modify) ex_w1 = (Inl e, w')"
    by (cases "run_api ex_env (ApiTerminate [] ex_modify) ex_w1") (auto simp: isl_def)
  then show ?thesis using refused_operation_no_effect [OF _ run] by auto
qed


subsection \<open>Failed operations block, and end\<close>

text \<open>
  While an instance has an occurrence in FAILED_TEMP, every request for an operation on it
  is refused with 409 and changes nothing, when its lock is free, no policy forbids the call and
  the instance is in the state the operation needs; a request to delete it is refused the same way.
\<close>

lemma failed_temp_blocks:
  assumes "blocked i w" and "request_of a = Some (i, operation)" and "ev_lock env i" and "\<not> ev_enhanced_policy env"
    and "row_find in_id (w_insts w) i = Some inst" and "startable operation (in_instantiationState inst)"
  shows "run_api env a w = (Inl (Sol (OtherOperationInProgress i)), w) \<and> status (OtherOperationInProgress i) = 409 \<and>
    (in_instantiationState inst = NOT_INSTANTIATED \<longrightarrow>
       run_api env (ApiDelete i) w = (Inl (Sol (OtherOperationInProgress i)), w))"
proof -
  note run = bindS_def blocked_run get_inst_def check_policy_def lock_vnf_instance_def
  have "run_api env a w = (Inl (Sol (OtherOperationInProgress i)), w)"
    using assms by (cases a) (auto simp: run update_def instantiate_def vnf_terminate_def scale_def heal_def
        change_ext_conn_def change_vnfpkg_def on_instantiated_def startable_def)
  moreover have "run_api env (ApiDelete i) w = (Inl (Sol (OtherOperationInProgress i)), w)"
    if "in_instantiationState inst = NOT_INSTANTIATED"
    using assms that by (auto simp: run delete_def)
  ultimately show ?thesis by simp
qed

lemma fail_runs:
  assumes "run_api env (ApiFail i) w = (Inr resp, w')"
  shows "\<exists>l l'. row_find oc_id (w_occs w) i = Some l \<and> oc_operationState l = FAILED_TEMP \<and>
    row_find oc_id (w_occs w') i = Some l' \<and> oc_operationState l' = FAILED \<and> w_insts w' = w_insts w"
proof -
  let ?body = "\<lambda>l. bindS (get_inst (oc_vnfInstanceId l)) (\<lambda>inst.
     bindS (get_grant_req_and_grant l) (\<lambda>gg.
     bindS (update_lcmocc_status env FAILED l) (\<lambda>l.
     bindS (modS (\<lambda>w. delete_saved_grants gg (lcmocc_update l w))) (\<lambda>_.
     bindS (send_lcmocc_notification env l inst) (\<lambda>_. retS \<lparr>rs_status = 200, rs_location = None\<rparr>)))))"
  obtain l where l: "row_find oc_id (w_occs w) i = Some l" "oc_operationState l = FAILED_TEMP" "?body l w = (Inr resp, w')"
    using assms by (auto simp: lcm_op_occ_fail_def on_failed_temp_def lock_vnf_instance_def get_lcmocc_def bindS_def [of "get_lcmocc i"]
        split: option.splits if_splits)
  obtain l' where l': "(lcm_stepJ (\<lambda>_. False))\<^sup>*\<^sup>* (l, tabs w) (l', tabs w')"
    "row_find oc_id (w_occs w') i = Some l'" "oc_operationState l' = FAILED"
    using occ_program [OF l(1) fail_body_refines [OF l(2)] l(3)] by blast
  have "w_insts w' = w_insts w" using lcm_stepsJ_insts [OF l'(1)] by (simp add: tabs_def)
  with l l' show ?thesis by blast
qed

text \<open>
  In every reachable world, a request to fail an occurrence that succeeds found it in
  FAILED_TEMP and leaves it FAILED, with no grant request stored for it and every instance as it
  was.
\<close>

lemma fail_ends_operation:
  assumes "vnfm_steps (initial_world subscs pkgs) w" and "\<not> ev_enable_occ_delete env"
    and "run_api env (ApiFail i) w = (Inr resp, w')"
  shows "\<exists>l l'. row_find oc_id (w_occs w) i = Some l \<and> oc_operationState l = FAILED_TEMP \<and>
    row_find oc_id (w_occs w') i = Some l' \<and> oc_operationState l' = FAILED \<and> w_insts w' = w_insts w \<and>
    filter (\<lambda>q. gq_vnfLcmOpOccId q = i) (w_grant_reqs w') = []"
proof -
  obtain l l' where l: "row_find oc_id (w_occs w) i = Some l" "oc_operationState l = FAILED_TEMP"
    "row_find oc_id (w_occs w') i = Some l'" "oc_operationState l' = FAILED" "w_insts w' = w_insts w"
    using fail_runs [OF assms(3)] by blast
  have "vnfm_inv w" using vnfm_steps_safe [OF assms(1) initial_inv] by simp
  then have "vnfm_inv w'" using safeD [OF run_api_safe [OF assms(2)] _ assms(3)] by blast
  then have "saved_reqs i (w_grant_reqs w') = 0"
    using l(3,4) by (auto simp: vnfm_inv_def grants_inv_def tabs_def grants_needed_def)
  with l show ?thesis by (auto simp: saved_reqs_def)
qed

subsection \<open>Between the acceptance and the start\<close>

text \<open>The server releases the lock of the instance before the conductor takes it, and
  \<open>check_lcmocc_in_progress\<close> looks for FAILED_TEMP only.\<close>

definition ex_twice :: world where
  "ex_twice = snd (run_api ex_env (ApiInstantiate [] ex_instantiate) ex_w2)"

definition ex_deleted :: world where
  "ex_deleted = snd (run_api ex_env (ApiDelete []) ex_w2)"

lemma ex_after: "vnfm_steps (initial_world [] []) ex_twice" "vnfm_steps (initial_world [] []) ex_deleted"
proof -
  have "\<not> ev_enable_occ_delete ex_env" by (simp add: ex_env_def)
  then have "vnfm_step ex_w2 ex_twice" "vnfm_step ex_w2 ex_deleted"
    unfolding ex_twice_def ex_deleted_def by (rule vnfm_step.api [OF _ surjective_pairing])+
  with ex_reach2 show "vnfm_steps (initial_world [] []) ex_twice" "vnfm_steps (initial_world [] []) ex_deleted"
    by auto
qed

text \<open>
  There is a history after which two occurrences of one instance are in STARTING: a request
  is accepted while the start of an earlier one is still waiting in the queue of the conductor.
\<close>

lemma accepted_while_starting:
  "\<exists>w. vnfm_steps (initial_world [] []) w \<and>
    map (\<lambda>l. (oc_vnfInstanceId l, oc_operation l, oc_operationState l)) (w_occs w) =
      [([], INSTANTIATE, STARTING), ([], INSTANTIATE, STARTING)] \<and>
    w_rpcs w = map (StartLcmOp \<circ> oc_id) (w_occs w) \<and> distinct (w_rpcs w)"
proof (intro exI conjI)
  show "vnfm_steps (initial_world [] []) ex_twice" by (rule ex_after)
  show "map (\<lambda>l. (oc_vnfInstanceId l, oc_operation l, oc_operationState l)) (w_occs ex_twice) =
      [([], INSTANTIATE, STARTING), ([], INSTANTIATE, STARTING)]" by code_simp
  show "w_rpcs ex_twice = map (StartLcmOp \<circ> oc_id) (w_occs ex_twice)" by code_simp
  show "distinct (w_rpcs ex_twice)" by code_simp
qed

lemma repair_orphan:
  assumes "w_insts w = []" and "w_occs w = [l]" and "oc_operationState l = STARTING"
  shows "\<exists>w'. change_lcm_op_state env w = (Inl (Sol (VnfInstanceNotFound (oc_vnfInstanceId l))), w') \<and> w_occs w' = w_occs w"
  using assms
  by (simp add: change_lcm_op_state_def interrupted_states_def bindS_def row_filter_def repair_occ_def
      update_lcmocc_status_def utcnow_def get_inst_def row_find_def Let_def)

text \<open>
  There is a history after which a restarted conductor cannot finish its start-up, whatever
  its environment, and leaves the occurrence that stops it in STARTING: the instance was deleted
  while the start of its instantiation was still waiting.
\<close>

lemma restart_stops_at_deleted_instance:
  "\<exists>w. vnfm_steps (initial_world [] []) w \<and>
    (\<forall>env. \<exists>w'. change_lcm_op_state env (forget w) = (Inl (Sol (VnfInstanceNotFound [])), w') \<and>
       map oc_operationState (w_occs w') = [STARTING])"
proof (rule exI [of _ ex_deleted], intro conjI allI)
  show "vnfm_steps (initial_world [] []) ex_deleted" by (rule ex_after)
next
  fix env
  have "w_insts ex_deleted = []"
    "map (\<lambda>l. (oc_vnfInstanceId l, oc_operationState l)) (w_occs ex_deleted) = [([], STARTING)]"
    by code_simp+
  then obtain l where "w_insts (forget ex_deleted) = []" "w_occs (forget ex_deleted) = [l]"
    "oc_operationState l = STARTING" "oc_vnfInstanceId l = []"
    by (auto simp: forget_def)
  then show "\<exists>w'. change_lcm_op_state env (forget ex_deleted) = (Inl (Sol (VnfInstanceNotFound [])), w') \<and>
       map oc_operationState (w_occs w') = [STARTING]"
    using repair_orphan [of "forget ex_deleted" l env] by auto
qed

end
