(* ===== verification/View.thy ===== *)
theory View
  imports View_Filter Lcm_Op_Occ
begin

section \<open>Selectors, pages and response bodies (sol\_refactored/controller/vnflcm\_view.py)\<close>

text \<open>
  \<^verbatim>\<open>EnhanceAttributeSelector\<close>, \<^verbatim>\<open>EnhanceViewBuilder\<close>, the two view builders of VNF instances and
  operation occurrences and \<^verbatim>\<open>Pager\<close>, with \<^verbatim>\<open>TackerPersistentObject.get_dict_all\<close>. A row of a table and
  a response body are dictionaries of JSON values. Python sets are lists here; what the code does
  with them does not depend on their order, except the order of the keys of a dictionary.

  \<open>listing\<close> holds what a list request reads: the rows in the order in which the database
  returns them, what the database says of a row and a condition, the policy and the body of a row.
  \<open>index_list\<close> is one request, \<open>follow\<close> the client that follows the links to the next page.
\<close>

subsection \<open>Paths into a dictionary\<close>

text \<open>A chain of \<open>.get(key, {})\<close>, and \<open>del\<close> of the last key when its value passes the test.\<close>

fun path_pop :: "(json \<Rightarrow> bool) \<Rightarrow> string list \<Rightarrow> jdict \<Rightarrow> jdict pyres" where
  "path_pop P [] d = Inr d"
| "path_pop P [k] d = Inr (if P (or_null (map_of d k)) then dict_del k d else d)"
| "path_pop P (k # ks) d = (case map_of d k of
      None \<Rightarrow> Inr d
    | Some (JObj e) \<Rightarrow> bindE (path_pop P ks e) (\<lambda>e'. Inr (dict_set k (JObj e') d))
    | Some j \<Rightarrow> Inl (attr_error j ''get''))"

fun path_get :: "string list \<Rightarrow> jdict \<Rightarrow> json pyres" where
  "path_get [] d = Inr JNull"
| "path_get [k] d = Inr (or_null (map_of d k))"
| "path_get (k # ks) d = (case map_of d k of
      None \<Rightarrow> path_get ks []
    | Some (JObj e) \<Rightarrow> path_get ks e
    | Some j \<Rightarrow> Inl (attr_error j ''get''))"

fun path_set :: "string list \<Rightarrow> json \<Rightarrow> jdict \<Rightarrow> jdict pyres" where
  "path_set [] v d = Inr d"
| "path_set [k] v d = Inr (dict_set k v d)"
| "path_set (k # ks) v d = (case map_of d k of
      None \<Rightarrow> bindE (path_set ks v []) (\<lambda>e. Inr (dict_set k (JObj e) d))
    | Some (JObj e) \<Rightarrow> bindE (path_set ks v e) (\<lambda>e'. Inr (dict_set k (JObj e') d))
    | Some j \<Rightarrow> Inl (attr_error j ''setdefault''))"

subsection \<open>The attribute selector\<close>

record sel_params =
  sp_all_fields :: "string option"
  sp_fields :: "string option"
  sp_exclude_fields :: "string option"
  sp_exclude_default :: "string option"

record selector =
  se_all_attrs :: "string list"
  se_return_attrs :: "string list"
  se_exclude_fields :: "string list"
  se_fields :: "string list"
  se_extra_attrs :: "string list"

definition minus_attrs :: "string list \<Rightarrow> string list \<Rightarrow> string list" where
  "minus_attrs xs ys = filter (\<lambda>x. x \<notin> set ys) xs"

definition add_field :: "string \<Rightarrow> selector \<Rightarrow> selector" where
  "add_field field s = s\<lparr>se_fields := (if CHR ''/'' \<in> set field then List.insert field (se_fields s) else se_fields s),
     se_return_attrs := List.insert (hd (split_on CHR ''/'' field)) (se_return_attrs s)\<rparr>"

definition exclude_field :: "string \<Rightarrow> selector \<Rightarrow> selector pyres" where
  "exclude_field field s =
     (if CHR ''/'' \<in> set field then Inr (s\<lparr>se_exclude_fields := List.insert field (se_exclude_fields s)\<rparr>)
      else if field \<in> set (se_return_attrs s) then Inr (s\<lparr>se_return_attrs := removeAll field (se_return_attrs s)\<rparr>)
      else Inl (key_error field))"

definition new_selector :: "string list \<Rightarrow> string list \<Rightarrow> string list \<Rightarrow> sel_params \<Rightarrow> selector pyres" where
  "new_selector all_attrs mandatory_attrs default_exclude_attrs p =
     (let s0 = \<lparr>se_all_attrs = all_attrs, se_return_attrs = [], se_exclude_fields = [], se_fields = [],
                se_extra_attrs = []\<rparr> in
      if sp_all_fields p \<noteq> None then
        (if sp_fields p \<noteq> None \<or> sp_exclude_fields p \<noteq> None \<or> sp_exclude_default p \<noteq> None
         then Inl (Sol InvalidAttributeSelector) else Inr (s0\<lparr>se_return_attrs := all_attrs\<rparr>))
      else case sp_fields p of
        Some names \<Rightarrow>
          (if sp_exclude_fields p \<noteq> None then Inl (Sol InvalidAttributeSelector)
           else Inr (fold add_field (split_on CHR '','' names)
             (s0\<lparr>se_return_attrs := (if sp_exclude_default p \<noteq> None then minus_attrs all_attrs default_exclude_attrs
                                   else mandatory_attrs)\<rparr>)))
      | None \<Rightarrow> (case sp_exclude_fields p of
          Some names \<Rightarrow>
            (if sp_exclude_default p \<noteq> None then Inl (Sol InvalidAttributeSelector)
             else foldE exclude_field (split_on CHR '','' names) (s0\<lparr>se_return_attrs := all_attrs\<rparr>))
        | None \<Rightarrow> Inr (s0\<lparr>se_return_attrs := minus_attrs all_attrs default_exclude_attrs\<rparr>)))"

definition add_extra_attrs :: "string list \<Rightarrow> selector \<Rightarrow> selector" where
  "add_extra_attrs attrs s =
     s\<lparr>se_extra_attrs := List.union (se_extra_attrs s) (minus_attrs attrs (se_return_attrs s))\<rparr>"

definition field_step :: "string \<Rightarrow> jdict \<times> jdict \<Rightarrow> (jdict \<times> jdict) pyres" where
  "field_step path ds = (case ds of (d, saved) \<Rightarrow>
     let klist = split_on CHR ''/'' path; top = hd klist in
     if length klist = 1 then Inr (d, saved)
     else bindE (if dict_has saved top then Inr (d, saved)
                 else case map_of d top of None \<Rightarrow> Inl (key_error top)
                      | Some v \<Rightarrow> Inr (dict_del top d, dict_set top v saved)) (\<lambda>(d1, saved1).
          bindE (path_get klist saved1) (\<lambda>v.
          if v = JNull then Inr (d1, saved1)
          else bindE (path_set klist v d1) (\<lambda>d2. Inr (d2, saved1)))))"

definition exclude_step :: "string \<Rightarrow> jdict \<Rightarrow> jdict pyres" where
  "exclude_step path d = (let klist = split_on CHR ''/'' path in
     if length klist = 1 then Inr d else path_pop (\<lambda>v. v \<noteq> JNull) klist d)"

definition selector_filter :: "selector \<Rightarrow> jdict \<Rightarrow> jdict pyres" where
  "selector_filter s odict =
     bindE (foldE exclude_step (se_exclude_fields s) (fold dict_del (se_extra_attrs s) odict)) (\<lambda>d.
     bindE (foldE field_step (se_fields s) (d, [])) (\<lambda>(d', _). Inr d'))"

subsection \<open>Pages\<close>

record pager =
  pg_marker :: "string option"
  pg_req_url :: string
  pg_page_size :: nat
  pg_next_marker :: "string option"

definition marker_string :: "string \<Rightarrow> string" where
  "marker_string m = ''nextpage_opaque_marker='' @ m"

function replace_all :: "string \<Rightarrow> string \<Rightarrow> string \<Rightarrow> string" where
  "replace_all pat rep s = (case s of [] \<Rightarrow> []
     | c # t \<Rightarrow> if pat \<noteq> [] \<and> take (length pat) s = pat then rep @ replace_all pat rep (drop (length pat) s)
              else c # replace_all pat rep t)"
  by pat_completeness auto
termination by (relation "measure (\<lambda>(_, _, s). length s)") auto

declare replace_all.simps [simp del]

definition get_link :: "pager \<Rightarrow> string option" where
  "get_link p = (case pg_next_marker p of None \<Rightarrow> None
     | Some next_m \<Rightarrow> Some (''<'' @
         (case pg_marker p of
            Some m \<Rightarrow> replace_all (marker_string m) (marker_string next_m) (pg_req_url p)
          | None \<Rightarrow> pg_req_url p @ (if CHR ''?'' \<in> set (pg_req_url p) then ''&'' else ''?'') @ marker_string next_m)
         @ ''>;rel='' @ [CHR 0x22] @ ''next'' @ [CHR 0x22]))"

definition body_id :: "jdict \<Rightarrow> string pyres" where
  "body_id d = bindE (jitem (JObj d) ''id'') as_str"

definition handle_pager :: "pager \<Rightarrow> jdict list \<Rightarrow> (jdict list \<times> pager) pyres" where
  "handle_pager p body =
     (if pg_page_size p = 0 then Inr (body, p\<lparr>pg_next_marker := None\<rparr>)
      else if length body > pg_page_size p
      then (let page = take (pg_page_size p) body in
            bindE (body_id (last page)) (\<lambda>i. Inr (page, p\<lparr>pg_next_marker := Some i\<rparr>)))
      else Inr (body, p\<lparr>pg_next_marker := None\<rparr>))"

subsection \<open>List requests\<close>

type_synonym db_filter = "string \<times> string \<times> json list"

record listing =
  ls_columns :: "string list"
  ls_rows :: "jdict list"
  ls_sat :: "db_filter \<Rightarrow> jdict \<Rightarrow> bool"
  ls_can :: "jdict \<Rightarrow> bool pyres"
  ls_detail :: "selector \<Rightarrow> jdict \<Rightarrow> jdict pyres"

definition restrict_row :: "string list \<Rightarrow> jdict \<Rightarrow> jdict" where
  "restrict_row attrs row = filter (\<lambda>(k, v). k \<in> set attrs \<and> v \<noteq> JNull) row"

definition limited :: "nat option \<Rightarrow> 'a list \<Rightarrow> 'a list" where
  "limited l xs = (case l of None \<Rightarrow> xs | Some n \<Rightarrow> take n xs)"

definition db_get_dict_all :: "listing \<Rightarrow> string list \<Rightarrow> db_filter list \<Rightarrow> nat option \<Rightarrow> jdict list pyres" where
  "db_get_dict_all ls attrs filters limit =
     (case List.find (\<lambda>a. a \<notin> set (ls_columns ls)) attrs of
        Some a \<Rightarrow> Inl (PyExc AttributeError a)
      | None \<Rightarrow> Inr (map (restrict_row attrs)
          (limited limit (filter (\<lambda>r. \<forall>f \<in> set filters. ls_sat ls f r) (ls_rows ls)))))"

text \<open>The filters the database can apply: one attribute, and not \<open>cont\<close> or \<open>ncont\<close>.\<close>

definition to_db :: "filter_expr \<Rightarrow> db_filter option" where
  "to_db f = (case fe_attr f of
      [FName a] \<Rightarrow> if fe_op f = ''cont'' \<or> fe_op f = ''ncont'' then None else Some (fe_op f, a, fe_values f)
    | _ \<Rightarrow> None)"

definition top_attr :: "filter_expr \<Rightarrow> string option" where
  "top_attr f = (case fe_attr f of FName a # _ \<Rightarrow> Some a | _ \<Rightarrow> None)"

definition known_attr :: "selector \<Rightarrow> filter_expr \<Rightarrow> bool" where
  "known_attr s f \<longleftrightarrow> (case top_attr f of None \<Rightarrow> False | Some a \<Rightarrow> a \<in> set (se_all_attrs s))"

definition page_limit :: "pager \<Rightarrow> filter_expr list \<Rightarrow> selector \<Rightarrow> nat option" where
  "page_limit p rest s =
     (if pg_page_size p > 0 \<and> rest = [] \<and> se_extra_attrs s = [] then Some (pg_page_size p + 1) else None)"

definition marker_filter :: "pager \<Rightarrow> db_filter list" where
  "marker_filter p = (case pg_marker p of Some (c # m) \<Rightarrow> [(''gt'', ''id'', [JStr (c # m)])] | _ \<Rightarrow> [])"

definition get_dict_all :: "listing \<Rightarrow> filter_expr list \<Rightarrow> selector \<Rightarrow> pager \<Rightarrow>
    (jdict list \<times> filter_expr list \<times> selector) pyres" where
  "get_dict_all ls filters s p =
     (if \<not> list_all (known_attr s) filters then Inr ([], filters, s)
      else let rest = filter (\<lambda>f. to_db f = None) filters;
               s1 = add_extra_attrs (List.map_filter top_attr filters) s in
        bindE (db_get_dict_all ls (List.union (se_return_attrs s1) (se_extra_attrs s1))
            (List.map_filter to_db filters @ marker_filter p) (page_limit p rest s1)) (\<lambda>rows.
          Inr (rows, rest, s1)))"

fun detail_matching :: "(jdict \<Rightarrow> jdict pyres) \<Rightarrow> filter_expr list \<Rightarrow> jdict list \<Rightarrow> jdict list pyres" where
  "detail_matching det filters [] = Inr []"
| "detail_matching det filters (v # vs) = bindE (match_filters (JObj v) filters) (\<lambda>(b, filters').
     if \<not> b then detail_matching det filters' vs
     else bindE (det v) (\<lambda>d. bindE (detail_matching det filters' vs) (\<lambda>ds. Inr (d # ds))))"

definition index_list :: "listing \<Rightarrow> filter_expr list \<Rightarrow> selector \<Rightarrow> pager \<Rightarrow> (jdict list \<times> pager) pyres" where
  "index_list ls filters s p =
     bindE (get_dict_all ls filters s p) (\<lambda>(rows, rest, s1).
     bindE (filterE (ls_can ls) rows) (\<lambda>allowed.
     bindE (detail_matching (ls_detail ls s1) rest allowed) (handle_pager p)))"

subsection \<open>Response bodies\<close>

definition cred_data :: "string list" where
  "cred_data = [''password'', ''bearer_token'', ''client_secret'']"

definition pop_cred_keys :: "json \<Rightarrow> json pyres" where
  "pop_cred_keys access = (case access of
      JObj a \<Rightarrow> Inr (JObj (fold dict_del cred_data a))
    | _ \<Rightarrow> foldE (\<lambda>k j. bindE (jcontains j k) (\<lambda>b.
        if b then Inl (case j of JArr _ \<Rightarrow> type_error (JStr k) | _ \<Rightarrow> attr_error j ''pop'') else Inr j)) cred_data access)"

definition pop_vim_cred :: "bool \<Rightarrow> json \<Rightarrow> json pyres" where
  "pop_vim_cred guarded vim = (case vim of
      JObj d \<Rightarrow> (case map_of d ''accessInfo'' of
          None \<Rightarrow> if guarded then Inr vim else Inl (key_error ''accessInfo'')
        | Some a \<Rightarrow> bindE (pop_cred_keys a) (\<lambda>a'. Inr (JObj (dict_set ''accessInfo'' a' d))))
    | _ \<Rightarrow> bindE (jcontains vim ''accessInfo'') (\<lambda>b. if b \<or> \<not> guarded then Inl (type_error vim) else Inr vim))"

definition pop_vims :: "bool \<Rightarrow> jdict \<Rightarrow> jdict pyres" where
  "pop_vims guarded d = (case map_of d ''vimConnectionInfo'' of
      None \<Rightarrow> Inr d
    | Some (JObj vims) \<Rightarrow> bindE (mapE (\<lambda>(k, v). bindE (pop_vim_cred guarded v) (\<lambda>v'. Inr (k, v'))) vims) (\<lambda>vims'.
        Inr (dict_set ''vimConnectionInfo'' (JObj vims') d))
    | Some j \<Rightarrow> Inl (attr_error j ''values''))"

definition dict_inst_links :: "string \<Rightarrow> jdict \<Rightarrow> json pyres" where
  "dict_inst_links endpoint inst =
     bindE (body_id inst) (\<lambda>i. bindE (jitem (JObj inst) ''instantiationState'') (\<lambda>st.
     let self_href = inst_href i endpoint; link = (\<lambda>h. JObj [(''href'', JStr h)]) in
     Inr (JObj ((''self'', link self_href) #
       (if st = JStr ''NOT_INSTANTIATED'' then [(''instantiate'', link (self_href @ ''/instantiate''))]
        else [(''terminate'', link (self_href @ ''/terminate'')), (''scale'', link (self_href @ ''/scale'')),
              (''heal'', link (self_href @ ''/heal'')),
              (''changeExtConn'', link (self_href @ ''/change_ext_conn''))])))))"

definition inst_detail_dict :: "string \<Rightarrow> selector option \<Rightarrow> jdict \<Rightarrow> jdict pyres" where
  "inst_detail_dict endpoint sel inst =
     bindE (dict_inst_links endpoint inst) (\<lambda>links.
     bindE (case sel of None \<Rightarrow> Inr (dict_set ''_links'' links inst)
            | Some s \<Rightarrow> selector_filter s (dict_set ''_links'' links inst)) (pop_vims True))"

definition dict_lcmocc_links :: "string \<Rightarrow> jdict \<Rightarrow> json pyres" where
  "dict_lcmocc_links endpoint lcmocc =
     bindE (body_id lcmocc) (\<lambda>i. bindE (jitem (JObj lcmocc) ''vnfInstanceId'') (\<lambda>ij. bindE (as_str ij) (\<lambda>inst_id.
     let link = (\<lambda>h. JObj [(''href'', JStr h)]) in
     Inr (JObj [(''self'', link (lcmocc_href i endpoint)), (''vnfInstance'', link (inst_href inst_id endpoint)),
       (''retry'', link (lcmocc_task_href i ''retry'' endpoint)),
       (''rollback'', link (lcmocc_task_href i ''rollback'' endpoint)),
       (''fail'', link (lcmocc_task_href i ''fail'' endpoint))]))))"

definition pop_vnfc_param :: "string \<Rightarrow> jdict \<Rightarrow> jdict pyres" where
  "pop_vnfc_param key vdu_param = (case map_of vdu_param key of
      None \<Rightarrow> Inr vdu_param
    | Some (JObj p) \<Rightarrow>
        if p = [] then Inr vdu_param
        else bindE (path_pop py_truthy [''password''] p) (\<lambda>p1.
             bindE (path_pop py_truthy [''authentication'', ''paramsBasic'', ''password''] p1) (\<lambda>p2.
             bindE (path_pop py_truthy [''authentication'', ''paramsOauth2ClientCredentials'', ''clientPassword''] p2)
               (\<lambda>p3. Inr (dict_set key (JObj p3) vdu_param))))
    | Some j \<Rightarrow> if py_truthy j then Inl (attr_error j ''get'') else Inr vdu_param)"

definition pop_vdu_param :: "json \<Rightarrow> json pyres" where
  "pop_vdu_param vdu_param = (case vdu_param of
      JObj d \<Rightarrow> bindE (pop_vnfc_param ''old_vnfc_param'' d) (\<lambda>d1.
        bindE (pop_vnfc_param ''new_vnfc_param'' d1) (\<lambda>d2. Inr (JObj d2)))
    | j \<Rightarrow> Inl (attr_error j ''get''))"

definition pop_additional :: "jdict \<Rightarrow> jdict pyres" where
  "pop_additional op_param = (case map_of op_param ''additionalParams'' of
      None \<Rightarrow> Inr op_param
    | Some (JObj p) \<Rightarrow> (case map_of p ''vdu_params'' of
          None \<Rightarrow> Inr op_param
        | Some (JArr vs) \<Rightarrow> bindE (mapE pop_vdu_param vs) (\<lambda>vs'.
            Inr (dict_set ''additionalParams'' (JObj (dict_set ''vdu_params'' (JArr vs') p)) op_param))
        | Some j \<Rightarrow> bindE (jlist j) (\<lambda>vs. bindE (mapE pop_vdu_param vs) (\<lambda>_. Inr op_param)))
    | Some j \<Rightarrow> Inl (attr_error j ''get''))"

definition sub_dict :: "string \<Rightarrow> (jdict \<Rightarrow> jdict pyres) \<Rightarrow> jdict \<Rightarrow> jdict pyres" where
  "sub_dict key f d = (case map_of d key of
      None \<Rightarrow> Inr d
    | Some (JObj e) \<Rightarrow> bindE (f e) (\<lambda>e'. Inr (dict_set key (JObj e') d))
    | Some j \<Rightarrow> Inl (attr_error j ''get''))"

definition pop_cred :: "jdict \<Rightarrow> jdict pyres" where
  "pop_cred resp =
     bindE (sub_dict ''operationParams'' (\<lambda>p. bindE (pop_vims True p) pop_additional) resp)
       (sub_dict ''changedInfo'' (pop_vims False))"

definition lcmocc_detail_dict :: "string \<Rightarrow> selector option \<Rightarrow> jdict \<Rightarrow> jdict pyres" where
  "lcmocc_detail_dict endpoint sel lcmocc =
     bindE (dict_lcmocc_links endpoint lcmocc) (\<lambda>links.
     bindE (case sel of None \<Rightarrow> Inr (dict_set ''_links'' links lcmocc)
            | Some s \<Rightarrow> selector_filter s (dict_set ''_links'' links lcmocc)) pop_cred)"


subsection \<open>The list handlers\<close>

text \<open>\<open>request.GET\<close> and \<open>request.url\<close> as far as a list request reads them.\<close>

record query =
  qy_filter :: "string option"
  qy_params :: sel_params
  qy_marker :: "string option"
  qy_url :: string

definition inst_ALL :: "string list" where
  "inst_ALL = [''id'', ''vnfInstanceName'', ''vnfInstanceDescription'', ''vnfdId'', ''vnfProvider'', ''vnfProductName'',
     ''vnfSoftwareVersion'', ''vnfdVersion'', ''instantiationState'', ''vnfConfigurableProperties'',
     ''vimConnectionInfo'', ''instantiatedVnfInfo'', ''metadata'', ''extensions'']"

definition inst_EXCLUDE_DEFAULT :: "string list" where
  "inst_EXCLUDE_DEFAULT = [''vnfConfigurableProperties'', ''vimConnectionInfo'', ''instantiatedVnfInfo'', ''metadata'',
     ''extensions'']"

definition lcmocc_ALL :: "string list" where
  "lcmocc_ALL = [''id'', ''operationState'', ''stateEnteredTime'', ''startTime'', ''vnfInstanceId'', ''grantId'',
     ''operation'', ''isAutomaticInvocation'', ''operationParams'', ''isCancelPending'', ''cancelMode'', ''error'',
     ''resourceChanges'', ''changedInfo'', ''changedExtConnectivity'', ''modificationsTriggeredByVnfPkgChange'',
     ''vnfSnapshotInfoId'']"

definition lcmocc_EXCLUDE_DEFAULT :: "string list" where
  "lcmocc_EXCLUDE_DEFAULT = [''operationParams'', ''error'', ''resourceChanges'', ''changedInfo'',
     ''changedExtConnectivity'']"

definition parse_selector :: "string list \<Rightarrow> string list \<Rightarrow> sel_params \<Rightarrow> selector pyres" where
  "parse_selector all_attrs exclude_default p =
     new_selector all_attrs (minus_attrs all_attrs exclude_default) exclude_default p"

definition inst_parse_selector :: "env \<Rightarrow> sel_params \<Rightarrow> selector pyres" where
  "inst_parse_selector env p = bindE (parse_selector inst_ALL inst_EXCLUDE_DEFAULT p) (\<lambda>s.
     Inr (if ev_enhanced_policy env then add_extra_attrs [''vimConnectionInfo'', ''instantiatedVnfInfo''] s else s))"

definition parse_pager :: "nat \<Rightarrow> query \<Rightarrow> pager" where
  "parse_pager page_size q =
     \<lparr>pg_marker = qy_marker q, pg_req_url = qy_url q, pg_page_size = page_size, pg_next_marker = None\<rparr>"

definition parse_query_params :: "(sel_params \<Rightarrow> selector pyres) \<Rightarrow> nat \<Rightarrow> query \<Rightarrow>
    (filter_expr list \<times> selector \<times> pager) pyres" where
  "parse_query_params sel page_size q =
     bindE (parse_filter (qy_filter q)) (\<lambda>filters.
     bindE (sel (qy_params q)) (\<lambda>s. Inr (filters, s, parse_pager page_size q)))"

fun vims_area :: "json \<Rightarrow> json list \<Rightarrow> json pyres" where
  "vims_area area [] = Inr area"
| "vims_area area (vi # vis) =
     bindE (jget vi ''extra'' (JObj [])) (\<lambda>extra. bindE (jget extra ''area'' JNull) (\<lambda>area'.
     bindE (jitem vi ''vimType'') (\<lambda>vim_type.
       if py_truthy area' \<and> py_truthy vim_type then Inr area' else vims_area area' vis)))"

definition get_policy_target_dict :: "jdict \<Rightarrow> (string, json) dict pyres" where
  "get_policy_target_dict inst =
     bindE (jitem (JObj inst) ''vnfProvider'') (\<lambda>vendor.
     bindE (jitem (JObj inst) ''instantiationState'') (\<lambda>st.
     bindE (if st = JStr ''NOT_INSTANTIATED'' then Inr (JStr ''*'', JStr ''*'')
       else bindE (jget (JObj inst) ''vimConnectionInfo'' (JObj [])) (\<lambda>vims.
            bindE (case vims of JObj vs \<Rightarrow> vims_area JNull (map snd vs) | j \<Rightarrow> Inl (attr_error j ''values'')) (\<lambda>area.
            bindE (jpath (JObj inst) [''instantiatedVnfInfo'', ''metadata'']) (\<lambda>md.
            bindE (jget md ''tenant'' JNull) (\<lambda>tenant. Inr (area, tenant)))))) (\<lambda>(area, tenant).
     Inr (filter (\<lambda>p. snd p \<noteq> JNull) [(''vendor'', vendor), (''area'', area), (''tenant'', tenant)]))))"

text \<open>With \<open>fatal=False\<close> a policy that refuses gives False.\<close>

definition index_can :: "env \<Rightarrow> jdict \<Rightarrow> bool pyres" where
  "index_can env inst =
     (if ev_enhanced_policy env
      then bindE (get_policy_target_dict inst) (\<lambda>target.
        Inr (case ev_can env ''index'' target of Inr _ \<Rightarrow> True | Inl _ \<Rightarrow> False))
      else Inr True)"

text \<open>A list response: the bodies and the link to the next page. \<open>sat\<close> and \<open>rows\<close> are the table.\<close>

definition inst_index :: "env \<Rightarrow> nat \<Rightarrow> (db_filter \<Rightarrow> jdict \<Rightarrow> bool) \<Rightarrow> jdict list \<Rightarrow> query \<Rightarrow>
    (jdict list \<times> string option) pyres" where
  "inst_index env page_size sat rows q =
     bindE (parse_query_params (inst_parse_selector env) page_size q) (\<lambda>(filters, s, p).
     bindE (index_list \<lparr>ls_columns = inst_ALL, ls_rows = rows, ls_sat = sat, ls_can = index_can env,
         ls_detail = (\<lambda>s. inst_detail_dict (ev_endpoint env) (Some s))\<rparr> filters s p) (\<lambda>(body, p').
       Inr (body, get_link p')))"

definition lcm_op_occ_list :: "env \<Rightarrow> nat \<Rightarrow> (db_filter \<Rightarrow> jdict \<Rightarrow> bool) \<Rightarrow> jdict list \<Rightarrow> query \<Rightarrow>
    (jdict list \<times> string option) pyres" where
  "lcm_op_occ_list env page_size sat rows q =
     bindE (parse_query_params (parse_selector lcmocc_ALL lcmocc_EXCLUDE_DEFAULT) page_size q) (\<lambda>(filters, s, p).
     bindE (index_list \<lparr>ls_columns = lcmocc_ALL, ls_rows = rows, ls_sat = sat, ls_can = (\<lambda>_. Inr True),
         ls_detail = (\<lambda>s. lcmocc_detail_dict (ev_endpoint env) (Some s))\<rparr> filters s p) (\<lambda>(body, p').
       Inr (body, get_link p')))"


subsection \<open>What a selector keeps\<close>

definition selected :: "string list \<Rightarrow> string list \<Rightarrow> sel_params \<Rightarrow> string set" where
  "selected all_attrs default_exclude p =
     (case (sp_fields p, sp_exclude_fields p) of
        (Some names, _) \<Rightarrow> (set all_attrs - set default_exclude) \<union> set (split_on CHR '','' names)
      | (None, Some names) \<Rightarrow> set all_attrs - set (split_on CHR '','' names)
      | (None, None) \<Rightarrow> if sp_all_fields p \<noteq> None then set all_attrs else set all_attrs - set default_exclude)"

lemma fold_dict_del: "map_of (fold dict_del ks d) k = (if k \<in> set ks then None else map_of d k)"
  by (induction ks arbitrary: d) auto

lemma set_minus_attrs [simp]: "set (minus_attrs xs ys) = set xs - set ys"
  by (auto simp: minus_attrs_def)

lemma split_on_none: "c \<notin> set s \<Longrightarrow> split_on c s = [s]"
  by (induction s) auto

lemma add_fields_plain:
  "list_all (\<lambda>f. CHR ''/'' \<notin> set f) fs \<Longrightarrow>
   se_fields (fold add_field fs s) = se_fields s \<and> se_exclude_fields (fold add_field fs s) = se_exclude_fields s \<and>
   se_extra_attrs (fold add_field fs s) = se_extra_attrs s \<and>
   set (se_return_attrs (fold add_field fs s)) = set (se_return_attrs s) \<union> set fs"
  by (induction fs arbitrary: s) (auto simp: add_field_def split_on_none)

lemma exclude_fields_plain:
  "list_all (\<lambda>f. CHR ''/'' \<notin> set f) fs \<Longrightarrow> foldE exclude_field fs s = Inr s' \<Longrightarrow>
   se_fields s' = se_fields s \<and> se_exclude_fields s' = se_exclude_fields s \<and>
   se_extra_attrs s' = se_extra_attrs s \<and> set (se_return_attrs s') = set (se_return_attrs s) - set fs"
  by (induction fs arbitrary: s) (auto simp: exclude_field_def bindE_eq_Inr split: if_splits)

definition plain_names :: "string option \<Rightarrow> bool" where
  "plain_names names \<longleftrightarrow> (case names of None \<Rightarrow> True | Some n \<Rightarrow> CHR ''/'' \<notin> set n)"

lemma split_on_chars: "f \<in> set (split_on c s) \<Longrightarrow> set f \<subseteq> set s"
proof (induction s arbitrary: f)
  case (Cons a s)
  then show ?case by (cases "split_on c s") (force split: if_splits)+
qed simp

lemma parse_selector_plain:
  assumes "parse_selector all_attrs excl p = Inr s" and "plain_names (sp_fields p)" and "plain_names (sp_exclude_fields p)"
  shows "se_fields s = [] \<and> se_exclude_fields s = [] \<and> se_extra_attrs s = [] \<and>
    set (se_return_attrs s) = selected all_attrs excl p"
proof -
  have plain: "list_all (\<lambda>f. CHR ''/'' \<notin> set f) (split_on CHR '','' names)" if "CHR ''/'' \<notin> set names" for names
    using that split_on_chars by (fastforce simp: list_all_iff)
  show ?thesis
    using assms plain
    by (auto simp: parse_selector_def new_selector_def Let_def selected_def plain_names_def add_fields_plain
        split: if_splits option.splits dest!: exclude_fields_plain [rotated])
qed

lemma map_of_restrict_row:
  "dict_wf row \<Longrightarrow> map_of (restrict_row attrs row) k =
     (if k \<in> set attrs then (case map_of row k of Some v \<Rightarrow> if v = JNull then None else Some v | None \<Rightarrow> None) else None)"
  by (induction row) (force simp: restrict_row_def weak_map_of_SomeI split: option.splits dest: map_of_SomeD)+

text \<open>
  A list response holds exactly what the selector asks for: for top-level names in
  \<open>fields\<close> and \<open>exclude_fields\<close>, the body of a row has its links and the selected attributes that
  are set, with the values of the row; the attributes that were read for a filter or a policy only
  are gone.
\<close>

lemma selection_exact:
  assumes "parse_selector all_attrs excl p = Inr s" and "plain_names (sp_fields p)" and "plain_names (sp_exclude_fields p)"
    and "dict_wf row" and "''_links'' \<notin> set extra"
  shows "\<exists>body. selector_filter (add_extra_attrs extra s)
      (dict_set ''_links'' links (restrict_row (List.union (se_return_attrs (add_extra_attrs extra s))
        (se_extra_attrs (add_extra_attrs extra s))) row)) = Inr body \<and>
    map_of body = (\<lambda>k. if k = ''_links'' then Some links
      else if k \<in> selected all_attrs excl p
      then (case map_of row k of Some v \<Rightarrow> if v = JNull then None else Some v | None \<Rightarrow> None) else None)"
  using parse_selector_plain [OF assms(1-3)] assms(4,5)
  by (auto simp: selector_filter_def add_extra_attrs_def fold_dict_del map_of_restrict_row fun_eq_iff)

definition ex_params :: sel_params where
  "ex_params = \<lparr>sp_all_fields = None, sp_fields = Some ''metadata'', sp_exclude_fields = None, sp_exclude_default = None\<rparr>"

text \<open>An unknown name in \<open>exclude_fields\<close> is not answered as an invalid selector: the selector
  raises KeyError, which the API reports as an internal error.\<close>

lemma unknown_exclude_field_raises:
  assumes "CHR ''/'' \<notin> set name" and "CHR '','' \<notin> set name" and "name \<notin> set all_attrs"
  shows "parse_selector all_attrs excl
    \<lparr>sp_all_fields = None, sp_fields = None, sp_exclude_fields = Some name, sp_exclude_default = None\<rparr> = Inl (key_error name)"
  using assms by (simp add: parse_selector_def new_selector_def exclude_field_def split_on_none)

subsection \<open>No credentials in a response\<close>

definition no_creds :: "json \<Rightarrow> bool" where
  "no_creds vim \<longleftrightarrow> (case vim of JObj d \<Rightarrow> (case map_of d ''accessInfo'' of
       Some (JObj a) \<Rightarrow> \<forall>k \<in> set cred_data. map_of a k = None | _ \<Rightarrow> True) | _ \<Rightarrow> True)"

definition vims_clean :: "jdict \<Rightarrow> bool" where
  "vims_clean d \<longleftrightarrow> (case map_of d ''vimConnectionInfo'' of Some (JObj vims) \<Rightarrow> \<forall>v \<in> snd ` set vims. no_creds v | _ \<Rightarrow> True)"

lemma pop_cred_keys_obj: "pop_cred_keys j = Inr (JObj a) \<Longrightarrow> \<exists>b. j = JObj b"
  by (cases j) (auto simp: pop_cred_keys_def cred_data_def bindE_eq_Inr split: if_splits)

lemma pop_vim_cred_clean:
  assumes "pop_vim_cred guarded vim = Inr vim'"
  shows "no_creds vim'"
proof (cases vim)
  case (JObj d)
  show ?thesis
  proof (cases "map_of d ''accessInfo''")
    case None
    with JObj assms show ?thesis by (auto simp: pop_vim_cred_def no_creds_def split: if_splits)
  next
    case (Some a)
    then obtain a' where a': "pop_cred_keys a = Inr a'" "vim' = JObj (dict_set ''accessInfo'' a' d)"
      using assms JObj by (auto simp: pop_vim_cred_def bindE_eq_Inr)
    then show ?thesis
      using pop_cred_keys_obj [of a] by (cases a') (auto simp: no_creds_def pop_cred_keys_def fold_dict_del)
  qed
qed (use assms in \<open>auto simp: pop_vim_cred_def no_creds_def bindE_eq_Inr split: if_splits\<close>)

lemma pop_vims_clean:
  assumes "pop_vims guarded d = Inr d'"
  shows "vims_clean d'"
proof (cases "map_of d ''vimConnectionInfo''")
  case None
  with assms show ?thesis by (simp add: pop_vims_def vims_clean_def)
next
  case (Some j)
  then obtain vims vims' where v: "j = JObj vims" "d' = dict_set ''vimConnectionInfo'' (JObj vims') d"
    "mapE (\<lambda>(k, v). bindE (pop_vim_cred guarded v) (\<lambda>v'. Inr (k, v'))) vims = Inr vims'"
    using assms by (auto simp: pop_vims_def bindE_eq_Inr split: json.splits)
  have "\<forall>v \<in> snd ` set vims'. no_creds v"
    using v(3) by (induction vims arbitrary: vims') (fastforce simp: bindE_eq_Inr dest: pop_vim_cred_clean)+
  with v(2) show ?thesis by (simp add: vims_clean_def)
qed

lemma sub_dict_result:
  assumes "sub_dict key f d = Inr d'"
  shows "map_of d' k = map_of d k \<or> k = key \<and> (\<exists>e e'. map_of d' k = Some (JObj e') \<and> f e = Inr e')"
    "map_of d key = Some (JObj e) \<Longrightarrow> \<exists>e'. map_of d' key = Some (JObj e') \<and> f e = Inr e'"
    "map_of d' key = Some (JObj e') \<Longrightarrow> \<exists>e. f e = Inr e'"
  using assms by (auto simp: sub_dict_def bindE_eq_Inr split: option.splits json.splits if_splits)

lemma pop_additional_vims: "pop_additional d = Inr d' \<Longrightarrow> map_of d' ''vimConnectionInfo'' = map_of d ''vimConnectionInfo''"
  by (auto simp: pop_additional_def bindE_eq_Inr split: option.splits json.splits)


definition ex_row :: "string \<Rightarrow> jdict" where
  "ex_row i = [(''id'', JStr i), (''instantiationState'', JStr ''INSTANTIATED''),
     (''vimConnectionInfo'', JObj [(''vim'', JObj [(''accessInfo'', JObj [(''username'', JStr ''u''), (''password'', JStr ''p'')])])])]"



subsection \<open>Following the pages\<close>

text \<open>The client follows the link of each response; the query of the URL stays the same.\<close>

fun follow :: "nat \<Rightarrow> listing \<Rightarrow> filter_expr list \<Rightarrow> selector \<Rightarrow> pager \<Rightarrow> jdict list pyres option" where
  "follow 0 ls filters s p = None"
| "follow (Suc n) ls filters s p = (case index_list ls filters s p of
      Inl e \<Rightarrow> Some (Inl e)
    | Inr (page, p') \<Rightarrow> (case pg_next_marker p' of
        None \<Rightarrow> Some (Inr page)
      | Some m \<Rightarrow> map_option (\<lambda>r. bindE r (\<lambda>rest. Inr (page @ rest))) (follow n ls filters s (p\<lparr>pg_marker := Some m\<rparr>))))"

definition row_id :: "jdict \<Rightarrow> string" where
  "row_id r = (case map_of r ''id'' of Some (JStr i) \<Rightarrow> i | _ \<Rightarrow> [])"

definition after_marker :: "string option \<Rightarrow> jdict \<Rightarrow> bool" where
  "after_marker m r \<longleftrightarrow> (case m of Some (c # i) \<Rightarrow> c # i < row_id r | _ \<Rightarrow> True)"

text \<open>What paging relies on: the rows come in the order of their identifiers, the database
  compares them in that order, every row has a body with its identifier, and when the number of
  rows is limited in the database no row is dropped afterwards.\<close>

definition pageable :: "listing \<Rightarrow> filter_expr list \<Rightarrow> selector \<Rightarrow> (jdict \<Rightarrow> jdict) \<Rightarrow> bool" where
  "pageable ls filters s body \<longleftrightarrow>
     sorted_wrt (\<lambda>a b. row_id a < row_id b) (ls_rows ls) \<and>
     (\<forall>r \<in> set (ls_rows ls). row_id r \<noteq> []) \<and>
     (\<forall>m. \<forall>r \<in> set (ls_rows ls). ls_sat ls (''gt'', ''id'', [JStr m]) r \<longleftrightarrow> m < row_id r) \<and>
     list_all (\<lambda>f. known_attr s f \<and> to_db f \<noteq> None) filters \<and>
     (let s1 = add_extra_attrs (List.map_filter top_attr filters) s;
          attrs = List.union (se_return_attrs s1) (se_extra_attrs s1) in
      set attrs \<subseteq> set (ls_columns ls) \<and>
      (\<forall>r \<in> set (ls_rows ls). \<exists>b. ls_can ls (restrict_row attrs r) = Inr b) \<and>
      (se_extra_attrs s1 = [] \<longrightarrow> (\<forall>r \<in> set (ls_rows ls). ls_can ls (restrict_row attrs r) = Inr True)) \<and>
      (\<forall>r \<in> set (ls_rows ls). ls_detail ls s1 (restrict_row attrs r) = Inr (body r) \<and>
         body_id (body r) = Inr (row_id r)))"

definition listed :: "listing \<Rightarrow> filter_expr list \<Rightarrow> selector \<Rightarrow> jdict \<Rightarrow> bool" where
  "listed ls filters s r \<longleftrightarrow>
     (let s1 = add_extra_attrs (List.map_filter top_attr filters) s in
      (\<forall>f \<in> set (List.map_filter to_db filters). ls_sat ls f r) \<and>
      ls_can ls (restrict_row (List.union (se_return_attrs s1) (se_extra_attrs s1)) r) = Inr True)"

lemma detail_matching_all:
  "(\<And>r. r \<in> set rs \<Longrightarrow> det r = Inr (b r)) \<Longrightarrow> detail_matching det [] rs = Inr (map b rs)"
  by (induction rs) auto

lemma handle_pager_run:
  assumes "\<And>b. b \<in> set bs \<Longrightarrow> body_id b = Inr (key b)" and "pg_page_size p > 0"
  shows "handle_pager p bs = Inr (take (pg_page_size p) bs,
    p\<lparr>pg_next_marker := if length bs > pg_page_size p then Some (key (bs ! (pg_page_size p - 1))) else None\<rparr>)"
proof (cases "length bs > pg_page_size p")
  case True
  then have "take (pg_page_size p) bs \<noteq> []" using assms(2) by auto
  with True have "last (take (pg_page_size p) bs) = bs ! (pg_page_size p - 1)" "bs ! (pg_page_size p - 1) \<in> set bs"
    using assms(2) by (simp_all add: last_conv_nth)
  with True assms show ?thesis by (simp add: handle_pager_def Let_def)
qed (use assms(2) in \<open>simp add: handle_pager_def\<close>)

lemma map_restrict_detail:
  assumes "\<And>r. r \<in> set rs \<Longrightarrow> det (f r) = Inr (b r)"
  shows "detail_matching det [] (filter P (map f rs)) = Inr (map b (filter (\<lambda>r. P (f r)) rs))"
  using assms by (induction rs) auto

text \<open>One request: the first rows after the marker, and a marker when there are more.\<close>

lemma index_list_page:
  assumes "pageable ls filters s body" and "pg_page_size p > 0"
  defines "ys \<equiv> filter (\<lambda>r. listed ls filters s r \<and> after_marker (pg_marker p) r) (ls_rows ls)"
  shows "\<exists>p'. index_list ls filters s p = Inr (map body (take (pg_page_size p) ys), p') \<and>
    pg_next_marker p' = (if length ys > pg_page_size p then Some (row_id (ys ! (pg_page_size p - 1))) else None)"
proof -
  let ?n = "pg_page_size p"
  define s1 where "s1 = add_extra_attrs (List.map_filter top_attr filters) s"
  define attrs where "attrs = List.union (se_return_attrs s1) (se_extra_attrs s1)"
  let ?db = "List.map_filter to_db filters @ marker_filter p"
  let ?rows = "filter (\<lambda>r. \<forall>f \<in> set ?db. ls_sat ls f r) (ls_rows ls)"
  note pg = assms(1) [unfolded pageable_def Let_def, folded s1_def, folded attrs_def]
  have known: "list_all (known_attr s) filters" "filter (\<lambda>f. to_db f = None) filters = []"
    using pg by (auto simp: list_all_iff filter_empty_conv)
  have cols: "List.find (\<lambda>a. a \<notin> set (ls_columns ls)) attrs = None" using pg by (auto simp: find_None_iff2)
  have marker: "(\<forall>f \<in> set (marker_filter p). ls_sat ls f r) \<longleftrightarrow> after_marker (pg_marker p) r" if "r \<in> set (ls_rows ls)" for r
    using pg that by (auto simp: marker_filter_def after_marker_def split: option.splits list.splits)
  let ?lim = "page_limit p [] s1"
  let ?cand = "limited ?lim ?rows"
  have get: "get_dict_all ls filters s p = Inr (map (restrict_row attrs) ?cand, [], s1)"
    using known cols by (simp add: get_dict_all_def db_get_dict_all_def s1_def [symmetric] attrs_def [symmetric] Let_def)
  have sub: "set ?cand \<subseteq> set (ls_rows ls)"
    by (auto simp: limited_def split: option.splits dest: in_set_takeD)
  let ?can = "\<lambda>r. ls_can ls (restrict_row attrs r) = Inr True"
  have "\<exists>b. ls_can ls (restrict_row attrs r) = Inr b" if "r \<in> set ?cand" for r
    using pg sub that by blast
  then have can: "filterE (ls_can ls) (map (restrict_row attrs) ?cand) =
      Inr (filter (\<lambda>x. ls_can ls x = Inr True) (map (restrict_row attrs) ?cand))"
    by (intro filterE_pure) fastforce
  have det: "detail_matching (ls_detail ls s1) [] (filter (\<lambda>x. ls_can ls x = Inr True) (map (restrict_row attrs) ?cand)) =
      Inr (map body (filter ?can ?cand))"
    using pg sub by (intro map_restrict_detail) auto
  define zs where "zs = filter ?can ?cand"
  have run: "index_list ls filters s p = handle_pager p (map body zs)"
    by (simp only: index_list_def get can det bindE_Inr prod.case zs_def)
  have ys: "filter ?can ?rows = ys"
    unfolding ys_def filter_filter listed_def Let_def s1_def [symmetric] attrs_def [symmetric]
    by (rule filter_cong) (auto simp: marker [symmetric])
  have zs: "zs = (if ?lim = None then ys else take (?n + 1) ys)"
  proof (cases ?lim)
    case None
    with ys show ?thesis by (simp add: zs_def limited_def del: filter_filter)
  next
    case (Some l)
    then have l: "l = ?n + 1" "se_extra_attrs s1 = []" by (auto simp: page_limit_def split: if_splits)
    then have "\<forall>r \<in> set (ls_rows ls). ?can r" using pg by blast
    then have "zs = ?cand" and "ys = ?rows" unfolding zs_def ys [symmetric]
      using sub by (intro filter_True; auto)+
    with Some l show ?thesis by (simp add: limited_def)
  qed
  have ids: "body_id b = Inr (row_id b')" if "b = body b'" "b' \<in> set (ls_rows ls)" for b b'
    using that pg by auto
  have "set zs \<subseteq> set (ls_rows ls)" using sub by (auto simp: zs_def)
  then have key: "body_id b = Inr (case body_id b of Inr i \<Rightarrow> i | Inl _ \<Rightarrow> [])" if "b \<in> set (map body zs)" for b
    using that ids by auto
  obtain p' where p': "index_list ls filters s p = Inr (take ?n (map body zs), p')"
    "pg_next_marker p' = (if length zs > ?n
       then Some (case body_id (map body zs ! (?n - 1)) of Inr i \<Rightarrow> i | Inl _ \<Rightarrow> []) else None)"
    using handle_pager_run [OF key assms(2), of "map body zs"] run by simp
  moreover have "take ?n zs = take ?n ys" "length zs > ?n \<longleftrightarrow> length ys > ?n"
    by (auto simp: zs min_def)
  moreover have "(case body_id (map body zs ! (?n - 1)) of Inr i \<Rightarrow> i | Inl _ \<Rightarrow> []) = row_id (ys ! (?n - 1))"
    if "length zs > ?n"
  proof -
    have lt: "?n - 1 < length zs" "?n - 1 < length ys" using that \<open>length zs > ?n \<longleftrightarrow> length ys > ?n\<close> by auto
    then have "zs ! (?n - 1) = ys ! (?n - 1)" using assms(2) by (auto simp: zs)
    moreover have "zs ! (?n - 1) \<in> set (ls_rows ls)" using lt(1) \<open>set zs \<subseteq> set (ls_rows ls)\<close> nth_mem by blast
    ultimately show ?thesis using lt(1) pg by auto
  qed
  ultimately show ?thesis by (auto simp: take_map)
qed


lemma sorted_drop:
  assumes "sorted_wrt (\<lambda>a b. key a < (key b :: string)) ys" and "0 < n" and "n < length ys"
  shows "filter (\<lambda>r. key (ys ! (n - 1)) < key r) ys = drop n ys"
proof -
  have lt: "i < length ys \<Longrightarrow> j < length ys \<Longrightarrow> key (ys ! i) < key (ys ! j) \<longleftrightarrow> i < j" for i j
    using assms(1) by (cases i j rule: linorder_cases) (auto simp: sorted_wrt_iff_nth_less dest: less_asym)
  have "\<forall>r \<in> set (take n ys). \<not> key (ys ! (n - 1)) < key r"
    using assms(2,3) lt by (auto simp: in_set_conv_nth)
  moreover have "\<forall>r \<in> set (drop n ys). key (ys ! (n - 1)) < key r"
    using assms(2,3) lt by (auto simp: in_set_conv_nth)
  ultimately have "filter (\<lambda>r. key (ys ! (n - 1)) < key r) (take n ys @ drop n ys) = drop n ys"
    by (simp only: filter_append) (simp add: filter_empty_conv filter_id_conv)
  then show ?thesis by simp
qed

lemma follow_after:
  assumes "pageable ls filters s body" and "pg_page_size p > 0"
  shows "\<exists>k. follow k ls filters s p =
    Some (Inr (map body (filter (\<lambda>r. listed ls filters s r \<and> after_marker (pg_marker p) r) (ls_rows ls))))"
  using assms
proof (induction "length (filter (\<lambda>r. listed ls filters s r \<and> after_marker (pg_marker p) r) (ls_rows ls))"
    arbitrary: p rule: less_induct)
  case less
  define ys where "ys = filter (\<lambda>r. listed ls filters s r \<and> after_marker (pg_marker p) r) (ls_rows ls)"
  let ?n = "pg_page_size p"
  obtain p' where p': "index_list ls filters s p = Inr (map body (take ?n ys), p')"
    "pg_next_marker p' = (if length ys > ?n then Some (row_id (ys ! (?n - 1))) else None)"
    using index_list_page [OF less.prems] by (auto simp: ys_def)
  show ?case
  proof (cases "length ys > ?n")
    case False
    with p' have "follow 1 ls filters s p = Some (Inr (map body ys))" by simp
    then show ?thesis unfolding ys_def by blast
  next
    case True
    define m where "m = row_id (ys ! (?n - 1))"
    let ?p = "p\<lparr>pg_marker := Some m\<rparr>"
    have n1: "ys ! (?n - 1) \<in> set ys" using True by simp
    then have row: "ys ! (?n - 1) \<in> set (ls_rows ls)" "after_marker (pg_marker p) (ys ! (?n - 1))" by (auto simp: ys_def)
    then have "m \<noteq> []" using less.prems(1) by (auto simp: pageable_def m_def)
    then have after: "after_marker (Some m) r \<longleftrightarrow> m < row_id r" for r
      by (auto simp: after_marker_def split: list.splits)
    have below: "after_marker (pg_marker p) r" if "m < row_id r" for r
      using row(2) that by (auto simp: after_marker_def m_def split: option.splits list.splits)
    have "filter (\<lambda>r. listed ls filters s r \<and> after_marker (Some m) r) (ls_rows ls) = filter (\<lambda>r. m < row_id r) ys"
      unfolding ys_def filter_filter after using below by (intro filter_cong) blast+
    moreover have "sorted_wrt (\<lambda>a b. row_id a < row_id b) ys"
      using less.prems(1) by (auto simp: ys_def pageable_def intro: sorted_wrt_filter)
    ultimately have rest: "filter (\<lambda>r. listed ls filters s r \<and> after_marker (pg_marker ?p) r) (ls_rows ls) = drop ?n ys"
      using sorted_drop [of row_id ys ?n] less.prems(2) True by (simp add: m_def)
    moreover have "length ys - ?n < length ys" using True less.prems(2) by linarith
    ultimately obtain k where "follow k ls filters s ?p = Some (Inr (map body (drop ?n ys)))"
      using less.hyps [of ?p] less.prems rest True by (auto simp: ys_def [symmetric])
    with p' True have "follow (Suc k) ls filters s p = Some (Inr (map body (take ?n ys) @ map body (drop ?n ys)))" by (simp add: m_def)
    then show ?thesis unfolding ys_def [symmetric] by (metis append_take_drop_id map_append)
  qed
qed


definition ex_listing :: "string list \<Rightarrow> (jdict \<Rightarrow> bool) \<Rightarrow> listing" where
  "ex_listing ids can = \<lparr>ls_columns = [''id''], ls_rows = map (\<lambda>i. [(''id'', JStr i)]) ids,
     ls_sat = (\<lambda>(op, a, vs) r. case vs of [JStr m] \<Rightarrow> m < row_id r | _ \<Rightarrow> True), ls_can = (\<lambda>r. Inr (can r)), ls_detail = (\<lambda>s r. Inr r)\<rparr>"

definition ex_selector :: selector where
  "ex_selector = \<lparr>se_all_attrs = [''id''], se_return_attrs = [''id''], se_exclude_fields = [], se_fields = [],
     se_extra_attrs = []\<rparr>"

definition ex_pager :: pager where
  "ex_pager = \<lparr>pg_marker = None, pg_req_url = ''u'', pg_page_size = 1, pg_next_marker = None\<rparr>"


text \<open>
  Paging loses rows in two situations. The query has no ORDER BY, and when the database does
  not return the rows in the order of their identifiers, a row that comes after a greater one is
  never listed. And when every attribute is requested the query is limited although the policy is
  applied afterwards: the listing ends at a page whose rows the policy drops, and a later row that
  the user may see is never listed.
\<close>

lemma paging_loses_rows:
  "listed (ex_listing [''b'', ''a''] (\<lambda>_. True)) [] ex_selector [(''id'', JStr ''a'')] \<and>
   follow 2 (ex_listing [''b'', ''a''] (\<lambda>_. True)) [] ex_selector ex_pager = Some (Inr [[(''id'', JStr ''b'')]]) \<and>
   listed (ex_listing [''a'', ''b'', ''c''] (\<lambda>r. r = [(''id'', JStr ''c'')])) [] ex_selector [(''id'', JStr ''c'')] \<and>
   follow 1 (ex_listing [''a'', ''b'', ''c''] (\<lambda>r. r = [(''id'', JStr ''c'')])) [] ex_selector ex_pager = Some (Inr [])"
  by (intro conjI; code_simp)

end
