(* ===== verification/Auto_Timer.thy ===== *)
theory Auto_Timer
  imports Lcm_Auto
begin

section \<open>Timers of automatic healing\<close>

text \<open>
  \<^verbatim>\<open>conductor/server_notification_driver.py\<close> and \<^verbatim>\<open>conductor/prometheus_plugin_driver.py\<close> collect
  the identifiers of broken VNFCs for a while and then start one heal operation for all of them. Both
  have the same structure, a dictionary from VNF instances to timers, and differ in the queue: a
  list that is extended by many identifiers and deduplicated at the end, or a set to which one
  identifier is added.

  The requests and the timers run in threads of their own. A thread is a program counter \<open>pc\<close>: one
  constructor per access to a shared object (the dictionary, the state that a timer guards with its
  lock). \<open>timer_step\<close> is what a thread does at one of them, \<open>run_thread\<close> a thread that runs
  alone to its end, \<open>tstep\<close> any interleaving of threads. A thread that raises KeyError is gone.
  The number of a timer stands for the identity of the object; \<open>ts_requests\<close> and \<open>ts_heals\<close>
  record what was asked for and what was started.
\<close>

record 'q timer =
  tm_vnf_instance_id :: string
  tm_expired :: bool
  tm_waiting :: bool
  tm_queue :: 'q

datatype 'i pc =
    NTest string 'i | NNew string 'i | NAssign string 'i nat | NFind string 'i | NAdd string 'i nat
  | RTest string "(nat \<times> string list) option" | RFind string "(nat \<times> string list) option"
  | RCancel string "(nat \<times> string list) option" nat | RDel string "(nat \<times> string list) option"
  | ELock nat | ERead nat | Heal nat string "string list"

record ('q, 'i) tsys =
  ts_timers :: "'q timer list"
  ts_map :: "(string, nat) dict"
  ts_threads :: "'i pc list"
  ts_requests :: "(string \<times> 'i) list"
  ts_heals :: "(nat \<times> string \<times> string list) list"

definition timer_new :: "'q \<Rightarrow> string \<Rightarrow> 'q timer" where
  "timer_new emp vnf_instance_id =
     \<lparr>tm_vnf_instance_id = vnf_instance_id, tm_expired = False, tm_waiting = True, tm_queue = emp\<rparr>"

definition timer_add :: "('i \<Rightarrow> 'q \<Rightarrow> 'q) \<Rightarrow> 'i \<Rightarrow> 'q timer \<Rightarrow> 'q timer" where
  "timer_add add i t = (if tm_expired t then t else t\<lparr>tm_queue := add i (tm_queue t)\<rparr>)"

text \<open>\<open>self.timer.cancel()\<close> stops a timer that still waits.\<close>

definition timer_cancel :: "'q timer \<Rightarrow> 'q timer" where
  "timer_cancel t = (if tm_expired t then t else t\<lparr>tm_waiting := False, tm_expired := True\<rparr>)"

definition on_timer :: "nat \<Rightarrow> ('q timer \<Rightarrow> 'q timer) \<Rightarrow> ('q, 'i) tsys \<Rightarrow> ('q, 'i) tsys" where
  "on_timer n f s = s\<lparr>ts_timers := (ts_timers s)[n := f (ts_timers s ! n)]\<rparr>"

definition removed :: "string \<Rightarrow> (nat \<times> string list) option \<Rightarrow> 'i pc option" where
  "removed v k = map_option (\<lambda>(n, ids). Heal n v ids) k"

fun timer_step :: "('i \<Rightarrow> 'q \<Rightarrow> 'q) \<Rightarrow> 'q \<Rightarrow> ('q \<Rightarrow> string list) \<Rightarrow> 'i pc \<Rightarrow> ('q, 'i) tsys \<Rightarrow>
    'i pc option \<times> ('q, 'i) tsys" where
  "timer_step add emp report (NTest v i) s = (Some (if dict_has (ts_map s) v then NFind v i else NNew v i), s)"
| "timer_step add emp report (NNew v i) s =
     (Some (NAssign v i (length (ts_timers s))), s\<lparr>ts_timers := ts_timers s @ [timer_new emp v]\<rparr>)"
| "timer_step add emp report (NAssign v i n) s = (Some (NFind v i), s\<lparr>ts_map := dict_set v n (ts_map s)\<rparr>)"
| "timer_step add emp report (NFind v i) s = (map_option (NAdd v i) (map_of (ts_map s) v), s)"
| "timer_step add emp report (NAdd v i n) s = (None, on_timer n (timer_add add i) s)"
| "timer_step add emp report (RTest v k) s = (if dict_has (ts_map s) v then (Some (RFind v k), s) else (removed v k, s))"
| "timer_step add emp report (RFind v k) s = (map_option (RCancel v k) (map_of (ts_map s) v), s)"
| "timer_step add emp report (RCancel v k n) s = (Some (RDel v k), on_timer n timer_cancel s)"
| "timer_step add emp report (RDel v k) s =
     (if dict_has (ts_map s) v then (removed v k, s\<lparr>ts_map := dict_del v (ts_map s)\<rparr>) else (None, s))"
| "timer_step add emp report (ELock n) s =
     (if tm_expired (ts_timers s ! n) then (None, s) else (Some (ERead n), on_timer n timer_cancel s))"
| "timer_step add emp report (ERead n) s =
     (Some (RTest (tm_vnf_instance_id (ts_timers s ! n)) (Some (n, report (tm_queue (ts_timers s ! n))))), s)"
| "timer_step add emp report (Heal n v ids) s = (None, s\<lparr>ts_heals := ts_heals s @ [(n, v, ids)]\<rparr>)"

subsection \<open>Starting the operations\<close>

definition heal_request :: "string list \<Rightarrow> op_params" where
  "heal_request ids = empty_params\<lparr>rq_vnfcInstanceId := Some ids\<rparr>"

definition request_heal :: "env \<Rightarrow> string \<Rightarrow> string list \<Rightarrow> unit vnfm" where
  "request_heal env vnf_instance_id ids = tryS (auto_heal env vnf_instance_id (heal_request ids)) (\<lambda>_. retS ())"

definition trigger_heal :: "env \<Rightarrow> string \<Rightarrow> string list \<Rightarrow> unit vnfm" where
  "trigger_heal env vnf_instance_id ids = auto_heal env vnf_instance_id (heal_request ids)"

definition trigger_scale :: "env \<Rightarrow> string \<Rightarrow> op_params \<Rightarrow> unit vnfm" where
  "trigger_scale env vnf_instance_id scale_req =
     bindS (liftS (item ''type'' (rq_type scale_req))) (\<lambda>_.
     bindS (liftS (item ''aspectId'' (rq_aspectId scale_req))) (\<lambda>_.
       auto_scale env vnf_instance_id scale_req))"

subsection \<open>Threads\<close>

fun pc_rank :: "'i pc \<Rightarrow> nat" where
  "pc_rank (NTest v i) = 5" | "pc_rank (NNew v i) = 4" | "pc_rank (NAssign v i n) = 3" | "pc_rank (NFind v i) = 2"
| "pc_rank (NAdd v i n) = 1" | "pc_rank (RTest v k) = 5" | "pc_rank (RFind v k) = 4" | "pc_rank (RCancel v k n) = 3"
| "pc_rank (RDel v k) = 2" | "pc_rank (ELock n) = 7" | "pc_rank (ERead n) = 6" | "pc_rank (Heal n v ids) = 1"

lemma timer_step_rank: "timer_step add emp report p s = (Some p', s') \<Longrightarrow> pc_rank p' < pc_rank p"
  by (cases "(add, emp, report, p, s)" rule: timer_step.cases) (auto simp: removed_def split: if_splits)

function run_thread :: "('i \<Rightarrow> 'q \<Rightarrow> 'q) \<Rightarrow> 'q \<Rightarrow> ('q \<Rightarrow> string list) \<Rightarrow> 'i pc \<Rightarrow> ('q, 'i) tsys \<Rightarrow> ('q, 'i) tsys" where
  "run_thread add emp report p s = (case timer_step add emp report p s of
      (None, s') \<Rightarrow> s' | (Some p', s') \<Rightarrow> run_thread add emp report p' s')"
  by pat_completeness auto
termination by (relation "measure (\<lambda>(_, _, _, p, _). pc_rank p)") (auto dest: timer_step_rank [OF sym])

declare run_thread.simps [simp del]

inductive tstep :: "('i \<Rightarrow> 'q \<Rightarrow> 'q) \<Rightarrow> 'q \<Rightarrow> ('q \<Rightarrow> string list) \<Rightarrow> ('q, 'i) tsys \<Rightarrow> ('q, 'i) tsys \<Rightarrow> bool"
  for add emp report where
  notify: "tstep add emp report s (s\<lparr>ts_threads := ts_threads s @ [NTest v i], ts_requests := ts_requests s @ [(v, i)]\<rparr>)"
| remove: "tstep add emp report s (s\<lparr>ts_threads := ts_threads s @ [RTest v None]\<rparr>)"
| elapse: "n < length (ts_timers s) \<Longrightarrow> tm_waiting (ts_timers s ! n) \<Longrightarrow>
    tstep add emp report s ((on_timer n (\<lambda>t. t\<lparr>tm_waiting := False\<rparr>) s)\<lparr>ts_threads := ts_threads s @ [ELock n]\<rparr>)"
| run: "ts_threads s = ps @ p # qs \<Longrightarrow> timer_step add emp report p s = (np, s') \<Longrightarrow>
    tstep add emp report s (s'\<lparr>ts_threads := ps @ (case np of None \<Rightarrow> [] | Some p' \<Rightarrow> [p']) @ qs\<rparr>)"

definition idle :: "('q, 'i) tsys" where
  "idle = \<lparr>ts_timers = [], ts_map = [], ts_threads = [], ts_requests = [], ts_heals = []\<rparr>"

subsection \<open>What holds in every interleaving\<close>

definition asked :: "('i \<Rightarrow> string set) \<Rightarrow> ('q, 'i) tsys \<Rightarrow> string \<Rightarrow> string set" where
  "asked ids s v = \<Union> (ids ` {i. (v, i) \<in> set (ts_requests s)})"

definition claimed :: "('q \<Rightarrow> string list) \<Rightarrow> ('q, 'i) tsys \<Rightarrow> nat \<Rightarrow> string \<Rightarrow> string list \<Rightarrow> bool" where
  "claimed report s n v l \<longleftrightarrow> n < length (ts_timers s) \<and> tm_expired (ts_timers s ! n) \<and>
     tm_vnf_instance_id (ts_timers s ! n) = v \<and> l = report (tm_queue (ts_timers s ! n))"

definition then_ok :: "('q \<Rightarrow> string list) \<Rightarrow> ('q, 'i) tsys \<Rightarrow> string \<Rightarrow> (nat \<times> string list) option \<Rightarrow> bool" where
  "then_ok report s v k \<longleftrightarrow> (\<forall>n l. k = Some (n, l) \<longrightarrow> claimed report s n v l)"

fun pc_ok :: "('q \<Rightarrow> string list) \<Rightarrow> ('q, 'i) tsys \<Rightarrow> 'i pc \<Rightarrow> bool" where
  "pc_ok report s (NTest v i) \<longleftrightarrow> (v, i) \<in> set (ts_requests s)"
| "pc_ok report s (NNew v i) \<longleftrightarrow> (v, i) \<in> set (ts_requests s)"
| "pc_ok report s (NAssign v i n) \<longleftrightarrow> (v, i) \<in> set (ts_requests s) \<and> n < length (ts_timers s) \<and>
     tm_vnf_instance_id (ts_timers s ! n) = v"
| "pc_ok report s (NFind v i) \<longleftrightarrow> (v, i) \<in> set (ts_requests s)"
| "pc_ok report s (NAdd v i n) \<longleftrightarrow> (v, i) \<in> set (ts_requests s) \<and> n < length (ts_timers s) \<and>
     tm_vnf_instance_id (ts_timers s ! n) = v"
| "pc_ok report s (RTest v k) \<longleftrightarrow> then_ok report s v k"
| "pc_ok report s (RFind v k) \<longleftrightarrow> then_ok report s v k"
| "pc_ok report s (RCancel v k n) \<longleftrightarrow> then_ok report s v k \<and> n < length (ts_timers s)"
| "pc_ok report s (RDel v k) \<longleftrightarrow> then_ok report s v k"
| "pc_ok report s (ELock n) \<longleftrightarrow> n < length (ts_timers s)"
| "pc_ok report s (ERead n) \<longleftrightarrow> n < length (ts_timers s) \<and> tm_expired (ts_timers s ! n)"
| "pc_ok report s (Heal n v l) \<longleftrightarrow> claimed report s n v l"

text \<open>The timer whose heal a thread is going to start.\<close>

definition handed :: "(nat \<times> string list) option \<Rightarrow> nat list" where
  "handed k = (case k of None \<Rightarrow> [] | Some (n, l) \<Rightarrow> [n])"

fun owner :: "'i pc \<Rightarrow> nat list" where
  "owner (RTest v k) = handed k" | "owner (RFind v k) = handed k" | "owner (RCancel v k m) = handed k"
| "owner (RDel v k) = handed k" | "owner (ERead n) = [n]" | "owner (Heal n v l) = [n]" | "owner p = []"

definition owners :: "('q, 'i) tsys \<Rightarrow> nat list" where
  "owners s = concat (map owner (ts_threads s)) @ map fst (ts_heals s)"

definition map_ok :: "('q, 'i) tsys \<Rightarrow> bool" where
  "map_ok s \<longleftrightarrow> (\<forall>v n. map_of (ts_map s) v = Some n \<longrightarrow>
     n < length (ts_timers s) \<and> tm_vnf_instance_id (ts_timers s ! n) = v)"

definition queues_ok :: "('i \<Rightarrow> string set) \<Rightarrow> ('q \<Rightarrow> string list) \<Rightarrow> ('q, 'i) tsys \<Rightarrow> bool" where
  "queues_ok ids report s \<longleftrightarrow>
     (\<forall>t \<in> set (ts_timers s). set (report (tm_queue t)) \<subseteq> asked ids s (tm_vnf_instance_id t))"

definition timer_inv :: "('i \<Rightarrow> string set) \<Rightarrow> ('q \<Rightarrow> string list) \<Rightarrow> ('q, 'i) tsys \<Rightarrow> bool" where
  "timer_inv ids report s \<longleftrightarrow> map_ok s \<and> queues_ok ids report s \<and>
     (\<forall>p \<in> set (ts_threads s). pc_ok report s p) \<and> (\<forall>(n, v, l) \<in> set (ts_heals s). claimed report s n v l) \<and>
     distinct (owners s)"

text \<open>What the other threads may do: timers and requests are only added, a timer keeps its
  instance, and one that has expired keeps its queue.\<close>

definition grows :: "('q, 'i) tsys \<Rightarrow> ('q, 'i) tsys \<Rightarrow> bool" where
  "grows s s' \<longleftrightarrow> length (ts_timers s) \<le> length (ts_timers s') \<and> set (ts_requests s) \<subseteq> set (ts_requests s') \<and>
     (\<forall>n < length (ts_timers s). tm_vnf_instance_id (ts_timers s' ! n) = tm_vnf_instance_id (ts_timers s ! n) \<and>
       (tm_expired (ts_timers s ! n) \<longrightarrow> tm_expired (ts_timers s' ! n) \<and> tm_queue (ts_timers s' ! n) = tm_queue (ts_timers s ! n)))"

lemma claimed_grows: "grows s s' \<Longrightarrow> claimed report s n v l \<Longrightarrow> claimed report s' n v l"
  by (auto simp: grows_def claimed_def)

lemma pc_ok_grows: "grows s s' \<Longrightarrow> pc_ok report s p \<Longrightarrow> pc_ok report s' p"
  using claimed_grows [of s s'] by (cases p) (auto simp: grows_def then_ok_def)

lemma asked_grows: "grows s s' \<Longrightarrow> asked ids s v \<subseteq> asked ids s' v"
  by (auto simp: grows_def asked_def)

lemma timer_ops [simp]:
  "tm_vnf_instance_id (timer_add add i t) = tm_vnf_instance_id t" "tm_vnf_instance_id (timer_cancel t) = tm_vnf_instance_id t"
  "tm_expired (timer_add add i t) = tm_expired t" "tm_expired (timer_cancel t)" "tm_queue (timer_cancel t) = tm_queue t"
  "tm_expired t \<Longrightarrow> tm_queue (timer_add add i t) = tm_queue t"
  by (auto simp: timer_add_def timer_cancel_def)

lemma on_timer_simps [simp]:
  "ts_timers (on_timer n f s) = (ts_timers s)[n := f (ts_timers s ! n)]" "ts_map (on_timer n f s) = ts_map s"
  "ts_threads (on_timer n f s) = ts_threads s" "ts_requests (on_timer n f s) = ts_requests s"
  "ts_heals (on_timer n f s) = ts_heals s"
  by (simp_all add: on_timer_def)

lemma nth_modified: "n < length xs \<Longrightarrow> xs[m := f (xs ! m)] ! n = (if m = n then f (xs ! n) else xs ! n)"
  by (cases "m < length xs") (auto simp: nth_list_update)

lemma timer_new_simps [simp]:
  "tm_vnf_instance_id (timer_new emp v) = v" "\<not> tm_expired (timer_new emp v)" "tm_queue (timer_new emp v) = emp"
  "tm_waiting (timer_new emp v)"
  by (simp_all add: timer_new_def)

lemma timer_step_grows: "timer_step add emp report p s = (np, s') \<Longrightarrow> grows s s'"
  by (cases p) (auto simp: grows_def nth_append nth_modified split: if_splits)

lemma timer_step_map: "timer_step add emp report p s = (np, s') \<Longrightarrow> pc_ok report s p \<Longrightarrow> map_ok s \<Longrightarrow> map_ok s'"
  by (cases p) (auto simp: map_ok_def nth_append nth_modified less_Suc_eq split: if_splits)

lemma timer_step_pc:
  "timer_step add emp report p s = (Some p', s') \<Longrightarrow> pc_ok report s p \<Longrightarrow> map_ok s \<Longrightarrow> pc_ok report s' p'"
  by (cases p) (auto simp: map_ok_def then_ok_def removed_def claimed_def nth_modified split: if_splits)

lemma timer_step_healed:
  "timer_step add emp report p s = (np, s') \<Longrightarrow> h \<in> set (ts_heals s') \<Longrightarrow>
   h \<in> set (ts_heals s) \<or> (\<exists>n v l. h = (n, v, l) \<and> p = Heal n v l)"
  by (cases p) (auto split: if_splits)

lemma timer_step_heals:
  assumes "timer_step add emp report p s = (np, s')" and "pc_ok report s p"
    and "\<forall>(n, v, l) \<in> set (ts_heals s). claimed report s n v l"
  shows "\<forall>(n, v, l) \<in> set (ts_heals s'). claimed report s' n v l"
proof -
  have "claimed report s n v l" if "(n, v, l) \<in> set (ts_heals s')" for n v l
    using timer_step_healed [OF assms(1) that] assms(2,3) by auto
  then show ?thesis using claimed_grows [OF timer_step_grows [OF assms(1)]] by blast
qed

text \<open>A thread hands its timer on, or puts it into the list of heals, or takes one that had not
  expired.\<close>

lemma timer_step_owner:
  assumes "timer_step add emp report p s = (np, s')"
  shows "ts_heals s' = ts_heals s \<and> (np = None \<or> concat (map owner (case np of None \<Rightarrow> [] | Some p' \<Rightarrow> [p'])) = owner p) \<or>
    (\<exists>n v l. p = Heal n v l \<and> np = None \<and> ts_heals s' = ts_heals s @ [(n, v, l)]) \<or>
    (\<exists>n. p = ELock n \<and> np = Some (ERead n) \<and> ts_heals s' = ts_heals s \<and> \<not> tm_expired (ts_timers s ! n))"
  using assms by (cases p) (auto simp: removed_def handed_def split: if_splits option.splits)

lemma owners_claimed:
  assumes "timer_inv ids report s" and "n \<in> set (owners s)"
  shows "n < length (ts_timers s) \<and> tm_expired (ts_timers s ! n)"
proof -
  have "n < length (ts_timers s) \<and> tm_expired (ts_timers s ! n)" if "p \<in> set (ts_threads s)" "n \<in> set (owner p)" for p
  proof -
    have "pc_ok report s p" using assms(1) that(1) by (simp add: timer_inv_def)
    with that(2) show ?thesis by (cases p rule: owner.cases) (auto simp: then_ok_def claimed_def handed_def split: option.splits)
  qed
  with assms show ?thesis by (fastforce simp: owners_def timer_inv_def claimed_def)
qed

locale heal_queue =
  fixes add :: "'i \<Rightarrow> 'q \<Rightarrow> 'q" and emp :: 'q and report :: "'q \<Rightarrow> string list" and ids :: "'i \<Rightarrow> string set"
  assumes report_emp: "set (report emp) = {}"
    and report_add: "set (report (add i q)) = ids i \<union> set (report q)"
begin

lemma step_queues:
  assumes "timer_step add emp report p s = (np, s')" and "pc_ok report s p" and "queues_ok ids report s"
  shows "queues_ok ids report s'"
  unfolding queues_ok_def
proof
  fix t
  assume t: "t \<in> set (ts_timers s')"
  let ?inside = "set (report (tm_queue t)) \<subseteq> asked ids s' (tm_vnf_instance_id t)"
  have old: "set (report (tm_queue u)) \<subseteq> asked ids s' (tm_vnf_instance_id u)" if "u \<in> set (ts_timers s)" for u
    using assms(3) that asked_grows [OF timer_step_grows [OF assms(1)]] unfolding queues_ok_def by blast
  have upd: "\<exists>m. m < length (ts_timers s) \<and> u = (if m = n then f (ts_timers s ! m) else ts_timers s ! m)"
    if "u \<in> set ((ts_timers s)[n := f (ts_timers s ! n)])" for u n f
    using that by (auto simp: in_set_conv_nth nth_modified)
  have cancel: ?inside if c: "t \<in> set ((ts_timers s)[n := timer_cancel (ts_timers s ! n)])" for n
  proof -
    obtain m where "m < length (ts_timers s)" "t = timer_cancel (ts_timers s ! m) \<or> t = ts_timers s ! m"
      using upd [of t n timer_cancel, OF c] by metis
    with old [OF nth_mem [of m]] show ?inside by (elim disjE) simp_all
  qed
  show ?inside
  proof (cases p)
    case (NNew v i)
    then have "t = timer_new emp v \<or> t \<in> set (ts_timers s)" using t assms(1) by auto
    then show ?thesis using old [of t] by (elim disjE) (simp_all add: report_emp)
  next
    case (NAdd v i n)
    then have "t \<in> set ((ts_timers s)[n := timer_add add i (ts_timers s ! n)])" using t assms(1) by auto
    from upd [of t n "timer_add add i", OF this] obtain m where m: "m < length (ts_timers s)"
      "t = (if m = n then timer_add add i (ts_timers s ! m) else ts_timers s ! m)" by blast
    have "ids i \<subseteq> asked ids s' v" using NAdd assms(1,2) by (auto simp: asked_def)
    with m old [of "ts_timers s ! m"] NAdd assms(2) show ?thesis by (auto simp: timer_add_def report_add)
  next
    case (RCancel v k n)
    then have "t \<in> set ((ts_timers s)[n := timer_cancel (ts_timers s ! n)])" using t assms(1) by auto
    then show ?thesis by (rule cancel)
  next
    case (ELock n)
    show ?thesis
    proof (cases "tm_expired (ts_timers s ! n)")
      case True
      with ELock t assms(1) old show ?thesis by auto
    next
      case False
      then have "t \<in> set ((ts_timers s)[n := timer_cancel (ts_timers s ! n)])" using ELock t assms(1) by auto
      then show ?thesis by (rule cancel)
    qed
  qed ((rule old, (use t assms(1) in \<open>auto split: if_splits\<close>)[1])+)
qed

lemma thread_inv:
  assumes inv: "timer_inv ids report s" and threads: "ts_threads s = ps @ p # qs"
    and st: "timer_step add emp report p s = (np, s')"
  shows "timer_inv ids report (s'\<lparr>ts_threads := ps @ (case np of None \<Rightarrow> [] | Some p' \<Rightarrow> [p']) @ qs\<rparr>)"
    (is "timer_inv ids report ?s")
proof -
  have p: "pc_ok report s p" and m: "map_ok s" and q: "queues_ok ids report s"
    and h: "\<forall>(n, v, l) \<in> set (ts_heals s). claimed report s n v l"
    using inv threads by (auto simp: timer_inv_def)
  have same: "pc_ok report ?s x = pc_ok report s' x" "claimed report ?s n v l = claimed report s' n v l" for x n v l
    by (cases x) (auto simp: then_ok_def claimed_def)
  have "map_ok ?s" using timer_step_map [OF st p m] by (simp add: map_ok_def)
  moreover have "queues_ok ids report ?s" using step_queues [OF st p q] by (simp add: queues_ok_def asked_def)
  moreover have "pc_ok report ?s x" if "x \<in> set (ts_threads ?s)" for x
  proof (cases "x \<in> set ps \<union> set qs")
    case True
    then have "pc_ok report s x" using inv threads by (auto simp: timer_inv_def)
    then show ?thesis using pc_ok_grows [OF timer_step_grows [OF st]] same by blast
  next
    case False
    with that have "np = Some x" by (auto split: option.splits)
    with timer_step_pc [OF _ p m] st same show ?thesis by blast
  qed
  moreover have "\<forall>(n, v, l) \<in> set (ts_heals ?s). claimed report ?s n v l"
    using timer_step_heals [OF st p h] same by simp
  moreover have "distinct (owners ?s)"
    using timer_step_owner [OF st]
  proof (elim disjE conjE exE)
    fix n
    assume o: "p = ELock n" "np = Some (ERead n)" "ts_heals s' = ts_heals s" "\<not> tm_expired (ts_timers s ! n)"
    then have "n \<notin> set (owners s)" using owners_claimed [OF inv] by blast
    with inv o show ?thesis by (auto simp: timer_inv_def owners_def threads)
  qed (use inv in \<open>auto simp: timer_inv_def owners_def threads\<close>)
  ultimately show ?thesis by (auto simp: timer_inv_def)
qed

lemma spawn_inv:
  assumes inv: "timer_inv ids report s" and g: "grows s s'" and "ts_heals s' = ts_heals s" and "ts_map s' = ts_map s"
    and th: "ts_threads s' = ts_threads s @ [p]" and "owner p = []" and p: "pc_ok report s' p"
    and q: "queues_ok ids report s'"
  shows "timer_inv ids report s'"
proof -
  have "map_ok s'" using inv g assms(4) unfolding timer_inv_def map_ok_def grows_def by (metis less_le_trans)
  moreover have "pc_ok report s' x" if "x \<in> set (ts_threads s')" for x
    using inv that th p pc_ok_grows [OF g] by (auto simp: timer_inv_def)
  moreover have "\<forall>(n, v, l) \<in> set (ts_heals s'). claimed report s' n v l"
    using inv assms(3) claimed_grows [OF g] by (auto simp: timer_inv_def)
  moreover have "distinct (owners s')" using inv assms(3,6) th by (simp add: timer_inv_def owners_def)
  ultimately show ?thesis using q by (simp add: timer_inv_def)
qed

lemma step_inv:
  assumes "tstep add emp report s s'" and inv: "timer_inv ids report s"
  shows "timer_inv ids report s'"
  using assms(1)
proof cases
  case (notify v i)
  have g: "grows s s'" by (auto simp: grows_def notify)
  have "queues_ok ids report s'"
    using inv asked_grows [OF g, of ids] unfolding timer_inv_def queues_ok_def by (auto simp: notify dest!: bspec)
  then show ?thesis by (intro spawn_inv [OF inv g, of "NTest v i"]) (auto simp: notify)
next
  case (remove v)
  have g: "grows s s'" by (auto simp: grows_def remove)
  have "queues_ok ids report s'" using inv by (simp add: timer_inv_def queues_ok_def remove asked_def)
  then show ?thesis by (intro spawn_inv [OF inv g, of "RTest v None"]) (auto simp: remove then_ok_def handed_def)
next
  case (elapse n)
  let ?t = "ts_timers s ! n"
  have g: "grows s s'" by (auto simp: grows_def elapse nth_modified)
  have same: "asked ids s' = asked ids s" by (simp add: elapse(1) asked_def fun_eq_iff)
  have old: "\<forall>t \<in> set (ts_timers s). set (report (tm_queue t)) \<subseteq> asked ids s (tm_vnf_instance_id t)"
    using inv by (simp add: timer_inv_def queues_ok_def)
  have sub: "set (ts_timers s') \<subseteq> insert (?t\<lparr>tm_waiting := False\<rparr>) (set (ts_timers s))"
    using set_update_subset_insert [of "ts_timers s" n] by (simp add: elapse(1))
  have "set (report (tm_queue ?t)) \<subseteq> asked ids s (tm_vnf_instance_id ?t)"
    using old nth_mem [OF elapse(2)] by blast
  with old have "\<forall>t \<in> insert (?t\<lparr>tm_waiting := False\<rparr>) (set (ts_timers s)).
      set (report (tm_queue t)) \<subseteq> asked ids s (tm_vnf_instance_id t)" by simp
  with sub have "queues_ok ids report s'" unfolding queues_ok_def same by blast
  then show ?thesis by (intro spawn_inv [OF inv g, of "ELock n"]) (use elapse(2) in \<open>auto simp: elapse(1)\<close>)
next
  case (run ps p qs np t)
  then show ?thesis using thread_inv [OF inv] by blast
qed

lemma idle_inv: "timer_inv ids report idle"
  by (simp add: timer_inv_def idle_def map_ok_def queues_ok_def owners_def)

lemma reachable_timer_inv: "(tstep add emp report)\<^sup>*\<^sup>* idle s \<Longrightarrow> timer_inv ids report s"
  by (induction rule: rtranclp_induct) (auto simp: idle_inv dest: step_inv)

lemma heals_once:
  assumes "(tstep add emp report)\<^sup>*\<^sup>* idle s"
  shows "distinct (map fst (ts_heals s)) \<and> (\<forall>(n, v, l) \<in> set (ts_heals s).
    claimed report s n v l \<and> set l \<subseteq> asked ids s v)"
proof -
  have inv: "timer_inv ids report s" using assms by (rule reachable_timer_inv)
  have "set l \<subseteq> asked ids s v" if "claimed report s n v l" for n v l
  proof -
    have "ts_timers s ! n \<in> set (ts_timers s)" using that by (simp add: claimed_def)
    with inv have "set (report (tm_queue (ts_timers s ! n))) \<subseteq> asked ids s (tm_vnf_instance_id (ts_timers s ! n))"
      unfolding timer_inv_def queues_ok_def by blast
    with that show ?thesis by (simp add: claimed_def)
  qed
  with inv show ?thesis unfolding timer_inv_def owners_def by fastforce
qed

text \<open>Threads that run alone: requests for an instance without a timer share one timer, and when it
  elapses one heal is started for what they asked for.\<close>

definition batch :: "string \<Rightarrow> 'i list \<Rightarrow> ('q, 'i) tsys \<Rightarrow> ('q, 'i) tsys" where
  "batch v is s = fold (\<lambda>i. run_thread add emp report (NTest v i)) is s"

lemma run_request:
  assumes "map_of (ts_map s) v = Some n" and "n < length (ts_timers s)" and "\<not> tm_expired (ts_timers s ! n)"
  shows "run_thread add emp report (NTest v i) s = on_timer n (\<lambda>t. t\<lparr>tm_queue := add i (tm_queue t)\<rparr>) s"
  using assms map_of_SomeD [OF assms(1)]
  by (simp add: run_thread.simps on_timer_def timer_add_def image_iff) (force simp: image_iff)

lemma run_first:
  assumes "map_of (ts_map s) v = None"
  shows "run_thread add emp report (NTest v i) s =
    s\<lparr>ts_timers := ts_timers s @ [(timer_new emp v)\<lparr>tm_queue := add i emp\<rparr>],
      ts_map := dict_set v (length (ts_timers s)) (ts_map s)\<rparr>"
  using assms by (simp add: run_thread.simps on_timer_def timer_add_def map_of_eq_None_iff)

lemma batch_live:
  assumes "map_of (ts_map s) v = Some n" and "n < length (ts_timers s)" and "\<not> tm_expired (ts_timers s ! n)"
  shows "batch v is s = on_timer n (\<lambda>t. t\<lparr>tm_queue := fold add is (tm_queue t)\<rparr>) s"
  using assms
proof (induction "is" arbitrary: s)
  case Nil
  then show ?case by (simp add: batch_def on_timer_def)
next
  case (Cons i "is")
  let ?s = "on_timer n (\<lambda>t. t\<lparr>tm_queue := add i (tm_queue t)\<rparr>) s"
  have "batch v (i # is) s = batch v is ?s" using Cons.prems by (simp add: batch_def run_request)
  also have "\<dots> = on_timer n (\<lambda>t. t\<lparr>tm_queue := fold add is (tm_queue t)\<rparr>) ?s"
    using Cons.prems by (intro Cons.IH) simp_all
  finally show ?case using Cons.prems(2) by (simp add: on_timer_def)
qed

lemma run_elapsed:
  assumes "map_of (ts_map s) v = Some n" and "n < length (ts_timers s)" and "\<not> tm_expired (ts_timers s ! n)"
    and "tm_vnf_instance_id (ts_timers s ! n) = v"
  shows "run_thread add emp report (ELock n) s = (on_timer n timer_cancel s)
    \<lparr>ts_map := dict_del v (ts_map s), ts_heals := ts_heals s @ [(n, v, report (tm_queue (ts_timers s ! n)))]\<rparr>"
  using assms map_of_SomeD [OF assms(1)]
  by (simp add: run_thread.simps on_timer_def removed_def timer_cancel_def image_iff)

lemma report_fold: "set (report (fold add is q)) = \<Union> (ids ` set is) \<union> set (report q)"
  by (induction "is" arbitrary: q) (auto simp: report_add)

lemma batch_heals:
  assumes "map_of (ts_map s) v = None"
  shows "\<exists>l. ts_heals (run_thread add emp report (ELock (length (ts_timers s))) (batch v (i # is) s)) =
      ts_heals s @ [(length (ts_timers s), v, l)] \<and> set l = \<Union> (ids ` set (i # is)) \<and>
    map_of (ts_map (run_thread add emp report (ELock (length (ts_timers s))) (batch v (i # is) s))) v = None"
proof -
  let ?n = "length (ts_timers s)"
  let ?s = "s\<lparr>ts_timers := ts_timers s @ [(timer_new emp v)\<lparr>tm_queue := add i emp\<rparr>], ts_map := dict_set v ?n (ts_map s)\<rparr>"
  have "batch v (i # is) s = batch v is ?s" using run_first [OF assms] by (simp add: batch_def)
  also have "\<dots> = on_timer ?n (\<lambda>t. t\<lparr>tm_queue := fold add is (tm_queue t)\<rparr>) ?s"
    by (rule batch_live) simp_all
  finally have b: "batch v (i # is) s = on_timer ?n (\<lambda>t. t\<lparr>tm_queue := fold add is (tm_queue t)\<rparr>) ?s" .
  have "run_thread add emp report (ELock ?n) (batch v (i # is) s) = (on_timer ?n timer_cancel (batch v (i # is) s))
    \<lparr>ts_map := dict_del v (ts_map (batch v (i # is) s)), ts_heals := ts_heals (batch v (i # is) s) @
      [(?n, v, report (tm_queue (ts_timers (batch v (i # is) s) ! ?n)))]\<rparr>"
    by (rule run_elapsed) (simp_all add: b)
  then show ?thesis by (auto simp: b report_fold report_add report_emp)
qed

end

subsection \<open>The two drivers are heal queues\<close>

text \<open>\<open>list(set(self.queue))\<close> has the elements in some order; \<^const>\<open>remdups\<close> gives one. A set is a
  list without repetitions.\<close>

interpretation sn: heal_queue "\<lambda>ids q. q @ ids" "[]" remdups set
  by unfold_locales auto

interpretation prom: heal_queue List.insert "[]" "\<lambda>q. q" "\<lambda>i. {i}"
  by unfold_locales auto

definition sn_steps :: "(string list, string list) tsys \<Rightarrow> (string list, string list) tsys \<Rightarrow> bool" where
  "sn_steps = (tstep (\<lambda>ids q. q @ ids) [] remdups)\<^sup>*\<^sup>*"

definition prom_steps :: "(string list, string) tsys \<Rightarrow> (string list, string) tsys \<Rightarrow> bool" where
  "prom_steps = (tstep List.insert [] (\<lambda>q. q))\<^sup>*\<^sup>*"

text \<open>Executable schedules.\<close>

datatype 'i act = Notify string 'i | Remove string | Elapse nat | Run nat

fun play :: "('i \<Rightarrow> 'q \<Rightarrow> 'q) \<Rightarrow> 'q \<Rightarrow> ('q \<Rightarrow> string list) \<Rightarrow> 'i act \<Rightarrow> ('q, 'i) tsys \<Rightarrow> ('q, 'i) tsys" where
  "play add emp report (Notify v i) s =
     s\<lparr>ts_threads := ts_threads s @ [NTest v i], ts_requests := ts_requests s @ [(v, i)]\<rparr>"
| "play add emp report (Remove v) s = s\<lparr>ts_threads := ts_threads s @ [RTest v None]\<rparr>"
| "play add emp report (Elapse n) s =
     (if n < length (ts_timers s) \<and> tm_waiting (ts_timers s ! n)
      then (on_timer n (\<lambda>t. t\<lparr>tm_waiting := False\<rparr>) s)\<lparr>ts_threads := ts_threads s @ [ELock n]\<rparr> else s)"
| "play add emp report (Run k) s =
     (if k < length (ts_threads s)
      then case timer_step add emp report (ts_threads s ! k) s of (np, s') \<Rightarrow>
        s'\<lparr>ts_threads := take k (ts_threads s) @ (case np of None \<Rightarrow> [] | Some p \<Rightarrow> [p]) @ drop (Suc k) (ts_threads s)\<rparr>
      else s)"

lemma play_step: "(tstep add emp report)\<^sup>*\<^sup>* s (play add emp report a s)"
proof (cases a)
  case (Run k)
  show ?thesis
  proof (cases "k < length (ts_threads s)")
    case True
    then have "ts_threads s = take k (ts_threads s) @ ts_threads s ! k # drop (Suc k) (ts_threads s)"
      by (rule id_take_nth_drop)
    from tstep.run [OF this] True Run show ?thesis by (auto split: prod.splits)
  qed (simp add: Run)
qed (auto intro: tstep.intros)

lemma play_steps: "(tstep add emp report)\<^sup>*\<^sup>* s (fold (play add emp report) as s)"
  by (induction as arbitrary: s) (auto intro: rtranclp_trans [OF play_step])

subsection \<open>Properties\<close>

definition heals_exact :: "('i \<Rightarrow> string set) \<Rightarrow> ('q \<Rightarrow> string list) \<Rightarrow> ('q, 'i) tsys \<Rightarrow> bool" where
  "heals_exact ids report s \<longleftrightarrow> distinct (map fst (ts_heals s)) \<and> (\<forall>(n, v, l) \<in> set (ts_heals s).
     claimed report s n v l \<and> set l \<subseteq> asked ids s v)"

text \<open>
  C34: In every interleaving of requests, removals and expiring timers, of both drivers: a timer
  starts at most one heal; the heal is for the instance of the timer, which has expired, and for
  exactly the identifiers in its queue, which never changes any more; and every one of them was
  asked for, for that instance.
\<close>

theorem timers_heal_once:
  "(sn_steps idle s \<longrightarrow> heals_exact set remdups s) \<and> (prom_steps idle p \<longrightarrow> heals_exact (\<lambda>i. {i}) (\<lambda>q. q) p)"
  using sn.heals_once [of s] prom.heals_once [of p] by (simp add: heals_exact_def sn_steps_def prom_steps_def)

definition ex_run :: "string list act list" where
  "ex_run = Notify ''v'' [''a'', ''b''] # replicate 5 (Run 0) @ Notify ''v'' [''b''] # replicate 3 (Run 0) @
     Elapse 0 # replicate 7 (Run 0)"

theorem timers_heal_once_witness:
  "\<exists>s. sn_steps idle s \<and> ts_heals s = [(0, ''v'', [''a'', ''b''])] \<and> heals_exact set remdups s"
proof -
  let ?s = "fold (play (\<lambda>ids q. q @ ids) [] remdups) ex_run idle"
  have "sn_steps idle ?s" unfolding sn_steps_def by (rule play_steps)
  moreover have "ts_heals ?s = [(0, ''v'', [''a'', ''b''])]" by code_simp
  ultimately show ?thesis using timers_heal_once [of ?s idle] by blast
qed

text \<open>
  C35: When the threads do not interleave, nothing is lost: requests for an instance that has no
  timer share one timer, and when it elapses one heal is started for all the identifiers they
  asked for, and the instance has no timer any more.
\<close>

theorem timers_heal_batch:
  assumes "map_of (ts_map s) v = None"
  shows "\<exists>l t. t = run_thread (\<lambda>ids q. q @ ids) [] remdups (ELock (length (ts_timers s)))
      (fold (\<lambda>i. run_thread (\<lambda>ids q. q @ ids) [] remdups (NTest v i)) (i # is) s) \<and>
    ts_heals t = ts_heals s @ [(length (ts_timers s), v, l)] \<and> set l = \<Union> (set ` set (i # is)) \<and> map_of (ts_map t) v = None"
  using sn.batch_heals [OF assms, of i "is"] by (auto simp: sn.batch_def)

theorem timers_heal_batch_witness:
  "\<exists>l t. t = run_thread (\<lambda>ids q. q @ ids) [] remdups (ELock 0)
      (fold (\<lambda>i. run_thread (\<lambda>ids q. q @ ids) [] remdups (NTest ''v'' i)) [[''a''], [''b'']] idle) \<and>
    ts_heals t = [(0, ''v'', l)] \<and> set l = {''a'', ''b''}"
  using timers_heal_batch [of "idle :: (string list, string list) tsys" "''v''" "[''a'']" "[[''b'']]"]
  by (auto simp: idle_def)

definition ex_race :: "string list act list" where
  "ex_race = [Notify ''v'' [''a''], Notify ''v'' [''b''], Run 0, Run 1, Run 0, Run 1, Run 0, Run 1, Run 0, Run 0, Run 0, Run 0,
     Elapse 0] @ replicate 7 (Run 0)"

text \<open>
  Two notifications for an instance without a timer that both find none lose every
  identifier: each creates a timer, the first one leaves the dictionary without a queue, and when
  it elapses it cancels the other one and starts a heal of nothing.
\<close>

lemma concurrent_notify_loses_ids:
  "\<exists>s. sn_steps idle s \<and> ts_requests s = [(''v'', [''a'']), (''v'', [''b''])] \<and> ts_threads s = [] \<and>
     list_all (\<lambda>t. tm_expired t \<and> \<not> tm_waiting t) (ts_timers s) \<and> ts_heals s = [(0, ''v'', [])]"
proof -
  let ?s = "fold (play (\<lambda>ids q. q @ ids) [] remdups) ex_race idle"
  have "ts_requests ?s = [(''v'', [''a'']), (''v'', [''b''])] \<and> ts_threads ?s = [] \<and>
     list_all (\<lambda>t. tm_expired t \<and> \<not> tm_waiting t) (ts_timers ?s) \<and> ts_heals ?s = [(0, ''v'', [])]"
    by code_simp
  moreover have "sn_steps idle ?s" unfolding sn_steps_def by (rule play_steps)
  ultimately show ?thesis by blast
qed

end
