(* ===== verification/Fault_Mgmt.thy ===== *)
theory Fault_Mgmt
  imports Controller
begin

section \<open>Fault management\<close>

text \<open>
  Alarms: the alerts of Prometheus (\<^verbatim>\<open>PrometheusPluginFm\<close> of \<^verbatim>\<open>common/prometheus_plugin.py\<close>), the
  driver of the conductor that stores an alarm and notifies (\<^verbatim>\<open>conductor/vnffm_driver_v1.py\<close>), the
  subscriptions (\<^verbatim>\<open>common/fm_subscription_utils.py\<close>, \<^verbatim>\<open>common/fm_alarm_utils.py\<close>) and the handlers of
  the API that change state (\<^verbatim>\<open>controller/vnffm_v1.py\<close>).

  \<open>fm_db\<close> holds the tables, the alarms that the plugin has cast to the conductor and the
  notifications. An alert is the JSON object of the request after schema validation. \<open>fm_env\<close>
  holds the parser of time stamps of oslo.utils and \<^verbatim>\<open>re.match\<close>, whose pattern is a label of the alert.
\<close>

subsection \<open>Objects\<close>

datatype ack_state = UNACKNOWLEDGED | ACKNOWLEDGED

datatype severity = CRITICAL | MAJOR | MINOR | WARNING | INDETERMINATE | CLEARED

datatype event_type = COMMUNICATIONS_ALARM | PROCESSING_ERROR_ALARM | ENVIRONMENTAL_ALARM | QOS_ALARM | EQUIPMENT_ALARM

datatype faulty_type = FAULTY_COMPUTE | FAULTY_STORAGE | FAULTY_NETWORK

record faulty_resource =
  fr_faultyResource :: resource_handle
  fr_faultyResourceType :: faulty_type

record alarm =
  am_id :: string
  am_managedObjectId :: string
  am_vnfcInstanceIds :: "string list option"
  am_rootCauseFaultyResource :: "faulty_resource option"
  am_alarmRaisedTime :: int
  am_alarmChangedTime :: "int option"
  am_alarmClearedTime :: "int option"
  am_alarmAcknowledgedTime :: "int option"
  am_ackState :: ack_state
  am_perceivedSeverity :: severity
  am_eventTime :: int
  am_eventType :: event_type
  am_faultType :: "string option"
  am_probableCause :: string
  am_isRootCause :: bool
  am_correlatedAlarmIds :: "string list option"
  am_faultDetails :: "string list option"

datatype fm_notif_type = AlarmNotification | AlarmClearedNotification | AlarmListRebuiltNotification

record fm_filter =
  ff_vnfInstanceSubscriptionFilter :: "inst_filter option"
  ff_notificationTypes :: "fm_notif_type list option"
  ff_faultyResourceTypes :: "faulty_type list option"
  ff_perceivedSeverities :: "severity list option"
  ff_eventTypes :: "event_type list option"
  ff_probableCauses :: "string list option"

record fm_subsc =
  fs_id :: string
  fs_filter :: "fm_filter option"
  fs_callbackUri :: string
  fs_authentication :: "json option"

datatype fm_content = AlarmRaised alarm | AlarmCleared string int string

record fm_notif =
  fn_id :: string
  fn_subscriptionId :: string
  fn_timeStamp :: int
  fn_content :: fm_content
  fn_link_subscription :: string

record fm_db =
  fd_insts :: "vnf_instance list"
  fd_alarms :: "alarm list"
  fd_subscs :: "fm_subsc list"
  fd_casts :: "alarm list"
  fd_notifs :: "(string \<times> fm_notif) list"
  fd_uuids :: nat
  fd_ticks :: nat

record fm_env =
  fe_parse_time :: "string \<Rightarrow> int pyres"
  fe_re_match :: "string \<Rightarrow> string \<Rightarrow> bool pyres"
  fe_test_callback :: "(fm_subsc \<Rightarrow> unit pyres) option"

type_synonym 'a fm = "(fm_db, exn, 'a) sem"

definition fm_uuid :: "env \<Rightarrow> string fm" where
  "fm_uuid env s = (Inr (ev_uuid env (fd_uuids s)), s\<lparr>fd_uuids := Suc (fd_uuids s)\<rparr>)"

definition fm_now :: "env \<Rightarrow> int fm" where
  "fm_now env s = (Inr (ev_clock env (fd_ticks s)), s\<lparr>fd_ticks := Suc (fd_ticks s)\<rparr>)"

definition fm_get_inst :: "string \<Rightarrow> vnf_instance fm" where
  "fm_get_inst i s = (case row_find in_id (fd_insts s) i of
      None \<Rightarrow> (Inl (Sol (VnfInstanceNotFound i)), s) | Some inst \<Rightarrow> (Inr inst, s))"

subsection \<open>Alarms and subscriptions\<close>

definition get_alarm :: "string \<Rightarrow> alarm fm" where
  "get_alarm alarm_id s = (case row_find am_id (fd_alarms s) alarm_id of
      None \<Rightarrow> (Inl (Sol (AlarmNotFound alarm_id)), s) | Some a \<Rightarrow> (Inr a, s))"

definition alarms_of_inst :: "fm_db \<Rightarrow> string \<Rightarrow> alarm list" where
  "alarms_of_inst s inst_id = row_filter (\<lambda>a. am_managedObjectId a = inst_id) (fd_alarms s)"

definition alarm_href :: "string \<Rightarrow> string \<Rightarrow> string" where
  "alarm_href alarm_id endpoint = endpoint @ ''/vnffm/v1/alarms/'' @ alarm_id"

definition make_alarm_links :: "alarm \<Rightarrow> string \<Rightarrow> (string, string) dict" where
  "make_alarm_links a endpoint = [(''self'', alarm_href (am_id a) endpoint),
     (''objectInstance'', inst_href (am_managedObjectId a) endpoint)]"

definition fm_get_subsc :: "string \<Rightarrow> fm_subsc fm" where
  "fm_get_subsc subsc_id s = (case row_find fs_id (fd_subscs s) subsc_id of
      None \<Rightarrow> (Inl (Sol (FmSubscriptionNotFound subsc_id)), s) | Some x \<Rightarrow> (Inr x, s))"

definition fm_subsc_href :: "string \<Rightarrow> string \<Rightarrow> string" where
  "fm_subsc_href subsc_id endpoint = endpoint @ ''/vnffm/v1/subscriptions/'' @ subsc_id"

definition excludes :: "'a option \<Rightarrow> 'a list option \<Rightarrow> bool" where
  "excludes x xs = (case (x, xs) of (Some v, Some vs) \<Rightarrow> v \<notin> set vs | _ \<Rightarrow> False)"

definition fm_match_subsc :: "vnf_instance \<Rightarrow> fm_notif_type \<Rightarrow> alarm \<Rightarrow> fm_subsc \<Rightarrow> bool pyres" where
  "fm_match_subsc inst notif_type a subsc = (case fs_filter subsc of
      None \<Rightarrow> Inr True
    | Some f \<Rightarrow>
        bindE (case ff_vnfInstanceSubscriptionFilter f of None \<Rightarrow> Inr True
               | Some inst_filter \<Rightarrow> match_inst_subsc_filter inst_filter inst) (\<lambda>m.
          if \<not> m then Inr False
          else if excludes (Some notif_type) (ff_notificationTypes f) then Inr False
          else if excludes (map_option fr_faultyResourceType (am_rootCauseFaultyResource a)) (ff_faultyResourceTypes f)
          then Inr False
          else if excludes (Some (am_perceivedSeverity a)) (ff_perceivedSeverities f) then Inr False
          else if excludes (Some (am_eventType a)) (ff_eventTypes f) then Inr False
          else if excludes (Some (am_probableCause a)) (ff_probableCauses f) then Inr False
          else Inr True))"

definition fm_get_matched_subscs :: "fm_subsc list \<Rightarrow> vnf_instance \<Rightarrow> fm_notif_type \<Rightarrow> alarm \<Rightarrow> fm_subsc list pyres" where
  "fm_get_matched_subscs subscs inst notif_type a = filterE (fm_match_subsc inst notif_type a) subscs"

definition get_alarm_subscs :: "fm_subsc list \<Rightarrow> alarm \<Rightarrow> vnf_instance \<Rightarrow> fm_subsc list pyres" where
  "get_alarm_subscs subscs a inst =
     fm_get_matched_subscs subscs inst
       (if am_alarmClearedTime a \<noteq> None then AlarmClearedNotification else AlarmNotification) a"

definition make_alarm_notif_data :: "env \<Rightarrow> fm_subsc \<Rightarrow> alarm \<Rightarrow> fm_notif fm" where
  "make_alarm_notif_data env subsc a =
     bindS (fm_uuid env) (\<lambda>i. bindS (fm_now env) (\<lambda>now.
     retS \<lparr>fn_id = i, fn_subscriptionId = fs_id subsc, fn_timeStamp = now,
       fn_content = (case am_alarmClearedTime a of
          Some t \<Rightarrow> AlarmCleared (am_id a) t (alarm_href (am_id a) (ev_endpoint env)) | None \<Rightarrow> AlarmRaised a),
       fn_link_subscription = fm_subsc_href (fs_id subsc) (ev_endpoint env)\<rparr>))"

definition send_alarm_notification :: "env \<Rightarrow> alarm \<Rightarrow> vnf_instance \<Rightarrow> unit fm" where
  "send_alarm_notification env a inst =
     bindS (\<lambda>s. (get_alarm_subscs (fd_subscs s) a inst, s)) (\<lambda>subscs.
     forS (\<lambda>subsc. bindS (make_alarm_notif_data env subsc a) (\<lambda>notif.
       modS (\<lambda>s. s\<lparr>fd_notifs := fd_notifs s @ [(fs_callbackUri subsc, notif)]\<rparr>))) subscs)"

subsection \<open>Storing an alarm\<close>

text \<open>\<open>update\<close> merges: an attribute that is not set in the object keeps its value in the row.\<close>

definition kept :: "'a option \<Rightarrow> 'a option \<Rightarrow> 'a option" where
  "kept old new = (case new of None \<Rightarrow> old | Some v \<Rightarrow> Some v)"

definition alarm_merge :: "alarm \<Rightarrow> alarm \<Rightarrow> alarm" where
  "alarm_merge old new = new\<lparr>
     am_vnfcInstanceIds := kept (am_vnfcInstanceIds old) (am_vnfcInstanceIds new),
     am_rootCauseFaultyResource := kept (am_rootCauseFaultyResource old) (am_rootCauseFaultyResource new),
     am_alarmChangedTime := kept (am_alarmChangedTime old) (am_alarmChangedTime new),
     am_alarmClearedTime := kept (am_alarmClearedTime old) (am_alarmClearedTime new),
     am_alarmAcknowledgedTime := kept (am_alarmAcknowledgedTime old) (am_alarmAcknowledgedTime new),
     am_faultType := kept (am_faultType old) (am_faultType new),
     am_correlatedAlarmIds := kept (am_correlatedAlarmIds old) (am_correlatedAlarmIds new),
     am_faultDetails := kept (am_faultDetails old) (am_faultDetails new)\<rparr>"

definition store_alarm_row :: "alarm \<Rightarrow> fm_db \<Rightarrow> fm_db" where
  "store_alarm_row a s = (case row_find am_id (fd_alarms s) (am_id a) of
      Some old \<Rightarrow> s\<lparr>fd_alarms := row_upd am_id (alarm_merge old a) (fd_alarms s)\<rparr>
    | None \<Rightarrow> s\<lparr>fd_alarms := row_add a (fd_alarms s)\<rparr>)"

definition store_alarm_info :: "env \<Rightarrow> alarm \<Rightarrow> unit fm" where
  "store_alarm_info env a =
     bindS (modS (store_alarm_row a)) (\<lambda>_.
     bindS (fm_get_inst (am_managedObjectId a)) (\<lambda>inst.
       send_alarm_notification env a inst))"

subsection \<open>The API\<close>

definition lock_resources :: "env \<Rightarrow> string \<Rightarrow> ('s, exn, 'a) sem \<Rightarrow> ('s, exn, 'a) sem" where
  "lock_resources env res_id body =
     (if ev_lock env res_id then body else raiseS (Sol (ResourcesOtherOperationInProgress res_id)))"

definition alarm_update :: "env \<Rightarrow> string \<Rightarrow> ack_state \<Rightarrow> ack_state fm" where
  "alarm_update env alarm_id ack_state = lock_resources env alarm_id
     (bindS (get_alarm alarm_id) (\<lambda>a.
      if am_ackState a = ack_state then raiseS (Sol AckStateInvalid)
      else bindS (if ack_state = ACKNOWLEDGED then bindS (fm_now env) (\<lambda>t. retS (Some t)) else retS None) (\<lambda>t.
        bindS (modS (\<lambda>s. s\<lparr>fd_alarms := row_upd am_id
           (a\<lparr>am_ackState := ack_state, am_alarmAcknowledgedTime := t\<rparr>) (fd_alarms s)\<rparr>)) (\<lambda>_.
        retS ack_state))))"

record fm_subsc_request =
  fq_filter :: "fm_filter option"
  fq_callbackUri :: string
  fq_authentication :: "json option"

definition fm_test_notification :: "fm_env \<Rightarrow> fm_subsc \<Rightarrow> unit pyres" where
  "fm_test_notification fe subsc = (case fe_test_callback fe of None \<Rightarrow> Inr ()
     | Some get \<Rightarrow> (case get subsc of Inl (Sol e) \<Rightarrow> Inl (Sol TestNotificationFailed) | r \<Rightarrow> r))"

definition fm_subscription_create :: "env \<Rightarrow> fm_env \<Rightarrow> fm_subsc_request \<Rightarrow> response fm" where
  "fm_subscription_create env fe body =
     bindS (fm_uuid env) (\<lambda>i.
     let subsc = \<lparr>fs_id = i, fs_filter = fq_filter body, fs_callbackUri = fq_callbackUri body,
           fs_authentication = fq_authentication body\<rparr> in
     bindS (liftS (fm_test_notification fe subsc)) (\<lambda>_.
     bindS (\<lambda>s. if row_find fs_id (fd_subscs s) i = None
         then (Inr (), s\<lparr>fd_subscs := row_add subsc (fd_subscs s)\<rparr>) else (Inl (PyExc DBDuplicateEntry i), s)) (\<lambda>_.
       retS \<lparr>rs_status = 201, rs_location = Some (fm_subsc_href i (ev_endpoint env))\<rparr>)))"

definition fm_subscription_delete :: "string \<Rightarrow> response fm" where
  "fm_subscription_delete subsc_id =
     bindS (fm_get_subsc subsc_id) (\<lambda>subsc.
     bindS (modS (\<lambda>s. s\<lparr>fd_subscs := row_del fs_id subsc_id (fd_subscs s)\<rparr>)) (\<lambda>_.
       retS \<lparr>rs_status = 204, rs_location = None\<rparr>))"

subsection \<open>Alerts\<close>

definition label :: "json \<Rightarrow> string \<Rightarrow> string pyres" where
  "label alert k = bindE (jitem alert ''labels'') (\<lambda>ls. bindE (jitem ls k) as_str)"

definition annotation :: "json \<Rightarrow> string \<Rightarrow> string \<Rightarrow> string pyres" where
  "annotation alert k dflt = bindE (jitem alert ''annotations'') (\<lambda>an. bindE (jget an k (JStr dflt)) as_str)"

text \<open>The values that \<^verbatim>\<open>AlarmV1.from_dict\<close> accepts for the two enumerations.\<close>

definition enum_value :: "(string \<times> 'a) list \<Rightarrow> string \<Rightarrow> 'a pyres" where
  "enum_value table v = (case map_of table v of Some x \<Rightarrow> Inr x
     | None \<Rightarrow> Inl (PyExc ValueError (''Field value '' @ v @ '' is invalid'')))"

definition severities :: "(string \<times> severity) list" where
  "severities = [(''CRITICAL'', CRITICAL), (''MAJOR'', MAJOR), (''MINOR'', MINOR), (''WARNING'', WARNING),
     (''INDETERMINATE'', INDETERMINATE), (''CLEARED'', CLEARED)]"

definition event_types :: "(string \<times> event_type) list" where
  "event_types = [(''COMMUNICATIONS_ALARM'', COMMUNICATIONS_ALARM), (''PROCESSING_ERROR_ALARM'', PROCESSING_ERROR_ALARM),
     (''ENVIRONMENTAL_ALARM'', ENVIRONMENTAL_ALARM), (''QOS_ALARM'', QOS_ALARM), (''EQUIPMENT_ALARM'', EQUIPMENT_ALARM)]"

definition pod_matches :: "fm_env \<Rightarrow> string \<Rightarrow> vnfc_resource \<Rightarrow> bool pyres" where
  "pod_matches fe pod r = (case rh_vimLevelResourceType (vr_computeResource r) of
      None \<Rightarrow> Inr False
    | Some ty \<Rightarrow> if ty = ''Deployment'' \<or> ty = ''Pod'' then fe_re_match fe pod (rh_resourceId (vr_computeResource r))
               else Inr False)"

definition vnfc_instance_ids :: "fm_env \<Rightarrow> vnf_instance \<Rightarrow> json \<Rightarrow> string list pyres" where
  "vnfc_instance_ids fe inst alert =
     (let resources = (case in_instantiatedVnfInfo inst of None \<Rightarrow> [] | Some info \<Rightarrow> opt_list (iv_vnfcResourceInfo info));
          vnfc_info = (case in_instantiatedVnfInfo inst of None \<Rightarrow> [] | Some info \<Rightarrow> opt_list (iv_vnfcInfo info)) in
      bindE (jitem alert ''labels'') (\<lambda>ls. bindE (jcontains ls ''pod'') (\<lambda>has_pod.
      if \<not> has_pod then Inr []
      else bindE (label alert ''pod'') (\<lambda>pod.
        bindE (filterE (pod_matches fe pod) resources) (\<lambda>deployments.
        Inr (map ci_id (filter (\<lambda>c. \<exists>r \<in> set deployments. ci_vnfcResourceInfoId c = Some (vr_id r)) vnfc_info)))))))"

definition fingerprint_detail :: "string \<Rightarrow> string" where
  "fingerprint_detail fp = ''fingerprint: '' @ fp"

definition cast_alarm :: "alarm \<Rightarrow> unit fm" where
  "cast_alarm a = modS (\<lambda>s. s\<lparr>fd_casts := fd_casts s @ [a]\<rparr>)"

definition clear_alarms :: "fm_env \<Rightarrow> string \<Rightarrow> int \<Rightarrow> alarm list \<Rightarrow> unit fm" where
  "clear_alarms fe ends_at now = forS (\<lambda>alm.
     bindS (liftS (fe_parse_time fe ends_at)) (\<lambda>t.
       cast_alarm (alm\<lparr>am_alarmClearedTime := Some t, am_alarmChangedTime := Some now\<rparr>)))"

definition new_alarm :: "fm_env \<Rightarrow> string \<Rightarrow> string \<Rightarrow> string list \<Rightarrow> int \<Rightarrow> json \<Rightarrow> string list \<Rightarrow> alarm pyres" where
  "new_alarm fe i inst_id vnfc_ids now alert details =
     bindE (label alert ''perceived_severity'') (\<lambda>sev.
     bindE (bindE (jitem alert ''startsAt'') as_str) (\<lambda>starts.
     bindE (bindE (jitem alert ''labels'') (\<lambda>ls. bindE (jget ls ''event_type'' (JStr [])) as_str)) (\<lambda>ev.
     bindE (annotation alert ''fault_type'' []) (\<lambda>fault_type.
     bindE (annotation alert ''probable_cause'' []) (\<lambda>cause.
     bindE (enum_value severities sev) (\<lambda>severity.
     bindE (fe_parse_time fe starts) (\<lambda>event_time.
     bindE (enum_value event_types ev) (\<lambda>event_type.
       Inr \<lparr>am_id = i, am_managedObjectId = inst_id, am_vnfcInstanceIds = Some vnfc_ids,
         am_rootCauseFaultyResource = None, am_alarmRaisedTime = now, am_alarmChangedTime = None,
         am_alarmClearedTime = None, am_alarmAcknowledgedTime = None, am_ackState = UNACKNOWLEDGED,
         am_perceivedSeverity = severity, am_eventTime = event_time, am_eventType = event_type,
         am_faultType = Some fault_type, am_probableCause = cause, am_isRootCause = False,
         am_correlatedAlarmIds = None, am_faultDetails = Some details\<rparr>))))))))"

definition create_new_alarm :: "env \<Rightarrow> fm_env \<Rightarrow> json \<Rightarrow> int \<Rightarrow> unit fm" where
  "create_new_alarm env fe alert now =
     bindS (liftS (label alert ''vnf_instance_id'')) (\<lambda>inst_id.
     bindS (liftS (bindE (jitem alert ''fingerprint'') as_str)) (\<lambda>fp.
     bindS (liftS (label alert ''perceived_severity'')) (\<lambda>_.
     bindS (liftS (annotation alert ''fault_details'' ''None'')) (\<lambda>fault_details.
     bindS (fm_get_inst inst_id) (\<lambda>inst.
     bindS (liftS (vnfc_instance_ids fe inst alert)) (\<lambda>vnfc_ids.
     if vnfc_ids = [] then raiseS PrometheusPluginSkipped
     else
     bindS (fm_uuid env) (\<lambda>i.
     bindS (liftS (new_alarm fe i inst_id vnfc_ids now alert
        [fingerprint_detail fp, ''detail: '' @ fault_details])) (\<lambda>a.
       cast_alarm a))))))))"

definition is_open :: "string \<Rightarrow> alarm \<Rightarrow> bool" where
  "is_open fp a \<longleftrightarrow> am_alarmClearedTime a = None \<and>
     (case am_faultDetails a of None \<Rightarrow> False | Some ds \<Rightarrow> fingerprint_detail fp \<in> set ds)"

definition get_not_cleared_alarms :: "fm_db \<Rightarrow> string \<Rightarrow> string \<Rightarrow> alarm list" where
  "get_not_cleared_alarms s inst_id fp = filter (is_open fp) (alarms_of_inst s inst_id)"

definition create_or_update_alarm :: "env \<Rightarrow> fm_env \<Rightarrow> json \<Rightarrow> int \<Rightarrow> unit fm" where
  "create_or_update_alarm env fe alert now =
     bindS (liftS (bindE (jitem alert ''status'') as_str)) (\<lambda>status.
     bindS (liftS (label alert ''vnf_instance_id'')) (\<lambda>inst_id.
     bindS (liftS (bindE (jitem alert ''fingerprint'') as_str)) (\<lambda>fp.
     bindS (getS (\<lambda>s. get_not_cleared_alarms s inst_id fp)) (\<lambda>not_cleared.
     if status = ''resolved'' \<and> not_cleared \<noteq> []
     then bindS (liftS (bindE (jitem alert ''endsAt'') as_str)) (\<lambda>ends_at. clear_alarms fe ends_at now not_cleared)
     else if status = ''firing'' \<and> not_cleared = [] then create_new_alarm env fe alert now
     else raiseS PrometheusPluginSkipped))))"

definition skip_if :: "exn \<Rightarrow> unit fm \<Rightarrow> unit fm" where
  "skip_if e c = tryS c (\<lambda>e'. if e' = e then retS () else raiseS e')"

definition fm_alert_each :: "env \<Rightarrow> fm_env \<Rightarrow> int \<Rightarrow> json \<Rightarrow> unit fm" where
  "fm_alert_each env fe now alert =
     bindS (liftS (label alert ''function_type'')) (\<lambda>ty.
     if ty \<noteq> ''vnffm'' then retS ()
     else skip_if PrometheusPluginSkipped (create_or_update_alarm env fe alert now))"

text \<open>The handler of the request catches whatever the loop raises; later alerts of the message
  are then not looked at.\<close>

definition fm_alert :: "env \<Rightarrow> fm_env \<Rightarrow> json list \<Rightarrow> unit fm" where
  "fm_alert env fe alerts =
     tryS (bindS (fm_now env) (\<lambda>now. forS (fm_alert_each env fe now) alerts)) (\<lambda>_. retS ())"

subsection \<open>Alerts and the alarm table\<close>

text \<open>\<open>deliver\<close>: the conductor stores every alarm that was cast. \<open>fm_step\<close> is a message with one alert
  whose alarms are stored before the next one comes, an acknowledgement, or any change of the
  instances and subscriptions.\<close>

definition deliver :: "env \<Rightarrow> fm_db \<Rightarrow> fm_db" where
  "deliver env s = fold (\<lambda>a t. snd (store_alarm_info env a t)) (fd_casts s) (s\<lparr>fd_casts := []\<rparr>)"

inductive fm_step :: "env \<Rightarrow> fm_env \<Rightarrow> fm_db \<Rightarrow> fm_db \<Rightarrow> bool" for env fe where
  alert: "fm_alert env fe [a] s = (r, s') \<Longrightarrow> fm_step env fe s (deliver env s')"
| ack: "alarm_update env i st s = (r, s') \<Longrightarrow> fm_step env fe s s'"
| other: "fm_step env fe s (s\<lparr>fd_insts := is, fd_subscs := subs\<rparr>)"

definition fm_init :: "vnf_instance list \<Rightarrow> fm_subsc list \<Rightarrow> fm_db" where
  "fm_init is subs = \<lparr>fd_insts = is, fd_alarms = [], fd_subscs = subs, fd_casts = [], fd_notifs = [],
     fd_uuids = 0, fd_ticks = 0\<rparr>"

definition alarm_fp :: "alarm \<Rightarrow> string option" where
  "alarm_fp a = (case am_faultDetails a of Some [f, d] \<Rightarrow>
     (if take 13 f = ''fingerprint: '' \<and> take 8 d = ''detail: '' then Some (drop 13 f) else None) | _ \<Rightarrow> None)"

definition fm_inv :: "env \<Rightarrow> fm_db \<Rightarrow> bool" where
  "fm_inv env s \<longleftrightarrow> fd_casts s = [] \<and> rows_wf am_id (fd_alarms s) \<and>
     am_id ` set (fd_alarms s) \<subseteq> ev_uuid env ` {..< fd_uuids s} \<and>
     (\<forall>a \<in> set (fd_alarms s). alarm_fp a \<noteq> None) \<and>
     (\<forall>v fp. length (get_not_cleared_alarms s v fp) \<le> 1)"

lemma is_open_fp:
  assumes "alarm_fp a = Some fp"
  shows "is_open fp' a \<longleftrightarrow> am_alarmClearedTime a = None \<and> fp' = fp"
proof -
  obtain f d where f: "am_faultDetails a = Some [f, d]" "take 13 f = ''fingerprint: ''" "take 8 d = ''detail: ''" "fp = drop 13 f"
    using assms by (auto simp: alarm_fp_def split: option.splits list.splits if_splits)
  have "fingerprint_detail fp' = f \<longleftrightarrow> fp' = fp"
    using f(2,4) append_take_drop_id [of 13 f] by (auto simp: fingerprint_detail_def)
  moreover have "fingerprint_detail fp' \<noteq> d" using f(3) by (auto simp: fingerprint_detail_def)
  ultimately show ?thesis using f(1) by (auto simp: is_open_def)
qed

lemma store_alarm_keeps:
  "fd_alarms (snd (store_alarm_info env a s)) = fd_alarms (store_alarm_row a s) \<and>
   fd_casts (snd (store_alarm_info env a s)) = fd_casts s \<and> fd_uuids s \<le> fd_uuids (snd (store_alarm_info env a s))"
proof -
  define R where "R = (\<lambda>(s :: fm_db) (t :: fm_db). fd_alarms t = fd_alarms s \<and> fd_casts t = fd_casts s \<and> fd_uuids s \<le> fd_uuids t)"
  have tr: "transp R" and rf: "reflp R" by (auto simp: R_def transp_def reflp_def)
  have "keepsS R (send_alarm_notification env a inst)" for inst
    unfolding send_alarm_notification_def
    by (intro keepsS_bindS [OF tr] keepsS_forS [OF rf tr])
      (auto simp: keepsS_def R_def make_alarm_notif_data_def bindS_def fm_uuid_def fm_now_def)
  then have "keepsS R (bindS (fm_get_inst (am_managedObjectId a)) (\<lambda>inst. send_alarm_notification env a inst))"
    by (rule keepsS_bindS [OF tr, rotated]) (auto simp: keepsS_def R_def fm_get_inst_def split: option.splits)
  then have "R (store_alarm_row a s) (snd (bindS (fm_get_inst (am_managedObjectId a))
      (\<lambda>inst. send_alarm_notification env a inst) (store_alarm_row a s)))"
    unfolding keepsS_def by (metis prod.collapse)
  moreover have "fd_casts (store_alarm_row a s) = fd_casts s" "fd_uuids (store_alarm_row a s) = fd_uuids s"
    by (simp_all add: store_alarm_row_def split: option.splits)
  ultimately show ?thesis by (simp add: store_alarm_info_def R_def bindS_def)
qed

text \<open>What one alert casts.\<close>

definition cleared_at :: "int \<Rightarrow> int \<Rightarrow> alarm \<Rightarrow> alarm" where
  "cleared_at t now alm = alm\<lparr>am_alarmClearedTime := Some t, am_alarmChangedTime := Some now\<rparr>"

lemma clear_alarms_run:
  "clear_alarms fe e now as s = (case fe_parse_time fe e of
     Inl x \<Rightarrow> if as = [] then (Inr (), s) else (Inl x, s)
   | Inr t \<Rightarrow> (Inr (), s\<lparr>fd_casts := fd_casts s @ map (cleared_at t now) as\<rparr>))"
  by (induction as arbitrary: s)
    (auto simp: clear_alarms_def bindS_def cast_alarm_def cleared_at_def split: sum.splits)

definition made_for :: "string \<Rightarrow> string \<Rightarrow> alarm \<Rightarrow> bool" where
  "made_for v fp a \<longleftrightarrow> am_managedObjectId a = v \<and> alarm_fp a = Some fp \<and> am_alarmClearedTime a = None"

lemma new_alarm_made:
  "new_alarm fe i v ids now alert [fingerprint_detail fp, ''detail: '' @ d] = Inr a \<Longrightarrow> am_id a = i \<and> made_for v fp a"
  by (auto simp: new_alarm_def bindE_eq_Inr made_for_def alarm_fp_def fingerprint_detail_def)

lemma create_new_alarm_run:
  assumes "create_new_alarm env fe alert now s = (r, s')"
  shows "fd_alarms s' = fd_alarms s \<and> fd_uuids s \<le> fd_uuids s' \<and>
    (if r = Inr () then \<exists>a v fp. fd_casts s' = fd_casts s @ [a] \<and> label alert ''vnf_instance_id'' = Inr v \<and>
       bindE (jitem alert ''fingerprint'') as_str = Inr fp \<and> made_for v fp a \<and> am_id a = ev_uuid env (fd_uuids s) \<and>
       fd_uuids s' = Suc (fd_uuids s)
     else fd_casts s' = fd_casts s)"
  using assms unfolding create_new_alarm_def
  by (auto simp: bindS_def fm_get_inst_def fm_uuid_def cast_alarm_def dest!: new_alarm_made [simplified]
      split: sum.splits option.splits if_splits prod.splits)

definition alert_for :: "json \<Rightarrow> string \<Rightarrow> string \<Rightarrow> string \<Rightarrow> bool" where
  "alert_for alert st v fp \<longleftrightarrow> label alert ''function_type'' = Inr ''vnffm'' \<and>
     bindE (jitem alert ''status'') as_str = Inr st \<and> label alert ''vnf_instance_id'' = Inr v \<and>
     bindE (jitem alert ''fingerprint'') as_str = Inr fp"

text \<open>The casts of an alert: none, the open alarms as cleared, or one new alarm when none is open.\<close>

definition alert_casts :: "env \<Rightarrow> fm_db \<Rightarrow> alarm list \<Rightarrow> nat \<Rightarrow> bool" where
  "alert_casts env s cs n \<longleftrightarrow> cs = [] \<or>
     (\<exists>v fp t now. cs = map (cleared_at t now) (get_not_cleared_alarms s v fp)) \<or>
     (\<exists>a v fp. cs = [a] \<and> made_for v fp a \<and> get_not_cleared_alarms s v fp = [] \<and>
        am_id a = ev_uuid env (fd_uuids s) \<and> n = Suc (fd_uuids s))"

lemma create_or_update_run:
  assumes "create_or_update_alarm env fe alert now s = (r, s')"
  shows "fd_alarms s' = fd_alarms s \<and> fd_uuids s \<le> fd_uuids s' \<and>
    (\<exists>cs. fd_casts s' = fd_casts s @ cs \<and> alert_casts env s cs (fd_uuids s'))"
proof -
  obtain st v fp where "r = r \<and> s' = s \<or>
      bindE (jitem alert ''status'') as_str = Inr st \<and> label alert ''vnf_instance_id'' = Inr v \<and>
      bindE (jitem alert ''fingerprint'') as_str = Inr fp"
    using assms unfolding create_or_update_alarm_def by (auto simp: bindS_def split: sum.splits)
  then show ?thesis
  proof (elim disjE conjE)
    assume l: "bindE (jitem alert ''status'') as_str = Inr st" "label alert ''vnf_instance_id'' = Inr v"
      "bindE (jitem alert ''fingerprint'') as_str = Inr fp"
    let ?open = "get_not_cleared_alarms s v fp"
    have run: "(if st = ''resolved'' \<and> ?open \<noteq> []
       then bindS (liftS (bindE (jitem alert ''endsAt'') as_str)) (\<lambda>ends_at. clear_alarms fe ends_at now ?open)
       else if st = ''firing'' \<and> ?open = [] then create_new_alarm env fe alert now
       else raiseS PrometheusPluginSkipped) s = (r, s')"
      using assms l by (simp add: create_or_update_alarm_def bindS_def)
    show ?thesis
    proof (cases "st = ''firing'' \<and> ?open = []")
      case True
      with run have "create_new_alarm env fe alert now s = (r, s')" by simp
      from create_new_alarm_run [OF this] l True show ?thesis
        by (cases "r = Inr ()") (fastforce simp: alert_casts_def)+
    next
      case False
      with run show ?thesis
        by (auto simp: bindS_def clear_alarms_run alert_casts_def split: if_splits sum.splits) blast
    qed
  qed (auto simp: alert_casts_def)
qed

lemma fm_alert_run:
  assumes "fm_alert env fe [alert] s = (r, s')"
  shows "fd_alarms s' = fd_alarms s \<and> fd_uuids s \<le> fd_uuids s' \<and>
    (\<exists>cs. fd_casts s' = fd_casts s @ cs \<and> alert_casts env s cs (fd_uuids s'))"
proof -
  let ?s = "s\<lparr>fd_ticks := Suc (fd_ticks s)\<rparr>" and ?now = "ev_clock env (fd_ticks s)"
  have "alert_casts env ?s cs n = alert_casts env s cs n" for cs n
    by (simp add: alert_casts_def get_not_cleared_alarms_def alarms_of_inst_def)
  moreover obtain r1 where "label alert ''function_type'' \<noteq> Inr ''vnffm'' \<and> s' = ?s \<or>
      create_or_update_alarm env fe alert ?now ?s = (r1, s')"
    using assms by (auto simp: fm_alert_def tryS_def bindS_def fm_now_def fm_alert_each_def skip_if_def
        split: sum.splits prod.splits if_splits)
  ultimately show ?thesis
    using create_or_update_run [of env fe alert ?now ?s r1 s'] by (auto simp: alert_casts_def)
qed

subsection \<open>One open alarm per alert\<close>

lemma deliver_one:
  assumes "fd_casts s' = []" and "fd_alarms s' = fd_alarms s"
  shows "deliver env s' = s'"
  using assms by (simp add: deliver_def)

lemma deliver_single:
  assumes "fd_casts s' = [a]"
  shows "fd_casts (deliver env s') = [] \<and> fd_uuids s' \<le> fd_uuids (deliver env s') \<and>
    fd_alarms (deliver env s') = fd_alarms (store_alarm_row a s')"
  using store_alarm_keeps [of env a "s'\<lparr>fd_casts := []\<rparr>"] assms
  by (auto simp: deliver_def store_alarm_row_def split: option.splits)

lemma not_cleared_rows:
  "get_not_cleared_alarms s v fp = filter (\<lambda>a. am_managedObjectId a = v \<and> is_open fp a) (fd_alarms s)"
  by (simp add: get_not_cleared_alarms_def alarms_of_inst_def row_filter_def)

lemma length_filter_map_le:
  assumes "\<And>x. x \<in> set xs \<Longrightarrow> P (f x) \<Longrightarrow> P x"
  shows "length (filter P (map f xs)) \<le> length (filter P xs)"
  using assms by (induction xs) auto

text \<open>Replacing a row by one that is open for no more fingerprints.\<close>

lemma replace_inv:
  assumes inv: "fm_inv env s" and "row_find am_id (fd_alarms s) (am_id b) = Some a" and "alarm_fp b = alarm_fp a"
    and "am_managedObjectId b = am_managedObjectId a"
    and "am_alarmClearedTime b = None \<Longrightarrow> am_alarmClearedTime a = None"
    and s': "fd_alarms s' = row_upd am_id b (fd_alarms s)" "fd_casts s' = []" "fd_uuids s \<le> fd_uuids s'"
  shows "fm_inv env s'"
proof -
  have a: "a \<in> set (fd_alarms s)" "am_id a = am_id b"
    using assms(2) find_Some_iff2 [of _ "fd_alarms s" a] by (auto simp: row_find_def)
  have "am_id b \<in> am_id ` set (fd_alarms s)" using a by (metis imageI)
  then have upd: "fd_alarms s' = map (\<lambda>x. if am_id x = am_id b then b else x) (fd_alarms s)"
    using s'(1) by (simp add: row_upd_def)
  have wf: "rows_wf am_id (fd_alarms s)" using inv by (simp add: fm_inv_def)
  have only: "x = a" if "x \<in> set (fd_alarms s)" "am_id x = am_id b" for x
    using wf that a by (auto simp: rows_wf_def distinct_map inj_on_def)
  have "is_open fp x" "am_managedObjectId x = am_managedObjectId b"
    if "x \<in> set (fd_alarms s)" "am_id x = am_id b" "is_open fp b" for x fp
    using only [OF that(1,2)] that(3) inv a(1) assms(3-5) is_open_fp [of b _ fp] is_open_fp [of a _ fp]
    by (auto simp: fm_inv_def)
  then have "length (get_not_cleared_alarms s' v fp) \<le> length (get_not_cleared_alarms s v fp)" for v fp
    unfolding not_cleared_rows upd by (intro length_filter_map_le) (auto split: if_splits)
  with inv have "\<forall>v fp. length (get_not_cleared_alarms s' v fp) \<le> 1"
    unfolding fm_inv_def by (meson le_trans)
  moreover have "rows_wf am_id (fd_alarms s')" using rows_wf_upd [OF wf] s'(1) by simp
  moreover have "am_id ` set (fd_alarms s') = am_id ` set (fd_alarms s)"
    unfolding upd using a by (auto simp: image_iff) (metis a)+
  then have "am_id ` set (fd_alarms s') \<subseteq> ev_uuid env ` {..< fd_uuids s'}"
    using inv image_mono [of "{..< fd_uuids s}" "{..< fd_uuids s'}" "ev_uuid env"] s'(3) by (auto simp: fm_inv_def)
  ultimately show ?thesis using inv a assms(3) s'(2) by (auto simp: fm_inv_def upd)
qed

lemma add_inv:
  assumes inv: "fm_inv env s" and u: "inj (ev_uuid env)" and made: "made_for v fp a" "get_not_cleared_alarms s v fp = []"
    and "am_id a = ev_uuid env (fd_uuids s)"
    and s': "fd_alarms s' = row_add a (fd_alarms s)" "fd_casts s' = []" "Suc (fd_uuids s) \<le> fd_uuids s'"
  shows "fm_inv env s'"
proof -
  have ids: "am_id ` set (fd_alarms s) \<subseteq> ev_uuid env ` {..< fd_uuids s}" using inv by (simp add: fm_inv_def)
  then have fresh: "am_id a \<notin> am_id ` set (fd_alarms s)" using assms(5) u by (auto simp: inj_eq)
  have open': "get_not_cleared_alarms s' w f = get_not_cleared_alarms s w f @ (if w = v \<and> f = fp then [a] else [])" for w f
    using made(1) is_open_fp [of a fp f] unfolding not_cleared_rows s'(1) row_add_def by (auto simp: made_for_def)
  have "length (get_not_cleared_alarms s' w f) \<le> 1" for w f
    using inv made(2) by (cases "w = v \<and> f = fp") (auto simp: open' fm_inv_def)
  moreover have "am_id ` set (fd_alarms s') \<subseteq> ev_uuid env ` {..< fd_uuids s'}"
    using ids s'(3) assms(5) by (auto simp: s'(1) row_add_def)
  ultimately show ?thesis
    using inv fresh made(1) s'(2) by (auto simp: fm_inv_def s'(1) row_add_def rows_wf_def made_for_def)
qed

lemma merge_cleared:
  "alarm_merge x (cleared_at t now x) = cleared_at t now x"
  by (simp add: alarm_merge_def cleared_at_def kept_def split: option.splits)

lemma alert_inv:
  assumes inv: "fm_inv env s" and u: "inj (ev_uuid env)" and run: "fm_alert env fe [alert] s = (r, s')"
  shows "fm_inv env (deliver env s')"
proof -
  have e: "fd_casts s = []" and wf: "rows_wf am_id (fd_alarms s)" using inv by (simp_all add: fm_inv_def)
  obtain cs where c: "fd_alarms s' = fd_alarms s" "fd_uuids s \<le> fd_uuids s'" "fd_casts s' = cs"
      "alert_casts env s cs (fd_uuids s')"
    using fm_alert_run [OF run] e by auto
  have none: ?thesis if "cs = []"
  proof -
    have "al \<in> ev_uuid env ` {..< fd_uuids s'}" if "al \<in> am_id ` set (fd_alarms s)" for al
      using inv c(2) that unfolding fm_inv_def by (meson image_mono lessThan_subset_iff subsetD)
    with that inv c(1,3) show ?thesis by (auto simp: deliver_def fm_inv_def not_cleared_rows)
  qed
  from c(4) show ?thesis unfolding alert_casts_def
  proof (elim disjE exE conjE)
    fix v fp t now
    assume cs: "cs = map (cleared_at t now) (get_not_cleared_alarms s v fp)"
    show ?thesis
    proof (cases "get_not_cleared_alarms s v fp")
      case Nil
      with cs none show ?thesis by simp
    next
      case (Cons x xs)
      moreover have "length (get_not_cleared_alarms s v fp) \<le> 1" using inv by (simp add: fm_inv_def)
      ultimately have o: "get_not_cleared_alarms s v fp = [x]" by simp
      then have "x \<in> set (get_not_cleared_alarms s v fp)" by simp
      then have "x \<in> set (fd_alarms s)" by (simp add: not_cleared_rows)
      then have x: "row_find am_id (fd_alarms s) (am_id x) = Some x" by (simp add: row_find_wf [OF wf])
      let ?b = "cleared_at t now x"
      have "fd_casts s' = [?b]" using cs c(3) o by simp
      note d = deliver_single [OF this, of env]
      have b: "am_id ?b = am_id x" "alarm_fp ?b = alarm_fp x" "am_managedObjectId ?b = am_managedObjectId x"
          "am_alarmClearedTime ?b \<noteq> None"
        by (simp_all add: cleared_at_def alarm_fp_def)
      have "fd_alarms (deliver env s') = row_upd am_id ?b (fd_alarms s)"
        using d x b(1) c(1) by (simp add: store_alarm_row_def merge_cleared)
      with d c(2) b x show ?thesis
        by (intro replace_inv [OF inv, of ?b x]) auto
    qed
  next
    fix a v fp
    assume a: "cs = [a]" "made_for v fp a" "get_not_cleared_alarms s v fp = []" "am_id a = ev_uuid env (fd_uuids s)"
      "fd_uuids s' = Suc (fd_uuids s)"
    have "am_id a \<notin> am_id ` set (fd_alarms s)" using inv u a(4) by (auto simp: fm_inv_def inj_eq)
    then have "row_find am_id (fd_alarms s) (am_id a) = None" by (simp add: row_find_None)
    moreover note d = deliver_single [of s' a env]
    ultimately show ?thesis using a c
      by (intro add_inv [OF inv u a(2,3,4)]) (auto simp: store_alarm_row_def)
  qed (rule none)
qed

lemma alarm_update_run:
  "alarm_update env i st s = (case row_find am_id (fd_alarms s) i of
     None \<Rightarrow> (Inl (Sol (if ev_lock env i then AlarmNotFound i else ResourcesOtherOperationInProgress i)), s)
   | Some a \<Rightarrow> if \<not> ev_lock env i then (Inl (Sol (ResourcesOtherOperationInProgress i)), s)
       else if am_ackState a = st then (Inl (Sol AckStateInvalid), s)
       else (Inr st, s\<lparr>fd_ticks := (if st = ACKNOWLEDGED then Suc (fd_ticks s) else fd_ticks s),
         fd_alarms := row_upd am_id (a\<lparr>am_ackState := st, am_alarmAcknowledgedTime :=
           (if st = ACKNOWLEDGED then Some (ev_clock env (fd_ticks s)) else None)\<rparr>) (fd_alarms s)\<rparr>))"
  by (simp add: alarm_update_def lock_resources_def bindS_def get_alarm_def fm_now_def split: option.split)

lemma ack_inv:
  assumes inv: "fm_inv env s" and run: "alarm_update env i st s = (r, s')"
  shows "fm_inv env s'"
proof (cases "s' = s")
  case False
  then obtain a t where a: "row_find am_id (fd_alarms s) i = Some a"
    and s': "fd_alarms s' = row_upd am_id (a\<lparr>am_ackState := st, am_alarmAcknowledgedTime := t\<rparr>) (fd_alarms s)"
      "fd_casts s' = fd_casts s" "fd_uuids s' = fd_uuids s"
    using run by (auto simp: alarm_update_run split: option.splits if_splits)
  have "am_id a = i" using a unfolding row_find_def by (auto dest: find_Some_iff2)
  with a s' inv show ?thesis
    by (intro replace_inv [OF inv, of "a\<lparr>am_ackState := st, am_alarmAcknowledgedTime := t\<rparr>" a])
      (simp_all add: alarm_fp_def fm_inv_def)
qed (use inv in simp)

lemma fm_steps_inv:
  assumes "(fm_step env fe)\<^sup>*\<^sup>* (fm_init is subs) s" and u: "inj (ev_uuid env)"
  shows "fm_inv env s"
  using assms(1)
proof (induction rule: rtranclp_induct)
  case base
  show ?case by (simp add: fm_inv_def fm_init_def rows_wf_def not_cleared_rows)
next
  case (step y z)
  from step.hyps(2) step.IH show ?case
  proof cases
    case (alert a r s')
    with step.IH alert_inv [OF _ u] show ?thesis by blast
  next
    case (ack i st r)
    with step.IH ack_inv show ?thesis by blast
  next
    case (other is' subs')
    with step.IH show ?thesis by (simp add: fm_inv_def not_cleared_rows)
  qed
qed


definition ends_at_ok :: "fm_env \<Rightarrow> json \<Rightarrow> bool" where
  "ends_at_ok fe alert \<longleftrightarrow> (\<exists>e t. bindE (jitem alert ''endsAt'') as_str = Inr e \<and> fe_parse_time fe e = Inr t)"

definition created :: "env \<Rightarrow> fm_env \<Rightarrow> json \<Rightarrow> fm_db \<Rightarrow> bool" where
  "created env fe alert s \<longleftrightarrow>
     fst (create_new_alarm env fe alert (ev_clock env (fd_ticks s)) (s\<lparr>fd_ticks := Suc (fd_ticks s)\<rparr>)) = Inr ()"

lemma alert_start:
  assumes "alert_for alert st v fp"
  shows "snd (fm_alert env fe [alert] s) = snd ((if st = ''resolved'' \<and> get_not_cleared_alarms s v fp \<noteq> []
     then bindS (liftS (bindE (jitem alert ''endsAt'') as_str)) (\<lambda>e.
        clear_alarms fe e (ev_clock env (fd_ticks s)) (get_not_cleared_alarms s v fp))
     else if st = ''firing'' \<and> get_not_cleared_alarms s v fp = []
     then create_new_alarm env fe alert (ev_clock env (fd_ticks s)) else raiseS PrometheusPluginSkipped)
     (s\<lparr>fd_ticks := Suc (fd_ticks s)\<rparr>))"
proof -
  let ?s = "s\<lparr>fd_ticks := Suc (fd_ticks s)\<rparr>" and ?now = "ev_clock env (fd_ticks s)"
  have "snd (fm_alert env fe [alert] s) = snd (fm_alert_each env fe ?now alert ?s)"
    by (simp add: fm_alert_def tryS_def fm_now_def bindS_def split: sum.split prod.split)
  also have "\<dots> = snd (create_or_update_alarm env fe alert ?now ?s)"
    using assms by (simp add: fm_alert_each_def alert_for_def bindS_def skip_if_def tryS_def split: sum.split prod.split)
  also have "create_or_update_alarm env fe alert ?now ?s = (if st = ''resolved'' \<and> get_not_cleared_alarms s v fp \<noteq> []
     then bindS (liftS (bindE (jitem alert ''endsAt'') as_str)) (\<lambda>e. clear_alarms fe e ?now (get_not_cleared_alarms s v fp))
     else if st = ''firing'' \<and> get_not_cleared_alarms s v fp = []
     then create_new_alarm env fe alert ?now else raiseS PrometheusPluginSkipped) ?s"
    using assms by (simp add: create_or_update_alarm_def alert_for_def bindS_def not_cleared_rows)
  finally show ?thesis .
qed

text \<open>
  In every such history, an alert brings the alarm table in line with its state: after a
  resolved alert (with a valid end time) no alarm of its instance and fingerprint is open, and
  after a firing alert exactly one is, unless the alarm could not be made.
\<close>

lemma alert_sets_alarm:
  assumes "(fm_step env fe)\<^sup>*\<^sup>* (fm_init is subs) s" and u: "inj (ev_uuid env)" and a: "alert_for alert st v fp"
  defines "s' \<equiv> deliver env (snd (fm_alert env fe [alert] s))"
  shows "(st = ''resolved'' \<and> ends_at_ok fe alert \<longrightarrow> get_not_cleared_alarms s' v fp = []) \<and>
    (st = ''firing'' \<and> (get_not_cleared_alarms s v fp \<noteq> [] \<or> created env fe alert s) \<longrightarrow>
       length (get_not_cleared_alarms s' v fp) = 1)"
proof -
  let ?t = "snd (fm_alert env fe [alert] s)" and ?open = "get_not_cleared_alarms s v fp"
  let ?s = "s\<lparr>fd_ticks := Suc (fd_ticks s)\<rparr>" and ?now = "ev_clock env (fd_ticks s)"
  have inv: "fm_inv env s" using assms(1) u by (rule fm_steps_inv)
  then have e: "fd_casts s = []" and wf: "rows_wf am_id (fd_alarms s)" and le: "length ?open \<le> 1" by (simp_all add: fm_inv_def)
  have keep: "get_not_cleared_alarms s' v fp = ?open" if "?t = ?s"
    using that e by (simp add: s'_def deliver_def not_cleared_rows)
  note start = alert_start [OF a, of env fe s]
  have "get_not_cleared_alarms s' v fp = []" if res: "st = ''resolved''" "ends_at_ok fe alert"
  proof (cases ?open)
    case Nil
    with res start have "?t = ?s" by simp
    with keep Nil show ?thesis by simp
  next
    case (Cons x xs)
    with le have o: "?open = [x]" by simp
    obtain ends t where "bindE (jitem alert ''endsAt'') as_str = Inr ends" "fe_parse_time fe ends = Inr t"
      using res(2) by (auto simp: ends_at_ok_def)
    then have t: "?t = ?s\<lparr>fd_casts := [cleared_at t ?now x]\<rparr>"
      using start res(1) o e by (simp add: bindS_def clear_alarms_run)
    have "x \<in> set ?open" using o by simp
    then have x: "x \<in> set (fd_alarms s)" by (simp add: not_cleared_rows)
    then have find: "row_find am_id (fd_alarms s) (am_id x) = Some x" by (simp add: row_find_wf [OF wf])
    let ?b = "cleared_at t ?now x"
    have id: "am_id ?b = am_id x" by (simp add: cleared_at_def)
    have "fd_alarms s' = row_upd am_id ?b (fd_alarms s)"
      using deliver_single [of ?t ?b env] t find id by (simp add: s'_def store_alarm_row_def merge_cleared)
    then have upd: "fd_alarms s' = map (\<lambda>y. if am_id y = am_id x then ?b else y) (fd_alarms s)"
      using x id by (simp add: row_upd_def)
    have "am_id y = am_id x" if "y \<in> set (fd_alarms s)" "am_managedObjectId y = v" "is_open fp y" for y
    proof -
      have "y \<in> set ?open" using that by (simp add: not_cleared_rows)
      with o show ?thesis by simp
    qed
    then show ?thesis
      unfolding not_cleared_rows upd by (auto simp: filter_empty_conv is_open_def cleared_at_def split: if_splits)
  qed
  moreover have "length (get_not_cleared_alarms s' v fp) = 1" if fire: "st = ''firing''" "?open \<noteq> [] \<or> created env fe alert s"
  proof (cases ?open)
    case (Cons x xs)
    with fire start have "?t = ?s" by simp
    with keep Cons le show ?thesis by simp
  next
    case Nil
    have "?t = snd (create_new_alarm env fe alert ?now ?s)" using start fire(1) Nil by simp
    then obtain r where c: "create_new_alarm env fe alert ?now ?s = (r, ?t)" by (metis prod.collapse)
    moreover have "r = Inr ()" using fire Nil c by (simp add: created_def)
    ultimately obtain b where b: "fd_casts ?t = [b]" "made_for v fp b" "am_id b = ev_uuid env (fd_uuids s)" "fd_alarms ?t = fd_alarms s"
      using create_new_alarm_run [OF c] a e by (auto simp: alert_for_def)
    have "am_id b \<notin> am_id ` set (fd_alarms s)" using inv u b(3) by (auto simp: fm_inv_def inj_eq)
    then have "fd_alarms s' = row_add b (fd_alarms s)"
      using deliver_single [OF b(1), of env] b(4) by (simp add: s'_def store_alarm_row_def row_find_None [THEN iffD2])
    then have "get_not_cleared_alarms s' v fp = ?open @ [b]"
      using b(2) is_open_fp [of b fp fp] by (simp add: not_cleared_rows row_add_def made_for_def)
    with Nil show ?thesis by simp
  qed
  ultimately show ?thesis by blast
qed

subsection \<open>An example\<close>

definition ex_fm_inst :: vnf_instance where
  "ex_fm_inst = ex_inst\<lparr>in_instantiatedVnfInfo := Some (ex_info\<lparr>
     iv_vnfcResourceInfo := Some [(ex_vnfc ''pod-a'')\<lparr>vr_computeResource :=
       (vr_computeResource (ex_vnfc ''pod-a''))\<lparr>rh_vimLevelResourceType := Some ''Deployment''\<rparr>\<rparr>],
     iv_vnfcInfo := Some [\<lparr>ci_id = ''c'', ci_vduId = ''V'', ci_vnfcResourceInfoId = Some ''pod-a'', ci_vnfcState = STARTED,
       ci_vnfcConfigurableProperties = None\<rparr>]\<rparr>)\<rparr>"

definition ex_fm_env :: fm_env where
  "ex_fm_env = \<lparr>fe_parse_time = (\<lambda>t. Inr (int (length t))), fe_re_match = (\<lambda>p x. Inr (take (length p) x = p)),
     fe_test_callback = None\<rparr>"

definition ex_alert :: "string \<Rightarrow> string \<Rightarrow> jdict \<Rightarrow> json" where
  "ex_alert st fp extra = JObj [(''status'', JStr st), (''fingerprint'', JStr fp), (''startsAt'', JStr ''t''),
     (''endsAt'', JStr ''tt''), (''annotations'', JObj []),
     (''labels'', JObj ([(''receiver_type'', JStr ''tacker''), (''function_type'', JStr ''vnffm''),
        (''vnf_instance_id'', JStr ''inst''), (''pod'', JStr ''pod''), (''perceived_severity'', JStr ''MAJOR'')] @ extra))]"

definition ex_fm_db :: fm_db where
  "ex_fm_db = fm_init [ex_fm_inst] []"

definition ex_fired :: fm_db where
  "ex_fired = deliver ex_env (snd (fm_alert ex_env ex_fm_env
     [ex_alert ''firing'' ''f'' [(''event_type'', JStr ''QOS_ALARM'')]] ex_fm_db))"

lemma ex_env_inj: "inj (ev_uuid ex_env)"
  by (rule injI, drule arg_cong [where f = length]) (simp add: ex_env_def)

lemma ex_fired_reached: "(fm_step ex_env ex_fm_env)\<^sup>*\<^sup>* (fm_init [ex_fm_inst] []) ex_fired"
  unfolding ex_fired_def ex_fm_db_def by (rule r_into_rtranclp) (metis fm_step.alert prod.collapse)


text \<open>
  A firing alert without the label \<open>event_type\<close>, which the schema of the alerts does not
  require, makes no alarm, and no alert after it in the same message is looked at: the default, an
  empty string, is not a value of the enumeration.
\<close>

lemma alert_without_event_type_stops:
  "fd_casts (snd (fm_alert ex_env ex_fm_env (ex_alert ''firing'' ''f'' [] # alerts) ex_fm_db)) = []"
proof -
  have "fm_alert_each ex_env ex_fm_env 0 (ex_alert ''firing'' ''f'' []) (ex_fm_db\<lparr>fd_ticks := 1\<rparr>) =
      (Inl (PyExc ValueError ''Field value  is invalid''), ex_fm_db\<lparr>fd_ticks := 1, fd_uuids := 1\<rparr>)"
    by code_simp
  then show ?thesis
    by (simp add: fm_alert_def tryS_def bindS_def fm_now_def ex_fm_db_def fm_init_def ex_env_def)
qed

end
