(* ===== verification/Perf_Objects.thy ===== *)
theory Perf_Objects
  imports Fault_Mgmt
begin

section \<open>Performance management: objects and utilities\<close>

text \<open>
  PM jobs, their reports, and thresholds (\<^verbatim>\<open>objects/v2/pm_job.py\<close>, \<^verbatim>\<open>pm_report.py\<close>, \<^verbatim>\<open>threshold.py\<close> and the
  notifications), with \<^verbatim>\<open>common/pm_job_utils.py\<close> and \<^verbatim>\<open>common/pm_threshold_utils.py\<close>.

  A measured value is an element of a type \<open>'n\<close> of which only an order, a zero, a sum and a
  difference are used: the numbers of Python without NaN, with whatever rounding. Times are
  microseconds. The metadata of a threshold keeps the states that the conductor stores apart from the
  members of the request. \<open>pm_db\<close> holds the tables, the rule files on the Prometheus servers, the
  messages to the conductor and the notifications; \<open>pm_env\<close> holds what lies outside: ssh and HTTP,
  the configuration file with its PromQL templates, the readers of numbers and times.
\<close>

subsection \<open>Objects\<close>

record pm_criteria =
  cr_performanceMetric :: "string list option"
  cr_performanceMetricGroup :: "string list option"
  cr_collectionPeriod :: int
  cr_reportingPeriod :: int
  cr_reportingBoundary :: "int option"

record report_link =
  rl_href :: string
  rl_readyTime :: int

record pm_job =
  pj_id :: string
  pj_objectType :: string
  pj_objectInstanceIds :: "string list"
  pj_subObjectInstanceIds :: "string list option"
  pj_criteria :: pm_criteria
  pj_callbackUri :: string
  pj_reports :: "report_link list"
  pj_authentication :: "json option"
  pj_metadata :: "jdict option"

record 'n perf_value =
  pv_timeStamp :: int
  pv_value :: 'n

record 'n report_entry =
  re_objectType :: string
  re_objectInstanceId :: string
  re_subObjectInstanceId :: "string option"
  re_performanceMetric :: string
  re_performanceValues :: "'n perf_value list"

record 'n pm_report =
  pr_id :: string
  pr_jobId :: string
  pr_entries :: "'n report_entry list"

record 'n threshold_details =
  td_thresholdValue :: 'n
  td_hysteresis :: 'n

record 'n threshold_state =
  st_subObjectInstanceId :: "string option"
  st_performanceValue :: "'n option"
  st_metrics :: "string option"
  st_crossingDirection :: "string option"

record 'n threshold_metadata =
  mm_items :: jdict
  mm_thresholdState :: "'n threshold_state list option"

record 'n threshold_criteria =
  tc_performanceMetric :: string
  tc_thresholdType :: string
  tc_simpleThresholdDetails :: "'n threshold_details option"

record 'n threshold =
  th_id :: string
  th_objectType :: string
  th_objectInstanceId :: string
  th_subObjectInstanceIds :: "string list option"
  th_criteria :: "'n threshold_criteria"
  th_callbackUri :: string
  th_authentication :: "json option"
  th_metadata :: "'n threshold_metadata option"

record 'n crossed_notif =
  xn_id :: string
  xn_timeStamp :: int
  xn_thresholdId :: string
  xn_crossingDirection :: string
  xn_objectType :: string
  xn_objectInstanceId :: string
  xn_subObjectInstanceId :: "string option"
  xn_performanceMetric :: string
  xn_performanceValue :: 'n
  xn_link_objectInstance :: string
  xn_link_threshold :: string

record available_notif =
  an_id :: string
  an_timeStamp :: int
  an_pmJobId :: string
  an_objectType :: string
  an_objectInstanceId :: string
  an_subObjectInstanceIds :: "string list option"
  an_link_objectInstance :: string
  an_link_pmJob :: string
  an_link_performanceReport :: string

datatype 'n pm_notif = ThresholdCrossed "'n crossed_notif" | ReportAvailable available_notif

text \<open>What the plugin tells the conductor about a threshold.\<close>

record 'n crossing =
  cs_thresholdId :: string
  cs_subObjectInstanceId :: "string option"
  cs_performanceValue :: 'n
  cs_metrics :: string
  cs_crossingDirection :: string

datatype 'n pm_cast = StoreJobInfo "'n pm_report list" | StoreThresholdStateInfo "'n crossing list"

record prom_target =
  pt_host :: json
  pt_port :: json
  pt_user :: json
  pt_password :: json
  pt_path :: json

type_synonym rule_file = "json \<times> json \<times> string"

record prom_ql_args =
  qa_pod :: "string option"
  qa_collection_period :: int
  qa_reporting_period :: int
  qa_sub_object_instance_id :: string
  qa_namespace :: json

record prom_rule =
  ru_alert :: string
  ru_expr :: string
  ru_for :: int
  ru_labels :: "(string, string) dict"

record 'n pm_db =
  pd_insts :: "vnf_instance list"
  pd_jobs :: "pm_job list"
  pd_reports :: "'n pm_report list"
  pd_thresholds :: "'n threshold list"
  pd_files :: "rule_file list"
  pd_casts :: "'n pm_cast list"
  pd_notifs :: "(string \<times> 'n pm_notif) list"
  pd_uuids :: nat
  pd_ticks :: nat

record 'n pm_env =
  pe_enabled :: bool
  pe_parse_time :: "string \<Rightarrow> int pyres"
  pe_number :: "bool \<Rightarrow> json \<Rightarrow> 'n pyres"
  pe_float :: "'n \<Rightarrow> 'n"
  pe_prom_ql :: "string \<Rightarrow> string \<Rightarrow> prom_ql_args \<Rightarrow> string pyres"
  pe_put :: "prom_target \<Rightarrow> prom_rule list \<Rightarrow> string \<Rightarrow> unit pyres"
  pe_verify :: "prom_target \<Rightarrow> string \<Rightarrow> unit pyres"
  pe_remove :: "prom_target \<Rightarrow> string \<Rightarrow> bool \<Rightarrow> unit pyres"
  pe_reload :: "json \<Rightarrow> unit pyres"
  pe_margin :: int
  pe_collection_period_threshold :: int
  pe_reporting_period_threshold :: int
  pe_test_callback :: "(string \<Rightarrow> json option \<Rightarrow> unit pyres) option"

interpretation pm_jobs: row_store pj_id "row_find pj_id" row_add "row_upd pj_id" "row_del pj_id" "rows_wf pj_id"
  by (rule row_store_rows)

interpretation pm_reports: row_store pr_id "row_find pr_id" row_add "row_upd pr_id" "row_del pr_id" "rows_wf pr_id"
  by (rule row_store_rows)

interpretation thresholds: row_store th_id "row_find th_id" row_add "row_upd th_id" "row_del th_id" "rows_wf th_id"
  by (rule row_store_rows)

type_synonym ('n, 'a) pm = "('n pm_db, exn, 'a) sem"

definition pm_uuid :: "env \<Rightarrow> ('n, string) pm" where
  "pm_uuid env s = (Inr (ev_uuid env (pd_uuids s)), s\<lparr>pd_uuids := Suc (pd_uuids s)\<rparr>)"

definition pm_now :: "env \<Rightarrow> ('n, int) pm" where
  "pm_now env s = (Inr (ev_clock env (pd_ticks s)), s\<lparr>pd_ticks := Suc (pd_ticks s)\<rparr>)"

definition pm_get_inst :: "string \<Rightarrow> ('n, vnf_instance) pm" where
  "pm_get_inst i s = (case row_find in_id (pd_insts s) i of
      None \<Rightarrow> (Inl (Sol (VnfInstanceNotFound i)), s) | Some inst \<Rightarrow> (Inr inst, s))"

definition pm_send :: "string \<Rightarrow> 'n pm_notif \<Rightarrow> ('n, unit) pm" where
  "pm_send uri n = modS (\<lambda>s. s\<lparr>pd_notifs := pd_notifs s @ [(uri, n)]\<rparr>)"

subsection \<open>PM jobs (common/pm\_job\_utils.py)\<close>

definition get_pm_job :: "string \<Rightarrow> ('n, pm_job) pm" where
  "get_pm_job pm_job_id s = (case row_find pj_id (pd_jobs s) pm_job_id of
      None \<Rightarrow> (Inl (Sol PMJobNotExist), s) | Some j \<Rightarrow> (Inr j, s))"

definition pm_reports_of :: "'n pm_db \<Rightarrow> string \<Rightarrow> 'n pm_report list" where
  "pm_reports_of s pm_job_id = row_filter (\<lambda>r. pr_jobId r = pm_job_id) (pd_reports s)"

definition get_pm_report :: "string \<Rightarrow> string \<Rightarrow> ('n, 'n pm_report) pm" where
  "get_pm_report pm_job_id report_id s =
     (case row_filter (\<lambda>r. pr_id r = report_id \<and> pr_jobId r = pm_job_id) (pd_reports s) of
        [] \<Rightarrow> (Inl (Sol PMReportNotExist), s) | r # _ \<Rightarrow> (Inr r, s))"

definition pm_job_href :: "string \<Rightarrow> string \<Rightarrow> string" where
  "pm_job_href pm_job_id endpoint = endpoint @ ''/vnfpm/v2/pm_jobs/'' @ pm_job_id"

definition pm_report_href :: "string \<Rightarrow> string \<Rightarrow> string \<Rightarrow> string" where
  "pm_report_href pm_job_id report_id endpoint =
     endpoint @ ''/vnfpm/v2/pm_jobs/'' @ pm_job_id @ ''/reports/'' @ report_id"

definition gen_job_report :: "string \<Rightarrow> 'n pm_report \<Rightarrow> int \<Rightarrow> string \<Rightarrow> report_link" where
  "gen_job_report job_id report timestamp endpoint =
     \<lparr>rl_href = pm_report_href job_id (pr_id report) endpoint, rl_readyTime = timestamp\<rparr>"

definition update_report :: "string \<Rightarrow> 'n pm_report \<Rightarrow> int \<Rightarrow> string \<Rightarrow> ('n, pm_job) pm" where
  "update_report job_id report timestamp endpoint =
     bindS (get_pm_job job_id) (\<lambda>pm_job.
       retS (pm_job\<lparr>pj_reports := pj_reports pm_job @ [gen_job_report job_id report timestamp endpoint]\<rparr>))"

definition make_pm_job_links :: "pm_job \<Rightarrow> string \<Rightarrow> string \<times> string list" where
  "make_pm_job_links pm_job endpoint =
     (pm_job_href (pj_id pm_job) endpoint, map (\<lambda>i. inst_href i endpoint) (pj_objectInstanceIds pm_job))"

definition make_pm_notif_data :: "env \<Rightarrow> string \<Rightarrow> string list \<Rightarrow> string \<Rightarrow> pm_job \<Rightarrow> int \<Rightarrow> ('n, available_notif) pm" where
  "make_pm_notif_data env instance_id sub_instance_ids report_id pm_job timestamp =
     bindS (pm_uuid env) (\<lambda>i. retS \<lparr>an_id = i, an_timeStamp = timestamp, an_pmJobId = pj_id pm_job,
       an_objectType = pj_objectType pm_job, an_objectInstanceId = instance_id,
       an_subObjectInstanceIds = (if sub_instance_ids = [] then None else Some sub_instance_ids),
       an_link_objectInstance = inst_href instance_id (ev_endpoint env),
       an_link_pmJob = pm_job_href (pj_id pm_job) (ev_endpoint env),
       an_link_performanceReport = pm_report_href (pj_id pm_job) report_id (ev_endpoint env)\<rparr>)"

subsection \<open>Thresholds (common/pm\_threshold\_utils.py)\<close>

definition get_pm_threshold :: "string \<Rightarrow> ('n, 'n threshold) pm" where
  "get_pm_threshold threshold_id s = (case row_find th_id (pd_thresholds s) threshold_id of
      None \<Rightarrow> (Inl (Sol (PMThresholdNotExist threshold_id)), s) | Some t \<Rightarrow> (Inr t, s))"

definition get_pm_threshold_state :: "'n threshold \<Rightarrow> string option \<Rightarrow> 'n threshold_state option" where
  "get_pm_threshold_state t sub = (case th_metadata t of None \<Rightarrow> None
     | Some m \<Rightarrow> (case mm_thresholdState m of None \<Rightarrow> None
        | Some states \<Rightarrow> find (\<lambda>st. st_subObjectInstanceId st = sub) states))"

definition pm_threshold_href :: "string \<Rightarrow> string \<Rightarrow> string" where
  "pm_threshold_href threshold_id endpoint = endpoint @ ''/vnfpm/v2/thresholds/'' @ threshold_id"

definition make_pm_threshold_links :: "'n threshold \<Rightarrow> string \<Rightarrow> string \<times> string" where
  "make_pm_threshold_links t endpoint =
     (pm_threshold_href (th_id t) endpoint, inst_href (th_objectInstanceId t) endpoint)"

text \<open>The state that is stored, and the loop that replaces the first state of the same object and
  metric or appends.\<close>

definition state_of :: "'n crossing \<Rightarrow> 'n threshold_state" where
  "state_of c = \<lparr>st_subObjectInstanceId = cs_subObjectInstanceId c, st_performanceValue = Some (cs_performanceValue c),
     st_metrics = Some (cs_metrics c), st_crossingDirection = Some (cs_crossingDirection c)\<rparr>"

fun put_state :: "'n threshold_state \<Rightarrow> 'n threshold_state list \<Rightarrow> 'n threshold_state list" where
  "put_state d [] = [d]"
| "put_state d (st # sts) =
     (if st_subObjectInstanceId st = st_subObjectInstanceId d \<and> st_metrics st = st_metrics d then d # sts
      else st # put_state d sts)"

definition with_state :: "'n threshold_state \<Rightarrow> 'n threshold_metadata option \<Rightarrow> 'n threshold_metadata" where
  "with_state d md = (case md of
      None \<Rightarrow> \<lparr>mm_items = [], mm_thresholdState = Some [d]\<rparr>
    | Some m \<Rightarrow> m\<lparr>mm_thresholdState := Some (case mm_thresholdState m of None \<Rightarrow> [d] | Some sts \<Rightarrow> put_state d sts)\<rparr>)"

definition update_threshold_state_data :: "env \<Rightarrow> string \<Rightarrow> 'n threshold_state \<Rightarrow> ('n, unit) pm" where
  "update_threshold_state_data env threshold_id d = lock_resources env threshold_id
     (bindS (get_pm_threshold threshold_id) (\<lambda>t.
        modS (\<lambda>s. s\<lparr>pd_thresholds := row_upd th_id (t\<lparr>th_metadata := Some (with_state d (th_metadata t))\<rparr>)
          (pd_thresholds s)\<rparr>)))"

definition make_threshold_notif_data :: "env \<Rightarrow> int \<Rightarrow> 'n crossing \<Rightarrow> 'n threshold \<Rightarrow> ('n, 'n crossed_notif) pm" where
  "make_threshold_notif_data env timestamp c t =
     bindS (pm_uuid env) (\<lambda>i. retS \<lparr>xn_id = i, xn_timeStamp = timestamp, xn_thresholdId = th_id t,
       xn_crossingDirection = cs_crossingDirection c, xn_objectType = th_objectType t,
       xn_objectInstanceId = th_objectInstanceId t, xn_subObjectInstanceId = cs_subObjectInstanceId c,
       xn_performanceMetric = cs_metrics c, xn_performanceValue = cs_performanceValue c,
       xn_link_objectInstance = inst_href (th_objectInstanceId t) (ev_endpoint env),
       xn_link_threshold = pm_threshold_href (th_id t) (ev_endpoint env)\<rparr>)"

end
