(* ===== verification/Perf_Rules.thy ===== *)
theory Perf_Rules
  imports Perf_Objects
begin

section \<open>Performance management: alert rules\<close>

text \<open>
  \<^verbatim>\<open>PrometheusPluginPmBase\<close> of \<^verbatim>\<open>common/prometheus_plugin.py\<close> and the parts of \<^verbatim>\<open>PrometheusPluginPm\<close> and
  \<^verbatim>\<open>PrometheusPluginThreshold\<close> that turn a PM job or a threshold into alert rules and put them on the
  Prometheus servers. The regular expressions of the source are fixed; each is written as the
  function that decides or rewrites, \<open>.\<close> not matching a line feed and \<open>$\<close> also matching before a
  final one. \<open>list(set(xs))\<close> has its elements in some order; \<^const>\<open>remdups\<close> gives one.
\<close>

subsection \<open>Patterns\<close>

abbreviation line_feed :: char where
  "line_feed \<equiv> CHR 0x0A"

definition strip_prefix :: "string \<Rightarrow> string \<Rightarrow> string option" where
  "strip_prefix p x = (if take (length p) x = p then Some (drop (length p) x) else None)"

definition compute_metrics :: "string list" where
  "compute_metrics = [''VCpuUsageMeanVnf'', ''VCpuUsagePeakVnf'', ''VMemoryUsageMeanVnf'', ''VMemoryUsagePeakVnf'',
     ''VDiskUsageMeanVnf'', ''VDiskUsagePeakVnf'']"

definition cp_metrics :: "string list" where
  "cp_metrics = [''ByteIncoming'', ''ByteOutgoing'', ''PacketIncoming'', ''PacketOutgoing'']"

definition metric_object :: "string \<Rightarrow> string option" where
  "metric_object x = (case List.map_filter (\<lambda>p. strip_prefix (p @ ''.'') x) compute_metrics of [] \<Rightarrow> None | r # _ \<Rightarrow> Some r)"

definition is_compute_metric :: "string \<Rightarrow> bool" where
  "is_compute_metric x = (case metric_object x of Some (c # _) \<Rightarrow> c \<noteq> line_feed | _ \<Rightarrow> False)"

definition is_cp_metric :: "string \<Rightarrow> string \<Rightarrow> bool" where
  "is_cp_metric ty x = list_ex (\<lambda>p. strip_prefix (p @ ty) x \<noteq> None) cp_metrics"

fun metric_target :: "string \<Rightarrow> string" where
  "metric_target [] = []"
| "metric_target (c # s) =
     (if c = CHR ''.'' \<and> s \<noteq> [] \<and> line_feed \<notin> set s then []
      else if c = CHR ''.'' \<and> s \<noteq> [] \<and> last s = line_feed \<and> butlast s \<noteq> [] \<and> line_feed \<notin> set (butlast s) then [line_feed]
      else c # metric_target s)"

definition hex_digit :: "char \<Rightarrow> bool" where
  "hex_digit c = (c \<in> set ''0123456789abcdef'')"

definition lower_alnum :: "char \<Rightarrow> bool" where
  "lower_alnum c = (c \<in> set ''0123456789abcdefghijklmnopqrstuvwxyz'')"

definition pod_suffix :: "string \<Rightarrow> bool" where
  "pod_suffix s = (case s of [] \<Rightarrow> False | c # r \<Rightarrow> c = CHR ''-'' \<and>
     (let h = takeWhile hex_digit r in h \<noteq> [] \<and> length h \<le> 10 \<and>
       (case dropWhile hex_digit r of [] \<Rightarrow> False | d # t \<Rightarrow> d = CHR ''-'' \<and> length t = 5 \<and> list_all lower_alnum t)))"

fun strip_pod_suffix :: "string \<Rightarrow> string" where
  "strip_pod_suffix [] = []"
| "strip_pod_suffix (c # s) =
     (if pod_suffix (c # s) then []
      else if last (c # s) = line_feed \<and> pod_suffix (butlast (c # s)) then [line_feed]
      else c # strip_pod_suffix s)"

subsection \<open>Metrics\<close>

definition no_metrics :: exn where
  "no_metrics = PrometheusPluginError ''Invalid performanceMetric or performanceMetricGroup.''"

definition some_metrics :: "string list \<Rightarrow> string list pyres" where
  "some_metrics ms = (if ms = [] then Inl no_metrics else Inr (remdups ms))"

definition job_metrics_vnfc :: "pm_job \<Rightarrow> string list pyres" where
  "job_metrics_vnfc j = some_metrics
     (filter (\<lambda>x. is_compute_metric x \<and> the (metric_object x) \<in> set (pj_objectInstanceIds j))
        (opt_list (cr_performanceMetric (pj_criteria j))) @
      concat (map (\<lambda>obj. concat (map (\<lambda>grp.
          if grp = ''VirtualisedComputeResource'' then map (\<lambda>p. p @ ''.'' @ obj) compute_metrics else [])
        (opt_list (cr_performanceMetricGroup (pj_criteria j))))) (pj_objectInstanceIds j)))"

definition job_metrics_cp :: "pm_job \<Rightarrow> string list pyres" where
  "job_metrics_cp j =
     (let group_name = (if pj_objectType j = ''VnfIntCp'' then ''VnfInternalCp'' else ''VnfExternalCp'') in
      some_metrics
       (filter (is_cp_metric (pj_objectType j)) (opt_list (cr_performanceMetric (pj_criteria j))) @
        concat (map (\<lambda>grp. if grp = group_name then map (\<lambda>p. p @ pj_objectType j) cp_metrics else [])
          (opt_list (cr_performanceMetricGroup (pj_criteria j))))))"

definition decompose_metrics :: "string \<Rightarrow> string list pyres \<Rightarrow> string list pyres \<Rightarrow> string list pyres" where
  "decompose_metrics ty vnfc cp =
     (if ty = ''Vnf'' \<or> ty = ''Vnfc'' then vnfc
      else if ty = ''VnfIntCp'' \<or> ty = ''VnfExtCp'' then cp
      else Inl (PrometheusPluginError (''Invalid objectType: '' @ ty @ ''.'')))"

definition invalid_metric :: exn where
  "invalid_metric = PrometheusPluginError ''Invalid performanceMetric.''"

definition threshold_metrics_vnfc :: "'n threshold \<Rightarrow> string list pyres" where
  "threshold_metrics_vnfc t =
     (let metric = tc_performanceMetric (th_criteria t) in
      if is_compute_metric metric \<and> metric_object metric = Some (th_objectInstanceId t) then Inr [metric] else Inl invalid_metric)"

definition threshold_metrics_cp :: "'n threshold \<Rightarrow> string list pyres" where
  "threshold_metrics_cp t =
     (let metric = tc_performanceMetric (th_criteria t) in
      if is_cp_metric (th_objectType t) metric then Inr [metric] else Inl invalid_metric)"

definition convert_measurement_unit :: "'n pm_env \<Rightarrow> string \<Rightarrow> json \<Rightarrow> 'n pyres" where
  "convert_measurement_unit pe metric v =
     (if is_compute_metric metric then pe_number pe True v
      else if is_cp_metric ''VnfIntCp'' metric \<or> is_cp_metric ''VnfExtCp'' metric then pe_number pe False v
      else Inl PrometheusPluginSkipped)"

subsection \<open>Rules\<close>

definition make_prom_ql :: "'n pm_env \<Rightarrow> string \<Rightarrow> string \<Rightarrow> prom_ql_args \<Rightarrow> string pyres" where
  "make_prom_ql pe pm_type target a =
     pe_prom_ql pe pm_type target (a\<lparr>qa_reporting_period := max (qa_reporting_period a) 30\<rparr>)"

definition make_rule :: "env \<Rightarrow> string \<Rightarrow> string \<Rightarrow> string \<Rightarrow> string option \<Rightarrow> string \<Rightarrow> string \<Rightarrow> int \<Rightarrow> ('n, prom_rule) pm" where
  "make_rule env ty i object_instance_id sub_object_instance_id metric expression collection_period =
     bindS (liftS (if ty = ''PMJob'' then Inr (''vnfpm'', ''job_id'')
        else if ty = ''Threshold'' then Inr (''vnfpm_threshold'', ''threshold_id'')
        else Inl (PrometheusPluginError ''Invalid type in make_rule().''))) (\<lambda>(function_type, id_label).
     bindS (pm_uuid env) (\<lambda>u.
       retS \<lparr>ru_alert = u, ru_expr = expression, ru_for = collection_period,
         ru_labels = [(''alertname'', []), (''receiver_type'', ''tacker''), (''function_type'', function_type),
             (id_label, i), (''object_instance_id'', object_instance_id)] @
           (case sub_object_instance_id of None \<Rightarrow> [] | Some x \<Rightarrow> [(''sub_object_instance_id'', x)]) @
           [(''metric'', metric)]\<rparr>))"

definition get_namespace :: "vnf_instance \<Rightarrow> json" where
  "get_namespace inst = (case in_instantiatedVnfInfo inst of None \<Rightarrow> JStr ''default''
     | Some info \<Rightarrow> (case iv_metadata info of None \<Rightarrow> JStr ''default''
        | Some md \<Rightarrow> (case map_of md ''namespace'' of None \<Rightarrow> JStr ''default'' | Some v \<Rightarrow> v)))"

definition get_vnfc_resource_info :: "vnf_instance \<Rightarrow> vnfc_resource list option" where
  "get_vnfc_resource_info inst = (case in_instantiatedVnfInfo inst of None \<Rightarrow> None | Some info \<Rightarrow> iv_vnfcResourceInfo info)"

definition is_deployment :: "vnfc_resource \<Rightarrow> bool" where
  "is_deployment r \<longleftrightarrow> rh_vimLevelResourceType (vr_computeResource r) = Some ''Deployment''"

definition join_bar :: "string list \<Rightarrow> string" where
  "join_bar xs = (case xs of [] \<Rightarrow> [] | y # ys \<Rightarrow> y @ concat (map (\<lambda>z. ''|'' @ z) ys))"

definition get_pod_regexp :: "vnf_instance \<Rightarrow> string option" where
  "get_pod_regexp inst =
     (let deployments = remdups (map (\<lambda>r. strip_pod_suffix (rh_resourceId (vr_computeResource r)) @
            ''-[0-9a-f]{1,10}-[0-9a-z]{5}$'') (filter is_deployment (opt_list (get_vnfc_resource_info inst)))) in
      if deployments = [] then None else Some (''('' @ join_bar deployments @ '')''))"

definition get_compute_resource_by_sub_obj :: "vnf_instance \<Rightarrow> string \<Rightarrow> resource_handle option" where
  "get_compute_resource_by_sub_obj inst sub_obj = (case in_instantiatedVnfInfo inst of None \<Rightarrow> None
     | Some info \<Rightarrow> (case (iv_vnfcResourceInfo info, iv_vnfcInfo info) of
         (Some resources, Some vnfcs) \<Rightarrow>
           (case filter (\<lambda>x. ci_vnfcResourceInfoId x \<noteq> None \<and> ci_id x = sub_obj) vnfcs of
              [] \<Rightarrow> None
            | c # _ \<Rightarrow> (case filter (\<lambda>x. ci_vnfcResourceInfoId c = Some (vr_id x) \<and> is_deployment x) resources of
                 [] \<Rightarrow> None | r # _ \<Rightarrow> Some (vr_computeResource r)))
       | _ \<Rightarrow> None))"

text \<open>One rule for an object, or none.\<close>

definition rule_for :: "env \<Rightarrow> 'n pm_env \<Rightarrow> string \<Rightarrow> string \<Rightarrow> string \<Rightarrow> string option \<Rightarrow> string \<Rightarrow> string option \<Rightarrow> string \<Rightarrow>
    vnf_instance \<Rightarrow> int \<Rightarrow> int \<Rightarrow> ('n, prom_rule) pm" where
  "rule_for env pe ty i obj sub metric pod ql_sub inst collection_period reporting_period =
     bindS (liftS (make_prom_ql pe ty (metric_target metric)
        \<lparr>qa_pod = pod, qa_collection_period = collection_period, qa_reporting_period = reporting_period,
         qa_sub_object_instance_id = ql_sub, qa_namespace = get_namespace inst\<rparr>)) (\<lambda>expr.
       make_rule env ty i obj sub metric expr collection_period)"

fun collectS :: "('a \<Rightarrow> ('s, 'e, 'b list) sem) \<Rightarrow> 'a list \<Rightarrow> ('s, 'e, 'b list) sem" where
  "collectS f [] = retS []"
| "collectS f (x # xs) = bindS (f x) (\<lambda>y. bindS (collectS f xs) (\<lambda>ys. retS (y @ ys)))"

definition oneS :: "('s, 'e, 'b) sem \<Rightarrow> ('s, 'e, 'b list) sem" where
  "oneS m = bindS m (\<lambda>x. retS [x])"

definition inst_of :: "(string, vnf_instance) dict \<Rightarrow> string \<Rightarrow> vnf_instance pyres" where
  "inst_of inst_map i = (case map_of inst_map i of None \<Rightarrow> Inl (key_error i) | Some inst \<Rightarrow> Inr inst)"

definition sub_rules :: "env \<Rightarrow> 'n pm_env \<Rightarrow> string \<Rightarrow> string \<Rightarrow> string \<Rightarrow> string \<Rightarrow> string list \<Rightarrow> string \<Rightarrow> vnf_instance \<Rightarrow> int \<Rightarrow> int \<Rightarrow>
    ('n, prom_rule list) pm" where
  "sub_rules env pe ty i object_type obj sub_objs metric inst cp rp =
     (if object_type = ''Vnf'' \<or> object_type = ''Vnfc''
      then collectS (\<lambda>sub_obj. case get_compute_resource_by_sub_obj inst sub_obj of
              None \<Rightarrow> retS []
            | Some h \<Rightarrow> oneS (rule_for env pe ty i obj (Some sub_obj) metric (Some (rh_resourceId h)) ''*'' inst cp rp)) sub_objs
      else case get_pod_regexp inst of
          None \<Rightarrow> retS []
        | Some re \<Rightarrow> collectS (\<lambda>sub_obj. oneS (rule_for env pe ty i obj (Some sub_obj) metric (Some re) sub_obj inst cp rp)) sub_objs)"

definition job_rules_for_each_obj :: "env \<Rightarrow> 'n pm_env \<Rightarrow> pm_job \<Rightarrow> (string, vnf_instance) dict \<Rightarrow> string \<Rightarrow> ('n, prom_rule list) pm" where
  "job_rules_for_each_obj env pe j inst_map metric =
     collectS (\<lambda>obj. bindS (liftS (inst_of inst_map obj)) (\<lambda>inst. case get_pod_regexp inst of
          None \<Rightarrow> retS []
        | Some re \<Rightarrow> oneS (rule_for env pe ''PMJob'' (pj_id j) obj None metric (Some re) ''*'' inst
            (cr_collectionPeriod (pj_criteria j)) (cr_reportingPeriod (pj_criteria j))))) (pj_objectInstanceIds j)"

definition job_rules_for_each_sub_obj :: "env \<Rightarrow> 'n pm_env \<Rightarrow> pm_job \<Rightarrow> (string, vnf_instance) dict \<Rightarrow> string \<Rightarrow> ('n, prom_rule list) pm" where
  "job_rules_for_each_sub_obj env pe j inst_map metric = (case pj_objectInstanceIds j of
      [] \<Rightarrow> raiseS (PyExc IndexError ''list index out of range'')
    | obj # _ \<Rightarrow> bindS (liftS (inst_of inst_map obj)) (\<lambda>inst.
        if opt_list (get_vnfc_resource_info inst) = [] then retS []
        else sub_rules env pe ''PMJob'' (pj_id j) (pj_objectType j) obj (opt_list (pj_subObjectInstanceIds j)) metric inst
          (cr_collectionPeriod (pj_criteria j)) (cr_reportingPeriod (pj_criteria j))))"

definition threshold_rules_for_each_obj :: "env \<Rightarrow> 'n pm_env \<Rightarrow> 'n threshold \<Rightarrow> vnf_instance \<Rightarrow> string \<Rightarrow> ('n, prom_rule list) pm" where
  "threshold_rules_for_each_obj env pe t inst metric =
     oneS (rule_for env pe ''Threshold'' (th_id t) (th_objectInstanceId t) None metric (get_pod_regexp inst) ''*'' inst
       (pe_collection_period_threshold pe) (pe_reporting_period_threshold pe))"

definition threshold_rules_for_each_sub_obj :: "env \<Rightarrow> 'n pm_env \<Rightarrow> 'n threshold \<Rightarrow> vnf_instance \<Rightarrow> string \<Rightarrow> ('n, prom_rule list) pm" where
  "threshold_rules_for_each_sub_obj env pe t inst metric =
     sub_rules env pe ''Threshold'' (th_id t) (th_objectType t) (th_objectInstanceId t) (opt_list (th_subObjectInstanceIds t))
       metric inst (pe_collection_period_threshold pe) (pe_reporting_period_threshold pe)"

end
