(* ===== verification/Perf_Mgmt.thy ===== *)
theory Perf_Mgmt
  imports Perf_Rules Lcm_Auto
begin

section \<open>Performance management: API, driver and alerts\<close>

text \<open>
  The rest of \<^verbatim>\<open>PrometheusPluginPmBase\<close>, \<^verbatim>\<open>PrometheusPluginPm\<close> and \<^verbatim>\<open>PrometheusPluginThreshold\<close> (the rule files on
  the servers, the alerts that come back), the handlers of \<^verbatim>\<open>controller/vnfpm_v2.py\<close> that change state,
  and the driver of the conductor (\<^verbatim>\<open>conductor/vnfpm_driver_v2.py\<close>). An exception that paramiko or
  keystoneauth raises is \<open>SSHException\<close> or \<open>ClientException\<close>; a failure of a file operation on the
  server, such as removing a file that is not there, is \<open>OSError\<close>, as paramiko documents it.
\<close>

subsection \<open>Rule files\<close>

definition unhashable :: "json \<Rightarrow> bool" where
  "unhashable j = (case j of JArr _ \<Rightarrow> True | JObj _ \<Rightarrow> True | _ \<Rightarrow> False)"

definition set_list :: "json list \<Rightarrow> json list pyres" where
  "set_list xs = (case filter unhashable xs of [] \<Rightarrow> Inr (remdups xs)
     | x # _ \<Rightarrow> Inl (PyExc TypeError (''unhashable type: '' @ quoted (py_type_name x))))"

definition access_target :: "json \<Rightarrow> (prom_target \<times> json) list pyres" where
  "access_target info =
     bindE (jget info ''prometheusHost'' (JStr [])) (\<lambda>host.
     bindE (jget info ''prometheusHostPort'' (JNum 22)) (\<lambda>port.
     bindE (jget info ''authInfo'' (JObj [])) (\<lambda>auth.
     bindE (jget auth ''ssh_username'' (JStr [])) (\<lambda>user.
     bindE (jget auth ''ssh_password'' (JStr [])) (\<lambda>password.
     bindE (jget info ''alertRuleConfigPath'' (JStr [])) (\<lambda>path.
     bindE (jget info ''prometheusReloadApiEndpoint'' (JStr [])) (\<lambda>uri.
       Inr (if py_truthy host \<and> py_truthy user \<and> py_truthy path \<and> py_truthy uri
            then [(\<lparr>pt_host = host, pt_port = port, pt_user = user, pt_password = password, pt_path = path\<rparr>, uri)]
            else []))))))))"

definition get_access_info :: "jdict option \<Rightarrow> (prom_target list \<times> json list) pyres" where
  "get_access_info metadata = (case map_of (opt_list metadata) ''monitoring'' of
      None \<Rightarrow> Inl (PrometheusPluginError ''monitoring info is missing at metadata field.'')
    | Some access_info \<Rightarrow>
        bindE (jget access_info ''monitorName'' JNull) (\<lambda>name.
        bindE (if name \<noteq> JStr ''prometheus'' then Inr True
               else bindE (jget access_info ''driverType'' JNull) (\<lambda>ty. Inr (ty \<noteq> JStr ''external''))) (\<lambda>missing.
        if missing then Inl (PrometheusPluginError ''prometheus info is missing at metadata field.'')
        else bindE (jget access_info ''targetsInfo'' (JArr [])) (\<lambda>infos.
          bindE (jlist infos) (\<lambda>is.
          bindE (concatE access_target is) (\<lambda>ts.
          bindE (set_list (map snd ts)) (\<lambda>reload_list. Inr (map fst ts, reload_list))))))))"

definition rule_file :: "prom_target \<Rightarrow> string \<Rightarrow> rule_file" where
  "rule_file t i = (pt_host t, pt_path t, i)"

definition upload_rule :: "'n pm_env \<Rightarrow> prom_rule list \<Rightarrow> string \<Rightarrow> prom_target \<Rightarrow> ('n, unit) pm" where
  "upload_rule pe rules i t =
     bindS (liftS (pe_put pe t rules i)) (\<lambda>_.
     bindS (modS (\<lambda>s. s\<lparr>pd_files := List.insert (rule_file t i) (pd_files s)\<rparr>)) (\<lambda>_.
       liftS (pe_verify pe t i)))"

definition delete_rule :: "'n pm_env \<Rightarrow> string \<Rightarrow> prom_target \<Rightarrow> ('n, unit) pm" where
  "delete_rule pe i t =
     bindS (\<lambda>s. (pe_remove pe t i (rule_file t i \<in> set (pd_files s)), s)) (\<lambda>_.
       modS (\<lambda>s. s\<lparr>pd_files := removeAll (rule_file t i) (pd_files s)\<rparr>))"

text \<open>The exceptions that the except clauses around ssh and reload name.\<close>

fun caught :: "exn \<Rightarrow> bool" where
  "caught (PrometheusPluginError m) = True"
| "caught (PyExc SSHException m) = True"
| "caught (PyExc ClientException m) = True"
| "caught e = False"

definition ignoring :: "('s, exn, unit) sem \<Rightarrow> ('s, exn, unit) sem" where
  "ignoring m = tryS m (\<lambda>e. if caught e then retS () else raiseS e)"

definition cleanup_error :: "'n pm_env \<Rightarrow> string \<Rightarrow> prom_target list \<Rightarrow> ('n, unit) pm" where
  "cleanup_error pe i = forS (\<lambda>t. ignoring (delete_rule pe i t))"

definition upload_rules :: "'n pm_env \<Rightarrow> prom_target list \<Rightarrow> json list \<Rightarrow> prom_rule list \<Rightarrow> string \<Rightarrow> ('n, unit) pm" where
  "upload_rules pe target_list reload_list rules i = tryS
     (bindS (forS (upload_rule pe rules i) target_list) (\<lambda>_. forS (\<lambda>uri. liftS (pe_reload pe uri)) reload_list))
     (\<lambda>e. bindS (cleanup_error pe i target_list) (\<lambda>_. raiseS e))"

definition make_rules :: "'n pm_env \<Rightarrow> string \<Rightarrow> jdict option \<Rightarrow> string list pyres \<Rightarrow> ('n, 'i) pm \<Rightarrow>
    ('i \<Rightarrow> string \<Rightarrow> ('n, prom_rule list) pm) \<Rightarrow> ('n, prom_rule list) pm" where
  "make_rules pe i metadata metrics insts each =
     bindS (liftS (get_access_info metadata)) (\<lambda>(target_list, reload_list).
     bindS (liftS metrics) (\<lambda>ms.
     bindS insts (\<lambda>inst_map.
     bindS (collectS (each inst_map) ms) (\<lambda>rules.
     if rules = [] then raiseS (PrometheusPluginError
        (''Converting from a PM job/threshold to alert rules is failed. PM job/threshold id: '' @ i))
     else bindS (upload_rules pe target_list reload_list rules i) (\<lambda>_. retS rules)))))"

definition delete_rules :: "'n pm_env \<Rightarrow> string \<Rightarrow> jdict option \<Rightarrow> ('n, unit) pm" where
  "delete_rules pe i metadata =
     bindS (liftS (get_access_info metadata)) (\<lambda>(target_list, reload_list).
     bindS (forS (\<lambda>t. ignoring (delete_rule pe i t)) target_list) (\<lambda>_.
       forS (\<lambda>uri. ignoring (liftS (pe_reload pe uri))) reload_list))"

definition job_instances :: "pm_job \<Rightarrow> ('n, (string, vnf_instance) dict) pm" where
  "job_instances j = collectS (\<lambda>i. bindS (pm_get_inst i) (\<lambda>inst. retS [(i, inst)])) (remdups (pj_objectInstanceIds j))"

definition job_rules :: "env \<Rightarrow> 'n pm_env \<Rightarrow> pm_job \<Rightarrow> (string, vnf_instance) dict \<Rightarrow> string \<Rightarrow> ('n, prom_rule list) pm" where
  "job_rules env pe j inst_map metric =
     (if opt_list (pj_subObjectInstanceIds j) \<noteq> [] then job_rules_for_each_sub_obj env pe j inst_map metric
      else job_rules_for_each_obj env pe j inst_map metric)"

definition create_job :: "env \<Rightarrow> 'n pm_env \<Rightarrow> pm_job \<Rightarrow> ('n, prom_rule list) pm" where
  "create_job env pe j = make_rules pe (pj_id j) (pj_metadata j)
     (decompose_metrics (pj_objectType j) (job_metrics_vnfc j) (job_metrics_cp j)) (job_instances j) (job_rules env pe j)"

definition threshold_items :: "'n threshold \<Rightarrow> jdict option" where
  "threshold_items t = map_option mm_items (th_metadata t)"

definition threshold_rules :: "env \<Rightarrow> 'n pm_env \<Rightarrow> 'n threshold \<Rightarrow> vnf_instance \<Rightarrow> string \<Rightarrow> ('n, prom_rule list) pm" where
  "threshold_rules env pe t inst metric =
     (if opt_list (th_subObjectInstanceIds t) \<noteq> [] then threshold_rules_for_each_sub_obj env pe t inst metric
      else threshold_rules_for_each_obj env pe t inst metric)"

definition create_threshold_rules :: "env \<Rightarrow> 'n pm_env \<Rightarrow> 'n threshold \<Rightarrow> ('n, prom_rule list) pm" where
  "create_threshold_rules env pe t = make_rules pe (th_id t) (threshold_items t)
     (decompose_metrics (th_objectType t) (threshold_metrics_vnfc t) (threshold_metrics_cp t))
     (pm_get_inst (th_objectInstanceId t)) (threshold_rules env pe t)"

subsection \<open>The API: PM jobs\<close>

record pm_job_request =
  jq_objectType :: string
  jq_objectInstanceIds :: "string list"
  jq_subObjectInstanceIds :: "string list option"
  jq_performanceMetric :: "string list option"
  jq_performanceMetricGroup :: "string list option"
  jq_collectionPeriod :: int
  jq_reportingPeriod :: int
  jq_reportingBoundary :: "string option"
  jq_callbackUri :: string
  jq_authentication :: "json option"
  jq_metadata :: "jdict option"

definition OBJ_TYPE_TO_GROUP_TYPE :: "(string \<times> string) list" where
  "OBJ_TYPE_TO_GROUP_TYPE = [(''Vnf'', ''VirtualisedComputeResource''), (''Vnfc'', ''VirtualisedComputeResource''),
     (''VnfIntCp'', ''VnfInternalCp''), (''VnfExtCp'', ''VnfExternalCp'')]"

definition OBJ_TYPE_TO_METRIC_LIST :: "(string \<times> string list) list" where
  "OBJ_TYPE_TO_METRIC_LIST = [(''Vnf'', compute_metrics), (''Vnfc'', compute_metrics),
     (''VnfIntCp'', [''ByteIncomingVnfIntCp'', ''ByteOutgoingVnfIntCp'', ''PacketIncomingVnfIntCp'', ''PacketOutgoingVnfIntCp'']),
     (''VnfExtCp'', [''ByteIncomingVnfExtCp'', ''ByteOutgoingVnfExtCp'', ''PacketIncomingVnfExtCp'', ''PacketOutgoingVnfExtCp''])]"

definition metric_type :: "string \<Rightarrow> string" where
  "metric_type metric = takeWhile (\<lambda>c. c \<noteq> CHR ''.'') metric"

definition metrics_known :: "string \<Rightarrow> string list \<Rightarrow> bool pyres" where
  "metrics_known obj_type types =
     bindE (item obj_type (map_of OBJ_TYPE_TO_METRIC_LIST obj_type)) (\<lambda>known. Inr (set types \<subseteq> set known))"

definition check_performance_metric_or_group :: "string \<Rightarrow> string list \<Rightarrow> string list \<Rightarrow> unit pyres" where
  "check_performance_metric_or_group obj_type metric_group performance_metric =
     bindE (case metric_group of
         [] \<Rightarrow> Inr ()
       | [g] \<Rightarrow> bindE (item obj_type (map_of OBJ_TYPE_TO_GROUP_TYPE obj_type)) (\<lambda>group.
             if g \<noteq> group then Inl (Sol PMJobInvalidRequest) else Inr ())
       | _ \<Rightarrow> Inl (Sol PMJobInvalidRequest)) (\<lambda>_.
     if performance_metric = [] then Inr ()
     else bindE (metrics_known obj_type (map metric_type performance_metric)) (\<lambda>ok.
       if ok then Inr () else Inl (Sol PMJobInvalidRequest)))"

definition instantiated_inst :: "string \<Rightarrow> ('n, unit) pm" where
  "instantiated_inst inst_id = bindS (pm_get_inst inst_id) (\<lambda>inst.
     if in_instantiationState inst = NOT_INSTANTIATED then raiseS (Sol (VnfInstanceIsNotInstantiated inst_id)) else retS ())"

definition nonempty :: "'a list option \<Rightarrow> 'a list option" where
  "nonempty xs = (case xs of Some (y # ys) \<Rightarrow> Some (y # ys) | _ \<Rightarrow> None)"

definition given :: "json option \<Rightarrow> json option" where
  "given j = (case j of None \<Rightarrow> None | Some v \<Rightarrow> if py_truthy v then Some v else None)"

definition boundary_of :: "'n pm_env \<Rightarrow> string option \<Rightarrow> int option pyres" where
  "boundary_of pe b = (case nonempty b of None \<Rightarrow> Inr None
     | Some x \<Rightarrow> (case pe_parse_time pe x of
          Inl (PyExc ValueError m) \<Rightarrow> Inl (Sol (SolValidationError ''invalid date format.''))
        | Inl e \<Rightarrow> Inl e | Inr t \<Rightarrow> Inr (Some t)))"

definition pm_test_notification :: "'n pm_env \<Rightarrow> string \<Rightarrow> json option \<Rightarrow> unit pyres" where
  "pm_test_notification pe uri auth = (case pe_test_callback pe of None \<Rightarrow> Inr ()
     | Some get \<Rightarrow> (case get uri auth of Inl (Sol e) \<Rightarrow> Inl (Sol TestNotificationFailed) | r \<Rightarrow> r))"

definition setting_failed :: "('s, exn, 'a) sem \<Rightarrow> ('s, exn, unit) sem" where
  "setting_failed m = tryS (bindS m (\<lambda>_. retS ())) (\<lambda>e. case e of
     PrometheusPluginError x \<Rightarrow> raiseS (Sol PrometheusSettingFailed) | _ \<Rightarrow> raiseS e)"

definition job_of_request :: "string \<Rightarrow> pm_job_request \<Rightarrow> int option \<Rightarrow> pm_job" where
  "job_of_request i body boundary = \<lparr>pj_id = i, pj_objectType = jq_objectType body,
     pj_objectInstanceIds = jq_objectInstanceIds body, pj_subObjectInstanceIds = nonempty (jq_subObjectInstanceIds body),
     pj_criteria = \<lparr>cr_performanceMetric = nonempty (jq_performanceMetric body),
       cr_performanceMetricGroup = nonempty (jq_performanceMetricGroup body),
       cr_collectionPeriod = jq_collectionPeriod body, cr_reportingPeriod = jq_reportingPeriod body,
       cr_reportingBoundary = boundary\<rparr>,
     pj_callbackUri = jq_callbackUri body, pj_reports = [], pj_authentication = given (jq_authentication body),
     pj_metadata = nonempty (jq_metadata body)\<rparr>"

definition pm_job_create :: "env \<Rightarrow> 'n pm_env \<Rightarrow> pm_job_request \<Rightarrow> ('n, response) pm" where
  "pm_job_create env pe body =
     (let metric_group = opt_list (jq_performanceMetricGroup body);
          performance_metric = opt_list (jq_performanceMetric body) in
      if opt_list (jq_subObjectInstanceIds body) \<noteq> [] \<and> length (jq_objectInstanceIds body) > 1
      then raiseS (Sol PMJobInvalidRequest)
      else if metric_group = [] \<and> performance_metric = [] then raiseS (Sol PMJobInvalidRequest)
      else
      bindS (liftS (check_performance_metric_or_group (jq_objectType body) metric_group performance_metric)) (\<lambda>_.
      bindS (forS instantiated_inst (jq_objectInstanceIds body)) (\<lambda>_.
      bindS (liftS (boundary_of pe (jq_reportingBoundary body))) (\<lambda>boundary.
      bindS (pm_uuid env) (\<lambda>i.
      let j = job_of_request i body boundary in
      bindS (liftS (pm_test_notification pe (pj_callbackUri j) (pj_authentication j))) (\<lambda>_.
      bindS (whenS (pe_enabled pe) (setting_failed (create_job env pe j))) (\<lambda>_.
      bindS (\<lambda>s. if row_find pj_id (pd_jobs s) i = None then (Inr (), s\<lparr>pd_jobs := row_add j (pd_jobs s)\<rparr>)
          else (Inl (PyExc DBDuplicateEntry i), s)) (\<lambda>_.
        retS \<lparr>rs_status = 201, rs_location = Some (pm_job_href i (ev_endpoint env))\<rparr>))))))))"

record pm_modification =
  mq_callbackUri :: "string option"
  mq_authentication :: "json option"

definition new_uri :: "pm_modification \<Rightarrow> string \<Rightarrow> string" where
  "new_uri body old = (case nonempty (mq_callbackUri body) of None \<Rightarrow> old | Some uri \<Rightarrow> uri)"

definition new_auth :: "pm_modification \<Rightarrow> json option \<Rightarrow> json option" where
  "new_auth body old = (case given (mq_authentication body) of None \<Rightarrow> old | Some a \<Rightarrow> Some a)"

definition pm_job_update :: "env \<Rightarrow> 'n pm_env \<Rightarrow> string \<Rightarrow> pm_modification \<Rightarrow> ('n, response) pm" where
  "pm_job_update env pe i body = lock_resources env i
     (bindS (get_pm_job i) (\<lambda>j0.
      let j = j0\<lparr>pj_callbackUri := new_uri body (pj_callbackUri j0), pj_authentication := new_auth body (pj_authentication j0)\<rparr> in
      bindS (liftS (pm_test_notification pe (pj_callbackUri j) (pj_authentication j))) (\<lambda>_.
      bindS (modS (\<lambda>s. s\<lparr>pd_jobs := row_upd pj_id j (pd_jobs s)\<rparr>)) (\<lambda>_.
        retS \<lparr>rs_status = 200, rs_location = None\<rparr>))))"

definition pm_job_delete :: "env \<Rightarrow> 'n pm_env \<Rightarrow> string \<Rightarrow> ('n, response) pm" where
  "pm_job_delete env pe i = lock_resources env i
     (bindS (get_pm_job i) (\<lambda>j.
      bindS (whenS (pe_enabled pe) (delete_rules pe (pj_id j) (pj_metadata j))) (\<lambda>_.
      bindS (getS (\<lambda>s. pm_reports_of s (pj_id j))) (\<lambda>reports.
      bindS (forS (\<lambda>r. modS (\<lambda>s. s\<lparr>pd_reports := row_del pr_id (pr_id r) (pd_reports s)\<rparr>)) reports) (\<lambda>_.
      bindS (modS (\<lambda>s. s\<lparr>pd_jobs := row_del pj_id (pj_id j) (pd_jobs s)\<rparr>)) (\<lambda>_.
        retS \<lparr>rs_status = 204, rs_location = None\<rparr>))))))"

subsection \<open>The API: thresholds\<close>

record 'n threshold_request =
  hq_objectType :: string
  hq_objectInstanceId :: string
  hq_subObjectInstanceIds :: "string list option"
  hq_performanceMetric :: string
  hq_thresholdType :: string
  hq_simpleThresholdDetails :: "'n threshold_details option"
  hq_callbackUri :: string
  hq_authentication :: "json option"
  hq_metadata :: "'n threshold_metadata option"

definition check_metric_and_obj_type :: "string \<Rightarrow> string \<Rightarrow> unit pyres" where
  "check_metric_and_obj_type performance_metric obj_type =
     bindE (if obj_type = ''Vnf'' \<or> obj_type = ''Vnfc'' then metrics_known obj_type [performance_metric] else Inr False) (\<lambda>bare.
     if bare then Inl (Sol PMThresholdInvalidRequest)
     else if (obj_type = ''VnfIntCp'' \<or> obj_type = ''VnfExtCp'') \<and>
         length (filter (\<lambda>c. c = CHR ''.'') performance_metric) = 1 then Inl (Sol PMThresholdInvalidRequest)
     else bindE (metrics_known obj_type [metric_type performance_metric]) (\<lambda>ok.
       if ok then Inr () else Inl (Sol PMThresholdInvalidRequest)))"

definition empty_metadata :: "'n threshold_metadata option \<Rightarrow> bool" where
  "empty_metadata md = (case md of None \<Rightarrow> True | Some m \<Rightarrow> mm_items m = [] \<and> mm_thresholdState m = None)"

definition pm_threshold_create :: "env \<Rightarrow> 'n pm_env \<Rightarrow> 'n threshold_request \<Rightarrow> ('n, response) pm" where
  "pm_threshold_create env pe body =
     bindS (liftS (check_metric_and_obj_type (hq_performanceMetric body) (hq_objectType body))) (\<lambda>_.
     if hq_thresholdType body \<noteq> ''SIMPLE'' \<or> hq_simpleThresholdDetails body = None then raiseS (Sol PMThresholdInvalidRequest)
     else
     bindS (instantiated_inst (hq_objectInstanceId body)) (\<lambda>_.
     bindS (pm_uuid env) (\<lambda>i.
     if empty_metadata (hq_metadata body) then raiseS (Sol PMThresholdInvalidRequest)
     else
     let t = \<lparr>th_id = i, th_objectType = hq_objectType body, th_objectInstanceId = hq_objectInstanceId body,
          th_subObjectInstanceIds = nonempty (hq_subObjectInstanceIds body),
          th_criteria = \<lparr>tc_performanceMetric = hq_performanceMetric body, tc_thresholdType = hq_thresholdType body,
            tc_simpleThresholdDetails = hq_simpleThresholdDetails body\<rparr>,
          th_callbackUri = hq_callbackUri body, th_authentication = given (hq_authentication body), th_metadata = hq_metadata body\<rparr> in
     bindS (liftS (pm_test_notification pe (th_callbackUri t) (th_authentication t))) (\<lambda>_.
     bindS (whenS (pe_enabled pe) (setting_failed (create_threshold_rules env pe t))) (\<lambda>_.
     bindS (\<lambda>s. if row_find th_id (pd_thresholds s) i = None then (Inr (), s\<lparr>pd_thresholds := row_add t (pd_thresholds s)\<rparr>)
          else (Inl (PyExc DBDuplicateEntry i), s)) (\<lambda>_.
       retS \<lparr>rs_status = 201, rs_location = Some (pm_threshold_href i (ev_endpoint env))\<rparr>))))))"

definition pm_threshold_update :: "env \<Rightarrow> 'n pm_env \<Rightarrow> string \<Rightarrow> pm_modification \<Rightarrow> ('n, response) pm" where
  "pm_threshold_update env pe i body = lock_resources env i
     (bindS (get_pm_threshold i) (\<lambda>t0.
      let t = t0\<lparr>th_callbackUri := new_uri body (th_callbackUri t0)\<rparr> in
      bindS (liftS (pm_test_notification pe (th_callbackUri t) (th_authentication t))) (\<lambda>_.
      bindS (modS (\<lambda>s. s\<lparr>pd_thresholds := row_upd th_id (t\<lparr>th_authentication := new_auth body (th_authentication t)\<rparr>)
         (pd_thresholds s)\<rparr>)) (\<lambda>_.
        retS \<lparr>rs_status = 200, rs_location = None\<rparr>))))"

definition pm_threshold_delete :: "env \<Rightarrow> 'n pm_env \<Rightarrow> string \<Rightarrow> ('n, response) pm" where
  "pm_threshold_delete env pe i = lock_resources env i
     (bindS (get_pm_threshold i) (\<lambda>t.
      bindS (whenS (pe_enabled pe) (delete_rules pe (th_id t) (threshold_items t))) (\<lambda>_.
      bindS (modS (\<lambda>s. s\<lparr>pd_thresholds := row_del th_id (th_id t) (pd_thresholds s)\<rparr>)) (\<lambda>_.
        retS \<lparr>rs_status = 204, rs_location = None\<rparr>))))"

end
