(* ===== verification/Auto_Alert.thy ===== *)
theory Auto_Alert
  imports Fault_Mgmt
begin

section \<open>Alerts for automatic healing and scaling (sol\_refactored/common/prometheus\_plugin.py)\<close>

text \<open>
  \<^verbatim>\<open>PrometheusPluginAutoHealing\<close> and \<^verbatim>\<open>PrometheusPluginAutoScaling\<close>: what they cast to the conductor for a
  message of alerts. The instances are read from the database; the state is the list of casts. An
  exception ends the loop over the alerts, the casts made so far stay made, and the handler of the
  request swallows it.
\<close>

datatype prom_cast = EnqueueHeal string string | DequeueHeal string | TriggerScale string string string

type_synonym 'a alerting = "(prom_cast list, exn, 'a) sem"

definition cast_prom :: "prom_cast \<Rightarrow> unit alerting" where
  "cast_prom c = modS (\<lambda>cs. cs @ [c])"

definition firing_for :: "string \<Rightarrow> json \<Rightarrow> bool pyres" where
  "firing_for function_type alert =
     bindE (jitem alert ''status'') (\<lambda>st.
     if st \<noteq> JStr ''firing'' then Inr False
     else bindE (label alert ''receiver_type'') (\<lambda>receiver.
       if receiver \<noteq> ''tacker'' then Inr False
       else bindE (label alert ''function_type'') (\<lambda>ty. Inr (ty = function_type))))"

definition property_set :: "vnf_instance \<Rightarrow> string \<Rightarrow> bool" where
  "property_set inst name = (case in_vnfConfigurableProperties inst of None \<Rightarrow> False
     | Some ps \<Rightarrow> py_truthy (or_null (map_of ps name)))"

definition auto_heal_each :: "vnf_instance list \<Rightarrow> json \<Rightarrow> unit alerting" where
  "auto_heal_each insts alert =
     bindS (liftS (firing_for ''auto_heal'' alert)) (\<lambda>fires.
     if \<not> fires then retS ()
     else bindS (liftS (label alert ''vnf_instance_id'')) (\<lambda>vnf_instance_id.
     case row_find in_id insts vnf_instance_id of
       None \<Rightarrow> retS ()
     | Some inst \<Rightarrow>
         bindS (whenS (in_instantiationState inst \<noteq> INSTANTIATED) (cast_prom (DequeueHeal vnf_instance_id))) (\<lambda>_.
         if \<not> property_set inst ''isAutohealEnabled'' then retS ()
         else bindS (liftS (label alert ''vnfc_info_id'')) (\<lambda>vnfc_info_id.
           bindS (liftS (bindE (attr ''instantiatedVnfInfo'' (in_instantiatedVnfInfo inst)) (\<lambda>info.
              attr ''vnfcInfo'' (iv_vnfcInfo info)))) (\<lambda>vnfcs.
           whenS (\<exists>c \<in> set vnfcs. ci_id c = vnfc_info_id) (cast_prom (EnqueueHeal vnf_instance_id vnfc_info_id)))))))"

definition auto_scale_each :: "vnf_instance list \<Rightarrow> json \<Rightarrow> unit alerting" where
  "auto_scale_each insts alert =
     bindS (liftS (firing_for ''auto_scale'' alert)) (\<lambda>fires.
     if \<not> fires then retS ()
     else bindS (liftS (label alert ''vnf_instance_id'')) (\<lambda>vnf_instance_id.
     case row_find in_id insts vnf_instance_id of
       None \<Rightarrow> retS ()
     | Some inst \<Rightarrow>
         if in_instantiationState inst \<noteq> INSTANTIATED \<or> \<not> property_set inst ''isAutoscaleEnabled'' then retS ()
         else bindS (liftS (label alert ''aspect_id'')) (\<lambda>aspect_id.
           bindS (liftS (bindE (attr ''instantiatedVnfInfo'' (in_instantiatedVnfInfo inst)) (\<lambda>info.
              attr ''scaleStatus'' (iv_scaleStatus info)))) (\<lambda>levels.
           if \<not> (\<exists>l \<in> set levels. si_aspectId l = aspect_id) then retS ()
           else bindS (liftS (label alert ''auto_scale_type'')) (\<lambda>ty.
             cast_prom (TriggerScale vnf_instance_id ty aspect_id))))))"

definition auto_heal_alert :: "vnf_instance list \<Rightarrow> json list \<Rightarrow> unit alerting" where
  "auto_heal_alert insts alerts = tryS (forS (auto_heal_each insts) alerts) (\<lambda>_. retS ())"

definition auto_scale_alert :: "vnf_instance list \<Rightarrow> json list \<Rightarrow> unit alerting" where
  "auto_scale_alert insts alerts = tryS (forS (auto_scale_each insts) alerts) (\<lambda>_. retS ())"

text \<open>The request that the conductor makes of a cast to scale (theory Auto\_Timer has the heals).\<close>

definition scale_request :: "string \<Rightarrow> string \<Rightarrow> op_params" where
  "scale_request ty aspect_id = empty_params\<lparr>rq_type := Some ty, rq_aspectId := Some aspect_id\<rparr>"

subsection \<open>What a cast is based on\<close>

definition has_vnfc :: "vnf_instance \<Rightarrow> string \<Rightarrow> bool" where
  "has_vnfc inst c \<longleftrightarrow> (\<exists>info vnfcs. in_instantiatedVnfInfo inst = Some info \<and> iv_vnfcInfo info = Some vnfcs \<and>
     c \<in> ci_id ` set vnfcs)"

definition has_aspect :: "vnf_instance \<Rightarrow> string \<Rightarrow> bool" where
  "has_aspect inst a \<longleftrightarrow> (\<exists>info levels. in_instantiatedVnfInfo inst = Some info \<and> iv_scaleStatus info = Some levels \<and>
     a \<in> si_aspectId ` set levels)"

fun justified :: "vnf_instance list \<Rightarrow> json list \<Rightarrow> prom_cast \<Rightarrow> bool" where
  "justified insts alerts (EnqueueHeal v c) \<longleftrightarrow>
     (\<exists>inst. row_find in_id insts v = Some inst \<and> property_set inst ''isAutohealEnabled'' \<and> has_vnfc inst c) \<and>
     (\<exists>a \<in> set alerts. firing_for ''auto_heal'' a = Inr True \<and> label a ''vnf_instance_id'' = Inr v \<and>
        label a ''vnfc_info_id'' = Inr c)"
| "justified insts alerts (DequeueHeal v) \<longleftrightarrow>
     (\<exists>inst. row_find in_id insts v = Some inst \<and> in_instantiationState inst \<noteq> INSTANTIATED)"
| "justified insts alerts (TriggerScale v ty asp) \<longleftrightarrow>
     (\<exists>inst. row_find in_id insts v = Some inst \<and> in_instantiationState inst = INSTANTIATED \<and>
        property_set inst ''isAutoscaleEnabled'' \<and> has_aspect inst asp) \<and>
     (\<exists>a \<in> set alerts. firing_for ''auto_scale'' a = Inr True \<and> label a ''vnf_instance_id'' = Inr v \<and>
        label a ''aspect_id'' = Inr asp \<and> label a ''auto_scale_type'' = Inr ty)"

definition adds_justified :: "vnf_instance list \<Rightarrow> json list \<Rightarrow> prom_cast list \<Rightarrow> prom_cast list \<Rightarrow> bool" where
  "adds_justified insts alerts cs cs' \<longleftrightarrow> (\<exists>new. cs' = cs @ new \<and> list_all (justified insts alerts) new)"

lemma justified_rel: "reflp (adds_justified insts alerts)" "transp (adds_justified insts alerts)"
  by (auto simp: reflp_def transp_def adds_justified_def)

lemma adds_justified_more: "adds_justified insts [a] cs cs' \<Longrightarrow> a \<in> set alerts \<Longrightarrow> adds_justified insts alerts cs cs'"
proof -
  have "justified insts alerts c" if "justified insts [a] c" "a \<in> set alerts" for c
    using that by (cases c) auto
  then show "adds_justified insts [a] cs cs' \<Longrightarrow> a \<in> set alerts \<Longrightarrow> adds_justified insts alerts cs cs'"
    by (auto simp: adds_justified_def list_all_iff)
qed

lemma auto_heal_each_justified: "keepsS (adds_justified insts [a]) (auto_heal_each insts a)"
  unfolding keepsS_def auto_heal_each_def
  by (auto simp: bindS_def adds_justified_def cast_prom_def attr_def bindE_def has_vnfc_def
      split: sum.splits option.splits if_splits prod.splits)

lemma auto_scale_each_justified: "keepsS (adds_justified insts [a]) (auto_scale_each insts a)"
  unfolding keepsS_def auto_scale_each_def
  by (auto simp: bindS_def adds_justified_def cast_prom_def attr_def bindE_def has_aspect_def
      split: sum.splits option.splits if_splits prod.splits)

lemma auto_alert_adds:
  assumes "\<And>a. a \<in> set alerts \<Longrightarrow> keepsS (adds_justified insts [a]) (f a)"
  shows "adds_justified insts alerts cs (snd (tryS (forS f alerts) (\<lambda>_. retS ()) cs))"
proof -
  have "keepsS (adds_justified insts alerts) (f a)" if "a \<in> set alerts" for a
    using assms [OF that] that by (auto simp: keepsS_def intro: adds_justified_more)
  then have "keepsS (adds_justified insts alerts) (forS f alerts)"
    by (intro keepsS_forS justified_rel)
  then show ?thesis by (auto simp: tryS_def keepsS_def dest: spec [of _ cs] split: prod.split sum.split)
qed

lemma heal_alert_adds: "adds_justified insts alerts cs (snd (auto_heal_alert insts alerts cs))"
  unfolding auto_heal_alert_def by (intro auto_alert_adds auto_heal_each_justified)

lemma scale_alert_adds: "adds_justified insts alerts cs (snd (auto_scale_alert insts alerts cs))"
  unfolding auto_scale_alert_def by (intro auto_alert_adds auto_scale_each_justified)

subsection \<open>Properties\<close>


definition ex_heal_alert :: "string \<Rightarrow> json" where
  "ex_heal_alert v = JObj [(''status'', JStr ''firing''),
     (''labels'', JObj [(''receiver_type'', JStr ''tacker''), (''function_type'', JStr ''auto_heal''),
        (''vnf_instance_id'', JStr v), (''vnfc_info_id'', JStr ''c'')])]"

definition ex_healing :: "vnf_instance \<Rightarrow> vnf_instance" where
  "ex_healing inst = inst\<lparr>in_vnfConfigurableProperties := Some [(''isAutohealEnabled'', JBool True)]\<rparr>"

text \<open>An alert that is acted on, and the same alert lost behind one for an instance that was
  terminated: the heal of that instance is called off, but the loop goes on with it and raises.\<close>

lemma heal_alert_acted_on:
  "snd (auto_heal_alert [ex_healing ex_fm_inst] [ex_heal_alert ''inst''] []) = [EnqueueHeal ''inst'' ''c'']"
  by code_simp

lemma heal_alert_lost:
  "snd (auto_heal_alert [ex_healing ex_fm_inst, (ex_healing ex_fm_inst)\<lparr>in_id := ''gone'',
       in_instantiationState := NOT_INSTANTIATED, in_instantiatedVnfInfo := None\<rparr>]
     [ex_heal_alert ''gone'', ex_heal_alert ''inst''] []) = [DequeueHeal ''gone'']"
  by code_simp

end
