(* ===== verification/Perf_Alert.thy ===== *)
theory Perf_Alert
  imports Perf_Mgmt Auto_Alert
begin

section \<open>Performance management: alerts and what the conductor stores\<close>

text \<open>
  \<^verbatim>\<open>PrometheusPluginPm._alert\<close> and \<^verbatim>\<open>PrometheusPluginThreshold._alert\<close> turn the alerts of a message into reports and
  crossings, which are cast to the conductor when the whole message has been read; \<^verbatim>\<open>VnfPmDriverV2\<close> stores
  them and notifies. An exception that is not one of those that skip an alert ends the message, and
  nothing is cast.
\<close>

subsection \<open>Reports of PM jobs\<close>

definition max_time :: "int list \<Rightarrow> int pyres" where
  "max_time ts = (case ts of [] \<Rightarrow> Inl (PyExc ValueError ''max() arg is an empty sequence'')
     | t # ts' \<Rightarrow> Inr (fold max ts' t))"

definition get_datetime_of_latest_report ::
    "'n pm_db \<Rightarrow> pm_job \<Rightarrow> string \<Rightarrow> string option \<Rightarrow> string \<Rightarrow> int option pyres" where
  "get_datetime_of_latest_report s j object_instance_id sub_object_instance_id metric =
     (let entries = filter (\<lambda>e. re_objectInstanceId e = object_instance_id \<and>
            (re_subObjectInstanceId e = None \<or> re_subObjectInstanceId e = sub_object_instance_id) \<and>
            re_performanceMetric e = metric) (concat (map pr_entries (pm_reports_of s (pj_id j)))) in
      if entries = [] then Inr None
      else bindE (max_time (map pv_timeStamp (concat (map re_performanceValues entries)))) (\<lambda>t. Inr (Some t)))"

definition filter_alert_by_time ::
    "'n pm_env \<Rightarrow> 'n pm_db \<Rightarrow> pm_job \<Rightarrow> int \<Rightarrow> string \<Rightarrow> string option \<Rightarrow> string \<Rightarrow> unit pyres" where
  "filter_alert_by_time pe s j now object_instance_id sub_object_instance_id metric =
     (if (case cr_reportingBoundary (pj_criteria j) of None \<Rightarrow> False | Some b \<Rightarrow> now > b) then Inl PrometheusPluginSkipped
      else bindE (get_datetime_of_latest_report s j object_instance_id sub_object_instance_id metric) (\<lambda>report_date.
        if (case report_date of None \<Rightarrow> False
            | Some d \<Rightarrow> d + 1000000 * (cr_reportingPeriod (pj_criteria j) - pe_margin pe) \<ge> now)
        then Inl PrometheusPluginSkipped else Inr ()))"

definition sub_object_known :: "string option \<Rightarrow> string list option \<Rightarrow> bool" where
  "sub_object_known sub subs = (case nonempty sub of None \<Rightarrow> True | Some x \<Rightarrow> x \<in> set (opt_list subs))"

definition job_valid_alert :: "pm_job \<Rightarrow> string \<Rightarrow> string option \<Rightarrow> unit pyres" where
  "job_valid_alert j object_instance_id sub_object_instance_id =
     (if object_instance_id \<notin> set (pj_objectInstanceIds j) then Inl PrometheusPluginSkipped
      else if \<not> sub_object_known sub_object_instance_id (pj_subObjectInstanceIds j) then Inl PrometheusPluginSkipped
      else Inr ())"

definition opt_label :: "json \<Rightarrow> string \<Rightarrow> string option pyres" where
  "opt_label alert k = bindE (jitem alert ''labels'') (\<lambda>ls. bindE (jget ls k JNull) (\<lambda>v.
     if v = JNull then Inr None else bindE (as_str v) (\<lambda>x. Inr (Some x))))"

definition alert_value :: "json \<Rightarrow> json pyres" where
  "alert_value alert = bindE (jitem alert ''annotations'') (\<lambda>an. jitem an ''value'')"

definition job_entry :: "'n pm_env \<Rightarrow> 'n pm_db \<Rightarrow> int \<Rightarrow> json \<Rightarrow> (string \<times> 'n report_entry) pyres" where
  "job_entry pe s now alert =
     bindE (label alert ''job_id'') (\<lambda>pm_job_id.
     bindE (label alert ''object_instance_id'') (\<lambda>object_instance_id.
     bindE (label alert ''metric'') (\<lambda>metric.
     bindE (opt_label alert ''sub_object_instance_id'') (\<lambda>sub.
     bindE (alert_value alert) (\<lambda>v.
     bindE (fst (get_pm_job pm_job_id s)) (\<lambda>j.
     bindE (filter_alert_by_time pe s j now object_instance_id sub metric) (\<lambda>_.
     bindE (job_valid_alert j object_instance_id sub) (\<lambda>_.
     bindE (convert_measurement_unit pe metric v) (\<lambda>n.
       Inr (pm_job_id, \<lparr>re_objectType = pj_objectType j, re_objectInstanceId = object_instance_id,
         re_subObjectInstanceId = sub, re_performanceMetric = metric,
         re_performanceValues = [\<lparr>pv_timeStamp = now, pv_value = n\<rparr>]\<rparr>))))))))))"

fun collect_entries :: "'n pm_env \<Rightarrow> 'n pm_db \<Rightarrow> int \<Rightarrow> json list \<Rightarrow> (string, 'n report_entry list) dict \<Rightarrow>
    (string, 'n report_entry list) dict pyres" where
  "collect_entries pe s now [] result = Inr result"
| "collect_entries pe s now (alert # alerts) result =
     bindE (label alert ''function_type'') (\<lambda>ty.
     if ty \<noteq> ''vnfpm'' then collect_entries pe s now alerts result
     else case job_entry pe s now alert of
         Inl PrometheusPluginSkipped \<Rightarrow> collect_entries pe s now alerts result
       | Inl e \<Rightarrow> Inl e
       | Inr (i, entry) \<Rightarrow> collect_entries pe s now alerts
           (dict_set i (opt_list (map_of result i) @ [entry]) result))"

fun make_reports :: "env \<Rightarrow> (string, 'n report_entry list) dict \<Rightarrow> ('n, 'n pm_report list) pm" where
  "make_reports env [] = retS []"
| "make_reports env ((job, entries) # rs) = bindS (pm_uuid env) (\<lambda>i. bindS (make_reports env rs) (\<lambda>reports.
     retS (\<lparr>pr_id = i, pr_jobId = job, pr_entries = entries\<rparr> # reports)))"

definition cast_pm :: "'n pm_cast \<Rightarrow> ('n, unit) pm" where
  "cast_pm c = modS (\<lambda>s. s\<lparr>pd_casts := pd_casts s @ [c]\<rparr>)"

definition job_alert :: "env \<Rightarrow> 'n pm_env \<Rightarrow> json list \<Rightarrow> ('n, unit) pm" where
  "job_alert env pe alerts = tryS
     (bindS (pm_now env) (\<lambda>now.
      bindS (\<lambda>s. (collect_entries pe s now alerts [], s)) (\<lambda>result.
      if result = [] then retS ()
      else bindS (make_reports env result) (\<lambda>reports. cast_pm (StoreJobInfo reports)))))
     (\<lambda>_. retS ())"

definition send_pm_job_notification :: "env \<Rightarrow> 'n pm_report \<Rightarrow> pm_job \<Rightarrow> int \<Rightarrow> ('n, unit) pm" where
  "send_pm_job_notification env report j timestamp =
     forS (\<lambda>instance_id.
       let subs = List.map_filter re_subObjectInstanceId
            (filter (\<lambda>e. re_objectInstanceId e = instance_id) (pr_entries report)) in
       bindS (make_pm_notif_data env instance_id subs (pr_id report) j timestamp) (\<lambda>n.
         pm_send (pj_callbackUri j) (ReportAvailable n)))
     (remdups (map re_objectInstanceId (pr_entries report)))"

definition store_report :: "'n pm_report \<Rightarrow> ('n, unit) pm" where
  "store_report r s = (if row_find pr_id (pd_reports s) (pr_id r) = None
     then (Inr (), s\<lparr>pd_reports := row_add r (pd_reports s)\<rparr>) else (Inl (PyExc DBDuplicateEntry (pr_id r)), s))"

definition report_time :: "'n pm_report \<Rightarrow> int pyres" where
  "report_time r = (case pr_entries r of
      [] \<Rightarrow> Inl (PyExc IndexError ''list index out of range'')
    | e # _ \<Rightarrow> (case re_performanceValues e of
         [] \<Rightarrow> Inl (PyExc IndexError ''list index out of range'') | v # _ \<Rightarrow> Inr (pv_timeStamp v)))"

definition update_job_reports :: "env \<Rightarrow> 'n pm_report \<Rightarrow> int \<Rightarrow> ('n, pm_job) pm" where
  "update_job_reports env r timestamp =
     bindS (update_report (pr_jobId r) r timestamp (ev_endpoint env)) (\<lambda>j.
     bindS (modS (\<lambda>s. s\<lparr>pd_jobs := row_upd pj_id j (pd_jobs s)\<rparr>)) (\<lambda>_. retS j))"

definition store_job_info_each :: "env \<Rightarrow> 'n pm_report \<Rightarrow> ('n, unit) pm" where
  "store_job_info_each env r =
     bindS (store_report r) (\<lambda>_.
     bindS (liftS (report_time r)) (\<lambda>timestamp.
     bindS (update_job_reports env r timestamp) (\<lambda>j.
       send_pm_job_notification env r j timestamp)))"

definition store_job_info :: "env \<Rightarrow> 'n pm_report list \<Rightarrow> ('n, unit) pm" where
  "store_job_info env = forS (store_job_info_each env)"

subsection \<open>Thresholds\<close>

definition threshold_valid_alert :: "'n threshold \<Rightarrow> string \<Rightarrow> string \<Rightarrow> string option \<Rightarrow> unit pyres" where
  "threshold_valid_alert t metric object_instance_id sub_object_instance_id =
     (if nonempty (Some (th_objectInstanceId t)) \<noteq> Some object_instance_id then Inl PrometheusPluginSkipped
      else if \<not> sub_object_known sub_object_instance_id (th_subObjectInstanceIds t) then Inl PrometheusPluginSkipped
      else if metric \<noteq> tc_performanceMetric (th_criteria t) then Inl PrometheusPluginSkipped
      else Inr ())"

definition set_threshold_last_value :: "'n pm_env \<Rightarrow> 'n \<Rightarrow> 'n threshold_state option \<Rightarrow> 'n::zero" where
  "set_threshold_last_value pe threshold_value st =
     pe_float pe (case st of None \<Rightarrow> threshold_value
       | Some x \<Rightarrow> (case st_performanceValue x of None \<Rightarrow> threshold_value
          | Some v \<Rightarrow> if v = 0 then threshold_value else v))"

definition set_crossing_direction :: "('n :: {linorder, plus, minus}) \<Rightarrow> 'n \<Rightarrow> 'n \<Rightarrow> 'n \<Rightarrow> string" where
  "set_crossing_direction new last_value threshold_value hysteresis =
     (if new < threshold_value - hysteresis \<and> threshold_value - hysteresis \<le> last_value then ''DOWN''
      else if new > threshold_value + hysteresis \<and> threshold_value + hysteresis \<ge> last_value then ''UP''
      else ''IN'')"

definition threshold_crossing :: "'n pm_env \<Rightarrow> 'n pm_db \<Rightarrow> json \<Rightarrow> ('n :: {linorder, plus, minus, zero}) crossing list pyres" where
  "threshold_crossing pe s alert =
     bindE (label alert ''threshold_id'') (\<lambda>threshold_id.
     bindE (label alert ''object_instance_id'') (\<lambda>object_instance_id.
     bindE (label alert ''metric'') (\<lambda>metric.
     bindE (opt_label alert ''sub_object_instance_id'') (\<lambda>sub.
     bindE (alert_value alert) (\<lambda>v.
     bindE (fst (get_pm_threshold threshold_id s)) (\<lambda>t.
     bindE (attr ''simpleThresholdDetails'' (tc_simpleThresholdDetails (th_criteria t))) (\<lambda>details.
     bindE (threshold_valid_alert t metric object_instance_id sub) (\<lambda>_.
     if tc_thresholdType (th_criteria t) \<noteq> ''SIMPLE'' then Inr []
     else bindE (convert_measurement_unit pe metric v) (\<lambda>new.
       Inr [\<lparr>cs_thresholdId = th_id t, cs_subObjectInstanceId = sub, cs_performanceValue = new, cs_metrics = metric,
         cs_crossingDirection = set_crossing_direction new
           (set_threshold_last_value pe (td_thresholdValue details) (get_pm_threshold_state t sub))
           (td_thresholdValue details) (td_hysteresis details)\<rparr>])))))))))"

definition threshold_skip :: "exn \<Rightarrow> bool" where
  "threshold_skip e = (case e of PrometheusPluginSkipped \<Rightarrow> True | Sol (PMThresholdNotExist i) \<Rightarrow> True | _ \<Rightarrow> False)"

fun collect_crossings :: "'n pm_env \<Rightarrow> 'n pm_db \<Rightarrow> json list \<Rightarrow> ('n :: {linorder, plus, minus, zero}) crossing list pyres" where
  "collect_crossings pe s [] = Inr []"
| "collect_crossings pe s (alert # alerts) =
     bindE (firing_for ''vnfpm_threshold'' alert) (\<lambda>fires.
     if \<not> fires then collect_crossings pe s alerts
     else case threshold_crossing pe s alert of
         Inl e \<Rightarrow> if threshold_skip e then collect_crossings pe s alerts else Inl e
       | Inr cs \<Rightarrow> bindE (collect_crossings pe s alerts) (\<lambda>cs'. Inr (cs @ cs')))"

definition threshold_alert :: "'n pm_env \<Rightarrow> json list \<Rightarrow> ('n :: {linorder, plus, minus, zero}, unit) pm" where
  "threshold_alert pe alerts = tryS
     (bindS (\<lambda>s. (collect_crossings pe s alerts, s)) (\<lambda>cs.
      if cs = [] then retS () else cast_pm (StoreThresholdStateInfo cs))) (\<lambda>_. retS ())"

definition store_threshold_info_each :: "env \<Rightarrow> 'n crossing \<Rightarrow> ('n, unit) pm" where
  "store_threshold_info_each env c =
     bindS (update_threshold_state_data env (cs_thresholdId c) (state_of c)) (\<lambda>_.
     bindS (pm_now env) (\<lambda>now.
     bindS (get_pm_threshold (cs_thresholdId c)) (\<lambda>t.
     if cs_crossingDirection c = ''UP'' \<or> cs_crossingDirection c = ''DOWN''
     then bindS (make_threshold_notif_data env now c t) (\<lambda>n. pm_send (th_callbackUri t) (ThresholdCrossed n))
     else retS ())))"

definition store_threshold_info :: "env \<Rightarrow> 'n crossing list \<Rightarrow> ('n, unit) pm" where
  "store_threshold_info env = forS (store_threshold_info_each env)"

end
