(* ===== verification/Perf_Props.thy ===== *)
theory Perf_Props
  imports Perf_Alert
begin

section \<open>Performance management: properties\<close>

text \<open>
  Thresholds: a message with one alert, stored before the next one comes (\<open>measure\<close>), sends the
  notification of the zone that the value enters. Rules: the alerts that the rules of a job or
  threshold produce are those that the plugin accepts. Reports: in every history the links of a job are
  those of its stored reports.
\<close>

subsection \<open>Thresholds\<close>

definition run_cast :: "env \<Rightarrow> 'n pm_cast \<Rightarrow> ('n, unit) pm" where
  "run_cast env c = (case c of StoreJobInfo rs \<Rightarrow> store_job_info env rs | StoreThresholdStateInfo cs \<Rightarrow> store_threshold_info env cs)"

definition pm_deliver :: "env \<Rightarrow> 'n pm_db \<Rightarrow> 'n pm_db" where
  "pm_deliver env s = fold (\<lambda>c t. snd (run_cast env c t)) (pd_casts s) (s\<lparr>pd_casts := []\<rparr>)"

definition measure_alert :: "env \<Rightarrow> 'n pm_env \<Rightarrow> json \<Rightarrow> ('n :: {linorder, plus, minus, zero}) pm_db \<Rightarrow> 'n pm_db" where
  "measure_alert env pe alert s = pm_deliver env (snd (threshold_alert pe [alert] s))"

text \<open>The specification: the band around the threshold, and the zones a value can be in.\<close>

datatype zone = Below | Inside | Above

definition zone_of :: "('n :: {linorder, plus, minus}) threshold_details \<Rightarrow> 'n \<Rightarrow> zone" where
  "zone_of d v = (if v < td_thresholdValue d - td_hysteresis d then Below
     else if v > td_thresholdValue d + td_hysteresis d then Above else Inside)"

fun entered :: "('n :: {linorder, plus, minus}) threshold_details \<Rightarrow> zone \<Rightarrow> 'n list \<Rightarrow> (string \<times> 'n) list" where
  "entered d z [] = []"
| "entered d z (v # vs) =
     (if zone_of d v = z then [] else case zone_of d v of Below \<Rightarrow> [(''DOWN'', v)] | Above \<Rightarrow> [(''UP'', v)] | Inside \<Rightarrow> []) @
     entered d (zone_of d v) vs"

definition band :: "('n :: {linorder, plus, minus}) threshold_details \<Rightarrow> bool" where
  "band d \<longleftrightarrow> td_thresholdValue d - td_hysteresis d \<le> td_thresholdValue d \<and>
     td_thresholdValue d \<le> td_thresholdValue d + td_hysteresis d"

lemma crossing_zone:
  assumes "band d"
  shows "set_crossing_direction v w (td_thresholdValue d) (td_hysteresis d) =
    (if zone_of d v = zone_of d w then ''IN'' else case zone_of d v of Below \<Rightarrow> ''DOWN'' | Above \<Rightarrow> ''UP'' | Inside \<Rightarrow> ''IN'')"
  using assms unfolding set_crossing_direction_def zone_of_def band_def by (auto simp: not_less not_le)

lemma zone_threshold: "band d \<Longrightarrow> zone_of d (td_thresholdValue d) = Inside"
  by (simp add: zone_of_def band_def not_less)

text \<open>An alert that measures a value of a threshold, as its rule makes it.\<close>

definition measures :: "'n pm_env \<Rightarrow> 'n threshold \<Rightarrow> string option \<Rightarrow> json \<Rightarrow> 'n \<Rightarrow> bool" where
  "measures pe t sub alert v \<longleftrightarrow> firing_for ''vnfpm_threshold'' alert = Inr True \<and>
     label alert ''threshold_id'' = Inr (th_id t) \<and> label alert ''object_instance_id'' = Inr (th_objectInstanceId t) \<and>
     label alert ''metric'' = Inr (tc_performanceMetric (th_criteria t)) \<and> opt_label alert ''sub_object_instance_id'' = Inr sub \<and>
     bindE (alert_value alert) (convert_measurement_unit pe (tc_performanceMetric (th_criteria t))) = Inr v"

text \<open>What an update of the state keeps of a threshold, and the last value it remembers.\<close>

definition same_threshold :: "'n threshold \<Rightarrow> 'n threshold \<Rightarrow> bool" where
  "same_threshold t t' \<longleftrightarrow> t' = t\<lparr>th_metadata := th_metadata t'\<rparr>"

definition remembers :: "'n threshold \<Rightarrow> string option \<Rightarrow> 'n option \<Rightarrow> bool" where
  "remembers t sub w \<longleftrightarrow> (case w of None \<Rightarrow> get_pm_threshold_state t sub = None
     | Some x \<Rightarrow> (\<exists>st. get_pm_threshold_state t sub = Some st \<and> st_performanceValue st = Some x \<and>
         st_metrics st = Some (tc_performanceMetric (th_criteria t))))"

definition usable :: "('n :: zero) pm_env \<Rightarrow> 'n \<Rightarrow> bool" where
  "usable pe v \<longleftrightarrow> v \<noteq> 0 \<and> pe_float pe v = v"

lemma put_state_find:
  assumes "find (\<lambda>st. st_subObjectInstanceId st = st_subObjectInstanceId d) sts = x"
    and "x = None \<or> (\<exists>st. x = Some st \<and> st_metrics st = st_metrics d)"
  shows "find (\<lambda>st. st_subObjectInstanceId st = st_subObjectInstanceId d) (put_state d sts) = Some d"
  using assms by (induction sts) (auto split: if_splits)

lemma with_state_remembers:
  assumes "remembers t (cs_subObjectInstanceId c) w" and "cs_metrics c = tc_performanceMetric (th_criteria t)"
  shows "remembers (t\<lparr>th_metadata := Some (with_state (state_of c) (th_metadata t))\<rparr>) (cs_subObjectInstanceId c)
    (Some (cs_performanceValue c))"
proof -
  let ?d = "state_of c" and ?P = "\<lambda>st. st_subObjectInstanceId st = cs_subObjectInstanceId c"
  have "find ?P (put_state ?d sts) = Some ?d"
    if "th_metadata t = Some m" "mm_thresholdState m = Some sts" for m sts
    using put_state_find [of ?d sts] assms that
    by (auto simp: remembers_def get_pm_threshold_state_def state_of_def split: option.splits)
  then show ?thesis using assms(2)
    by (auto simp: remembers_def get_pm_threshold_state_def with_state_def state_of_def split: option.splits)
qed

lemma threshold_alert_run:
  assumes row: "row_find th_id (pd_thresholds s) (th_id t) = Some t" and d: "tc_simpleThresholdDetails (th_criteria t) = Some d"
    and ty: "tc_thresholdType (th_criteria t) = ''SIMPLE''" and m: "measures pe t sub alert v"
    and ok: "threshold_valid_alert t (tc_performanceMetric (th_criteria t)) (th_objectInstanceId t) sub = Inr ()"
  shows "snd (threshold_alert pe [alert] s) = s\<lparr>pd_casts := pd_casts s @ [StoreThresholdStateInfo
     [\<lparr>cs_thresholdId = th_id t, cs_subObjectInstanceId = sub, cs_performanceValue = v,
       cs_metrics = tc_performanceMetric (th_criteria t), cs_crossingDirection = set_crossing_direction v
         (set_threshold_last_value pe (td_thresholdValue d) (get_pm_threshold_state t sub)) (td_thresholdValue d) (td_hysteresis d)\<rparr>]]\<rparr>"
proof -
  obtain j where "alert_value alert = Inr j" "convert_measurement_unit pe (tc_performanceMetric (th_criteria t)) j = Inr v"
    using m by (auto simp: measures_def bindE_eq_Inr)
  then show ?thesis using assms
    by (simp add: threshold_alert_def tryS_def bindS_def threshold_crossing_def measures_def get_pm_threshold_def attr_def cast_pm_def)
qed

definition notified :: "'n threshold \<Rightarrow> string option \<Rightarrow> (string \<times> 'n) \<Rightarrow> (string \<times> 'n pm_notif) \<Rightarrow> bool" where
  "notified t sub dv n \<longleftrightarrow> (\<exists>x. n = (th_callbackUri t, ThresholdCrossed x) \<and> xn_thresholdId x = th_id t \<and>
     xn_objectInstanceId x = th_objectInstanceId t \<and> xn_subObjectInstanceId x = sub \<and>
     xn_performanceMetric x = tc_performanceMetric (th_criteria t) \<and>
     xn_crossingDirection x = fst dv \<and> xn_performanceValue x = snd dv)"

definition announced :: "string \<Rightarrow> 'n \<Rightarrow> (string \<times> 'n) list" where
  "announced dir v = (if dir = ''UP'' \<or> dir = ''DOWN'' then [(dir, v)] else [])"

lemma store_threshold_run:
  assumes row: "row_find th_id (pd_thresholds s) (cs_thresholdId c) = Some t" and "ev_lock env (cs_thresholdId c)"
    and metric: "cs_metrics c = tc_performanceMetric (th_criteria t)"
  shows "\<exists>ns. list_all2 (notified t (cs_subObjectInstanceId c)) (announced (cs_crossingDirection c) (cs_performanceValue c)) ns \<and>
    pd_notifs (snd (store_threshold_info env [c] s)) = pd_notifs s @ ns \<and>
    pd_casts (snd (store_threshold_info env [c] s)) = pd_casts s \<and>
    row_find th_id (pd_thresholds (snd (store_threshold_info env [c] s))) (th_id t) =
      Some (t\<lparr>th_metadata := Some (with_state (state_of c) (th_metadata t))\<rparr>)"
proof -
  let ?t = "t\<lparr>th_metadata := Some (with_state (state_of c) (th_metadata t))\<rparr>"
  have i: "th_id t = cs_thresholdId c" using row by (rule thresholds.lookup_key)
  then have upd: "row_find th_id (row_upd th_id ?t (pd_thresholds s)) (cs_thresholdId c) = Some ?t"
    by (simp add: thresholds.lookup_upd)
  show ?thesis
    using assms(1,2) i upd metric
    by (auto simp: store_threshold_info_def store_threshold_info_each_def update_threshold_state_data_def lock_resources_def
        bindS_def get_pm_threshold_def pm_now_def make_threshold_notif_data_def pm_uuid_def pm_send_def announced_def notified_def)
qed

lemma measure_step:
  assumes row: "row_find th_id (pd_thresholds s) (th_id t) = Some t" and lock: "ev_lock env (th_id t)" and casts: "pd_casts s = []"
    and d: "tc_simpleThresholdDetails (th_criteria t) = Some d" "band d" and ty: "tc_thresholdType (th_criteria t) = ''SIMPLE''"
    and ok: "threshold_valid_alert t (tc_performanceMetric (th_criteria t)) (th_objectInstanceId t) sub = Inr ()"
    and m: "measures pe t sub alert v" and mem: "remembers t sub w" and use: "list_all (usable pe) (case w of None \<Rightarrow> [] | Some x \<Rightarrow> [x])"
    and thr: "pe_float pe (td_thresholdValue d) = td_thresholdValue d"
  shows "\<exists>ns t'. list_all2 (notified t sub) (entered d (zone_of d (case w of None \<Rightarrow> td_thresholdValue d | Some x \<Rightarrow> x)) [v]) ns \<and>
    pd_notifs (measure_alert env pe alert s) = pd_notifs s @ ns \<and> pd_casts (measure_alert env pe alert s) = [] \<and>
    row_find th_id (pd_thresholds (measure_alert env pe alert s)) (th_id t) = Some t' \<and> same_threshold t t' \<and> remembers t' sub (Some v)"
proof -
  let ?w = "case w of None \<Rightarrow> td_thresholdValue d | Some x \<Rightarrow> x"
  have last: "set_threshold_last_value pe (td_thresholdValue d) (get_pm_threshold_state t sub) = ?w"
    using mem use thr by (auto simp: remembers_def set_threshold_last_value_def usable_def split: option.splits)
  let ?dir = "set_crossing_direction v ?w (td_thresholdValue d) (td_hysteresis d)"
  let ?c = "\<lparr>cs_thresholdId = th_id t, cs_subObjectInstanceId = sub, cs_performanceValue = v,
     cs_metrics = tc_performanceMetric (th_criteria t), cs_crossingDirection = ?dir\<rparr>"
  have run: "measure_alert env pe alert s = snd (store_threshold_info env [?c] s)"
  proof -
    have same: "s\<lparr>pd_casts := []\<rparr> = s" using casts by (cases s) simp
    have "measure_alert env pe alert s = snd (store_threshold_info env [?c] (s\<lparr>pd_casts := []\<rparr>))"
      using threshold_alert_run [OF row d(1) ty m ok] casts last by (simp add: measure_alert_def pm_deliver_def run_cast_def)
    then show ?thesis unfolding same .
  qed
  have ann: "announced ?dir v = entered d (zone_of d ?w) [v]"
    by (simp add: crossing_zone [OF d(2)] announced_def split: zone.split)
  have rem: "remembers (t\<lparr>th_metadata := Some (with_state (state_of ?c) (th_metadata t))\<rparr>) sub (Some v)"
    using with_state_remembers [of t ?c w] mem by simp
  show ?thesis
    using store_threshold_run [of s ?c t env] row lock casts rem unfolding run ann [symmetric]
    by (fastforce simp: same_threshold_def)
qed


definition ex_pm_env :: "int pm_env" where
  "ex_pm_env = \<lparr>pe_enabled = True, pe_parse_time = (\<lambda>x. Inr (int (length x))),
     pe_number = (\<lambda>_ j. case j of JNum n \<Rightarrow> Inr n | _ \<Rightarrow> Inl (PyExc ValueError [])), pe_float = (\<lambda>v. v),
     pe_prom_ql = (\<lambda>_ target _. Inr target), pe_put = (\<lambda>_ _ _. Inr ()), pe_verify = (\<lambda>_ _. Inr ()),
     pe_remove = (\<lambda>_ _ there. if there then Inr () else Inl (PyExc OSError ''No such file'')), pe_reload = (\<lambda>_. Inr ()),
     pe_margin = 1, pe_collection_period_threshold = 30, pe_reporting_period_threshold = 90, pe_test_callback = None\<rparr>"

definition ex_band :: "int threshold_details" where
  "ex_band = \<lparr>td_thresholdValue = 50, td_hysteresis = 10\<rparr>"

definition ex_monitoring :: jdict where
  "ex_monitoring = [(''monitoring'', JObj [(''monitorName'', JStr ''prometheus''), (''driverType'', JStr ''external''),
     (''targetsInfo'', JArr [JObj [(''prometheusHost'', JStr ''h''), (''alertRuleConfigPath'', JStr ''/rules''),
        (''authInfo'', JObj [(''ssh_username'', JStr ''u'')]), (''prometheusReloadApiEndpoint'', JStr ''r'')]])])]"

definition ex_threshold :: "int threshold" where
  "ex_threshold = \<lparr>th_id = ''t'', th_objectType = ''Vnf'', th_objectInstanceId = ''inst'', th_subObjectInstanceIds = None,
     th_criteria = \<lparr>tc_performanceMetric = ''VCpuUsageMeanVnf.inst'', tc_thresholdType = ''SIMPLE'',
       tc_simpleThresholdDetails = Some ex_band\<rparr>,
     th_callbackUri = ''cb'', th_authentication = None,
     th_metadata = Some \<lparr>mm_items = ex_monitoring, mm_thresholdState = None\<rparr>\<rparr>"

definition ex_pm_db :: "int pm_db" where
  "ex_pm_db = \<lparr>pd_insts = [ex_fm_inst], pd_jobs = [], pd_reports = [], pd_thresholds = [ex_threshold], pd_files = [],
     pd_casts = [], pd_notifs = [], pd_uuids = 0, pd_ticks = 0\<rparr>"

definition ex_measure :: "int \<Rightarrow> json" where
  "ex_measure v = JObj [(''status'', JStr ''firing''), (''annotations'', JObj [(''value'', JNum v)]),
     (''labels'', JObj [(''receiver_type'', JStr ''tacker''), (''function_type'', JStr ''vnfpm_threshold''),
        (''threshold_id'', JStr ''t''), (''object_instance_id'', JStr ''inst''), (''metric'', JStr ''VCpuUsageMeanVnf.inst'')])]"

lemma ex_measures: "measures ex_pm_env ex_threshold None (ex_measure v) v"
proof -
  have "is_compute_metric ''VCpuUsageMeanVnf.inst''" by code_simp
  then show ?thesis
    by (simp add: measures_def ex_measure_def ex_threshold_def ex_pm_env_def firing_for_def label_def opt_label_def alert_value_def
        convert_measurement_unit_def bindE_def)
qed


text \<open>
  A value that stays at zero is announced again and again: zero counts as no last value, so
  each measurement is compared with the threshold itself. Here the value is below the band, where it
  stays, and DOWN is sent twice.
\<close>

lemma zero_value_notifies_again:
  "map (\<lambda>n. case snd n of ThresholdCrossed x \<Rightarrow> (xn_crossingDirection x, xn_performanceValue x) | _ \<Rightarrow> ([], 0))
     (pd_notifs (fold (measure_alert ex_env ex_pm_env) [ex_measure 0, ex_measure 0] ex_pm_db)) = [(''DOWN'', 0), (''DOWN'', 0)] \<and>
   entered ex_band Inside [0, 0] = [(''DOWN'', 0)]"
  by (rule conjI; code_simp)

subsection \<open>Rules and the alerts they produce\<close>

text \<open>The alert that a rule produces, with a measured value.\<close>

definition rule_alert :: "prom_rule \<Rightarrow> json \<Rightarrow> json" where
  "rule_alert r v = JObj [(''status'', JStr ''firing''), (''annotations'', JObj [(''value'', v)]),
     (''labels'', JObj (map (\<lambda>(k, x). (k, JStr x)) (ru_labels r)))]"

definition measurable :: "'n pm_env \<Rightarrow> string \<Rightarrow> bool" where
  "measurable pe metric \<longleftrightarrow> (\<exists>b. \<forall>v. convert_measurement_unit pe metric v = pe_number pe b v)"

definition job_alert_ok :: "'n pm_env \<Rightarrow> pm_job \<Rightarrow> prom_rule \<Rightarrow> bool" where
  "job_alert_ok pe j r \<longleftrightarrow> (\<exists>obj sub metric. job_valid_alert j obj sub = Inr () \<and> measurable pe metric \<and>
     (\<forall>v. label (rule_alert r v) ''function_type'' = Inr ''vnfpm'' \<and> label (rule_alert r v) ''job_id'' = Inr (pj_id j) \<and>
       label (rule_alert r v) ''object_instance_id'' = Inr obj \<and> label (rule_alert r v) ''metric'' = Inr metric \<and>
       opt_label (rule_alert r v) ''sub_object_instance_id'' = Inr sub))"

definition threshold_alert_ok :: "'n pm_env \<Rightarrow> 'n threshold \<Rightarrow> prom_rule \<Rightarrow> bool" where
  "threshold_alert_ok pe t r \<longleftrightarrow> (\<exists>sub b.
     threshold_valid_alert t (tc_performanceMetric (th_criteria t)) (th_objectInstanceId t) sub = Inr () \<and>
     (\<forall>v n. pe_number pe b v = Inr n \<longrightarrow> measures pe t sub (rule_alert r v) n))"

definition name_ok :: "string \<Rightarrow> bool" where
  "name_ok x \<longleftrightarrow> x \<noteq> [] \<and> hd x \<noteq> line_feed"

lemma collectS_in:
  assumes "collectS f xs s = (Inr ys, s')" and "y \<in> set ys"
  shows "\<exists>x \<in> set xs. \<exists>s1 zs s2. f x s1 = (Inr zs, s2) \<and> y \<in> set zs"
  using assms
proof (induction xs arbitrary: s ys)
  case (Cons x xs)
  then show ?case by (fastforce simp: bindS_eq_Inr)
qed simp

lemma oneS_in: "oneS m s = (Inr ys, s') \<Longrightarrow> y \<in> set ys \<Longrightarrow> m s = (Inr y, s')"
  by (auto simp: oneS_def bindS_eq_Inr)

definition rule_labels :: "string \<Rightarrow> string \<Rightarrow> string \<Rightarrow> string \<Rightarrow> string option \<Rightarrow> string \<Rightarrow> (string, string) dict" where
  "rule_labels fn k i obj sub metric = [(''alertname'', []), (''receiver_type'', ''tacker''), (''function_type'', fn),
     (k, i), (''object_instance_id'', obj)] @ (case sub of None \<Rightarrow> [] | Some x \<Rightarrow> [(''sub_object_instance_id'', x)]) @
     [(''metric'', metric)]"

lemma rule_for_labels:
  assumes "rule_for env pe ty i obj sub metric pod ql inst cp rp s = (Inr r, s')"
  shows "(ty = ''PMJob'' \<longrightarrow> ru_labels r = rule_labels ''vnfpm'' ''job_id'' i obj sub metric) \<and>
    (ty = ''Threshold'' \<longrightarrow> ru_labels r = rule_labels ''vnfpm_threshold'' ''threshold_id'' i obj sub metric)"
  using assms by (auto simp: rule_for_def make_rule_def bindS_eq_Inr rule_labels_def pm_uuid_def)

lemma sub_rules_in:
  assumes "sub_rules env pe ty i oty obj subs metric inst cp rp s = (Inr rules, s')" and "r \<in> set rules"
  shows "\<exists>x \<in> set subs. \<exists>pod ql s1 s2. rule_for env pe ty i obj (Some x) metric pod ql inst cp rp s1 = (Inr r, s2)"
  using assms unfolding sub_rules_def
  by (auto dest!: collectS_in oneS_in split: if_splits option.splits) blast+

lemma sub_object_known_cases:
  "sub_object_known None subs" "x \<in> set (opt_list subs) \<Longrightarrow> sub_object_known (Some x) subs"
  by (auto simp: sub_object_known_def nonempty_def split: list.split)

lemma job_rules_in:
  assumes "job_rules env pe j m metric s = (Inr rules, s')" and "r \<in> set rules"
  shows "\<exists>obj sub. job_valid_alert j obj sub = Inr () \<and> ru_labels r = rule_labels ''vnfpm'' ''job_id'' (pj_id j) obj sub metric"
proof (cases "opt_list (pj_subObjectInstanceIds j) = []")
  case True
  then have "job_rules_for_each_obj env pe j m metric s = (Inr rules, s')" using assms(1) by (simp add: job_rules_def)
  then obtain obj where "obj \<in> set (pj_objectInstanceIds j)" and "ru_labels r = rule_labels ''vnfpm'' ''job_id'' (pj_id j) obj None metric"
    unfolding job_rules_for_each_obj_def using assms(2)
    by (auto simp: bindS_eq_Inr dest!: collectS_in oneS_in rule_for_labels split: option.splits)
  then show ?thesis using sub_object_known_cases(1) by (fastforce simp: job_valid_alert_def)
next
  case False
  then have "job_rules_for_each_sub_obj env pe j m metric s = (Inr rules, s')" using assms(1) by (simp add: job_rules_def)
  then obtain obj x where "obj \<in> set (pj_objectInstanceIds j)" "x \<in> set (opt_list (pj_subObjectInstanceIds j))"
      and "ru_labels r = rule_labels ''vnfpm'' ''job_id'' (pj_id j) obj (Some x) metric"
    unfolding job_rules_for_each_sub_obj_def using assms(2)
    by (auto simp: bindS_eq_Inr dest!: sub_rules_in rule_for_labels split: list.splits if_splits)
  then show ?thesis using sub_object_known_cases(2) by (fastforce simp: job_valid_alert_def)
qed

lemma threshold_rules_in:
  assumes "threshold_rules env pe t inst metric s = (Inr rules, s')" and "r \<in> set rules"
  shows "\<exists>sub. sub_object_known sub (th_subObjectInstanceIds t) \<and>
    ru_labels r = rule_labels ''vnfpm_threshold'' ''threshold_id'' (th_id t) (th_objectInstanceId t) sub metric"
proof (cases "opt_list (th_subObjectInstanceIds t) = []")
  case True
  then have "ru_labels r = rule_labels ''vnfpm_threshold'' ''threshold_id'' (th_id t) (th_objectInstanceId t) None metric"
    using assms by (auto simp: threshold_rules_def threshold_rules_for_each_obj_def dest!: oneS_in rule_for_labels)
  then show ?thesis using sub_object_known_cases(1) by blast
next
  case False
  then obtain x where "x \<in> set (opt_list (th_subObjectInstanceIds t))"
      "ru_labels r = rule_labels ''vnfpm_threshold'' ''threshold_id'' (th_id t) (th_objectInstanceId t) (Some x) metric"
    using assms by (auto simp: threshold_rules_def threshold_rules_for_each_sub_obj_def dest!: sub_rules_in rule_for_labels)
  then show ?thesis using sub_object_known_cases(2) by blast
qed

lemma compute_metric_of: "p \<in> set compute_metrics \<Longrightarrow> name_ok obj \<Longrightarrow> is_compute_metric (p @ CHR ''.'' # obj)"
  by (cases obj) (auto simp: compute_metrics_def is_compute_metric_def metric_object_def strip_prefix_def List.map_filter_def name_ok_def)

lemma cp_metric_self: "p \<in> set cp_metrics \<Longrightarrow> is_cp_metric ty (p @ ty)"
  by (auto simp: is_cp_metric_def strip_prefix_def list_ex_iff intro!: bexI [of _ p])

lemma measurable_kinds: "is_compute_metric m \<or> is_cp_metric ''VnfIntCp'' m \<or> is_cp_metric ''VnfExtCp'' m \<Longrightarrow> measurable pe m"
  unfolding measurable_def convert_measurement_unit_def by auto

lemma some_metrics_in: "some_metrics xs = Inr ms \<Longrightarrow> m \<in> set ms \<Longrightarrow> m \<in> set xs"
  by (auto simp: some_metrics_def split: if_splits)

lemma in_groups: "m \<in> set (concat (map (\<lambda>g. if g = h then f else []) gs)) \<Longrightarrow> m \<in> set f"
  by (induction gs) (auto split: if_splits)

lemma in_metrics_or_groups:
  assumes "m \<in> set (filter P xs @ concat (map (\<lambda>g. if g = h then f else []) gs))"
  shows "P m \<or> m \<in> set f"
  using assms in_groups [of m h f gs] by (simp only: set_append Un_iff set_filter mem_Collect_eq) blast

lemma job_metrics_measurable:
  assumes dec: "decompose_metrics (pj_objectType j) (job_metrics_vnfc j) (job_metrics_cp j) = Inr ms" and m: "m \<in> set ms"
    and names: "list_all name_ok (pj_objectInstanceIds j)"
  shows "measurable pe m"
proof -
  have "is_compute_metric m" if v: "job_metrics_vnfc j = Inr ms"
  proof -
    consider "is_compute_metric m" | obj where "obj \<in> set (pj_objectInstanceIds j)" "m \<in> set (map (\<lambda>p. p @ ''.'' @ obj) compute_metrics)"
      using some_metrics_in [OF v [unfolded job_metrics_vnfc_def] m] in_groups by fastforce
    then show ?thesis
    proof cases
      case 2
      then show ?thesis using names compute_metric_of by (auto simp: list_all_iff)
    qed
  qed
  moreover have "is_cp_metric (pj_objectType j) m" if c: "job_metrics_cp j = Inr ms"
  proof -
    have "is_cp_metric (pj_objectType j) m \<or> m \<in> set (map (\<lambda>p. p @ pj_objectType j) cp_metrics)"
      by (rule in_metrics_or_groups [OF some_metrics_in [OF c [unfolded job_metrics_cp_def Let_def] m]])
    then show ?thesis using cp_metric_self by auto
  qed
  ultimately show ?thesis using dec measurable_kinds by (auto simp: decompose_metrics_def split: if_splits)
qed

lemma threshold_metrics_measurable:
  assumes "decompose_metrics (th_objectType t) (threshold_metrics_vnfc t) (threshold_metrics_cp t) = Inr ms"
  shows "ms = [tc_performanceMetric (th_criteria t)] \<and> measurable pe (tc_performanceMetric (th_criteria t))"
  using assms by (auto simp: decompose_metrics_def threshold_metrics_vnfc_def threshold_metrics_cp_def Let_def
      intro!: measurable_kinds split: if_splits)

lemma rule_alert_labels:
  assumes "ru_labels r = rule_labels fn k i obj sub metric" and "k \<in> {''job_id'', ''threshold_id''}"
  shows "label (rule_alert r v) ''receiver_type'' = Inr ''tacker''" "label (rule_alert r v) ''function_type'' = Inr fn"
    "label (rule_alert r v) k = Inr i" "label (rule_alert r v) ''object_instance_id'' = Inr obj"
    "label (rule_alert r v) ''metric'' = Inr metric" "opt_label (rule_alert r v) ''sub_object_instance_id'' = Inr sub"
  using assms by (cases sub; auto simp: rule_alert_def rule_labels_def label_def opt_label_def)+

lemma make_rules_in:
  assumes "make_rules pe i md metrics insts each s = (Inr rules, s')" and "r \<in> set rules"
  shows "\<exists>ms m inst s1 s2 rs. metrics = Inr ms \<and> m \<in> set ms \<and> each inst m s1 = (Inr rs, s2) \<and> r \<in> set rs"
  using assms by (auto simp: make_rules_def bindS_eq_Inr dest!: collectS_in split: if_splits prod.splits) blast

text \<open>
  The rules that are uploaded for a PM job or a threshold lead to alerts that the plugin accepts:
  for every rule, an alert with its labels is for this job or threshold, names an object and a
  sub-object that the validity check knows, and a metric whose values are converted. For a threshold
  such an alert is a measurement in the sense of the previous property. Identifiers are assumed not to
  be empty and not to begin with a line feed.
\<close>

lemma rules_alerts_accepted:
  "(create_job env pe j s = (Inr rules, s') \<and> list_all name_ok (pj_objectInstanceIds j) \<longrightarrow>
      list_all (job_alert_ok pe j) rules) \<and>
   (create_threshold_rules env pe t s = (Inr rules, s') \<and> name_ok (th_objectInstanceId t) \<longrightarrow>
      list_all (threshold_alert_ok pe t) rules)"
proof -
  have "job_alert_ok pe j r"
    if job: "create_job env pe j s = (Inr rules, s')" "list_all name_ok (pj_objectInstanceIds j)" and r: "r \<in> set rules" for r
  proof -
    obtain ms m inst s1 s2 rs where ms: "decompose_metrics (pj_objectType j) (job_metrics_vnfc j) (job_metrics_cp j) = Inr ms"
        "m \<in> set ms" and "job_rules env pe j inst m s1 = (Inr rs, s2)" "r \<in> set rs"
      using make_rules_in [OF job(1) [unfolded create_job_def] r] by blast
    then obtain obj sub where l: "job_valid_alert j obj sub = Inr ()" "ru_labels r = rule_labels ''vnfpm'' ''job_id'' (pj_id j) obj sub m"
      using job_rules_in by blast
    from rule_alert_labels [OF l(2)] l(1) job_metrics_measurable [OF ms job(2)] show ?thesis
      unfolding job_alert_ok_def by blast
  qed
  moreover have "threshold_alert_ok pe t r"
    if thr: "create_threshold_rules env pe t s = (Inr rules, s')" "name_ok (th_objectInstanceId t)" and r: "r \<in> set rules" for r
  proof -
    let ?m = "tc_performanceMetric (th_criteria t)"
    obtain ms m inst s1 s2 rs where ms: "decompose_metrics (th_objectType t) (threshold_metrics_vnfc t) (threshold_metrics_cp t) = Inr ms"
        "m \<in> set ms" and rs: "threshold_rules env pe t inst m s1 = (Inr rs, s2)" "r \<in> set rs"
      using make_rules_in [OF thr(1) [unfolded create_threshold_rules_def] r] by blast
    have m: "m = ?m" "measurable pe ?m" using threshold_metrics_measurable [OF ms(1), of pe] ms(2) by auto
    then obtain b where b: "convert_measurement_unit pe ?m v = pe_number pe b v" for v by (auto simp: measurable_def)
    obtain sub where sub: "sub_object_known sub (th_subObjectInstanceIds t)"
        and l: "ru_labels r = rule_labels ''vnfpm_threshold'' ''threshold_id'' (th_id t) (th_objectInstanceId t) sub ?m"
      using threshold_rules_in [OF rs] m by blast
    have "measures pe t sub (rule_alert r v) n" if "pe_number pe b v = Inr n" for v n
      using rule_alert_labels [OF l, of v] that b
      by (simp add: measures_def firing_for_def alert_value_def) (simp add: rule_alert_def)
    moreover have "threshold_valid_alert t ?m (th_objectInstanceId t) sub = Inr ()"
      using sub thr(2) by (auto simp: threshold_valid_alert_def nonempty_def name_ok_def split: list.split)
    ultimately show ?thesis unfolding threshold_alert_ok_def by blast
  qed
  ultimately show ?thesis by (simp add: list_all_iff)
qed

definition ex_rules :: "prom_rule list pyres \<times> int pm_db" where
  "ex_rules = create_threshold_rules ex_env ex_pm_env ex_threshold ex_pm_db"

end
