(* ===== verification/Perf_Reports.thy ===== *)
theory Perf_Reports
  imports Perf_Props
begin

section \<open>Performance management: jobs and their reports\<close>

text \<open>
  \<open>pm_step\<close>: any request to the PM interface, alert, message that the conductor handles or that is
  lost, or change of the instances. The identifiers that are generated and the endpoint are those of
  one system; everything else outside may behave differently at every step. Proved: the links of a job
  and its stored reports stay the same list.
\<close>

subsection \<open>What leaves the jobs and reports alone\<close>

definition quiet :: "'n pm_db \<Rightarrow> 'n pm_db \<Rightarrow> bool" where
  "quiet s s' \<longleftrightarrow> pd_jobs s' = pd_jobs s \<and> pd_reports s' = pd_reports s \<and> pd_casts s' = pd_casts s \<and> pd_uuids s \<le> pd_uuids s'"

lemma quiet_rel: "reflp quiet" "transp quiet"
  by (auto simp: reflp_def transp_def quiet_def)

lemma keepsS_tryS:
  assumes "transp R" and "keepsS R m" and "\<And>e. keepsS R (h e)"
  shows "keepsS R (tryS m h)"
  unfolding keepsS_def
proof
  fix s
  obtain r t where m: "m s = (r, t)" by (cases "m s")
  have st: "R s t" using assms(2) m by (rule keepsSD)
  show "R s (snd (tryS m h s))"
  proof (cases r)
    case (Inl e)
    have "R t (snd (h e t))" using assms(3) by (simp add: keepsS_def)
    with assms(1) st m Inl show ?thesis by (auto simp: tryS_def dest: transpD)
  qed (use m st in \<open>simp add: tryS_def\<close>)
qed

lemma keepsS_collectS:
  fixes f :: "'b \<Rightarrow> ('a, 'c, 'd list) sem"
  assumes "reflp R" and "transp R" and "\<And>x. x \<in> set xs \<Longrightarrow> keepsS R (f x)"
  shows "keepsS R (collectS f xs)"
proof -
  have ret: "keepsS R (retS x)" for x :: "'d list" using assms(1) by (simp add: keepsS_def reflpD)
  show ?thesis using assms(3) by (induction xs) (auto intro!: keepsS_bindS [OF assms(2)] ret)
qed

lemma quiet_basic [simp, intro]:
  "keepsS quiet (retS x)" "keepsS quiet (liftS m)" "keepsS quiet (raiseS e)" "keepsS quiet (getS g)" "keepsS quiet (pm_uuid env)"
  "keepsS quiet (pm_now env)" "keepsS quiet (pm_get_inst i)" "keepsS quiet (get_pm_job i)" "keepsS quiet (get_pm_threshold i)"
  "keepsS quiet (pm_send uri n)" "keepsS quiet (modS (\<lambda>s. s\<lparr>pd_files := fs s\<rparr>))"
  "keepsS quiet (modS (\<lambda>s. s\<lparr>pd_thresholds := ts s\<rparr>))" "keepsS quiet (\<lambda>s. (h s, s))"
  by (auto simp: keepsS_def quiet_def pm_uuid_def pm_now_def pm_get_inst_def get_pm_job_def get_pm_threshold_def pm_send_def
      split: option.splits)

lemma quiet_whenS: "keepsS quiet m \<Longrightarrow> keepsS quiet (whenS b m)"
  by (simp add: whenS_def)

lemma quiet_lock: "keepsS quiet m \<Longrightarrow> keepsS quiet (lock_resources env i m)"
  by (simp add: lock_resources_def)

lemmas quiet_intros = keepsS_bindS [OF quiet_rel(2)] keepsS_tryS [OF quiet_rel(2)] keepsS_forS [OF quiet_rel]
  keepsS_collectS [OF quiet_rel] quiet_whenS quiet_lock

lemma quiet_rule: "keepsS quiet (oneS (rule_for env pe ty i obj sub metric pod ql inst cp rp))"
  unfolding oneS_def rule_for_def make_rule_def by (auto intro!: quiet_intros split: prod.split)

lemma quiet_each:
  "keepsS quiet (sub_rules env pe ty i oty obj subs metric inst cp rp)"
  "keepsS quiet (job_rules env pe j m metric)" "keepsS quiet (threshold_rules env pe t inst metric)"
proof -
  show sub: "keepsS quiet (sub_rules env pe ty i oty obj subs metric inst cp rp)"
    for ty i oty obj subs metric inst cp rp
    unfolding sub_rules_def by (auto intro!: quiet_intros quiet_rule split: option.split)
  show "keepsS quiet (job_rules env pe j m metric)"
    unfolding job_rules_def job_rules_for_each_sub_obj_def job_rules_for_each_obj_def
    by (auto intro!: quiet_intros sub quiet_rule split: option.split list.split)
  show "keepsS quiet (threshold_rules env pe t inst metric)"
    unfolding threshold_rules_def threshold_rules_for_each_sub_obj_def threshold_rules_for_each_obj_def
    by (auto intro!: sub quiet_rule)
qed

lemma quiet_ignoring: "keepsS quiet m \<Longrightarrow> keepsS quiet (ignoring m)"
  unfolding ignoring_def by (auto intro!: quiet_intros)

lemma quiet_files:
  "keepsS quiet (delete_rule pe i t)" "keepsS quiet (upload_rules pe ts rl rules i)" "keepsS quiet (delete_rules pe i md)"
proof -
  show del: "keepsS quiet (delete_rule pe i t)" for t
    unfolding delete_rule_def by (intro quiet_intros quiet_basic)
  show "keepsS quiet (upload_rules pe ts rl rules i)"
    unfolding upload_rules_def upload_rule_def cleanup_error_def by (intro quiet_intros quiet_ignoring del quiet_basic)
  show "keepsS quiet (delete_rules pe i md)"
    unfolding delete_rules_def by (auto intro!: quiet_intros quiet_ignoring del split: prod.split)
qed

lemma quiet_plugin: "keepsS quiet (create_job env pe j)" "keepsS quiet (create_threshold_rules env pe t)"
  unfolding create_job_def create_threshold_rules_def make_rules_def job_instances_def
  by (auto intro!: quiet_intros quiet_files quiet_each split: prod.split)

lemma quiet_setting_failed: "keepsS quiet m \<Longrightarrow> keepsS quiet (setting_failed m)"
  unfolding setting_failed_def by (auto intro!: quiet_intros split: exn.split)

lemma quiet_checks: "keepsS quiet (instantiated_inst i)"
  unfolding instantiated_inst_def by (auto intro!: quiet_intros)

lemma quiet_thresholds:
  "keepsS quiet (pm_threshold_create env pe body)" "keepsS quiet (pm_threshold_update env pe i md)"
  "keepsS quiet (pm_threshold_delete env pe i)" "keepsS quiet (store_threshold_info env cs)"
proof -
  have add: "keepsS quiet (\<lambda>s. if row_find th_id (pd_thresholds s) i = None then (Inr (), s\<lparr>pd_thresholds := f s\<rparr>)
      else (Inl e, s))" for i e and f :: "'a pm_db \<Rightarrow> 'a threshold list"
    by (auto simp: keepsS_def quiet_def)
  show "keepsS quiet (pm_threshold_create env pe body)"
    unfolding pm_threshold_create_def Let_def
    by (auto intro!: quiet_intros quiet_setting_failed quiet_plugin quiet_checks add)
  show "keepsS quiet (pm_threshold_update env pe i md)" "keepsS quiet (pm_threshold_delete env pe i)"
    unfolding pm_threshold_update_def pm_threshold_delete_def Let_def by (auto intro!: quiet_intros quiet_files)
  show "keepsS quiet (store_threshold_info env cs)"
    unfolding store_threshold_info_def store_threshold_info_each_def update_threshold_state_data_def make_threshold_notif_data_def
    by (auto intro!: quiet_intros)
qed

lemma quiet_notify: "keepsS quiet (send_pm_job_notification env r j ts)"
  unfolding send_pm_job_notification_def make_pm_notif_data_def Let_def by (auto intro!: quiet_intros)

subsection \<open>The system\<close>

inductive pm_step :: "(nat \<Rightarrow> string) \<Rightarrow> string \<Rightarrow> ('n :: {linorder, plus, minus, zero}) pm_db \<Rightarrow> 'n pm_db \<Rightarrow> bool" for u ep where
  create: "ev_uuid env = u \<Longrightarrow> pm_job_create env pe body s = (r, s') \<Longrightarrow> pm_step u ep s s'"
| update: "pm_job_update env pe i md s = (r, s') \<Longrightarrow> pm_step u ep s s'"
| delete: "pm_job_delete env pe i s = (r, s') \<Longrightarrow> pm_step u ep s s'"
| alert: "ev_uuid env = u \<Longrightarrow> job_alert env pe alerts s = (r, s') \<Longrightarrow> pm_step u ep s s'"
| threshold_created: "pm_threshold_create env pe tbody s = (r, s') \<Longrightarrow> pm_step u ep s s'"
| threshold_updated: "pm_threshold_update env pe i md s = (r, s') \<Longrightarrow> pm_step u ep s s'"
| threshold_deleted: "pm_threshold_delete env pe i s = (r, s') \<Longrightarrow> pm_step u ep s s'"
| threshold_alerted: "threshold_alert pe alerts s = (r, s') \<Longrightarrow> pm_step u ep s s'"
| handle: "ev_uuid env = u \<Longrightarrow> ev_endpoint env = ep \<Longrightarrow> c \<in> set (pd_casts s) \<Longrightarrow>
    run_cast env c (s\<lparr>pd_casts := remove1 c (pd_casts s)\<rparr>) = (r, s') \<Longrightarrow> pm_step u ep s s'"
| lost: "pm_step u ep s (s\<lparr>pd_casts := remove1 c (pd_casts s)\<rparr>)"
| other: "pm_step u ep s (s\<lparr>pd_insts := is\<rparr>)"

definition pm_init :: "vnf_instance list \<Rightarrow> 'n pm_db" where
  "pm_init is = \<lparr>pd_insts = is, pd_jobs = [], pd_reports = [], pd_thresholds = [], pd_files = [], pd_casts = [], pd_notifs = [],
     pd_uuids = 0, pd_ticks = 0\<rparr>"

definition used :: "(nat \<Rightarrow> string) \<Rightarrow> 'n pm_db \<Rightarrow> string set" where
  "used u s = u ` {..< pd_uuids s}"

definition report_ok :: "(nat \<Rightarrow> string) \<Rightarrow> 'n pm_db \<Rightarrow> 'n pm_report \<Rightarrow> bool" where
  "report_ok u s r \<longleftrightarrow> pr_jobId r \<in> used u s \<and> (\<exists>t. report_time r = Inr t)"

definition cast_ok :: "(nat \<Rightarrow> string) \<Rightarrow> 'n pm_db \<Rightarrow> 'n pm_cast \<Rightarrow> bool" where
  "cast_ok u s c \<longleftrightarrow> (case c of StoreJobInfo rs \<Rightarrow> list_all (report_ok u s) rs | _ \<Rightarrow> True)"

definition linked :: "string \<Rightarrow> pm_job \<Rightarrow> 'n pm_db \<Rightarrow> bool" where
  "linked ep j s \<longleftrightarrow> map rl_href (pj_reports j) = map (\<lambda>r. pm_report_href (pj_id j) (pr_id r) ep) (pm_reports_of s (pj_id j))"

definition pm_inv :: "(nat \<Rightarrow> string) \<Rightarrow> string \<Rightarrow> 'n pm_db \<Rightarrow> bool" where
  "pm_inv u ep s \<longleftrightarrow> rows_wf pj_id (pd_jobs s) \<and> rows_wf pr_id (pd_reports s) \<and> pj_id ` set (pd_jobs s) \<subseteq> used u s \<and>
     pr_jobId ` set (pd_reports s) \<subseteq> used u s \<and> list_all (cast_ok u s) (pd_casts s) \<and> (\<forall>j \<in> set (pd_jobs s). linked ep j s)"

lemma used_mono: "pd_uuids s \<le> pd_uuids s' \<Longrightarrow> used u s \<subseteq> used u s'"
  by (auto simp: used_def)

lemma same_uuids:
  assumes "pd_uuids s' = pd_uuids s"
  shows "used u s' = used u s" "cast_ok u s' = cast_ok u s"
proof -
  show used: "used u s' = used u s" by (simp add: used_def assms)
  then have "report_ok u s' = report_ok u s" by (simp add: fun_eq_iff report_ok_def)
  then show "cast_ok u s' = cast_ok u s" unfolding cast_ok_def [abs_def] by simp
qed

lemma cast_ok_mono: "pd_uuids s \<le> pd_uuids s' \<Longrightarrow> cast_ok u s c \<Longrightarrow> cast_ok u s' c"
  using used_mono [of s s' u] by (auto simp: cast_ok_def report_ok_def list_all_iff split: pm_cast.splits)

lemma casts_ok_mono: "pd_uuids s \<le> pd_uuids s' \<Longrightarrow> list_all (cast_ok u s) cs \<Longrightarrow> list_all (cast_ok u s') cs"
  using cast_ok_mono [of s s' u] by (auto simp: list_all_iff)

lemma quiet_inv:
  assumes "quiet s s'" and "pm_inv u ep s"
  shows "pm_inv u ep s'"
proof -
  have q: "pd_jobs s' = pd_jobs s" "pd_reports s' = pd_reports s" "pd_casts s' = pd_casts s" "pd_uuids s \<le> pd_uuids s'"
    using assms(1) by (simp_all add: quiet_def)
  show ?thesis
    using assms(2) used_mono [OF q(4), of u] casts_ok_mono [OF q(4), of u]
    unfolding pm_inv_def linked_def pm_reports_of_def q(1,2,3) by blast
qed

lemma keeps_inv: "keepsS quiet m \<Longrightarrow> m s = (r, s') \<Longrightarrow> pm_inv u ep s \<Longrightarrow> pm_inv u ep s'"
  by (rule quiet_inv [OF keepsSD [of quiet m]])

lemma pm_invD:
  assumes "pm_inv u ep s"
  shows "rows_wf pj_id (pd_jobs s)" "rows_wf pr_id (pd_reports s)" "pj_id ` set (pd_jobs s) \<subseteq> used u s"
    "pr_jobId ` set (pd_reports s) \<subseteq> used u s" "list_all (cast_ok u s) (pd_casts s)" "\<And>j. j \<in> set (pd_jobs s) \<Longrightarrow> linked ep j s"
  using assms by (simp_all add: pm_inv_def)

subsection \<open>Jobs\<close>

lemma job_row_added:
  assumes inv: "pm_inv u ep s" and u: "inj u" and j: "pj_id j = u k" "pd_uuids s \<le> k" "k < pd_uuids s'" "pj_reports j = []"
    and s': "pd_jobs s' = row_add j (pd_jobs s)" "pd_reports s' = pd_reports s" "pd_casts s' = pd_casts s"
  shows "pm_inv u ep s'"
  unfolding pm_inv_def
proof (intro conjI)
  have le: "pd_uuids s \<le> pd_uuids s'" using j(2,3) by simp
  note mono = used_mono [OF le, of u]
  have fresh: "pj_id j \<notin> used u s" using j(1,2) u by (auto simp: used_def inj_eq)
  then have "pj_id j \<notin> pj_id ` set (pd_jobs s)" using inv by (auto simp: pm_inv_def)
  then show "rows_wf pj_id (pd_jobs s')" using inv by (simp add: pm_inv_def s'(1) row_add_def rows_wf_def)
  show "rows_wf pr_id (pd_reports s')" using inv by (simp add: pm_inv_def s'(2))
  have "pj_id j \<in> used u s'" using j(1,3) by (auto simp: used_def)
  moreover have "pj_id ` set (pd_jobs s) \<subseteq> used u s'" using pm_invD(3) [OF inv] mono by (rule subset_trans)
  ultimately show "pj_id ` set (pd_jobs s') \<subseteq> used u s'" by (simp add: s'(1) row_add_def)
  show "pr_jobId ` set (pd_reports s') \<subseteq> used u s'" unfolding s'(2) using pm_invD(4) [OF inv] mono by (rule subset_trans)
  show "list_all (cast_ok u s') (pd_casts s')" using inv casts_ok_mono [OF le] by (simp add: pm_inv_def s'(3))
  have "\<forall>r \<in> set (pd_reports s). pr_jobId r \<noteq> pj_id j" using inv fresh by (auto simp: pm_inv_def)
  then have "linked ep j s'" using j(4) by (simp add: linked_def pm_reports_of_def row_filter_def s'(2) filter_empty_conv)
  moreover have "linked ep x s'" if "x \<in> set (pd_jobs s)" for x
    using inv that by (simp add: pm_inv_def linked_def pm_reports_of_def s'(2))
  ultimately show "\<forall>j \<in> set (pd_jobs s'). linked ep j s'" by (simp add: s'(1) row_add_def)
qed

text \<open>A relation that absorbs quiet steps before it holds of a sequence whose first part is quiet.\<close>

definition absorbs :: "('n pm_db \<Rightarrow> 'n pm_db \<Rightarrow> bool) \<Rightarrow> bool" where
  "absorbs R \<longleftrightarrow> (\<forall>s s'. quiet s s' \<longrightarrow> R s s') \<and> (\<forall>s t s'. quiet s t \<longrightarrow> R t s' \<longrightarrow> R s s')"

lemma absorbs_quiet: "absorbs R \<Longrightarrow> keepsS quiet m \<Longrightarrow> keepsS R m"
  by (auto simp: absorbs_def keepsS_def)

lemma absorbs_bind:
  assumes "absorbs R" and m: "keepsS quiet m" and "\<And>x. keepsS R (f x)"
  shows "keepsS R (bindS m f)"
  unfolding keepsS_def
proof
  fix s
  obtain r t where t: "m s = (r, t)" by (cases "m s")
  have q: "quiet s t" using m t by (rule keepsSD)
  show "R s (snd (bindS m f s))"
  proof (cases r)
    case (Inl e)
    then show ?thesis using t q assms(1) by (simp add: bindS_def absorbs_def)
  next
    case (Inr x)
    have "R t (snd (f x t))" using assms(3) by (simp add: keepsS_def)
    then have "R s (snd (f x t))" using q assms(1) unfolding absorbs_def by blast
    then show ?thesis using t Inr by (simp add: bindS_def)
  qed
qed

definition job_added :: "string \<Rightarrow> 'n pm_db \<Rightarrow> 'n pm_db \<Rightarrow> bool" where
  "job_added i s s' \<longleftrightarrow> quiet s s' \<or> (\<exists>j s1. quiet s s1 \<and> pj_id j = i \<and> pj_reports j = [] \<and> s' = s1\<lparr>pd_jobs := row_add j (pd_jobs s1)\<rparr>)"

definition new_job_added :: "(nat \<Rightarrow> string) \<Rightarrow> 'n pm_db \<Rightarrow> 'n pm_db \<Rightarrow> bool" where
  "new_job_added u s s' \<longleftrightarrow> quiet s s' \<or> (\<exists>j k s1. quiet s s1 \<and> pj_id j = u k \<and> pd_uuids s \<le> k \<and> k < pd_uuids s1 \<and>
     pj_reports j = [] \<and> s' = s1\<lparr>pd_jobs := row_add j (pd_jobs s1)\<rparr>)"

lemma absorbs_added: "absorbs (job_added i)" "absorbs (new_job_added u)"
  unfolding absorbs_def job_added_def new_job_added_def by (auto simp: quiet_def) (metis le_trans)+

lemma new_job_uuid:
  assumes "ev_uuid env = u" and "\<And>i. keepsS (job_added i) (f i)"
  shows "keepsS (new_job_added u) (bindS (pm_uuid env) f)"
  unfolding keepsS_def
proof
  fix s :: "'a pm_db"
  let ?t = "s\<lparr>pd_uuids := Suc (pd_uuids s)\<rparr>"
  have "job_added (u (pd_uuids s)) ?t (snd (f (u (pd_uuids s)) ?t))" using assms(2) by (simp add: keepsS_def)
  then show "new_job_added u s (snd (bindS (pm_uuid env) f s))"
    using assms(1) unfolding job_added_def new_job_added_def
    by (auto simp: bindS_def pm_uuid_def quiet_def intro: le_trans [OF le_SucI]) (metis Suc_le_eq Suc_leD le_refl)+
qed

lemma create_added:
  fixes pe :: "'n pm_env"
  assumes "ev_uuid env = u"
  shows "keepsS (new_job_added u) (pm_job_create env pe body)"
proof -
  have last: "keepsS (job_added i) (bindS (\<lambda>s :: 'n pm_db. if row_find pj_id (pd_jobs s) i = None
      then (Inr (), s\<lparr>pd_jobs := row_add (job_of_request i body b) (pd_jobs s)\<rparr>) else (Inl e, s)) (\<lambda>_. retS x))" for i b e and x :: response
  proof -
    have "job_added i s (s\<lparr>pd_jobs := row_add (job_of_request i body b) (pd_jobs s)\<rparr>)" for s :: "'n pm_db"
      unfolding job_added_def
      by (intro disjI2 exI [of _ "job_of_request i body b"] exI [of _ s]) (simp add: job_of_request_def quiet_def)
    moreover have "job_added i s s" for s :: "'n pm_db" by (simp add: job_added_def quiet_def)
    ultimately show ?thesis by (simp add: keepsS_def bindS_def)
  qed
  have tail: "keepsS (job_added i) (bindS (liftS a) (\<lambda>_. bindS (whenS c (setting_failed (create_job env pe j))) (\<lambda>_.
      bindS (\<lambda>s :: 'n pm_db. if row_find pj_id (pd_jobs s) i = None
        then (Inr (), s\<lparr>pd_jobs := row_add (job_of_request i body b) (pd_jobs s)\<rparr>) else (Inl e, s)) (\<lambda>_. retS x))))"
    for i b e a c j and x :: response
    by (intro absorbs_bind [OF absorbs_added(1)] last quiet_basic quiet_whenS quiet_setting_failed quiet_plugin)
  have "keepsS (new_job_added u) (raiseS x)" for x by (intro absorbs_quiet [OF absorbs_added(2)] quiet_basic)
  then show ?thesis unfolding pm_job_create_def Let_def
    by (simp only: split: if_split)
      (intro impI conjI absorbs_bind [OF absorbs_added(2)] new_job_uuid [OF assms] tail quiet_basic keepsS_forS [OF quiet_rel] quiet_checks;
       simp)
qed

lemma create_inv:
  assumes run: "pm_job_create env pe body s = (r, s')" and u: "ev_uuid env = u" "inj u" and inv: "pm_inv u ep s"
  shows "pm_inv u ep s'"
  using keepsSD [OF create_added [OF u(1)] run] unfolding new_job_added_def
proof (elim disjE exE conjE)
  assume "quiet s s'"
  then show ?thesis using inv by (rule quiet_inv)
next
  fix j k s1
  assume q: "quiet s s1" and j: "pj_id j = u k" "pd_uuids s \<le> k" "k < pd_uuids s1" "pj_reports j = []"
    and s': "s' = s1\<lparr>pd_jobs := row_add j (pd_jobs s1)\<rparr>"
  show ?thesis
    by (rule job_row_added [OF inv u(2) j(1,2) _ j(4)]) (use q j(3) s' in \<open>simp_all add: quiet_def\<close>)
qed

lemma job_row_updated:
  assumes inv: "pm_inv u ep s" and old: "row_find pj_id (pd_jobs s) (pj_id j) = Some j0" and "pj_reports j = pj_reports j0"
    and s': "pd_jobs s' = row_upd pj_id j (pd_jobs s)" "pd_reports s' = pd_reports s" "pd_casts s' = pd_casts s" "pd_uuids s' = pd_uuids s"
  shows "pm_inv u ep s'"
proof -
  have j0: "j0 \<in> set (pd_jobs s)" "pj_id j0 = pj_id j" using old row_find_wf [OF pm_invD(1) [OF inv]] by blast+
  then have upd: "pd_jobs s' = map (\<lambda>x. if pj_id x = pj_id j then j else x) (pd_jobs s)"
    by (simp add: s'(1) row_upd_def) (metis image_eqI)
  note used = same_uuids(1) [OF s'(4), of u] and casts = same_uuids(2) [OF s'(4), of u]
  have lk: "linked ep x s' \<longleftrightarrow> linked ep x s" for x by (simp add: linked_def pm_reports_of_def s'(2))
  have "linked ep j s" using pm_invD(6) [OF inv j0(1)] assms(3) j0(2) by (simp add: linked_def)
  then have "\<forall>x \<in> set (pd_jobs s'). linked ep x s'" using pm_invD(6) [OF inv] by (auto simp: upd lk)
  moreover have "pj_id ` set (pd_jobs s') = pj_id ` set (pd_jobs s)"
    unfolding upd set_map image_image by (rule image_cong) simp_all
  moreover have "rows_wf pj_id (pd_jobs s')" unfolding s'(1) by (rule pm_jobs.wf_upd [OF pm_invD(1) [OF inv]])
  ultimately show ?thesis using pm_invD(2-5) [OF inv] by (simp add: pm_inv_def used casts s'(2,3))
qed

lemma update_inv:
  assumes run: "pm_job_update env pe i md s = (r, s')" and inv: "pm_inv u ep s"
  shows "pm_inv u ep s'"
proof (cases "s' = s")
  case False
  with run obtain j0 where j0: "row_find pj_id (pd_jobs s) i = Some j0" and
    s': "s' = s\<lparr>pd_jobs := row_upd pj_id (j0\<lparr>pj_callbackUri := new_uri md (pj_callbackUri j0),
      pj_authentication := new_auth md (pj_authentication j0)\<rparr>) (pd_jobs s)\<rparr>"
    by (auto simp: pm_job_update_def lock_resources_def bindS_def get_pm_job_def Let_def split: if_splits option.splits sum.splits)
  have "pj_id j0 = i" using j0 by (rule pm_jobs.lookup_key)
  with j0 show ?thesis by (intro job_row_updated [OF inv, of _ j0]) (simp_all add: s')
qed (use inv in simp)

lemma delete_reports_run:
  "forS (\<lambda>r. modS (\<lambda>s. s\<lparr>pd_reports := row_del pr_id (pr_id r) (pd_reports s)\<rparr>)) rs s =
     (Inr (), s\<lparr>pd_reports := filter (\<lambda>x. pr_id x \<notin> pr_id ` set rs) (pd_reports s)\<rparr>)"
proof (induction rs arbitrary: s)
  case (Cons r rs)
  have "filter (\<lambda>x. pr_id x \<notin> pr_id ` set rs) (row_del pr_id (pr_id r) (pd_reports s)) =
      filter (\<lambda>x. pr_id x \<notin> pr_id ` set (r # rs)) (pd_reports s)"
    by (auto simp: row_del_def intro!: filter_cong)
  with Cons show ?case by (simp add: bindS_def)
qed simp

lemma job_row_deleted:
  assumes inv: "pm_inv u ep s" and s': "pd_jobs s' = row_del pj_id i (pd_jobs s)"
      "pd_reports s' = filter (\<lambda>r. pr_jobId r \<noteq> i) (pd_reports s)" "pd_casts s' = pd_casts s" "pd_uuids s' = pd_uuids s"
  shows "pm_inv u ep s'"
proof -
  note used = same_uuids(1) [OF s'(4), of u] and casts = same_uuids(2) [OF s'(4), of u]
  have "linked ep j s'" if "j \<in> set (pd_jobs s)" "pj_id j \<noteq> i" for j
  proof -
    have "filter (\<lambda>r. pr_jobId r = pj_id j \<and> pr_jobId r \<noteq> i) (pd_reports s) = filter (\<lambda>r. pr_jobId r = pj_id j) (pd_reports s)"
      using that(2) by (intro filter_cong) auto
    with pm_invD(6) [OF inv that(1)] show ?thesis by (simp add: linked_def pm_reports_of_def row_filter_def s'(2) conj_commute)
  qed
  then have "\<forall>x \<in> set (pd_jobs s'). linked ep x s'" by (auto simp: s'(1) row_del_def)
  moreover have "rows_wf pj_id (pd_jobs s')" "rows_wf pr_id (pd_reports s')"
    using pm_invD(1,2) [OF inv] by (simp_all add: s' rows_wf_def row_del_def distinct_map_filter)
  moreover have "pj_id ` set (pd_jobs s') \<subseteq> used u s" "pr_jobId ` set (pd_reports s') \<subseteq> used u s"
    using pm_invD(3,4) [OF inv] by (auto simp: s' row_del_def)
  ultimately show ?thesis using pm_invD(5) [OF inv] by (simp add: pm_inv_def used casts s'(3))
qed

lemma delete_inv:
  assumes run: "pm_job_delete env pe i s = (r, s')" and inv: "pm_inv u ep s"
  shows "pm_inv u ep s'"
proof (cases "ev_lock env i \<and> row_find pj_id (pd_jobs s) i \<noteq> None")
  case False
  with run have "s' = s" by (auto simp: pm_job_delete_def lock_resources_def bindS_def get_pm_job_def split: if_splits option.splits)
  with inv show ?thesis by simp
next
  case True
  then obtain j where j: "row_find pj_id (pd_jobs s) i = Some j" by blast
  then have id: "pj_id j = i" by (rule pm_jobs.lookup_key)
  let ?rules = "whenS (pe_enabled pe) (delete_rules pe i (pj_metadata j))"
  have q: "keepsS quiet ?rules" by (intro quiet_whenS quiet_files)
  obtain x t where t: "?rules s = (x, t)" by (cases "?rules s") auto
  have inv_t: "pm_inv u ep t" using q t inv by (rule keeps_inv)
  show ?thesis
  proof (cases x)
    case (Inl e)
    with run True j id t have "s' = t" by (simp add: pm_job_delete_def lock_resources_def bindS_def get_pm_job_def)
    with inv_t show ?thesis by simp
  next
    case (Inr y)
    let ?rs = "pm_reports_of t i"
    have s': "s' = t\<lparr>pd_reports := filter (\<lambda>x. pr_id x \<notin> pr_id ` set ?rs) (pd_reports t), pd_jobs := row_del pj_id i (pd_jobs t)\<rparr>"
      using run True j id t Inr by (simp add: pm_job_delete_def lock_resources_def bindS_def get_pm_job_def delete_reports_run)
    have "pr_id r \<in> pr_id ` set ?rs \<longleftrightarrow> pr_jobId r = i" if "r \<in> set (pd_reports t)" for r
      using that pm_invD(2) [OF inv_t] by (auto simp: pm_reports_of_def row_filter_def rows_wf_def distinct_map inj_on_def)
    then have "filter (\<lambda>x. pr_id x \<notin> pr_id ` set ?rs) (pd_reports t) = filter (\<lambda>x. pr_jobId x \<noteq> i) (pd_reports t)"
      by (intro filter_cong) auto
    then show ?thesis by (intro job_row_deleted [OF inv_t, of _ i]) (simp_all add: s')
  qed
qed

subsection \<open>Alerts and reports\<close>

definition entries_ok :: "'n pm_db \<Rightarrow> (string, 'n report_entry list) dict \<Rightarrow> bool" where
  "entries_ok s d \<longleftrightarrow> list_all (\<lambda>(i, es). i \<in> pj_id ` set (pd_jobs s) \<and> es \<noteq> [] \<and> list_all (\<lambda>e. re_performanceValues e \<noteq> []) es) d"

lemma job_entry_ok:
  assumes "job_entry pe s now alert = Inr (i, e)"
  shows "i \<in> pj_id ` set (pd_jobs s) \<and> re_performanceValues e \<noteq> []"
proof -
  from assms obtain j where "fst (get_pm_job i s) = Inr j" and e: "re_performanceValues e \<noteq> []"
    unfolding job_entry_def by (auto simp: bindE_eq_Inr)
  then have "row_find pj_id (pd_jobs s) i = Some j" by (simp add: get_pm_job_def split: option.splits)
  then have "\<not> row_find pj_id (pd_jobs s) i = None" by simp
  with e show ?thesis by (simp only: row_find_None) blast
qed

lemma entries_ok_set:
  assumes "entries_ok s d" and "i \<in> pj_id ` set (pd_jobs s)" and "re_performanceValues e \<noteq> []"
  shows "entries_ok s (dict_set i (opt_list (map_of d i) @ [e]) d)"
proof -
  let ?es = "opt_list (map_of d i) @ [e]"
  have es: "list_all (\<lambda>e. re_performanceValues e \<noteq> []) ?es"
  proof (cases "map_of d i")
    case (Some es)
    then have "(i, es) \<in> set d" by (rule map_of_SomeD)
    with Some assms(1,3) show ?thesis by (force simp: entries_ok_def opt_list_def list_all_iff)
  qed (use assms(3) in \<open>simp add: opt_list_def\<close>)
  have sub: "set (dict_set i v d) \<subseteq> set d \<union> {(i, v)}" for v
    by (induction d) auto
  show ?thesis unfolding entries_ok_def list_all_iff
  proof
    fix p
    assume "p \<in> set (dict_set i ?es d)"
    with sub [of ?es] consider "p \<in> set d" | "p = (i, ?es)" by blast
    then show "case p of (i, es) \<Rightarrow> i \<in> pj_id ` set (pd_jobs s) \<and> es \<noteq> [] \<and> (\<forall>e \<in> set es. re_performanceValues e \<noteq> [])"
    proof cases
      case 1
      with assms(1) show ?thesis by (simp add: entries_ok_def list_all_iff)
    next
      case 2
      with assms(2) es show ?thesis by (simp add: list_all_iff)
    qed
  qed
qed

lemma collect_entries_ok: "collect_entries pe s now alerts d = Inr d' \<Longrightarrow> entries_ok s d \<Longrightarrow> entries_ok s d'"
proof (induction pe s now alerts d rule: collect_entries.induct)
  case (2 pe s now alert alerts d)
  then obtain ty where ty: "label alert ''function_type'' = Inr ty" by (auto simp: bindE_eq_Inr)
  show ?case
  proof (cases "ty = ''vnfpm''")
    case False
    with 2 ty show ?thesis by simp
  next
    case True
    show ?thesis
    proof (cases "job_entry pe s now alert")
      case (Inl e)
      with 2 ty True show ?thesis by (cases e) auto
    next
      case (Inr p)
      obtain i entry where p: "p = (i, entry)" by (cases p)
      with Inr have "entries_ok s (dict_set i (opt_list (map_of d i) @ [entry]) d)"
        using job_entry_ok entries_ok_set [OF "2.prems"(2)] by blast
      with 2 ty True Inr p show ?thesis by simp
    qed
  qed
qed simp

lemma make_reports_ok:
  assumes "make_reports env d s = (x, s')"
  shows "quiet s s' \<and> (\<exists>rs. x = Inr rs \<and> map (\<lambda>r. (pr_jobId r, pr_entries r)) rs = d)"
  using assms
proof (induction d arbitrary: s s' x)
  case Nil
  then show ?case by (simp add: quiet_def)
next
  case (Cons p d)
  obtain job es where p: "p = (job, es)" by (cases p)
  let ?t = "s\<lparr>pd_uuids := Suc (pd_uuids s)\<rparr>"
  obtain y t where y: "make_reports env d ?t = (y, t)" by (cases "make_reports env d ?t")
  from Cons.IH [OF this] obtain rs where rs: "quiet ?t t" "y = Inr rs" "map (\<lambda>r. (pr_jobId r, pr_entries r)) rs = d" by blast
  have "(x, s') = (Inr (\<lparr>pr_id = ev_uuid env (pd_uuids s), pr_jobId = job, pr_entries = es\<rparr> # rs), t)"
    using Cons.prems y rs(2) by (simp add: p bindS_def pm_uuid_def)
  with rs show ?case by (simp add: p quiet_def)
qed

lemma job_alert_inv:
  assumes run: "job_alert env pe alerts s = (r, s')" and inv: "pm_inv u ep s"
  shows "pm_inv u ep s'"
proof -
  let ?t = "s\<lparr>pd_ticks := Suc (pd_ticks s)\<rparr>" and ?now = "ev_clock env (pd_ticks s)"
  have inv_t: "pm_inv u ep ?t" by (rule quiet_inv [OF _ inv]) (simp add: quiet_def)
  show ?thesis
  proof (cases "\<exists>d. collect_entries pe ?t ?now alerts [] = Inr d \<and> d \<noteq> []")
    case False
    with run have "s' = ?t" by (auto simp: job_alert_def tryS_def bindS_def pm_now_def split: sum.splits if_splits)
    with inv_t show ?thesis by simp
  next
    case True
    then obtain d where d: "collect_entries pe ?t ?now alerts [] = Inr d" "d \<noteq> []" by blast
    obtain x t where x: "make_reports env d ?t = (x, t)" by (cases "make_reports env d ?t")
    from make_reports_ok [OF this] obtain rs where q: "quiet ?t t" "x = Inr rs"
      and rs: "map (\<lambda>r. (pr_jobId r, pr_entries r)) rs = d" by blast
    have s': "s' = t\<lparr>pd_casts := pd_casts t @ [StoreJobInfo rs]\<rparr>"
      using run d x q(2) by (simp add: job_alert_def tryS_def bindS_def pm_now_def cast_pm_def)
    have inv': "pm_inv u ep t" using q(1) inv_t by (rule quiet_inv)
    have "entries_ok ?t d" using collect_entries_ok [OF d(1)] by (simp add: entries_ok_def)
    then have "list_all (report_ok u t) rs"
      using pm_invD(3) [OF inv'] q(1)
      by (force simp: entries_ok_def report_ok_def list_all_iff report_time_def quiet_def rs [symmetric] split: list.split)
    then have "cast_ok u t (StoreJobInfo rs)" by (simp add: cast_ok_def)
    then show ?thesis using inv' same_uuids [of s' t u]
      by (simp add: pm_inv_def s' linked_def pm_reports_of_def)
  qed
qed

lemma report_row_added:
  assumes inv: "pm_inv u ep s" and new: "row_find pr_id (pd_reports s) (pr_id r) = None" and jid: "pr_jobId r \<in> used u s"
    and s': "pd_reports s' = row_add r (pd_reports s)" "pd_casts s' = pd_casts s" "pd_uuids s' = pd_uuids s"
    and jobs: "rows_wf pj_id (pd_jobs s')" "pj_id ` set (pd_jobs s') = pj_id ` set (pd_jobs s)"
      "\<And>j'. j' \<in> set (pd_jobs s') \<Longrightarrow> \<exists>j \<in> set (pd_jobs s). pj_id j' = pj_id j \<and> map rl_href (pj_reports j') =
         map rl_href (pj_reports j) @ (if pj_id j = pr_jobId r then [pm_report_href (pr_jobId r) (pr_id r) ep] else [])"
  shows "pm_inv u ep s'"
proof -
  note used = same_uuids(1) [OF s'(3), of u] and casts = same_uuids(2) [OF s'(3), of u]
  have of_job: "pm_reports_of s' i = pm_reports_of s i @ (if i = pr_jobId r then [r] else [])" for i
    by (simp add: pm_reports_of_def row_filter_def s'(1) row_add_def)
  have "linked ep j' s'" if j': "j' \<in> set (pd_jobs s')" for j'
  proof -
    obtain j where j: "j \<in> set (pd_jobs s)" "pj_id j' = pj_id j" "map rl_href (pj_reports j') =
         map rl_href (pj_reports j) @ (if pj_id j = pr_jobId r then [pm_report_href (pr_jobId r) (pr_id r) ep] else [])"
      using jobs(3) [OF j'] by blast
    with pm_invD(6) [OF inv j(1)] show ?thesis by (simp add: linked_def of_job)
  qed
  moreover have "rows_wf pr_id (pd_reports s')"
    using pm_invD(2) [OF inv] new by (simp add: s'(1) row_add_def rows_wf_def row_find_None)
  moreover have "pr_jobId ` set (pd_reports s') \<subseteq> used u s" using pm_invD(4) [OF inv] jid by (simp add: s'(1) row_add_def)
  ultimately show ?thesis using pm_invD(3,5) [OF inv] jobs(1,2) by (simp add: pm_inv_def used casts s'(2))
qed

lemma store_each_inv:
  assumes run: "store_job_info_each env r s = (x, s')" and ok: "report_ok u s r" and ep: "ev_endpoint env = ep" and inv: "pm_inv u ep s"
  shows "pm_inv u ep s' \<and> pd_uuids s \<le> pd_uuids s'"
proof (cases "row_find pr_id (pd_reports s) (pr_id r)")
  case (Some y)
  with run have "s' = s" by (simp add: store_job_info_each_def bindS_def store_report_def)
  with inv show ?thesis by simp
next
  case None
  obtain ts where ts: "report_time r = Inr ts" and jid: "pr_jobId r \<in> used u s" using ok by (auto simp: report_ok_def)
  let ?t = "s\<lparr>pd_reports := row_add r (pd_reports s)\<rparr>"
  show ?thesis
  proof (cases "row_find pj_id (pd_jobs s) (pr_jobId r)")
    case none: None
    have "s' = ?t" using run None none ts
      by (simp add: store_job_info_each_def bindS_def store_report_def update_job_reports_def update_report_def get_pm_job_def)
    moreover have "pm_inv u ep ?t"
    proof (rule report_row_added [OF inv None jid])
      fix j'
      assume j': "j' \<in> set (pd_jobs ?t)"
      then have "pj_id j' \<in> pj_id ` set (pd_jobs s)" by simp
      with none have "pj_id j' \<noteq> pr_jobId r" by (metis row_find_None)
      with j' show "\<exists>j \<in> set (pd_jobs s). pj_id j' = pj_id j \<and> map rl_href (pj_reports j') = map rl_href (pj_reports j) @
          (if pj_id j = pr_jobId r then [pm_report_href (pr_jobId r) (pr_id r) ep] else [])"
        by (intro bexI [of _ j']) simp_all
    qed (use pm_invD(1) [OF inv] in simp_all)
    ultimately show ?thesis by simp
  next
    case (Some j)
    then have j: "j \<in> set (pd_jobs s)" "pj_id j = pr_jobId r" using row_find_wf [OF pm_invD(1) [OF inv]] by blast+
    let ?j = "j\<lparr>pj_reports := pj_reports j @ [gen_job_report (pr_jobId r) r ts ep]\<rparr>"
    let ?t2 = "?t\<lparr>pd_jobs := row_upd pj_id ?j (pd_jobs s)\<rparr>"
    have "send_pm_job_notification env r ?j ts ?t2 = (x, s')" using run None Some ts ep
      by (simp add: store_job_info_each_def bindS_def store_report_def update_job_reports_def update_report_def get_pm_job_def)
    then have q: "quiet ?t2 s'" by (rule keepsSD [OF quiet_notify])
    have upd: "row_upd pj_id ?j (pd_jobs s) = map (\<lambda>y. if pj_id y = pr_jobId r then ?j else y) (pd_jobs s)"
      using j by (simp add: row_upd_def) (metis image_eqI)
    have "pm_inv u ep ?t2"
    proof (rule report_row_added [OF inv None jid])
      show "rows_wf pj_id (pd_jobs ?t2)" using pm_jobs.wf_upd [OF pm_invD(1) [OF inv], of ?j] by simp
      show "pj_id ` set (pd_jobs ?t2) = pj_id ` set (pd_jobs s)"
      proof -
        have "map pj_id (row_upd pj_id ?j (pd_jobs s)) = map pj_id (pd_jobs s)"
          unfolding upd map_map by (rule map_cong) (simp_all add: j(2))
        then show ?thesis by (metis pm_db.select_convs(2) pm_db.surjective pm_db.update_convs(2) set_map)
      qed
      show "\<exists>j0 \<in> set (pd_jobs s). pj_id j' = pj_id j0 \<and> map rl_href (pj_reports j') = map rl_href (pj_reports j0) @
          (if pj_id j0 = pr_jobId r then [pm_report_href (pr_jobId r) (pr_id r) ep] else [])" if "j' \<in> set (pd_jobs ?t2)" for j'
      proof (cases "j' = ?j")
        case True
        then show ?thesis using j by (intro bexI [of _ j]) (simp_all add: gen_job_report_def)
      next
        case False
        with that have "j' \<in> set (pd_jobs s)" "pj_id j' \<noteq> pr_jobId r" by (auto simp: upd split: if_splits)
        then show ?thesis by (intro bexI [of _ j']) simp_all
      qed
    qed simp_all
    with q have "pm_inv u ep s'" by (rule quiet_inv)
    with q show ?thesis by (simp add: quiet_def)
  qed
qed

lemma store_inv:
  "store_job_info env rs s = (x, s') \<Longrightarrow> list_all (report_ok u s) rs \<Longrightarrow> ev_endpoint env = ep \<Longrightarrow> pm_inv u ep s \<Longrightarrow> pm_inv u ep s'"
proof (induction rs arbitrary: s)
  case Nil
  then show ?case by (simp add: store_job_info_def)
next
  case (Cons r rs)
  obtain y t where y: "store_job_info_each env r s = (y, t)" by (cases "store_job_info_each env r s")
  have t: "pm_inv u ep t" "pd_uuids s \<le> pd_uuids t" using store_each_inv [OF y] Cons.prems by auto
  have "list_all (report_ok u t) rs"
    using Cons.prems(2) used_mono [OF t(2), of u] by (auto simp: report_ok_def list_all_iff)
  with Cons y t show ?case by (cases y) (auto simp: store_job_info_def bindS_def)
qed

lemma handle_inv:
  assumes run: "run_cast env c (s\<lparr>pd_casts := remove1 c (pd_casts s)\<rparr>) = (r, s')" and c: "c \<in> set (pd_casts s)"
    and ep: "ev_endpoint env = ep" and inv: "pm_inv u ep s"
  shows "pm_inv u ep s'"
proof -
  let ?t = "s\<lparr>pd_casts := remove1 c (pd_casts s)\<rparr>"
  have eq: "cast_ok u ?t = cast_ok u s" "used u ?t = used u s" using same_uuids [of ?t s u] by simp_all
  have "list_all (cast_ok u s) (remove1 c (pd_casts s))"
    using pm_invD(5) [OF inv] set_remove1_subset [of c "pd_casts s"] by (auto simp: list_all_iff)
  then have t: "pm_inv u ep ?t" using inv by (simp add: pm_inv_def eq linked_def pm_reports_of_def)
  show ?thesis
  proof (cases c)
    case (StoreJobInfo rs)
    have "cast_ok u ?t c" using pm_invD(5) [OF inv] c by (simp add: list_all_iff eq)
    with StoreJobInfo have "list_all (report_ok u ?t) rs" by (simp add: cast_ok_def)
    with store_inv [of env rs ?t r s' u ep] run StoreJobInfo ep t show ?thesis by (simp add: run_cast_def)
  next
    case (StoreThresholdStateInfo cs)
    with run keeps_inv [OF quiet_thresholds(4) _ t] show ?thesis by (simp add: run_cast_def)
  qed
qed

lemma threshold_alert_inv:
  assumes run: "threshold_alert pe alerts s = (r, s')" and inv: "pm_inv u ep s"
  shows "pm_inv u ep s'"
proof -
  have "s' = s \<or> (\<exists>cs. s' = s\<lparr>pd_casts := pd_casts s @ [StoreThresholdStateInfo cs]\<rparr>)"
    using run by (auto simp: threshold_alert_def tryS_def bindS_def cast_pm_def split: sum.splits if_splits)
  then show ?thesis
  proof (elim disjE exE)
    fix cs
    assume s': "s' = s\<lparr>pd_casts := pd_casts s @ [StoreThresholdStateInfo cs]\<rparr>"
    then have "used u s' = used u s" "cast_ok u s' = cast_ok u s" using same_uuids [of s' s u] by simp_all
    moreover have "cast_ok u s (StoreThresholdStateInfo cs)" by (simp add: cast_ok_def)
    ultimately show ?thesis using inv by (simp add: pm_inv_def s' linked_def pm_reports_of_def)
  qed (use inv in simp)
qed

lemma filter_key: "distinct (map f xs) \<Longrightarrow> r \<in> set xs \<Longrightarrow> P r \<Longrightarrow> filter (\<lambda>x. f x = f r \<and> P x) xs = [r]"
  by (induction xs) (auto simp: filter_empty_conv image_iff)

lemma pm_step_inv:
  assumes "pm_step u ep s s'" and "inj u" and inv: "pm_inv u ep s"
  shows "pm_inv u ep s'"
  using assms(1)
proof cases
  case (create env pe body r)
  show ?thesis by (rule create_inv [OF create(2,1) assms(2) inv])
next
  case (lost c)
  have "list_all (cast_ok u s) (remove1 c (pd_casts s))"
    using pm_invD(5) [OF inv] set_remove1_subset [of c "pd_casts s"] by (auto simp: list_all_iff)
  then show ?thesis using inv lost same_uuids [of s' s u] by (simp add: pm_inv_def linked_def pm_reports_of_def)
next
  case (other "is")
  then have "quiet s s'" by (simp add: quiet_def)
  then show ?thesis using inv by (rule quiet_inv)
qed (use inv in \<open>blast intro: update_inv delete_inv job_alert_inv handle_inv threshold_alert_inv keeps_inv [OF quiet_thresholds(1)]
    keeps_inv [OF quiet_thresholds(2)] keeps_inv [OF quiet_thresholds(3)]\<close>)+

lemma pm_steps_inv: "(pm_step u ep)\<^sup>*\<^sup>* (pm_init is) s \<Longrightarrow> inj u \<Longrightarrow> pm_inv u ep s"
proof (induction rule: rtranclp_induct)
  case base
  show ?case by (simp add: pm_init_def pm_inv_def rows_wf_def)
qed (blast intro: pm_step_inv)

subsection \<open>Properties\<close>


definition ex_job_request :: pm_job_request where
  "ex_job_request = \<lparr>jq_objectType = ''Vnf'', jq_objectInstanceIds = [''inst''], jq_subObjectInstanceIds = None,
     jq_performanceMetric = Some [''VCpuUsageMeanVnf.inst''], jq_performanceMetricGroup = None, jq_collectionPeriod = 5,
     jq_reportingPeriod = 10, jq_reportingBoundary = None, jq_callbackUri = ''cb'', jq_authentication = None,
     jq_metadata = Some ex_monitoring\<rparr>"

definition ex_job_id :: string where
  "ex_job_id = ev_uuid ex_env 0"

definition ex_job_alert :: json where
  "ex_job_alert = JObj [(''annotations'', JObj [(''value'', JNum 7)]),
     (''labels'', JObj [(''function_type'', JStr ''vnfpm''), (''job_id'', JStr ex_job_id), (''object_instance_id'', JStr ''inst''),
        (''metric'', JStr ''VCpuUsageMeanVnf.inst'')])]"

definition ex_pm_created :: "int pm_db" where
  "ex_pm_created = snd (pm_job_create ex_env ex_pm_env ex_job_request (pm_init [ex_fm_inst]))"

definition ex_pm_alerted :: "int pm_db" where
  "ex_pm_alerted = snd (job_alert ex_env ex_pm_env [ex_job_alert] ex_pm_created)"

definition ex_pm_stored :: "int pm_db" where
  "ex_pm_stored = snd (run_cast ex_env (hd (pd_casts ex_pm_alerted))
     (ex_pm_alerted\<lparr>pd_casts := remove1 (hd (pd_casts ex_pm_alerted)) (pd_casts ex_pm_alerted)\<rparr>))"

lemma ex_pm_reached: "(pm_step (ev_uuid ex_env) (ev_endpoint ex_env))\<^sup>*\<^sup>* (pm_init [ex_fm_inst]) ex_pm_stored"
proof -
  let ?R = "pm_step (ev_uuid ex_env) (ev_endpoint ex_env)"
  have "?R (pm_init [ex_fm_inst]) ex_pm_created" unfolding ex_pm_created_def by (metis pm_step.create prod.collapse)
  moreover have "?R ex_pm_created ex_pm_alerted" unfolding ex_pm_alerted_def by (metis pm_step.alert prod.collapse)
  moreover have "length (pd_casts ex_pm_alerted) = 1" by code_simp
  then have "hd (pd_casts ex_pm_alerted) \<in> set (pd_casts ex_pm_alerted)" by (intro hd_in_set) auto
  then have "?R ex_pm_alerted ex_pm_stored" unfolding ex_pm_stored_def by (metis pm_step.handle prod.collapse)
  ultimately show ?thesis by (meson converse_rtranclp_into_rtranclp rtranclp.rtrancl_refl)
qed


subsection \<open>What is lost\<close>

text \<open>A rule file that is not on the server any more makes the deletion of its job fail, although
  a comment in \<^verbatim>\<open>delete_rules\<close> says that it succeeds: paramiko raises OSError for the missing file,
  which is not among the exceptions that are ignored.\<close>

lemma missing_rule_file_blocks_delete:
  assumes "ev_lock env i" and "pe_enabled pe" and "row_find pj_id (pd_jobs s) i = Some j"
    and "get_access_info (pj_metadata j) = Inr (t # ts, uris)" and "rule_file t i \<notin> set (pd_files s)"
    and "pe_remove pe t i False = Inl (PyExc OSError m)"
  shows "pm_job_delete env pe i s = (Inl (PyExc OSError m), s)"
proof -
  have "pj_id j = i" using assms(3) by (rule pm_jobs.lookup_key)
  with assms show ?thesis
    by (simp add: pm_job_delete_def lock_resources_def bindS_def get_pm_job_def delete_rules_def ignoring_def tryS_def delete_rule_def)
qed

text \<open>A report for a job that was deleted in the meantime is stored before the job is looked up, and
  stays without a job.\<close>

lemma report_without_job_stays:
  assumes "row_find pj_id (pd_jobs s) (pr_jobId r) = None" and "row_find pr_id (pd_reports s) (pr_id r) = None"
    and "report_time r = Inr ts"
  shows "store_job_info env [r] s = (Inl (Sol PMJobNotExist), s\<lparr>pd_reports := row_add r (pd_reports s)\<rparr>)"
  using assms by (simp add: store_job_info_def store_job_info_each_def bindS_def store_report_def update_job_reports_def
      update_report_def get_pm_job_def)

text \<open>An alert for a job that does not exist ends its message: no report of the message is stored,
  whatever its other alerts are. (For thresholds the exception is caught.)\<close>

lemma missing_job_ends_message:
  assumes "label alert ''function_type'' = Inr ''vnfpm''" and "job_entry pe s now alert = Inl (Sol PMJobNotExist)"
  shows "\<exists>e. collect_entries pe s now (as @ alert # bs) d = Inl e"
  using assms by (induction as arbitrary: d) (auto simp: bindE_def split: sum.splits exn.splits)

end
