(* ===== verification/Versioned.thy ===== *)
theory Versioned
  imports Json
begin

section \<open>Versioned objects (sol\_refactored/objects/base.py)\<close>

text \<open>
  \<^verbatim>\<open>TackerObject.to_dict\<close>, \<^verbatim>\<open>from_dict\<close> and \<^verbatim>\<open>TackerPersistentObject.to_db_obj\<close>, \<^verbatim>\<open>from_db_obj\<close>, for every class: a
  class is the list of its fields, an object the dictionary of the attributes that are set, which
  may be set to None. The fields of oslo.versionedobjects convert a plain value to a primitive
  and back; they are parameters (\<open>prim_ops\<close>), as are \<^verbatim>\<open>jsonutils.dumps\<close> and \<^verbatim>\<open>loads\<close> and what a
  DateTimeField takes when the time of a row is assigned to it (\<open>po_time\<close>).
\<close>

datatype field_type = PlainF string | ObjF "(string \<times> field_type) list" | ListF "(string \<times> field_type) list"
  | DictF "(string \<times> field_type) list"

type_synonym obj_class = "(string \<times> field_type) list"

datatype 'v val = Plain 'v | PyNone | Obj "(string \<times> 'v val) list" | ListOf "'v val list" | DictOf "(string \<times> 'v val) list"

type_synonym 'v attrs = "(string \<times> 'v val) list"

record ('v, 't) prim_ops =
  po_to :: "string \<Rightarrow> 'v \<Rightarrow> json"
  po_from :: "string \<Rightarrow> json \<Rightarrow> 'v pyres"
  po_ok :: "string \<Rightarrow> 'v \<Rightarrow> bool"
  po_dumps :: "json \<Rightarrow> 't"
  po_loads :: "'t \<Rightarrow> json pyres"
  po_time :: "'v \<Rightarrow> 'v pyres"

definition no_method :: "string \<Rightarrow> exn" where
  "no_method m = PyExc AttributeError m"

fun as_obj :: "'v val \<Rightarrow> 'v attrs pyres" where
  "as_obj (Obj o') = Inr o'"
| "as_obj v = Inl (no_method ''to_dict'')"

fun as_list :: "'v val \<Rightarrow> 'v val list pyres" where
  "as_list (ListOf xs) = Inr xs"
| "as_list v = Inl (no_method ''__iter__'')"

fun val_items :: "'v val \<Rightarrow> (string \<times> 'v val) list pyres" where
  "val_items (DictOf xs) = Inr xs"
| "val_items v = Inl (no_method ''items'')"

fun as_plain :: "'v val \<Rightarrow> 'v pyres" where
  "as_plain (Plain v) = Inr v"
| "as_plain v = Inl (no_method ''to_primitive'')"

fun as_dict :: "json \<Rightarrow> jdict pyres" where
  "as_dict (JObj d) = Inr d"
| "as_dict j = Inl (attr_error j ''get'')"

definition set_attr :: "'v attrs \<Rightarrow> string \<Rightarrow> 'v val option" where
  "set_attr o' n = (case map_of o' n of Some PyNone \<Rightarrow> None | x \<Rightarrow> x)"

definition get_value :: "jdict \<Rightarrow> string \<Rightarrow> json option" where
  "get_value d n = (case map_of d n of Some JNull \<Rightarrow> None | x \<Rightarrow> x)"

fun to_dict :: "('v, 't) prim_ops \<Rightarrow> obj_class \<Rightarrow> 'v attrs \<Rightarrow> jdict pyres"
  and to_field :: "('v, 't) prim_ops \<Rightarrow> field_type \<Rightarrow> 'v val \<Rightarrow> json pyres" where
  "to_dict ops [] o' = Inr []"
| "to_dict ops ((n, f) # fs) o' = (case set_attr o' n of
      None \<Rightarrow> to_dict ops fs o'
    | Some v \<Rightarrow> bindE (to_field ops f v) (\<lambda>j. bindE (to_dict ops fs o') (\<lambda>d. Inr ((n, j) # d))))"
| "to_field ops (PlainF k) v = bindE (as_plain v) (\<lambda>x. Inr (po_to ops k x))"
| "to_field ops (ObjF fs) v = bindE (as_obj v) (\<lambda>x. bindE (to_dict ops fs x) (\<lambda>d. Inr (JObj d)))"
| "to_field ops (ListF fs) v = bindE (as_list v) (\<lambda>xs.
     bindE (mapE (\<lambda>x. bindE (as_obj x) (\<lambda>y. bindE (to_dict ops fs y) (\<lambda>d. Inr (JObj d)))) xs) (\<lambda>js. Inr (JArr js)))"
| "to_field ops (DictF fs) v = bindE (val_items v) (\<lambda>xs.
     bindE (mapE (\<lambda>(k, x). bindE (as_obj x) (\<lambda>y. bindE (to_dict ops fs y) (\<lambda>d. Inr (k, JObj d)))) xs) (\<lambda>d. Inr (JObj d)))"

fun from_dict :: "('v, 't) prim_ops \<Rightarrow> obj_class \<Rightarrow> jdict \<Rightarrow> 'v attrs pyres"
  and from_field :: "('v, 't) prim_ops \<Rightarrow> field_type \<Rightarrow> json \<Rightarrow> 'v val pyres" where
  "from_dict ops [] d = Inr []"
| "from_dict ops ((n, f) # fs) d = (case get_value d n of
      None \<Rightarrow> from_dict ops fs d
    | Some j \<Rightarrow> bindE (from_field ops f j) (\<lambda>v. bindE (from_dict ops fs d) (\<lambda>o'. Inr ((n, v) # o'))))"
| "from_field ops (PlainF k) j = bindE (po_from ops k j) (\<lambda>x. Inr (Plain x))"
| "from_field ops (ObjF fs) j = bindE (as_dict j) (\<lambda>d. bindE (from_dict ops fs d) (\<lambda>x. Inr (Obj x)))"
| "from_field ops (ListF fs) j = bindE (jlist j) (\<lambda>js.
     bindE (mapE (\<lambda>j. bindE (as_dict j) (\<lambda>d. bindE (from_dict ops fs d) (\<lambda>x. Inr (Obj x)))) js) (\<lambda>xs. Inr (ListOf xs)))"
| "from_field ops (DictF fs) j = bindE (jitems j) (\<lambda>js.
     bindE (mapE (\<lambda>(k, j). bindE (as_dict j) (\<lambda>d. bindE (from_dict ops fs d) (\<lambda>x. Inr (k, Obj x)))) js) (\<lambda>xs. Inr (DictOf xs)))"

subsection \<open>Rows\<close>

text \<open>A column is NULL, a JSON text, a primitive, or the time of a DateTimeField as it is. The
  name \<open>metadata\<close> is reserved by the models.\<close>

datatype ('v, 't) column = CNull | CText 't | CPrim json | CTime 'v

definition get_model_field :: "string \<Rightarrow> string" where
  "get_model_field name = (if name \<in> set [''metadata''] then name @ ''__'' else name)"

definition to_column :: "('v, 't) prim_ops \<Rightarrow> field_type \<Rightarrow> 'v val \<Rightarrow> ('v, 't) column pyres" where
  "to_column ops f v = (if f = PlainF ''DateTime'' then bindE (as_plain v) (\<lambda>x. Inr (CTime x))
     else bindE (to_field ops f v) (\<lambda>j. Inr (case f of PlainF k \<Rightarrow> CPrim j | _ \<Rightarrow> CText (po_dumps ops j))))"

fun to_db_obj :: "('v, 't) prim_ops \<Rightarrow> obj_class \<Rightarrow> 'v attrs \<Rightarrow> (string \<times> ('v, 't) column) list pyres" where
  "to_db_obj ops [] o' = Inr []"
| "to_db_obj ops ((n, f) # fs) o' = (case map_of o' n of
      None \<Rightarrow> to_db_obj ops fs o'
    | Some PyNone \<Rightarrow> bindE (to_db_obj ops fs o') (\<lambda>r. Inr ((get_model_field n, CNull) # r))
    | Some v \<Rightarrow> bindE (to_column ops f v) (\<lambda>c. bindE (to_db_obj ops fs o') (\<lambda>r. Inr ((get_model_field n, c) # r))))"

definition column_error :: exn where
  "column_error = PyExc TypeError ''column''"

definition from_column :: "('v, 't) prim_ops \<Rightarrow> field_type \<Rightarrow> ('v, 't) column \<Rightarrow> 'v val pyres" where
  "from_column ops f c = (case f of
      PlainF k \<Rightarrow>
        if k = ''DateTime'' then (case c of CTime v \<Rightarrow> bindE (po_time ops v) (\<lambda>x. Inr (Plain x)) | _ \<Rightarrow> Inl column_error)
        else (case c of CPrim j \<Rightarrow> from_field ops f j | _ \<Rightarrow> Inl column_error)
    | _ \<Rightarrow> (case c of CText t \<Rightarrow> bindE (po_loads ops t) (from_field ops f) | _ \<Rightarrow> Inl column_error))"

fun from_db_obj :: "('v, 't) prim_ops \<Rightarrow> obj_class \<Rightarrow> (string \<times> ('v, 't) column) list \<Rightarrow> 'v attrs pyres" where
  "from_db_obj ops [] r = Inr []"
| "from_db_obj ops ((n, f) # fs) r = (case map_of r (get_model_field n) of
      None \<Rightarrow> from_db_obj ops fs r
    | Some CNull \<Rightarrow> from_db_obj ops fs r
    | Some c \<Rightarrow> bindE (from_column ops f c) (\<lambda>v. bindE (from_db_obj ops fs r) (\<lambda>o'. Inr ((n, v) # o'))))"

subsection \<open>Types of objects\<close>

text \<open>The classes that can be declared: field names are distinct, also as columns. A typed object
  has values of the types of its fields; \<open>unset_none\<close> is the object in which an attribute that was
  set to None is not set.\<close>

fun class_ok :: "obj_class \<Rightarrow> bool" and field_ok :: "field_type \<Rightarrow> bool" where
  "class_ok [] = True"
| "class_ok ((n, f) # fs) = (n \<notin> fst ` set fs \<and> get_model_field n \<notin> get_model_field ` fst ` set fs \<and> field_ok f \<and> class_ok fs)"
| "field_ok (PlainF k) = True"
| "field_ok (ObjF fs) = class_ok fs"
| "field_ok (ListF fs) = class_ok fs"
| "field_ok (DictF fs) = class_ok fs"

fun typed_attrs :: "('v, 't) prim_ops \<Rightarrow> obj_class \<Rightarrow> 'v attrs \<Rightarrow> bool"
  and typed :: "('v, 't) prim_ops \<Rightarrow> field_type \<Rightarrow> 'v val \<Rightarrow> bool" where
  "typed_attrs ops [] o' = True"
| "typed_attrs ops ((n, f) # fs) o' = ((case set_attr o' n of None \<Rightarrow> True | Some v \<Rightarrow> typed ops f v) \<and> typed_attrs ops fs o')"
| "typed ops (PlainF k) v = (case v of Plain x \<Rightarrow> po_ok ops k x | _ \<Rightarrow> False)"
| "typed ops (ObjF fs) v = (case v of Obj o' \<Rightarrow> typed_attrs ops fs o' | _ \<Rightarrow> False)"
| "typed ops (ListF fs) v = (case v of ListOf xs \<Rightarrow> list_all (\<lambda>x. case x of Obj o' \<Rightarrow> typed_attrs ops fs o' | _ \<Rightarrow> False) xs | _ \<Rightarrow> False)"
| "typed ops (DictF fs) v =
     (case v of DictOf xs \<Rightarrow> list_all (\<lambda>(k, x). case x of Obj o' \<Rightarrow> typed_attrs ops fs o' | _ \<Rightarrow> False) xs | _ \<Rightarrow> False)"

fun unset_none :: "obj_class \<Rightarrow> 'v attrs \<Rightarrow> 'v attrs" and unset_val :: "field_type \<Rightarrow> 'v val \<Rightarrow> 'v val" where
  "unset_none [] o' = []"
| "unset_none ((n, f) # fs) o' = (case set_attr o' n of None \<Rightarrow> [] | Some v \<Rightarrow> [(n, unset_val f v)]) @ unset_none fs o'"
| "unset_val (PlainF k) v = v"
| "unset_val (ObjF fs) v = (case v of Obj o' \<Rightarrow> Obj (unset_none fs o') | _ \<Rightarrow> v)"
| "unset_val (ListF fs) v = (case v of ListOf xs \<Rightarrow> ListOf (map (\<lambda>x. case x of Obj o' \<Rightarrow> Obj (unset_none fs o') | _ \<Rightarrow> x) xs) | _ \<Rightarrow> v)"
| "unset_val (DictF fs) v =
     (case v of DictOf xs \<Rightarrow> DictOf (map (\<lambda>(k, x). (k, case x of Obj o' \<Rightarrow> Obj (unset_none fs o') | _ \<Rightarrow> x)) xs) | _ \<Rightarrow> v)"

text \<open>What the fields promise: the primitive of an accepted value is not null and is read back as the
  value, only accepted values are read, JSON texts are read back, and so are the times of rows.\<close>

definition prim_laws :: "('v, 't) prim_ops \<Rightarrow> bool" where
  "prim_laws ops \<longleftrightarrow> (\<forall>k v. po_ok ops k v \<longrightarrow> po_to ops k v \<noteq> JNull \<and> po_from ops k (po_to ops k v) = Inr v) \<and>
     (\<forall>k j v. po_from ops k j = Inr v \<longrightarrow> po_ok ops k v) \<and> (\<forall>j. po_loads ops (po_dumps ops j) = Inr j) \<and>
     (\<forall>v. po_ok ops ''DateTime'' v \<longrightarrow> po_time ops v = Inr v) \<and> (\<forall>v v'. po_time ops v = Inr v' \<longrightarrow> po_ok ops ''DateTime'' v')"

subsection \<open>Round trips\<close>

lemma mapE_round:
  assumes "\<And>x. x \<in> set xs \<Longrightarrow> \<exists>j. f x = Inr j \<and> g j = Inr (h x)"
  shows "\<exists>js. mapE f xs = Inr js \<and> mapE g js = Inr (map h xs)"
  using assms
proof (induction xs)
  case (Cons x xs)
  obtain j where "f x = Inr j" "g j = Inr (h x)" using Cons.prems [of x] by auto
  moreover obtain js where "mapE f xs = Inr js" "mapE g js = Inr (map h xs)" using Cons by auto
  ultimately show ?case by simp
qed simp

definition dict_rounds :: "('v, 't) prim_ops \<Rightarrow> obj_class \<Rightarrow> 'v attrs \<Rightarrow> bool" where
  "dict_rounds ops fs o' \<longleftrightarrow> (\<exists>d. to_dict ops fs o' = Inr d \<and> from_dict ops fs d = Inr (unset_none fs o'))"

definition field_rounds :: "('v, 't) prim_ops \<Rightarrow> field_type \<Rightarrow> 'v val \<Rightarrow> bool" where
  "field_rounds ops f v \<longleftrightarrow> (\<exists>j. to_field ops f v = Inr j \<and> j \<noteq> JNull \<and> from_field ops f j = Inr (unset_val f v))"

lemma case_obj: "(case x of Obj o' \<Rightarrow> P o' | _ \<Rightarrow> False) \<longleftrightarrow> (\<exists>o'. x = Obj o' \<and> P o')"
  by (cases x) auto

lemma object_field_rounds:
  assumes "\<And>o'. typed_attrs ops fs o' \<Longrightarrow> dict_rounds ops fs o'"
  shows "typed ops (ObjF fs) v \<Longrightarrow> field_rounds ops (ObjF fs) v" "typed ops (ListF fs) v \<Longrightarrow> field_rounds ops (ListF fs) v"
    "typed ops (DictF fs) v \<Longrightarrow> field_rounds ops (DictF fs) v"
proof -
  show "field_rounds ops (ObjF fs) v" if "typed ops (ObjF fs) v"
    using that assms by (cases v) (fastforce simp: field_rounds_def dict_rounds_def)+
  show "field_rounds ops (ListF fs) v" if t: "typed ops (ListF fs) v"
  proof -
    obtain xs where v: "v = ListOf xs" using t by (cases v) auto
    let ?to = "\<lambda>x. bindE (as_obj x) (\<lambda>y. bindE (to_dict ops fs y) (\<lambda>d. Inr (JObj d)))"
    let ?from = "\<lambda>j. bindE (as_dict j) (\<lambda>d. bindE (from_dict ops fs d) (\<lambda>x. Inr (Obj x)))"
    have "\<exists>js. mapE ?to xs = Inr js \<and> mapE ?from js = Inr (map (\<lambda>x. case x of Obj o' \<Rightarrow> Obj (unset_none fs o') | _ \<Rightarrow> x) xs)"
    proof (rule mapE_round)
      fix x
      assume "x \<in> set xs"
      then obtain y where "x = Obj y" "dict_rounds ops fs y" using t assms by (auto simp: v list_all_iff case_obj)
      then show "\<exists>j. ?to x = Inr j \<and> ?from j = Inr (case x of Obj o' \<Rightarrow> Obj (unset_none fs o') | _ \<Rightarrow> x)"
        by (auto simp: dict_rounds_def)
    qed
    then show ?thesis by (auto simp: field_rounds_def v)
  qed
  show "field_rounds ops (DictF fs) v" if t: "typed ops (DictF fs) v"
  proof -
    obtain xs where v: "v = DictOf xs" using t by (cases v) auto
    let ?to = "\<lambda>(k, x). bindE (as_obj x) (\<lambda>y. bindE (to_dict ops fs y) (\<lambda>d. Inr (k, JObj d)))"
    let ?from = "\<lambda>(k, j). bindE (as_dict j) (\<lambda>d. bindE (from_dict ops fs d) (\<lambda>x. Inr (k, Obj x)))"
    have "\<exists>js. mapE ?to xs = Inr js \<and> mapE ?from js = Inr (map (\<lambda>(k, x). (k, case x of Obj o' \<Rightarrow> Obj (unset_none fs o') | _ \<Rightarrow> x)) xs)"
    proof (rule mapE_round)
      fix p
      assume p: "p \<in> set xs"
      obtain k x where kx: "p = (k, x)" by (cases p)
      have "case p of (k, x) \<Rightarrow> case x of Obj o' \<Rightarrow> typed_attrs ops fs o' | _ \<Rightarrow> False"
        using bspec [OF _ p] t by (simp only: v typed.simps val.case list_all_iff)
      then obtain y where "x = Obj y" "dict_rounds ops fs y" using assms by (auto simp: kx case_obj)
      then show "\<exists>j. ?to p = Inr j \<and> ?from j = Inr (case p of (k, x) \<Rightarrow> (k, case x of Obj o' \<Rightarrow> Obj (unset_none fs o') | _ \<Rightarrow> x))"
        by (auto simp: dict_rounds_def kx)
    qed
    then show ?thesis by (auto simp: field_rounds_def v)
  qed
qed

lemma to_dict_keys: "to_dict ops fs o' = Inr d \<Longrightarrow> fst ` set d \<subseteq> fst ` set fs"
proof (induction fs arbitrary: d)
  case (Cons p fs)
  obtain n f where p: "p = (n, f)" by (cases p)
  show ?case
  proof (cases "set_attr o' n")
    case None
    with Cons p show ?thesis by auto
  next
    case (Some v)
    with Cons.prems p obtain j d' where "to_dict ops fs o' = Inr d'" "d = (n, j) # d'" by (auto simp: bindE_eq_Inr)
    with Cons.IH p show ?thesis by auto
  qed
qed simp

lemma from_dict_rounds:
  assumes "\<And>n f v. (n, f) \<in> set fs \<Longrightarrow> typed ops f v \<Longrightarrow> field_rounds ops f v" and "typed_attrs ops fs o'" and "class_ok fs"
  shows "\<exists>d. to_dict ops fs o' = Inr d \<and> (\<forall>D. (\<forall>n \<in> fst ` set fs. map_of D n = map_of d n) \<longrightarrow>
    from_dict ops fs D = Inr (unset_none fs o'))"
  using assms
proof (induction fs)
  case (Cons p fs)
  obtain n f where p: "p = (n, f)" by (cases p)
  obtain d where d: "to_dict ops fs o' = Inr d"
      "\<And>D. \<forall>n \<in> fst ` set fs. map_of D n = map_of d n \<Longrightarrow> from_dict ops fs D = Inr (unset_none fs o')"
    using Cons.IH Cons.prems p by fastforce
  have fresh: "n \<notin> fst ` set fs" and nd: "map_of d n = None"
    using Cons.prems(3) to_dict_keys [OF d(1)] p by (auto simp: map_of_eq_None_iff)
  show ?case
  proof (cases "set_attr o' n")
    case None
    then show ?thesis using d nd fresh p by (auto simp: get_value_def)
  next
    case (Some v)
    then have "field_rounds ops f v" using Cons.prems(1) [of n f v] Cons.prems(2) p by auto
    then obtain j where j: "to_field ops f v = Inr j" "j \<noteq> JNull" "from_field ops f j = Inr (unset_val f v)"
      by (auto simp: field_rounds_def)
    have "from_dict ops (p # fs) D = Inr (unset_none (p # fs) o')"
      if D: "\<forall>m \<in> fst ` set (p # fs). map_of D m = map_of ((n, j) # d) m" for D
    proof -
      have "map_of D n = Some j" using D p by simp
      then have "get_value D n = Some j" using j(2) by (cases j) (simp_all add: get_value_def)
      moreover have "\<forall>m \<in> fst ` set fs. map_of D m = map_of d m" using D fresh p by auto
      ultimately show ?thesis using d(2) [of D] j(3) Some p by simp
    qed
    then show ?thesis using d(1) j(1) Some p by (intro exI [of _ "(n, j) # d"]) simp
  qed
qed simp

lemma class_fields_ok: "class_ok fs \<Longrightarrow> (n, f) \<in> set fs \<Longrightarrow> field_ok f"
  by (induction fs) auto

lemma rounds:
  assumes "prim_laws ops"
  shows "field_ok f \<Longrightarrow> typed ops f v \<Longrightarrow> field_rounds ops f v"
proof (induction f arbitrary: v)
  case (PlainF k)
  then show ?case using assms by (cases v) (auto simp: field_rounds_def prim_laws_def)
next
  case (ObjF fs)
  have "dict_rounds ops fs o'" if "typed_attrs ops fs o'" for o'
    using from_dict_rounds [of fs ops o'] that ObjF class_fields_ok [of fs] unfolding dict_rounds_def by fastforce
  then show ?case using ObjF.prems(2) by (rule object_field_rounds)
next
  case (ListF fs)
  have "dict_rounds ops fs o'" if "typed_attrs ops fs o'" for o'
    using from_dict_rounds [of fs ops o'] that ListF class_fields_ok [of fs] unfolding dict_rounds_def by fastforce
  then show ?case using ListF.prems(2) by (rule object_field_rounds)
next
  case (DictF fs)
  have "dict_rounds ops fs o'" if "typed_attrs ops fs o'" for o'
    using from_dict_rounds [of fs ops o'] that DictF class_fields_ok [of fs] unfolding dict_rounds_def by fastforce
  then show ?case using DictF.prems(2) by (rule object_field_rounds)
qed

lemma dict_round:
  assumes "prim_laws ops" and "class_ok fs" and "typed_attrs ops fs o'"
  shows "dict_rounds ops fs o'"
proof -
  have fr: "\<And>n f v. (n, f) \<in> set fs \<Longrightarrow> typed ops f v \<Longrightarrow> field_rounds ops f v"
    using rounds [OF assms(1)] class_fields_ok [OF assms(2)] by blast
  have "\<exists>d. to_dict ops fs o' = Inr d \<and> (\<forall>D. (\<forall>n \<in> fst ` set fs. map_of D n = map_of d n) \<longrightarrow>
      from_dict ops fs D = Inr (unset_none fs o'))"
    by (rule from_dict_rounds) (use fr assms(2,3) in \<open>blast+\<close>)
  then show ?thesis unfolding dict_rounds_def by blast
qed

lemma column_round:
  assumes "prim_laws ops" and "field_ok f" and "typed ops f v"
  shows "\<exists>c. to_column ops f v = Inr c \<and> c \<noteq> CNull \<and> from_column ops f c = Inr (unset_val f v)"
proof (cases "f = PlainF ''DateTime''")
  case True
  then show ?thesis using assms(3) using assms(1) by (cases v) (auto simp: to_column_def from_column_def prim_laws_def)
next
  case False
  obtain j where "to_field ops f v = Inr j" "from_field ops f j = Inr (unset_val f v)"
    using rounds [OF assms] by (auto simp: field_rounds_def)
  then show ?thesis using False assms(1) by (cases f) (auto simp: to_column_def from_column_def prim_laws_def)
qed

lemma to_db_keys: "to_db_obj ops fs o' = Inr r \<Longrightarrow> fst ` set r \<subseteq> get_model_field ` fst ` set fs"
proof (induction fs arbitrary: r)
  case (Cons p fs)
  obtain n f where p: "p = (n, f)" by (cases p)
  consider "map_of o' n = None" | "map_of o' n = Some PyNone" | v where "map_of o' n = Some v" "v \<noteq> PyNone" by blast
  then have "to_db_obj ops fs o' = Inr r \<or> (\<exists>c r'. to_db_obj ops fs o' = Inr r' \<and> r = (get_model_field n, c) # r')"
  proof cases
    case (3 v)
    then show ?thesis using Cons.prems p by (cases v) (auto simp: bindE_eq_Inr)
  qed (use Cons.prems p in \<open>auto simp: bindE_eq_Inr\<close>)
  then show ?case
  proof (elim disjE exE conjE)
    fix c r'
    assume "to_db_obj ops fs o' = Inr r'" "r = (get_model_field n, c) # r'"
    then show ?thesis using Cons.IH [of r'] p by auto
  qed (use Cons.IH [of r] p in auto)
qed simp

lemma db_round:
  assumes "prim_laws ops" and "typed_attrs ops fs o'" and "class_ok fs"
  shows "\<exists>r. to_db_obj ops fs o' = Inr r \<and> (\<forall>R. (\<forall>n \<in> get_model_field ` fst ` set fs. map_of R n = map_of r n) \<longrightarrow>
    from_db_obj ops fs R = Inr (unset_none fs o'))"
  using assms(2,3)
proof (induction fs)
  case (Cons p fs)
  obtain n f where p: "p = (n, f)" by (cases p)
  let ?n = "get_model_field n"
  obtain r where r: "to_db_obj ops fs o' = Inr r"
      "\<And>R. \<forall>n \<in> get_model_field ` fst ` set fs. map_of R n = map_of r n \<Longrightarrow> from_db_obj ops fs R = Inr (unset_none fs o')"
    using Cons p by auto
  have fresh: "?n \<notin> get_model_field ` fst ` set fs" using Cons.prems(2) p by simp
  then have nr: "map_of r ?n = None" using to_db_keys [OF r(1)] by (auto simp: map_of_eq_None_iff)
  have tail: "from_db_obj ops fs R = Inr (unset_none fs o')"
    if "\<forall>m \<in> get_model_field ` fst ` set (p # fs). map_of R m = map_of ((?n, c) # r) m" for R c
  proof (intro r(2) ballI)
    fix m
    assume m: "m \<in> get_model_field ` fst ` set fs"
    then have "m \<in> get_model_field ` fst ` set (p # fs)" by auto
    then have "map_of R m = map_of ((?n, c) # r) m" using that by blast
    moreover have "m \<noteq> ?n" using m fresh by blast
    ultimately show "map_of R m = map_of r m" by simp
  qed
  consider "map_of o' n = None" | "map_of o' n = Some PyNone" | v where "map_of o' n = Some v" "v \<noteq> PyNone" by blast
  then show ?case
  proof cases
    case 1
    then show ?thesis using r nr p by (intro exI [of _ r]) (simp add: set_attr_def)
  next
    case 2
    then show ?thesis using r(1) tail [of _ CNull] p by (intro exI [of _ "(?n, CNull) # r"]) (simp add: set_attr_def)
  next
    case (3 v)
    then have a: "set_attr o' n = Some v" by (cases v) (simp_all add: set_attr_def)
    then obtain c where c: "to_column ops f v = Inr c" "c \<noteq> CNull" "from_column ops f c = Inr (unset_val f v)"
      using column_round [OF assms(1), of f v] Cons.prems p by auto
    have "to_db_obj ops (p # fs) o' = Inr ((?n, c) # r)" using 3 c(1) r(1) p by (cases v) simp_all
    moreover have "from_db_obj ops (p # fs) R = Inr (unset_none (p # fs) o')"
      if R: "\<forall>m \<in> get_model_field ` fst ` set (p # fs). map_of R m = map_of ((?n, c) # r) m" for R
    proof -
      have "map_of R ?n = Some c" using R p by simp
      then show ?thesis using tail [OF R] c(2,3) a p by (cases c) simp_all
    qed
    ultimately show ?thesis by blast
  qed
qed simp


text \<open>
  A class with every kind of field, an object of it with an attribute that is None, and fields that keep JSON values that
  are not null.
\<close>

definition json_ops :: "(json, json) prim_ops" where
  "json_ops = \<lparr>po_to = (\<lambda>k v. v), po_from = (\<lambda>k j. if j = JNull then Inl (type_error j) else Inr j), po_ok = (\<lambda>k v. v \<noteq> JNull),
     po_dumps = (\<lambda>j. j), po_loads = Inr, po_time = (\<lambda>v. if v = JNull then Inl (type_error v) else Inr v)\<rparr>"

definition sample_class :: obj_class where
  "sample_class = [(''id'', PlainF ''String''), (''metadata'', PlainF ''String''), (''startTime'', PlainF ''DateTime''),
     (''link'', ObjF [(''href'', PlainF ''String''), (''rel'', PlainF ''String'')]), (''items'', ListF [(''id'', PlainF ''String'')]),
     (''named'', DictF [(''id'', PlainF ''String'')])]"

definition sample_object :: "json attrs" where
  "sample_object = [(''id'', Plain (JStr ''i1'')), (''metadata'', PyNone), (''startTime'', Plain (JStr ''t0'')),
     (''link'', Obj [(''href'', Plain (JStr ''/x'')), (''rel'', PyNone)]), (''items'', ListOf [Obj [(''id'', Plain (JStr ''a''))]]),
     (''named'', DictOf [(''k'', Obj [(''id'', Plain (JStr ''b''))])])]"

lemma json_ops_laws: "prim_laws json_ops"
  by (auto simp: prim_laws_def json_ops_def split: if_splits)

lemma sample_class_ok: "class_ok sample_class"
  by (simp add: sample_class_def get_model_field_def)

lemma sample_object_typed: "typed_attrs json_ops sample_class sample_object"
  by (simp add: sample_class_def sample_object_def json_ops_def set_attr_def)


subsection \<open>Types\<close>

lemma mapE_all:
  assumes "mapE f xs = Inr ys" and "\<And>x y. x \<in> set xs \<Longrightarrow> f x = Inr y \<Longrightarrow> P y"
  shows "list_all P ys"
  using assms
proof (induction xs arbitrary: ys)
  case (Cons x xs)
  then obtain y ys' where "f x = Inr y" "mapE f xs = Inr ys'" "ys = y # ys'" by (auto simp: bindE_eq_Inr)
  moreover have "P y" using Cons.prems(2) [of x y] calculation(1) by simp
  moreover have "list_all P ys'" using Cons.IH [OF calculation(2)] Cons.prems(2) by (meson list.set_intros(2))
  ultimately show ?case by simp
qed simp

lemma set_attr_keys: "n \<notin> fst ` set o' \<Longrightarrow> set_attr o' n = None"
  unfolding set_attr_def by (drule map_of_eq_None_iff [THEN iffD2]) simp

lemma typed_attrs_cons: "n \<notin> fst ` set fs \<Longrightarrow> typed_attrs ops fs ((n, v) # o') = typed_attrs ops fs o'"
  by (induction fs) (auto simp: set_attr_def)

lemma from_dict_keys: "from_dict ops fs d = Inr o' \<Longrightarrow> fst ` set o' \<subseteq> fst ` set fs"
proof (induction fs arbitrary: o')
  case (Cons p fs)
  obtain n f where p: "p = (n, f)" by (cases p)
  show ?case
  proof (cases "get_value d n")
    case None
    with Cons p show ?thesis by auto
  next
    case (Some j)
    with Cons.prems p obtain v a where "from_dict ops fs d = Inr a" "o' = (n, v) # a" by (auto simp: bindE_eq_Inr)
    with Cons.IH p show ?thesis by auto
  qed
qed simp

lemma typed_not_none: "typed ops f v \<Longrightarrow> v \<noteq> PyNone"
  by (cases f) auto

lemma typed_extend:
  assumes "typed ops f v" and "n \<notin> fst ` set fs" and "typed_attrs ops fs o'"
  shows "typed_attrs ops ((n, f) # fs) ((n, v) # o')"
proof -
  have "set_attr ((n, v) # o') n = Some v" using typed_not_none [OF assms(1)] by (cases v) (simp_all add: set_attr_def)
  then show ?thesis using assms by (simp add: typed_attrs_cons)
qed

lemma from_dict_types:
  assumes "\<And>n f j v. (n, f) \<in> set fs \<Longrightarrow> from_field ops f j = Inr v \<Longrightarrow> typed ops f v" and "class_ok fs"
    and "from_dict ops fs d = Inr o'"
  shows "typed_attrs ops fs o'"
  using assms
proof (induction fs arbitrary: o')
  case (Cons p fs)
  obtain n f where p: "p = (n, f)" by (cases p)
  have fresh: "n \<notin> fst ` set fs" and ok: "class_ok fs" using Cons.prems(2) p by auto
  have IH: "typed_attrs ops fs a" if "from_dict ops fs d = Inr a" for a
    using Cons.IH [OF _ ok that] Cons.prems(1) by (meson list.set_intros(2))
  show ?case
  proof (cases "get_value d n")
    case None
    then have a: "from_dict ops fs d = Inr o'" using Cons.prems(3) p by simp
    then have "set_attr o' n = None" using from_dict_keys fresh by (intro set_attr_keys) blast
    then show ?thesis using IH [OF a] p by simp
  next
    case (Some j)
    with Cons.prems(3) p obtain v a where a: "from_field ops f j = Inr v" "from_dict ops fs d = Inr a" "o' = (n, v) # a"
      by (auto simp: bindE_eq_Inr)
    have "typed ops f v" using Cons.prems(1) [of n f j v] a(1) p by simp
    then show ?thesis using typed_extend [OF _ fresh IH [OF a(2)]] a(3) p by simp
  qed
qed simp

lemma object_field_types:
  assumes "\<And>d o'. from_dict ops fs d = Inr o' \<Longrightarrow> typed_attrs ops fs o'"
  shows "from_field ops (ObjF fs) j = Inr v \<Longrightarrow> typed ops (ObjF fs) v" "from_field ops (ListF fs) j = Inr v \<Longrightarrow> typed ops (ListF fs) v"
    "from_field ops (DictF fs) j = Inr v \<Longrightarrow> typed ops (DictF fs) v"
proof -
  show "typed ops (ObjF fs) v" if "from_field ops (ObjF fs) j = Inr v"
    using that assms by (auto simp: bindE_eq_Inr)
  show "typed ops (ListF fs) v" if a: "from_field ops (ListF fs) j = Inr v"
  proof -
    obtain js xs where x: "mapE (\<lambda>j. bindE (as_dict j) (\<lambda>d. bindE (from_dict ops fs d) (\<lambda>x. Inr (Obj x)))) js = Inr xs" "v = ListOf xs"
      using a by (auto simp: bindE_eq_Inr)
    have "list_all (\<lambda>x. case x of Obj o' \<Rightarrow> typed_attrs ops fs o' | _ \<Rightarrow> False) xs"
      by (rule mapE_all [OF x(1)]) (auto simp: bindE_eq_Inr assms)
    then show ?thesis using x(2) by simp
  qed
  show "typed ops (DictF fs) v" if a: "from_field ops (DictF fs) j = Inr v"
  proof -
    obtain js xs where x: "mapE (\<lambda>(k, j). bindE (as_dict j) (\<lambda>d. bindE (from_dict ops fs d) (\<lambda>x. Inr (k, Obj x)))) js = Inr xs"
        "v = DictOf xs"
      using a by (auto simp: bindE_eq_Inr)
    have "list_all (\<lambda>(k, x). case x of Obj o' \<Rightarrow> typed_attrs ops fs o' | _ \<Rightarrow> False) xs"
      by (rule mapE_all [OF x(1)]) (auto simp: bindE_eq_Inr assms)
    then show ?thesis using x(2) by simp
  qed
qed

lemma field_types:
  assumes "prim_laws ops"
  shows "field_ok f \<Longrightarrow> from_field ops f j = Inr v \<Longrightarrow> typed ops f v"
proof (induction f arbitrary: j v)
  case (PlainF k)
  then show ?case using assms by (auto simp: bindE_eq_Inr prim_laws_def)
next
  case (ObjF fs)
  have "typed_attrs ops fs o'" if "from_dict ops fs d = Inr o'" for d o'
    using from_dict_types [OF _ _ that] ObjF class_fields_ok [of fs] by fastforce
  then show ?case using ObjF.prems(2) by (rule object_field_types)
next
  case (ListF fs)
  have "typed_attrs ops fs o'" if "from_dict ops fs d = Inr o'" for d o'
    using from_dict_types [OF _ _ that] ListF class_fields_ok [of fs] by fastforce
  then show ?case using ListF.prems(2) by (rule object_field_types)
next
  case (DictF fs)
  have "typed_attrs ops fs o'" if "from_dict ops fs d = Inr o'" for d o'
    using from_dict_types [OF _ _ that] DictF class_fields_ok [of fs] by fastforce
  then show ?case using DictF.prems(2) by (rule object_field_types)
qed

lemma column_types:
  assumes "prim_laws ops" and "field_ok f" and "from_column ops f c = Inr v"
  shows "typed ops f v"
  using assms field_types [OF assms(1,2)]
  by (cases f; cases c) (auto simp: from_column_def prim_laws_def bindE_eq_Inr split: if_splits)

lemma from_db_keys: "from_db_obj ops fs r = Inr o' \<Longrightarrow> fst ` set o' \<subseteq> fst ` set fs"
proof (induction fs arbitrary: o')
  case (Cons p fs)
  obtain n f where p: "p = (n, f)" by (cases p)
  consider "from_db_obj ops fs r = Inr o'" | v a where "from_db_obj ops fs r = Inr a" "o' = (n, v) # a"
    using Cons.prems p by (cases "map_of r (get_model_field n)") (auto simp: bindE_eq_Inr split: column.splits)
  then show ?case using Cons.IH p by cases auto
qed simp

lemma from_db_types:
  assumes "prim_laws ops" and "class_ok fs" and "from_db_obj ops fs r = Inr o'"
  shows "typed_attrs ops fs o'"
  using assms(2,3)
proof (induction fs arbitrary: o')
  case (Cons p fs)
  obtain n f where p: "p = (n, f)" by (cases p)
  have fresh: "n \<notin> fst ` set fs" and ok: "class_ok fs" "field_ok f" using Cons.prems(1) p by auto
  consider "from_db_obj ops fs r = Inr o'"
    | c v a where "from_column ops f c = Inr v" "from_db_obj ops fs r = Inr a" "o' = (n, v) # a"
    using Cons.prems p by (cases "map_of r (get_model_field n)") (auto simp: bindE_eq_Inr split: column.splits)
  then show ?case
  proof cases
    case 1
    then have "set_attr o' n = None" using from_db_keys fresh by (intro set_attr_keys) blast
    then show ?thesis using Cons.IH [OF ok(1) 1] p by simp
  next
    case 2
    then show ?thesis using typed_extend [OF column_types [OF assms(1) ok(2)] fresh Cons.IH [OF ok(1)]] p by simp
  qed
qed simp



end
