(* ===== verification/Api_Front.thy ===== *)
theory Api_Front
  imports Json
begin

section \<open>The front of the API server\<close>

text \<open>
  \<^verbatim>\<open>api/api_version.py\<close>, \<^verbatim>\<open>api/wsgi.py\<close>, \<^verbatim>\<open>api/router.py\<close> and \<^verbatim>\<open>api/validator.py\<close>: versions, the routes, and what happens to a request
  before and after its handler. A handler is a function on a state of any type. The negotiation of the library webob
  (\<open>sq_offers\<close>), the parsed body, the check of a policy, the JSON writer and the codes of exceptions from other parts of Tacker
  are parameters. Messages are not translated. A property is in Api\_Front\_Props.
\<close>

subsection \<open>Versions\<close>

datatype api_version = APIVersion (ver_major: nat) (ver_minor: nat) (ver_patch: nat)

text \<open>\<^verbatim>\<open>[1-9]\d*\<close>, and the same or a single zero.\<close>

definition positive_number :: "string \<Rightarrow> bool" where
  "positive_number s = (s \<noteq> [] \<and> list_all digit s \<and> hd s \<noteq> CHR ''0'')"

definition plain_number :: "string \<Rightarrow> bool" where
  "plain_number s = (positive_number s \<or> s = ''0'')"

definition number_value :: "string \<Rightarrow> nat" where
  "number_value s = foldl (\<lambda>n c. 10 * n + ((of_char c :: nat) - 48)) 0 s"

text \<open>The \<^verbatim>\<open>$\<close> of the pattern also matches before a newline at the end.\<close>

definition before_newline :: "string \<Rightarrow> string" where
  "before_newline s = (if s \<noteq> [] \<and> last s = CHR 0x0A then butlast s else s)"

definition match_version_text :: "string \<Rightarrow> api_version option" where
  "match_version_text s = (case split_char CHR ''.'' (before_newline s) of
      [a, b, c] \<Rightarrow> if positive_number a \<and> plain_number b \<and> plain_number c
        then Some (APIVersion (number_value a) (number_value b) (number_value c)) else None
    | _ \<Rightarrow> None)"

definition get_version_id :: "string \<Rightarrow> string pyres" where
  "get_version_id version_string =
     (if CHR ''-'' \<notin> set version_string then Inr version_string
      else case split_char CHR ''-'' version_string of
          [a, b] \<Rightarrow> if take 5 b = ''impl:'' then Inr a else Inl (Sol (InvalidAPIVersionString version_string))
        | _ \<Rightarrow> Inl (Sol (InvalidAPIVersionString version_string)))"

definition new_api_version :: "string option \<Rightarrow> string list option \<Rightarrow> api_version pyres" where
  "new_api_version version_string supported_versions = (case version_string of
      None \<Rightarrow> if supported_versions = None then Inr (APIVersion 0 0 0) else Inl (Sol APIVersionMissing)
    | Some s \<Rightarrow> bindE (get_version_id s) (\<lambda>i. case match_version_text i of
        None \<Rightarrow> Inl (Sol (InvalidAPIVersionString i))
      | Some v \<Rightarrow> if (case supported_versions of None \<Rightarrow> False | Some vs \<Rightarrow> i \<notin> set vs) then Inl (Sol (APIVersionNotSupported i)) else Inr v))"

definition version_str :: "api_version \<Rightarrow> string" where
  "version_str v = show_nat (ver_major v) @ ''.'' @ show_nat (ver_minor v) @ ''.'' @ show_nat (ver_patch v)"

definition is_null :: "api_version \<Rightarrow> bool" where
  "is_null v = ((ver_major v, ver_minor v, ver_patch v) = (0, 0, 0))"

text \<open>\<open>__lt__\<close>, \<open>__le__\<close> and the other comparisons.\<close>

definition ver_lt :: "api_version \<Rightarrow> api_version \<Rightarrow> bool" where
  "ver_lt v w = (ver_major v < ver_major w \<or> ver_major v = ver_major w \<and>
     (ver_minor v < ver_minor w \<or> ver_minor v = ver_minor w \<and> ver_patch v < ver_patch w))"

definition ver_le :: "api_version \<Rightarrow> api_version \<Rightarrow> bool" where
  "ver_le v w = (ver_lt v w \<or> v = w)"

instantiation api_version :: linorder
begin

definition less_api_version :: "api_version \<Rightarrow> api_version \<Rightarrow> bool" where
  "less_api_version = ver_lt"

definition less_eq_api_version :: "api_version \<Rightarrow> api_version \<Rightarrow> bool" where
  "less_eq_api_version = ver_le"

instance
proof
  fix u v w :: api_version
  show "u < v \<longleftrightarrow> u \<le> v \<and> \<not> v \<le> u"
    by (cases u; cases v) (auto simp: less_api_version_def less_eq_api_version_def ver_le_def ver_lt_def)
  show "u \<le> u"
    by (simp add: less_eq_api_version_def ver_le_def)
  show "u \<le> v \<Longrightarrow> v \<le> w \<Longrightarrow> u \<le> w"
    by (cases u; cases v; cases w) (auto simp: less_eq_api_version_def ver_le_def ver_lt_def)
  show "u \<le> v \<Longrightarrow> v \<le> u \<Longrightarrow> u = v"
    by (cases u; cases v) (auto simp: less_eq_api_version_def ver_le_def ver_lt_def)
  show "u \<le> v \<or> v \<le> u"
    by (cases u; cases v) (auto simp: less_eq_api_version_def ver_le_def ver_lt_def)
qed

end

definition ver_matches :: "api_version \<Rightarrow> api_version \<Rightarrow> api_version \<Rightarrow> bool" where
  "ver_matches v min_version max_version =
     (if is_null v then False
      else if is_null max_version \<and> is_null min_version then True
      else if is_null max_version then min_version \<le> v
      else if is_null min_version then v \<le> max_version
      else min_version \<le> v \<and> v \<le> max_version)"

definition v1_versions :: "string list" where
  "v1_versions = [''1.3.0'']"

definition v2_versions :: "string list" where
  "v2_versions = [''2.0.0'']"

definition v1_fm_versions :: "string list" where
  "v1_fm_versions = [''1.3.0'']"

definition v2_pm_versions :: "string list" where
  "v2_pm_versions = [''2.1.0'']"

subsection \<open>Routes\<close>

datatype path_part = Lit string | Var string

type_synonym route = "path_part list \<times> (string \<times> string) list"

definition lcm_routes :: "route list" where
  "lcm_routes =
     [([Lit ''vnf_instances''], [(''GET'', ''index''), (''POST'', ''create'')]),
      ([Lit ''vnf_instances'', Var ''id''], [(''DELETE'', ''delete''), (''GET'', ''show''), (''PATCH'', ''update'')]),
      ([Lit ''vnf_instances'', Var ''id'', Lit ''instantiate''], [(''POST'', ''instantiate'')]),
      ([Lit ''vnf_instances'', Var ''id'', Lit ''heal''], [(''POST'', ''heal'')]),
      ([Lit ''vnf_instances'', Var ''id'', Lit ''terminate''], [(''POST'', ''terminate'')]),
      ([Lit ''vnf_instances'', Var ''id'', Lit ''scale''], [(''POST'', ''scale'')]),
      ([Lit ''vnf_instances'', Var ''id'', Lit ''change_ext_conn''], [(''POST'', ''change_ext_conn'')]),
      ([Lit ''vnf_instances'', Var ''id'', Lit ''change_vnfpkg''], [(''POST'', ''change_vnfpkg'')]),
      ([Lit ''api_versions''], [(''GET'', ''api_versions'')]),
      ([Lit ''subscriptions''], [(''GET'', ''subscription_list''), (''POST'', ''subscription_create'')]),
      ([Lit ''subscriptions'', Var ''id''], [(''GET'', ''subscription_show''), (''DELETE'', ''subscription_delete'')]),
      ([Lit ''vnf_lcm_op_occs''], [(''GET'', ''lcm_op_occ_list'')]),
      ([Lit ''vnf_lcm_op_occs'', Var ''id'', Lit ''retry''], [(''POST'', ''lcm_op_occ_retry'')]),
      ([Lit ''vnf_lcm_op_occs'', Var ''id'', Lit ''rollback''], [(''POST'', ''lcm_op_occ_rollback'')]),
      ([Lit ''vnf_lcm_op_occs'', Var ''id'', Lit ''fail''], [(''POST'', ''lcm_op_occ_fail'')]),
      ([Lit ''vnf_lcm_op_occs'', Var ''id''], [(''GET'', ''lcm_op_occ_show''), (''DELETE'', ''lcm_op_occ_delete'')])]"

definition versions_routes :: "route list" where
  "versions_routes = [([Lit ''api_versions''], [(''GET'', ''index'')])]"

definition fm_routes :: "route list" where
  "fm_routes =
     [([Lit ''alarms''], [(''GET'', ''index'')]),
      ([Lit ''alarms'', Var ''id''], [(''GET'', ''show''), (''PATCH'', ''update'')]),
      ([Lit ''subscriptions''], [(''GET'', ''subscription_list''), (''POST'', ''subscription_create'')]),
      ([Lit ''subscriptions'', Var ''id''], [(''GET'', ''subscription_show''), (''DELETE'', ''subscription_delete'')])]"

definition pm_routes :: "route list" where
  "pm_routes =
     [([Lit ''pm_jobs''], [(''POST'', ''create''), (''GET'', ''index'')]),
      ([Lit ''pm_jobs'', Var ''id''], [(''PATCH'', ''update''), (''GET'', ''show''), (''DELETE'', ''delete'')]),
      ([Lit ''pm_jobs'', Var ''id'', Lit ''reports'', Var ''report_id''], [(''GET'', ''report_get'')]),
      ([Lit ''thresholds''], [(''POST'', ''create_threshold''), (''GET'', ''index_threshold'')]),
      ([Lit ''thresholds'', Var ''thresholdId''], [(''PATCH'', ''update_threshold''), (''GET'', ''show_threshold''),
        (''DELETE'', ''delete_threshold'')])]"

definition server_notification_routes :: "route list" where
  "server_notification_routes =
     [([Lit ''vnf_instances'', Var ''vnf_instance_id'', Lit ''servers'', Var ''server_id'', Lit ''notify''], [(''POST'', ''notify'')])]"

definition all_methods :: "string list" where
  "all_methods = [''HEAD'', ''GET'', ''POST'', ''PUT'', ''PATCH'', ''DELETE'']"

text \<open>The parts of a path against a pattern: a variable takes one part that is not empty.\<close>

fun match_path :: "path_part list \<Rightarrow> string list \<Rightarrow> (string \<times> string) list option" where
  "match_path [] [] = Some []"
| "match_path (Lit l # ps) (x # xs) = (if x = l then match_path ps xs else None)"
| "match_path (Var v # ps) (x # xs) = (if x = [] then None else map_option (\<lambda>args. (v, x) # args) (match_path ps xs))"
| "match_path _ _ = None"

definition route_action :: "(string \<times> string) list \<Rightarrow> string \<Rightarrow> string option" where
  "route_action methods method = (case map_of methods method of
      Some action \<Rightarrow> Some action | None \<Rightarrow> if method \<in> set all_methods then Some ''reject'' else None)"

text \<open>The first route that fits path and method.\<close>

fun find_route :: "route list \<Rightarrow> string list \<Rightarrow> string \<Rightarrow> (string \<times> (string \<times> string) list) option" where
  "find_route [] path method = None"
| "find_route ((pattern, methods) # rs) path method =
     (case (match_path pattern path, route_action methods method) of
        (Some args, Some action) \<Rightarrow> Some (action, args)
      | _ \<Rightarrow> find_route rs path method)"

subsection \<open>Requests and responses\<close>

record sol_request =
  sq_method :: string
  sq_path :: "string list"
  sq_version :: "string option"
  sq_accept :: string
  sq_offers :: "string list \<Rightarrow> string list"
  sq_content_type :: string
  sq_body :: string
  sq_json :: "json option"

record sol_response =
  rp_status :: int
  rp_body :: "json option"
  rp_headers :: "(string, string) dict"

record sol_args =
  ra_path :: "(string \<times> string) list"
  ra_body :: "json option"

record 'w sol_controller =
  sc_versions :: "string \<Rightarrow> string list option"
  sc_content_types :: "string \<Rightarrow> string list"
  sc_accept :: "string \<Rightarrow> string list"
  sc_handler :: "string \<Rightarrow> sol_request \<Rightarrow> api_version \<Rightarrow> sol_args \<Rightarrow> ('w, exn, sol_response) sem"
  sc_defaults :: "(string, string) dict"
  sc_policy :: "(string \<Rightarrow> string) option"

record sol_config =
  cf_can :: "string \<Rightarrow> unit pyres"
  cf_enhanced :: bool
  cf_max_content_length :: nat
  cf_dump :: "json \<Rightarrow> string"
  cf_code :: "exn \<Rightarrow> int option"
  cf_text :: "exn \<Rightarrow> string"

text \<open>What the server gets back: a response, the fixed answer 400, or an exception that nothing catches.\<close>

datatype wsgi_outcome = Answer int "string option" "(string, string) dict" | UnknownError | Escapes exn

definition setdefault :: "string \<Rightarrow> string \<Rightarrow> (string, string) dict \<Rightarrow> (string, string) dict" where
  "setdefault k v d = (if dict_has d k then d else dict_set k v d)"

definition set_default_to_response :: "'w sol_controller \<Rightarrow> sol_response \<Rightarrow> sol_response" where
  "set_default_to_response ctl r = r\<lparr>rp_headers := fold (\<lambda>(k, v). setdefault k v) (sc_defaults ctl) (rp_headers r)\<rparr>"

definition serialize :: "sol_config \<Rightarrow> string \<Rightarrow> sol_response \<Rightarrow> wsgi_outcome pyres" where
  "serialize cf content_type r =
     (let headers = setdefault ''content_type'' content_type (rp_headers r) in
      case rp_body r of
        None \<Rightarrow> Inr (Answer (rp_status r) None headers)
      | Some b \<Rightarrow>
          if map_of headers ''content_type'' \<in> {Some ''text/plain'', Some ''application/zip''}
          then (case b of JStr s \<Rightarrow> Inr (Answer (rp_status r) (Some s) headers) | j \<Rightarrow> Inl (type_error j))
          else (let body = cf_dump cf b in
            if length body > cf_max_content_length cf then Inl (Sol (ResponseTooBig (int (cf_max_content_length cf))))
            else Inr (Answer (rp_status r) (Some body) headers)))"

definition problem_json :: "problem_details \<Rightarrow> json" where
  "problem_json p = JObj ([(''status'', JNum (pd_status p)), (''detail'', JStr (pd_detail p))] @
     (case pd_title p of None \<Rightarrow> [] | Some t \<Rightarrow> [(''title'', JStr t)]))"

definition error_response :: "sol_config \<Rightarrow> exn \<Rightarrow> sol_response" where
  "error_response cf ex = (case ex of
      Sol e \<Rightarrow> \<lparr>rp_status = status e, rp_body = Some (problem_json (make_problem_details e)), rp_headers = []\<rparr>
    | _ \<Rightarrow> let code = (case cf_code cf ex of Some c \<Rightarrow> c | None \<Rightarrow> 500) in
        \<lparr>rp_status = code, rp_body = Some (JObj [(''status'', JNum code), (''detail'', JStr (cf_text cf ex))]), rp_headers = []\<rparr>)"

subsection \<open>What happens to a request\<close>

definition deserialize_body :: "'w sol_controller \<Rightarrow> sol_request \<Rightarrow> string \<Rightarrow> json option pyres" where
  "deserialize_body ctl req action =
     (if sq_method req \<notin> {''POST'', ''PATCH'', ''PUT''} \<or> sq_body req = [] then Inr None
      else let allowed = sc_content_types ctl action;
               content_type = (if sq_content_type req = [] then hd allowed else sq_content_type req) in
        if sq_content_type req \<noteq> [] \<and> content_type \<notin> set allowed then Inl (Sol (NotSupportedContentType content_type))
        else if content_type = ''application/zip'' then Inr (Some (JStr (sq_body req)))
        else case sq_json req of Some j \<Rightarrow> Inr (if j = JNull then None else Some j) | None \<Rightarrow> Inl (Sol MalformedRequestBody))"

definition best_match_accept :: "sol_request \<Rightarrow> string list \<Rightarrow> string pyres" where
  "best_match_accept req content_types = (case sq_offers req content_types of
      [] \<Rightarrow> Inl (Sol (NotAllowedContentType (sq_accept req))) | x # xs \<Rightarrow> Inr x)"

definition deserialize_request :: "'w sol_controller \<Rightarrow> sol_request \<Rightarrow> string \<Rightarrow> (string \<times> string) list \<Rightarrow> (sol_args \<times> string) pyres" where
  "deserialize_request ctl req action path_args =
     bindE (deserialize_body ctl req action) (\<lambda>body.
     bindE (best_match_accept req (sc_accept ctl action)) (\<lambda>accept.
       Inr (\<lparr>ra_path = path_args, ra_body = body\<rparr>, accept)))"

definition enhanced_policy_actions :: "string list" where
  "enhanced_policy_actions = map (\<lambda>a. ''os_nfv_orchestration_api_v2:vnf_instances:'' @ a)
     [''create'', ''index'', ''show'', ''delete'', ''update'', ''instantiate'', ''terminate'', ''scale'', ''heal'', ''change_ext_conn'', ''change_vnfpkg'']"

definition check_request_policy :: "sol_config \<Rightarrow> 'w sol_controller \<Rightarrow> string \<Rightarrow> unit pyres" where
  "check_request_policy cf ctl action = (case sc_policy ctl of
      None \<Rightarrow> Inr ()
    | Some name \<Rightarrow> if action = ''reject'' \<or> name action \<in> set enhanced_policy_actions \<and> cf_enhanced cf then Inr ()
        else cf_can cf (name action))"

definition dispatch :: "'w sol_controller \<Rightarrow> sol_request \<Rightarrow> api_version \<Rightarrow> string \<Rightarrow> sol_args \<Rightarrow> ('w, exn, sol_response) sem" where
  "dispatch ctl req ver action args = (if action = ''reject'' then raiseS (Sol (MethodNotAllowed (sq_method req)))
     else sc_handler ctl action req ver args)"

definition handle_request :: "sol_config \<Rightarrow> 'w sol_controller \<Rightarrow> sol_request \<Rightarrow> string \<Rightarrow> sol_args \<Rightarrow> string \<Rightarrow> ('w, exn, wsgi_outcome) sem" where
  "handle_request cf ctl req action args accept =
     bindS (liftS (new_api_version (sq_version req) (sc_versions ctl action))) (\<lambda>ver.
     bindS (liftS (check_request_policy cf ctl action)) (\<lambda>_.
     bindS (dispatch ctl req ver action args) (\<lambda>result.
       liftS (serialize cf accept (set_default_to_response ctl result)))))"

definition answer_error :: "sol_config \<Rightarrow> 'w sol_controller \<Rightarrow> exn \<Rightarrow> wsgi_outcome" where
  "answer_error cf ctl ex = (case serialize cf ''application/problem+json'' (set_default_to_response ctl (error_response cf ex)) of
      Inl e \<Rightarrow> UnknownError | Inr a \<Rightarrow> a)"

text \<open>When the request cannot be read, \<open>action\<close> is not set yet and the handler of the exception fails itself.\<close>

definition call_resource :: "sol_config \<Rightarrow> 'w sol_controller \<Rightarrow> sol_request \<Rightarrow> string \<Rightarrow> (string \<times> string) list \<Rightarrow> 'w \<Rightarrow> wsgi_outcome \<times> 'w" where
  "call_resource cf ctl req action path_args w = (case deserialize_request ctl req action path_args of
      Inl ex \<Rightarrow> (Escapes (PyExc UnboundLocalError ''action''), w)
    | Inr (args, accept) \<Rightarrow> (case handle_request cf ctl req action args accept w of
        (Inl ex, w') \<Rightarrow> (answer_error cf ctl ex, w') | (Inr a, w') \<Rightarrow> (a, w')))"

definition serve :: "sol_config \<Rightarrow> route list \<Rightarrow> 'w sol_controller \<Rightarrow> sol_request \<Rightarrow> 'w \<Rightarrow> wsgi_outcome \<times> 'w" where
  "serve cf routes ctl req w = (case find_route routes (sq_path req) (sq_method req) of
      None \<Rightarrow> (Answer 404 (Some ''The resource could not be found.'') [], w)
    | Some (action, path_args) \<Rightarrow> call_resource cf ctl req action path_args w)"

text \<open>The decorators that validate the body.\<close>

definition validate_body :: "(json \<Rightarrow> string option) \<Rightarrow> sol_args \<Rightarrow> unit pyres" where
  "validate_body schema args = (case ra_body args of
      None \<Rightarrow> Inl (Sol (SolValidationError ''body is missing''))
    | Some b \<Rightarrow> (case schema b of None \<Rightarrow> Inr () | Some t \<Rightarrow> Inl (Sol (SolValidationError t))))"

definition with_schema :: "(json \<Rightarrow> string option) \<Rightarrow> string option \<Rightarrow> string option \<Rightarrow> (api_version \<Rightarrow> sol_args \<Rightarrow> ('w, exn, 'a) sem) \<Rightarrow>
    api_version \<Rightarrow> sol_args \<Rightarrow> ('w, exn, 'a) sem" where
  "with_schema schema min_version max_version handler ver args =
     bindS (liftS (new_api_version min_version None)) (\<lambda>lo. bindS (liftS (new_api_version max_version None)) (\<lambda>hi.
     bindS (liftS (if ver_matches ver lo hi then validate_body schema args else Inr ())) (\<lambda>_. handler ver args)))"

definition with_schema_nover :: "(json \<Rightarrow> string option) \<Rightarrow> (api_version \<Rightarrow> sol_args \<Rightarrow> ('w, exn, 'a) sem) \<Rightarrow>
    api_version \<Rightarrow> sol_args \<Rightarrow> ('w, exn, 'a) sem" where
  "with_schema_nover schema handler ver args = bindS (liftS (validate_body schema args)) (\<lambda>_. handler ver args)"

subsection \<open>The controllers\<close>

definition lcm_supported_api_versions :: "string \<Rightarrow> string list option" where
  "lcm_supported_api_versions action = (if action = ''api_versions'' then None else Some v2_versions)"

definition merge_patch_content_types :: "string \<Rightarrow> string list" where
  "merge_patch_content_types action = (if action = ''update''
     then [''application/merge-patch+json'', ''application/json'', ''text/plain''] else [''application/json'', ''text/plain''])"

definition default_accept :: "string \<Rightarrow> string list" where
  "default_accept action = [''application/json'']"

definition lcm_policy :: "string \<Rightarrow> string" where
  "lcm_policy action = ''os_nfv_orchestration_api_v2:vnf_instances:'' @ action"

definition lcm_controller :: "(string \<Rightarrow> sol_request \<Rightarrow> api_version \<Rightarrow> sol_args \<Rightarrow> ('w, exn, sol_response) sem) \<Rightarrow> 'w sol_controller" where
  "lcm_controller handler = \<lparr>sc_versions = lcm_supported_api_versions, sc_content_types = merge_patch_content_types, sc_accept = default_accept,
     sc_handler = handler, sc_defaults = [(''version'', ''2.0.0''), (''accept-ranges'', ''none'')], sc_policy = Some lcm_policy\<rparr>"

definition fm_controller :: "(string \<Rightarrow> sol_request \<Rightarrow> api_version \<Rightarrow> sol_args \<Rightarrow> ('w, exn, sol_response) sem) \<Rightarrow> 'w sol_controller" where
  "fm_controller handler = \<lparr>sc_versions = (\<lambda>_. Some v1_fm_versions), sc_content_types = merge_patch_content_types, sc_accept = default_accept,
     sc_handler = handler, sc_defaults = [(''version'', ''1.3.0''), (''accept-ranges'', ''none'')],
     sc_policy = Some (\<lambda>a. ''os_nfv_orchestration_api_v2:vnf_fault_monitor:'' @ a)\<rparr>"

definition pm_content_types :: "string \<Rightarrow> string list" where
  "pm_content_types action = (if action \<in> {''update'', ''update_threshold''}
     then [''application/merge-patch+json'', ''application/json'', ''text/plain''] else [''application/json'', ''text/plain''])"

definition pm_controller :: "(string \<Rightarrow> sol_request \<Rightarrow> api_version \<Rightarrow> sol_args \<Rightarrow> ('w, exn, sol_response) sem) \<Rightarrow> 'w sol_controller" where
  "pm_controller handler = \<lparr>sc_versions = (\<lambda>_. Some v2_pm_versions), sc_content_types = pm_content_types, sc_accept = default_accept,
     sc_handler = handler, sc_defaults = [(''version'', ''2.1.0''), (''accept-ranges'', ''none'')],
     sc_policy = Some (\<lambda>a. ''os_nfv_orchestration_api_v2:vnf_performance_management:'' @ a)\<rparr>"

definition api_versions_body :: json where
  "api_versions_body = JObj [(''uriPrefix'', JStr ''/vnflcm''),
     (''apiVersions'', JArr (map (\<lambda>v. JObj [(''version'', JStr v), (''isDeprecated'', JBool False)]) (v1_versions @ v2_versions)))]"

definition versions_handler :: "string \<Rightarrow> sol_request \<Rightarrow> api_version \<Rightarrow> sol_args \<Rightarrow> ('w, exn, sol_response) sem" where
  "versions_handler action req ver args = (if action = ''index'' then retS \<lparr>rp_status = 200, rp_body = Some api_versions_body, rp_headers = []\<rparr>
     else raiseS (PyExc AttributeError action))"

definition versions_controller :: "'w sol_controller" where
  "versions_controller = \<lparr>sc_versions = (\<lambda>_. None), sc_content_types = (\<lambda>_. [''application/json'', ''text/plain'']), sc_accept = default_accept,
     sc_handler = versions_handler, sc_defaults = [(''version'', ''2.0.0''), (''accept-ranges'', ''none'')], sc_policy = None\<rparr>"

subsection \<open>The controllers of the plugins\<close>

text \<open>
  \<^verbatim>\<open>controller/prometheus_plugin_controller.py\<close> and \<^verbatim>\<open>controller/server_notification.py\<close>: a request is an alert for the configured class, which
  has to be a subclass of \<^verbatim>\<open>MonitoringPlugin\<close> (\<^verbatim>\<open>common/monitoring_plugin_base.py\<close>). Importing a class is a parameter.
\<close>

datatype plugin_api = PmEvent | PmThreshold | FmAlert | AutoHealing | AutoScaling | ServerNotification

record 'w plugin_config =
  pg_enabled :: "plugin_api \<Rightarrow> bool"
  pg_class :: "plugin_api \<Rightarrow> string pyres"
  pg_is_plugin :: "string \<Rightarrow> bool"
  pg_alert :: "string \<Rightarrow> sol_args \<Rightarrow> ('w, exn, unit) sem"

definition plugin_action :: "plugin_api \<Rightarrow> string" where
  "plugin_action p = (case p of PmEvent \<Rightarrow> ''pm_event'' | PmThreshold \<Rightarrow> ''pm_threshold'' | FmAlert \<Rightarrow> ''alert''
     | AutoHealing \<Rightarrow> ''auto_healing'' | AutoScaling \<Rightarrow> ''auto_scaling'' | ServerNotification \<Rightarrow> ''notify'')"

definition plugin_routes :: "plugin_api \<Rightarrow> route list" where
  "plugin_routes p = (if p = ServerNotification then server_notification_routes else [([], [(''POST'', plugin_action p)])])"

definition plugin_disabled :: "plugin_api \<Rightarrow> exn" where
  "plugin_disabled p = (case p of
      PmEvent \<Rightarrow> Sol (PrometheusPluginNotEnabled ''Performance management'')
    | PmThreshold \<Rightarrow> Sol (PrometheusPluginNotEnabled ''Performance management'')
    | FmAlert \<Rightarrow> Sol (PrometheusPluginNotEnabled ''Fault management'')
    | AutoHealing \<Rightarrow> Sol (PrometheusPluginNotEnabled ''Auto healing'')
    | AutoScaling \<Rightarrow> Sol (PrometheusPluginNotEnabled ''Auto scaling'')
    | ServerNotification \<Rightarrow> Sol ServerNotificationNotEnabled)"

definition get_class :: "'w plugin_config \<Rightarrow> plugin_api \<Rightarrow> string pyres" where
  "get_class pg p = bindE (pg_class pg p) (\<lambda>c. if pg_is_plugin pg c then Inr c else Inl (Sol (MonitoringPluginClassError c)))"

definition plugin_handler :: "'w plugin_config \<Rightarrow> plugin_api \<Rightarrow> string \<Rightarrow> sol_request \<Rightarrow> api_version \<Rightarrow> sol_args \<Rightarrow> ('w, exn, sol_response) sem" where
  "plugin_handler pg p action req ver args =
     (if action \<noteq> plugin_action p then raiseS (PyExc AttributeError action)
      else if ra_body args = None then raiseS (PyExc TypeError ''body'')
      else if \<not> pg_enabled pg p then raiseS (plugin_disabled p)
      else bindS (liftS (get_class pg p)) (\<lambda>c. bindS (pg_alert pg c args) (\<lambda>_.
        retS \<lparr>rp_status = 204, rp_body = None, rp_headers = []\<rparr>)))"

definition plugin_policy :: "plugin_api \<Rightarrow> string \<Rightarrow> string" where
  "plugin_policy p action = (if p = ServerNotification then ''tacker_server_notification_api:server_notification:'' @ action
     else ''tacker_PROM_PLUGIN_api:PROM_PLUGIN:'' @ action)"

definition plugin_controller :: "'w plugin_config \<Rightarrow> plugin_api \<Rightarrow> 'w sol_controller" where
  "plugin_controller pg p = \<lparr>sc_versions = (\<lambda>_. None), sc_content_types = (\<lambda>_. [''application/json'', ''text/plain'']), sc_accept = default_accept,
     sc_handler = plugin_handler pg p, sc_defaults = [], sc_policy = Some (plugin_policy p)\<rparr>"

end
