(* ===== verification/Api_Front_Props.thy ===== *)
theory Api_Front_Props
  imports Api_Front
begin

section \<open>Properties of the front of the API server\<close>

subsection \<open>Versions\<close>

lemma number_value_snoc: "number_value (s @ [c]) = 10 * number_value s + ((of_char c :: nat) - 48)"
  by (simp add: number_value_def)

lemma digit_char_value: "n < 10 \<Longrightarrow> (of_char (digit_char n) :: nat) = 48 + n \<and> digit (digit_char n)"
  by (simp add: digit_char_def digit_def)

lemma char_of_digit: "digit c \<Longrightarrow> digit_char ((of_char c :: nat) - 48) = c \<and> (of_char c :: nat) - 48 < 10"
  by (auto simp: digit_char_def digit_def)

lemma digit_char_0: "digit_char 0 = CHR ''0''"
  by code_simp

lemma show_nat_step: "show_nat n = (if n < 10 then [digit_char n] else show_nat (n div 10) @ [digit_char (n mod 10)])"
  by (rule show_nat.simps)

lemma number_value_show_nat: "number_value (show_nat n) = n"
proof (induction n rule: less_induct)
  case (less n)
  show ?case
  proof (cases "n < 10")
    case True
    then show ?thesis by (simp add: show_nat_step [of n] number_value_def digit_char_value)
  next
    case False
    then have "number_value (show_nat (n div 10)) = n div 10" by (intro less) simp
    with False show ?thesis by (simp add: show_nat_step [of n] number_value_snoc digit_char_value)
  qed
qed

lemma show_nat_digits: "show_nat n \<noteq> [] \<and> list_all digit (show_nat n)"
proof (induction n rule: less_induct)
  case (less n)
  show ?case
  proof (cases "n < 10")
    case True
    then show ?thesis by (simp add: show_nat_step [of n] digit_char_value)
  next
    case False
    then have "list_all digit (show_nat (n div 10))" using less by simp
    with False show ?thesis by (simp add: show_nat_step [of n] digit_char_value)
  qed
qed

lemma show_nat_hd: "0 < n \<Longrightarrow> hd (show_nat n) \<noteq> CHR ''0''"
proof (induction n rule: less_induct)
  case (less n)
  show ?case
  proof (cases "n < 10")
    case True
    have "hd (show_nat n) = digit_char n" using True by (simp add: show_nat_step [of n])
    moreover have "(of_char (digit_char n) :: nat) = 48 + n" using True by (simp add: digit_char_value)
    moreover have "(of_char (CHR ''0'') :: nat) = 48" by simp
    ultimately show ?thesis using less.prems by (metis add_cancel_left_right less_nat_zero_code)
  next
    case False
    then have "hd (show_nat (n div 10)) \<noteq> CHR ''0''" by (intro less) auto
    with False show_nat_digits [of "n div 10"] show ?thesis by (simp add: show_nat_step [of n])
  qed
qed

lemma show_nat_numbers: "(0 < n \<longrightarrow> positive_number (show_nat n)) \<and> plain_number (show_nat n)"
proof (cases "n = 0")
  case True
  then show ?thesis by (simp add: plain_number_def show_nat_step [of 0] digit_char_0)
next
  case False
  then show ?thesis using show_nat_digits [of n] show_nat_hd [of n] by (simp add: positive_number_def plain_number_def)
qed

lemma show_number_value_positive: "positive_number s \<Longrightarrow> show_nat (number_value s) = s \<and> 0 < number_value s"
proof (induction s rule: rev_induct)
  case Nil
  then show ?case by (simp add: positive_number_def)
next
  case (snoc c s)
  have c: "digit c" using snoc.prems by (simp add: positive_number_def)
  show ?case
  proof (cases "s = []")
    case True
    then have "c \<noteq> CHR ''0''" using snoc.prems by (simp add: positive_number_def)
    then have "0 < (of_char c :: nat) - 48" using char_of_digit [OF c] digit_char_0 by (metis gr0I)
    then show ?thesis using True char_of_digit [OF c] by (simp add: number_value_def show_nat_step [of "_ - _"])
  next
    case False
    then have "positive_number s" using snoc.prems by (simp add: positive_number_def)
    with snoc.IH have IH: "show_nat (number_value s) = s" "0 < number_value s" by auto
    let ?d = "(of_char c :: nat) - 48"
    have "(10 * number_value s + ?d) div 10 = number_value s" "(10 * number_value s + ?d) mod 10 = ?d"
      "\<not> 10 * number_value s + ?d < 10"
      using char_of_digit [OF c] IH(2) by auto
    then show ?thesis using IH char_of_digit [OF c] by (simp add: number_value_snoc show_nat_step [of "10 * _ + _"])
  qed
qed

lemma show_number_value: "plain_number s \<Longrightarrow> show_nat (number_value s) = s"
  by (auto simp: plain_number_def show_number_value_positive)
    (simp add: number_value_def show_nat_step [of 0] digit_char_0)

lemma digits_free: "list_all digit s \<Longrightarrow> CHR ''.'' \<notin> set s \<and> CHR ''-'' \<notin> set s \<and> CHR 0x0A \<notin> set s"
  by (auto simp: list_all_iff digit_def)

text \<open>The text of a version gives the version back, and an accepted text is, up to the part of the implementation and a newline at
  the end, the text of the version.\<close>

lemma version_of_text:
  assumes "0 < ver_major v"
  shows "new_api_version (Some (version_str v)) None = Inr v"
proof -
  have free: "CHR ''.'' \<notin> set (show_nat n) \<and> CHR ''-'' \<notin> set (show_nat n) \<and> CHR 0x0A \<notin> set (show_nat n)" for n
    using digits_free show_nat_digits by blast
  have dash: "CHR ''-'' \<notin> set (version_str v)" using free by (simp add: version_str_def)
  have "last (version_str v) \<in> set (show_nat (ver_patch v))"
    using show_nat_digits [of "ver_patch v"] by (simp add: version_str_def)
  then have nl: "before_newline (version_str v) = version_str v" using free by (auto simp: before_newline_def)
  have sp: "split_char CHR ''.'' (version_str v) = [show_nat (ver_major v), show_nat (ver_minor v), show_nat (ver_patch v)]"
    using free by (simp add: version_str_def split_char_append split_char_single)
  have "match_version_text (version_str v) = Some v"
    using show_nat_numbers assms by (simp add: match_version_text_def nl sp number_value_show_nat)
  then show ?thesis using dash by (simp add: new_api_version_def get_version_id_def)
qed

lemma text_of_version:
  assumes "new_api_version (Some s) vs = Inr v"
  shows "\<exists>i. get_version_id s = Inr i \<and> before_newline i = version_str v \<and> (\<forall>l. vs = Some l \<longrightarrow> i \<in> set l)"
proof -
  obtain i where i: "get_version_id s = Inr i" "match_version_text i = Some v" "\<forall>l. vs = Some l \<longrightarrow> i \<in> set l"
    using assms by (auto simp: new_api_version_def bindE_eq_Inr split: option.splits if_splits)
  then obtain a b c where p: "split_char CHR ''.'' (before_newline i) = [a, b, c]" "positive_number a" "plain_number b" "plain_number c"
    "v = APIVersion (number_value a) (number_value b) (number_value c)"
    by (auto simp: match_version_text_def split: list.splits if_splits)
  have "before_newline i = join_with CHR ''.'' [a, b, c]" by (simp add: p(1) [symmetric] join_split)
  then have "before_newline i = version_str v"
    using p show_number_value by (simp add: version_str_def plain_number_def)
  with i show ?thesis by blast
qed

subsection \<open>Routes\<close>

text \<open>Two patterns that no path can both match.\<close>

fun apart :: "path_part list \<Rightarrow> path_part list \<Rightarrow> bool" where
  "apart [] [] = False"
| "apart (Lit a # ps) (Lit b # qs) = (a \<noteq> b \<or> apart ps qs)"
| "apart (Var v # ps) (q # qs) = apart ps qs"
| "apart (p # ps) (Var v # qs) = apart ps qs"
| "apart _ _ = True"

lemma apart_no_match: "apart ps qs \<Longrightarrow> match_path ps xs = Some a \<Longrightarrow> match_path qs xs = None"
proof (induction ps qs arbitrary: xs a rule: apart.induct)
  case (2 a ps b qs)
  then show ?case by (cases xs) (auto split: if_splits)
next
  case (3 v ps q qs)
  show ?case
  proof (cases xs)
    case Nil
    then show ?thesis by (cases q) simp_all
  next
    case (Cons x ys)
    with "3.prems" obtain b where "match_path ps ys = Some b" by (auto split: if_splits)
    with 3 have "match_path qs ys = None" by simp
    with Cons show ?thesis by (cases q) simp_all
  qed
next
  case (4 p ps v qs)
  then show ?case by (cases xs; cases p) (auto split: if_splits)
qed (auto split: if_splits elim: match_path.elims)

fun apart_all :: "route list \<Rightarrow> bool" where
  "apart_all [] = True"
| "apart_all (r # rs) = (list_all (\<lambda>q. apart (fst r) (fst q)) rs \<and> apart_all rs)"

lemma find_route_None: "\<forall>r \<in> set rs. match_path (fst r) xs = None \<Longrightarrow> find_route rs xs m = None"
  by (induction rs) auto

lemma find_route_exact:
  "apart_all rs \<Longrightarrow> (pattern, methods) \<in> set rs \<Longrightarrow> match_path pattern xs = Some args \<Longrightarrow>
     find_route rs xs m = map_option (\<lambda>action. (action, args)) (route_action methods m)"
proof (induction rs)
  case Nil
  then show ?case by simp
next
  case (Cons r rs)
  obtain p ms where r: "r = (p, ms)" by (cases r)
  show ?case
  proof (cases "(pattern, methods) = r")
    case True
    have "find_route rs xs m = None"
    proof (rule find_route_None, rule ballI)
      fix q assume "q \<in> set rs"
      with Cons.prems(1) True have "apart pattern (fst q)" by (auto simp: list_all_iff)
      then show "match_path (fst q) xs = None" using Cons.prems(3) by (rule apart_no_match)
    qed
    then show ?thesis using True r Cons.prems(3) by (auto split: option.splits)
  next
    case False
    then have mem: "(pattern, methods) \<in> set rs" using Cons.prems(2) by auto
    then have ap: "apart p pattern" using Cons.prems(1) r by (auto simp: list_all_iff)
    have "match_path p xs = None"
    proof (rule ccontr)
      assume "match_path p xs \<noteq> None"
      then obtain b where "match_path p xs = Some b" by blast
      from apart_no_match [OF ap this] Cons.prems(3) show False by simp
    qed
    moreover have "apart_all rs" using Cons.prems(1) by simp
    ultimately show ?thesis using Cons.IH mem Cons.prems(3) r by simp
  qed
qed

text \<open>
  In each table of routes no route hides another: a path that fits a pattern leads, for each method of the pattern, to the action
  of the table with the values of the variables, for the other methods of HTTP to the rejection with 405, and for any other
  method to no action.
\<close>

lemma routes_exact:
  assumes "rs \<in> {lcm_routes, versions_routes, fm_routes, pm_routes} \<union> range plugin_routes"
    and "(pattern, methods) \<in> set rs" and "match_path pattern xs = Some args"
  shows "find_route rs xs m = (case map_of methods m of
      Some action \<Rightarrow> Some (action, args)
    | None \<Rightarrow> if m \<in> set all_methods then Some (''reject'', args) else None)"
proof -
  have "apart_all lcm_routes" "apart_all versions_routes" "apart_all fm_routes" "apart_all pm_routes" "apart_all server_notification_routes"
    by code_simp+
  moreover have "apart_all (plugin_routes p)" for p using \<open>apart_all server_notification_routes\<close> by (simp add: plugin_routes_def)
  ultimately have "apart_all rs" using assms(1) by auto
  from find_route_exact [OF this assms(2,3)] show ?thesis by (simp add: route_action_def split: option.split)
qed

subsection \<open>What happens to a request\<close>

lemma handle_request_state:
  assumes "handle_request cf ctl req action args accept w = (r, w')" and "w' \<noteq> w"
  shows "\<exists>ver. new_api_version (sq_version req) (sc_versions ctl action) = Inr ver \<and> check_request_policy cf ctl action = Inr () \<and>
    action \<noteq> ''reject'' \<and> w' = snd (sc_handler ctl action req ver args w)"
  using assms
  by (auto simp: handle_request_def bindS_def dispatch_def split: sum.splits prod.splits if_splits)

text \<open>
  C25: A request changes nothing unless it leads to an action of the table of routes, its body and the media types are accepted, its
  version is one that the action supports and the policy allows the action; then the state is what the handler leaves.
\<close>

theorem only_checked_requests_reach_handler:
  assumes "serve cf routes ctl req w = (out, w')" and "w' \<noteq> w"
  shows "\<exists>action path_args args accept ver. find_route routes (sq_path req) (sq_method req) = Some (action, path_args) \<and> action \<noteq> ''reject'' \<and>
    deserialize_request ctl req action path_args = Inr (args, accept) \<and>
    new_api_version (sq_version req) (sc_versions ctl action) = Inr ver \<and> check_request_policy cf ctl action = Inr () \<and>
    w' = snd (sc_handler ctl action req ver args w)"
proof -
  obtain action path_args where route: "find_route routes (sq_path req) (sq_method req) = Some (action, path_args)"
    and call: "call_resource cf ctl req action path_args w = (out, w')"
    using assms by (auto simp: serve_def split: option.splits)
  obtain args accept where args: "deserialize_request ctl req action path_args = Inr (args, accept)"
    using call assms(2) by (auto simp: call_resource_def split: sum.splits)
  obtain r where "handle_request cf ctl req action args accept w = (r, w')"
    using call args by (auto simp: call_resource_def split: sum.splits prod.splits)
  from handle_request_state [OF this assms(2)] route args show ?thesis by blast
qed

text \<open>
  C26: When a request that was read is refused or its handler raises an error of the interface, the answer has the status of the error
  and its problem details as body, unless they are too long for an answer.
\<close>

theorem errors_are_answered:
  assumes "find_route routes (sq_path req) (sq_method req) = Some (action, path_args)"
    and "deserialize_request ctl req action path_args = Inr (args, accept)"
    and "handle_request cf ctl req action args accept w = (Inl (Sol e), w')"
    and "map_of (sc_defaults ctl) ''content_type'' = None"
    and "length (cf_dump cf (problem_json (make_problem_details e))) \<le> cf_max_content_length cf"
  shows "\<exists>headers. serve cf routes ctl req w = (Answer (status e) (Some (cf_dump cf (problem_json (make_problem_details e)))) headers, w') \<and>
    map_of headers ''content_type'' = Some ''application/problem+json''"
proof -
  have keep: "map_of (fold (\<lambda>(k, v). setdefault k v) ds h) ''content_type'' = map_of h ''content_type''"
    if "map_of ds ''content_type'' = None" for ds h
    using that
  proof (induction ds arbitrary: h)
    case Nil
    then show ?case by simp
  next
    case (Cons d ds)
    obtain k v where d: "d = (k, v)" by (cases d)
    with Cons.prems have k: "k \<noteq> ''content_type''" "map_of ds ''content_type'' = None" by (auto split: if_splits)
    with Cons.IH [of "setdefault k v h"] d show ?case by (simp add: setdefault_def)
  qed
  let ?h = "rp_headers (set_default_to_response ctl (error_response cf (Sol e)))"
  have none: "map_of ?h ''content_type'' = None"
    using keep [OF assms(4), of "[]"] by (simp add: set_default_to_response_def error_response_def)
  let ?hs = "setdefault ''content_type'' ''application/problem+json'' ?h"
  have ct: "map_of ?hs ''content_type'' = Some ''application/problem+json''"
    using none by (simp add: setdefault_def dict_has_def del: dict_has_iff)
  have "answer_error cf ctl (Sol e) = Answer (status e) (Some (cf_dump cf (problem_json (make_problem_details e)))) ?hs"
    using assms(5) ct
    by (simp add: answer_error_def serialize_def Let_def set_default_to_response_def error_response_def)
  with assms(1-3) ct show ?thesis by (simp add: serve_def call_resource_def)
qed

text \<open>A request whose body or media types are refused is not answered: the code that answers an exception needs the action, which is
  not set yet, and fails itself.\<close>

lemma unreadable_requests_escape:
  assumes "find_route routes (sq_path req) (sq_method req) = Some (action, path_args)"
    and "deserialize_request ctl req action path_args = Inl ex"
  shows "serve cf routes ctl req w = (Escapes (PyExc UnboundLocalError ''action''), w)"
  using assms by (simp add: serve_def call_resource_def)

subsection \<open>Examples\<close>

definition ex_config :: sol_config where
  "ex_config = \<lparr>cf_can = (\<lambda>_. Inr ()), cf_enhanced = False, cf_max_content_length = 1000, cf_dump = (\<lambda>_. ''{}''), cf_code = (\<lambda>_. None),
     cf_text = (\<lambda>_. [])\<rparr>"

definition ex_request :: "string \<Rightarrow> string list \<Rightarrow> sol_request" where
  "ex_request method path = \<lparr>sq_method = method, sq_path = path, sq_version = Some ''2.0.0'', sq_accept = ''*/*'', sq_offers = id,
     sq_content_type = ''application/json'', sq_body = ''{}'', sq_json = Some (JObj [])\<rparr>"

definition ex_handler :: "string \<Rightarrow> sol_request \<Rightarrow> api_version \<Rightarrow> sol_args \<Rightarrow> (nat, exn, sol_response) sem" where
  "ex_handler action req ver args n = (Inr \<lparr>rp_status = 202, rp_body = None, rp_headers = []\<rparr>, Suc n)"

theorem only_checked_requests_reach_handler_witness:
  "\<exists>action path_args args accept ver.
    find_route lcm_routes [''vnf_instances'', ''i'', ''scale''] ''POST'' = Some (action, path_args) \<and> action \<noteq> ''reject'' \<and>
    deserialize_request (lcm_controller ex_handler) (ex_request ''POST'' [''vnf_instances'', ''i'', ''scale'']) action path_args = Inr (args, accept) \<and>
    new_api_version (Some ''2.0.0'') (lcm_supported_api_versions action) = Inr ver \<and>
    1 = snd (ex_handler action (ex_request ''POST'' [''vnf_instances'', ''i'', ''scale'']) ver args 0)"
proof -
  let ?req = "ex_request ''POST'' [''vnf_instances'', ''i'', ''scale'']"
  let ?run = "serve ex_config lcm_routes (lcm_controller ex_handler) ?req 0"
  have w: "snd ?run = 1" by code_simp
  then have "?run = (fst ?run, 1)" by (metis prod.collapse)
  from only_checked_requests_reach_handler [OF this] show ?thesis
    by (auto simp: ex_request_def lcm_controller_def)
qed

theorem errors_are_answered_witness:
  "\<exists>headers. serve ex_config lcm_routes (lcm_controller ex_handler) (ex_request ''PUT'' [''vnf_instances'']) 0 =
     (Answer 405 (Some ''{}'') headers, 0) \<and> map_of headers ''content_type'' = Some ''application/problem+json''"
proof -
  let ?req = "ex_request ''PUT'' [''vnf_instances'']" let ?ctl = "lcm_controller ex_handler"
  have r: "find_route lcm_routes (sq_path ?req) (sq_method ?req) = Some (''reject'', [])" by code_simp
  have d: "deserialize_request ?ctl ?req ''reject'' [] = Inr (\<lparr>ra_path = [], ra_body = Some (JObj [])\<rparr>, ''application/json'')" by code_simp
  have h: "handle_request ex_config ?ctl ?req ''reject'' \<lparr>ra_path = [], ra_body = Some (JObj [])\<rparr> ''application/json'' 0 =
      (Inl (Sol (MethodNotAllowed ''PUT'')), 0)" by code_simp
  show ?thesis
    using errors_are_answered [OF r d h] by (simp add: lcm_controller_def ex_config_def)
qed

end
