(* ===== verification/Server_Notify.thy ===== *)
theory Server_Notify
  imports Lcm_Op_Occ Heat_Client
begin

section \<open>Notifications of a monitoring server\<close>

text \<open>
  The management script \<^verbatim>\<open>mgmt_drivers/server_notification.py\<close>, which registers an alarm for each server of an instance at a
  monitoring server, and the plugin \<^verbatim>\<open>common/server_notification.py\<close> that gets the notification of an alarm.

  The state of the script holds the instance, the list \<open>serverNotification\<close> of \<open>user_script_err_handling_data\<close>, which survives a
  failure of the script, the monitoring server behind the HTTP client of theory Heat\_Client, and the casts that remove a timer. What the
  output of a script keeps of it is \<open>script_answer\<close>. A property is in Notify\_Props.
\<close>

subsection \<open>The state of the script\<close>

record sn_entry =
  sn_serverId :: string
  sn_alarmId :: "json option"

record 'h sn_state =
  ns_inst :: vnf_instance
  ns_entries :: "sn_entry list option"
  ns_http :: 'h
  ns_removed :: "string list"

record 'h sn_env =
  ne_http :: "'h heat_http"
  ne_str :: "json \<Rightarrow> string"
  ne_endpoint :: string
  ne_prefix :: string

type_synonym ('h, 'a) notifying = "('h sn_state, exn, 'a) sem"

definition mgmt_error :: "string \<Rightarrow> exn" where
  "mgmt_error msg = PyExc TackerException (''An error occurred in MgmtDriver: '' @ msg @ ''.'')"

text \<open>\<open>except sol_ex.SolException\<close>: the other exceptions pass.\<close>

definition except_sol :: "('s, exn, 'a) sem \<Rightarrow> ('s, exn, 'a) sem \<Rightarrow> ('s, exn, 'a) sem" where
  "except_sol m h = tryS m (\<lambda>e. case e of Sol x \<Rightarrow> h | _ \<Rightarrow> raiseS e)"

definition sn_request :: "'h sn_env \<Rightarrow> string \<Rightarrow> string \<Rightarrow> jdict option \<Rightarrow> ('h, int \<times> json) notifying" where
  "sn_request ne url method body s = (case do_request (ne_http ne) url method [] body (ns_http s) of (r, h) \<Rightarrow> (r, s\<lparr>ns_http := h\<rparr>))"

definition vnfc_reses :: "vnf_instance \<Rightarrow> vnfc_resource list" where
  "vnfc_reses inst = (case in_instantiatedVnfInfo inst of None \<Rightarrow> [] | Some info \<Rightarrow> opt_list (iv_vnfcResourceInfo info))"

definition need_vnfc_reses :: "vnf_instance \<Rightarrow> vnfc_resource list pyres" where
  "need_vnfc_reses inst = (case in_instantiatedVnfInfo inst of
      None \<Rightarrow> Inl (key_error ''instantiatedVnfInfo'')
    | Some info \<Rightarrow> (case iv_vnfcResourceInfo info of None \<Rightarrow> Inl (key_error ''vnfcResourceInfo'') | Some vs \<Rightarrow> Inr vs))"

definition server_id :: "vnfc_resource \<Rightarrow> string" where
  "server_id v = rh_resourceId (vr_computeResource v)"

definition notification_of :: "vnfc_resource \<Rightarrow> json option" where
  "notification_of v = (case vr_metadata v of None \<Rightarrow> None | Some d \<Rightarrow> map_of d ''server_notification'')"

definition set_notification :: "json \<Rightarrow> vnfc_resource \<Rightarrow> vnfc_resource" where
  "set_notification alarm_id v =
     v\<lparr>vr_metadata := Some (dict_set ''server_notification'' (JObj [(''alarmId'', alarm_id)]) (case vr_metadata v of None \<Rightarrow> [] | Some d \<Rightarrow> d))\<rparr>"

definition del_notification :: "vnfc_resource \<Rightarrow> vnfc_resource" where
  "del_notification v = v\<lparr>vr_metadata := map_option (dict_del ''server_notification'') (vr_metadata v)\<rparr>"

text \<open>A change of the resource at an index, and of the metadata of the instance.\<close>

definition change_info :: "(inst_vnf_info \<Rightarrow> inst_vnf_info) \<Rightarrow> 'h sn_state \<Rightarrow> 'h sn_state" where
  "change_info f s = s\<lparr>ns_inst := (ns_inst s)\<lparr>in_instantiatedVnfInfo := map_option f (in_instantiatedVnfInfo (ns_inst s))\<rparr>\<rparr>"

definition change_res :: "nat \<Rightarrow> (vnfc_resource \<Rightarrow> vnfc_resource) \<Rightarrow> 'h sn_state \<Rightarrow> 'h sn_state" where
  "change_res i f = change_info (\<lambda>info. info\<lparr>iv_vnfcResourceInfo := map_option (\<lambda>vs. vs[i := f (vs ! i)]) (iv_vnfcResourceInfo info)\<rparr>)"

definition res_at :: "nat \<Rightarrow> 'h sn_state \<Rightarrow> vnfc_resource" where
  "res_at i s = vnfc_reses (ns_inst s) ! i"

subsection \<open>Parameters and addresses\<close>

definition both_params :: "jdict \<Rightarrow> (json \<times> json) option" where
  "both_params d = (case (map_of d ''ServerNotifierUri'', map_of d ''ServerNotifierFaultID'') of
      (Some u, Some f) \<Rightarrow> Some (u, f) | _ \<Rightarrow> None)"

definition tenant_of :: "vnf_instance \<Rightarrow> json" where
  "tenant_of inst = (case in_vimConnectionInfo inst of None \<Rightarrow> JNull
     | Some vims \<Rightarrow> fold (\<lambda>(k, vim) t. case vi_accessInfo vim of None \<Rightarrow> t
         | Some d \<Rightarrow> (case map_of d ''project'' of None \<Rightarrow> t | Some p \<Rightarrow> p)) vims JNull)"

definition get_params :: "op_params \<Rightarrow> vnf_instance \<Rightarrow> json \<times> json \<times> json" where
  "get_params req inst =
     (let (uri, fault_id) = (case both_params (case rq_additionalParams req of None \<Rightarrow> [] | Some d \<Rightarrow> d) of
            Some p \<Rightarrow> p
          | None \<Rightarrow> (case in_instantiatedVnfInfo inst of None \<Rightarrow> (JNull, JNull)
              | Some info \<Rightarrow> (case iv_metadata info of None \<Rightarrow> (JNull, JNull)
                  | Some d \<Rightarrow> (case both_params d of None \<Rightarrow> (JNull, JNull) | Some p \<Rightarrow> p))));
          tenant = tenant_of inst in
      if py_truthy uri \<and> py_truthy fault_id \<and> py_truthy tenant then (uri, fault_id, tenant) else (JNull, JNull, JNull))"

text \<open>A value in a format string.\<close>

definition sn_text :: "'h sn_env \<Rightarrow> json \<Rightarrow> string" where
  "sn_text ne j = (case j of JStr t \<Rightarrow> t | _ \<Rightarrow> ne_str ne j)"

definition alarms_url :: "'h sn_env \<Rightarrow> json \<Rightarrow> json \<Rightarrow> string \<Rightarrow> string" where
  "alarms_url ne uri tenant sid = sn_text ne uri @ ''/v2/'' @ sn_text ne tenant @ ''/servers/'' @ sid @ ''/alarms''"

definition alarm_url :: "'h sn_env \<Rightarrow> json \<Rightarrow> json \<Rightarrow> string \<Rightarrow> json \<Rightarrow> string" where
  "alarm_url ne uri tenant sid alarm_id = alarms_url ne uri tenant sid @ ''/'' @ sn_text ne alarm_id"

definition fault_action :: "'h sn_env \<Rightarrow> string \<Rightarrow> string \<Rightarrow> string" where
  "fault_action ne inst_id sid =
     ne_endpoint ne @ ''/'' @ ne_prefix ne @ ''/vnf_instances/'' @ inst_id @ ''/servers/'' @ sid @ ''/notify''"

subsection \<open>The list of alarms\<close>

fun update_first :: "('a \<Rightarrow> bool) \<Rightarrow> ('a \<Rightarrow> 'a) \<Rightarrow> 'a list \<Rightarrow> 'a list" where
  "update_first P f [] = []"
| "update_first P f (x # xs) = (if P x then f x # xs else x # update_first P f xs)"

definition of_server :: "string \<Rightarrow> sn_entry \<Rightarrow> bool" where
  "of_server sid e \<longleftrightarrow> sn_serverId e \<noteq> [] \<and> sn_serverId e = sid"

definition alarm_truthy :: "sn_entry \<Rightarrow> bool" where
  "alarm_truthy e = py_truthy (or_null (sn_alarmId e))"

definition remember_alarm :: "string \<Rightarrow> json \<Rightarrow> sn_entry list \<Rightarrow> sn_entry list" where
  "remember_alarm sid alarm_id es =
     (if \<exists>e \<in> set es. of_server sid e then update_first (of_server sid) (\<lambda>e. e\<lparr>sn_alarmId := Some alarm_id\<rparr>) es
      else es @ [\<lparr>sn_serverId = sid, sn_alarmId = Some alarm_id\<rparr>])"

definition forget_alarm :: "string \<Rightarrow> sn_entry list \<Rightarrow> sn_entry list" where
  "forget_alarm sid es = (case List.find (of_server sid) es of
      Some e \<Rightarrow> if alarm_truthy e then update_first (of_server sid) (\<lambda>e. e\<lparr>sn_alarmId := None\<rparr>) es
        else es @ [\<lparr>sn_serverId = sid, sn_alarmId = None\<rparr>]
    | None \<Rightarrow> es @ [\<lparr>sn_serverId = sid, sn_alarmId = None\<rparr>])"

definition change_entries :: "(sn_entry list \<Rightarrow> sn_entry list) \<Rightarrow> 'h sn_state \<Rightarrow> 'h sn_state" where
  "change_entries f s = s\<lparr>ns_entries := Some (f (opt_list (ns_entries s)))\<rparr>"

subsection \<open>Requests to the monitoring server\<close>

definition unregister_alarm :: "'h sn_env \<Rightarrow> json \<Rightarrow> json \<Rightarrow> string \<Rightarrow> json \<Rightarrow> ('h, unit) notifying" where
  "unregister_alarm ne uri tenant sid alarm_id =
     except_sol (bindS (sn_request ne (alarm_url ne uri tenant sid alarm_id) ''DELETE'' None) (\<lambda>(code, body).
         whenS (code < 400) (modS (change_entries (forget_alarm sid)))))
       (retS ())"

text \<open>The alarm of one resource is taken from its metadata and unregistered.\<close>

definition drop_alarm :: "'h sn_env \<Rightarrow> op_params \<Rightarrow> nat \<Rightarrow> ('h, unit) notifying" where
  "drop_alarm ne req i =
     bindS (getS ns_inst) (\<lambda>inst. case get_params req inst of (uri, fault_id, tenant) \<Rightarrow>
     bindS (getS (res_at i)) (\<lambda>v.
     bindS (liftS (jitem (or_null (notification_of v)) ''alarmId'')) (\<lambda>alarm_id.
     bindS (modS (change_res i del_notification)) (\<lambda>_.
       unregister_alarm ne uri tenant (server_id v) alarm_id))))"

fun request_register_cancel :: "'h sn_env \<Rightarrow> op_params \<Rightarrow> nat list \<Rightarrow> ('h, unit) notifying" where
  "request_register_cancel ne req [] = retS ()"
| "request_register_cancel ne req (i # is) =
     bindS (getS (res_at i)) (\<lambda>v.
     bindS (whenS (notification_of v \<noteq> None) (drop_alarm ne req i)) (\<lambda>_. request_register_cancel ne req is))"

fun unregister_each :: "'h sn_env \<Rightarrow> op_params \<Rightarrow> bool \<Rightarrow> string list \<Rightarrow> nat list \<Rightarrow> bool \<Rightarrow> ('h, bool) notifying" where
  "unregister_each ne req isall rsc_ids [] found = retS found"
| "unregister_each ne req isall rsc_ids (i # is) found =
     bindS (getS (res_at i)) (\<lambda>v.
     if notification_of v \<noteq> None \<and> (isall \<or> server_id v \<in> set rsc_ids)
     then bindS (drop_alarm ne req i) (\<lambda>_. unregister_each ne req isall rsc_ids is True)
     else unregister_each ne req isall rsc_ids is found)"

definition request_unregister :: "'h sn_env \<Rightarrow> op_params \<Rightarrow> bool \<Rightarrow> string list \<Rightarrow> ('h, bool) notifying" where
  "request_unregister ne req isall rsc_ids =
     bindS (getS (\<lambda>s. need_vnfc_reses (ns_inst s))) (\<lambda>r. bindS (liftS r) (\<lambda>vs.
       unregister_each ne req isall rsc_ids [0..<length vs] False))"

definition register_body :: "'h sn_env \<Rightarrow> string \<Rightarrow> json \<Rightarrow> string \<Rightarrow> jdict" where
  "register_body ne inst_id fault_id sid = [(''fault_action'', JStr (fault_action ne inst_id sid)), (''fault_id'', fault_id)]"

definition register_one :: "'h sn_env \<Rightarrow> op_params \<Rightarrow> nat \<Rightarrow> ('h, unit) notifying" where
  "register_one ne req i =
     bindS (getS ns_inst) (\<lambda>inst. case get_params req inst of (uri, fault_id, tenant) \<Rightarrow>
     bindS (getS (res_at i)) (\<lambda>v. let sid = server_id v in
     bindS (sn_request ne (alarms_url ne uri tenant sid) ''POST'' (Some (register_body ne (in_id inst) fault_id sid))) (\<lambda>(code, body).
     bindS (liftS (if code \<ge> 400 then Inr False else jcontains body ''alarm_id'')) (\<lambda>registered.
     if \<not> registered then raiseS (mgmt_error (''server_notification registration is failed: '' @ show_int code @ ''.''))
     else bindS (liftS (jitem body ''alarm_id'')) (\<lambda>alarm_id.
       bindS (modS (change_res i (set_notification alarm_id))) (\<lambda>_.
         modS (change_entries (remember_alarm sid alarm_id))))))))"

text \<open>The list \<open>rsc_list\<close> holds the resources registered so far.\<close>

fun register_each :: "'h sn_env \<Rightarrow> op_params \<Rightarrow> nat list \<Rightarrow> nat list \<Rightarrow> ('h, unit) notifying" where
  "register_each ne req [] rsc_list = retS ()"
| "register_each ne req (i # is) rsc_list =
     bindS (getS (res_at i)) (\<lambda>v.
     if notification_of v \<noteq> None then register_each ne req is rsc_list
     else bindS (except_sol (register_one ne req i)
              (bindS (request_register_cancel ne req rsc_list) (\<lambda>_. raiseS (mgmt_error ''ServerNotification registration is failed.''))))
            (\<lambda>_. register_each ne req is (rsc_list @ [i])))"

definition request_register :: "'h sn_env \<Rightarrow> op_params \<Rightarrow> ('h, unit) notifying" where
  "request_register ne req =
     bindS (getS (\<lambda>s. need_vnfc_reses (ns_inst s))) (\<lambda>r. bindS (liftS r) (\<lambda>vs. register_each ne req [0..<length vs] []))"

text \<open>The first resource with the identifier of a server.\<close>

definition index_of_server :: "vnfc_resource list \<Rightarrow> string \<Rightarrow> nat option" where
  "index_of_server vs sid = List.find (\<lambda>i. server_id (vs ! i) = sid) [0..<length vs]"

definition merge_entry :: "'h sn_env \<Rightarrow> op_params \<Rightarrow> sn_entry \<Rightarrow> ('h, string list) notifying" where
  "merge_entry ne req e =
     bindS (getS (\<lambda>s. need_vnfc_reses (ns_inst s))) (\<lambda>r. bindS (liftS r) (\<lambda>vs.
     case index_of_server vs (sn_serverId e) of
       Some i \<Rightarrow>
         if alarm_truthy e then bindS (modS (change_res i (set_notification (or_null (sn_alarmId e))))) (\<lambda>_. retS [])
         else (case vr_metadata (vs ! i) of
             None \<Rightarrow> raiseS (key_error ''metadata'')
           | Some d \<Rightarrow> bindS (whenS (py_truthy (or_null (map_of d ''server_notification''))) (modS (change_res i del_notification))) (\<lambda>_. retS []))
     | None \<Rightarrow>
         bindS (getS ns_inst) (\<lambda>inst. case get_params req inst of (uri, fault_id, tenant) \<Rightarrow>
         bindS (whenS (alarm_truthy e) (unregister_alarm ne uri tenant (sn_serverId e) (or_null (sn_alarmId e)))) (\<lambda>_.
           retS [sn_serverId e]))))"

fun merge_entries :: "'h sn_env \<Rightarrow> op_params \<Rightarrow> sn_entry list \<Rightarrow> string list \<Rightarrow> ('h, string list) notifying" where
  "merge_entries ne req [] rm_server_id = retS rm_server_id"
| "merge_entries ne req (e # es) rm_server_id =
     bindS (merge_entry ne req e) (\<lambda>gone. merge_entries ne req es (rm_server_id @ gone))"

definition merge_recent_register :: "'h sn_env \<Rightarrow> op_params \<Rightarrow> ('h, unit) notifying" where
  "merge_recent_register ne req =
     bindS (getS (\<lambda>s. opt_list (ns_entries s))) (\<lambda>es.
     if es = [] then retS ()
     else bindS (merge_entries ne req es []) (\<lambda>rm_server_id.
       modS (change_entries (filter (\<lambda>e. sn_serverId e \<notin> set rm_server_id)))))"

fun rollback_entries :: "'h sn_env \<Rightarrow> json \<Rightarrow> json \<Rightarrow> sn_entry list \<Rightarrow> ('h, unit) notifying" where
  "rollback_entries ne uri tenant [] = retS ()"
| "rollback_entries ne uri tenant (e # es) =
     bindS (whenS (sn_serverId e \<noteq> [] \<and> alarm_truthy e) (unregister_alarm ne uri tenant (sn_serverId e) (or_null (sn_alarmId e))))
       (\<lambda>_. rollback_entries ne uri tenant es)"

definition instantiate_scale_rollback :: "'h sn_env \<Rightarrow> op_params \<Rightarrow> ('h, unit) notifying" where
  "instantiate_scale_rollback ne req =
     bindS (getS (\<lambda>s. (opt_list (ns_entries s), get_params req (ns_inst s)))) (\<lambda>(es, uri, fault_id, tenant).
       rollback_entries ne uri tenant es)"

subsection \<open>The operations of the script\<close>

definition removed_servers :: "grant_request option \<Rightarrow> string list pyres" where
  "removed_servers grant_req = (case grant_req of
      None \<Rightarrow> Inl (type_error JNull)
    | Some gr \<Rightarrow> (case gq_removeResources gr of
        None \<Rightarrow> Inl (key_error ''removeResources'')
      | Some defs \<Rightarrow> mapE (\<lambda>d. case rd_resource d of None \<Rightarrow> Inl (key_error ''resource'') | Some h \<Rightarrow> Inr (rh_resourceId h))
          (filter (\<lambda>d. rd_type d = COMPUTE) defs)))"

definition param_keys :: "string list" where
  "param_keys = [''ServerNotifierUri'', ''ServerNotifierFaultID'']"

definition sn_terminate_start :: "'h sn_env \<Rightarrow> op_params \<Rightarrow> ('h, unit) notifying" where
  "sn_terminate_start ne req =
     bindS (merge_recent_register ne req) (\<lambda>_.
     bindS (request_unregister ne req True []) (\<lambda>found.
     bindS (whenS found (modS (\<lambda>s. s\<lparr>ns_removed := ns_removed s @ [in_id (ns_inst s)]\<rparr>))) (\<lambda>_.
       modS (change_info (\<lambda>info. info\<lparr>iv_metadata := map_option (\<lambda>d. fold dict_del param_keys d) (iv_metadata info)\<rparr>)))))"

definition req_scale_type :: "op_params \<Rightarrow> string pyres" where
  "req_scale_type req = (case rq_type req of None \<Rightarrow> Inl (key_error ''type'') | Some t \<Rightarrow> Inr t)"

text \<open>The value says whether there is an output.\<close>

definition sn_scale_start :: "'h sn_env \<Rightarrow> op_params \<Rightarrow> grant_request option \<Rightarrow> ('h, bool) notifying" where
  "sn_scale_start ne req grant_req =
     bindS (liftS (req_scale_type req)) (\<lambda>ty.
     if ty \<noteq> ''SCALE_IN'' then retS False
     else bindS (merge_recent_register ne req) (\<lambda>_.
       bindS (liftS (removed_servers grant_req)) (\<lambda>ids.
       bindS (request_unregister ne req False ids) (\<lambda>_. retS True))))"

definition sn_heals_all :: "op_params \<Rightarrow> bool" where
  "sn_heals_all req = (case rq_additionalParams req of None \<Rightarrow> False
     | Some d \<Rightarrow> py_truthy (or_null (map_of d ''all'')) \<and> rq_vnfcInstanceId req = None)"

definition sn_heal_start :: "'h sn_env \<Rightarrow> op_params \<Rightarrow> grant_request option \<Rightarrow> ('h, unit) notifying" where
  "sn_heal_start ne req grant_req =
     bindS (merge_recent_register ne req) (\<lambda>_.
     bindS (liftS (removed_servers grant_req)) (\<lambda>ids.
     bindS (request_unregister ne req (sn_heals_all req) ids) (\<lambda>_. retS ())))"

definition sn_instantiate_end :: "'h sn_env \<Rightarrow> op_params \<Rightarrow> ('h, unit) notifying" where
  "sn_instantiate_end ne req =
     bindS (merge_recent_register ne req) (\<lambda>_.
     bindS (request_register ne req) (\<lambda>_.
     bindS (getS (\<lambda>s. get_params req (ns_inst s))) (\<lambda>(uri, fault_id, tenant).
       modS (change_info (\<lambda>info. info\<lparr>iv_metadata := Some (dict_set ''ServerNotifierFaultID'' fault_id
         (dict_set ''ServerNotifierUri'' uri (case iv_metadata info of None \<Rightarrow> [] | Some d \<Rightarrow> d)))\<rparr>)))))"

definition sn_scale_end :: "'h sn_env \<Rightarrow> op_params \<Rightarrow> ('h, bool) notifying" where
  "sn_scale_end ne req =
     bindS (liftS (req_scale_type req)) (\<lambda>ty.
     if ty \<noteq> ''SCALE_OUT'' then retS False
     else bindS (merge_recent_register ne req) (\<lambda>_. bindS (request_register ne req) (\<lambda>_. retS True)))"

definition sn_heal_end :: "'h sn_env \<Rightarrow> op_params \<Rightarrow> ('h, unit) notifying" where
  "sn_heal_end ne req = request_register ne req"

text \<open>The process: the operation by its name, and the output. After an exception only the list of alarms is in the output.\<close>

definition sn_operation :: "'h sn_env \<Rightarrow> string \<Rightarrow> op_params \<Rightarrow> grant_request option \<Rightarrow> ('h, bool) notifying" where
  "sn_operation ne operation req grant_req =
     (if operation = ''terminate_start'' then bindS (sn_terminate_start ne req) (\<lambda>_. retS True)
      else if operation = ''scale_start'' then sn_scale_start ne req grant_req
      else if operation = ''heal_start'' then bindS (sn_heal_start ne req grant_req) (\<lambda>_. retS True)
      else if operation = ''instantiate_end'' then bindS (sn_instantiate_end ne req) (\<lambda>_. retS True)
      else if operation = ''scale_end'' then sn_scale_end ne req
      else if operation = ''heal_end'' then bindS (sn_heal_end ne req) (\<lambda>_. retS True)
      else if operation \<in> {''instantiate_start'', ''terminate_end''} then retS False
      else if operation \<in> {''instantiate_rollback_start'', ''scale_rollback_start''}
      then bindS (instantiate_scale_rollback ne req) (\<lambda>_. retS True)
      else raiseS (PyExc AttributeError operation))"

record script_answer =
  sa_ok :: bool
  sa_inst :: "vnf_instance option"
  sa_entries :: "sn_entry list option"

definition notification_script :: "'h sn_env \<Rightarrow> string \<Rightarrow> op_params \<Rightarrow> grant_request option \<Rightarrow> 'h sn_state \<Rightarrow> script_answer \<times> 'h sn_state" where
  "notification_script ne operation req grant_req s = (case sn_operation ne operation req grant_req s of
      (Inl e, s') \<Rightarrow> (\<lparr>sa_ok = False, sa_inst = None, sa_entries = ns_entries s'\<rparr>, s')
    | (Inr out, s') \<Rightarrow> (\<lparr>sa_ok = True, sa_inst = (if out then Some (ns_inst s') else None),
         sa_entries = (if out then ns_entries s' else None)\<rparr>, s'))"

subsection \<open>The plugin\<close>

definition alarm_matches :: "string \<Rightarrow> vnfc_resource \<Rightarrow> bool pyres" where
  "alarm_matches alarm_id v = (case vr_metadata v of None \<Rightarrow> Inr False
     | Some d \<Rightarrow> bindE (jget (case map_of d ''server_notification'' of None \<Rightarrow> JObj [] | Some n \<Rightarrow> n) ''alarmId'' JNull) (\<lambda>a. Inr (a = JStr alarm_id)))"

definition get_vnfc_instance_id :: "vnf_instance \<Rightarrow> string \<Rightarrow> string \<Rightarrow> string list pyres" where
  "get_vnfc_instance_id inst alarm_id fault_id =
     (case in_instantiatedVnfInfo inst of
        None \<Rightarrow> Inl (Sol (SolValidationError ''access info not found in the vnf instance.''))
      | Some info \<Rightarrow> (case (iv_metadata info, iv_vnfcResourceInfo info, iv_vnfcInfo info) of
          (Some metadata, Some reses, Some vnfcs) \<Rightarrow>
            bindE (jcontains (case map_of metadata ''ServerNotifierFaultID'' of None \<Rightarrow> JArr [] | Some f \<Rightarrow> f) fault_id) (\<lambda>known.
            if \<not> known then Inl (Sol (SolValidationError ''fault_id does not match.''))
            else bindE (filterE (alarm_matches alarm_id) reses) (\<lambda>rsc_info.
              let ids = map ci_id (filter (\<lambda>c. case ci_vnfcResourceInfoId c of None \<Rightarrow> False | Some r \<Rightarrow> r \<in> vr_id ` set rsc_info) vnfcs) in
              if ids = [] then Inl (Sol (SolValidationError ''target vnfc not found.'')) else Inr ids))
        | _ \<Rightarrow> Inl (Sol (SolValidationError ''access info not found in the vnf instance.''))))"

definition autoheal_enabled :: "vnf_instance \<Rightarrow> bool" where
  "autoheal_enabled inst = (case in_vnfConfigurableProperties inst of None \<Rightarrow> False
     | Some ps \<Rightarrow> py_truthy (or_null (map_of ps ''isAutohealEnabled'')))"

text \<open>What is cast to the conductor: the instance and the identifiers of VNFCs.\<close>

definition sn_notify :: "vnf_instance list \<Rightarrow> string \<Rightarrow> json \<Rightarrow> ((string \<times> string list) list, exn, unit) sem" where
  "sn_notify insts vnf_instance_id body = (case row_find in_id insts vnf_instance_id of
      None \<Rightarrow> raiseS (Sol (VnfInstanceNotFound vnf_instance_id))
    | Some inst \<Rightarrow>
        if \<not> autoheal_enabled inst then retS ()
        else bindS (liftS (bindE (jitem body ''notification'') (\<lambda>n. bindE (jitem n ''alarm_id'') (\<lambda>a. bindE (jitem n ''fault_id'') (\<lambda>f.
            case (a, f) of (JStr alarm_id, JStr fault_id) \<Rightarrow> get_vnfc_instance_id inst alarm_id fault_id | _ \<Rightarrow> Inl (type_error a)))))) (\<lambda>vnfcids.
          modS (\<lambda>casts. casts @ [(vnf_instance_id, vnfcids)])))"

end
