(* ===== verification/Notify_Props.thy ===== *)
theory Notify_Props
  imports Server_Notify
begin

section \<open>Properties of the notifications of a monitoring server\<close>

text \<open>
  Which VNFCs a notification heals after an instantiation, and that the rollback of an instantiation unregisters every alarm that the
  monitoring server has made. For the second one the session is \<open>recording\<close>: its state is the list of the requests so far, and an
  answer may depend on all of them, so every behaviour of a server is an instance.
\<close>

subsection \<open>Changes of resources\<close>

lemma vnfc_reses_change_res [simp]: "vnfc_reses (ns_inst (change_res i f s)) = (vnfc_reses (ns_inst s))[i := f (res_at i s)]"
  by (simp add: change_res_def change_info_def vnfc_reses_def res_at_def opt_list_def split: option.splits)

lemma get_params_change_res [simp]: "get_params req (ns_inst (change_res i f s)) = get_params req (ns_inst s)"
  by (simp add: change_res_def change_info_def get_params_def tenant_of_def split: option.splits)

lemma change_res_rest [simp]:
  "ns_entries (change_res i f s) = ns_entries s" "ns_http (change_res i f s) = ns_http s" "in_id (ns_inst (change_res i f s)) = in_id (ns_inst s)"
  by (simp_all add: change_res_def change_info_def)

lemma change_entries_rest [simp]:
  "ns_inst (change_entries f s) = ns_inst s" "ns_http (change_entries f s) = ns_http s"
  "opt_list (ns_entries (change_entries f s)) = f (opt_list (ns_entries s))"
  by (simp_all add: change_entries_def opt_list_def)

lemma server_id_notification [simp]:
  "server_id (set_notification a v) = server_id v" "server_id (del_notification v) = server_id v"
  by (simp_all add: server_id_def set_notification_def del_notification_def)

lemma notification_of_set [simp]:
  "notification_of (set_notification a v) = Some (JObj [(''alarmId'', a)])" "notification_of (del_notification v) = None"
  by (simp_all add: notification_of_def set_notification_def del_notification_def split: option.splits)

lemma sn_request_rest: "sn_request ne url m b s = (r, s') \<Longrightarrow> \<exists>h. s' = s\<lparr>ns_http := h\<rparr>"
  by (auto simp: sn_request_def split: prod.splits)

lemma need_vnfc_reses_Inr: "need_vnfc_reses inst = Inr vs \<Longrightarrow> vnfc_reses inst = vs"
  by (auto simp: need_vnfc_reses_def vnfc_reses_def opt_list_def split: option.splits)

subsection \<open>Registration\<close>

lemma except_sol_Inr: "except_sol m (bindS h (\<lambda>_. raiseS e)) s = (Inr x, s') \<Longrightarrow> m s = (Inr x, s')"
  by (auto simp: except_sol_def tryS_def bindS_def split: prod.splits sum.splits exn.splits)

lemma register_one_Inr:
  assumes "register_one ne req i s = (Inr (), s')"
  shows "\<exists>a. vnfc_reses (ns_inst s') = (vnfc_reses (ns_inst s))[i := set_notification a (res_at i s)] \<and>
    get_params req (ns_inst s') = get_params req (ns_inst s)"
proof -
  obtain uri fault_id tenant where p: "get_params req (ns_inst s) = (uri, fault_id, tenant)" by (cases "get_params req (ns_inst s)")
  obtain code body s2 a where
    r: "sn_request ne (alarms_url ne uri tenant (server_id (res_at i s))) ''POST''
      (Some (register_body ne (in_id (ns_inst s)) fault_id (server_id (res_at i s)))) s = (Inr (code, body), s2)"
    and s': "s' = change_entries (remember_alarm (server_id (res_at i s)) a) (change_res i (set_notification a) s2)"
    using assms p by (auto simp: register_one_def bindS_eq_Inr Let_def split: if_splits)
  obtain h where "s2 = s\<lparr>ns_http := h\<rparr>" using sn_request_rest [OF r] by blast
  with s' show ?thesis by (auto simp: res_at_def)
qed

lemma register_each_Inr:
  assumes "register_each ne req is done s = (Inr (), s')"
  shows "length (vnfc_reses (ns_inst s')) = length (vnfc_reses (ns_inst s)) \<and> get_params req (ns_inst s') = get_params req (ns_inst s) \<and>
    (\<forall>j < length (vnfc_reses (ns_inst s)). notification_of (vnfc_reses (ns_inst s) ! j) = None \<longrightarrow>
       (j \<in> set is \<longrightarrow> (\<exists>a. notification_of (vnfc_reses (ns_inst s') ! j) = Some (JObj [(''alarmId'', a)]))) \<and>
       (j \<notin> set is \<longrightarrow> vnfc_reses (ns_inst s') ! j = vnfc_reses (ns_inst s) ! j)) \<and>
    (\<forall>j < length (vnfc_reses (ns_inst s)). notification_of (vnfc_reses (ns_inst s) ! j) \<noteq> None \<longrightarrow>
       vnfc_reses (ns_inst s') ! j = vnfc_reses (ns_inst s) ! j)"
  using assms
proof (induction "is" arbitrary: "done" s)
  case Nil
  then show ?case by simp
next
  case (Cons i "is")
  show ?case
  proof (cases "notification_of (res_at i s) = None")
    case False
    then have "register_each ne req is done s = (Inr (), s')" using Cons.prems by (simp add: bindS_def)
    from Cons.IH [OF this] False show ?thesis by (auto simp: res_at_def)
  next
    case True
    then obtain s2 where one: "register_one ne req i s = (Inr (), s2)" and rest: "register_each ne req is (done @ [i]) s2 = (Inr (), s')"
      using Cons.prems by (auto simp: bindS_eq_Inr dest!: except_sol_Inr)
    obtain a where a: "vnfc_reses (ns_inst s2) = (vnfc_reses (ns_inst s))[i := set_notification a (res_at i s)]"
      "get_params req (ns_inst s2) = get_params req (ns_inst s)" using register_one_Inr [OF one] by blast
    note IH = Cons.IH [OF rest]
    have other: "vnfc_reses (ns_inst s2) ! j = vnfc_reses (ns_inst s) ! j" if "j \<noteq> i" for j using a(1) that by simp
    have this_one: "vnfc_reses (ns_inst s2) ! i = set_notification a (res_at i s)" if "i < length (vnfc_reses (ns_inst s))" using a(1) that by simp
    have len: "length (vnfc_reses (ns_inst s2)) = length (vnfc_reses (ns_inst s))" using a(1) by simp
    have "\<exists>a. notification_of (vnfc_reses (ns_inst s') ! j) = Some (JObj [(''alarmId'', a)])"
      if "j < length (vnfc_reses (ns_inst s))" "notification_of (vnfc_reses (ns_inst s) ! j) = None" "j \<in> set (i # is)" for j
    proof (cases "j = i")
      case True
      with IH that len this_one show ?thesis by simp
    next
      case False
      with IH that len other [OF False] show ?thesis by simp
    qed
    moreover have "vnfc_reses (ns_inst s') ! j = vnfc_reses (ns_inst s) ! j"
      if "j < length (vnfc_reses (ns_inst s))" "j \<notin> set (i # is) \<or> notification_of (vnfc_reses (ns_inst s) ! j) \<noteq> None" for j
    proof -
      have "j \<noteq> i" using that True by (auto simp: res_at_def)
      with IH that len other [OF this] show ?thesis by (cases "notification_of (vnfc_reses (ns_inst s) ! j) = None") auto
    qed
    ultimately show ?thesis using IH len a(2) by auto
  qed
qed

lemma instantiate_end_Inr:
  assumes "sn_instantiate_end ne req s = (Inr (), s1)" and "ns_entries s = None"
    and "\<forall>v \<in> set (vnfc_reses (ns_inst s)). notification_of v = None" and "get_params req (ns_inst s) = (uri, fault_id, tenant)"
  shows "(\<forall>v \<in> set (vnfc_reses (ns_inst s1)). \<exists>a. notification_of v = Some (JObj [(''alarmId'', a)])) \<and>
    (\<forall>info. in_instantiatedVnfInfo (ns_inst s1) = Some info \<longrightarrow>
       (\<exists>d. iv_metadata info = Some d \<and> map_of d ''ServerNotifierFaultID'' = Some fault_id))"
proof -
  obtain vs s2 where vs: "need_vnfc_reses (ns_inst s) = Inr vs" and each: "register_each ne req [0..<length vs] [] s = (Inr (), s2)"
    and s1: "s1 = change_info (\<lambda>info. info\<lparr>iv_metadata := Some (dict_set ''ServerNotifierFaultID'' (fst (snd (get_params req (ns_inst s2))))
      (dict_set ''ServerNotifierUri'' (fst (get_params req (ns_inst s2))) (case iv_metadata info of None \<Rightarrow> [] | Some d \<Rightarrow> d)))\<rparr>) s2"
    using assms(1,2) by (auto simp: sn_instantiate_end_def merge_recent_register_def request_register_def bindS_eq_Inr opt_list_def case_prod_unfold)
  note R = register_each_Inr [OF each]
  have "get_params req (ns_inst s2) = (uri, fault_id, tenant)" using R assms(4) by simp
  moreover have same: "vnfc_reses (ns_inst s1) = vnfc_reses (ns_inst s2)"
    by (simp add: s1 change_info_def vnfc_reses_def split: option.splits)
  moreover have "\<forall>v \<in> set (vnfc_reses (ns_inst s1)). \<exists>a. notification_of v = Some (JObj [(''alarmId'', a)])"
    using R assms(3) need_vnfc_reses_Inr [OF vs] unfolding same all_set_conv_all_nth by auto
  ultimately show ?thesis by (auto simp: s1 change_info_def)
qed

text \<open>When every resource has an alarm, the plugin finds exactly the VNFCs of the notified one.\<close>

lemma notified_vnfcs:
  assumes "in_instantiatedVnfInfo inst = Some info" and "iv_vnfcResourceInfo info = Some reses" and "iv_vnfcInfo info = Some vnfcs"
    and "iv_metadata info = Some d" and "map_of d ''ServerNotifierFaultID'' = Some fault_id" and "jcontains fault_id f = Inr True"
    and all: "\<forall>r \<in> set reses. \<exists>x. notification_of r = Some (JObj [(''alarmId'', x)])"
    and v: "v \<in> set reses" "notification_of v = Some (JObj [(''alarmId'', JStr t)])"
    and c: "c \<in> set vnfcs" "ci_vnfcResourceInfoId c = Some (vr_id v)"
  shows "\<exists>ids. get_vnfc_instance_id inst t f = Inr ids \<and> ci_id c \<in> set ids \<and>
    set ids = {ci_id b | b. b \<in> set vnfcs \<and> (\<exists>r \<in> set reses. ci_vnfcResourceInfoId b = Some (vr_id r) \<and>
      notification_of r = Some (JObj [(''alarmId'', JStr t)]))}"
proof -
  let ?has = "\<lambda>r. notification_of r = Some (JObj [(''alarmId'', JStr t)])"
  let ?vnfcs = "filter (\<lambda>b. case ci_vnfcResourceInfoId b of None \<Rightarrow> False | Some r \<Rightarrow> r \<in> vr_id ` set (filter ?has reses)) vnfcs"
  have "filterE (alarm_matches t) reses = Inr (filter ?has reses)"
  proof (rule filterE_pure)
    fix r assume "r \<in> set reses"
    with all obtain x where "notification_of r = Some (JObj [(''alarmId'', x)])" by blast
    then show "alarm_matches t r = Inr (?has r)" by (auto simp: alarm_matches_def notification_of_def split: option.splits)
  qed
  moreover have c_in: "c \<in> set ?vnfcs" using c v by simp
  moreover have "map ci_id ?vnfcs \<noteq> []"
  proof
    assume "map ci_id ?vnfcs = []"
    then have "?vnfcs = []" by (simp only: map_is_Nil_conv)
    with c_in show False by (simp only: list.set(1) empty_iff)
  qed
  ultimately have "get_vnfc_instance_id inst t f = Inr (map ci_id ?vnfcs)"
    using assms(1-6) by (simp add: get_vnfc_instance_id_def Let_def)
  moreover have "ci_id c \<in> set (map ci_id ?vnfcs)" unfolding set_map using c_in by (rule imageI)
  moreover have "set (map ci_id ?vnfcs) =
      {ci_id b | b. b \<in> set vnfcs \<and> (\<exists>r \<in> set reses. ci_vnfcResourceInfoId b = Some (vr_id r) \<and> ?has r)}"
    by (auto split: option.splits, blast+)
  ultimately show ?thesis by blast
qed

text \<open>
  C31: After an instantiation in which the script has registered the servers, every VNFC has an alarm, and a notification of an alarm with a
  fault of the request asks for a heal of exactly the VNFCs that have this alarm, when the instance is healed automatically.
\<close>

theorem alarm_heals_its_vnfcs:
  assumes "sn_instantiate_end ne req s = (Inr (), s1)" and "ns_entries s = None"
    and "\<forall>v \<in> set (vnfc_reses (ns_inst s)). notification_of v = None"
    and "get_params req (ns_inst s) = (uri, fault_id, tenant)" and "jcontains fault_id f = Inr True"
    and "in_instantiatedVnfInfo (ns_inst s1) = Some info" and "iv_vnfcResourceInfo info = Some reses" and "iv_vnfcInfo info = Some vnfcs"
    and "row_find in_id insts i = Some (ns_inst s1)" and "autoheal_enabled (ns_inst s1)"
  shows "\<forall>v \<in> set reses. \<exists>a. notification_of v = Some (JObj [(''alarmId'', a)]) \<and>
    (\<forall>t c. a = JStr t \<and> c \<in> set vnfcs \<and> ci_vnfcResourceInfoId c = Some (vr_id v) \<longrightarrow>
      (\<exists>ids. sn_notify insts i (JObj [(''notification'', JObj [(''alarm_id'', JStr t), (''fault_id'', JStr f)])]) casts = (Inr (), casts @ [(i, ids)]) \<and>
        ci_id c \<in> set ids \<and>
        set ids = {ci_id b | b. b \<in> set vnfcs \<and> (\<exists>r \<in> set reses. ci_vnfcResourceInfoId b = Some (vr_id r) \<and>
          notification_of r = Some (JObj [(''alarmId'', JStr t)]))}))"
proof (intro ballI)
  fix v assume v: "v \<in> set reses"
  have reses: "vnfc_reses (ns_inst s1) = reses" using assms(6,7) by (simp add: vnfc_reses_def opt_list_def)
  note E = instantiate_end_Inr [OF assms(1-4), unfolded reses]
  then obtain d where d: "iv_metadata info = Some d" "map_of d ''ServerNotifierFaultID'' = Some fault_id" using assms(6) by blast
  obtain a where a: "notification_of v = Some (JObj [(''alarmId'', a)])" using E v by blast
  note found = notified_vnfcs [OF assms(6-8) d assms(5) conjunct1 [OF E] v]
  have "\<exists>ids. sn_notify insts i (JObj [(''notification'', JObj [(''alarm_id'', JStr t), (''fault_id'', JStr f)])]) casts = (Inr (), casts @ [(i, ids)]) \<and>
      ci_id c \<in> set ids \<and> set ids = {ci_id b | b. b \<in> set vnfcs \<and> (\<exists>r \<in> set reses. ci_vnfcResourceInfoId b = Some (vr_id r) \<and>
          notification_of r = Some (JObj [(''alarmId'', JStr t)]))}"
    if "a = JStr t \<and> c \<in> set vnfcs \<and> ci_vnfcResourceInfoId c = Some (vr_id v)" for t c
  proof -
    have "notification_of v = Some (JObj [(''alarmId'', JStr t)])" using a that by simp
    from found [OF this] that obtain ids where ids: "get_vnfc_instance_id (ns_inst s1) t f = Inr ids" "ci_id c \<in> set ids"
      "set ids = {ci_id b | b. b \<in> set vnfcs \<and> (\<exists>r \<in> set reses. ci_vnfcResourceInfoId b = Some (vr_id r) \<and>
          notification_of r = Some (JObj [(''alarmId'', JStr t)]))}" by blast
    moreover have "sn_notify insts i (JObj [(''notification'', JObj [(''alarm_id'', JStr t), (''fault_id'', JStr f)])]) casts = (Inr (), casts @ [(i, ids)])"
      using ids(1) assms(9,10) by (simp add: sn_notify_def bindS_def)
    ultimately show ?thesis by blast
  qed
  with a show "\<exists>a. notification_of v = Some (JObj [(''alarmId'', a)]) \<and>
    (\<forall>t c. a = JStr t \<and> c \<in> set vnfcs \<and> ci_vnfcResourceInfoId c = Some (vr_id v) \<longrightarrow>
      (\<exists>ids. sn_notify insts i (JObj [(''notification'', JObj [(''alarm_id'', JStr t), (''fault_id'', JStr f)])]) casts = (Inr (), casts @ [(i, ids)]) \<and>
        ci_id c \<in> set ids \<and>
        set ids = {ci_id b | b. b \<in> set vnfcs \<and> (\<exists>r \<in> set reses. ci_vnfcResourceInfoId b = Some (vr_id r) \<and>
          notification_of r = Some (JObj [(''alarmId'', JStr t)]))}))" by blast
qed

subsection \<open>Every alarm is unregistered by the rollback\<close>

type_synonym req_log = "(string \<times> string \<times> jdict option) list"

definition recording :: "(req_log \<Rightarrow> string \<Rightarrow> string \<Rightarrow> jdict option \<Rightarrow> exn + http_resp) \<Rightarrow> (string \<Rightarrow> json pyres) \<Rightarrow> req_log heat_http" where
  "recording answer loads = \<lparr>hh_request = (\<lambda>url m b log. (answer log url m b, log @ [(url, m, b)])), hh_loads = loads, hh_sleep = id,
     hh_enable_rollback = False\<rparr>"

text \<open>The answer to a request after the requests of a log, and the alarm that it gives.\<close>

definition reply :: "req_log heat_http \<Rightarrow> req_log \<Rightarrow> string \<Rightarrow> string \<Rightarrow> jdict option \<Rightarrow> (int \<times> json) pyres" where
  "reply hh log url m b = fst (do_request hh url m [] b log)"

definition new_alarm :: "(int \<times> json) pyres \<Rightarrow> json option" where
  "new_alarm r = (case r of
      Inr (code, JObj d) \<Rightarrow> if code < 400 \<and> py_truthy (or_null (map_of d ''alarm_id'')) then map_of d ''alarm_id'' else None
    | _ \<Rightarrow> None)"

lemma sn_request_run:
  assumes "ne_http ne = recording answer loads"
  shows "sn_request ne url m b s = (reply (ne_http ne) (ns_http s) url m b, s\<lparr>ns_http := ns_http s @ [(url, m, b)]\<rparr>)"
proof -
  have "snd (do_request (recording answer loads) url m [] b log) = log @ [(url, m, b)]" for log
    by (simp add: do_request_def bindS_def recording_def split: sum.splits prod.splits)
  moreover obtain r h where "do_request (recording answer loads) url m [] b (ns_http s) = (r, h)" by fastforce
  ultimately show ?thesis unfolding sn_request_def reply_def assms by (metis fst_conv old.prod.case snd_conv)
qed

text \<open>The requests that made an alarm, and those that unregister it.\<close>

definition covered :: "req_log sn_env \<Rightarrow> json \<Rightarrow> json \<Rightarrow> req_log \<Rightarrow> sn_entry list \<Rightarrow> bool" where
  "covered ne uri tenant log es \<longleftrightarrow> (\<forall>k sid b a. k < length log \<and> log ! k = (alarms_url ne uri tenant sid, ''POST'', b) \<and>
     new_alarm (reply (ne_http ne) (take k log) (alarms_url ne uri tenant sid) ''POST'' b) = Some a \<longrightarrow>
     (\<exists>e \<in> set es. sn_serverId e = sid \<and> sn_alarmId e = Some a) \<or> (alarm_url ne uri tenant sid a, ''DELETE'', None) \<in> set log)"

lemma covered_append:
  assumes "covered ne uri tenant log es"
    and "\<And>sid b a. q = (alarms_url ne uri tenant sid, ''POST'', b) \<Longrightarrow>
       new_alarm (reply (ne_http ne) log (alarms_url ne uri tenant sid) ''POST'' b) = Some a \<Longrightarrow> \<exists>e \<in> set es. sn_serverId e = sid \<and> sn_alarmId e = Some a"
  shows "covered ne uri tenant (log @ [q]) es"
  unfolding covered_def
proof (intro allI impI, elim conjE)
  fix k sid b a
  assume k: "k < length (log @ [q])" and q: "(log @ [q]) ! k = (alarms_url ne uri tenant sid, ''POST'', b)"
    and a: "new_alarm (reply (ne_http ne) (take k (log @ [q])) (alarms_url ne uri tenant sid) ''POST'' b) = Some a"
  show "(\<exists>e \<in> set es. sn_serverId e = sid \<and> sn_alarmId e = Some a) \<or> (alarm_url ne uri tenant sid a, ''DELETE'', None) \<in> set (log @ [q])"
  proof (cases "k < length log")
    case True
    with q a assms(1) show ?thesis unfolding covered_def by (fastforce simp: nth_append)
  next
    case False
    then have "k = length log" using k by simp
    with q a assms(2) show ?thesis by simp
  qed
qed

lemma covered_entries:
  assumes "covered ne uri tenant log es"
    and "\<And>e a. e \<in> set es \<Longrightarrow> sn_alarmId e = Some a \<Longrightarrow> py_truthy a \<Longrightarrow>
       (\<exists>e' \<in> set es'. sn_serverId e' = sn_serverId e \<and> sn_alarmId e' = Some a) \<or> (alarm_url ne uri tenant (sn_serverId e) a, ''DELETE'', None) \<in> set log"
  shows "covered ne uri tenant log es'"
  unfolding covered_def
proof (intro allI impI, elim conjE)
  fix k sid b a
  assume k: "k < length log" "log ! k = (alarms_url ne uri tenant sid, ''POST'', b)"
    and a: "new_alarm (reply (ne_http ne) (take k log) (alarms_url ne uri tenant sid) ''POST'' b) = Some a"
  have "py_truthy a" using a by (auto simp: new_alarm_def or_null_def split: sum.splits prod.splits json.splits if_splits)
  with assms(2) assms(1)[unfolded covered_def] k a
  show "(\<exists>e \<in> set es'. sn_serverId e = sid \<and> sn_alarmId e = Some a) \<or> (alarm_url ne uri tenant sid a, ''DELETE'', None) \<in> set log" by metis
qed

lemma alarms_url_inj: "alarms_url ne uri tenant sid = alarms_url ne uri tenant sid' \<longleftrightarrow> sid = sid'"
  by (simp add: alarms_url_def)

subsection \<open>The list of alarms\<close>

lemma update_first_set: "x \<in> set (update_first P f xs) \<Longrightarrow> x \<in> set xs \<or> (\<exists>y \<in> set xs. P y \<and> x = f y)"
  by (induction xs) (auto split: if_splits)

lemma update_first_keeps: "x \<in> set xs \<Longrightarrow> x \<in> set (update_first P f xs) \<or> List.find P xs = Some x"
  by (induction xs) auto

lemma forget_alarm_keeps:
  "e \<in> set es \<Longrightarrow> e \<in> set (forget_alarm sid es) \<or> of_server sid e \<and> List.find (of_server sid) es = Some e"
  using update_first_keeps [of e es "of_server sid"] find_Some_iff2 [of "of_server sid" es]
  by (fastforce simp: forget_alarm_def split: option.splits if_splits)

lemma forget_alarm_truthy: "e \<in> set (forget_alarm sid es) \<Longrightarrow> alarm_truthy e \<Longrightarrow> e \<in> set es"
  by (auto simp: forget_alarm_def alarm_truthy_def or_null_def split: option.splits if_splits dest!: update_first_set)

lemma remember_alarm_new: "\<forall>e \<in> set es. sn_serverId e \<noteq> sid \<Longrightarrow> remember_alarm sid a es = es @ [\<lparr>sn_serverId = sid, sn_alarmId = Some a\<rparr>]"
  by (auto simp: remember_alarm_def of_server_def)

text \<open>The list and the metadata of the resources agree.\<close>

definition agree :: "sn_entry list \<Rightarrow> vnfc_resource list \<Rightarrow> bool" where
  "agree es vs \<longleftrightarrow> (\<forall>e \<in> set es. \<forall>v \<in> set vs. alarm_truthy e \<and> server_id v = sn_serverId e \<longrightarrow>
     (\<forall>n. notification_of v = Some n \<longrightarrow> jitem n ''alarmId'' = Inr (or_null (sn_alarmId e))))"

definition tracked :: "req_log sn_env \<Rightarrow> op_params \<Rightarrow> json \<Rightarrow> json \<Rightarrow> string list \<Rightarrow> req_log sn_state \<Rightarrow> bool" where
  "tracked ne req uri tenant sids s \<longleftrightarrow> covered ne uri tenant (ns_http s) (opt_list (ns_entries s)) \<and>
     agree (opt_list (ns_entries s)) (vnfc_reses (ns_inst s)) \<and> map server_id (vnfc_reses (ns_inst s)) = sids \<and>
     (\<exists>fault_id. get_params req (ns_inst s) = (uri, fault_id, tenant))"

lemma map_server_id_update: "map server_id vs = sids \<Longrightarrow> server_id v = server_id (vs ! i) \<Longrightarrow> map server_id (vs[i := v]) = sids"
  by (metis list_update_id map_update)

lemma unregister_alarm_run:
  assumes "ne_http ne = recording answer loads" and "unregister_alarm ne uri tenant sid a s = (r, s')"
  shows "\<exists>es. s' = s\<lparr>ns_http := ns_http s @ [(alarm_url ne uri tenant sid a, ''DELETE'', None)], ns_entries := es\<rparr> \<and>
    (es = ns_entries s \<or> es = Some (forget_alarm sid (opt_list (ns_entries s))))"
proof -
  let ?s = "s\<lparr>ns_http := ns_http s @ [(alarm_url ne uri tenant sid a, ''DELETE'', None)]\<rparr>"
  have "s' = ?s \<or> s' = ?s\<lparr>ns_entries := Some (forget_alarm sid (opt_list (ns_entries s)))\<rparr>"
    using assms(2)
    by (auto simp: unregister_alarm_def except_sol_def tryS_def bindS_def sn_request_run [OF assms(1)] change_entries_def
        split: sum.splits prod.splits exn.splits if_splits)
  then show ?thesis
  proof
    assume "s' = ?s"
    then have "s' = ?s\<lparr>ns_entries := ns_entries s\<rparr>" by simp
    then show ?thesis by blast
  next
    assume "s' = ?s\<lparr>ns_entries := Some (forget_alarm sid (opt_list (ns_entries s)))\<rparr>"
    then show ?thesis by blast
  qed
qed

lemma unregister_covered:
  assumes "ne_http ne = recording answer loads" and "unregister_alarm ne uri tenant sid a s = (r, s')"
    and "covered ne uri tenant (ns_http s) (opt_list (ns_entries s))"
    and "\<And>e. List.find (of_server sid) (opt_list (ns_entries s)) = Some e \<Longrightarrow> alarm_truthy e \<Longrightarrow> or_null (sn_alarmId e) = a"
  shows "covered ne uri tenant (ns_http s') (opt_list (ns_entries s'))"
proof -
  let ?log = "ns_http s @ [(alarm_url ne uri tenant sid a, ''DELETE'', None)]"
  have c: "covered ne uri tenant ?log (opt_list (ns_entries s))" by (rule covered_append [OF assms(3)]) simp
  have f: "covered ne uri tenant ?log (forget_alarm sid (opt_list (ns_entries s)))"
  proof (rule covered_entries [OF c])
    fix e b assume e: "e \<in> set (opt_list (ns_entries s))" "sn_alarmId e = Some b" "py_truthy b"
    then have t: "alarm_truthy e" by (simp add: alarm_truthy_def or_null_def)
    show "(\<exists>e' \<in> set (forget_alarm sid (opt_list (ns_entries s))). sn_serverId e' = sn_serverId e \<and> sn_alarmId e' = Some b) \<or>
      (alarm_url ne uri tenant (sn_serverId e) b, ''DELETE'', None) \<in> set ?log"
    proof (cases "e \<in> set (forget_alarm sid (opt_list (ns_entries s)))")
      case True
      with e show ?thesis by blast
    next
      case False
      with forget_alarm_keeps [OF e(1)] have "of_server sid e" "List.find (of_server sid) (opt_list (ns_entries s)) = Some e" by blast+
      with assms(4) [OF _ t] e(2) show ?thesis by (simp add: of_server_def or_null_def)
    qed
  qed
  obtain es where "s' = s\<lparr>ns_http := ?log, ns_entries := es\<rparr>" "es = ns_entries s \<or> es = Some (forget_alarm sid (opt_list (ns_entries s)))"
    using unregister_alarm_run [OF assms(1,2)] by blast
  with c f show ?thesis by (auto simp: opt_list_def)
qed

lemma unregister_rest:
  assumes "ne_http ne = recording answer loads" and "unregister_alarm ne uri tenant sid a s = (r, s')"
  shows "ns_inst s' = ns_inst s \<and> (\<forall>e \<in> set (opt_list (ns_entries s')). alarm_truthy e \<longrightarrow> e \<in> set (opt_list (ns_entries s))) \<and>
    set (ns_http s) \<subseteq> set (ns_http s') \<and> (alarm_url ne uri tenant sid a, ''DELETE'', None) \<in> set (ns_http s')"
proof -
  obtain es where "s' = s\<lparr>ns_http := ns_http s @ [(alarm_url ne uri tenant sid a, ''DELETE'', None)], ns_entries := es\<rparr>"
    "es = ns_entries s \<or> es = Some (forget_alarm sid (opt_list (ns_entries s)))"
    using unregister_alarm_run [OF assms] by blast
  moreover have "opt_list (Some xs) = xs" for xs :: "sn_entry list" by (simp add: opt_list_def)
  ultimately show ?thesis by (auto dest: forget_alarm_truthy)
qed

lemma drop_alarm_tracked:
  assumes "ne_http ne = recording answer loads" and "tracked ne req uri tenant sids s" and "i < length sids"
    and "notification_of (res_at i s) \<noteq> None" and "drop_alarm ne req i s = (r, s')"
  shows "tracked ne req uri tenant sids s'"
proof -
  obtain n where n: "notification_of (res_at i s) = Some n" using assms(4) by blast
  obtain fault_id where p: "get_params req (ns_inst s) = (uri, fault_id, tenant)" using assms(2) by (auto simp: tracked_def)
  show ?thesis
  proof (cases "jitem n ''alarmId''")
    case (Inl e)
    with assms(2,5) n p show ?thesis by (auto simp: drop_alarm_def bindS_def or_null_def)
  next
    case (Inr a)
    let ?s = "change_res i del_notification s" let ?v = "res_at i s"
    have u: "unregister_alarm ne uri tenant (server_id ?v) a ?s = (r, s')"
      using assms(5) n p Inr by (simp add: drop_alarm_def bindS_def or_null_def)
    have len: "i < length (vnfc_reses (ns_inst s))" using assms(2,3) by (auto simp: tracked_def)
    then have mem: "?v \<in> set (vnfc_reses (ns_inst s))" by (simp add: res_at_def)
    have ag: "agree (opt_list (ns_entries s)) (vnfc_reses (ns_inst s))" using assms(2) by (simp add: tracked_def)
    have "covered ne uri tenant (ns_http s') (opt_list (ns_entries s'))"
    proof (rule unregister_covered [OF assms(1) u])
      show "covered ne uri tenant (ns_http ?s) (opt_list (ns_entries ?s))" using assms(2) by (simp add: tracked_def)
      fix e assume "List.find (of_server (server_id ?v)) (opt_list (ns_entries ?s)) = Some e" and t: "alarm_truthy e"
      then have "e \<in> set (opt_list (ns_entries s))" "server_id ?v = sn_serverId e" using find_Some_iff2 by (fastforce simp: of_server_def)+
      with ag mem t n Inr show "or_null (sn_alarmId e) = a" unfolding agree_def by fastforce
    qed
    moreover have "agree (opt_list (ns_entries s')) (vnfc_reses (ns_inst s'))"
      using unregister_rest [OF assms(1) u] ag unfolding agree_def by (fastforce dest!: set_update_subset_insert [THEN subsetD])
    moreover have "map server_id (vnfc_reses (ns_inst s')) = sids"
      using unregister_rest [OF assms(1) u] assms(2) by (simp add: tracked_def map_server_id_update res_at_def)
    moreover have "get_params req (ns_inst s') = (uri, fault_id, tenant)" using unregister_rest [OF assms(1) u] p by simp
    ultimately show ?thesis by (simp add: tracked_def)
  qed
qed

lemma cancel_tracked:
  assumes "ne_http ne = recording answer loads"
  shows "tracked ne req uri tenant sids s \<Longrightarrow> \<forall>i \<in> set is. i < length sids \<Longrightarrow> request_register_cancel ne req is s = (r, s') \<Longrightarrow>
    tracked ne req uri tenant sids s'"
proof (induction "is" arbitrary: s)
  case Nil
  then show ?case by simp
next
  case (Cons i "is")
  show ?case
  proof (cases "notification_of (res_at i s) = None")
    case True
    with Cons show ?thesis by (simp add: bindS_def)
  next
    case False
    obtain q t where d: "drop_alarm ne req i s = (q, t)" by (cases "drop_alarm ne req i s")
    have t: "tracked ne req uri tenant sids t" using drop_alarm_tracked [OF assms Cons.prems(1) _ False d] Cons.prems(2) by simp
    show ?thesis
    proof (cases q)
      case (Inl e)
      with Cons.prems(3) d False t show ?thesis by (simp add: bindS_def)
    next
      case (Inr u)
      with Cons.prems(3) d False have "request_register_cancel ne req is t = (r, s')" by (simp add: bindS_def)
      with Cons.IH [OF t] Cons.prems(2) show ?thesis by simp
    qed
  qed
qed

lemma register_one_tracked:
  assumes "ne_http ne = recording answer loads" and "tracked ne req uri tenant sids s" and "i < length sids" and "distinct sids"
    and "\<forall>e \<in> set (opt_list (ns_entries s)). sn_serverId e \<noteq> sids ! i" and "register_one ne req i s = (r, s')"
  shows "tracked ne req uri tenant sids s' \<and> (\<forall>e \<in> set (opt_list (ns_entries s')). e \<in> set (opt_list (ns_entries s)) \<or> sn_serverId e = sids ! i)"
proof -
  obtain fault_id where p: "get_params req (ns_inst s) = (uri, fault_id, tenant)" using assms(2) by (auto simp: tracked_def)
  let ?vs = "vnfc_reses (ns_inst s)" and ?es = "opt_list (ns_entries s)"
  have len: "i < length ?vs" and sids: "map server_id ?vs = sids" using assms(2,3) by (auto simp: tracked_def)
  then have sid: "server_id (res_at i s) = sids ! i" by (auto simp: res_at_def)
  let ?url = "alarms_url ne uri tenant (sids ! i)" and ?b = "Some (register_body ne (in_id (ns_inst s)) fault_id (sids ! i))"
  let ?s = "s\<lparr>ns_http := ns_http s @ [(?url, ''POST'', ?b)]\<rparr>" and ?reply = "reply (ne_http ne) (ns_http s) ?url ''POST'' ?b"
  have run: "sn_request ne ?url ''POST'' ?b s = (?reply, ?s)" by (rule sn_request_run [OF assms(1)])
  have cov: "covered ne uri tenant (ns_http s) ?es" using assms(2) by (simp add: tracked_def)
  show ?thesis
  proof (cases "\<exists>code d a. ?reply = Inr (code, JObj d) \<and> code < 400 \<and> map_of d ''alarm_id'' = Some a")
    case False
    have "new_alarm ?reply = None"
      using False by (auto simp: new_alarm_def or_null_def split: sum.splits prod.splits json.splits option.splits)
    then have "covered ne uri tenant (ns_http s @ [(?url, ''POST'', ?b)]) ?es"
      by (intro covered_append [OF cov]) (auto simp: alarms_url_inj)
    then have "covered ne uri tenant (ns_http ?s) (opt_list (ns_entries ?s))" by simp
    moreover have "s' = ?s"
    proof (cases ?reply)
      case (Inl e)
      with assms(6) p sid run show ?thesis by (simp add: register_one_def bindS_def Let_def)
    next
      case (Inr x)
      obtain code body where x: "x = (code, body)" by (cases x)
      with False Inr have "code \<ge> 400 \<or> (\<forall>d. body = JObj d \<longrightarrow> map_of d ''alarm_id'' = None)" by auto
      with assms(6) p sid run Inr x show ?thesis
        by (cases body) (auto simp: register_one_def bindS_def Let_def map_of_eq_None_iff split: if_splits)
    qed
    ultimately show ?thesis using assms(2) by (simp add: tracked_def)
  next
    case True
    then obtain code d a where rep: "?reply = Inr (code, JObj d)" "code < 400" "map_of d ''alarm_id'' = Some a" by blast
    let ?t = "change_entries (remember_alarm (sids ! i) a) (change_res i (set_notification a) ?s)"
    have has: "''alarm_id'' \<in> fst ` set d" using rep(3) by (metis map_of_eq_None_iff option.distinct(1))
    have s': "s' = ?t" using assms(6) p sid run rep has by (simp add: register_one_def bindS_def Let_def)
    have es: "opt_list (ns_entries ?t) = ?es @ [\<lparr>sn_serverId = sids ! i, sn_alarmId = Some a\<rparr>]"
      by (simp add: remember_alarm_new [OF assms(5)])
    have vs: "vnfc_reses (ns_inst ?t) = ?vs[i := set_notification a (?vs ! i)]" by (simp add: res_at_def)
    have "covered ne uri tenant (ns_http s) (opt_list (ns_entries ?t))" unfolding es by (rule covered_entries [OF cov]) auto
    then have "covered ne uri tenant (ns_http s @ [(?url, ''POST'', ?b)]) (opt_list (ns_entries ?t))"
    proof (rule covered_append)
      fix sid b x
      assume "(?url, ''POST'', ?b) = (alarms_url ne uri tenant sid, ''POST'', b)"
        and "new_alarm (reply (ne_http ne) (ns_http s) (alarms_url ne uri tenant sid) ''POST'' b) = Some x"
      then have "sid = sids ! i" "x = a" using rep by (auto simp: alarms_url_inj new_alarm_def split: if_splits)
      then show "\<exists>e \<in> set (opt_list (ns_entries ?t)). sn_serverId e = sid \<and> sn_alarmId e = Some x" unfolding es by auto
    qed
    moreover have "agree (opt_list (ns_entries ?t)) (vnfc_reses (ns_inst ?t))"
      unfolding agree_def es vs
    proof (intro ballI impI allI)
      fix e v n
      assume e: "e \<in> set (?es @ [\<lparr>sn_serverId = sids ! i, sn_alarmId = Some a\<rparr>])" and v: "v \<in> set (?vs[i := set_notification a (?vs ! i)])"
        and t: "alarm_truthy e \<and> server_id v = sn_serverId e" and n: "notification_of v = Some n"
      obtain j where j: "j < length ?vs" "v = ?vs[i := set_notification a (?vs ! i)] ! j" using v by (auto simp: in_set_conv_nth)
      have "server_id v = sids ! j" using j sids by (cases "j = i") auto
      show "jitem n ''alarmId'' = Inr (or_null (sn_alarmId e))"
      proof (cases "j = i")
        case True
        with \<open>server_id v = sids ! j\<close> t have "sn_serverId e = sids ! i" by simp
        with e assms(5) have "e = \<lparr>sn_serverId = sids ! i, sn_alarmId = Some a\<rparr>" by auto
        then have "sn_alarmId e = Some a" by (metis sn_entry.select_convs(2))
        with True j len n show ?thesis by (auto simp: or_null_def)
      next
        case False
        have "j < length sids" "i < length sids" using j(1) len sids by auto
        with False \<open>server_id v = sids ! j\<close> assms(4) have "sn_serverId e \<noteq> sids ! i" using t by (simp add: nth_eq_iff_index_eq)
        moreover have "v \<in> set ?vs" using j False by simp
        ultimately show ?thesis using e t n assms(2) by (auto simp: tracked_def agree_def)
      qed
    qed
    moreover have "map server_id (vnfc_reses (ns_inst ?t)) = sids" unfolding vs using sids by (simp add: map_server_id_update)
    moreover have "get_params req (ns_inst ?t) = (uri, fault_id, tenant)" using p by simp
    ultimately have "tracked ne req uri tenant sids ?t" by (simp add: tracked_def)
    moreover have "\<forall>e \<in> set (opt_list (ns_entries ?t)). e \<in> set ?es \<or> sn_serverId e = sids ! i" unfolding es by auto
    ultimately show ?thesis unfolding s' by blast
  qed
qed

lemma register_each_covered:
  assumes "ne_http ne = recording answer loads" and "distinct sids"
  shows "tracked ne req uri tenant sids s \<Longrightarrow> distinct is \<Longrightarrow> \<forall>i \<in> set is \<union> set done. i < length sids \<Longrightarrow>
    \<forall>i \<in> set is. \<forall>e \<in> set (opt_list (ns_entries s)). sn_serverId e \<noteq> sids ! i \<Longrightarrow> register_each ne req is done s = (r, s') \<Longrightarrow>
    covered ne uri tenant (ns_http s') (opt_list (ns_entries s'))"
proof (induction "is" arbitrary: "done" s)
  case Nil
  then show ?case by (simp add: tracked_def)
next
  case (Cons i "is")
  show ?case
  proof (cases "notification_of (res_at i s) = None")
    case False
    with Cons.prems(5) have rest: "register_each ne req is done s = (r, s')" by (simp add: bindS_def)
    show ?thesis by (rule Cons.IH [OF Cons.prems(1) _ _ _ rest]) (use Cons.prems(2-4) in auto)
  next
    case True
    obtain q t where one: "register_one ne req i s = (q, t)" by (cases "register_one ne req i s")
    have T: "tracked ne req uri tenant sids t"
      "\<forall>e \<in> set (opt_list (ns_entries t)). e \<in> set (opt_list (ns_entries s)) \<or> sn_serverId e = sids ! i"
      using register_one_tracked [OF assms(1) Cons.prems(1) _ assms(2) _ one] Cons.prems(3,4) by simp_all
    show ?thesis
    proof (cases q)
      case (Inr u)
      then have rest: "register_each ne req is (done @ [i]) t = (r, s')"
        using Cons.prems(5) True one by (simp add: bindS_def except_sol_def tryS_def)
      have "\<forall>j \<in> set is. \<forall>e \<in> set (opt_list (ns_entries t)). sn_serverId e \<noteq> sids ! j"
      proof (intro ballI)
        fix j e assume j: "j \<in> set is" and e: "e \<in> set (opt_list (ns_entries t))"
        have "sids ! j \<noteq> sids ! i" using j Cons.prems(2,3) assms(2) by (auto simp: nth_eq_iff_index_eq)
        with T(2) e j Cons.prems(4) show "sn_serverId e \<noteq> sids ! j" by auto
      qed
      with Cons.IH [OF T(1) _ _ _ rest] Cons.prems(2,3) show ?thesis by simp
    next
      case (Inl e)
      show ?thesis
      proof (cases "\<exists>x. e = Sol x")
        case False
        then have "s' = t"
          using Cons.prems(5) True one Inl by (auto simp: bindS_def except_sol_def tryS_def split: exn.splits)
        with T(1) show ?thesis by (simp add: tracked_def)
      next
        case 2: True
        obtain p v where c: "request_register_cancel ne req done t = (p, v)" by (cases "request_register_cancel ne req done t")
        then have "s' = v" using Cons.prems(5) True one Inl 2 by (auto simp: bindS_def except_sol_def tryS_def split: sum.splits)
        moreover have "tracked ne req uri tenant sids v" using cancel_tracked [OF assms(1) T(1) _ c] Cons.prems(3) by simp
        ultimately show ?thesis by (simp add: tracked_def)
      qed
    qed
  qed
qed

lemma rollback_entries_requests:
  assumes "ne_http ne = recording answer loads"
  shows "rollback_entries ne uri tenant es s = (Inr (), s') \<Longrightarrow> set (ns_http s) \<subseteq> set (ns_http s') \<and>
    (\<forall>e \<in> set es. sn_serverId e \<noteq> [] \<and> alarm_truthy e \<longrightarrow>
       (alarm_url ne uri tenant (sn_serverId e) (or_null (sn_alarmId e)), ''DELETE'', None) \<in> set (ns_http s'))"
proof (induction es arbitrary: s)
  case Nil
  then show ?case by simp
next
  case (Cons e es)
  show ?case
  proof (cases "sn_serverId e \<noteq> [] \<and> alarm_truthy e")
    case False
    with Cons show ?thesis by (auto simp: bindS_def)
  next
    case True
    with Cons.prems obtain t where u: "unregister_alarm ne uri tenant (sn_serverId e) (or_null (sn_alarmId e)) s = (Inr (), t)"
      and rest: "rollback_entries ne uri tenant es t = (Inr (), s')" by (auto simp: bindS_eq_Inr)
    from unregister_rest [OF assms u] Cons.IH [OF rest] show ?thesis by auto
  qed
qed

text \<open>
  C32: Every alarm that the monitoring server gave to an instantiation is unregistered by the rollback, whether the registration failed or
  not: the request to delete it is sent. The servers of the instance have different identifiers.
\<close>

theorem rollback_unregisters_every_alarm:
  assumes "ne_http ne = recording answer loads" and "sn_instantiate_end ne req s = (r, s1)" and "ns_entries s = None" and "ns_http s = []"
    and "distinct (map server_id (vnfc_reses (ns_inst s)))" and "get_params req (ns_inst s) = (uri, fault_id, tenant)"
    and "instantiate_scale_rollback ne req' \<lparr>ns_inst = inst', ns_entries = ns_entries s1, ns_http = ns_http s1, ns_removed = rem\<rparr> = (Inr (), s2)"
    and "get_params req' inst' = (uri, fault_id', tenant)"
    and "k < length (ns_http s1)" and "ns_http s1 ! k = (alarms_url ne uri tenant sid, ''POST'', b)" and "sid \<noteq> []"
    and "new_alarm (reply (ne_http ne) (take k (ns_http s1)) (alarms_url ne uri tenant sid) ''POST'' b) = Some a"
  shows "(alarm_url ne uri tenant sid a, ''DELETE'', None) \<in> set (ns_http s2)"
proof -
  have start: "tracked ne req uri tenant (map server_id (vnfc_reses (ns_inst s))) s"
    using assms(3,4,6) by (simp add: tracked_def covered_def agree_def opt_list_def)
  have "covered ne uri tenant (ns_http s1) (opt_list (ns_entries s1))"
  proof (cases "need_vnfc_reses (ns_inst s)")
    case (Inl e)
    then have "s1 = s"
      using assms(2,3) by (simp add: sn_instantiate_end_def merge_recent_register_def request_register_def bindS_def opt_list_def)
    with start show ?thesis by (simp add: tracked_def)
  next
    case (Inr vs)
    obtain q t where e: "register_each ne req [0..<length vs] [] s = (q, t)" by (cases "register_each ne req [0..<length vs] [] s")
    have "covered ne uri tenant (ns_http t) (opt_list (ns_entries t))"
      using register_each_covered [OF assms(1,5) start _ _ _ e] need_vnfc_reses_Inr [OF Inr] assms(3) by (simp add: opt_list_def)
    moreover have "ns_http s1 = ns_http t \<and> ns_entries s1 = ns_entries t"
      using assms(2,3) e Inr
      by (auto simp: sn_instantiate_end_def merge_recent_register_def request_register_def bindS_def opt_list_def change_info_def
          split: sum.splits prod.splits)
    ultimately show ?thesis by simp
  qed
  then consider e where "e \<in> set (opt_list (ns_entries s1))" "sn_serverId e = sid" "sn_alarmId e = Some a"
    | "(alarm_url ne uri tenant sid a, ''DELETE'', None) \<in> set (ns_http s1)"
    using assms(9,10,12) unfolding covered_def by blast
  moreover have "py_truthy a" using assms(12) by (auto simp: new_alarm_def or_null_def split: sum.splits prod.splits json.splits if_splits)
  moreover have "rollback_entries ne uri tenant (opt_list (ns_entries s1))
      \<lparr>ns_inst = inst', ns_entries = ns_entries s1, ns_http = ns_http s1, ns_removed = rem\<rparr> = (Inr (), s2)"
    using assms(7,8) by (simp add: instantiate_scale_rollback_def bindS_def)
  ultimately show ?thesis
    using rollback_entries_requests [OF assms(1)] assms(11)
    by cases (fastforce simp: alarm_truthy_def or_null_def)+
qed

subsection \<open>Examples\<close>

text \<open>The identifier of an alarm is the address of the request that made it.\<close>

definition ex_notify_env :: "req_log sn_env" where
  "ex_notify_env = \<lparr>ne_http = recording (\<lambda>log url m b. Inr \<lparr>rs_status = 201, rs_content_type = None, rs_text = url\<rparr>)
       (\<lambda>t. Inr (JObj [(''alarm_id'', JStr t)])),
     ne_str = (\<lambda>_. []), ne_endpoint = ''e'', ne_prefix = ''s''\<rparr>"

definition ex_notify_req :: op_params where
  "ex_notify_req = empty_params\<lparr>rq_additionalParams := Some [(''ServerNotifierUri'', JStr ''u''), (''ServerNotifierFaultID'', JArr [JStr ''1234''])]\<rparr>"

definition ex_ci :: "string \<Rightarrow> vnfc_info" where
  "ex_ci i = \<lparr>ci_id = ''V-'' @ i, ci_vduId = ''V'', ci_vnfcResourceInfoId = Some i, ci_vnfcState = STARTED, ci_vnfcConfigurableProperties = None\<rparr>"

definition ex_notify_inst :: vnf_instance where
  "ex_notify_inst = ex_inst\<lparr>in_vnfConfigurableProperties := Some [(''isAutohealEnabled'', JBool True)],
     in_vimConnectionInfo := Some [(''vim'', ex_vim\<lparr>vi_accessInfo := Some [(''project'', JStr ''t'')]\<rparr>)],
     in_instantiatedVnfInfo := Some (ex_info\<lparr>iv_vnfcInfo := Some [ex_ci ''a'', ex_ci ''b'']\<rparr>)\<rparr>"

definition ex_notify_start :: "req_log sn_state" where
  "ex_notify_start = \<lparr>ns_inst = ex_notify_inst, ns_entries = None, ns_http = [], ns_removed = []\<rparr>"

definition ex_notify_end :: "req_log sn_state" where
  "ex_notify_end = snd (sn_instantiate_end ex_notify_env ex_notify_req ex_notify_start)"

lemma ex_notify_run: "sn_instantiate_end ex_notify_env ex_notify_req ex_notify_start = (Inr (), ex_notify_end)"
proof -
  have "fst (sn_instantiate_end ex_notify_env ex_notify_req ex_notify_start) = Inr ()" by code_simp
  then show ?thesis unfolding ex_notify_end_def by (metis prod.collapse)
qed

theorem alarm_heals_its_vnfcs_witness:
  "\<exists>ids. sn_notify [ns_inst ex_notify_end] ''inst''
      (JObj [(''notification'', JObj [(''alarm_id'', JStr ''u/v2/t/servers/a/alarms''), (''fault_id'', JStr ''1234'')])]) [] = (Inr (), [(''inst'', ids)]) \<and>
    ''V-a'' \<in> set ids"
proof -
  have a: "ns_entries ex_notify_start = None" "\<forall>v \<in> set (vnfc_reses (ns_inst ex_notify_start)). notification_of v = None" by code_simp+
  have p: "get_params ex_notify_req (ns_inst ex_notify_start) = (JStr ''u'', JArr [JStr ''1234''], JStr ''t'')" by code_simp
  have f: "jcontains (JArr [JStr ''1234'']) ''1234'' = Inr True" by simp
  let ?info = "the (in_instantiatedVnfInfo (ns_inst ex_notify_end))"
  let ?reses = "the (iv_vnfcResourceInfo ?info)" and ?alarm = "''u/v2/t/servers/a/alarms''"
  have i: "in_instantiatedVnfInfo (ns_inst ex_notify_end) = Some ?info" "iv_vnfcResourceInfo ?info = Some ?reses"
    "iv_vnfcInfo ?info = Some [ex_ci ''a'', ex_ci ''b'']" by code_simp+
  have h: "row_find in_id [ns_inst ex_notify_end] ''inst'' = Some (ns_inst ex_notify_end)" "autoheal_enabled (ns_inst ex_notify_end)"
    by code_simp+
  have v: "length ?reses = 2" "notification_of (?reses ! 1) = Some (JObj [(''alarmId'', JStr ?alarm)])" "vr_id (?reses ! 1) = ''a''"
    by code_simp+
  then have "?reses ! 1 \<in> set ?reses" by simp
  from bspec [OF alarm_heals_its_vnfcs [OF ex_notify_run a p f i h, of "[]"] this] v
  have "\<forall>c. c \<in> set [ex_ci ''a'', ex_ci ''b''] \<and> ci_vnfcResourceInfoId c = Some ''a'' \<longrightarrow> (\<exists>ids. sn_notify [ns_inst ex_notify_end] ''inst''
      (JObj [(''notification'', JObj [(''alarm_id'', JStr ?alarm), (''fault_id'', JStr ''1234'')])]) [] = (Inr (), [] @ [(''inst'', ids)]) \<and>
      ci_id c \<in> set ids)" by (auto simp del: append_Nil; blast)
  moreover have "ci_vnfcResourceInfoId (ex_ci ''a'') = Some ''a''" "ci_id (ex_ci ''a'') = ''V-a''" by code_simp+
  ultimately show ?thesis by (metis append_Nil list.set_intros(1))
qed

text \<open>The second registration fails after the first one gave an alarm, and the rollback sends the request to delete it.\<close>

definition ex_failing_env :: "req_log sn_env" where
  "ex_failing_env = ex_notify_env\<lparr>ne_http := recording
     (\<lambda>log url m b. Inr \<lparr>rs_status = (if length log = 1 then 500 else 201), rs_content_type = None, rs_text = url\<rparr>)
     (\<lambda>t. Inr (JObj [(''alarm_id'', JStr t)]))\<rparr>"

definition ex_failed :: "req_log sn_state" where
  "ex_failed = snd (sn_instantiate_end ex_failing_env ex_notify_req ex_notify_start)"

definition ex_rolled_back :: "req_log sn_state" where
  "ex_rolled_back = snd (instantiate_scale_rollback ex_failing_env ex_notify_req
     \<lparr>ns_inst = ex_notify_inst, ns_entries = ns_entries ex_failed, ns_http = ns_http ex_failed, ns_removed = []\<rparr>)"

text \<open>The failure of the registration itself does not unregister the alarm: the code that does so expects another class of exceptions.\<close>

lemma failed_registration_keeps_alarms:
  "fst (sn_instantiate_end ex_failing_env ex_notify_req ex_notify_start) = Inl (mgmt_error ''server_notification registration is failed: 500.'') \<and>
   map (\<lambda>(url, m, b). m) (ns_http ex_failed) = [''POST'', ''POST'']"
  by code_simp

theorem rollback_unregisters_every_alarm_witness:
  "(''u/v2/t/servers/b/alarms/u/v2/t/servers/b/alarms'', ''DELETE'', None) \<in> set (ns_http ex_rolled_back)"
proof -
  let ?run = "sn_instantiate_end ex_failing_env ex_notify_req ex_notify_start"
  let ?undo = "instantiate_scale_rollback ex_failing_env ex_notify_req
     \<lparr>ns_inst = ex_notify_inst, ns_entries = ns_entries ex_failed, ns_http = ns_http ex_failed, ns_removed = []\<rparr>"
  have run: "?run = (fst ?run, ex_failed)" by (simp add: ex_failed_def)
  have env: "ne_http ex_failing_env = recording
     (\<lambda>log url m b. Inr \<lparr>rs_status = (if length log = 1 then 500 else 201), rs_content_type = None, rs_text = url\<rparr>)
     (\<lambda>t. Inr (JObj [(''alarm_id'', JStr t)]))" by (simp add: ex_failing_env_def)
  have "fst ?undo = Inr ()" by code_simp
  then have bk: "?undo = (Inr (), ex_rolled_back)" unfolding ex_rolled_back_def by (metis prod.collapse)
  have start: "ns_entries ex_notify_start = None" "ns_http ex_notify_start = []" "distinct (map server_id (vnfc_reses (ns_inst ex_notify_start)))"
    "get_params ex_notify_req (ns_inst ex_notify_start) = (JStr ''u'', JArr [JStr ''1234''], JStr ''t'')" by code_simp+
  have inst: "get_params ex_notify_req ex_notify_inst = (JStr ''u'', JArr [JStr ''1234''], JStr ''t'')" by code_simp
  let ?b = "Some (register_body ex_failing_env ''inst'' (JArr [JStr ''1234'']) ''b'')"
  let ?url = "alarms_url ex_failing_env (JStr ''u'') (JStr ''t'') ''b''"
  have k: "0 < length (ns_http ex_failed)" "ns_http ex_failed ! 0 = (?url, ''POST'', ?b)" by code_simp+
  have alarm: "new_alarm (reply (ne_http ex_failing_env) (take 0 (ns_http ex_failed)) ?url ''POST'' ?b) = Some (JStr ''u/v2/t/servers/b/alarms'')"
    by code_simp
  have "alarm_url ex_failing_env (JStr ''u'') (JStr ''t'') ''b'' (JStr ''u/v2/t/servers/b/alarms'') = ''u/v2/t/servers/b/alarms/u/v2/t/servers/b/alarms''"
    by code_simp
  with rollback_unregisters_every_alarm [OF env run start bk inst k _ alarm] show ?thesis by simp
qed

end
