(* ===== verification/Coord_Client.thy ===== *)
theory Coord_Client
  imports Api_Front View_Filter
begin

section \<open>HTTP with authentication, and the coordination of an operation\<close>

text \<open>
  \<^verbatim>\<open>common/http_client.py\<close> with the choice of an authentication (\<^verbatim>\<open>common/common_script_utils.py\<close>), and
  \<^verbatim>\<open>common/coord_client.py\<close>: the interface by which a script asks another system for a coordination and waits for the answer.
  The session of keystoneauth, JSON and the sleep are parameters (\<open>web\<close>). The loops of a coordination may run for ever, so they are
  partial functions; properties and lemmas are at the end.
\<close>

subsection \<open>Authentication\<close>

text \<open>\<open>verify\<close> is a truth value or the name of a file with certificates.\<close>

datatype auth_handle =
    NoAuthHandle (ah_verify: json)
  | BasicAuthHandle (ah_username: json) (ah_password: json) (ah_verify: json)
  | OAuth2AuthHandle (ah_token_endpoint: json) (ah_client_id: json) (ah_client_password: json) (ah_verify: json)
  | CertAuthMtlsHandle (ah_verify: json) (ah_client_cert: string)
  | OAuth2MtlsAuthHandle (ah_token_endpoint: json) (ah_client_id: json) (ah_verify: json) (ah_client_cert: string)

record auth_config =
  ac_verify_cert :: bool
  ac_ca_cert_file :: string
  ac_mtls_ca_cert_file :: string
  ac_mtls_client_cert_file :: string
  ac_schema :: "json \<Rightarrow> string option"
  ac_fingerprint :: "string \<Rightarrow> string pyres"

definition schema_validate :: "(json \<Rightarrow> string option) \<Rightarrow> json \<Rightarrow> unit pyres" where
  "schema_validate schema j = (case schema j of None \<Rightarrow> Inr () | Some t \<Rightarrow> Inl (Sol (SolValidationError t)))"

definition auth_needed :: "json \<Rightarrow> string \<Rightarrow> json pyres" where
  "auth_needed auth_req params = bindE (jget auth_req params JNull) (\<lambda>p.
     if p = JNull then Inl (Sol (InvalidSubscription (params @ '' must be specified.''))) else Inr p)"

definition check_certificate :: "auth_config \<Rightarrow> json \<Rightarrow> unit pyres" where
  "check_certificate ac oauth2_mtls_req =
     bindE (jget oauth2_mtls_req ''certificateRef'' (JObj [])) (\<lambda>cert_ref.
     bindE (jget cert_ref ''type'' JNull) (\<lambda>ty.
     if ty \<noteq> JStr ''x5t#S256'' then Inl (Sol (InvalidSubscription ''certificateRef type is invalid.''))
     else bindE (ac_fingerprint ac (ac_mtls_client_cert_file ac)) (\<lambda>fingerprint_value.
       bindE (jget cert_ref ''value'' JNull) (\<lambda>v.
       if JStr fingerprint_value \<noteq> v then Inl (Sol (InvalidSubscription ''certificateRef value is incorrect.'')) else Inr ()))))"

definition check_auth_type :: "json \<Rightarrow> string \<Rightarrow> unit pyres \<Rightarrow> unit pyres" where
  "check_auth_type auth_type ty check = bindE (jcontains auth_type ty) (\<lambda>b. if b then check else Inr ())"

definition check_subsc_auth :: "auth_config \<Rightarrow> json \<Rightarrow> bool \<Rightarrow> unit pyres" where
  "check_subsc_auth ac auth_req validation =
     bindE (if validation then schema_validate (ac_schema ac) auth_req else Inr ()) (\<lambda>_.
     bindE (jitem auth_req ''authType'') (\<lambda>auth_type.
     bindE (check_auth_type auth_type ''OAUTH2_CLIENT_CERT''
        (bindE (auth_needed auth_req ''paramsOauth2ClientCert'') (check_certificate ac))) (\<lambda>_.
     bindE (check_auth_type auth_type ''OAUTH2_CLIENT_CREDENTIALS''
        (bindE (auth_needed auth_req ''paramsOauth2ClientCredentials'') (\<lambda>_. Inr ()))) (\<lambda>_.
       check_auth_type auth_type ''BASIC'' (bindE (auth_needed auth_req ''paramsBasic'') (\<lambda>_. Inr ()))))))"

definition notification_verify :: "auth_config \<Rightarrow> json" where
  "notification_verify ac = (if ac_verify_cert ac \<and> ac_ca_cert_file ac \<noteq> [] then JStr (ac_ca_cert_file ac) else JBool (ac_verify_cert ac))"

text \<open>\<open>verify_cert\<close> of the handle for certificates: always on.\<close>

definition mtls_verify :: "auth_config \<Rightarrow> json" where
  "mtls_verify ac = (if ac_mtls_ca_cert_file ac \<noteq> [] then JStr (ac_mtls_ca_cert_file ac) else JBool True)"

text \<open>The strongest of the given types; \<open>None\<close> when there is none of the three.\<close>

definition get_http_auth_handle :: "auth_config \<Rightarrow> json \<Rightarrow> auth_handle option pyres" where
  "get_http_auth_handle ac auth_req =
     (if auth_req = JNull then Inr (Some (NoAuthHandle (notification_verify ac)))
      else bindE (jitem auth_req ''authType'') (\<lambda>auth_type.
        bindE (jcontains auth_type ''OAUTH2_CLIENT_CERT'') (\<lambda>cert.
        if cert then bindE (jitem auth_req ''paramsOauth2ClientCert'') (\<lambda>p. bindE (jitem p ''tokenEndpoint'') (\<lambda>ep. bindE (jitem p ''clientId'') (\<lambda>c.
          Inr (Some (OAuth2MtlsAuthHandle ep c (mtls_verify ac) (ac_mtls_client_cert_file ac))))))
        else bindE (jcontains auth_type ''OAUTH2_CLIENT_CREDENTIALS'') (\<lambda>credentials.
        if credentials then bindE (jget auth_req ''paramsOauth2ClientCredentials'' JNull) (\<lambda>p. bindE (jget p ''tokenEndpoint'' JNull) (\<lambda>ep.
          bindE (jget p ''clientId'' JNull) (\<lambda>c. bindE (jget p ''clientPassword'' JNull) (\<lambda>pw.
          Inr (Some (OAuth2AuthHandle ep c pw (notification_verify ac)))))))
        else bindE (jcontains auth_type ''BASIC'') (\<lambda>basic.
        if basic then bindE (jget auth_req ''paramsBasic'' JNull) (\<lambda>p. bindE (jget p ''userName'' JNull) (\<lambda>u. bindE (jget p ''password'' JNull) (\<lambda>pw.
          Inr (Some (BasicAuthHandle u pw (notification_verify ac))))))
        else Inr None)))))"

subsection \<open>Requests\<close>

record web_resp =
  wr_status :: int
  wr_headers :: "(string, string) dict"
  wr_text :: string

record web_kwargs =
  wk_headers :: "(string, string) dict"
  wk_data :: "json option"
  wk_connect_retries :: "int option"
  wk_timeout :: "int option"
  wk_endpoint_override :: "string option"

record http_client =
  ht_auth :: "auth_handle option"
  ht_version :: "string option"
  ht_connect_retries :: "int option"
  ht_timeout :: "int option"
  ht_base_url :: "string option"

record 'h web =
  wb_request :: "auth_handle \<Rightarrow> string \<Rightarrow> string \<Rightarrow> web_kwargs \<Rightarrow> ('h, exn, web_resp) sem"
  wb_loads :: "string \<Rightarrow> json pyres"
  wb_dumps :: "json \<Rightarrow> string"
  wb_urlencode :: "jdict \<Rightarrow> string"
  wb_sleep :: "int \<Rightarrow> 'h \<Rightarrow> 'h"

definition new_client :: "auth_handle option \<Rightarrow> http_client" where
  "new_client auth = \<lparr>ht_auth = auth, ht_version = None, ht_connect_retries = None, ht_timeout = None, ht_base_url = None\<rparr>"

definition web_decode_body :: "'h web \<Rightarrow> web_resp \<Rightarrow> json pyres" where
  "web_decode_body wb resp =
     (let content_type = (case map_of (wr_headers resp) ''Content-Type'' of None \<Rightarrow> [] | Some t \<Rightarrow> t) in
      if wr_status resp = 204 then Inr JNull
      else if content_type = ''application/zip'' \<or> content_type = ''text/plain'' then Inr (JStr (wr_text resp))
      else if wr_text resp \<noteq> [] then wb_loads wb (wr_text resp)
      else Inr JNull)"

definition web_sol_exception :: "web_resp \<Rightarrow> json \<Rightarrow> exn" where
  "web_sol_exception resp resp_body = (case map_of (wr_headers resp) ''Content-Type'' of
       None \<Rightarrow> key_error ''content-type''
     | Some ct \<Rightarrow>
         if ct = ''application/problem+json''
         then (case jitem resp_body ''detail'' of Inl e \<Rightarrow> e
            | Inr d \<Rightarrow> Sol (SolHttpResponse (wr_status resp) (case d of JStr s \<Rightarrow> s | _ \<Rightarrow> ''None'')))
         else Sol (SolHttpResponse (wr_status resp) (wr_text resp)))"

definition or_else_opt :: "'a option \<Rightarrow> 'a option \<Rightarrow> 'a option" where
  "or_else_opt x y = (case x of None \<Rightarrow> y | Some v \<Rightarrow> Some v)"

text \<open>What the client adds to the arguments of a request.\<close>

definition request_kwargs :: "'h web \<Rightarrow> http_client \<Rightarrow> string \<Rightarrow> json option \<Rightarrow> string option \<Rightarrow> web_kwargs \<Rightarrow> web_kwargs" where
  "request_kwargs wb client content_type body version kwargs =
     (let h1 = setdefault ''Accept'' content_type (wk_headers kwargs);
          h2 = (if body = None then h1 else setdefault ''Content-Type'' content_type h1);
          h3 = (case or_else_opt version (ht_version client) of None \<Rightarrow> h2 | Some v \<Rightarrow> setdefault ''Version'' v h2) in
      \<lparr>wk_headers = h3,
       wk_data = (case body of None \<Rightarrow> wk_data kwargs
         | Some b \<Rightarrow> or_else_opt (wk_data kwargs) (Some (case b of JObj d \<Rightarrow> JStr (wb_dumps wb b) | _ \<Rightarrow> b))),
       wk_connect_retries = or_else_opt (wk_connect_retries kwargs) (ht_connect_retries client),
       wk_timeout = or_else_opt (wk_timeout kwargs) (ht_timeout client),
       wk_endpoint_override = or_else_opt (wk_endpoint_override kwargs) (ht_base_url client)\<rparr>)"

definition no_kwargs :: web_kwargs where
  "no_kwargs = \<lparr>wk_headers = [], wk_data = None, wk_connect_retries = None, wk_timeout = None, wk_endpoint_override = None\<rparr>"

definition web_do_request :: "'h web \<Rightarrow> http_client \<Rightarrow> string \<Rightarrow> string \<Rightarrow> int list \<Rightarrow> string \<Rightarrow> json option \<Rightarrow> string option \<Rightarrow> web_kwargs \<Rightarrow>
    ('h, exn, web_resp \<times> json) sem" where
  "web_do_request wb client url method expected_status content_type body version kwargs = (case ht_auth client of
      None \<Rightarrow> raiseS (attr_error JNull ''get_session'')
    | Some auth \<Rightarrow>
        bindS (wb_request wb auth url method (request_kwargs wb client content_type body version kwargs)) (\<lambda>resp.
        bindS (liftS (web_decode_body wb resp)) (\<lambda>resp_body.
        if expected_status \<noteq> [] \<and> wr_status resp \<notin> set expected_status then raiseS (web_sol_exception resp resp_body)
        else retS (resp, resp_body))))"

text \<open>\<open>get_token\<close> of the two plugins for OAuth 2.0: \<open>None\<close> when the token endpoint refuses.\<close>

definition form_type :: string where
  "form_type = ''application/x-www-form-urlencoded''"

definition token_of :: "web_resp \<times> json \<Rightarrow> json pyres" where
  "token_of = (\<lambda>(resp, resp_body). if wr_status resp \<noteq> 200 then Inr JNull else jitem resp_body ''access_token'')"

definition token_url :: "json \<Rightarrow> string pyres" where
  "token_url j = (case j of JStr t \<Rightarrow> Inr t | _ \<Rightarrow> Inl (type_error j))"

definition get_token :: "'h web \<Rightarrow> auth_handle \<Rightarrow> ('h, exn, json) sem" where
  "get_token wb handle = (case handle of
      OAuth2AuthHandle token_endpoint client_id client_password verify \<Rightarrow>
        bindS (liftS (token_url token_endpoint)) (\<lambda>url.
        bindS (web_do_request wb (new_client (Some (BasicAuthHandle client_id client_password verify))) url ''POST'' [] form_type None None
          (no_kwargs\<lparr>wk_headers := [(''Accept'', ''application/json'')], wk_data := Some (JObj [(''grant_type'', JStr ''client_credentials'')])\<rparr>))
          (\<lambda>r. liftS (token_of r)))
    | OAuth2MtlsAuthHandle token_endpoint client_id verify client_cert \<Rightarrow>
        bindS (liftS (token_url token_endpoint)) (\<lambda>url.
        bindS (web_do_request wb (new_client (Some (CertAuthMtlsHandle verify client_cert))) url ''POST'' [] form_type
          (Some (JStr (wb_urlencode wb [(''grant_type'', JStr ''client_credentials''), (''client_id'', client_id)]))) None no_kwargs)
          (\<lambda>r. liftS (token_of r)))
    | _ \<Rightarrow> retS JNull)"

text \<open>The headers that a plugin gives to its session; \<open>None\<close> when there is no token.\<close>

definition bearer_headers :: "'h web \<Rightarrow> auth_handle \<Rightarrow> ('h, exn, (string \<times> string) list option) sem" where
  "bearer_headers wb handle = bindS (get_token wb handle) (\<lambda>token.
     if \<not> py_truthy token then retS None
     else retS (Some [(''Authorization'', ''Bearer '' @ (case token of JStr t \<Rightarrow> t | j \<Rightarrow> wb_dumps wb j))]))"

subsection \<open>Coordination\<close>

definition create_coordination_request :: "'h web \<Rightarrow> http_client \<Rightarrow> string \<Rightarrow> json \<Rightarrow> ('h, exn, web_resp \<times> json) sem" where
  "create_coordination_request wb client endpoint coord_request =
     web_do_request wb client (endpoint @ ''/lcmcoord/v1/coordinations'') ''POST'' [201, 202, 503] ''application/json'' (Some coord_request)
       (Some ''1.0.0'') no_kwargs"

definition get_coordination :: "'h web \<Rightarrow> http_client \<Rightarrow> string \<Rightarrow> string \<Rightarrow> ('h, exn, web_resp \<times> json) sem" where
  "get_coordination wb client endpoint coord_id =
     web_do_request wb client (endpoint @ ''/lcmcoord/v1/coordinations/'' @ coord_id) ''GET'' [200, 202] ''application/json'' None
       (Some ''1.0.0'') no_kwargs"

definition default_interval :: int where
  "default_interval = 5"

definition default_timeout :: int where
  "default_timeout = 3600"

text \<open>\<open>int(timeout)\<close>, or the default when that fails.\<close>

definition coord_timeout :: "json \<Rightarrow> int" where
  "coord_timeout j = (case j of
      JNum n \<Rightarrow> n
    | JBool b \<Rightarrow> bool_num b
    | JStr t \<Rightarrow> (case py_int t of Inl e \<Rightarrow> default_timeout | Inr n \<Rightarrow> n)
    | _ \<Rightarrow> default_timeout)"

definition get_retry_after :: "web_resp \<Rightarrow> int" where
  "get_retry_after resp = (case map_of (wr_headers resp) ''Retry-After'' of
      None \<Rightarrow> default_interval
    | Some t \<Rightarrow> (case py_int t of Inl e \<Rightarrow> default_interval | Inr n \<Rightarrow> if n < 0 then default_interval else n))"

definition coord_timed_out :: exn where
  "coord_timed_out = Sol (SolException ''coordinationVNF script did not complete within the timeout period.'')"

text \<open>The first loop ends with the answer 201 or 202 and the time that is left.\<close>

partial_function (option) create_loop :: "('h, exn, web_resp \<times> json) sem \<Rightarrow> (int \<Rightarrow> 'h \<Rightarrow> 'h) \<Rightarrow> int \<Rightarrow> 'h \<Rightarrow>
    ((exn + web_resp \<times> json \<times> int) \<times> 'h) option" where
  "create_loop post sleep timeout s = (case post s of (r, s1) \<Rightarrow> (case r of
       Inl e \<Rightarrow> Some (Inl e, s1)
     | Inr answer \<Rightarrow>
         if wr_status (fst answer) = 201 \<or> wr_status (fst answer) = 202 then Some (Inr (fst answer, snd answer, timeout), s1)
         else if timeout < get_retry_after (fst answer) then Some (Inl coord_timed_out, s1)
         else create_loop post sleep (timeout - get_retry_after (fst answer)) (sleep (get_retry_after (fst answer)) s1)))"

partial_function (option) get_loop :: "('h, exn, web_resp \<times> json) sem \<Rightarrow> (int \<Rightarrow> 'h \<Rightarrow> 'h) \<Rightarrow> web_resp \<Rightarrow> int \<Rightarrow> 'h \<Rightarrow> ((exn + json) \<times> 'h) option" where
  "get_loop get sleep resp timeout s =
     (if timeout < get_retry_after resp then Some (Inl coord_timed_out, s)
      else (case get (sleep (get_retry_after resp) s) of (r, s1) \<Rightarrow> (case r of
          Inl e \<Rightarrow> Some (Inl e, s1)
        | Inr answer \<Rightarrow>
            if wr_status (fst answer) = 200 then Some (Inr (snd answer), s1)
            else get_loop get sleep (fst answer) (timeout - get_retry_after resp) s1)))"

definition coord_loops :: "('h, exn, web_resp \<times> json) sem \<Rightarrow> (string \<Rightarrow> ('h, exn, web_resp \<times> json) sem) \<Rightarrow> (int \<Rightarrow> 'h \<Rightarrow> 'h) \<Rightarrow> int \<Rightarrow> 'h \<Rightarrow>
    ((exn + json) \<times> 'h) option" where
  "coord_loops post get sleep timeout s = (case create_loop post sleep timeout s of
      None \<Rightarrow> None
    | Some (Inl e, s1) \<Rightarrow> Some (Inl e, s1)
    | Some (Inr (resp, body, left), s1) \<Rightarrow>
        if wr_status resp = 201 then Some (Inr body, s1)
        else (case map_of (wr_headers resp) ''Location'' of
            None \<Rightarrow> Some (Inl (Sol (SolException ''Location header not included in response.'')), s1)
          | Some location \<Rightarrow> get_loop (get (last (split_char CHR ''/'' location))) sleep resp left s1))"

definition create_coordination :: "auth_config \<Rightarrow> 'h web \<Rightarrow> string \<Rightarrow> json \<Rightarrow> json \<Rightarrow> json \<Rightarrow> 'h \<Rightarrow> ((exn + json) \<times> 'h) option" where
  "create_coordination ac wb endpoint authentication coord_request timeout s =
     (case bindE (check_subsc_auth ac authentication True) (\<lambda>_. get_http_auth_handle ac authentication) of
        Inl e \<Rightarrow> Some (Inl e, s)
      | Inr handle \<Rightarrow>
          coord_loops (create_coordination_request wb (new_client handle) endpoint coord_request)
            (get_coordination wb (new_client handle) endpoint) (wb_sleep wb) (coord_timeout timeout) s)"

subsection \<open>A coordination ends in time\<close>

lemma web_do_request_answer:
  assumes "web_do_request wb client url m ex ct body ver kw h = (r, h')"
  shows "h' = h \<and> (\<exists>e. r = Inl e) \<or> (\<exists>auth kw'. h' = snd (wb_request wb auth url m kw' h) \<and>
    (\<forall>resp b. r = Inr (resp, b) \<longrightarrow> wb_request wb auth url m kw' h = (Inr resp, h')))"
proof (cases "ht_auth client")
  case None
  with assms show ?thesis by (auto simp: web_do_request_def)
next
  case (Some auth)
  let ?kw = "request_kwargs wb client ct body ver kw"
  have "h' = snd (wb_request wb auth url m ?kw h) \<and> (\<forall>resp b. r = Inr (resp, b) \<longrightarrow> wb_request wb auth url m ?kw h = (Inr resp, h'))"
    using assms Some by (auto simp: web_do_request_def bindS_def split: prod.splits sum.splits if_splits)
  then show ?thesis by blast
qed

text \<open>A loop on a state with a clock: a request takes no time, and every answer asks to wait.\<close>

definition timely :: "('h \<Rightarrow> int) \<Rightarrow> ('h, exn, web_resp \<times> json) sem \<Rightarrow> bool" where
  "timely slept req \<longleftrightarrow> (\<forall>h r h'. req h = (r, h') \<longrightarrow> slept h' = slept h \<and> (\<forall>resp b. r = Inr (resp, b) \<longrightarrow> 0 < get_retry_after resp))"

lemma create_loop_in_time:
  assumes "timely slept post" and clock: "\<And>i h. slept (sleep i h) = slept h + i"
  shows "\<exists>r h'. create_loop post sleep timeout h = Some (r, h') \<and> slept h' \<le> slept h + max 0 timeout \<and>
    (\<forall>resp b left. r = Inr (resp, b, left) \<longrightarrow> 0 < get_retry_after resp \<and> slept h' + max 0 left = slept h + max 0 timeout)"
proof (induction "nat timeout" arbitrary: timeout h rule: less_induct)
  case less
  obtain r h1 where p: "post h = (r, h1)" by (cases "post h")
  with assms(1) have t: "slept h1 = slept h" "\<forall>resp b. r = Inr (resp, b) \<longrightarrow> 0 < get_retry_after resp"
    unfolding timely_def by blast+
  show ?case
  proof (cases r)
    case (Inl e)
    with p t show ?thesis by (subst create_loop.simps) simp
  next
    case (Inr answer)
    obtain resp b where a: "answer = (resp, b)" by (cases answer)
    let ?i = "get_retry_after resp"
    have i: "0 < ?i" using t(2) Inr a by blast
    show ?thesis
    proof (cases "wr_status resp = 201 \<or> wr_status resp = 202 \<or> timeout < ?i")
      case True
      then show ?thesis using p t Inr a i by (subst create_loop.simps) auto
    next
      case False
      then have "create_loop post sleep timeout h = create_loop post sleep (timeout - ?i) (sleep ?i h1)"
        using p Inr a by (subst create_loop.simps) simp
      moreover have "slept (sleep ?i h1) + max 0 (timeout - ?i) = slept h + max 0 timeout"
        using False clock t(1) i by simp
      moreover have "nat (timeout - ?i) < nat timeout" using False i by simp
      ultimately show ?thesis using less [of "timeout - ?i" "sleep ?i h1"] by auto
    qed
  qed
qed

lemma get_loop_in_time:
  assumes "timely slept get" and clock: "\<And>i h. slept (sleep i h) = slept h + i" and "0 < get_retry_after resp"
  shows "\<exists>r h'. get_loop get sleep resp timeout h = Some (r, h') \<and> slept h' \<le> slept h + max 0 timeout"
  using assms(3)
proof (induction "nat timeout" arbitrary: timeout resp h rule: less_induct)
  case less
  let ?i = "get_retry_after resp"
  show ?case
  proof (cases "timeout < ?i")
    case True
    then show ?thesis by (subst get_loop.simps) simp
  next
    case False
    obtain r h1 where p: "get (sleep ?i h) = (r, h1)" by (cases "get (sleep ?i h)")
    with assms(1) have t: "slept h1 = slept h + ?i" "\<forall>resp b. r = Inr (resp, b) \<longrightarrow> 0 < get_retry_after resp"
      unfolding timely_def clock [symmetric] by blast+
    show ?thesis
    proof (cases r)
      case (Inl e)
      with p t False show ?thesis by (subst get_loop.simps) simp
    next
      case (Inr answer)
      obtain resp' b where a: "answer = (resp', b)" by (cases answer)
      have i: "0 < get_retry_after resp'" using t(2) Inr a by blast
      show ?thesis
      proof (cases "wr_status resp' = 200")
        case True
        with p t False Inr a show ?thesis by (subst get_loop.simps) simp
      next
        case 2: False
        with False p Inr a have "get_loop get sleep resp timeout h = get_loop get sleep resp' (timeout - ?i) h1"
          by (subst get_loop.simps) simp
        moreover have "nat (timeout - ?i) < nat timeout" using False less.prems by simp
        moreover have "slept h1 + max 0 (timeout - ?i) = slept h + max 0 timeout" using False t(1) less.prems by simp
        ultimately show ?thesis using less.hyps [of "timeout - ?i" resp' h1] i by auto
      qed
    qed
  qed
qed

lemma coord_loops_in_time:
  assumes "timely slept post" and "\<And>c. timely slept (get c)" and "\<And>i h. slept (sleep i h) = slept h + i"
  shows "\<exists>r h'. coord_loops post get sleep timeout h = Some (r, h') \<and> slept h' \<le> slept h + max 0 timeout"
proof -
  obtain r h1 where c: "create_loop post sleep timeout h = Some (r, h1)" "slept h1 \<le> slept h + max 0 timeout"
    "\<forall>resp b left. r = Inr (resp, b, left) \<longrightarrow> 0 < get_retry_after resp \<and> slept h1 + max 0 left = slept h + max 0 timeout"
    using create_loop_in_time [OF assms(1,3)] by blast
  show ?thesis
  proof (cases r)
    case (Inl e)
    with c show ?thesis by (simp add: coord_loops_def)
  next
    case (Inr a)
    obtain resp b left where a: "a = (resp, b, left)" by (cases a)
    show ?thesis
    proof (cases "wr_status resp = 201 \<or> map_of (wr_headers resp) ''Location'' = None")
      case True
      with c Inr a show ?thesis by (auto simp: coord_loops_def)
    next
      case False
      then obtain loc where l: "map_of (wr_headers resp) ''Location'' = Some loc" "wr_status resp \<noteq> 201" by blast
      obtain r2 h2 where "get_loop (get (last (split_char CHR ''/'' loc))) sleep resp left h1 = Some (r2, h2)" "slept h2 \<le> slept h1 + max 0 left"
        using get_loop_in_time [OF assms(2,3)] c(3) Inr a by blast
      with c Inr a l show ?thesis by (auto simp: coord_loops_def)
    qed
  qed
qed

text \<open>
  C33: A coordination always ends, at the latest after the given time, when every answer of the other system asks to wait a positive
  time or leaves the time open: the sum of the pauses is never above the limit.
\<close>

theorem coordination_ends_in_time:
  assumes "\<forall>auth url m kw h resp h'. wb_request wb auth url m kw h = (Inr resp, h') \<longrightarrow> 0 < get_retry_after resp"
    and "\<forall>auth url m kw h. slept (snd (wb_request wb auth url m kw h)) = slept h"
    and "\<forall>i h. slept (wb_sleep wb i h) = slept h + i"
  shows "\<exists>r h'. create_coordination ac wb endpoint authentication coord_request timeout h = Some (r, h') \<and>
    slept h' \<le> slept h + max 0 (coord_timeout timeout)"
proof -
  have timely: "timely slept (web_do_request wb client url m ex ct body ver kw)" for client url m ex ct body ver kw
    unfolding timely_def
  proof (intro allI impI)
    fix h r h' assume "web_do_request wb client url m ex ct body ver kw h = (r, h')"
    from web_do_request_answer [OF this] assms(1,2)
    show "slept h' = slept h \<and> (\<forall>resp b. r = Inr (resp, b) \<longrightarrow> 0 < get_retry_after resp)" by blast
  qed
  have "\<exists>r h'. coord_loops (create_coordination_request wb (new_client handle) endpoint coord_request) (get_coordination wb (new_client handle) endpoint)
      (wb_sleep wb) (coord_timeout timeout) h = Some (r, h') \<and> slept h' \<le> slept h + max 0 (coord_timeout timeout)" for handle
    using assms(3) by (intro coord_loops_in_time) (auto simp: create_coordination_request_def get_coordination_def timely)
  then show ?thesis by (auto simp: create_coordination_def split: sum.splits)
qed

definition ex_web :: "int web" where
  "ex_web = \<lparr>wb_request = (\<lambda>auth url m kw h. (Inr \<lparr>wr_status = 503, wr_headers = [(''Retry-After'', ''7'')], wr_text = []\<rparr>, h)),
     wb_loads = (\<lambda>_. Inr JNull), wb_dumps = (\<lambda>_. []), wb_urlencode = (\<lambda>_. []), wb_sleep = (\<lambda>i h. h + i)\<rparr>"

definition ex_auth_config :: auth_config where
  "ex_auth_config = \<lparr>ac_verify_cert = False, ac_ca_cert_file = [], ac_mtls_ca_cert_file = [], ac_mtls_client_cert_file = [],
     ac_schema = (\<lambda>_. None), ac_fingerprint = (\<lambda>_. Inr [])\<rparr>"

definition ex_basic :: json where
  "ex_basic = JObj [(''authType'', JArr [JStr ''BASIC'']), (''paramsBasic'', JObj [(''userName'', JStr ''u''), (''password'', JStr ''p'')])]"

theorem coordination_ends_in_time_witness:
  "\<exists>r t. create_coordination ex_auth_config ex_web ''e'' ex_basic (JObj []) (JStr ''20'') 0 = Some (r, t) \<and> t \<le> 20"
proof -
  have "get_retry_after \<lparr>wr_status = 503, wr_headers = [(''Retry-After'', ''7'')], wr_text = []\<rparr> = 7" by code_simp
  then have "\<forall>auth url m kw h resp h'. wb_request ex_web auth url m kw h = (Inr resp, h') \<longrightarrow> 0 < get_retry_after resp"
    by (auto simp: ex_web_def)
  moreover have "\<forall>auth url m kw h. id (snd (wb_request ex_web auth url m kw h)) = id h" "\<forall>i h. id (wb_sleep ex_web i h) = id h + i"
    by (auto simp: ex_web_def)
  moreover have "coord_timeout (JStr ''20'') = 20" by code_simp
  ultimately show ?thesis
    using coordination_ends_in_time [of ex_web id ex_auth_config "''e''" ex_basic "JObj []" "JStr ''20''" 0] by simp
qed

text \<open>An answer that allows to ask again at once is asked again for ever, whatever time is given.\<close>

lemma create_loop_forever:
  assumes "\<And>h. \<exists>resp b h'. post h = (Inr (resp, b), h') \<and> wr_status resp \<noteq> 201 \<and> wr_status resp \<noteq> 202 \<and> get_retry_after resp = 0"
    and "0 \<le> timeout"
  shows "create_loop post sleep timeout h = None"
proof (rule ccontr)
  assume "create_loop post sleep timeout h \<noteq> None"
  then obtain x where "create_loop post sleep timeout h = Some x" by blast
  then have "(\<forall>h. \<exists>resp b h'. post h = (Inr (resp, b), h') \<and> wr_status resp \<noteq> 201 \<and> wr_status resp \<noteq> 202 \<and> get_retry_after resp = 0) \<longrightarrow>
    0 \<le> timeout \<longrightarrow> False"
  proof (induction rule: create_loop.raw_induct [rotated -1, consumes 1, case_names step])
    case (step loop post sleep timeout h x)
    show ?case
    proof (intro impI)
      assume a: "\<forall>h. \<exists>resp b h'. post h = (Inr (resp, b), h') \<and> wr_status resp \<noteq> 201 \<and> wr_status resp \<noteq> 202 \<and> get_retry_after resp = 0"
        and t: "0 \<le> timeout"
      then obtain resp b h1 where p: "post h = (Inr (resp, b), h1)" "wr_status resp \<noteq> 201" "wr_status resp \<noteq> 202" "get_retry_after resp = 0" by blast
      with step(2) t have "loop post sleep timeout (sleep 0 h1) = Some x" by simp
      from step(1) [OF this] a t show False by blast
    qed
  qed
  with assms show False by blast
qed

text \<open>
  An accepted authentication leads to a handle of the strongest of its types, and an empty list of types, which the check accepts too,
  to none.
\<close>

lemma accepted_auth_has_handle:
  assumes "check_subsc_auth ac auth_req v = Inr ()" and "jitem auth_req ''authType'' = Inr (JArr tys)"
    and "set tys \<subseteq> {JStr ''BASIC'', JStr ''OAUTH2_CLIENT_CREDENTIALS''}" and "tys \<noteq> []"
    and "\<forall>k \<in> {''paramsBasic'', ''paramsOauth2ClientCredentials''}. \<forall>j. jget auth_req k JNull = Inr j \<longrightarrow> j = JNull \<or> (\<exists>d. j = JObj d)"
  shows "\<exists>handle. get_http_auth_handle ac auth_req = Inr (Some handle) \<and>
    (if JStr ''OAUTH2_CLIENT_CREDENTIALS'' \<in> set tys then \<exists>ep c p v. handle = OAuth2AuthHandle ep c p v
     else \<exists>u p v. handle = BasicAuthHandle u p v)"
proof -
  obtain d where d: "auth_req = JObj d" using assms(2) by (cases auth_req) auto
  show ?thesis
  proof (cases "JStr ''OAUTH2_CLIENT_CREDENTIALS'' \<in> set tys")
    case True
    have "\<exists>p. jget auth_req ''paramsOauth2ClientCredentials'' JNull = Inr p \<and> p \<noteq> JNull"
      using assms(1,2) True by (auto simp: check_subsc_auth_def check_auth_type_def auth_needed_def bindE_eq_Inr split: if_splits)
    then obtain e where "jget auth_req ''paramsOauth2ClientCredentials'' JNull = Inr (JObj e)" using assms(5) by fastforce
    then show ?thesis using assms(2,3) True d by (auto simp: get_http_auth_handle_def)
  next
    case False
    then have b: "JStr ''BASIC'' \<in> set tys" using assms(3,4) by (cases tys) auto
    have "\<exists>p. jget auth_req ''paramsBasic'' JNull = Inr p \<and> p \<noteq> JNull"
      using assms(1,2) b by (auto simp: check_subsc_auth_def check_auth_type_def auth_needed_def bindE_eq_Inr split: if_splits)
    then obtain e where "jget auth_req ''paramsBasic'' JNull = Inr (JObj e)" using assms(5) by fastforce
    then show ?thesis using assms(2,3) False b d by (auto simp: get_http_auth_handle_def)
  qed
qed

lemma empty_auth_type_without_handle:
  "check_subsc_auth ac (JObj [(''authType'', JArr [])]) False = Inr () \<and> get_http_auth_handle ac (JObj [(''authType'', JArr [])]) = Inr None"
  by (simp add: check_subsc_auth_def check_auth_type_def get_http_auth_handle_def)

end
