(* ===== verification/Spec2Isabelle.thy ===== *)
theory Spec2Isabelle
  imports Heat_Props Heat_Retry Heat_Client Userdata_Props K8s_Props Api_Props View Auto_Timer Perf_Reports Versioned Api_Front_Props Notify_Props Coord_Client
begin

text \<open>
  \<^bold>\<open>The VNF manager of Tacker (version 2 API), src/tacker/sol\_refactored.\<close>

  \<^bold>\<open>The program.\<close> Tacker manages the life cycle of virtual network functions. A request reaches the
  controller of the API server (\<^verbatim>\<open>controller/vnflcm_v2.py\<close>), which checks it, stores an operation
  occurrence and casts a message. The conductor (\<^verbatim>\<open>conductor/conductor_v2.py\<close>) takes the message, asks
  the NFVO for a grant, runs the driver (\<^verbatim>\<open>conductor/vnflcm_driver_v2.py\<close>) and moves the occurrence
  through its states, with notifications to subscribers. Beside it the conductor stores alarms, and
  starts heal and scale operations by itself, from timers and from alerts of Prometheus. Measurements
  come as alerts too: jobs and thresholds are made into alert rules on the Prometheus servers.

  \<^bold>\<open>How it is modelled.\<close> A call that may raise is a value of \<open>exn + 'a\<close>; stateful code is a function from
  a state to a result and a state, and a state that was changed before an exception stays changed
  (Prelude). The database, the messages and the notifications are the record \<open>world\<close>; everything
  outside of the repository or behind I/O is a field of the record \<open>env\<close> (World): infra drivers,
  management scripts, the external NFVO, Glance, the VIM database, the clock, generated identifiers, the
  policy engine and the outcome of taking a lock. No property assumes more of them than it states,
  and \<open>vnfm_step\<close> lets them answer differently at every step.

  \<^bold>\<open>The theories\<close>, with the files under src/tacker/sol\_refactored they model.

  \<^item> Prelude, Json, Sol\_Exceptions (\<^verbatim>\<open>common/exceptions.py\<close>), Sol\_Objects (\<^verbatim>\<open>objects/v1\<close>, \<^verbatim>\<open>objects/v2\<close>):
    the language, JSON values with the merge patch, errors, and versioned objects as records.
  \<^item> World (\<^verbatim>\<open>objects/base.py\<close>): tables. The locale \<open>row_store\<close> holds the laws of a table and is
    interpreted for every table of the database.
  \<^item> Vnfd (\<^verbatim>\<open>common/vnfd_utils.py\<close>), Inst\_Utils (\<^verbatim>\<open>common/vnf_instance_utils.py\<close>, \<^verbatim>\<open>common/vim_utils.py\<close>),
    Subscription (\<^verbatim>\<open>common/subscription_utils.py\<close>), Lcm\_Op\_Occ (\<^verbatim>\<open>common/lcm_op_occ_utils.py\<close>), Nfvo
    (\<^verbatim>\<open>nfvo/nfvo_client.py\<close>, \<^verbatim>\<open>nfvo/local_nfvo.py\<close>): the functions the two servers share.
  \<^item> Grant\_Request, Lcm\_Driver: the driver, split into the requests for a grant and what runs after
    it. Grant\_Props and Driver\_Props hold their lemmas; the locale \<open>mem_frame\<close> of Driver\_Props states
    what the driver leaves alone in memory.
  \<^item> Conductor, Controller, Lcm\_Auto (\<^verbatim>\<open>conductor/vnflcm_auto.py\<close>): the operations that change state.
  \<^item> Lcm\_Spec: the specification, the state machine of SOL003 with what a transition may do to the
    tables. Conductor\_Refine: each operation of the conductor is a sequence of its transitions.
    Vnfm\_System: requests, messages, lost messages, restarts, synchronisation and automatic operations
    in any order; every step refines the specification and keeps the invariant.
  \<^item> Api\_Props: what an accepted and a refused request change. View\_Filter, View
    (\<^verbatim>\<open>controller/vnflcm_view.py\<close>): filters, attribute selectors, pages and bodies of the list requests.
  \<^item> Auto\_Timer (\<^verbatim>\<open>conductor/server_notification_driver.py\<close>, \<^verbatim>\<open>conductor/prometheus_plugin_driver.py\<close>): the
    timers as interleaving threads. The locale \<open>heal_queue\<close> is their queue, interpreted for both drivers.
  \<^item> Fault\_Mgmt (\<^verbatim>\<open>controller/vnffm_v1.py\<close>, \<^verbatim>\<open>conductor/vnffm_driver_v1.py\<close>, \<^verbatim>\<open>common/fm_*.py\<close>) and Auto\_Alert: alarms,
    and the alerts of \<^verbatim>\<open>common/prometheus_plugin.py\<close> for alarms, healing and scaling.
  \<^item> Perf\_Objects (\<^verbatim>\<open>objects/v2/pm_*.py\<close>, \<^verbatim>\<open>common/pm_*.py\<close>), Perf\_Rules, Perf\_Mgmt (\<^verbatim>\<open>controller/vnfpm_v2.py\<close>),
    Perf\_Alert (\<^verbatim>\<open>conductor/vnfpm_driver_v2.py\<close>) with the classes for measurements of
    \<^verbatim>\<open>common/prometheus_plugin.py\<close>: performance management, on a state \<open>pm_db\<close> and an environment \<open>pm_env\<close> of
    its own. Perf\_Props and Perf\_Reports hold the properties.
  \<^item> Heat\_Info and Heat\_Driver (\<^verbatim>\<open>infra_drivers/openstack/openstack.py\<close>, \<^verbatim>\<open>heat_utils.py\<close>): the driver for
    OpenStack, split into what it records about a stack and its operations. Heat and Nova are a state
    of any type with the calls to them as functions (\<open>heat_ops\<close>). Heat\_Props and Heat\_Retry hold the
    properties.
  \<^item> Hot\_Params (\<^verbatim>\<open>common/common_script_utils.py\<close>), Userdata (\<^verbatim>\<open>userdata_default.py\<close>), Userdata\_Standard
    (\<^verbatim>\<open>userdata_standard.py\<close>): the classes that make the template and the parameters for Heat. Userdata\_Props
    follows a scale through the grant request, the user data and the recorded information.
  \<^item> Heat\_Client (\<^verbatim>\<open>common/http_client.py\<close>, \<^verbatim>\<open>heat_utils.py\<close>, \<^verbatim>\<open>nova_utils.py\<close>): the clients behind \<open>heat_ops\<close>, on a
    session (\<open>heat_http\<close>), with the loops that wait for Heat.
  \<^item> K8s\_Resource, K8s\_Manifest (\<^verbatim>\<open>kubernetes_resource.py\<close>, \<^verbatim>\<open>kubernetes_utils.py\<close>), K8s\_Driver
    (\<^verbatim>\<open>kubernetes_common.py\<close>, \<^verbatim>\<open>kubernetes.py\<close>), Helm\_Driver (\<^verbatim>\<open>helm.py\<close>, \<^verbatim>\<open>helm_utils.py\<close>): the drivers for
    containers, on a cluster of any type with its API (\<open>k8s_api\<close>) or the command line of Helm (\<open>helm_env\<close>) as
    functions. K8s\_Props holds the properties.
  \<^item> Api\_Front (\<^verbatim>\<open>api/api_version.py\<close>, \<^verbatim>\<open>api/wsgi.py\<close>, \<^verbatim>\<open>api/router.py\<close>, \<^verbatim>\<open>api/validator.py\<close>, the controllers of the
    plugins): what a request passes before its handler, and how it is answered, for handlers on a state of any type. Versions are
    an instance of the class of linear orders. Api\_Front\_Props holds the properties.
  \<^item> Server\_Notify (\<^verbatim>\<open>mgmt_drivers/server_notification.py\<close>, \<^verbatim>\<open>common/server_notification.py\<close>): the management script that
    registers alarms at a monitoring server and the plugin that is notified, on the client of Heat\_Client. Notify\_Props
    follows an alarm from its registration to the heal, and to its removal in a rollback.
  \<^item> Coord\_Client (\<^verbatim>\<open>common/http_client.py\<close>, \<^verbatim>\<open>common/common_script_utils.py\<close>, \<^verbatim>\<open>common/coord_client.py\<close>): the
    choice of an authentication, requests, and the coordination of an operation with its loops.
  \<^item> Versioned (\<^verbatim>\<open>objects/base.py\<close>): the conversion of an object of any class to a dictionary and to a row.
  \<^item> Example\_Data, Example\_Run: a package, an instance and a history on which witnesses are evaluated.

  \<^bold>\<open>What is shown.\<close> Of the whole system (this theory): the state machine is followed in every history,
  grants are stored exactly while they are needed, each conductor operation ends in the states it
  should, and the repair at start-up leaves no operation interrupted. Of the driver: the grant requests
  ask for what the VNFD's deltas say, and a scale moves the level as requested. Of the API: accepted
  requests have exactly one effect, refused ones none; lists are complete and hide credentials. Of the
  utilities: merge patch, matching of subscriptions, resource changes and the caches. Of alarms and
  timers: one open alarm per fingerprint, one heal per timer, and no automatic operation without a
  cause. Of measurements: a threshold announces the zones that are entered, the alert of a rule is
  accepted, and the links of a job are its reports. Of the OpenStack driver: the recorded
  information is that of the stack, a scale in removes the youngest servers, and retries avoid the zones
  that failed; the standard user data gives new servers new names and keeps the indices of a VDU without
  gaps; an operation on a stack succeeds only after Heat has reported its end. Of the drivers for containers: the
  manifests end up in one namespace with the label of the instance, the recorded VNFCs are the running Pods, a scale asks for
  the granted number, and a synchronised scale level fits the number of Pods. Of the front of the
  server: only a request that passed every check reaches a handler, and an error of the interface is answered with its status. Of
  the monitoring server: an alarm heals exactly its VNFCs, and the rollback asks to delete every alarm. Of objects: what is written is read back, and what
  is read has the declared types. Some properties describe inputs on which the code does not do what it means to; their text
  says so.

  \<^bold>\<open>Loops and bounds.\<close> Loops over lists are structural recursion. The thread of a timer ends by a measure
  on its program counter. A client that follows the pages of a list (\<open>follow\<close>) may never end, so it has
  a number of requests as fuel, and \<open>paging_complete\<close> shows that some number is enough. The loop that waits
  for a stack may run for ever (\<open>looping_call\<close>, a partial function); \<open>waiting_decided_by_first_answer\<close> says when it
  ends. The loops of a coordination (\<open>create_loop\<close>, \<open>get_loop\<close>) are partial functions too: \<open>coordination_ends_in_time\<close> shows that they
  end when every answer asks for a pause, \<open>create_loop_forever\<close> that they need not otherwise. The loops that wait for a cluster look at most \<open>ka_looks\<close> times and then raise the error of the timeout, as the
  code does. Python
  integers are unbounded and stay \<open>int\<close> or \<open>nat\<close>.

  \<^bold>\<open>Granularity.\<close> A request, and a message at the conductor, runs to its end before the next step of
  \<open>vnfm_step\<close>; the lock may be refused at any call. Only the timers are modelled at the granularity of
  single accesses.

  \<^bold>\<open>Not modelled.\<close> The driver for Terraform, and the credentials of the clients for
  Kubernetes. User data scripts of a package (their result is a parameter). The conductor calls a driver through the
  parameter \<open>ev_infra\<close>, so its properties hold for every driver. Reading packages and files, the sessions of
  keystoneauth, the negotiation of media types, the contents of schemas and policies, and the encryption of credentials: glue
  and I/O. The list and show requests of alarms and measurements. The older API
  (\<^verbatim>\<open>tacker/api\<close>, \<^verbatim>\<open>tacker/conductor\<close>, \<^verbatim>\<open>tacker/vnfm\<close>), a separate implementation of the same service.
\<close>

section \<open>Properties of the VNFM\<close>

subsection \<open>The life of an operation occurrence\<close>

lemma reachable_inv: "vnfm_steps (initial_world subscs pkgs) w \<Longrightarrow> vnfm_inv w"
  using vnfm_steps_safe initial_inv by blast

lemma reachable_tabs:
  "vnfm_steps (initial_world subscs pkgs) w \<Longrightarrow> vnfm_steps w w' \<Longrightarrow> sys_steps (tabs w) (tabs w')"
  using vnfm_steps_safe reachable_inv by blast

text \<open>
  C1: In every history of the VNFM an operation occurrence that is stored stays stored, keeps
  its operation, its VNF instance and its start time, and its state only moves along the edges
  of the state machine of SOL003; once COMPLETED, FAILED or ROLLED_BACK it never changes.
\<close>

theorem occurrence_follows_state_machine:
  assumes "vnfm_steps (initial_world subscs pkgs) w" and "vnfm_steps w w'"
    and "row_find oc_id (w_occs w) i = Some l"
  shows "\<exists>l'. row_find oc_id (w_occs w') i = Some l' \<and> oc_operation l' = oc_operation l \<and>
    oc_vnfInstanceId l' = oc_vnfInstanceId l \<and> oc_startTime l' = oc_startTime l \<and>
    occ_edge\<^sup>*\<^sup>* (oc_operationState l) (oc_operationState l') \<and>
    (final_state (oc_operationState l) \<longrightarrow> oc_operationState l' = oc_operationState l)"
proof -
  have "evolves (w_occs w) (w_occs w')"
    using sys_steps_evolve [OF reachable_tabs [OF assms(1,2)]] by (simp add: tabs_occs)
  with assms(3) final_no_edge show ?thesis unfolding evolves_def by blast
qed

theorem occurrence_follows_state_machine_witness:
  "\<exists>l l'. row_find oc_id (w_occs ex_w2) ''u'' = Some l \<and> oc_operationState l = STARTING \<and>
    row_find oc_id (w_occs ex_w3) ''u'' = Some l' \<and> occ_edge\<^sup>*\<^sup>* STARTING (oc_operationState l')"
proof -
  obtain l where "row_find oc_id (w_occs ex_w2) ''u'' = Some l" "oc_operationState l = STARTING"
    using ex_starting by blast
  with occurrence_follows_state_machine [OF ex_reach2 ex_reach3(2)] show ?thesis by metis
qed

lemma saved_grant_found:
  assumes "vnfm_inv w" and "row_find oc_id (w_occs w) i = Some l" and "grants_needed l"
  shows "\<exists>q g. get_grant_req_and_grant l w = (Inr (Some (q, g)), w) \<and> gq_vnfLcmOpOccId q = i \<and> oc_grantId l = Some (gr_id g)"
proof -
  have i: "oc_id l = i" using assms(2) by (rule occs.lookup_key)
  obtain gid g where g: "oc_grantId l = Some gid" "row_find gr_id (w_grants w) gid = Some g"
    using assms by (auto simp: vnfm_inv_def grants_held_def tabs_def) blast
  have "length (filter (\<lambda>q. gq_vnfLcmOpOccId q = i) (w_grant_reqs w)) = 1"
    using assms by (auto simp: vnfm_inv_def grants_inv_def tabs_def saved_reqs_def)
  then obtain q where q: "filter (\<lambda>q. gq_vnfLcmOpOccId q = i) (w_grant_reqs w) = [q]"
    by (cases "filter (\<lambda>q. gq_vnfLcmOpOccId q = i) (w_grant_reqs w)") auto
  then have "gq_vnfLcmOpOccId q = i" by (auto simp: filter_eq_Cons_iff)
  moreover have "get_grant_req_and_grant l w = (Inr (Some (q, g)), w)"
    using assms(3) g q i by (auto simp: get_grant_req_and_grant_def grants_needed_def row_filter_def attr_def)
  ultimately show ?thesis using g grants.lookup_key [OF g(2)] by auto
qed

text \<open>
  C2: In every reachable world the grant request of an occurrence is stored exactly while the
  occurrence may still be processed, retried or rolled back (PROCESSING, FAILED_TEMP or
  ROLLING_BACK; a MODIFY_INFO never has one), and then both the request and the grant that
  belong to it are found again.
\<close>

theorem grants_kept_while_needed:
  assumes "vnfm_steps (initial_world subscs pkgs) w" and "row_find oc_id (w_occs w) i = Some l"
  shows "length (filter (\<lambda>q. gq_vnfLcmOpOccId q = i) (w_grant_reqs w)) = (if grants_needed l then 1 else 0) \<and>
    (grants_needed l \<longrightarrow> (\<exists>q g. get_grant_req_and_grant l w = (Inr (Some (q, g)), w) \<and>
       gq_vnfLcmOpOccId q = i \<and> oc_grantId l = Some (gr_id g)))"
proof -
  have "vnfm_inv w" using assms(1) by (rule reachable_inv)
  with saved_grant_found [OF this assms(2)] assms(2) show ?thesis
    by (auto simp: vnfm_inv_def grants_inv_def tabs_def saved_reqs_def)
qed

theorem grants_kept_while_needed_witness:
  "\<exists>l. row_find oc_id (w_occs ex_w3) ''u'' = Some l \<and> grants_needed l \<and>
    length (filter (\<lambda>q. gq_vnfLcmOpOccId q = ''u'') (w_grant_reqs ex_w3)) = 1"
proof -
  obtain l where l: "row_find oc_id (w_occs ex_w3) ''u'' = Some l" using ex_failed by blast
  have "map_option grants_needed (row_find oc_id (w_occs ex_w3) ''u'') = Some True" by code_simp
  with l grants_kept_while_needed [OF ex_reach3(1) l] show ?thesis by simp
qed

lemma refined_insts:
  assumes "row_find oc_id (w_occs w) i = Some l" and "refines J l c Q" and "c w = (Inr x, w')"
    and "\<And>l. J l \<Longrightarrow> final_state (oc_operationState l)"
  shows "\<exists>l'. row_find oc_id (w_occs w') i = Some l' \<and> Q x l' \<and> oc_operation l' = oc_operation l \<and>
    (w_insts w' = w_insts w \<or> J l')"
proof -
  obtain l' where l': "(lcm_stepJ J)\<^sup>*\<^sup>* (l, tabs w) (l', tabs w')" "row_find oc_id (w_occs w') i = Some l'" "Q x l'"
    using occ_program [OF assms(1-3)] by blast
  have "w_insts w' = w_insts w \<or> J l'"
    using lcm_stepsJ_insts [OF l'(1) assms(4)] by (simp add: tabs_def)
  moreover have "oc_operation l' = oc_operation l"
    using lcm_steps_sys [OF lcm_stepsJ_steps [OF l'(1), unfolded tabs_def]] assms(1) occs.lookup_key [OF assms(1)] by auto
  ultimately show ?thesis using l' by blast
qed

lemma completed_final: "completed l \<Longrightarrow> final_state (oc_operationState l)"
  by (simp add: completed_def final_state_def)

lemma rolled_back_final: "rolled_back_inst l \<Longrightarrow> final_state (oc_operationState l)"
  by (simp add: rolled_back_inst_def final_state_def)

lemma get_lcmocc_run: "row_find oc_id (w_occs w) i = Some l \<Longrightarrow> bindS (get_lcmocc i) c w = c l w"
  by (simp add: bindS_def get_lcmocc_def)

text \<open>
  C3: When the conductor has handled a start request for an occurrence in STARTING, the
  occurrence is ROLLED_BACK with the error recorded (the grant was refused or the preparation
  failed), COMPLETED, or FAILED_TEMP with the error recorded; unless it is COMPLETED, no row of
  the VNF instance table has changed.
\<close>

theorem start_lcm_op_ends:
  assumes "start_lcm_op env i w = (Inr (), w')" and "row_find oc_id (w_occs w) i = Some l"
    and "oc_operationState l = STARTING"
  shows "\<exists>l'. row_find oc_id (w_occs w') i = Some l' \<and>
    oc_operationState l' \<in> {ROLLED_BACK, COMPLETED, FAILED_TEMP} \<and>
    (oc_operationState l' \<noteq> COMPLETED \<longrightarrow> w_insts w' = w_insts w \<and> oc_error l' \<noteq> None)"
proof -
  have "start_lcm_op_internal env l w = (Inr (), w')"
    using assms(1,2) by (simp add: start_lcm_op_def get_lcmocc_run)
  from refined_insts [OF assms(2) start_refines this completed_final] assms(3) show ?thesis
    by (auto simp: start_end_def processed_def completed_def)
qed

theorem start_lcm_op_ends_witness:
  "\<exists>w l. start_lcm_op ex_bad_env ''u'' ex_w2 = (Inr (), w) \<and> row_find oc_id (w_occs w) ''u'' = Some l \<and>
    oc_operationState l \<in> {ROLLED_BACK, COMPLETED, FAILED_TEMP}"
proof -
  have "\<exists>w. start_lcm_op ex_bad_env ''u'' ex_w2 = (Inr (), w)" by (rule returns_unit) code_simp
  then obtain w where w: "start_lcm_op ex_bad_env ''u'' ex_w2 = (Inr (), w)" by blast
  with ex_starting start_lcm_op_ends [OF w] show ?thesis by metis
qed

text \<open>
  C4: A retry that has been handled leaves the occurrence COMPLETED with its error cleared, or
  FAILED_TEMP with an error recorded and every row of the VNF instance table as it was.
\<close>

theorem retry_lcm_op_ends:
  assumes "retry_lcm_op env i w = (Inr (), w')" and "row_find oc_id (w_occs w) i = Some l"
    and "oc_operationState l = FAILED_TEMP"
  shows "\<exists>l'. row_find oc_id (w_occs w') i = Some l' \<and>
    (oc_operationState l' = COMPLETED \<and> oc_error l' = None \<or>
     oc_operationState l' = FAILED_TEMP \<and> oc_error l' \<noteq> None \<and> w_insts w' = w_insts w)"
proof -
  have "retry_lcm_op_internal env l w = (Inr (), w')"
    using assms(1,2) by (simp add: retry_lcm_op_def get_lcmocc_run)
  from refined_insts [OF assms(2) retry_refines this completed_final] assms(3) show ?thesis
    by (auto simp: processed_def completed_def clear_error_def)
qed

theorem retry_lcm_op_ends_witness:
  "\<exists>w l. retry_lcm_op ex_env ''u'' ex_w3 = (Inr (), w) \<and> row_find oc_id (w_occs w) ''u'' = Some l \<and>
    (oc_operationState l = COMPLETED \<and> oc_error l = None \<or> oc_operationState l = FAILED_TEMP \<and> oc_error l \<noteq> None)"
proof -
  have "\<exists>w. retry_lcm_op ex_env ''u'' ex_w3 = (Inr (), w)" by (rule returns_unit) code_simp
  then obtain w where w: "retry_lcm_op ex_env ''u'' ex_w3 = (Inr (), w)" by blast
  with ex_failed retry_lcm_op_ends [OF w] show ?thesis by metis
qed

text \<open>
  C5: A rollback that has been handled leaves the occurrence ROLLED_BACK, or FAILED_TEMP with an
  error recorded; a row of the VNF instance table changes only when the rollback succeeded and
  the operation was CHANGE_EXT_CONN or CHANGE_VNFPKG.
\<close>

theorem rollback_lcm_op_ends:
  assumes "rollback_lcm_op env i w = (Inr (), w')" and "row_find oc_id (w_occs w) i = Some l"
    and "oc_operationState l = FAILED_TEMP"
  shows "\<exists>l'. row_find oc_id (w_occs w') i = Some l' \<and>
    (oc_operationState l' = ROLLED_BACK \<or> oc_operationState l' = FAILED_TEMP \<and> oc_error l' \<noteq> None) \<and>
    (w_insts w' \<noteq> w_insts w \<longrightarrow>
       oc_operationState l' = ROLLED_BACK \<and> oc_operation l \<in> {CHANGE_EXT_CONN, CHANGE_VNFPKG})"
proof -
  have "rollback_lcm_op_internal env l w = (Inr (), w')"
    using assms(1,2) by (simp add: rollback_lcm_op_def get_lcmocc_run)
  from refined_insts [OF assms(2) rollback_refines this rolled_back_final] assms(3) show ?thesis
    by (auto simp: rollback_end_def rolled_back_inst_def rollback_updates_inst_def)
qed

theorem rollback_lcm_op_ends_witness:
  "\<exists>w. rollback_lcm_op ex_env ''u'' ex_w3 = (Inr (), w) \<and>
    (\<exists>l. row_find oc_id (w_occs w) ''u'' = Some l \<and> oc_operationState l \<in> {ROLLED_BACK, FAILED_TEMP})"
proof -
  have "\<exists>w. rollback_lcm_op ex_env ''u'' ex_w3 = (Inr (), w)" by (rule returns_unit) code_simp
  then obtain w where w: "rollback_lcm_op ex_env ''u'' ex_w3 = (Inr (), w)" by blast
  with ex_failed rollback_lcm_op_ends [OF w] show ?thesis by blast
qed

text \<open>
  C6: A modification that has been handled leaves its MODIFY_INFO occurrence COMPLETED, or
  FAILED_TEMP with an error recorded and every row of the VNF instance table as it was.
\<close>

theorem modify_vnfinfo_ends:
  assumes "modify_vnfinfo env i w = (Inr (), w')" and "row_find oc_id (w_occs w) i = Some l"
    and "oc_operationState l = PROCESSING" and "oc_operation l = MODIFY_INFO"
  shows "\<exists>l'. row_find oc_id (w_occs w') i = Some l' \<and>
    (oc_operationState l' = COMPLETED \<or>
     oc_operationState l' = FAILED_TEMP \<and> oc_error l' \<noteq> None \<and> w_insts w' = w_insts w)"
proof -
  have "modify_vnfinfo_internal env l w = (Inr (), w')"
    using assms(1,2) by (simp add: modify_vnfinfo_def get_lcmocc_run)
  from refined_insts [OF assms(2) modify_refines [OF assms(4)] this completed_final] assms(3) show ?thesis
    by (auto simp: processed_def completed_def)
qed

theorem modify_vnfinfo_ends_witness:
  "\<exists>w. modify_vnfinfo ex_env ''u'' ex_m2 = (Inr (), w) \<and>
    (\<exists>l. row_find oc_id (w_occs w) ''u'' = Some l \<and> oc_operationState l \<in> {COMPLETED, FAILED_TEMP})"
proof -
  have "\<exists>w. modify_vnfinfo ex_env ''u'' ex_m2 = (Inr (), w)" by (rule returns_unit) code_simp
  then obtain w where w: "modify_vnfinfo ex_env ''u'' ex_m2 = (Inr (), w)" by blast
  with ex_modifying modify_vnfinfo_ends [OF w] show ?thesis by blast
qed

text \<open>
  C7: When a restarted conductor has repaired the interrupted operations, no occurrence is left
  in STARTING, PROCESSING or ROLLING_BACK.
\<close>

theorem restart_repairs_interrupted:
  assumes "vnfm_steps (initial_world subscs pkgs) w" and "change_lcm_op_state env (forget w) = (Inr (), w')"
  shows "\<forall>l \<in> set (w_occs w'). oc_operationState l \<notin> {STARTING, PROCESSING, ROLLING_BACK}"
proof -
  have "occ_states w' \<inter> {STARTING, PROCESSING, ROLLING_BACK} = {}"
    using restart_safe [OF assms(2) reachable_inv [OF assms(1)]] by simp
  then show ?thesis unfolding occ_states_def by blast
qed

theorem restart_repairs_interrupted_witness:
  "\<exists>w. change_lcm_op_state ex_env (forget ex_w2) = (Inr (), w) \<and>
    (\<forall>l \<in> set (w_occs w). oc_operationState l \<noteq> STARTING)"
proof -
  have "\<exists>w. change_lcm_op_state ex_env (forget ex_w2) = (Inr (), w)" by (rule returns_unit) code_simp
  then obtain w where w: "change_lcm_op_state ex_env (forget ex_w2) = (Inr (), w)" by blast
  with restart_repairs_interrupted [OF ex_reach2 w] show ?thesis by blast
qed

end
